(* ===== verification/Otr_Prelude.thy ===== *)
theory Otr_Prelude
  imports Main "HOL-Library.Word"
begin

text \<open>
  Shared vocabulary of the development: machine types, byte buffers, the result type of the
  fallible operations, the named theorem collections the components add to, and the generic
  facts on lists and words the component proofs use.  The C library works on raw buffers given
  by a pointer and a length; a buffer is modelled by the list of its bytes, so that its length
  is the length of the list, and advancing a cursor by \<open>n\<close> is \<^term>\<open>drop n\<close>.
\<close>

unbundle bit_operations_syntax

type_synonym byte = "8 word"
type_synonym bytes = "byte list"
type_synonym u16 = "16 word"
type_synonym u32 = "32 word"
type_synonym u64 = "64 word"

text \<open>
  The result of an operation that returns \<open>otrng_result\<close> and writes its outputs through
  pointers: \<open>None\<close> for \<open>OTRNG_ERROR\<close>, \<open>Some\<close> of the outputs for \<open>OTRNG_SUCCESS\<close>.
  A parser returns its value together with the number of bytes it read (\<open>*nread\<close>).
\<close>

type_synonym 'a parsed = "('a \<times> nat) option"

text \<open>
  Where an operation can also touch memory it must not, there are three outcomes: \<open>None\<close> is such a
  fault, \<open>Some None\<close> an error that is reported, \<open>Some (Some x)\<close> a success.
\<close>

type_synonym 'a outcome = "'a option option"

definition attempt :: "'a outcome \<Rightarrow> ('a \<Rightarrow> 'b outcome) \<Rightarrow> 'b outcome" where
  "attempt r f = (case r of None \<Rightarrow> None | Some None \<Rightarrow> Some None | Some (Some x) \<Rightarrow> f x)"

lemma attempt_simps [simp]:
  "attempt None f = None" "attempt (Some None) f = Some None" "attempt (Some (Some x)) f = f x"
  by (simp_all add: attempt_def)

text \<open>Writing a block of bytes into a buffer with \<open>room\<close> for so many bytes.\<close>

definition into_buffer :: "nat \<Rightarrow> bytes \<Rightarrow> bytes option" where
  "into_buffer room bs = (if room < length bs then None else Some bs)"

lemma into_buffer_simps [simp]:
  "length bs \<le> room \<Longrightarrow> into_buffer room bs = Some bs" "room < length bs \<Longrightarrow> into_buffer room bs = None"
  by (simp_all add: into_buffer_def)

named_theorems wire_defs \<open>definitions of the serializers and deserializers\<close>
named_theorems wire_lengths \<open>how many bytes a serializer writes\<close>
named_theorems wire_roundtrip \<open>a deserializer reads back what its serializer wrote\<close>
named_theorems const_defs \<open>the constants of the headers\<close>

subsection \<open>Generic facts on lists\<close>

lemma drop_append_length [simp]: "drop (length xs) (xs @ ys) = ys"
  by simp

lemma take_append_length [simp]: "take (length xs) (xs @ ys) = xs"
  by simp

lemma append_eq_same_length:
  "length xs = length xs' \<Longrightarrow> xs @ ys = xs' @ ys' \<longleftrightarrow> xs = xs' \<and> ys = ys'"
  by simp

lemma replicate_eq_iff_nth:
  "xs = replicate (length xs) x \<longleftrightarrow> (\<forall>i < length xs. xs ! i = x)"
  by (auto simp: list_eq_iff_nth_eq)

lemma list_of_length_4:
  assumes "4 \<le> length xs"
  obtains a b c d r where "xs = a # b # c # d # r"
  using assms by (auto simp: numeral_eq_Suc Suc_le_length_iff)

lemma list_of_length_2:
  assumes "2 \<le> length xs"
  obtains a b r where "xs = a # b # r"
  using assms by (auto simp: numeral_eq_Suc Suc_le_length_iff)

subsection \<open>C strings\<close>

text \<open>
  \<open>util.c\<close>, \<open>otrng_is_empty_array\<close>: the loop returns false at the first non-zero byte of the
  first \<open>buf_len\<close> bytes.
\<close>

fun is_empty_from :: "bytes \<Rightarrow> bool" where
  "is_empty_from [] = True"
| "is_empty_from (b # bs) = (if b \<noteq> 0 then False else is_empty_from bs)"

definition otrng_is_empty_array :: "bytes \<Rightarrow> nat \<Rightarrow> bool" where
  "otrng_is_empty_array buf buf_len = is_empty_from (take buf_len buf)"

lemma is_empty_from_iff: "is_empty_from bs \<longleftrightarrow> bs = replicate (length bs) 0"
  by (induction bs) auto

lemma otrng_is_empty_array_iff:
  "length buf = n \<Longrightarrow> otrng_is_empty_array buf n \<longleftrightarrow> buf = replicate n 0"
  by (auto simp: otrng_is_empty_array_def is_empty_from_iff)

subsection \<open>Machines and their invariants\<close>

text \<open>
  A component whose state changes one call at a time: the states it can start in, its step relation
  and an invariant that holds initially and that every step keeps.
\<close>

locale invariant_machine =
  fixes init :: "'s \<Rightarrow> bool" and step :: "'s \<Rightarrow> 's \<Rightarrow> bool" and inv :: "'s \<Rightarrow> bool"
  assumes inv_init: "init s \<Longrightarrow> inv s"
    and inv_step: "step s s' \<Longrightarrow> inv s \<Longrightarrow> inv s'"
begin

lemma reachable_inv:
  assumes "init s" "step\<^sup>*\<^sup>* s s'"
  shows "inv s'"
  using assms(2) by (induction) (auto intro: inv_init[OF assms(1)] inv_step)

end

end
