(* ===== verification/Crypto_Env.thy ===== *)
theory Crypto_Env
  imports Otr_Prelude "HOL-Library.Monad_Syntax"
begin

text \<open>
  The cryptographic environment.  The library calls four packages whose code is not in the
  repository: libgoldilocks (the Ed448 group, its scalars, EdDSA and SHAKE-256), libgcrypt (big
  integers), libsodium (the stream cipher) and libotr (DSA signatures and the transport encoding).  Their functions are the fields of the record
  \<open>crypto_ops\<close>, a parameter of every definition that calls them; what the library relies on is
  stated by the predicates \<open>goldilocks_ok\<close>, \<open>sponge_ok\<close>, \<open>gcrypt_ok\<close>, \<open>stream_ok\<close>, \<open>eddsa_ok\<close> and
  \<open>encoding_ok\<close>, which
  read the opaque values through the interpretation functions of the record \<open>crypto_sem\<close> and
  appear as hypotheses of the theorems that need them.  On top of the parameters this theory
  models \<open>shake.c\<close>, \<open>ed448.c\<close>, \<open>dh.c\<close> and the scalar generation of \<open>random.h\<close>.
\<close>

subsection \<open>The packages as parameters\<close>

record ('p, 's, 'm, 'h) crypto_ops =
  point_base :: 'p
  point_add :: "'p \<Rightarrow> 'p \<Rightarrow> 'p"
  point_sub :: "'p \<Rightarrow> 'p \<Rightarrow> 'p"
  point_scalarmul :: "'p \<Rightarrow> 's \<Rightarrow> 'p"
  point_eq :: "'p \<Rightarrow> 'p \<Rightarrow> bool"
  point_valid :: "'p \<Rightarrow> bool"
  point_encode_like_eddsa :: "'p \<Rightarrow> bytes"
  point_decode_like_eddsa :: "bytes \<Rightarrow> 'p option"
  scalar_one :: 's
  scalar_add :: "'s \<Rightarrow> 's \<Rightarrow> 's"
  scalar_sub :: "'s \<Rightarrow> 's \<Rightarrow> 's"
  scalar_mul :: "'s \<Rightarrow> 's \<Rightarrow> 's"
  scalar_halve :: "'s \<Rightarrow> 's"
  scalar_eq :: "'s \<Rightarrow> 's \<Rightarrow> bool"
  scalar_encode :: "'s \<Rightarrow> bytes"
  scalar_decode_long :: "bytes \<Rightarrow> 's"
  derive_secret_scalar :: "bytes \<Rightarrow> 's"
  derive_public_key :: "bytes \<Rightarrow> bytes"
  hash_init :: 'h
  hash_update :: "'h \<Rightarrow> bytes \<Rightarrow> 'h option"
  hash_final :: "'h \<Rightarrow> nat \<Rightarrow> bytes"
  mpi_of_nat :: "nat \<Rightarrow> 'm"
  mpi_scan :: "bytes \<Rightarrow> 'm option"
  mpi_print :: "'m \<Rightarrow> bytes option"
  mpi_powm :: "'m \<Rightarrow> 'm \<Rightarrow> 'm \<Rightarrow> 'm"
  mpi_cmp :: "'m \<Rightarrow> 'm \<Rightarrow> int"
  stream_xor :: "bytes \<Rightarrow> bytes \<Rightarrow> bytes \<Rightarrow> bytes option"
  ed448_sign :: "bytes \<Rightarrow> bytes \<Rightarrow> bytes \<Rightarrow> bytes"
  ed448_verify :: "bytes \<Rightarrow> bytes \<Rightarrow> bytes \<Rightarrow> bool"
  privkey_sign :: "bytes \<Rightarrow> bytes \<Rightarrow> bytes option"
  privkey_verify :: "bytes \<Rightarrow> 'm option list \<Rightarrow> bytes \<Rightarrow> bool"
  base64_otr_encode :: "bytes \<Rightarrow> string"
  base64_otr_decode :: "string \<Rightarrow> bytes option"

text \<open>
  How the opaque values are read: the order of the group, the residue a scalar stands for, the
  discrete logarithm of a point to the base point, the bytes a hash context has absorbed, the
  extendable output function, the number a big integer stands for.
\<close>

record ('p, 's, 'm, 'h) crypto_sem =
  order :: int
  sval :: "'s \<Rightarrow> int"
  dlog :: "'p \<Rightarrow> int"
  absorbed :: "'h \<Rightarrow> bytes"
  xof :: "bytes \<Rightarrow> nat \<Rightarrow> bytes"
  mval :: "'m \<Rightarrow> nat"

definition ED448_POINT_BYTES :: nat where [const_defs]: "ED448_POINT_BYTES = 57"
definition ED448_SCALAR_BYTES :: nat where [const_defs]: "ED448_SCALAR_BYTES = 56"
definition ED448_PRIVATE_BYTES :: nat where [const_defs]: "ED448_PRIVATE_BYTES = 57"
definition HASH_BYTES :: nat where [const_defs]: "HASH_BYTES = 64"
definition SSID_BYTES :: nat where [const_defs]: "SSID_BYTES = 8"
definition DH_KEY_SIZE :: nat where [const_defs]: "DH_KEY_SIZE = 80"
definition DH3072_MOD_LEN_BYTES :: nat where [const_defs]: "DH3072_MOD_LEN_BYTES = 384"
definition DH_MPI_MAX_BYTES :: nat where [const_defs]: "DH_MPI_MAX_BYTES = 4 + DH3072_MOD_LEN_BYTES"

text \<open>
  libgoldilocks: the scalars are the residues modulo an odd prime, the points a cyclic group of
  that order generated by the base point; comparison, encoding and decoding respect it.  Decoding
  an encoded point yields four times the point (the encoding multiplies by the cofactor ratio).
\<close>

definition scalar_laws :: "('p, 's, 'm, 'h) crypto_ops \<Rightarrow> ('p, 's, 'm, 'h) crypto_sem \<Rightarrow> bool" where
  "scalar_laws C S \<longleftrightarrow>
     2 < order S \<and>
     (\<forall>a b. (a * b) mod order S = 0 \<longrightarrow> a mod order S = 0 \<or> b mod order S = 0) \<and>
     (\<forall>s. 0 \<le> sval S s \<and> sval S s < order S) \<and>
     sval S (scalar_one C) = 1 \<and>
     (\<forall>a b. sval S (scalar_add C a b) = (sval S a + sval S b) mod order S) \<and>
     (\<forall>a b. sval S (scalar_sub C a b) = (sval S a - sval S b) mod order S) \<and>
     (\<forall>a b. sval S (scalar_mul C a b) = (sval S a * sval S b) mod order S) \<and>
     (\<forall>a. (2 * sval S (scalar_halve C a)) mod order S = sval S a) \<and>
     (\<forall>a b. scalar_eq C a b \<longleftrightarrow> sval S a = sval S b) \<and>
     (\<forall>a. length (scalar_encode C a) = ED448_SCALAR_BYTES) \<and>
     (\<forall>a. sval S (scalar_decode_long C (scalar_encode C a)) = sval S a)"

definition point_laws :: "('p, 's, 'm, 'h) crypto_ops \<Rightarrow> ('p, 's, 'm, 'h) crypto_sem \<Rightarrow> bool" where
  "point_laws C S \<longleftrightarrow>
     (\<forall>p. 0 \<le> dlog S p \<and> dlog S p < order S) \<and>
     dlog S (point_base C) = 1 \<and>
     (\<forall>p q. dlog S (point_add C p q) = (dlog S p + dlog S q) mod order S) \<and>
     (\<forall>p q. dlog S (point_sub C p q) = (dlog S p - dlog S q) mod order S) \<and>
     (\<forall>p s. dlog S (point_scalarmul C p s) = (dlog S p * sval S s) mod order S) \<and>
     (\<forall>p q. point_eq C p q \<longleftrightarrow> dlog S p = dlog S q) \<and>
     (\<forall>p. point_valid C p) \<and>
     (\<forall>p. length (point_encode_like_eddsa C p) = ED448_POINT_BYTES) \<and>
     (\<forall>p q. dlog S p = dlog S q \<longleftrightarrow> point_encode_like_eddsa C p = point_encode_like_eddsa C q) \<and>
     (\<forall>p. \<exists>q. point_decode_like_eddsa C (point_encode_like_eddsa C p) = Some q \<and>
              dlog S q = (4 * dlog S p) mod order S) \<and>
     (\<forall>seed. derive_public_key C seed =
        point_encode_like_eddsa C (point_scalarmul C (point_base C) (derive_secret_scalar C seed)))"

definition goldilocks_ok :: "('p, 's, 'm, 'h) crypto_ops \<Rightarrow> ('p, 's, 'm, 'h) crypto_sem \<Rightarrow> bool" where
  "goldilocks_ok C S \<longleftrightarrow> scalar_laws C S \<and> point_laws C S"

text \<open>SHAKE-256: absorbing never fails before output is taken, and the output depends on the
  concatenation of what was absorbed only.\<close>

definition sponge_ok :: "('p, 's, 'm, 'h) crypto_ops \<Rightarrow> ('p, 's, 'm, 'h) crypto_sem \<Rightarrow> bool" where
  "sponge_ok C S \<longleftrightarrow>
     absorbed S (hash_init C) = [] \<and>
     (\<forall>h bs. \<exists>h'. hash_update C h bs = Some h' \<and> absorbed S h' = absorbed S h @ bs) \<and>
     (\<forall>h n. hash_final C h n = xof S (absorbed S h) n) \<and>
     (\<forall>x n. length (xof S x n) = n)"

text \<open>libgcrypt: unsigned big-endian input and output, modular powers and comparison.\<close>

fun be_value :: "bytes \<Rightarrow> nat" where
  "be_value [] = 0"
| "be_value (b # bs) = unat b * 256 ^ length bs + be_value bs"

definition gcrypt_ok :: "('p, 's, 'm, 'h) crypto_ops \<Rightarrow> ('p, 's, 'm, 'h) crypto_sem \<Rightarrow> bool" where
  "gcrypt_ok C S \<longleftrightarrow>
     (\<forall>n. mval S (mpi_of_nat C n) = n) \<and>
     (\<forall>bs. \<exists>m. mpi_scan C bs = Some m \<and> mval S m = be_value bs) \<and>
     (\<forall>m. mval S m < 256 ^ DH3072_MOD_LEN_BYTES \<longrightarrow>
        (\<exists>bs. mpi_print C m = Some bs \<and> length bs \<le> DH3072_MOD_LEN_BYTES \<and> be_value bs = mval S m)) \<and>
     (\<forall>m m'. mval S m = mval S m' \<longrightarrow> mpi_print C m = mpi_print C m') \<and>
     (\<forall>b e m. 0 < mval S m \<longrightarrow> mval S (mpi_powm C b e m) = mval S b ^ mval S e mod mval S m) \<and>
     (\<forall>a b. (mpi_cmp C a b > 0 \<longleftrightarrow> mval S a > mval S b) \<and> (mpi_cmp C a b < 0 \<longleftrightarrow> mval S a < mval S b))"

text \<open>libsodium's stream cipher: xor with a key stream of the length of the message.\<close>

definition stream_ok :: "('p, 's, 'm, 'h) crypto_ops \<Rightarrow> bool" where
  "stream_ok C \<longleftrightarrow>
     (\<forall>msg nonce key. \<exists>c. stream_xor C msg nonce key = Some c \<and> length c = length msg \<and>
        stream_xor C c nonce key = Some msg)"

text \<open>EdDSA: a signature has 114 bytes, is not all zero and is accepted for the key it was made with.\<close>

definition ED448_SIGNATURE_BYTES :: nat where [const_defs]: "ED448_SIGNATURE_BYTES = 114"

definition eddsa_ok :: "('p, 's, 'm, 'h) crypto_ops \<Rightarrow> bool" where
  "eddsa_ok C \<longleftrightarrow>
     (\<forall>sym msg. length (ed448_sign C sym (derive_public_key C sym) msg) = ED448_SIGNATURE_BYTES \<and>
        \<not> otrng_is_empty_array (ed448_sign C sym (derive_public_key C sym) msg) ED448_SIGNATURE_BYTES \<and>
        ed448_verify C (ed448_sign C sym (derive_public_key C sym) msg) (derive_public_key C sym) msg)"

text \<open>libotr's transport encoding: \<open>?OTR:\<close>, base64 characters, a full stop; decoding inverts it.  The bytes
  0 and 4 at the beginning are encoded as \<open>AA\<close> and a letter from Q to T, not M.\<close>

definition is_base64_char :: "char \<Rightarrow> bool" where
  "is_base64_char c \<longleftrightarrow> c \<in> set (''ABCDEFGHIJKLMNOPQRSTUVWXYZ'' @ ''abcdefghijklmnopqrstuvwxyz'' @ ''0123456789+/='')"

definition encoding_ok :: "('p, 's, 'm, 'h) crypto_ops \<Rightarrow> bool" where
  "encoding_ok C \<longleftrightarrow>
     (\<forall>bs. \<exists>body. base64_otr_encode C bs = ''?OTR:'' @ body @ ''.'' \<and> list_all is_base64_char body \<and>
        base64_otr_decode C (base64_otr_encode C bs) = Some bs \<and>
        (take 2 bs = [0, 4] \<longrightarrow> take 8 (base64_otr_encode C bs) \<noteq> ''?OTR:AAM''))"

subsection \<open>shake.c\<close>

definition ascii :: "string \<Rightarrow> bytes" where
  "ascii s = map (\<lambda>c. of_nat (of_char c)) s"

definition hash_init_with_dom :: "('p, 's, 'm, 'h) crypto_ops \<Rightarrow> 'h option" where
  "hash_init_with_dom C = hash_update C (hash_init C) (ascii ''OTRv4'')"

definition hash_init_with_usage_and_domain_separation ::
    "('p, 's, 'm, 'h) crypto_ops \<Rightarrow> byte \<Rightarrow> string \<Rightarrow> 'h option" where
  "hash_init_with_usage_and_domain_separation C usage domain =
     do { hd \<leftarrow> hash_update C (hash_init C) (ascii domain); hash_update C hd [usage] }"

definition hash_init_with_usage_prekey_server :: "('p, 's, 'm, 'h) crypto_ops \<Rightarrow> byte \<Rightarrow> 'h option" where
  "hash_init_with_usage_prekey_server C usage =
     hash_init_with_usage_and_domain_separation C usage ''OTR-Prekey-Server''"

definition hash_init_with_usage :: "('p, 's, 'm, 'h) crypto_ops \<Rightarrow> byte \<Rightarrow> 'h option" where
  "hash_init_with_usage C usage = do { hd \<leftarrow> hash_init_with_dom C; hash_update C hd [usage] }"

definition shake_kkdf :: "('p, 's, 'm, 'h) crypto_ops \<Rightarrow> nat \<Rightarrow> bytes \<Rightarrow> bytes \<Rightarrow> bytes option" where
  "shake_kkdf C dst_len key secret =
     do { hd \<leftarrow> hash_init_with_dom C; hd \<leftarrow> hash_update C hd key; hd \<leftarrow> hash_update C hd secret;
          Some (hash_final C hd dst_len) }"

definition shake_256_kdf1 :: "('p, 's, 'm, 'h) crypto_ops \<Rightarrow> nat \<Rightarrow> byte \<Rightarrow> bytes \<Rightarrow> bytes option" where
  "shake_256_kdf1 C dst_len usage values =
     do { hd \<leftarrow> hash_init_with_usage C usage; hd \<leftarrow> hash_update C hd values;
          Some (hash_final C hd dst_len) }"

definition shake_256_prekey_server_kdf ::
    "('p, 's, 'm, 'h) crypto_ops \<Rightarrow> nat \<Rightarrow> byte \<Rightarrow> bytes \<Rightarrow> bytes option" where
  "shake_256_prekey_server_kdf C dst_len usage values =
     do { hd \<leftarrow> hash_init_with_usage_prekey_server C usage; hd \<leftarrow> hash_update C hd values;
          Some (hash_final C hd dst_len) }"

definition shake_256_hash :: "('p, 's, 'm, 'h) crypto_ops \<Rightarrow> nat \<Rightarrow> bytes \<Rightarrow> bytes option" where
  "shake_256_hash C dst_len secret =
     do { hd \<leftarrow> hash_init_with_dom C; hd \<leftarrow> hash_update C hd secret;
          Some (hash_final C hd dst_len) }"

subsection \<open>ed448.c and random.h\<close>

record ('p, 's) ecdh_keypair_s =
  ecdh_priv :: 's
  ecdh_pub :: 'p

definition otrng_ec_scalar_eq :: "('p, 's, 'm, 'h) crypto_ops \<Rightarrow> 's \<Rightarrow> 's \<Rightarrow> bool" where
  "otrng_ec_scalar_eq C a b = scalar_eq C a b"

definition otrng_ec_scalar_decode :: "('p, 's, 'm, 'h) crypto_ops \<Rightarrow> bytes \<Rightarrow> 's" where
  "otrng_ec_scalar_decode C enc = scalar_decode_long C (take ED448_SCALAR_BYTES enc)"

definition otrng_ec_point_eq :: "('p, 's, 'm, 'h) crypto_ops \<Rightarrow> 'p \<Rightarrow> 'p \<Rightarrow> bool" where
  "otrng_ec_point_eq C p q = point_eq C p q"

definition otrng_ec_point_valid :: "('p, 's, 'm, 'h) crypto_ops \<Rightarrow> 'p \<Rightarrow> bool" where
  "otrng_ec_point_valid C p = point_valid C p"

definition otrng_ec_point_encode :: "('p, 's, 'm, 'h) crypto_ops \<Rightarrow> nat \<Rightarrow> 'p \<Rightarrow> bytes option" where
  "otrng_ec_point_encode C len p =
     (if len < ED448_POINT_BYTES then None else Some (point_encode_like_eddsa C p))"

definition otrng_ec_point_decode :: "('p, 's, 'm, 'h) crypto_ops \<Rightarrow> bytes \<Rightarrow> 'p option" where
  "otrng_ec_point_decode C enc =
     (case point_decode_like_eddsa C (take ED448_POINT_BYTES enc) of
        None \<Rightarrow> None
      | Some tmp_p \<Rightarrow>
          (let r = scalar_halve C (scalar_halve C (scalar_one C))
           in Some (point_scalarmul C tmp_p r)))"

definition otrng_ecdh_keypair_generate ::
    "('p, 's, 'm, 'h) crypto_ops \<Rightarrow> bytes \<Rightarrow> ('p, 's) ecdh_keypair_s option" where
  "otrng_ecdh_keypair_generate C seed =
     do { pub \<leftarrow> otrng_ec_point_decode C (derive_public_key C seed);
          Some \<lparr>ecdh_priv = derive_secret_scalar C seed, ecdh_pub = pub\<rparr> }"

definition otrng_ecdh_keypair_generate_their ::
    "('p, 's, 'm, 'h) crypto_ops \<Rightarrow> bytes \<Rightarrow> 'p option" where
  "otrng_ecdh_keypair_generate_their C seed = otrng_ec_point_decode C (derive_public_key C seed)"

definition otrng_ecdh_valid_secret :: "bytes \<Rightarrow> nat \<Rightarrow> bool" where
  "otrng_ecdh_valid_secret shared_secret shared_secret_len =
     (if shared_secret_len < ED448_POINT_BYTES then False
      else if otrng_is_empty_array shared_secret ED448_POINT_BYTES then False else True)"

definition otrng_ecdh_shared_secret ::
    "('p, 's, 'm, 'h) crypto_ops \<Rightarrow> nat \<Rightarrow> 's \<Rightarrow> 'p \<Rightarrow> bytes option" where
  "otrng_ecdh_shared_secret C shared_secret_len our_priv their_pub =
     (let p = point_scalarmul C their_pub our_priv in
      if \<not> otrng_ec_point_valid C p then None
      else case otrng_ec_point_encode C shared_secret_len p of
          None \<Rightarrow> None
        | Some shared_secret \<Rightarrow>
            if otrng_ecdh_valid_secret shared_secret shared_secret_len then Some shared_secret
            else None)"

definition otrng_ec_sign ::
    "('p, 's, 'm, 'h) crypto_ops \<Rightarrow> bytes \<Rightarrow> bytes \<Rightarrow> bytes \<Rightarrow> bytes" where
  "otrng_ec_sign C seed pub msg = ed448_sign C seed pub msg"

definition otrng_ec_sign_simple :: "('p, 's, 'm, 'h) crypto_ops \<Rightarrow> bytes \<Rightarrow> bytes \<Rightarrow> bytes" where
  "otrng_ec_sign_simple C seed msg = otrng_ec_sign C seed (derive_public_key C seed) msg"

definition otrng_ec_verify :: "('p, 's, 'm, 'h) crypto_ops \<Rightarrow> bytes \<Rightarrow> bytes \<Rightarrow> bytes \<Rightarrow> bool" where
  "otrng_ec_verify C sig pub msg = ed448_verify C sig pub msg"

text \<open>\<open>random.h\<close>: the \<open>ED448_PRIVATE_BYTES\<close> random bytes are an argument.\<close>

definition ed448_random_scalar :: "('p, 's, 'm, 'h) crypto_ops \<Rightarrow> bytes \<Rightarrow> 's" where
  "ed448_random_scalar C seed = derive_secret_scalar C seed"

definition otrng_zq_keypair_generate ::
    "('p, 's, 'm, 'h) crypto_ops \<Rightarrow> bytes \<Rightarrow> ('p, 's) ecdh_keypair_s" where
  "otrng_zq_keypair_generate C seed =
     (let priv = ed448_random_scalar C seed
      in \<lparr>ecdh_priv = priv, ecdh_pub = point_scalarmul C (point_base C) priv\<rparr>)"

text \<open>The values that wiping leaves in a scalar and in a point.\<close>

record ('p, 's) wiped =
  zero_scalar :: 's
  zero_point :: 'p

subsection \<open>dh.c\<close>

definition DH3072_MODULUS :: nat where
  "DH3072_MODULUS =
    0xFFFFFFFFFFFFFFFFC90FDAA22168C234C4C6628B80DC1CD129024E088A67CC74020BBEA63B139B22514A08798E3404DDEF9519B3CD3A431B302B0A6DF25F14374FE1356D6D51C245E485B576625E7EC6F44C42E9A637ED6B0BFF5CB6F406B7EDEE386BFB5A899FA5AE9F24117C4B1FE649286651ECE45B3DC2007CB8A163BF0598DA48361C55D39A69163FA8FD24CF5F83655D23DCA3AD961C62F356208552BB9ED529077096966D670C354E4ABC9804F1746C08CA18217C32905E462E36CE3BE39E772C180E86039B2783A2EC07A28FB5C55DF06F4C52C9DE2BCBF6955817183995497CEA956AE515D2261898FA051015728E5A8AAAC42DAD33170D04507A33A85521ABDF1CBA64ECFB850458DBEF0A8AEA71575D060C7DB3970F85A6E1E4C7ABF5AE8CDB0933D71E8C94E04A25619DCEE3D2261AD2EE6BF12FFA06D98A0864D87602733EC86A64521F2B18177B200CBBE117577A615D6C770988C0BAD946E208E24FA074E5AB3143DB5BFCE0FD108E4B82D120A93AD2CAFFFFFFFFFFFFFFFF"

definition DH3072_MODULUS_MINUS_2 :: nat where
  "DH3072_MODULUS_MINUS_2 = DH3072_MODULUS - 2"

definition DH3072_GENERATOR :: nat where
  "DH3072_GENERATOR = 2"

record 'm dh_keypair_s =
  dh_pub :: "'m option"
  dh_priv :: "'m option"

definition otrng_dh_calculate_public_key :: "('p, 's, 'm, 'h) crypto_ops \<Rightarrow> 'm \<Rightarrow> 'm" where
  "otrng_dh_calculate_public_key C priv =
     mpi_powm C (mpi_of_nat C DH3072_GENERATOR) priv (mpi_of_nat C DH3072_MODULUS)"

text \<open>The random \<open>DH_KEY_SIZE\<close> bytes of \<open>gcry_random_bytes_secure\<close> are an argument.\<close>

definition otrng_dh_keypair_generate ::
    "('p, 's, 'm, 'h) crypto_ops \<Rightarrow> bytes \<Rightarrow> 'm dh_keypair_s option" where
  "otrng_dh_keypair_generate C sec_buffer =
     do { hash \<leftarrow> shake_256_hash C DH_KEY_SIZE sec_buffer;
          privkey \<leftarrow> mpi_scan C hash;
          Some \<lparr>dh_pub = Some (otrng_dh_calculate_public_key C privkey), dh_priv = Some privkey\<rparr> }"

datatype participant = Participant_u | Participant_t

definition otrng_dh_keypair_generate_from_shared_secret ::
    "('p, 's, 'm, 'h) crypto_ops \<Rightarrow> bytes \<Rightarrow> 'm dh_keypair_s \<Rightarrow> participant \<Rightarrow> 'm dh_keypair_s option" where
  "otrng_dh_keypair_generate_from_shared_secret C shared_secret keypair participant =
     do { random_buffer \<leftarrow> shake_256_kdf1 C DH_KEY_SIZE 0x13 shared_secret;
          privkey \<leftarrow> mpi_scan C random_buffer;
          (case participant of
             Participant_u \<Rightarrow>
               Some (keypair\<lparr>dh_priv := Some privkey,
                             dh_pub := Some (otrng_dh_calculate_public_key C privkey)\<rparr>)
           | Participant_t \<Rightarrow>
               Some (keypair\<lparr>dh_pub := Some (otrng_dh_calculate_public_key C privkey)\<rparr>)) }"

definition otrng_dh_priv_key_destroy :: "'m dh_keypair_s \<Rightarrow> 'm dh_keypair_s" where
  "otrng_dh_priv_key_destroy keypair = keypair\<lparr>dh_priv := None\<rparr>"

definition otrng_dh_keypair_destroy :: "'m dh_keypair_s \<Rightarrow> 'm dh_keypair_s" where
  "otrng_dh_keypair_destroy keypair = (otrng_dh_priv_key_destroy keypair)\<lparr>dh_pub := None\<rparr>"

text \<open>A \<open>NULL\<close> big integer handed to \<open>gcry_mpi_powm\<close> is a null dereference in the package:
  the model has no result there either.\<close>

definition otrng_dh_shared_secret ::
    "('p, 's, 'm, 'h) crypto_ops \<Rightarrow> 'm option \<Rightarrow> 'm option \<Rightarrow> bytes option" where
  "otrng_dh_shared_secret C our_priv their_pub =
     do { priv \<leftarrow> our_priv; pub \<leftarrow> their_pub;
          mpi_print C (mpi_powm C pub priv (mpi_of_nat C DH3072_MODULUS)) }"

definition otrng_dh_mpi_serialize :: "('p, 's, 'm, 'h) crypto_ops \<Rightarrow> 'm option \<Rightarrow> bytes option" where
  "otrng_dh_mpi_serialize C src = (case src of None \<Rightarrow> Some [] | Some m \<Rightarrow> mpi_print C m)"

text \<open>
  With an empty buffer \<open>gcry_mpi_set_ui (*dst, 0)\<close> sets an existing integer to zero and leaves a
  \<open>NULL\<close> destination \<open>NULL\<close> (the integer it allocates is dropped); \<open>*nread\<close> is not written, so
  the caller's initial \<open>0\<close> stays.
\<close>

definition otrng_dh_mpi_deserialize ::
    "('p, 's, 'm, 'h) crypto_ops \<Rightarrow> 'm option \<Rightarrow> bytes \<Rightarrow> ('m option) parsed" where
  "otrng_dh_mpi_deserialize C dst buffer =
     (if buffer = [] then
        Some (case dst of None \<Rightarrow> None | Some _ \<Rightarrow> Some (mpi_of_nat C 0), 0)
      else case mpi_scan C buffer of None \<Rightarrow> None | Some m \<Rightarrow> Some (Some m, length buffer))"

definition otrng_dh_mpi_valid :: "('p, 's, 'm, 'h) crypto_ops \<Rightarrow> 'm option \<Rightarrow> bool" where
  "otrng_dh_mpi_valid C mpi =
     (case mpi of
        None \<Rightarrow> False
      | Some m \<Rightarrow>
          if mpi_cmp C m (mpi_of_nat C 2) < 0 \<or> mpi_cmp C m (mpi_of_nat C DH3072_MODULUS_MINUS_2) > 0
          then False else True)"


subsection \<open>What the laws give\<close>

named_theorems group_simps \<open>scalars and points read as residues\<close>

lemma goldilocks_scalar:
  assumes "goldilocks_ok C S"
  shows "2 < order S" "0 \<le> sval S a" "sval S a < order S"
    and "sval S (scalar_one C) = 1"
    and "sval S (scalar_add C a b) = (sval S a + sval S b) mod order S"
    and "sval S (scalar_sub C a b) = (sval S a - sval S b) mod order S"
    and "sval S (scalar_mul C a b) = (sval S a * sval S b) mod order S"
    and "scalar_eq C a b \<longleftrightarrow> sval S a = sval S b"
    and "sval S a mod order S = sval S a"
  using assms by (simp_all add: goldilocks_ok_def scalar_laws_def)

lemma goldilocks_point:
  assumes "goldilocks_ok C S"
  shows "0 \<le> dlog S p" "dlog S p < order S"
    and "dlog S (point_base C) = 1"
    and "dlog S (point_add C p q) = (dlog S p + dlog S q) mod order S"
    and "dlog S (point_sub C p q) = (dlog S p - dlog S q) mod order S"
    and "dlog S (point_scalarmul C p s) = (dlog S p * sval S s) mod order S"
    and "point_eq C p q \<longleftrightarrow> dlog S p = dlog S q"
    and "point_valid C p"
    and "length (point_encode_like_eddsa C p) = ED448_POINT_BYTES"
    and "point_encode_like_eddsa C p = point_encode_like_eddsa C q \<longleftrightarrow> dlog S p = dlog S q"
    and "dlog S p mod order S = dlog S p"
  using assms by (auto simp: goldilocks_ok_def point_laws_def)

lemmas goldilocks_simps = goldilocks_scalar(4-9) goldilocks_point(3-8,11)

lemma goldilocks_no_zero_div:
  assumes "goldilocks_ok C S" and "(a * b) mod order S = 0"
  shows "a mod order S = 0 \<or> b mod order S = 0"
  using assms by (simp add: goldilocks_ok_def scalar_laws_def)

lemma goldilocks_halve:
  "goldilocks_ok C S \<Longrightarrow> (2 * sval S (scalar_halve C a)) mod order S = sval S a"
  by (simp add: goldilocks_ok_def scalar_laws_def)

lemma goldilocks_scalar_codec:
  assumes "goldilocks_ok C S"
  shows "length (scalar_encode C a) = ED448_SCALAR_BYTES"
    and "sval S (scalar_decode_long C (scalar_encode C a)) = sval S a"
  using assms by (simp_all add: goldilocks_ok_def scalar_laws_def)

lemma quarter_of_four:
  assumes G: "goldilocks_ok C S"
  shows "(4 * sval S (scalar_halve C (scalar_halve C (scalar_one C)))) mod order S = 1"
proof -
  let ?h = "scalar_halve C (scalar_one C)"
  have "(4 * sval S (scalar_halve C ?h)) mod order S = (2 * (2 * sval S (scalar_halve C ?h) mod order S)) mod order S"
    by (simp add: mod_simps)
  also have "\<dots> = 1"
    using goldilocks_halve[OF G, of ?h] goldilocks_halve[OF G, of "scalar_one C"]
      goldilocks_scalar(4)[OF G] by simp
  finally show ?thesis .
qed

text \<open>Decoding divides the factor four out again: a point survives the wire up to equality of
  points, whatever follows it in the buffer.\<close>

lemma ec_point_roundtrip:
  assumes G: "goldilocks_ok C S"
  obtains p' where "otrng_ec_point_decode C (point_encode_like_eddsa C p @ rest) = Some p'"
    and "dlog S p' = dlog S p"
proof -
  let ?r = "scalar_halve C (scalar_halve C (scalar_one C))"
  from G obtain q where q: "point_decode_like_eddsa C (point_encode_like_eddsa C p) = Some q"
    and dq: "dlog S q = (4 * dlog S p) mod order S"
    unfolding goldilocks_ok_def point_laws_def by blast
  have "dlog S (point_scalarmul C q ?r) = (dlog S p * ((4 * sval S ?r) mod order S)) mod order S"
    by (simp add: goldilocks_simps[OF G] dq mod_simps algebra_simps)
  then have "dlog S (point_scalarmul C q ?r) = dlog S p"
    by (simp add: quarter_of_four[OF G] goldilocks_simps[OF G])
  moreover have "otrng_ec_point_decode C (point_encode_like_eddsa C p @ rest) = Some (point_scalarmul C q ?r)"
    using q by (simp add: otrng_ec_point_decode_def goldilocks_point(9)[OF G] Let_def)
  ultimately show ?thesis by (rule that[rotated])
qed

lemma ec_scalar_roundtrip:
  assumes "goldilocks_ok C S"
  shows "sval S (otrng_ec_scalar_decode C (scalar_encode C a @ rest)) = sval S a"
  using goldilocks_scalar_codec[OF assms, of a] by (simp add: otrng_ec_scalar_decode_def)

lemma sponge_update:
  assumes "sponge_ok C S"
  obtains h' where "hash_update C h bs = Some h'" "absorbed S h' = absorbed S h @ bs"
  using assms unfolding sponge_ok_def by blast

lemma sponge_facts:
  assumes "sponge_ok C S"
  shows "absorbed S (hash_init C) = []" "hash_final C h n = xof S (absorbed S h) n"
    "length (xof S x n) = n"
  using assms by (simp_all add: sponge_ok_def)

definition absorb :: "('p, 's, 'm, 'h) crypto_ops \<Rightarrow> 'h \<Rightarrow> bytes \<Rightarrow> 'h" where
  "absorb C h bs = the (hash_update C h bs)"

lemma sponge_simps:
  assumes "sponge_ok C S"
  shows "hash_update C h bs = Some (absorb C h bs)"
    and "absorbed S (absorb C h bs) = absorbed S h @ bs"
    and "absorbed S (hash_init C) = []"
    and "hash_final C h n = xof S (absorbed S h) n"
  by (rule sponge_update[OF assms, of h bs]; simp add: absorb_def sponge_facts[OF assms])+

text \<open>Every hash of the library is the output function applied to one byte string: the domain
  and usage prefix followed by the values.\<close>

lemma hash_init_with_usage_absorbed:
  assumes H: "sponge_ok C S"
  obtains hd where "hash_init_with_usage C u = Some hd" "absorbed S hd = ascii ''OTRv4'' @ [u]"
proof -
  obtain h1 where h1: "hash_update C (hash_init C) (ascii ''OTRv4'') = Some h1"
    "absorbed S h1 = ascii ''OTRv4''"
    by (rule sponge_update[OF H, of "hash_init C" "ascii ''OTRv4''"]) (simp add: sponge_facts[OF H])
  obtain h2 where "hash_update C h1 [u] = Some h2" "absorbed S h2 = absorbed S h1 @ [u]"
    by (rule sponge_update[OF H])
  with h1 show ?thesis by (intro that[of h2]) (simp_all add: hash_init_with_usage_def hash_init_with_dom_def)
qed

lemma shake_256_kdf1_eq:
  assumes H: "sponge_ok C S"
  shows "shake_256_kdf1 C n u v = Some (xof S (ascii ''OTRv4'' @ [u] @ v) n)"
proof -
  obtain hd where hd: "hash_init_with_usage C u = Some hd" "absorbed S hd = ascii ''OTRv4'' @ [u]"
    by (rule hash_init_with_usage_absorbed[OF H])
  obtain h' where "hash_update C hd v = Some h'" "absorbed S h' = absorbed S hd @ v"
    by (rule sponge_update[OF H])
  with hd show ?thesis by (simp add: shake_256_kdf1_def sponge_facts[OF H])
qed

lemma shake_256_hash_eq:
  assumes H: "sponge_ok C S"
  shows "shake_256_hash C n v = Some (xof S (ascii ''OTRv4'' @ v) n)"
proof -
  obtain h1 where h1: "hash_update C (hash_init C) (ascii ''OTRv4'') = Some h1"
    "absorbed S h1 = ascii ''OTRv4''"
    by (rule sponge_update[OF H, of "hash_init C" "ascii ''OTRv4''"]) (simp add: sponge_facts[OF H])
  obtain h' where "hash_update C h1 v = Some h'" "absorbed S h' = absorbed S h1 @ v"
    by (rule sponge_update[OF H])
  with h1 show ?thesis by (simp add: shake_256_hash_def hash_init_with_dom_def sponge_facts[OF H])
qed

text \<open>Equal points give equal shared secrets; both sides of an ECDH exchange agree.\<close>

lemma otrng_ecdh_shared_secret_cong:
  assumes G: "goldilocks_ok C S"
    and "(dlog S p * sval S a) mod order S = (dlog S p' * sval S b) mod order S"
  shows "otrng_ecdh_shared_secret C n a p = otrng_ecdh_shared_secret C n b p'"
proof -
  from assms have "point_encode_like_eddsa C (point_scalarmul C p a) = point_encode_like_eddsa C (point_scalarmul C p' b)"
    by (simp add: goldilocks_point(10)[OF G] goldilocks_simps[OF G])
  then show ?thesis
    by (simp add: otrng_ecdh_shared_secret_def otrng_ec_point_valid_def otrng_ec_point_encode_def
        goldilocks_simps[OF G] Let_def)
qed

lemma ecdh_keypair_generate_pub:
  assumes G: "goldilocks_ok C S" and "otrng_ecdh_keypair_generate C seed = Some kp"
  shows "dlog S (ecdh_pub kp) = sval S (ecdh_priv kp)"
proof -
  obtain p' where p': "otrng_ec_point_decode C (derive_public_key C seed) = Some p'"
    and d: "dlog S p' = sval S (derive_secret_scalar C seed)"
  proof (rule ec_point_roundtrip[OF G, of "point_scalarmul C (point_base C) (derive_secret_scalar C seed)" "[]"])
    fix p'
    assume "otrng_ec_point_decode C
         (point_encode_like_eddsa C (point_scalarmul C (point_base C) (derive_secret_scalar C seed)) @ []) = Some p'"
      and "dlog S p' = dlog S (point_scalarmul C (point_base C) (derive_secret_scalar C seed))"
    moreover have "derive_public_key C seed =
        point_encode_like_eddsa C (point_scalarmul C (point_base C) (derive_secret_scalar C seed))"
      using G by (simp add: goldilocks_ok_def point_laws_def)
    ultimately show thesis using that by (simp add: goldilocks_simps[OF G])
  qed
  with assms(2) show ?thesis by (auto simp: otrng_ecdh_keypair_generate_def)
qed

text \<open>The range check of a Diffie-Hellman key looks at its value only.\<close>

lemma dh_valid_iff:
  assumes "gcrypt_ok C S"
  shows "otrng_dh_mpi_valid C (Some m) \<longleftrightarrow> 2 \<le> mval S m \<and> mval S m \<le> DH3072_MODULUS_MINUS_2"
  using assms by (auto simp: otrng_dh_mpi_valid_def gcrypt_ok_def not_less)

lemma dh_valid_cong: "gcrypt_ok C S \<Longrightarrow> mval S m = mval S m' \<Longrightarrow> otrng_dh_mpi_valid C (Some m) = otrng_dh_mpi_valid C (Some m')"
  by (simp add: dh_valid_iff)

end
