(* ===== verification/Wire.thy ===== *)
theory Wire
  imports Crypto_Env
begin

text \<open>
  The wire format: \<open>serialize.c\<close>, \<open>deserialize.c\<close> and \<open>mpi.c\<close>.  A serializer returns the bytes
  it writes at its cursor; a deserializer takes the rest of the buffer and returns the value with
  the number of bytes it consumed, or \<open>None\<close> for \<open>OTRNG_ERROR\<close>.  The locale \<open>wire_codec\<close> states
  what a message format relies on; every scalar format of the library is an interpretation.
\<close>

subsection \<open>Integers\<close>

text \<open>\<open>serialize_uint\<close>: the loop counts \<open>shift\<close> down from \<open>offset\<close>, writing one byte each time.\<close>

fun serialize_uint :: "u64 \<Rightarrow> nat \<Rightarrow> bytes" where
  "serialize_uint data 0 = []"
| "serialize_uint data (Suc shift) =
     ucast (drop_bit (shift * 8) data AND 0xFF) # serialize_uint data shift"

definition otrng_serialize_uint64 :: "u64 \<Rightarrow> bytes" where
  [wire_defs]: "otrng_serialize_uint64 data = serialize_uint data 8"

definition otrng_serialize_uint32 :: "u32 \<Rightarrow> bytes" where
  [wire_defs]: "otrng_serialize_uint32 data = serialize_uint (ucast data) 4"

definition otrng_serialize_uint8 :: "byte \<Rightarrow> bytes" where
  [wire_defs]: "otrng_serialize_uint8 data = serialize_uint (ucast data) 1"

definition otrng_serialize_uint16 :: "u16 \<Rightarrow> bytes" where
  [wire_defs]: "otrng_serialize_uint16 data = serialize_uint (ucast data) 2"

definition otrng_deserialize_uint64 :: "bytes \<Rightarrow> u64 parsed" where
  [wire_defs]: "otrng_deserialize_uint64 buffer =
    (if length buffer < 8 then None
     else Some (ucast (buffer ! 7) OR push_bit 8 (ucast (buffer ! 6)) OR
                push_bit 16 (ucast (buffer ! 5)) OR push_bit 24 (ucast (buffer ! 4)) OR
                push_bit 32 (ucast (buffer ! 3)) OR push_bit 40 (ucast (buffer ! 2)) OR
                push_bit 48 (ucast (buffer ! 1)) OR push_bit 56 (ucast (buffer ! 0)), 8))"

definition otrng_deserialize_uint32 :: "bytes \<Rightarrow> u32 parsed" where
  [wire_defs]: "otrng_deserialize_uint32 buffer =
    (if length buffer < 4 then None
     else Some (ucast (buffer ! 3) OR push_bit 8 (ucast (buffer ! 2)) OR
                push_bit 16 (ucast (buffer ! 1)) OR push_bit 24 (ucast (buffer ! 0)), 4))"

definition otrng_deserialize_uint16 :: "bytes \<Rightarrow> u16 parsed" where
  [wire_defs]: "otrng_deserialize_uint16 buffer =
    (if length buffer < 2 then None
     else Some (ucast (buffer ! 1) OR push_bit 8 (ucast (buffer ! 0)), 2))"

definition otrng_deserialize_uint8 :: "bytes \<Rightarrow> byte parsed" where
  [wire_defs]: "otrng_deserialize_uint8 buffer =
    (if length buffer < 1 then None else Some (buffer ! 0, 1))"

subsection \<open>Byte arrays and data fields\<close>

text \<open>A \<open>NULL\<close> source is \<open>None\<close>; \<open>memcpy\<close> copies the first \<open>len\<close> bytes of the source.\<close>

definition otrng_serialize_bytes_array :: "bytes option \<Rightarrow> nat \<Rightarrow> bytes" where
  [wire_defs]: "otrng_serialize_bytes_array data len =
    (case data of None \<Rightarrow> [] | Some bs \<Rightarrow> take len bs)"

text \<open>The length is passed to \<open>otrng_serialize_uint32\<close> and so cut to 32 bits.\<close>

definition otrng_serialize_data :: "bytes option \<Rightarrow> nat \<Rightarrow> bytes" where
  [wire_defs]: "otrng_serialize_data data len =
    otrng_serialize_uint32 (of_nat len) @ otrng_serialize_bytes_array data len"

text \<open>A zero length is a success that leaves \<open>*dst\<close> and \<open>*dst_len\<close> as they are: the value is
  \<open>None\<close>, and the caller keeps what it initialised them to.\<close>

definition otrng_deserialize_data :: "bytes \<Rightarrow> (bytes option) parsed" where
  "otrng_deserialize_data buffer =
    (case otrng_deserialize_uint32 buffer of
       None \<Rightarrow> None
     | Some (s, r) \<Rightarrow>
         if s = 0 then Some (None, r)
         else if length buffer - r < unat s then None
         else Some (Some (take (unat s) (drop r buffer)), r + unat s))"

definition otrng_deserialize_bytes_array :: "nat \<Rightarrow> bytes \<Rightarrow> bytes option" where
  "otrng_deserialize_bytes_array dst_len buffer =
    (if length buffer < dst_len then None else Some (take dst_len buffer))"

subsection \<open>mpi.c\<close>

record otrng_mpi_s =
  mpi_len :: u32
  mpi_data :: "bytes option"

definition otrng_mpi_set :: "bytes option \<Rightarrow> nat \<Rightarrow> otrng_mpi_s" where
  "otrng_mpi_set src len =
    (case src of
       None \<Rightarrow> \<lparr>mpi_len = 0, mpi_data = None\<rparr>
     | Some bs \<Rightarrow>
         if len = 0 then \<lparr>mpi_len = 0, mpi_data = None\<rparr>
         else let l = (of_nat len :: u32) in \<lparr>mpi_len = l, mpi_data = Some (take (unat l) bs)\<rparr>)"

definition otrng_mpi_copy :: "otrng_mpi_s \<Rightarrow> otrng_mpi_s" where
  "otrng_mpi_copy src = otrng_mpi_set (mpi_data src) (unat (mpi_len src))"

definition otr_mpi_read_len :: "bytes \<Rightarrow> u32 parsed" where
  "otr_mpi_read_len src =
    (case otrng_deserialize_uint32 src of
       None \<Rightarrow> None
     | Some (l, r) \<Rightarrow> if unat l > length src - r then None else Some (l, r))"

definition otrng_mpi_deserialize :: "bytes \<Rightarrow> otrng_mpi_s parsed" where
  "otrng_mpi_deserialize src =
    (case otr_mpi_read_len src of
       None \<Rightarrow> None
     | Some (l, r) \<Rightarrow>
         if l = 0 then Some (\<lparr>mpi_len = l, mpi_data = None\<rparr>, r)
         else Some (\<lparr>mpi_len = l, mpi_data = Some (take (unat l) (drop r src))\<rparr>, r + unat l))"

text \<open>The variant that points into the buffer counts only the length field as read.\<close>

definition otrng_mpi_deserialize_no_copy :: "bytes \<Rightarrow> otrng_mpi_s parsed" where
  "otrng_mpi_deserialize_no_copy src =
    (case otr_mpi_read_len src of
       None \<Rightarrow> None
     | Some (l, r) \<Rightarrow>
         if l = 0 then Some (\<lparr>mpi_len = l, mpi_data = None\<rparr>, r)
         else Some (\<lparr>mpi_len = l, mpi_data = Some (take (unat l) (drop r src))\<rparr>, r))"

definition otrng_mpi_memcpy :: "otrng_mpi_s \<Rightarrow> bytes" where
  "otrng_mpi_memcpy mpi =
    (case mpi_data mpi of None \<Rightarrow> [] | Some bs \<Rightarrow> take (unat (mpi_len mpi)) bs)"

definition otrng_serialize_mpi :: "otrng_mpi_s \<Rightarrow> bytes" where
  "otrng_serialize_mpi mpi = otrng_serialize_data (mpi_data mpi) (unat (mpi_len mpi))"

subsection \<open>Points, scalars, Diffie-Hellman integers\<close>

definition otrng_serialize_ec_point :: "('p, 's, 'm, 'h) crypto_ops \<Rightarrow> 'p \<Rightarrow> bytes" where
  "otrng_serialize_ec_point C point =
    (case otrng_ec_point_encode C ED448_POINT_BYTES point of None \<Rightarrow> [] | Some bs \<Rightarrow> bs)"

definition otrng_serialize_ec_scalar :: "('p, 's, 'm, 'h) crypto_ops \<Rightarrow> 's \<Rightarrow> bytes" where
  "otrng_serialize_ec_scalar C scalar = scalar_encode C scalar"

definition otrng_serialize_dh_mpi_otr ::
    "('p, 's, 'm, 'h) crypto_ops \<Rightarrow> nat \<Rightarrow> 'm option \<Rightarrow> bytes option" where
  "otrng_serialize_dh_mpi_otr C dst_len mpi =
    (if dst_len < DH_MPI_MAX_BYTES then None
     else case otrng_dh_mpi_serialize C mpi of
         None \<Rightarrow> None
       | Some buffer \<Rightarrow>
           (let otr_mpi = otrng_mpi_set (Some buffer) (length buffer)
            in Some (otrng_serialize_mpi otr_mpi)))"

definition otrng_serialize_dh_public_key ::
    "('p, 's, 'm, 'h) crypto_ops \<Rightarrow> nat \<Rightarrow> 'm option \<Rightarrow> bytes option" where
  "otrng_serialize_dh_public_key C dst_len pub = otrng_serialize_dh_mpi_otr C dst_len pub"

definition otrng_deserialize_dh_mpi_otr ::
    "('p, 's, 'm, 'h) crypto_ops \<Rightarrow> 'm option \<Rightarrow> bytes \<Rightarrow> ('m option) parsed" where
  "otrng_deserialize_dh_mpi_otr C dst buffer =
    (case otrng_mpi_deserialize_no_copy buffer of
       None \<Rightarrow> None
     | Some (mpi, _) \<Rightarrow>
         (case otrng_dh_mpi_deserialize C dst (otrng_mpi_memcpy mpi) of
            None \<Rightarrow> None
          | Some (m, w) \<Rightarrow> Some (m, w + 4)))"

definition otrng_deserialize_ec_point :: "('p, 's, 'm, 'h) crypto_ops \<Rightarrow> bytes \<Rightarrow> 'p option" where
  "otrng_deserialize_ec_point C ser =
    (if length ser < ED448_POINT_BYTES then None else otrng_ec_point_decode C ser)"

definition otrng_deserialize_ec_scalar :: "('p, 's, 'm, 'h) crypto_ops \<Rightarrow> bytes \<Rightarrow> 's option" where
  "otrng_deserialize_ec_scalar C ser =
    (if length ser < ED448_SCALAR_BYTES then None else Some (otrng_ec_scalar_decode C ser))"

subsection \<open>Long-term keys\<close>

definition ED448_PUBKEY_TYPE :: u16 where [const_defs]: "ED448_PUBKEY_TYPE = 0x0010"
definition ED448_FORGINGKEY_TYPE :: u16 where [const_defs]: "ED448_FORGINGKEY_TYPE = 0x0012"
definition ED448_SHARED_PREKEY_TYPE :: u16 where [const_defs]: "ED448_SHARED_PREKEY_TYPE = 0x0011"
definition ED448_PUBKEY_BYTES :: nat where [const_defs]: "ED448_PUBKEY_BYTES = 2 + ED448_POINT_BYTES"
definition ED448_SHARED_PREKEY_BYTES :: nat where
  [const_defs]: "ED448_SHARED_PREKEY_BYTES = 2 + ED448_POINT_BYTES"

definition otrng_serialize_public_key :: "('p, 's, 'm, 'h) crypto_ops \<Rightarrow> 'p \<Rightarrow> bytes" where
  "otrng_serialize_public_key C pub =
    otrng_serialize_uint16 ED448_PUBKEY_TYPE @ otrng_serialize_ec_point C pub"

definition otrng_serialize_forging_key :: "('p, 's, 'm, 'h) crypto_ops \<Rightarrow> 'p \<Rightarrow> bytes" where
  "otrng_serialize_forging_key C pub =
    otrng_serialize_uint16 ED448_FORGINGKEY_TYPE @ otrng_serialize_ec_point C pub"

definition otrng_serialize_shared_prekey :: "('p, 's, 'm, 'h) crypto_ops \<Rightarrow> 'p \<Rightarrow> bytes" where
  "otrng_serialize_shared_prekey C shared_prekey =
    otrng_serialize_uint16 ED448_SHARED_PREKEY_TYPE @ otrng_serialize_ec_point C shared_prekey"

definition otrng_deserialize_public_key :: "('p, 's, 'm, 'h) crypto_ops \<Rightarrow> bytes \<Rightarrow> 'p parsed" where
  "otrng_deserialize_public_key C ser =
    (if length ser < ED448_PUBKEY_BYTES then None
     else case otrng_deserialize_uint16 ser of
         None \<Rightarrow> None
       | Some (pubkey_type, r) \<Rightarrow>
           if ED448_PUBKEY_TYPE \<noteq> pubkey_type then None
           else case otrng_deserialize_ec_point C (drop r ser) of
               None \<Rightarrow> None
             | Some pub \<Rightarrow> Some (pub, ED448_PUBKEY_BYTES))"

definition otrng_deserialize_forging_key :: "('p, 's, 'm, 'h) crypto_ops \<Rightarrow> bytes \<Rightarrow> 'p parsed" where
  "otrng_deserialize_forging_key C ser =
    (if length ser < ED448_PUBKEY_BYTES then None
     else case otrng_deserialize_uint16 ser of
         None \<Rightarrow> None
       | Some (pubkey_type, r) \<Rightarrow>
           if ED448_FORGINGKEY_TYPE \<noteq> pubkey_type then None
           else case otrng_deserialize_ec_point C (drop r ser) of
               None \<Rightarrow> None
             | Some pub \<Rightarrow> Some (pub, ED448_PUBKEY_BYTES))"

definition otrng_deserialize_shared_prekey :: "('p, 's, 'm, 'h) crypto_ops \<Rightarrow> bytes \<Rightarrow> 'p parsed" where
  "otrng_deserialize_shared_prekey C ser =
    (if length ser < ED448_PUBKEY_BYTES then None
     else case otrng_deserialize_uint16 ser of
         None \<Rightarrow> None
       | Some (shared_prekey_type, r) \<Rightarrow>
           if ED448_SHARED_PREKEY_TYPE \<noteq> shared_prekey_type then None
           else case otrng_deserialize_ec_point C (drop r ser) of
               None \<Rightarrow> None
             | Some shared_prekey \<Rightarrow> Some (shared_prekey, ED448_SHARED_PREKEY_BYTES))"

subsection \<open>Ring signatures and the phi value\<close>

record 's ring_sig_s =
  sig_c1 :: 's
  sig_r1 :: 's
  sig_c2 :: 's
  sig_r2 :: 's
  sig_c3 :: 's
  sig_r3 :: 's

definition RING_SIG_BYTES :: nat where [const_defs]: "RING_SIG_BYTES = 6 * ED448_SCALAR_BYTES"

definition otrng_serialize_ring_sig :: "('p, 's, 'm, 'h) crypto_ops \<Rightarrow> 's ring_sig_s \<Rightarrow> bytes" where
  "otrng_serialize_ring_sig C prf =
    otrng_serialize_ec_scalar C (sig_c1 prf) @ otrng_serialize_ec_scalar C (sig_r1 prf) @
    otrng_serialize_ec_scalar C (sig_c2 prf) @ otrng_serialize_ec_scalar C (sig_r2 prf) @
    otrng_serialize_ec_scalar C (sig_c3 prf) @ otrng_serialize_ec_scalar C (sig_r3 prf)"

definition otrng_deserialize_ring_sig ::
    "('p, 's, 'm, 'h) crypto_ops \<Rightarrow> bytes \<Rightarrow> ('s ring_sig_s) parsed" where
  "otrng_deserialize_ring_sig C ser =
    (if length ser < RING_SIG_BYTES then None
     else do {
       a1 \<leftarrow> otrng_deserialize_ec_scalar C ser;
       let ser = drop ED448_SCALAR_BYTES ser;
       b1 \<leftarrow> otrng_deserialize_ec_scalar C ser;
       let ser = drop ED448_SCALAR_BYTES ser;
       a2 \<leftarrow> otrng_deserialize_ec_scalar C ser;
       let ser = drop ED448_SCALAR_BYTES ser;
       b2 \<leftarrow> otrng_deserialize_ec_scalar C ser;
       let ser = drop ED448_SCALAR_BYTES ser;
       a3 \<leftarrow> otrng_deserialize_ec_scalar C ser;
       let ser = drop ED448_SCALAR_BYTES ser;
       b3 \<leftarrow> otrng_deserialize_ec_scalar C ser;
       Some (\<lparr>sig_c1 = a1, sig_r1 = b1, sig_c2 = a2, sig_r2 = b2, sig_c3 = a3, sig_r3 = b3\<rparr>, RING_SIG_BYTES) })"

text \<open>The instance tags are parameters of 16 bits, the string ends at its terminator.\<close>

definition otrng_serialize_phi :: "bytes \<Rightarrow> u16 \<Rightarrow> u16 \<Rightarrow> bytes" where
  "otrng_serialize_phi shared_session_state sender_instance_tag receiver_instance_tag =
    (if sender_instance_tag < receiver_instance_tag
     then otrng_serialize_uint16 sender_instance_tag @ otrng_serialize_uint16 receiver_instance_tag
     else otrng_serialize_uint16 receiver_instance_tag @ otrng_serialize_uint16 sender_instance_tag) @
    otrng_serialize_data (Some shared_session_state) (length shared_session_state)"

subsection \<open>The interface of a message format\<close>

text \<open>
  What a message format relies on: reading back what was written, with any bytes after it,
  returns the value and consumes exactly what was written; and a reader never claims more bytes
  than the buffer holds.  The relation \<open>sim\<close> is equality for plain data; for group elements it
  is equality of the element the representation stands for.
\<close>

locale wire_codec_upto =
  fixes enc :: "'a \<Rightarrow> bytes"
    and dec :: "bytes \<Rightarrow> 'b parsed"
    and wf :: "'a \<Rightarrow> bool"
    and sim :: "'a \<Rightarrow> 'b \<Rightarrow> bool"
  assumes dec_enc_upto: "wf x \<Longrightarrow> \<exists>y. dec (enc x @ rest) = Some (y, length (enc x)) \<and> sim x y"
    and dec_bounded: "dec bs = Some (y, n) \<Longrightarrow> n \<le> length bs"
begin

lemma dec_enc_nil: "wf x \<Longrightarrow> \<exists>y. dec (enc x) = Some (y, length (enc x)) \<and> sim x y"
  using dec_enc_upto[of x "[]"] by simp

text \<open>The format is self-delimiting: equal streams start with values that read back alike.\<close>

lemma enc_self_delimiting:
  assumes "wf x" "wf y" "enc x @ r = enc y @ r'"
  shows "enc x = enc y \<and> r = r'"
proof -
  from dec_enc_upto[OF assms(1), of r] dec_enc_upto[OF assms(2), of r'] assms(3)
  have "length (enc x) = length (enc y)" by auto
  with assms(3) show ?thesis by simp
qed

end

locale wire_codec =
  fixes enc :: "'a \<Rightarrow> bytes"
    and dec :: "bytes \<Rightarrow> 'a parsed"
    and wf :: "'a \<Rightarrow> bool"
  assumes dec_enc: "wf x \<Longrightarrow> dec (enc x @ rest) = Some (x, length (enc x))"
    and dec_le: "dec bs = Some (y, n) \<Longrightarrow> n \<le> length bs"

sublocale wire_codec \<subseteq> wire_codec_upto enc dec wf "(=)"
  by unfold_locales (simp_all add: dec_enc dec_le)

context wire_codec
begin

lemma enc_inj: "wf x \<Longrightarrow> wf y \<Longrightarrow> enc x @ r = enc y @ r' \<Longrightarrow> x = y \<and> r = r'"
  using dec_enc[of x r] dec_enc[of y r'] enc_self_delimiting[of x y r r'] by auto

text \<open>A stream of values has one reading.\<close>

lemma enc_list_inj:
  assumes "list_all wf xs" "list_all wf ys" "length xs = length ys"
    and "concat (map enc xs) @ r = concat (map enc ys) @ r'"
  shows "xs = ys \<and> r = r'"
  using assms(3,1,2,4)
proof (induction xs ys rule: list_induct2)
  case (Cons x xs y ys)
  then show ?case using enc_inj[of x y "concat (map enc xs) @ r" "concat (map enc ys) @ r'"] by simp
qed simp

end

subsection \<open>Integers read back\<close>

lemma length_serialize_uint [simp]: "length (serialize_uint d n) = n"
  by (induction n) auto

lemma length_serialize [wire_lengths, simp]:
  "length (otrng_serialize_uint64 q) = 8"
  "length (otrng_serialize_uint32 l) = 4"
  "length (otrng_serialize_uint16 w) = 2"
  "length (otrng_serialize_uint8 b) = 1"
  by (simp_all add: wire_defs)

lemma byte_of_shift: "(ucast (drop_bit n (x::u64) AND 0xFF) :: byte) = ucast (drop_bit n x)"
proof -
  have "(0xFF :: u64) = mask 8" by (simp add: mask_eq_exp_minus_1)
  then show ?thesis by (simp add: bit_eq_iff bit_simps)
qed

lemma serialize_uint_unroll:
  "serialize_uint x (Suc 0) = [ucast x]"
  "serialize_uint x 2 = [ucast (drop_bit 8 x), ucast x]"
  "serialize_uint x 4 = [ucast (drop_bit 24 x), ucast (drop_bit 16 x), ucast (drop_bit 8 x), ucast x]"
  "serialize_uint x 8 = [ucast (drop_bit 56 x), ucast (drop_bit 48 x), ucast (drop_bit 40 x),
     ucast (drop_bit 32 x), ucast (drop_bit 24 x), ucast (drop_bit 16 x), ucast (drop_bit 8 x), ucast x]"
  by (simp_all only: numeral_eq_Suc One_nat_def pred_numeral_simps BitM.simps serialize_uint.simps
      byte_of_shift) simp_all

text \<open>The or of two adjacent slices of a word is the longer slice.\<close>

lemma slice_or:
  fixes x :: "'a::len word"
  shows "take_bit k x OR (push_bit k (take_bit 8 (drop_bit k x)) OR y) = take_bit (k + 8) x OR y"
    and "take_bit k x OR push_bit k (take_bit 8 (drop_bit k x)) = take_bit (k + 8) x"
  by (rule bit_eqI, auto simp: bit_simps)+

lemma byte_slice: "(ucast (ucast (y :: 'a::len word) :: byte) :: 'a word) = take_bit 8 y"
  by (rule bit_eqI) (auto simp: bit_simps)

lemma slice_widen:
  "(ucast (drop_bit n (ucast (x :: u32) :: u64)) :: byte) = ucast (drop_bit n x)"
  "(ucast (drop_bit n (ucast (w :: u16) :: u64)) :: byte) = ucast (drop_bit n w)"
  "(ucast (ucast (x :: u32) :: u64) :: byte) = ucast x"
  "(ucast (ucast (w :: u16) :: u64) :: byte) = ucast w"
  "(ucast (ucast (b :: byte) :: u64) :: byte) = b"
  by (rule bit_eqI, auto simp: bit_simps dest: bit_imp_le_length)+

lemma deserialize_uint64_serialize [wire_roundtrip, simp]:
  "otrng_deserialize_uint64 (otrng_serialize_uint64 x @ rest) = Some (x, 8)"
  using slice_or[of 8 x] slice_or[of 16 x] slice_or[of 24 x] slice_or[of 32 x] slice_or[of 40 x]
    slice_or[of 48 x] slice_or(2)[of 56 x]
  by (simp add: wire_defs serialize_uint_unroll byte_slice take_bit_word_eq_self)

lemma deserialize_uint32_serialize [wire_roundtrip, simp]:
  "otrng_deserialize_uint32 (otrng_serialize_uint32 x @ rest) = Some (x, 4)"
  using slice_or[of 8 x] slice_or[of 16 x] slice_or(2)[of 24 x]
  by (simp add: wire_defs serialize_uint_unroll byte_slice slice_widen take_bit_word_eq_self)

lemma deserialize_uint16_serialize [wire_roundtrip, simp]:
  "otrng_deserialize_uint16 (otrng_serialize_uint16 x @ rest) = Some (x, 2)"
  using slice_or(2)[of 8 x]
  by (simp add: wire_defs serialize_uint_unroll byte_slice slice_widen take_bit_word_eq_self)

lemma serialize_uint8_eq [simp]: "otrng_serialize_uint8 b = [b]"
  by (simp only: otrng_serialize_uint8_def One_nat_def serialize_uint_unroll slice_widen)

lemma deserialize_uint8_Cons [simp]: "otrng_deserialize_uint8 (b # rest) = Some (b, 1)"
  by (simp add: wire_defs)

lemma deserialize_uint_bounded:
  "otrng_deserialize_uint64 bs = Some (q, n) \<Longrightarrow> n = 8 \<and> 8 \<le> length bs"
  "otrng_deserialize_uint32 bs = Some (l, n) \<Longrightarrow> n = 4 \<and> 4 \<le> length bs"
  "otrng_deserialize_uint16 bs = Some (w, n) \<Longrightarrow> n = 2 \<and> 2 \<le> length bs"
  "otrng_deserialize_uint8 bs = Some (b, n) \<Longrightarrow> n = 1 \<and> 1 \<le> length bs"
  by (auto simp: wire_defs Suc_le_eq split: if_splits)

lemma deserialize_uint_short:
  "length bs < 8 \<Longrightarrow> otrng_deserialize_uint64 bs = None"
  "length bs < 4 \<Longrightarrow> otrng_deserialize_uint32 bs = None"
  "length bs < 2 \<Longrightarrow> otrng_deserialize_uint16 bs = None"
  by (simp_all add: wire_defs)

interpretation u64: wire_codec otrng_serialize_uint64 otrng_deserialize_uint64 "\<lambda>_. True"
  by unfold_locales (auto dest: deserialize_uint_bounded)

interpretation u32: wire_codec otrng_serialize_uint32 otrng_deserialize_uint32 "\<lambda>_. True"
  by unfold_locales (auto dest: deserialize_uint_bounded)

interpretation u16: wire_codec otrng_serialize_uint16 otrng_deserialize_uint16 "\<lambda>_. True"
  by unfold_locales (auto dest: deserialize_uint_bounded)

interpretation u8: wire_codec otrng_serialize_uint8 otrng_deserialize_uint8 "\<lambda>_. True"
  by unfold_locales (auto dest: deserialize_uint_bounded)

text \<open>The readers accept exactly the buffers that start with the network order of the value.\<close>

lemma four_bytes: "\<exists>x. otrng_serialize_uint32 x = [a, b, c, d]"
proof -
  let ?x = "ucast d OR push_bit 8 (ucast c) OR push_bit 16 (ucast b) OR push_bit 24 (ucast a) :: u32"
  have "ucast ?x = d" "ucast (drop_bit 8 ?x) = c" "ucast (drop_bit 16 ?x) = b" "ucast (drop_bit 24 ?x) = a"
    by (rule bit_eqI, auto simp: bit_simps dest: bit_imp_le_length)+
  then have "otrng_serialize_uint32 ?x = [a, b, c, d]"
    by (simp add: wire_defs serialize_uint_unroll slice_widen)
  then show ?thesis ..
qed

lemma deserialize_uint32_Some:
  "otrng_deserialize_uint32 bs = Some (x, n) \<longleftrightarrow>
     n = 4 \<and> 4 \<le> length bs \<and> otrng_serialize_uint32 x = take 4 bs"
proof (cases "4 \<le> length bs")
  case True
  then obtain a b c d r where bs: "bs = a # b # c # d # r" by (rule list_of_length_4)
  obtain y where y: "otrng_serialize_uint32 y = [a, b, c, d]" using four_bytes by blast
  with bs have "bs = otrng_serialize_uint32 y @ r" by simp
  then have "otrng_deserialize_uint32 bs = Some (y, 4)" "take 4 bs = otrng_serialize_uint32 y"
    by simp_all
  then show ?thesis using u32.enc_inj[where x = x and y = y and r = "[]" and r' = "[]"] True by auto
next
  case False
  then show ?thesis by (simp add: deserialize_uint_short)
qed

subsection \<open>Data fields read back\<close>

definition wf_data :: "bytes option \<Rightarrow> bool" where
  "wf_data d = (case d of None \<Rightarrow> True | Some bs \<Rightarrow> bs \<noteq> [] \<and> length bs < 2 ^ 32)"

definition serialize_data_field :: "bytes option \<Rightarrow> bytes" where
  "serialize_data_field d = otrng_serialize_data d (case d of None \<Rightarrow> 0 | Some bs \<Rightarrow> length bs)"

lemma of_nat_u32_unat: "n < 2 ^ 32 \<Longrightarrow> unat (of_nat n :: u32) = n"
  by (simp add: unsigned_of_nat take_bit_nat_eq_self)

lemma unat_u32_less: "unat (x :: u32) < 2 ^ 32"
  using unsigned_less[of x] by simp

lemma of_nat_u32_eq_0: "n < 2 ^ 32 \<Longrightarrow> (of_nat n :: u32) = 0 \<longleftrightarrow> n = 0"
  using of_nat_u32_unat[of n] by (auto simp flip: unat_eq_zero)

lemma length_serialize_data [wire_lengths]:
  "length (otrng_serialize_data (Some bs) (length bs)) = 4 + length bs"
  by (simp add: otrng_serialize_data_def otrng_serialize_bytes_array_def)

lemma deserialize_data_serialize:
  assumes "length bs < 2 ^ 32"
  shows "otrng_deserialize_data (otrng_serialize_data (Some bs) (length bs) @ rest) =
           Some (if bs = [] then None else Some bs, 4 + length bs)"
  using assms
  by (simp add: otrng_deserialize_data_def otrng_serialize_data_def otrng_serialize_bytes_array_def
      of_nat_u32_unat of_nat_u32_eq_0)

lemma deserialize_data_bounded:
  "otrng_deserialize_data bs = Some (d, n) \<Longrightarrow> n \<le> length bs \<and> 4 \<le> n \<and> wf_data d"
  using unat_u32_less
  by (auto simp: otrng_deserialize_data_def wf_data_def unat_eq_zero min_def
      split: option.splits if_splits prod.splits dest!: deserialize_uint_bounded)

interpretation data_field: wire_codec serialize_data_field otrng_deserialize_data wf_data
proof
  fix d rest assume "wf_data d"
  then show "otrng_deserialize_data (serialize_data_field d @ rest) = Some (d, length (serialize_data_field d))"
  proof (cases d)
    case None
    then show ?thesis
      by (simp add: serialize_data_field_def otrng_serialize_data_def otrng_serialize_bytes_array_def
          otrng_deserialize_data_def)
  next
    case (Some bs)
    then show ?thesis using \<open>wf_data d\<close>
      by (simp add: wf_data_def serialize_data_field_def deserialize_data_serialize length_serialize_data)
  qed
qed (simp add: deserialize_data_bounded)

lemma mpi_deserialize_serialize:
  assumes "length bs < 2 ^ 32"
  shows "otrng_mpi_deserialize (otrng_serialize_mpi (otrng_mpi_set (Some bs) (length bs)) @ rest) =
           Some (otrng_mpi_set (Some bs) (length bs), 4 + length bs)"
    and "otrng_mpi_deserialize_no_copy (otrng_serialize_mpi (otrng_mpi_set (Some bs) (length bs)) @ rest) =
           Some (otrng_mpi_set (Some bs) (length bs), 4)"
    and "otrng_mpi_memcpy (otrng_mpi_set (Some bs) (length bs)) = bs"
  using assms
  by (auto simp: otrng_mpi_deserialize_def otrng_mpi_deserialize_no_copy_def otr_mpi_read_len_def
      otrng_serialize_mpi_def otrng_mpi_set_def otrng_serialize_data_def otrng_mpi_memcpy_def
      otrng_serialize_bytes_array_def of_nat_u32_unat of_nat_u32_eq_0 Let_def)

subsection \<open>Group elements read back\<close>

lemma serialize_ec_point_eq: "otrng_serialize_ec_point C p = point_encode_like_eddsa C p"
  by (simp add: otrng_serialize_ec_point_def otrng_ec_point_encode_def)

lemma length_serialize_group [wire_lengths]:
  assumes "goldilocks_ok C S"
  shows "length (otrng_serialize_ec_point C p) = 57" "length (otrng_serialize_ec_scalar C s) = 56"
    and "length (point_encode_like_eddsa C p) = 57" "length (scalar_encode C s) = 56"
  using goldilocks_point(9)[OF assms] goldilocks_scalar_codec(1)[OF assms]
  by (simp_all add: serialize_ec_point_eq otrng_serialize_ec_scalar_def const_defs)

lemma deserialize_ec_point_serialize:
  assumes G: "goldilocks_ok C S"
  obtains q where "otrng_deserialize_ec_point C (otrng_serialize_ec_point C p @ rest) = Some q"
    and "dlog S q = dlog S p"
  using ec_point_roundtrip[OF G, of p rest] that
  by (auto simp: otrng_deserialize_ec_point_def serialize_ec_point_eq length_serialize_group[OF G] const_defs)

lemma deserialize_ec_scalar_serialize:
  assumes G: "goldilocks_ok C S"
  obtains t where "otrng_deserialize_ec_scalar C (otrng_serialize_ec_scalar C s @ rest) = Some t"
    and "sval S t = sval S s"
  using ec_scalar_roundtrip[OF G, of s rest] that
  by (auto simp: otrng_deserialize_ec_scalar_def otrng_serialize_ec_scalar_def
      length_serialize_group[OF G] const_defs)

definition ring_sig_eq :: "('p, 's, 'm, 'h) crypto_sem \<Rightarrow> 's ring_sig_s \<Rightarrow> 's ring_sig_s \<Rightarrow> bool" where
  "ring_sig_eq S a b \<longleftrightarrow>
     sval S (sig_c1 a) = sval S (sig_c1 b) \<and> sval S (sig_r1 a) = sval S (sig_r1 b) \<and>
     sval S (sig_c2 a) = sval S (sig_c2 b) \<and> sval S (sig_r2 a) = sval S (sig_r2 b) \<and>
     sval S (sig_c3 a) = sval S (sig_c3 b) \<and> sval S (sig_r3 a) = sval S (sig_r3 b)"

lemma deserialize_ring_sig_serialize:
  assumes G: "goldilocks_ok C S"
  obtains g' where "otrng_deserialize_ring_sig C (otrng_serialize_ring_sig C g @ rest) = Some (g', RING_SIG_BYTES)"
    and "ring_sig_eq S g' g"
proof -
  note L = length_serialize_group[OF G]
  let ?d = "\<lambda>s. otrng_ec_scalar_decode C (otrng_serialize_ec_scalar C s)"
  have D: "otrng_deserialize_ec_scalar C (otrng_serialize_ec_scalar C s @ r) = Some (?d s)" for s r
    by (simp add: otrng_deserialize_ec_scalar_def otrng_ec_scalar_decode_def L const_defs)
  have V: "sval S (?d s) = sval S s" for s
    using ec_scalar_roundtrip[OF G, of s "[]"] by (simp add: otrng_serialize_ec_scalar_def)
  let ?g = "\<lparr>sig_c1 = ?d (sig_c1 g), sig_r1 = ?d (sig_r1 g), sig_c2 = ?d (sig_c2 g),
    sig_r2 = ?d (sig_r2 g), sig_c3 = ?d (sig_c3 g), sig_r3 = ?d (sig_r3 g)\<rparr>"
  have "otrng_deserialize_ring_sig C (otrng_serialize_ring_sig C g @ rest) = Some (?g, RING_SIG_BYTES)"
    by (simp add: otrng_deserialize_ring_sig_def otrng_serialize_ring_sig_def D L const_defs Let_def)
  then show ?thesis by (rule that) (simp add: ring_sig_eq_def V)
qed

text \<open>Each kind of long-term key reads back as itself and as neither of the other kinds.\<close>

lemma deserialize_keys_serialize:
  assumes G: "goldilocks_ok C S"
  shows "\<exists>q. otrng_deserialize_public_key C (otrng_serialize_public_key C p @ rest) = Some (q, 59) \<and> dlog S q = dlog S p"
    and "\<exists>q. otrng_deserialize_forging_key C (otrng_serialize_forging_key C p @ rest) = Some (q, 59) \<and> dlog S q = dlog S p"
    and "\<exists>q. otrng_deserialize_shared_prekey C (otrng_serialize_shared_prekey C p @ rest) = Some (q, 59) \<and> dlog S q = dlog S p"
    and "otrng_deserialize_public_key C (otrng_serialize_forging_key C p @ rest) = None"
    and "otrng_deserialize_forging_key C (otrng_serialize_public_key C p @ rest) = None"
    and "otrng_deserialize_public_key C (otrng_serialize_shared_prekey C p @ rest) = None"
    and "otrng_deserialize_shared_prekey C (otrng_serialize_public_key C p @ rest) = None"
  by (rule deserialize_ec_point_serialize[OF G, of p rest];
      simp add: otrng_deserialize_public_key_def otrng_deserialize_forging_key_def
       otrng_deserialize_shared_prekey_def otrng_serialize_public_key_def otrng_serialize_forging_key_def
       otrng_serialize_shared_prekey_def length_serialize_group[OF G] const_defs)+

text \<open>A Diffie-Hellman integer below the modulus bound reads back as the same number.\<close>

lemma deserialize_dh_mpi_serialize:
  assumes M: "gcrypt_ok C S" and b: "mval S m < 256 ^ DH3072_MOD_LEN_BYTES" and "0 < mval S m"
  obtains m' bs where "otrng_serialize_dh_mpi_otr C DH_MPI_MAX_BYTES (Some m) = Some bs"
    "otrng_deserialize_dh_mpi_otr C dst (bs @ rest) = Some (Some m', length bs)"
    "mval S m' = mval S m" "length bs \<le> DH_MPI_MAX_BYTES"
proof -
  from M b obtain bs where bs: "mpi_print C m = Some bs" "length bs \<le> DH3072_MOD_LEN_BYTES" "be_value bs = mval S m"
    unfolding gcrypt_ok_def by blast
  from M obtain m' where m': "mpi_scan C bs = Some m'" "mval S m' = be_value bs"
    unfolding gcrypt_ok_def by blast
  have ne: "bs \<noteq> []" using bs(3) assms(3) by auto
  have len: "length bs < 2 ^ 32" using bs(2) by (simp add: const_defs)
  let ?out = "otrng_serialize_mpi (otrng_mpi_set (Some bs) (length bs))"
  have lo: "length ?out = 4 + length bs"
    using len ne by (simp add: otrng_serialize_mpi_def otrng_mpi_set_def Let_def of_nat_u32_unat length_serialize_data)
  show ?thesis
  proof (rule that)
    show "otrng_serialize_dh_mpi_otr C DH_MPI_MAX_BYTES (Some m) = Some ?out"
      using bs by (simp add: otrng_serialize_dh_mpi_otr_def otrng_dh_mpi_serialize_def Let_def)
    show "otrng_deserialize_dh_mpi_otr C dst (?out @ rest) = Some (Some m', length ?out)"
      using m' ne mpi_deserialize_serialize[OF len]
      by (simp add: otrng_deserialize_dh_mpi_otr_def otrng_dh_mpi_deserialize_def lo)
    show "mval S m' = mval S m" using bs m' by simp
    show "length ?out \<le> DH_MPI_MAX_BYTES" using bs(2) lo by (simp add: const_defs)
  qed
qed

subsection \<open>Group elements after the wire\<close>

definition wire_point :: "('p, 's, 'm, 'h) crypto_ops \<Rightarrow> 'p \<Rightarrow> 'p" where
  "wire_point C p = the (otrng_ec_point_decode C (otrng_serialize_ec_point C p))"

definition wire_scalar :: "('p, 's, 'm, 'h) crypto_ops \<Rightarrow> 's \<Rightarrow> 's" where
  "wire_scalar C s = otrng_ec_scalar_decode C (otrng_serialize_ec_scalar C s)"

lemma wire_point:
  assumes G: "goldilocks_ok C S"
  shows "otrng_deserialize_ec_point C (otrng_serialize_ec_point C p @ rest) = Some (wire_point C p)"
    and "otrng_deserialize_ec_point C (otrng_serialize_ec_point C p) = Some (wire_point C p)"
    and "dlog S (wire_point C p) = dlog S p"
proof -
  obtain q where q: "otrng_ec_point_decode C (point_encode_like_eddsa C p @ []) = Some q" "dlog S q = dlog S p"
    by (rule ec_point_roundtrip[OF G])
  have "otrng_ec_point_decode C (point_encode_like_eddsa C p @ r) = otrng_ec_point_decode C (point_encode_like_eddsa C p)" for r
    by (simp add: otrng_ec_point_decode_def goldilocks_point(9)[OF G])
  with q show "otrng_deserialize_ec_point C (otrng_serialize_ec_point C p @ rest) = Some (wire_point C p)"
    "otrng_deserialize_ec_point C (otrng_serialize_ec_point C p) = Some (wire_point C p)"
    "dlog S (wire_point C p) = dlog S p"
    by (simp_all add: wire_point_def serialize_ec_point_eq otrng_deserialize_ec_point_def goldilocks_point(9)[OF G])
qed

lemma wire_scalar:
  assumes G: "goldilocks_ok C S"
  shows "otrng_deserialize_ec_scalar C (otrng_serialize_ec_scalar C s @ rest) = Some (wire_scalar C s)"
    and "otrng_deserialize_ec_scalar C (otrng_serialize_ec_scalar C s) = Some (wire_scalar C s)"
    and "sval S (wire_scalar C s) = sval S s"
  using ec_scalar_roundtrip[OF G, of s "[]"]
  by (simp_all add: wire_scalar_def otrng_deserialize_ec_scalar_def otrng_ec_scalar_decode_def
      otrng_serialize_ec_scalar_def goldilocks_scalar_codec(1)[OF G])

lemma wire_drop:
  assumes G: "goldilocks_ok C S"
  shows "drop ED448_POINT_BYTES (otrng_serialize_ec_point C p @ rest) = rest"
    and "drop ED448_SCALAR_BYTES (otrng_serialize_ec_scalar C s @ rest) = rest"
  by (simp_all add: length_serialize_group[OF G] const_defs)

lemmas wire_group = wire_point wire_scalar wire_drop

text \<open>Diffie-Hellman integers and ring signatures after the wire.\<close>

definition dh_bytes :: "('p, 's, 'm, 'h) crypto_ops \<Rightarrow> 'm \<Rightarrow> bytes" where
  "dh_bytes C m = the (otrng_serialize_dh_mpi_otr C DH_MPI_MAX_BYTES (Some m))"

definition wire_mpi :: "('p, 's, 'm, 'h) crypto_ops \<Rightarrow> 'm \<Rightarrow> 'm" where
  "wire_mpi C m = the (fst (the (otrng_deserialize_dh_mpi_otr C None (dh_bytes C m))))"

definition in_dh_range :: "('p, 's, 'm, 'h) crypto_sem \<Rightarrow> 'm \<Rightarrow> bool" where
  "in_dh_range S m \<longleftrightarrow> 0 < mval S m \<and> mval S m < 256 ^ DH3072_MOD_LEN_BYTES"

text \<open>A reader that succeeds does not look beyond what it consumed.\<close>

lemma deserialize_uint32_extend:
  "otrng_deserialize_uint32 bs = Some (x, n) \<Longrightarrow> otrng_deserialize_uint32 (bs @ r) = Some (x, n)"
  by (auto simp: deserialize_uint32_Some)

lemma mpi_read_extend:
  assumes "otrng_mpi_deserialize_no_copy bs = Some m"
  shows "otrng_mpi_deserialize_no_copy (bs @ r) = Some m"
proof (cases "otrng_deserialize_uint32 bs")
  case None
  with assms show ?thesis by (simp add: otrng_mpi_deserialize_no_copy_def otr_mpi_read_len_def)
next
  case (Some p)
  obtain l n where p: "p = (l, n)" by fastforce
  with Some have n: "n = 4" "4 \<le> length bs" by (simp_all add: deserialize_uint32_Some)
  show ?thesis
    using assms Some deserialize_uint32_extend[OF Some[unfolded p], of r] n p
    by (auto simp: otrng_mpi_deserialize_no_copy_def otr_mpi_read_len_def split: if_splits)
qed

lemma dh_mpi_extend:
  "otrng_deserialize_dh_mpi_otr C dst bs = Some (v, n) \<Longrightarrow> otrng_deserialize_dh_mpi_otr C dst (bs @ r) = Some (v, n)"
  by (auto simp: otrng_deserialize_dh_mpi_otr_def mpi_read_extend split: option.splits prod.splits)

lemma wire_mpi:
  assumes M: "gcrypt_ok C S" and "in_dh_range S m"
  shows "DH_MPI_MAX_BYTES \<le> n \<Longrightarrow> otrng_serialize_dh_public_key C n (Some m) = Some (dh_bytes C m)"
    and "otrng_deserialize_dh_mpi_otr C None (dh_bytes C m @ rest) = Some (Some (wire_mpi C m), length (dh_bytes C m))"
    and "otrng_deserialize_dh_mpi_otr C None (dh_bytes C m) = Some (Some (wire_mpi C m), length (dh_bytes C m))"
    and "mval S (wire_mpi C m) = mval S m" and "length (dh_bytes C m) \<le> DH_MPI_MAX_BYTES"
proof -
  have r: "\<exists>m' bs. otrng_serialize_dh_mpi_otr C DH_MPI_MAX_BYTES (Some m) = Some bs \<and>
     otrng_deserialize_dh_mpi_otr C None (bs @ r) = Some (Some m', length bs) \<and> mval S m' = mval S m \<and>
     length bs \<le> DH_MPI_MAX_BYTES" for r
    using deserialize_dh_mpi_serialize[OF M, of m None r] assms(2) unfolding in_dh_range_def by metis
  from r[of "[]"] show d: "otrng_deserialize_dh_mpi_otr C None (dh_bytes C m) = Some (Some (wire_mpi C m), length (dh_bytes C m))"
    and v: "mval S (wire_mpi C m) = mval S m" and "length (dh_bytes C m) \<le> DH_MPI_MAX_BYTES"
    by (auto simp: dh_bytes_def wire_mpi_def)
  show "otrng_deserialize_dh_mpi_otr C None (dh_bytes C m @ rest) = Some (Some (wire_mpi C m), length (dh_bytes C m))"
    by (rule dh_mpi_extend[OF d])
  show "otrng_serialize_dh_public_key C n (Some m) = Some (dh_bytes C m)" if "DH_MPI_MAX_BYTES \<le> n"
    using that r[of "[]"] by (auto simp: otrng_serialize_dh_public_key_def otrng_serialize_dh_mpi_otr_def dh_bytes_def split: option.splits)
qed

definition wire_sig :: "('p, 's, 'm, 'h) crypto_ops \<Rightarrow> 's ring_sig_s \<Rightarrow> 's ring_sig_s" where
  "wire_sig C g = \<lparr>sig_c1 = wire_scalar C (sig_c1 g), sig_r1 = wire_scalar C (sig_r1 g), sig_c2 = wire_scalar C (sig_c2 g),
     sig_r2 = wire_scalar C (sig_r2 g), sig_c3 = wire_scalar C (sig_c3 g), sig_r3 = wire_scalar C (sig_r3 g)\<rparr>"

lemma wire_sig:
  assumes G: "goldilocks_ok C S"
  shows "otrng_deserialize_ring_sig C (otrng_serialize_ring_sig C g @ rest) = Some (wire_sig C g, RING_SIG_BYTES)"
    and "otrng_deserialize_ring_sig C (otrng_serialize_ring_sig C g) = Some (wire_sig C g, RING_SIG_BYTES)"
    and "ring_sig_eq S (wire_sig C g) g" and "length (otrng_serialize_ring_sig C g) = RING_SIG_BYTES"
  by (simp_all add: otrng_deserialize_ring_sig_def otrng_serialize_ring_sig_def wire_group[OF G] wire_sig_def
      length_serialize_group[OF G] ring_sig_eq_def const_defs Let_def)

text \<open>What is written depends on the value only, not on its representation.\<close>

lemma wire_cong:
  assumes G: "goldilocks_ok C S"
  shows "dlog S p = dlog S q \<Longrightarrow> otrng_serialize_ec_point C p = otrng_serialize_ec_point C q"
    and "gcrypt_ok C S \<Longrightarrow> mval S m = mval S m' \<Longrightarrow> dh_bytes C m = dh_bytes C m'"
proof -
  show "otrng_serialize_ec_point C p = otrng_serialize_ec_point C q" if "dlog S p = dlog S q"
    using that goldilocks_point(10)[OF G] by (simp add: serialize_ec_point_eq)
  show "dh_bytes C m = dh_bytes C m'" if M: "gcrypt_ok C S" and "mval S m = mval S m'"
  proof -
    have "mpi_print C m = mpi_print C m'" using that unfolding gcrypt_ok_def by blast
    then show ?thesis by (simp add: dh_bytes_def otrng_serialize_dh_mpi_otr_def otrng_dh_mpi_serialize_def)
  qed
qed

lemma wire_bytes:
  assumes G: "goldilocks_ok C S"
  shows "otrng_serialize_ec_point C (wire_point C p) = otrng_serialize_ec_point C p"
    and "gcrypt_ok C S \<Longrightarrow> in_dh_range S m \<Longrightarrow> dh_bytes C (wire_mpi C m) = dh_bytes C m"
    and "gcrypt_ok C S \<Longrightarrow> in_dh_range S m \<Longrightarrow> in_dh_range S (wire_mpi C m)"
proof -
  show "otrng_serialize_ec_point C (wire_point C p) = otrng_serialize_ec_point C p"
    by (rule wire_cong(1)[OF G wire_point(3)[OF G]])
  show "dh_bytes C (wire_mpi C m) = dh_bytes C m" if "gcrypt_ok C S" "in_dh_range S m"
    by (rule wire_cong(2)[OF G that(1) wire_mpi(4)[OF that]])
  show "in_dh_range S (wire_mpi C m)" if "gcrypt_ok C S" "in_dh_range S m"
    using that(2) wire_mpi(4)[OF that] by (simp add: in_dh_range_def)
qed

end
