(* ===== verification/Crypto_Instance.thy ===== *)
theory Crypto_Instance
  imports Wire
begin

text \<open>
  A small concrete environment: the residues modulo seven as scalars and as a cyclic group, an
  additive checksum as output function, natural numbers as big integers and a one-byte key
  stream.  It meets every law the theorems assume of the packages, so that their hypotheses hold
  together, and it is executable, so that they can be applied to concrete inputs.
\<close>

fun be_bytes :: "nat \<Rightarrow> bytes" where
  "be_bytes n = (if n = 0 then [] else be_bytes (n div 256) @ [of_nat n])"

declare be_bytes.simps [simp del]

definition res_encode :: "nat \<Rightarrow> int \<Rightarrow> bytes" where
  "res_encode n x = of_int (x mod 7) # replicate n 0"

definition res_decode :: "bytes \<Rightarrow> int" where
  "res_decode bs = (case bs of [] \<Rightarrow> 0 | b # _ \<Rightarrow> uint b mod 7)"

definition sum_bytes :: "bytes \<Rightarrow> byte" where
  "sum_bytes bs = foldr (+) bs 0"

definition sum_xof :: "bytes \<Rightarrow> nat \<Rightarrow> bytes" where
  "sum_xof x n = (if n = 0 then [] else replicate (n - 1) 0 @ [of_nat (unat (sum_bytes x) mod 5 + 2)])"

text \<open>The transport encoding writes each byte as two letters.\<close>

definition hex_letter :: "nat \<Rightarrow> char" where
  "hex_letter n = ''ABCDEFGHIJKLMNOP'' ! n"

definition hex_body :: "bytes \<Rightarrow> string" where
  "hex_body bs = concat (map (\<lambda>b. [hex_letter (unat b div 16), hex_letter (unat b mod 16)]) bs)"

definition hex_encode :: "bytes \<Rightarrow> string" where
  "hex_encode bs = ''?OTR:'' @ hex_body bs @ ''.''"

fun hex_decode_body :: "string \<Rightarrow> bytes option" where
  "hex_decode_body (a # b # rest) =
     map_option ((#) (of_nat ((of_char a - 65) * 16 + (of_char b - 65)))) (hex_decode_body rest)"
| "hex_decode_body s = (if s = ''.'' then Some [] else None)"

definition hex_decode :: "string \<Rightarrow> bytes option" where
  "hex_decode s = hex_decode_body (drop 5 s)"

definition ex_crypto :: "(int, int, nat, bytes) crypto_ops" where
  "ex_crypto = \<lparr>
     point_base = 1,
     point_add = (\<lambda>p q. (p + q) mod 7),
     point_sub = (\<lambda>p q. (p - q) mod 7),
     point_scalarmul = (\<lambda>p s. (p * s) mod 7),
     point_eq = (\<lambda>p q. p mod 7 = q mod 7),
     point_valid = (\<lambda>p. True),
     point_encode_like_eddsa = res_encode 56,
     point_decode_like_eddsa = (\<lambda>bs. Some (4 * res_decode bs)),
     scalar_one = 1,
     scalar_add = (\<lambda>a b. (a + b) mod 7),
     scalar_sub = (\<lambda>a b. (a - b) mod 7),
     scalar_mul = (\<lambda>a b. (a * b) mod 7),
     scalar_halve = (\<lambda>a. (4 * a) mod 7),
     scalar_eq = (\<lambda>a b. a mod 7 = b mod 7),
     scalar_encode = res_encode 55,
     scalar_decode_long = res_decode,
     derive_secret_scalar = (\<lambda>seed. uint (sum_bytes seed) mod 7),
     derive_public_key = (\<lambda>seed. res_encode 56 (uint (sum_bytes seed) mod 7)),
     hash_init = [],
     hash_update = (\<lambda>h bs. Some (h @ bs)),
     hash_final = sum_xof,
     mpi_of_nat = (\<lambda>n. n),
     mpi_scan = (\<lambda>bs. Some (be_value bs)),
     mpi_print = (\<lambda>m. Some (be_bytes m)),
     mpi_powm = (\<lambda>b e m. b ^ e mod m),
     mpi_cmp = (\<lambda>a b. int a - int b),
     stream_xor = (\<lambda>msg nonce key. Some (map (\<lambda>b. b XOR sum_bytes key) msg)),
     ed448_sign = (\<lambda>sym pub msg. 1 # replicate 113 (sum_bytes (pub @ msg))),
     ed448_verify = (\<lambda>sig pub msg. sig = 1 # replicate 113 (sum_bytes (pub @ msg))),
     privkey_sign = (\<lambda>key msg. Some (replicate 40 (sum_bytes msg))),
     privkey_verify = (\<lambda>sig key msg. sig = replicate 40 (sum_bytes msg)),
     base64_otr_encode = hex_encode,
     base64_otr_decode = hex_decode \<rparr>"

definition ex_sem :: "(int, int, nat, bytes) crypto_sem" where
  "ex_sem = \<lparr> order = 7, sval = (\<lambda>s. s mod 7), dlog = (\<lambda>p. p mod 7), absorbed = (\<lambda>h. h),
     xof = sum_xof, mval = (\<lambda>m. m) \<rparr>"

subsection \<open>It meets the laws\<close>

lemma mod_7_cases:
  "(x :: int) mod 7 = 0 \<or> x mod 7 = 1 \<or> x mod 7 = 2 \<or> x mod 7 = 3 \<or> x mod 7 = 4 \<or>
   x mod 7 = 5 \<or> x mod 7 = 6"
  by presburger

lemma mod_7_no_zero_div:
  "(a * b :: int) mod 7 = 0 \<Longrightarrow> a mod 7 = 0 \<or> b mod 7 = 0"
proof -
  assume "(a * b) mod 7 = 0"
  then have "((a mod 7) * (b mod 7)) mod 7 = 0" by (simp add: mod_simps)
  then show ?thesis using mod_7_cases[of a] mod_7_cases[of b] by (elim disjE) simp_all
qed

lemma res_codec [simp]:
  "length (res_encode n x) = Suc n"
  "res_decode (res_encode n x) = x mod 7"
  "res_encode n x = res_encode n y \<longleftrightarrow> x mod 7 = y mod 7"
proof -
  have u: "uint (of_int (z mod 7) :: byte) = z mod 7" for z :: int
  proof -
    have "0 \<le> z mod 7" "z mod 7 < 256"
      using pos_mod_bound[of 7 z] by auto
    then show ?thesis by (simp add: unsigned_of_int take_bit_int_eq_self)
  qed
  show "length (res_encode n x) = Suc n" by (simp add: res_encode_def)
  have D: "res_decode (res_encode n z) = z mod 7" for z
    by (simp add: res_encode_def res_decode_def u)
  then show "res_decode (res_encode n x) = x mod 7" .
  show "res_encode n x = res_encode n y \<longleftrightarrow> x mod 7 = y mod 7"
    using arg_cong[of "res_encode n x" "res_encode n y" res_decode] unfolding D
    by (auto simp only: res_encode_def)
qed

lemma ex_scalar_laws: "scalar_laws ex_crypto ex_sem"
  unfolding scalar_laws_def
proof (intro conjI allI impI)
  fix a b :: int
  assume "(a * b) mod order ex_sem = 0"
  then show "a mod order ex_sem = 0 \<or> b mod order ex_sem = 0"
    using mod_7_no_zero_div[of a b] by (simp add: ex_sem_def)
next
  fix a :: int
  have "8 * a = a + 7 * a" by simp
  then have "8 * a mod 7 = a mod 7" by (simp only: mod_mult_self2)
  then have "2 * (4 * a mod 7 mod 7) mod 7 = a mod 7" by (simp add: mod_simps)
  then show "2 * sval ex_sem (scalar_halve ex_crypto a) mod order ex_sem = sval ex_sem a"
    by (simp add: ex_sem_def ex_crypto_def)
qed (simp_all add: ex_crypto_def ex_sem_def const_defs mod_simps)

lemma ex_point_laws: "point_laws ex_crypto ex_sem"
  by (auto simp: point_laws_def ex_crypto_def ex_sem_def const_defs mod_simps)

lemma ex_goldilocks_ok: "goldilocks_ok ex_crypto ex_sem"
  by (simp add: goldilocks_ok_def ex_scalar_laws ex_point_laws)

lemma ex_sponge_ok: "sponge_ok ex_crypto ex_sem"
  by (simp add: sponge_ok_def ex_crypto_def ex_sem_def sum_xof_def)

lemma be_value_append: "be_value (xs @ [b]) = be_value xs * 256 + unat b"
  by (induction xs) (auto simp: algebra_simps)

lemma be_value_bytes: "be_value (be_bytes n) = n"
proof (induction n rule: be_bytes.induct)
  case (1 n)
  then show ?case
    by (subst be_bytes.simps) (auto simp: be_value_append unsigned_of_nat take_bit_eq_mod)
qed

lemma length_be_bytes: "n < 256 ^ k \<Longrightarrow> length (be_bytes n) \<le> k"
proof (induction k arbitrary: n)
  case 0
  then show ?case by (simp add: be_bytes.simps)
next
  case (Suc k)
  then have "n div 256 < 256 ^ k" by (simp add: less_mult_imp_div_less mult.commute)
  with Suc.IH[of "n div 256"] show ?case by (subst be_bytes.simps) auto
qed

lemma ex_gcrypt_ok: "gcrypt_ok ex_crypto ex_sem"
  by (simp add: gcrypt_ok_def ex_crypto_def ex_sem_def be_value_bytes length_be_bytes)

lemma ex_stream_ok: "stream_ok ex_crypto"
  by (simp add: stream_ok_def ex_crypto_def comp_def xor.assoc)

lemma ex_eddsa_ok: "eddsa_ok ex_crypto"
  by (simp add: eddsa_ok_def ex_crypto_def otrng_is_empty_array_iff Cons_replicate_eq const_defs)

lemma unat_byte_less: "unat (b :: byte) < 256"
  using unsigned_less[of b] by simp

lemma unat_byte_inverse: "of_nat (unat (b :: byte)) = b"
  by simp

lemma hex_letter_facts:
  assumes "n < 16"
  shows "of_char (hex_letter n) = 65 + n" "is_base64_char (hex_letter n)" "hex_letter n \<noteq> CHR ''.''"
proof -
  have "n \<in> set [0..<16]" using assms by simp
  then show "of_char (hex_letter n) = 65 + n" "is_base64_char (hex_letter n)" "hex_letter n \<noteq> CHR ''.''"
    by (auto simp: upt_rec hex_letter_def is_base64_char_def)
qed

lemma hex_decode_body_eq: "hex_decode_body (hex_body bs @ ''.'') = Some bs"
proof (induction bs)
  case (Cons b bs)
  have b: "unat b div 16 < 16" "unat b mod 16 < 16" using unat_byte_less[of b] by (simp_all add: div_less_iff_less_mult)
  have "unat b div 16 * 16 + unat b mod 16 = unat b" by simp
  then have "(of_nat (unat b div 16 * 16 + unat b mod 16) :: byte) = b" by (simp only: unat_byte_inverse)
  with Cons.IH show ?case
    by (simp add: hex_body_def hex_letter_facts(1)[OF b(1)] hex_letter_facts(1)[OF b(2)])
qed (simp add: hex_body_def)

lemma hex_body_chars: "list_all is_base64_char (hex_body bs)"
proof (induction bs)
  case (Cons b bs)
  have "unat b div 16 < 16" "unat b mod 16 < 16" using unat_byte_less[of b] by (simp_all add: div_less_iff_less_mult)
  with Cons.IH show ?case by (simp add: hex_body_def hex_letter_facts(2))
qed (simp add: hex_body_def)

lemma ex_encoding_ok: "encoding_ok ex_crypto"
proof -
  have "take 8 (hex_encode bs) \<noteq> ''?OTR:AAM''" if "take 2 bs = [0, 4]" for bs
  proof -
    have "bs = [0, 4] @ drop 2 bs" using append_take_drop_id[of 2 bs] that by simp
    then obtain r where "bs = [0, 4] @ r" by blast
    then show ?thesis by (simp add: hex_encode_def hex_body_def hex_letter_def)
  qed
  then show ?thesis
    by (simp add: encoding_ok_def ex_crypto_def hex_encode_def hex_decode_def hex_decode_body_eq hex_body_chars)
qed

text \<open>The base64 of the packages, with padding.\<close>

definition b64_letters :: string where
  "b64_letters = ''ABCDEFGHIJKLMNOPQRSTUVWXYZ'' @ ''abcdefghijklmnopqrstuvwxyz'' @ ''0123456789+/''"

definition b64_value :: "char \<Rightarrow> nat" where
  "b64_value c = length (takeWhile (\<lambda>d. d \<noteq> c) b64_letters)"

definition b64_digits :: "nat \<Rightarrow> nat \<Rightarrow> string" where
  "b64_digits k v = map (\<lambda>i. b64_letters ! (v div 64 ^ i mod 64)) (rev [0..<k])"

fun b64_encode :: "bytes \<Rightarrow> string" where
  "b64_encode [] = []"
| "b64_encode [a] = b64_digits 2 (unat a * 16) @ ''==''"
| "b64_encode [a, b] = b64_digits 3 ((unat a * 256 + unat b) * 4) @ ''=''"
| "b64_encode (a # b # c # rest) = b64_digits 4 ((unat a * 256 + unat b) * 256 + unat c) @ b64_encode rest"

fun b64_decode :: "string \<Rightarrow> bytes" where
  "b64_decode (w # x # y # z # rest) =
     (let v = b64_value w * 64 + b64_value x in
      if y = CHR ''='' then [of_nat (v div 16)]
      else let v = v * 64 + b64_value y in
      if z = CHR ''='' then [of_nat (v div 4 div 256), of_nat (v div 4)]
      else let v = v * 64 + b64_value z in of_nat (v div 65536) # of_nat (v div 256) # of_nat v # b64_decode rest)"
| "b64_decode _ = []"

lemma index_distinct: "distinct xs \<Longrightarrow> n < length xs \<Longrightarrow> length (takeWhile (\<lambda>d. d \<noteq> xs ! n) xs) = n"
  by (induction xs arbitrary: n) (auto simp: nth_Cons split: nat.splits)

lemma b64_letter:
  assumes "n < 64"
  shows "b64_value (b64_letters ! n) = n" "is_base64_char (b64_letters ! n)" "b64_letters ! n \<noteq> CHR ''=''"
proof -
  have n: "n < length b64_letters" using assms by (simp add: b64_letters_def)
  have "distinct b64_letters" by (simp add: b64_letters_def)
  from index_distinct[OF this n] show "b64_value (b64_letters ! n) = n" by (simp add: b64_value_def)
  have "\<forall>c \<in> set b64_letters. is_base64_char c \<and> c \<noteq> CHR ''=''" by (simp add: b64_letters_def is_base64_char_def)
  with nth_mem[OF n] show "is_base64_char (b64_letters ! n)" "b64_letters ! n \<noteq> CHR ''=''" by blast+
qed

lemma b64_digits_shape:
  "b64_digits 2 v = [b64_letters ! (v div 64 mod 64), b64_letters ! (v mod 64)]"
  "b64_digits 3 v = [b64_letters ! (v div 4096 mod 64), b64_letters ! (v div 64 mod 64), b64_letters ! (v mod 64)]"
  "b64_digits 4 v = [b64_letters ! (v div 262144 mod 64), b64_letters ! (v div 4096 mod 64), b64_letters ! (v div 64 mod 64), b64_letters ! (v mod 64)]"
  by (simp_all add: b64_digits_def upt_rec)

lemma b64_length: "length (b64_encode bs) = (length bs + 2) div 3 * 4"
proof (induction bs rule: b64_encode.induct)
  case (4 a b c rest)
  have "length (a # b # c # rest) + 2 = length rest + 2 + 3" by simp
  then have "(length (a # b # c # rest) + 2) div 3 = (length rest + 2) div 3 + 1" using div_add_self2[of 3 "length rest + 2"] by linarith
  then show ?case using 4 by (simp only: b64_encode.simps b64_digits_shape length_append) simp
qed (simp_all add: b64_digits_shape)

lemma b64_chars: "list_all is_base64_char (b64_encode bs)"
proof -
  have "is_base64_char CHR ''=''" by (simp add: is_base64_char_def)
  then show ?thesis by (induction bs rule: b64_encode.induct) (simp_all add: b64_digits_shape b64_letter)
qed

lemma byte_of_nat: "k = unat b \<Longrightarrow> of_nat k = (b :: byte)" "k mod 256 = unat b \<Longrightarrow> of_nat k = (b :: byte)"
  by (simp_all add: word_unat_eq_iff unsigned_of_nat take_bit_eq_mod)

lemma b64_join:
  "v < 4096 \<Longrightarrow> v div 64 mod 64 * 64 + v mod 64 = (v :: nat)"
  "v < 262144 \<Longrightarrow> (v div 4096 mod 64 * 64 + v div 64 mod 64) * 64 + v mod 64 = (v :: nat)"
  "v < 16777216 \<Longrightarrow> ((v div 262144 mod 64 * 64 + v div 4096 mod 64) * 64 + v div 64 mod 64) * 64 + v mod 64 = (v :: nat)"
proof -
  have two: "v div 64 mod 64 * 64 + v mod 64 = v" if "v < 4096" for v :: nat
  proof -
    have "v div 64 mod 64 = v div 64" using that by (intro mod_less) (simp add: div_less_iff_less_mult)
    then show ?thesis using div_mult_mod_eq[of v 64] by simp
  qed
  then show "v < 4096 \<Longrightarrow> v div 64 mod 64 * 64 + v mod 64 = (v :: nat)" .
  have three: "(v div 4096 mod 64 * 64 + v div 64 mod 64) * 64 + v mod 64 = v" if "v < 262144" for v :: nat
    using two[of "v div 64"] that div_mult_mod_eq[of v 64] by (simp add: div_less_iff_less_mult flip: div_mult2_eq)
  then show "v < 262144 \<Longrightarrow> (v div 4096 mod 64 * 64 + v div 64 mod 64) * 64 + v mod 64 = (v :: nat)" .
  show "v < 16777216 \<Longrightarrow> ((v div 262144 mod 64 * 64 + v div 4096 mod 64) * 64 + v div 64 mod 64) * 64 + v mod 64 = (v :: nat)"
    using three[of "v div 64"] div_mult_mod_eq[of v 64] by (simp add: div_less_iff_less_mult flip: div_mult2_eq)
qed

lemma b64_decode_digits:
  "v < 4096 \<Longrightarrow> b64_decode (b64_digits 2 v @ ''=='') = [of_nat (v div 16)]"
  "v < 262144 \<Longrightarrow> b64_decode (b64_digits 3 v @ ''='') = [of_nat (v div 4 div 256), of_nat (v div 4)]"
  "v < 16777216 \<Longrightarrow> b64_decode (b64_digits 4 v @ rest) = of_nat (v div 65536) # of_nat (v div 256) # of_nat v # b64_decode rest"
proof -
  have "n mod 64 < 64" for n :: nat by simp
  note letter = b64_letter[OF this]
  show "v < 4096 \<Longrightarrow> b64_decode (b64_digits 2 v @ ''=='') = [of_nat (v div 16)]"
    "v < 262144 \<Longrightarrow> b64_decode (b64_digits 3 v @ ''='') = [of_nat (v div 4 div 256), of_nat (v div 4)]"
    "v < 16777216 \<Longrightarrow> b64_decode (b64_digits 4 v @ rest) = of_nat (v div 65536) # of_nat (v div 256) # of_nat v # b64_decode rest"
    by (simp_all only: b64_digits_shape append.simps b64_decode.simps letter Let_def b64_join if_True if_False simp_thms)
qed

lemma b64_inverse: "b64_decode (b64_encode bs) = bs"
proof (induction bs rule: b64_encode.induct)
  case (2 a)
  have "unat a * 16 < 4096" "unat a * 16 div 16 = unat a" using unat_byte_less[of a] by simp_all
  then show ?case by (simp only: b64_encode.simps b64_decode_digits unat_byte_inverse)
next
  case (3 a b)
  define v where "v = (unat a * 256 + unat b) * 4"
  have v: "v < 262144" "v div 4 div 256 = unat a" "v div 4 mod 256 = unat b" using unat_byte_less[of a] unat_byte_less[of b] by (simp_all add: v_def)
  show ?case unfolding b64_encode.simps v_def[symmetric] b64_decode_digits(2)[OF v(1)] byte_of_nat(1)[OF v(2)] byte_of_nat(2)[OF v(3)] ..
next
  case (4 a b c rest)
  define w v where "w = unat a * 256 + unat b" and "v = w * 256 + unat c"
  have w: "w < 65536" "w div 256 = unat a" "w mod 256 = unat b" using unat_byte_less[of a] unat_byte_less[of b] by (simp_all add: w_def)
  have v: "v < 16777216" "v div 256 = w" "v mod 256 = unat c" using w(1) unat_byte_less[of c] by (simp_all add: v_def)
  have v': "v div 65536 = unat a" "v div 256 mod 256 = unat b" using v(2) w(2,3) div_mult2_eq[of v 256 256] by simp_all
  show ?case
    unfolding b64_encode.simps w_def[symmetric] v_def[symmetric] b64_decode_digits(3)[OF v(1)] byte_of_nat(1)[OF v'(1)] byte_of_nat(2)[OF v'(2)]
      byte_of_nat(2)[OF v(3)] 4 ..
qed simp

lemmas ex_ok = ex_goldilocks_ok ex_sponge_ok ex_gcrypt_ok ex_stream_ok ex_eddsa_ok ex_encoding_ok

end
