(* ===== verification/Tlv.thy ===== *)
theory Tlv
  imports Crypto_Instance
begin

text \<open>
  The type/length/value records of a data message: \<open>tlv.c\<close>, and the padding record of
  \<open>padding.c\<close>.  The singly linked \<open>tlv_list_s\<close> is a list of its records; \<open>otrng_append_tlv\<close>
  walks to its last node.  The type is kept as the integer of the enumeration, with \<open>-1\<close> for
  \<open>OTRNG_TLV_NONE\<close>.
\<close>

subsection \<open>tlv.c\<close>

definition OTRNG_TLV_NONE :: int where [const_defs]: "OTRNG_TLV_NONE = -1"
definition OTRNG_TLV_PADDING :: int where [const_defs]: "OTRNG_TLV_PADDING = 0"
definition OTRNG_TLV_DISCONNECTED :: int where [const_defs]: "OTRNG_TLV_DISCONNECTED = 1"
definition OTRNG_TLV_SMP_MSG_1 :: int where [const_defs]: "OTRNG_TLV_SMP_MSG_1 = 2"
definition OTRNG_TLV_SMP_MSG_2 :: int where [const_defs]: "OTRNG_TLV_SMP_MSG_2 = 3"
definition OTRNG_TLV_SMP_MSG_3 :: int where [const_defs]: "OTRNG_TLV_SMP_MSG_3 = 4"
definition OTRNG_TLV_SMP_MSG_4 :: int where [const_defs]: "OTRNG_TLV_SMP_MSG_4 = 5"
definition OTRNG_TLV_SMP_ABORT :: int where [const_defs]: "OTRNG_TLV_SMP_ABORT = 6"
definition OTRNG_TLV_SYM_KEY :: int where [const_defs]: "OTRNG_TLV_SYM_KEY = 7"

record tlv_s =
  tlv_type :: int
  tlv_len :: u16
  tlv_data :: "bytes option"

definition tlv_types :: "int list" where
  "tlv_types = [OTRNG_TLV_PADDING, OTRNG_TLV_DISCONNECTED, OTRNG_TLV_SMP_MSG_1, OTRNG_TLV_SMP_MSG_2,
     OTRNG_TLV_SMP_MSG_3, OTRNG_TLV_SMP_MSG_4, OTRNG_TLV_SMP_ABORT, OTRNG_TLV_SYM_KEY]"

definition TLV_TYPES_LENGTH :: nat where
  "TLV_TYPES_LENGTH = nat (OTRNG_TLV_SYM_KEY + 1)"

definition set_tlv_type :: "tlv_s \<Rightarrow> u16 \<Rightarrow> tlv_s" where
  "set_tlv_type tlv ty =
     (let tlv = tlv\<lparr>tlv_type := OTRNG_TLV_NONE\<rparr> in
      if unat ty < TLV_TYPES_LENGTH then tlv\<lparr>tlv_type := tlv_types ! unat ty\<rparr> else tlv)"

text \<open>\<open>None\<close> is the \<open>NULL\<close> returned for a non-empty record without data.  A \<open>uint16_t\<close> argument
  is stored in the enumeration as its unsigned value.\<close>

definition otrng_tlv_new :: "u16 \<Rightarrow> u16 \<Rightarrow> bytes option \<Rightarrow> tlv_s option" where
  "otrng_tlv_new ty len data =
     (if len \<noteq> 0 then
        (case data of
           None \<Rightarrow> None
         | Some bs \<Rightarrow> Some \<lparr>tlv_type = uint ty, tlv_len = len, tlv_data = Some (take (unat len) bs)\<rparr>)
      else Some \<lparr>tlv_type = uint ty, tlv_len = len, tlv_data = None\<rparr>)"

definition parse_tlv :: "bytes \<Rightarrow> tlv_s parsed" where
  "parse_tlv src =
     (case otrng_tlv_new (of_int OTRNG_TLV_NONE) 0 None of
        None \<Rightarrow> None
      | Some tlv \<Rightarrow>
        (case otrng_deserialize_uint16 src of
           None \<Rightarrow> None
         | Some (ty, w) \<Rightarrow>
            (let tlv = set_tlv_type tlv ty; cursor = drop w src in
             case otrng_deserialize_uint16 cursor of
               None \<Rightarrow> None
             | Some (l, w') \<Rightarrow>
                (let tlv = tlv\<lparr>tlv_len := l\<rparr>; cursor = drop w' cursor in
                 if length cursor < unat l then None
                 else Some (tlv\<lparr>tlv_data := Some (take (unat l) cursor)\<rparr>, w + w' + unat l)))))"

definition otrng_tlv_list_one :: "tlv_s option \<Rightarrow> tlv_s list option" where
  "otrng_tlv_list_one tlv = (case tlv of None \<Rightarrow> None | Some t \<Rightarrow> Some [t])"

text \<open>The walk to the last node, which then gets the new node as its successor.\<close>

fun append_at_last :: "tlv_s list \<Rightarrow> tlv_s list \<Rightarrow> tlv_s list" where
  "append_at_last [] n = n"
| "append_at_last (c # next) n = (if next \<noteq> [] then c # append_at_last next n else c # n)"

definition otrng_append_tlv :: "tlv_s list \<Rightarrow> tlv_s option \<Rightarrow> tlv_s list option" where
  "otrng_append_tlv head tlv =
     (case otrng_tlv_list_one tlv of
        None \<Rightarrow> None
      | Some n \<Rightarrow> if head = [] then Some n else Some (append_at_last head n))"

lemma parse_tlv_progress: "parse_tlv src = Some (tlv, n) \<Longrightarrow> 4 \<le> n \<and> n \<le> length src"
  by (auto simp: parse_tlv_def Let_def split: option.splits if_splits prod.splits
      dest!: deserialize_uint_bounded)

function parse_tlvs_loop :: "tlv_s list \<Rightarrow> bytes \<Rightarrow> tlv_s list" where
  "parse_tlvs_loop ret src =
     (if length src > 0 then
        (case parse_tlv src of
           None \<Rightarrow> ret
         | Some (tlv, read) \<Rightarrow>
             (case otrng_append_tlv ret (Some tlv) of
                None \<Rightarrow> parse_tlvs_loop ret (drop read src)
              | Some tmp \<Rightarrow> parse_tlvs_loop tmp (drop read src)))
      else ret)"
  by pat_completeness auto
termination
  by (relation "measure (\<lambda>(ret, src). length src)") (auto dest!: parse_tlv_progress)

declare parse_tlvs_loop.simps [simp del]

definition otrng_parse_tlvs :: "bytes \<Rightarrow> tlv_s list" where
  "otrng_parse_tlvs src = parse_tlvs_loop [] src"

definition otrng_tlv_disconnected_new :: "tlv_s option" where
  "otrng_tlv_disconnected_new = otrng_tlv_new (of_int OTRNG_TLV_DISCONNECTED) 0 None"

text \<open>The size is cut to the sixteen bits of the parameter of \<open>otrng_tlv_new\<close>.\<close>

definition otrng_tlv_padding_new :: "nat \<Rightarrow> tlv_s option" where
  "otrng_tlv_padding_new len =
     otrng_tlv_new (of_int OTRNG_TLV_PADDING) (of_nat len) (Some (replicate len 0))"

definition otrng_tlv_serialize :: "tlv_s \<Rightarrow> bytes" where
  "otrng_tlv_serialize tlv =
     otrng_serialize_uint16 (of_int (tlv_type tlv)) @ otrng_serialize_uint16 (tlv_len tlv) @
     otrng_serialize_bytes_array (tlv_data tlv) (unat (tlv_len tlv))"

subsection \<open>padding.c\<close>

text \<open>\<open>size_t\<close> has 64 bits; a result of zero means no padding record.\<close>

definition calculate_padding_len :: "u64 \<Rightarrow> u64 \<Rightarrow> u64" where
  "calculate_padding_len msg_len max_len =
     (if max_len = 0 then 0 else max_len - ((msg_len + 4 + 1) mod max_len))"

text \<open>\<open>None\<close> is \<open>OTRNG_ERROR\<close>; \<open>Some None\<close> is success with \<open>*dst\<close> untouched.\<close>

definition generate_padding :: "u64 \<Rightarrow> u64 \<Rightarrow> bytes option option" where
  "generate_padding msg_len client_padding =
     (let padding_len = calculate_padding_len msg_len client_padding in
      if padding_len = 0 then Some None
      else case otrng_tlv_padding_new (unat padding_len) of
          None \<Rightarrow> None
        | Some padding_tlv \<Rightarrow>
            (let dst = otrng_tlv_serialize padding_tlv
             in if length dst = 0 then None else Some (Some dst)))"

subsection \<open>Records read back\<close>

definition tlv_contents :: "tlv_s \<Rightarrow> bytes" where
  "tlv_contents t = (case tlv_data t of None \<Rightarrow> [] | Some bs \<Rightarrow> take (unat (tlv_len t)) bs)"

definition wf_tlv :: "tlv_s \<Rightarrow> bool" where
  "wf_tlv t \<longleftrightarrow> 0 \<le> tlv_type t \<and> tlv_type t \<le> OTRNG_TLV_SYM_KEY \<and> length (tlv_contents t) = unat (tlv_len t)"

definition tlv_sim :: "tlv_s \<Rightarrow> tlv_s \<Rightarrow> bool" where
  "tlv_sim t t' \<longleftrightarrow> tlv_type t' = tlv_type t \<and> tlv_len t' = tlv_len t \<and> tlv_contents t' = tlv_contents t"

lemma set_tlv_type_known:
  assumes "0 \<le> ty" "ty \<le> 7"
  shows "tlv_type (set_tlv_type t (of_int ty)) = ty"
    and "tlv_len (set_tlv_type t w) = tlv_len t" "tlv_data (set_tlv_type t w) = tlv_data t"
proof -
  from assms have "ty \<in> {0, 1, 2, 3, 4, 5, 6, 7}" by auto
  then show "tlv_type (set_tlv_type t (of_int ty)) = ty"
    by (auto simp: set_tlv_type_def TLV_TYPES_LENGTH_def tlv_types_def const_defs Let_def)
qed (auto simp: set_tlv_type_def Let_def)

lemma set_tlv_type_unknown:
  "8 \<le> unat ty \<Longrightarrow> tlv_type (set_tlv_type t ty) = OTRNG_TLV_NONE"
  by (simp add: set_tlv_type_def TLV_TYPES_LENGTH_def const_defs Let_def)

lemma tlv_serialize_eq:
  "otrng_tlv_serialize t =
     otrng_serialize_uint16 (of_int (tlv_type t)) @ otrng_serialize_uint16 (tlv_len t) @ tlv_contents t"
  by (simp add: otrng_tlv_serialize_def tlv_contents_def otrng_serialize_bytes_array_def split: option.split)

lemma parse_tlv_serialize_raw:
  assumes "length bs = unat l"
  shows "parse_tlv (otrng_serialize_uint16 ty @ otrng_serialize_uint16 l @ bs @ rest) =
     Some (\<lparr>tlv_type = tlv_type (set_tlv_type undefined ty), tlv_len = l, tlv_data = Some bs\<rparr>, 4 + unat l)"
  using assms
  by (simp add: parse_tlv_def otrng_tlv_new_def set_tlv_type_def Let_def)

interpretation tlv: wire_codec_upto otrng_tlv_serialize parse_tlv wf_tlv tlv_sim
proof
  fix t rest assume wf: "wf_tlv t"
  then show "\<exists>y. parse_tlv (otrng_tlv_serialize t @ rest) = Some (y, length (otrng_tlv_serialize t)) \<and> tlv_sim t y"
    using parse_tlv_serialize_raw[of "tlv_contents t" "tlv_len t" "of_int (tlv_type t)" rest]
      set_tlv_type_known(1)[of "tlv_type t"]
    by (simp add: tlv_serialize_eq wf_tlv_def tlv_sim_def OTRNG_TLV_SYM_KEY_def)
       (simp add: tlv_contents_def)
qed (auto dest: parse_tlv_progress)

lemma append_at_last_eq: "append_at_last xs ys = xs @ ys"
  by (induction xs) auto

lemma append_tlv_eq [simp]: "otrng_append_tlv ts (Some t) = Some (ts @ [t])"
  by (simp add: otrng_append_tlv_def otrng_tlv_list_one_def append_at_last_eq)

lemma parse_tlvs_loop_step:
  "parse_tlvs_loop ret src =
     (case parse_tlv src of None \<Rightarrow> ret | Some (t, n) \<Rightarrow> parse_tlvs_loop (ret @ [t]) (drop n src))"
proof (cases "src = []")
  case True
  then show ?thesis
    by (simp add: parse_tlvs_loop.simps[of ret] parse_tlv_def otrng_tlv_new_def deserialize_uint_short)
qed (simp add: parse_tlvs_loop.simps[of ret] split: option.split)

lemma parse_tlvs_loop_serialize:
  assumes "list_all wf_tlv ts" "parse_tlv rest = None"
  shows "\<exists>us. parse_tlvs_loop ret (concat (map otrng_tlv_serialize ts) @ rest) = ret @ us \<and> list_all2 tlv_sim ts us"
  using assms(1)
proof (induction ts arbitrary: ret)
  case Nil
  then show ?case using assms(2) by (simp add: parse_tlvs_loop_step[of ret])
next
  case (Cons t ts)
  from Cons.prems tlv.dec_enc_upto[of t "concat (map otrng_tlv_serialize ts) @ rest"]
  obtain u where u: "parse_tlv (otrng_tlv_serialize t @ concat (map otrng_tlv_serialize ts) @ rest) =
      Some (u, length (otrng_tlv_serialize t))" "tlv_sim t u" by auto
  from Cons obtain us where "parse_tlvs_loop (ret @ [u]) (concat (map otrng_tlv_serialize ts) @ rest) = (ret @ [u]) @ us"
    "list_all2 tlv_sim ts us" by fastforce
  with u show ?case
    by (intro exI[of _ "u # us"]) (simp add: parse_tlvs_loop_step[of ret])
qed

subsection \<open>Properties\<close>

text \<open>Parsing the concatenation of serialized records, followed by bytes that are not a
  record, returns the records in order with the same type, length and contents.\<close>

theorem parse_tlvs_roundtrip:
  assumes "list_all wf_tlv ts" and "parse_tlv rest = None"
  shows "list_all2 tlv_sim ts (otrng_parse_tlvs (concat (map otrng_tlv_serialize ts) @ rest))"
  using parse_tlvs_loop_serialize[OF assms, of "[]"] by (auto simp: otrng_parse_tlvs_def)

theorem parse_tlvs_roundtrip_witness:
  "list_all2 tlv_sim
     [\<lparr>tlv_type = 1, tlv_len = 0, tlv_data = None\<rparr>, \<lparr>tlv_type = 2, tlv_len = 2, tlv_data = Some [7, 8]\<rparr>]
     (otrng_parse_tlvs (concat (map otrng_tlv_serialize
        [\<lparr>tlv_type = 1, tlv_len = 0, tlv_data = None\<rparr>,
         \<lparr>tlv_type = 2, tlv_len = 2, tlv_data = Some [7, 8]\<rparr>]) @ [1]))"
  by (rule parse_tlvs_roundtrip)
     (simp_all add: wf_tlv_def tlv_contents_def const_defs parse_tlv_def otrng_tlv_new_def deserialize_uint_short)

definition tlv_size :: "tlv_s \<Rightarrow> nat" where
  "tlv_size t = 4 + unat (tlv_len t)"

definition parsed_tlv_ok :: "tlv_s \<Rightarrow> bool" where
  "parsed_tlv_ok t \<longleftrightarrow> OTRNG_TLV_NONE \<le> tlv_type t \<and> tlv_type t \<le> OTRNG_TLV_SYM_KEY \<and>
     (\<exists>bs. tlv_data t = Some bs \<and> length bs = unat (tlv_len t))"

lemma set_tlv_type_range:
  "OTRNG_TLV_NONE \<le> tlv_type (set_tlv_type t ty) \<and> tlv_type (set_tlv_type t ty) \<le> OTRNG_TLV_SYM_KEY"
proof (cases "unat ty < 8")
  case True
  then have "unat ty \<in> {0, 1, 2, 3, 4, 5, 6, 7}" by auto
  then show ?thesis
    by (auto simp: set_tlv_type_def tlv_types_def TLV_TYPES_LENGTH_def const_defs Let_def)
qed (simp add: set_tlv_type_unknown const_defs)

lemma parse_tlv_ok:
  assumes "parse_tlv src = Some (t, n)"
  shows "parsed_tlv_ok t" "n = tlv_size t" "n \<le> length src"
  using assms
  by (auto simp: parse_tlv_def Let_def parsed_tlv_ok_def tlv_size_def set_tlv_type_range
      split: option.splits if_splits prod.splits dest!: deserialize_uint_bounded)

lemma parse_tlvs_loop_safe:
  assumes "list_all parsed_tlv_ok ret" and "sum_list (map tlv_size ret) + length src \<le> n"
  shows "list_all parsed_tlv_ok (parse_tlvs_loop ret src) \<and>
     sum_list (map tlv_size (parse_tlvs_loop ret src)) \<le> n"
  using assms
proof (induction ret src rule: parse_tlvs_loop.induct)
  case (1 ret src)
  show ?case
  proof (cases "parse_tlv src")
    case None
    with 1 show ?thesis by (simp add: parse_tlvs_loop_step[of ret])
  next
    case (Some p)
    obtain t m where p: "p = (t, m)" by force
    with Some have t: "parsed_tlv_ok t" "m = tlv_size t" "m \<le> length src" "length src > 0"
      using parse_tlv_ok[of src t m] by (auto simp: tlv_size_def)
    with Some p 1 show ?thesis by (subst (1 2) parse_tlvs_loop_step) simp
  qed
qed

text \<open>C14: whatever bytes arrive, every record the parser returns has a known type or
  \<open>OTRNG_TLV_NONE\<close>, carries exactly the number of bytes its length field says, and the records
  together are no longer than the buffer.\<close>

theorem parse_tlvs_safe:
  "list_all parsed_tlv_ok (otrng_parse_tlvs src) \<and>
   sum_list (map tlv_size (otrng_parse_tlvs src)) \<le> length src"
  unfolding otrng_parse_tlvs_def by (rule parse_tlvs_loop_safe) simp_all

lemma calculate_padding_len_unat:
  assumes "max_len \<noteq> 0" and "unat msg_len + 5 < 2 ^ 64"
  shows "unat (calculate_padding_len msg_len max_len) = unat max_len - (unat msg_len + 5) mod unat max_len"
proof -
  have s: "unat (msg_len + 5) = unat msg_len + 5"
    using assms(2) by (subst unat_plus_if_size) (simp add: word_size)
  have "(msg_len + 5) mod max_len \<le> max_len"
    using assms(1) by (simp add: word_le_nat_alt unat_mod_distrib mod_le_divisor unat_gt_0)
  then show ?thesis
    by (simp add: calculate_padding_len_def assms(1) unat_sub unat_mod_distrib s add.assoc)
qed

lemma generate_padding_ok:
  assumes "0 < unat g" and "unat g < 2 ^ 16" and "unat msg_len + 5 < 2 ^ 64"
  shows "\<exists>dst k. generate_padding msg_len g = Some (Some dst) \<and>
     (unat msg_len + 1 + length dst) mod unat g = 0 \<and>
     length dst = 4 + k \<and> 0 < k \<and> k \<le> unat g \<and>
     otrng_parse_tlvs dst =
       [\<lparr>tlv_type = OTRNG_TLV_PADDING, tlv_len = of_nat k, tlv_data = Some (replicate k 0)\<rparr>]"
proof -
  let ?k = "unat g - (unat msg_len + 5) mod unat g"
  have k: "unat (calculate_padding_len msg_len g) = ?k" "0 < ?k" "?k \<le> unat g"
    using calculate_padding_len_unat[of g msg_len] assms by (auto simp: unat_gt_0)
  let ?dst = "otrng_serialize_uint16 0 @ otrng_serialize_uint16 (of_nat ?k) @ replicate ?k 0"
  have u: "unat (of_nat ?k :: u16) = ?k"
    using k(3) assms(2) by (simp add: unsigned_of_nat take_bit_nat_eq_self)
  then have nz: "(of_nat ?k :: u16) \<noteq> 0" using k(2) by (metis unat_0 less_irrefl)
  have "generate_padding msg_len g = Some (Some ?dst)"
    using k u nz
    by (auto simp: generate_padding_def otrng_tlv_padding_new_def otrng_tlv_new_def const_defs
        tlv_serialize_eq tlv_contents_def Let_def simp flip: unat_eq_zero)
  moreover have "(unat msg_len + 1 + length ?dst) mod unat g = 0"
  proof -
    have "unat msg_len + 1 + length ?dst = (unat msg_len + 5) - (unat msg_len + 5) mod unat g + unat g"
      using k by (simp add: mod_le_divisor)
    then show ?thesis by (simp add: minus_mod_eq_mult_div)
  qed
  moreover have "parse_tlv ?dst = Some (\<lparr>tlv_type = 0, tlv_len = of_nat ?k, tlv_data = Some (replicate ?k 0)\<rparr>, 4 + ?k)"
    using parse_tlv_serialize_raw[of "replicate ?k 0" "of_nat ?k" 0 "[]"] u set_tlv_type_known(1)[of 0] by simp
  then have "otrng_parse_tlvs ?dst = [\<lparr>tlv_type = 0, tlv_len = of_nat ?k, tlv_data = Some (replicate ?k 0)\<rparr>]"
    by (simp add: otrng_parse_tlvs_def parse_tlvs_loop_step[of "[]"])
       (simp add: parse_tlvs_loop.simps)
  ultimately show ?thesis using k by (intro exI[of _ ?dst] exI[of _ ?k]) (simp add: const_defs)
qed

text \<open>With a padding granularity below \<open>2\<^sup>1\<^sup>6\<close> the padding record makes the plain text
  (message, terminator and record) a multiple of the granularity, adds at most one granule beyond
  the header and parses back to a single padding record of zeros.\<close>

theorem generate_padding_aligned:
  assumes "0 < unat g" and "unat g < 2 ^ 16" and "unat msg_len + 5 < 2 ^ 64"
  shows "\<exists>dst k. generate_padding msg_len g = Some (Some dst) \<and>
     (unat msg_len + 1 + length dst) mod unat g = 0 \<and>
     length dst = 4 + k \<and> 0 < k \<and> k \<le> unat g \<and>
     otrng_parse_tlvs dst =
       [\<lparr>tlv_type = OTRNG_TLV_PADDING, tlv_len = of_nat k, tlv_data = Some (replicate k 0)\<rparr>]"
  by (rule generate_padding_ok[OF assms])

theorem generate_padding_aligned_witness:
  "\<exists>dst k. generate_padding 11 8 = Some (Some dst) \<and> (unat (11 :: u64) + 1 + length dst) mod unat (8 :: u64) = 0 \<and>
     length dst = 4 + k \<and> 0 < k \<and> k \<le> unat (8 :: u64) \<and>
     otrng_parse_tlvs dst =
       [\<lparr>tlv_type = OTRNG_TLV_PADDING, tlv_len = of_nat k, tlv_data = Some (replicate k 0)\<rparr>]"
  by (rule generate_padding_aligned) simp_all

end
