(* ===== verification/Linked_List.thy ===== *)
theory Linked_List
  imports Wire
begin

text \<open>
  \<open>list.c\<close>, the singly linked list the library keeps its skipped keys, old MAC keys and fragment
  contexts in, on an explicit heap of nodes.  An address is a number, \<open>NULL\<close> is \<open>None\<close>.  An
  operation returns \<open>None\<close> when it dereferences \<open>NULL\<close> or a freed node or does not return at all;
  the lemmas show that it returns, and what, on every heap that holds a list.  The locale
  \<open>element_list\<close> is the interface the clients of the list rely on.
\<close>

record 'd list_element_s =
  el_data :: "'d option"
  el_next :: "nat option"

record 'd heap =
  cells :: "nat \<Rightarrow> 'd list_element_s option"
  brk :: nat

definition write_next :: "nat \<Rightarrow> nat option \<Rightarrow> 'd heap \<Rightarrow> 'd heap option" where
  "write_next a nx h = (case cells h a of None \<Rightarrow> None
     | Some n \<Rightarrow> Some (h\<lparr>cells := (cells h)(a \<mapsto> n\<lparr>el_next := nx\<rparr>)\<rparr>))"

definition write_data :: "nat \<Rightarrow> 'd option \<Rightarrow> 'd heap \<Rightarrow> 'd heap option" where
  "write_data a d h = (case cells h a of None \<Rightarrow> None
     | Some n \<Rightarrow> Some (h\<lparr>cells := (cells h)(a \<mapsto> n\<lparr>el_data := d\<rparr>)\<rparr>))"

definition free_cell :: "nat \<Rightarrow> 'd heap \<Rightarrow> 'd heap option" where
  "free_cell a h = (case cells h a of None \<Rightarrow> None | Some n \<Rightarrow> Some (h\<lparr>cells := (cells h)(a := None)\<rparr>))"

text \<open>\<open>otrng_xmalloc_z\<close> returns a zeroed node at an address not in use.\<close>

definition list_new :: "'d heap \<Rightarrow> nat \<times> 'd heap" where
  "list_new h = (brk h, h\<lparr>cells := (cells h)(brk h \<mapsto> \<lparr>el_data = None, el_next = None\<rparr>), brk := Suc (brk h)\<rparr>)"

partial_function (option) otrng_list_foreach ::
    "(nat \<Rightarrow> 'd heap \<times> 'c \<Rightarrow> ('d heap \<times> 'c) option) option \<Rightarrow> 'd heap \<times> 'c \<Rightarrow> nat option \<Rightarrow> ('d heap \<times> 'c) option" where
  [code]: "otrng_list_foreach fn st current =
     (case current of
        None \<Rightarrow> Some st
      | Some a \<Rightarrow> do {
          n \<leftarrow> cells (fst st) a;
          st \<leftarrow> (case fn of None \<Rightarrow> Some st | Some f \<Rightarrow> f a st);
          otrng_list_foreach fn st (el_next n) })"

text \<open>\<open>free_data\<close> is given by whether it is called; the data handed to it is returned in order.\<close>

partial_function (option) otrng_list_free ::
    "bool \<Rightarrow> 'd heap \<Rightarrow> nat option \<Rightarrow> ('d heap \<times> 'd option list) option" where
  [code]: "otrng_list_free free_data h current =
     (case current of
        None \<Rightarrow> Some (h, [])
      | Some a \<Rightarrow> do {
          n \<leftarrow> cells h a;
          h \<leftarrow> (if free_data then write_data a None h else Some h);
          h \<leftarrow> free_cell a h;
          (h, freed) \<leftarrow> otrng_list_free free_data h (el_next n);
          Some (h, if free_data then el_data n # freed else freed) })"

definition otrng_list_free_full :: "'d heap \<Rightarrow> nat option \<Rightarrow> ('d heap \<times> 'd option list) option" where
  "otrng_list_free_full h head = otrng_list_free True h head"

definition otrng_list_free_nodes :: "'d heap \<Rightarrow> nat option \<Rightarrow> 'd heap option" where
  "otrng_list_free_nodes h head = map_option fst (otrng_list_free False h head)"

partial_function (option) list_len_loop :: "'d heap \<Rightarrow> nat option \<Rightarrow> nat \<Rightarrow> nat option" where
  [code]: "list_len_loop h cursor sz =
     (case cursor of
        None \<Rightarrow> Some sz
      | Some a \<Rightarrow> do {
          n \<leftarrow> cells h a;
          list_len_loop h (el_next n) (if el_data n \<noteq> None then sz + 1 else sz) })"

definition otrng_list_len :: "'d heap \<Rightarrow> nat option \<Rightarrow> nat option" where
  "otrng_list_len h head = list_len_loop h head 0"

partial_function (option) list_copy_loop :: "'d heap \<Rightarrow> nat \<Rightarrow> nat option \<Rightarrow> 'd heap option" where
  [code]: "list_copy_loop h copy cursor =
     (case cursor of
        None \<Rightarrow> Some h
      | Some a \<Rightarrow> do {
          let (new, h) = list_new h;
          h \<leftarrow> write_next copy (Some new) h;
          n \<leftarrow> cells h a;
          h \<leftarrow> write_data new (el_data n) h;
          h \<leftarrow> write_next new None h;
          list_copy_loop h new (el_next n) })"

definition otrng_list_copy :: "'d heap \<Rightarrow> nat option \<Rightarrow> (nat option \<times> 'd heap) option" where
  "otrng_list_copy h head = do {
     len \<leftarrow> otrng_list_len h head;
     if len = 0 then Some (None, h)
     else do {
       cursor \<leftarrow> head;
       let (copy, h) = list_new h;
       n \<leftarrow> cells h cursor;
       h \<leftarrow> write_data copy (el_data n) h;
       h \<leftarrow> write_next copy None h;
       h \<leftarrow> list_copy_loop h copy (el_next n);
       Some (Some copy, h) } }"

partial_function (option) list_get_last_loop :: "'d heap \<Rightarrow> nat \<Rightarrow> nat option" where
  [code]: "list_get_last_loop h cursor = do {
     n \<leftarrow> cells h cursor;
     (case el_next n of None \<Rightarrow> Some cursor | Some nx \<Rightarrow> list_get_last_loop h nx) }"

definition otrng_list_get_last :: "'d heap \<Rightarrow> nat option \<Rightarrow> nat option option" where
  "otrng_list_get_last h head =
     (case head of None \<Rightarrow> Some None | Some a \<Rightarrow> map_option Some (list_get_last_loop h a))"

definition otrng_list_add :: "'d option \<Rightarrow> 'd heap \<Rightarrow> nat option \<Rightarrow> (nat option \<times> 'd heap) option" where
  "otrng_list_add data h head = do {
     let (n, h) = list_new h;
     h \<leftarrow> write_data n data h;
     last \<leftarrow> otrng_list_get_last h head;
     (case last of
        None \<Rightarrow> Some (Some n, h)
      | Some l \<Rightarrow> do { h \<leftarrow> write_next l (Some n) h; Some (head, h) }) }"

text \<open>\<open>fn\<close> is applied to the data of the node and the wanted value; \<open>NULL\<close> never matches.\<close>

partial_function (option) otrng_list_get ::
    "('d option \<Rightarrow> bool) option \<Rightarrow> 'd heap \<Rightarrow> nat option \<Rightarrow> nat option option" where
  [code]: "otrng_list_get fn h cursor =
     (case cursor of
        None \<Rightarrow> Some None
      | Some a \<Rightarrow> do {
          n \<leftarrow> cells h a;
          if fn \<noteq> None \<and> the fn (el_data n) then Some (Some a)
          else otrng_list_get fn h (el_next n) })"

definition otrng_list_get_by_value :: "'d option \<Rightarrow> 'd heap \<Rightarrow> nat option \<Rightarrow> nat option option" where
  "otrng_list_get_by_value wanted h head = otrng_list_get (Some (\<lambda>current. current = wanted)) h head"

partial_function (option) list_remove_loop :: "nat option \<Rightarrow> 'd heap \<Rightarrow> nat \<Rightarrow> 'd heap option" where
  [code]: "list_remove_loop wanted h cursor = do {
     n \<leftarrow> cells h cursor;
     (case el_next n of
        None \<Rightarrow> Some h
      | Some nx \<Rightarrow>
          if Some nx = wanted then do {
            f \<leftarrow> cells h nx;
            h \<leftarrow> write_next cursor (el_next f) h;
            write_next nx None h }
          else list_remove_loop wanted h nx) }"

definition otrng_list_remove_element ::
    "nat option \<Rightarrow> 'd heap \<Rightarrow> nat option \<Rightarrow> (nat option \<times> 'd heap) option" where
  "otrng_list_remove_element wanted h head =
     (if head = wanted then do {
        a \<leftarrow> head;
        n \<leftarrow> cells h a;
        h \<leftarrow> write_next a None h;
        Some (el_next n, h) }
      else do {
        a \<leftarrow> head;
        h \<leftarrow> list_remove_loop wanted h a;
        Some (head, h) })"

text \<open>\<open>serialize.c\<close>: the keys are copied from the end of the list to its head while the list is
  taken apart; an empty list gives \<open>NULL\<close>.\<close>

definition MAC_KEY_BYTES :: nat where [const_defs]: "MAC_KEY_BYTES = 64"

primrec serialize_mac_keys_loop ::
    "nat \<Rightarrow> bytes \<Rightarrow> bytes heap \<Rightarrow> nat option \<Rightarrow> (bytes \<times> bytes heap \<times> nat option) option" where
  "serialize_mac_keys_loop 0 ser h old_mac_keys = Some (ser, h, old_mac_keys)"
| "serialize_mac_keys_loop (Suc i) ser h old_mac_keys = do {
     last \<leftarrow> otrng_list_get_last h old_mac_keys;
     l \<leftarrow> last;
     n \<leftarrow> cells h l;
     key \<leftarrow> el_data n;
     (old_mac_keys, h) \<leftarrow> otrng_list_remove_element last h old_mac_keys;
     (h, _) \<leftarrow> otrng_list_free True h last;
     serialize_mac_keys_loop i (ser @ take MAC_KEY_BYTES key) h old_mac_keys }"

definition otrng_serialize_old_mac_keys ::
    "bytes heap \<Rightarrow> nat option \<Rightarrow> (bytes option \<times> bytes heap) option" where
  "otrng_serialize_old_mac_keys h old_mac_keys = do {
     num_mac_keys \<leftarrow> otrng_list_len h old_mac_keys;
     if num_mac_keys * MAC_KEY_BYTES = 0 then Some (None, h)
     else do {
       (ser, h, rest) \<leftarrow> serialize_mac_keys_loop num_mac_keys [] h old_mac_keys;
       h \<leftarrow> otrng_list_free_nodes h rest;
       Some (Some ser, h) } }"

subsection \<open>Heaps that hold a list\<close>

text \<open>The nodes \<open>as\<close> lead from \<open>p\<close> to \<open>q\<close>.\<close>

primrec lseg :: "'d heap \<Rightarrow> nat option \<Rightarrow> nat list \<Rightarrow> nat option \<Rightarrow> bool" where
  "lseg h p [] q = (p = q)"
| "lseg h p (a # as) q = (p = Some a \<and> (\<exists>n. cells h a = Some n \<and> lseg h (el_next n) as q))"

definition heap_ok :: "'d heap \<Rightarrow> bool" where
  "heap_ok h \<longleftrightarrow> (\<forall>a \<ge> brk h. cells h a = None)"

definition is_list :: "'d heap \<Rightarrow> nat option \<Rightarrow> nat list \<Rightarrow> bool" where
  "is_list h p as \<longleftrightarrow> heap_ok h \<and> lseg h p as None \<and> distinct as"

definition contents :: "'d heap \<Rightarrow> nat list \<Rightarrow> 'd option list" where
  "contents h as = map (\<lambda>a. case cells h a of None \<Rightarrow> None | Some n \<Rightarrow> el_data n) as"

lemma lseg_append: "lseg h p (as @ bs) q \<longleftrightarrow> (\<exists>r. lseg h p as r \<and> lseg h r bs q)"
  by (induction as arbitrary: p) auto

lemma lseg_cong:
  "(\<And>a. a \<in> set as \<Longrightarrow> cells h a = cells h' a) \<Longrightarrow> lseg h p as q \<longleftrightarrow> lseg h' p as q"
  by (induction as arbitrary: p) auto

lemma lseg_upd [simp]:
  "a \<notin> set as \<Longrightarrow> lseg (h\<lparr>cells := (cells h)(a := v)\<rparr>) p as q \<longleftrightarrow> lseg h p as q"
  by (rule lseg_cong) auto

lemma lseg_upd2:
  "a \<notin> set as \<Longrightarrow> b \<notin> set as \<Longrightarrow>
   lseg (h\<lparr>cells := (cells h)(a := v, b := w)\<rparr>) p as q \<longleftrightarrow> lseg h p as q"
  by (rule lseg_cong) auto

lemma lseg_alloc: "lseg h p as q \<Longrightarrow> a \<in> set as \<Longrightarrow> \<exists>n. cells h a = Some n"
  by (induction as arbitrary: p) auto

lemma lseg_fresh: "heap_ok h \<Longrightarrow> lseg h p as q \<Longrightarrow> brk h \<notin> set as"
  using lseg_alloc[of h p as q "brk h"] by (auto simp: heap_ok_def)

lemma contents_append [simp]: "contents h (as @ bs) = contents h as @ contents h bs"
  by (simp add: contents_def)

lemma contents_cong:
  "(\<And>a. a \<in> set as \<Longrightarrow> map_option el_data (cells h a) = map_option el_data (cells h' a)) \<Longrightarrow>
   contents h as = contents h' as"
  unfolding contents_def by (rule map_cong[OF refl]) (force split: option.splits)

lemma list_get_last_loop_eq:
  "lseg h (Some a) as None \<Longrightarrow> list_get_last_loop h a = Some (last as)"
proof (induction as arbitrary: a)
  case (Cons b as)
  then show ?case
    by (subst list_get_last_loop.simps) (cases as; fastforce)
qed simp

lemma list_len_loop_eq:
  "lseg h p as None \<Longrightarrow>
   list_len_loop h p k = Some (k + length (filter (\<lambda>d. d \<noteq> None) (contents h as)))"
  by (induction as arbitrary: p k)
     (auto simp: list_len_loop.simps[of h "Some _"] list_len_loop.simps[of h None] contents_def)

lemma list_get_eq:
  "lseg h p as None \<Longrightarrow>
   otrng_list_get (Some f) h p = Some (find (\<lambda>a. f (el_data (the (cells h a)))) as)"
  by (induction as arbitrary: p)
     (auto simp: otrng_list_get.simps[of _ h "Some _"] otrng_list_get.simps[of _ h None])

lemma list_remove_loop_eq:
  assumes "lseg h (Some c) (xs @ [z]) (Some w)" and "w \<notin> set (xs @ [z])"
    and "cells h w = Some f" and "cells h z = Some nz"
  shows "list_remove_loop (Some w) h c =
     Some (h\<lparr>cells := (cells h)(z \<mapsto> nz\<lparr>el_next := el_next f\<rparr>, w \<mapsto> f\<lparr>el_next := None\<rparr>)\<rparr>)"
  using assms(1,2)
proof (induction xs arbitrary: c)
  case Nil
  then have c: "c = z" "el_next nz = Some w" "z \<noteq> w" using assms(4) by auto
  have "write_next z (el_next f) h = Some (h\<lparr>cells := (cells h)(z \<mapsto> nz\<lparr>el_next := el_next f\<rparr>)\<rparr>)"
    by (simp add: write_next_def assms(4))
  with c show ?case
    by (subst list_remove_loop.simps) (simp add: assms(3,4) write_next_def fun_upd_def[symmetric])
next
  case (Cons x xs)
  then obtain n where n: "c = x" "cells h x = Some n" "lseg h (el_next n) (xs @ [z]) (Some w)" by auto
  then obtain c' where c': "el_next n = Some c'" "c' \<in> set (xs @ [z])" by (cases xs) auto
  with Cons.prems have "Some c' \<noteq> Some w" by auto
  with n c' have "list_remove_loop (Some w) h c = list_remove_loop (Some w) h c'"
    by (subst list_remove_loop.simps) simp
  also have "\<dots> = Some (h\<lparr>cells := (cells h)(z \<mapsto> nz\<lparr>el_next := el_next f\<rparr>, w \<mapsto> f\<lparr>el_next := None\<rparr>)\<rparr>)"
    by (rule Cons.IH) (use Cons.prems n c' in simp_all)
  finally show ?case .
qed

definition drop_cells :: "nat set \<Rightarrow> 'd heap \<Rightarrow> 'd heap" where
  "drop_cells A h = h\<lparr>cells := (\<lambda>a. if a \<in> A then None else cells h a)\<rparr>"

lemma drop_cells_step: "drop_cells A (h\<lparr>cells := (cells h)(a := None)\<rparr>) = drop_cells (insert a A) h"
  by (cases h) (auto simp: drop_cells_def fun_eq_iff)

lemma drop_cells_empty [simp]: "drop_cells {} h = h"
  by (simp add: drop_cells_def)

lemma drop_cells_sel [simp]:
  "cells (drop_cells A h) a = (if a \<in> A then None else cells h a)" "brk (drop_cells A h) = brk h"
  by (simp_all add: drop_cells_def)

lemma list_free_eq:
  assumes "lseg h p as None" "distinct as"
  shows "otrng_list_free b h p = Some (drop_cells (set as) h, if b then contents h as else [])"
  using assms
proof (induction as arbitrary: h p)
  case Nil
  then show ?case by (simp add: otrng_list_free.simps contents_def)
next
  case (Cons a as)
  then obtain n where n: "p = Some a" "cells h a = Some n" "lseg h (el_next n) as None" by auto
  let ?h = "h\<lparr>cells := (cells h)(a := None)\<rparr>"
  have c: "contents ?h as = contents h as"
    using Cons.prems(2) by (intro contents_cong) auto
  have "otrng_list_free b h p = do {
      (h, freed) \<leftarrow> otrng_list_free b ?h (el_next n); Some (h, if b then el_data n # freed else freed) }"
    using n(1,2) by (subst otrng_list_free.simps) (cases b; simp add: write_data_def free_cell_def)
  also have "\<dots> = Some (drop_cells (set (a # as)) h, if b then contents h (a # as) else [])"
    using n Cons.IH[of ?h "el_next n"] Cons.prems(2) c
    by (simp add: drop_cells_step contents_def)
  finally show ?case .
qed

subsection \<open>The operations on a list\<close>

lemma list_add_refines:
  assumes "is_list h p as"
  shows "\<exists>q a h'. otrng_list_add d h p = Some (q, h') \<and> is_list h' q (as @ [a]) \<and>
     contents h' (as @ [a]) = contents h as @ [d]"
proof -
  from assms have ok: "heap_ok h" and L: "lseg h p as None" and D: "distinct as"
    by (auto simp: is_list_def)
  let ?a = "brk h"
  let ?h1 = "h\<lparr>brk := Suc ?a, cells := (cells h)(?a \<mapsto> \<lparr>el_data = d, el_next = None\<rparr>)\<rparr>"
  have fr: "?a \<notin> set as" by (rule lseg_fresh[OF ok L])
  have L1: "lseg ?h1 p bs q = lseg h p bs q" if "set bs \<subseteq> set as" for bs q p
    using fr that by (intro lseg_cong) auto
  have w: "otrng_list_add d h p = do {
     last \<leftarrow> otrng_list_get_last ?h1 p;
     (case last of
        None \<Rightarrow> Some (Some ?a, ?h1)
      | Some l \<Rightarrow> do { h \<leftarrow> write_next l (Some ?a) ?h1; Some (p, h) }) }"
    by (simp add: otrng_list_add_def list_new_def write_data_def)
  show ?thesis
  proof (cases as rule: rev_cases)
    case Nil
    with L have "otrng_list_add d h p = Some (Some ?a, ?h1)"
      unfolding w by (simp add: otrng_list_get_last_def)
    moreover have "is_list ?h1 (Some ?a) (as @ [?a])" "contents ?h1 (as @ [?a]) = contents h as @ [d]"
      using Nil ok by (auto simp: is_list_def heap_ok_def contents_def)
    ultimately show ?thesis by blast
  next
    case (snoc bs z)
    with L obtain n where n: "cells h z = Some n" "el_next n = None" "lseg h p bs (Some z)"
      by (auto simp: lseg_append)
    let ?h2 = "?h1\<lparr>cells := (cells ?h1)(z \<mapsto> n\<lparr>el_next := Some ?a\<rparr>)\<rparr>"
    from snoc L obtain b where p: "p = Some b" by (cases bs) auto
    have z: "z \<noteq> ?a" "z \<notin> set bs" "?a \<notin> set bs" using fr snoc D by auto
    have "otrng_list_get_last ?h1 p = Some (Some z)"
      using L1[of as p None] L snoc p list_get_last_loop_eq[of ?h1 b as]
      by (simp add: otrng_list_get_last_def)
    moreover have "write_next z (Some ?a) ?h1 = Some ?h2"
      using n z by (simp add: write_next_def)
    ultimately have "otrng_list_add d h p = Some (p, ?h2)" unfolding w by simp
    moreover have "lseg ?h2 p bs (Some z)"
      using L1[of bs p "Some z"] n(3) z snoc by (subst lseg_upd) auto
    then have "is_list ?h2 p (as @ [?a])"
      using snoc z D fr ok n by (auto simp: is_list_def heap_ok_def lseg_append)
    moreover have "contents ?h2 (as @ [?a]) = contents h as @ [d]"
    proof -
      have "contents ?h2 as = contents h as" using fr n(1) by (intro contents_cong) auto
      then show ?thesis using z by (simp add: contents_def)
    qed
    ultimately show ?thesis by blast
  qed
qed

lemma list_remove_refines:
  assumes "is_list h p (xs @ w # ys)"
  shows "\<exists>q h' n. otrng_list_remove_element (Some w) h p = Some (q, h') \<and> is_list h' q (xs @ ys) \<and>
     contents h' (xs @ ys) = contents h (xs @ ys) \<and>
     cells h w = Some n \<and> cells h' w = Some (n\<lparr>el_next := None\<rparr>) \<and>
     (\<forall>a. a \<notin> set (xs @ [w]) \<longrightarrow> cells h' a = cells h a)"
proof -
  from assms have ok: "heap_ok h" and L: "lseg h p (xs @ w # ys) None" and D: "distinct (xs @ w # ys)"
    by (auto simp: is_list_def)
  from L obtain f where f: "lseg h p xs (Some w)" "cells h w = Some f" "lseg h (el_next f) ys None"
    by (auto simp: lseg_append)
  show ?thesis
  proof (cases xs rule: rev_cases)
    case Nil
    let ?h = "h\<lparr>cells := (cells h)(w \<mapsto> f\<lparr>el_next := None\<rparr>)\<rparr>"
    have "otrng_list_remove_element (Some w) h p = Some (el_next f, ?h)"
      using f Nil by (simp add: otrng_list_remove_element_def write_next_def)
    moreover have "is_list ?h (el_next f) (xs @ ys)"
      using Nil f D ok by (auto simp: is_list_def heap_ok_def)
    moreover have "contents ?h (xs @ ys) = contents h (xs @ ys)"
      using f(2) by (intro contents_cong) auto
    ultimately show ?thesis using f(2) by auto
  next
    case (snoc bs z)
    with f(1) obtain nz where nz: "cells h z = Some nz" "lseg h p bs (Some z)" by (auto simp: lseg_append)
    let ?h = "h\<lparr>cells := (cells h)(z \<mapsto> nz\<lparr>el_next := el_next f\<rparr>, w \<mapsto> f\<lparr>el_next := None\<rparr>)\<rparr>"
    from snoc f(1) obtain c where p: "p = Some c" "c \<in> set xs" by (cases bs) auto
    have "list_remove_loop (Some w) h c = Some ?h"
      using f(1,2) p snoc D nz(1) by (intro list_remove_loop_eq) auto
    then have "otrng_list_remove_element (Some w) h p = Some (p, ?h)"
      using p D by (auto simp: otrng_list_remove_element_def)
    moreover have "is_list ?h p (xs @ ys)"
    proof -
      have "lseg ?h p bs (Some z)" "lseg ?h (el_next f) ys None"
        using nz(2) f(3) snoc D by (simp_all add: lseg_upd2)
      then show ?thesis using snoc D ok nz f(2) by (auto simp: is_list_def heap_ok_def lseg_append)
    qed
    moreover have "contents ?h (xs @ ys) = contents h (xs @ ys)"
      using f(2) nz(1) by (intro contents_cong) auto
    ultimately show ?thesis using f(2) snoc by auto
  qed
qed

text \<open>Unlinking a node and freeing it leaves a list without that node.\<close>

lemma lseg_end: "lseg h p as q \<Longrightarrow> lseg h p as q' \<Longrightarrow> q = q'"
  by (induction as arbitrary: p) auto

lemma is_list_drop_cell:
  assumes "is_list h p as" "a \<notin> set as"
  shows "is_list (drop_cells {a} h) p as" "contents (drop_cells {a} h) as = contents h as"
proof -
  have same: "cells (drop_cells {a} h) b = cells h b" if "b \<in> set as" for b
    using that assms(2) by (cases "b = a") simp_all
  show "is_list (drop_cells {a} h) p as"
    using assms(1) lseg_cong[of as, OF same] by (simp add: is_list_def heap_ok_def)
  show "contents (drop_cells {a} h) as = contents h as"
    by (rule contents_cong) (simp only: same)
qed

lemma list_unlink_free:
  assumes "is_list h p (xs @ w # ys)"
  obtains q h1 h' freed where "otrng_list_remove_element (Some w) h p = Some (q, h1)"
    "otrng_list_free b h1 (Some w) = Some (h', freed)" "h' = drop_cells {w} h1" "map_option el_next (cells h1 w) = Some None"
    "is_list h' q (xs @ ys)" "contents h' (xs @ ys) = contents h (xs @ ys)"
proof -
  from list_remove_refines[OF assms] obtain q h1 n where r: "otrng_list_remove_element (Some w) h p = Some (q, h1)"
    "is_list h1 q (xs @ ys)" "contents h1 (xs @ ys) = contents h (xs @ ys)" "cells h1 w = Some (n\<lparr>el_next := None\<rparr>)" by auto
  have "otrng_list_free b h1 (Some w) = Some (drop_cells {w} h1, if b then contents h1 [w] else [])"
    using list_free_eq[of h1 "Some w" "[w]" b] r(4) by simp
  moreover have "w \<notin> set (xs @ ys)" using assms by (simp add: is_list_def)
  note is_list_drop_cell[OF r(2) this]
  ultimately show ?thesis using that r by simp
qed

lemma list_get_last_refines:
  "is_list h p as \<Longrightarrow> otrng_list_get_last h p = Some (if as = [] then None else Some (last as))"
  using list_get_last_loop_eq[of h _ as]
  by (cases as) (auto simp: is_list_def otrng_list_get_last_def)

subsection \<open>The interface of the list\<close>

text \<open>
  What a client relies on: a head pointer stands for a sequence of nodes and their contents;
  adding appends, removing a node keeps the order and contents of the others, and the last node is
  found.  \<open>add_all\<close> is the client that stores a sequence of items.
\<close>

primrec add_all :: "('d \<Rightarrow> 'h \<Rightarrow> 'p \<Rightarrow> ('p \<times> 'h) option) \<Rightarrow> 'd list \<Rightarrow> 'h \<Rightarrow> 'p \<Rightarrow> ('p \<times> 'h) option" where
  "add_all add [] h p = Some (p, h)"
| "add_all add (d # ds) h p = do { (p, h) \<leftarrow> add d h p; add_all add ds h p }"

locale element_list =
  fixes holds :: "'h \<Rightarrow> 'p \<Rightarrow> 'a list \<Rightarrow> bool"
    and items :: "'h \<Rightarrow> 'a list \<Rightarrow> 'd list"
    and add :: "'d \<Rightarrow> 'h \<Rightarrow> 'p \<Rightarrow> ('p \<times> 'h) option"
    and remove :: "'a \<Rightarrow> 'h \<Rightarrow> 'p \<Rightarrow> ('p \<times> 'h) option"
    and last_node :: "'h \<Rightarrow> 'p \<Rightarrow> 'a option option"
  assumes items_append: "items h (as @ bs) = items h as @ items h bs"
    and items_length: "length (items h as) = length as"
    and add_ok: "holds h p as \<Longrightarrow>
      \<exists>q a h'. add d h p = Some (q, h') \<and> holds h' q (as @ [a]) \<and> items h' (as @ [a]) = items h as @ [d]"
    and remove_ok: "holds h p (xs @ w # ys) \<Longrightarrow>
      \<exists>q h'. remove w h p = Some (q, h') \<and> holds h' q (xs @ ys) \<and> items h' (xs @ ys) = items h (xs @ ys)"
    and last_ok: "holds h p as \<Longrightarrow> last_node h p = Some (if as = [] then None else Some (last as))"
begin

lemma add_all_ok:
  assumes "holds h p as"
  shows "\<exists>q bs h'. add_all add ds h p = Some (q, h') \<and> holds h' q (as @ bs) \<and>
     items h' (as @ bs) = items h as @ ds"
  using assms
proof (induction ds arbitrary: h p as)
  case (Cons d ds)
  from add_ok[OF Cons.prems, of d] obtain q a h' where 1: "add d h p = Some (q, h')"
    "holds h' q (as @ [a])" "items h' (as @ [a]) = items h as @ [d]" by blast
  from Cons.IH[OF 1(2)] obtain q' bs h'' where 2: "add_all add ds h' q = Some (q', h'')"
    "holds h'' q' ((as @ [a]) @ bs)" "items h'' ((as @ [a]) @ bs) = items h' (as @ [a]) @ ds" by blast
  from 1 2 show ?case by (intro exI[of _ q'] exI[of _ "a # bs"] exI[of _ h'']) simp
next
  case Nil
  then show ?case by (intro exI[of _ p] exI[of _ "[]"] exI[of _ h]) simp
qed

text \<open>Taking the last node off returns the item that was added last and leaves the others.\<close>

lemma pop_last:
  assumes "holds h p as" "items h as = ds @ [d]"
  obtains xs w q h' where "as = xs @ [w]" "last_node h p = Some (Some w)" "items h [w] = [d]"
    "remove w h p = Some (q, h')" "holds h' q xs" "items h' xs = ds"
proof -
  from assms(2) items_length[of h as] obtain xs w where as: "as = xs @ [w]"
    by (cases as rule: rev_cases) auto
  with assms(2) items_append[of h xs "[w]"] items_length[of h "[w]"]
  have it: "items h xs = ds" "items h [w] = [d]" by (cases "items h [w]"; auto)+
  from remove_ok[of h p xs w "[]"] assms(1) as obtain q h' where
    "remove w h p = Some (q, h')" "holds h' q xs" "items h' xs = items h xs" by auto
  with as it last_ok[OF assms(1)] show ?thesis by (intro that[of xs w q h']) auto
qed

end

interpretation node_list: element_list is_list contents otrng_list_add
  "\<lambda>w. otrng_list_remove_element (Some w)" otrng_list_get_last
proof
  fix h :: "'d heap" and p xs w ys
  assume "is_list h p (xs @ w # ys)"
  from list_remove_refines[OF this] show "\<exists>q h'. otrng_list_remove_element (Some w) h p = Some (q, h') \<and>
      is_list h' q (xs @ ys) \<and> contents h' (xs @ ys) = contents h (xs @ ys)" by blast
qed (simp_all add: list_add_refines[unfolded contents_append] list_get_last_refines, simp add: contents_def)

subsection \<open>Properties\<close>

definition empty_heap :: "'d heap" where
  "empty_heap = \<lparr>cells = (\<lambda>_. None), brk = 1\<rparr>"

lemma empty_heap_list: "is_list empty_heap None []"
  by (simp add: is_list_def heap_ok_def empty_heap_def)

text \<open>Storing a sequence of items one after the other in an empty list never faults and yields
  a list whose nodes hold exactly these items in this order; its length counts the items that are
  not \<open>NULL\<close>.\<close>

theorem list_add_all_correct:
  "\<exists>q h as. add_all otrng_list_add ds empty_heap None = Some (q, h) \<and> is_list h q as \<and>
     contents h as = ds \<and> otrng_list_len h q = Some (length (filter (\<lambda>d. d \<noteq> None) ds))"
proof -
  from node_list.add_all_ok[OF empty_heap_list, of ds] obtain q bs h where
    "add_all otrng_list_add ds empty_heap None = Some (q, h)" "is_list h q bs" "contents h bs = ds"
    by (auto simp: contents_def)
  then show ?thesis
    by (intro exI conjI) (auto simp: otrng_list_len_def list_len_loop_eq is_list_def)
qed

text \<open>Removing a node from a list never faults, unlinks exactly that node, keeps the order and
  the data of the others, and clears the successor of the removed node.\<close>

theorem list_remove_correct:
  assumes "is_list h p (xs @ w # ys)"
  shows "\<exists>q h'. otrng_list_remove_element (Some w) h p = Some (q, h') \<and> is_list h' q (xs @ ys) \<and>
     contents h' (xs @ ys) = contents h (xs @ ys) \<and> map_option el_next (cells h' w) = Some None"
  using list_remove_refines[OF assms] by fastforce

definition two_nodes :: "nat heap" where
  "two_nodes = \<lparr>cells = (\<lambda>_. None)(1 \<mapsto> \<lparr>el_data = Some 5, el_next = Some 2\<rparr>,
      2 \<mapsto> \<lparr>el_data = Some 6, el_next = None\<rparr>), brk = 3\<rparr>"

theorem list_remove_correct_witness:
  "\<exists>q h'. otrng_list_remove_element (Some 2) two_nodes (Some 1) = Some (q, h') \<and> is_list h' q ([1] @ []) \<and>
     contents h' ([1] @ []) = contents two_nodes ([1] @ []) \<and> map_option el_next (cells h' 2) = Some None"
  by (rule list_remove_correct) (simp add: is_list_def heap_ok_def two_nodes_def)

lemma serialize_mac_keys_loop_eq:
  assumes "is_list h p as" and "contents h as = map Some ks" and "\<forall>k \<in> set ks. length k = MAC_KEY_BYTES"
  shows "\<exists>h'. serialize_mac_keys_loop (length ks) ser h p = Some (ser @ concat (rev ks), h', None) \<and>
     heap_ok h' \<and> (\<forall>a. cells h' a = (if a \<in> set as then None else cells h a))"
  using assms
proof (induction ks arbitrary: h p as ser rule: rev_induct)
  case Nil
  then show ?case by (cases as) (auto simp: is_list_def contents_def)
next
  case (snoc k ks)
  from snoc.prems(2) have c: "contents h as = map Some ks @ [Some k]" by simp
  from node_list.pop_last[OF snoc.prems(1) c] obtain xs w where as: "as = xs @ [w]"
    "otrng_list_get_last h p = Some (Some w)" "contents h [w] = [Some k]" by metis
  from snoc.prems(1) as have "is_list h p (xs @ w # [])" by simp
  from list_remove_refines[OF this] obtain q h1 n where r: "otrng_list_remove_element (Some w) h p = Some (q, h1)"
    "is_list h1 q xs" "contents h1 xs = contents h xs" "cells h w = Some n"
    "cells h1 w = Some (n\<lparr>el_next := None\<rparr>)" "\<forall>a. a \<notin> set (xs @ [w]) \<longrightarrow> cells h1 a = cells h a" by auto
  from as(3) r(4) have n: "el_data n = Some k" by (simp add: contents_def)
  let ?h = "drop_cells {w} h1"
  have f: "otrng_list_free True h1 (Some w) = Some (?h, contents h1 [w])"
    using list_free_eq[of h1 "Some w" "[w]" True] r(5) by simp
  have wn: "w \<notin> set xs" using snoc.prems(1) as(1) by (auto simp: is_list_def)
  have "lseg ?h q xs None \<longleftrightarrow> lseg h1 q xs None" using wn by (intro lseg_cong) auto
  then have L: "is_list ?h q xs"
    using r(2) by (auto simp: is_list_def heap_ok_def)
  have "contents ?h xs = contents h1 xs" using wn by (intro contents_cong) auto
  then have C: "contents ?h xs = map Some ks" using r(3) c as(1,3) by simp
  from snoc.IH[OF L C, of "ser @ k"] snoc.prems(3) obtain h' where h':
    "serialize_mac_keys_loop (length ks) (ser @ k) ?h q = Some ((ser @ k) @ concat (rev ks), h', None)"
    "heap_ok h'" "\<forall>a. cells h' a = (if a \<in> set xs then None else cells ?h a)" by auto
  have "\<forall>a. cells h' a = (if a \<in> set as then None else cells h a)"
    using r(6) as(1) h'(3) by auto
  moreover have "serialize_mac_keys_loop (length (ks @ [k])) ser h p = Some (ser @ concat (rev (ks @ [k])), h', None)"
    using as(2) r(1,4) n f h'(1) snoc.prems(3) by simp
  ultimately show ?case using h'(2) by blast
qed

text \<open>Serializing never faults and leaves a well-formed heap.\<close>

lemma serialize_old_mac_keys_ok:
  assumes "is_list h p as" and "contents h as = map Some ks" and "\<forall>k \<in> set ks. length k = MAC_KEY_BYTES"
  obtains h' where
    "otrng_serialize_old_mac_keys h p = Some (if ks = [] then None else Some (concat (rev ks)), h')"
    "otrng_list_len h p = Some (length ks)" "is_list h' None []"
    "\<forall>a. cells h' a = (if a \<in> set as then None else cells h a)" "length (concat (rev ks)) = MAC_KEY_BYTES * length ks"
proof -
  have len: "otrng_list_len h p = Some (length ks)"
    using assms(1,2) list_len_loop_eq[of h p as 0] by (simp add: otrng_list_len_def is_list_def filter_map comp_def)
  from serialize_mac_keys_loop_eq[OF assms, of "[]"] obtain h' where h':
    "serialize_mac_keys_loop (length ks) [] h p = Some (concat (rev ks), h', None)" "heap_ok h'"
    "\<forall>a. cells h' a = (if a \<in> set as then None else cells h a)" by auto
  have l: "length (concat (rev ks)) = MAC_KEY_BYTES * length ks" using assms(3) by (induction ks) (auto simp: length_concat)
  show ?thesis
  proof (cases "ks = []")
    case True
    with assms(2) have "as = []" by (simp add: contents_def)
    with True len assms(1) show ?thesis
      by (intro that[of h]) (simp_all add: otrng_serialize_old_mac_keys_def is_list_def)
  next
    case False
    with len h' l show ?thesis
      by (intro that[of h']) (simp_all add: otrng_serialize_old_mac_keys_def otrng_list_free_nodes_def otrng_list_free.simps
          MAC_KEY_BYTES_def is_list_def)
  qed
qed

text \<open>C15: serializing the old MAC keys of a non-empty list returns the keys of the list in reverse
  order, 64 bytes each, never faults, and frees every node of the list and no other.\<close>

theorem serialize_old_mac_keys_correct:
  assumes "is_list h p as" and "contents h as = map Some ks" and "ks \<noteq> []"
    and "\<forall>k \<in> set ks. length k = MAC_KEY_BYTES"
  shows "\<exists>h'. otrng_serialize_old_mac_keys h p = Some (Some (concat (rev ks)), h') \<and>
     length (concat (rev ks)) = MAC_KEY_BYTES * length ks \<and>
     (\<forall>a. cells h' a = (if a \<in> set as then None else cells h a))"
  using assms(3) by (auto intro: serialize_old_mac_keys_ok[OF assms(1,2,4)])

definition mac_heap :: "bytes heap" where
  "mac_heap = \<lparr>cells = (\<lambda>_. None)(1 \<mapsto> \<lparr>el_data = Some (replicate 64 1), el_next = Some 2\<rparr>,
      2 \<mapsto> \<lparr>el_data = Some (replicate 64 2), el_next = None\<rparr>), brk = 3\<rparr>"

theorem serialize_old_mac_keys_correct_witness:
  "\<exists>h'. otrng_serialize_old_mac_keys mac_heap (Some 1) =
       Some (Some (concat (rev [replicate 64 1, replicate 64 2])), h') \<and>
     length (concat (rev [replicate 64 (1 :: byte), replicate 64 2])) =
       MAC_KEY_BYTES * length [replicate 64 (1 :: byte), replicate 64 2] \<and>
     (\<forall>a. cells h' a = (if a \<in> set [1, 2] then None else cells mac_heap a))"
  by (rule serialize_old_mac_keys_correct)
     (simp_all add: is_list_def heap_ok_def contents_def mac_heap_def MAC_KEY_BYTES_def)

end
