(* ===== verification/Ring_Sig.thy ===== *)
theory Ring_Sig
  imports Crypto_Instance
begin

text \<open>
  \<open>auth.c\<close>: the signature of knowledge of one of three private keys, used by the deniable key
  exchanges.  The random draws are an argument, numbered in the order of the calls.
\<close>

definition OTRNG_PROTOCOL_USAGE_AUTH :: byte where [const_defs]: "OTRNG_PROTOCOL_USAGE_AUTH = 0x1C"
definition OTRNG_PROTOCOL_DOMAIN_SEPARATION :: string where
  [const_defs]: "OTRNG_PROTOCOL_DOMAIN_SEPARATION = ''OTRv4''"

definition base_point_bytes :: bytes where
  "base_point_bytes = [
    0x14, 0xfa, 0x30, 0xf2, 0x5b, 0x79, 0x08, 0x98, 0xad, 0xc8, 0xd7, 0x4e,
    0x2c, 0x13, 0xbd, 0xfd, 0xc4, 0x39, 0x7c, 0xe6, 0x1c, 0xff, 0xd3, 0x3a,
    0xd7, 0xc2, 0xa0, 0x05, 0x1e, 0x9c, 0x78, 0x87, 0x40, 0x98, 0xa3, 0x6c,
    0x73, 0x73, 0xea, 0x4b, 0x62, 0xc7, 0xc9, 0x56, 0x37, 0x20, 0x76, 0x88,
    0x24, 0xbc, 0xb6, 0x6e, 0x71, 0x46, 0x3f, 0x69, 0x00]"

definition prime_order_bytes :: bytes where
  "prime_order_bytes = [
    0x3f, 0xff, 0xff, 0xff, 0xff, 0xff, 0xff, 0xff, 0xff, 0xff, 0xff, 0xff,
    0xff, 0xff, 0xff, 0xff, 0xff, 0xff, 0xff, 0xff, 0xff, 0xff, 0xff, 0xff,
    0xff, 0xff, 0xff, 0xff, 0x7c, 0xca, 0x23, 0xe9, 0xc4, 0x4e, 0xdb, 0x49,
    0xae, 0xd6, 0x36, 0x90, 0x21, 0x6c, 0xc2, 0x72, 0x8d, 0xc5, 0x8f, 0x55,
    0x23, 0x78, 0xc2, 0x92, 0xab, 0x58, 0x44, 0xf3]"

definition choose_T :: "('p, 's, 'm, 'h) crypto_ops \<Rightarrow> 'p \<Rightarrow> bool \<Rightarrow> 'p \<Rightarrow> 'p \<Rightarrow> 's \<Rightarrow> 'p" where
  "choose_T C Ai is_secret Ri Ti ci =
     (let chosen = point_scalarmul C Ai ci;
          chosen = point_add C Ri chosen
      in if is_secret then Ti else chosen)"

definition calculate_ci :: "('p, 's, 'm, 'h) crypto_ops \<Rightarrow> 's \<Rightarrow> 's \<Rightarrow> bool \<Rightarrow> 's \<Rightarrow> 's \<Rightarrow> 's" where
  "calculate_ci C c ci is_secret cj ck =
     (let if_secret = scalar_sub C c cj;
          if_secret = scalar_sub C if_secret ck
      in if is_secret then if_secret else ci)"

definition calculate_ri :: "('p, 's, 'm, 'h) crypto_ops \<Rightarrow> 's \<Rightarrow> 's \<Rightarrow> bool \<Rightarrow> 's \<Rightarrow> 's \<Rightarrow> 's" where
  "calculate_ri C secret ri is_secret ci ti =
     (let if_secret = scalar_mul C ci secret;
          if_secret = scalar_sub C ti if_secret
      in if is_secret then if_secret else ri)"

definition otrng_rsig_calculate_c_with_usage_and_domain ::
    "('p, 's, 'm, 'h) crypto_ops \<Rightarrow> byte \<Rightarrow> string \<Rightarrow> 'p \<Rightarrow> 'p \<Rightarrow> 'p \<Rightarrow> 'p \<Rightarrow> 'p \<Rightarrow> 'p \<Rightarrow> bytes \<Rightarrow> 's option" where
  "otrng_rsig_calculate_c_with_usage_and_domain C usage_auth domain_sep A1 A2 A3 T1 T2 T3 msg = do {
     hd \<leftarrow> hash_init_with_usage_and_domain_separation C usage_auth domain_sep;
     hd \<leftarrow> hash_update C hd base_point_bytes;
     hd \<leftarrow> hash_update C hd prime_order_bytes;
     hd \<leftarrow> hash_update C hd (point_encode_like_eddsa C A1);
     hd \<leftarrow> hash_update C hd (point_encode_like_eddsa C A2);
     hd \<leftarrow> hash_update C hd (point_encode_like_eddsa C A3);
     hd \<leftarrow> hash_update C hd (point_encode_like_eddsa C T1);
     hd \<leftarrow> hash_update C hd (point_encode_like_eddsa C T2);
     hd \<leftarrow> hash_update C hd (point_encode_like_eddsa C T3);
     hd \<leftarrow> hash_update C hd msg;
     Some (scalar_decode_long C (hash_final C hd HASH_BYTES)) }"

definition otrng_rsig_calculate_c_from_sigma_with_usage_and_domain ::
    "('p, 's, 'm, 'h) crypto_ops \<Rightarrow> byte \<Rightarrow> string \<Rightarrow> 's ring_sig_s \<Rightarrow> 'p \<Rightarrow> 'p \<Rightarrow> 'p \<Rightarrow> bytes \<Rightarrow> 's option" where
  "otrng_rsig_calculate_c_from_sigma_with_usage_and_domain C usage domain_sep src A1 A2 A3 msg =
     (let gr1 = point_scalarmul C (point_base C) (sig_r1 src);
          gr2 = point_scalarmul C (point_base C) (sig_r2 src);
          gr3 = point_scalarmul C (point_base C) (sig_r3 src);
          A1c1 = point_scalarmul C A1 (sig_c1 src);
          A2c2 = point_scalarmul C A2 (sig_c2 src);
          A3c3 = point_scalarmul C A3 (sig_c3 src);
          A1c1 = point_add C A1c1 gr1;
          A2c2 = point_add C A2c2 gr2;
          A3c3 = point_add C A3c3 gr3
      in otrng_rsig_calculate_c_with_usage_and_domain C usage domain_sep A1 A2 A3 A1c1 A2c2 A3c3 msg)"

definition otrng_rsig_authenticate_with_usage_and_domain ::
    "('p, 's, 'm, 'h) crypto_ops \<Rightarrow> byte \<Rightarrow> string \<Rightarrow> (nat \<Rightarrow> bytes) \<Rightarrow> 's \<Rightarrow> 'p \<Rightarrow> 'p \<Rightarrow> 'p \<Rightarrow> 'p \<Rightarrow> bytes
     \<Rightarrow> ('s ring_sig_s) option" where
  "otrng_rsig_authenticate_with_usage_and_domain C usage domain_sep rnd secret pub A1 A2 A3 msg =
     (let is_A1 = point_eq C pub A1;
          is_A2 = point_eq C pub A2;
          is_A3 = point_eq C pub A3 in
      if \<not> (is_A1 \<or> is_A2 \<or> is_A3) then None
      else if \<not> ((is_A1 \<noteq> is_A2) \<noteq> is_A3) then None
      else
        let T1 = otrng_zq_keypair_generate C (rnd 0);
            T2 = otrng_zq_keypair_generate C (rnd 1);
            T3 = otrng_zq_keypair_generate C (rnd 2);
            R1 = otrng_zq_keypair_generate C (rnd 3);
            R2 = otrng_zq_keypair_generate C (rnd 4);
            R3 = otrng_zq_keypair_generate C (rnd 5);
            c1 = ed448_random_scalar C (rnd 6);
            c2 = ed448_random_scalar C (rnd 7);
            c3 = ed448_random_scalar C (rnd 8);
            chosen_T1 = choose_T C A1 is_A1 (ecdh_pub R1) (ecdh_pub T1) c1;
            chosen_T2 = choose_T C A2 is_A2 (ecdh_pub R2) (ecdh_pub T2) c2;
            chosen_T3 = choose_T C A3 is_A3 (ecdh_pub R3) (ecdh_pub T3) c3
        in case otrng_rsig_calculate_c_with_usage_and_domain C usage domain_sep A1 A2 A3
                  chosen_T1 chosen_T2 chosen_T3 msg of
             None \<Rightarrow> None
           | Some c \<Rightarrow>
               let tmp_c1 = calculate_ci C c c1 is_A1 c2 c3;
                   tmp_c2 = calculate_ci C c c2 is_A2 c1 c3;
                   tmp_c3 = calculate_ci C c c3 is_A3 c1 c2;
                   tmp_r1 = calculate_ri C secret (ecdh_priv R1) is_A1 tmp_c1 (ecdh_priv T1);
                   tmp_r2 = calculate_ri C secret (ecdh_priv R2) is_A2 tmp_c2 (ecdh_priv T2);
                   tmp_r3 = calculate_ri C secret (ecdh_priv R3) is_A3 tmp_c3 (ecdh_priv T3)
               in Some \<lparr>sig_c1 = tmp_c1, sig_r1 = tmp_r1, sig_c2 = tmp_c2, sig_r2 = tmp_r2,
                        sig_c3 = tmp_c3, sig_r3 = tmp_r3\<rparr>)"

definition otrng_rsig_authenticate ::
    "('p, 's, 'm, 'h) crypto_ops \<Rightarrow> (nat \<Rightarrow> bytes) \<Rightarrow> 's \<Rightarrow> 'p \<Rightarrow> 'p \<Rightarrow> 'p \<Rightarrow> 'p \<Rightarrow> bytes \<Rightarrow> ('s ring_sig_s) option" where
  "otrng_rsig_authenticate C rnd secret pub A1 A2 A3 msg =
     otrng_rsig_authenticate_with_usage_and_domain C OTRNG_PROTOCOL_USAGE_AUTH
       OTRNG_PROTOCOL_DOMAIN_SEPARATION rnd secret pub A1 A2 A3 msg"

definition otrng_rsig_verify_with_usage_and_domain ::
    "('p, 's, 'm, 'h) crypto_ops \<Rightarrow> byte \<Rightarrow> string \<Rightarrow> 's ring_sig_s \<Rightarrow> 'p \<Rightarrow> 'p \<Rightarrow> 'p \<Rightarrow> bytes \<Rightarrow> bool" where
  "otrng_rsig_verify_with_usage_and_domain C usage domain_sep src A1 A2 A3 msg =
     (case otrng_rsig_calculate_c_from_sigma_with_usage_and_domain C usage domain_sep src A1 A2 A3 msg of
        None \<Rightarrow> False
      | Some c \<Rightarrow>
          let c1c2c3 = scalar_add C (sig_c1 src) (sig_c2 src);
              c1c2c3 = scalar_add C c1c2c3 (sig_c3 src)
          in if scalar_eq C c c1c2c3 then True else False)"

definition otrng_rsig_verify ::
    "('p, 's, 'm, 'h) crypto_ops \<Rightarrow> 's ring_sig_s \<Rightarrow> 'p \<Rightarrow> 'p \<Rightarrow> 'p \<Rightarrow> bytes \<Rightarrow> bool" where
  "otrng_rsig_verify C src A1 A2 A3 msg =
     otrng_rsig_verify_with_usage_and_domain C OTRNG_PROTOCOL_USAGE_AUTH
       OTRNG_PROTOCOL_DOMAIN_SEPARATION src A1 A2 A3 msg"

subsection \<open>The challenge\<close>

text \<open>Equal points give equal challenges.\<close>

lemma rsig_challenge_total:
  assumes "sponge_ok C S"
  shows "\<exists>c. otrng_rsig_calculate_c_with_usage_and_domain C u d A1 A2 A3 T1 T2 T3 m = Some c"
  by (simp add: otrng_rsig_calculate_c_with_usage_and_domain_def
      hash_init_with_usage_and_domain_separation_def sponge_simps[OF assms])

lemma rsig_challenge_cong:
  assumes G: "goldilocks_ok C S"
    and "dlog S T1 = dlog S T1'" "dlog S T2 = dlog S T2'" "dlog S T3 = dlog S T3'"
    and "dlog S A1 = dlog S A1'" "dlog S A2 = dlog S A2'" "dlog S A3 = dlog S A3'"
  shows "otrng_rsig_calculate_c_with_usage_and_domain C u d A1 A2 A3 T1 T2 T3 m =
     otrng_rsig_calculate_c_with_usage_and_domain C u d A1' A2' A3' T1' T2' T3' m"
proof -
  note E = iffD2[OF goldilocks_point(10)[OF G]]
  show ?thesis
    using assms(2-7)[THEN E] by (simp add: otrng_rsig_calculate_c_with_usage_and_domain_def)
qed

text \<open>The commitment of each branch: with the responses of the signer the verifier recomputes
  the point the signer chose.\<close>

lemma rsig_branch:
  assumes G: "goldilocks_ok C S"
    and known: "b \<Longrightarrow> dlog S A = sval S secret"
  shows "dlog S (point_add C (point_scalarmul C A ci)
            (point_scalarmul C (point_base C)
              (calculate_ri C secret (ecdh_priv (otrng_zq_keypair_generate C ra)) b ci
                 (ecdh_priv (otrng_zq_keypair_generate C ta))))) =
         dlog S (choose_T C A b (ecdh_pub (otrng_zq_keypair_generate C ra))
            (ecdh_pub (otrng_zq_keypair_generate C ta)) ci)"
  using known
  by (cases b)
     (simp_all add: calculate_ri_def choose_T_def otrng_zq_keypair_generate_def Let_def
       goldilocks_simps[OF G] mod_simps, simp_all add: goldilocks_simps[OF G] algebra_simps)

lemma rsig_verify_cong:
  assumes G: "goldilocks_ok C S" and "ring_sig_eq S g g'"
    and "dlog S A1 = dlog S A1'" "dlog S A2 = dlog S A2'" "dlog S A3 = dlog S A3'"
  shows "otrng_rsig_verify_with_usage_and_domain C u d g A1 A2 A3 m =
     otrng_rsig_verify_with_usage_and_domain C u d g' A1' A2' A3' m"
proof -
  let ?P = "\<lambda>A c r. point_add C (point_scalarmul C A c) (point_scalarmul C (point_base C) r)"
  have "otrng_rsig_calculate_c_with_usage_and_domain C u d A1 A2 A3
      (?P A1 (sig_c1 g) (sig_r1 g)) (?P A2 (sig_c2 g) (sig_r2 g)) (?P A3 (sig_c3 g) (sig_r3 g)) m =
    otrng_rsig_calculate_c_with_usage_and_domain C u d A1' A2' A3'
      (?P A1' (sig_c1 g') (sig_r1 g')) (?P A2' (sig_c2 g') (sig_r2 g')) (?P A3' (sig_c3 g') (sig_r3 g')) m"
    using assms(2-) by (intro rsig_challenge_cong[OF G]) (simp_all add: goldilocks_simps[OF G] ring_sig_eq_def)
  then show ?thesis using assms(2)
    by (simp add: otrng_rsig_verify_with_usage_and_domain_def ring_sig_eq_def Let_def goldilocks_simps[OF G]
        otrng_rsig_calculate_c_from_sigma_with_usage_and_domain_def split: option.split)
qed

text \<open>
  What the verifier of an authentic signature computes: the challenge of the signer, compared
  with the sum of the challenges of the branches, where each branch of a known key holds the
  signer's challenge minus the other two draws.
\<close>

lemma rsig_authenticate_shape:
  assumes G: "goldilocks_ok C S" and H: "sponge_ok C S" and key: "dlog S pub = sval S secret"
    and odd: "(point_eq C pub A1 \<noteq> point_eq C pub A2) \<noteq> point_eq C pub A3"
  obtains g c where
    "otrng_rsig_authenticate_with_usage_and_domain C u d rnd secret pub A1 A2 A3 m = Some g"
    "otrng_rsig_calculate_c_from_sigma_with_usage_and_domain C u d g A1 A2 A3 m = Some c"
    "sig_c1 g = calculate_ci C c (ed448_random_scalar C (rnd 6)) (point_eq C pub A1)
       (ed448_random_scalar C (rnd 7)) (ed448_random_scalar C (rnd 8))"
    "sig_c2 g = calculate_ci C c (ed448_random_scalar C (rnd 7)) (point_eq C pub A2)
       (ed448_random_scalar C (rnd 6)) (ed448_random_scalar C (rnd 8))"
    "sig_c3 g = calculate_ci C c (ed448_random_scalar C (rnd 8)) (point_eq C pub A3)
       (ed448_random_scalar C (rnd 6)) (ed448_random_scalar C (rnd 7))"
proof -
  let ?kp = "\<lambda>i. otrng_zq_keypair_generate C (rnd i)" and ?s = "\<lambda>i. ed448_random_scalar C (rnd i)"
  let ?T = "\<lambda>A i j k. choose_T C A (point_eq C pub A) (ecdh_pub (?kp j)) (ecdh_pub (?kp i)) (?s k)"
  obtain c where c: "otrng_rsig_calculate_c_with_usage_and_domain C u d A1 A2 A3
      (?T A1 0 3 6) (?T A2 1 4 7) (?T A3 2 5 8) m = Some c"
    using rsig_challenge_total[OF H] by blast
  let ?c1 = "calculate_ci C c (?s 6) (point_eq C pub A1) (?s 7) (?s 8)"
  let ?c2 = "calculate_ci C c (?s 7) (point_eq C pub A2) (?s 6) (?s 8)"
  let ?c3 = "calculate_ci C c (?s 8) (point_eq C pub A3) (?s 6) (?s 7)"
  let ?r = "\<lambda>A i j ci. calculate_ri C secret (ecdh_priv (?kp j)) (point_eq C pub A) ci (ecdh_priv (?kp i))"
  let ?g = "\<lparr>sig_c1 = ?c1, sig_r1 = ?r A1 0 3 ?c1, sig_c2 = ?c2, sig_r2 = ?r A2 1 4 ?c2,
    sig_c3 = ?c3, sig_r3 = ?r A3 2 5 ?c3\<rparr>"
  have auth: "otrng_rsig_authenticate_with_usage_and_domain C u d rnd secret pub A1 A2 A3 m = Some ?g"
    using odd c by (auto simp: otrng_rsig_authenticate_with_usage_and_domain_def Let_def)
  have K: "point_eq C pub A \<Longrightarrow> dlog S A = sval S secret" for A
    using key by (simp add: goldilocks_simps[OF G])
  have B: "dlog S (point_add C (point_scalarmul C A ci) (point_scalarmul C (point_base C) (?r A i j ci))) =
      dlog S (?T A i j k)" if "\<not> point_eq C pub A \<Longrightarrow> ci = ?s k" for A i j k ci
    using rsig_branch[OF G, of "point_eq C pub A" A secret ci "rnd j" "rnd i"] K that
    by (cases "point_eq C pub A") (simp_all add: choose_T_def Let_def)
  have "otrng_rsig_calculate_c_from_sigma_with_usage_and_domain C u d ?g A1 A2 A3 m = Some c"
    unfolding otrng_rsig_calculate_c_from_sigma_with_usage_and_domain_def Let_def ring_sig_s.simps
    by (rule trans[OF rsig_challenge_cong[OF G] c]; (rule refl | rule B); simp add: calculate_ci_def Let_def)
  with auth show ?thesis by (rule that) simp_all
qed

lemma rsig_sum_of_challenges:
  assumes G: "goldilocks_ok C S"
  shows "sval S (scalar_add C (scalar_add C (scalar_sub C (scalar_sub C c y) z) y) z) = sval S c"
    and "sval S (scalar_add C (scalar_add C x (scalar_sub C (scalar_sub C c x) z)) z) = sval S c"
    and "sval S (scalar_add C (scalar_add C x y) (scalar_sub C (scalar_sub C c x) y)) = sval S c"
  by (simp_all add: goldilocks_simps[OF G] mod_simps)

lemma double_mod_cancel:
  assumes G: "goldilocks_ok C S"
  shows "x mod order S = (3 * x - 2 * y) mod order S \<longleftrightarrow> x mod order S = y mod order S"
proof -
  have "x mod order S = (3 * x - 2 * y) mod order S \<longleftrightarrow> order S dvd x - (3 * x - 2 * y)"
    by (rule mod_eq_dvd_iff)
  also have "x - (3 * x - 2 * y) = - (2 * (x - y))" by simp
  also have "order S dvd - (2 * (x - y)) \<longleftrightarrow> order S dvd 2 * (x - y)" by (rule dvd_minus_iff)
  also have "\<dots> \<longleftrightarrow> order S dvd x - y"
  proof
    assume "order S dvd 2 * (x - y)"
    then have "(2 * (x - y)) mod order S = 0" by (simp only: dvd_eq_mod_eq_0)
    from goldilocks_no_zero_div[OF G this] goldilocks_scalar(1)[OF G]
    show "order S dvd x - y" by (simp add: dvd_eq_mod_eq_0)
  qed (rule dvd_mult)
  also have "\<dots> \<longleftrightarrow> x mod order S = y mod order S" by (rule mod_eq_dvd_iff[symmetric])
  finally show ?thesis .
qed

definition ring_matches :: "('p, 's, 'm, 'h) crypto_ops \<Rightarrow> 'p \<Rightarrow> 'p list \<Rightarrow> nat" where
  "ring_matches C pub As = length (filter (point_eq C pub) As)"

subsection \<open>Properties\<close>

lemma rsig_authenticate_verify_aux:
  assumes G: "goldilocks_ok C S" and H: "sponge_ok C S" and "dlog S pub = sval S secret"
    and "ring_matches C pub [A1, A2, A3] = 1"
  shows "\<exists>g g'. otrng_rsig_authenticate_with_usage_and_domain C u d rnd secret pub A1 A2 A3 m = Some g \<and>
     otrng_rsig_verify_with_usage_and_domain C u d g A1 A2 A3 m \<and>
     otrng_deserialize_ring_sig C (otrng_serialize_ring_sig C g @ rest) = Some (g', RING_SIG_BYTES) \<and>
     otrng_rsig_verify_with_usage_and_domain C u d g' A1 A2 A3 m"
proof -
  have odd: "(point_eq C pub A1 \<noteq> point_eq C pub A2) \<noteq> point_eq C pub A3"
    using assms(4) by (auto simp: ring_matches_def split: if_splits)
  obtain g c where g: "otrng_rsig_authenticate_with_usage_and_domain C u d rnd secret pub A1 A2 A3 m = Some g"
    "otrng_rsig_calculate_c_from_sigma_with_usage_and_domain C u d g A1 A2 A3 m = Some c"
    and cs: "sig_c1 g = calculate_ci C c (ed448_random_scalar C (rnd 6)) (point_eq C pub A1)
       (ed448_random_scalar C (rnd 7)) (ed448_random_scalar C (rnd 8))"
    "sig_c2 g = calculate_ci C c (ed448_random_scalar C (rnd 7)) (point_eq C pub A2)
       (ed448_random_scalar C (rnd 6)) (ed448_random_scalar C (rnd 8))"
    "sig_c3 g = calculate_ci C c (ed448_random_scalar C (rnd 8)) (point_eq C pub A3)
       (ed448_random_scalar C (rnd 6)) (ed448_random_scalar C (rnd 7))"
    by (rule rsig_authenticate_shape[OF assms(1-3) odd])
  have "sval S c = sval S (scalar_add C (scalar_add C (sig_c1 g) (sig_c2 g)) (sig_c3 g))"
    using assms(4) unfolding cs
    by (auto simp: ring_matches_def calculate_ci_def Let_def rsig_sum_of_challenges[OF G] split: if_splits)
  then have v: "otrng_rsig_verify_with_usage_and_domain C u d g A1 A2 A3 m"
    by (simp add: otrng_rsig_verify_with_usage_and_domain_def g(2) goldilocks_scalar(8)[OF G])
  obtain g' where "otrng_deserialize_ring_sig C (otrng_serialize_ring_sig C g @ rest) = Some (g', RING_SIG_BYTES)"
    and "ring_sig_eq S g' g" by (rule deserialize_ring_sig_serialize[OF G])
  with g(1) v rsig_verify_cong[OF G] show ?thesis by blast
qed

text \<open>C8: a signature made with a private key whose public key is exactly one of the three ring
  members is produced, is accepted by the verifier, and is still accepted after it was serialized
  and read back from the start of a longer message.\<close>

theorem rsig_authenticate_verify:
  assumes G: "goldilocks_ok C S" and H: "sponge_ok C S" and "dlog S pub = sval S secret"
    and "ring_matches C pub [A1, A2, A3] = 1"
  shows "\<exists>g g'. otrng_rsig_authenticate_with_usage_and_domain C u d rnd secret pub A1 A2 A3 m = Some g \<and>
     otrng_rsig_verify_with_usage_and_domain C u d g A1 A2 A3 m \<and>
     otrng_deserialize_ring_sig C (otrng_serialize_ring_sig C g @ rest) = Some (g', RING_SIG_BYTES) \<and>
     otrng_rsig_verify_with_usage_and_domain C u d g' A1 A2 A3 m"
  by (rule rsig_authenticate_verify_aux[OF assms])

theorem rsig_authenticate_verify_witness:
  "\<exists>g g'. otrng_rsig_authenticate_with_usage_and_domain ex_crypto 0x1C ''OTRv4'' (\<lambda>i. [of_nat i]) 3 3 2 3 5 [9] = Some g \<and>
     otrng_rsig_verify_with_usage_and_domain ex_crypto 0x1C ''OTRv4'' g 2 3 5 [9] \<and>
     otrng_deserialize_ring_sig ex_crypto (otrng_serialize_ring_sig ex_crypto g @ [1]) = Some (g', RING_SIG_BYTES) \<and>
     otrng_rsig_verify_with_usage_and_domain ex_crypto 0x1C ''OTRv4'' g' 2 3 5 [9]"
  by (rule rsig_authenticate_verify[OF ex_goldilocks_ok ex_sponge_ok])
     (simp_all add: ring_matches_def ex_crypto_def ex_sem_def)

text \<open>The signer refuses exactly when its public key is none of the ring members or two of
  them.\<close>

theorem rsig_authenticate_refuses:
  assumes "sponge_ok C S"
  shows "otrng_rsig_authenticate_with_usage_and_domain C u d rnd secret pub A1 A2 A3 m = None \<longleftrightarrow>
     ring_matches C pub [A1, A2, A3] \<in> {0, 2}"
proof -
  define f where "f T1 T2 T3 = the (otrng_rsig_calculate_c_with_usage_and_domain C u d A1 A2 A3 T1 T2 T3 m)" for T1 T2 T3
  have "otrng_rsig_calculate_c_with_usage_and_domain C u d A1 A2 A3 T1 T2 T3 m = Some (f T1 T2 T3)" for T1 T2 T3
    using rsig_challenge_total[OF assms, of u d A1 A2 A3 T1 T2 T3 m] by (auto simp: f_def)
  then show ?thesis
    by (simp add: otrng_rsig_authenticate_with_usage_and_domain_def ring_matches_def Let_def)
qed

theorem rsig_authenticate_refuses_witness:
  "otrng_rsig_authenticate_with_usage_and_domain ex_crypto 0x1C ''OTRv4'' (\<lambda>i. [of_nat i]) 3 3 3 3 5 [9] = None \<longleftrightarrow>
     ring_matches ex_crypto 3 [3, 3, 5] \<in> {0, 2}"
  by (rule rsig_authenticate_refuses[OF ex_sponge_ok])

text \<open>When all three ring members are the signer's own key the check for a single match lets
  the signer pass, and the signature it makes is accepted only if the challenge happens to equal
  the sum of the three scalars drawn at random.\<close>

theorem rsig_all_members_equal:
  assumes G: "goldilocks_ok C S" and H: "sponge_ok C S"
    and "dlog S pub = sval S secret" and "ring_matches C pub [A1, A2, A3] = 3"
  shows "\<exists>g c. otrng_rsig_authenticate_with_usage_and_domain C u d rnd secret pub A1 A2 A3 m = Some g \<and>
     otrng_rsig_calculate_c_from_sigma_with_usage_and_domain C u d g A1 A2 A3 m = Some c \<and>
     (otrng_rsig_verify_with_usage_and_domain C u d g A1 A2 A3 m \<longleftrightarrow>
        sval S c = (sval S (ed448_random_scalar C (rnd 6)) + sval S (ed448_random_scalar C (rnd 7)) +
                    sval S (ed448_random_scalar C (rnd 8))) mod order S)"
proof -
  have eq: "point_eq C pub A1" "point_eq C pub A2" "point_eq C pub A3"
    using assms(4) by (auto simp: ring_matches_def split: if_splits)
  then have odd: "(point_eq C pub A1 \<noteq> point_eq C pub A2) \<noteq> point_eq C pub A3" by simp
  let ?q = "order S" and ?a = "sval S (ed448_random_scalar C (rnd 6))"
    and ?b = "sval S (ed448_random_scalar C (rnd 7))" and ?d = "sval S (ed448_random_scalar C (rnd 8))"
  obtain g c where g: "otrng_rsig_authenticate_with_usage_and_domain C u d rnd secret pub A1 A2 A3 m = Some g"
    "otrng_rsig_calculate_c_from_sigma_with_usage_and_domain C u d g A1 A2 A3 m = Some c"
    and cs: "sig_c1 g = calculate_ci C c (ed448_random_scalar C (rnd 6)) (point_eq C pub A1)
       (ed448_random_scalar C (rnd 7)) (ed448_random_scalar C (rnd 8))"
    "sig_c2 g = calculate_ci C c (ed448_random_scalar C (rnd 7)) (point_eq C pub A2)
       (ed448_random_scalar C (rnd 6)) (ed448_random_scalar C (rnd 8))"
    "sig_c3 g = calculate_ci C c (ed448_random_scalar C (rnd 8)) (point_eq C pub A3)
       (ed448_random_scalar C (rnd 6)) (ed448_random_scalar C (rnd 7))"
    by (rule rsig_authenticate_shape[OF assms(1-3) odd])
  have sum: "sval S (scalar_add C (scalar_add C (sig_c1 g) (sig_c2 g)) (sig_c3 g)) =
      (3 * sval S c - 2 * (?a + ?b + ?d)) mod ?q"
    unfolding cs using eq
    by (simp add: calculate_ci_def Let_def goldilocks_simps[OF G] mod_simps) (simp add: algebra_simps)
  have "sval S c = (3 * sval S c - 2 * (?a + ?b + ?d)) mod ?q \<longleftrightarrow> sval S c = (?a + ?b + ?d) mod ?q"
    using double_mod_cancel[OF G, of "sval S c" "?a + ?b + ?d"] by (simp only: goldilocks_scalar(9)[OF G])
  with g sum have "otrng_rsig_verify_with_usage_and_domain C u d g A1 A2 A3 m \<longleftrightarrow> sval S c = (?a + ?b + ?d) mod ?q"
    by (simp only: otrng_rsig_verify_with_usage_and_domain_def option.simps Let_def goldilocks_scalar(8)[OF G] if_bool_eq_conj) simp
  with g show ?thesis by blast
qed

theorem rsig_all_members_equal_witness:
  "\<exists>g c. otrng_rsig_authenticate_with_usage_and_domain ex_crypto 0x1C ''OTRv4'' (\<lambda>i. [of_nat i]) 3 3 3 3 3 [9] = Some g \<and>
     otrng_rsig_calculate_c_from_sigma_with_usage_and_domain ex_crypto 0x1C ''OTRv4'' g 3 3 3 [9] = Some c \<and>
     (otrng_rsig_verify_with_usage_and_domain ex_crypto 0x1C ''OTRv4'' g 3 3 3 [9] \<longleftrightarrow>
        sval ex_sem c = (sval ex_sem (ed448_random_scalar ex_crypto ((\<lambda>i. [of_nat i]) (6 :: nat))) +
           sval ex_sem (ed448_random_scalar ex_crypto ((\<lambda>i. [of_nat i]) (7 :: nat))) +
           sval ex_sem (ed448_random_scalar ex_crypto ((\<lambda>i. [of_nat i]) (8 :: nat)))) mod order ex_sem)"
  by (rule rsig_all_members_equal[OF ex_goldilocks_ok ex_sponge_ok])
     (simp_all add: ring_matches_def ex_crypto_def ex_sem_def)

end
