(* ===== verification/Fingerprint.thy ===== *)
theory Fingerprint
  imports Crypto_Instance
begin

text \<open>\<open>fingerprint.c\<close>: the fingerprint of a pair of long-term keys and its readable form.\<close>

definition FPRINT_LEN_BYTES :: nat where [const_defs]: "FPRINT_LEN_BYTES = 56"
definition OTRNG_FPRINT_HUMAN_LEN :: nat where [const_defs]: "OTRNG_FPRINT_HUMAN_LEN = 126"

text \<open>\<open>snprintf\<close> with \<open>%02X\<close>.\<close>

definition hex_digit :: "nat \<Rightarrow> char" where
  "hex_digit n = ''0123456789ABCDEF'' ! n"

definition print_02X :: "byte \<Rightarrow> string" where
  "print_02X b = [hex_digit (unat b div 16), hex_digit (unat b mod 16)]"

text \<open>One round of the outer loop writes four bytes and a space.\<close>

primrec human_words :: "nat \<Rightarrow> bytes \<Rightarrow> string" where
  "human_words 0 hash = []"
| "human_words (Suc n) hash = concat (map print_02X (take 4 hash)) @ '' '' @ human_words n (drop 4 hash)"

definition otrng_fingerprint_hash_to_human :: "bytes \<Rightarrow> string option" where
  "otrng_fingerprint_hash_to_human hash =
     (if length hash \<noteq> FPRINT_LEN_BYTES then None
      else
        let human = butlast (human_words 14 hash)
        in if length human \<noteq> OTRNG_FPRINT_HUMAN_LEN - 1 then None else Some human)"

definition otrng_serialize_fingerprint ::
    "('p, 's, 'm, 'h) crypto_ops \<Rightarrow> 'p \<Rightarrow> 'p \<Rightarrow> bytes option" where
  "otrng_serialize_fingerprint C long_term_pub_key long_term_forging_pub_key =
     (let long_term_pub_ser = otrng_serialize_public_key C long_term_pub_key in
      if length long_term_pub_ser \<noteq> ED448_PUBKEY_BYTES then None
      else
        let long_term_forging_pub_ser = otrng_serialize_forging_key C long_term_forging_pub_key in
        if length long_term_forging_pub_ser \<noteq> ED448_PUBKEY_BYTES then None
        else do {
          hd \<leftarrow> hash_init_with_usage C 0x00;
          hd \<leftarrow> hash_update C hd long_term_pub_ser;
          hd \<leftarrow> hash_update C hd long_term_forging_pub_ser;
          Some (hash_final C hd FPRINT_LEN_BYTES) })"

subsection \<open>Known fingerprints\<close>

text \<open>The list of the client, \<open>None\<close> before the first fingerprint is added; a result of the searches is a
  pointer into it, \<open>None\<close> for \<open>NULL\<close>.\<close>

record otrng_known_fingerprint_s =
  kf_username :: string
  kf_fp :: bytes
  kf_trusted :: bool

fun first_known :: "(otrng_known_fingerprint_s \<Rightarrow> bool) \<Rightarrow> otrng_known_fingerprint_s list \<Rightarrow> otrng_known_fingerprint_s option" where
  "first_known P [] = None"
| "first_known P (kf # c) = (if P kf then Some kf else first_known P c)"

definition otrng_fingerprint_get_by_fp ::
    "otrng_known_fingerprint_s list option \<Rightarrow> bytes \<Rightarrow> otrng_known_fingerprint_s option" where
  "otrng_fingerprint_get_by_fp fingerprints fp = (case fingerprints of
     None \<Rightarrow> None
   | Some fps \<Rightarrow> first_known (\<lambda>kf. take FPRINT_LEN_BYTES fp = take FPRINT_LEN_BYTES (kf_fp kf)) fps)"

definition otrng_fingerprint_get_by_username ::
    "otrng_known_fingerprint_s list option \<Rightarrow> string \<Rightarrow> otrng_known_fingerprint_s option" where
  "otrng_fingerprint_get_by_username fingerprints username = (case fingerprints of
     None \<Rightarrow> None | Some fps \<Rightarrow> first_known (\<lambda>kf. username = kf_username kf) fps)"

definition otrng_fingerprint_add ::
    "bytes \<Rightarrow> string \<Rightarrow> bool \<Rightarrow> otrng_known_fingerprint_s list option
     \<Rightarrow> otrng_known_fingerprint_s \<times> otrng_known_fingerprint_s list option" where
  "otrng_fingerprint_add fp peer trusted fingerprints = (
     let fps = (case fingerprints of None \<Rightarrow> [] | Some fps \<Rightarrow> fps);
         nfp = \<lparr>kf_username = peer, kf_fp = take FPRINT_LEN_BYTES fp, kf_trusted = trusted\<rparr>
     in (nfp, Some (fps @ [nfp])))"

fun forget_loop :: "otrng_known_fingerprint_s \<Rightarrow> otrng_known_fingerprint_s list \<Rightarrow> otrng_known_fingerprint_s list" where
  "forget_loop fp [] = []"
| "forget_loop fp (kf # c) =
     (if take FPRINT_LEN_BYTES (kf_fp fp) = take FPRINT_LEN_BYTES (kf_fp kf) \<and> kf_username fp = kf_username kf
      then forget_loop fp c else kf # forget_loop fp c)"

definition otrng_fingerprint_forget ::
    "otrng_known_fingerprint_s \<Rightarrow> otrng_known_fingerprint_s list option \<Rightarrow> otrng_known_fingerprint_s list option" where
  "otrng_fingerprint_forget fp fingerprints = map_option (forget_loop fp) fingerprints"

subsection \<open>Properties\<close>

lemma hex_digit_inj: "m < 16 \<Longrightarrow> n < 16 \<Longrightarrow> hex_digit m = hex_digit n \<Longrightarrow> m = n"
proof -
  have d: "distinct ''0123456789ABCDEF''" "length ''0123456789ABCDEF'' = 16" by simp_all
  then show "m < 16 \<Longrightarrow> n < 16 \<Longrightarrow> hex_digit m = hex_digit n \<Longrightarrow> m = n"
    using nth_eq_iff_index_eq[OF d(1)] unfolding hex_digit_def by (simp only: d(2))
qed

lemma print_02X_inj: "print_02X a = print_02X b \<Longrightarrow> a = b"
proof -
  assume a: "print_02X a = print_02X b"
  have l: "unat x < 256" for x :: byte using unsigned_less[of x] by simp
  then have "unat a div 16 < 16" "unat b div 16 < 16" by (simp_all add: less_mult_imp_div_less)
  moreover have "unat a mod 16 < 16" "unat b mod 16 < 16" by simp_all
  moreover from a have "hex_digit (unat a div 16) = hex_digit (unat b div 16)"
    "hex_digit (unat a mod 16) = hex_digit (unat b mod 16)" unfolding print_02X_def list.inject by blast+
  ultimately have "unat a div 16 = unat b div 16" "unat a mod 16 = unat b mod 16"
    by (blast intro: hex_digit_inj)+
  then have "unat a = unat b" by (metis div_mult_mod_eq)
  then show "a = b" by (rule unsigned_word_eqI)
qed

lemma concat_print_inj:
  "length xs = length ys \<Longrightarrow> concat (map print_02X xs) = concat (map print_02X ys) \<Longrightarrow> xs = ys"
  by (induction xs ys rule: list_induct2) (auto simp: print_02X_def dest!: print_02X_inj[unfolded print_02X_def, simplified])

lemma length_concat_print [simp]: "length (concat (map print_02X xs)) = 2 * length xs"
  by (induction xs) (auto simp: print_02X_def)

lemma human_words_length: "length hash = 4 * n \<Longrightarrow> length (human_words n hash) = 9 * n"
  by (induction n arbitrary: hash) auto

lemma human_words_inj:
  "length xs = 4 * n \<Longrightarrow> length ys = 4 * n \<Longrightarrow> human_words n xs = human_words n ys \<Longrightarrow> xs = ys"
proof (induction n arbitrary: xs ys)
  case (Suc n)
  have "length (concat (map print_02X (take 4 xs))) = length (concat (map print_02X (take 4 ys)))"
    using Suc.prems by simp
  with Suc.prems(3) have "concat (map print_02X (take 4 xs)) = concat (map print_02X (take 4 ys))"
    "human_words n (drop 4 xs) = human_words n (drop 4 ys)" by auto
  with Suc.IH[of "drop 4 xs" "drop 4 ys"] Suc.prems concat_print_inj[of "take 4 xs" "take 4 ys"]
  have "take 4 xs = take 4 ys" "drop 4 xs = drop 4 ys" by auto
  then show ?case by (metis append_take_drop_id)
qed simp

lemma human_words_last: "n > 0 \<Longrightarrow> human_words n xs \<noteq> [] \<and> last (human_words n xs) = CHR '' ''"
proof (induction n arbitrary: xs)
  case (Suc n)
  then show ?case by (cases "n = 0") (use Suc.IH[of "drop 4 xs"] in auto)
qed simp

text \<open>A fingerprint of 56 bytes always has a readable form, of 125 characters, and two
  fingerprints with the same readable form are equal.\<close>

theorem fingerprint_human_faithful:
  assumes "length fp = FPRINT_LEN_BYTES" and "length fp' = FPRINT_LEN_BYTES"
  shows "\<exists>h. otrng_fingerprint_hash_to_human fp = Some h \<and> length h = OTRNG_FPRINT_HUMAN_LEN - 1 \<and>
     (otrng_fingerprint_hash_to_human fp' = Some h \<longrightarrow> fp' = fp)"
proof -
  have L: "length (human_words 14 x) = 126" if "length x = FPRINT_LEN_BYTES" for x
    using human_words_length[of x 14] that by (simp add: const_defs)
  have B: "human_words 14 x = butlast (human_words 14 x) @ '' ''" for x
    using human_words_last[of 14 x] append_butlast_last_id[of "human_words 14 x"]
    by (simp only: zero_less_numeral simp_thms)
  from L assms have "otrng_fingerprint_hash_to_human fp = Some (butlast (human_words 14 fp))"
    "otrng_fingerprint_hash_to_human fp' = Some (butlast (human_words 14 fp'))"
    "length (butlast (human_words 14 fp)) = OTRNG_FPRINT_HUMAN_LEN - 1"
    by (simp_all add: otrng_fingerprint_hash_to_human_def const_defs)
  moreover have "fp' = fp" if "butlast (human_words 14 fp') = butlast (human_words 14 fp)"
    using that B[of fp] B[of fp'] human_words_inj[of fp' 14 fp] assms by (simp add: const_defs)
  ultimately show ?thesis by auto
qed

theorem fingerprint_human_faithful_witness:
  "\<exists>h. otrng_fingerprint_hash_to_human (replicate 56 1) = Some h \<and> length h = OTRNG_FPRINT_HUMAN_LEN - 1 \<and>
     (otrng_fingerprint_hash_to_human (replicate 56 2) = Some h \<longrightarrow> replicate 56 (2 :: byte) = replicate 56 1)"
  by (rule fingerprint_human_faithful) (simp_all add: const_defs)

lemma serialize_fingerprint_total:
  assumes "goldilocks_ok C S" "sponge_ok C S"
  shows "\<exists>fp. otrng_serialize_fingerprint C p f = Some fp \<and> length fp = FPRINT_LEN_BYTES"
  by (simp add: otrng_serialize_fingerprint_def otrng_serialize_public_key_def otrng_serialize_forging_key_def
      length_serialize_group[OF assms(1)] hash_init_with_usage_def hash_init_with_dom_def
      sponge_simps[OF assms(2)] sponge_facts(3)[OF assms(2)] const_defs)

end
