(* ===== verification/Smp_Protocol.thy ===== *)
theory Smp_Protocol
  imports Tlv Fingerprint
begin

text \<open>
  \<open>smp_protocol.c\<close>: the socialist millionaires protocol by which two users compare a secret.
  The state \<open>smp_protocol_s\<close> and the four messages are records; a generator takes its random
  draws, numbered in the order of the calls, as an argument and returns the message with the
  updated state, which keeps what was assigned before an error.  A handler returns its event, the
  reply and the state.  Where the code would read through a \<open>NULL\<close> pointer (a secret or a first
  message that was never stored) the outer result is \<open>None\<close>.
\<close>

subsection \<open>State and messages\<close>

datatype otrng_smp_state = SMP_STATE_EXPECT_NONE | SMP_STATE_EXPECT_1 | SMP_STATE_EXPECT_2
  | SMP_STATE_EXPECT_3 | SMP_STATE_EXPECT_4

datatype otrng_smp_event = OTRNG_SMP_EVENT_NONE | OTRNG_SMP_EVENT_ASK_FOR_SECRET
  | OTRNG_SMP_EVENT_ASK_FOR_ANSWER | OTRNG_SMP_EVENT_IN_PROGRESS | OTRNG_SMP_EVENT_SUCCESS
  | OTRNG_SMP_EVENT_CHEATED | OTRNG_SMP_EVENT_FAILURE | OTRNG_SMP_EVENT_ABORT | OTRNG_SMP_EVENT_ERROR

record ('p, 's) smp_message_1_s =
  m1_question :: "bytes option"
  m1_q_len :: nat
  m1_g2a :: 'p
  m1_c2 :: 's
  m1_d2 :: 's
  m1_g3a :: 'p
  m1_c3 :: 's
  m1_d3 :: 's

record ('p, 's) smp_message_2_s =
  m2_g2b :: 'p
  m2_c2 :: 's
  m2_d2 :: 's
  m2_g3b :: 'p
  m2_c3 :: 's
  m2_d3 :: 's
  m2_pb :: 'p
  m2_qb :: 'p
  m2_cp :: 's
  m2_d5 :: 's
  m2_d6 :: 's

record ('p, 's) smp_message_3_s =
  m3_pa :: 'p
  m3_qa :: 'p
  m3_cp :: 's
  m3_d5 :: 's
  m3_d6 :: 's
  m3_ra :: 'p
  m3_cr :: 's
  m3_d7 :: 's

record ('p, 's) smp_message_4_s =
  m4_rb :: 'p
  m4_cr :: 's
  m4_d7 :: 's

record ('p, 's) smp_protocol_s =
  state_expect :: otrng_smp_state
  smp_secret :: "bytes option"
  smp_a2 :: 's
  smp_a3 :: 's
  smp_b3 :: 's
  smp_g2 :: 'p
  smp_g3 :: 'p
  smp_g3a :: 'p
  smp_g3b :: 'p
  smp_pb :: 'p
  smp_qb :: 'p
  smp_pa_pb :: 'p
  smp_qa_qb :: 'p
  progress :: nat
  message1 :: "('p, 's) smp_message_1_s option"

definition SMP_ZERO_PROGRESS :: nat where [const_defs]: "SMP_ZERO_PROGRESS = 0"
definition SMP_QUARTER_PROGRESS :: nat where [const_defs]: "SMP_QUARTER_PROGRESS = 25"
definition SMP_HALF_PROGRESS :: nat where [const_defs]: "SMP_HALF_PROGRESS = 50"
definition SMP_HALF_QUARTER_PROGRESS :: nat where [const_defs]: "SMP_HALF_QUARTER_PROGRESS = 75"
definition SMP_TOTAL_PROGRESS :: nat where [const_defs]: "SMP_TOTAL_PROGRESS = 100"


text \<open>\<open>memset\<close> clears the structure: the two arguments are the scalar and the point whose
  representation is all zero.\<close>

definition otrng_smp_protocol_init :: "'s \<Rightarrow> 'p \<Rightarrow> ('p, 's) smp_protocol_s" where
  "otrng_smp_protocol_init zs zp =
     \<lparr>state_expect = SMP_STATE_EXPECT_1, smp_secret = None, smp_a2 = zs, smp_a3 = zs, smp_b3 = zs,
      smp_g2 = zp, smp_g3 = zp, smp_g3a = zp, smp_g3b = zp, smp_pb = zp, smp_qb = zp, smp_pa_pb = zp,
      smp_qa_qb = zp, progress = SMP_ZERO_PROGRESS, message1 = None\<rparr>"

text \<open>The state and the progress are not touched.\<close>

definition otrng_smp_destroy :: "'s \<Rightarrow> 'p \<Rightarrow> ('p, 's) smp_protocol_s \<Rightarrow> ('p, 's) smp_protocol_s" where
  "otrng_smp_destroy zs zp smp =
     smp\<lparr>smp_secret := None, message1 := None, smp_a2 := zs, smp_a3 := zs, smp_b3 := zs,
      smp_g2 := zp, smp_g3 := zp, smp_g3a := zp, smp_g3b := zp, smp_pb := zp, smp_qb := zp,
      smp_pa_pb := zp, smp_qa_qb := zp\<rparr>"

definition otrng_generate_smp_secret ::
    "('p, 's, 'm, 'h) crypto_ops \<Rightarrow> bytes \<Rightarrow> bytes \<Rightarrow> bytes \<Rightarrow> bytes \<Rightarrow> bytes option" where
  "otrng_generate_smp_secret C our_fp their_fp ssid answer = do {
     hd \<leftarrow> hash_init_with_usage C 0x1B;
     hd \<leftarrow> hash_update C hd [0x01];
     hd \<leftarrow> hash_update C hd (take FPRINT_LEN_BYTES our_fp);
     hd \<leftarrow> hash_update C hd (take FPRINT_LEN_BYTES their_fp);
     hd \<leftarrow> hash_update C hd (take SSID_BYTES ssid);
     hd \<leftarrow> hash_update C hd answer;
     Some (hash_final C hd HASH_BYTES) }"

text \<open>Of the 64 bytes of the hash the first 56 make the scalar.\<close>

definition hash_to_scalar :: "('p, 's, 'm, 'h) crypto_ops \<Rightarrow> bytes \<Rightarrow> byte \<Rightarrow> 's option" where
  "hash_to_scalar C ser_p usage_smp = do {
     hd \<leftarrow> hash_init_with_usage C usage_smp;
     hd \<leftarrow> hash_update C hd ser_p;
     otrng_deserialize_ec_scalar C (take ED448_SCALAR_BYTES (hash_final C hd HASH_BYTES)) }"

text \<open>A point serialized into a buffer of its size, with the check of the length written.\<close>

definition serialize_point_checked :: "('p, 's, 'm, 'h) crypto_ops \<Rightarrow> 'p \<Rightarrow> bytes option" where
  "serialize_point_checked C p =
     (if length (otrng_serialize_ec_point C p) \<noteq> ED448_POINT_BYTES then None
      else Some (otrng_serialize_ec_point C p))"

definition hash_point_to_scalar :: "('p, 's, 'm, 'h) crypto_ops \<Rightarrow> 'p \<Rightarrow> byte \<Rightarrow> 's option" where
  "hash_point_to_scalar C p usage_smp = do {
     ser_point \<leftarrow> serialize_point_checked C p;
     hash_to_scalar C ser_point usage_smp }"

text \<open>The challenge over two points: they are hashed without a prefix first, and the result is
  hashed to a scalar.\<close>

definition hash_points_to_scalar :: "('p, 's, 'm, 'h) crypto_ops \<Rightarrow> 'p \<Rightarrow> 'p \<Rightarrow> byte \<Rightarrow> 's option" where
  "hash_points_to_scalar C p q usage_smp = do {
     ser_point_1 \<leftarrow> serialize_point_checked C p;
     ser_point_2 \<leftarrow> serialize_point_checked C q;
     hd \<leftarrow> hash_update C (hash_init C) ser_point_1;
     hd \<leftarrow> hash_update C hd ser_point_2;
     hash_to_scalar C (hash_final C hd HASH_BYTES) usage_smp }"

subsection \<open>Message 1\<close>

definition otrng_generate_smp_message_1 ::
    "('p, 's, 'm, 'h) crypto_ops \<Rightarrow> (nat \<Rightarrow> bytes) \<Rightarrow> ('p, 's) smp_protocol_s
     \<Rightarrow> ('p, 's) smp_message_1_s option \<times> ('p, 's) smp_protocol_s" where
  "otrng_generate_smp_message_1 C rnd smp =
     (let k2 = otrng_zq_keypair_generate C (rnd 0);
          k3 = otrng_zq_keypair_generate C (rnd 1);
          smp = smp\<lparr>smp_a2 := ecdh_priv k2, smp_a3 := ecdh_priv k3\<rparr>;
          pair_r2 = otrng_zq_keypair_generate C (rnd 2);
          pair_r3 = otrng_zq_keypair_generate C (rnd 3)
      in case hash_point_to_scalar C (ecdh_pub pair_r2) 0x01 of
           None \<Rightarrow> (None, smp)
         | Some c2 \<Rightarrow>
             let a2c2 = scalar_mul C (smp_a2 smp) c2;
                 d2 = scalar_sub C (ecdh_priv pair_r2) a2c2
             in case hash_point_to_scalar C (ecdh_pub pair_r3) 0x02 of
                  None \<Rightarrow> (None, smp)
                | Some c3 \<Rightarrow>
                    let a3c3 = scalar_mul C (smp_a3 smp) c3;
                        d3 = scalar_sub C (ecdh_priv pair_r3) a3c3
                    in (Some \<lparr>m1_question = None, m1_q_len = 0, m1_g2a = ecdh_pub k2, m1_c2 = c2,
                          m1_d2 = d2, m1_g3a = ecdh_pub k3, m1_c3 = c3, m1_d3 = d3\<rparr>, smp))"

definition smp_message_1_copy :: "('p, 's) smp_message_1_s \<Rightarrow> ('p, 's) smp_message_1_s" where
  "smp_message_1_copy src =
     \<lparr>m1_question = map_option (take (m1_q_len src)) (m1_question src), m1_q_len = m1_q_len src,
      m1_g2a = m1_g2a src, m1_c2 = m1_c2 src, m1_d2 = m1_d2 src,
      m1_g3a = m1_g3a src, m1_c3 = m1_c3 src, m1_d3 = m1_d3 src\<rparr>"

definition otrng_smp_message_1_serialize ::
    "('p, 's, 'm, 'h) crypto_ops \<Rightarrow> ('p, 's) smp_message_1_s \<Rightarrow> bytes" where
  "otrng_smp_message_1_serialize C msg =
     otrng_serialize_data (m1_question msg) (m1_q_len msg) @
     otrng_serialize_ec_point C (m1_g2a msg) @ otrng_serialize_ec_scalar C (m1_c2 msg) @
     otrng_serialize_ec_scalar C (m1_d2 msg) @ otrng_serialize_ec_point C (m1_g3a msg) @
     otrng_serialize_ec_scalar C (m1_c3 msg) @ otrng_serialize_ec_scalar C (m1_d3 msg)"

text \<open>The structure the caller passes is not initialised; an empty question leaves its length
  field as it is (\<open>q_len0\<close>).\<close>

definition smp_message_1_deserialize ::
    "('p, 's, 'm, 'h) crypto_ops \<Rightarrow> nat \<Rightarrow> tlv_s \<Rightarrow> ('p, 's) smp_message_1_s option" where
  "smp_message_1_deserialize C q_len0 tlv = do {
     let cursor = tlv_contents tlv;
     (question, read) \<leftarrow> otrng_deserialize_data cursor;
     let cursor = drop read cursor;
     g2a \<leftarrow> otrng_deserialize_ec_point C cursor;
     let cursor = drop ED448_POINT_BYTES cursor;
     c2 \<leftarrow> otrng_deserialize_ec_scalar C cursor;
     let cursor = drop ED448_SCALAR_BYTES cursor;
     d2 \<leftarrow> otrng_deserialize_ec_scalar C cursor;
     let cursor = drop ED448_SCALAR_BYTES cursor;
     g3a \<leftarrow> otrng_deserialize_ec_point C cursor;
     let cursor = drop ED448_POINT_BYTES cursor;
     c3 \<leftarrow> otrng_deserialize_ec_scalar C cursor;
     let cursor = drop ED448_SCALAR_BYTES cursor;
     d3 \<leftarrow> otrng_deserialize_ec_scalar C cursor;
     Some \<lparr>m1_question = question, m1_q_len = (case question of None \<Rightarrow> q_len0 | Some q \<Rightarrow> length q),
       m1_g2a = g2a, m1_c2 = c2, m1_d2 = d2, m1_g3a = g3a, m1_c3 = c3, m1_d3 = d3\<rparr> }"

definition smp_message_1_valid_points ::
    "('p, 's, 'm, 'h) crypto_ops \<Rightarrow> ('p, 's) smp_message_1_s \<Rightarrow> bool" where
  "smp_message_1_valid_points C msg \<longleftrightarrow>
     otrng_ec_point_valid C (m1_g2a msg) \<and> otrng_ec_point_valid C (m1_g3a msg)"

text \<open>The check of one exponent: \<open>c = HashToScalar (usage || G * d + ga * c)\<close>.\<close>

definition zkp_exponent :: "('p, 's, 'm, 'h) crypto_ops \<Rightarrow> byte \<Rightarrow> 'p \<Rightarrow> 's \<Rightarrow> 's \<Rightarrow> bool" where
  "zkp_exponent C usage ga c d =
     (let ga_c = point_scalarmul C ga c;
          g_d = point_scalarmul C (point_base C) d;
          g_d = point_add C g_d ga_c
      in case hash_point_to_scalar C g_d usage of
           None \<Rightarrow> False
         | Some temp_scalar \<Rightarrow> otrng_ec_scalar_eq C temp_scalar c)"

definition smp_message_1_valid_zkp ::
    "('p, 's, 'm, 'h) crypto_ops \<Rightarrow> ('p, 's) smp_message_1_s \<Rightarrow> bool" where
  "smp_message_1_valid_zkp C msg \<longleftrightarrow>
     (if \<not> zkp_exponent C 0x01 (m1_g2a msg) (m1_c2 msg) (m1_d2 msg) then False
      else if \<not> zkp_exponent C 0x02 (m1_g3a msg) (m1_c3 msg) (m1_d3 msg) then False
      else True)"

subsection \<open>Message 2\<close>

definition generate_smp_message_2 ::
    "('p, 's, 'm, 'h) crypto_ops \<Rightarrow> (nat \<Rightarrow> bytes) \<Rightarrow> ('p, 's) smp_message_1_s \<Rightarrow> ('p, 's) smp_protocol_s
     \<Rightarrow> (('p, 's) smp_message_2_s option \<times> ('p, 's) smp_protocol_s) option" where
  "generate_smp_message_2 C rnd msg_1 smp =
     (let k2 = otrng_zq_keypair_generate C (rnd 0);
          b2 = ecdh_priv k2;
          k3 = otrng_zq_keypair_generate C (rnd 1);
          smp = smp\<lparr>smp_b3 := ecdh_priv k3\<rparr>;
          pair_r2 = otrng_zq_keypair_generate C (rnd 2);
          pair_r3 = otrng_zq_keypair_generate C (rnd 3);
          pair_r4 = otrng_zq_keypair_generate C (rnd 4);
          pair_r5 = otrng_zq_keypair_generate C (rnd 5);
          r6 = ed448_random_scalar C (rnd 6)
      in case hash_point_to_scalar C (ecdh_pub pair_r2) 0x03 of
        None \<Rightarrow> Some (None, smp)
      | Some c2 \<Rightarrow>
        let d2 = scalar_sub C (ecdh_priv pair_r2) (scalar_mul C b2 c2)
        in case hash_point_to_scalar C (ecdh_pub pair_r3) 0x04 of
          None \<Rightarrow> Some (None, smp)
        | Some c3 \<Rightarrow>
          let d3 = scalar_sub C (ecdh_priv pair_r3) (scalar_mul C (smp_b3 smp) c3);
              smp = smp\<lparr>smp_g2 := point_scalarmul C (m1_g2a msg_1) b2\<rparr>;
              smp = smp\<lparr>smp_g3 := point_scalarmul C (m1_g3a msg_1) (smp_b3 smp), smp_g3a := m1_g3a msg_1\<rparr>;
              pb = point_scalarmul C (smp_g3 smp) (ecdh_priv pair_r4);
              smp = smp\<lparr>smp_pb := pb\<rparr>
          in case smp_secret smp of
            None \<Rightarrow> None
          | Some secret \<Rightarrow>
            (case otrng_deserialize_ec_scalar C secret of
              None \<Rightarrow> Some (None, smp)
            | Some secret_as_scalar \<Rightarrow>
              let qb = point_scalarmul C (smp_g2 smp) secret_as_scalar;
                  qb = point_add C (ecdh_pub pair_r4) qb;
                  smp = smp\<lparr>smp_qb := qb\<rparr>;
                  temp_point_1 = point_scalarmul C (smp_g3 smp) (ecdh_priv pair_r5);
                  temp_point_2 = point_scalarmul C (smp_g2 smp) r6;
                  temp_point_2 = point_add C (ecdh_pub pair_r5) temp_point_2
              in case hash_points_to_scalar C temp_point_1 temp_point_2 0x05 of
                None \<Rightarrow> Some (None, smp)
              | Some cp \<Rightarrow>
                let d5 = scalar_sub C (ecdh_priv pair_r5) (scalar_mul C (ecdh_priv pair_r4) cp);
                    d6 = scalar_sub C r6 (scalar_mul C secret_as_scalar cp)
                in Some (Some \<lparr>m2_g2b = ecdh_pub k2, m2_c2 = c2, m2_d2 = d2, m2_g3b = ecdh_pub k3,
                      m2_c3 = c3, m2_d3 = d3, m2_pb = pb, m2_qb = qb, m2_cp = cp, m2_d5 = d5,
                      m2_d6 = d6\<rparr>, smp)))"

definition smp_message_2_serialize ::
    "('p, 's, 'm, 'h) crypto_ops \<Rightarrow> ('p, 's) smp_message_2_s \<Rightarrow> bytes" where
  "smp_message_2_serialize C msg =
     otrng_serialize_ec_point C (m2_g2b msg) @ otrng_serialize_ec_scalar C (m2_c2 msg) @
     otrng_serialize_ec_scalar C (m2_d2 msg) @ otrng_serialize_ec_point C (m2_g3b msg) @
     otrng_serialize_ec_scalar C (m2_c3 msg) @ otrng_serialize_ec_scalar C (m2_d3 msg) @
     otrng_serialize_ec_point C (m2_pb msg) @ otrng_serialize_ec_point C (m2_qb msg) @
     otrng_serialize_ec_scalar C (m2_cp msg) @ otrng_serialize_ec_scalar C (m2_d5 msg) @
     otrng_serialize_ec_scalar C (m2_d6 msg)"

definition smp_message_2_deserialize ::
    "('p, 's, 'm, 'h) crypto_ops \<Rightarrow> tlv_s \<Rightarrow> ('p, 's) smp_message_2_s option" where
  "smp_message_2_deserialize C tlv = do {
     let cursor = tlv_contents tlv;
     g2b \<leftarrow> otrng_deserialize_ec_point C cursor;
     let cursor = drop ED448_POINT_BYTES cursor;
     c2 \<leftarrow> otrng_deserialize_ec_scalar C cursor;
     let cursor = drop ED448_SCALAR_BYTES cursor;
     d2 \<leftarrow> otrng_deserialize_ec_scalar C cursor;
     let cursor = drop ED448_SCALAR_BYTES cursor;
     g3b \<leftarrow> otrng_deserialize_ec_point C cursor;
     let cursor = drop ED448_POINT_BYTES cursor;
     c3 \<leftarrow> otrng_deserialize_ec_scalar C cursor;
     let cursor = drop ED448_SCALAR_BYTES cursor;
     d3 \<leftarrow> otrng_deserialize_ec_scalar C cursor;
     let cursor = drop ED448_SCALAR_BYTES cursor;
     pb \<leftarrow> otrng_deserialize_ec_point C cursor;
     let cursor = drop ED448_POINT_BYTES cursor;
     qb \<leftarrow> otrng_deserialize_ec_point C cursor;
     let cursor = drop ED448_POINT_BYTES cursor;
     cp \<leftarrow> otrng_deserialize_ec_scalar C cursor;
     let cursor = drop ED448_SCALAR_BYTES cursor;
     d5 \<leftarrow> otrng_deserialize_ec_scalar C cursor;
     let cursor = drop ED448_SCALAR_BYTES cursor;
     d6 \<leftarrow> otrng_deserialize_ec_scalar C cursor;
     Some \<lparr>m2_g2b = g2b, m2_c2 = c2, m2_d2 = d2, m2_g3b = g3b, m2_c3 = c3, m2_d3 = d3,
       m2_pb = pb, m2_qb = qb, m2_cp = cp, m2_d5 = d5, m2_d6 = d6\<rparr> }"

definition smp_message_2_valid_points ::
    "('p, 's, 'm, 'h) crypto_ops \<Rightarrow> ('p, 's) smp_message_2_s \<Rightarrow> bool" where
  "smp_message_2_valid_points C msg \<longleftrightarrow>
     otrng_ec_point_valid C (m2_g2b msg) \<and> otrng_ec_point_valid C (m2_g3b msg) \<and>
     otrng_ec_point_valid C (m2_pb msg) \<and> otrng_ec_point_valid C (m2_qb msg)"

definition smp_message_2_valid_zkp ::
    "('p, 's, 'm, 'h) crypto_ops \<Rightarrow> ('p, 's) smp_message_2_s \<Rightarrow> ('p, 's) smp_protocol_s \<Rightarrow> bool" where
  "smp_message_2_valid_zkp C msg smp \<longleftrightarrow>
     (if \<not> zkp_exponent C 0x03 (m2_g2b msg) (m2_c2 msg) (m2_d2 msg) then False
      else if \<not> zkp_exponent C 0x04 (m2_g3b msg) (m2_c3 msg) (m2_d3 msg) then False
      else
        let point_cp = point_scalarmul C (m2_pb msg) (m2_cp msg);
            g_d = point_scalarmul C (smp_g3 smp) (m2_d5 msg);
            point_3 = point_add C g_d point_cp;
            point_cp = point_scalarmul C (m2_qb msg) (m2_cp msg);
            g_d = point_scalarmul C (smp_g2 smp) (m2_d6 msg);
            g_d = point_add C g_d point_cp;
            point_cp = point_scalarmul C (point_base C) (m2_d5 msg);
            point_4 = point_add C g_d point_cp
        in case hash_points_to_scalar C point_3 point_4 0x05 of
             None \<Rightarrow> False
           | Some temp_scalar \<Rightarrow> otrng_ec_scalar_eq C temp_scalar (m2_cp msg))"

subsection \<open>Message 3\<close>

definition generate_smp_message_3 ::
    "('p, 's, 'm, 'h) crypto_ops \<Rightarrow> (nat \<Rightarrow> bytes) \<Rightarrow> ('p, 's) smp_message_2_s \<Rightarrow> ('p, 's) smp_protocol_s
     \<Rightarrow> (('p, 's) smp_message_3_s option \<times> ('p, 's) smp_protocol_s) option" where
  "generate_smp_message_3 C rnd msg_2 smp =
     (let r6 = ed448_random_scalar C (rnd 0);
          pair_r4 = otrng_zq_keypair_generate C (rnd 1);
          pair_r5 = otrng_zq_keypair_generate C (rnd 2);
          pair_r7 = otrng_zq_keypair_generate C (rnd 3);
          smp = smp\<lparr>smp_g3b := m2_g3b msg_2\<rparr>;
          pa = point_scalarmul C (smp_g3 smp) (ecdh_priv pair_r4);
          smp = smp\<lparr>smp_pa_pb := point_sub C pa (m2_pb msg_2)\<rparr>
      in case smp_secret smp of
        None \<Rightarrow> None
      | Some secret \<Rightarrow>
        (case otrng_deserialize_ec_scalar C secret of
          None \<Rightarrow> Some (None, smp)
        | Some secret_as_scalar \<Rightarrow>
          let qa = point_scalarmul C (smp_g2 smp) secret_as_scalar;
              qa = point_add C (ecdh_pub pair_r4) qa;
              temp_point_1 = point_scalarmul C (smp_g3 smp) (ecdh_priv pair_r5);
              temp_point_2 = point_scalarmul C (smp_g2 smp) r6;
              temp_point_2 = point_add C (ecdh_pub pair_r5) temp_point_2
          in case hash_points_to_scalar C temp_point_1 temp_point_2 0x06 of
            None \<Rightarrow> Some (None, smp)
          | Some cp \<Rightarrow>
            let d5 = scalar_sub C (ecdh_priv pair_r5) (scalar_mul C (ecdh_priv pair_r4) cp);
                d6 = scalar_sub C r6 (scalar_mul C secret_as_scalar cp);
                smp = smp\<lparr>smp_qa_qb := point_sub C qa (m2_qb msg_2)\<rparr>;
                ra = point_scalarmul C (smp_qa_qb smp) (smp_a3 smp);
                temp_point = point_scalarmul C (smp_qa_qb smp) (ecdh_priv pair_r7)
            in case hash_points_to_scalar C (ecdh_pub pair_r7) temp_point 0x07 of
              None \<Rightarrow> Some (None, smp)
            | Some cr \<Rightarrow>
              let d7 = scalar_sub C (ecdh_priv pair_r7) (scalar_mul C (smp_a3 smp) cr)
              in Some (Some \<lparr>m3_pa = pa, m3_qa = qa, m3_cp = cp, m3_d5 = d5, m3_d6 = d6, m3_ra = ra,
                    m3_cr = cr, m3_d7 = d7\<rparr>, smp)))"

definition smp_message_3_serialize ::
    "('p, 's, 'm, 'h) crypto_ops \<Rightarrow> ('p, 's) smp_message_3_s \<Rightarrow> bytes" where
  "smp_message_3_serialize C msg =
     otrng_serialize_ec_point C (m3_pa msg) @ otrng_serialize_ec_point C (m3_qa msg) @
     otrng_serialize_ec_scalar C (m3_cp msg) @ otrng_serialize_ec_scalar C (m3_d5 msg) @
     otrng_serialize_ec_scalar C (m3_d6 msg) @ otrng_serialize_ec_point C (m3_ra msg) @
     otrng_serialize_ec_scalar C (m3_cr msg) @ otrng_serialize_ec_scalar C (m3_d7 msg)"

definition smp_message_3_deserialize ::
    "('p, 's, 'm, 'h) crypto_ops \<Rightarrow> tlv_s \<Rightarrow> ('p, 's) smp_message_3_s option" where
  "smp_message_3_deserialize C tlv = do {
     let cursor = tlv_contents tlv;
     pa \<leftarrow> otrng_deserialize_ec_point C cursor;
     let cursor = drop ED448_POINT_BYTES cursor;
     qa \<leftarrow> otrng_deserialize_ec_point C cursor;
     let cursor = drop ED448_POINT_BYTES cursor;
     cp \<leftarrow> otrng_deserialize_ec_scalar C cursor;
     let cursor = drop ED448_SCALAR_BYTES cursor;
     d5 \<leftarrow> otrng_deserialize_ec_scalar C cursor;
     let cursor = drop ED448_SCALAR_BYTES cursor;
     d6 \<leftarrow> otrng_deserialize_ec_scalar C cursor;
     let cursor = drop ED448_SCALAR_BYTES cursor;
     ra \<leftarrow> otrng_deserialize_ec_point C cursor;
     let cursor = drop ED448_POINT_BYTES cursor;
     cr \<leftarrow> otrng_deserialize_ec_scalar C cursor;
     let cursor = drop ED448_SCALAR_BYTES cursor;
     d7 \<leftarrow> otrng_deserialize_ec_scalar C cursor;
     Some \<lparr>m3_pa = pa, m3_qa = qa, m3_cp = cp, m3_d5 = d5, m3_d6 = d6, m3_ra = ra,
       m3_cr = cr, m3_d7 = d7\<rparr> }"

definition smp_message_3_validate_points ::
    "('p, 's, 'm, 'h) crypto_ops \<Rightarrow> ('p, 's) smp_message_3_s \<Rightarrow> bool" where
  "smp_message_3_validate_points C msg \<longleftrightarrow>
     otrng_ec_point_valid C (m3_pa msg) \<and> otrng_ec_point_valid C (m3_qa msg) \<and>
     otrng_ec_point_valid C (m3_ra msg)"

definition smp_message_3_validate_zkp ::
    "('p, 's, 'm, 'h) crypto_ops \<Rightarrow> ('p, 's) smp_message_3_s \<Rightarrow> ('p, 's) smp_protocol_s \<Rightarrow> bool" where
  "smp_message_3_validate_zkp C msg smp \<longleftrightarrow>
     (let temp_point = point_scalarmul C (m3_pa msg) (m3_cp msg);
          temp_point_2 = point_scalarmul C (smp_g3 smp) (m3_d5 msg);
          point_1 = point_add C temp_point temp_point_2;
          temp_point = point_scalarmul C (m3_qa msg) (m3_cp msg);
          temp_point_2 = point_scalarmul C (smp_g2 smp) (m3_d6 msg);
          temp_point = point_add C temp_point temp_point_2;
          temp_point_2 = point_scalarmul C (point_base C) (m3_d5 msg);
          point_2 = point_add C temp_point temp_point_2
      in case hash_points_to_scalar C point_1 point_2 0x06 of
           None \<Rightarrow> False
         | Some temp_scalar \<Rightarrow>
             if \<not> otrng_ec_scalar_eq C temp_scalar (m3_cp msg) then False
             else
               let temp_point = point_scalarmul C (smp_g3a smp) (m3_cr msg);
                   temp_point_2 = point_scalarmul C (point_base C) (m3_d7 msg);
                   point_3 = point_add C temp_point temp_point_2;
                   temp_point = point_scalarmul C (m3_ra msg) (m3_cr msg);
                   temp_point_2 = point_sub C (m3_qa msg) (smp_qb smp);
                   temp_point_2 = point_scalarmul C temp_point_2 (m3_d7 msg);
                   point_4 = point_add C temp_point temp_point_2
               in case hash_points_to_scalar C point_3 point_4 0x07 of
                    None \<Rightarrow> False
                  | Some temp_scalar \<Rightarrow> otrng_ec_scalar_eq C temp_scalar (m3_cr msg))"

subsection \<open>Message 4\<close>

definition generate_smp_message_4 ::
    "('p, 's, 'm, 'h) crypto_ops \<Rightarrow> (nat \<Rightarrow> bytes) \<Rightarrow> ('p, 's) smp_message_3_s \<Rightarrow> ('p, 's) smp_protocol_s
     \<Rightarrow> ('p, 's) smp_message_4_s option" where
  "generate_smp_message_4 C rnd msg_3 smp =
     (let pair_r7 = otrng_zq_keypair_generate C (rnd 0);
          qa_qb = point_sub C (m3_qa msg_3) (smp_qb smp);
          rb = point_scalarmul C qa_qb (smp_b3 smp);
          qa_qb = point_scalarmul C qa_qb (ecdh_priv pair_r7)
      in case hash_points_to_scalar C (ecdh_pub pair_r7) qa_qb 0x08 of
           None \<Rightarrow> None
         | Some cr \<Rightarrow>
             let d7 = scalar_sub C (ecdh_priv pair_r7) (scalar_mul C (smp_b3 smp) cr)
             in Some \<lparr>m4_rb = rb, m4_cr = cr, m4_d7 = d7\<rparr>)"

definition smp_message_4_serialize ::
    "('p, 's, 'm, 'h) crypto_ops \<Rightarrow> ('p, 's) smp_message_4_s \<Rightarrow> bytes" where
  "smp_message_4_serialize C msg =
     otrng_serialize_ec_point C (m4_rb msg) @ otrng_serialize_ec_scalar C (m4_cr msg) @
     otrng_serialize_ec_scalar C (m4_d7 msg)"

definition smp_message_4_deserialize ::
    "('p, 's, 'm, 'h) crypto_ops \<Rightarrow> tlv_s \<Rightarrow> ('p, 's) smp_message_4_s option" where
  "smp_message_4_deserialize C tlv = do {
     let cursor = tlv_contents tlv;
     rb \<leftarrow> otrng_deserialize_ec_point C cursor;
     let cursor = drop ED448_POINT_BYTES cursor;
     cr \<leftarrow> otrng_deserialize_ec_scalar C cursor;
     let cursor = drop ED448_SCALAR_BYTES cursor;
     d7 \<leftarrow> otrng_deserialize_ec_scalar C cursor;
     Some \<lparr>m4_rb = rb, m4_cr = cr, m4_d7 = d7\<rparr> }"

definition smp_message_4_validate_zkp ::
    "('p, 's, 'm, 'h) crypto_ops \<Rightarrow> ('p, 's) smp_message_4_s \<Rightarrow> ('p, 's) smp_protocol_s \<Rightarrow> bool" where
  "smp_message_4_validate_zkp C msg smp \<longleftrightarrow>
     (let temp_point = point_scalarmul C (smp_g3b smp) (m4_cr msg);
          temp_point_2 = point_scalarmul C (point_base C) (m4_d7 msg);
          point_1 = point_add C temp_point temp_point_2;
          temp_point = point_scalarmul C (m4_rb msg) (m4_cr msg);
          temp_point_2 = point_scalarmul C (smp_qa_qb smp) (m4_d7 msg);
          point_2 = point_add C temp_point temp_point_2
      in case hash_points_to_scalar C point_1 point_2 0x08 of
           None \<Rightarrow> False
         | Some temp_scalar \<Rightarrow> otrng_ec_scalar_eq C (m4_cr msg) temp_scalar)"

definition smp_is_valid_for_message_3 ::
    "('p, 's, 'm, 'h) crypto_ops \<Rightarrow> ('p, 's) smp_message_3_s \<Rightarrow> ('p, 's) smp_protocol_s \<Rightarrow> bool" where
  "smp_is_valid_for_message_3 C msg smp \<longleftrightarrow>
     (let rab = point_scalarmul C (m3_ra msg) (smp_b3 smp);
          pa_pb = point_sub C (m3_pa msg) (smp_pb smp)
      in otrng_ec_point_eq C pa_pb rab)"

definition smp_is_valid_for_message_4 ::
    "('p, 's, 'm, 'h) crypto_ops \<Rightarrow> ('p, 's) smp_message_4_s \<Rightarrow> ('p, 's) smp_protocol_s \<Rightarrow> bool" where
  "smp_is_valid_for_message_4 C msg smp \<longleftrightarrow>
     (let rab = point_scalarmul C (m4_rb msg) (smp_a3 smp)
      in otrng_ec_point_eq C (smp_pa_pb smp) rab)"

subsection \<open>Handlers\<close>

definition receive_smp_message_1 ::
    "('p, 's, 'm, 'h) crypto_ops \<Rightarrow> nat \<Rightarrow> tlv_s \<Rightarrow> ('p, 's) smp_protocol_s
     \<Rightarrow> otrng_smp_event \<times> ('p, 's) smp_protocol_s" where
  "receive_smp_message_1 C q_len0 tlv smp =
     (if state_expect smp \<noteq> SMP_STATE_EXPECT_1
      then (OTRNG_SMP_EVENT_ABORT, smp\<lparr>progress := SMP_ZERO_PROGRESS\<rparr>)
      else case smp_message_1_deserialize C q_len0 tlv of
          None \<Rightarrow> (OTRNG_SMP_EVENT_ERROR, smp)
        | Some msg_1 \<Rightarrow>
            if \<not> smp_message_1_valid_points C msg_1 then (OTRNG_SMP_EVENT_ERROR, smp)
            else if \<not> smp_message_1_valid_zkp C msg_1 then (OTRNG_SMP_EVENT_ERROR, smp)
            else (OTRNG_SMP_EVENT_NONE, smp\<lparr>message1 := Some (smp_message_1_copy msg_1)\<rparr>))"

definition otrng_reply_with_smp_message_2 ::
    "('p, 's, 'm, 'h) crypto_ops \<Rightarrow> (nat \<Rightarrow> bytes) \<Rightarrow> ('p, 's) smp_protocol_s
     \<Rightarrow> (otrng_smp_event \<times> tlv_s option \<times> ('p, 's) smp_protocol_s) option" where
  "otrng_reply_with_smp_message_2 C rnd smp =
     (case message1 smp of
        None \<Rightarrow> None
      | Some msg_1 \<Rightarrow>
        (case generate_smp_message_2 C rnd msg_1 smp of
           None \<Rightarrow> None
         | Some (None, smp) \<Rightarrow> Some (OTRNG_SMP_EVENT_ERROR, None, smp)
         | Some (Some msg_2, smp) \<Rightarrow>
             let buffer = smp_message_2_serialize C msg_2;
                 to_send = otrng_tlv_new (of_int OTRNG_TLV_SMP_MSG_2) (of_nat (length buffer)) (Some buffer)
             in case to_send of
                  None \<Rightarrow> Some (OTRNG_SMP_EVENT_ERROR, None, smp)
                | Some t \<Rightarrow> Some (OTRNG_SMP_EVENT_NONE, Some t,
                    smp\<lparr>state_expect := SMP_STATE_EXPECT_3, progress := SMP_HALF_PROGRESS\<rparr>)))"

definition receive_smp_message_2 ::
    "('p, 's, 'm, 'h) crypto_ops \<Rightarrow> tlv_s \<Rightarrow> ('p, 's) smp_protocol_s
     \<Rightarrow> otrng_smp_event \<times> ('p, 's) smp_message_2_s option \<times> ('p, 's) smp_protocol_s" where
  "receive_smp_message_2 C tlv smp =
     (if state_expect smp \<noteq> SMP_STATE_EXPECT_2
      then (OTRNG_SMP_EVENT_ABORT, None, smp\<lparr>progress := SMP_ZERO_PROGRESS\<rparr>)
      else case smp_message_2_deserialize C tlv of
          None \<Rightarrow> (OTRNG_SMP_EVENT_ERROR, None, smp)
        | Some msg_2 \<Rightarrow>
            if \<not> smp_message_2_valid_points C msg_2 then (OTRNG_SMP_EVENT_ERROR, None, smp)
            else
              let smp = smp\<lparr>smp_g2 := point_scalarmul C (m2_g2b msg_2) (smp_a2 smp),
                            smp_g3 := point_scalarmul C (m2_g3b msg_2) (smp_a3 smp)\<rparr>
              in if \<not> smp_message_2_valid_zkp C msg_2 smp then (OTRNG_SMP_EVENT_ERROR, None, smp)
                 else (OTRNG_SMP_EVENT_NONE, Some msg_2, smp))"

definition reply_with_smp_message_3 ::
    "('p, 's, 'm, 'h) crypto_ops \<Rightarrow> (nat \<Rightarrow> bytes) \<Rightarrow> ('p, 's) smp_message_2_s \<Rightarrow> ('p, 's) smp_protocol_s
     \<Rightarrow> (otrng_smp_event \<times> tlv_s option \<times> ('p, 's) smp_protocol_s) option" where
  "reply_with_smp_message_3 C rnd msg_2 smp =
     (case generate_smp_message_3 C rnd msg_2 smp of
        None \<Rightarrow> None
      | Some (None, smp) \<Rightarrow> Some (OTRNG_SMP_EVENT_ERROR, None, smp)
      | Some (Some msg_3, smp) \<Rightarrow>
          let buffer = smp_message_3_serialize C msg_3;
              to_send = otrng_tlv_new (of_int OTRNG_TLV_SMP_MSG_3) (of_nat (length buffer)) (Some buffer)
          in case to_send of
               None \<Rightarrow> Some (OTRNG_SMP_EVENT_ERROR, None, smp)
             | Some t \<Rightarrow> Some (OTRNG_SMP_EVENT_NONE, Some t,
                 smp\<lparr>state_expect := SMP_STATE_EXPECT_4, progress := SMP_HALF_PROGRESS\<rparr>))"

definition receive_smp_message_3 ::
    "('p, 's, 'm, 'h) crypto_ops \<Rightarrow> tlv_s \<Rightarrow> ('p, 's) smp_protocol_s
     \<Rightarrow> otrng_smp_event \<times> ('p, 's) smp_message_3_s option \<times> ('p, 's) smp_protocol_s" where
  "receive_smp_message_3 C tlv smp =
     (if state_expect smp \<noteq> SMP_STATE_EXPECT_3
      then (OTRNG_SMP_EVENT_ABORT, None, smp\<lparr>progress := SMP_ZERO_PROGRESS\<rparr>)
      else case smp_message_3_deserialize C tlv of
          None \<Rightarrow> (OTRNG_SMP_EVENT_ERROR, None, smp)
        | Some msg_3 \<Rightarrow>
            if \<not> smp_message_3_validate_points C msg_3 then (OTRNG_SMP_EVENT_ERROR, None, smp)
            else if \<not> smp_message_3_validate_zkp C msg_3 smp then (OTRNG_SMP_EVENT_ERROR, None, smp)
            else (OTRNG_SMP_EVENT_NONE, Some msg_3, smp\<lparr>progress := SMP_HALF_QUARTER_PROGRESS\<rparr>))"

definition reply_with_smp_message_4 ::
    "('p, 's, 'm, 'h) crypto_ops \<Rightarrow> (nat \<Rightarrow> bytes) \<Rightarrow> ('p, 's) smp_message_3_s \<Rightarrow> ('p, 's) smp_protocol_s
     \<Rightarrow> otrng_smp_event \<times> tlv_s option \<times> ('p, 's) smp_protocol_s" where
  "reply_with_smp_message_4 C rnd msg_3 smp =
     (case generate_smp_message_4 C rnd msg_3 smp of
        None \<Rightarrow> (OTRNG_SMP_EVENT_ERROR, None, smp)
      | Some msg_4 \<Rightarrow>
          let buffer = smp_message_4_serialize C msg_4;
              to_send = otrng_tlv_new (of_int OTRNG_TLV_SMP_MSG_4) (of_nat (length buffer)) (Some buffer)
          in case to_send of
               None \<Rightarrow> (OTRNG_SMP_EVENT_ERROR, None, smp)
             | Some t \<Rightarrow>
                 let smp = smp\<lparr>progress := SMP_TOTAL_PROGRESS, state_expect := SMP_STATE_EXPECT_1\<rparr>
                 in if \<not> smp_is_valid_for_message_3 C msg_3 smp
                    then (OTRNG_SMP_EVENT_FAILURE, Some t, smp)
                    else (OTRNG_SMP_EVENT_SUCCESS, Some t, smp))"

definition receive_smp_message_4 ::
    "('p, 's, 'm, 'h) crypto_ops \<Rightarrow> tlv_s \<Rightarrow> ('p, 's) smp_protocol_s
     \<Rightarrow> otrng_smp_event \<times> ('p, 's) smp_protocol_s" where
  "receive_smp_message_4 C tlv smp =
     (if state_expect smp \<noteq> SMP_STATE_EXPECT_4
      then (OTRNG_SMP_EVENT_ABORT, smp\<lparr>progress := SMP_ZERO_PROGRESS\<rparr>)
      else case smp_message_4_deserialize C tlv of
          None \<Rightarrow> (OTRNG_SMP_EVENT_ERROR, smp)
        | Some msg_4 \<Rightarrow>
            if \<not> otrng_ec_point_valid C (m4_rb msg_4) then (OTRNG_SMP_EVENT_ERROR, smp)
            else if \<not> smp_message_4_validate_zkp C msg_4 smp then (OTRNG_SMP_EVENT_ERROR, smp)
            else
              let smp = smp\<lparr>progress := SMP_TOTAL_PROGRESS, state_expect := SMP_STATE_EXPECT_1\<rparr>
              in if \<not> smp_is_valid_for_message_4 C msg_4 smp then (OTRNG_SMP_EVENT_FAILURE, smp)
                 else (OTRNG_SMP_EVENT_SUCCESS, smp))"

definition otrng_process_smp_message1 ::
    "('p, 's, 'm, 'h) crypto_ops \<Rightarrow> nat \<Rightarrow> tlv_s \<Rightarrow> ('p, 's) smp_protocol_s
     \<Rightarrow> otrng_smp_event \<times> ('p, 's) smp_protocol_s" where
  "otrng_process_smp_message1 C q_len0 tlv smp =
     (case receive_smp_message_1 C q_len0 tlv smp of
        (event, smp) \<Rightarrow>
          if event = OTRNG_SMP_EVENT_NONE
          then (OTRNG_SMP_EVENT_ASK_FOR_ANSWER, smp\<lparr>progress := SMP_QUARTER_PROGRESS\<rparr>)
          else (event, smp))"

definition otrng_process_smp_message2 ::
    "('p, 's, 'm, 'h) crypto_ops \<Rightarrow> (nat \<Rightarrow> bytes) \<Rightarrow> tlv_s \<Rightarrow> ('p, 's) smp_protocol_s
     \<Rightarrow> (otrng_smp_event \<times> tlv_s option \<times> ('p, 's) smp_protocol_s) option" where
  "otrng_process_smp_message2 C rnd tlv smp =
     (case receive_smp_message_2 C tlv smp of
        (event, msg_2, smp) \<Rightarrow>
          (case msg_2 of
             Some m \<Rightarrow> if event = OTRNG_SMP_EVENT_NONE then reply_with_smp_message_3 C rnd m smp
                        else Some (event, None, smp)
           | None \<Rightarrow> Some (event, None, smp)))"

definition otrng_process_smp_message3 ::
    "('p, 's, 'm, 'h) crypto_ops \<Rightarrow> (nat \<Rightarrow> bytes) \<Rightarrow> tlv_s \<Rightarrow> ('p, 's) smp_protocol_s
     \<Rightarrow> otrng_smp_event \<times> tlv_s option \<times> ('p, 's) smp_protocol_s" where
  "otrng_process_smp_message3 C rnd tlv smp =
     (case receive_smp_message_3 C tlv smp of
        (event, msg_3, smp) \<Rightarrow>
          (case msg_3 of
             Some m \<Rightarrow> if event = OTRNG_SMP_EVENT_NONE then reply_with_smp_message_4 C rnd m smp
                        else (event, None, smp)
           | None \<Rightarrow> (event, None, smp)))"

definition otrng_process_smp_message4 ::
    "('p, 's, 'm, 'h) crypto_ops \<Rightarrow> tlv_s \<Rightarrow> ('p, 's) smp_protocol_s
     \<Rightarrow> otrng_smp_event \<times> ('p, 's) smp_protocol_s" where
  "otrng_process_smp_message4 C tlv smp = receive_smp_message_4 C tlv smp"

end
