(* ===== verification/Smp_Correct.thy ===== *)
theory Smp_Correct
  imports Smp_Protocol
begin

text \<open>
  Facts on the socialist millionaires protocol: what the wire does to the messages, that the
  proofs of an honest party are accepted, and the equation between the exchanged points that
  decides the comparison.
\<close>

subsection \<open>The messages after the wire\<close>

lemma smp_message_2_roundtrip:
  assumes G: "goldilocks_ok C S" and "tlv_contents t = smp_message_2_serialize C m"
  shows "smp_message_2_deserialize C t = Some
    \<lparr>m2_g2b = wire_point C (m2_g2b m), m2_c2 = wire_scalar C (m2_c2 m), m2_d2 = wire_scalar C (m2_d2 m),
     m2_g3b = wire_point C (m2_g3b m), m2_c3 = wire_scalar C (m2_c3 m), m2_d3 = wire_scalar C (m2_d3 m),
     m2_pb = wire_point C (m2_pb m), m2_qb = wire_point C (m2_qb m), m2_cp = wire_scalar C (m2_cp m),
     m2_d5 = wire_scalar C (m2_d5 m), m2_d6 = wire_scalar C (m2_d6 m)\<rparr>"
  unfolding smp_message_2_deserialize_def assms(2) smp_message_2_serialize_def
  by (simp only: wire_group[OF G] Let_def Option.bind.bind_lunit)

lemma smp_message_3_roundtrip:
  assumes G: "goldilocks_ok C S" and "tlv_contents t = smp_message_3_serialize C m"
  shows "smp_message_3_deserialize C t = Some
    \<lparr>m3_pa = wire_point C (m3_pa m), m3_qa = wire_point C (m3_qa m), m3_cp = wire_scalar C (m3_cp m),
     m3_d5 = wire_scalar C (m3_d5 m), m3_d6 = wire_scalar C (m3_d6 m), m3_ra = wire_point C (m3_ra m),
     m3_cr = wire_scalar C (m3_cr m), m3_d7 = wire_scalar C (m3_d7 m)\<rparr>"
  unfolding smp_message_3_deserialize_def assms(2) smp_message_3_serialize_def
  by (simp only: wire_group[OF G] Let_def Option.bind.bind_lunit)

lemma smp_message_4_roundtrip:
  assumes G: "goldilocks_ok C S" and "tlv_contents t = smp_message_4_serialize C m"
  shows "smp_message_4_deserialize C t = Some
    \<lparr>m4_rb = wire_point C (m4_rb m), m4_cr = wire_scalar C (m4_cr m), m4_d7 = wire_scalar C (m4_d7 m)\<rparr>"
  unfolding smp_message_4_deserialize_def assms(2) smp_message_4_serialize_def
  by (simp only: wire_group[OF G] Let_def Option.bind.bind_lunit)

lemma smp_message_1_roundtrip:
  assumes G: "goldilocks_ok C S" and "tlv_contents t = otrng_smp_message_1_serialize C m"
    and "m1_question m = Some q \<and> m1_q_len m = length q \<and> length q < 2 ^ 32 \<or>
         m1_question m = None \<and> m1_q_len m = 0 \<and> q = []"
  shows "smp_message_1_deserialize C q_len0 t = Some
    \<lparr>m1_question = (if q = [] then None else Some q), m1_q_len = (if q = [] then q_len0 else length q),
     m1_g2a = wire_point C (m1_g2a m), m1_c2 = wire_scalar C (m1_c2 m), m1_d2 = wire_scalar C (m1_d2 m),
     m1_g3a = wire_point C (m1_g3a m), m1_c3 = wire_scalar C (m1_c3 m), m1_d3 = wire_scalar C (m1_d3 m)\<rparr>"
proof -
  have D: "otrng_deserialize_data (otrng_serialize_data (m1_question m) (m1_q_len m) @ r) =
      Some (if q = [] then None else Some q, length (otrng_serialize_data (m1_question m) (m1_q_len m)))" for r
    using assms(3)
  proof
    assume "m1_question m = Some q \<and> m1_q_len m = length q \<and> length q < 2 ^ 32"
    then show ?thesis by (simp only: deserialize_data_serialize length_serialize_data)
  next
    assume "m1_question m = None \<and> m1_q_len m = 0 \<and> q = []"
    then show ?thesis
      by (simp add: otrng_serialize_data_def otrng_serialize_bytes_array_def otrng_deserialize_data_def)
  qed
  show ?thesis
    unfolding smp_message_1_deserialize_def assms(2) otrng_smp_message_1_serialize_def Let_def D
    by (simp only: wire_group[OF G] Option.bind.bind_lunit prod.case drop_append_length) (simp split: if_splits)
qed

subsection \<open>Challenges\<close>

lemma hash_to_scalar_total:
  assumes "sponge_ok C S"
  shows "\<exists>c. hash_to_scalar C bs u = Some c"
  by (simp add: hash_to_scalar_def hash_init_with_usage_def hash_init_with_dom_def sponge_simps[OF assms]
      otrng_deserialize_ec_scalar_def sponge_facts(3)[OF assms] const_defs)

lemma serialize_point_checked_eq:
  assumes "goldilocks_ok C S"
  shows "serialize_point_checked C p = Some (point_encode_like_eddsa C p)"
  by (simp add: serialize_point_checked_def serialize_ec_point_eq goldilocks_point(9)[OF assms])

lemma hash_point_total:
  assumes "goldilocks_ok C S" "sponge_ok C S"
  shows "\<exists>c. hash_point_to_scalar C p u = Some c" "\<exists>c. hash_points_to_scalar C p q u = Some c"
  using hash_to_scalar_total[OF assms(2)]
  by (simp_all add: hash_point_to_scalar_def hash_points_to_scalar_def serialize_point_checked_eq[OF assms(1)]
      sponge_simps[OF assms(2)])

lemma hash_point_cong:
  assumes G: "goldilocks_ok C S" and "dlog S p = dlog S p'"
  shows "hash_point_to_scalar C p u = hash_point_to_scalar C p' u"
  using iffD2[OF goldilocks_point(10)[OF G] assms(2)]
  by (simp add: hash_point_to_scalar_def serialize_point_checked_eq[OF G])

lemma hash_points_cong:
  assumes G: "goldilocks_ok C S" and "dlog S p = dlog S p'" "dlog S q = dlog S q'"
  shows "hash_points_to_scalar C p q u = hash_points_to_scalar C p' q' u"
  using assms(2,3)[THEN iffD2[OF goldilocks_point(10)[OF G]]]
  by (simp add: hash_points_to_scalar_def serialize_point_checked_eq[OF G])

lemma zq_keypair_dlog:
  assumes "goldilocks_ok C S"
  shows "dlog S (ecdh_pub (otrng_zq_keypair_generate C seed)) = sval S (ecdh_priv (otrng_zq_keypair_generate C seed))"
  by (simp add: otrng_zq_keypair_generate_def Let_def goldilocks_simps[OF assms])

lemma zkp_exponent_complete:
  assumes G: "goldilocks_ok C S"
    and "hash_point_to_scalar C P u = Some c0" and "sval S c = sval S c0"
    and "dlog S ga = sval S a" and "dlog S P = sval S r"
    and "sval S d = sval S (scalar_sub C r (scalar_mul C a c0))"
  shows "zkp_exponent C u ga c d"
proof -
  have "dlog S (point_add C (point_scalarmul C (point_base C) d) (point_scalarmul C ga c)) = dlog S P"
    using assms(3-) by (simp add: goldilocks_simps[OF G] mod_simps)
  from hash_point_cong[OF G this] show ?thesis
    using assms(2,3) by (simp add: zkp_exponent_def Let_def otrng_ec_scalar_eq_def goldilocks_simps[OF G])
qed

subsection \<open>The proofs of an honest party are accepted\<close>

text \<open>The two commitments of the proof for \<open>P = G3 * r4\<close>, \<open>Q = G * r4 + G2 * y\<close>.\<close>

lemma zkp_coordinates:
  assumes G: "goldilocks_ok C S"
    and P: "dlog S P = (dlog S g * sval S r) mod order S"
    and Q: "dlog S Q = (sval S r + dlog S h * sval S y) mod order S"
    and e: "sval S e = sval S (scalar_sub C s (scalar_mul C r c))"
    and f: "sval S f = sval S (scalar_sub C t (scalar_mul C y c))"
    and c: "sval S c' = sval S c"
  shows "dlog S (point_add C (point_scalarmul C g e) (point_scalarmul C P c')) =
         (dlog S g * sval S s) mod order S"
    and "dlog S (point_add C (point_add C (point_scalarmul C h f) (point_scalarmul C Q c'))
           (point_scalarmul C (point_base C) e)) = (sval S s + dlog S h * sval S t) mod order S"
    and "dlog S (point_add C (point_scalarmul C P c') (point_scalarmul C g e)) =
         (dlog S g * sval S s) mod order S"
    and "dlog S (point_add C (point_add C (point_scalarmul C Q c') (point_scalarmul C h f))
           (point_scalarmul C (point_base C) e)) = (sval S s + dlog S h * sval S t) mod order S"
  by (simp_all add: goldilocks_simps[OF G] P Q e f c mod_simps) (simp_all add: algebra_simps)

text \<open>The two commitments of the proof that \<open>A = G * a\<close> and \<open>R = D * a\<close> share the exponent.\<close>

lemma zkp_same_exponent:
  assumes G: "goldilocks_ok C S"
    and A: "dlog S A = sval S a" and R: "dlog S R = (dlog S D * sval S a) mod order S"
    and e: "sval S e = sval S (scalar_sub C r (scalar_mul C a c))"
    and c: "sval S c' = sval S c"
  shows "dlog S (point_add C (point_scalarmul C A c') (point_scalarmul C (point_base C) e)) = sval S r"
    and "dlog S (point_add C (point_scalarmul C R c') (point_scalarmul C D e)) = (dlog S D * sval S r) mod order S"
  by (simp_all add: goldilocks_simps[OF G] A R e c mod_simps) (simp_all add: algebra_simps goldilocks_simps[OF G])

definition msg1_eq :: "('p, 's, 'm, 'h) crypto_sem \<Rightarrow> ('p, 's) smp_message_1_s \<Rightarrow> ('p, 's) smp_message_1_s \<Rightarrow> bool" where
  "msg1_eq S m m' \<longleftrightarrow>
     dlog S (m1_g2a m') = dlog S (m1_g2a m) \<and> sval S (m1_c2 m') = sval S (m1_c2 m) \<and> sval S (m1_d2 m') = sval S (m1_d2 m) \<and>
     dlog S (m1_g3a m') = dlog S (m1_g3a m) \<and> sval S (m1_c3 m') = sval S (m1_c3 m) \<and> sval S (m1_d3 m') = sval S (m1_d3 m)"

definition msg2_eq :: "('p, 's, 'm, 'h) crypto_sem \<Rightarrow> ('p, 's) smp_message_2_s \<Rightarrow> ('p, 's) smp_message_2_s \<Rightarrow> bool" where
  "msg2_eq S m m' \<longleftrightarrow>
     dlog S (m2_g2b m') = dlog S (m2_g2b m) \<and> sval S (m2_c2 m') = sval S (m2_c2 m) \<and> sval S (m2_d2 m') = sval S (m2_d2 m) \<and>
     dlog S (m2_g3b m') = dlog S (m2_g3b m) \<and> sval S (m2_c3 m') = sval S (m2_c3 m) \<and> sval S (m2_d3 m') = sval S (m2_d3 m) \<and>
     dlog S (m2_pb m') = dlog S (m2_pb m) \<and> dlog S (m2_qb m') = dlog S (m2_qb m) \<and>
     sval S (m2_cp m') = sval S (m2_cp m) \<and> sval S (m2_d5 m') = sval S (m2_d5 m) \<and> sval S (m2_d6 m') = sval S (m2_d6 m)"

definition msg3_eq :: "('p, 's, 'm, 'h) crypto_sem \<Rightarrow> ('p, 's) smp_message_3_s \<Rightarrow> ('p, 's) smp_message_3_s \<Rightarrow> bool" where
  "msg3_eq S m m' \<longleftrightarrow>
     dlog S (m3_pa m') = dlog S (m3_pa m) \<and> dlog S (m3_qa m') = dlog S (m3_qa m) \<and>
     sval S (m3_cp m') = sval S (m3_cp m) \<and> sval S (m3_d5 m') = sval S (m3_d5 m) \<and> sval S (m3_d6 m') = sval S (m3_d6 m) \<and>
     dlog S (m3_ra m') = dlog S (m3_ra m) \<and> sval S (m3_cr m') = sval S (m3_cr m) \<and> sval S (m3_d7 m') = sval S (m3_d7 m)"

definition msg4_eq :: "('p, 's, 'm, 'h) crypto_sem \<Rightarrow> ('p, 's) smp_message_4_s \<Rightarrow> ('p, 's) smp_message_4_s \<Rightarrow> bool" where
  "msg4_eq S m m' \<longleftrightarrow>
     dlog S (m4_rb m') = dlog S (m4_rb m) \<and> sval S (m4_cr m') = sval S (m4_cr m) \<and> sval S (m4_d7 m') = sval S (m4_d7 m)"

lemmas msg_eqs = msg1_eq_def msg2_eq_def msg3_eq_def msg4_eq_def

text \<open>
  What an honest party makes known by a message, read as numbers, and that the peer accepts the
  message as it arrives, in whatever representation of the same group elements.  In \<open>honest_msg2\<close>
  and \<open>honest_msg3\<close> the last argument is the state of the sender after sending.
\<close>

definition honest_msg1 :: "('p, 's, 'm, 'h) crypto_ops \<Rightarrow> ('p, 's, 'm, 'h) crypto_sem \<Rightarrow> 's \<Rightarrow> 's \<Rightarrow> ('p, 's) smp_message_1_s \<Rightarrow> bool" where
  "honest_msg1 C S a2 a3 m \<longleftrightarrow>
     dlog S (m1_g2a m) = sval S a2 \<and> dlog S (m1_g3a m) = sval S a3 \<and>
     (\<forall>m'. msg1_eq S m m' \<longrightarrow> smp_message_1_valid_points C m' \<and> smp_message_1_valid_zkp C m')"

definition honest_msg2 ::
    "('p, 's, 'm, 'h) crypto_ops \<Rightarrow> ('p, 's, 'm, 'h) crypto_sem \<Rightarrow> 's \<Rightarrow> 's \<Rightarrow> 's \<Rightarrow> 's \<Rightarrow> ('p, 's) smp_message_2_s \<Rightarrow> ('p, 's) smp_protocol_s \<Rightarrow> bool" where
  "honest_msg2 C S b2 b3 r y m B \<longleftrightarrow>
     smp_b3 B = b3 \<and> smp_pb B = m2_pb m \<and> smp_qb B = m2_qb m \<and>
     dlog S (m2_g2b m) = sval S b2 \<and> dlog S (m2_g3b m) = sval S b3 \<and>
     dlog S (m2_pb m) = (dlog S (smp_g3 B) * sval S r) mod order S \<and>
     dlog S (m2_qb m) = (sval S r + dlog S (smp_g2 B) * sval S y) mod order S \<and>
     (\<forall>m' A. msg2_eq S m m' \<longrightarrow> dlog S (smp_g2 A) = dlog S (smp_g2 B) \<longrightarrow> dlog S (smp_g3 A) = dlog S (smp_g3 B) \<longrightarrow>
        smp_message_2_valid_points C m' \<and> smp_message_2_valid_zkp C m' A)"

definition honest_msg3 ::
    "('p, 's, 'm, 'h) crypto_ops \<Rightarrow> ('p, 's, 'm, 'h) crypto_sem \<Rightarrow> 's \<Rightarrow> 's \<Rightarrow> ('p, 's) smp_message_2_s \<Rightarrow> ('p, 's) smp_message_3_s \<Rightarrow> ('p, 's) smp_protocol_s \<Rightarrow> bool" where
  "honest_msg3 C S r x m2 m A \<longleftrightarrow>
     dlog S (smp_g3b A) = dlog S (m2_g3b m2) \<and>
     dlog S (m3_pa m) = (dlog S (smp_g3 A) * sval S r) mod order S \<and>
     dlog S (m3_qa m) = (sval S r + dlog S (smp_g2 A) * sval S x) mod order S \<and>
     dlog S (smp_pa_pb A) = (dlog S (m3_pa m) - dlog S (m2_pb m2)) mod order S \<and>
     dlog S (smp_qa_qb A) = (dlog S (m3_qa m) - dlog S (m2_qb m2)) mod order S \<and>
     dlog S (m3_ra m) = (dlog S (smp_qa_qb A) * sval S (smp_a3 A)) mod order S \<and>
     (\<forall>m' B. msg3_eq S m m' \<longrightarrow> dlog S (smp_g2 B) = dlog S (smp_g2 A) \<longrightarrow> dlog S (smp_g3 B) = dlog S (smp_g3 A) \<longrightarrow>
        dlog S (smp_g3a B) = sval S (smp_a3 A) \<longrightarrow> dlog S (smp_qb B) = dlog S (m2_qb m2) \<longrightarrow>
        smp_message_3_validate_points C m' \<and> smp_message_3_validate_zkp C m' B)"

definition honest_msg4 ::
    "('p, 's, 'm, 'h) crypto_ops \<Rightarrow> ('p, 's, 'm, 'h) crypto_sem \<Rightarrow> ('p, 's) smp_message_3_s \<Rightarrow> ('p, 's) smp_message_4_s \<Rightarrow> ('p, 's) smp_protocol_s \<Rightarrow> bool" where
  "honest_msg4 C S m3 m B \<longleftrightarrow>
     dlog S (m4_rb m) = ((dlog S (m3_qa m3) - dlog S (smp_qb B)) * sval S (smp_b3 B)) mod order S \<and>
     (\<forall>m' A. msg4_eq S m m' \<longrightarrow> dlog S (smp_g3b A) = sval S (smp_b3 B) \<longrightarrow>
        dlog S (smp_qa_qb A) = (dlog S (m3_qa m3) - dlog S (smp_qb B)) mod order S \<longrightarrow>
        otrng_ec_point_valid C (m4_rb m') \<and> smp_message_4_validate_zkp C m' A)"

lemma generate_smp_message_1_honest:
  assumes G: "goldilocks_ok C S" and H: "sponge_ok C S"
  obtains m where
    "otrng_generate_smp_message_1 C rnd smp =
       (Some m, smp\<lparr>smp_a2 := ed448_random_scalar C (rnd 0), smp_a3 := ed448_random_scalar C (rnd 1)\<rparr>)"
    "m1_question m = None" "m1_q_len m = 0"
    "honest_msg1 C S (ed448_random_scalar C (rnd 0)) (ed448_random_scalar C (rnd 1)) m"
proof -
  let ?k = "\<lambda>i. otrng_zq_keypair_generate C (rnd i)"
  have priv: "ecdh_priv (?k i) = ed448_random_scalar C (rnd i)" for i
    by (simp add: otrng_zq_keypair_generate_def Let_def)
  obtain c2 where c2: "hash_point_to_scalar C (ecdh_pub (?k 2)) 0x01 = Some c2"
    using hash_point_total(1)[OF G H] by blast
  obtain c3 where c3: "hash_point_to_scalar C (ecdh_pub (?k 3)) 0x02 = Some c3"
    using hash_point_total(1)[OF G H] by blast
  let ?m = "\<lparr>m1_question = None, m1_q_len = 0, m1_g2a = ecdh_pub (?k 0), m1_c2 = c2,
    m1_d2 = scalar_sub C (ecdh_priv (?k 2)) (scalar_mul C (ecdh_priv (?k 0)) c2), m1_g3a = ecdh_pub (?k 1), m1_c3 = c3,
    m1_d3 = scalar_sub C (ecdh_priv (?k 3)) (scalar_mul C (ecdh_priv (?k 1)) c3)\<rparr>"
  have "smp_message_1_valid_zkp C m'" if "msg1_eq S ?m m'" for m'
    using that zkp_exponent_complete[OF G c2, of "m1_c2 m'" "m1_g2a m'" "ecdh_priv (?k 0)" "ecdh_priv (?k 2)" "m1_d2 m'"]
      zkp_exponent_complete[OF G c3, of "m1_c3 m'" "m1_g3a m'" "ecdh_priv (?k 1)" "ecdh_priv (?k 3)" "m1_d3 m'"]
    by (simp add: msg1_eq_def smp_message_1_valid_zkp_def zq_keypair_dlog[OF G])
  moreover have "smp_message_1_valid_points C m'" for m'
    by (simp add: smp_message_1_valid_points_def otrng_ec_point_valid_def goldilocks_simps[OF G])
  moreover have "otrng_generate_smp_message_1 C rnd smp =
       (Some ?m, smp\<lparr>smp_a2 := ed448_random_scalar C (rnd 0), smp_a3 := ed448_random_scalar C (rnd 1)\<rparr>)"
    using c2 c3 by (simp add: otrng_generate_smp_message_1_def Let_def priv)
  ultimately show ?thesis
    by (intro that[of ?m]) (simp_all add: honest_msg1_def zq_keypair_dlog[OF G] priv)
qed

lemma generate_smp_message_2_honest:
  assumes G: "goldilocks_ok C S" and H: "sponge_ok C S"
    and sec: "smp_secret smp = Some secret" "ED448_SCALAR_BYTES \<le> length secret"
  obtains m smp' where
    "generate_smp_message_2 C rnd msg_1 smp = Some (Some m, smp')"
    "dlog S (smp_g2 smp') = (dlog S (m1_g2a msg_1) * sval S (ed448_random_scalar C (rnd 0))) mod order S"
    "dlog S (smp_g3 smp') = (dlog S (m1_g3a msg_1) * sval S (ed448_random_scalar C (rnd 1))) mod order S"
    "smp_g3a smp' = m1_g3a msg_1"
    "honest_msg2 C S (ed448_random_scalar C (rnd 0)) (ed448_random_scalar C (rnd 1)) (ed448_random_scalar C (rnd 4))
       (otrng_ec_scalar_decode C secret) m smp'"
proof -
  let ?k = "\<lambda>i. otrng_zq_keypair_generate C (rnd i)" and ?r = "\<lambda>i. ed448_random_scalar C (rnd i)"
  have priv: "ecdh_priv (?k i) = ?r i" for i
    by (simp add: otrng_zq_keypair_generate_def Let_def)
  let ?y = "otrng_ec_scalar_decode C secret"
  let ?g2 = "point_scalarmul C (m1_g2a msg_1) (?r 0)" and ?g3 = "point_scalarmul C (m1_g3a msg_1) (?r 1)"
  let ?pb = "point_scalarmul C ?g3 (?r 4)" and ?qb = "point_add C (ecdh_pub (?k 4)) (point_scalarmul C ?g2 ?y)"
  let ?t1 = "point_scalarmul C ?g3 (?r 5)" and ?t2 = "point_add C (ecdh_pub (?k 5)) (point_scalarmul C ?g2 (?r 6))"
  obtain c2 where c2: "hash_point_to_scalar C (ecdh_pub (?k 2)) 0x03 = Some c2"
    using hash_point_total(1)[OF G H] by blast
  obtain c3 where c3: "hash_point_to_scalar C (ecdh_pub (?k 3)) 0x04 = Some c3"
    using hash_point_total(1)[OF G H] by blast
  obtain cp where cp: "hash_points_to_scalar C ?t1 ?t2 0x05 = Some cp"
    using hash_point_total(2)[OF G H] by blast
  let ?m = "\<lparr>m2_g2b = ecdh_pub (?k 0), m2_c2 = c2, m2_d2 = scalar_sub C (?r 2) (scalar_mul C (?r 0) c2),
    m2_g3b = ecdh_pub (?k 1), m2_c3 = c3, m2_d3 = scalar_sub C (?r 3) (scalar_mul C (?r 1) c3),
    m2_pb = ?pb, m2_qb = ?qb, m2_cp = cp, m2_d5 = scalar_sub C (?r 5) (scalar_mul C (?r 4) cp),
    m2_d6 = scalar_sub C (?r 6) (scalar_mul C ?y cp)\<rparr>"
  let ?smp = "smp\<lparr>smp_b3 := ?r 1, smp_g2 := ?g2, smp_g3 := ?g3, smp_g3a := m1_g3a msg_1, smp_pb := ?pb, smp_qb := ?qb\<rparr>"
  have gen: "generate_smp_message_2 C rnd msg_1 smp = Some (Some ?m, ?smp)"
    using c2 c3 cp sec by (simp add: generate_smp_message_2_def Let_def priv otrng_deserialize_ec_scalar_def)
  have pb: "dlog S ?pb = (dlog S ?g3 * sval S (?r 4)) mod order S"
    and qb: "dlog S ?qb = (sval S (?r 4) + dlog S ?g2 * sval S ?y) mod order S"
    and t1: "dlog S ?t1 = (dlog S ?g3 * sval S (?r 5)) mod order S"
    and t2: "dlog S ?t2 = (sval S (?r 5) + dlog S ?g2 * sval S (?r 6)) mod order S"
    by (simp_all only: goldilocks_point(4,6)[OF G] zq_keypair_dlog[OF G] priv mod_add_right_eq)
  have zkp: "smp_message_2_valid_zkp C m' A"
    if "msg2_eq S ?m m'" and gA: "dlog S (smp_g2 A) = dlog S ?g2" "dlog S (smp_g3 A) = dlog S ?g3" for m' A
  proof -
    note e = that(1)[unfolded msg2_eq_def smp_message_2_s.select_convs]
    have P: "dlog S (m2_pb m') = (dlog S (smp_g3 A) * sval S (?r 4)) mod order S"
      and Q: "dlog S (m2_qb m') = (sval S (?r 4) + dlog S (smp_g2 A) * sval S ?y) mod order S"
      using e pb qb by (simp_all only: gA)
    note z = zkp_coordinates[OF G P Q, of "m2_d5 m'" "?r 5" cp "m2_d6 m'" "?r 6" "m2_cp m'"]
    have "hash_points_to_scalar C
        (point_add C (point_scalarmul C (smp_g3 A) (m2_d5 m')) (point_scalarmul C (m2_pb m') (m2_cp m')))
        (point_add C (point_add C (point_scalarmul C (smp_g2 A) (m2_d6 m')) (point_scalarmul C (m2_qb m') (m2_cp m')))
          (point_scalarmul C (point_base C) (m2_d5 m'))) 0x05 = Some cp"
      unfolding cp[symmetric] by (rule hash_points_cong[OF G]; simp only: t1 t2 z e gA)
    moreover have "zkp_exponent C 0x03 (m2_g2b m') (m2_c2 m') (m2_d2 m')"
      "zkp_exponent C 0x04 (m2_g3b m') (m2_c3 m') (m2_d3 m')"
      using e zkp_exponent_complete[OF G c2, of "m2_c2 m'" "m2_g2b m'" "?r 0" "?r 2" "m2_d2 m'"]
        zkp_exponent_complete[OF G c3, of "m2_c3 m'" "m2_g3b m'" "?r 1" "?r 3" "m2_d3 m'"]
      by (simp_all only: zq_keypair_dlog[OF G] priv)
    ultimately show ?thesis using e
      by (simp add: smp_message_2_valid_zkp_def Let_def otrng_ec_scalar_eq_def goldilocks_scalar(8)[OF G])
  qed
  have "honest_msg2 C S (?r 0) (?r 1) (?r 4) ?y ?m ?smp"
    unfolding honest_msg2_def using zkp
    by (simp add: pb[simplified] qb[simplified] smp_message_2_valid_points_def otrng_ec_point_valid_def
        goldilocks_point(8)[OF G] zq_keypair_dlog[OF G] priv)
  then show ?thesis by (intro that[OF gen]) (simp_all add: goldilocks_point(6)[OF G])
qed

lemma generate_smp_message_3_honest:
  assumes G: "goldilocks_ok C S" and H: "sponge_ok C S"
    and sec: "smp_secret smp = Some secret" "ED448_SCALAR_BYTES \<le> length secret"
  obtains m smp' where
    "generate_smp_message_3 C rnd msg_2 smp = Some (Some m, smp')"
    "smp' = smp\<lparr>smp_g3b := m2_g3b msg_2, smp_pa_pb := smp_pa_pb smp', smp_qa_qb := smp_qa_qb smp'\<rparr>"
    "honest_msg3 C S (ed448_random_scalar C (rnd 1)) (otrng_ec_scalar_decode C secret) msg_2 m smp'"
proof -
  let ?k = "\<lambda>i. otrng_zq_keypair_generate C (rnd i)" and ?r = "\<lambda>i. ed448_random_scalar C (rnd i)"
  have priv: "ecdh_priv (?k i) = ?r i" for i
    by (simp add: otrng_zq_keypair_generate_def Let_def)
  let ?x = "otrng_ec_scalar_decode C secret" and ?g2 = "smp_g2 smp" and ?g3 = "smp_g3 smp" and ?a = "smp_a3 smp"
  let ?pa = "point_scalarmul C ?g3 (?r 1)" and ?qa = "point_add C (ecdh_pub (?k 1)) (point_scalarmul C ?g2 ?x)"
  let ?t1 = "point_scalarmul C ?g3 (?r 2)" and ?t2 = "point_add C (ecdh_pub (?k 2)) (point_scalarmul C ?g2 (?r 0))"
  let ?D = "point_sub C ?qa (m2_qb msg_2)"
  let ?ra = "point_scalarmul C ?D ?a" and ?t3 = "point_scalarmul C ?D (?r 3)"
  obtain cp where cp: "hash_points_to_scalar C ?t1 ?t2 0x06 = Some cp"
    using hash_point_total(2)[OF G H] by blast
  obtain cr where cr: "hash_points_to_scalar C (ecdh_pub (?k 3)) ?t3 0x07 = Some cr"
    using hash_point_total(2)[OF G H] by blast
  let ?m = "\<lparr>m3_pa = ?pa, m3_qa = ?qa, m3_cp = cp, m3_d5 = scalar_sub C (?r 2) (scalar_mul C (?r 1) cp),
    m3_d6 = scalar_sub C (?r 0) (scalar_mul C ?x cp), m3_ra = ?ra, m3_cr = cr,
    m3_d7 = scalar_sub C (?r 3) (scalar_mul C ?a cr)\<rparr>"
  let ?smp = "smp\<lparr>smp_g3b := m2_g3b msg_2, smp_pa_pb := point_sub C ?pa (m2_pb msg_2), smp_qa_qb := ?D\<rparr>"
  have gen: "generate_smp_message_3 C rnd msg_2 smp = Some (Some ?m, ?smp)"
    using cp cr sec by (simp add: generate_smp_message_3_def Let_def priv otrng_deserialize_ec_scalar_def)
  have pa: "dlog S ?pa = (dlog S ?g3 * sval S (?r 1)) mod order S"
    and qa: "dlog S ?qa = (sval S (?r 1) + dlog S ?g2 * sval S ?x) mod order S"
    and t1: "dlog S ?t1 = (dlog S ?g3 * sval S (?r 2)) mod order S"
    and t2: "dlog S ?t2 = (sval S (?r 2) + dlog S ?g2 * sval S (?r 0)) mod order S"
    and ra: "dlog S ?ra = (dlog S ?D * sval S ?a) mod order S"
    and t3: "dlog S ?t3 = (dlog S ?D * sval S (?r 3)) mod order S"
    and k3: "dlog S (ecdh_pub (?k 3)) = sval S (?r 3)"
    by (simp_all only: goldilocks_point(4,6)[OF G] zq_keypair_dlog[OF G] priv mod_add_right_eq)
  have zkp: "smp_message_3_validate_zkp C m' B"
    if "msg3_eq S ?m m'" and gB: "dlog S (smp_g2 B) = dlog S ?g2" "dlog S (smp_g3 B) = dlog S ?g3"
      "dlog S (smp_g3a B) = sval S ?a" "dlog S (smp_qb B) = dlog S (m2_qb msg_2)" for m' B
  proof -
    note e = that(1)[unfolded msg3_eq_def smp_message_3_s.select_convs]
    let ?D' = "point_sub C (m3_qa m') (smp_qb B)"
    have P: "dlog S (m3_pa m') = (dlog S (smp_g3 B) * sval S (?r 1)) mod order S"
      and Q: "dlog S (m3_qa m') = (sval S (?r 1) + dlog S (smp_g2 B) * sval S ?x) mod order S"
      using e pa qa by (simp_all only: gB)
    have D: "dlog S ?D' = dlog S ?D" using e gB by (simp only: goldilocks_point(5)[OF G])
    then have R: "dlog S (m3_ra m') = (dlog S ?D' * sval S ?a) mod order S" using e ra by (simp only:)
    note z = zkp_coordinates[OF G P Q, of "m3_d5 m'" "?r 2" cp "m3_d6 m'" "?r 0" "m3_cp m'"]
    note w = zkp_same_exponent[OF G gB(3) R, of "m3_d7 m'" "?r 3" cr "m3_cr m'"]
    have "hash_points_to_scalar C
        (point_add C (point_scalarmul C (m3_pa m') (m3_cp m')) (point_scalarmul C (smp_g3 B) (m3_d5 m')))
        (point_add C (point_add C (point_scalarmul C (m3_qa m') (m3_cp m')) (point_scalarmul C (smp_g2 B) (m3_d6 m')))
          (point_scalarmul C (point_base C) (m3_d5 m'))) 0x06 = Some cp"
      unfolding cp[symmetric] by (rule hash_points_cong[OF G]; simp only: t1 t2 z e gB)
    moreover have "hash_points_to_scalar C
        (point_add C (point_scalarmul C (smp_g3a B) (m3_cr m')) (point_scalarmul C (point_base C) (m3_d7 m')))
        (point_add C (point_scalarmul C (m3_ra m') (m3_cr m')) (point_scalarmul C ?D' (m3_d7 m'))) 0x07 = Some cr"
      unfolding cr[symmetric] by (rule hash_points_cong[OF G]; simp only: t3 k3 w e D)
    ultimately show ?thesis using e
      by (simp add: smp_message_3_validate_zkp_def Let_def otrng_ec_scalar_eq_def goldilocks_scalar(8)[OF G])
  qed
  have "honest_msg3 C S (?r 1) ?x msg_2 ?m ?smp"
    unfolding honest_msg3_def using zkp
    by (simp add: pa[simplified] qa[simplified] ra[simplified] smp_message_3_validate_points_def
        otrng_ec_point_valid_def goldilocks_point(5,8)[OF G])
  then show ?thesis by (intro that[OF gen]) simp_all
qed

lemma generate_smp_message_4_honest:
  assumes G: "goldilocks_ok C S" and H: "sponge_ok C S"
  obtains m where
    "generate_smp_message_4 C rnd msg_3 smp = Some m"
    "honest_msg4 C S msg_3 m smp"
proof -
  let ?k = "otrng_zq_keypair_generate C (rnd 0)" and ?r = "ed448_random_scalar C (rnd 0)"
  have priv: "ecdh_priv ?k = ?r" by (simp add: otrng_zq_keypair_generate_def Let_def)
  let ?D = "point_sub C (m3_qa msg_3) (smp_qb smp)" and ?b = "smp_b3 smp"
  let ?rb = "point_scalarmul C ?D ?b" and ?t = "point_scalarmul C ?D ?r"
  obtain cr where cr: "hash_points_to_scalar C (ecdh_pub ?k) ?t 0x08 = Some cr"
    using hash_point_total(2)[OF G H] by blast
  let ?m = "\<lparr>m4_rb = ?rb, m4_cr = cr, m4_d7 = scalar_sub C ?r (scalar_mul C ?b cr)\<rparr>"
  have gen: "generate_smp_message_4 C rnd msg_3 smp = Some ?m"
    using cr by (simp add: generate_smp_message_4_def Let_def priv)
  have rb: "dlog S ?rb = (dlog S ?D * sval S ?b) mod order S"
    and t: "dlog S ?t = (dlog S ?D * sval S ?r) mod order S" and k: "dlog S (ecdh_pub ?k) = sval S ?r"
    and D: "dlog S ?D = (dlog S (m3_qa msg_3) - dlog S (smp_qb smp)) mod order S"
    by (simp_all only: goldilocks_point(5,6)[OF G] zq_keypair_dlog[OF G] priv)
  have zkp: "smp_message_4_validate_zkp C m' A"
    if "msg4_eq S ?m m'" "dlog S (smp_g3b A) = sval S ?b"
      "dlog S (smp_qa_qb A) = (dlog S (m3_qa msg_3) - dlog S (smp_qb smp)) mod order S" for m' A
  proof -
    note e = that(1)[unfolded msg4_eq_def smp_message_4_s.select_convs]
    have DA: "dlog S (smp_qa_qb A) = dlog S ?D" using that(3) by (simp only: D)
    then have R: "dlog S (m4_rb m') = (dlog S (smp_qa_qb A) * sval S ?b) mod order S" using e rb by (simp only:)
    note w = zkp_same_exponent[OF G that(2) R, of "m4_d7 m'" ?r cr "m4_cr m'"]
    have "hash_points_to_scalar C
        (point_add C (point_scalarmul C (smp_g3b A) (m4_cr m')) (point_scalarmul C (point_base C) (m4_d7 m')))
        (point_add C (point_scalarmul C (m4_rb m') (m4_cr m')) (point_scalarmul C (smp_qa_qb A) (m4_d7 m'))) 0x08 = Some cr"
      unfolding cr[symmetric] by (rule hash_points_cong[OF G]; simp only: t k w e DA)
    then show ?thesis using e
      by (simp add: smp_message_4_validate_zkp_def Let_def otrng_ec_scalar_eq_def goldilocks_scalar(8)[OF G])
  qed
  have "honest_msg4 C S msg_3 ?m smp"
    unfolding honest_msg4_def using zkp
    by (simp add: otrng_ec_point_valid_def goldilocks_point(5,6,8)[OF G] mod_simps)
  then show ?thesis by (rule that[OF gen])
qed

subsection \<open>The comparison\<close>

text \<open>With \<open>G2 = G * a2 * b2\<close> and \<open>G3 = G * a3 * b3\<close> the final points agree exactly when the
  secrets do, provided that none of the four exponents is zero.\<close>

lemma smp_comparison:
  assumes G: "goldilocks_ok C S"
    and nz: "sval S a2 \<noteq> 0" "sval S b2 \<noteq> 0" "sval S a3 \<noteq> 0" "sval S b3 \<noteq> 0"
    and g2: "\<gamma> = (sval S a2 * sval S b2) mod order S" and g3: "\<delta> = (sval S a3 * sval S b3) mod order S"
    and pa: "pa = (\<delta> * r) mod order S" and pb: "pb = (\<delta> * s) mod order S"
    and qa: "qa = (r + \<gamma> * sval S x) mod order S" and qb: "qb = (s + \<gamma> * sval S y) mod order S"
  shows "(pa - pb) mod order S = ((qa - qb) * sval S a3 * sval S b3) mod order S \<longleftrightarrow> sval S x = sval S y"
proof -
  let ?q = "order S"
  have flat: "(u + \<gamma> * sval S z) mod ?q = (u + sval S a2 * sval S b2 * sval S z) mod ?q" for u z
    unfolding g2 by (rule mod_add_cong[OF refl mod_mult_left_eq])
  have "((qa - qb) * sval S a3 * sval S b3) mod ?q =
      ((r + sval S a2 * sval S b2 * sval S x - (s + sval S a2 * sval S b2 * sval S y)) * (sval S a3 * sval S b3)) mod ?q"
    unfolding mult.assoc[of "qa - qb"] using flat[of r x] flat[of s y] qa qb
    by (intro mod_mult_cong mod_diff_cong refl) simp_all
  moreover have "(pa - pb) mod ?q = ((r - s) * (sval S a3 * sval S b3)) mod ?q"
    unfolding pa pb g3 by (simp add: mod_simps algebra_simps)
  ultimately have "(pa - pb) mod ?q = ((qa - qb) * sval S a3 * sval S b3) mod ?q \<longleftrightarrow>
      ?q dvd (r - s) * (sval S a3 * sval S b3) -
        (r + sval S a2 * sval S b2 * sval S x - (s + sval S a2 * sval S b2 * sval S y)) * (sval S a3 * sval S b3)"
    by (simp only:) (rule mod_eq_dvd_iff)
  also have "\<dots> \<longleftrightarrow> ?q dvd sval S a2 * (sval S b2 * (sval S a3 * (sval S b3 * (sval S y - sval S x))))"
    by (rule arg_cong[of _ _ "\<lambda>z. ?q dvd z"]) (simp add: algebra_simps)
  also have "\<dots> \<longleftrightarrow> ?q dvd sval S y - sval S x"
  proof -
    have c: "?q dvd sval S z * w \<longleftrightarrow> ?q dvd w" if "sval S z \<noteq> 0" for z w
    proof
      assume "?q dvd sval S z * w"
      then have "(sval S z * w) mod ?q = 0" by (simp only: dvd_eq_mod_eq_0)
      from goldilocks_no_zero_div[OF G this] that show "?q dvd w"
        by (simp only: dvd_eq_mod_eq_0 goldilocks_scalar(9)[OF G] simp_thms)
    qed (rule dvd_mult)
    show ?thesis by (simp only: c nz not_False_eq_True)
  qed
  also have "\<dots> \<longleftrightarrow> sval S y mod ?q = sval S x mod ?q" by (rule mod_eq_dvd_iff[symmetric])
  finally show ?thesis by (auto simp: goldilocks_scalar(9)[OF G])
qed

end
