(* ===== verification/Smp.thy ===== *)
theory Smp
  imports Smp_Correct
begin

text \<open>
  \<open>smp.c\<close>: the state machine around the socialist millionaires protocol.  The user callbacks are
  returned as values; a profile contributes its two public keys.  A result \<open>None\<close> is a read through
  a \<open>NULL\<close> pointer.
\<close>

subsection \<open>Events\<close>

datatype smp_callback = Smp_ask_for_secret | Smp_ask_for_answer "bytes option" nat
  | Smp_update otrng_smp_event nat

record smp_callbacks_registered =
  has_smp_ask_for_secret :: bool
  has_smp_ask_for_answer :: bool
  has_smp_update :: bool

definition handle_smp_event_cb_v4 ::
    "smp_callbacks_registered \<Rightarrow> otrng_smp_event \<Rightarrow> nat \<Rightarrow> bytes option \<Rightarrow> nat \<Rightarrow> smp_callback list" where
  "handle_smp_event_cb_v4 cbs event progress_percent question q_len =
     (if \<not> has_smp_ask_for_secret cbs then []
      else if \<not> has_smp_ask_for_answer cbs then []
      else if \<not> has_smp_update cbs then []
      else case event of
          OTRNG_SMP_EVENT_ASK_FOR_SECRET \<Rightarrow> [Smp_ask_for_secret]
        | OTRNG_SMP_EVENT_ASK_FOR_ANSWER \<Rightarrow> [Smp_ask_for_answer question q_len]
        | OTRNG_SMP_EVENT_NONE \<Rightarrow> []
        | _ \<Rightarrow> [Smp_update event progress_percent])"

subsection \<open>Incoming messages\<close>

text \<open>What follows each of the four message handlers: an abort resets the machine and is answered,
  an error or a failure resets the expected message only.\<close>

definition smp_after_message ::
    "otrng_smp_event \<Rightarrow> tlv_s option \<Rightarrow> ('p, 's) smp_protocol_s \<Rightarrow> tlv_s option \<times> ('p, 's) smp_protocol_s" where
  "smp_after_message event to_send smp =
     (if event = OTRNG_SMP_EVENT_ABORT then
        (otrng_tlv_new (of_int OTRNG_TLV_SMP_ABORT) 0 None,
         smp\<lparr>state_expect := SMP_STATE_EXPECT_1, progress := SMP_ZERO_PROGRESS\<rparr>)
      else if event = OTRNG_SMP_EVENT_ERROR \<or> event = OTRNG_SMP_EVENT_FAILURE then
        (to_send, smp\<lparr>state_expect := SMP_STATE_EXPECT_1\<rparr>)
      else (to_send, smp))"

definition otrng_process_smp ::
    "('p, 's, 'm, 'h) crypto_ops \<Rightarrow> (nat \<Rightarrow> bytes) \<Rightarrow> nat \<Rightarrow> otrng_smp_event \<Rightarrow> ('p, 's) smp_protocol_s \<Rightarrow> tlv_s
     \<Rightarrow> (otrng_smp_event \<times> tlv_s option \<times> ('p, 's) smp_protocol_s) option" where
  "otrng_process_smp C rnd q_len0 ret smp tlv = do {
     (event, to_send, smp) \<leftarrow>
       (if tlv_type tlv = OTRNG_TLV_SMP_MSG_1 then
          (case otrng_process_smp_message1 C q_len0 tlv smp of (event, smp) \<Rightarrow>
             (case smp_after_message event None smp of (to_send, smp) \<Rightarrow> Some (event, to_send, smp)))
        else if tlv_type tlv = OTRNG_TLV_SMP_MSG_2 then
          (case otrng_process_smp_message2 C rnd tlv smp of
             None \<Rightarrow> None
           | Some (event, to_send, smp) \<Rightarrow>
               (case smp_after_message event to_send smp of (to_send, smp) \<Rightarrow> Some (event, to_send, smp)))
        else if tlv_type tlv = OTRNG_TLV_SMP_MSG_3 then
          (case otrng_process_smp_message3 C rnd tlv smp of (event, to_send, smp) \<Rightarrow>
             (case smp_after_message event to_send smp of (to_send, smp) \<Rightarrow> Some (event, to_send, smp)))
        else if tlv_type tlv = OTRNG_TLV_SMP_MSG_4 then
          (case otrng_process_smp_message4 C tlv smp of (event, smp) \<Rightarrow>
             (case smp_after_message event None smp of (to_send, smp) \<Rightarrow> Some (event, to_send, smp)))
        else if tlv_type tlv = OTRNG_TLV_SMP_ABORT then
          Some (OTRNG_SMP_EVENT_ABORT, None,
            smp\<lparr>state_expect := SMP_STATE_EXPECT_1, progress := SMP_ZERO_PROGRESS\<rparr>)
        else Some (ret, None, smp));
     Some (if event = OTRNG_SMP_EVENT_NONE then OTRNG_SMP_EVENT_IN_PROGRESS else event, to_send, smp) }"

definition otrng_process_smp_tlv ::
    "('p, 's, 'm, 'h) crypto_ops \<Rightarrow> (nat \<Rightarrow> bytes) \<Rightarrow> nat \<Rightarrow> smp_callbacks_registered \<Rightarrow> tlv_s \<Rightarrow> ('p, 's) smp_protocol_s
     \<Rightarrow> (tlv_s option \<times> smp_callback list \<times> ('p, 's) smp_protocol_s) option" where
  "otrng_process_smp_tlv C rnd q_len0 cbs tlv smp = do {
     (event, out, smp) \<leftarrow> otrng_process_smp C rnd q_len0 OTRNG_SMP_EVENT_NONE smp tlv;
     Some (out,
       handle_smp_event_cb_v4 cbs event (progress smp)
         (case message1 smp of Some m \<Rightarrow> m1_question m | None \<Rightarrow> None)
         (case message1 smp of Some m \<Rightarrow> m1_q_len m | None \<Rightarrow> 0),
       smp) }"

subsection \<open>The actions of the user\<close>

text \<open>The public keys of the profiles are given as pairs of long-term and forging key.  The
  question is copied when it is not \<open>NULL\<close>; the length field is set in both cases.  When the
  message cannot be made, the callback reads the stored first message.\<close>

definition otrng_smp_initiate ::
    "('p, 's, 'm, 'h) crypto_ops \<Rightarrow> (nat \<Rightarrow> bytes) \<Rightarrow> smp_callbacks_registered \<Rightarrow> 'p \<times> 'p \<Rightarrow> 'p \<times> 'p
     \<Rightarrow> bytes option \<Rightarrow> nat \<Rightarrow> bytes \<Rightarrow> bytes \<Rightarrow> ('p, 's) smp_protocol_s
     \<Rightarrow> (tlv_s option \<times> smp_callback list \<times> ('p, 's) smp_protocol_s) option" where
  "otrng_smp_initiate C rnd cbs initiator responder question q_len answer ssid smp =
     (if state_expect smp \<noteq> SMP_STATE_EXPECT_1
      then Some (otrng_tlv_new (of_int OTRNG_TLV_SMP_ABORT) 0 None, [], smp)
      else case otrng_serialize_fingerprint C (fst initiator) (snd initiator) of
        None \<Rightarrow> Some (None, [], smp)
      | Some our_fp \<Rightarrow>
        (case otrng_serialize_fingerprint C (fst responder) (snd responder) of
          None \<Rightarrow> Some (None, [], smp)
        | Some their_fp \<Rightarrow>
          (case otrng_generate_smp_secret C our_fp their_fp ssid answer of
            None \<Rightarrow> Some (None, [], smp)
          | Some secret \<Rightarrow>
            (case otrng_generate_smp_message_1 C rnd (smp\<lparr>smp_secret := Some secret\<rparr>) of
              (None, smp) \<Rightarrow>
                (case message1 smp of
                   None \<Rightarrow> None
                 | Some m \<Rightarrow> Some (None, handle_smp_event_cb_v4 cbs OTRNG_SMP_EVENT_ERROR (progress smp)
                                 (m1_question m) (m1_q_len m), smp))
            | (Some msg, smp) \<Rightarrow>
                let msg = msg\<lparr>m1_q_len := q_len\<rparr>;
                    msg = (case question of None \<Rightarrow> msg | Some q \<Rightarrow> msg\<lparr>m1_question := Some (take q_len q)\<rparr>);
                    to_send = otrng_smp_message_1_serialize C msg;
                    smp = smp\<lparr>state_expect := SMP_STATE_EXPECT_2, progress := SMP_QUARTER_PROGRESS\<rparr>;
                    cb = handle_smp_event_cb_v4 cbs OTRNG_SMP_EVENT_IN_PROGRESS (progress smp) question q_len;
                    tlv = otrng_tlv_new (of_int OTRNG_TLV_SMP_MSG_1) (of_nat (length to_send)) (Some to_send)
                in Some (tlv, cb, smp)))))"

definition otrng_smp_provide_secret ::
    "('p, 's, 'm, 'h) crypto_ops \<Rightarrow> (nat \<Rightarrow> bytes) \<Rightarrow> otrng_smp_event \<Rightarrow> ('p, 's) smp_protocol_s \<Rightarrow> 'p \<times> 'p \<Rightarrow> 'p \<times> 'p
     \<Rightarrow> bytes \<Rightarrow> bytes \<Rightarrow> (otrng_smp_event \<times> tlv_s option \<times> ('p, 's) smp_protocol_s) option" where
  "otrng_smp_provide_secret C rnd event smp our_profile their_client_profile ssid secret =
     (if state_expect smp \<noteq> SMP_STATE_EXPECT_1 then Some (event, None, smp)
      else case otrng_serialize_fingerprint C (fst our_profile) (snd our_profile) of
        None \<Rightarrow> Some (event, None, smp)
      | Some our_fp \<Rightarrow>
        (case otrng_serialize_fingerprint C (fst their_client_profile) (snd their_client_profile) of
          None \<Rightarrow> Some (event, None, smp)
        | Some their_fp \<Rightarrow>
          (case otrng_generate_smp_secret C their_fp our_fp ssid secret of
            None \<Rightarrow> Some (event, None, smp)
          | Some s \<Rightarrow> otrng_reply_with_smp_message_2 C rnd (smp\<lparr>smp_secret := Some s\<rparr>))))"

end
