(* ===== verification/Smp_Run.thy ===== *)
theory Smp_Run
  imports Smp
begin

text \<open>
  The protocol of \<open>Smp\<close> as a whole: an honest run decides equality of the compared secrets, a
  message out of order aborts the run, and no sequence of messages and user actions makes the
  receiving side read a secret that was never stored.
\<close>

subsection \<open>The steps of an honest run\<close>

lemma generate_smp_secret_total:
  assumes "sponge_ok C S"
  shows "\<exists>s. otrng_generate_smp_secret C a b c d = Some s \<and> length s = 64"
  by (simp add: otrng_generate_smp_secret_def hash_init_with_usage_def hash_init_with_dom_def
      sponge_simps[OF assms] sponge_facts(3)[OF assms] const_defs)

lemma tlv_new_contents:
  assumes "0 < length b" "length b < 2 ^ 16" "0 \<le> ty" "ty < 8"
  obtains t where "otrng_tlv_new (of_int ty) (of_nat (length b)) (Some b) = Some t"
    "tlv_type t = ty" "tlv_contents t = b"
proof -
  have u: "unat (of_nat (length b) :: u16) = length b"
    using assms(2) by (simp add: unsigned_of_nat take_bit_nat_eq_self)
  with assms(1) have "(of_nat (length b) :: u16) \<noteq> 0" by (metis unat_0 less_irrefl)
  moreover have "uint (of_int ty :: u16) = ty"
    using assms(3,4) by (simp add: unsigned_of_int take_bit_int_eq_self)
  ultimately show ?thesis
    using u by (intro that[of "\<lparr>tlv_type = ty, tlv_len = of_nat (length b), tlv_data = Some b\<rparr>"])
      (simp_all add: otrng_tlv_new_def tlv_contents_def)
qed

lemma smp_message_lengths:
  assumes "goldilocks_ok C S"
  shows "length (smp_message_2_serialize C m2) = 620" "length (smp_message_3_serialize C m3) = 451"
    "length (smp_message_4_serialize C m4) = 169"
    "m1_question m = Some q \<and> m1_q_len m = length q \<or> m1_question m = None \<and> m1_q_len m = 0 \<and> q = [] \<Longrightarrow>
       length (otrng_smp_message_1_serialize C m) = 342 + length q"
  by (auto simp: smp_message_2_serialize_def smp_message_3_serialize_def smp_message_4_serialize_def
      otrng_smp_message_1_serialize_def length_serialize_group[OF assms] length_serialize_data)
     (simp add: otrng_serialize_data_def otrng_serialize_bytes_array_def)

lemma initiate_honest:
  assumes G: "goldilocks_ok C S" and H: "sponge_ok C S"
    and "state_expect A = SMP_STATE_EXPECT_1" and "length q \<le> 65000"
    and fps: "otrng_serialize_fingerprint C (fst ka) (snd ka) = Some fa" "otrng_serialize_fingerprint C (fst kb) (snd kb) = Some fb"
    and sec: "otrng_generate_smp_secret C fa fb ssid ans = Some sa"
    and qs: "question = Some q \<or> question = None \<and> q = []"
  obtains t m cb where
    "otrng_smp_initiate C rnd cbs ka kb question (length q) ans ssid A = Some (Some t, cb,
       A\<lparr>smp_secret := Some sa, smp_a2 := ed448_random_scalar C (rnd 0), smp_a3 := ed448_random_scalar C (rnd 1),
         state_expect := SMP_STATE_EXPECT_2, progress := SMP_QUARTER_PROGRESS\<rparr>)"
    "tlv_type t = OTRNG_TLV_SMP_MSG_1" "tlv_contents t = otrng_smp_message_1_serialize C m"
    "m1_question m = Some q \<and> m1_q_len m = length q \<and> length q < 2 ^ 32 \<or> m1_question m = None \<and> m1_q_len m = 0 \<and> q = []"
    "honest_msg1 C S (ed448_random_scalar C (rnd 0)) (ed448_random_scalar C (rnd 1)) m"
proof -
  obtain m where m: "otrng_generate_smp_message_1 C rnd (A\<lparr>smp_secret := Some sa\<rparr>) =
       (Some m, A\<lparr>smp_secret := Some sa, smp_a2 := ed448_random_scalar C (rnd 0), smp_a3 := ed448_random_scalar C (rnd 1)\<rparr>)"
    "m1_question m = None" "m1_q_len m = 0"
    "honest_msg1 C S (ed448_random_scalar C (rnd 0)) (ed448_random_scalar C (rnd 1)) m"
    by (rule generate_smp_message_1_honest[OF G H, of rnd "A\<lparr>smp_secret := Some sa\<rparr>"]) (rule that)
  let ?m = "case question of None \<Rightarrow> m\<lparr>m1_q_len := length q\<rparr> | Some z \<Rightarrow> m\<lparr>m1_q_len := length q, m1_question := Some (take (length q) z)\<rparr>"
  have mq: "m1_question ?m = Some q \<and> m1_q_len ?m = length q \<or> m1_question ?m = None \<and> m1_q_len ?m = 0 \<and> q = []"
    using qs m(2,3) by auto
  have hon: "honest_msg1 C S (ed448_random_scalar C (rnd 0)) (ed448_random_scalar C (rnd 1)) ?m"
    using m(4) by (auto simp: honest_msg1_def msg1_eq_def split: option.splits)
  from smp_message_lengths(4)[OF G mq] assms(4) have "0 < length (otrng_smp_message_1_serialize C ?m)"
    "length (otrng_smp_message_1_serialize C ?m) < 2 ^ 16" by simp_all
  from tlv_new_contents[OF this, of OTRNG_TLV_SMP_MSG_1] obtain t where t:
    "otrng_tlv_new (of_int OTRNG_TLV_SMP_MSG_1) (of_nat (length (otrng_smp_message_1_serialize C ?m))) (Some (otrng_smp_message_1_serialize C ?m)) = Some t"
    "tlv_type t = OTRNG_TLV_SMP_MSG_1" "tlv_contents t = otrng_smp_message_1_serialize C ?m" by (auto simp: const_defs)
  have "otrng_smp_initiate C rnd cbs ka kb question (length q) ans ssid A = Some (Some t,
        handle_smp_event_cb_v4 cbs OTRNG_SMP_EVENT_IN_PROGRESS SMP_QUARTER_PROGRESS question (length q),
       A\<lparr>smp_secret := Some sa, smp_a2 := ed448_random_scalar C (rnd 0), smp_a3 := ed448_random_scalar C (rnd 1),
         state_expect := SMP_STATE_EXPECT_2, progress := SMP_QUARTER_PROGRESS\<rparr>)"
    using t(1) m(1) fps sec assms(3) by (simp add: otrng_smp_initiate_def Let_def split: option.splits)
  then show ?thesis by (rule that[OF _ t(2,3) _ hon]) (use mq assms(4) in auto)
qed

lemma receive_1_honest:
  assumes G: "goldilocks_ok C S"
    and "state_expect B = SMP_STATE_EXPECT_1"
    and t: "tlv_type t = OTRNG_TLV_SMP_MSG_1" "tlv_contents t = otrng_smp_message_1_serialize C m"
    and mq: "m1_question m = Some q \<and> m1_q_len m = length q \<and> length q < 2 ^ 32 \<or> m1_question m = None \<and> m1_q_len m = 0 \<and> q = []"
    and hon: "honest_msg1 C S a2 a3 m"
  obtains m' where
    "otrng_process_smp C rnd q_len0 OTRNG_SMP_EVENT_NONE B t = Some (OTRNG_SMP_EVENT_ASK_FOR_ANSWER, None,
       B\<lparr>message1 := Some m', progress := SMP_QUARTER_PROGRESS\<rparr>)"
    "dlog S (m1_g2a m') = sval S a2" "dlog S (m1_g3a m') = sval S a3"
proof -
  let ?m = "\<lparr>m1_question = (if q = [] then None else Some q), m1_q_len = (if q = [] then q_len0 else length q),
     m1_g2a = wire_point C (m1_g2a m), m1_c2 = wire_scalar C (m1_c2 m), m1_d2 = wire_scalar C (m1_d2 m),
     m1_g3a = wire_point C (m1_g3a m), m1_c3 = wire_scalar C (m1_c3 m), m1_d3 = wire_scalar C (m1_d3 m)\<rparr>"
  have d: "smp_message_1_deserialize C q_len0 t = Some ?m" by (rule smp_message_1_roundtrip[OF G t(2) mq])
  have "msg1_eq S m ?m" by (simp add: msg1_eq_def wire_group[OF G])
  with hon have "smp_message_1_valid_points C ?m \<and> smp_message_1_valid_zkp C ?m" unfolding honest_msg1_def by blast
  with d assms(2) have "receive_smp_message_1 C q_len0 t B =
      (OTRNG_SMP_EVENT_NONE, B\<lparr>message1 := Some (smp_message_1_copy ?m)\<rparr>)"
    by (simp add: receive_smp_message_1_def)
  with t(1) hon show ?thesis
    by (intro that[of "smp_message_1_copy ?m"])
       (simp_all add: otrng_process_smp_def otrng_process_smp_message1_def smp_after_message_def
         smp_message_1_copy_def wire_group[OF G] honest_msg1_def)
qed

lemma provide_secret_honest:
  assumes G: "goldilocks_ok C S" and H: "sponge_ok C S"
    and st: "state_expect B = SMP_STATE_EXPECT_1" and m1: "message1 B = Some m1"
    and fps: "otrng_serialize_fingerprint C (fst ka) (snd ka) = Some fa" "otrng_serialize_fingerprint C (fst kb) (snd kb) = Some fb"
    and sec: "otrng_generate_smp_secret C fa fb ssid ans = Some sb" "length sb = 64"
  obtains t m B' where
    "otrng_smp_provide_secret C rnd ev B kb ka ssid ans = Some (OTRNG_SMP_EVENT_NONE, Some t, B')"
    "tlv_type t = OTRNG_TLV_SMP_MSG_2" "tlv_contents t = smp_message_2_serialize C m"
    "state_expect B' = SMP_STATE_EXPECT_3"
    "dlog S (smp_g2 B') = (dlog S (m1_g2a m1) * sval S (ed448_random_scalar C (rnd 0))) mod order S"
    "dlog S (smp_g3 B') = (dlog S (m1_g3a m1) * sval S (ed448_random_scalar C (rnd 1))) mod order S"
    "smp_g3a B' = m1_g3a m1"
    "honest_msg2 C S (ed448_random_scalar C (rnd 0)) (ed448_random_scalar C (rnd 1)) (ed448_random_scalar C (rnd 4))
       (otrng_ec_scalar_decode C sb) m B'"
proof -
  let ?B = "B\<lparr>smp_secret := Some sb\<rparr>"
  have "smp_secret ?B = Some sb" "ED448_SCALAR_BYTES \<le> length sb" using sec(2) by (simp_all add: const_defs)
  then obtain m B1 where g:
    "generate_smp_message_2 C rnd m1 ?B = Some (Some m, B1)"
    "dlog S (smp_g2 B1) = (dlog S (m1_g2a m1) * sval S (ed448_random_scalar C (rnd 0))) mod order S"
    "dlog S (smp_g3 B1) = (dlog S (m1_g3a m1) * sval S (ed448_random_scalar C (rnd 1))) mod order S"
    "smp_g3a B1 = m1_g3a m1"
    "honest_msg2 C S (ed448_random_scalar C (rnd 0)) (ed448_random_scalar C (rnd 1)) (ed448_random_scalar C (rnd 4))
       (otrng_ec_scalar_decode C sb) m B1"
    by (rule generate_smp_message_2_honest[OF G H, of ?B sb rnd m1]) (rule that)
  obtain t where t: "otrng_tlv_new (of_int OTRNG_TLV_SMP_MSG_2) (of_nat (length (smp_message_2_serialize C m))) (Some (smp_message_2_serialize C m)) = Some t"
    "tlv_type t = OTRNG_TLV_SMP_MSG_2" "tlv_contents t = smp_message_2_serialize C m"
    by (rule tlv_new_contents[of "smp_message_2_serialize C m" OTRNG_TLV_SMP_MSG_2])
       (simp_all add: smp_message_lengths[OF G] const_defs)
  have "otrng_smp_provide_secret C rnd ev B kb ka ssid ans = Some (OTRNG_SMP_EVENT_NONE, Some t,
      B1\<lparr>state_expect := SMP_STATE_EXPECT_3, progress := SMP_HALF_PROGRESS\<rparr>)"
    using st fps sec m1 g(1) t(1)
    by (simp add: otrng_smp_provide_secret_def otrng_reply_with_smp_message_2_def Let_def)
  then show ?thesis by (rule that[OF _ t(2,3)]) (use g(2-) in \<open>simp_all add: honest_msg2_def\<close>)
qed

lemma receive_2_honest:
  assumes G: "goldilocks_ok C S" and H: "sponge_ok C S"
    and st: "state_expect A = SMP_STATE_EXPECT_2" and sec: "smp_secret A = Some sa" "length sa = 64"
    and t: "tlv_type t = OTRNG_TLV_SMP_MSG_2" "tlv_contents t = smp_message_2_serialize C m2"
    and hon: "honest_msg2 C S b2 b3 r y m2 B"
    and g: "dlog S (smp_g2 B) = (sval S (smp_a2 A) * sval S b2) mod order S"
      "dlog S (smp_g3 B) = (sval S (smp_a3 A) * sval S b3) mod order S"
  obtains t' m A' where
    "otrng_process_smp C rnd q_len0 OTRNG_SMP_EVENT_NONE A t = Some (OTRNG_SMP_EVENT_IN_PROGRESS, Some t', A')"
    "tlv_type t' = OTRNG_TLV_SMP_MSG_3" "tlv_contents t' = smp_message_3_serialize C m"
    "state_expect A' = SMP_STATE_EXPECT_4" "smp_a3 A' = smp_a3 A"
    "dlog S (smp_g2 A') = dlog S (smp_g2 B)" "dlog S (smp_g3 A') = dlog S (smp_g3 B)"
    "honest_msg3 C S (ed448_random_scalar C (rnd 1)) (otrng_ec_scalar_decode C sa) m2 m A'"
proof -
  let ?m = "\<lparr>m2_g2b = wire_point C (m2_g2b m2), m2_c2 = wire_scalar C (m2_c2 m2), m2_d2 = wire_scalar C (m2_d2 m2),
     m2_g3b = wire_point C (m2_g3b m2), m2_c3 = wire_scalar C (m2_c3 m2), m2_d3 = wire_scalar C (m2_d3 m2),
     m2_pb = wire_point C (m2_pb m2), m2_qb = wire_point C (m2_qb m2), m2_cp = wire_scalar C (m2_cp m2),
     m2_d5 = wire_scalar C (m2_d5 m2), m2_d6 = wire_scalar C (m2_d6 m2)\<rparr>"
  let ?A = "A\<lparr>smp_g2 := point_scalarmul C (m2_g2b ?m) (smp_a2 A), smp_g3 := point_scalarmul C (m2_g3b ?m) (smp_a3 A)\<rparr>"
  have gA: "dlog S (smp_g2 ?A) = dlog S (smp_g2 B)" "dlog S (smp_g3 ?A) = dlog S (smp_g3 B)"
    using hon by (simp_all add: goldilocks_point(6)[OF G] wire_group[OF G] g honest_msg2_def mult.commute)
  have "msg2_eq S m2 ?m" by (simp add: msg2_eq_def wire_group[OF G])
  with hon gA have "smp_message_2_valid_points C ?m \<and> smp_message_2_valid_zkp C ?m ?A"
    unfolding honest_msg2_def by blast
  then have r: "receive_smp_message_2 C t A = (OTRNG_SMP_EVENT_NONE, Some ?m, ?A)"
    using st smp_message_2_roundtrip[OF G t(2)] by (simp add: receive_smp_message_2_def Let_def)
  have s: "smp_secret ?A = Some sa" "ED448_SCALAR_BYTES \<le> length sa" using sec by (simp_all add: const_defs)
  obtain m A1 where g3: "generate_smp_message_3 C rnd ?m ?A = Some (Some m, A1)"
    and A1: "A1 = ?A\<lparr>smp_g3b := m2_g3b ?m, smp_pa_pb := smp_pa_pb A1, smp_qa_qb := smp_qa_qb A1\<rparr>"
    and h3: "honest_msg3 C S (ed448_random_scalar C (rnd 1)) (otrng_ec_scalar_decode C sa) ?m m A1"
    by (rule generate_smp_message_3_honest[OF G H s, of rnd ?m]) (rule that)
  obtain t' where t': "otrng_tlv_new (of_int OTRNG_TLV_SMP_MSG_3) (of_nat (length (smp_message_3_serialize C m))) (Some (smp_message_3_serialize C m)) = Some t'"
    "tlv_type t' = OTRNG_TLV_SMP_MSG_3" "tlv_contents t' = smp_message_3_serialize C m"
    by (rule tlv_new_contents[of "smp_message_3_serialize C m" OTRNG_TLV_SMP_MSG_3])
       (simp_all add: smp_message_lengths[OF G] const_defs)
  let ?A' = "A1\<lparr>state_expect := SMP_STATE_EXPECT_4, progress := SMP_HALF_PROGRESS\<rparr>"
  have "otrng_process_smp C rnd q_len0 OTRNG_SMP_EVENT_NONE A t = Some (OTRNG_SMP_EVENT_IN_PROGRESS, Some t', ?A')"
    using t(1) r g3 t'(1)
    by (simp add: otrng_process_smp_def otrng_process_smp_message2_def reply_with_smp_message_3_def Let_def
        smp_after_message_def OTRNG_TLV_SMP_MSG_2_def OTRNG_TLV_SMP_MSG_1_def)
  moreover have "smp_a3 A1 = smp_a3 A" "smp_g2 A1 = smp_g2 ?A" "smp_g3 A1 = smp_g3 ?A" by (subst A1, simp)+
  moreover have "honest_msg3 C S (ed448_random_scalar C (rnd 1)) (otrng_ec_scalar_decode C sa) m2 m ?A'"
    using h3 by (simp add: honest_msg3_def wire_point(3)[OF G])
  ultimately show ?thesis using gA by (intro that[OF _ t'(2,3)]) simp_all
qed

lemma receive_3_honest:
  assumes G: "goldilocks_ok C S" and H: "sponge_ok C S"
    and st: "state_expect B = SMP_STATE_EXPECT_3"
    and t: "tlv_type t = OTRNG_TLV_SMP_MSG_3" "tlv_contents t = smp_message_3_serialize C m3"
    and hon: "honest_msg3 C S r x m2 m3 A"
    and g: "dlog S (smp_g2 A) = dlog S (smp_g2 B)" "dlog S (smp_g3 A) = dlog S (smp_g3 B)"
      "dlog S (smp_g3a B) = sval S (smp_a3 A)" "smp_qb B = m2_qb m2"
  obtains t' m where
    "otrng_process_smp C rnd q_len0 OTRNG_SMP_EVENT_NONE B t = Some
       (if (dlog S (m3_pa m3) - dlog S (smp_pb B)) mod order S = (dlog S (m3_ra m3) * sval S (smp_b3 B)) mod order S
        then OTRNG_SMP_EVENT_SUCCESS else OTRNG_SMP_EVENT_FAILURE, Some t',
        B\<lparr>progress := SMP_TOTAL_PROGRESS, state_expect := SMP_STATE_EXPECT_1\<rparr>)"
    "tlv_type t' = OTRNG_TLV_SMP_MSG_4" "tlv_contents t' = smp_message_4_serialize C m" "honest_msg4 C S m3 m B"
proof -
  let ?m = "\<lparr>m3_pa = wire_point C (m3_pa m3), m3_qa = wire_point C (m3_qa m3), m3_cp = wire_scalar C (m3_cp m3),
     m3_d5 = wire_scalar C (m3_d5 m3), m3_d6 = wire_scalar C (m3_d6 m3), m3_ra = wire_point C (m3_ra m3),
     m3_cr = wire_scalar C (m3_cr m3), m3_d7 = wire_scalar C (m3_d7 m3)\<rparr>"
  let ?B = "B\<lparr>progress := SMP_HALF_QUARTER_PROGRESS\<rparr>"
  have "msg3_eq S m3 ?m" by (simp add: msg3_eq_def wire_group[OF G])
  with hon g(1-3) arg_cong[OF g(4), of "dlog S"]
  have "smp_message_3_validate_points C ?m \<and> smp_message_3_validate_zkp C ?m B"
    unfolding honest_msg3_def by metis
  then have r: "receive_smp_message_3 C t B = (OTRNG_SMP_EVENT_NONE, Some ?m, ?B)"
    using st smp_message_3_roundtrip[OF G t(2)] by (simp add: receive_smp_message_3_def)
  obtain m where g4: "generate_smp_message_4 C rnd ?m ?B = Some m" "honest_msg4 C S ?m m ?B"
    by (rule generate_smp_message_4_honest[OF G H]) (rule that)
  obtain t' where t': "otrng_tlv_new (of_int OTRNG_TLV_SMP_MSG_4) (of_nat (length (smp_message_4_serialize C m))) (Some (smp_message_4_serialize C m)) = Some t'"
    "tlv_type t' = OTRNG_TLV_SMP_MSG_4" "tlv_contents t' = smp_message_4_serialize C m"
    by (rule tlv_new_contents[of "smp_message_4_serialize C m" OTRNG_TLV_SMP_MSG_4])
       (simp_all add: smp_message_lengths[OF G] const_defs)
  have v: "smp_is_valid_for_message_3 C ?m X \<longleftrightarrow>
      (dlog S (m3_pa m3) - dlog S (smp_pb X)) mod order S = (dlog S (m3_ra m3) * sval S (smp_b3 X)) mod order S" for X
    by (simp add: smp_is_valid_for_message_3_def Let_def otrng_ec_point_eq_def goldilocks_point(5-7)[OF G] wire_point(3)[OF G])
  have p: "otrng_process_smp_message3 C rnd t B =
      (if (dlog S (m3_pa m3) - dlog S (smp_pb B)) mod order S = (dlog S (m3_ra m3) * sval S (smp_b3 B)) mod order S
        then OTRNG_SMP_EVENT_SUCCESS else OTRNG_SMP_EVENT_FAILURE, Some t',
        B\<lparr>progress := SMP_TOTAL_PROGRESS, state_expect := SMP_STATE_EXPECT_1\<rparr>)"
    using r g4(1) t'(1) by (simp add: otrng_process_smp_message3_def reply_with_smp_message_4_def Let_def v)
  show ?thesis
    by (rule that[OF _ t'(2,3)])
       (use g4(2) in \<open>simp_all add: otrng_process_smp_def t(1) p smp_after_message_def OTRNG_TLV_SMP_MSG_3_def
         OTRNG_TLV_SMP_MSG_2_def OTRNG_TLV_SMP_MSG_1_def honest_msg4_def wire_point(3)[OF G]\<close>)
qed

lemma receive_4_honest:
  assumes G: "goldilocks_ok C S"
    and st: "state_expect A = SMP_STATE_EXPECT_4"
    and t: "tlv_type t = OTRNG_TLV_SMP_MSG_4" "tlv_contents t = smp_message_4_serialize C m4"
    and hon: "honest_msg4 C S m3 m4 B" and "dlog S (smp_g3b A) = sval S (smp_b3 B)"
    and "dlog S (smp_qa_qb A) = (dlog S (m3_qa m3) - dlog S (smp_qb B)) mod order S"
  shows "otrng_process_smp C rnd q_len0 OTRNG_SMP_EVENT_NONE A t = Some
       (if dlog S (smp_pa_pb A) = (dlog S (m4_rb m4) * sval S (smp_a3 A)) mod order S
        then OTRNG_SMP_EVENT_SUCCESS else OTRNG_SMP_EVENT_FAILURE, None,
        A\<lparr>progress := SMP_TOTAL_PROGRESS, state_expect := SMP_STATE_EXPECT_1\<rparr>)"
proof -
  let ?m = "\<lparr>m4_rb = wire_point C (m4_rb m4), m4_cr = wire_scalar C (m4_cr m4), m4_d7 = wire_scalar C (m4_d7 m4)\<rparr>"
  have "msg4_eq S m4 ?m" by (simp add: msg4_eq_def wire_group[OF G])
  with hon assms(6,7) have z: "otrng_ec_point_valid C (m4_rb ?m) \<and> smp_message_4_validate_zkp C ?m A"
    unfolding honest_msg4_def by blast
  have v: "smp_is_valid_for_message_4 C ?m X \<longleftrightarrow> dlog S (smp_pa_pb X) = (dlog S (m4_rb m4) * sval S (smp_a3 X)) mod order S" for X
    by (simp add: smp_is_valid_for_message_4_def Let_def otrng_ec_point_eq_def goldilocks_point(6,7)[OF G] wire_point(3)[OF G])
  have "receive_smp_message_4 C t A =
      (if dlog S (smp_pa_pb A) = (dlog S (m4_rb m4) * sval S (smp_a3 A)) mod order S
        then OTRNG_SMP_EVENT_SUCCESS else OTRNG_SMP_EVENT_FAILURE,
        A\<lparr>progress := SMP_TOTAL_PROGRESS, state_expect := SMP_STATE_EXPECT_1\<rparr>)"
    using st z smp_message_4_roundtrip[OF G t(2)] by (simp add: receive_smp_message_4_def v)
  then show ?thesis
    by (simp add: otrng_process_smp_def otrng_process_smp_message4_def t(1) smp_after_message_def const_defs)
qed

subsection \<open>A complete run\<close>

text \<open>
  The initiator \<open>A\<close> starts with its answer, the responder \<open>B\<close> receives the first message and
  gives its own answer, and the remaining three messages are delivered.  Each call has its own
  random draws.
\<close>

definition smp_run ::
    "('p, 's, 'm, 'h) crypto_ops \<Rightarrow> (nat \<Rightarrow> nat \<Rightarrow> bytes) \<Rightarrow> nat \<Rightarrow> smp_callbacks_registered \<Rightarrow> 'p \<times> 'p \<Rightarrow> 'p \<times> 'p \<Rightarrow> bytes
     \<Rightarrow> bytes option \<Rightarrow> nat \<Rightarrow> bytes \<Rightarrow> bytes \<Rightarrow> ('p, 's) smp_protocol_s \<Rightarrow> ('p, 's) smp_protocol_s
     \<Rightarrow> (otrng_smp_event list \<times> ('p, 's) smp_protocol_s \<times> ('p, 's) smp_protocol_s) option" where
  "smp_run C rnd q_len0 cbs keys_a keys_b ssid question q_len answer_a answer_b A B = do {
     (t1, _, A) \<leftarrow> otrng_smp_initiate C (rnd 0) cbs keys_a keys_b question q_len answer_a ssid A;
     t1 \<leftarrow> t1;
     (e1, _, B) \<leftarrow> otrng_process_smp C (rnd 1) q_len0 OTRNG_SMP_EVENT_NONE B t1;
     (e2, t2, B) \<leftarrow> otrng_smp_provide_secret C (rnd 2) OTRNG_SMP_EVENT_NONE B keys_b keys_a ssid answer_b;
     t2 \<leftarrow> t2;
     (e3, t3, A) \<leftarrow> otrng_process_smp C (rnd 3) q_len0 OTRNG_SMP_EVENT_NONE A t2;
     t3 \<leftarrow> t3;
     (e4, t4, B) \<leftarrow> otrng_process_smp C (rnd 4) q_len0 OTRNG_SMP_EVENT_NONE B t3;
     t4 \<leftarrow> t4;
     (e5, _, A) \<leftarrow> otrng_process_smp C (rnd 5) q_len0 OTRNG_SMP_EVENT_NONE A t4;
     Some ([e1, e2, e3, e4, e5], A, B) }"

text \<open>The scalar a party compares: the hash of both fingerprints, the session and the answer.\<close>

definition smp_compared ::
    "('p, 's, 'm, 'h) crypto_ops \<Rightarrow> ('p, 's, 'm, 'h) crypto_sem \<Rightarrow> 'p \<times> 'p \<Rightarrow> 'p \<times> 'p \<Rightarrow> bytes \<Rightarrow> bytes \<Rightarrow> int option" where
  "smp_compared C S keys_a keys_b ssid answer = do {
     fa \<leftarrow> otrng_serialize_fingerprint C (fst keys_a) (snd keys_a);
     fb \<leftarrow> otrng_serialize_fingerprint C (fst keys_b) (snd keys_b);
     s \<leftarrow> otrng_generate_smp_secret C fa fb ssid answer;
     Some (sval S (otrng_ec_scalar_decode C s)) }"

text \<open>Both final tests come down to the same equation.\<close>

lemma smp_points_decide:
  assumes G: "goldilocks_ok C S"
    and nz: "sval S a2 \<noteq> 0" "sval S a3 \<noteq> 0" "sval S b2 \<noteq> 0" "sval S b3 \<noteq> 0"
    and g: "dlog S (smp_g2 B) = (sval S a2 * sval S b2) mod order S" "dlog S (smp_g3 B) = (sval S a3 * sval S b3) mod order S"
    and h2: "honest_msg2 C S b2 b3 s y m2 B" and h3: "honest_msg3 C S r x m2 m3 A"
    and gA: "dlog S (smp_g2 A) = dlog S (smp_g2 B)" "dlog S (smp_g3 A) = dlog S (smp_g3 B)"
    and h4: "honest_msg4 C S m3 m4 B"
    and e: "smp_qb B = m2_qb m2" "smp_b3 B = b3" "smp_pb B = m2_pb m2" "smp_a3 A = a3"
  shows "(dlog S (m3_pa m3) - dlog S (smp_pb B)) mod order S = (dlog S (m3_ra m3) * sval S (smp_b3 B)) mod order S \<longleftrightarrow> sval S x = sval S y"
    and "dlog S (smp_pa_pb A) = (dlog S (m4_rb m4) * sval S (smp_a3 A)) mod order S \<longleftrightarrow> sval S x = sval S y"
proof -
  let ?D = "dlog S (m3_qa m3) - dlog S (m2_qb m2)"
  note h = h2[unfolded honest_msg2_def] h3[unfolded honest_msg3_def gA] h4[unfolded honest_msg4_def]
  have "dlog S (m3_pa m3) = (dlog S (smp_g3 B) * sval S r) mod order S" "dlog S (m2_pb m2) = (dlog S (smp_g3 B) * sval S s) mod order S"
    "dlog S (m3_qa m3) = (sval S r + dlog S (smp_g2 B) * sval S x) mod order S"
    "dlog S (m2_qb m2) = (sval S s + dlog S (smp_g2 B) * sval S y) mod order S" using h by (simp_all only:)
  note cmp = smp_comparison[OF G nz(1,3,2,4) g this]
  have r: "dlog S (m3_ra m3) = (dlog S (smp_qa_qb A) * sval S a3) mod order S"
    "dlog S (smp_qa_qb A) = ?D mod order S" "dlog S (m4_rb m4) = (?D * sval S b3) mod order S"
    using h by (simp_all only: e)
  have ra: "(dlog S (m3_ra m3) * sval S b3) mod order S = (?D * sval S a3 * sval S b3) mod order S"
    unfolding r by (simp only: mod_mult_left_eq mult.assoc)
  have rb: "(dlog S (m4_rb m4) * sval S a3) mod order S = (?D * sval S a3 * sval S b3) mod order S"
    unfolding r by (simp only: mod_mult_left_eq) (simp only: mult_ac)
  have pp: "dlog S (smp_pa_pb A) = (dlog S (m3_pa m3) - dlog S (m2_pb m2)) mod order S" using h by (simp only:)
  show "(dlog S (m3_pa m3) - dlog S (smp_pb B)) mod order S = (dlog S (m3_ra m3) * sval S (smp_b3 B)) mod order S \<longleftrightarrow> sval S x = sval S y"
    "dlog S (smp_pa_pb A) = (dlog S (m4_rb m4) * sval S (smp_a3 A)) mod order S \<longleftrightarrow> sval S x = sval S y"
    unfolding e pp ra rb by (rule cmp)+
qed

text \<open>C5: when two honest parties run the protocol, no message is rejected, both end with progress
  100 and ready for a new run, and both report success when the scalars derived from their answers
  are equal and both report failure when they are not (given that none of the four secret
  exponents drawn at random is zero).\<close>

theorem smp_run_decides:
  assumes G: "goldilocks_ok C S" and H: "sponge_ok C S"
    and "state_expect A = SMP_STATE_EXPECT_1" and "state_expect B = SMP_STATE_EXPECT_1"
    and "length q \<le> 65000" and qs: "question = Some q \<or> question = None \<and> q = []"
    and nz: "sval S (ed448_random_scalar C (rnd 0 0)) \<noteq> 0" "sval S (ed448_random_scalar C (rnd 0 1)) \<noteq> 0"
      "sval S (ed448_random_scalar C (rnd 2 0)) \<noteq> 0" "sval S (ed448_random_scalar C (rnd 2 1)) \<noteq> 0"
  shows "\<exists>A' B'. smp_run C rnd q_len0 cbs ka kb ssid question (length q) ans_a ans_b A B =
     Some (let e = (if smp_compared C S ka kb ssid ans_a = smp_compared C S ka kb ssid ans_b
                    then OTRNG_SMP_EVENT_SUCCESS else OTRNG_SMP_EVENT_FAILURE)
           in [OTRNG_SMP_EVENT_ASK_FOR_ANSWER, OTRNG_SMP_EVENT_NONE, OTRNG_SMP_EVENT_IN_PROGRESS, e, e], A', B') \<and>
     state_expect A' = SMP_STATE_EXPECT_1 \<and> state_expect B' = SMP_STATE_EXPECT_1 \<and>
     progress A' = SMP_TOTAL_PROGRESS \<and> progress B' = SMP_TOTAL_PROGRESS"
proof -
  obtain fa fb where fps: "otrng_serialize_fingerprint C (fst ka) (snd ka) = Some fa"
      "otrng_serialize_fingerprint C (fst kb) (snd kb) = Some fb"
    using serialize_fingerprint_total[OF G H] by blast
  obtain sa sb where sa: "otrng_generate_smp_secret C fa fb ssid ans_a = Some sa" "length sa = 64"
      and sb: "otrng_generate_smp_secret C fa fb ssid ans_b = Some sb" "length sb = 64"
    using generate_smp_secret_total[OF H] by metis
  let ?a2 = "ed448_random_scalar C (rnd 0 0)" and ?a3 = "ed448_random_scalar C (rnd 0 1)"
    and ?b2 = "ed448_random_scalar C (rnd 2 0)" and ?b3 = "ed448_random_scalar C (rnd 2 1)"
  let ?x = "otrng_ec_scalar_decode C sa" and ?y = "otrng_ec_scalar_decode C sb"
  let ?A1 = "A\<lparr>smp_secret := Some sa, smp_a2 := ?a2, smp_a3 := ?a3,
         state_expect := SMP_STATE_EXPECT_2, progress := SMP_QUARTER_PROGRESS\<rparr>"
  obtain t1 m1 cb where 1: "otrng_smp_initiate C (rnd 0) cbs ka kb question (length q) ans_a ssid A = Some (Some t1, cb, ?A1)"
    and 11: "tlv_type t1 = OTRNG_TLV_SMP_MSG_1" "tlv_contents t1 = otrng_smp_message_1_serialize C m1"
    "m1_question m1 = Some q \<and> m1_q_len m1 = length q \<and> length q < 2 ^ 32 \<or> m1_question m1 = None \<and> m1_q_len m1 = 0 \<and> q = []"
    "honest_msg1 C S ?a2 ?a3 m1"
    by (rule initiate_honest[OF G H assms(3,5) fps sa(1) qs, of "rnd 0" cbs]) (rule that)
  obtain m1' where 2: "otrng_process_smp C (rnd 1) q_len0 OTRNG_SMP_EVENT_NONE B t1 = Some (OTRNG_SMP_EVENT_ASK_FOR_ANSWER, None,
       B\<lparr>message1 := Some m1', progress := SMP_QUARTER_PROGRESS\<rparr>)"
    and 22: "dlog S (m1_g2a m1') = sval S ?a2" "dlog S (m1_g3a m1') = sval S ?a3"
    by (rule receive_1_honest[OF G assms(4) 11, of "rnd 1" q_len0]) (rule that)
  have B1: "state_expect (B\<lparr>message1 := Some m1', progress := SMP_QUARTER_PROGRESS\<rparr>) = SMP_STATE_EXPECT_1"
    "message1 (B\<lparr>message1 := Some m1', progress := SMP_QUARTER_PROGRESS\<rparr>) = Some m1'" using assms(4) by simp_all
  obtain t2 m2 B2 where 3: "otrng_smp_provide_secret C (rnd 2) OTRNG_SMP_EVENT_NONE
      (B\<lparr>message1 := Some m1', progress := SMP_QUARTER_PROGRESS\<rparr>) kb ka ssid ans_b = Some (OTRNG_SMP_EVENT_NONE, Some t2, B2)"
    and 33: "tlv_type t2 = OTRNG_TLV_SMP_MSG_2" "tlv_contents t2 = smp_message_2_serialize C m2"
    "state_expect B2 = SMP_STATE_EXPECT_3" "dlog S (smp_g2 B2) = (dlog S (m1_g2a m1') * sval S ?b2) mod order S"
    "dlog S (smp_g3 B2) = (dlog S (m1_g3a m1') * sval S ?b3) mod order S" "smp_g3a B2 = m1_g3a m1'"
    and h2: "honest_msg2 C S ?b2 ?b3 (ed448_random_scalar C (rnd 2 4)) ?y m2 B2"
    by (rule provide_secret_honest[OF G H B1 fps sb, of "rnd 2" OTRNG_SMP_EVENT_NONE]) (rule that)
  have A1: "state_expect ?A1 = SMP_STATE_EXPECT_2" "smp_secret ?A1 = Some sa" "smp_a2 ?A1 = ?a2" "smp_a3 ?A1 = ?a3" by simp_all
  note g = 33(4,5)[unfolded 22]
  have g': "dlog S (smp_g2 B2) = (sval S (smp_a2 ?A1) * sval S ?b2) mod order S"
    "dlog S (smp_g3 B2) = (sval S (smp_a3 ?A1) * sval S ?b3) mod order S" unfolding A1 by (rule g)+
  obtain t3 m3 A2 where 4: "otrng_process_smp C (rnd 3) q_len0 OTRNG_SMP_EVENT_NONE ?A1 t2 = Some (OTRNG_SMP_EVENT_IN_PROGRESS, Some t3, A2)"
    and 44: "tlv_type t3 = OTRNG_TLV_SMP_MSG_3" "tlv_contents t3 = smp_message_3_serialize C m3"
    "state_expect A2 = SMP_STATE_EXPECT_4" "smp_a3 A2 = smp_a3 ?A1"
    "dlog S (smp_g2 A2) = dlog S (smp_g2 B2)" "dlog S (smp_g3 A2) = dlog S (smp_g3 B2)"
    and h3: "honest_msg3 C S (ed448_random_scalar C (rnd 3 1)) ?x m2 m3 A2"
    by (rule receive_2_honest[OF G H A1(1,2) sa(2) 33(1,2) h2 g', of "rnd 3" q_len0]) (rule that)
  have e: "dlog S (smp_g3a B2) = sval S (smp_a3 A2)" "smp_qb B2 = m2_qb m2" "smp_b3 B2 = ?b3" "smp_pb B2 = m2_pb m2"
    using 33(6) 22 44(4) h2 by (simp_all add: honest_msg2_def)
  obtain t4 m4 where 5: "otrng_process_smp C (rnd 4) q_len0 OTRNG_SMP_EVENT_NONE B2 t3 = Some
       (if (dlog S (m3_pa m3) - dlog S (smp_pb B2)) mod order S = (dlog S (m3_ra m3) * sval S (smp_b3 B2)) mod order S
        then OTRNG_SMP_EVENT_SUCCESS else OTRNG_SMP_EVENT_FAILURE, Some t4,
        B2\<lparr>progress := SMP_TOTAL_PROGRESS, state_expect := SMP_STATE_EXPECT_1\<rparr>)"
    and 55: "tlv_type t4 = OTRNG_TLV_SMP_MSG_4" "tlv_contents t4 = smp_message_4_serialize C m4" "honest_msg4 C S m3 m4 B2"
    by (rule receive_3_honest[OF G H 33(3) 44(1,2) h3 44(5,6) e(1,2), of "rnd 4" q_len0]) (rule that)
  have "dlog S (smp_g3b A2) = sval S (smp_b3 B2)"
    "dlog S (smp_qa_qb A2) = (dlog S (m3_qa m3) - dlog S (smp_qb B2)) mod order S"
    using h3 h2 e by (simp_all add: honest_msg3_def honest_msg2_def)
  note 6 = receive_4_honest[OF G 44(3) 55 this, of "rnd 5" q_len0]
  note decided = smp_points_decide[OF G nz g h2 h3 44(5,6) 55(3) e(2-4) trans[OF 44(4) A1(4)]]
  have "smp_compared C S ka kb ssid ans_a = smp_compared C S ka kb ssid ans_b \<longleftrightarrow> sval S ?x = sval S ?y"
    by (simp add: smp_compared_def fps sa sb)
  then show ?thesis
    using 1 2 3 4 5 6 by (simp add: smp_run_def Let_def decided split del: if_split)
qed

theorem smp_run_decides_witness:
  "\<exists>A' B'. smp_run ex_crypto (\<lambda>i j. [of_nat (Suc j)]) 0
      \<lparr>has_smp_ask_for_secret = True, has_smp_ask_for_answer = True, has_smp_update = True\<rparr>
      (1, 2) (3, 4) [5] (Some [6]) (length [6 :: byte]) [7] [8] (otrng_smp_protocol_init 0 0) (otrng_smp_protocol_init 0 0) =
     Some (let e = (if smp_compared ex_crypto ex_sem (1, 2) (3, 4) [5] [7] = smp_compared ex_crypto ex_sem (1, 2) (3, 4) [5] [8]
                    then OTRNG_SMP_EVENT_SUCCESS else OTRNG_SMP_EVENT_FAILURE)
           in [OTRNG_SMP_EVENT_ASK_FOR_ANSWER, OTRNG_SMP_EVENT_NONE, OTRNG_SMP_EVENT_IN_PROGRESS, e, e], A', B') \<and>
     state_expect A' = SMP_STATE_EXPECT_1 \<and> state_expect B' = SMP_STATE_EXPECT_1 \<and>
     progress A' = SMP_TOTAL_PROGRESS \<and> progress B' = SMP_TOTAL_PROGRESS"
  by (rule smp_run_decides[OF ex_goldilocks_ok ex_sponge_ok])
     (simp_all add: otrng_smp_protocol_init_def ed448_random_scalar_def ex_crypto_def ex_sem_def sum_bytes_def)

subsection \<open>The state machine\<close>

text \<open>An SMP message that is not the expected one leads to an abort: the machine answers with
  an abort record, forgets its progress, expects a first message again and changes nothing else.\<close>

theorem smp_out_of_order_aborts:
  assumes "tlv_type t = OTRNG_TLV_SMP_MSG_1 \<and> state_expect smp \<noteq> SMP_STATE_EXPECT_1 \<or>
     tlv_type t = OTRNG_TLV_SMP_MSG_2 \<and> state_expect smp \<noteq> SMP_STATE_EXPECT_2 \<or>
     tlv_type t = OTRNG_TLV_SMP_MSG_3 \<and> state_expect smp \<noteq> SMP_STATE_EXPECT_3 \<or>
     tlv_type t = OTRNG_TLV_SMP_MSG_4 \<and> state_expect smp \<noteq> SMP_STATE_EXPECT_4"
  shows "otrng_process_smp C rnd q_len0 ret smp t = Some (OTRNG_SMP_EVENT_ABORT,
     Some \<lparr>tlv_type = OTRNG_TLV_SMP_ABORT, tlv_len = 0, tlv_data = None\<rparr>,
     smp\<lparr>state_expect := SMP_STATE_EXPECT_1, progress := SMP_ZERO_PROGRESS\<rparr>)"
  using assms
  by (elim disjE conjE)
     (simp_all add: otrng_process_smp_def otrng_process_smp_message1_def otrng_process_smp_message2_def
       otrng_process_smp_message3_def otrng_process_smp_message4_def receive_smp_message_1_def
       receive_smp_message_2_def receive_smp_message_3_def receive_smp_message_4_def
       smp_after_message_def otrng_tlv_new_def const_defs)

theorem smp_out_of_order_aborts_witness:
  "otrng_process_smp ex_crypto (\<lambda>i. []) 0 OTRNG_SMP_EVENT_NONE (otrng_smp_protocol_init 0 0)
     \<lparr>tlv_type = OTRNG_TLV_SMP_MSG_3, tlv_len = 0, tlv_data = None\<rparr> = Some (OTRNG_SMP_EVENT_ABORT,
     Some \<lparr>tlv_type = OTRNG_TLV_SMP_ABORT, tlv_len = 0, tlv_data = None\<rparr>,
     (otrng_smp_protocol_init 0 0)\<lparr>state_expect := SMP_STATE_EXPECT_1, progress := SMP_ZERO_PROGRESS\<rparr>)"
  by (rule smp_out_of_order_aborts) (simp add: otrng_smp_protocol_init_def)

text \<open>One step: a message is processed, or the user starts a run or gives an answer.\<close>

inductive smp_step :: "('p, 's, 'm, 'h) crypto_ops \<Rightarrow> ('p, 's) smp_protocol_s \<Rightarrow> ('p, 's) smp_protocol_s \<Rightarrow> bool"
  for C :: "('p, 's, 'm, 'h) crypto_ops" where
  receive: "otrng_process_smp C rnd q_len0 OTRNG_SMP_EVENT_NONE smp t = Some (event, out, smp') \<Longrightarrow> smp_step C smp smp'"
| initiate: "otrng_smp_initiate C rnd cbs ka kb question q_len answer ssid smp = Some (out, cb, smp') \<Longrightarrow> smp_step C smp smp'"
| answer: "otrng_smp_provide_secret C rnd event smp ka kb ssid secret = Some (event', out, smp') \<Longrightarrow> smp_step C smp smp'"

inductive_cases smp_stepE: "smp_step C smp smp'"

definition smp_initial :: "('p, 's) smp_protocol_s \<Rightarrow> bool" where
  "smp_initial smp \<longleftrightarrow> (\<exists>zs zp. smp = otrng_smp_protocol_init zs zp)"

text \<open>While a second or fourth message is expected the secret is stored; the progress fits the state.\<close>

definition smp_inv :: "('p, 's) smp_protocol_s \<Rightarrow> bool" where
  "smp_inv smp \<longleftrightarrow> (case state_expect smp of
       SMP_STATE_EXPECT_NONE \<Rightarrow> False
     | SMP_STATE_EXPECT_1 \<Rightarrow> progress smp \<in> {SMP_ZERO_PROGRESS, SMP_QUARTER_PROGRESS, SMP_HALF_PROGRESS, SMP_HALF_QUARTER_PROGRESS, SMP_TOTAL_PROGRESS}
     | SMP_STATE_EXPECT_2 \<Rightarrow> smp_secret smp \<noteq> None \<and> progress smp = SMP_QUARTER_PROGRESS
     | _ \<Rightarrow> smp_secret smp \<noteq> None \<and> progress smp = SMP_HALF_PROGRESS)"

definition same_control :: "('p, 's) smp_protocol_s \<Rightarrow> ('p, 's) smp_protocol_s \<Rightarrow> bool" where
  "same_control smp smp' \<longleftrightarrow> state_expect smp' = state_expect smp \<and> progress smp' = progress smp \<and>
     smp_secret smp' = smp_secret smp \<and> message1 smp' = message1 smp"

lemma generate_control:
  "otrng_generate_smp_message_1 C rnd smp = (r1, smp') \<Longrightarrow> same_control smp smp'"
  "generate_smp_message_2 C rnd msg_1 smp = Some (r2, smp') \<Longrightarrow> same_control smp smp'"
  "generate_smp_message_3 C rnd msg_2 smp = Some (r3, smp') \<Longrightarrow> same_control smp smp'"
  by (auto simp: otrng_generate_smp_message_1_def generate_smp_message_2_def generate_smp_message_3_def
      Let_def same_control_def split: option.splits)

lemma generate_no_fault:
  "generate_smp_message_2 C rnd msg_1 smp = None \<longleftrightarrow>
     smp_secret smp = None \<and> hash_point_to_scalar C (ecdh_pub (otrng_zq_keypair_generate C (rnd 2))) 0x03 \<noteq> None \<and>
     hash_point_to_scalar C (ecdh_pub (otrng_zq_keypair_generate C (rnd 3))) 0x04 \<noteq> None"
  "generate_smp_message_3 C rnd msg_2 smp = None \<longleftrightarrow> smp_secret smp = None"
  by (auto simp: generate_smp_message_2_def generate_smp_message_3_def Let_def split: option.splits)

lemma reply_control:
  "otrng_reply_with_smp_message_2 C rnd smp = Some (ev, out, smp') \<Longrightarrow>
     same_control smp smp' \<and> ev = OTRNG_SMP_EVENT_ERROR \<or>
     state_expect smp' = SMP_STATE_EXPECT_3 \<and> progress smp' = SMP_HALF_PROGRESS \<and> smp_secret smp' = smp_secret smp"
  "reply_with_smp_message_3 C rnd msg_2 smp = Some (ev, out, smp') \<Longrightarrow>
     same_control smp smp' \<and> ev = OTRNG_SMP_EVENT_ERROR \<or>
     state_expect smp' = SMP_STATE_EXPECT_4 \<and> progress smp' = SMP_HALF_PROGRESS \<and> smp_secret smp' = smp_secret smp"
  "reply_with_smp_message_4 C rnd msg_3 smp = (ev, out, smp') \<Longrightarrow>
     smp' = smp \<and> ev = OTRNG_SMP_EVENT_ERROR \<or>
     state_expect smp' = SMP_STATE_EXPECT_1 \<and> progress smp' = SMP_TOTAL_PROGRESS"
  by (auto simp: otrng_reply_with_smp_message_2_def reply_with_smp_message_3_def reply_with_smp_message_4_def
      Let_def dest!: generate_control(2,3) split: option.splits prod.splits if_splits)
     (simp_all add: same_control_def)

lemmas smp_inv_simps = smp_inv_def same_control_def const_defs

lemma process_1_inv:
  "smp_inv smp \<Longrightarrow> otrng_process_smp_message1 C q_len0 t smp = (ev, smp') \<Longrightarrow> smp_after_message ev None smp' = (out, smp'') \<Longrightarrow> smp_inv smp''"
  by (auto simp: otrng_process_smp_message1_def receive_smp_message_1_def smp_after_message_def smp_inv_simps
      split: option.splits if_splits otrng_smp_state.splits)

lemma process_2_inv:
  assumes "smp_inv smp" "otrng_process_smp_message2 C rnd t smp = Some (ev, o1, smp')" "smp_after_message ev o1 smp' = (out, smp'')"
  shows "smp_inv smp''"
proof (cases "\<exists>m s. receive_smp_message_2 C t smp = (OTRNG_SMP_EVENT_NONE, Some m, s)")
  case True
  then obtain m s where r: "receive_smp_message_2 C t smp = (OTRNG_SMP_EVENT_NONE, Some m, s)" by blast
  then have "same_control smp s \<and> state_expect smp = SMP_STATE_EXPECT_2"
    by (auto simp: receive_smp_message_2_def Let_def same_control_def split: option.splits if_splits)
  with reply_control(2)[of C rnd m s ev o1 smp'] r assms show ?thesis
    by (auto simp: otrng_process_smp_message2_def smp_after_message_def smp_inv_simps split: if_splits)
next
  case False
  with assms show ?thesis
    by (auto simp: otrng_process_smp_message2_def receive_smp_message_2_def smp_after_message_def smp_inv_simps Let_def
        split: option.splits if_splits prod.splits otrng_smp_state.splits)
qed

lemma process_3_inv:
  assumes "smp_inv smp" "otrng_process_smp_message3 C rnd t smp = (ev, o1, smp')" "smp_after_message ev o1 smp' = (out, smp'')"
  shows "smp_inv smp''"
proof (cases "\<exists>m s. receive_smp_message_3 C t smp = (OTRNG_SMP_EVENT_NONE, Some m, s)")
  case True
  then obtain m s where r: "receive_smp_message_3 C t smp = (OTRNG_SMP_EVENT_NONE, Some m, s)" by blast
  then have "progress s = SMP_HALF_QUARTER_PROGRESS"
    by (auto simp: receive_smp_message_3_def split: option.splits if_splits)
  with reply_control(3)[of C rnd m s ev o1 smp'] r assms show ?thesis
    by (auto simp: otrng_process_smp_message3_def smp_after_message_def smp_inv_simps split: if_splits)
next
  case False
  with assms show ?thesis
    by (auto simp: otrng_process_smp_message3_def receive_smp_message_3_def smp_after_message_def smp_inv_simps Let_def
        split: option.splits if_splits prod.splits otrng_smp_state.splits)
qed

lemma process_4_inv:
  "smp_inv smp \<Longrightarrow> otrng_process_smp_message4 C t smp = (ev, smp') \<Longrightarrow> smp_after_message ev None smp' = (out, smp'') \<Longrightarrow> smp_inv smp''"
  by (auto simp: otrng_process_smp_message4_def receive_smp_message_4_def smp_after_message_def smp_inv_simps Let_def
      split: option.splits if_splits otrng_smp_state.splits)

lemma process_smp_inv:
  "smp_inv smp \<Longrightarrow> otrng_process_smp C rnd q_len0 ret smp t = Some (ev, out, smp') \<Longrightarrow> smp_inv smp'"
  by (auto simp: otrng_process_smp_def split: if_splits option.splits prod.splits
      dest: process_1_inv process_2_inv process_3_inv process_4_inv)
     (simp add: smp_inv_simps)

lemma initiate_inv:
  assumes "smp_inv smp" "otrng_smp_initiate C rnd cbs ka kb question q_len answer ssid smp = Some (out, cb, smp')"
  shows "smp_inv smp'"
  using assms
  by (auto simp: otrng_smp_initiate_def Let_def smp_inv_simps dest!: generate_control(1)
      split: option.splits if_splits prod.splits otrng_smp_state.splits)

lemma provide_secret_inv:
  assumes "smp_inv smp" "otrng_smp_provide_secret C rnd ev0 smp ka kb ssid secret = Some (ev, out, smp')"
  shows "smp_inv smp'"
  using assms
  by (auto simp: otrng_smp_provide_secret_def smp_inv_simps dest!: reply_control(1)
      split: option.splits if_splits otrng_smp_state.splits)

interpretation smp_machine: invariant_machine smp_initial "smp_step C" smp_inv
  for C :: "('p, 's, 'm, 'h) crypto_ops"
proof
  fix s :: "('p, 's) smp_protocol_s"
  show "smp_initial s \<Longrightarrow> smp_inv s"
    by (auto simp: smp_initial_def otrng_smp_protocol_init_def smp_inv_simps)
next
  fix s s' :: "('p, 's) smp_protocol_s"
  show "smp_step C s s' \<Longrightarrow> smp_inv s \<Longrightarrow> smp_inv s'"
    by (auto elim!: smp_stepE intro: process_smp_inv initiate_inv provide_secret_inv)
qed

lemma process_smp_no_fault:
  assumes "smp_inv smp"
  shows "\<exists>r. otrng_process_smp C rnd q_len0 ret smp t = Some r"
proof -
  have "\<exists>r. otrng_process_smp_message2 C rnd t smp = Some r"
  proof (cases "\<exists>m s. receive_smp_message_2 C t smp = (OTRNG_SMP_EVENT_NONE, Some m, s)")
    case True
    then obtain m s where r: "receive_smp_message_2 C t smp = (OTRNG_SMP_EVENT_NONE, Some m, s)" by blast
    then have "smp_secret s \<noteq> None"
      using assms by (auto simp: receive_smp_message_2_def Let_def smp_inv_def split: option.splits if_splits)
    then obtain r3 where "generate_smp_message_3 C rnd m s = Some r3"
      using generate_no_fault(2)[of C rnd m s] by (cases "generate_smp_message_3 C rnd m s") auto
    with r show ?thesis
      by (auto simp: otrng_process_smp_message2_def reply_with_smp_message_3_def Let_def split: option.splits prod.splits)
  next
    case False
    then show ?thesis
      by (auto simp: otrng_process_smp_message2_def receive_smp_message_2_def Let_def split: option.splits if_splits)
  qed
  then show ?thesis by (auto simp: otrng_process_smp_def split: prod.splits option.splits)
qed

text \<open>C12: whatever sequence of messages arrives and whatever the user does, processing the next SMP
  message never reads a secret that was not stored, and the machine stays in one of the four
  expected states with a progress that fits it.\<close>

theorem smp_reachable_safe:
  assumes "smp_initial smp0" "(smp_step C)\<^sup>*\<^sup>* smp0 smp"
  shows "\<exists>event out smp'. otrng_process_smp C rnd q_len0 OTRNG_SMP_EVENT_NONE smp t = Some (event, out, smp') \<and>
           smp_inv smp \<and> smp_inv smp'"
proof -
  have i: "smp_inv smp" by (rule smp_machine.reachable_inv[OF assms])
  then obtain event out smp' where "otrng_process_smp C rnd q_len0 OTRNG_SMP_EVENT_NONE smp t = Some (event, out, smp')"
    using process_smp_no_fault[OF i, of C rnd q_len0 OTRNG_SMP_EVENT_NONE t] by auto
  then show ?thesis using process_smp_inv[OF i] i by blast
qed

theorem smp_reachable_safe_witness:
  "\<exists>event out smp'. otrng_process_smp ex_crypto (\<lambda>i. []) 0 OTRNG_SMP_EVENT_NONE (otrng_smp_protocol_init 0 0)
       \<lparr>tlv_type = OTRNG_TLV_SMP_MSG_2, tlv_len = 0, tlv_data = None\<rparr> = Some (event, out, smp') \<and>
     smp_inv (otrng_smp_protocol_init 0 0 :: (int, int) smp_protocol_s) \<and> smp_inv smp'"
  by (rule smp_reachable_safe[of "otrng_smp_protocol_init 0 0 :: (int, int) smp_protocol_s"]) (auto simp: smp_initial_def)

text \<open>Giving an answer before any first message has arrived reads through the \<open>NULL\<close> pointer
  \<open>message1\<close>; this is the only case in which answering faults.\<close>

theorem smp_provide_secret_fault:
  assumes G: "goldilocks_ok C S" and H: "sponge_ok C S"
  shows "otrng_smp_provide_secret C rnd event smp our_profile their_profile ssid secret = None \<longleftrightarrow>
           state_expect smp = SMP_STATE_EXPECT_1 \<and> message1 smp = None"
proof -
  obtain fa fb where f: "otrng_serialize_fingerprint C (fst our_profile) (snd our_profile) = Some fa"
    "otrng_serialize_fingerprint C (fst their_profile) (snd their_profile) = Some fb"
    using serialize_fingerprint_total[OF G H] by metis
  obtain s where s: "otrng_generate_smp_secret C fb fa ssid secret = Some s"
    using generate_smp_secret_total[OF H] by blast
  have "generate_smp_message_2 C rnd m (smp\<lparr>smp_secret := Some s\<rparr>) \<noteq> None" for m
    by (simp add: generate_no_fault(1) del: not_None_eq)
  then show ?thesis
    using f s
    by (auto simp del: not_None_eq simp: otrng_smp_provide_secret_def otrng_reply_with_smp_message_2_def Let_def split: option.splits prod.splits)
qed

theorem smp_provide_secret_fault_witness:
  "otrng_smp_provide_secret ex_crypto (\<lambda>i. []) OTRNG_SMP_EVENT_NONE (otrng_smp_protocol_init 0 0) (1, 2) (3, 4) [5] [6] = None"
  using smp_provide_secret_fault[OF ex_goldilocks_ok ex_sponge_ok, of "\<lambda>i. []" OTRNG_SMP_EVENT_NONE
      "otrng_smp_protocol_init 0 0" "(1, 2)" "(3, 4)" "[5]" "[6]"]
  by (simp add: otrng_smp_protocol_init_def)

end
