(* ===== verification/Fragment.thy ===== *)
theory Fragment
  imports Linked_List "HOL-Library.Multiset"
begin

text \<open>
  \<open>fragment.c\<close> and \<open>prekey_fragment.c\<close>: cutting a message into pieces that fit the transport and
  putting pieces that arrive in any order together again.  Messages are C strings, lists of
  characters without the terminating zero.  The list of contexts is the list of its data in order;
  its expiry, which depends on the links of the nodes, is on the heap of \<open>Linked_List\<close>.
\<close>

subsection \<open>Formatted output and input\<close>

text \<open>The conversions of \<open>printf\<close> and \<open>scanf\<close> that the formats of the file use: \<open>%08x\<close>, \<open>%05hu\<close>,
  \<open>%n\<close>, \<open>%*[^,]\<close> and plain characters.\<close>

definition digit_char :: "nat \<Rightarrow> char" where
  "digit_char d = (if d < 10 then char_of (48 + d) else char_of (87 + d))"

primrec print_digits :: "nat \<Rightarrow> nat \<Rightarrow> nat \<Rightarrow> string" where
  "print_digits b 0 v = []"
| "print_digits b (Suc w) v = print_digits b w (v div b) @ [digit_char (v mod b)]"

definition print_08x :: "u32 \<Rightarrow> string" where
  "print_08x v = print_digits 16 8 (unat v)"

definition print_05hu :: "u16 \<Rightarrow> string" where
  "print_05hu v = print_digits 10 5 (unat v)"

definition digit_value :: "char \<Rightarrow> nat option" where
  "digit_value c = (let n = (of_char c :: nat) in
     if 48 \<le> n \<and> n \<le> 57 then Some (n - 48)
     else if 97 \<le> n \<and> n \<le> 122 then Some (n - 87)
     else if 65 \<le> n \<and> n \<le> 90 then Some (n - 55)
     else None)"

definition is_digit :: "nat \<Rightarrow> char \<Rightarrow> bool" where
  "is_digit b c = (case digit_value c of None \<Rightarrow> False | Some d \<Rightarrow> d < b)"

definition digits_value :: "nat \<Rightarrow> string \<Rightarrow> nat" where
  "digits_value b s = foldl (\<lambda>v c. v * b + the (digit_value c)) 0 s"

definition is_space :: "char \<Rightarrow> bool" where
  "is_space c \<longleftrightarrow> (let n = (of_char c :: nat) in n = 32 \<or> 9 \<le> n \<and> n \<le> 13)"

text \<open>An integer of at most \<open>w\<close> characters: an optional sign, for hexadecimal numbers an optional
  \<open>0x\<close>, and digits.  The value and the number of characters read, or a matching failure.\<close>

definition scan_sign :: "string \<Rightarrow> int \<times> nat" where
  "scan_sign s = (case s of [] \<Rightarrow> (1, 0)
     | c # _ \<Rightarrow> if c = CHR ''-'' then (-1, 1) else if c = CHR ''+'' then (1, 1) else (1, 0))"

definition scan_prefix :: "nat \<Rightarrow> string \<Rightarrow> nat" where
  "scan_prefix b s = (case s of z # x # _ \<Rightarrow>
       if b = 16 \<and> z = CHR ''0'' \<and> (x = CHR ''x'' \<or> x = CHR ''X'') then 2 else 0 | _ \<Rightarrow> 0)"

definition scan_int :: "nat \<Rightarrow> nat \<Rightarrow> string \<Rightarrow> (int \<times> nat) option" where
  "scan_int b w s =
     (let t = take w s;
          (sign, n) = scan_sign t;
          t = drop n t;
          m = scan_prefix b t;
          ds = takeWhile (is_digit b) (drop m t)
      in if ds = [] then None else Some (sign * int (digits_value b ds), n + m + length ds))"

datatype directive = Lit char | Scan_x nat | Scan_hu nat | Scan_n | Skip_not char

text \<open>\<open>sscanf\<close>: the values stored by the conversions, in order; \<open>None\<close> for \<open>EOF\<close>, which is returned
  when the input ends before the first conversion.  \<open>pos\<close> counts the characters read so far,
  \<open>conv\<close> says whether a conversion has been done.\<close>

fun sscanf :: "directive list \<Rightarrow> nat \<Rightarrow> bool \<Rightarrow> string \<Rightarrow> int list option" where
  "sscanf [] pos conv s = Some []"
| "sscanf (Lit c # ds) pos conv s =
     (case s of [] \<Rightarrow> if conv then Some [] else None
      | x # xs \<Rightarrow> if x = c then sscanf ds (pos + 1) conv xs else Some [])"
| "sscanf (Scan_x w # ds) pos conv s =
     (let k = length (takeWhile is_space s); s = drop k s in
      if s = [] then (if conv then Some [] else None)
      else case scan_int 16 w s of None \<Rightarrow> Some []
        | Some (v, n) \<Rightarrow> map_option ((#) v) (sscanf ds (pos + k + n) True (drop n s)))"
| "sscanf (Scan_hu w # ds) pos conv s =
     (let k = length (takeWhile is_space s); s = drop k s in
      if s = [] then (if conv then Some [] else None)
      else case scan_int 10 w s of None \<Rightarrow> Some []
        | Some (v, n) \<Rightarrow> map_option ((#) v) (sscanf ds (pos + k + n) True (drop n s)))"
| "sscanf (Scan_n # ds) pos conv s = map_option ((#) (int pos)) (sscanf ds pos conv s)"
| "sscanf (Skip_not c # ds) pos conv s =
     (if s = [] then (if conv then Some [] else None)
      else let n = length (takeWhile (\<lambda>x. x \<noteq> c) s) in
        if n = 0 then Some [] else sscanf ds (pos + n) True (drop n s))"

text \<open>The variables of the caller keep their initial zero when \<open>sscanf\<close> stops before them.\<close>

definition scanned :: "int list \<Rightarrow> nat \<Rightarrow> int" where
  "scanned vs i = (if i < length vs then vs ! i else 0)"

definition UNFRAGMENT_FORMAT_TAIL :: "directive list" where
  "UNFRAGMENT_FORMAT_TAIL = [Scan_x 8, Lit (CHR ''|''), Scan_x 8, Lit (CHR ''|''), Scan_x 8, Lit (CHR '',''),
     Scan_hu 5, Lit (CHR '',''), Scan_hu 5, Lit (CHR '',''), Scan_n, Skip_not (CHR '',''), Lit (CHR '',''), Scan_n]"

definition UNFRAGMENT_FORMAT :: "directive list" where
  "UNFRAGMENT_FORMAT = map Lit ''?OTR|'' @ UNFRAGMENT_FORMAT_TAIL"

definition PREKEY_UNFRAGMENT_FORMAT :: "directive list" where
  "PREKEY_UNFRAGMENT_FORMAT = map Lit ''?OTRP|'' @ UNFRAGMENT_FORMAT_TAIL"

subsection \<open>Cutting a message\<close>

definition FRAGMENT_HEADER_LEN :: nat where [const_defs]: "FRAGMENT_HEADER_LEN = 45"

text \<open>\<open>snprintf\<close> with \<open>FRAGMENT_FORMAT\<close> into a buffer of \<open>FRAGMENT_HEADER_LEN + piece_len + 1\<close>.\<close>

definition create_fragment_message ::
    "string \<Rightarrow> nat \<Rightarrow> u32 \<Rightarrow> u32 \<Rightarrow> u32 \<Rightarrow> u16 \<Rightarrow> u16 \<Rightarrow> string option" where
  "create_fragment_message piece piece_len identifier our_instance their_instance current total_n =
     (if length piece < piece_len then None
      else Some (take (FRAGMENT_HEADER_LEN + piece_len)
        (''?OTR|'' @ print_08x identifier @ ''|'' @ print_08x our_instance @ ''|'' @ print_08x their_instance @ '',''
         @ print_05hu current @ '','' @ print_05hu total_n @ '','' @ take piece_len piece @ '','')))"

definition init_message_to_send_with_total :: "int \<Rightarrow> nat option" where
  "init_message_to_send_with_total total_n = (if total_n < 1 \<or> total_n > 65535 then None else Some (nat total_n))"

text \<open>The pieces from number \<open>i\<close> on, \<open>n\<close> of them.\<close>

primrec fragment_loop ::
    "nat \<Rightarrow> nat \<Rightarrow> nat \<Rightarrow> nat \<Rightarrow> u32 \<Rightarrow> u32 \<Rightarrow> u32 \<Rightarrow> string \<Rightarrow> string list option" where
  "fragment_loop 0 i total_n limit identifier our_instance their_instance msg = Some []"
| "fragment_loop (Suc n) i total_n limit identifier our_instance their_instance msg =
     (let piece_len = (if length msg < limit then length msg else limit) in
      case create_fragment_message msg piece_len identifier our_instance their_instance
             (of_nat (i + 1)) (of_nat total_n) of
        None \<Rightarrow> None
      | Some p \<Rightarrow> map_option ((#) p)
          (fragment_loop n (i + 1) total_n limit identifier our_instance their_instance (drop piece_len msg)))"

text \<open>\<open>limit\<close> and \<open>total\<close> are computed on \<open>size_t\<close> and converted to \<open>int\<close> as the C code does; a
  \<open>max_size\<close> of just the header divides by zero, which is the outer \<open>None\<close>.  The random
  identifier is an argument, \<open>None\<close> when it cannot be had.\<close>

definition otrng_fragment_message ::
    "int \<Rightarrow> u32 option \<Rightarrow> u32 \<Rightarrow> u32 \<Rightarrow> string \<Rightarrow> string list option option" where
  "otrng_fragment_message max_size random our_instance their_instance msg =
     (let msg_len = (of_nat (length msg) :: u64);
          limit = (of_int (max_size - int FRAGMENT_HEADER_LEN) :: u64)
      in if limit = 0 then None
         else let total_n = sint (ucast ((msg_len - 1) div limit + 1) :: 32 word)
           in Some (do {
             total_n \<leftarrow> init_message_to_send_with_total total_n;
             identifier \<leftarrow> random;
             fragment_loop total_n 0 total_n (unat limit) identifier our_instance their_instance msg }))"

subsection \<open>Reassembly\<close>

record fragment_context_s =
  ctx_identifier :: u32
  ctx_total :: nat
  ctx_count :: nat
  ctx_total_message_len :: nat
  ctx_last_fragment_received_at :: int
  ctx_fragments :: "string option list option"

definition initialize_fragment_context :: "fragment_context_s \<Rightarrow> fragment_context_s" where
  "initialize_fragment_context c = c\<lparr>ctx_identifier := 0, ctx_count := 0, ctx_total := 0,
     ctx_last_fragment_received_at := 0, ctx_total_message_len := 0, ctx_fragments := None\<rparr>"

definition free_fragments_in_context :: "fragment_context_s \<Rightarrow> fragment_context_s" where
  "free_fragments_in_context c = (case ctx_fragments c of
       None \<Rightarrow> c
     | Some fs \<Rightarrow> c\<lparr>ctx_fragments := Some (replicate (min (ctx_total c) (length fs)) None @ drop (ctx_total c) fs)\<rparr>)"

definition reset_fragment_context :: "fragment_context_s \<Rightarrow> fragment_context_s" where
  "reset_fragment_context c = initialize_fragment_context (free_fragments_in_context c)"

definition otrng_fragment_context_new :: fragment_context_s where
  "otrng_fragment_context_new = initialize_fragment_context
     \<lparr>ctx_identifier = 0, ctx_total = 0, ctx_count = 0, ctx_total_message_len = 0,
      ctx_last_fragment_received_at = 0, ctx_fragments = None\<rparr>"

definition is_prefix :: "string \<Rightarrow> string \<Rightarrow> bool" where
  "is_prefix p s \<longleftrightarrow> take (length p) s = p"

text \<open>\<open>strstr (msg, prefix) == msg\<close>.\<close>

definition is_fragment_generic :: "string \<Rightarrow> string \<Rightarrow> bool" where
  "is_fragment_generic msg prefix \<longleftrightarrow> is_prefix prefix msg"

definition initialize_fragments :: "fragment_context_s \<Rightarrow> fragment_context_s" where
  "initialize_fragments c = c\<lparr>ctx_fragments := Some (replicate (ctx_total c) None)\<rparr>"

text \<open>The pieces are copied one after the other into a buffer of \<open>total_message_len + 1\<close> bytes;
  a missing piece or a buffer that is too small is a fault, \<open>None\<close>.\<close>

fun join_loop :: "string option list \<Rightarrow> nat \<Rightarrow> string option" where
  "join_loop [] room = Some []"
| "join_loop (None # fs) room = None"
| "join_loop (Some f # fs) room = (if length f + 1 > room then None
     else map_option ((@) f) (join_loop fs (room - length f)))"

definition join_fragments :: "fragment_context_s \<Rightarrow> string option" where
  "join_fragments c = (case ctx_fragments c of
       None \<Rightarrow> if ctx_total c = 0 then Some [] else None
     | Some fs \<Rightarrow> if length fs < ctx_total c then None
         else join_loop (take (ctx_total c) fs) (ctx_total_message_len c + 1))"

definition copy_fragment_to_context ::
    "fragment_context_s \<Rightarrow> nat \<Rightarrow> string \<Rightarrow> nat \<Rightarrow> fragment_context_s option" where
  "copy_fragment_to_context c i msg fragment_len =
     (case ctx_fragments c of
        None \<Rightarrow> None
      | Some fs \<Rightarrow> if length msg < fragment_len \<or> i = 0 \<or> length fs < i then None
          else Some (c\<lparr>ctx_fragments := Some (fs[i - 1 := Some (take fragment_len msg)]),
                       ctx_total_message_len := ctx_total_message_len c + fragment_len\<rparr>))"

text \<open>The search for the context of an identifier: the position of the first one.\<close>

fun find_context :: "u32 \<Rightarrow> fragment_context_s list \<Rightarrow> nat option" where
  "find_context ident [] = None"
| "find_context ident (c # cs) =
     (if ctx_identifier c = ident then Some 0 else map_option Suc (find_context ident cs))"

text \<open>What is done with the context at position \<open>k\<close> for piece \<open>i\<close> of \<open>t\<close>.  The result is the return
  value, the reassembled message if it is complete, and the contexts; the outer \<open>None\<close> is a fault.\<close>

definition receive_piece ::
    "fragment_context_s list \<Rightarrow> nat \<Rightarrow> nat \<Rightarrow> nat \<Rightarrow> string \<Rightarrow> nat \<Rightarrow> int
     \<Rightarrow> (bool \<times> string option \<times> fragment_context_s list) option" where
  "receive_piece contexts k i t msg fragment_len now =
     (let context = contexts ! k in
      if i = 0 \<or> t = 0 \<or> i > t then Some (True, None, contexts[k := reset_fragment_context context])
      else if ctx_total context \<noteq> 0 \<and> ctx_total context \<noteq> t then Some (False, None, contexts)
      else
        let context = context\<lparr>ctx_total := t\<rparr>;
            context = (if ctx_fragments context = None then initialize_fragments context else context)
        in case ctx_fragments context of
             None \<Rightarrow> None
           | Some fs \<Rightarrow>
               if length fs < i then None
               else if fs ! (i - 1) \<noteq> None then Some (False, None, contexts[k := context])
               else do {
                 context \<leftarrow> copy_fragment_to_context context i msg fragment_len;
                 let context = context\<lparr>ctx_count := ctx_count context + 1, ctx_last_fragment_received_at := now\<rparr>;
                 if ctx_count context = t then do {
                   unfrag_msg \<leftarrow> join_fragments context;
                   Some (True, Some unfrag_msg, take k contexts @ drop (Suc k) contexts) }
                 else Some (True, None, contexts[k := context]) })"

definition otrng_unfragment_message_generic ::
    "fragment_context_s list \<Rightarrow> string \<Rightarrow> u32 \<Rightarrow> string \<Rightarrow> directive list \<Rightarrow> int
     \<Rightarrow> (bool \<times> string option \<times> fragment_context_s list) option" where
  "otrng_unfragment_message_generic contexts msg our_instance_tag prefix format now =
     (if \<not> is_fragment_generic msg prefix then Some (True, Some msg, contexts)
      else case sscanf format 0 False msg of
        None \<Rightarrow> Some (False, None, contexts)
      | Some vs \<Rightarrow>
        let fragment_identifier = (of_int (scanned vs 0) :: u32);
            receiver_tag = (of_int (scanned vs 2) :: u32);
            i = unat (of_int (scanned vs 3) :: u16);
            t = unat (of_int (scanned vs 4) :: u16);
            start = scanned vs 5;
            end_pos = scanned vs 6
        in if our_instance_tag \<noteq> receiver_tag \<and> 0 \<noteq> receiver_tag then Some (True, None, contexts)
           else if end_pos \<le> start then Some (False, None, contexts)
           else
             let (k, contexts) = (case find_context fragment_identifier contexts of
                     Some k \<Rightarrow> (k, contexts)
                   | None \<Rightarrow> (length contexts, contexts @ [otrng_fragment_context_new\<lparr>ctx_identifier := fragment_identifier\<rparr>]));
                 fragment_len = nat (end_pos - start - 1)
             in receive_piece contexts k i t (drop (nat start) msg) fragment_len now)"

definition otrng_unfragment_message ::
    "fragment_context_s list \<Rightarrow> string \<Rightarrow> u32 \<Rightarrow> int \<Rightarrow> (bool \<times> string option \<times> fragment_context_s list) option" where
  "otrng_unfragment_message contexts msg our_instance_tag now =
     otrng_unfragment_message_generic contexts msg our_instance_tag ''?OTR|'' UNFRAGMENT_FORMAT now"

definition otrng_fragment_message_receive ::
    "fragment_context_s list \<Rightarrow> string \<Rightarrow> u32 \<Rightarrow> int \<Rightarrow> (bool \<times> string option \<times> fragment_context_s list) option" where
  "otrng_fragment_message_receive contexts msg our_instance_tag now =
     otrng_unfragment_message_generic contexts msg our_instance_tag ''?OTRP|'' PREKEY_UNFRAGMENT_FORMAT now"

subsection \<open>Expiry\<close>

text \<open>The loop of \<open>otrng_expire_fragments\<close> on the nodes: the successor is read after the node has
  been taken out of the list.\<close>

partial_function (option) expire_loop ::
    "int \<Rightarrow> nat \<Rightarrow> nat option \<Rightarrow> fragment_context_s heap \<Rightarrow> nat option \<Rightarrow> (nat option \<times> fragment_context_s heap) option" where
  [code]: "expire_loop now expiration_time contexts h current =
     (case current of
        None \<Rightarrow> Some (contexts, h)
      | Some a \<Rightarrow> do {
          n \<leftarrow> cells h a;
          if (case el_data n of None \<Rightarrow> False
              | Some ctx \<Rightarrow> now - ctx_last_fragment_received_at ctx < int expiration_time)
          then do {
            (contexts, h) \<leftarrow> otrng_list_remove_element current h contexts;
            m \<leftarrow> cells h a;
            h \<leftarrow> otrng_list_free_nodes h current;
            expire_loop now expiration_time contexts h (el_next m) }
          else expire_loop now expiration_time contexts h (el_next n) })"

definition otrng_expire_fragments ::
    "int \<Rightarrow> nat \<Rightarrow> fragment_context_s heap \<Rightarrow> nat option \<Rightarrow> (nat option \<times> fragment_context_s heap) option" where
  "otrng_expire_fragments now expiration_time h contexts = expire_loop now expiration_time contexts h contexts"

subsection \<open>What is printed is read back\<close>

lemma digit_char_value: "d < 16 \<Longrightarrow> digit_value (digit_char d) = Some d"
  by (simp add: digit_value_def digit_char_def Let_def)

lemma digit_char_code: "d < 16 \<Longrightarrow> (of_char (digit_char d) :: nat) = (if d < 10 then 48 + d else 87 + d)"
  by (simp add: digit_char_def)

lemma length_print_digits [simp]: "length (print_digits b w v) = w"
  by (induction w arbitrary: v) auto

lemma print_digits_set: "c \<in> set (print_digits b w v) \<Longrightarrow> 0 < b \<Longrightarrow> \<exists>d<b. c = digit_char d"
  by (induction w arbitrary: v) (auto intro: mod_less_divisor)

lemma print_digits_are_digits:
  assumes "0 < b" "b \<le> 16" "c \<in> set (print_digits b w v)"
  shows "is_digit b c" "c \<noteq> CHR ''-''" "c \<noteq> CHR ''+''" "c \<noteq> CHR ''x''" "c \<noteq> CHR ''X''" "\<not> is_space c" "c \<noteq> CHR '',''"
proof -
  from print_digits_set[OF assms(3,1)] obtain d where d: "d < b" "c = digit_char d" by blast
  with assms(2) have n: "(of_char c :: nat) = (if d < 10 then 48 + d else 87 + d)" by (simp add: digit_char_code)
  show "is_digit b c" using d assms(2) by (simp add: is_digit_def digit_char_value)
  show "\<not> is_space c" using n by (auto simp: is_space_def Let_def split: if_splits)
  have k: "(of_char c :: nat) \<notin> {45, 43, 120, 88, 44}" using n d assms(2) by (auto split: if_splits)
  have codes: "(of_char (CHR ''-'') :: nat) = 45" "(of_char (CHR ''+'') :: nat) = 43" "(of_char (CHR ''x'') :: nat) = 120"
    "(of_char (CHR ''X'') :: nat) = 88" "(of_char (CHR '','') :: nat) = 44" by simp_all
  show "c \<noteq> CHR ''-''" "c \<noteq> CHR ''+''" "c \<noteq> CHR ''x''" "c \<noteq> CHR ''X''" "c \<noteq> CHR '',''"
    using k codes by auto
qed

lemma digits_value_snoc: "digits_value b (s @ [c]) = digits_value b s * b + the (digit_value c)"
  by (simp add: digits_value_def)

lemma digits_value_print:
  assumes "0 < b" "b \<le> 16"
  shows "digits_value b (print_digits b w v) = v mod b ^ w"
proof (induction w arbitrary: v)
  case 0
  then show ?case by (simp add: digits_value_def)
next
  case (Suc w)
  have "v mod b < 16" using assms by (meson mod_less_divisor le_trans less_le_trans)
  then show ?case
    by (simp add: digits_value_snoc Suc digit_char_value mod_mult2_eq mult.commute)
qed

lemma scan_int_print:
  assumes "0 < b" "b \<le> 16" "0 < w" "v < b ^ w"
  shows "scan_int b w (print_digits b w v @ rest) = Some (int v, w)"
proof -
  let ?p = "print_digits b w v"
  note D = print_digits_are_digits[OF assms(1,2), of _ w v]
  have "scan_sign ?p = (1, 0)" "scan_prefix b ?p = 0"
    using D(2-5) by (auto simp: scan_sign_def scan_prefix_def split: list.splits)
  moreover have "takeWhile (is_digit b) ?p = ?p" using D(1) by (simp add: takeWhile_eq_all_conv)
  moreover have "?p \<noteq> []" using assms(3) by (metis length_print_digits length_0_conv less_irrefl)
  ultimately show ?thesis
    using assms by (simp add: scan_int_def Let_def digits_value_print del: takeWhile_eq_all_conv)
qed

lemma print_no_space:
  assumes "0 < b" "b \<le> 16" "0 < w"
  shows "takeWhile is_space (print_digits b w v @ rest) = []"
proof -
  from assms(3) obtain c cs where e: "print_digits b w v = c # cs"
    by (metis length_print_digits list.exhaust length_0_conv less_irrefl)
  then have "\<not> is_space c" using print_digits_are_digits(6)[OF assms(1,2), of c w v] by simp
  then show ?thesis by (simp add: e)
qed

lemma print_not_Nil: "0 < w \<Longrightarrow> print_digits b w v @ rest \<noteq> []"
  by (metis append_is_Nil_conv length_print_digits list.size(3) less_irrefl)

lemma sscanf_print_08x:
  "sscanf (Scan_x 8 # ds) pos conv (print_08x v @ rest) = map_option ((#) (uint v)) (sscanf ds (pos + 8) True rest)"
proof -
  have "unat v < 16 ^ 8" using unsigned_less[of v] by simp
  then show ?thesis
    by (simp add: print_08x_def Let_def print_no_space print_not_Nil scan_int_print del: power_numeral)
qed

lemma sscanf_print_05hu:
  "sscanf (Scan_hu 5 # ds) pos conv (print_05hu v @ rest) = map_option ((#) (uint v)) (sscanf ds (pos + 5) True rest)"
proof -
  have "unat v < 2 ^ 16" using unsigned_less[of v] by simp
  then have "unat v < 10 ^ 5" by simp
  then show ?thesis
    by (simp add: print_05hu_def Let_def print_no_space print_not_Nil scan_int_print del: power_numeral)
qed

definition fragment_text :: "u32 \<Rightarrow> u32 \<Rightarrow> u32 \<Rightarrow> u16 \<Rightarrow> u16 \<Rightarrow> string \<Rightarrow> string" where
  "fragment_text ident our their i t piece = ''?OTR|'' @ print_08x ident @ ''|'' @ print_08x our @ ''|'' @ print_08x their @ '',''
         @ print_05hu i @ '','' @ print_05hu t @ '','' @ piece @ '',''"

lemma length_print [simp]: "length (print_08x v) = 8" "length (print_05hu n) = 5"
  by (simp_all add: print_08x_def print_05hu_def)

lemma length_fragment_text: "length (fragment_text ident our their i t piece) = FRAGMENT_HEADER_LEN + length piece"
  by (simp add: fragment_text_def const_defs)

lemma drop_fragment_text: "drop 44 (fragment_text ident our their i t piece) = piece @ '',''"
  by (simp add: fragment_text_def)

lemma create_fragment_message_text:
  "n \<le> length piece \<Longrightarrow> create_fragment_message piece n ident our their i t = Some (fragment_text ident our their i t (take n piece))"
  using length_fragment_text[of ident our their i t "take n piece"]
  by (simp add: create_fragment_message_def) (simp add: fragment_text_def const_defs)

lemma sscanf_fragment_text:
  assumes "piece \<noteq> []" "CHR '','' \<notin> set piece"
  shows "sscanf UNFRAGMENT_FORMAT 0 False (fragment_text ident our their i t piece) =
     Some [uint ident, uint our, uint their, uint i, uint t, 44, 45 + int (length piece)]"
proof -
  have "takeWhile (\<lambda>x. x \<noteq> CHR '','') (piece @ '','') = piece" using assms(2) by (induction piece) auto
  then show ?thesis
    using assms(1) by (simp add: UNFRAGMENT_FORMAT_def UNFRAGMENT_FORMAT_TAIL_def fragment_text_def
        sscanf_print_08x sscanf_print_05hu del: sscanf.simps(3,4))
qed

subsection \<open>The pieces of a message\<close>

definition chunk :: "nat \<Rightarrow> string \<Rightarrow> nat \<Rightarrow> string" where
  "chunk limit msg j = take limit (drop (j * limit) msg)"

lemma concat_chunks: "concat (map (chunk limit msg) [0..<n]) = take (n * limit) msg"
  by (induction n) (simp_all add: chunk_def take_add[symmetric] add.commute)

lemma fragment_loop_eq:
  "fragment_loop n i t limit ident our their (drop (i * limit) msg) =
     Some (map (\<lambda>j. fragment_text ident our their (of_nat (Suc j)) (of_nat t) (chunk limit msg j)) [i..<i + n])"
proof (induction n arbitrary: i)
  case (Suc n)
  let ?m = "drop (i * limit) msg"
  let ?l = "if length ?m < limit then length ?m else limit"
  have d: "drop ?l ?m = drop (Suc i * limit) msg"
    by (cases "length ?m < limit") (auto simp: add.commute)
  have t: "take ?l ?m = chunk limit msg i" by (auto simp: chunk_def)
  have "create_fragment_message ?m ?l ident our their (of_nat (Suc i)) (of_nat t) =
      Some (fragment_text ident our their (of_nat (Suc i)) (of_nat t) (chunk limit msg i))"
    by (subst create_fragment_message_text) (simp_all only: t, simp)
  moreover have "[i..<i + Suc n] = i # [Suc i..<Suc i + n]" by (simp add: upt_rec del: upt_Suc)
  ultimately show ?case
    using Suc[of "Suc i"] d by (simp add: Let_def del: drop_drop upt_Suc split del: if_split)
qed simp

lemma fragment_message_eq:
  assumes "45 < max_size" "max_size < 2 ^ 31" "0 < length msg" "length msg < 2 ^ 31"
  defines "limit \<equiv> nat (max_size - 45)"
  defines "t \<equiv> (length msg - 1) div limit + 1"
  shows "otrng_fragment_message max_size random our their msg =
     Some (if t \<le> 65535 then map_option (\<lambda>ident. map (\<lambda>j. fragment_text ident our their (of_nat (Suc j)) (of_nat t) (chunk limit msg j)) [0..<t]) random
           else None)"
proof -
  define m :: u64 where "m = of_nat (length msg)"
  define l :: u64 where "l = of_int (max_size - int FRAGMENT_HEADER_LEN)"
  have "uint l = take_bit 64 (max_size - 45)" by (simp add: l_def unsigned_of_int FRAGMENT_HEADER_LEN_def del: of_int_diff)
  also have "\<dots> = max_size - 45" using assms(1,2) by (simp add: take_bit_int_eq_self)
  finally have l: "unat l = limit" by (simp add: limit_def nat_uint_eq[symmetric])
  have m: "unat m = length msg" using assms(4) by (simp add: m_def unsigned_of_nat take_bit_nat_eq_self)
  have m1: "unat (m - 1) = length msg - 1"
  proof -
    have "m \<noteq> 0" using m assms(3) by (intro notI) simp
    then show ?thesis using m unat_minus_one[of m] by simp
  qed
  have tl: "t \<le> length msg" unfolding t_def using assms(3) by (metis Suc_pred' div_le_dividend Suc_le_mono Suc_eq_plus1)
  have "unat ((m - 1) div l) = t - 1" by (simp add: unat_div_distrib m1 l t_def)
  moreover have "unat ((m - 1) div l) + unat (1 :: u64) < 2 ^ 64" using calculation tl assms(4) by simp
  ultimately have q: "unat ((m - 1) div l + 1) = t"
    by (simp add: unat_word_ariths t_def)
  have st: "sint (ucast ((m - 1) div l + 1) :: 32 word) = int t"
    using tl assms(4) q
    by (simp add: sint_uint unsigned_ucast_eq uint_nat take_bit_nat_eq_self signed_take_bit_int_eq_self)
  have "l \<noteq> 0" using l assms(1) limit_def by auto
  moreover have "1 \<le> t" by (simp add: t_def)
  ultimately show ?thesis
    unfolding otrng_fragment_message_def Let_def m_def[symmetric] l_def[symmetric] st
    using fragment_loop_eq[of t 0 t limit _ our their msg]
    by (cases random) (simp_all add: init_message_to_send_with_total_def l del: of_nat_Suc)
qed

subsection \<open>Reassembly in any order\<close>

text \<open>The context after the pieces with the numbers in \<open>R\<close> have arrived.\<close>

definition partial_context :: "u32 \<Rightarrow> nat \<Rightarrow> (nat \<Rightarrow> string) \<Rightarrow> nat set \<Rightarrow> int \<Rightarrow> fragment_context_s" where
  "partial_context ident t ch R now = \<lparr>ctx_identifier = ident, ctx_total = t, ctx_count = card R,
     ctx_total_message_len = (\<Sum>j\<in>R. length (ch j)), ctx_last_fragment_received_at = now,
     ctx_fragments = Some (map (\<lambda>j. if j \<in> R then Some (ch j) else None) [0..<t])\<rparr>"

lemma join_loop_eq:
  "(\<Sum>f\<leftarrow>fs. length f) < room \<Longrightarrow> join_loop (map Some fs) room = Some (concat fs)"
  by (induction fs arbitrary: room) auto

lemma find_context_append: "find_context ident cs = None \<Longrightarrow>
    find_context ident (cs @ [c]) = (if ctx_identifier c = ident then Some (length cs) else None)"
  by (induction cs) (auto split: if_splits)

text \<open>The context a piece is stored in, with its array allocated.\<close>

definition started :: "fragment_context_s \<Rightarrow> nat \<Rightarrow> fragment_context_s" where
  "started c t = (if ctx_fragments c = None then initialize_fragments (c\<lparr>ctx_total := t\<rparr>) else c\<lparr>ctx_total := t\<rparr>)"

definition with_piece :: "fragment_context_s \<Rightarrow> string option list \<Rightarrow> nat \<Rightarrow> string \<Rightarrow> int \<Rightarrow> fragment_context_s" where
  "with_piece c fs i piece now = c\<lparr>ctx_fragments := Some (fs[i - 1 := Some piece]),
     ctx_total_message_len := ctx_total_message_len c + length piece, ctx_count := Suc (ctx_count c),
     ctx_last_fragment_received_at := now\<rparr>"

lemma receive_piece_eq:
  assumes "0 < i" "i \<le> t" "ctx_total (cs ! k) = 0 \<or> ctx_total (cs ! k) = t"
    and "ctx_fragments (started (cs ! k) t) = Some fs" "length fs = t" "len \<le> length rest"
  shows "receive_piece cs k i t rest len now =
    (if fs ! (i - 1) \<noteq> None then Some (False, None, cs[k := started (cs ! k) t])
     else let c = with_piece (started (cs ! k) t) fs i (take len rest) now in
       if ctx_count c = t then do { m \<leftarrow> join_fragments c; Some (True, Some m, take k cs @ drop (Suc k) cs) }
       else Some (True, None, cs[k := c]))"
  using assms(3) assms(1,2,4-)
  by (elim disjE) (simp_all add: receive_piece_def Let_def copy_fragment_to_context_def with_piece_def started_def[symmetric] not_less min_absorb2)

lemma receive_piece_partial:
  assumes "j < t" "j \<notin> R" "R \<subseteq> {0..<t}" "length (ch j) \<le> length rest" "take (length (ch j)) rest = ch j"
    and c: "c = partial_context ident t ch R now0 \<or> R = {} \<and> c = otrng_fragment_context_new\<lparr>ctx_identifier := ident\<rparr>"
  shows "receive_piece (cs @ [c]) (length cs) (Suc j) t rest (length (ch j)) now =
     Some (if insert j R = {0..<t} then (True, Some (concat (map ch [0..<t])), cs)
           else (True, None, cs @ [partial_context ident t ch (insert j R) now]))"
proof -
  have fin: "finite R" using assms(3) finite_subset by blast
  let ?fs = "\<lambda>R. map (\<lambda>j. if j \<in> R then Some (ch j) else None) [0..<t]"
  have upd: "(?fs R)[j := Some (ch j)] = ?fs (insert j R)"
    using assms(1) by (intro nth_equalityI) (auto simp: nth_list_update)
  have rep: "replicate t (None :: string option) = ?fs {}" by (intro nth_equalityI) auto
  let ?c = "partial_context ident t ch (insert j R) now"
  have ci: "card (insert j R) = Suc (card R)" using fin assms(2) by simp
  have sub: "insert j R \<subseteq> {0..<t}" using assms(1,3) by auto
  have full: "Suc (card R) = t \<longleftrightarrow> insert j R = {0..<t}"
    unfolding ci[symmetric] using card_subset_eq[OF finite_atLeastLessThan sub] by (metis card_atLeastLessThan diff_zero)
  have "join_fragments ?c = Some (concat (map ch [0..<t]))" if "insert j R = {0..<t}"
  proof -
    have "(\<Sum>f\<leftarrow>map ch [0..<t]. length f) = (\<Sum>j\<in>{0..<t}. length (ch j))"
      by (simp add: interv_sum_list_conv_sum_set_nat comp_def)
    moreover have "?fs {0..<t} = map Some (map ch [0..<t])" by simp
    ultimately show ?thesis
      unfolding join_fragments_def partial_context_def that
      by (simp add: join_loop_eq del: map_map)
  qed
  moreover have "\<exists>now'. started c t = partial_context ident t ch R now'" and guard: "ctx_total c = 0 \<or> ctx_total c = t"
    using c by (auto simp: started_def partial_context_def rep initialize_fragments_def
        otrng_fragment_context_new_def initialize_fragment_context_def)
  then obtain now' where c0: "started c t = partial_context ident t ch R now'" by blast
  moreover have "with_piece (started c t) (?fs R) (Suc j) (ch j) now = ?c" "?fs R ! j = None"
    using assms(1,2) fin by (simp_all add: c0 with_piece_def partial_context_def upd)
  moreover have "ctx_count ?c = Suc (card R)" "ctx_fragments (started c t) = Some (?fs R)"
    by (simp_all add: partial_context_def ci c0)
  ultimately show ?thesis
    using receive_piece_eq[of "Suc j" t "cs @ [c]" "length cs" "?fs R" "length (ch j)" rest now] guard assms(1,4,5) full
    by (cases "insert j R = {0..<t}") simp_all
qed

lemma unfragment_piece:
  assumes "t \<le> 65535" "j < t" "j \<notin> R" "R \<subseteq> {0..<t}" "ch j \<noteq> []" "CHR '','' \<notin> set (ch j)"
    and tag: "tag = their \<or> their = 0" and free: "find_context ident cs = None"
    and st: "st = (if R = {} then cs else cs @ [partial_context ident t ch R now0])"
  shows "otrng_unfragment_message st (fragment_text ident our their (of_nat (Suc j)) (of_nat t) (ch j)) tag now =
     Some (if insert j R = {0..<t} then (True, Some (concat (map ch [0..<t])), cs)
           else (True, None, cs @ [partial_context ident t ch (insert j R) now]))"
proof -
  let ?m = "fragment_text ident our their (of_nat (Suc j)) (of_nat t) (ch j)"
  have u: "unat (of_nat (Suc j) :: u16) = Suc j" "unat (of_nat t :: u16) = t"
    using assms(1,2) by (simp_all add: unsigned_of_nat take_bit_nat_eq_self del: of_nat_Suc of_nat_add)
  have rest: "length (ch j) \<le> length (drop 44 ?m)" "take (length (ch j)) (drop 44 ?m) = ch j"
    by (simp_all add: drop_fragment_text)
  let ?c = "if R = {} then otrng_fragment_context_new\<lparr>ctx_identifier := ident\<rparr> else partial_context ident t ch R now0"
  have c: "?c = partial_context ident t ch R now0 \<or> R = {} \<and> ?c = otrng_fragment_context_new\<lparr>ctx_identifier := ident\<rparr>" by simp
  have look: "(case find_context ident st of Some k \<Rightarrow> (k, st)
      | None \<Rightarrow> (length st, st @ [otrng_fragment_context_new\<lparr>ctx_identifier := ident\<rparr>])) = (length cs, cs @ [?c])"
    using free by (simp add: st find_context_append partial_context_def)
  have "is_fragment_generic ?m ''?OTR|''"
    by (simp add: is_fragment_generic_def is_prefix_def fragment_text_def)
  then show ?thesis
    unfolding otrng_unfragment_message_def otrng_unfragment_message_generic_def sscanf_fragment_text[OF assms(5,6)]
    using tag receive_piece_partial[OF assms(2-4) rest c, of cs now]
    by (elim disjE) (simp_all add: Let_def scanned_def u look del: of_nat_Suc of_nat_add split del: if_split)
qed

primrec unfragment_all ::
    "u32 \<Rightarrow> fragment_context_s list \<Rightarrow> (string \<times> int) list \<Rightarrow> (string option list \<times> fragment_context_s list) option" where
  "unfragment_all tag cs [] = Some ([], cs)"
| "unfragment_all tag cs (a # as) =
     (case otrng_unfragment_message cs (fst a) tag (snd a) of
        Some (True, out, cs) \<Rightarrow> map_option (apfst ((#) out)) (unfragment_all tag cs as)
      | _ \<Rightarrow> None)"

lemma unfragment_all_pieces:
  assumes "t \<le> 65535" "\<forall>j<t. ch j \<noteq> [] \<and> CHR '','' \<notin> set (ch j)"
    and "tag = their \<or> their = 0" "find_context ident cs = None"
    and "distinct js" "set js \<inter> R = {}" "set js \<union> R = {0..<t}" "js \<noteq> []"
    and "map fst as = map (\<lambda>j. fragment_text ident our their (of_nat (Suc j)) (of_nat t) (ch j)) js"
  shows "unfragment_all tag (if R = {} then cs else cs @ [partial_context ident t ch R now0]) as =
     Some (replicate (length js - 1) None @ [Some (concat (map ch [0..<t]))], cs)"
  using assms(5-)
proof (induction js arbitrary: R as now0)
  case (Cons j js)
  from Cons.prems(5) obtain a as' where as: "as = a # as'"
    "fst a = fragment_text ident our their (of_nat (Suc j)) (of_nat t) (ch j)"
    "map fst as' = map (\<lambda>j. fragment_text ident our their (of_nat (Suc j)) (of_nat t) (ch j)) js" by auto
  have j: "j < t" "j \<notin> R" "R \<subseteq> {0..<t}" using Cons.prems(2,3) by auto
  have full: "insert j R = {0..<t} \<longleftrightarrow> js = []" using Cons.prems(1-3) by (cases js) auto
  have 1: "otrng_unfragment_message (if R = {} then cs else cs @ [partial_context ident t ch R now0]) (fst a) tag (snd a) =
     Some (if js = [] then (True, Some (concat (map ch [0..<t])), cs)
           else (True, None, cs @ [partial_context ident t ch (insert j R) (snd a)]))"
    unfolding as(2) full[symmetric]
    using assms(2) j by (intro unfragment_piece[OF assms(1) j _ _ assms(3,4) refl]) auto
  show ?case
  proof (cases "js = []")
    case False
    have "unfragment_all tag (cs @ [partial_context ident t ch (insert j R) (snd a)]) as' =
        Some (replicate (length js - 1) None @ [Some (concat (map ch [0..<t]))], cs)"
      using Cons.IH[of "insert j R" as' "snd a"] Cons.prems False as(3) by auto
    with False show ?thesis by (cases js) (simp_all add: as(1) 1 split del: if_split)
  qed (use as 1 in \<open>simp split del: if_split\<close>)
qed simp

lemma mset_map_ex:
  "mset xs = mset (map f ys) \<Longrightarrow> \<exists>zs. xs = map f zs \<and> mset zs = mset ys"
proof (induction xs arbitrary: ys)
  case (Cons x xs)
  then have "x \<in> set (map f ys)" by (metis list.set_intros(1) set_mset_mset)
  then obtain y where y: "y \<in> set ys" "x = f y" by auto
  have "add_mset (f y) (mset xs) = image_mset f (mset ys)" using Cons.prems y by simp
  then have "mset xs = image_mset f (mset ys) - {#f y#}" by (metis add_mset_remove_trivial)
  also have "\<dots> = mset (map f (remove1 y ys))" using y(1) by (simp add: image_mset_Diff)
  finally have "mset xs = mset (map f (remove1 y ys))" .
  from Cons.IH[OF this] obtain zs where "xs = map f zs" "mset zs = mset (remove1 y ys)" by blast
  with y show ?case by (intro exI[of _ "y # zs"]) simp
qed simp

text \<open>C7: whatever the order in which the pieces of a message arrive, and whatever other messages
  are being put together meanwhile, every piece but the last is accepted silently, the last one
  gives the message that was cut, and the contexts are as they were before the first piece.\<close>

theorem unfragment_any_order:
  assumes "45 < max_size" "max_size < 2 ^ 31" "0 < length msg" "length msg < 2 ^ 31" "CHR '','' \<notin> set msg"
    and frag: "otrng_fragment_message max_size (Some ident) our their msg = Some (Some pieces)"
    and "tag = their \<or> their = 0" "find_context ident contexts = None"
    and arr: "mset (map fst arrivals) = mset pieces"
  shows "unfragment_all tag contexts arrivals = Some (replicate (length pieces - 1) None @ [Some msg], contexts)"
proof -
  define limit where "limit = nat (max_size - 45)"
  define t where "t = (length msg - 1) div limit + 1"
  let ?p = "\<lambda>j. fragment_text ident our their (of_nat (Suc j)) (of_nat t) (chunk limit msg j)"
  from frag have t: "t \<le> 65535" and pieces: "pieces = map ?p [0..<t]"
    unfolding fragment_message_eq[OF assms(1-4)] limit_def[symmetric] t_def[symmetric] by (simp_all split: if_splits)
  have l: "0 < limit" using assms(1) by (simp add: limit_def)
  from mset_map_ex[OF arr[unfolded pieces]] obtain js where js: "map fst arrivals = map ?p js" "mset js = mset [0..<t]"
    by blast
  have d: "distinct js" "set js = {0..<t}" using js(2) mset_eq_imp_distinct_iff[OF js(2)] mset_eq_setD[OF js(2)] by simp_all
  have len: "j * limit < length msg" if "j < t" for j
  proof -
    have "j \<le> (length msg - 1) div limit" using that by (simp add: t_def)
    then have "j * limit \<le> length msg - 1" by (meson div_times_less_eq_dividend le_trans mult_le_mono1)
    then show ?thesis using assms(3) by linarith
  qed
  have ch: "\<forall>j<t. chunk limit msg j \<noteq> [] \<and> CHR '','' \<notin> set (chunk limit msg j)"
  proof (intro allI impI conjI)
    fix j assume "j < t"
    show "chunk limit msg j \<noteq> []" using len[OF \<open>j < t\<close>] l by (simp add: chunk_def)
    show "CHR '','' \<notin> set (chunk limit msg j)"
      using assms(5) by (metis chunk_def in_set_takeD in_set_dropD)
  qed
  have "length msg \<le> t * limit"
    unfolding t_def using l assms(3) dividend_less_times_div[OF l, of "length msg - 1"] by (simp add: mult.commute)
  then have "concat (map (chunk limit msg) [0..<t]) = msg" by (simp add: concat_chunks)
  moreover have "js \<noteq> []" using d(2) t_def by auto
  moreover have "length js = length pieces" using mset_eq_length[OF js(2)] pieces by simp
  ultimately show ?thesis
    using unfragment_all_pieces[OF t ch assms(7,8) d(1) _ _ _ js(1), of "{}"] d(2) by simp
qed

theorem unfragment_any_order_witness:
  "unfragment_all 2 [] (map (\<lambda>p. (p, 0)) (rev (the (the (otrng_fragment_message 48 (Some 5) 1 2 ''hello ab''))))) =
     Some ([None, None, Some ''hello ab''], [])"
proof -
  have "\<exists>ps. otrng_fragment_message 48 (Some 5) 1 2 ''hello ab'' = Some (Some ps) \<and> length ps = 3"
    by (subst fragment_message_eq) simp_all
  then obtain ps where f: "otrng_fragment_message 48 (Some 5) 1 2 ''hello ab'' = Some (Some ps)" and l: "length ps = 3" by blast
  have "replicate (length ps - 1) None @ [Some ''hello ab''] = [None, None, Some ''hello ab'']"
    using l by (simp add: numeral_2_eq_2)
  with unfragment_any_order[OF _ _ _ _ _ f, of 2 "[]" "map (\<lambda>p. (p, 0)) (rev ps)"] show ?thesis
    unfolding f option.sel by (simp add: comp_def)
qed

text \<open>C16: every piece fits the transport: with its header it is no longer than the limit the caller
  gave.  Cutting fails exactly when more than 65535 pieces would be needed.\<close>

theorem fragment_message_fits:
  assumes "45 < max_size" "max_size < 2 ^ 31" "0 < length msg" "length msg < 2 ^ 31"
  shows "\<exists>r. otrng_fragment_message max_size (Some ident) our their msg = Some r \<and>
     (r = None \<longleftrightarrow> int (length msg) > 65535 * (max_size - 45)) \<and>
     list_all (\<lambda>p. int (length p) \<le> max_size) (case r of None \<Rightarrow> [] | Some ps \<Rightarrow> ps)"
proof -
  define limit where "limit = nat (max_size - 45)"
  have l: "0 < limit" "int limit = max_size - 45" using assms(1) by (simp_all add: limit_def)
  have "(length msg - 1) div limit + 1 \<le> 65535 \<longleftrightarrow> length msg - 1 < 65535 * limit"
    using div_less_iff_less_mult[OF l(1), of "length msg - 1" 65535] by linarith
  also have "\<dots> \<longleftrightarrow> \<not> int (length msg) > 65535 * (max_size - 45)"
    unfolding l(2)[symmetric] using assms(3) by linarith
  finally have e: "(length msg - 1) div limit + 1 \<le> 65535 \<longleftrightarrow> \<not> int (length msg) > 65535 * (max_size - 45)" .
  have "int (length (fragment_text ident our their i t (chunk limit msg j))) \<le> max_size" for i t j
    using l by (simp add: length_fragment_text FRAGMENT_HEADER_LEN_def chunk_def)
  then show ?thesis
    unfolding fragment_message_eq[OF assms] limit_def[symmetric] using e by (auto simp: list_all_iff)
qed

theorem fragment_message_fits_witness:
  "\<exists>r. otrng_fragment_message 50 (Some 7) 1 2 ''hello'' = Some r \<and>
     (r = None \<longleftrightarrow> int (length ''hello'') > 65535 * (50 - 45)) \<and>
     list_all (\<lambda>p. int (length p) \<le> 50) (case r of None \<Rightarrow> [] | Some ps \<Rightarrow> ps)"
  by (rule fragment_message_fits) simp_all

subsection \<open>No input makes the reassembly fault\<close>

definition present :: "string option list \<Rightarrow> nat" where
  "present fs = length (filter (\<lambda>f. f \<noteq> None) fs)"

definition stored_len :: "string option list \<Rightarrow> nat" where
  "stored_len fs = (\<Sum>f\<leftarrow>fs. case f of None \<Rightarrow> 0 | Some f \<Rightarrow> length f)"

text \<open>A context counts its pieces and their bytes, and is never left complete.\<close>

definition context_ok :: "fragment_context_s \<Rightarrow> bool" where
  "context_ok c \<longleftrightarrow> (case ctx_fragments c of
       None \<Rightarrow> ctx_total c = 0 \<and> ctx_count c = 0 \<and> ctx_total_message_len c = 0
     | Some fs \<Rightarrow> length fs = ctx_total c \<and> ctx_count c = present fs \<and> ctx_count c < ctx_total c \<and>
         ctx_total_message_len c = stored_len fs)"

lemma present_update:
  "i < length fs \<Longrightarrow> fs ! i = None \<Longrightarrow> present (fs[i := Some x]) = Suc (present fs)"
  by (induction fs arbitrary: i) (auto simp: present_def nth_Cons split: nat.splits)

lemma stored_len_update:
  "i < length fs \<Longrightarrow> fs ! i = None \<Longrightarrow> stored_len (fs[i := Some x]) = stored_len fs + length x"
  by (induction fs arbitrary: i) (auto simp: stored_len_def nth_Cons split: nat.splits)

lemma present_le: "present fs \<le> length fs"
  by (simp add: present_def)

lemma present_simps [simp]:
  "present [] = 0" "present (None # fs) = present fs" "present (Some x # fs) = Suc (present fs)"
  "stored_len [] = 0" "stored_len (None # fs) = stored_len fs" "stored_len (Some x # fs) = length x + stored_len fs"
  "present (replicate n None) = 0" "stored_len (replicate n None) = 0"
  by (simp_all add: present_def stored_len_def map_replicate_const sum_list_replicate)

lemma join_loop_total:
  "present fs = length fs \<Longrightarrow> stored_len fs < room \<Longrightarrow> \<exists>m. join_loop fs room = Some m"
proof (induction fs arbitrary: room)
  case (Cons f fs)
  then obtain x where f: "f = Some x" "present fs = length fs"
    using present_le[of fs] by (cases f) auto
  with Cons.IH[of "room - length x"] Cons.prems(2) show ?case by auto
qed simp

lemma started_ok:
  assumes "context_ok c" "ctx_total c = 0 \<or> ctx_total c = t" "0 < t"
  obtains fs where "ctx_fragments (started c t) = Some fs" "length fs = t" "ctx_count (started c t) = present fs" "present fs < t"
    "ctx_total_message_len (started c t) = stored_len fs" "ctx_total (started c t) = t" "context_ok (started c t)"
  using assms by (auto simp: started_def context_ok_def initialize_fragments_def split: option.splits)

lemma list_all_update: "list_all P xs \<Longrightarrow> P x \<Longrightarrow> list_all P (xs[k := x])"
  by (auto simp: list_all_iff dest: set_update_subset_insert[THEN subsetD])

lemma receive_piece_ok:
  assumes "list_all context_ok cs" "k < length cs" "len \<le> length rest"
  shows "\<exists>ok out cs'. receive_piece cs k i t rest len now = Some (ok, out, cs') \<and> list_all context_ok cs'"
proof -
  define c where "c = cs ! k"
  have c: "context_ok c" using assms(1,2) by (simp add: c_def list_all_length)
  consider "i = 0 \<or> t = 0 \<or> i > t" | "0 < i" "i \<le> t" "ctx_total c \<noteq> 0" "ctx_total c \<noteq> t"
    | "0 < i" "i \<le> t" "ctx_total c = 0 \<or> ctx_total c = t" by linarith
  then show ?thesis
  proof cases
    case 1
    have "context_ok (reset_fragment_context c)"
      by (simp add: context_ok_def reset_fragment_context_def initialize_fragment_context_def)
    with 1 assms(1) show ?thesis by (auto simp: receive_piece_def Let_def c_def list_all_update)
  next
    case 2
    with assms(1) show ?thesis by (auto simp: receive_piece_def Let_def c_def)
  next
    case 3
    then obtain fs where fs: "ctx_fragments (started c t) = Some fs" "length fs = t" "ctx_count (started c t) = present fs"
        "present fs < t" "ctx_total_message_len (started c t) = stored_len fs" "ctx_total (started c t) = t" "context_ok (started c t)"
      using started_ok[OF c, of t] by auto
    note eq = receive_piece_eq[OF 3(1,2) 3(3)[unfolded c_def] fs(1,2)[unfolded c_def] assms(3), of now, folded c_def]
    show ?thesis
    proof (cases "fs ! (i - 1) = None")
      case True
      have ii: "i - 1 < length fs" using 3 fs(2) by auto
      define c1 where "c1 = with_piece (started c t) fs i (take len rest) now"
      have new: "present (fs[i - 1 := Some (take len rest)]) = Suc (present fs)"
        "stored_len (fs[i - 1 := Some (take len rest)]) = stored_len fs + length (take len rest)"
        by (rule present_update[OF ii True] stored_len_update[OF ii True])+
      have c1: "ctx_count c1 = Suc (present fs)" "ctx_fragments c1 = Some (fs[i - 1 := Some (take len rest)])"
        "ctx_total c1 = t" "ctx_total_message_len c1 = stored_len fs + length (take len rest)"
        using fs by (simp_all add: c1_def with_piece_def)
      have "\<exists>m. join_fragments c1 = Some m" if "Suc (present fs) = t"
        using join_loop_total[of "fs[i - 1 := Some (take len rest)]" "stored_len fs + length (take len rest) + 1"] new that fs(2) c1
        by (simp add: join_fragments_def)
      moreover have "context_ok c1" if "Suc (present fs) \<noteq> t"
        using new that fs c1 by (simp add: context_ok_def)
      moreover have "list_all context_ok (take k cs @ drop (Suc k) cs)"
        using assms(1) by (auto simp: list_all_iff dest: in_set_takeD in_set_dropD)
      ultimately show ?thesis
        unfolding eq c1_def[symmetric] using True c1(1) assms(1)
        by (cases "Suc (present fs) = t") (auto simp: list_all_update)
    qed (use eq fs(7) assms(1) in \<open>auto simp: list_all_update\<close>)
  qed
qed

text \<open>The values \<open>%n\<close> stores are positions in the input.\<close>

primrec stored_by :: "directive \<Rightarrow> bool option" where
  "stored_by (Lit c) = None"
| "stored_by (Scan_x w) = Some False"
| "stored_by (Scan_hu w) = Some False"
| "stored_by Scan_n = Some True"
| "stored_by (Skip_not c) = None"

lemma scan_sign_bound: "snd (scan_sign t) \<le> length t"
  by (auto simp: scan_sign_def split: list.splits)

lemma scan_prefix_bound: "scan_prefix b t \<le> length t"
  by (auto simp: scan_prefix_def split: list.splits)

lemma scan_int_bound:
  assumes "scan_int b w s = Some (v, n)"
  shows "n \<le> length s"
proof -
  obtain sg k where sg: "scan_sign (take w s) = (sg, k)" by fastforce
  define t where "t = drop k (take w s)"
  define ds where "ds = takeWhile (is_digit b) (drop (scan_prefix b t) t)"
  have "k \<le> length (take w s)" using scan_sign_bound[of "take w s"] sg by simp
  moreover have "scan_prefix b t \<le> length t" by (rule scan_prefix_bound)
  moreover have "length ds \<le> length (drop (scan_prefix b t) t)" unfolding ds_def by (rule length_takeWhile_le)
  moreover have "n = k + scan_prefix b t + length ds"
    using assms by (simp add: scan_int_def Let_def sg t_def[symmetric] ds_def[symmetric] split: if_splits)
  moreover have "length t = length (take w s) - k" by (simp add: t_def)
  moreover have "length (take w s) \<le> length s" by simp
  ultimately show ?thesis unfolding length_drop by linarith
qed

lemma sscanf_positions:
  "sscanf ds pos conv s = Some vs \<Longrightarrow> i < length vs \<Longrightarrow> List.map_filter stored_by ds ! i \<Longrightarrow>
   0 \<le> vs ! i \<and> vs ! i \<le> int (pos + length s)"
proof (induction ds pos conv s arbitrary: vs i rule: sscanf.induct)
  case (2 c ds pos conv s)
  then show ?case by (cases s) (fastforce simp: map_filter_simps split: if_splits)+
next
  case (3 w ds pos conv s)
  show ?case
    using 3 by (auto simp: Let_def map_filter_simps nth_Cons split: if_splits option.splits nat.splits dest!: scan_int_bound)
next
  case (4 w ds pos conv s)
  show ?case
    using 4 by (auto simp: Let_def map_filter_simps nth_Cons split: if_splits option.splits nat.splits dest!: scan_int_bound)
next
  case (6 c ds pos conv s)
  have "length (takeWhile (\<lambda>x. x \<noteq> c) s) \<le> length s" by (rule length_takeWhile_le)
  then show ?case using 6 by (auto simp: Let_def map_filter_simps split: if_splits)
qed (auto simp: map_filter_simps nth_Cons split: list.splits if_splits nat.splits)

lemma unfragment_generic_ok:
  assumes "list_all context_ok cs" "format = map Lit lits @ UNFRAGMENT_FORMAT_TAIL"
  shows "\<exists>ok out cs'. otrng_unfragment_message_generic cs msg tag prefix format now = Some (ok, out, cs') \<and> list_all context_ok cs'"
proof (cases "is_fragment_generic msg prefix \<and> (\<exists>vs. sscanf format 0 False msg = Some vs \<and> scanned vs 5 < scanned vs 6)")
  case True
  then obtain vs where vs: "sscanf format 0 False msg = Some vs" "scanned vs 5 < scanned vs 6" by blast
  have "List.map_filter stored_by (map Lit lits @ ds) = List.map_filter stored_by ds" for ds
    by (induction lits) (simp_all add: map_filter_simps)
  then have f: "List.map_filter stored_by format = [False, False, False, False, False, True, True]"
    by (simp add: assms(2) UNFRAGMENT_FORMAT_TAIL_def map_filter_simps)
  have p: "0 \<le> scanned vs 5" "scanned vs 6 \<le> int (length msg)"
    using sscanf_positions[OF vs(1), of 5] sscanf_positions[OF vs(1), of 6] f by (auto simp: scanned_def)
  have ok: "context_ok (otrng_fragment_context_new\<lparr>ctx_identifier := x\<rparr>)" for x
    by (simp add: context_ok_def otrng_fragment_context_new_def initialize_fragment_context_def)
  have k: "find_context x cs = Some k \<Longrightarrow> k < length cs" for x k
    by (induction cs arbitrary: k) (auto split: if_splits)
  let ?len = "nat (scanned vs 6 - scanned vs 5 - 1)" and ?rest = "drop (nat (scanned vs 5)) msg"
  have len: "?len \<le> length ?rest" using p vs(2) by auto
  show ?thesis
    using True vs assms(1) ok k receive_piece_ok[OF _ _ len]
    by (auto simp: otrng_unfragment_message_generic_def Let_def split: option.splits)
next
  case False
  then show ?thesis
    using assms(1) by (auto simp: otrng_unfragment_message_generic_def Let_def split: option.splits)
qed

inductive fragment_step :: "fragment_context_s list \<Rightarrow> fragment_context_s list \<Rightarrow> bool" where
  message: "otrng_unfragment_message cs msg tag now = Some (ok, out, cs') \<Longrightarrow> fragment_step cs cs'"
| prekey: "otrng_fragment_message_receive cs msg tag now = Some (ok, out, cs') \<Longrightarrow> fragment_step cs cs'"

lemmas unfragment_ok =
  unfragment_generic_ok[OF _ UNFRAGMENT_FORMAT_def, where prefix = "''?OTR|''", folded otrng_unfragment_message_def]
  unfragment_generic_ok[OF _ PREKEY_UNFRAGMENT_FORMAT_def, where prefix = "''?OTRP|''", folded otrng_fragment_message_receive_def]

interpretation fragment_machine: invariant_machine "\<lambda>cs. cs = []" fragment_step "list_all context_ok"
proof
  fix s s' :: "fragment_context_s list"
  assume "fragment_step s s'" "list_all context_ok s"
  then show "list_all context_ok s'"
  proof (cases rule: fragment_step.cases)
    case (message msg tag now ok out)
    with unfragment_ok(1)[OF \<open>list_all context_ok s\<close>, of msg tag now] show ?thesis by simp
  next
    case (prekey msg tag now ok out)
    with unfragment_ok(2)[OF \<open>list_all context_ok s\<close>, of msg tag now] show ?thesis by simp
  qed
qed simp

text \<open>C13: no sequence of incoming messages, well formed or not, makes the reassembly read outside
  a message, write outside the array of pieces or overrun the buffer of the joined message; in
  every reachable state each context counts its pieces and their bytes and is incomplete.\<close>

theorem unfragment_safe:
  assumes "fragment_step\<^sup>*\<^sup>* [] contexts"
  shows "\<exists>ok out contexts'. otrng_unfragment_message contexts msg tag now = Some (ok, out, contexts') \<and>
     list_all context_ok contexts \<and> list_all context_ok contexts'"
  using fragment_machine.reachable_inv[OF refl assms] unfragment_ok(1) by blast

theorem unfragment_safe_witness:
  "\<exists>ok out contexts'. otrng_unfragment_message [] ''?OTR|1|2|3,4,5,x,'' 3 0 = Some (ok, out, contexts') \<and>
     list_all context_ok [] \<and> list_all context_ok contexts'"
  by (rule unfragment_safe) simp

subsection \<open>What expires\<close>

definition young :: "int \<Rightarrow> nat \<Rightarrow> fragment_context_s option \<Rightarrow> bool" where
  "young now expiration_time d = (case d of None \<Rightarrow> False
     | Some ctx \<Rightarrow> now - ctx_last_fragment_received_at ctx < int expiration_time)"

definition remove_first :: "('a \<Rightarrow> bool) \<Rightarrow> 'a list \<Rightarrow> 'a list" where
  "remove_first P xs = takeWhile (\<lambda>x. \<not> P x) xs @ drop 1 (dropWhile (\<lambda>x. \<not> P x) xs)"

lemma expire_loop_eq:
  assumes "is_list h p (xs @ as)" "lseg h p xs q"
  shows "\<exists>p' h' bs. expire_loop now e p h q = Some (p', h') \<and> is_list h' p' (xs @ bs) \<and>
     contents h' (xs @ bs) = contents h xs @ remove_first (young now e) (contents h as)"
  using assms
proof (induction as arbitrary: xs q)
  case Nil
  then have "q = None" using lseg_end by (fastforce simp: is_list_def)
  then show ?case
    using Nil by (subst expire_loop.simps) (auto simp: remove_first_def contents_def intro: exI[of _ "[]"])
next
  case (Cons a as)
  then obtain n where n: "q = Some a" "cells h a = Some n" "lseg h p (xs @ [a]) (el_next n)"
    using lseg_end by (fastforce simp: is_list_def lseg_append)
  have d: "contents h (a # as) = el_data n # contents h as" using n by (simp add: contents_def)
  show ?case
  proof (cases "young now e (el_data n)")
    case True
    obtain p' h1 h' fr where r: "otrng_list_remove_element (Some a) h p = Some (p', h1)"
      "otrng_list_free False h1 (Some a) = Some (h', fr)" "map_option el_next (cells h1 a) = Some None"
      "is_list h' p' (xs @ as)" "contents h' (xs @ as) = contents h (xs @ as)"
      by (rule list_unlink_free[OF Cons.prems(1), of False])
    then have "expire_loop now e p h q = Some (p', h')"
      using True n
      by (subst expire_loop.simps) (auto simp: young_def otrng_list_free_nodes_def expire_loop.simps[of _ _ _ _ None])
    with r True show ?thesis by (auto simp: d remove_first_def)
  next
    case False
    with n have "expire_loop now e p h q = expire_loop now e p h (el_next n)"
      by (subst expire_loop.simps) (simp add: young_def)
    moreover from Cons.IH[of "xs @ [a]" "el_next n"] Cons.prems(1) n(3)
    obtain p' h' bs where "expire_loop now e p h (el_next n) = Some (p', h')" "is_list h' p' (xs @ a # bs)"
      "contents h' (xs @ a # bs) = contents h (xs @ [a]) @ remove_first (young now e) (contents h as)" by auto
    moreover have "contents h [a] = [el_data n]" using n by (simp add: contents_def)
    ultimately show ?thesis using False by (intro exI[of _ p'] exI[of _ h'] exI[of _ "a # bs"]) (simp add: d remove_first_def)
  qed
qed

text \<open>C32: expiry removes the first context whose last piece is \<^emph>\<open>younger\<close> than the expiration time and
  stops there: the test is the wrong way round, and the successor is read from the node that was
  just unlinked.  Contexts that are old enough to expire are all kept.\<close>

theorem expire_fragments_removes_young:
  assumes "is_list h p as"
  shows "\<exists>p' h' bs. otrng_expire_fragments now expiration_time h p = Some (p', h') \<and> is_list h' p' bs \<and>
     contents h' bs = remove_first (young now expiration_time) (contents h as)"
  using expire_loop_eq[of h p "[]" as p now expiration_time] assms
  by (simp add: otrng_expire_fragments_def contents_def)

definition two_contexts :: "fragment_context_s heap" where
  "two_contexts = \<lparr>cells = (\<lambda>_. None)(
      1 \<mapsto> \<lparr>el_data = Some (otrng_fragment_context_new\<lparr>ctx_last_fragment_received_at := 5\<rparr>), el_next = Some 2\<rparr>,
      2 \<mapsto> \<lparr>el_data = Some (otrng_fragment_context_new\<lparr>ctx_last_fragment_received_at := 95\<rparr>), el_next = None\<rparr>), brk = 3\<rparr>"

theorem expire_fragments_removes_young_witness:
  "\<exists>p' h' bs. otrng_expire_fragments 100 60 two_contexts (Some 1) = Some (p', h') \<and> is_list h' p' bs \<and>
     contents h' bs = [Some (otrng_fragment_context_new\<lparr>ctx_last_fragment_received_at := 5\<rparr>)]"
  using expire_fragments_removes_young[of two_contexts "Some 1" "[1, 2]" 100 60]
  by (simp add: is_list_def heap_ok_def two_contexts_def contents_def remove_first_def young_def)

end
