(* ===== verification/Key_Management.thy ===== *)
theory Key_Management
  imports Fragment Crypto_Instance
begin

text \<open>
  \<open>key_management.c\<close>: the double ratchet.  A result is a pair of the return value (\<open>True\<close> for
  \<open>OTRNG_SUCCESS\<close>) and the state the call leaves behind, also when it fails.  The lists of skipped
  message keys and of old MAC keys live on heaps of their own, because the temporary receiving
  ratchet shares the first of them with the key manager; a list operation that faults makes the
  whole result \<open>None\<close>.  In sending mode the temporary ratchet is \<open>NULL\<close> in the code and never
  read; the model passes it through.  Random bytes are an argument, numbered in the order of the
  draws, and so are the values a wiped scalar and a wiped point have.
\<close>

definition BRACE_KEY_BYTES :: nat where [const_defs]: "BRACE_KEY_BYTES = 32"
definition DATA_MSG_MAC_BYTES :: nat where [const_defs]: "DATA_MSG_MAC_BYTES = 64"
definition ENC_KEY_BYTES :: nat where [const_defs]: "ENC_KEY_BYTES = 64"
definition SHARED_SECRET_BYTES :: nat where [const_defs]: "SHARED_SECRET_BYTES = 64"
definition CHAIN_KEY_BYTES :: nat where [const_defs]: "CHAIN_KEY_BYTES = 64"
definition ROOT_KEY_BYTES :: nat where [const_defs]: "ROOT_KEY_BYTES = 64"
definition EXTRA_SYMMETRIC_KEY_BYTES :: nat where [const_defs]: "EXTRA_SYMMETRIC_KEY_BYTES = 64"

definition usage_shared_secret :: byte where [const_defs]: "usage_shared_secret = 0x03"
definition usage_next_chain_key :: byte where [const_defs]: "usage_next_chain_key = 0x16"
definition usage_message_key :: byte where [const_defs]: "usage_message_key = 0x17"
definition usage_mac_key :: byte where [const_defs]: "usage_mac_key = 0x18"
definition usage_extra_symm_key :: byte where [const_defs]: "usage_extra_symm_key = 0x19"

subsection \<open>State\<close>

record ratchet_s =
  root_key :: bytes
  chain_s :: bytes
  chain_r :: bytes

record 'p skipped_keys_s =
  sk_their_ecdh :: 'p
  sk_k :: u32
  sk_extra_symmetric_key :: bytes
  sk_enc_key :: bytes

record ('p, 's, 'm) receiving_ratchet_s =
  rr_our_ecdh_priv :: 's
  rr_our_dh_priv :: "'m option"
  rr_their_ecdh :: 'p
  rr_their_dh :: "'m option"
  rr_brace_key :: bytes
  rr_shared_secret :: bytes
  rr_i :: u32
  rr_k :: u32
  rr_j :: u32
  rr_pn :: u32
  rr_root_key :: bytes
  rr_chain_r :: bytes
  rr_extra_symmetric_key :: bytes
  rr_skipped_keys :: "nat option"

record ('p, 's, 'm) key_manager_s =
  our_ecdh :: "('p, 's) ecdh_keypair_s"
  our_dh :: "'m dh_keypair_s"
  our_ecdh_first :: "('p, 's) ecdh_keypair_s"
  our_dh_first :: "'m dh_keypair_s"
  their_ecdh :: 'p
  their_dh :: "'m option"
  their_first_ecdh :: 'p
  their_first_dh :: "'m option"
  our_shared_prekey :: 'p
  their_shared_prekey :: 'p
  km_i :: u32
  km_j :: u32
  km_k :: u32
  km_pn :: u32
  current :: ratchet_s
  brace_key :: bytes
  shared_secret :: bytes
  ssid :: bytes
  ssid_half_first :: bool
  extra_symmetric_key :: bytes
  tmp_key :: bytes
  skipped_keys :: "nat option"
  old_mac_keys :: "nat option"
  last_generated :: int

datatype action = Send | Receive
datatype ratchet_type = Dh_ratchet | Chain_ratchet

definition zeros :: "nat \<Rightarrow> bytes" where
  "zeros n = replicate n 0"

definition or_error :: "'a option \<Rightarrow> 's \<Rightarrow> ('a \<Rightarrow> bool \<times> 's) \<Rightarrow> bool \<times> 's" where
  "or_error r s f = (case r of None \<Rightarrow> (False, s) | Some v \<Rightarrow> f v)"

definition and_then :: "bool \<times> 's \<Rightarrow> ('s \<Rightarrow> bool \<times> 's) \<Rightarrow> bool \<times> 's" where
  "and_then r f = (case r of (ok, s) \<Rightarrow> if ok then f s else (False, s))"

text \<open>\<open>hash_init_with_usage\<close>, two \<open>hash_update\<close>s and \<open>hash_final\<close>, as the functions below do.\<close>

definition hash_usage_two ::
    "('p, 's, 'm, 'h) crypto_ops \<Rightarrow> nat \<Rightarrow> byte \<Rightarrow> bytes \<Rightarrow> bytes \<Rightarrow> bytes option" where
  "hash_usage_two C dst_len usage a b = do {
     hd \<leftarrow> hash_init_with_usage C usage;
     hd \<leftarrow> hash_update C hd a;
     hd \<leftarrow> hash_update C hd b;
     Some (hash_final C hd dst_len) }"

subsection \<open>Creation\<close>

definition ratchet_new :: ratchet_s where
  "ratchet_new = \<lparr>root_key = zeros ROOT_KEY_BYTES, chain_s = zeros CHAIN_KEY_BYTES, chain_r = zeros CHAIN_KEY_BYTES\<rparr>"

definition ecdh_keypair_zero :: "('p, 's) wiped \<Rightarrow> ('p, 's) ecdh_keypair_s" where
  "ecdh_keypair_zero Z = \<lparr>ecdh_priv = zero_scalar Z, ecdh_pub = zero_point Z\<rparr>"

definition otrng_key_manager_init :: "('p, 's) wiped \<Rightarrow> ('p, 's, 'm) key_manager_s" where
  "otrng_key_manager_init Z = \<lparr>our_ecdh = ecdh_keypair_zero Z, our_dh = \<lparr>dh_pub = None, dh_priv = None\<rparr>,
     our_ecdh_first = ecdh_keypair_zero Z, our_dh_first = \<lparr>dh_pub = None, dh_priv = None\<rparr>,
     their_ecdh = zero_point Z, their_dh = None, their_first_ecdh = zero_point Z, their_first_dh = None,
     our_shared_prekey = zero_point Z, their_shared_prekey = zero_point Z,
     km_i = 0, km_j = 0, km_k = 0, km_pn = 0, current = ratchet_new,
     brace_key = zeros BRACE_KEY_BYTES, shared_secret = zeros SHARED_SECRET_BYTES,
     ssid = zeros SSID_BYTES, ssid_half_first = False,
     extra_symmetric_key = zeros EXTRA_SYMMETRIC_KEY_BYTES, tmp_key = zeros HASH_BYTES,
     skipped_keys = None, old_mac_keys = None, last_generated = 0\<rparr>"

definition otrng_key_manager_wipe_shared_prekeys ::
    "('p, 's) wiped \<Rightarrow> ('p, 's, 'm) key_manager_s \<Rightarrow> ('p, 's, 'm) key_manager_s" where
  "otrng_key_manager_wipe_shared_prekeys Z manager =
     manager\<lparr>their_shared_prekey := zero_point Z, our_shared_prekey := zero_point Z\<rparr>"

definition otrng_receiving_ratchet_new ::
    "('p, 's) wiped \<Rightarrow> ('p, 's, 'm) key_manager_s \<Rightarrow> ('p, 's, 'm) receiving_ratchet_s" where
  "otrng_receiving_ratchet_new Z manager =
     \<lparr>rr_our_ecdh_priv = ecdh_priv (our_ecdh manager), rr_our_dh_priv = None,
      rr_their_ecdh = zero_point Z, rr_their_dh = None,
      rr_brace_key = zeros BRACE_KEY_BYTES, rr_shared_secret = zeros SHARED_SECRET_BYTES,
      rr_i = km_i manager, rr_k = km_k manager, rr_j = km_j manager, rr_pn = km_pn manager,
      rr_root_key = root_key (current manager), rr_chain_r = chain_r (current manager),
      rr_extra_symmetric_key = extra_symmetric_key manager, rr_skipped_keys = skipped_keys manager\<rparr>"

definition otrng_key_manager_set_their_keys ::
    "'p \<Rightarrow> 'm option \<Rightarrow> ('p, 's, 'm) key_manager_s \<Rightarrow> ('p, 's, 'm) key_manager_s" where
  "otrng_key_manager_set_their_keys ecdh dh manager = manager\<lparr>their_ecdh := ecdh, their_dh := dh\<rparr>"

definition otrng_receiving_ratchet_copy ::
    "('p, 's, 'm) key_manager_s \<Rightarrow> ('p, 's, 'm) receiving_ratchet_s \<Rightarrow> ('p, 's, 'm) key_manager_s" where
  "otrng_receiving_ratchet_copy dst src =
     (let dst = dst\<lparr>our_ecdh := (our_ecdh dst)\<lparr>ecdh_priv := rr_our_ecdh_priv src\<rparr>\<rparr>;
          dst = otrng_key_manager_set_their_keys (rr_their_ecdh src) (rr_their_dh src) dst
      in dst\<lparr>brace_key := rr_brace_key src, shared_secret := rr_shared_secret src,
          km_i := rr_i src, km_j := rr_j src, km_k := rr_k src, km_pn := rr_pn src,
          current := (current dst)\<lparr>root_key := rr_root_key src, chain_r := rr_chain_r src\<rparr>,
          extra_symmetric_key := rr_extra_symmetric_key src, skipped_keys := rr_skipped_keys src\<rparr>)"

definition otrng_key_manager_set_their_tmp_keys ::
    "'p \<Rightarrow> 'm option \<Rightarrow> ('p, 's, 'm) receiving_ratchet_s \<Rightarrow> ('p, 's, 'm) receiving_ratchet_s" where
  "otrng_key_manager_set_their_tmp_keys ecdh dh tmp = tmp\<lparr>rr_their_ecdh := ecdh, rr_their_dh := dh\<rparr>"

definition otrng_key_manager_set_their_ecdh :: "'p \<Rightarrow> ('p, 's, 'm) key_manager_s \<Rightarrow> ('p, 's, 'm) key_manager_s" where
  "otrng_key_manager_set_their_ecdh ecdh manager = manager\<lparr>their_ecdh := ecdh\<rparr>"

definition otrng_key_manager_set_their_dh :: "'m option \<Rightarrow> ('p, 's, 'm) key_manager_s \<Rightarrow> ('p, 's, 'm) key_manager_s" where
  "otrng_key_manager_set_their_dh dh manager = manager\<lparr>their_dh := dh\<rparr>"

definition otrng_key_manager_set_their_first_ecdh ::
    "'p \<Rightarrow> ('p, 's, 'm) key_manager_s \<Rightarrow> ('p, 's, 'm) key_manager_s" where
  "otrng_key_manager_set_their_first_ecdh ecdh manager = manager\<lparr>their_first_ecdh := ecdh\<rparr>"

definition otrng_key_manager_set_their_first_dh ::
    "'m option \<Rightarrow> ('p, 's, 'm) key_manager_s \<Rightarrow> ('p, 's, 'm) key_manager_s" where
  "otrng_key_manager_set_their_first_dh dh manager = manager\<lparr>their_first_dh := dh\<rparr>"

subsection \<open>Ephemeral keys\<close>

definition otrng_key_manager_generate_ephemeral_keys ::
    "('p, 's, 'm, 'h) crypto_ops \<Rightarrow> ('p, 's) wiped \<Rightarrow> (nat \<Rightarrow> bytes) \<Rightarrow> int \<Rightarrow> ('p, 's, 'm) key_manager_s
     \<Rightarrow> bool \<times> ('p, 's, 'm) key_manager_s" where
  "otrng_key_manager_generate_ephemeral_keys C Z rnd now manager =
     (let manager = manager\<lparr>our_ecdh := ecdh_keypair_zero Z, our_ecdh_first := ecdh_keypair_zero Z\<rparr> in
      or_error (otrng_ecdh_keypair_generate C (rnd 0)) manager (\<lambda>kp.
      let manager = manager\<lparr>our_ecdh := kp\<rparr> in
      or_error (otrng_ecdh_keypair_generate C (rnd 1)) manager (\<lambda>kp.
      let manager = manager\<lparr>our_ecdh_first := kp, last_generated := now\<rparr> in
      if km_i manager mod 3 = 0 then
        let manager = manager\<lparr>our_dh := otrng_dh_keypair_destroy (our_dh manager),
                              our_dh_first := otrng_dh_keypair_destroy (our_dh_first manager)\<rparr> in
        or_error (otrng_dh_keypair_generate C (rnd 2)) manager (\<lambda>kp.
        let manager = manager\<lparr>our_dh := kp\<rparr> in
        or_error (otrng_dh_keypair_generate C (rnd 3)) manager (\<lambda>kp. (True, manager\<lparr>our_dh_first := kp\<rparr>)))
      else (True, manager))))"

subsection \<open>Derived values\<close>

definition otrng_key_manager_calculate_tmp_key ::
    "('p, 's, 'm, 'h) crypto_ops \<Rightarrow> bytes \<Rightarrow> bytes \<Rightarrow> bytes \<Rightarrow> bytes \<Rightarrow> bytes option" where
  "otrng_key_manager_calculate_tmp_key C ecdh_key brace tmp_ecdh_k1 tmp_ecdh_k2 = do {
     hd \<leftarrow> hash_init_with_usage C 0x0C;
     hd \<leftarrow> hash_update C hd ecdh_key;
     hd \<leftarrow> hash_update C hd tmp_ecdh_k1;
     hd \<leftarrow> hash_update C hd tmp_ecdh_k2;
     hd \<leftarrow> hash_update C hd brace;
     Some (hash_final C hd HASH_BYTES) }"

definition otrng_key_manager_calculate_auth_mac ::
    "('p, 's, 'm, 'h) crypto_ops \<Rightarrow> bytes \<Rightarrow> bytes \<Rightarrow> bytes option" where
  "otrng_key_manager_calculate_auth_mac C auth_mac_key t =
     hash_usage_two C HASH_BYTES 0x11 (take HASH_BYTES auth_mac_key) t"

definition otrng_key_manager_calculate_authenticator ::
    "('p, 's, 'm, 'h) crypto_ops \<Rightarrow> bytes \<Rightarrow> bytes \<Rightarrow> bytes option" where
  "otrng_key_manager_calculate_authenticator C mac_key sections =
     hash_usage_two C DATA_MSG_MAC_BYTES 0x1A (take MAC_KEY_BYTES mac_key) sections"

definition generate_first_ephemeral_keys ::
    "('p, 's, 'm, 'h) crypto_ops \<Rightarrow> ('p, 's) wiped \<Rightarrow> participant \<Rightarrow> ('p, 's, 'm) key_manager_s
     \<Rightarrow> bool \<times> ('p, 's, 'm) key_manager_s" where
  "generate_first_ephemeral_keys C Z participant manager = (case participant of
     Participant_u \<Rightarrow>
       or_error (shake_256_kdf1 C ED448_PRIVATE_BYTES 0x12 (shared_secret manager)) manager (\<lambda>random_buffer.
       let manager = manager\<lparr>our_ecdh := (our_ecdh manager)\<lparr>ecdh_pub := zero_point Z\<rparr>\<rparr> in
       or_error (otrng_ecdh_keypair_generate C random_buffer) manager (\<lambda>kp.
       let manager = manager\<lparr>our_ecdh := kp, our_dh := otrng_dh_keypair_destroy (our_dh manager)\<rparr> in
       or_error (otrng_dh_keypair_generate_from_shared_secret C (shared_secret manager) (our_dh manager) participant)
         manager (\<lambda>kp. (True, manager\<lparr>our_dh := kp\<rparr>))))
   | Participant_t \<Rightarrow>
       or_error (shake_256_kdf1 C ED448_PRIVATE_BYTES 0x12 (shared_secret manager)) manager (\<lambda>random_buffer.
       let manager = manager\<lparr>their_ecdh := zero_point Z\<rparr> in
       or_error (otrng_ecdh_keypair_generate_their C random_buffer) manager (\<lambda>pub.
       let manager = manager\<lparr>their_ecdh := pub, their_dh := None\<rparr> in
       or_error (otrng_dh_keypair_generate_from_shared_secret C (shared_secret manager)
           \<lparr>dh_pub = None, dh_priv = None\<rparr> participant)
         manager (\<lambda>tmp_their_dh. (True, manager\<lparr>their_dh := dh_pub tmp_their_dh\<rparr>)))))"

text \<open>The state of the functions both directions share: the manager and the temporary ratchet.\<close>

type_synonym ('p, 's, 'm) ratchets = "('p, 's, 'm) key_manager_s \<times> ('p, 's, 'm) receiving_ratchet_s"

definition calculate_brace_key ::
    "('p, 's, 'm, 'h) crypto_ops \<Rightarrow> action \<Rightarrow> ('p, 's, 'm) ratchets \<Rightarrow> bool \<times> ('p, 's, 'm) ratchets" where
  "calculate_brace_key C action st = (case st of (manager, tmp) \<Rightarrow> case action of
     Send \<Rightarrow>
       if km_i manager mod 3 = 0 then
         or_error (otrng_dh_shared_secret C (dh_priv (our_dh manager)) (their_dh manager)) st (\<lambda>k_dh.
         or_error (shake_256_kdf1 C BRACE_KEY_BYTES 0x01 k_dh) st (\<lambda>key.
         (True, (manager\<lparr>brace_key := key\<rparr>, tmp))))
       else
         or_error (shake_256_kdf1 C BRACE_KEY_BYTES 0x02 (brace_key manager)) st (\<lambda>key.
         (True, (manager\<lparr>brace_key := key\<rparr>, tmp)))
   | Receive \<Rightarrow>
       if km_i manager mod 3 = 0 then
         or_error (otrng_dh_shared_secret C (dh_priv (our_dh manager)) (rr_their_dh tmp)) st (\<lambda>k_dh.
         or_error (shake_256_kdf1 C BRACE_KEY_BYTES 0x01 k_dh) st (\<lambda>key.
         (True, (manager, tmp\<lparr>rr_brace_key := key\<rparr>))))
       else
         or_error (shake_256_kdf1 C BRACE_KEY_BYTES 0x02 (brace_key manager)) st (\<lambda>key.
         (True, (manager, tmp\<lparr>rr_brace_key := key\<rparr>))))"

definition calculate_shared_secret ::
    "('p, 's, 'm, 'h) crypto_ops \<Rightarrow> action \<Rightarrow> bytes \<Rightarrow> ('p, 's, 'm) ratchets \<Rightarrow> bool \<times> ('p, 's, 'm) ratchets" where
  "calculate_shared_secret C action ecdh_key st = (case st of (manager, tmp) \<Rightarrow> case action of
     Send \<Rightarrow>
       or_error (hash_usage_two C SHARED_SECRET_BYTES usage_shared_secret ecdh_key (brace_key manager)) st (\<lambda>secret.
       (True, (manager\<lparr>shared_secret := secret, brace_key := zeros BRACE_KEY_BYTES\<rparr>, tmp)))
   | Receive \<Rightarrow>
       or_error (hash_usage_two C SHARED_SECRET_BYTES usage_shared_secret ecdh_key (rr_brace_key tmp)) st (\<lambda>secret.
       (True, (manager, tmp\<lparr>rr_shared_secret := secret, rr_brace_key := zeros BRACE_KEY_BYTES\<rparr>))))"

definition calculate_ssid ::
    "('p, 's, 'm, 'h) crypto_ops \<Rightarrow> ('p, 's, 'm) key_manager_s \<Rightarrow> bool \<times> ('p, 's, 'm) key_manager_s" where
  "calculate_ssid C manager =
     or_error (shake_256_kdf1 C SSID_BYTES 0x04 (shared_secret manager)) manager (\<lambda>s. (True, manager\<lparr>ssid := s\<rparr>))"

text \<open>\<open>tmp_key\<close> has 64 bytes, of which \<open>BRACE_KEY_BYTES\<close> are wiped.  A missing public key in the
  final comparison is a null dereference in libgcrypt; the model reports an error there.\<close>

definition otrng_key_manager_generate_shared_secret ::
    "('p, 's, 'm, 'h) crypto_ops \<Rightarrow> ('p, 's) wiped \<Rightarrow> bool \<Rightarrow> ('p, 's, 'm) receiving_ratchet_s
     \<Rightarrow> ('p, 's, 'm) key_manager_s \<Rightarrow> bool \<times> ('p, 's, 'm) key_manager_s" where
  "otrng_key_manager_generate_shared_secret C Z interactive null manager =
     and_then
       (if interactive then
          or_error (otrng_ecdh_shared_secret C ED448_POINT_BYTES (ecdh_priv (our_ecdh manager)) (their_ecdh manager))
            manager (\<lambda>ecdh_key.
          let manager = manager\<lparr>our_ecdh := (our_ecdh manager)\<lparr>ecdh_priv := zero_scalar Z\<rparr>\<rparr> in
          and_then (apsnd fst (calculate_brace_key C Send (manager, null))) (\<lambda>manager.
          let manager = manager\<lparr>our_dh := otrng_dh_priv_key_destroy (our_dh manager)\<rparr> in
          apsnd fst (calculate_shared_secret C Send ecdh_key (manager, null))))
        else
          (let wipe = (\<lambda>m. m\<lparr>tmp_key := zeros BRACE_KEY_BYTES @ drop BRACE_KEY_BYTES (tmp_key m),
                 brace_key := zeros BRACE_KEY_BYTES\<rparr>) in
           or_error (shake_256_kdf1 C SHARED_SECRET_BYTES usage_shared_secret (tmp_key manager)) (wipe manager) (\<lambda>secret.
           (True, wipe (manager\<lparr>shared_secret := secret\<rparr>)))))
     (\<lambda>manager. and_then (calculate_ssid C manager) (\<lambda>manager.
        or_error (dh_pub (our_dh manager)) manager (\<lambda>ours.
        or_error (their_dh manager) manager (\<lambda>theirs.
        (True, manager\<lparr>ssid_half_first := \<not> mpi_cmp C ours theirs > 0\<rparr>)))))"

definition otrng_key_manager_ratcheting_init ::
    "('p, 's, 'm, 'h) crypto_ops \<Rightarrow> ('p, 's) wiped \<Rightarrow> participant \<Rightarrow> ('p, 's, 'm) key_manager_s
     \<Rightarrow> bool \<times> ('p, 's, 'm) key_manager_s" where
  "otrng_key_manager_ratcheting_init C Z participant manager =
     and_then (generate_first_ephemeral_keys C Z participant manager) (\<lambda>manager.
     let manager = manager\<lparr>km_i := 0, km_j := 0, km_k := 0, km_pn := 0\<rparr> in
     or_error (shake_256_kdf1 C ROOT_KEY_BYTES 0x0B (shared_secret manager)) manager (\<lambda>key.
     (True, manager\<lparr>current := (current manager)\<lparr>root_key := key\<rparr>, shared_secret := zeros SHARED_SECRET_BYTES\<rparr>)))"

subsection \<open>A new ratchet\<close>

definition key_manager_derive_ratchet_keys ::
    "('p, 's, 'm, 'h) crypto_ops \<Rightarrow> action \<Rightarrow> ('p, 's, 'm) ratchets \<Rightarrow> bool \<times> ('p, 's, 'm) ratchets" where
  "key_manager_derive_ratchet_keys C action st = (case st of (manager, tmp) \<Rightarrow> case action of
     Send \<Rightarrow>
       or_error (hash_usage_two C ROOT_KEY_BYTES 0x14 (root_key (current manager)) (shared_secret manager)) st (\<lambda>root.
       let manager = manager\<lparr>current := (current manager)\<lparr>root_key := root\<rparr>\<rparr> in
       or_error (hash_usage_two C CHAIN_KEY_BYTES 0x15 (root_key (current manager)) (shared_secret manager)) (manager, tmp) (\<lambda>chain.
       (True, (manager\<lparr>current := (current manager)\<lparr>chain_s := chain\<rparr>, shared_secret := zeros SHARED_SECRET_BYTES\<rparr>, tmp))))
   | Receive \<Rightarrow>
       or_error (hash_usage_two C ROOT_KEY_BYTES 0x14 (rr_root_key tmp) (rr_shared_secret tmp)) st (\<lambda>root.
       let tmp = tmp\<lparr>rr_root_key := root\<rparr> in
       or_error (hash_usage_two C CHAIN_KEY_BYTES 0x15 (rr_root_key tmp) (rr_shared_secret tmp)) (manager, tmp) (\<lambda>chain.
       (True, (manager, tmp\<lparr>rr_chain_r := chain, rr_shared_secret := zeros SHARED_SECRET_BYTES\<rparr>)))))"

definition enter_new_ratchet ::
    "('p, 's, 'm, 'h) crypto_ops \<Rightarrow> action \<Rightarrow> ('p, 's, 'm) ratchets \<Rightarrow> bool \<times> ('p, 's, 'm) ratchets" where
  "enter_new_ratchet C action st =
     or_error (case st of (manager, tmp) \<Rightarrow>
        otrng_ecdh_shared_secret C ED448_POINT_BYTES (ecdh_priv (our_ecdh manager))
          (case action of Send \<Rightarrow> their_ecdh manager | Receive \<Rightarrow> rr_their_ecdh tmp)) st (\<lambda>ecdh_key.
     and_then (calculate_brace_key C action st) (\<lambda>st.
     and_then (calculate_shared_secret C action ecdh_key st) (\<lambda>st.
     key_manager_derive_ratchet_keys C action st)))"

definition rotate_keys ::
    "('p, 's, 'm, 'h) crypto_ops \<Rightarrow> ('p, 's) wiped \<Rightarrow> (nat \<Rightarrow> bytes) \<Rightarrow> int \<Rightarrow> action
     \<Rightarrow> ('p, 's, 'm) ratchets \<Rightarrow> bool \<times> ('p, 's, 'm) ratchets" where
  "rotate_keys C Z rnd now action st = (case action of
     Send \<Rightarrow>
       (case st of (manager, tmp) \<Rightarrow>
       and_then (apsnd (\<lambda>m. (m, tmp)) (otrng_key_manager_generate_ephemeral_keys C Z rnd now manager)) (\<lambda>(manager, tmp).
       let manager = manager\<lparr>last_generated := now\<rparr> in
       and_then (enter_new_ratchet C action (manager, tmp)) (\<lambda>(manager, tmp).
       (True, (manager\<lparr>km_i := km_i manager + 1\<rparr>, tmp)))))
   | Receive \<Rightarrow>
       and_then (enter_new_ratchet C action st) (\<lambda>(manager, tmp).
       let tmp = tmp\<lparr>rr_our_ecdh_priv := zero_scalar Z\<rparr>;
           manager = (if rr_i tmp mod 3 = 0 then manager\<lparr>our_dh := otrng_dh_priv_key_destroy (our_dh manager)\<rparr> else manager);
           tmp = tmp\<lparr>rr_pn := rr_j tmp, rr_j := 0, rr_k := 0, rr_i := rr_i tmp + 1\<rparr>
       in (True, (manager, tmp))))"

subsection \<open>The chain\<close>

definition derive_next_chain_key ::
    "('p, 's, 'm, 'h) crypto_ops \<Rightarrow> action \<Rightarrow> ('p, 's, 'm) ratchets \<Rightarrow> bool \<times> ('p, 's, 'm) ratchets" where
  "derive_next_chain_key C action st = (case st of (manager, tmp) \<Rightarrow> case action of
     Send \<Rightarrow> or_error (shake_256_kdf1 C CHAIN_KEY_BYTES usage_next_chain_key (chain_s (current manager))) st (\<lambda>key.
       (True, (manager\<lparr>current := (current manager)\<lparr>chain_s := key\<rparr>\<rparr>, tmp)))
   | Receive \<Rightarrow> or_error (shake_256_kdf1 C CHAIN_KEY_BYTES usage_next_chain_key (rr_chain_r tmp)) st (\<lambda>key.
       (True, (manager, tmp\<lparr>rr_chain_r := key\<rparr>))))"

definition derive_encryption_and_mac_keys ::
    "('p, 's, 'm, 'h) crypto_ops \<Rightarrow> action \<Rightarrow> ('p, 's, 'm) ratchets \<Rightarrow> (bytes \<times> bytes) option" where
  "derive_encryption_and_mac_keys C action st = (case st of (manager, tmp) \<Rightarrow> do {
     enc_key \<leftarrow> shake_256_kdf1 C ENC_KEY_BYTES usage_message_key
        (case action of Send \<Rightarrow> chain_s (current manager) | Receive \<Rightarrow> rr_chain_r tmp);
     mac_key \<leftarrow> shake_256_kdf1 C MAC_KEY_BYTES usage_mac_key enc_key;
     Some (enc_key, mac_key) })"

definition calculate_extra_key ::
    "('p, 's, 'm, 'h) crypto_ops \<Rightarrow> action \<Rightarrow> ('p, 's, 'm) ratchets \<Rightarrow> bool \<times> ('p, 's, 'm) ratchets" where
  "calculate_extra_key C action st = (case st of (manager, tmp) \<Rightarrow> case action of
     Send \<Rightarrow> or_error (hash_usage_two C EXTRA_SYMMETRIC_KEY_BYTES usage_extra_symm_key [0xFF] (chain_s (current manager))) st (\<lambda>key.
       (True, (manager\<lparr>extra_symmetric_key := key\<rparr>, tmp)))
   | Receive \<Rightarrow> or_error (hash_usage_two C EXTRA_SYMMETRIC_KEY_BYTES usage_extra_symm_key [0xFF] (rr_chain_r tmp)) st (\<lambda>key.
       (True, (manager, tmp\<lparr>rr_extra_symmetric_key := key\<rparr>))))"

text \<open>\<open>store_enc_keys\<close>: the keys of the messages that were skipped are derived and appended to the
  list.  The loop ends because the counter approaches \<open>until\<close> without wrapping.\<close>

definition skipped_entry ::
    "ratchet_type \<Rightarrow> ('p, 's, 'm) key_manager_s \<Rightarrow> ('p, 's, 'm) receiving_ratchet_s \<Rightarrow> bytes \<Rightarrow> bytes \<Rightarrow> 'p skipped_keys_s" where
  "skipped_entry ratchet_type manager tmp extra_key enc_key =
     \<lparr>sk_their_ecdh = (case ratchet_type of Dh_ratchet \<Rightarrow> their_ecdh manager | Chain_ratchet \<Rightarrow> rr_their_ecdh tmp),
      sk_k = rr_k tmp, sk_extra_symmetric_key = extra_key, sk_enc_key = enc_key\<rparr>"

lemma counter_step:
  assumes "(k :: u32) < until"
  shows "unat (k + 1) = Suc (unat k)" "unat k < unat until"
proof -
  show "unat k < unat until" using assms by (simp add: word_less_nat_alt)
  then have "unat k + 1 < 2 ^ 32" using unat_u32_less[of until] by simp
  then show "unat (k + 1) = Suc (unat k)" by (simp add: unat_word_ariths)
qed

lemma counter_measure: "(k :: u32) < until \<Longrightarrow> unat until - unat (k + 1) < unat until - unat k"
  by (simp add: counter_step(1) counter_step(2) diff_less_mono2)

function store_enc_keys_loop ::
    "('p, 's, 'm, 'h) crypto_ops \<Rightarrow> u32 \<Rightarrow> ratchet_type \<Rightarrow> ('p, 's, 'm) key_manager_s
     \<Rightarrow> ('p, 's, 'm) receiving_ratchet_s \<Rightarrow> 'p skipped_keys_s heap
     \<Rightarrow> (bool \<times> ('p, 's, 'm) receiving_ratchet_s \<times> 'p skipped_keys_s heap) option" where
  "store_enc_keys_loop C until ratchet_type manager tmp h =
     (if rr_k tmp < until then
        case shake_256_kdf1 C ENC_KEY_BYTES usage_message_key (rr_chain_r tmp) of
          None \<Rightarrow> Some (False, tmp, h)
        | Some enc_key \<Rightarrow>
          (case hash_usage_two C EXTRA_SYMMETRIC_KEY_BYTES usage_extra_symm_key [0xFF] (rr_chain_r tmp) of
            None \<Rightarrow> Some (False, tmp, h)
          | Some extra_key \<Rightarrow>
            (case shake_256_kdf1 C CHAIN_KEY_BYTES usage_next_chain_key (rr_chain_r tmp) of
              None \<Rightarrow> Some (False, tmp, h)
            | Some chain \<Rightarrow>
              (case otrng_list_add (Some (skipped_entry ratchet_type manager tmp extra_key enc_key)) h (rr_skipped_keys tmp) of
                None \<Rightarrow> None
              | Some (head, h) \<Rightarrow>
                  store_enc_keys_loop C until ratchet_type manager
                    (tmp\<lparr>rr_chain_r := chain, rr_skipped_keys := head, rr_k := rr_k tmp + 1\<rparr>) h)))
      else Some (True, tmp, h))"
  by pat_completeness auto

termination
  by (relation "measure (\<lambda>(C, until, _, _, tmp, _). unat until - unat (rr_k tmp))") (auto intro: counter_measure)

declare store_enc_keys_loop.simps [simp del]

text \<open>The last component says whether the event \<open>OTRNG_MSG_EVENT_MSG_KEYS_STORAGE_FULL\<close> was raised.\<close>

definition store_enc_keys ::
    "('p, 's, 'm, 'h) crypto_ops \<Rightarrow> u32 \<Rightarrow> u32 \<Rightarrow> ratchet_type \<Rightarrow> ('p, 's, 'm) key_manager_s
     \<Rightarrow> ('p, 's, 'm) receiving_ratchet_s \<Rightarrow> 'p skipped_keys_s heap
     \<Rightarrow> (bool \<times> ('p, 's, 'm) receiving_ratchet_s \<times> 'p skipped_keys_s heap \<times> bool) option" where
  "store_enc_keys C until max_skip ratchet_type manager tmp h =
     (if rr_k tmp + max_skip < until then Some (True, tmp, h, True)
      else if \<not> otrng_is_empty_array (rr_chain_r tmp) CHAIN_KEY_BYTES then do {
        (ok, tmp, h) \<leftarrow> store_enc_keys_loop C until ratchet_type manager tmp h;
        Some (ok, tmp, h, False) }
      else Some (True, tmp, h, False))"

partial_function (option) find_skipped ::
    "('p, 's, 'm, 'h) crypto_ops \<Rightarrow> 'p \<Rightarrow> u32 \<Rightarrow> 'p skipped_keys_s heap \<Rightarrow> nat option \<Rightarrow> nat option option" where
  [code]: "find_skipped C msg_ecdh msg_id h cursor =
     (case cursor of
        None \<Rightarrow> Some None
      | Some a \<Rightarrow> do {
          n \<leftarrow> cells h a;
          sk \<leftarrow> el_data n;
          if point_eq C msg_ecdh (sk_their_ecdh sk) \<and> sk_k sk = msg_id then Some (Some a)
          else find_skipped C msg_ecdh msg_id h (el_next n) })"

definition otrng_key_get_skipped_keys ::
    "('p, 's, 'm, 'h) crypto_ops \<Rightarrow> 'p \<Rightarrow> u32 \<Rightarrow> ('p, 's, 'm) receiving_ratchet_s \<Rightarrow> 'p skipped_keys_s heap
     \<Rightarrow> ((bytes \<times> bytes) option \<times> ('p, 's, 'm) receiving_ratchet_s \<times> 'p skipped_keys_s heap) option" where
  "otrng_key_get_skipped_keys C msg_ecdh msg_id tmp h = do {
     found \<leftarrow> find_skipped C msg_ecdh msg_id h (rr_skipped_keys tmp);
     (case found of
        None \<Rightarrow> Some (None, tmp, h)
      | Some a \<Rightarrow> do {
          n \<leftarrow> cells h a;
          sk \<leftarrow> el_data n;
          (case shake_256_kdf1 C MAC_KEY_BYTES usage_mac_key (sk_enc_key sk) of
             None \<Rightarrow> Some (None, tmp, h)
           | Some mac_key \<Rightarrow> do {
               (head, h) \<leftarrow> otrng_list_remove_element (Some a) h (rr_skipped_keys tmp);
               (h, _) \<leftarrow> otrng_list_free True h (Some a);
               Some (Some (sk_enc_key sk, mac_key),
                 tmp\<lparr>rr_extra_symmetric_key := sk_extra_symmetric_key sk, rr_skipped_keys := head\<rparr>, h) }) }) }"

definition otrng_key_manager_derive_chain_keys ::
    "('p, 's, 'm, 'h) crypto_ops \<Rightarrow> u32 \<Rightarrow> u32 \<Rightarrow> action \<Rightarrow> ('p, 's, 'm) ratchets \<Rightarrow> 'p skipped_keys_s heap
     \<Rightarrow> ((bytes \<times> bytes) option \<times> ('p, 's, 'm) ratchets \<times> 'p skipped_keys_s heap \<times> bool) option" where
  "otrng_key_manager_derive_chain_keys C max_skip msg_id action st h = (case st of (manager, tmp) \<Rightarrow> do {
     (ok, tmp, h, full) \<leftarrow> (case action of
        Receive \<Rightarrow> store_enc_keys C msg_id max_skip Chain_ratchet manager tmp h
      | Send \<Rightarrow> Some (True, tmp, h, False));
     if \<not> ok then Some (None, (manager, tmp), h, full)
     else case derive_encryption_and_mac_keys C action (manager, tmp) of
       None \<Rightarrow> Some (None, (manager, tmp), h, full)
     | Some keys \<Rightarrow>
         (case and_then (calculate_extra_key C action (manager, tmp)) (derive_next_chain_key C action) of
            (ok, st) \<Rightarrow> Some (if ok then Some keys else None, st, h, full)) })"

definition otrng_key_manager_derive_dh_ratchet_keys ::
    "('p, 's, 'm, 'h) crypto_ops \<Rightarrow> ('p, 's) wiped \<Rightarrow> (nat \<Rightarrow> bytes) \<Rightarrow> int \<Rightarrow> u32 \<Rightarrow> 'p \<Rightarrow> u32 \<Rightarrow> action
     \<Rightarrow> ('p, 's, 'm) ratchets \<Rightarrow> 'p skipped_keys_s heap
     \<Rightarrow> (bool \<times> ('p, 's, 'm) ratchets \<times> 'p skipped_keys_s heap \<times> bool) option" where
  "otrng_key_manager_derive_dh_ratchet_keys C Z rnd now max_skip msg_ecdh previous_n action st h =
     (case st of (manager, tmp) \<Rightarrow> case action of
        Send \<Rightarrow>
          if km_j manager = 0 then (case rotate_keys C Z rnd now action st of (ok, st) \<Rightarrow> Some (ok, st, h, False))
          else Some (True, st, h, False)
      | Receive \<Rightarrow>
          if \<not> point_eq C msg_ecdh (their_ecdh manager) then do {
            (ok, tmp, h, full) \<leftarrow> store_enc_keys C previous_n max_skip Dh_ratchet manager tmp h;
            if \<not> ok then Some (False, (manager, tmp), h, full)
            else (case rotate_keys C Z rnd now action (manager, tmp) of (ok, st) \<Rightarrow> Some (ok, st, h, full)) }
          else Some (True, st, h, False))"

subsection \<open>MAC keys to reveal\<close>

definition otrng_store_old_mac_keys ::
    "bytes \<Rightarrow> ('p, 's, 'm) key_manager_s \<Rightarrow> bytes heap \<Rightarrow> (('p, 's, 'm) key_manager_s \<times> bytes heap) option" where
  "otrng_store_old_mac_keys mac_key manager hm = do {
     (head, hm) \<leftarrow> otrng_list_add (Some (take ENC_KEY_BYTES mac_key)) hm (old_mac_keys manager);
     Some (manager\<lparr>old_mac_keys := head\<rparr>, hm) }"

text \<open>\<open>otrng_reveal_mac_keys_on_tlv\<close>: from the last skipped key to the first.  A failing hash leaves
  the keys that are not yet revealed in the list.\<close>

primrec reveal_loop ::
    "('p, 's, 'm, 'h) crypto_ops \<Rightarrow> nat \<Rightarrow> bytes \<Rightarrow> 'p skipped_keys_s heap \<Rightarrow> nat option
     \<Rightarrow> (bytes option \<times> 'p skipped_keys_s heap \<times> nat option) option" where
  "reveal_loop C 0 ser h head = Some (Some ser, h, head)"
| "reveal_loop C (Suc i) ser h head = do {
     last \<leftarrow> otrng_list_get_last h head;
     l \<leftarrow> last;
     n \<leftarrow> cells h l;
     sk \<leftarrow> el_data n;
     (case shake_256_kdf1 C MAC_KEY_BYTES usage_mac_key (sk_enc_key sk) of
        None \<Rightarrow> Some (None, h, head)
      | Some mac_key \<Rightarrow> do {
          (head, h) \<leftarrow> otrng_list_remove_element last h head;
          (h, _) \<leftarrow> otrng_list_free True h last;
          reveal_loop C i (ser @ mac_key) h head }) }"

definition otrng_reveal_mac_keys_on_tlv ::
    "('p, 's, 'm, 'h) crypto_ops \<Rightarrow> ('p, 's, 'm) key_manager_s \<Rightarrow> 'p skipped_keys_s heap
     \<Rightarrow> (bytes option \<times> ('p, 's, 'm) key_manager_s \<times> 'p skipped_keys_s heap) option" where
  "otrng_reveal_mac_keys_on_tlv C manager h = do {
     num_stored_keys \<leftarrow> otrng_list_len h (skipped_keys manager);
     if num_stored_keys * MAC_KEY_BYTES \<noteq> 0 then do {
       (ser, h, head) \<leftarrow> reveal_loop C num_stored_keys [] h (skipped_keys manager);
       (case ser of
          None \<Rightarrow> Some (None, manager\<lparr>skipped_keys := head\<rparr>, h)
        | Some ser \<Rightarrow> do {
            h \<leftarrow> otrng_list_free_nodes h head;
            Some (Some ser, manager\<lparr>skipped_keys := head\<rparr>, h) }) }
     else Some (None, manager, h) }"

end
