(* ===== verification/Ratchet.thy ===== *)
theory Ratchet
  imports Key_Management
begin

text \<open>
  What the double ratchet of \<open>Key_Management\<close> promises: both sides of a conversation derive the same
  shared secret, root keys and chains, a message that arrives late finds the key that was stored for
  it, and finds it only once.  The keys of a chain are described by the functions of the first
  section, which the operations of both directions are shown to compute.
\<close>

subsection \<open>The keys of a chain\<close>

definition kdf :: "('p, 's, 'm, 'h) crypto_sem \<Rightarrow> nat \<Rightarrow> byte \<Rightarrow> bytes \<Rightarrow> bytes" where
  "kdf S n u v = xof S (ascii ''OTRv4'' @ [u] @ v) n"

definition chain_at :: "('p, 's, 'm, 'h) crypto_sem \<Rightarrow> bytes \<Rightarrow> nat \<Rightarrow> bytes" where
  "chain_at S c n = (kdf S CHAIN_KEY_BYTES usage_next_chain_key ^^ n) c"

definition message_keys :: "('p, 's, 'm, 'h) crypto_sem \<Rightarrow> bytes \<Rightarrow> bytes \<times> bytes" where
  "message_keys S c = (let e = kdf S ENC_KEY_BYTES usage_message_key c in (e, kdf S MAC_KEY_BYTES usage_mac_key e))"

definition extra_key :: "('p, 's, 'm, 'h) crypto_sem \<Rightarrow> bytes \<Rightarrow> bytes" where
  "extra_key S c = kdf S EXTRA_SYMMETRIC_KEY_BYTES usage_extra_symm_key (0xFF # c)"

lemma kdf_eqs:
  assumes H: "sponge_ok C S"
  shows "shake_256_kdf1 C n u v = Some (kdf S n u v)"
    and "hash_usage_two C n u a b = Some (kdf S n u (a @ b))"
    and "length (kdf S n u v) = n"
  by (simp_all add: shake_256_kdf1_eq[OF H] kdf_def hash_usage_two_def hash_init_with_usage_def hash_init_with_dom_def
      sponge_simps[OF H] sponge_facts(3)[OF H])

lemma chain_at_Suc:
  "chain_at S c (Suc n) = kdf S CHAIN_KEY_BYTES usage_next_chain_key (chain_at S c n)"
  "chain_at S (kdf S CHAIN_KEY_BYTES usage_next_chain_key c) n = chain_at S c (Suc n)"
  "chain_at S c 0 = c"
  by (simp_all add: chain_at_def funpow_swap1)

text \<open>The entries stored for the messages that a chain skips.\<close>

definition skipped_for :: "('p, 's, 'm, 'h) crypto_sem \<Rightarrow> 'p \<Rightarrow> bytes \<Rightarrow> nat \<Rightarrow> nat \<Rightarrow> 'p skipped_keys_s list" where
  "skipped_for S p c k n = map (\<lambda>i. \<lparr>sk_their_ecdh = p, sk_k = of_nat i, sk_extra_symmetric_key = extra_key S (chain_at S c i),
     sk_enc_key = fst (message_keys S (chain_at S c i))\<rparr>) [k..<n]"

lemma store_loop_stores:
  assumes H: "sponge_ok C S"
    and "is_list h (rr_skipped_keys tmp) as" "rr_k tmp \<le> until" "rr_chain_r tmp = chain_at S c (unat (rr_k tmp))"
  shows "\<exists>head h' bs. store_enc_keys_loop C until ty manager tmp h = Some (True,
       tmp\<lparr>rr_chain_r := chain_at S c (unat until), rr_skipped_keys := head, rr_k := until\<rparr>, h') \<and>
     is_list h' head (as @ bs) \<and>
     contents h' (as @ bs) = contents h as @ map Some (skipped_for S
       (case ty of Dh_ratchet \<Rightarrow> their_ecdh manager | Chain_ratchet \<Rightarrow> rr_their_ecdh tmp) c (unat (rr_k tmp)) (unat until))"
  using assms(2-)
proof (induction "unat until - unat (rr_k tmp)" arbitrary: tmp h as)
  case 0
  then have "rr_k tmp = until" by (simp add: word_le_nat_alt word_unat_eq_iff)
  with "0.prems" show ?case
    by (intro exI[of _ "rr_skipped_keys tmp"] exI[of _ h] exI[of _ "[]"])
       (subst store_enc_keys_loop.simps, simp add: skipped_for_def contents_def)
next
  case (Suc n)
  then have lt: "rr_k tmp < until" by (simp add: word_less_nat_alt)
  note step = counter_step[OF lt]
  let ?P = "case ty of Dh_ratchet \<Rightarrow> their_ecdh manager | Chain_ratchet \<Rightarrow> rr_their_ecdh tmp"
  let ?sk = "skipped_entry ty manager tmp (extra_key S (rr_chain_r tmp)) (fst (message_keys S (rr_chain_r tmp)))"
  from node_list.add_ok[OF Suc.prems(1), of "Some ?sk"] obtain head a h1 where
    add: "otrng_list_add (Some ?sk) h (rr_skipped_keys tmp) = Some (head, h1)"
      "is_list h1 head (as @ [a])" "contents h1 (as @ [a]) = contents h as @ [Some ?sk]" by blast
  let ?tmp = "tmp\<lparr>rr_chain_r := kdf S CHAIN_KEY_BYTES usage_next_chain_key (rr_chain_r tmp), rr_skipped_keys := head, rr_k := rr_k tmp + 1\<rparr>"
  have "store_enc_keys_loop C until ty manager tmp h = store_enc_keys_loop C until ty manager ?tmp h1"
    using add(1) lt
    by (subst store_enc_keys_loop.simps) (simp add: kdf_eqs[OF H] extra_key_def message_keys_def Let_def)
  moreover have "n = unat until - unat (rr_k ?tmp)" "rr_k ?tmp \<le> until"
    "rr_chain_r ?tmp = chain_at S c (unat (rr_k ?tmp))" "is_list h1 (rr_skipped_keys ?tmp) (as @ [a])"
    using Suc.hyps(2) Suc.prems add(2) step by (simp_all add: word_le_nat_alt chain_at_Suc)
  then obtain head' h' bs where r: "store_enc_keys_loop C until ty manager ?tmp h1 = Some (True,
       tmp\<lparr>rr_chain_r := chain_at S c (unat until), rr_skipped_keys := head', rr_k := until\<rparr>, h')"
     "is_list h' head' ((as @ [a]) @ bs)"
     "contents h' ((as @ [a]) @ bs) = contents h1 (as @ [a]) @ map Some (skipped_for S ?P c (Suc (unat (rr_k tmp))) (unat until))"
    using Suc.hyps(1)[of ?tmp h1 "as @ [a]"] step by (cases ty) auto
  moreover have "skipped_for S ?P c (unat (rr_k tmp)) (unat until) = ?sk # skipped_for S ?P c (Suc (unat (rr_k tmp))) (unat until)"
    using step(2) Suc.prems(3) by (simp add: skipped_for_def upt_conv_Cons skipped_entry_def)
  ultimately show ?case
    using add(3) r by (intro exI[of _ head'] exI[of _ h'] exI[of _ "a # bs"]) simp
qed

text \<open>The keys of one message: both directions take them from the chain and advance it.\<close>

lemma derive_chain_send:
  assumes H: "sponge_ok C S"
  shows "otrng_key_manager_derive_chain_keys C max_skip msg_id Send (manager, tmp) h = Some (Some (message_keys S (chain_s (current manager))),
     (manager\<lparr>extra_symmetric_key := extra_key S (chain_s (current manager)),
        current := (current manager)\<lparr>chain_s := chain_at S (chain_s (current manager)) 1\<rparr>\<rparr>, tmp), h, False)"
  by (simp add: otrng_key_manager_derive_chain_keys_def derive_encryption_and_mac_keys_def calculate_extra_key_def
      derive_next_chain_key_def kdf_eqs[OF H] and_then_def or_error_def message_keys_def extra_key_def Let_def chain_at_def)

lemma derive_chain_receive:
  assumes H: "sponge_ok C S"
    and L: "is_list h (rr_skipped_keys tmp) as"
    and k: "rr_k tmp \<le> msg_id" "\<not> rr_k tmp + max_skip < msg_id"
    and c: "rr_chain_r tmp = chain_at S c (unat (rr_k tmp))" "\<not> otrng_is_empty_array (rr_chain_r tmp) CHAIN_KEY_BYTES"
  obtains head h' bs where
    "otrng_key_manager_derive_chain_keys C max_skip msg_id Receive (manager, tmp) h =
       Some (Some (message_keys S (chain_at S c (unat msg_id))),
         (manager, tmp\<lparr>rr_chain_r := chain_at S c (Suc (unat msg_id)), rr_skipped_keys := head, rr_k := msg_id,
            rr_extra_symmetric_key := extra_key S (chain_at S c (unat msg_id))\<rparr>), h', False)"
    "is_list h' head (as @ bs)"
    "contents h' (as @ bs) = contents h as @ map Some (skipped_for S (rr_their_ecdh tmp) c (unat (rr_k tmp)) (unat msg_id))"
proof -
  from store_loop_stores[OF H L k(1) c(1), of Chain_ratchet manager] obtain head h' bs where
    s: "store_enc_keys_loop C msg_id Chain_ratchet manager tmp h = Some (True,
       tmp\<lparr>rr_chain_r := chain_at S c (unat msg_id), rr_skipped_keys := head, rr_k := msg_id\<rparr>, h')"
    "is_list h' head (as @ bs)"
    "contents h' (as @ bs) = contents h as @ map Some (skipped_for S (rr_their_ecdh tmp) c (unat (rr_k tmp)) (unat msg_id))" by auto
  show ?thesis
    by (rule that[OF _ s(2,3)])
       (use k(2) c(2) s(1) in \<open>simp add: otrng_key_manager_derive_chain_keys_def store_enc_keys_def
          derive_encryption_and_mac_keys_def calculate_extra_key_def derive_next_chain_key_def kdf_eqs[OF H]
          and_then_def or_error_def message_keys_def extra_key_def Let_def chain_at_Suc\<close>)
qed

subsection \<open>Skipped keys\<close>

definition matches :: "('p, 's, 'm, 'h) crypto_ops \<Rightarrow> 'p \<Rightarrow> u32 \<Rightarrow> 'p skipped_keys_s \<Rightarrow> bool" where
  "matches C p i sk \<longleftrightarrow> point_eq C p (sk_their_ecdh sk) \<and> sk_k sk = i"

lemma find_skipped_none:
  "lseg h p as None \<Longrightarrow> contents h as = map Some sks \<Longrightarrow> list_all (\<lambda>sk. \<not> matches C P i sk) sks \<Longrightarrow>
   find_skipped C P i h p = Some None"
proof (induction as arbitrary: p sks)
  case Nil
  then show ?case by (simp add: find_skipped.simps)
next
  case (Cons a as)
  then show ?case by (cases sks) (auto simp: contents_def matches_def find_skipped.simps[of _ _ _ _ "Some a"])
qed

lemma find_skipped_first:
  "lseg h p as None \<Longrightarrow> contents h as = map Some (xs @ sk # ys) \<Longrightarrow> list_all (\<lambda>sk. \<not> matches C P i sk) xs \<Longrightarrow>
   matches C P i sk \<Longrightarrow> find_skipped C P i h p = Some (Some (as ! length xs))"
proof (induction xs arbitrary: p as)
  case Nil
  then show ?case by (cases as) (auto simp: contents_def matches_def find_skipped.simps[of _ _ _ _ "Some _"])
next
  case (Cons x xs)
  then show ?case by (cases as) (auto simp: contents_def matches_def find_skipped.simps[of _ _ _ _ "Some _"])
qed

lemma get_skipped_none:
  assumes "is_list h (rr_skipped_keys tmp) as" "contents h as = map Some sks" "list_all (\<lambda>sk. \<not> matches C P i sk) sks"
  shows "otrng_key_get_skipped_keys C P i tmp h = Some (None, tmp, h)"
  using find_skipped_none[of h "rr_skipped_keys tmp" as sks C P i] assms
  by (simp add: otrng_key_get_skipped_keys_def is_list_def)

lemma get_skipped_first:
  assumes H: "sponge_ok C S"
    and L: "is_list h (rr_skipped_keys tmp) as" and c: "contents h as = map Some (xs @ sk # ys)"
    and m: "list_all (\<lambda>sk. \<not> matches C P i sk) xs" "matches C P i sk"
  obtains head h' bs where
    "otrng_key_get_skipped_keys C P i tmp h = Some (Some (sk_enc_key sk, kdf S MAC_KEY_BYTES usage_mac_key (sk_enc_key sk)),
       tmp\<lparr>rr_extra_symmetric_key := sk_extra_symmetric_key sk, rr_skipped_keys := head\<rparr>, h')"
    "is_list h' head bs" "contents h' bs = map Some (xs @ ys)"
proof -
  let ?a = "as ! length xs" and ?l = "take (length xs) as" and ?r = "drop (Suc (length xs)) as"
  have len: "length xs < length as" using arg_cong[OF c, of length] by (simp add: contents_def)
  then have as: "as = ?l @ ?a # ?r" by (simp add: id_take_nth_drop)
  have cc: "contents h (?l @ ?r) = map Some (xs @ ys)" "contents h [?a] = [Some sk]"
  proof -
    have "contents h ?l @ contents h [?a] @ contents h ?r = map Some xs @ [Some sk] @ map Some ys"
      using c as by (metis append_Cons append_Nil contents_append list.simps(9) map_append)
    moreover have "length (contents h ?l) = length (map Some xs)" using len by (simp add: contents_def)
    moreover have "length (contents h [?a]) = length [Some sk]" by (simp add: contents_def)
    ultimately show "contents h (?l @ ?r) = map Some (xs @ ys)" "contents h [?a] = [Some sk]"
      by (metis append_eq_append_conv contents_append map_append)+
  qed
  have L': "is_list h (rr_skipped_keys tmp) (?l @ ?a # ?r)" using L as by metis
  obtain q h1 h' fr where r: "otrng_list_remove_element (Some ?a) h (rr_skipped_keys tmp) = Some (q, h1)"
    "otrng_list_free True h1 (Some ?a) = Some (h', fr)" "is_list h' q (?l @ ?r)" "contents h' (?l @ ?r) = contents h (?l @ ?r)"
    by (rule list_unlink_free[OF L', of True])
  obtain n where n: "cells h ?a = Some n" "el_data n = Some sk"
    using cc(2) by (auto simp: contents_def split: option.splits)
  have "find_skipped C P i h (rr_skipped_keys tmp) = Some (Some ?a)"
    using find_skipped_first[OF _ c m] L by (simp add: is_list_def)
  then show ?thesis
    by (intro that[OF _ r(3)]) (use r n cc(1) in \<open>simp_all add: otrng_key_get_skipped_keys_def kdf_eqs[OF H]\<close>)
qed

lemma skipped_for_split:
  assumes "k \<le> i" "i < n"
  shows "skipped_for S p c k n = skipped_for S p c k i @ \<lparr>sk_their_ecdh = p, sk_k = of_nat i,
     sk_extra_symmetric_key = extra_key S (chain_at S c i), sk_enc_key = fst (message_keys S (chain_at S c i))\<rparr> # skipped_for S p c (Suc i) n"
proof -
  have "[k..<n] = [k..<i] @ i # [Suc i..<n]"
    using assms by (metis upt_add_eq_append le_Suc_ex upt_conv_Cons less_imp_le)
  then show ?thesis by (simp add: skipped_for_def)
qed

lemma skipped_for_no_match:
  assumes "n \<le> 2 ^ 32" "i < 2 ^ 32" "i < k \<or> n \<le> i"
  shows "list_all (\<lambda>sk. \<not> matches C P (of_nat i) sk) (skipped_for S p c k n)"
proof -
  have "(of_nat j :: u32) \<noteq> of_nat i" if "j \<in> {k..<n}" for j
  proof
    assume "(of_nat j :: u32) = of_nat i"
    then have "unat (of_nat j :: u32) = unat (of_nat i :: u32)" by simp
    with that assms show False by (auto simp: of_nat_u32_unat)
  qed
  then show ?thesis by (auto simp: list_all_iff skipped_for_def matches_def)
qed

subsection \<open>Properties of the chain\<close>

text \<open>When a message arrives and no more messages were skipped than may be stored, the receiver
  derives the encryption key, the MAC key and the extra symmetric key with which the sender sent it,
  and both chains are at the same place afterwards.\<close>

theorem chain_keys_agree:
  assumes H: "sponge_ok C S"
    and L: "is_list h (rr_skipped_keys tmp) as"
    and k: "rr_k tmp \<le> msg_id" "\<not> rr_k tmp + max_skip < msg_id"
    and c: "rr_chain_r tmp = chain_at S c (unat (rr_k tmp))" "\<not> otrng_is_empty_array (rr_chain_r tmp) CHAIN_KEY_BYTES"
    and A: "chain_s (current A) = chain_at S c (unat msg_id)"
  shows "\<exists>keys A' tmp' h'.
     otrng_key_manager_derive_chain_keys C max_skip 0 Send (A, null) hA = Some (Some keys, (A', null), hA, False) \<and>
     otrng_key_manager_derive_chain_keys C max_skip msg_id Receive (B, tmp) h = Some (Some keys, (B, tmp'), h', False) \<and>
     chain_s (current A') = rr_chain_r tmp' \<and> extra_symmetric_key A' = rr_extra_symmetric_key tmp'"
proof -
  obtain head h' bs where r: "otrng_key_manager_derive_chain_keys C max_skip msg_id Receive (B, tmp) h =
       Some (Some (message_keys S (chain_at S c (unat msg_id))),
         (B, tmp\<lparr>rr_chain_r := chain_at S c (Suc (unat msg_id)), rr_skipped_keys := head, rr_k := msg_id,
            rr_extra_symmetric_key := extra_key S (chain_at S c (unat msg_id))\<rparr>), h', False)"
    by (rule derive_chain_receive[OF H L k c])
  show ?thesis
    by (simp add: derive_chain_send[OF H] r A chain_at_Suc)
qed

text \<open>C6: a message that arrives late, after a later message of its chain, still finds its keys: the
  stored entry yields exactly the keys the sender used for it.  The entry is then gone, so the same
  message is not decrypted twice.\<close>

theorem late_message_keys:
  assumes G: "goldilocks_ok C S" and H: "sponge_ok C S"
    and L: "is_list h (rr_skipped_keys tmp) as" and sks: "contents h as = map Some sks"
    and k: "rr_k tmp \<le> msg_id" "\<not> rr_k tmp + max_skip < msg_id"
    and c: "rr_chain_r tmp = chain_at S c (unat (rr_k tmp))" "\<not> otrng_is_empty_array (rr_chain_r tmp) CHAIN_KEY_BYTES"
    and i: "rr_k tmp \<le> i" "i < msg_id" and P: "dlog S P = dlog S (rr_their_ecdh tmp)"
    and new: "list_all (\<lambda>sk. \<not> matches C P i sk) sks"
    and A: "chain_s (current A) = chain_at S c (unat i)"
  shows "\<exists>keys A' later tmp1 h1 tmp2 h2.
     otrng_key_manager_derive_chain_keys C max_skip 0 Send (A, null) hA = Some (Some keys, (A', null), hA, False) \<and>
     otrng_key_manager_derive_chain_keys C max_skip msg_id Receive (B, tmp) h = Some (Some later, (B, tmp1), h1, False) \<and>
     otrng_key_get_skipped_keys C P i tmp1 h1 = Some (Some keys, tmp2, h2) \<and>
     rr_extra_symmetric_key tmp2 = extra_symmetric_key A' \<and>
     otrng_key_get_skipped_keys C P i tmp2 h2 = Some (None, tmp2, h2)"
proof -
  obtain head h1 bs where r: "otrng_key_manager_derive_chain_keys C max_skip msg_id Receive (B, tmp) h =
       Some (Some (message_keys S (chain_at S c (unat msg_id))),
         (B, tmp\<lparr>rr_chain_r := chain_at S c (Suc (unat msg_id)), rr_skipped_keys := head, rr_k := msg_id,
            rr_extra_symmetric_key := extra_key S (chain_at S c (unat msg_id))\<rparr>), h1, False)"
    and l1: "is_list h1 head (as @ bs)"
    and c1: "contents h1 (as @ bs) = contents h as @ map Some (skipped_for S (rr_their_ecdh tmp) c (unat (rr_k tmp)) (unat msg_id))"
    by (rule derive_chain_receive[OF H L k c])
  define tmp1 where "tmp1 = tmp\<lparr>rr_chain_r := chain_at S c (Suc (unat msg_id)), rr_skipped_keys := head, rr_k := msg_id,
            rr_extra_symmetric_key := extra_key S (chain_at S c (unat msg_id))\<rparr>"
  let ?sk = "\<lparr>sk_their_ecdh = rr_their_ecdh tmp, sk_k = i, sk_extra_symmetric_key = extra_key S (chain_at S c (unat i)),
     sk_enc_key = fst (message_keys S (chain_at S c (unat i)))\<rparr>"
  let ?xs = "sks @ skipped_for S (rr_their_ecdh tmp) c (unat (rr_k tmp)) (unat i)"
  let ?ys = "skipped_for S (rr_their_ecdh tmp) c (Suc (unat i)) (unat msg_id)"
  have i': "unat (rr_k tmp) \<le> unat i" "unat i < unat msg_id" using i by (simp_all add: word_le_nat_alt word_less_nat_alt)
  have bounds: "unat i < 2 ^ 32" "unat msg_id \<le> 2 ^ 32" using unat_u32_less[of i] unat_u32_less[of msg_id] by simp_all
  have L1: "is_list h1 (rr_skipped_keys tmp1) (as @ bs)" using l1 by (simp add: tmp1_def)
  have C1: "contents h1 (as @ bs) = map Some (?xs @ ?sk # ?ys)"
    using c1 sks skipped_for_split[OF i', of S "rr_their_ecdh tmp" c] by simp
  have nm: "list_all (\<lambda>sk. \<not> matches C P i sk) ?xs" "list_all (\<lambda>sk. \<not> matches C P i sk) ?ys"
    using new skipped_for_no_match[of "unat i" "unat i" "unat (rr_k tmp)" C P S "rr_their_ecdh tmp" c]
      skipped_for_no_match[of "unat msg_id" "unat i" "Suc (unat i)" C P S "rr_their_ecdh tmp" c] bounds by simp_all
  have m: "matches C P i ?sk" by (simp add: matches_def goldilocks_point(7)[OF G] P)
  obtain head2 h2 cs where g: "otrng_key_get_skipped_keys C P i tmp1 h1 = Some (Some (sk_enc_key ?sk, kdf S MAC_KEY_BYTES usage_mac_key (sk_enc_key ?sk)),
       tmp1\<lparr>rr_extra_symmetric_key := sk_extra_symmetric_key ?sk, rr_skipped_keys := head2\<rparr>, h2)"
    "is_list h2 head2 cs" "contents h2 cs = map Some (?xs @ ?ys)"
    by (rule get_skipped_first[OF H L1 C1 nm(1) m])
  have "otrng_key_get_skipped_keys C P i (tmp1\<lparr>rr_extra_symmetric_key := sk_extra_symmetric_key ?sk, rr_skipped_keys := head2\<rparr>) h2 =
      Some (None, tmp1\<lparr>rr_extra_symmetric_key := sk_extra_symmetric_key ?sk, rr_skipped_keys := head2\<rparr>, h2)"
    by (rule get_skipped_none[OF _ g(3)]) (use g(2) nm in simp_all)
  moreover have "(sk_enc_key ?sk, kdf S MAC_KEY_BYTES usage_mac_key (sk_enc_key ?sk)) = message_keys S (chain_at S c (unat i))"
    by (simp add: message_keys_def Let_def)
  ultimately show ?thesis
    using r g(1) by (simp add: derive_chain_send[OF H] A tmp1_def[symmetric])
qed

text \<open>C31: when more messages were skipped than may be stored, nothing is stored and an event is raised,
  but the call still succeeds: it returns the keys of the message the chain is at instead of those
  of the message that arrived.\<close>

theorem too_many_skipped_wrong_keys:
  assumes H: "sponge_ok C S" and "rr_k tmp + max_skip < msg_id"
  shows "otrng_key_manager_derive_chain_keys C max_skip msg_id Receive (B, tmp) h =
     Some (Some (message_keys S (rr_chain_r tmp)),
       (B, tmp\<lparr>rr_extra_symmetric_key := extra_key S (rr_chain_r tmp), rr_chain_r := chain_at S (rr_chain_r tmp) 1\<rparr>), h, True)"
  using assms(2)
  by (simp add: otrng_key_manager_derive_chain_keys_def store_enc_keys_def derive_encryption_and_mac_keys_def
      calculate_extra_key_def derive_next_chain_key_def kdf_eqs[OF H] and_then_def or_error_def message_keys_def
      extra_key_def Let_def chain_at_def)

subsection \<open>The shared keys of a new ratchet\<close>

definition dh_public_of :: "nat \<Rightarrow> nat" where
  "dh_public_of a = DH3072_GENERATOR ^ a mod DH3072_MODULUS"

lemma dh_modulus_pos: "0 < DH3072_MODULUS"
  by (simp add: DH3072_MODULUS_def)

lemma dh_public_key_value:
  assumes "gcrypt_ok C S"
  shows "mval S (otrng_dh_calculate_public_key C a) = dh_public_of (mval S a)"
proof -
  have n: "mval S (mpi_of_nat C k) = k" for k using assms by (simp add: gcrypt_ok_def)
  moreover have "\<And>b e m. 0 < mval S m \<Longrightarrow> mval S (mpi_powm C b e m) = mval S b ^ mval S e mod mval S m"
    using assms unfolding gcrypt_ok_def by blast
  ultimately show ?thesis
    by (simp add: otrng_dh_calculate_public_key_def dh_public_of_def dh_modulus_pos)
qed

text \<open>Both sides of a Diffie-Hellman exchange agree.\<close>

lemma dh_shared_secret_agrees:
  assumes G: "gcrypt_ok C S" and "mval S D = dh_public_of (mval S b)" "mval S E = dh_public_of (mval S a)"
  shows "otrng_dh_shared_secret C (Some a) (Some D) = otrng_dh_shared_secret C (Some b) (Some E)"
proof -
  have n: "mval S (mpi_of_nat C k) = k" for k using G by (simp add: gcrypt_ok_def)
  have pw: "\<And>b e m. 0 < mval S m \<Longrightarrow> mval S (mpi_powm C b e m) = mval S b ^ mval S e mod mval S m"
    using G unfolding gcrypt_ok_def by blast
  have pr: "\<And>m m'. mval S m = mval S m' \<Longrightarrow> mpi_print C m = mpi_print C m'" using G unfolding gcrypt_ok_def by blast
  have "mpi_print C (mpi_powm C D a (mpi_of_nat C DH3072_MODULUS)) = mpi_print C (mpi_powm C E b (mpi_of_nat C DH3072_MODULUS))"
    using dh_modulus_pos
    by (intro pr) (simp add: pw n assms(2,3) dh_public_of_def power_mod power_mult[symmetric] mult.commute)
  then show ?thesis by (simp add: otrng_dh_shared_secret_def)
qed

definition next_brace ::
    "('p, 's, 'm, 'h) crypto_ops \<Rightarrow> ('p, 's, 'm, 'h) crypto_sem \<Rightarrow> u32 \<Rightarrow> 'm option \<Rightarrow> 'm option \<Rightarrow> bytes \<Rightarrow> bytes option" where
  "next_brace C S i priv their brace =
     (if i mod 3 = 0 then map_option (kdf S BRACE_KEY_BYTES 0x01) (otrng_dh_shared_secret C priv their)
      else Some (kdf S BRACE_KEY_BYTES 0x02 brace))"

definition new_ratchet :: "('p, 's, 'm, 'h) crypto_sem \<Rightarrow> bytes \<Rightarrow> bytes \<Rightarrow> bytes \<Rightarrow> bytes \<times> bytes" where
  "new_ratchet S root ecdh_key brace =
     (let K = kdf S SHARED_SECRET_BYTES usage_shared_secret (ecdh_key @ brace);
          r = kdf S ROOT_KEY_BYTES 0x14 (root @ K)
      in (r, kdf S CHAIN_KEY_BYTES 0x15 (r @ K)))"

lemma dh_shared_secret_total:
  assumes "gcrypt_ok C S"
  shows "\<exists>k. otrng_dh_shared_secret C (Some a) (Some D) = Some k"
proof -
  have n: "mval S (mpi_of_nat C k) = k" for k using assms by (simp add: gcrypt_ok_def)
  have "mval S (mpi_powm C D a (mpi_of_nat C DH3072_MODULUS)) = mval S D ^ mval S a mod DH3072_MODULUS"
    using assms dh_modulus_pos n unfolding gcrypt_ok_def by metis
  also have "\<dots> < 256 ^ DH3072_MOD_LEN_BYTES"
    by (rule less_trans[OF mod_less_divisor[OF dh_modulus_pos]]) (simp add: DH3072_MODULUS_def DH3072_MOD_LEN_BYTES_def)
  finally have "\<exists>bs. mpi_print C (mpi_powm C D a (mpi_of_nat C DH3072_MODULUS)) = Some bs"
    using assms unfolding gcrypt_ok_def by blast
  then show ?thesis by (simp add: otrng_dh_shared_secret_def)
qed

lemma ecdh_keypair_total:
  assumes G: "goldilocks_ok C S"
  obtains q where "otrng_ec_point_decode C (derive_public_key C seed) = Some q"
    "otrng_ecdh_keypair_generate C seed = Some \<lparr>ecdh_priv = derive_secret_scalar C seed, ecdh_pub = q\<rparr>"
proof -
  obtain q where "otrng_ec_point_decode C (point_encode_like_eddsa C (point_scalarmul C (point_base C) (derive_secret_scalar C seed)) @ []) = Some q"
    by (rule ec_point_roundtrip[OF G])
  moreover have "derive_public_key C seed = point_encode_like_eddsa C (point_scalarmul C (point_base C) (derive_secret_scalar C seed))"
    using G by (simp add: goldilocks_ok_def point_laws_def)
  ultimately show ?thesis by (intro that[of q]) (simp_all add: otrng_ecdh_keypair_generate_def)
qed

lemma dh_keypair_total:
  assumes G: "gcrypt_ok C S" and H: "sponge_ok C S"
  obtains a where "otrng_dh_keypair_generate C seed = Some \<lparr>dh_pub = Some (otrng_dh_calculate_public_key C a), dh_priv = Some a\<rparr>"
proof -
  from G obtain a where "mpi_scan C (xof S (ascii ''OTRv4'' @ seed) DH_KEY_SIZE) = Some a" unfolding gcrypt_ok_def by blast
  then show ?thesis by (intro that[of a]) (simp add: otrng_dh_keypair_generate_def shake_256_hash_eq[OF H])
qed

lemma ratchet_parts:
  assumes H: "sponge_ok C S"
  shows "calculate_brace_key C Send (m, t) =
      (case next_brace C S (km_i m) (dh_priv (our_dh m)) (their_dh m) (brace_key m) of
         None \<Rightarrow> (False, (m, t)) | Some bk \<Rightarrow> (True, (m\<lparr>brace_key := bk\<rparr>, t)))"
    and "calculate_brace_key C Receive (m, t) =
      (case next_brace C S (km_i m) (dh_priv (our_dh m)) (rr_their_dh t) (brace_key m) of
         None \<Rightarrow> (False, (m, t)) | Some bk \<Rightarrow> (True, (m, t\<lparr>rr_brace_key := bk\<rparr>)))"
    and "calculate_shared_secret C Send e (m, t) =
      (True, (m\<lparr>shared_secret := kdf S SHARED_SECRET_BYTES usage_shared_secret (e @ brace_key m), brace_key := zeros BRACE_KEY_BYTES\<rparr>, t))"
    and "calculate_shared_secret C Receive e (m, t) =
      (True, (m, t\<lparr>rr_shared_secret := kdf S SHARED_SECRET_BYTES usage_shared_secret (e @ rr_brace_key t), rr_brace_key := zeros BRACE_KEY_BYTES\<rparr>))"
    and "key_manager_derive_ratchet_keys C Send (m, t) =
      (let r = kdf S ROOT_KEY_BYTES 0x14 (root_key (current m) @ shared_secret m) in
       (True, (m\<lparr>current := (current m)\<lparr>root_key := r, chain_s := kdf S CHAIN_KEY_BYTES 0x15 (r @ shared_secret m)\<rparr>,
           shared_secret := zeros SHARED_SECRET_BYTES\<rparr>, t)))"
    and "key_manager_derive_ratchet_keys C Receive (m, t) =
      (let r = kdf S ROOT_KEY_BYTES 0x14 (rr_root_key t @ rr_shared_secret t) in
       (True, (m, t\<lparr>rr_root_key := r, rr_chain_r := kdf S CHAIN_KEY_BYTES 0x15 (r @ rr_shared_secret t),
           rr_shared_secret := zeros SHARED_SECRET_BYTES\<rparr>)))"
  by (simp_all add: calculate_brace_key_def calculate_shared_secret_def key_manager_derive_ratchet_keys_def
      kdf_eqs[OF H] or_error_def next_brace_def Let_def split: option.splits)

lemma enter_send:
  assumes H: "sponge_ok C S"
    and "otrng_ecdh_shared_secret C ED448_POINT_BYTES (ecdh_priv (our_ecdh m)) (their_ecdh m) = Some e"
    and "next_brace C S (km_i m) (dh_priv (our_dh m)) (their_dh m) (brace_key m) = Some bk"
  shows "enter_new_ratchet C Send (m, t) = (True, (m\<lparr>brace_key := zeros BRACE_KEY_BYTES, shared_secret := zeros SHARED_SECRET_BYTES,
        current := (current m)\<lparr>root_key := fst (new_ratchet S (root_key (current m)) e bk),
          chain_s := snd (new_ratchet S (root_key (current m)) e bk)\<rparr>\<rparr>, t))"
  using assms(2-) by (simp add: enter_new_ratchet_def ratchet_parts[OF H] and_then_def or_error_def new_ratchet_def Let_def)

lemma enter_send_fails:
  assumes H: "sponge_ok C S" and "enter_new_ratchet C Send (m, t) = (True, st)"
  obtains e bk where "otrng_ecdh_shared_secret C ED448_POINT_BYTES (ecdh_priv (our_ecdh m)) (their_ecdh m) = Some e"
    "next_brace C S (km_i m) (dh_priv (our_dh m)) (their_dh m) (brace_key m) = Some bk"
  using assms(2) by (auto simp: enter_new_ratchet_def ratchet_parts[OF H] and_then_def or_error_def split: option.splits)

lemma enter_receive:
  assumes H: "sponge_ok C S"
    and "otrng_ecdh_shared_secret C ED448_POINT_BYTES (ecdh_priv (our_ecdh m)) (rr_their_ecdh t) = Some e"
    and "next_brace C S (km_i m) (dh_priv (our_dh m)) (rr_their_dh t) (brace_key m) = Some bk"
  shows "enter_new_ratchet C Receive (m, t) = (True, (m, t\<lparr>rr_brace_key := zeros BRACE_KEY_BYTES,
        rr_shared_secret := zeros SHARED_SECRET_BYTES, rr_root_key := fst (new_ratchet S (rr_root_key t) e bk),
        rr_chain_r := snd (new_ratchet S (rr_root_key t) e bk)\<rparr>))"
  using assms(2-) by (simp add: enter_new_ratchet_def ratchet_parts[OF H] and_then_def or_error_def new_ratchet_def Let_def)

lemma third: "(i :: u32) mod 3 = 0 \<longleftrightarrow> unat i mod 3 = 0"
  by (simp add: unat_mod word_unat_eq_iff)

definition has_dh_pair :: "('p, 's, 'm, 'h) crypto_sem \<Rightarrow> 'm option \<Rightarrow> 'm option \<Rightarrow> bool" where
  "has_dh_pair S priv pub \<longleftrightarrow> (\<exists>a D. priv = Some a \<and> pub = Some D \<and> mval S D = dh_public_of (mval S a))"

text \<open>What a successful rotation for sending leaves behind.\<close>

lemma generate_ephemeral_ok:
  assumes G: "goldilocks_ok C S" "gcrypt_ok C S" and "otrng_key_manager_generate_ephemeral_keys C Z rnd now m = (True, m')"
  obtains kp kpf d df where
    "m' = m\<lparr>our_ecdh := kp, our_ecdh_first := kpf, last_generated := now, our_dh := d, our_dh_first := df\<rparr>"
    "dlog S (ecdh_pub kp) = sval S (ecdh_priv kp)"
    "unat (km_i m) mod 3 \<noteq> 0 \<longrightarrow> d = our_dh m" "unat (km_i m) mod 3 = 0 \<longrightarrow> has_dh_pair S (dh_priv d) (dh_pub d)"
proof -
  from assms(3) obtain kp kpf where k: "otrng_ecdh_keypair_generate C (rnd 0) = Some kp" "otrng_ecdh_keypair_generate C (rnd 1) = Some kpf"
    by (auto simp: otrng_key_manager_generate_ephemeral_keys_def or_error_def Let_def split: option.splits)
  note p = ecdh_keypair_generate_pub[OF G(1) k(1)]
  show ?thesis
  proof (cases "km_i m mod 3 = 0")
    case True
    with assms(3) k obtain d df where d: "otrng_dh_keypair_generate C (rnd 2) = Some d" "otrng_dh_keypair_generate C (rnd 3) = Some df"
      "m' = m\<lparr>our_ecdh := kp, our_ecdh_first := kpf, last_generated := now, our_dh := d, our_dh_first := df\<rparr>"
      by (auto simp: otrng_key_manager_generate_ephemeral_keys_def or_error_def Let_def split: option.splits)
    have "has_dh_pair S (dh_priv d) (dh_pub d)"
      using d(1) dh_public_key_value[OF G(2)] by (auto simp: has_dh_pair_def otrng_dh_keypair_generate_def bind_eq_Some_conv)
    with True show ?thesis by (intro that[OF d(3) p]) (auto simp: third)
  next
    case False
    with assms(3) k have "m' = m\<lparr>our_ecdh := kp, our_ecdh_first := kpf, last_generated := now, our_dh := our_dh m, our_dh_first := our_dh_first m\<rparr>"
      by (cases m) (auto simp: otrng_key_manager_generate_ephemeral_keys_def or_error_def Let_def)
    then show ?thesis by (rule that[OF _ p]) (use False in \<open>auto simp: third\<close>)
  qed
qed

text \<open>Two key managers of a conversation of which \<open>A\<close> is the next to enter a new ratchet: they agree
  on the root key, the ratchet number and the brace key, and \<open>A\<close> has the current ECDH key of \<open>B\<close>.
  Every third ratchet uses a Diffie-Hellman exchange; who holds the private key it needs depends on
  how many ratchets away it is.\<close>

definition ratchet_sync :: "('p, 's, 'm, 'h) crypto_sem \<Rightarrow> ('p, 's, 'm) key_manager_s \<Rightarrow> ('p, 's, 'm) key_manager_s \<Rightarrow> bool" where
  "ratchet_sync S A B \<longleftrightarrow> root_key (current A) = root_key (current B) \<and> km_i A = km_i B \<and> brace_key A = brace_key B \<and>
     dlog S (their_ecdh A) = sval S (ecdh_priv (our_ecdh B)) \<and>
     (if unat (km_i A) mod 3 = 0 then has_dh_pair S (dh_priv (our_dh B)) (their_dh A)
      else if unat (km_i A) mod 3 = 1 then has_dh_pair S (dh_priv (our_dh B)) (dh_pub (our_dh B))
      else has_dh_pair S (dh_priv (our_dh A)) (dh_pub (our_dh A)))"

lemma has_dh_pair_cong:
  "has_dh_pair S priv pub \<Longrightarrow> map_option (mval S) pub' = map_option (mval S) pub \<Longrightarrow> has_dh_pair S priv pub'"
  by (auto simp: has_dh_pair_def)

lemma next_brace_agrees:
  assumes "gcrypt_ok C S"
    and "unat i mod 3 = 0 \<Longrightarrow> has_dh_pair S a E \<and> has_dh_pair S b D"
  shows "next_brace C S i a D br = next_brace C S i b E br"
proof (cases "unat i mod 3 = 0")
  case True
  with assms(2) obtain x X y Y where "a = Some x" "E = Some X" "mval S X = dh_public_of (mval S x)"
    "b = Some y" "D = Some Y" "mval S Y = dh_public_of (mval S y)" by (auto simp: has_dh_pair_def)
  then have "otrng_dh_shared_secret C a D = otrng_dh_shared_secret C b E"
    using dh_shared_secret_agrees[OF assms(1), of Y y X x] by blast
  then show ?thesis by (simp add: next_brace_def)
qed (simp add: next_brace_def third)

lemma rotate_send_ok:
  assumes G: "goldilocks_ok C S" "gcrypt_ok C S" and H: "sponge_ok C S"
    and "rotate_keys C Z rnd now Send (A, null) = (True, (A', null'))"
  obtains kp kpf d df e bk where
    "otrng_ecdh_shared_secret C ED448_POINT_BYTES (ecdh_priv kp) (their_ecdh A) = Some e"
    "next_brace C S (km_i A) (dh_priv d) (their_dh A) (brace_key A) = Some bk"
    "A' = A\<lparr>our_ecdh := kp, our_ecdh_first := kpf, last_generated := now, our_dh := d, our_dh_first := df,
       brace_key := zeros BRACE_KEY_BYTES, shared_secret := zeros SHARED_SECRET_BYTES, km_i := km_i A + 1,
       current := (current A)\<lparr>root_key := fst (new_ratchet S (root_key (current A)) e bk),
          chain_s := snd (new_ratchet S (root_key (current A)) e bk)\<rparr>\<rparr>"
    "dlog S (ecdh_pub kp) = sval S (ecdh_priv kp)"
    "unat (km_i A) mod 3 \<noteq> 0 \<longrightarrow> d = our_dh A" "unat (km_i A) mod 3 = 0 \<longrightarrow> has_dh_pair S (dh_priv d) (dh_pub d)"
proof -
  obtain ok m1 where g: "otrng_key_manager_generate_ephemeral_keys C Z rnd now A = (ok, m1)" by fastforce
  with assms(4) have ok by (auto simp: rotate_keys_def and_then_def split: if_splits)
  with g have g': "otrng_key_manager_generate_ephemeral_keys C Z rnd now A = (True, m1)" by simp
  obtain kp kpf d df where m1: "m1 = A\<lparr>our_ecdh := kp, our_ecdh_first := kpf, last_generated := now, our_dh := d, our_dh_first := df\<rparr>"
    and p: "dlog S (ecdh_pub kp) = sval S (ecdh_priv kp)"
    and d: "unat (km_i A) mod 3 \<noteq> 0 \<longrightarrow> d = our_dh A" "unat (km_i A) mod 3 = 0 \<longrightarrow> has_dh_pair S (dh_priv d) (dh_pub d)"
    by (rule generate_ephemeral_ok[OF G g']) (rule that)
  let ?m = "m1\<lparr>last_generated := now\<rparr>"
  obtain ok2 st where en: "enter_new_ratchet C Send (?m, null) = (ok2, st)" by (rule prod.exhaust)
  with assms(4) g \<open>ok\<close> have r: ok2 "A' = (fst st)\<lparr>km_i := km_i (fst st) + 1\<rparr>"
    by (auto simp: rotate_keys_def and_then_def Let_def split: if_splits prod.splits)
  obtain e bk where eb: "otrng_ecdh_shared_secret C ED448_POINT_BYTES (ecdh_priv (our_ecdh ?m)) (their_ecdh ?m) = Some e"
    "next_brace C S (km_i ?m) (dh_priv (our_dh ?m)) (their_dh ?m) (brace_key ?m) = Some bk"
    by (rule enter_send_fails[OF H, of ?m null st]) (use en r(1) in simp)
  have "fst st = ?m\<lparr>brace_key := zeros BRACE_KEY_BYTES, shared_secret := zeros SHARED_SECRET_BYTES,
        current := (current ?m)\<lparr>root_key := fst (new_ratchet S (root_key (current ?m)) e bk),
          chain_s := snd (new_ratchet S (root_key (current ?m)) e bk)\<rparr>\<rparr>"
    using enter_send[OF H eb, of null] en by simp
  then show ?thesis
    by (intro that[where kp = kp and kpf = kpf and d = d and df = df and e = e and bk = bk]) (use eb m1 r(2) p d in simp_all)
qed

text \<open>Entering a new ratchet for sending succeeds whenever the ECDH secret with their key is valid
  and, in a third ratchet, their Diffie-Hellman key is known.\<close>

lemma rotate_send_total:
  assumes G: "goldilocks_ok C S" "gcrypt_ok C S" and H: "sponge_ok C S"
    and e: "otrng_ecdh_shared_secret C ED448_POINT_BYTES (derive_secret_scalar C (rnd 0)) (their_ecdh m) = Some e"
    and dh: "unat (km_i m) mod 3 = 0 \<longrightarrow> their_dh m \<noteq> None"
  shows "\<exists>m'. rotate_keys C Z rnd now Send (m, null) = (True, (m', null)) \<and> km_i m' = km_i m + 1 \<and> their_ecdh m' = their_ecdh m"
proof -
  obtain q where kp: "otrng_ecdh_keypair_generate C (rnd 0) = Some \<lparr>ecdh_priv = derive_secret_scalar C (rnd 0), ecdh_pub = q\<rparr>"
    by (rule ecdh_keypair_total[OF G(1)])
  obtain q' where kp': "otrng_ecdh_keypair_generate C (rnd 1) = Some \<lparr>ecdh_priv = derive_secret_scalar C (rnd 1), ecdh_pub = q'\<rparr>"
    by (rule ecdh_keypair_total[OF G(1)])
  obtain a where d: "otrng_dh_keypair_generate C (rnd 2) = Some \<lparr>dh_pub = Some (otrng_dh_calculate_public_key C a), dh_priv = Some a\<rparr>"
    by (rule dh_keypair_total[OF G(2) H])
  obtain a' where d': "otrng_dh_keypair_generate C (rnd 3) = Some \<lparr>dh_pub = Some (otrng_dh_calculate_public_key C a'), dh_priv = Some a'\<rparr>"
    by (rule dh_keypair_total[OF G(2) H])
  define m1 where "m1 = snd (otrng_key_manager_generate_ephemeral_keys C Z rnd now m)"
  have g: "otrng_key_manager_generate_ephemeral_keys C Z rnd now m = (True, m1)"
    "ecdh_priv (our_ecdh m1) = derive_secret_scalar C (rnd 0)" "their_ecdh m1 = their_ecdh m" "their_dh m1 = their_dh m"
    "km_i m1 = km_i m" "km_i m mod 3 = 0 \<longrightarrow> dh_priv (our_dh m1) = Some a"
    unfolding m1_def using kp kp' d d'
    by (cases "km_i m mod 3 = 0"; simp add: otrng_key_manager_generate_ephemeral_keys_def or_error_def and_then_def Let_def)+
  let ?m = "m1\<lparr>last_generated := now\<rparr>"
  have "\<exists>bk. next_brace C S (km_i ?m) (dh_priv (our_dh ?m)) (their_dh ?m) (brace_key ?m) = Some bk"
    using g(4-6) dh dh_shared_secret_total[OF G(2), of a] by (auto simp: next_brace_def third)
  then obtain bk where bk: "next_brace C S (km_i ?m) (dh_priv (our_dh ?m)) (their_dh ?m) (brace_key ?m) = Some bk" by blast
  have "otrng_ecdh_shared_secret C ED448_POINT_BYTES (ecdh_priv (our_ecdh ?m)) (their_ecdh ?m) = Some e" using e g by simp
  from enter_send[OF H this bk, of null] g(1,3,5) show ?thesis by (simp add: rotate_keys_def or_error_def and_then_def Let_def)
qed

lemma counter_next:
  assumes "(i :: u32) \<noteq> - 1"
  shows "unat (i + 1) = Suc (unat i)"
proof -
  have "1 + i \<noteq> 0" using assms by (simp add: add_eq_0_iff)
  then show ?thesis using unatSuc[of i] by (simp add: add.commute)
qed

lemma ratchet_step_receive:
  assumes G: "goldilocks_ok C S" "gcrypt_ok C S" and H: "sponge_ok C S"
    and sync: "ratchet_sync S A B"
    and send: "rotate_keys C Z rnd now Send (A, null) = (True, (A', null'))"
    and msg: "dlog S P = dlog S (ecdh_pub (our_ecdh A'))" "map_option (mval S) D = map_option (mval S) (dh_pub (our_dh A'))"
    and i: "km_i A \<noteq> - 1"
  defines "tmp \<equiv> otrng_key_manager_set_their_tmp_keys P D (otrng_receiving_ratchet_new Z B)"
  shows "\<exists>B' tmp'. rotate_keys C Z rnd' now' Receive (B, tmp) = (True, (B', tmp')) \<and>
     rr_root_key tmp' = root_key (current A') \<and> rr_chain_r tmp' = chain_s (current A') \<and>
     ratchet_sync S (otrng_receiving_ratchet_copy B' tmp') A'"
proof -
  obtain kp kpf d df e bk where a: "otrng_ecdh_shared_secret C ED448_POINT_BYTES (ecdh_priv kp) (their_ecdh A) = Some e"
    "next_brace C S (km_i A) (dh_priv d) (their_dh A) (brace_key A) = Some bk"
    and A': "A' = A\<lparr>our_ecdh := kp, our_ecdh_first := kpf, last_generated := now, our_dh := d, our_dh_first := df,
       brace_key := zeros BRACE_KEY_BYTES, shared_secret := zeros SHARED_SECRET_BYTES, km_i := km_i A + 1,
       current := (current A)\<lparr>root_key := fst (new_ratchet S (root_key (current A)) e bk),
          chain_s := snd (new_ratchet S (root_key (current A)) e bk)\<rparr>\<rparr>"
    and p: "dlog S (ecdh_pub kp) = sval S (ecdh_priv kp)"
    and d: "unat (km_i A) mod 3 \<noteq> 0 \<longrightarrow> d = our_dh A" "unat (km_i A) mod 3 = 0 \<longrightarrow> has_dh_pair S (dh_priv d) (dh_pub d)"
    by (rule rotate_send_ok[OF G H send]) (rule that)
  have eq: "root_key (current A) = root_key (current B)" "km_i A = km_i B" "brace_key A = brace_key B"
    "dlog S (their_ecdh A) = sval S (ecdh_priv (our_ecdh B))" using sync by (simp_all add: ratchet_sync_def)
  have "otrng_ecdh_shared_secret C ED448_POINT_BYTES (ecdh_priv (our_ecdh B)) (rr_their_ecdh tmp) = Some e"
    using a(1) otrng_ecdh_shared_secret_cong[OF G(1), of "their_ecdh A" "ecdh_priv kp" P "ecdh_priv (our_ecdh B)"] msg(1) p eq(4)
    by (simp add: A' tmp_def otrng_key_manager_set_their_tmp_keys_def mult.commute)
  moreover have "has_dh_pair S (dh_priv d) D \<and> has_dh_pair S (dh_priv (our_dh B)) (their_dh A)" if "unat (km_i A) mod 3 = 0"
    using that d(2) sync msg(2) has_dh_pair_cong[of S "dh_priv d" "dh_pub d" D] by (simp add: A' ratchet_sync_def)
  then have "next_brace C S (km_i A) (dh_priv d) (their_dh A) (brace_key A) = next_brace C S (km_i A) (dh_priv (our_dh B)) D (brace_key A)"
    by (intro next_brace_agrees[OF G(2)])
  then have "next_brace C S (km_i B) (dh_priv (our_dh B)) (rr_their_dh tmp) (brace_key B) = Some bk"
    using a(2) eq by (simp add: tmp_def otrng_key_manager_set_their_tmp_keys_def)
  ultimately have en: "enter_new_ratchet C Receive (B, tmp) = (True, (B, tmp\<lparr>rr_brace_key := zeros BRACE_KEY_BYTES,
        rr_shared_secret := zeros SHARED_SECRET_BYTES, rr_root_key := fst (new_ratchet S (root_key (current A)) e bk),
        rr_chain_r := snd (new_ratchet S (root_key (current A)) e bk)\<rparr>))"
    using enter_receive[OF H, of B tmp e bk] eq(1)
    by (simp add: tmp_def otrng_key_manager_set_their_tmp_keys_def otrng_receiving_ratchet_new_def)
  have third_next: "unat (km_i A + 1) mod 3 = (if unat (km_i A) mod 3 = 2 then 0 else Suc (unat (km_i A) mod 3))"
    unfolding counter_next[OF i] by (simp add: mod_Suc)
  have dh: "if unat (km_i A + 1) mod 3 = 0 then has_dh_pair S (dh_priv d) D
      else if unat (km_i A + 1) mod 3 = 1 then has_dh_pair S (dh_priv d) (dh_pub d)
      else has_dh_pair S (dh_priv (our_dh B)) (dh_pub (our_dh B))"
    using sync d msg(2) has_dh_pair_cong[of S "dh_priv d" "dh_pub d" D] unfolding third_next
    by (auto simp: ratchet_sync_def A' split: if_splits)
  let ?B = "if rr_i tmp mod 3 = 0 then B\<lparr>our_dh := otrng_dh_priv_key_destroy (our_dh B)\<rparr> else B"
  have "rr_i tmp = km_i A" using eq(2) by (simp add: tmp_def otrng_key_manager_set_their_tmp_keys_def otrng_receiving_ratchet_new_def)
  then show ?thesis
    using en dh third_next msg(1) p
    by (auto simp: rotate_keys_def and_then_def Let_def A' ratchet_sync_def otrng_receiving_ratchet_copy_def
        otrng_key_manager_set_their_keys_def tmp_def otrng_key_manager_set_their_tmp_keys_def third split: if_splits)
qed

text \<open>C4: the DH ratchet keeps both sides in step.  When two key managers are in step and the ECDH
  secret is valid, the one whose turn it is enters a new ratchet, and the other one, on the public
  keys of the message, derives the same root key and a receiving chain equal to the sending chain;
  the two are then in step again with their roles exchanged, so that the argument repeats for the
  whole conversation.\<close>

theorem ratchet_step_agrees:
  assumes G: "goldilocks_ok C S" "gcrypt_ok C S" and H: "sponge_ok C S"
    and sync: "ratchet_sync S A B" and i: "km_i A \<noteq> - 1"
    and e: "otrng_ecdh_shared_secret C ED448_POINT_BYTES (derive_secret_scalar C (rnd 0)) (their_ecdh A) = Some e"
  shows "\<exists>A'. rotate_keys C Z rnd now Send (A, null) = (True, (A', null)) \<and>
     (\<forall>P D. dlog S P = dlog S (ecdh_pub (our_ecdh A')) \<longrightarrow> map_option (mval S) D = map_option (mval S) (dh_pub (our_dh A')) \<longrightarrow>
       (\<exists>B' tmp'. rotate_keys C Z rnd' now' Receive
            (B, otrng_key_manager_set_their_tmp_keys P D (otrng_receiving_ratchet_new Z B)) = (True, (B', tmp')) \<and>
          rr_root_key tmp' = root_key (current A') \<and> rr_chain_r tmp' = chain_s (current A') \<and>
          ratchet_sync S (otrng_receiving_ratchet_copy B' tmp') A'))"
proof -
  have "unat (km_i A) mod 3 = 0 \<longrightarrow> their_dh A \<noteq> None" using sync by (auto simp: ratchet_sync_def has_dh_pair_def)
  from rotate_send_total[OF G H, of rnd A e Z now null, OF e this] obtain A' where
    "rotate_keys C Z rnd now Send (A, null) = (True, (A', null))" by blast
  with ratchet_step_receive[OF G H sync this _ _ i] show ?thesis by blast
qed

subsection \<open>From the key exchange to the first ratchet\<close>

lemma generate_shared_secret_eq:
  assumes H: "sponge_ok C S"
    and "otrng_ecdh_shared_secret C ED448_POINT_BYTES (ecdh_priv (our_ecdh m)) (their_ecdh m) = Some e"
    and "next_brace C S (km_i m) (dh_priv (our_dh m)) (their_dh m) (brace_key m) = Some bk"
    and "dh_pub (our_dh m) = Some ours" "their_dh m = Some theirs"
  defines "K \<equiv> kdf S SHARED_SECRET_BYTES usage_shared_secret (e @ bk)"
  shows "otrng_key_manager_generate_shared_secret C Z True null m = (True,
     m\<lparr>our_ecdh := (our_ecdh m)\<lparr>ecdh_priv := zero_scalar Z\<rparr>, our_dh := otrng_dh_priv_key_destroy (our_dh m),
       shared_secret := K, brace_key := zeros BRACE_KEY_BYTES, ssid := kdf S SSID_BYTES 0x04 K,
       ssid_half_first := \<not> mpi_cmp C ours theirs > 0\<rparr>)"
  using assms(2-5)
  by (simp add: otrng_key_manager_generate_shared_secret_def ratchet_parts[OF H] and_then_def or_error_def
      calculate_ssid_def kdf_eqs[OF H] otrng_dh_priv_key_destroy_def Let_def K_def)

text \<open>The side that receives the first ratchet and the side that enters it derive the same first keys
  from the shared secret: one with the private halves, the other with the public ones.\<close>

lemma ratcheting_init_sync:
  assumes G: "goldilocks_ok C S" "gcrypt_ok C S" and H: "sponge_ok C S"
    and "shared_secret A = shared_secret B" "brace_key A = brace_key B"
  shows "\<exists>A' B'. otrng_key_manager_ratcheting_init C Z Participant_t A = (True, A') \<and>
     otrng_key_manager_ratcheting_init C Z Participant_u B = (True, B') \<and> ratchet_sync S A' B'"
proof -
  define seed where "seed = kdf S ED448_PRIVATE_BYTES 0x12 (shared_secret B)"
  obtain q where q: "otrng_ec_point_decode C (derive_public_key C seed) = Some q"
    and kp: "otrng_ecdh_keypair_generate C seed = Some \<lparr>ecdh_priv = derive_secret_scalar C seed, ecdh_pub = q\<rparr>"
    by (rule ecdh_keypair_total[OF G(1)])
  from G(2) obtain x where x: "mpi_scan C (kdf S DH_KEY_SIZE 0x13 (shared_secret B)) = Some x" unfolding gcrypt_ok_def by blast
  show ?thesis
    using kp q x assms(4,5) ecdh_keypair_generate_pub[OF G(1) kp] dh_public_key_value[OF G(2), of x]
    by (simp add: otrng_key_manager_ratcheting_init_def generate_first_ephemeral_keys_def kdf_eqs[OF H] and_then_def or_error_def
        seed_def[symmetric] otrng_ecdh_keypair_generate_their_def otrng_dh_keypair_generate_from_shared_secret_def Let_def
        ratchet_sync_def has_dh_pair_def)
qed

text \<open>C3: after the key exchange both sides hold the same shared secret and the same session identifier,
  each is told to show the other half of it, and initialising the ratchets puts them in step.\<close>

theorem key_exchange_agrees:
  assumes G: "goldilocks_ok C S" "gcrypt_ok C S" and H: "sponge_ok C S"
    and ecdh: "dlog S (their_ecdh A) = sval S (ecdh_priv (our_ecdh B))" "dlog S (their_ecdh B) = sval S (ecdh_priv (our_ecdh A))"
    and dh: "has_dh_pair S (dh_priv (our_dh B)) (their_dh A)" "has_dh_pair S (dh_priv (our_dh A)) (their_dh B)"
      "map_option (mval S) (dh_pub (our_dh A)) = map_option (mval S) (their_dh B)"
      "map_option (mval S) (dh_pub (our_dh B)) = map_option (mval S) (their_dh A)"
      "map_option (mval S) (their_dh A) \<noteq> map_option (mval S) (their_dh B)"
    and i: "km_i A = 0" "km_i B = 0"
    and a: "otrng_ecdh_shared_secret C ED448_POINT_BYTES (ecdh_priv (our_ecdh A)) (their_ecdh A) = Some e"
  shows "\<exists>A1 B1 A2 B2. otrng_key_manager_generate_shared_secret C Z True null A = (True, A1) \<and>
     otrng_key_manager_generate_shared_secret C Z True null B = (True, B1) \<and>
     shared_secret A1 = shared_secret B1 \<and> ssid A1 = ssid B1 \<and> ssid_half_first A1 = (\<not> ssid_half_first B1) \<and>
     otrng_key_manager_ratcheting_init C Z Participant_t A1 = (True, A2) \<and>
     otrng_key_manager_ratcheting_init C Z Participant_u B1 = (True, B2) \<and> ratchet_sync S A2 B2"
proof -
  obtain bk where a': "next_brace C S (km_i A) (dh_priv (our_dh A)) (their_dh A) (brace_key A) = Some bk"
    using dh(1,2) dh_shared_secret_total[OF G(2)] i by (auto simp: next_brace_def has_dh_pair_def) metis
  have b1: "otrng_ecdh_shared_secret C ED448_POINT_BYTES (ecdh_priv (our_ecdh B)) (their_ecdh B) = Some e"
    using a otrng_ecdh_shared_secret_cong[OF G(1), of "their_ecdh A" "ecdh_priv (our_ecdh A)" "their_ecdh B" "ecdh_priv (our_ecdh B)"] ecdh
    by (simp add: mult.commute)
  have b2: "next_brace C S (km_i B) (dh_priv (our_dh B)) (their_dh B) (brace_key B) = Some bk"
    using a' next_brace_agrees[OF G(2), of 0 "dh_priv (our_dh A)" "their_dh B" "dh_priv (our_dh B)" "their_dh A"] dh(1,2)
    unfolding i by (simp add: next_brace_def del: map_option_eq_Some)
  obtain x y x' y' where k: "dh_pub (our_dh A) = Some x" "their_dh A = Some y" "dh_pub (our_dh B) = Some y'" "their_dh B = Some x'"
    "mval S x = mval S x'" "mval S y = mval S y'" "mval S x \<noteq> mval S y"
    using dh by (auto simp: has_dh_pair_def)
  have "mpi_cmp C x y > 0 \<longleftrightarrow> \<not> mpi_cmp C y' x' > 0"
    using G(2) k(5-7) unfolding gcrypt_ok_def by (metis linorder_less_linear less_asym)
  moreover note A1 = generate_shared_secret_eq[OF H a a' k(1,2), of Z null] and B1 = generate_shared_secret_eq[OF H b1 b2 k(3,4), of Z null]
  moreover note ratcheting_init_sync[OF G H, of "snd (otrng_key_manager_generate_shared_secret C Z True null A)"
      "snd (otrng_key_manager_generate_shared_secret C Z True null B)" Z]
  ultimately show ?thesis by (auto simp del: not_less)
qed

text \<open>A brace key is wiped as soon as it has been used.\<close>

definition brace_wiped :: "('p, 's, 'm) key_manager_s \<Rightarrow> bool" where
  "brace_wiped m \<longleftrightarrow> brace_key m = zeros BRACE_KEY_BYTES"

lemmas km_parts = or_error_def and_then_def Let_def

subsection \<open>Concrete conversations\<close>

definition ex_wiped :: "(int, int) wiped" where
  "ex_wiped = \<lparr>zero_scalar = 0, zero_point = 0\<rparr>"

definition ex_tmp :: "(int, int, nat) receiving_ratchet_s" where
  "ex_tmp = (otrng_receiving_ratchet_new ex_wiped (otrng_key_manager_init ex_wiped))\<lparr>rr_chain_r := replicate CHAIN_KEY_BYTES 1\<rparr>"

definition ex_sender :: "nat \<Rightarrow> (int, int, nat) key_manager_s" where
  "ex_sender n = (otrng_key_manager_init ex_wiped)\<lparr>current := ratchet_new\<lparr>chain_s := chain_at ex_sem (replicate CHAIN_KEY_BYTES 1) n\<rparr>\<rparr>"

lemma ex_tmp_simps:
  "rr_k ex_tmp = 0" "rr_skipped_keys ex_tmp = None" "rr_chain_r ex_tmp = replicate CHAIN_KEY_BYTES 1"
  "\<not> otrng_is_empty_array (replicate CHAIN_KEY_BYTES 1) CHAIN_KEY_BYTES" "rr_their_ecdh ex_tmp = 0"
  "chain_s (current (ex_sender n)) = chain_at ex_sem (replicate CHAIN_KEY_BYTES 1) n" "chain_at S c 0 = c" "dlog ex_sem p = p mod 7"
  by (simp_all add: ex_tmp_def otrng_receiving_ratchet_new_def otrng_key_manager_init_def chain_at_def ex_wiped_def ex_sender_def
      otrng_is_empty_array_def is_empty_from_iff const_defs ex_sem_def)

theorem chain_keys_agree_witness:
  "\<exists>keys A' tmp' h'.
     otrng_key_manager_derive_chain_keys ex_crypto 10 0 Send (ex_sender 2, ex_tmp) empty_heap = Some (Some keys, (A', ex_tmp), empty_heap, False) \<and>
     otrng_key_manager_derive_chain_keys ex_crypto 10 2 Receive (ex_sender 0, ex_tmp) empty_heap = Some (Some keys, (ex_sender 0, tmp'), h', False) \<and>
     chain_s (current A') = rr_chain_r tmp' \<and> extra_symmetric_key A' = rr_extra_symmetric_key tmp'"
  by (rule chain_keys_agree[OF ex_sponge_ok, of empty_heap ex_tmp "[]"]) (simp_all add: ex_tmp_simps empty_heap_list)

theorem late_message_keys_witness:
  "\<exists>keys A' later tmp1 h1 tmp2 h2.
     otrng_key_manager_derive_chain_keys ex_crypto 10 0 Send (ex_sender 1, ex_tmp) empty_heap = Some (Some keys, (A', ex_tmp), empty_heap, False) \<and>
     otrng_key_manager_derive_chain_keys ex_crypto 10 3 Receive (ex_sender 0, ex_tmp) empty_heap = Some (Some later, (ex_sender 0, tmp1), h1, False) \<and>
     otrng_key_get_skipped_keys ex_crypto 7 1 tmp1 h1 = Some (Some keys, tmp2, h2) \<and>
     rr_extra_symmetric_key tmp2 = extra_symmetric_key A' \<and>
     otrng_key_get_skipped_keys ex_crypto 7 1 tmp2 h2 = Some (None, tmp2, h2)"
  by (rule late_message_keys[OF ex_goldilocks_ok ex_sponge_ok, of empty_heap ex_tmp "[]" "[]"])
     (simp_all add: ex_tmp_simps empty_heap_list contents_def)

theorem too_many_skipped_wrong_keys_witness:
  "otrng_key_manager_derive_chain_keys ex_crypto 10 20 Receive (ex_sender 0, ex_tmp) empty_heap =
     Some (Some (message_keys ex_sem (rr_chain_r ex_tmp)), (ex_sender 0, ex_tmp\<lparr>rr_extra_symmetric_key := extra_key ex_sem (rr_chain_r ex_tmp),
       rr_chain_r := chain_at ex_sem (rr_chain_r ex_tmp) 1\<rparr>), empty_heap, True)"
  by (rule too_many_skipped_wrong_keys[OF ex_sponge_ok]) (simp add: ex_tmp_simps)

definition ex_manager :: "int \<Rightarrow> nat \<Rightarrow> int \<Rightarrow> nat \<Rightarrow> (int, int, nat) key_manager_s" where
  "ex_manager priv dh their_pub their_dh_pub = (otrng_key_manager_init ex_wiped)\<lparr>our_ecdh := \<lparr>ecdh_priv = priv, ecdh_pub = priv\<rparr>,
     our_dh := \<lparr>dh_pub = Some (2 ^ dh), dh_priv = Some dh\<rparr>, their_ecdh := their_pub, their_dh := Some their_dh_pub\<rparr>"

lemma ex_ecdh_valid:
  assumes "(a * p) mod 7 \<noteq> 0"
  shows "\<exists>e. otrng_ecdh_shared_secret ex_crypto ED448_POINT_BYTES a p = Some e"
proof -
  have "(of_int ((p * a) mod 7) :: byte) \<noteq> 0"
  proof
    assume "(of_int ((p * a) mod 7) :: byte) = 0"
    then have "uint (of_int ((p * a) mod 7) :: byte) = 0" by simp
    moreover have "0 \<le> (p * a) mod 7" "(p * a) mod 7 < 256" using pos_mod_bound[of 7 "p * a"] by auto
    ultimately have "(p * a) mod 7 = 0" by (simp add: unsigned_of_int take_bit_int_eq_self)
    with assms show False by (simp add: mult.commute)
  qed
  then show ?thesis
    by (simp add: otrng_ecdh_shared_secret_def Let_def otrng_ec_point_valid_def otrng_ec_point_encode_def otrng_ecdh_valid_secret_def
        otrng_is_empty_array_def ex_crypto_def res_encode_def const_defs)
qed

lemma ex_derive: "derive_secret_scalar ex_crypto [3] = 3"
  by (simp add: ex_crypto_def sum_bytes_def)

lemma ex_pairs: "has_dh_pair ex_sem (Some 5) (Some 32)" "has_dh_pair ex_sem (Some 6) (Some 64)"
  by (simp_all add: has_dh_pair_def ex_sem_def dh_public_of_def DH3072_GENERATOR_def DH3072_MODULUS_def)

theorem ratchet_step_agrees_witness:
  "\<exists>A'. rotate_keys ex_crypto ex_wiped (\<lambda>i. [3]) 0 Send (ex_manager 3 5 2 64, ex_tmp) = (True, (A', ex_tmp)) \<and>
     (\<exists>B' tmp'. rotate_keys ex_crypto ex_wiped (\<lambda>i. []) 0 Receive (ex_manager 2 6 3 32,
         otrng_key_manager_set_their_tmp_keys (ecdh_pub (our_ecdh A')) (dh_pub (our_dh A'))
           (otrng_receiving_ratchet_new ex_wiped (ex_manager 2 6 3 32))) = (True, (B', tmp')) \<and>
       rr_root_key tmp' = root_key (current A') \<and> rr_chain_r tmp' = chain_s (current A') \<and>
       ratchet_sync ex_sem (otrng_receiving_ratchet_copy B' tmp') A')"
proof -
  obtain e where e: "otrng_ecdh_shared_secret ex_crypto ED448_POINT_BYTES 3 2 = Some e" using ex_ecdh_valid[of 3 2] by auto
  have "ratchet_sync ex_sem (ex_manager 3 5 2 64) (ex_manager 2 6 3 32)"
    using ex_pairs by (simp add: ratchet_sync_def ex_manager_def otrng_key_manager_init_def) (simp add: ex_sem_def)
  then show ?thesis
    using ratchet_step_agrees[OF ex_goldilocks_ok ex_gcrypt_ok ex_sponge_ok, of "ex_manager 3 5 2 64" "ex_manager 2 6 3 32" "\<lambda>i. [3]" e
        ex_wiped 0 ex_tmp "\<lambda>i. []" 0] e
    by (auto simp: ex_derive ex_manager_def otrng_key_manager_init_def)
qed

theorem key_exchange_agrees_witness:
  "\<exists>A1 B1 A2 B2. otrng_key_manager_generate_shared_secret ex_crypto ex_wiped True ex_tmp (ex_manager 3 5 2 64) = (True, A1) \<and>
     otrng_key_manager_generate_shared_secret ex_crypto ex_wiped True ex_tmp (ex_manager 2 6 3 32) = (True, B1) \<and>
     shared_secret A1 = shared_secret B1 \<and> ssid A1 = ssid B1 \<and> ssid_half_first A1 = (\<not> ssid_half_first B1) \<and>
     otrng_key_manager_ratcheting_init ex_crypto ex_wiped Participant_t A1 = (True, A2) \<and>
     otrng_key_manager_ratcheting_init ex_crypto ex_wiped Participant_u B1 = (True, B2) \<and> ratchet_sync ex_sem A2 B2"
proof -
  obtain e where e: "otrng_ecdh_shared_secret ex_crypto ED448_POINT_BYTES 3 2 = Some e" using ex_ecdh_valid[of 3 2] by auto
  then have "otrng_ecdh_shared_secret ex_crypto ED448_POINT_BYTES (ecdh_priv (our_ecdh (ex_manager 3 5 2 64))) (their_ecdh (ex_manager 3 5 2 64)) = Some e"
    by (simp add: ex_manager_def)
  from key_exchange_agrees[OF ex_goldilocks_ok ex_gcrypt_ok ex_sponge_ok _ _ _ _ _ _ _ _ _ this, of "ex_manager 2 6 3 32"] show ?thesis
    using ex_pairs by (simp add: ex_manager_def otrng_key_manager_init_def) (simp add: ex_sem_def)
qed

end
