(* ===== verification/Client_Profile.thy ===== *)
theory Client_Profile
  imports Crypto_Instance
begin

text \<open>
  \<open>client_profile.c\<close>, with the long-term keys of \<open>keys.c\<close> and the test of \<open>instance_tag.c\<close>: the
  signed description of a client, its format, its signature and its validity.  The versions are a
  C string, the bytes before the terminating zero.  The functions that serialize a profile allocate
  a buffer whose size they compute beforehand; a write beyond it is a fault.
\<close>

subsection \<open>keys.c and instance_tag.c\<close>

record ('p, 's) otrng_keypair_s =
  kp_sym :: bytes
  kp_pub :: 'p
  kp_priv :: 's

definition otrng_keypair_generate :: "('p, 's, 'm, 'h) crypto_ops \<Rightarrow> bytes \<Rightarrow> ('p, 's) otrng_keypair_s option" where
  "otrng_keypair_generate C seed = do {
     pub \<leftarrow> otrng_ec_point_decode C (derive_public_key C (take ED448_PRIVATE_BYTES seed));
     Some \<lparr>kp_sym = take ED448_PRIVATE_BYTES seed, kp_pub = pub,
       kp_priv = derive_secret_scalar C (take ED448_PRIVATE_BYTES seed)\<rparr> }"

definition otrng_shared_prekey_pair_generate ::
    "('p, 's, 'm, 'h) crypto_ops \<Rightarrow> bytes \<Rightarrow> ('p, 's) otrng_keypair_s option" where
  "otrng_shared_prekey_pair_generate C seed = do {
     pub \<leftarrow> otrng_ec_point_decode C (derive_public_key C (take ED448_PRIVATE_BYTES seed));
     Some \<lparr>kp_sym = take ED448_PRIVATE_BYTES seed, kp_pub = pub,
       kp_priv = derive_secret_scalar C (take ED448_PRIVATE_BYTES seed)\<rparr> }"

definition otrng_generate_ephemeral_keys ::
    "('p, 's, 'm, 'h) crypto_ops \<Rightarrow> (nat \<Rightarrow> bytes) \<Rightarrow> (('p, 's) ecdh_keypair_s \<times> 'm dh_keypair_s) option" where
  "otrng_generate_ephemeral_keys C rnd = do {
     ecdh \<leftarrow> otrng_ecdh_keypair_generate C (rnd 0);
     dh \<leftarrow> otrng_dh_keypair_generate C (rnd 1);
     Some (ecdh, dh) }"

definition OTRNG_MIN_VALID_INSTAG :: u32 where [const_defs]: "OTRNG_MIN_VALID_INSTAG = 0x100"

definition otrng_instance_tag_valid :: "u32 \<Rightarrow> bool" where
  "otrng_instance_tag_valid instance_tag = (if instance_tag < OTRNG_MIN_VALID_INSTAG then False else True)"

subsection \<open>The profile\<close>

definition OTRNG_DH1536_MOD_LEN_BYTES :: nat where [const_defs]: "OTRNG_DH1536_MOD_LEN_BYTES = 192"
definition DSA_PUBKEY_MAX_BYTES :: nat where [const_defs]:
  "DSA_PUBKEY_MAX_BYTES = 2 + 4 * (4 + OTRNG_DH1536_MOD_LEN_BYTES)"
definition OTRv3_DSA_SIG_BYTES :: nat where [const_defs]: "OTRv3_DSA_SIG_BYTES = 40"
definition OTRL_PUBKEY_TYPE_DSA :: u16 where [const_defs]: "OTRL_PUBKEY_TYPE_DSA = 0"

definition OTRNG_CLIENT_PROFILE_FIELD_INSTANCE_TAG :: u16 where [const_defs]: "OTRNG_CLIENT_PROFILE_FIELD_INSTANCE_TAG = 1"
definition OTRNG_CLIENT_PROFILE_FIELD_PUBLIC_KEY :: u16 where [const_defs]: "OTRNG_CLIENT_PROFILE_FIELD_PUBLIC_KEY = 2"
definition OTRNG_CLIENT_PROFILE_FIELD_FORGING_KEY :: u16 where [const_defs]: "OTRNG_CLIENT_PROFILE_FIELD_FORGING_KEY = 3"
definition OTRNG_CLIENT_PROFILE_FIELD_VERSIONS :: u16 where [const_defs]: "OTRNG_CLIENT_PROFILE_FIELD_VERSIONS = 4"
definition OTRNG_CLIENT_PROFILE_FIELD_EXPIRATION :: u16 where [const_defs]: "OTRNG_CLIENT_PROFILE_FIELD_EXPIRATION = 5"
definition OTRNG_CLIENT_PROFILE_FIELD_DSA_KEY :: u16 where [const_defs]: "OTRNG_CLIENT_PROFILE_FIELD_DSA_KEY = 6"
definition OTRNG_CLIENT_PROFILE_FIELD_TRANSITIONAL_SIGNATURE :: u16 where [const_defs]:
  "OTRNG_CLIENT_PROFILE_FIELD_TRANSITIONAL_SIGNATURE = 7"

definition OTRNG_CLIENT_PROFILE_FIELDS_MAX_BYTES :: "nat \<Rightarrow> nat" where
  "OTRNG_CLIENT_PROFILE_FIELDS_MAX_BYTES v = 2 + 4 + 2 + ED448_PUBKEY_BYTES + 2 + ED448_PUBKEY_BYTES + 2 + v + 2 + 8 +
     2 + DSA_PUBKEY_MAX_BYTES + 2 + OTRv3_DSA_SIG_BYTES"

definition OTRNG_CLIENT_PROFILE_MAX_BYTES :: "nat \<Rightarrow> nat" where
  "OTRNG_CLIENT_PROFILE_MAX_BYTES v = 4 + OTRNG_CLIENT_PROFILE_FIELDS_MAX_BYTES v + ED448_SIGNATURE_BYTES"

definition OTRNG_CLIENT_PROFILE_MAX_WITH_METADATA_BYTES :: "nat \<Rightarrow> nat" where
  "OTRNG_CLIENT_PROFILE_MAX_WITH_METADATA_BYTES v = 4 + OTRNG_CLIENT_PROFILE_FIELDS_MAX_BYTES v + ED448_SIGNATURE_BYTES + 1"

text \<open>The DSA key comes with its length, so a \<open>NULL\<close> key and a key of length 0 are told apart only by
  the pointer; a signature of the previous protocol version always has 40 bytes.\<close>

record 'p otrng_client_profile_s =
  cp_sender_instance_tag :: u32
  cp_long_term_pub_key :: 'p
  cp_forging_pub_key :: 'p
  cp_versions :: "bytes option"
  cp_expires :: u64
  cp_dsa_key :: "bytes option"
  cp_transitional_signature :: "bytes option"
  cp_signature :: bytes
  cp_should_publish :: byte
  cp_is_publishing :: bool
  cp_has_validated :: bool
  cp_validation_result :: bool

definition client_profile_zero :: "('p, 's) wiped \<Rightarrow> 'p otrng_client_profile_s" where
  "client_profile_zero Z = \<lparr>cp_sender_instance_tag = 0, cp_long_term_pub_key = zero_point Z, cp_forging_pub_key = zero_point Z,
     cp_versions = None, cp_expires = 0, cp_dsa_key = None, cp_transitional_signature = None,
     cp_signature = replicate ED448_SIGNATURE_BYTES 0, cp_should_publish = 0, cp_is_publishing = False,
     cp_has_validated = False, cp_validation_result = False\<rparr>"

definition client_profile_new :: "('p, 's) wiped \<Rightarrow> bytes option \<Rightarrow> 'p otrng_client_profile_s option" where
  "client_profile_new Z versions =
     (case versions of None \<Rightarrow> None | Some v \<Rightarrow> Some ((client_profile_zero Z)\<lparr>cp_versions := Some v\<rparr>))"

definition otrng_strlen_ns :: "bytes option \<Rightarrow> nat" where
  "otrng_strlen_ns s = (case s of None \<Rightarrow> 0 | Some v \<Rightarrow> length v)"

definition has_dsa_key :: "'p otrng_client_profile_s \<Rightarrow> bool" where
  "has_dsa_key p = (case cp_dsa_key p of None \<Rightarrow> False | Some k \<Rightarrow> k \<noteq> [])"

subsection \<open>Copying\<close>

definition copy_transitional_signature ::
    "'p otrng_client_profile_s \<Rightarrow> 'p otrng_client_profile_s \<Rightarrow> 'p otrng_client_profile_s" where
  "copy_transitional_signature dst src =
     (case cp_transitional_signature src of
        None \<Rightarrow> dst
      | Some sig \<Rightarrow> dst\<lparr>cp_transitional_signature := Some (take OTRv3_DSA_SIG_BYTES sig)\<rparr>)"

definition otrng_client_profile_set_dsa_key_mpis :: "'p otrng_client_profile_s \<Rightarrow> bytes \<Rightarrow> 'p otrng_client_profile_s" where
  "otrng_client_profile_set_dsa_key_mpis client_profile mpis =
     client_profile\<lparr>cp_dsa_key := Some (otrng_serialize_uint16 OTRL_PUBKEY_TYPE_DSA @ mpis)\<rparr>"

definition copy_dsa_key ::
    "'p otrng_client_profile_s \<Rightarrow> 'p otrng_client_profile_s \<Rightarrow> bool \<times> 'p otrng_client_profile_s" where
  "copy_dsa_key dst src =
     (if \<not> has_dsa_key src then (True, dst)
      else let key = the (cp_dsa_key src) in
        case otrng_deserialize_uint16 key of
          None \<Rightarrow> (False, dst)
        | Some (key_type, read) \<Rightarrow>
            if key_type \<noteq> OTRL_PUBKEY_TYPE_DSA then (False, dst)
            else (True, otrng_client_profile_set_dsa_key_mpis dst (drop read key)))"

definition otrng_client_profile_copy ::
    "('p, 's) wiped \<Rightarrow> 'p otrng_client_profile_s option \<Rightarrow> bool \<times> 'p otrng_client_profile_s" where
  "otrng_client_profile_copy Z source =
     (case source of
        None \<Rightarrow> (True, client_profile_zero Z)
      | Some src \<Rightarrow>
          let dst = (client_profile_zero Z)\<lparr>cp_sender_instance_tag := cp_sender_instance_tag src,
                cp_long_term_pub_key := cp_long_term_pub_key src, cp_forging_pub_key := cp_forging_pub_key src,
                cp_versions := cp_versions src, cp_expires := cp_expires src\<rparr>
          in case copy_dsa_key dst src of
               (False, dst) \<Rightarrow> (False, dst)
             | (True, dst) \<Rightarrow>
                 (True, (copy_transitional_signature dst src)\<lparr>cp_signature := take ED448_SIGNATURE_BYTES (cp_signature src),
                    cp_should_publish := cp_should_publish src, cp_is_publishing := cp_is_publishing src\<rparr>))"

subsection \<open>Serialization\<close>

definition client_profile_body_serialize_pre_transitional_signature ::
    "('p, 's, 'm, 'h) crypto_ops \<Rightarrow> 'p otrng_client_profile_s \<Rightarrow> bytes \<times> nat" where
  "client_profile_body_serialize_pre_transitional_signature C client_profile =
     (let written =
        otrng_serialize_uint16 OTRNG_CLIENT_PROFILE_FIELD_INSTANCE_TAG @
        otrng_serialize_uint32 (cp_sender_instance_tag client_profile) @
        otrng_serialize_uint16 OTRNG_CLIENT_PROFILE_FIELD_PUBLIC_KEY @
        otrng_serialize_public_key C (cp_long_term_pub_key client_profile) @
        otrng_serialize_uint16 OTRNG_CLIENT_PROFILE_FIELD_FORGING_KEY @
        otrng_serialize_forging_key C (cp_forging_pub_key client_profile) @
        otrng_serialize_uint16 OTRNG_CLIENT_PROFILE_FIELD_VERSIONS @
        otrng_serialize_data (cp_versions client_profile) (otrng_strlen_ns (cp_versions client_profile)) @
        otrng_serialize_uint16 OTRNG_CLIENT_PROFILE_FIELD_EXPIRATION @
        otrng_serialize_uint64 (cp_expires client_profile)
      in if has_dsa_key client_profile then
           (written @ otrng_serialize_uint16 OTRNG_CLIENT_PROFILE_FIELD_DSA_KEY @ the (cp_dsa_key client_profile), 6)
         else (written, 5))"

definition client_profile_body_serialize :: "('p, 's, 'm, 'h) crypto_ops \<Rightarrow> 'p otrng_client_profile_s \<Rightarrow> bytes" where
  "client_profile_body_serialize C client_profile =
     (case client_profile_body_serialize_pre_transitional_signature C client_profile of (written, num_fields) \<Rightarrow>
      (case cp_transitional_signature client_profile of
        None \<Rightarrow> otrng_serialize_uint32 (of_nat num_fields) @ written
      | Some sig \<Rightarrow> otrng_serialize_uint32 (of_nat (num_fields + 1)) @ written @
          otrng_serialize_uint16 OTRNG_CLIENT_PROFILE_FIELD_TRANSITIONAL_SIGNATURE @
          otrng_serialize_bytes_array (Some sig) OTRv3_DSA_SIG_BYTES))"

definition client_profile_body_serialize_into ::
    "('p, 's, 'm, 'h) crypto_ops \<Rightarrow> 'p otrng_client_profile_s \<Rightarrow> bytes option" where
  "client_profile_body_serialize_into C client_profile =
     into_buffer (OTRNG_CLIENT_PROFILE_FIELDS_MAX_BYTES (otrng_strlen_ns (cp_versions client_profile)))
       (client_profile_body_serialize C client_profile)"

definition otrng_client_profile_serialize_with_metadata ::
    "('p, 's, 'm, 'h) crypto_ops \<Rightarrow> 'p otrng_client_profile_s \<Rightarrow> bytes option" where
  "otrng_client_profile_serialize_with_metadata C client_profile =
     into_buffer (OTRNG_CLIENT_PROFILE_MAX_WITH_METADATA_BYTES (otrng_strlen_ns (cp_versions client_profile)))
       (client_profile_body_serialize C client_profile @
        otrng_serialize_bytes_array (Some (cp_signature client_profile)) ED448_SIGNATURE_BYTES @
        otrng_serialize_uint8 (cp_should_publish client_profile))"

text \<open>The body is written first; only then is the room for the signature compared.\<close>

definition otrng_client_profile_serialize ::
    "('p, 's, 'm, 'h) crypto_ops \<Rightarrow> 'p otrng_client_profile_s \<Rightarrow> bytes outcome" where
  "otrng_client_profile_serialize C client_profile =
     (let s = OTRNG_CLIENT_PROFILE_MAX_BYTES (otrng_strlen_ns (cp_versions client_profile)) in
      case into_buffer s (client_profile_body_serialize C client_profile) of
        None \<Rightarrow> None
      | Some body \<Rightarrow>
          if s - length body < ED448_SIGNATURE_BYTES then Some None
          else Some (Some (body @ otrng_serialize_bytes_array (Some (cp_signature client_profile)) ED448_SIGNATURE_BYTES)))"

subsection \<open>Deserialization\<close>

text \<open>\<open>deserialize_dsa_key_field\<close>: the key type and four big integers are skipped, and everything
  up to there is copied.\<close>

fun skip_mpis :: "nat \<Rightarrow> bytes \<Rightarrow> nat \<Rightarrow> nat option" where
  "skip_mpis i buffer w =
     (if i = 0 then Some w
      else case otrng_mpi_deserialize_no_copy (drop w buffer) of
             None \<Rightarrow> None
           | Some (mpi, read) \<Rightarrow> skip_mpis (i - 1) buffer (w + read + unat (mpi_len mpi)))"

declare skip_mpis.simps [simp del]

definition deserialize_dsa_key_field :: "'p otrng_client_profile_s \<Rightarrow> bytes \<Rightarrow> ('p otrng_client_profile_s) parsed" where
  "deserialize_dsa_key_field target buffer = do {
     (key_type, read) \<leftarrow> otrng_deserialize_uint16 buffer;
     if key_type \<noteq> OTRL_PUBKEY_TYPE_DSA then None else do {
     w \<leftarrow> skip_mpis 4 buffer read;
     Some (target\<lparr>cp_dsa_key := Some (take w buffer)\<rparr>, w) } }"

definition c_string :: "bytes \<Rightarrow> bytes" where
  "c_string bs = takeWhile (\<lambda>b. b \<noteq> 0) bs"

definition deserialize_field ::
    "('p, 's, 'm, 'h) crypto_ops \<Rightarrow> 'p otrng_client_profile_s \<Rightarrow> bytes \<Rightarrow> ('p otrng_client_profile_s) parsed" where
  "deserialize_field C target buffer = do {
     (field_type, w) \<leftarrow> otrng_deserialize_uint16 buffer;
     let rest = drop w buffer;
     if field_type = OTRNG_CLIENT_PROFILE_FIELD_INSTANCE_TAG then do {
       (tag, read) \<leftarrow> otrng_deserialize_uint32 rest;
       Some (target\<lparr>cp_sender_instance_tag := tag\<rparr>, w + read) }
     else if field_type = OTRNG_CLIENT_PROFILE_FIELD_PUBLIC_KEY then do {
       (key, read) \<leftarrow> otrng_deserialize_public_key C rest;
       Some (target\<lparr>cp_long_term_pub_key := key\<rparr>, w + read) }
     else if field_type = OTRNG_CLIENT_PROFILE_FIELD_FORGING_KEY then do {
       (key, read) \<leftarrow> otrng_deserialize_forging_key C rest;
       Some (target\<lparr>cp_forging_pub_key := key\<rparr>, w + read) }
     else if field_type = OTRNG_CLIENT_PROFILE_FIELD_VERSIONS then do {
       (versions, read) \<leftarrow> otrng_deserialize_data rest;
       Some (target\<lparr>cp_versions := Some (case versions of None \<Rightarrow> [] | Some v \<Rightarrow> c_string v)\<rparr>, w + read) }
     else if field_type = OTRNG_CLIENT_PROFILE_FIELD_EXPIRATION then do {
       (expires, read) \<leftarrow> otrng_deserialize_uint64 rest;
       Some (target\<lparr>cp_expires := expires\<rparr>, w + read) }
     else if field_type = OTRNG_CLIENT_PROFILE_FIELD_DSA_KEY then do {
       (target, read) \<leftarrow> deserialize_dsa_key_field target rest;
       Some (target, w + read) }
     else if field_type = OTRNG_CLIENT_PROFILE_FIELD_TRANSITIONAL_SIGNATURE then do {
       sig \<leftarrow> otrng_deserialize_bytes_array OTRv3_DSA_SIG_BYTES rest;
       Some (target\<lparr>cp_transitional_signature := Some sig\<rparr>, w + OTRv3_DSA_SIG_BYTES) }
     else Some (target, w) }"

text \<open>The loop over the fields.\<close>

fun deserialize_fields ::
    "('p, 's, 'm, 'h) crypto_ops \<Rightarrow> nat \<Rightarrow> 'p otrng_client_profile_s \<Rightarrow> bytes \<Rightarrow> nat \<Rightarrow> ('p otrng_client_profile_s) parsed" where
  "deserialize_fields C num_fields target buffer w =
     (if num_fields = 0 then Some (target, w)
      else case deserialize_field C target (drop w buffer) of
             None \<Rightarrow> None
           | Some (target, read) \<Rightarrow> deserialize_fields C (num_fields - 1) target buffer (w + read))"

declare deserialize_fields.simps [simp del]

definition otrng_client_profile_deserialize ::
    "('p, 's, 'm, 'h) crypto_ops \<Rightarrow> ('p, 's) wiped \<Rightarrow> bytes \<Rightarrow> ('p otrng_client_profile_s) parsed" where
  "otrng_client_profile_deserialize C Z buffer = do {
     (num_fields, read) \<leftarrow> otrng_deserialize_uint32 buffer;
     (target, w) \<leftarrow> deserialize_fields C (unat num_fields) (client_profile_zero Z) buffer read;
     if length buffer - w < ED448_SIGNATURE_BYTES then None
     else Some (target\<lparr>cp_signature := take ED448_SIGNATURE_BYTES (drop w buffer)\<rparr>, w + ED448_SIGNATURE_BYTES) }"

definition otrng_client_profile_deserialize_with_metadata ::
    "('p, 's, 'm, 'h) crypto_ops \<Rightarrow> ('p, 's) wiped \<Rightarrow> bytes \<Rightarrow> ('p otrng_client_profile_s) parsed" where
  "otrng_client_profile_deserialize_with_metadata C Z buffer = do {
     (target, nread1) \<leftarrow> otrng_client_profile_deserialize C Z buffer;
     (should_publish, nread2) \<leftarrow> otrng_deserialize_uint8 (drop nread1 buffer);
     Some (target\<lparr>cp_should_publish := should_publish\<rparr>, nread1 + nread2) }"

subsection \<open>Signature\<close>

definition client_profile_sign ::
    "('p, 's, 'm, 'h) crypto_ops \<Rightarrow> 'p otrng_client_profile_s \<Rightarrow> ('p, 's) otrng_keypair_s \<Rightarrow> 'p otrng_client_profile_s option" where
  "client_profile_sign C client_profile keypair = (
     let client_profile = client_profile\<lparr>cp_long_term_pub_key := kp_pub keypair\<rparr> in do {
     body \<leftarrow> client_profile_body_serialize_into C client_profile;
     Some (client_profile\<lparr>cp_signature := otrng_ec_sign_simple C (kp_sym keypair) body\<rparr>) })"

definition client_profile_verify_signature :: "('p, 's, 'm, 'h) crypto_ops \<Rightarrow> 'p otrng_client_profile_s \<Rightarrow> bool option" where
  "client_profile_verify_signature C client_profile =
     (if otrng_is_empty_array (cp_signature client_profile) ED448_SIGNATURE_BYTES then Some False
      else do {
        body \<leftarrow> client_profile_body_serialize_into C client_profile;
        let pubkey = otrng_serialize_ec_point C (cp_long_term_pub_key client_profile);
        if length pubkey \<noteq> ED448_POINT_BYTES then Some False
        else Some (otrng_ec_verify C (cp_signature client_profile) pubkey body) })"

definition otrng_client_profile_build_with_custom_expiration ::
    "('p, 's, 'm, 'h) crypto_ops \<Rightarrow> ('p, 's) wiped \<Rightarrow> u32 \<Rightarrow> bytes option \<Rightarrow> ('p, 's) otrng_keypair_s option \<Rightarrow> 'p \<Rightarrow> u64
     \<Rightarrow> 'p otrng_client_profile_s outcome" where
  "otrng_client_profile_build_with_custom_expiration C Z instance_tag versions keypair forging_key expiration_time =
     (case keypair of
        None \<Rightarrow> Some None
      | Some keypair \<Rightarrow>
          if \<not> otrng_instance_tag_valid instance_tag then Some None
          else case client_profile_new Z versions of
            None \<Rightarrow> Some None
          | Some client_profile \<Rightarrow>
              map_option Some (client_profile_sign C
                (client_profile\<lparr>cp_sender_instance_tag := instance_tag, cp_expires := expiration_time,
                   cp_forging_pub_key := forging_key\<rparr>) keypair))"

definition otrng_client_profile_build ::
    "('p, 's, 'm, 'h) crypto_ops \<Rightarrow> ('p, 's) wiped \<Rightarrow> int \<Rightarrow> u32 \<Rightarrow> bytes option \<Rightarrow> ('p, 's) otrng_keypair_s option \<Rightarrow> 'p \<Rightarrow> u64
     \<Rightarrow> 'p otrng_client_profile_s outcome" where
  "otrng_client_profile_build C Z now instance_tag versions keypair forging_key expiration_time =
     otrng_client_profile_build_with_custom_expiration C Z instance_tag versions keypair forging_key (of_int now + expiration_time)"

subsection \<open>Validity\<close>

text \<open>The unsigned expiration time is read as a signed time; the time of day is an argument.\<close>

definition client_profile_expired :: "int \<Rightarrow> u64 \<Rightarrow> bool" where
  "client_profile_expired now expires \<longleftrightarrow> sint expires - now \<le> 0"

definition client_profile_invalid :: "int \<Rightarrow> u64 \<Rightarrow> u64 \<Rightarrow> bool" where
  "client_profile_invalid now expires extra_valid_time \<longleftrightarrow> sint (expires + extra_valid_time) - now \<le> 0"

fun rollback_loop :: "bytes \<Rightarrow> bool" where
  "rollback_loop [] = False"
| "rollback_loop (v # versions) = (if v \<noteq> 0x33 \<and> v \<noteq> 0x34 then True else rollback_loop versions)"

text \<open>A profile that came without versions has a \<open>NULL\<close> pointer there.\<close>

definition rollback_detected :: "bytes option \<Rightarrow> bool option" where
  "rollback_detected versions = map_option rollback_loop versions"

fun dsa_key_mpis :: "('p, 's, 'm, 'h) crypto_ops \<Rightarrow> nat \<Rightarrow> bytes \<Rightarrow> nat \<Rightarrow> 'm option list option" where
  "dsa_key_mpis C i buffer w =
     (if i = 0 then Some []
      else if \<not> w < length buffer then Some (replicate i None)
      else case otrng_deserialize_dh_mpi_otr C None (drop w buffer) of
             None \<Rightarrow> None
           | Some (mpi, read) \<Rightarrow> map_option ((#) mpi) (dsa_key_mpis C (i - 1) buffer (w + read)))"

declare dsa_key_mpis.simps [simp del]

definition generate_dsa_key_sexp :: "('p, 's, 'm, 'h) crypto_ops \<Rightarrow> bytes \<Rightarrow> 'm option list option" where
  "generate_dsa_key_sexp C buffer =
     (if buffer = [] then None
      else do {
        (key_type, w) \<leftarrow> otrng_deserialize_uint16 buffer;
        if key_type \<noteq> OTRL_PUBKEY_TYPE_DSA then None else dsa_key_mpis C 4 buffer w })"

definition client_profile_verify_transitional_signature ::
    "('p, 's, 'm, 'h) crypto_ops \<Rightarrow> 'p otrng_client_profile_s \<Rightarrow> bool option" where
  "client_profile_verify_transitional_signature C client_profile =
     (case cp_transitional_signature client_profile of
        None \<Rightarrow> Some False
      | Some sig \<Rightarrow>
          if \<not> has_dsa_key client_profile then Some False
          else case generate_dsa_key_sexp C (the (cp_dsa_key client_profile)) of
            None \<Rightarrow> Some False
          | Some pubs \<Rightarrow>
              map_option (privkey_verify C (take OTRv3_DSA_SIG_BYTES sig) pubs)
                (into_buffer (OTRNG_CLIENT_PROFILE_FIELDS_MAX_BYTES (otrng_strlen_ns (cp_versions client_profile)))
                  (fst (client_profile_body_serialize_pre_transitional_signature C client_profile))))"

definition verify_transitional_signature :: "('p, 's, 'm, 'h) crypto_ops \<Rightarrow> 'p otrng_client_profile_s \<Rightarrow> bool option" where
  "verify_transitional_signature C client_profile =
     (if \<not> has_dsa_key client_profile then Some True
      else if cp_transitional_signature client_profile = None then Some True
      else client_profile_verify_transitional_signature C client_profile)"

definition client_profile_valid_without_expiry ::
    "('p, 's, 'm, 'h) crypto_ops \<Rightarrow> 'p otrng_client_profile_s \<Rightarrow> u32 \<Rightarrow> bool option" where
  "client_profile_valid_without_expiry C client_profile sender_instance_tag = do {
     ok \<leftarrow> client_profile_verify_signature C client_profile;
     if \<not> ok then Some False
     else if sender_instance_tag \<noteq> cp_sender_instance_tag client_profile then Some False
     else do {
       rollback \<leftarrow> rollback_detected (cp_versions client_profile);
       if rollback then Some False
       else if \<not> otrng_ec_point_valid C (cp_long_term_pub_key client_profile) then Some False
       else if \<not> otrng_ec_point_valid C (cp_forging_pub_key client_profile) then Some False
       else verify_transitional_signature C client_profile } }"

definition otrng_client_profile_valid ::
    "('p, 's, 'm, 'h) crypto_ops \<Rightarrow> int \<Rightarrow> 'p otrng_client_profile_s \<Rightarrow> u32 \<Rightarrow> bool option" where
  "otrng_client_profile_valid C now client_profile sender_instance_tag = do {
     ok \<leftarrow> client_profile_valid_without_expiry C client_profile sender_instance_tag;
     if \<not> ok then Some False else Some (\<not> client_profile_expired now (cp_expires client_profile)) }"

definition otrng_client_profile_fast_valid ::
    "('p, 's, 'm, 'h) crypto_ops \<Rightarrow> int \<Rightarrow> 'p otrng_client_profile_s \<Rightarrow> u32 \<Rightarrow> (bool \<times> 'p otrng_client_profile_s) option" where
  "otrng_client_profile_fast_valid C now client_profile sender_instance_tag =
     (if cp_has_validated client_profile then
        Some (cp_validation_result client_profile \<and> \<not> client_profile_expired now (cp_expires client_profile), client_profile)
      else do {
        ok \<leftarrow> otrng_client_profile_valid C now client_profile sender_instance_tag;
        Some (ok, client_profile\<lparr>cp_validation_result := ok, cp_has_validated := True\<rparr>) })"

definition otrng_client_profile_is_close_to_expiry :: "int \<Rightarrow> 'p otrng_client_profile_s \<Rightarrow> u64 \<Rightarrow> bool" where
  "otrng_client_profile_is_close_to_expiry now client_profile buffer_time =
     client_profile_expired now (cp_expires client_profile - buffer_time)"

definition otrng_client_profile_is_expired_but_valid ::
    "('p, 's, 'm, 'h) crypto_ops \<Rightarrow> int \<Rightarrow> 'p otrng_client_profile_s \<Rightarrow> u32 \<Rightarrow> u64 \<Rightarrow> bool option" where
  "otrng_client_profile_is_expired_but_valid C now client_profile itag extra_valid_time = do {
     ok \<leftarrow> client_profile_valid_without_expiry C client_profile itag;
     Some (ok \<and> client_profile_expired now (cp_expires client_profile) \<and>
       \<not> client_profile_invalid now (cp_expires client_profile) extra_valid_time) }"

text \<open>A private key of the previous protocol version is given by the key \<open>otrl_privkey_sign\<close> uses
  and by its public part.\<close>

definition otrng_client_profile_transitional_sign ::
    "('p, 's, 'm, 'h) crypto_ops \<Rightarrow> 'p otrng_client_profile_s \<Rightarrow> u16 \<times> bytes \<times> bytes \<Rightarrow> (bool \<times> 'p otrng_client_profile_s) option" where
  "otrng_client_profile_transitional_sign C client_profile privkey =
     (case privkey of (pubkey_type, secret, pubkey_data) \<Rightarrow>
      if pubkey_type \<noteq> OTRL_PUBKEY_TYPE_DSA then Some (False, client_profile)
      else let client_profile = otrng_client_profile_set_dsa_key_mpis client_profile pubkey_data in do {
        data \<leftarrow> into_buffer (OTRNG_CLIENT_PROFILE_FIELDS_MAX_BYTES (otrng_strlen_ns (cp_versions client_profile)))
          (fst (client_profile_body_serialize_pre_transitional_signature C client_profile));
        Some (case privkey_sign C secret data of
            None \<Rightarrow> (False, client_profile)
          | Some sig \<Rightarrow>
              if length sig \<noteq> OTRv3_DSA_SIG_BYTES then (False, client_profile\<lparr>cp_transitional_signature := None\<rparr>)
              else (True, client_profile\<lparr>cp_transitional_signature := Some sig\<rparr>)) })"

definition otrng_client_profile_start_publishing :: "'p otrng_client_profile_s \<Rightarrow> 'p otrng_client_profile_s" where
  "otrng_client_profile_start_publishing client_profile = client_profile\<lparr>cp_is_publishing := True\<rparr>"

definition otrng_client_profile_should_publish :: "'p otrng_client_profile_s \<Rightarrow> bool" where
  "otrng_client_profile_should_publish client_profile \<longleftrightarrow>
     cp_should_publish client_profile \<noteq> 0 \<and> \<not> cp_is_publishing client_profile"

subsection \<open>The fields read back\<close>

text \<open>A field is given by its bytes and by what reading it does to the profile.\<close>

definition reads_field :: "('p, 's, 'm, 'h) crypto_ops \<Rightarrow> bytes \<times> ('p otrng_client_profile_s \<Rightarrow> 'p otrng_client_profile_s) \<Rightarrow> bool" where
  "reads_field C f \<longleftrightarrow> (\<forall>t rest. deserialize_field C t (fst f @ rest) = Some (snd f t, length (fst f)))"

lemma deserialize_fields_all:
  assumes "list_all (reads_field C) fs"
  shows "deserialize_fields C (length fs) t (pre @ concat (map fst fs) @ rest) (length pre) =
     Some (fold snd fs t, length pre + length (concat (map fst fs)))"
  using assms
proof (induction fs arbitrary: t pre)
  case Nil
  then show ?case by (subst deserialize_fields.simps) simp
next
  case (Cons f fs)
  then have "deserialize_field C t (fst f @ concat (map fst fs) @ rest) = Some (snd f t, length (fst f))"
    by (simp add: reads_field_def)
  with Cons.IH[of "snd f t" "pre @ fst f"] Cons.prems show ?case
    by (subst deserialize_fields.simps) (simp add: add.assoc)
qed

lemma skip_mpis_extend:
  "skip_mpis i k w = Some n \<Longrightarrow> w \<le> length k \<Longrightarrow> skip_mpis i (k @ r) w = Some n \<and> n \<le> length k"
proof (induction i k w arbitrary: n rule: skip_mpis.induct)
  case (1 i k w)
  show ?case
  proof (cases "i = 0")
    case True
    with "1.prems" show ?thesis by (simp add: skip_mpis.simps)
  next
    case False
    with "1.prems" obtain m read where m: "otrng_mpi_deserialize_no_copy (drop w k) = Some (m, read)"
      and n: "skip_mpis (i - 1) k (w + read + unat (mpi_len m)) = Some n"
      by (subst (asm) skip_mpis.simps) (auto split: option.splits)
    have "w + read + unat (mpi_len m) \<le> length k"
      using m "1.prems"(2) by (auto simp: otrng_mpi_deserialize_no_copy_def otr_mpi_read_len_def deserialize_uint32_Some
          split: option.splits if_splits)
    then have "skip_mpis (i - 1) (k @ r) (w + read + unat (mpi_len m)) = Some n \<and> n \<le> length k"
      using "1.IH"[OF False m refl, of n] n by simp
    moreover have "otrng_mpi_deserialize_no_copy (drop w (k @ r)) = Some (m, read)"
      using mpi_read_extend[OF m, of r] "1.prems"(2) by simp
    ultimately show ?thesis using False by (subst skip_mpis.simps) simp
  qed
qed

definition wf_dsa_key :: "bytes \<Rightarrow> bool" where
  "wf_dsa_key k \<longleftrightarrow> otrng_deserialize_uint16 k = Some (OTRL_PUBKEY_TYPE_DSA, 2) \<and> skip_mpis 4 k 2 = Some (length k)"

lemma deserialize_uint16_extend:
  "otrng_deserialize_uint16 bs = Some (x, n) \<Longrightarrow> otrng_deserialize_uint16 (bs @ r) = Some (x, n)"
  by (auto simp: wire_defs nth_append split: if_splits)

lemma deserialize_dsa_key_field_eq:
  assumes "wf_dsa_key k"
  shows "deserialize_dsa_key_field t (k @ rest) = Some (t\<lparr>cp_dsa_key := Some k\<rparr>, length k)"
proof -
  from assms have u: "otrng_deserialize_uint16 k = Some (OTRL_PUBKEY_TYPE_DSA, 2)" and m: "skip_mpis 4 k 2 = Some (length k)"
    by (simp_all add: wf_dsa_key_def)
  have "skip_mpis 4 (k @ rest) 2 = Some (length k)"
    using skip_mpis_extend[OF m] deserialize_uint_bounded(3)[OF u] by simp
  with deserialize_uint16_extend[OF u, of rest] show ?thesis by (simp add: deserialize_dsa_key_field_def)
qed

text \<open>The seven fields.\<close>

lemma reads_fields:
  assumes G: "goldilocks_ok C S"
  shows "reads_field C (otrng_serialize_uint16 OTRNG_CLIENT_PROFILE_FIELD_INSTANCE_TAG @ otrng_serialize_uint32 tag,
      cp_sender_instance_tag_update (\<lambda>_. tag))"
    and "reads_field C (otrng_serialize_uint16 OTRNG_CLIENT_PROFILE_FIELD_PUBLIC_KEY @ otrng_serialize_public_key C p,
      cp_long_term_pub_key_update (\<lambda>_. wire_point C p))"
    and "reads_field C (otrng_serialize_uint16 OTRNG_CLIENT_PROFILE_FIELD_FORGING_KEY @ otrng_serialize_forging_key C p,
      cp_forging_pub_key_update (\<lambda>_. wire_point C p))"
    and "length v < 2 ^ 32 \<Longrightarrow> 0 \<notin> set v \<Longrightarrow>
      reads_field C (otrng_serialize_uint16 OTRNG_CLIENT_PROFILE_FIELD_VERSIONS @ otrng_serialize_data (Some v) (length v),
        cp_versions_update (\<lambda>_. Some v))"
    and "reads_field C (otrng_serialize_uint16 OTRNG_CLIENT_PROFILE_FIELD_EXPIRATION @ otrng_serialize_uint64 e,
      cp_expires_update (\<lambda>_. e))"
    and "wf_dsa_key k \<Longrightarrow> reads_field C (otrng_serialize_uint16 OTRNG_CLIENT_PROFILE_FIELD_DSA_KEY @ k, cp_dsa_key_update (\<lambda>_. Some k))"
    and "length g = OTRv3_DSA_SIG_BYTES \<Longrightarrow>
      reads_field C (otrng_serialize_uint16 OTRNG_CLIENT_PROFILE_FIELD_TRANSITIONAL_SIGNATURE @ g,
        cp_transitional_signature_update (\<lambda>_. Some g))"
proof -
  have v: "0 \<notin> set v \<Longrightarrow> c_string v = v" by (auto simp: c_string_def takeWhile_eq_all_conv)
  show "length v < 2 ^ 32 \<Longrightarrow> 0 \<notin> set v \<Longrightarrow>
      reads_field C (otrng_serialize_uint16 OTRNG_CLIENT_PROFILE_FIELD_VERSIONS @ otrng_serialize_data (Some v) (length v),
        cp_versions_update (\<lambda>_. Some v))"
    by (auto simp: reads_field_def deserialize_field_def u16.dec_enc deserialize_data_serialize length_serialize_data const_defs v)
qed (simp_all add: reads_field_def deserialize_field_def u16.dec_enc u32.dec_enc u64.dec_enc const_defs
    otrng_deserialize_bytes_array_def deserialize_dsa_key_field_eq otrng_serialize_public_key_def otrng_deserialize_public_key_def
    otrng_serialize_forging_key_def otrng_deserialize_forging_key_def wire_point[OF G] length_serialize_group[OF G])

subsection \<open>A profile after the wire\<close>

definition wf_profile :: "'p otrng_client_profile_s \<Rightarrow> bool" where
  "wf_profile p \<longleftrightarrow> (case cp_versions p of None \<Rightarrow> False | Some v \<Rightarrow> 0 \<notin> set v \<and> length v < 2 ^ 32) \<and>
     (case cp_dsa_key p of None \<Rightarrow> True | Some k \<Rightarrow> wf_dsa_key k) \<and>
     (case cp_transitional_signature p of None \<Rightarrow> True | Some g \<Rightarrow> length g = OTRv3_DSA_SIG_BYTES) \<and>
     length (cp_signature p) = ED448_SIGNATURE_BYTES"

definition profile_fields ::
    "('p, 's, 'm, 'h) crypto_ops \<Rightarrow> 'p otrng_client_profile_s
     \<Rightarrow> (bytes \<times> ('p otrng_client_profile_s \<Rightarrow> 'p otrng_client_profile_s)) list" where
  "profile_fields C p =
     [(otrng_serialize_uint16 OTRNG_CLIENT_PROFILE_FIELD_INSTANCE_TAG @ otrng_serialize_uint32 (cp_sender_instance_tag p),
         cp_sender_instance_tag_update (\<lambda>_. cp_sender_instance_tag p)),
      (otrng_serialize_uint16 OTRNG_CLIENT_PROFILE_FIELD_PUBLIC_KEY @ otrng_serialize_public_key C (cp_long_term_pub_key p),
         cp_long_term_pub_key_update (\<lambda>_. wire_point C (cp_long_term_pub_key p))),
      (otrng_serialize_uint16 OTRNG_CLIENT_PROFILE_FIELD_FORGING_KEY @ otrng_serialize_forging_key C (cp_forging_pub_key p),
         cp_forging_pub_key_update (\<lambda>_. wire_point C (cp_forging_pub_key p))),
      (otrng_serialize_uint16 OTRNG_CLIENT_PROFILE_FIELD_VERSIONS @
         otrng_serialize_data (Some (the (cp_versions p))) (length (the (cp_versions p))),
         cp_versions_update (\<lambda>_. Some (the (cp_versions p)))),
      (otrng_serialize_uint16 OTRNG_CLIENT_PROFILE_FIELD_EXPIRATION @ otrng_serialize_uint64 (cp_expires p),
         cp_expires_update (\<lambda>_. cp_expires p))] @
     (case cp_dsa_key p of None \<Rightarrow> [] | Some k \<Rightarrow>
        [(otrng_serialize_uint16 OTRNG_CLIENT_PROFILE_FIELD_DSA_KEY @ k, cp_dsa_key_update (\<lambda>_. Some k))]) @
     (case cp_transitional_signature p of None \<Rightarrow> [] | Some g \<Rightarrow>
        [(otrng_serialize_uint16 OTRNG_CLIENT_PROFILE_FIELD_TRANSITIONAL_SIGNATURE @ g,
          cp_transitional_signature_update (\<lambda>_. Some g))])"

definition wire_profile :: "('p, 's, 'm, 'h) crypto_ops \<Rightarrow> 'p otrng_client_profile_s \<Rightarrow> 'p otrng_client_profile_s" where
  "wire_profile C p = p\<lparr>cp_long_term_pub_key := wire_point C (cp_long_term_pub_key p),
     cp_forging_pub_key := wire_point C (cp_forging_pub_key p), cp_should_publish := 0, cp_is_publishing := False,
     cp_has_validated := False, cp_validation_result := False\<rparr>"

lemma wire_profile_simps [simp]:
  "cp_versions (wire_profile C p) = cp_versions p" "cp_expires (wire_profile C p) = cp_expires p"
  "cp_sender_instance_tag (wire_profile C p) = cp_sender_instance_tag p" "cp_dsa_key (wire_profile C p) = cp_dsa_key p"
  "cp_transitional_signature (wire_profile C p) = cp_transitional_signature p" "cp_signature (wire_profile C p) = cp_signature p"
  "cp_long_term_pub_key (wire_profile C p) = wire_point C (cp_long_term_pub_key p)"
  "cp_forging_pub_key (wire_profile C p) = wire_point C (cp_forging_pub_key p)"
  by (simp_all add: wire_profile_def)

lemma body_ignores_signature [simp]:
  "client_profile_body_serialize C (p\<lparr>cp_signature := g\<rparr>) = client_profile_body_serialize C p"
  by (simp add: client_profile_body_serialize_def client_profile_body_serialize_pre_transitional_signature_def
      has_dsa_key_def Let_def)

lemma wf_dsa_key_nonempty: "wf_dsa_key k \<Longrightarrow> k \<noteq> []"
  by (auto simp: wf_dsa_key_def dest: deserialize_uint_bounded(3))

lemma wf_profile_versions:
  assumes "wf_profile p"
  obtains v where "cp_versions p = Some v" "0 \<notin> set v" "length v < 2 ^ 32"
  using assms by (cases "cp_versions p") (auto simp: wf_profile_def)

lemma body_serialize_eq:
  assumes wf: "wf_profile p"
  shows "client_profile_body_serialize C p = otrng_serialize_uint32 (of_nat (length (profile_fields C p))) @
     concat (map fst (profile_fields C p))"
proof -
  obtain v where v: "cp_versions p = Some v" by (rule wf_profile_versions[OF wf])
  show ?thesis
    using wf v wf_dsa_key_nonempty
    by (auto simp: client_profile_body_serialize_def client_profile_body_serialize_pre_transitional_signature_def
        profile_fields_def has_dsa_key_def otrng_strlen_ns_def otrng_serialize_bytes_array_def wf_profile_def Let_def
        split: option.splits)
qed

lemma profile_fields_read:
  assumes G: "goldilocks_ok C S" and wf: "wf_profile p"
  shows "list_all (reads_field C) (profile_fields C p)"
proof -
  obtain v where v: "cp_versions p = Some v" "0 \<notin> set v" "length v < 2 ^ 32" by (rule wf_profile_versions[OF wf])
  show ?thesis
    using wf by (auto simp: profile_fields_def reads_fields[OF G] v wf_profile_def split: option.splits)
qed

lemma profile_deserialize_body:
  assumes G: "goldilocks_ok C S" and wf: "wf_profile p"
  shows "otrng_client_profile_deserialize C Z (client_profile_body_serialize C p @ cp_signature p @ rest) =
     Some (wire_profile C p, length (client_profile_body_serialize C p) + ED448_SIGNATURE_BYTES)"
proof -
  let ?fs = "profile_fields C p"
  let ?n = "otrng_serialize_uint32 (of_nat (length ?fs))"
  obtain v where v: "cp_versions p = Some v" by (rule wf_profile_versions[OF wf])
  have l: "length ?fs < 2 ^ 32" by (simp add: profile_fields_def split: option.splits)
  have f: "deserialize_fields C (length ?fs) (client_profile_zero Z) (?n @ concat (map fst ?fs) @ cp_signature p @ rest) 4 =
     Some (fold snd ?fs (client_profile_zero Z), 4 + length (concat (map fst ?fs)))"
    using deserialize_fields_all[OF profile_fields_read[OF G wf], of "client_profile_zero Z" ?n "cp_signature p @ rest"] by simp
  have e: "(fold snd ?fs (client_profile_zero Z))\<lparr>cp_signature := cp_signature p\<rparr> = wire_profile C p"
    using v by (cases p) (simp add: profile_fields_def client_profile_zero_def wire_profile_def split: option.splits)
  show ?thesis
    using f e wf l
    by (simp add: otrng_client_profile_deserialize_def body_serialize_eq[OF wf] u32.dec_enc of_nat_u32_unat wf_profile_def)
qed

lemma wire_profile_body:
  assumes G: "goldilocks_ok C S" and wf: "wf_profile p"
  shows "wf_profile (wire_profile C p)"
    and "client_profile_body_serialize C (wire_profile C p) = client_profile_body_serialize C p"
proof -
  show w: "wf_profile (wire_profile C p)" using wf by (simp add: wf_profile_def wire_profile_def)
  show "client_profile_body_serialize C (wire_profile C p) = client_profile_body_serialize C p"
    unfolding body_serialize_eq[OF w] body_serialize_eq[OF wf]
    by (simp add: profile_fields_def wire_profile_def otrng_serialize_public_key_def otrng_serialize_forging_key_def
        wire_bytes(1)[OF G] split: option.splits)
qed

definition opt_len :: "bytes option \<Rightarrow> nat" where
  "opt_len x = (case x of None \<Rightarrow> 0 | Some b \<Rightarrow> 2 + length b)"

lemma length_body:
  assumes G: "goldilocks_ok C S" and wf: "wf_profile p"
  shows "length (client_profile_body_serialize C p) =
     148 + otrng_strlen_ns (cp_versions p) + opt_len (cp_dsa_key p) + opt_len (cp_transitional_signature p)"
proof -
  obtain v where v: "cp_versions p = Some v" by (rule wf_profile_versions[OF wf])
  then show ?thesis
    unfolding body_serialize_eq[OF wf]
    by (simp add: profile_fields_def otrng_serialize_public_key_def otrng_serialize_forging_key_def opt_len_def
        otrng_strlen_ns_def length_serialize_data length_serialize_group[OF G] split: option.splits)
qed

lemma profile_size_max: "OTRNG_CLIENT_PROFILE_FIELDS_MAX_BYTES v = 970 + v"
  by (simp add: OTRNG_CLIENT_PROFILE_FIELDS_MAX_BYTES_def const_defs)

lemma client_profile_roundtrip_aux:
  assumes G: "goldilocks_ok C S" and wf: "wf_profile p"
    and fits: "opt_len (cp_dsa_key p) + opt_len (cp_transitional_signature p) \<le> 826"
  shows "\<exists>bs. otrng_client_profile_serialize C p = Some (Some bs) \<and>
     otrng_client_profile_deserialize C Z (bs @ rest) = Some (wire_profile C p, length bs) \<and>
     otrng_client_profile_serialize C (wire_profile C p) = Some (Some bs)"
proof -
  note w = wire_profile_body[OF G wf]
  have "otrng_client_profile_serialize C p = Some (Some (client_profile_body_serialize C p @ cp_signature p))"
    using fits length_body[OF G wf] wf
    by (simp add: otrng_client_profile_serialize_def OTRNG_CLIENT_PROFILE_MAX_BYTES_def profile_size_max Let_def
        otrng_serialize_bytes_array_def wf_profile_def)
  moreover have "otrng_client_profile_serialize C (wire_profile C p) = Some (Some (client_profile_body_serialize C p @ cp_signature p))"
    using fits length_body[OF G wf] wf w(2)
    by (simp add: otrng_client_profile_serialize_def OTRNG_CLIENT_PROFILE_MAX_BYTES_def profile_size_max Let_def
        otrng_serialize_bytes_array_def wf_profile_def wire_profile_def)
  moreover have "length (cp_signature p) = ED448_SIGNATURE_BYTES" using wf by (simp add: wf_profile_def)
  ultimately show ?thesis using profile_deserialize_body[OF G wf, of Z rest] by simp
qed

text \<open>A client profile whose DSA key and transitional signature take at most 826 bytes is serialized
  without overrunning the buffer, and reading it back from the start of a longer message gives the
  same profile: every signed field, the signature, and keys that stand for the same points.\<close>

theorem client_profile_roundtrip:
  assumes G: "goldilocks_ok C S" and wf: "wf_profile p"
    and fits: "opt_len (cp_dsa_key p) + opt_len (cp_transitional_signature p) \<le> 826"
  shows "\<exists>bs. otrng_client_profile_serialize C p = Some (Some bs) \<and>
     otrng_client_profile_deserialize C Z (bs @ rest) = Some (wire_profile C p, length bs) \<and>
     otrng_client_profile_serialize C (wire_profile C p) = Some (Some bs)"
  by (rule client_profile_roundtrip_aux[OF assms])

lemma keypair_public_bytes:
  assumes G: "goldilocks_ok C S" and k: "otrng_keypair_generate C seed = Some kp"
  shows "otrng_serialize_ec_point C (kp_pub kp) = derive_public_key C (kp_sym kp)"
    and "dlog S (kp_pub kp) = sval S (kp_priv kp)"
proof -
  let ?s = "take ED448_PRIVATE_BYTES seed"
  let ?P = "point_scalarmul C (point_base C) (derive_secret_scalar C ?s)"
  have d: "derive_public_key C ?s = point_encode_like_eddsa C ?P"
    using G unfolding goldilocks_ok_def point_laws_def by blast
  obtain q where q: "otrng_ec_point_decode C (point_encode_like_eddsa C ?P @ []) = Some q" "dlog S q = dlog S ?P"
    by (rule ec_point_roundtrip[OF G])
  have kp: "kp_pub kp = q" "kp_sym kp = ?s" "kp_priv kp = derive_secret_scalar C ?s"
    using k q(1) d by (auto simp: otrng_keypair_generate_def)
  show "otrng_serialize_ec_point C (kp_pub kp) = derive_public_key C (kp_sym kp)"
    unfolding kp d using goldilocks_point(10)[OF G, of q ?P] q(2) by (simp add: serialize_ec_point_eq)
  show "dlog S (kp_pub kp) = sval S (kp_priv kp)"
    using q(2) goldilocks_point(3,6)[OF G] goldilocks_scalar(9)[OF G] kp by simp
qed

lemma signed_profile_verifies:
  assumes G: "goldilocks_ok C S" and E: "eddsa_ok C" and k: "otrng_keypair_generate C seed = Some kp"
    and b: "client_profile_body_serialize_into C p = Some body"
    and "dlog S (cp_long_term_pub_key p) = dlog S (kp_pub kp)"
    and "cp_signature p = otrng_ec_sign_simple C (kp_sym kp) body"
  shows "client_profile_verify_signature C p = Some True"
proof -
  have "otrng_serialize_ec_point C (cp_long_term_pub_key p) = derive_public_key C (kp_sym kp)"
    using wire_cong(1)[OF G assms(5)] keypair_public_bytes(1)[OF G k] by simp
  moreover have "length (otrng_serialize_ec_point C (cp_long_term_pub_key p)) = ED448_POINT_BYTES"
    by (simp add: length_serialize_group[OF G] const_defs)
  ultimately show ?thesis
    using E b assms(6)
    by (simp add: client_profile_verify_signature_def otrng_ec_sign_simple_def otrng_ec_sign_def otrng_ec_verify_def eddsa_ok_def)
qed

lemma rollback_loop_iff: "rollback_loop v \<longleftrightarrow> \<not> set v \<subseteq> {0x33, 0x34}"
  by (induction v) auto

lemma client_profile_build_ok:
  assumes G: "goldilocks_ok C S" and E: "eddsa_ok C" and k: "otrng_keypair_generate C seed = Some kp"
    and tag: "otrng_instance_tag_valid tag" and v: "set v \<subseteq> {0x33, 0x34}" "length v < 2 ^ 32"
  obtains p where "otrng_client_profile_build_with_custom_expiration C Z tag (Some v) (Some kp) F expires = Some (Some p)"
    "wf_profile p" "cp_dsa_key p = None" "cp_transitional_signature p = None" "cp_versions p = Some v"
    "cp_sender_instance_tag p = tag" "cp_long_term_pub_key p = kp_pub kp" "cp_forging_pub_key p = F"
    "\<And>now. otrng_client_profile_valid C now (wire_profile C p) tag = Some (now < sint expires)"
proof -
  let ?u = "(client_profile_zero Z)\<lparr>cp_versions := Some v, cp_sender_instance_tag := tag, cp_expires := expires,
     cp_forging_pub_key := F, cp_long_term_pub_key := kp_pub kp\<rparr>"
  let ?body = "client_profile_body_serialize C ?u"
  let ?p = "?u\<lparr>cp_signature := otrng_ec_sign_simple C (kp_sym kp) ?body\<rparr>"
  have wu: "wf_profile ?u" using v by (auto simp: wf_profile_def client_profile_zero_def)
  have wp: "wf_profile ?p"
    using wu E by (simp add: wf_profile_def otrng_ec_sign_simple_def otrng_ec_sign_def eddsa_ok_def)
  have n: "cp_dsa_key ?p = None" "cp_transitional_signature ?p = None" by (simp_all add: client_profile_zero_def)
  have into: "client_profile_body_serialize_into C q = Some ?body"
    if "client_profile_body_serialize C q = ?body" "cp_versions q = Some v" for q
    using that length_body[OF G wu] n
    by (simp add: client_profile_body_serialize_into_def profile_size_max otrng_strlen_ns_def opt_len_def)
  have build: "otrng_client_profile_build_with_custom_expiration C Z tag (Some v) (Some kp) F expires = Some (Some ?p)"
    using tag into[of ?u]
    by (simp add: otrng_client_profile_build_with_custom_expiration_def client_profile_new_def client_profile_sign_def Let_def)
  have "client_profile_verify_signature C (wire_profile C ?p) = Some True"
    by (rule signed_profile_verifies[OF G E k into])
       (simp_all add: wire_profile_body(2)[OF G wp] wire_point(3)[OF G])
  then have "otrng_client_profile_valid C now (wire_profile C ?p) tag = Some (now < sint expires)" for now
    using v(1) n
    by (auto simp: otrng_client_profile_valid_def client_profile_valid_without_expiry_def rollback_detected_def
        rollback_loop_iff otrng_ec_point_valid_def goldilocks_point(8)[OF G] verify_transitional_signature_def has_dsa_key_def
        client_profile_expired_def)
  with build wp n show ?thesis by (intro that[of ?p]) simp_all
qed

text \<open>C18: a profile that a client builds for itself with a valid instance tag and versions 3 and 4 is
  accepted by everyone who receives it, until the moment it expires.\<close>

theorem client_profile_build_valid:
  assumes G: "goldilocks_ok C S" and E: "eddsa_ok C" and k: "otrng_keypair_generate C seed = Some kp"
    and tag: "otrng_instance_tag_valid tag" and v: "set v \<subseteq> {0x33, 0x34}" "length v < 2 ^ 32"
  shows "\<exists>p bs. otrng_client_profile_build_with_custom_expiration C Z tag (Some v) (Some kp) F expires = Some (Some p) \<and>
     otrng_client_profile_serialize C p = Some (Some bs) \<and>
     otrng_client_profile_deserialize C Z (bs @ rest) = Some (wire_profile C p, length bs) \<and>
     otrng_client_profile_valid C now (wire_profile C p) tag = Some (now < sint expires)"
proof -
  obtain p where "otrng_client_profile_build_with_custom_expiration C Z tag (Some v) (Some kp) F expires = Some (Some p)"
    "wf_profile p" "cp_dsa_key p = None" "cp_transitional_signature p = None"
    "\<And>now. otrng_client_profile_valid C now (wire_profile C p) tag = Some (now < sint expires)"
    by (rule client_profile_build_ok[OF assms, of Z F expires]) blast
  then show ?thesis using client_profile_roundtrip_aux[OF G, of p Z rest] by (auto simp: opt_len_def)
qed

text \<open>C33: the buffer for the signed part of a profile is too small for what a peer may send: when the
  DSA key and the transitional signature take more than 822 bytes, a received profile with any non-zero
  signature makes the check of its validity write beyond the end of the buffer, before the signature is
  looked at.\<close>

theorem client_profile_dsa_overflow:
  assumes G: "goldilocks_ok C S" and wf: "wf_profile p"
    and big: "822 < opt_len (cp_dsa_key p) + opt_len (cp_transitional_signature p)"
    and sig: "\<not> otrng_is_empty_array (cp_signature p) ED448_SIGNATURE_BYTES"
  shows "\<exists>bs. otrng_client_profile_deserialize C Z bs = Some (wire_profile C p, length bs) \<and>
     otrng_client_profile_valid C now (wire_profile C p) tag = None"
proof -
  have "client_profile_body_serialize_into C (wire_profile C p) = None"
    using big length_body[OF G wf]
    by (simp add: client_profile_body_serialize_into_def wire_profile_body(2)[OF G wf] profile_size_max)
  then have "otrng_client_profile_valid C now (wire_profile C p) tag = None"
    using sig by (simp add: otrng_client_profile_valid_def client_profile_valid_without_expiry_def
        client_profile_verify_signature_def)
  moreover have "otrng_client_profile_deserialize C Z (client_profile_body_serialize C p @ cp_signature p) =
      Some (wire_profile C p, length (client_profile_body_serialize C p @ cp_signature p))"
    using profile_deserialize_body[OF G wf, of Z "[]"] wf by (simp add: wf_profile_def)
  ultimately show ?thesis by blast
qed

text \<open>C34: a profile may lack the field with the versions.  If its owner signs it as the library would, it is read from the
  wire, its signature is accepted and its instance tag is the expected one; the search for a rollback then reads through the
  \<open>NULL\<close> pointer in the place of the versions, and with it the check of the validity.\<close>

theorem client_profile_no_versions_fault:
  fixes C :: "('p, 's, 'm, 'h) crypto_ops"
  assumes G: "goldilocks_ok C S" and E: "eddsa_ok C" and k: "otrng_keypair_generate C seed = Some kp"
  shows "\<exists>bs p. otrng_client_profile_deserialize C Z bs = Some (p, length bs) \<and> cp_versions p = None \<and>
     client_profile_verify_signature C p = Some True \<and> cp_sender_instance_tag p = tag \<and>
     rollback_detected (cp_versions p) = None \<and> otrng_client_profile_valid C now p tag = None"
proof -
  let ?u = "(client_profile_zero Z)\<lparr>cp_sender_instance_tag := tag, cp_long_term_pub_key := wire_point C (kp_pub kp)\<rparr>"
  let ?p = "?u\<lparr>cp_signature := otrng_ec_sign_simple C (kp_sym kp) (client_profile_body_serialize C ?u)\<rparr>"
  let ?fs = "[(otrng_serialize_uint16 OTRNG_CLIENT_PROFILE_FIELD_INSTANCE_TAG @ otrng_serialize_uint32 tag,
         cp_sender_instance_tag_update (\<lambda>_. tag)),
      (otrng_serialize_uint16 OTRNG_CLIENT_PROFILE_FIELD_PUBLIC_KEY @ otrng_serialize_public_key C (kp_pub kp),
         cp_long_term_pub_key_update (\<lambda>_. wire_point C (kp_pub kp)))]
      :: (bytes \<times> ('p otrng_client_profile_s \<Rightarrow> 'p otrng_client_profile_s)) list"
  let ?bs = "otrng_serialize_uint32 2 @ concat (map fst ?fs) @ cp_signature ?p"
  have sig: "length (cp_signature ?p) = ED448_SIGNATURE_BYTES"
    using E by (simp add: otrng_ec_sign_simple_def otrng_ec_sign_def eddsa_ok_def)
  have "deserialize_fields C 2 (client_profile_zero Z) ?bs 4 = Some (?u, 4 + length (concat (map fst ?fs)))"
    using deserialize_fields_all[of C ?fs "client_profile_zero Z" "otrng_serialize_uint32 2" "cp_signature ?p"]
    by (simp add: reads_fields[OF G] numeral_2_eq_2)
  then have "otrng_client_profile_deserialize C Z ?bs = Some (?p, length ?bs)"
    using sig by (simp add: otrng_client_profile_deserialize_def u32.dec_enc)
  moreover have "client_profile_body_serialize_into C ?p = Some (client_profile_body_serialize C ?u)"
    by (simp add: client_profile_body_serialize_into_def client_profile_body_serialize_def has_dsa_key_def Let_def
        client_profile_body_serialize_pre_transitional_signature_def client_profile_zero_def profile_size_max
        otrng_serialize_public_key_def otrng_serialize_forging_key_def length_serialize_group[OF G]
        otrng_serialize_data_def otrng_serialize_bytes_array_def otrng_strlen_ns_def)
  then have v: "client_profile_verify_signature C ?p = Some True"
    by (rule signed_profile_verifies[OF G E k]) (simp_all add: wire_point(3)[OF G])
  then have "otrng_client_profile_valid C now ?p tag = None"
    by (simp add: otrng_client_profile_valid_def client_profile_valid_without_expiry_def rollback_detected_def client_profile_zero_def)
  moreover have "cp_versions ?p = None" "cp_sender_instance_tag ?p = tag" by (simp_all add: client_profile_zero_def)
  moreover have "rollback_detected (cp_versions ?p) = None" by (simp add: rollback_detected_def client_profile_zero_def)
  ultimately show ?thesis using v by blast
qed

subsection \<open>Concrete profiles\<close>

definition ex_zero :: "(int, int) wiped" where
  "ex_zero = \<lparr>zero_scalar = 0, zero_point = 0\<rparr>"

definition ex_keypair :: "byte \<Rightarrow> (int, int) otrng_keypair_s" where
  "ex_keypair b = the (otrng_keypair_generate ex_crypto [b])"

lemma ex_keypair_generated: "otrng_keypair_generate ex_crypto [b] = Some (ex_keypair b)"
  by (simp add: ex_keypair_def otrng_keypair_generate_def otrng_ec_point_decode_def ex_crypto_def)

text \<open>A DSA key of four integers of 210 bytes each.\<close>

definition ex_mpi :: bytes where
  "ex_mpi = otrng_serialize_uint32 210 @ replicate 210 1"

definition ex_profile :: "bytes option \<Rightarrow> int otrng_client_profile_s" where
  "ex_profile key = (client_profile_zero ex_zero)\<lparr>cp_sender_instance_tag := 0x200, cp_versions := Some [0x34],
     cp_dsa_key := key, cp_signature := replicate 114 1\<rparr>"

lemma ex_mpi_skip: "skip_mpis (Suc i) (pre @ ex_mpi @ rest) (length pre) = skip_mpis i (pre @ ex_mpi @ rest) (214 + length pre)"
  by (subst skip_mpis.simps)
     (simp add: otrng_mpi_deserialize_no_copy_def otr_mpi_read_len_def ex_mpi_def u32.dec_enc)

lemma ex_dsa_key: "wf_dsa_key ([0, 0] @ ex_mpi @ ex_mpi @ ex_mpi @ ex_mpi)"
proof -
  have l: "length ex_mpi = 214" by (simp add: ex_mpi_def)
  let ?k = "[0, 0] @ ex_mpi @ ex_mpi @ ex_mpi @ ex_mpi"
  have "skip_mpis (Suc (Suc (Suc (Suc 0)))) ?k 2 = Some 858"
    using ex_mpi_skip[of "Suc (Suc (Suc 0))" "[0, 0]" "ex_mpi @ ex_mpi @ ex_mpi"]
      ex_mpi_skip[of "Suc (Suc 0)" "[0, 0] @ ex_mpi" "ex_mpi @ ex_mpi"]
      ex_mpi_skip[of "Suc 0" "[0, 0] @ ex_mpi @ ex_mpi" "ex_mpi"]
      ex_mpi_skip[of 0 "[0, 0] @ ex_mpi @ ex_mpi @ ex_mpi" "[]"]
    by (simp add: l skip_mpis.simps[of 0] numeral_2_eq_2)
  moreover have "otrng_deserialize_uint16 ?k = Some (OTRL_PUBKEY_TYPE_DSA, 2)"
    by (simp add: wire_defs const_defs)
  ultimately show ?thesis by (simp add: wf_dsa_key_def l numeral_eq_Suc)
qed

lemma ex_profile_wf: "wf_profile (ex_profile None)" "wf_dsa_key k \<Longrightarrow> wf_profile (ex_profile (Some k))"
  by (simp_all add: wf_profile_def ex_profile_def client_profile_zero_def const_defs)

theorem client_profile_roundtrip_witness:
  "\<exists>bs. otrng_client_profile_serialize ex_crypto (ex_profile None) = Some (Some bs) \<and>
     otrng_client_profile_deserialize ex_crypto ex_zero (bs @ [5]) = Some (wire_profile ex_crypto (ex_profile None), length bs) \<and>
     otrng_client_profile_serialize ex_crypto (wire_profile ex_crypto (ex_profile None)) = Some (Some bs)"
  by (rule client_profile_roundtrip[OF ex_goldilocks_ok ex_profile_wf(1)])
     (simp add: ex_profile_def client_profile_zero_def opt_len_def)

theorem client_profile_build_valid_witness:
  "\<exists>p bs. otrng_client_profile_build_with_custom_expiration ex_crypto ex_zero 0x200 (Some [0x34]) (Some (ex_keypair 3)) 5 100 = Some (Some p) \<and>
     otrng_client_profile_serialize ex_crypto p = Some (Some bs) \<and>
     otrng_client_profile_deserialize ex_crypto ex_zero (bs @ []) = Some (wire_profile ex_crypto p, length bs) \<and>
     otrng_client_profile_valid ex_crypto 99 (wire_profile ex_crypto p) 0x200 = Some (99 < sint (100 :: u64))"
  by (rule client_profile_build_valid[OF ex_goldilocks_ok ex_eddsa_ok ex_keypair_generated])
     (simp_all add: otrng_instance_tag_valid_def const_defs)

theorem client_profile_dsa_overflow_witness:
  "\<exists>bs. otrng_client_profile_deserialize ex_crypto ex_zero bs =
       Some (wire_profile ex_crypto (ex_profile (Some ([0, 0] @ ex_mpi @ ex_mpi @ ex_mpi @ ex_mpi))), length bs) \<and>
     otrng_client_profile_valid ex_crypto 0 (wire_profile ex_crypto (ex_profile (Some ([0, 0] @ ex_mpi @ ex_mpi @ ex_mpi @ ex_mpi)))) 1 = None"
  by (rule client_profile_dsa_overflow[OF ex_goldilocks_ok ex_profile_wf(2)[OF ex_dsa_key]])
     (simp_all add: ex_profile_def opt_len_def ex_mpi_def client_profile_zero_def otrng_is_empty_array_iff const_defs
        Cons_replicate_eq replicate_eq_replicate)

theorem client_profile_no_versions_fault_witness:
  "\<exists>bs p. otrng_client_profile_deserialize ex_crypto ex_zero bs = Some (p, length bs) \<and> cp_versions p = None \<and>
     client_profile_verify_signature ex_crypto p = Some True \<and> cp_sender_instance_tag p = 0x200 \<and>
     rollback_detected (cp_versions p) = None \<and> otrng_client_profile_valid ex_crypto 0 p 0x200 = None"
  by (rule client_profile_no_versions_fault[OF ex_goldilocks_ok ex_eddsa_ok ex_keypair_generated])

end
