(* ===== verification/Data_Message.thy ===== *)
theory Data_Message
  imports Crypto_Instance Key_Management
begin

text \<open>
  \<open>data_message.c\<close>: the format of a data message and its authentication.  A \<open>NULL\<close> encrypted
  message is \<open>None\<close>; the tag is the last field on the wire and not part of the body.
\<close>

subsection \<open>Constants\<close>

definition OTRNG_PROTOCOL_VERSION_4 :: u16 where [const_defs]: "OTRNG_PROTOCOL_VERSION_4 = 4"
definition DATA_MSG_TYPE :: byte where [const_defs]: "DATA_MSG_TYPE = 0x03"
definition DAKE_HEADER_BYTES :: nat where [const_defs]: "DAKE_HEADER_BYTES = 2 + 1 + 4 + 4"
definition DATA_MSG_NONCE_BYTES :: nat where [const_defs]: "DATA_MSG_NONCE_BYTES = 24"
definition DATA_MSG_MAX_BYTES :: nat where [const_defs]:
  "DATA_MSG_MAX_BYTES = DAKE_HEADER_BYTES + 1 + 4 + 4 + 4 + ED448_POINT_BYTES + DH_MPI_MAX_BYTES + 4 + DATA_MSG_NONCE_BYTES"

subsection \<open>The message\<close>

record ('p, 'm) data_message_s =
  dm_sender_instance_tag :: u32
  dm_receiver_instance_tag :: u32
  dm_flags :: byte
  dm_previous_chain_n :: u32
  dm_ratchet_id :: u32
  dm_message_id :: u32
  dm_ecdh :: 'p
  dm_dh :: "'m option"
  dm_nonce :: bytes
  dm_enc_msg :: "bytes option"
  dm_enc_msg_len :: nat
  dm_mac :: bytes

definition otrng_data_message_body_serialize ::
    "('p, 's, 'm, 'h) crypto_ops \<Rightarrow> ('p, 'm) data_message_s \<Rightarrow> bytes option" where
  "otrng_data_message_body_serialize C data_msg =
     (let size = DATA_MSG_MAX_BYTES + dm_enc_msg_len data_msg;
          dst = otrng_serialize_uint16 OTRNG_PROTOCOL_VERSION_4 @
                otrng_serialize_uint8 DATA_MSG_TYPE @
                otrng_serialize_uint32 (dm_sender_instance_tag data_msg) @
                otrng_serialize_uint32 (dm_receiver_instance_tag data_msg) @
                otrng_serialize_uint8 (dm_flags data_msg) @
                otrng_serialize_uint32 (dm_previous_chain_n data_msg) @
                otrng_serialize_uint32 (dm_ratchet_id data_msg) @
                otrng_serialize_uint32 (dm_message_id data_msg) @
                otrng_serialize_ec_point C (dm_ecdh data_msg)
      in case otrng_serialize_dh_public_key C (size - length dst) (dm_dh data_msg) of
           None \<Rightarrow> None
         | Some dh \<Rightarrow> Some (dst @ dh @
             otrng_serialize_bytes_array (Some (dm_nonce data_msg)) DATA_MSG_NONCE_BYTES @
             otrng_serialize_data (dm_enc_msg data_msg) (dm_enc_msg_len data_msg)))"

text \<open>The destination comes zeroed from \<open>otrng_data_message_new\<close>.\<close>

definition otrng_data_message_deserialize ::
    "('p, 's, 'm, 'h) crypto_ops \<Rightarrow> bytes \<Rightarrow> ('p, 'm) data_message_s option" where
  "otrng_data_message_deserialize C buffer = do {
     (protocol_version, read) \<leftarrow> otrng_deserialize_uint16 buffer;
     let cursor = drop read buffer;
     if protocol_version \<noteq> OTRNG_PROTOCOL_VERSION_4 then None else do {
     (msg_type, read) \<leftarrow> otrng_deserialize_uint8 cursor;
     let cursor = drop read cursor;
     if msg_type \<noteq> DATA_MSG_TYPE then None else do {
     (sender_instance_tag, read) \<leftarrow> otrng_deserialize_uint32 cursor;
     let cursor = drop read cursor;
     (receiver_instance_tag, read) \<leftarrow> otrng_deserialize_uint32 cursor;
     let cursor = drop read cursor;
     (flags, read) \<leftarrow> otrng_deserialize_uint8 cursor;
     let cursor = drop read cursor;
     (previous_chain_n, read) \<leftarrow> otrng_deserialize_uint32 cursor;
     let cursor = drop read cursor;
     (ratchet_id, read) \<leftarrow> otrng_deserialize_uint32 cursor;
     let cursor = drop read cursor;
     (message_id, read) \<leftarrow> otrng_deserialize_uint32 cursor;
     let cursor = drop read cursor;
     ecdh \<leftarrow> otrng_deserialize_ec_point C cursor;
     let cursor = drop ED448_POINT_BYTES cursor;
     (dh, read) \<leftarrow> otrng_deserialize_dh_mpi_otr C None cursor;
     let cursor = drop read cursor;
     nonce \<leftarrow> otrng_deserialize_bytes_array DATA_MSG_NONCE_BYTES cursor;
     let cursor = drop DATA_MSG_NONCE_BYTES cursor;
     (enc_msg, read) \<leftarrow> otrng_deserialize_data cursor;
     let cursor = drop read cursor;
     mac \<leftarrow> otrng_deserialize_bytes_array DATA_MSG_MAC_BYTES cursor;
     Some \<lparr>dm_sender_instance_tag = sender_instance_tag, dm_receiver_instance_tag = receiver_instance_tag,
       dm_flags = flags, dm_previous_chain_n = previous_chain_n, dm_ratchet_id = ratchet_id,
       dm_message_id = message_id, dm_ecdh = ecdh, dm_dh = dh, dm_nonce = nonce, dm_enc_msg = enc_msg,
       dm_enc_msg_len = (case enc_msg of None \<Rightarrow> 0 | Some c \<Rightarrow> length c), dm_mac = mac\<rparr> } } }"

definition otrng_data_message_authenticator ::
    "('p, 's, 'm, 'h) crypto_ops \<Rightarrow> nat \<Rightarrow> bytes \<Rightarrow> bytes \<Rightarrow> bytes option" where
  "otrng_data_message_authenticator C dst_len mac_key body =
     (if dst_len < DATA_MSG_MAC_BYTES then None
      else otrng_key_manager_calculate_authenticator C mac_key body)"

definition otrng_valid_data_message ::
    "('p, 's, 'm, 'h) crypto_ops \<Rightarrow> bytes \<Rightarrow> ('p, 'm) data_message_s \<Rightarrow> bool" where
  "otrng_valid_data_message C mac_key data_msg =
     (case otrng_data_message_body_serialize C data_msg of
        None \<Rightarrow> False
      | Some body \<Rightarrow>
        (case otrng_data_message_authenticator C DATA_MSG_MAC_BYTES mac_key body of
           None \<Rightarrow> False
         | Some mac_tag \<Rightarrow>
             if take DATA_MSG_MAC_BYTES mac_tag \<noteq> take DATA_MSG_MAC_BYTES (dm_mac data_msg) then False
             else if \<not> otrng_ec_point_valid C (dm_ecdh data_msg) then False
             else if dm_dh data_msg = None then True
             else otrng_dh_mpi_valid C (dm_dh data_msg)))"

subsection \<open>The wire\<close>

text \<open>A message as the sender fills it: a DH key in range, a nonce of 24 bytes, and an encrypted text
  whose length field is right and fits 32 bits.\<close>

definition wf_data_message :: "('p, 's, 'm, 'h) crypto_sem \<Rightarrow> ('p, 'm) data_message_s \<Rightarrow> bool" where
  "wf_data_message S m \<longleftrightarrow> (case dm_dh m of None \<Rightarrow> False | Some d \<Rightarrow> in_dh_range S d) \<and>
     length (dm_nonce m) = DATA_MSG_NONCE_BYTES \<and> wf_data (dm_enc_msg m) \<and>
     dm_enc_msg_len m = (case dm_enc_msg m of None \<Rightarrow> 0 | Some c \<Rightarrow> length c)"

lemma wf_data_message_dh:
  assumes "wf_data_message S m"
  obtains d where "dm_dh m = Some d" "in_dh_range S d"
  using assms by (cases "dm_dh m") (auto simp: wf_data_message_def)

definition wire_data_message :: "('p, 's, 'm, 'h) crypto_ops \<Rightarrow> bytes \<Rightarrow> ('p, 'm) data_message_s \<Rightarrow> ('p, 'm) data_message_s" where
  "wire_data_message C mac m = m\<lparr>dm_ecdh := wire_point C (dm_ecdh m), dm_dh := map_option (wire_mpi C) (dm_dh m), dm_mac := mac\<rparr>"

lemma data_message_body_eq:
  assumes G: "goldilocks_ok C S" "gcrypt_ok C S" and wf: "wf_data_message S m"
  shows "otrng_data_message_body_serialize C m = Some (
     otrng_serialize_uint16 OTRNG_PROTOCOL_VERSION_4 @ otrng_serialize_uint8 DATA_MSG_TYPE @
     otrng_serialize_uint32 (dm_sender_instance_tag m) @ otrng_serialize_uint32 (dm_receiver_instance_tag m) @
     otrng_serialize_uint8 (dm_flags m) @ otrng_serialize_uint32 (dm_previous_chain_n m) @
     otrng_serialize_uint32 (dm_ratchet_id m) @ otrng_serialize_uint32 (dm_message_id m) @
     otrng_serialize_ec_point C (dm_ecdh m) @ dh_bytes C (the (dm_dh m)) @ dm_nonce m @ serialize_data_field (dm_enc_msg m))"
proof -
  obtain d where d: "dm_dh m = Some d" "in_dh_range S d" by (rule wf_data_message_dh[OF wf])
  have "otrng_serialize_dh_public_key C n (Some d) = Some (dh_bytes C d)" if "DH_MPI_MAX_BYTES \<le> n" for n
    by (rule wire_mpi(1)[OF G(2) d(2) that])
  then show ?thesis using wf
    by (simp add: otrng_data_message_body_serialize_def Let_def d wf_data_message_def serialize_data_field_def
        length_serialize_group[OF G(1)] length_serialize const_defs otrng_serialize_bytes_array_def)
qed

lemma data_message_roundtrip:
  assumes G: "goldilocks_ok C S" "gcrypt_ok C S" and wf: "wf_data_message S m" and "length mac = DATA_MSG_MAC_BYTES"
    and b: "otrng_data_message_body_serialize C m = Some body"
  shows "otrng_data_message_deserialize C (body @ mac @ rest) = Some (wire_data_message C mac m)"
proof -
  obtain d where d: "dm_dh m = Some d" "in_dh_range S d" by (rule wf_data_message_dh[OF wf])
  have n: "otrng_deserialize_bytes_array DATA_MSG_NONCE_BYTES (dm_nonce m @ r) = Some (dm_nonce m)"
    "drop DATA_MSG_NONCE_BYTES (dm_nonce m @ r) = r" for r
    using wf by (simp_all add: wf_data_message_def otrng_deserialize_bytes_array_def)
  have e: "otrng_deserialize_data (serialize_data_field (dm_enc_msg m) @ r) = Some (dm_enc_msg m, length (serialize_data_field (dm_enc_msg m)))" for r
    by (rule data_field.dec_enc) (use wf in \<open>simp add: wf_data_message_def\<close>)
  have t: "otrng_deserialize_bytes_array DATA_MSG_MAC_BYTES (mac @ rest) = Some mac"
    using assms(4) by (simp add: otrng_deserialize_bytes_array_def)
  have L: "length (otrng_serialize_ec_point C p) = ED448_POINT_BYTES" for p
    by (simp add: length_serialize_group[OF G(1)] const_defs)
  note body = b[unfolded data_message_body_eq[OF G wf] option.inject, symmetric]
  show ?thesis
    using wf unfolding body
    by (simp add: otrng_data_message_deserialize_def wire_data_message_def u16.dec_enc u32.dec_enc wire_point[OF G(1)]
        L wire_mpi[OF G(2) d(2)] n e t d wf_data_message_def Let_def)
qed

lemma wire_data_message:
  assumes G: "goldilocks_ok C S" "gcrypt_ok C S" and wf: "wf_data_message S m"
  shows "wf_data_message S (wire_data_message C mac m)"
    and "otrng_data_message_body_serialize C (wire_data_message C mac m) = otrng_data_message_body_serialize C m"
proof -
  obtain d where d: "dm_dh m = Some d" "in_dh_range S d" by (rule wf_data_message_dh[OF wf])
  show w: "wf_data_message S (wire_data_message C mac m)"
    using wf d wire_bytes(3)[OF G d(2)] by (simp add: wf_data_message_def wire_data_message_def)
  show "otrng_data_message_body_serialize C (wire_data_message C mac m) = otrng_data_message_body_serialize C m"
    unfolding data_message_body_eq[OF G w] data_message_body_eq[OF G wf]
    by (simp add: wire_data_message_def d wire_bytes[OF G(1)] wire_bytes(2)[OF G d(2)])
qed

text \<open>The authenticator covers every field: two messages with the same body carry the same tags,
  flags, counters, nonce and encrypted text, and keys that stand for the same group elements.\<close>

theorem data_message_body_binds:
  assumes G: "goldilocks_ok C S" "gcrypt_ok C S" and wf: "wf_data_message S m" "wf_data_message S n"
    and eq: "otrng_data_message_body_serialize C m = otrng_data_message_body_serialize C n"
  shows "m\<lparr>dm_ecdh := p, dm_dh := d, dm_mac := t\<rparr> = n\<lparr>dm_ecdh := p, dm_dh := d, dm_mac := t\<rparr> \<and>
     dlog S (dm_ecdh m) = dlog S (dm_ecdh n) \<and> map_option (mval S) (dm_dh m) = map_option (mval S) (dm_dh n)"
proof -
  obtain body where b: "otrng_data_message_body_serialize C m = Some body"
    using data_message_body_eq[OF G wf(1)] by simp
  from eq b have b': "otrng_data_message_body_serialize C n = Some body" by simp
  have z: "length (zeros DATA_MSG_MAC_BYTES) = DATA_MSG_MAC_BYTES" by (simp add: zeros_def)
  have w: "wire_data_message C (zeros DATA_MSG_MAC_BYTES) m = wire_data_message C (zeros DATA_MSG_MAC_BYTES) n"
    using data_message_roundtrip[OF G wf(1) z b, of "[]"] data_message_roundtrip[OF G wf(2) z b', of "[]"] by simp
  from w have p: "wire_point C (dm_ecdh m) = wire_point C (dm_ecdh n)"
    and d: "map_option (wire_mpi C) (dm_dh m) = map_option (wire_mpi C) (dm_dh n)"
    by (cases m; cases n; simp add: wire_data_message_def)+
  have "dlog S (dm_ecdh m) = dlog S (dm_ecdh n)" using p wire_point(3)[OF G(1)] by metis
  moreover obtain d1 where d1: "dm_dh m = Some d1" "in_dh_range S d1" by (rule wf_data_message_dh[OF wf(1)])
  moreover obtain d2 where d2: "dm_dh n = Some d2" "in_dh_range S d2" by (rule wf_data_message_dh[OF wf(2)])
  moreover have "mval S d1 = mval S d2"
    using d d1(1) d2(1) wire_mpi(4)[OF G(2) d1(2)] wire_mpi(4)[OF G(2) d2(2)] by simp
  moreover have "m\<lparr>dm_ecdh := p, dm_dh := d, dm_mac := t\<rparr> = n\<lparr>dm_ecdh := p, dm_dh := d, dm_mac := t\<rparr>"
    using w by (cases m; cases n) (simp add: wire_data_message_def)
  ultimately show ?thesis by simp
qed

lemma data_message_authentic_aux:
  assumes G: "goldilocks_ok C S" "gcrypt_ok C S" and H: "sponge_ok C S" and wf: "wf_data_message S m"
    and v: "otrng_dh_mpi_valid C (dm_dh m)"
  shows "\<exists>body tag. otrng_data_message_body_serialize C m = Some body \<and> length body \<le> DATA_MSG_MAX_BYTES + dm_enc_msg_len m \<and>
     otrng_data_message_authenticator C MAC_KEY_BYTES mac_key body = Some tag \<and>
     otrng_data_message_deserialize C (body @ tag @ rest) = Some (wire_data_message C tag m) \<and>
     otrng_valid_data_message C mac_key (wire_data_message C tag m)"
proof -
  obtain d where d: "dm_dh m = Some d" "in_dh_range S d" by (rule wf_data_message_dh[OF wf])
  obtain body where b: "otrng_data_message_body_serialize C m = Some body"
    using data_message_body_eq[OF G wf] by simp
  obtain tag where t: "otrng_key_manager_calculate_authenticator C mac_key body = Some tag" "length tag = DATA_MSG_MAC_BYTES"
    by (simp add: otrng_key_manager_calculate_authenticator_def hash_usage_two_def hash_init_with_usage_def
        hash_init_with_dom_def sponge_simps[OF H] sponge_facts(3)[OF H])
  have "length (serialize_data_field (dm_enc_msg m)) = 4 + dm_enc_msg_len m"
    using wf by (cases "dm_enc_msg m") (simp_all add: wf_data_message_def serialize_data_field_def length_serialize_data
        otrng_serialize_data_def otrng_serialize_bytes_array_def)
  then have l: "length body \<le> DATA_MSG_MAX_BYTES + dm_enc_msg_len m"
    unfolding b[unfolded data_message_body_eq[OF G wf] option.inject, symmetric]
    using wire_mpi(5)[OF G(2) d(2)] wf
    by (simp add: wf_data_message_def d length_serialize_group[OF G(1)] const_defs)
  have "otrng_dh_mpi_valid C (Some (wire_mpi C d))"
    using v d wire_mpi(4)[OF G(2) d(2)] dh_valid_cong[OF G(2)] by metis
  then have "otrng_valid_data_message C mac_key (wire_data_message C tag m)"
    using t b wire_data_message(2)[OF G wf, of tag] d
    by (simp add: otrng_valid_data_message_def otrng_data_message_authenticator_def wire_data_message_def
        otrng_ec_point_valid_def goldilocks_point(8)[OF G(1)])
  with b t l data_message_roundtrip[OF G wf t(2) b, of rest] show ?thesis
    by (intro exI[of _ body] exI[of _ tag]) (simp add: otrng_data_message_authenticator_def const_defs)
qed

text \<open>C11: a data message that its sender authenticated reads back from the wire, whatever bytes follow
  the tag, with every field intact, and is accepted under the same MAC key.\<close>

theorem data_message_authentic:
  assumes G: "goldilocks_ok C S" "gcrypt_ok C S" and H: "sponge_ok C S" and wf: "wf_data_message S m"
    and v: "otrng_dh_mpi_valid C (dm_dh m)"
  shows "\<exists>body tag. otrng_data_message_body_serialize C m = Some body \<and> length body \<le> DATA_MSG_MAX_BYTES + dm_enc_msg_len m \<and>
     otrng_data_message_authenticator C MAC_KEY_BYTES mac_key body = Some tag \<and>
     otrng_data_message_deserialize C (body @ tag @ rest) = Some (wire_data_message C tag m) \<and>
     otrng_valid_data_message C mac_key (wire_data_message C tag m)"
  by (rule data_message_authentic_aux[OF assms])

subsection \<open>A concrete message\<close>

definition ex_message :: "int \<Rightarrow> (int, nat) data_message_s" where
  "ex_message p = \<lparr>dm_sender_instance_tag = 0x101, dm_receiver_instance_tag = 0x102, dm_flags = 0, dm_previous_chain_n = 0,
     dm_ratchet_id = 1, dm_message_id = 2, dm_ecdh = p, dm_dh = Some 4, dm_nonce = replicate 24 7,
     dm_enc_msg = Some [1, 2, 3], dm_enc_msg_len = 3, dm_mac = []\<rparr>"

lemma ex_message_wf: "wf_data_message ex_sem (ex_message p)"
  by (simp add: wf_data_message_def ex_message_def in_dh_range_def ex_sem_def wf_data_def const_defs)

lemma ex_dh_valid: "otrng_dh_mpi_valid ex_crypto (Some 4)"
  using dh_valid_iff[OF ex_gcrypt_ok, of 4] by (simp add: ex_sem_def DH3072_MODULUS_MINUS_2_def DH3072_MODULUS_def)

theorem data_message_body_binds_witness:
  "(ex_message 1)\<lparr>dm_ecdh := 5, dm_dh := None, dm_mac := []\<rparr> = (ex_message 8)\<lparr>dm_ecdh := 5, dm_dh := None, dm_mac := []\<rparr> \<and>
     dlog ex_sem (dm_ecdh (ex_message 1)) = dlog ex_sem (dm_ecdh (ex_message 8)) \<and>
     map_option (mval ex_sem) (dm_dh (ex_message 1)) = map_option (mval ex_sem) (dm_dh (ex_message 8))"
proof (rule data_message_body_binds[OF ex_goldilocks_ok ex_gcrypt_ok ex_message_wf ex_message_wf])
  have "otrng_serialize_ec_point ex_crypto 1 = otrng_serialize_ec_point ex_crypto (8 :: int)"
    by (rule wire_cong(1)[OF ex_goldilocks_ok]) (simp add: ex_sem_def)
  then show "otrng_data_message_body_serialize ex_crypto (ex_message 1) = otrng_data_message_body_serialize ex_crypto (ex_message 8)"
    unfolding data_message_body_eq[OF ex_goldilocks_ok ex_gcrypt_ok ex_message_wf] by (simp add: ex_message_def)
qed

theorem data_message_authentic_witness:
  "\<exists>body tag. otrng_data_message_body_serialize ex_crypto (ex_message 3) = Some body \<and>
     length body \<le> DATA_MSG_MAX_BYTES + dm_enc_msg_len (ex_message 3) \<and>
     otrng_data_message_authenticator ex_crypto MAC_KEY_BYTES [9] body = Some tag \<and>
     otrng_data_message_deserialize ex_crypto (body @ tag @ [1, 2]) = Some (wire_data_message ex_crypto tag (ex_message 3)) \<and>
     otrng_valid_data_message ex_crypto [9] (wire_data_message ex_crypto tag (ex_message 3))"
  by (rule data_message_authentic[OF ex_goldilocks_ok ex_gcrypt_ok ex_sponge_ok ex_message_wf])
     (simp add: ex_message_def ex_dh_valid)

end
