(* ===== verification/Dake.thy ===== *)
theory Dake
  imports Client_Profile Ring_Sig Data_Message
begin

text \<open>
  \<open>dake.c\<close>: the messages of the deniable authenticated key exchange, the checks on received values,
  and the strings the ring signatures sign.
\<close>

subsection \<open>Messages\<close>

definition IDENTITY_MSG_TYPE :: byte where [const_defs]: "IDENTITY_MSG_TYPE = 0x35"
definition AUTH_R_MSG_TYPE :: byte where [const_defs]: "AUTH_R_MSG_TYPE = 0x36"
definition AUTH_I_MSG_TYPE :: byte where [const_defs]: "AUTH_I_MSG_TYPE = 0x37"
definition NON_INT_AUTH_MSG_TYPE :: byte where [const_defs]: "NON_INT_AUTH_MSG_TYPE = 0x0D"

definition IDENTITY_MAX_BYTES :: nat where [const_defs]:
  "IDENTITY_MAX_BYTES = DAKE_HEADER_BYTES + ED448_POINT_BYTES + DH_MPI_MAX_BYTES + ED448_POINT_BYTES + DH_MPI_MAX_BYTES"
definition AUTH_R_MAX_BYTES :: nat where [const_defs]:
  "AUTH_R_MAX_BYTES = DAKE_HEADER_BYTES + ED448_POINT_BYTES + DH_MPI_MAX_BYTES + ED448_POINT_BYTES + DH_MPI_MAX_BYTES + RING_SIG_BYTES"
definition NON_INT_AUTH_MAX_BYTES :: nat where [const_defs]:
  "NON_INT_AUTH_MAX_BYTES = DAKE_HEADER_BYTES + ED448_POINT_BYTES + DH_MPI_MAX_BYTES + RING_SIG_BYTES + 3 * 4 + HASH_BYTES"

record ('p, 'm) dake_identity_message_s =
  im_sender_instance_tag :: u32
  im_receiver_instance_tag :: u32
  im_profile :: "'p otrng_client_profile_s"
  im_Y :: 'p
  im_B :: "'m option"
  im_Y_first :: 'p
  im_B_first :: "'m option"

record ('p, 's, 'm) dake_auth_r_s =
  ar_sender_instance_tag :: u32
  ar_receiver_instance_tag :: u32
  ar_profile :: "'p otrng_client_profile_s"
  ar_X :: 'p
  ar_A :: "'m option"
  ar_X_first :: 'p
  ar_A_first :: "'m option"
  ar_sigma :: "'s ring_sig_s"

record 's dake_auth_i_s =
  ai_sender_instance_tag :: u32
  ai_receiver_instance_tag :: u32
  ai_sigma :: "'s ring_sig_s"

record ('p, 's, 'm) dake_non_interactive_auth_message_s =
  na_sender_instance_tag :: u32
  na_receiver_instance_tag :: u32
  na_profile :: "'p otrng_client_profile_s"
  na_X :: 'p
  na_A :: "'m option"
  na_sigma :: "'s ring_sig_s"
  na_prekey_message_id :: u32
  na_auth_mac :: bytes

definition otrng_dake_identity_message_new ::
    "('p, 's) wiped \<Rightarrow> 'p otrng_client_profile_s option \<Rightarrow> ('p, 'm) dake_identity_message_s option" where
  "otrng_dake_identity_message_new Z profile =
     (if profile = None then None
      else case otrng_client_profile_copy Z profile of
          (False, _) \<Rightarrow> None
        | (True, copy) \<Rightarrow> Some \<lparr>im_sender_instance_tag = 0, im_receiver_instance_tag = 0, im_profile = copy,
            im_Y = zero_point Z, im_B = None, im_Y_first = zero_point Z, im_B_first = None\<rparr>)"

text \<open>The header that all four messages start with.\<close>

definition dake_header :: "byte \<Rightarrow> u32 \<Rightarrow> u32 \<Rightarrow> bytes" where
  "dake_header msg_type sender receiver = otrng_serialize_uint16 OTRNG_PROTOCOL_VERSION_4 @ otrng_serialize_uint8 msg_type @
     otrng_serialize_uint32 sender @ otrng_serialize_uint32 receiver"

definition read_dake_header :: "byte \<Rightarrow> bytes \<Rightarrow> ((u32 \<times> u32) \<times> bytes) option" where
  "read_dake_header expected src = do {
     (protocol_version, read) \<leftarrow> otrng_deserialize_uint16 src;
     let cursor = drop read src;
     if protocol_version \<noteq> OTRNG_PROTOCOL_VERSION_4 then None else do {
     (msg_type, read) \<leftarrow> otrng_deserialize_uint8 cursor;
     let cursor = drop read cursor;
     if msg_type \<noteq> expected then None else do {
     (sender_instance_tag, read) \<leftarrow> otrng_deserialize_uint32 cursor;
     let cursor = drop read cursor;
     (receiver_instance_tag, read) \<leftarrow> otrng_deserialize_uint32 cursor;
     Some ((sender_instance_tag, receiver_instance_tag), drop read cursor) } } }"

definition otrng_dake_identity_message_serialize ::
    "('p, 's, 'm, 'h) crypto_ops \<Rightarrow> ('p, 'm) dake_identity_message_s \<Rightarrow> bytes outcome" where
  "otrng_dake_identity_message_serialize C identity_msg =
     attempt (otrng_client_profile_serialize C (im_profile identity_msg)) (\<lambda>profile.
     let bytes = IDENTITY_MAX_BYTES + length profile;
         buffer = dake_header IDENTITY_MSG_TYPE (im_sender_instance_tag identity_msg) (im_receiver_instance_tag identity_msg) @
           otrng_serialize_bytes_array (Some profile) (length profile) @ otrng_serialize_ec_point C (im_Y identity_msg)
     in Some (do {
       B \<leftarrow> otrng_serialize_dh_public_key C (bytes - length buffer) (im_B identity_msg);
       let buffer = buffer @ B @ otrng_serialize_ec_point C (im_Y_first identity_msg);
       B_first \<leftarrow> otrng_serialize_dh_public_key C (bytes - length buffer) (im_B_first identity_msg);
       Some (buffer @ B_first) }))"

definition otrng_dake_identity_message_deserialize ::
    "('p, 's, 'm, 'h) crypto_ops \<Rightarrow> ('p, 's) wiped \<Rightarrow> bytes \<Rightarrow> ('p, 'm) dake_identity_message_s option" where
  "otrng_dake_identity_message_deserialize C Z src = do {
     ((sender_instance_tag, receiver_instance_tag), cursor) \<leftarrow> read_dake_header IDENTITY_MSG_TYPE src;
     (profile, read) \<leftarrow> otrng_client_profile_deserialize C Z cursor;
     let cursor = drop read cursor;
     Y \<leftarrow> otrng_deserialize_ec_point C cursor;
     let cursor = drop ED448_POINT_BYTES cursor;
     (B, read) \<leftarrow> otrng_deserialize_dh_mpi_otr C None cursor;
     let cursor = drop read cursor;
     Y_first \<leftarrow> otrng_deserialize_ec_point C cursor;
     let cursor = drop ED448_POINT_BYTES cursor;
     (B_first, read) \<leftarrow> otrng_deserialize_dh_mpi_otr C None cursor;
     Some \<lparr>im_sender_instance_tag = sender_instance_tag, im_receiver_instance_tag = receiver_instance_tag,
       im_profile = profile, im_Y = Y, im_B = B, im_Y_first = Y_first, im_B_first = B_first\<rparr> }"

definition otrng_dake_auth_r_serialize ::
    "('p, 's, 'm, 'h) crypto_ops \<Rightarrow> ('p, 's, 'm) dake_auth_r_s \<Rightarrow> bytes outcome" where
  "otrng_dake_auth_r_serialize C auth_r =
     attempt (otrng_client_profile_serialize C (ar_profile auth_r)) (\<lambda>our_profile.
     let bytes = AUTH_R_MAX_BYTES + length our_profile;
         buffer = dake_header AUTH_R_MSG_TYPE (ar_sender_instance_tag auth_r) (ar_receiver_instance_tag auth_r) @
           otrng_serialize_bytes_array (Some our_profile) (length our_profile) @ otrng_serialize_ec_point C (ar_X auth_r)
     in Some (do {
       A \<leftarrow> otrng_serialize_dh_public_key C (bytes - length buffer) (ar_A auth_r);
       let buffer = buffer @ A @ otrng_serialize_ec_point C (ar_X_first auth_r);
       A_first \<leftarrow> otrng_serialize_dh_public_key C (bytes - length buffer) (ar_A_first auth_r);
       Some (buffer @ A_first @ otrng_serialize_ring_sig C (ar_sigma auth_r)) }))"

definition otrng_dake_auth_r_deserialize ::
    "('p, 's, 'm, 'h) crypto_ops \<Rightarrow> ('p, 's) wiped \<Rightarrow> bytes \<Rightarrow> ('p, 's, 'm) dake_auth_r_s option" where
  "otrng_dake_auth_r_deserialize C Z buffer = do {
     ((sender_instance_tag, receiver_instance_tag), cursor) \<leftarrow> read_dake_header AUTH_R_MSG_TYPE buffer;
     (profile, read) \<leftarrow> otrng_client_profile_deserialize C Z cursor;
     let cursor = drop read cursor;
     X \<leftarrow> otrng_deserialize_ec_point C cursor;
     let cursor = drop ED448_POINT_BYTES cursor;
     (A, read) \<leftarrow> otrng_deserialize_dh_mpi_otr C None cursor;
     let cursor = drop read cursor;
     X_first \<leftarrow> otrng_deserialize_ec_point C cursor;
     let cursor = drop ED448_POINT_BYTES cursor;
     (A_first, read) \<leftarrow> otrng_deserialize_dh_mpi_otr C None cursor;
     let cursor = drop read cursor;
     (sigma, read) \<leftarrow> otrng_deserialize_ring_sig C cursor;
     Some \<lparr>ar_sender_instance_tag = sender_instance_tag, ar_receiver_instance_tag = receiver_instance_tag,
       ar_profile = profile, ar_X = X, ar_A = A, ar_X_first = X_first, ar_A_first = A_first, ar_sigma = sigma\<rparr> }"

definition otrng_dake_auth_i_serialize :: "('p, 's, 'm, 'h) crypto_ops \<Rightarrow> 's dake_auth_i_s \<Rightarrow> bytes option" where
  "otrng_dake_auth_i_serialize C auth_i =
     (let sig = otrng_serialize_ring_sig C (ai_sigma auth_i) in
      if sig = [] then None
      else Some (dake_header AUTH_I_MSG_TYPE (ai_sender_instance_tag auth_i) (ai_receiver_instance_tag auth_i) @ sig))"

definition otrng_dake_auth_i_deserialize :: "('p, 's, 'm, 'h) crypto_ops \<Rightarrow> bytes \<Rightarrow> 's dake_auth_i_s option" where
  "otrng_dake_auth_i_deserialize C buffer = do {
     ((sender_instance_tag, receiver_instance_tag), cursor) \<leftarrow> read_dake_header AUTH_I_MSG_TYPE buffer;
     (sigma, read) \<leftarrow> otrng_deserialize_ring_sig C cursor;
     Some \<lparr>ai_sender_instance_tag = sender_instance_tag, ai_receiver_instance_tag = receiver_instance_tag, ai_sigma = sigma\<rparr> }"

definition otrng_dake_non_interactive_auth_message_serialize ::
    "('p, 's, 'm, 'h) crypto_ops \<Rightarrow> ('p, 's, 'm) dake_non_interactive_auth_message_s \<Rightarrow> bytes outcome" where
  "otrng_dake_non_interactive_auth_message_serialize C auth =
     attempt (otrng_client_profile_serialize C (na_profile auth)) (\<lambda>our_profile.
     let bytes = NON_INT_AUTH_MAX_BYTES + length our_profile;
         buffer = dake_header NON_INT_AUTH_MSG_TYPE (na_sender_instance_tag auth) (na_receiver_instance_tag auth) @
           otrng_serialize_bytes_array (Some our_profile) (length our_profile) @ otrng_serialize_ec_point C (na_X auth)
     in Some (do {
       A \<leftarrow> otrng_serialize_dh_public_key C (bytes - length buffer) (na_A auth);
       Some (buffer @ A @ otrng_serialize_ring_sig C (na_sigma auth) @ otrng_serialize_uint32 (na_prekey_message_id auth) @
         otrng_serialize_bytes_array (Some (na_auth_mac auth)) DATA_MSG_MAC_BYTES) }))"

definition otrng_dake_non_interactive_auth_message_deserialize ::
    "('p, 's, 'm, 'h) crypto_ops \<Rightarrow> ('p, 's) wiped \<Rightarrow> bytes \<Rightarrow> ('p, 's, 'm) dake_non_interactive_auth_message_s option" where
  "otrng_dake_non_interactive_auth_message_deserialize C Z buffer = do {
     ((sender_instance_tag, receiver_instance_tag), cursor) \<leftarrow> read_dake_header NON_INT_AUTH_MSG_TYPE buffer;
     (profile, read) \<leftarrow> otrng_client_profile_deserialize C Z cursor;
     let cursor = drop read cursor;
     X \<leftarrow> otrng_deserialize_ec_point C cursor;
     let cursor = drop ED448_POINT_BYTES cursor;
     (A, read) \<leftarrow> otrng_deserialize_dh_mpi_otr C None cursor;
     let cursor = drop read cursor;
     (sigma, read) \<leftarrow> otrng_deserialize_ring_sig C cursor;
     let cursor = drop read cursor;
     (prekey_message_id, read) \<leftarrow> otrng_deserialize_uint32 cursor;
     let cursor = drop read cursor;
     auth_mac \<leftarrow> otrng_deserialize_bytes_array HASH_BYTES cursor;
     Some \<lparr>na_sender_instance_tag = sender_instance_tag, na_receiver_instance_tag = receiver_instance_tag,
       na_profile = profile, na_X = X, na_A = A, na_sigma = sigma, na_prekey_message_id = prekey_message_id,
       na_auth_mac = auth_mac\<rparr> }"

subsection \<open>Checks on received values\<close>

definition otrng_valid_received_values ::
    "('p, 's, 'm, 'h) crypto_ops \<Rightarrow> int \<Rightarrow> u32 \<Rightarrow> 'p \<Rightarrow> 'm option \<Rightarrow> 'p otrng_client_profile_s \<Rightarrow> bool option" where
  "otrng_valid_received_values C now sender_instance_tag ecdh dh profile =
     (if \<not> otrng_ec_point_valid C ecdh then Some False
      else if \<not> otrng_dh_mpi_valid C dh then Some False
      else otrng_client_profile_valid C now profile sender_instance_tag)"

subsection \<open>What is signed\<close>

record ('p, 'm) otrng_dake_participant_data_s =
  pd_client_profile :: "'p otrng_client_profile_s"
  pd_exp_client_profile :: "'p otrng_client_profile_s option"
  pd_ecdh :: 'p
  pd_dh :: "'m option"

text \<open>\<open>build_rsign_tag\<close>: when a profile cannot be serialized or hashed the loop body is left by
  \<open>continue\<close>, and the function reports success with the zeroed buffer and the length \<open>written\<close> it
  was given.\<close>

definition build_rsign_tag ::
    "('p, 's, 'm, 'h) crypto_ops \<Rightarrow> nat \<Rightarrow> byte \<Rightarrow> 'p otrng_client_profile_s \<Rightarrow> 'p otrng_client_profile_s
     \<Rightarrow> 'p \<Rightarrow> 'p \<Rightarrow> 'm option \<Rightarrow> 'm option \<Rightarrow> bytes option \<Rightarrow> bytes \<Rightarrow> bytes outcome" where
  "build_rsign_tag C written first_usage i_profile r_profile i_ecdh r_ecdh i_dh r_dh ser_r_shared_prekey phi =
     (let ser_i_ecdh = otrng_serialize_ec_point C i_ecdh;
          ser_r_ecdh = otrng_serialize_ec_point C r_ecdh
      in if length ser_i_ecdh \<noteq> ED448_POINT_BYTES then Some None
         else if length ser_r_ecdh \<noteq> ED448_POINT_BYTES then Some None
         else case otrng_serialize_dh_public_key C DH_MPI_MAX_BYTES i_dh of
           None \<Rightarrow> Some None
         | Some ser_i_dh \<Rightarrow>
           (case otrng_serialize_dh_public_key C DH_MPI_MAX_BYTES r_dh of
              None \<Rightarrow> Some None
            | Some ser_r_dh \<Rightarrow> do {
                ser_i_profile \<leftarrow> otrng_client_profile_serialize C i_profile;
                ser_r_profile \<leftarrow> (if ser_i_profile = None then Some None else otrng_client_profile_serialize C r_profile);
                Some (Some (case do {
                    ser_i \<leftarrow> ser_i_profile;
                    ser_r \<leftarrow> ser_r_profile;
                    hash_i \<leftarrow> shake_256_kdf1 C HASH_BYTES first_usage ser_i;
                    hash_r \<leftarrow> shake_256_kdf1 C HASH_BYTES (first_usage + 1) ser_r;
                    hash_phi \<leftarrow> shake_256_kdf1 C HASH_BYTES (first_usage + 2) phi;
                    Some (hash_i @ hash_r @ ser_i_ecdh @ ser_r_ecdh @ ser_i_dh @ ser_r_dh @
                      (case ser_r_shared_prekey of None \<Rightarrow> [] | Some sp \<Rightarrow> sp) @ hash_phi) } of
                  None \<Rightarrow> replicate written 0
                | Some t \<Rightarrow> t)) }))"

datatype auth_tag_type = Auth_r | Auth_i

definition build_interactive_rsign_tag ::
    "('p, 's, 'm, 'h) crypto_ops \<Rightarrow> auth_tag_type \<Rightarrow> ('p, 'm) otrng_dake_participant_data_s
     \<Rightarrow> ('p, 'm) otrng_dake_participant_data_s \<Rightarrow> bytes \<Rightarrow> bytes outcome" where
  "build_interactive_rsign_tag C auth_tag_type initiator responder phi =
     attempt (build_rsign_tag C 0 (case auth_tag_type of Auth_r \<Rightarrow> 0x05 | Auth_i \<Rightarrow> 0x08)
         (pd_client_profile initiator) (pd_client_profile responder) (pd_ecdh initiator) (pd_ecdh responder)
         (pd_dh initiator) (pd_dh responder) None phi) (\<lambda>t.
     Some (Some ((case auth_tag_type of Auth_r \<Rightarrow> 0x00 | Auth_i \<Rightarrow> 0x01) # t)))"

definition build_non_interactive_rsign_tag ::
    "('p, 's, 'm, 'h) crypto_ops \<Rightarrow> nat \<Rightarrow> ('p, 'm) otrng_dake_participant_data_s
     \<Rightarrow> ('p, 'm) otrng_dake_participant_data_s \<Rightarrow> 'p \<Rightarrow> bytes \<Rightarrow> bytes outcome" where
  "build_non_interactive_rsign_tag C written initiator responder r_shared_prekey phi =
     (let ser_r_shared_prekey = otrng_serialize_shared_prekey C r_shared_prekey in
      if ser_r_shared_prekey = [] then Some None
      else build_rsign_tag C written 0x0E (pd_client_profile initiator) (pd_client_profile responder)
         (pd_ecdh initiator) (pd_ecdh responder) (pd_dh initiator) (pd_dh responder) (Some ser_r_shared_prekey) phi)"

text \<open>The fallback serializes the expired profile, which its caller has checked to be present.\<close>

definition build_fallback_non_interactive_rsign_tag ::
    "('p, 's, 'm, 'h) crypto_ops \<Rightarrow> nat \<Rightarrow> ('p, 'm) otrng_dake_participant_data_s
     \<Rightarrow> ('p, 'm) otrng_dake_participant_data_s \<Rightarrow> 'p \<Rightarrow> bytes \<Rightarrow> bytes outcome" where
  "build_fallback_non_interactive_rsign_tag C written initiator responder r_shared_prekey phi =
     (let ser_r_shared_prekey = otrng_serialize_shared_prekey C r_shared_prekey in
      if ser_r_shared_prekey = [] then Some None
      else case pd_exp_client_profile initiator of
          None \<Rightarrow> None
        | Some exp \<Rightarrow> build_rsign_tag C written 0x0D exp (pd_client_profile responder)
         (pd_ecdh initiator) (pd_ecdh responder) (pd_dh initiator) (pd_dh responder) (Some ser_r_shared_prekey) phi)"

definition otrng_dake_non_interactive_auth_message_authenticator ::
    "('p, 's, 'm, 'h) crypto_ops \<Rightarrow> bytes \<Rightarrow> bytes \<Rightarrow> bytes option" where
  "otrng_dake_non_interactive_auth_message_authenticator C t key = do {
     auth_mac_k \<leftarrow> shake_256_kdf1 C HASH_BYTES 0x0D (take HASH_BYTES key);
     otrng_key_manager_calculate_auth_mac C auth_mac_k t }"

subsection \<open>The messages after the wire\<close>

lemma dake_header_read: "read_dake_header t (dake_header t a b @ rest) = Some ((a, b), rest)"
  by (simp add: read_dake_header_def dake_header_def u16.dec_enc u32.dec_enc Let_def)

lemma length_dake_header [simp]: "length (dake_header t a b) = DAKE_HEADER_BYTES"
  by (simp add: dake_header_def const_defs)

definition dh_ok :: "('p, 's, 'm, 'h) crypto_sem \<Rightarrow> 'm option \<Rightarrow> bool" where
  "dh_ok S d \<longleftrightarrow> (case d of None \<Rightarrow> False | Some m \<Rightarrow> in_dh_range S m)"

definition fits_profile :: "'p otrng_client_profile_s \<Rightarrow> bool" where
  "fits_profile p \<longleftrightarrow> wf_profile p \<and> opt_len (cp_dsa_key p) + opt_len (cp_transitional_signature p) \<le> 822"

definition profile_bytes :: "('p, 's, 'm, 'h) crypto_ops \<Rightarrow> 'p otrng_client_profile_s \<Rightarrow> bytes" where
  "profile_bytes C p = client_profile_body_serialize C p @ cp_signature p"

lemma profile_bytes:
  assumes G: "goldilocks_ok C S" and p: "fits_profile p"
  shows "otrng_client_profile_serialize C p = Some (Some (profile_bytes C p))"
    and "otrng_client_profile_deserialize C Z (profile_bytes C p @ rest) = Some (wire_profile C p, length (profile_bytes C p))"
    and "fits_profile (wire_profile C p)" and "profile_bytes C (wire_profile C p) = profile_bytes C p"
proof -
  from p have wf: "wf_profile p" and o: "opt_len (cp_dsa_key p) + opt_len (cp_transitional_signature p) \<le> 822"
    by (simp_all add: fits_profile_def)
  from wf have l: "length (cp_signature p) = ED448_SIGNATURE_BYTES" by (simp add: wf_profile_def)
  show "otrng_client_profile_serialize C p = Some (Some (profile_bytes C p))"
    using o length_body[OF G wf] l
    by (simp add: otrng_client_profile_serialize_def OTRNG_CLIENT_PROFILE_MAX_BYTES_def profile_size_max Let_def
        otrng_serialize_bytes_array_def profile_bytes_def)
  show "otrng_client_profile_deserialize C Z (profile_bytes C p @ rest) = Some (wire_profile C p, length (profile_bytes C p))"
    using profile_deserialize_body[OF G wf, of Z rest] l by (simp add: profile_bytes_def)
  show "fits_profile (wire_profile C p)" using wire_profile_body(1)[OF G wf] o by (simp add: fits_profile_def)
  show "profile_bytes C (wire_profile C p) = profile_bytes C p"
    using wire_profile_body(2)[OF G wf] by (simp add: profile_bytes_def)
qed

lemma dh_okE:
  assumes "dh_ok S d"
  obtains m where "d = Some m" "in_dh_range S m"
  using assms by (cases d) (auto simp: dh_ok_def)

definition wire_identity :: "('p, 's, 'm, 'h) crypto_ops \<Rightarrow> ('p, 'm) dake_identity_message_s \<Rightarrow> ('p, 'm) dake_identity_message_s" where
  "wire_identity C m = m\<lparr>im_profile := wire_profile C (im_profile m), im_Y := wire_point C (im_Y m),
     im_B := map_option (wire_mpi C) (im_B m), im_Y_first := wire_point C (im_Y_first m),
     im_B_first := map_option (wire_mpi C) (im_B_first m)\<rparr>"

definition wire_auth_r :: "('p, 's, 'm, 'h) crypto_ops \<Rightarrow> ('p, 's, 'm) dake_auth_r_s \<Rightarrow> ('p, 's, 'm) dake_auth_r_s" where
  "wire_auth_r C m = m\<lparr>ar_profile := wire_profile C (ar_profile m), ar_X := wire_point C (ar_X m),
     ar_A := map_option (wire_mpi C) (ar_A m), ar_X_first := wire_point C (ar_X_first m),
     ar_A_first := map_option (wire_mpi C) (ar_A_first m), ar_sigma := wire_sig C (ar_sigma m)\<rparr>"

definition wire_non_interactive_auth ::
    "('p, 's, 'm, 'h) crypto_ops \<Rightarrow> ('p, 's, 'm) dake_non_interactive_auth_message_s \<Rightarrow> ('p, 's, 'm) dake_non_interactive_auth_message_s" where
  "wire_non_interactive_auth C m = m\<lparr>na_profile := wire_profile C (na_profile m), na_X := wire_point C (na_X m),
     na_A := map_option (wire_mpi C) (na_A m), na_sigma := wire_sig C (na_sigma m)\<rparr>"

lemma wire_messages_eq:
  "wire_identity C i = \<lparr>im_sender_instance_tag = im_sender_instance_tag i, im_receiver_instance_tag = im_receiver_instance_tag i,
     im_profile = wire_profile C (im_profile i), im_Y = wire_point C (im_Y i), im_B = map_option (wire_mpi C) (im_B i),
     im_Y_first = wire_point C (im_Y_first i), im_B_first = map_option (wire_mpi C) (im_B_first i)\<rparr>"
  "wire_auth_r C r = \<lparr>ar_sender_instance_tag = ar_sender_instance_tag r, ar_receiver_instance_tag = ar_receiver_instance_tag r,
     ar_profile = wire_profile C (ar_profile r), ar_X = wire_point C (ar_X r), ar_A = map_option (wire_mpi C) (ar_A r),
     ar_X_first = wire_point C (ar_X_first r), ar_A_first = map_option (wire_mpi C) (ar_A_first r), ar_sigma = wire_sig C (ar_sigma r)\<rparr>"
  "wire_non_interactive_auth C n = \<lparr>na_sender_instance_tag = na_sender_instance_tag n,
     na_receiver_instance_tag = na_receiver_instance_tag n, na_profile = wire_profile C (na_profile n),
     na_X = wire_point C (na_X n), na_A = map_option (wire_mpi C) (na_A n), na_sigma = wire_sig C (na_sigma n),
     na_prekey_message_id = na_prekey_message_id n, na_auth_mac = na_auth_mac n\<rparr>"
  by (cases i, simp add: wire_identity_def) (cases r, simp add: wire_auth_r_def, cases n, simp add: wire_non_interactive_auth_def)

lemma identity_message_roundtrip:
  assumes G: "goldilocks_ok C S" "gcrypt_ok C S"
    and "fits_profile (im_profile m)" "dh_ok S (im_B m)" "dh_ok S (im_B_first m)"
  shows "\<exists>bs. otrng_dake_identity_message_serialize C m = Some (Some bs) \<and>
     otrng_dake_identity_message_deserialize C Z (bs @ rest) = Some (wire_identity C m)"
proof -
  obtain b where b: "im_B m = Some b" "in_dh_range S b" by (rule dh_okE[OF assms(4)])
  obtain f where f: "im_B_first m = Some f" "in_dh_range S f" by (rule dh_okE[OF assms(5)])
  have L: "length (otrng_serialize_ec_point C p) = ED448_POINT_BYTES" for p
    by (simp add: length_serialize_group[OF G(1)] const_defs)
  note P = profile_bytes[OF G(1) assms(3)]
  note mb = wire_mpi[OF G(2) b(2)] and mf = wire_mpi[OF G(2) f(2)]
  have second: "otrng_serialize_dh_public_key C (DH_MPI_MAX_BYTES + DH_MPI_MAX_BYTES - length (dh_bytes C b)) (Some f) = Some (dh_bytes C f)"
    by (rule mf(1)) (use mb(5) in simp)
  show ?thesis
    using mb(5) mf(5)
    by (simp add: otrng_dake_identity_message_serialize_def P Let_def otrng_serialize_bytes_array_def b f L second mb mf
        IDENTITY_MAX_BYTES_def otrng_dake_identity_message_deserialize_def dake_header_read
        wire_point[OF G(1)] wire_messages_eq)
qed

lemma auth_r_roundtrip:
  assumes G: "goldilocks_ok C S" "gcrypt_ok C S"
    and "fits_profile (ar_profile m)" "dh_ok S (ar_A m)" "dh_ok S (ar_A_first m)"
  shows "\<exists>bs. otrng_dake_auth_r_serialize C m = Some (Some bs) \<and>
     otrng_dake_auth_r_deserialize C Z (bs @ rest) = Some (wire_auth_r C m)"
proof -
  obtain b where b: "ar_A m = Some b" "in_dh_range S b" by (rule dh_okE[OF assms(4)])
  obtain f where f: "ar_A_first m = Some f" "in_dh_range S f" by (rule dh_okE[OF assms(5)])
  have L: "length (otrng_serialize_ec_point C p) = ED448_POINT_BYTES" for p
    by (simp add: length_serialize_group[OF G(1)] const_defs)
  note P = profile_bytes[OF G(1) assms(3)]
  note mb = wire_mpi[OF G(2) b(2)] and mf = wire_mpi[OF G(2) f(2)]
  have second: "otrng_serialize_dh_public_key C (DH_MPI_MAX_BYTES + (DH_MPI_MAX_BYTES + RING_SIG_BYTES) - length (dh_bytes C b)) (Some f) = Some (dh_bytes C f)"
    by (rule mf(1)) (use mb(5) in simp)
  show ?thesis
    using mb(5) mf(5)
    by (simp add: otrng_dake_auth_r_serialize_def P Let_def otrng_serialize_bytes_array_def b f L second mb mf
        AUTH_R_MAX_BYTES_def otrng_dake_auth_r_deserialize_def dake_header_read
        wire_point[OF G(1)] wire_sig[OF G(1)] wire_messages_eq)
qed

lemma auth_i_roundtrip:
  assumes G: "goldilocks_ok C S"
  shows "\<exists>bs. otrng_dake_auth_i_serialize C m = Some bs \<and>
     otrng_dake_auth_i_deserialize C (bs @ rest) = Some (m\<lparr>ai_sigma := wire_sig C (ai_sigma m)\<rparr>)"
proof -
  have "otrng_serialize_ring_sig C (ai_sigma m) \<noteq> []" using wire_sig(4)[OF G, of "ai_sigma m"] by (auto simp: const_defs)
  then show ?thesis
    by (cases m) (simp add: otrng_dake_auth_i_serialize_def otrng_dake_auth_i_deserialize_def dake_header_read wire_sig[OF G] Let_def)
qed

lemma non_interactive_auth_roundtrip:
  assumes G: "goldilocks_ok C S" "gcrypt_ok C S"
    and "fits_profile (na_profile m)" "dh_ok S (na_A m)" "length (na_auth_mac m) = HASH_BYTES"
  shows "\<exists>bs. otrng_dake_non_interactive_auth_message_serialize C m = Some (Some bs) \<and>
     otrng_dake_non_interactive_auth_message_deserialize C Z (bs @ rest) = Some (wire_non_interactive_auth C m)"
proof -
  obtain b where b: "na_A m = Some b" "in_dh_range S b" by (rule dh_okE[OF assms(4)])
  have L: "length (otrng_serialize_ec_point C p) = ED448_POINT_BYTES" for p
    by (simp add: length_serialize_group[OF G(1)] const_defs)
  note P = profile_bytes[OF G(1) assms(3)]
  note mb = wire_mpi[OF G(2) b(2)]
  have D: "DATA_MSG_MAC_BYTES = HASH_BYTES" by (simp add: const_defs)
  show ?thesis
    using mb(5) assms(5)
    by (simp add: otrng_dake_non_interactive_auth_message_serialize_def P Let_def otrng_serialize_bytes_array_def b L mb D
        NON_INT_AUTH_MAX_BYTES_def otrng_dake_non_interactive_auth_message_deserialize_def dake_header_read u32.dec_enc
        wire_point[OF G(1)] wire_sig[OF G(1)] wire_messages_eq otrng_deserialize_bytes_array_def)
qed

text \<open>C19: the four messages of the key exchange read back from the start of a longer message with every
  field intact: tags, profile, keys, signature, identifier and tag.\<close>

theorem dake_messages_roundtrip:
  assumes G: "goldilocks_ok C S" "gcrypt_ok C S"
    and "fits_profile (im_profile i)" "dh_ok S (im_B i)" "dh_ok S (im_B_first i)"
    and "fits_profile (ar_profile r)" "dh_ok S (ar_A r)" "dh_ok S (ar_A_first r)"
    and "fits_profile (na_profile n)" "dh_ok S (na_A n)" "length (na_auth_mac n) = HASH_BYTES"
  shows "(\<exists>bs. otrng_dake_identity_message_serialize C i = Some (Some bs) \<and>
       otrng_dake_identity_message_deserialize C Z (bs @ rest) = Some (wire_identity C i)) \<and>
     (\<exists>bs. otrng_dake_auth_r_serialize C r = Some (Some bs) \<and>
       otrng_dake_auth_r_deserialize C Z (bs @ rest) = Some (wire_auth_r C r)) \<and>
     (\<exists>bs. otrng_dake_auth_i_serialize C a = Some bs \<and>
       otrng_dake_auth_i_deserialize C (bs @ rest) = Some (a\<lparr>ai_sigma := wire_sig C (ai_sigma a)\<rparr>)) \<and>
     (\<exists>bs. otrng_dake_non_interactive_auth_message_serialize C n = Some (Some bs) \<and>
       otrng_dake_non_interactive_auth_message_deserialize C Z (bs @ rest) = Some (wire_non_interactive_auth C n))"
  using identity_message_roundtrip[OF G assms(3-5)] auth_r_roundtrip[OF G assms(6-8)] auth_i_roundtrip[OF G(1)]
    non_interactive_auth_roundtrip[OF G assms(9-11)] by blast

definition ex_sig :: "int ring_sig_s" where
  "ex_sig = \<lparr>sig_c1 = 1, sig_r1 = 2, sig_c2 = 3, sig_r2 = 4, sig_c3 = 5, sig_r3 = 6\<rparr>"

lemma ex_fits: "fits_profile (ex_profile None)"
  using ex_profile_wf(1) by (simp add: fits_profile_def ex_profile_def client_profile_zero_def opt_len_def)

theorem dake_messages_roundtrip_witness:
  "let i = \<lparr>im_sender_instance_tag = 0x200, im_receiver_instance_tag = 0, im_profile = ex_profile None, im_Y = 1, im_B = Some 4,
         im_Y_first = 2, im_B_first = Some 5\<rparr>;
       r = \<lparr>ar_sender_instance_tag = 0x200, ar_receiver_instance_tag = 0x300, ar_profile = ex_profile None, ar_X = 1, ar_A = Some 4,
         ar_X_first = 2, ar_A_first = Some 5, ar_sigma = ex_sig\<rparr>;
       a = \<lparr>ai_sender_instance_tag = 0x200, ai_receiver_instance_tag = 0x300, ai_sigma = ex_sig\<rparr>;
       n = \<lparr>na_sender_instance_tag = 0x200, na_receiver_instance_tag = 0x300, na_profile = ex_profile None, na_X = 3, na_A = Some 6,
         na_sigma = ex_sig, na_prekey_message_id = 7, na_auth_mac = replicate 64 1\<rparr>
   in (\<exists>bs. otrng_dake_identity_message_serialize ex_crypto i = Some (Some bs) \<and>
       otrng_dake_identity_message_deserialize ex_crypto ex_zero (bs @ [1]) = Some (wire_identity ex_crypto i)) \<and>
     (\<exists>bs. otrng_dake_auth_r_serialize ex_crypto r = Some (Some bs) \<and>
       otrng_dake_auth_r_deserialize ex_crypto ex_zero (bs @ [1]) = Some (wire_auth_r ex_crypto r)) \<and>
     (\<exists>bs. otrng_dake_auth_i_serialize ex_crypto a = Some bs \<and>
       otrng_dake_auth_i_deserialize ex_crypto (bs @ [1]) = Some (a\<lparr>ai_sigma := wire_sig ex_crypto (ai_sigma a)\<rparr>)) \<and>
     (\<exists>bs. otrng_dake_non_interactive_auth_message_serialize ex_crypto n = Some (Some bs) \<and>
       otrng_dake_non_interactive_auth_message_deserialize ex_crypto ex_zero (bs @ [1]) = Some (wire_non_interactive_auth ex_crypto n))"
  unfolding Let_def
  by (rule dake_messages_roundtrip[OF ex_goldilocks_ok ex_gcrypt_ok])
     (simp_all add: ex_fits dh_ok_def in_dh_range_def ex_sem_def const_defs)

end
