(* ===== verification/Prekey.thy ===== *)
theory Prekey
  imports Dake Ratchet
begin

text \<open>
  \<open>prekey_profile.c\<close>, \<open>prekey_message.c\<close> and \<open>prekey_ensemble.c\<close>: what a client publishes so that
  others can write to it while it is not online.  The private parts of a prekey message and the key
  pair of a profile are present in the client that made them and \<open>NULL\<close>, here \<open>None\<close>, in one that
  received them.
\<close>

definition PRE_KEY_MSG_TYPE :: byte where [const_defs]: "PRE_KEY_MSG_TYPE = 0x0F"
definition PRE_KEY_MAX_BYTES :: nat where [const_defs]:
  "PRE_KEY_MAX_BYTES = DAKE_HEADER_BYTES + ED448_POINT_BYTES + DH_MPI_MAX_BYTES"
definition PREKEY_PROFILE_BODY_BYTES :: nat where [const_defs]:
  "PREKEY_PROFILE_BODY_BYTES = 4 + 8 + ED448_PUBKEY_BYTES"
definition PREKEY_PROFILE_EXPIRATION_SECONDS :: u64 where [const_defs]:
  "PREKEY_PROFILE_EXPIRATION_SECONDS = 1 * 30 * 24 * 60 * 60"

subsection \<open>Prekey profiles\<close>

record ('p, 's) otrng_prekey_profile_s =
  pp_instance_tag :: u32
  pp_expires :: u64
  pp_shared_prekey :: 'p
  pp_signature :: bytes
  pp_keys :: "('p, 's) otrng_keypair_s option"
  pp_should_publish :: byte
  pp_is_publishing :: bool
  pp_has_validated :: bool
  pp_validation_result :: bool

definition prekey_profile_zero :: "('p, 's) wiped \<Rightarrow> ('p, 's) otrng_prekey_profile_s" where
  "prekey_profile_zero Z = \<lparr>pp_instance_tag = 0, pp_expires = 0, pp_shared_prekey = zero_point Z,
     pp_signature = zeros ED448_SIGNATURE_BYTES, pp_keys = None, pp_should_publish = 0, pp_is_publishing = False,
     pp_has_validated = False, pp_validation_result = False\<rparr>"

definition otrng_prekey_profile_copy ::
    "('p, 's) wiped \<Rightarrow> ('p, 's) otrng_prekey_profile_s option \<Rightarrow> ('p, 's) otrng_prekey_profile_s" where
  "otrng_prekey_profile_copy Z src = (case src of
     None \<Rightarrow> prekey_profile_zero Z
   | Some src \<Rightarrow> (prekey_profile_zero Z)\<lparr>pp_instance_tag := pp_instance_tag src, pp_expires := pp_expires src,
       pp_shared_prekey := pp_shared_prekey src, pp_keys := pp_keys src,
       pp_signature := take ED448_SIGNATURE_BYTES (pp_signature src),
       pp_should_publish := pp_should_publish src, pp_is_publishing := pp_is_publishing src\<rparr>)"

text \<open>\<open>None\<close> is the result zero, for a buffer that is too small.\<close>

definition prekey_profile_body_serialize ::
    "('p, 's, 'm, 'h) crypto_ops \<Rightarrow> nat \<Rightarrow> ('p, 's) otrng_prekey_profile_s \<Rightarrow> bytes option" where
  "prekey_profile_body_serialize C dst_len profile =
     (if 4 > dst_len then None
      else let dst = otrng_serialize_uint32 (pp_instance_tag profile) in
        if 8 > dst_len - length dst then None
        else let dst = dst @ otrng_serialize_uint64 (pp_expires profile) in
          if ED448_SHARED_PREKEY_BYTES > dst_len - length dst then None
          else Some (dst @ otrng_serialize_shared_prekey C (pp_shared_prekey profile)))"

definition otrng_prekey_profile_deserialize ::
    "('p, 's, 'm, 'h) crypto_ops \<Rightarrow> ('p, 's) otrng_prekey_profile_s \<Rightarrow> bytes \<Rightarrow> (('p, 's) otrng_prekey_profile_s) parsed" where
  "otrng_prekey_profile_deserialize C target buffer = do {
     (tag, read) \<leftarrow> otrng_deserialize_uint32 buffer;
     let w = read;
     (expires, read) \<leftarrow> otrng_deserialize_uint64 (drop w buffer);
     let w = w + read;
     (shared_prekey, read) \<leftarrow> otrng_deserialize_shared_prekey C (drop w buffer);
     let w = w + read;
     signature \<leftarrow> otrng_deserialize_bytes_array ED448_SIGNATURE_BYTES (drop w buffer);
     let w = w + ED448_SIGNATURE_BYTES;
     Some (target\<lparr>pp_instance_tag := tag, pp_expires := expires, pp_shared_prekey := shared_prekey,
       pp_signature := signature\<rparr>, w) }"

definition otrng_prekey_profile_deserialize_with_metadata ::
    "('p, 's, 'm, 'h) crypto_ops \<Rightarrow> ('p, 's) otrng_prekey_profile_s \<Rightarrow> bytes \<Rightarrow> (('p, 's) otrng_prekey_profile_s) parsed" where
  "otrng_prekey_profile_deserialize_with_metadata C target buffer = do {
     (target, w) \<leftarrow> otrng_prekey_profile_deserialize C target buffer;
     (should_publish, read) \<leftarrow> otrng_deserialize_uint8 (drop w buffer);
     let w = w + read;
     seed \<leftarrow> otrng_deserialize_bytes_array ED448_PRIVATE_BYTES (drop w buffer);
     keys \<leftarrow> otrng_shared_prekey_pair_generate C seed;
     let w = w + ED448_PRIVATE_BYTES;
     Some (target\<lparr>pp_should_publish := should_publish, pp_keys := Some keys, pp_shared_prekey := kp_pub keys\<rparr>, w) }"

definition prekey_profile_body_serialize_into ::
    "('p, 's, 'm, 'h) crypto_ops \<Rightarrow> ('p, 's) otrng_prekey_profile_s \<Rightarrow> bytes option" where
  "prekey_profile_body_serialize_into C profile = prekey_profile_body_serialize C PREKEY_PROFILE_BODY_BYTES profile"

definition otrng_prekey_profile_serialize ::
    "('p, 's, 'm, 'h) crypto_ops \<Rightarrow> ('p, 's) otrng_prekey_profile_s \<Rightarrow> bytes option" where
  "otrng_prekey_profile_serialize C profile = (
     let size = PREKEY_PROFILE_BODY_BYTES + ED448_SIGNATURE_BYTES in do {
     dst \<leftarrow> prekey_profile_body_serialize C PREKEY_PROFILE_BODY_BYTES profile;
     if size - length dst < ED448_SIGNATURE_BYTES then None
     else Some (dst @ otrng_serialize_bytes_array (Some (pp_signature profile)) ED448_SIGNATURE_BYTES) })"

text \<open>The key pair is dereferenced: without one the result is a fault.\<close>

definition otrng_prekey_profile_serialize_with_metadata ::
    "('p, 's, 'm, 'h) crypto_ops \<Rightarrow> ('p, 's) otrng_prekey_profile_s \<Rightarrow> bytes outcome" where
  "otrng_prekey_profile_serialize_with_metadata C profile = (
     let size = PREKEY_PROFILE_BODY_BYTES + ED448_SIGNATURE_BYTES + 1 + ED448_PRIVATE_BYTES in
     case prekey_profile_body_serialize C PREKEY_PROFILE_BODY_BYTES profile of
       None \<Rightarrow> Some None
     | Some dst \<Rightarrow>
         if size - length dst < ED448_SIGNATURE_BYTES then Some None
         else map_option (\<lambda>keys. Some (dst @ otrng_serialize_bytes_array (Some (pp_signature profile)) ED448_SIGNATURE_BYTES @
             otrng_serialize_uint8 (pp_should_publish profile) @
             otrng_serialize_bytes_array (Some (kp_sym keys)) ED448_PRIVATE_BYTES)) (pp_keys profile))"

definition otrng_prekey_profile_sign ::
    "('p, 's, 'm, 'h) crypto_ops \<Rightarrow> ('p, 's) otrng_prekey_profile_s \<Rightarrow> ('p, 's) otrng_keypair_s
     \<Rightarrow> ('p, 's) otrng_prekey_profile_s option" where
  "otrng_prekey_profile_sign C profile longterm_pair = do {
     body \<leftarrow> prekey_profile_body_serialize_into C profile;
     Some (profile\<lparr>pp_signature := otrng_ec_sign_simple C (kp_sym longterm_pair) body\<rparr>) }"

definition otrng_prekey_profile_build ::
    "('p, 's, 'm, 'h) crypto_ops \<Rightarrow> ('p, 's) wiped \<Rightarrow> bytes \<Rightarrow> int \<Rightarrow> u32 \<Rightarrow> ('p, 's) otrng_keypair_s option
     \<Rightarrow> ('p, 's) otrng_prekey_profile_s option" where
  "otrng_prekey_profile_build C Z random now tag longterm_pair = do {
     pair \<leftarrow> longterm_pair;
     if \<not> otrng_instance_tag_valid tag then None else do {
     keys \<leftarrow> otrng_shared_prekey_pair_generate C random;
     otrng_prekey_profile_sign C ((prekey_profile_zero Z)\<lparr>pp_keys := Some keys, pp_shared_prekey := kp_pub keys,
       pp_instance_tag := tag, pp_expires := of_int now + PREKEY_PROFILE_EXPIRATION_SECONDS\<rparr>) pair } }"

definition otrng_prekey_profile_verify_signature ::
    "('p, 's, 'm, 'h) crypto_ops \<Rightarrow> ('p, 's) otrng_prekey_profile_s \<Rightarrow> 'p \<Rightarrow> bool" where
  "otrng_prekey_profile_verify_signature C profile pub =
     (if otrng_is_empty_array (pp_signature profile) ED448_SIGNATURE_BYTES then False
      else case prekey_profile_body_serialize_into C profile of
          None \<Rightarrow> False
        | Some body \<Rightarrow>
            (let pubkey = otrng_serialize_ec_point C pub
             in if length pubkey \<noteq> ED448_POINT_BYTES then False
                else otrng_ec_verify C (pp_signature profile) pubkey body))"

definition prekey_profile_expired :: "int \<Rightarrow> u64 \<Rightarrow> bool" where
  "prekey_profile_expired now expires \<longleftrightarrow> sint expires - now \<le> 0"

definition prekey_profile_invalid :: "int \<Rightarrow> u64 \<Rightarrow> u64 \<Rightarrow> bool" where
  "prekey_profile_invalid now expires extra_valid_time \<longleftrightarrow> sint (expires + extra_valid_time) - now \<le> 0"

definition otrng_prekey_profile_valid_without_expiry ::
    "('p, 's, 'm, 'h) crypto_ops \<Rightarrow> ('p, 's) otrng_prekey_profile_s \<Rightarrow> u32 \<Rightarrow> 'p \<Rightarrow> bool" where
  "otrng_prekey_profile_valid_without_expiry C profile sender_instance_tag pub =
     (if \<not> otrng_prekey_profile_verify_signature C profile pub then False
      else if sender_instance_tag \<noteq> pp_instance_tag profile then False
      else if \<not> otrng_ec_point_valid C (pp_shared_prekey profile) then False
      else True)"

definition otrng_prekey_profile_valid ::
    "('p, 's, 'm, 'h) crypto_ops \<Rightarrow> int \<Rightarrow> ('p, 's) otrng_prekey_profile_s \<Rightarrow> u32 \<Rightarrow> 'p \<Rightarrow> bool" where
  "otrng_prekey_profile_valid C now profile sender_instance_tag pub =
     (if \<not> otrng_prekey_profile_valid_without_expiry C profile sender_instance_tag pub then False
      else \<not> prekey_profile_expired now (pp_expires profile))"

definition otrng_prekey_profile_fast_valid ::
    "('p, 's, 'm, 'h) crypto_ops \<Rightarrow> int \<Rightarrow> ('p, 's) otrng_prekey_profile_s \<Rightarrow> u32 \<Rightarrow> 'p
     \<Rightarrow> bool \<times> ('p, 's) otrng_prekey_profile_s" where
  "otrng_prekey_profile_fast_valid C now profile sender_instance_tag pub =
     (if pp_has_validated profile then
        (pp_validation_result profile \<and> \<not> prekey_profile_expired now (pp_expires profile), profile)
      else let ok = otrng_prekey_profile_valid C now profile sender_instance_tag pub
           in (ok, profile\<lparr>pp_validation_result := ok, pp_has_validated := True\<rparr>))"

definition otrng_prekey_profile_is_close_to_expiry :: "int \<Rightarrow> ('p, 's) otrng_prekey_profile_s \<Rightarrow> u64 \<Rightarrow> bool" where
  "otrng_prekey_profile_is_close_to_expiry now profile buffer_time =
     prekey_profile_expired now (pp_expires profile - buffer_time)"

definition otrng_prekey_profile_is_expired_but_valid ::
    "('p, 's, 'm, 'h) crypto_ops \<Rightarrow> int \<Rightarrow> ('p, 's) otrng_prekey_profile_s \<Rightarrow> u32 \<Rightarrow> u64 \<Rightarrow> 'p \<Rightarrow> bool" where
  "otrng_prekey_profile_is_expired_but_valid C now profile sender_instance_tag extra_valid_time pub \<longleftrightarrow>
     otrng_prekey_profile_valid_without_expiry C profile sender_instance_tag pub \<and>
     prekey_profile_expired now (pp_expires profile) \<and>
     \<not> prekey_profile_invalid now (pp_expires profile) extra_valid_time"

definition otrng_prekey_profile_start_publishing :: "('p, 's) otrng_prekey_profile_s \<Rightarrow> ('p, 's) otrng_prekey_profile_s" where
  "otrng_prekey_profile_start_publishing profile = profile\<lparr>pp_is_publishing := True\<rparr>"

definition otrng_prekey_profile_should_publish :: "('p, 's) otrng_prekey_profile_s \<Rightarrow> bool" where
  "otrng_prekey_profile_should_publish profile \<longleftrightarrow> pp_should_publish profile \<noteq> 0 \<and> \<not> pp_is_publishing profile"

subsection \<open>Prekey messages\<close>

record ('p, 's, 'm) prekey_message_s =
  pm_id :: u32
  pm_sender_instance_tag :: u32
  pm_Y :: 'p
  pm_B :: "'m option"
  pm_y :: "('p, 's) ecdh_keypair_s option"
  pm_b :: "'m dh_keypair_s option"
  pm_should_publish :: byte
  pm_is_publishing :: bool

definition otrng_prekey_message_new :: "('p, 's) wiped \<Rightarrow> ('p, 's, 'm) prekey_message_s" where
  "otrng_prekey_message_new Z = \<lparr>pm_id = 0, pm_sender_instance_tag = 0, pm_Y = zero_point Z, pm_B = None,
     pm_y = None, pm_b = None, pm_should_publish = 0, pm_is_publishing = False\<rparr>"

definition otrng_prekey_message_create_copy ::
    "('p, 's) wiped \<Rightarrow> ('p, 's, 'm) prekey_message_s option \<Rightarrow> ('p, 's, 'm) prekey_message_s option" where
  "otrng_prekey_message_create_copy Z src = (case src of
     None \<Rightarrow> None
   | Some src \<Rightarrow>
       let dst = (otrng_prekey_message_new Z)\<lparr>pm_id := pm_id src, pm_sender_instance_tag := pm_sender_instance_tag src,
             pm_should_publish := pm_should_publish src, pm_is_publishing := pm_is_publishing src,
             pm_Y := pm_Y src, pm_B := pm_B src\<rparr>;
           dst = dst\<lparr>pm_y := map_option (\<lambda>y. \<lparr>ecdh_priv = ecdh_priv y, ecdh_pub = ecdh_pub y\<rparr>) (pm_y src)\<rparr>
       in Some (dst\<lparr>pm_b := map_option (\<lambda>b. \<lparr>dh_pub = dh_pub b, dh_priv = dh_priv b\<rparr>) (pm_b src)\<rparr>))"

definition otrng_prekey_message_build ::
    "('p, 's) wiped \<Rightarrow> u32 \<Rightarrow> u32 \<Rightarrow> ('p, 's) ecdh_keypair_s \<Rightarrow> 'm dh_keypair_s \<Rightarrow> ('p, 's, 'm) prekey_message_s" where
  "otrng_prekey_message_build Z random tag y b =
     (otrng_prekey_message_new Z)\<lparr>pm_sender_instance_tag := tag, pm_y := Some y, pm_b := Some b,
       pm_Y := ecdh_pub y, pm_B := dh_pub b, pm_id := random\<rparr>"

definition otrng_prekey_message_serialize ::
    "('p, 's, 'm, 'h) crypto_ops \<Rightarrow> nat \<Rightarrow> ('p, 's, 'm) prekey_message_s \<Rightarrow> bytes option" where
  "otrng_prekey_message_serialize C dst_len src = (
     let dst = otrng_serialize_uint16 OTRNG_PROTOCOL_VERSION_4 @ otrng_serialize_uint8 PRE_KEY_MSG_TYPE @
           otrng_serialize_uint32 (pm_id src) @ otrng_serialize_uint32 (pm_sender_instance_tag src) @
           otrng_serialize_ec_point C (pm_Y src)
     in do {
       B \<leftarrow> otrng_serialize_dh_public_key C (dst_len - length dst) (pm_B src);
       Some (dst @ B) })"

definition otrng_prekey_message_serialize_into ::
    "('p, 's, 'm, 'h) crypto_ops \<Rightarrow> ('p, 's, 'm) prekey_message_s \<Rightarrow> bytes option" where
  "otrng_prekey_message_serialize_into C prekey_msg = otrng_prekey_message_serialize C PRE_KEY_MAX_BYTES prekey_msg"

definition otrng_prekey_message_serialize_with_metadata ::
    "('p, 's, 'm, 'h) crypto_ops \<Rightarrow> nat \<Rightarrow> ('p, 's, 'm) prekey_message_s \<Rightarrow> bytes outcome" where
  "otrng_prekey_message_serialize_with_metadata C dst_len src =
     (case otrng_prekey_message_serialize C dst_len src of
        None \<Rightarrow> Some None
      | Some dst \<Rightarrow> do {
          y \<leftarrow> pm_y src;
          b \<leftarrow> pm_b src;
          Some (do {
            priv \<leftarrow> otrng_serialize_dh_mpi_otr C DH_MPI_MAX_BYTES (dh_priv b);
            Some (dst @ otrng_serialize_uint8 (pm_should_publish src) @ scalar_encode C (ecdh_priv y) @ priv) }) })"

definition otrng_prekey_message_deserialize ::
    "('p, 's, 'm, 'h) crypto_ops \<Rightarrow> ('p, 's, 'm) prekey_message_s \<Rightarrow> bytes \<Rightarrow> (('p, 's, 'm) prekey_message_s) parsed" where
  "otrng_prekey_message_deserialize C dst src = do {
     (protocol_version, read) \<leftarrow> otrng_deserialize_uint16 src;
     let cursor = drop read src;
     if protocol_version \<noteq> OTRNG_PROTOCOL_VERSION_4 then None else do {
     (msg_type, read) \<leftarrow> otrng_deserialize_uint8 cursor;
     let cursor = drop read cursor;
     if msg_type \<noteq> PRE_KEY_MSG_TYPE then None else do {
     (ident, read) \<leftarrow> otrng_deserialize_uint32 cursor;
     let cursor = drop read cursor;
     (tag, read) \<leftarrow> otrng_deserialize_uint32 cursor;
     let cursor = drop read cursor;
     Y \<leftarrow> otrng_deserialize_ec_point C cursor;
     let cursor = drop ED448_POINT_BYTES cursor;
     (B, read) \<leftarrow> otrng_deserialize_dh_mpi_otr C (pm_B dst) cursor;
     let cursor = drop read cursor;
     Some (dst\<lparr>pm_id := ident, pm_sender_instance_tag := tag, pm_Y := Y, pm_B := B\<rparr>, length src - length cursor) } } }"

definition otrng_ec_calculate_public_key :: "('p, 's, 'm, 'h) crypto_ops \<Rightarrow> 's \<Rightarrow> 'p" where
  "otrng_ec_calculate_public_key C priv = point_scalarmul C (point_base C) priv"

definition otrng_prekey_message_deserialize_with_metadata ::
    "('p, 's, 'm, 'h) crypto_ops \<Rightarrow> ('p, 's, 'm) prekey_message_s \<Rightarrow> bytes \<Rightarrow> (('p, 's, 'm) prekey_message_s) parsed" where
  "otrng_prekey_message_deserialize_with_metadata C dst src = do {
     (dst, w) \<leftarrow> otrng_prekey_message_deserialize C dst src;
     (should_publish, read) \<leftarrow> otrng_deserialize_uint8 (drop w src);
     let w = w + read;
     y \<leftarrow> otrng_deserialize_ec_scalar C (drop w src);
     let w = w + ED448_SCALAR_BYTES;
     (priv, read) \<leftarrow> otrng_deserialize_dh_mpi_otr C None (drop w src);
     Some (dst\<lparr>pm_should_publish := should_publish,
       pm_y := Some \<lparr>ecdh_priv = y, ecdh_pub = otrng_ec_calculate_public_key C y\<rparr>,
       pm_b := Some \<lparr>dh_pub = map_option (otrng_dh_calculate_public_key C) priv, dh_priv = priv\<rparr>\<rparr>, w + read) }"

subsection \<open>Prekey ensembles\<close>

record ('p, 's, 'm) prekey_ensemble_s =
  pe_client_profile :: "'p otrng_client_profile_s"
  pe_prekey_profile :: "('p, 's) otrng_prekey_profile_s"
  pe_message :: "('p, 's, 'm) prekey_message_s"

text \<open>The loop over the versions, which stops at the end of the string or at the first 4.\<close>

fun has_version_4 :: "bytes \<Rightarrow> bool" where
  "has_version_4 [] = False"
| "has_version_4 (v # versions) = (if v = 0x34 then True else has_version_4 versions)"

definition otrng_prekey_ensemble_validate ::
    "('p, 's, 'm, 'h) crypto_ops \<Rightarrow> int \<Rightarrow> ('p, 's, 'm) prekey_ensemble_s \<Rightarrow> bool option" where
  "otrng_prekey_ensemble_validate C now dst = (
     let inst = cp_sender_instance_tag (pe_client_profile dst) in
     if inst \<noteq> pp_instance_tag (pe_prekey_profile dst) then Some False
     else if inst \<noteq> pm_sender_instance_tag (pe_message dst) then Some False
     else do {
       ok \<leftarrow> otrng_client_profile_valid C now (pe_client_profile dst) (pm_sender_instance_tag (pe_message dst));
       if \<not> ok then Some False
       else if \<not> otrng_prekey_profile_valid C now (pe_prekey_profile dst) (pm_sender_instance_tag (pe_message dst))
           (cp_long_term_pub_key (pe_client_profile dst)) then Some False
       else if \<not> otrng_ec_point_valid C (pm_Y (pe_message dst)) then Some False
       else if \<not> otrng_dh_mpi_valid C (pm_B (pe_message dst)) then Some False
       else map_option has_version_4 (cp_versions (pe_client_profile dst)) })"

definition otrng_prekey_ensemble_deserialize ::
    "('p, 's, 'm, 'h) crypto_ops \<Rightarrow> ('p, 's) wiped \<Rightarrow> bytes \<Rightarrow> (('p, 's, 'm) prekey_ensemble_s) parsed" where
  "otrng_prekey_ensemble_deserialize C Z src = do {
     (client_profile, w) \<leftarrow> otrng_client_profile_deserialize C Z src;
     (prekey_profile, read) \<leftarrow> otrng_prekey_profile_deserialize C (prekey_profile_zero Z) (drop w src);
     let w = w + read;
     (message, read) \<leftarrow> otrng_prekey_message_deserialize C (otrng_prekey_message_new Z) (drop w src);
     Some (\<lparr>pe_client_profile = client_profile, pe_prekey_profile = prekey_profile, pe_message = message\<rparr>, w + read) }"

subsection \<open>After the wire\<close>

definition wire_prekey_profile ::
    "('p, 's, 'm, 'h) crypto_ops \<Rightarrow> ('p, 's) wiped \<Rightarrow> ('p, 's) otrng_prekey_profile_s \<Rightarrow> ('p, 's) otrng_prekey_profile_s" where
  "wire_prekey_profile C Z p = (prekey_profile_zero Z)\<lparr>pp_instance_tag := pp_instance_tag p, pp_expires := pp_expires p,
     pp_shared_prekey := wire_point C (pp_shared_prekey p), pp_signature := pp_signature p\<rparr>"

definition prekey_profile_body :: "('p, 's, 'm, 'h) crypto_ops \<Rightarrow> ('p, 's) otrng_prekey_profile_s \<Rightarrow> bytes" where
  "prekey_profile_body C p = otrng_serialize_uint32 (pp_instance_tag p) @ otrng_serialize_uint64 (pp_expires p) @
     otrng_serialize_shared_prekey C (pp_shared_prekey p)"

lemma wire_shared_prekey:
  assumes G: "goldilocks_ok C S"
  shows "length (otrng_serialize_shared_prekey C p) = ED448_SHARED_PREKEY_BYTES"
    and "otrng_deserialize_shared_prekey C (otrng_serialize_shared_prekey C p @ rest) = Some (wire_point C p, ED448_SHARED_PREKEY_BYTES)"
    and "otrng_serialize_shared_prekey C (wire_point C p) = otrng_serialize_shared_prekey C p"
  by (simp_all add: otrng_serialize_shared_prekey_def otrng_deserialize_shared_prekey_def length_serialize_group[OF G]
      wire_point[OF G] wire_bytes(1)[OF G] const_defs)

lemma prekey_profile_body:
  assumes G: "goldilocks_ok C S"
  shows "prekey_profile_body_serialize C PREKEY_PROFILE_BODY_BYTES p = Some (prekey_profile_body C p)"
    and "length (prekey_profile_body C p) = PREKEY_PROFILE_BODY_BYTES"
    and "prekey_profile_body C (wire_prekey_profile C Z p) = prekey_profile_body C p"
  using wire_shared_prekey(1)[OF G, of "pp_shared_prekey p"]
  by (simp_all add: prekey_profile_body_serialize_def prekey_profile_body_def Let_def wire_shared_prekey[OF G]
      wire_prekey_profile_def const_defs)

lemma prekey_profile_roundtrip:
  assumes G: "goldilocks_ok C S" and "length (pp_signature p) = ED448_SIGNATURE_BYTES"
  shows "otrng_prekey_profile_serialize C p = Some (prekey_profile_body C p @ pp_signature p)"
    and "otrng_prekey_profile_deserialize C (prekey_profile_zero Z) (prekey_profile_body C p @ pp_signature p @ rest) =
       Some (wire_prekey_profile C Z p, length (prekey_profile_body C p @ pp_signature p))"
proof -
  show "otrng_prekey_profile_serialize C p = Some (prekey_profile_body C p @ pp_signature p)"
    using assms(2) by (simp add: otrng_prekey_profile_serialize_def prekey_profile_body[OF G] otrng_serialize_bytes_array_def Let_def)
  have "otrng_deserialize_bytes_array ED448_SIGNATURE_BYTES (pp_signature p @ rest) = Some (pp_signature p)"
    using assms(2) by (simp add: otrng_deserialize_bytes_array_def)
  then show "otrng_prekey_profile_deserialize C (prekey_profile_zero Z) (prekey_profile_body C p @ pp_signature p @ rest) =
       Some (wire_prekey_profile C Z p, length (prekey_profile_body C p @ pp_signature p))"
    using assms(2)
    by (simp add: otrng_prekey_profile_deserialize_def prekey_profile_body_def u32.dec_enc u64.dec_enc wire_shared_prekey[OF G]
        wire_prekey_profile_def Let_def)
qed

lemma signed_prekey_profile_verifies:
  assumes G: "goldilocks_ok C S" and E: "eddsa_ok C" and k: "otrng_keypair_generate C seed = Some kp"
    and "prekey_profile_body C p = body" "pp_signature p = otrng_ec_sign_simple C (kp_sym kp) body"
    and "dlog S pub = dlog S (kp_pub kp)"
  shows "otrng_prekey_profile_verify_signature C p pub"
proof -
  have "otrng_serialize_ec_point C pub = derive_public_key C (kp_sym kp)"
    using wire_cong(1)[OF G assms(6)] keypair_public_bytes(1)[OF G k] by simp
  moreover have "length (otrng_serialize_ec_point C pub) = ED448_POINT_BYTES"
    by (simp add: length_serialize_group[OF G] const_defs)
  ultimately show ?thesis
    using E assms(4,5)
    by (simp add: otrng_prekey_profile_verify_signature_def prekey_profile_body_serialize_into_def prekey_profile_body[OF G]
        otrng_ec_sign_simple_def otrng_ec_sign_def otrng_ec_verify_def eddsa_ok_def)
qed

definition wire_prekey_message ::
    "('p, 's, 'm, 'h) crypto_ops \<Rightarrow> ('p, 's) wiped \<Rightarrow> ('p, 's, 'm) prekey_message_s \<Rightarrow> ('p, 's, 'm) prekey_message_s" where
  "wire_prekey_message C Z m = (otrng_prekey_message_new Z)\<lparr>pm_id := pm_id m, pm_sender_instance_tag := pm_sender_instance_tag m,
     pm_Y := wire_point C (pm_Y m), pm_B := map_option (wire_mpi C) (pm_B m)\<rparr>"

lemma prekey_message_roundtrip:
  assumes G: "goldilocks_ok C S" "gcrypt_ok C S" and "dh_ok S (pm_B m)"
  shows "\<exists>bs. otrng_prekey_message_serialize_into C m = Some bs \<and> length bs \<le> PRE_KEY_MAX_BYTES \<and>
     (\<forall>rest. otrng_prekey_message_deserialize C (otrng_prekey_message_new Z) (bs @ rest) = Some (wire_prekey_message C Z m, length bs))"
proof -
  obtain b where b: "pm_B m = Some b" "in_dh_range S b" by (rule dh_okE[OF assms(3)])
  have L: "length (otrng_serialize_ec_point C p) = ED448_POINT_BYTES" for p
    by (simp add: length_serialize_group[OF G(1)] const_defs)
  note mb = wire_mpi[OF G(2) b(2)]
  show ?thesis
    using mb(5)
    by (simp add: otrng_prekey_message_serialize_into_def otrng_prekey_message_serialize_def Let_def b L mb
        PRE_KEY_MAX_BYTES_def DAKE_HEADER_BYTES_def otrng_prekey_message_deserialize_def u16.dec_enc u32.dec_enc
        wire_point[OF G(1)] wire_prekey_message_def otrng_prekey_message_new_def)
qed

lemma has_version_4_iff: "has_version_4 v \<longleftrightarrow> 0x34 \<in> set v"
  by (induction v) auto

lemma dh_valid_ok: "gcrypt_ok C S \<Longrightarrow> otrng_dh_mpi_valid C d \<Longrightarrow> d \<noteq> None \<Longrightarrow> dh_ok S d"
  by (cases d) (auto simp: dh_ok_def in_dh_range_def dh_valid_iff DH3072_MODULUS_MINUS_2_def DH3072_MODULUS_def const_defs)

lemma prekey_profile_build_ok:
  assumes G: "goldilocks_ok C S" and E: "eddsa_ok C" and k: "otrng_keypair_generate C seed = Some kp"
    and tag: "otrng_instance_tag_valid tag"
  obtains p where "otrng_prekey_profile_build C Z random now tag (Some kp) = Some p"
    "length (pp_signature p) = ED448_SIGNATURE_BYTES" "pp_instance_tag p = tag"
    "\<And>t pub. dlog S pub = dlog S (kp_pub kp) \<Longrightarrow> otrng_prekey_profile_valid C t (wire_prekey_profile C Z p) tag pub \<longleftrightarrow>
       t < sint (of_int now + PREKEY_PROFILE_EXPIRATION_SECONDS)"
proof -
  obtain q where "otrng_ec_point_decode C (derive_public_key C (take ED448_PRIVATE_BYTES random)) = Some q"
    by (rule ecdh_keypair_total[OF G])
  then obtain keys where keys: "otrng_shared_prekey_pair_generate C random = Some keys"
    by (simp add: otrng_shared_prekey_pair_generate_def)
  let ?u = "(prekey_profile_zero Z)\<lparr>pp_keys := Some keys, pp_shared_prekey := kp_pub keys, pp_instance_tag := tag,
     pp_expires := of_int now + PREKEY_PROFILE_EXPIRATION_SECONDS\<rparr>"
  let ?p = "?u\<lparr>pp_signature := otrng_ec_sign_simple C (kp_sym kp) (prekey_profile_body C ?u)\<rparr>"
  have b: "prekey_profile_body C ?p = prekey_profile_body C ?u" by (simp add: prekey_profile_body_def)
  have "otrng_prekey_profile_build C Z random now tag (Some kp) = Some ?p"
    using tag by (simp add: otrng_prekey_profile_build_def keys otrng_prekey_profile_sign_def
        prekey_profile_body_serialize_into_def prekey_profile_body(1)[OF G])
  moreover have "length (pp_signature ?p) = ED448_SIGNATURE_BYTES"
    using E by (simp add: otrng_ec_sign_simple_def otrng_ec_sign_def eddsa_ok_def)
  moreover have "otrng_prekey_profile_valid C t (wire_prekey_profile C Z ?p) tag pub \<longleftrightarrow>
      t < sint (of_int now + PREKEY_PROFILE_EXPIRATION_SECONDS)" if "dlog S pub = dlog S (kp_pub kp)" for t pub
  proof -
    have "otrng_prekey_profile_verify_signature C (wire_prekey_profile C Z ?p) pub"
    proof (rule signed_prekey_profile_verifies[OF G E k _ _ that])
      show "prekey_profile_body C (wire_prekey_profile C Z ?p) = prekey_profile_body C ?u"
        by (simp only: prekey_profile_body(3)[OF G] b)
    qed (simp add: wire_prekey_profile_def)
    then show ?thesis
      by (auto simp: otrng_prekey_profile_valid_def otrng_prekey_profile_valid_without_expiry_def wire_prekey_profile_def
          otrng_ec_point_valid_def goldilocks_point(8)[OF G] prekey_profile_expired_def)
  qed
  ultimately show ?thesis by (intro that[of ?p]) simp_all
qed

text \<open>C20: what a client publishes, its profile, a prekey profile and a prekey message that it built for
  itself, one after the other, is read by everyone as the same ensemble, and it is valid until the first
  of the two profiles expires.\<close>

theorem prekey_ensemble_valid:
  assumes G: "goldilocks_ok C S" "gcrypt_ok C S" and E: "eddsa_ok C" and k: "otrng_keypair_generate C seed = Some kp"
    and tag: "otrng_instance_tag_valid tag" and v: "set v \<subseteq> {0x33, 0x34}" "length v < 2 ^ 32" "0x34 \<in> set v"
    and keys: "dh_pub b = Some d" "otrng_dh_mpi_valid C (dh_pub b)"
  shows "\<exists>cp pp bs1 bs2 bs3 e. otrng_client_profile_build_with_custom_expiration C Z tag (Some v) (Some kp) F expires = Some (Some cp) \<and>
     otrng_prekey_profile_build C Z random now tag (Some kp) = Some pp \<and>
     otrng_client_profile_serialize C cp = Some (Some bs1) \<and> otrng_prekey_profile_serialize C pp = Some bs2 \<and>
     otrng_prekey_message_serialize_into C (otrng_prekey_message_build Z ident tag y b) = Some bs3 \<and>
     otrng_prekey_ensemble_deserialize C Z (bs1 @ bs2 @ bs3 @ rest) = Some (e, length (bs1 @ bs2 @ bs3)) \<and>
     pm_id (pe_message e) = ident \<and> dlog S (pm_Y (pe_message e)) = dlog S (ecdh_pub y) \<and>
     map_option (mval S) (pm_B (pe_message e)) = map_option (mval S) (dh_pub b) \<and>
     otrng_prekey_ensemble_validate C t e =
       Some (t < sint expires \<and> t < sint (of_int now + PREKEY_PROFILE_EXPIRATION_SECONDS))"
proof -
  obtain cp where cp: "otrng_client_profile_build_with_custom_expiration C Z tag (Some v) (Some kp) F expires = Some (Some cp)"
    "wf_profile cp" "cp_dsa_key cp = None" "cp_transitional_signature cp = None" "cp_versions cp = Some v"
    "cp_sender_instance_tag cp = tag" "cp_long_term_pub_key cp = kp_pub kp"
    "\<And>now. otrng_client_profile_valid C now (wire_profile C cp) tag = Some (now < sint expires)"
    by (rule client_profile_build_ok[OF G(1) E k tag v(1,2), of Z F expires]) blast
  obtain pp where pp: "otrng_prekey_profile_build C Z random now tag (Some kp) = Some pp"
    "length (pp_signature pp) = ED448_SIGNATURE_BYTES" "pp_instance_tag pp = tag"
    "\<And>t pub. dlog S pub = dlog S (kp_pub kp) \<Longrightarrow> otrng_prekey_profile_valid C t (wire_prekey_profile C Z pp) tag pub \<longleftrightarrow>
       t < sint (of_int now + PREKEY_PROFILE_EXPIRATION_SECONDS)"
    by (rule prekey_profile_build_ok[OF G(1) E k tag, of Z random now]) blast
  let ?m = "otrng_prekey_message_build Z ident tag y b"
  note d = keys(1)
  have dok: "dh_ok S (dh_pub b)" using dh_valid_ok[OF G(2) keys(2)] d by simp
  obtain bs3 where m: "otrng_prekey_message_serialize_into C ?m = Some bs3"
    "\<And>rest. otrng_prekey_message_deserialize C (otrng_prekey_message_new Z) (bs3 @ rest) = Some (wire_prekey_message C Z ?m, length bs3)"
    using prekey_message_roundtrip[OF G, of ?m Z] dok by (auto simp: otrng_prekey_message_build_def)
  have fit: "fits_profile cp" using cp by (simp add: fits_profile_def opt_len_def)
  let ?e = "\<lparr>pe_client_profile = wire_profile C cp, pe_prekey_profile = wire_prekey_profile C Z pp, pe_message = wire_prekey_message C Z ?m\<rparr>"
  note valid = pp(4)[of "wire_point C (kp_pub kp)", unfolded wire_point(3)[OF G(1)], OF refl]
  have w: "cp_long_term_pub_key (wire_profile C cp) = wire_point C (kp_pub kp)"
    "cp_sender_instance_tag (wire_profile C cp) = tag" "cp_versions (wire_profile C cp) = Some v"
    "pp_instance_tag (wire_prekey_profile C Z pp) = tag"
    using cp pp by (simp_all add: wire_profile_def wire_prekey_profile_def)
  have B: "pm_B (wire_prekey_message C Z ?m) = Some (wire_mpi C d)" "pm_sender_instance_tag (wire_prekey_message C Z ?m) = tag"
    "pm_Y (wire_prekey_message C Z ?m) = wire_point C (ecdh_pub y)" "pm_id (wire_prekey_message C Z ?m) = ident"
    by (simp_all add: wire_prekey_message_def otrng_prekey_message_build_def d)
  have range: "in_dh_range S d" using dok d by (simp add: dh_ok_def)
  have "otrng_dh_mpi_valid C (Some (wire_mpi C d))"
    using keys(2) d dh_valid_cong[OF G(2) wire_mpi(4)[OF G(2) range]] by simp
  then have "otrng_prekey_ensemble_validate C t ?e = Some (t < sint expires \<and> t < sint (of_int now + PREKEY_PROFILE_EXPIRATION_SECONDS))"
    using v(3) by (simp add: otrng_prekey_ensemble_validate_def Let_def w B cp valid otrng_ec_point_valid_def
        goldilocks_point(8)[OF G(1)] has_version_4_iff)
  moreover have "otrng_prekey_ensemble_deserialize C Z (profile_bytes C cp @ (prekey_profile_body C pp @ pp_signature pp) @ bs3 @ rest) =
      Some (?e, length (profile_bytes C cp @ (prekey_profile_body C pp @ pp_signature pp) @ bs3))"
    by (simp add: otrng_prekey_ensemble_deserialize_def profile_bytes[OF G(1) fit] prekey_profile_roundtrip[OF G(1) pp(2)] Let_def
        del: length_append) (simp add: m(2))
  ultimately show ?thesis
    using cp(1) pp(1) profile_bytes(1)[OF G(1) fit] prekey_profile_roundtrip(1)[OF G(1) pp(2)] m(1) B d
      wire_point(3)[OF G(1)] wire_mpi(4)[OF G(2) range]
    by (intro exI[of _ cp] exI[of _ pp] exI[of _ "profile_bytes C cp"] exI[of _ "prekey_profile_body C pp @ pp_signature pp"]
        exI[of _ bs3] exI[of _ ?e]) simp
qed

theorem prekey_ensemble_valid_witness:
  "\<exists>cp pp bs1 bs2 bs3 e. otrng_client_profile_build_with_custom_expiration ex_crypto ex_zero 0x200 (Some [0x34]) (Some (ex_keypair 3)) 5 100 = Some (Some cp) \<and>
     otrng_prekey_profile_build ex_crypto ex_zero [7] 10 0x200 (Some (ex_keypair 3)) = Some pp \<and>
     otrng_client_profile_serialize ex_crypto cp = Some (Some bs1) \<and> otrng_prekey_profile_serialize ex_crypto pp = Some bs2 \<and>
     otrng_prekey_message_serialize_into ex_crypto (otrng_prekey_message_build ex_zero 77 0x200
       \<lparr>ecdh_priv = 3, ecdh_pub = 3\<rparr> \<lparr>dh_pub = Some 4, dh_priv = Some 2\<rparr>) = Some bs3 \<and>
     otrng_prekey_ensemble_deserialize ex_crypto ex_zero (bs1 @ bs2 @ bs3 @ []) = Some (e, length (bs1 @ bs2 @ bs3)) \<and>
     pm_id (pe_message e) = 77 \<and> dlog ex_sem (pm_Y (pe_message e)) = dlog ex_sem (ecdh_pub \<lparr>ecdh_priv = 3 :: int, ecdh_pub = 3\<rparr>) \<and>
     map_option (mval ex_sem) (pm_B (pe_message e)) = map_option (mval ex_sem) (dh_pub \<lparr>dh_pub = Some 4, dh_priv = Some 2\<rparr>) \<and>
     otrng_prekey_ensemble_validate ex_crypto 50 e =
       Some (50 < sint (100 :: u64) \<and> 50 < sint (of_int 10 + PREKEY_PROFILE_EXPIRATION_SECONDS))"
  by (rule prekey_ensemble_valid[OF ex_goldilocks_ok ex_gcrypt_ok ex_eddsa_ok ex_keypair_generated])
     (simp_all add: otrng_instance_tag_valid_def ex_dh_valid const_defs)

end
