(* ===== verification/V3.thy ===== *)
theory V3
  imports Smp
begin

text \<open>
  \<open>v3.c\<close>: the bridge to libotr, which runs the conversations of version 3.  libotr is a parameter: for each of its
  calls the record \<open>libotr\<close> says what the call returns, how it leaves the context of the connection and which callbacks
  it makes, in order.  The callbacks of \<open>v3.c\<close> store injected messages in the connection and pass the rest on to the
  application; what the application is told is a list of values of \<open>callback\<close>, which is shared with version 4.  A
  result \<open>None\<close> is a read through a bad pointer.  The callbacks that only return a constant are left out, except the
  ones whose answer libotr depends on.
\<close>

subsection \<open>What the application is told\<close>

datatype otrng_msg_event = OTRNG_MSG_EVENT_NONE | OTRNG_MSG_EVENT_ENCRYPTION_REQUIRED | OTRNG_MSG_EVENT_ENCRYPTION_ERROR
  | OTRNG_MSG_EVENT_HEARTBEAT_SENT | OTRNG_MSG_EVENT_INCORRECT_AMMOUNT_PREKEYS
  | OTRNG_MSG_EVENT_SENDING_NOT_IN_ENCRYPTED_STATE | OTRNG_MSG_EVENT_INVALID_MSG | OTRNG_MSG_EVENT_MALFORMED_PREKEY
  | OTRNG_MSG_EVENT_MSG_KEYS_STORAGE_FULL | OTRNG_MSG_EVENT_RCV_UNENCRYPTED | OTRNG_MSG_EVENT_CONNECTION_ENDED

datatype callback = Handle_event otrng_msg_event | Gone_secure | Gone_insecure | Fingerprint_seen bytes
  | Smp_event smp_callback | Received_extra_symm_key u32 bytes bytes | Create_instag
  | Create_privkey_v3 | Fingerprint_seen_v3 bytes | Store_fingerprints_v3

subsection \<open>libotr\<close>

typedecl ConnContext

datatype OtrlSMPEvent = OTRL_SMPEVENT_NONE | OTRL_SMPEVENT_ERROR | OTRL_SMPEVENT_ABORT | OTRL_SMPEVENT_CHEATED
  | OTRL_SMPEVENT_ASK_FOR_ANSWER | OTRL_SMPEVENT_ASK_FOR_SECRET | OTRL_SMPEVENT_IN_PROGRESS | OTRL_SMPEVENT_SUCCESS | OTRL_SMPEVENT_FAILURE

datatype OtrlMessageState = OTRL_MSGSTATE_PLAINTEXT | OTRL_MSGSTATE_ENCRYPTED | OTRL_MSGSTATE_FINISHED

text \<open>The calls that libotr makes into \<open>v3_callbacks\<close>.\<close>

datatype app_op = Op_create_privkey | Op_inject "string option" | Op_new_fingerprint bytes | Op_write_fingerprints | Op_gone_secure
  | Op_gone_insecure | Op_still_secure bool | Op_received_symkey u32 bytes bytes | Op_handle_smp_event OtrlSMPEvent nat "bytes option"
  | Op_create_instag

record libotr =
  message_sending :: "string \<Rightarrow> string \<Rightarrow> ConnContext option \<Rightarrow> (bool \<times> string option) \<times> ConnContext option \<times> app_op list"
  message_receiving :: "string \<Rightarrow> string \<Rightarrow> ConnContext option \<Rightarrow> string option \<times> ConnContext option \<times> app_op list"
  message_disconnect_all_instances :: "string \<Rightarrow> ConnContext option \<Rightarrow> ConnContext option \<times> app_op list"
  message_symkey :: "ConnContext option \<Rightarrow> u32 \<Rightarrow> bytes \<Rightarrow> bytes option \<times> ConnContext option \<times> app_op list"
  message_initiate_smp :: "ConnContext option \<Rightarrow> bytes \<Rightarrow> ConnContext option \<times> app_op list"
  message_initiate_smp_q :: "ConnContext option \<Rightarrow> bytes option \<Rightarrow> bytes \<Rightarrow> ConnContext option \<times> app_op list"
  message_respond_smp :: "ConnContext option \<Rightarrow> bytes \<Rightarrow> ConnContext option \<times> app_op list"
  message_abort_smp :: "ConnContext option \<Rightarrow> ConnContext option \<times> app_op list"
  context_msgstate :: "ConnContext \<Rightarrow> OtrlMessageState"

subsection \<open>The connection\<close>

record otrng_v3_conn_s =
  v3_peer :: string
  v3_injected_message :: "string option"
  v3_ctx :: "ConnContext option"

definition otrng_v3_conn_new :: "string \<Rightarrow> otrng_v3_conn_s" where
  "otrng_v3_conn_new peer = \<lparr>v3_peer = peer, v3_injected_message = None, v3_ctx = None\<rparr>"

definition otrng_v3_store_injected_message :: "string option \<Rightarrow> otrng_v3_conn_s \<Rightarrow> otrng_v3_conn_s" where
  "otrng_v3_store_injected_message msg conn =
     (case msg of None \<Rightarrow> conn | Some m \<Rightarrow> conn\<lparr>v3_injected_message := Some m\<rparr>)"

definition otrng_v3_retrieve_injected_message :: "otrng_v3_conn_s \<Rightarrow> string option \<times> otrng_v3_conn_s" where
  "otrng_v3_retrieve_injected_message conn = (v3_injected_message conn, conn\<lparr>v3_injected_message := None\<rparr>)"

subsection \<open>The callbacks\<close>

fun convert_smp_event :: "OtrlSMPEvent \<Rightarrow> otrng_smp_event" where
  "convert_smp_event OTRL_SMPEVENT_ASK_FOR_SECRET = OTRNG_SMP_EVENT_ASK_FOR_SECRET"
| "convert_smp_event OTRL_SMPEVENT_ASK_FOR_ANSWER = OTRNG_SMP_EVENT_ASK_FOR_ANSWER"
| "convert_smp_event OTRL_SMPEVENT_CHEATED = OTRNG_SMP_EVENT_CHEATED"
| "convert_smp_event OTRL_SMPEVENT_IN_PROGRESS = OTRNG_SMP_EVENT_IN_PROGRESS"
| "convert_smp_event OTRL_SMPEVENT_SUCCESS = OTRNG_SMP_EVENT_SUCCESS"
| "convert_smp_event OTRL_SMPEVENT_FAILURE = OTRNG_SMP_EVENT_FAILURE"
| "convert_smp_event OTRL_SMPEVENT_ABORT = OTRNG_SMP_EVENT_ABORT"
| "convert_smp_event OTRL_SMPEVENT_ERROR = OTRNG_SMP_EVENT_ERROR"
| "convert_smp_event OTRL_SMPEVENT_NONE = OTRNG_SMP_EVENT_NONE"

text \<open>The question is a string without its final NUL.  Its length is taken from the second character on: it is one too
  short, and for the empty question what follows the string is read.\<close>

definition otrng_client_callbacks_smp_ask_for_answer :: "smp_callbacks_registered \<Rightarrow> bytes option \<Rightarrow> smp_callback list option" where
  "otrng_client_callbacks_smp_ask_for_answer cbs question =
     (if \<not> has_smp_ask_for_answer cbs then Some []
      else case question of
          None \<Rightarrow> None
        | Some q \<Rightarrow> if q = [] then None else Some [Smp_ask_for_answer (Some q) (length (tl q))])"

definition otrng_client_callbacks_smp_ask_for_secret :: "smp_callbacks_registered \<Rightarrow> smp_callback list" where
  "otrng_client_callbacks_smp_ask_for_secret cbs = (if \<not> has_smp_ask_for_secret cbs then [] else [Smp_ask_for_secret])"

definition otrng_client_callbacks_smp_update :: "smp_callbacks_registered \<Rightarrow> otrng_smp_event \<Rightarrow> nat \<Rightarrow> smp_callback list" where
  "otrng_client_callbacks_smp_update cbs event progress_percent =
     (if \<not> has_smp_update cbs then [] else [Smp_update event progress_percent])"

definition handle_smp_event_cb_v3 :: "smp_callbacks_registered \<Rightarrow> otrng_smp_event \<Rightarrow> nat \<Rightarrow> bytes option \<Rightarrow> smp_callback list option" where
  "handle_smp_event_cb_v3 cbs event progress_percent question = (case event of
     OTRNG_SMP_EVENT_ASK_FOR_SECRET \<Rightarrow> Some (otrng_client_callbacks_smp_ask_for_secret cbs)
   | OTRNG_SMP_EVENT_ASK_FOR_ANSWER \<Rightarrow> otrng_client_callbacks_smp_ask_for_answer cbs question
   | OTRNG_SMP_EVENT_NONE \<Rightarrow> Some []
   | _ \<Rightarrow> Some (otrng_client_callbacks_smp_update cbs event progress_percent))"

text \<open>What the callbacks tell the application.\<close>

type_synonym v3_state = "otrng_v3_conn_s \<times> callback list"

definition tell :: "callback \<Rightarrow> v3_state \<Rightarrow> v3_state" where
  "tell e s = (fst s, snd s @ [e])"

definition create_privkey_cb_v3 :: "v3_state \<Rightarrow> v3_state" where
  "create_privkey_cb_v3 s = tell Create_privkey_v3 s"

definition create_instag_cb_v3 :: "v3_state \<Rightarrow> v3_state" where
  "create_instag_cb_v3 s = tell Create_instag s"

definition gone_secure_cb_v3 :: "v3_state \<Rightarrow> v3_state" where
  "gone_secure_cb_v3 s = tell Gone_secure s"

definition gone_insecure_cb_v3 :: "v3_state \<Rightarrow> v3_state" where
  "gone_insecure_cb_v3 s = tell Gone_insecure s"

definition fingerprint_seen_cb_v3 :: "bytes \<Rightarrow> v3_state \<Rightarrow> v3_state" where
  "fingerprint_seen_cb_v3 fp s = tell (Fingerprint_seen_v3 fp) s"

text \<open>A received symmetric key is dropped.\<close>

definition received_symkey_cb_v3 :: "u32 \<Rightarrow> bytes \<Rightarrow> bytes \<Rightarrow> v3_state \<Rightarrow> v3_state" where
  "received_symkey_cb_v3 use_case usedata extra_key s = s"

text \<open>The callbacks.  The progress of the socialist millionaires protocol is passed on as eight bits.\<close>

definition op_inject :: "string option \<Rightarrow> v3_state \<Rightarrow> v3_state" where
  "op_inject msg s = apfst (otrng_v3_store_injected_message msg) s"

definition op_create_privkey :: "v3_state \<Rightarrow> v3_state" where
  "op_create_privkey s = create_privkey_cb_v3 s"

definition op_new_fingerprint :: "bytes \<Rightarrow> v3_state \<Rightarrow> v3_state" where
  "op_new_fingerprint fp s = fingerprint_seen_cb_v3 fp s"

definition op_write_fingerprints :: "v3_state \<Rightarrow> v3_state" where
  "op_write_fingerprints s = tell Store_fingerprints_v3 s"

definition op_gone_secure :: "v3_state \<Rightarrow> v3_state" where
  "op_gone_secure s = gone_secure_cb_v3 s"

definition op_gone_insecure :: "v3_state \<Rightarrow> v3_state" where
  "op_gone_insecure s = gone_insecure_cb_v3 s"

definition op_still_secure :: "bool \<Rightarrow> v3_state \<Rightarrow> v3_state" where
  "op_still_secure is_reply s = gone_secure_cb_v3 s"

definition op_received_symkey :: "u32 \<Rightarrow> bytes \<Rightarrow> bytes \<Rightarrow> v3_state \<Rightarrow> v3_state" where
  "op_received_symkey use_case usedata extra_key s = received_symkey_cb_v3 use_case usedata extra_key s"

definition op_handle_smp_event :: "smp_callbacks_registered \<Rightarrow> OtrlSMPEvent \<Rightarrow> nat \<Rightarrow> bytes option \<Rightarrow> v3_state \<Rightarrow> v3_state option" where
  "op_handle_smp_event cbs event percent question s =
     map_option (\<lambda>es. apsnd (\<lambda>told. told @ map Smp_event es) s) (handle_smp_event_cb_v3 cbs (convert_smp_event event) (percent mod 256) question)"

definition op_create_instag :: "v3_state \<Rightarrow> v3_state" where
  "op_create_instag s = create_instag_cb_v3 s"

definition run_app_op :: "smp_callbacks_registered \<Rightarrow> app_op \<Rightarrow> v3_state \<Rightarrow> v3_state option" where
  "run_app_op cbs op s = (case op of
     Op_create_privkey \<Rightarrow> Some (op_create_privkey s)
   | Op_inject msg \<Rightarrow> Some (op_inject msg s)
   | Op_new_fingerprint fp \<Rightarrow> Some (op_new_fingerprint fp s)
   | Op_write_fingerprints \<Rightarrow> Some (op_write_fingerprints s)
   | Op_gone_secure \<Rightarrow> Some (op_gone_secure s)
   | Op_gone_insecure \<Rightarrow> Some (op_gone_insecure s)
   | Op_still_secure is_reply \<Rightarrow> Some (op_still_secure is_reply s)
   | Op_received_symkey use_case usedata key \<Rightarrow> Some (op_received_symkey use_case usedata key s)
   | Op_handle_smp_event event percent question \<Rightarrow> op_handle_smp_event cbs event percent question s
   | Op_create_instag \<Rightarrow> Some (op_create_instag s))"

lemmas app_op_defs = run_app_op_def tell_def create_privkey_cb_v3_def create_instag_cb_v3_def gone_secure_cb_v3_def gone_insecure_cb_v3_def
  fingerprint_seen_cb_v3_def received_symkey_cb_v3_def op_inject_def op_create_privkey_def op_new_fingerprint_def op_write_fingerprints_def
  op_gone_secure_def op_gone_insecure_def op_still_secure_def op_received_symkey_def op_handle_smp_event_def op_create_instag_def

fun run_app_ops ::
    "smp_callbacks_registered \<Rightarrow> app_op list \<Rightarrow> v3_state \<Rightarrow> v3_state option" where
  "run_app_ops cbs [] s = Some s"
| "run_app_ops cbs (op # ops) s = Option.bind (run_app_op cbs op s) (run_app_ops cbs ops)"

definition v3_callbacks ::
    "smp_callbacks_registered \<Rightarrow> otrng_v3_conn_s \<Rightarrow> ConnContext option \<times> app_op list \<Rightarrow> (otrng_v3_conn_s \<times> callback list) option" where
  "v3_callbacks cbs conn r = (case r of (ctx, ops) \<Rightarrow> run_app_ops cbs ops (conn\<lparr>v3_ctx := ctx\<rparr>, []))"

subsection \<open>The operations\<close>

text \<open>The records are not passed on.\<close>

definition otrng_v3_send_message ::
    "libotr \<Rightarrow> smp_callbacks_registered \<Rightarrow> string \<Rightarrow> tlv_s list \<Rightarrow> otrng_v3_conn_s option
     \<Rightarrow> (bool \<times> string option \<times> otrng_v3_conn_s option \<times> callback list) option" where
  "otrng_v3_send_message L cbs msg tlv_list v3_conn = (case v3_conn of
     None \<Rightarrow> Some (False, None, None, [])
   | Some conn \<Rightarrow> (case message_sending L (v3_peer conn) msg (v3_ctx conn) of ((err, new_msg), r) \<Rightarrow> do {
       (conn, told) \<leftarrow> v3_callbacks cbs conn r;
       Some (\<not> err, new_msg, Some conn, told) }))"

definition otrng_v3_receive_message ::
    "libotr \<Rightarrow> smp_callbacks_registered \<Rightarrow> string \<Rightarrow> otrng_v3_conn_s option
     \<Rightarrow> (bool \<times> string option \<times> string option \<times> otrng_v3_conn_s option \<times> callback list) option" where
  "otrng_v3_receive_message L cbs msg v3_conn = (case v3_conn of
     None \<Rightarrow> Some (False, None, None, None, [])
   | Some conn \<Rightarrow> (case message_receiving L (v3_peer conn) msg (v3_ctx conn) of (new_msg, r) \<Rightarrow> do {
       (conn, told) \<leftarrow> v3_callbacks cbs conn r;
       let (to_send, conn) = otrng_v3_retrieve_injected_message conn;
       Some (True, to_send, new_msg, Some conn, told) }))"

definition otrng_v3_close ::
    "libotr \<Rightarrow> smp_callbacks_registered \<Rightarrow> otrng_v3_conn_s option \<Rightarrow> (bool \<times> string option \<times> otrng_v3_conn_s \<times> callback list) option" where
  "otrng_v3_close L cbs v3_conn = do {
     conn \<leftarrow> v3_conn;
     (conn, told) \<leftarrow> v3_callbacks cbs conn (message_disconnect_all_instances L (v3_peer conn) (v3_ctx conn));
     let (to_send, conn) = otrng_v3_retrieve_injected_message conn;
     Some (True, to_send, conn, told) }"

text \<open>The key is what libotr writes, if it writes one.\<close>

definition otrng_v3_send_symkey_message ::
    "libotr \<Rightarrow> smp_callbacks_registered \<Rightarrow> otrng_v3_conn_s option \<Rightarrow> u32 \<Rightarrow> bytes
     \<Rightarrow> (string option \<times> bytes option \<times> otrng_v3_conn_s \<times> callback list) option" where
  "otrng_v3_send_symkey_message L cbs v3_conn use_case usedata = do {
     conn \<leftarrow> v3_conn;
     let (extra_key, r) = message_symkey L (v3_ctx conn) use_case usedata;
     (conn, told) \<leftarrow> v3_callbacks cbs conn r;
     let (to_send, conn) = otrng_v3_retrieve_injected_message conn;
     Some (to_send, extra_key, conn, told) }"

text \<open>The question is copied with a terminator when it is not empty; for an empty question libotr is given
  \<open>NULL\<close>.\<close>

definition otrng_v3_smp_start ::
    "libotr \<Rightarrow> smp_callbacks_registered \<Rightarrow> bytes option \<Rightarrow> nat \<Rightarrow> bytes \<Rightarrow> otrng_v3_conn_s option
     \<Rightarrow> (string option \<times> otrng_v3_conn_s \<times> callback list) option" where
  "otrng_v3_smp_start L cbs question q_len secret v3_conn = do {
     conn \<leftarrow> v3_conn;
     let q = (case question of Some text_q \<Rightarrow> if 0 < q_len then Some (take q_len text_q) else None | None \<Rightarrow> None);
     (conn, told) \<leftarrow> v3_callbacks cbs conn
       (if question \<noteq> None then message_initiate_smp_q L (v3_ctx conn) q secret else message_initiate_smp L (v3_ctx conn) secret);
     let (to_send, conn) = otrng_v3_retrieve_injected_message conn;
     Some (to_send, conn, told) }"

definition otrng_v3_smp_continue ::
    "libotr \<Rightarrow> smp_callbacks_registered \<Rightarrow> bytes \<Rightarrow> otrng_v3_conn_s option \<Rightarrow> (string option \<times> otrng_v3_conn_s \<times> callback list) option" where
  "otrng_v3_smp_continue L cbs secret v3_conn = do {
     conn \<leftarrow> v3_conn;
     (conn, told) \<leftarrow> v3_callbacks cbs conn (message_respond_smp L (v3_ctx conn) secret);
     let (to_send, conn) = otrng_v3_retrieve_injected_message conn;
     Some (to_send, conn, told) }"

text \<open>The message that libotr injects is not retrieved.\<close>

definition otrng_v3_smp_abort ::
    "libotr \<Rightarrow> smp_callbacks_registered \<Rightarrow> otrng_v3_conn_s option \<Rightarrow> (otrng_v3_conn_s \<times> callback list) option" where
  "otrng_v3_smp_abort L cbs v3_conn = do {
     conn \<leftarrow> v3_conn;
     v3_callbacks cbs conn (message_abort_smp L (v3_ctx conn)) }"

subsection \<open>Messages that are lost\<close>

text \<open>The messages that a run of libotr wants to send, and the one that the connection keeps.\<close>

definition injected :: "app_op list \<Rightarrow> string list" where
  "injected ops = concat (map (\<lambda>op. case op of Op_inject (Some m) \<Rightarrow> [m] | _ \<Rightarrow> []) ops)"

definition pending_after :: "app_op list \<Rightarrow> string option \<Rightarrow> string option" where
  "pending_after ops before = (if injected ops = [] then before else Some (last (injected ops)))"

text \<open>The callbacks that the bridge survives: a question that is asked must not be empty.\<close>

fun answerable :: "smp_callbacks_registered \<Rightarrow> app_op \<Rightarrow> bool" where
  "answerable cbs (Op_handle_smp_event OTRL_SMPEVENT_ASK_FOR_ANSWER percent question) \<longleftrightarrow>
     (has_smp_ask_for_answer cbs \<longrightarrow> question \<noteq> None \<and> question \<noteq> Some [])"
| "answerable cbs _ \<longleftrightarrow> True"

lemma injected_simps [simp]:
  "injected [] = []"
  "injected (op # ops) = (case op of Op_inject (Some m) \<Rightarrow> [m] | _ \<Rightarrow> []) @ injected ops"
  by (simp_all add: injected_def)

lemma pending_after_Cons [simp]: "pending_after ops (pending_after [op] before) = pending_after (op # ops) before"
  by (simp add: pending_after_def split: app_op.split option.split)

lemma run_app_op_cases:
  "answerable cbs op \<Longrightarrow> \<exists>told'. run_app_op cbs op (conn, told) = Some (conn\<lparr>v3_injected_message := pending_after [op] (v3_injected_message conn)\<rparr>, told')"
  "\<not> answerable cbs op \<Longrightarrow> run_app_op cbs op (conn, told) = None"
  by (cases "(cbs, op)" rule: answerable.cases;
      force simp: app_op_defs pending_after_def otrng_v3_store_injected_message_def handle_smp_event_cb_v3_def
        otrng_client_callbacks_smp_ask_for_answer_def split: option.splits)+

lemma run_app_ops_cases:
  "list_all (answerable cbs) ops \<Longrightarrow>
     \<exists>told'. run_app_ops cbs ops (conn, told) = Some (conn\<lparr>v3_injected_message := pending_after ops (v3_injected_message conn)\<rparr>, told')"
  "\<not> list_all (answerable cbs) ops \<Longrightarrow> run_app_ops cbs ops (conn, told) = None"
proof (induction ops arbitrary: conn told)
  case (Cons op ops)
  {
    case 1
    then obtain told' where "run_app_op cbs op (conn, told) = Some (conn\<lparr>v3_injected_message := pending_after [op] (v3_injected_message conn)\<rparr>, told')"
      using run_app_op_cases(1) by force
    with Cons.IH(1)[of "conn\<lparr>v3_injected_message := pending_after [op] (v3_injected_message conn)\<rparr>" told'] 1 show ?case by simp
  next
    case 2
    show ?case
    proof (cases "answerable cbs op")
      case True
      then obtain s where "run_app_op cbs op (conn, told) = Some s" using run_app_op_cases(1) by blast
      with True 2 Cons.IH(2)[of "fst s" "snd s"] show ?thesis by simp
    qed (simp add: run_app_op_cases(2))
  }
qed (simp_all add: pending_after_def)

lemma v3_receive_outcome:
  assumes "message_receiving L (v3_peer conn) msg (v3_ctx conn) = (new_msg, ctx, ops)"
  shows "list_all (answerable cbs) ops \<Longrightarrow> \<exists>told. otrng_v3_receive_message L cbs msg (Some conn) =
      Some (True, pending_after ops (v3_injected_message conn), new_msg, Some (conn\<lparr>v3_injected_message := None, v3_ctx := ctx\<rparr>), told)"
    "\<not> list_all (answerable cbs) ops \<Longrightarrow> otrng_v3_receive_message L cbs msg (Some conn) = None"
  using assms run_app_ops_cases[of cbs ops "conn\<lparr>v3_ctx := ctx\<rparr>" "[]"]
  by (auto simp: otrng_v3_receive_message_def v3_callbacks_def otrng_v3_retrieve_injected_message_def)

text \<open>In a conversation of version 3 a message that aborts the socialist millionaires protocol is not sent when the user
  aborts.  It waits for the next incoming message: if libotr wants to send nothing then, it goes out; otherwise it is
  dropped, and of several messages that libotr injects while one message is received only the last one is sent.\<close>

theorem v3_abort_held_back:
  assumes "message_abort_smp L (v3_ctx conn) = (ctx, [Op_inject (Some abort)])"
    and "message_receiving L (v3_peer conn) msg ctx = (new_msg, ctx', ops)" and "list_all (answerable cbs) ops"
  shows "\<exists>conn1 told. otrng_v3_smp_abort L cbs (Some conn) = Some (conn1, []) \<and>
    otrng_v3_receive_message L cbs msg (Some conn1) =
      Some (True, Some (last (abort # injected ops)), new_msg, Some (conn1\<lparr>v3_injected_message := None, v3_ctx := ctx'\<rparr>), told)"
proof -
  let ?conn1 = "conn\<lparr>v3_ctx := ctx, v3_injected_message := Some abort\<rparr>"
  have a: "otrng_v3_smp_abort L cbs (Some conn) = Some (?conn1, [])"
    using assms(1) by (simp add: otrng_v3_smp_abort_def v3_callbacks_def app_op_defs otrng_v3_store_injected_message_def)
  obtain told where "otrng_v3_receive_message L cbs msg (Some ?conn1) =
      Some (True, pending_after ops (Some abort), new_msg, Some (?conn1\<lparr>v3_injected_message := None, v3_ctx := ctx'\<rparr>), told)"
    using v3_receive_outcome(1)[of L ?conn1 msg new_msg ctx' ops cbs] assms(2,3) by auto
  with a show ?thesis by (auto simp: pending_after_def split: if_splits)
qed

text \<open>A libotr that answers every message with two messages.\<close>

definition ex_chatty :: libotr where
  "ex_chatty = \<lparr>message_sending = (\<lambda>peer msg ctx. ((False, Some msg), ctx, [])),
     message_receiving = (\<lambda>peer msg ctx. (None, ctx, [Op_inject (Some ''one''), Op_gone_secure, Op_inject (Some ''two'')])),
     message_disconnect_all_instances = (\<lambda>peer ctx. (ctx, [])), message_symkey = (\<lambda>ctx use_case bs. (None, ctx, [])),
     message_initiate_smp = (\<lambda>ctx secret. (ctx, [])), message_initiate_smp_q = (\<lambda>ctx q secret. (ctx, [])),
     message_respond_smp = (\<lambda>ctx secret. (ctx, [])), message_abort_smp = (\<lambda>ctx. (ctx, [Op_inject (Some ''abort'')])),
     context_msgstate = (\<lambda>ctx. OTRL_MSGSTATE_ENCRYPTED)\<rparr>"

theorem v3_abort_held_back_witness:
  "\<exists>conn1 told. otrng_v3_smp_abort ex_chatty \<lparr>has_smp_ask_for_secret = True, has_smp_ask_for_answer = True, has_smp_update = True\<rparr>
      (Some (otrng_v3_conn_new ''bob'')) = Some (conn1, []) \<and>
    otrng_v3_receive_message ex_chatty \<lparr>has_smp_ask_for_secret = True, has_smp_ask_for_answer = True, has_smp_update = True\<rparr> ''hi'' (Some conn1) =
      Some (True, Some ''two'', None, Some (conn1\<lparr>v3_injected_message := None, v3_ctx := None\<rparr>), told)"
  using v3_abort_held_back[of ex_chatty "otrng_v3_conn_new ''bob''" None "''abort''" "''hi''" None None
      "[Op_inject (Some ''one''), Op_gone_secure, Op_inject (Some ''two'')]"
      "\<lparr>has_smp_ask_for_secret = True, has_smp_ask_for_answer = True, has_smp_update = True\<rparr>"]
  by (simp add: ex_chatty_def otrng_v3_conn_new_def)

end
