(* ===== verification/Protocol.thy ===== *)
theory Protocol
  imports Prekey V3 Fingerprint
begin

text \<open>
  \<open>protocol.h\<close>, \<open>protocol.c\<close> and the parts of \<open>client.h\<close> a conversation reads: the state of a
  conversation and sending a data message.  The two lists a key manager owns, skipped message keys and
  MAC keys to reveal, live on the heaps \<open>otr_skipped_heap\<close> and \<open>otr_mac_heap\<close>.  The calls of the
  application's callbacks are recorded in \<open>otr_events\<close>; what a callback or libotr answers is a field of
  the client.  An operation that faults, by a bad pointer or a failed assertion, is \<open>None\<close>; otherwise the
  result says what was produced, \<open>None\<close> for \<open>OTRNG_ERROR\<close>, and the state that the call leaves behind.
\<close>

subsection \<open>Texts\<close>

text \<open>A text of the conversation is a string without its final NUL.\<close>

definition chars :: "bytes \<Rightarrow> string" where
  "chars bs = map (\<lambda>b. char_of (unat b)) bs"

lemma chars_ascii [simp]: "chars (ascii s) = s" and ascii_chars [simp]: "ascii (chars bs) = bs"
proof -
  have "(char_of (unat (of_nat (of_char c) :: byte)) :: char) = c" for c :: char
    by (simp add: unat_of_nat)
  then show "chars (ascii s) = s" by (simp add: chars_def ascii_def map_idI)
  have "unat b mod 256 = unat b" for b :: byte using unsigned_less[of b, where ?'a=nat] by simp
  then have "(of_nat (of_char (char_of (unat b) :: char)) :: byte) = b" for b by simp
  then show "ascii (chars bs) = bs" by (simp add: chars_def ascii_def map_idI)
qed

lemma length_ascii [simp]: "length (ascii s) = length s" and length_chars [simp]: "length (chars bs) = length bs"
  by (simp_all add: ascii_def chars_def)

subsection \<open>The state of a conversation\<close>

datatype otrng_state_e = OTRNG_STATE_NONE | OTRNG_STATE_START | OTRNG_STATE_WAITING_AUTH_R | OTRNG_STATE_WAITING_AUTH_I
  | OTRNG_STATE_WAITING_DAKE_DATA_MESSAGE | OTRNG_STATE_ENCRYPTED_MESSAGES | OTRNG_STATE_FINISHED

datatype otrng_error_event = OTRNG_ERROR_NONE | OTRNG_ERROR_UNREADABLE_EVENT | OTRNG_ERROR_NOT_IN_PRIVATE_EVENT
  | OTRNG_ERROR_MALFORMED_EVENT

definition OTRNG_PROTOCOL_VERSION_NONE :: byte where [const_defs]: "OTRNG_PROTOCOL_VERSION_NONE = 0"
definition OTRNG_PROTOCOL_VERSION_3 :: byte where [const_defs]: "OTRNG_PROTOCOL_VERSION_3 = 3"
definition OTRNG_ALLOW_V3 :: byte where [const_defs]: "OTRNG_ALLOW_V3 = 0x01"
definition OTRNG_ALLOW_V4 :: byte where [const_defs]: "OTRNG_ALLOW_V4 = 0x02"
definition OTRNG_ALLOW_V34 :: byte where [const_defs]: "OTRNG_ALLOW_V34 = 0x03"
definition OTRNG_SEND_WHITESPACE_TAG :: byte where [const_defs]: "OTRNG_SEND_WHITESPACE_TAG = 0x10"
definition OTRNG_REQUIRE_ENCRYPTION :: byte where [const_defs]: "OTRNG_REQUIRE_ENCRYPTION = 0x40"
definition OTRNG_WHITESPACE_START_DAKE :: byte where [const_defs]: "OTRNG_WHITESPACE_START_DAKE = 0x80"
definition OTRNG_ERROR_START_DAKE :: byte where [const_defs]: "OTRNG_ERROR_START_DAKE = 0x20"
definition OTRNG_REQUIRE_AUTHENTICATED :: byte where [const_defs]: "OTRNG_REQUIRE_AUTHENTICATED = 0x0B"
definition ENC_ACTUAL_KEY_BYTES :: nat where [const_defs]: "ENC_ACTUAL_KEY_BYTES = 32"
definition MSG_FLAGS_IGNORE_UNREADABLE :: byte where [const_defs]: "MSG_FLAGS_IGNORE_UNREADABLE = 0x01"

record otrng_shared_session_state_s =
  identifier1 :: "string option"
  identifier2 :: "string option"
  password :: "string option"

text \<open>\<open>cl_instance_tag\<close> is the tag that libotr's user state holds for the account, zero for none.
  \<open>cl_forging_key\<close> is the key the pointer refers to.\<close>

record ('p, 's, 'm) otrng_client_s =
  cl_keypair :: "('p, 's) otrng_keypair_s"
  cl_forging_key :: 'p
  cl_client_profile :: "'p otrng_client_profile_s option"
  cl_exp_client_profile :: "'p otrng_client_profile_s option"
  cl_prekey_profile :: "('p, 's) otrng_prekey_profile_s option"
  cl_exp_prekey_profile :: "('p, 's) otrng_prekey_profile_s option"
  cl_our_prekeys :: "('p, 's, 'm) prekey_message_s list"
  cl_max_stored_msg_keys :: u32
  cl_padding :: u64
  cl_fingerprints :: "otrng_known_fingerprint_s list option"
  cl_instance_tag :: u32
  cl_should_heartbeat :: "int \<Rightarrow> int \<Rightarrow> bool"
  cl_shared_session_state :: otrng_shared_session_state_s
  cl_smp_callbacks :: smp_callbacks_registered
  cl_has_extra_symm_key :: bool
  cl_display_error_message :: "otrng_error_event \<Rightarrow> string option"
  cl_libotr :: libotr

record ('p, 's, 'm) otrng_s =
  otr_client :: "('p, 's, 'm) otrng_client_s"
  otr_v3_conn :: "otrng_v3_conn_s option"
  otr_state :: otrng_state_e
  otr_supported_versions :: byte
  otr_policy_type :: byte
  otr_their_prekeys_id :: u32
  otr_their_instance_tag :: u32
  otr_their_client_profile :: "'p otrng_client_profile_s option"
  otr_their_prekey_profile :: "('p, 's) otrng_prekey_profile_s option"
  otr_running_version :: byte
  otr_keys :: "('p, 's, 'm) key_manager_s"
  otr_smp :: "('p, 's) smp_protocol_s"
  otr_pending_fragments :: "fragment_context_s list"
  otr_last_sent :: int
  otr_shared_session_state :: "string option"
  otr_skipped_heap :: "'p skipped_keys_s heap"
  otr_mac_heap :: "bytes heap"
  otr_events :: "callback list"

definition raise_event :: "callback \<Rightarrow> ('p, 's, 'm) otrng_s \<Rightarrow> ('p, 's, 'm) otrng_s" where
  "raise_event e otr = otr\<lparr>otr_events := otr_events otr @ [e]\<rparr>"

text \<open>What version 3 leaves behind: its connection and what the application was told.\<close>

definition after_v3 :: "otrng_v3_conn_s option \<times> callback list \<Rightarrow> ('p, 's, 'm) otrng_s \<Rightarrow> ('p, 's, 'm) otrng_s" where
  "after_v3 r otr = otr\<lparr>otr_v3_conn := fst r, otr_events := otr_events otr @ snd r\<rparr>"

definition v3_smp_callbacks :: "('p, 's, 'm) otrng_s \<Rightarrow> smp_callbacks_registered" where
  "v3_smp_callbacks otr = cl_smp_callbacks (otr_client otr)"

text \<open>\<open>otrng_client_callbacks_handle_event\<close> for the event that a full store of skipped keys raises.\<close>

definition raise_if_full :: "bool \<Rightarrow> ('p, 's, 'm) otrng_s \<Rightarrow> ('p, 's, 'm) otrng_s" where
  "raise_if_full full otr =
     (if full then raise_event (Handle_event OTRNG_MSG_EVENT_MSG_KEYS_STORAGE_FULL) otr else otr)"

subsection \<open>Access\<close>

definition our_instance_tag :: "('p, 's, 'm) otrng_s \<Rightarrow> u32" where
  "our_instance_tag otr = cl_instance_tag (otr_client otr)"

definition maybe_create_keys :: "('p, 's, 'm) otrng_s \<Rightarrow> ('p, 's, 'm) otrng_s" where
  "maybe_create_keys otr = (if our_instance_tag otr = 0 then raise_event Create_instag otr else otr)"

text \<open>The assertion of \<open>otrng_client_get_client_profile\<close> makes a missing profile a fault.\<close>

definition get_my_client_profile ::
    "('p, 's, 'm) otrng_s \<Rightarrow> ('p otrng_client_profile_s \<times> ('p, 's, 'm) otrng_s) option" where
  "get_my_client_profile otr =
     map_option (\<lambda>p. (p, maybe_create_keys otr)) (cl_client_profile (otr_client otr))"

definition get_my_exp_client_profile :: "('p, 's, 'm) otrng_s \<Rightarrow> 'p otrng_client_profile_s option" where
  "get_my_exp_client_profile otr = cl_exp_client_profile (otr_client otr)"

text \<open>\<open>otrng_client_get_prekey_profile\<close>; the application's \<open>create_prekey_profile\<close> callback has been
  asked when the field is still empty.\<close>

definition get_my_prekey_profile ::
    "('p, 's, 'm) otrng_s \<Rightarrow> ('p, 's) otrng_prekey_profile_s option \<times> ('p, 's, 'm) otrng_s" where
  "get_my_prekey_profile otr = (cl_prekey_profile (otr_client otr), maybe_create_keys otr)"

text \<open>\<open>otrng_client_get_exp_prekey_profile\<close> returns the current profile when there is an expired one.\<close>

definition get_my_exp_prekey_profile :: "('p, 's, 'm) otrng_s \<Rightarrow> ('p, 's) otrng_prekey_profile_s option" where
  "get_my_exp_prekey_profile otr =
     (if cl_exp_prekey_profile (otr_client otr) \<noteq> None then cl_prekey_profile (otr_client otr) else None)"

subsection \<open>Error messages\<close>

datatype otrng_err_code = OTRNG_ERR_MSG_NONE | OTRNG_ERR_MSG_UNREADABLE | OTRNG_ERR_MSG_NOT_PRIVATE | OTRNG_ERR_MSG_MALFORMED

definition ERROR_PREFIX :: string where "ERROR_PREFIX = ''?OTR Error: ''"

definition build_error_message :: "string \<Rightarrow> string \<Rightarrow> string" where
  "build_error_message error_code error_name = ERROR_PREFIX @ error_code @ error_name"

definition otrng_error_message :: "otrng_err_code \<Rightarrow> string option \<Rightarrow> string option" where
  "otrng_error_message err_code to_send = (case err_code of
     OTRNG_ERR_MSG_NONE \<Rightarrow> to_send
   | OTRNG_ERR_MSG_UNREADABLE \<Rightarrow> Some (build_error_message ''ERROR_1: '' ''OTRNG_ERR_MSG_UNREADABLE'')
   | OTRNG_ERR_MSG_NOT_PRIVATE \<Rightarrow> Some (build_error_message ''ERROR_2: '' ''OTRNG_ERR_MSG_NOT_PRIVATE_STATE'')
   | OTRNG_ERR_MSG_MALFORMED \<Rightarrow> Some (build_error_message ''ERROR_3: '' ''OTRNG_ERR_MALFORMED''))"

subsection \<open>Sending a data message\<close>

definition otrng_data_message_new :: "('p, 's) wiped \<Rightarrow> ('p, 'm) data_message_s" where
  "otrng_data_message_new Z = \<lparr>dm_sender_instance_tag = 0, dm_receiver_instance_tag = 0, dm_flags = 0, dm_previous_chain_n = 0,
     dm_ratchet_id = 0, dm_message_id = 0, dm_ecdh = zero_point Z, dm_dh = None, dm_nonce = zeros DATA_MSG_NONCE_BYTES,
     dm_enc_msg = None, dm_enc_msg_len = 0, dm_mac = zeros DATA_MSG_MAC_BYTES\<rparr>"

definition encrypt_data_message ::
    "('p, 's, 'm, 'h) crypto_ops \<Rightarrow> bytes \<Rightarrow> ('p, 'm) data_message_s \<Rightarrow> bytes \<Rightarrow> bytes \<Rightarrow> ('p, 'm) data_message_s option" where
  "encrypt_data_message C random data_msg msg enc_key = do {
     c \<leftarrow> stream_xor C msg random (take ENC_ACTUAL_KEY_BYTES enc_key);
     Some (data_msg\<lparr>dm_nonce := random, dm_enc_msg_len := length msg, dm_enc_msg := Some c\<rparr>) }"

definition generate_data_message :: "('p, 's) wiped \<Rightarrow> ('p, 's, 'm) otrng_s \<Rightarrow> u32 \<Rightarrow> ('p, 'm) data_message_s" where
  "generate_data_message Z otr ratchet_id = (otrng_data_message_new Z)\<lparr>
     dm_sender_instance_tag := our_instance_tag otr, dm_receiver_instance_tag := otr_their_instance_tag otr,
     dm_previous_chain_n := km_pn (otr_keys otr), dm_ratchet_id := ratchet_id, dm_message_id := km_j (otr_keys otr),
     dm_ecdh := ecdh_pub (our_ecdh (otr_keys otr)), dm_dh := dh_pub (our_dh (otr_keys otr))\<rparr>"

definition serialize_and_encode_data_message ::
    "('p, 's, 'm, 'h) crypto_ops \<Rightarrow> bytes \<Rightarrow> bytes option \<Rightarrow> nat \<Rightarrow> ('p, 'm) data_message_s \<Rightarrow> string option" where
  "serialize_and_encode_data_message C mac_key to_reveal_mac_keys to_reveal_mac_keys_len data_msg = do {
     body \<leftarrow> otrng_data_message_body_serialize C data_msg;
     tag \<leftarrow> otrng_data_message_authenticator C MAC_KEY_BYTES mac_key body;
     (case to_reveal_mac_keys of
        None \<Rightarrow> Some (base64_otr_encode C (body @ tag @ zeros to_reveal_mac_keys_len))
      | Some ks \<Rightarrow>
          let revealed = otrng_serialize_bytes_array (Some ks) to_reveal_mac_keys_len in
          if length revealed = 0 then None else Some (base64_otr_encode C (body @ tag @ revealed))) }"

text \<open>The temporary receiving ratchet is \<open>NULL\<close> when sending.\<close>

definition null_ratchet :: "('p, 's) wiped \<Rightarrow> ('p, 's, 'm) receiving_ratchet_s" where
  "null_ratchet Z = otrng_receiving_ratchet_new Z (otrng_key_manager_init Z)"

definition send_data_message ::
    "('p, 's, 'm, 'h) crypto_ops \<Rightarrow> ('p, 's) wiped \<Rightarrow> (nat \<Rightarrow> bytes) \<Rightarrow> int \<Rightarrow> byte \<Rightarrow> bytes \<Rightarrow> ('p, 's, 'm) otrng_s
     \<Rightarrow> (string option \<times> ('p, 's, 'm) otrng_s) option" where
  "send_data_message C Z rnd now flags msg otr = (
     let ratchet_id = km_i (otr_keys otr); max_skip = cl_max_stored_msg_keys (otr_client otr) in do {
     (ok, (manager, null), h, full) \<leftarrow> otrng_key_manager_derive_dh_ratchet_keys C Z rnd now max_skip (zero_point Z) 0 Send
       (otr_keys otr, null_ratchet Z) (otr_skipped_heap otr);
     let otr = otr\<lparr>otr_keys := manager, otr_skipped_heap := h\<rparr>;
     if \<not> ok then Some (None, otr) else do {
     (keys, (manager, null), h, full) \<leftarrow> otrng_key_manager_derive_chain_keys C max_skip 0 Send (manager, null) h;
     let otr = otr\<lparr>otr_keys := manager, otr_skipped_heap := h\<rparr>;
     (case keys of
        None \<Rightarrow> Some (None, otr)
      | Some (enc_key, mac_key) \<Rightarrow>
          let data_msg = (generate_data_message Z otr ratchet_id)\<lparr>dm_flags := flags,
                dm_sender_instance_tag := our_instance_tag otr, dm_receiver_instance_tag := otr_their_instance_tag otr\<rparr>
          in case encrypt_data_message C (rnd 4) data_msg msg enc_key of
               None \<Rightarrow> Some (None, otr)
             | Some data_msg \<Rightarrow> do {
                 (ser_mac_keys, len, otr) \<leftarrow>
                   (if km_j (otr_keys otr) = 0 then do {
                      n \<leftarrow> otrng_list_len (otr_mac_heap otr) (old_mac_keys (otr_keys otr));
                      (ser, hm) \<leftarrow> otrng_serialize_old_mac_keys (otr_mac_heap otr) (old_mac_keys (otr_keys otr));
                      Some (ser, n * MAC_KEY_BYTES,
                        otr\<lparr>otr_mac_heap := hm, otr_keys := (otr_keys otr)\<lparr>old_mac_keys := None\<rparr>\<rparr>) }
                    else Some (None, 0, otr));
                 (case serialize_and_encode_data_message C mac_key ser_mac_keys len data_msg of
                    None \<Rightarrow> Some (None, otr)
                  | Some to_send \<Rightarrow>
                      Some (Some to_send, otr\<lparr>otr_keys := (otr_keys otr)\<lparr>km_j := km_j (otr_keys otr) + 1\<rparr>\<rparr>)) }) } })"

definition serialize_tlvs :: "tlv_s list \<Rightarrow> bytes" where
  "serialize_tlvs tlvs = concat (map otrng_tlv_serialize tlvs)"

definition append_tlvs :: "u64 \<Rightarrow> string \<Rightarrow> tlv_s list \<Rightarrow> bytes option" where
  "append_tlvs client_padding msg tlvs = (
     let ser = serialize_tlvs tlvs in do {
     padding \<leftarrow> generate_padding (of_nat (length msg + 1 + length ser)) client_padding;
     Some (ascii msg @ [0] @ ser @ (case padding of None \<Rightarrow> [] | Some p \<Rightarrow> p)) })"

definition otrng_prepare_to_send_data_message ::
    "('p, 's, 'm, 'h) crypto_ops \<Rightarrow> ('p, 's) wiped \<Rightarrow> (nat \<Rightarrow> bytes) \<Rightarrow> int \<Rightarrow> string \<Rightarrow> tlv_s list \<Rightarrow> byte \<Rightarrow> ('p, 's, 'm) otrng_s
     \<Rightarrow> (string option \<times> ('p, 's, 'm) otrng_s) option" where
  "otrng_prepare_to_send_data_message C Z rnd now msg tlvs flags otr =
     (if otr_state otr = OTRNG_STATE_FINISHED then
        Some (None, raise_event (Handle_event OTRNG_MSG_EVENT_CONNECTION_ENDED) otr)
      else if otr_state otr \<noteq> OTRNG_STATE_ENCRYPTED_MESSAGES then
        Some (None, raise_event (Handle_event OTRNG_MSG_EVENT_SENDING_NOT_IN_ENCRYPTED_STATE) otr)
      else case append_tlvs (cl_padding (otr_client otr)) msg tlvs of
          None \<Rightarrow> Some (None, otr)
        | Some msg2 \<Rightarrow> do {
            (to_send, otr) \<leftarrow> send_data_message C Z rnd now flags msg2 otr;
            (case to_send of
               None \<Rightarrow> Some (None, raise_event (Handle_event OTRNG_MSG_EVENT_ENCRYPTION_ERROR) otr)
             | Some s \<Rightarrow> Some (Some s, otr\<lparr>otr_last_sent := now\<rparr>)) })"

end
