(* ===== verification/Otr_Messages.thy ===== *)
theory Otr_Messages
  imports Protocol
begin

text \<open>
  \<open>otrng.c\<close>, the messages that are not data messages: query messages, whitespace tags, how the kind of a
  received text is recognised, what is shown of a tagged text, and the entry point for sending.
\<close>

definition tag_base :: string where
  "tag_base = map char_of [0x20, 0x09, 0x20, 0x20, 0x09, 0x09, 0x09, 0x09, 0x20, 0x09, 0x20, 0x09, 0x20, 0x09, 0x20, 0x20 :: nat]"

definition tag_version_v4 :: string where
  "tag_version_v4 = map char_of [0x20, 0x20, 0x09, 0x09, 0x20, 0x09, 0x20, 0x20 :: nat]"

definition tag_version_v3 :: string where
  "tag_version_v3 = map char_of [0x20, 0x20, 0x09, 0x09, 0x20, 0x20, 0x09, 0x09 :: nat]"

definition query_header :: string where "query_header = ''?OTRv''"
definition otr_error_header :: string where "otr_error_header = ''?OTR Error:''"
definition otr_header :: string where "otr_header = ''?OTR:''"

definition WHITESPACE_TAG_BASE_BYTES :: nat where [const_defs]: "WHITESPACE_TAG_BASE_BYTES = 16"
definition WHITESPACE_TAG_VERSION_BYTES :: nat where [const_defs]: "WHITESPACE_TAG_VERSION_BYTES = 8"
definition QUERY_MSG_TAG_BYTES :: nat where [const_defs]: "QUERY_MSG_TAG_BYTES = 5"

text \<open>The standard function: where the needle occurs first.\<close>

fun strstr :: "string \<Rightarrow> string \<Rightarrow> nat option" where
  "strstr [] needle = (if needle = [] then Some 0 else None)"
| "strstr (c # hay) needle =
     (if is_prefix needle (c # hay) then Some 0 else map_option Suc (strstr hay needle))"

record otrng_response_s =
  to_display :: "string option"
  to_send :: "string option"
  tlvs :: "tlv_s list"

definition otrng_response_new :: otrng_response_s where
  "otrng_response_new = \<lparr>to_display = None, to_send = None, tlvs = []\<rparr>"

definition allow_version :: "('p, 's, 'm) otrng_s \<Rightarrow> byte \<Rightarrow> bool" where
  "allow_version otr version \<longleftrightarrow> otr_supported_versions otr AND version \<noteq> 0"

definition allowed_versions :: "('p, 's, 'm) otrng_s \<Rightarrow> string" where
  "allowed_versions otr =
     (if allow_version otr OTRNG_ALLOW_V4 then ''4'' else []) @ (if allow_version otr OTRNG_ALLOW_V3 then ''3'' else [])"

definition otrng_new :: "('p, 's) wiped \<Rightarrow> ('p, 's, 'm) otrng_client_s \<Rightarrow> byte \<Rightarrow> byte \<Rightarrow> ('p, 's, 'm) otrng_s" where
  "otrng_new Z client allows policy_type = \<lparr>otr_client = client, otr_v3_conn = None, otr_state = OTRNG_STATE_START,
     otr_supported_versions = allows, otr_policy_type = policy_type, otr_their_prekeys_id = 0, otr_their_instance_tag = 0,
     otr_their_client_profile = None, otr_their_prekey_profile = None, otr_running_version = OTRNG_PROTOCOL_VERSION_NONE,
     otr_keys = otrng_key_manager_init Z, otr_smp = otrng_smp_protocol_init (zero_scalar Z) (zero_point Z),
     otr_pending_fragments = [], otr_last_sent = 0, otr_shared_session_state = None,
     otr_skipped_heap = \<lparr>cells = (\<lambda>_. None), brk = 0\<rparr>, otr_mac_heap = \<lparr>cells = (\<lambda>_. None), brk = 0\<rparr>, otr_events = []\<rparr>"

subsection \<open>Query messages and whitespace tags\<close>

text \<open>The buffer always has room for the terminator, so the last test of the function never fails.\<close>

definition otrng_build_query_message :: "string \<Rightarrow> ('p, 's, 'm) otrng_s \<Rightarrow> string option" where
  "otrng_build_query_message msg otr =
     (if otr_state otr = OTRNG_STATE_ENCRYPTED_MESSAGES then None
      else Some (query_header @ allowed_versions otr @ ''? '' @ msg))"

definition otrng_build_whitespace_tag :: "string \<Rightarrow> ('p, 's, 'm) otrng_s \<Rightarrow> string option" where
  "otrng_build_whitespace_tag msg otr = (
     let allows_v4 = allow_version otr OTRNG_ALLOW_V4; allows_v3 = allow_version otr OTRNG_ALLOW_V3 in
     if \<not> allows_v3 \<and> \<not> allows_v4 then None
     else Some (tag_base @ (if allows_v4 then tag_version_v4 else []) @ (if allows_v3 then tag_version_v3 else []) @ msg))"

definition message_contains_tag :: "string \<Rightarrow> bool" where
  "message_contains_tag msg \<longleftrightarrow> strstr msg tag_base \<noteq> None"

definition set_to_display :: "otrng_response_s \<Rightarrow> string \<Rightarrow> otrng_response_s" where
  "set_to_display response msg = response\<lparr>to_display := Some msg\<rparr>"

text \<open>
  \<open>message_to_display_without_tag\<close>: the length \<open>chars\<close> is computed before it is known that the message is
  long enough.  Where text comes before the tag, that text is copied first, and the second copy, of
  \<open>chars - bytes_before_tag\<close> bytes from the tag on, goes to the start of the same buffer.  A copy that
  does not fit the buffer is a fault.
\<close>

definition message_to_display_without_tag :: "otrng_response_s \<Rightarrow> string \<Rightarrow> (bool \<times> otrng_response_s) option" where
  "message_to_display_without_tag response msg = (
     let tag_len = (if strstr msg tag_version_v4 \<noteq> None \<and> strstr msg tag_version_v3 \<noteq> None
           then WHITESPACE_TAG_BASE_BYTES + 2 * WHITESPACE_TAG_VERSION_BYTES
           else WHITESPACE_TAG_BASE_BYTES + WHITESPACE_TAG_VERSION_BYTES) in
     if length msg < tag_len then Some (False, response)
     else let chars = length msg - tag_len in
       case strstr msg tag_base of
         None \<Rightarrow> Some (False, response)
       | Some bytes_before_tag \<Rightarrow>
           if bytes_before_tag = 0 then Some (True, response\<lparr>to_display := Some (take chars (drop tag_len msg))\<rparr>)
           else if chars < bytes_before_tag then None
           else let copied = take (chars - bytes_before_tag) (drop bytes_before_tag msg)
                in Some (True, response\<lparr>to_display :=
                     Some (copied @ drop (length copied) (take bytes_before_tag msg))\<rparr>))"

definition set_running_version_from_tag :: "string \<Rightarrow> ('p, 's, 'm) otrng_s \<Rightarrow> ('p, 's, 'm) otrng_s" where
  "set_running_version_from_tag msg otr =
     (if allow_version otr OTRNG_ALLOW_V4 \<and> strstr msg tag_version_v4 \<noteq> None
      then otr\<lparr>otr_running_version := ucast OTRNG_PROTOCOL_VERSION_4\<rparr>
      else if allow_version otr OTRNG_ALLOW_V3 \<and> strstr msg tag_version_v3 \<noteq> None
      then otr\<lparr>otr_running_version := OTRNG_PROTOCOL_VERSION_3\<rparr>
      else otr)"

definition message_is_query :: "string \<Rightarrow> bool" where
  "message_is_query msg \<longleftrightarrow> strstr msg query_header \<noteq> None"

definition set_running_version_from_query_message :: "string \<Rightarrow> ('p, 's, 'm) otrng_s \<Rightarrow> ('p, 's, 'm) otrng_s" where
  "set_running_version_from_query_message msg otr =
     (if allow_version otr OTRNG_ALLOW_V4 \<and> strstr msg ''4'' \<noteq> None
      then otr\<lparr>otr_running_version := ucast OTRNG_PROTOCOL_VERSION_4\<rparr>
      else if allow_version otr OTRNG_ALLOW_V3 \<and> strstr msg ''3'' \<noteq> None
      then otr\<lparr>otr_running_version := OTRNG_PROTOCOL_VERSION_3\<rparr>
      else otr)"

definition message_is_otr_encoded :: "string \<Rightarrow> bool" where
  "message_is_otr_encoded msg \<longleftrightarrow> strstr msg otr_header \<noteq> None"

definition message_is_otr_error :: "string \<Rightarrow> bool" where
  "message_is_otr_error msg \<longleftrightarrow> take (length otr_error_header) msg = otr_error_header"

datatype message_type = MSG_PLAINTEXT | MSG_TAGGED_PLAINTEXT | MSG_QUERY_STRING | MSG_OTR_ENCODED | MSG_OTR_ERROR

definition get_message_type :: "string \<Rightarrow> message_type" where
  "get_message_type msg =
     (if message_contains_tag msg then MSG_TAGGED_PLAINTEXT
      else if message_is_query msg then MSG_QUERY_STRING
      else if message_is_otr_error msg then MSG_OTR_ERROR
      else if message_is_otr_encoded msg then MSG_OTR_ENCODED
      else MSG_PLAINTEXT)"

definition receive_plaintext ::
    "otrng_response_s \<Rightarrow> string \<Rightarrow> ('p, 's, 'm) otrng_s \<Rightarrow> otrng_response_s \<times> ('p, 's, 'm) otrng_s" where
  "receive_plaintext response msg otr =
     (set_to_display response msg,
      if otr_state otr \<noteq> OTRNG_STATE_START then raise_event (Handle_event OTRNG_MSG_EVENT_RCV_UNENCRYPTED) otr else otr)"

subsection \<open>Sending\<close>

definition otrng_send_message ::
    "('p, 's, 'm, 'h) crypto_ops \<Rightarrow> ('p, 's) wiped \<Rightarrow> (nat \<Rightarrow> bytes) \<Rightarrow> int \<Rightarrow> string \<Rightarrow> tlv_s list \<Rightarrow> byte \<Rightarrow> ('p, 's, 'm) otrng_s
     \<Rightarrow> (string option \<times> ('p, 's, 'm) otrng_s) option" where
  "otrng_send_message C Z rnd now msg tlv_list flags otr =
     (if otr_running_version otr = OTRNG_PROTOCOL_VERSION_NONE \<and> otr_state otr = OTRNG_STATE_START \<and>
         otr_policy_type otr AND OTRNG_REQUIRE_ENCRYPTION \<noteq> 0 then
        (let otr = raise_event (Handle_event OTRNG_MSG_EVENT_ENCRYPTION_REQUIRED) otr
         in Some (otrng_build_query_message [] otr, otr))
      else if otr_running_version otr = OTRNG_PROTOCOL_VERSION_NONE \<and> otr_state otr = OTRNG_STATE_START \<and>
         otr_policy_type otr AND OTRNG_SEND_WHITESPACE_TAG \<noteq> 0 then
        Some (otrng_build_whitespace_tag msg otr, otr)
      else if otr_running_version otr = OTRNG_PROTOCOL_VERSION_3 then
        do {
          (ok, new_msg, r) \<leftarrow> otrng_v3_send_message (cl_libotr (otr_client otr)) (v3_smp_callbacks otr) msg tlv_list (otr_v3_conn otr);
          Some (if ok then new_msg else None, after_v3 r otr) }
      else if otr_running_version otr = ucast OTRNG_PROTOCOL_VERSION_4 then
        otrng_prepare_to_send_data_message C Z rnd now msg tlv_list flags otr
      else Some (None, otr))"

subsection \<open>What the tags say\<close>

lemma strstr_prefix: "strstr (needle @ rest) needle = Some 0"
proof (cases "needle @ rest")
  case (Cons c hay)
  then have "take (length needle) (c # hay) = needle" by (metis take_append_length)
  then show ?thesis using Cons by (simp add: is_prefix_def)
qed auto

lemma strstr_Some_iff: "strstr hay needle = None \<longleftrightarrow> (\<forall>a b. hay \<noteq> a @ needle @ b)"
proof (induction hay)
  case (Cons c hay)
  have "is_prefix needle (c # hay) \<longleftrightarrow> (\<exists>b. c # hay = needle @ b)"
    by (metis append_take_drop_id is_prefix_def take_append_length)
  then show ?case using Cons.IH by (auto simp: Cons_eq_append_conv)
qed auto

text \<open>Text that does not use the first character of the needle is skipped.\<close>

lemma strstr_skip:
  assumes "needle = n # ns" "n \<notin> set pre"
  shows "strstr (pre @ needle @ rest) needle = Some (length pre)"
  using assms(2)
proof (induction pre)
  case (Cons c pre)
  then have "\<not> is_prefix needle (c # pre @ needle @ rest)" by (auto simp: is_prefix_def assms(1))
  with Cons show ?case by simp
qed (simp add: strstr_prefix)

lemma tag_lengths [simp]: "length tag_base = 16" "length tag_version_v4 = 8" "length tag_version_v3 = 8"
  by (simp_all add: tag_base_def tag_version_v4_def tag_version_v3_def)

lemma tag_base_Cons: "tag_base = char_of (0x20 :: nat) # tl tag_base"
  by (simp add: tag_base_def)

lemma contains_base: "message_contains_tag (a @ tag_base @ b)"
  by (auto simp: message_contains_tag_def strstr_Some_iff)

lemma display_leading_tag:
  assumes first: "strstr w tag_base = Some 0" and w: "w = t @ msg"
    and "length t = (if strstr w tag_version_v4 \<noteq> None \<and> strstr w tag_version_v3 \<noteq> None then 32 else 24)"
  shows "message_to_display_without_tag response w = Some (True, response\<lparr>to_display := Some msg\<rparr>)"
proof -
  have "length t \<le> length w" "drop (length t) w = msg" by (simp_all add: w)
  then show ?thesis
    using assms(3)
    by (cases "strstr w tag_version_v4 \<noteq> None \<and> strstr w tag_version_v3 \<noteq> None")
       (auto simp: message_to_display_without_tag_def first Let_def const_defs)
qed

text \<open>The text that was sent behind a whitespace tag is what the receiver shows, provided that it does
  not itself contain the tag of a version that the sender does not offer.\<close>

theorem whitespace_tag_roundtrip:
  assumes "otrng_build_whitespace_tag msg otr = Some w"
    and "allow_version otr OTRNG_ALLOW_V4 \<and> allow_version otr OTRNG_ALLOW_V3 \<or>
      strstr w tag_version_v4 = None \<or> strstr w tag_version_v3 = None"
  shows "get_message_type w = MSG_TAGGED_PLAINTEXT \<and>
     message_to_display_without_tag response w = Some (True, response\<lparr>to_display := Some msg\<rparr>)"
proof -
  let ?four = "allow_version otr OTRNG_ALLOW_V4" and ?three = "allow_version otr OTRNG_ALLOW_V3"
  from assms(1) have some: "?four \<or> ?three"
    and w: "w = tag_base @ (if ?four then tag_version_v4 else []) @ (if ?three then tag_version_v3 else []) @ msg"
    by (auto simp: otrng_build_whitespace_tag_def Let_def split: if_splits)
  have both: "?four \<and> ?three \<longleftrightarrow> strstr w tag_version_v4 \<noteq> None \<and> strstr w tag_version_v3 \<noteq> None"
  proof
    assume b: "?four \<and> ?three"
    have "w = tag_base @ tag_version_v4 @ (tag_version_v3 @ msg)" "w = (tag_base @ tag_version_v4) @ tag_version_v3 @ msg"
      using b w by simp_all
    then show "strstr w tag_version_v4 \<noteq> None \<and> strstr w tag_version_v3 \<noteq> None" unfolding strstr_Some_iff by blast
  next
    assume "strstr w tag_version_v4 \<noteq> None \<and> strstr w tag_version_v3 \<noteq> None"
    then show "?four \<and> ?three" using assms(2) by auto
  qed
  have first: "strstr w tag_base = Some 0" unfolding w by (rule strstr_prefix)
  have "message_to_display_without_tag response w = Some (True, response\<lparr>to_display := Some msg\<rparr>)"
  proof (rule display_leading_tag[OF first])
    show "w = (tag_base @ (if ?four then tag_version_v4 else []) @ (if ?three then tag_version_v3 else [])) @ msg"
      by (simp add: w)
    show "length (tag_base @ (if ?four then tag_version_v4 else []) @ (if ?three then tag_version_v3 else [])) =
        (if strstr w tag_version_v4 \<noteq> None \<and> strstr w tag_version_v3 \<noteq> None then 32 else 24)"
      unfolding both[symmetric] using some by auto
  qed
  then show ?thesis using contains_base[of "[]"] by (simp add: get_message_type_def w)
qed

text \<open>Text on both sides of a whitespace tag is not shown: of the message \<open>before\<close>, tag, \<open>after\<close> the
  receiver shows the beginning of the tag instead of \<open>after\<close>, and in the place of \<open>before\<close>.\<close>

theorem text_around_tag_lost:
  assumes "char_of (0x20 :: nat) \<notin> set before" "before \<noteq> []" "after \<noteq> []"
    and "strstr (before @ tag_base @ tag_version_v4 @ after) tag_version_v3 = None"
  shows "message_to_display_without_tag response (before @ tag_base @ tag_version_v4 @ after) =
     Some (True, response\<lparr>to_display := Some (take (length after) (tag_base @ tag_version_v4 @ after) @ drop (length after) before)\<rparr>) \<and>
     take (length after) (tag_base @ tag_version_v4 @ after) @ drop (length after) before \<noteq> before @ after"
proof -
  let ?w = "before @ tag_base @ tag_version_v4 @ after"
  have s: "strstr ?w tag_base = Some (length before)"
    using strstr_skip[OF tag_base_Cons assms(1), of "tag_version_v4 @ after"] by simp
  have "message_to_display_without_tag response ?w =
     Some (True, response\<lparr>to_display := Some (take (length after) (tag_base @ tag_version_v4 @ after) @ drop (length after) before)\<rparr>)"
  proof -
    have "length (take (length after) (tag_base @ tag_version_v4 @ after)) = length after" by simp
    then show ?thesis using assms(2)
      by (simp add: message_to_display_without_tag_def Let_def s assms(4) const_defs del: length_take take_append)
  qed
  moreover have "hd (take (length after) (tag_base @ tag_version_v4 @ after) @ drop (length after) before) = char_of (0x20 :: nat)"
    using assms(3) tag_base_Cons by (cases after) (auto simp: tag_base_def)
  moreover have "hd (before @ after) \<noteq> char_of (0x20 :: nat)" using assms(1,2) by (cases before) auto
  ultimately show ?thesis by metis
qed

lemma bare_tag_fault:
  assumes "char_of (0x20 :: nat) \<notin> set pre" "16 \<le> length pre"
  shows "message_to_display_without_tag response (pre @ tag_base) = None"
proof -
  have s: "strstr (pre @ tag_base) tag_base = Some (length pre)"
    using strstr_skip[OF tag_base_Cons assms(1), of "[]"] by simp
  show ?thesis using assms(2)
    by (simp add: message_to_display_without_tag_def Let_def s const_defs) (auto simp flip: length_0_conv)
qed

subsection \<open>A concrete client\<close>

definition ex_libotr :: libotr where
  "ex_libotr = \<lparr>message_sending = (\<lambda>peer msg ctx. ((False, Some msg), ctx, [])), message_receiving = (\<lambda>peer msg ctx. (Some msg, ctx, [])),
     message_disconnect_all_instances = (\<lambda>peer ctx. (ctx, [])), message_symkey = (\<lambda>ctx use_case bs. (None, ctx, [])),
     message_initiate_smp = (\<lambda>ctx secret. (ctx, [])), message_initiate_smp_q = (\<lambda>ctx q secret. (ctx, [])),
     message_respond_smp = (\<lambda>ctx secret. (ctx, [])), message_abort_smp = (\<lambda>ctx. (ctx, [])),
     context_msgstate = (\<lambda>ctx. OTRL_MSGSTATE_PLAINTEXT)\<rparr>"

definition ex_client :: "byte \<Rightarrow> int \<Rightarrow> u32 \<Rightarrow> (int, int, nat) otrng_client_s" where
  "ex_client seed F tag = \<lparr>cl_keypair = ex_keypair seed, cl_forging_key = F,
     cl_client_profile = Option.bind (otrng_client_profile_build_with_custom_expiration ex_crypto ex_zero tag (Some [0x34])
        (Some (ex_keypair seed)) F 100) id,
     cl_exp_client_profile = None, cl_prekey_profile = None, cl_exp_prekey_profile = None, cl_our_prekeys = [],
     cl_max_stored_msg_keys = 1000, cl_padding = 0, cl_fingerprints = None, cl_instance_tag = tag,
     cl_should_heartbeat = (\<lambda>now last_sent. False),
     cl_shared_session_state = \<lparr>identifier1 = Some ''alice'', identifier2 = Some ''bob'', password = None\<rparr>,
     cl_smp_callbacks = \<lparr>has_smp_ask_for_secret = True, has_smp_ask_for_answer = True, has_smp_update = True\<rparr>,
     cl_has_extra_symm_key = True, cl_display_error_message = (\<lambda>e. None), cl_libotr = ex_libotr\<rparr>"

theorem whitespace_tag_roundtrip_witness:
  "let otr = otrng_new ex_zero (ex_client 3 5 0x200) OTRNG_ALLOW_V34 0; w = tag_base @ tag_version_v4 @ tag_version_v3 @ ''hello'' in
   get_message_type w = MSG_TAGGED_PLAINTEXT \<and>
     message_to_display_without_tag otrng_response_new w = Some (True, otrng_response_new\<lparr>to_display := Some ''hello''\<rparr>)"
proof -
  let ?otr = "otrng_new ex_zero (ex_client 3 5 0x200) OTRNG_ALLOW_V34 0"
  have "allow_version ?otr OTRNG_ALLOW_V4" "allow_version ?otr OTRNG_ALLOW_V3"
    by (simp_all add: allow_version_def otrng_new_def const_defs)
  then show ?thesis unfolding Let_def
    by (intro whitespace_tag_roundtrip[of "''hello''" ?otr]) (simp_all add: otrng_build_whitespace_tag_def)
qed

theorem text_around_tag_lost_witness:
  "message_to_display_without_tag otrng_response_new (''Hi,'' @ tag_base @ tag_version_v4 @ ''bob'') =
     Some (True, otrng_response_new\<lparr>to_display := Some (take (length ''bob'') (tag_base @ tag_version_v4 @ ''bob'') @ drop (length ''bob'') ''Hi,'')\<rparr>) \<and>
     take (length ''bob'') (tag_base @ tag_version_v4 @ ''bob'') @ drop (length ''bob'') ''Hi,'' \<noteq> ''Hi,'' @ ''bob''"
  by (rule text_around_tag_lost) code_simp+

end
