(* ===== verification/Handshake.thy ===== *)
theory Handshake
  imports Otr_Messages
begin

text \<open>
  \<open>otrng.c\<close>, the key exchanges: the interactive one (identity message, Auth-R, Auth-I) and the
  non-interactive one with a prekey ensemble.  A handler returns whether it succeeded, the message to send
  and the state.  Random bytes are an argument, numbered in the order of the draws of one call.
\<close>

text \<open>The rest of a source of random bytes after \<open>n\<close> draws.\<close>

definition later :: "nat \<Rightarrow> (nat \<Rightarrow> bytes) \<Rightarrow> nat \<Rightarrow> bytes" where
  "later n rnd i = rnd (n + i)"

text \<open>\<open>goldilocks_shake256_hash\<close>.\<close>

definition hash_hash :: "('p, 's, 'm, 'h) crypto_ops \<Rightarrow> nat \<Rightarrow> bytes \<Rightarrow> bytes option" where
  "hash_hash C n v = map_option (\<lambda>h. hash_final C h n) (hash_update C (hash_init C) v)"

subsection \<open>Starting\<close>

definition serialize_and_encode_identity_message ::
    "('p, 's, 'm, 'h) crypto_ops \<Rightarrow> ('p, 'm) dake_identity_message_s \<Rightarrow> string outcome" where
  "serialize_and_encode_identity_message C msg =
     map_option (map_option (base64_otr_encode C)) (otrng_dake_identity_message_serialize C msg)"

text \<open>\<open>first\<close> says which keys go into the message as the first ones.\<close>

definition identity_message_of ::
    "('p, 's) wiped \<Rightarrow> ('p, 's) ecdh_keypair_s \<Rightarrow> 'm dh_keypair_s \<Rightarrow> ('p, 's, 'm) otrng_s
     \<Rightarrow> (('p, 'm) dake_identity_message_s option \<times> ('p, 's, 'm) otrng_s) option" where
  "identity_message_of Z first_ecdh first_dh otr = do {
     (profile, otr) \<leftarrow> get_my_client_profile otr;
     Some (map_option (\<lambda>msg. msg\<lparr>im_sender_instance_tag := our_instance_tag otr, im_receiver_instance_tag := otr_their_instance_tag otr,
         im_Y := ecdh_pub (our_ecdh (otr_keys otr)), im_B := dh_pub (our_dh (otr_keys otr)),
         im_Y_first := ecdh_pub first_ecdh, im_B_first := dh_pub first_dh\<rparr>)
       (otrng_dake_identity_message_new Z (Some profile)), otr) }"

definition otrng_build_identity_message ::
    "('p, 's, 'm, 'h) crypto_ops \<Rightarrow> ('p, 's) wiped \<Rightarrow> (nat \<Rightarrow> bytes) \<Rightarrow> int \<Rightarrow> ('p, 's, 'm) otrng_s
     \<Rightarrow> (string option \<times> ('p, 's, 'm) otrng_s) option" where
  "otrng_build_identity_message C Z rnd now otr = (
     let otr = otr\<lparr>otr_running_version := ucast OTRNG_PROTOCOL_VERSION_4\<rparr> in
     case otrng_key_manager_generate_ephemeral_keys C Z rnd now (otr_keys otr) of (ok, manager) \<Rightarrow>
     let otr = otr\<lparr>otr_keys := manager\<rparr> in
     if \<not> ok then Some (None, otr)
     else let otr = maybe_create_keys otr in do {
       (msg, otr) \<leftarrow> identity_message_of Z (our_ecdh_first manager) (our_dh_first manager) otr;
       (case msg of
          None \<Rightarrow> Some (None, otr)
        | Some msg \<Rightarrow> do {
            dst \<leftarrow> serialize_and_encode_identity_message C msg;
            (case dst of
               None \<Rightarrow> Some (None, otr)
             | Some s \<Rightarrow> Some (Some s, otr\<lparr>otr_state := OTRNG_STATE_WAITING_AUTH_R\<rparr>)) }) })"

definition reply_with_identity_message ::
    "('p, 's, 'm, 'h) crypto_ops \<Rightarrow> ('p, 's) wiped \<Rightarrow> ('p, 's, 'm) otrng_s \<Rightarrow> (string option \<times> ('p, 's, 'm) otrng_s) option" where
  "reply_with_identity_message C Z otr = do {
     (msg, otr) \<leftarrow> identity_message_of Z (our_ecdh (otr_keys otr)) (our_dh (otr_keys otr)) otr;
     (case msg of
        None \<Rightarrow> Some (None, otr)
      | Some msg \<Rightarrow> map_option (\<lambda>dst. (dst, otr)) (serialize_and_encode_identity_message C msg)) }"

definition start_dake ::
    "('p, 's, 'm, 'h) crypto_ops \<Rightarrow> ('p, 's) wiped \<Rightarrow> (nat \<Rightarrow> bytes) \<Rightarrow> int \<Rightarrow> otrng_response_s \<Rightarrow> ('p, 's, 'm) otrng_s
     \<Rightarrow> (bool \<times> otrng_response_s \<times> ('p, 's, 'm) otrng_s) option" where
  "start_dake C Z rnd now response otr =
     (case otrng_key_manager_generate_ephemeral_keys C Z rnd now (otr_keys otr) of (ok, manager) \<Rightarrow>
      let otr = otr\<lparr>otr_keys := manager\<rparr> in
      if \<not> ok then Some (False, response, otr)
      else do {
        (s, otr) \<leftarrow> reply_with_identity_message C Z (maybe_create_keys otr);
        (case s of
           None \<Rightarrow> Some (False, response, otr)
         | Some s \<Rightarrow> Some (True, response\<lparr>to_send := Some s\<rparr>, otr\<lparr>otr_state := OTRNG_STATE_WAITING_AUTH_R\<rparr>)) })"

text \<open>What to show is written only when there is something to show.\<close>

definition receive_message_v3 ::
    "otrng_response_s \<Rightarrow> string \<Rightarrow> ('p, 's, 'm) otrng_s \<Rightarrow> (bool \<times> otrng_response_s \<times> ('p, 's, 'm) otrng_s) option" where
  "receive_message_v3 response msg otr = do {
     (ok, send, display, r) \<leftarrow> otrng_v3_receive_message (cl_libotr (otr_client otr)) (v3_smp_callbacks otr) msg (otr_v3_conn otr);
     Some (ok, (case display of None \<Rightarrow> response | Some d \<Rightarrow> response\<lparr>to_display := Some d\<rparr>)\<lparr>to_send := send\<rparr>, after_v3 r otr) }"

definition otrng_fingerprint_get_current_peer ::
    "('p, 's, 'm, 'h) crypto_ops \<Rightarrow> ('p, 's, 'm) otrng_s \<Rightarrow> otrng_known_fingerprint_s option" where
  "otrng_fingerprint_get_current_peer C conn = do {
     profile \<leftarrow> otr_their_client_profile conn;
     fp \<leftarrow> otrng_serialize_fingerprint C (cp_long_term_pub_key profile) (cp_forging_pub_key profile);
     otrng_fingerprint_get_by_fp (cl_fingerprints (otr_client conn)) fp }"

text \<open>The test of the policy \<open>OTRNG_REQUIRE_AUTHENTICATED\<close>: an unknown or untrusted peer is refused.\<close>

definition peer_refused :: "('p, 's, 'm, 'h) crypto_ops \<Rightarrow> ('p, 's, 'm) otrng_s \<Rightarrow> bool" where
  "peer_refused C otr \<longleftrightarrow> otr_policy_type otr = OTRNG_REQUIRE_AUTHENTICATED \<and>
     (case otrng_fingerprint_get_current_peer C otr of None \<Rightarrow> True | Some fp_peer \<Rightarrow> \<not> kf_trusted fp_peer)"

definition receive_tagged_plaintext ::
    "('p, 's, 'm, 'h) crypto_ops \<Rightarrow> ('p, 's) wiped \<Rightarrow> (nat \<Rightarrow> bytes) \<Rightarrow> int \<Rightarrow> otrng_response_s \<Rightarrow> string \<Rightarrow> ('p, 's, 'm) otrng_s
     \<Rightarrow> (bool \<times> otrng_response_s \<times> ('p, 's, 'm) otrng_s) option" where
  "receive_tagged_plaintext C Z rnd now response msg otr = (
     let otr = set_running_version_from_tag msg otr in
     if otr_running_version otr = ucast OTRNG_PROTOCOL_VERSION_4 then
       if peer_refused C otr then Some (False, response, otr)
       else if otr_policy_type otr AND OTRNG_WHITESPACE_START_DAKE \<noteq> 0 then do {
         (ok, response) \<leftarrow> message_to_display_without_tag response msg;
         if \<not> ok then Some (False, response, otr) else start_dake C Z rnd now response otr }
       else Some (False, response, otr)
     else if otr_running_version otr = OTRNG_PROTOCOL_VERSION_3 then receive_message_v3 response msg otr
     else Some (True, response, otr))"

definition receive_query_message ::
    "('p, 's, 'm, 'h) crypto_ops \<Rightarrow> ('p, 's) wiped \<Rightarrow> (nat \<Rightarrow> bytes) \<Rightarrow> int \<Rightarrow> otrng_response_s \<Rightarrow> string \<Rightarrow> ('p, 's, 'm) otrng_s
     \<Rightarrow> (bool \<times> otrng_response_s \<times> ('p, 's, 'm) otrng_s) option" where
  "receive_query_message C Z rnd now response msg otr = (
     let otr = set_running_version_from_query_message msg otr in
     if otr_running_version otr = ucast OTRNG_PROTOCOL_VERSION_4 then
       if peer_refused C otr then Some (False, response, otr) else start_dake C Z rnd now response otr
     else if otr_running_version otr = OTRNG_PROTOCOL_VERSION_3 then receive_message_v3 response msg otr
     else Some (True, response, otr))"

subsection \<open>What both sides sign\<close>

fun strcmp_less :: "string \<Rightarrow> string \<Rightarrow> bool" where
  "strcmp_less a [] = False"
| "strcmp_less [] (d # b) = True"
| "strcmp_less (c # a) (d # b) =
     (if (of_char c :: nat) < of_char d then True else if c = d then strcmp_less a b else False)"

definition otrng_generate_session_state_string :: "otrng_shared_session_state_s \<Rightarrow> string option" where
  "otrng_generate_session_state_string state = do {
     a \<leftarrow> identifier1 state;
     b \<leftarrow> identifier2 state;
     Some ((if strcmp_less a b then a @ b else b @ a) @ (case password state of None \<Rightarrow> [] | Some p \<Rightarrow> p)) }"

definition get_shared_session_state :: "('p, 's, 'm) otrng_s \<Rightarrow> string option \<times> ('p, 's, 'm) otrng_s" where
  "get_shared_session_state otr = (case otr_shared_session_state otr of
     Some s \<Rightarrow> (Some s, otr)
   | None \<Rightarrow>
       let s = otrng_generate_session_state_string (cl_shared_session_state (otr_client otr))
       in (s, otr\<lparr>otr_shared_session_state := s\<rparr>))"

text \<open>The parameters for the tags have sixteen bits.\<close>

definition generate_phi_serialized :: "string option \<Rightarrow> u16 \<Rightarrow> u16 \<Rightarrow> bytes option" where
  "generate_phi_serialized phi_prime instance_tag1 instance_tag2 =
     map_option (\<lambda>p. otrng_serialize_phi (ascii p) instance_tag1 instance_tag2) phi_prime"

definition generate_phi_receiving :: "('p, 's, 'm) otrng_s \<Rightarrow> bytes option \<times> ('p, 's, 'm) otrng_s" where
  "generate_phi_receiving otr = (case get_shared_session_state otr of (s, otr) \<Rightarrow>
     (generate_phi_serialized s (ucast (our_instance_tag otr)) (ucast (otr_their_instance_tag otr)), otr))"

definition generate_phi_sending :: "('p, 's, 'm) otrng_s \<Rightarrow> bytes option \<times> ('p, 's, 'm) otrng_s" where
  "generate_phi_sending otr = (case get_shared_session_state otr of (s, otr) \<Rightarrow>
     (generate_phi_serialized s (ucast (our_instance_tag otr)) (ucast (otr_their_instance_tag otr)), otr))"

definition participant_data ::
    "'p otrng_client_profile_s \<Rightarrow> 'p \<Rightarrow> 'm option \<Rightarrow> ('p, 'm) otrng_dake_participant_data_s" where
  "participant_data profile ecdh dh =
     \<lparr>pd_client_profile = profile, pd_exp_client_profile = None, pd_ecdh = ecdh, pd_dh = dh\<rparr>"

definition generate_sending_rsig_tag ::
    "('p, 's, 'm, 'h) crypto_ops \<Rightarrow> auth_tag_type \<Rightarrow> ('p, 's, 'm) otrng_s \<Rightarrow> (bytes option \<times> ('p, 's, 'm) otrng_s) option" where
  "generate_sending_rsig_tag C auth_tag_type otr = do {
     (mine, otr) \<leftarrow> get_my_client_profile otr;
     let keys = otr_keys otr;
     (case generate_phi_sending otr of (phi, otr) \<Rightarrow>
        case phi of
          None \<Rightarrow> Some (None, otr)
        | Some phi \<Rightarrow> do {
            theirs \<leftarrow> otr_their_client_profile otr;
            t \<leftarrow> build_interactive_rsign_tag C auth_tag_type (participant_data theirs (their_ecdh keys) (their_dh keys))
              (participant_data mine (ecdh_pub (our_ecdh keys)) (dh_pub (our_dh keys))) phi;
            Some (t, otr) }) }"

definition generate_receiving_rsig_tag ::
    "('p, 's, 'm, 'h) crypto_ops \<Rightarrow> auth_tag_type \<Rightarrow> ('p, 'm) otrng_dake_participant_data_s \<Rightarrow> ('p, 's, 'm) otrng_s
     \<Rightarrow> (bytes option \<times> ('p, 's, 'm) otrng_s) option" where
  "generate_receiving_rsig_tag C auth_tag_type responder otr = do {
     (mine, otr) \<leftarrow> get_my_client_profile otr;
     let keys = otr_keys otr;
     (case generate_phi_receiving otr of (phi, otr) \<Rightarrow>
        case phi of
          None \<Rightarrow> Some (None, otr)
        | Some phi \<Rightarrow> do {
            t \<leftarrow> build_interactive_rsign_tag C auth_tag_type
              (participant_data mine (ecdh_pub (our_ecdh keys)) (dh_pub (our_dh keys))) responder phi;
            Some (t, otr) }) }"

subsection \<open>Auth-R\<close>

definition serialize_and_encode_auth_r :: "('p, 's, 'm, 'h) crypto_ops \<Rightarrow> ('p, 's, 'm) dake_auth_r_s \<Rightarrow> string outcome" where
  "serialize_and_encode_auth_r C auth_r = map_option (map_option (base64_otr_encode C)) (otrng_dake_auth_r_serialize C auth_r)"

definition reply_with_auth_r_message ::
    "('p, 's, 'm, 'h) crypto_ops \<Rightarrow> ('p, 's) wiped \<Rightarrow> (nat \<Rightarrow> bytes) \<Rightarrow> ('p, 's, 'm) otrng_s
     \<Rightarrow> (string option \<times> ('p, 's, 'm) otrng_s) option" where
  "reply_with_auth_r_message C Z rnd otr = do {
     (mine, otr) \<leftarrow> get_my_client_profile otr;
     (case otrng_client_profile_copy Z (Some mine) of (ok, profile) \<Rightarrow>
        if \<not> ok then Some (None, otr)
        else do {
          (t, otr) \<leftarrow> generate_sending_rsig_tag C Auth_r otr;
          theirs \<leftarrow> otr_their_client_profile otr;
          let keys = otr_keys otr;
     let pair = cl_keypair (otr_client otr);
          (case Option.bind t (otrng_rsig_authenticate C rnd (kp_priv pair) (kp_pub pair)
               (cp_forging_pub_key theirs) (kp_pub pair) (their_ecdh keys)) of
             None \<Rightarrow> Some (None, otr)
           | Some sigma \<Rightarrow>
               map_option (\<lambda>dst. (dst, otr)) (serialize_and_encode_auth_r C
                 \<lparr>ar_sender_instance_tag = our_instance_tag otr, ar_receiver_instance_tag = otr_their_instance_tag otr,
                  ar_profile = profile, ar_X = ecdh_pub (our_ecdh keys), ar_A = dh_pub (our_dh keys),
                  ar_X_first = ecdh_pub (our_ecdh_first keys), ar_A_first = dh_pub (our_dh_first keys), ar_sigma = sigma\<rparr>)) }) }"

subsection \<open>The double ratchet starts\<close>

definition double_ratcheting_init ::
    "('p, 's, 'm, 'h) crypto_ops \<Rightarrow> ('p, 's) wiped \<Rightarrow> participant \<Rightarrow> ('p, 's, 'm) otrng_s \<Rightarrow> bool \<times> ('p, 's, 'm) otrng_s" where
  "double_ratcheting_init C Z participant otr =
     (case otrng_key_manager_ratcheting_init C Z participant (otr_keys otr) of (ok, manager) \<Rightarrow>
      let otr = otr\<lparr>otr_keys := manager\<rparr> in
      if \<not> ok then (False, otr)
      else let otr = raise_event Gone_secure (otr\<lparr>otr_state := OTRNG_STATE_ENCRYPTED_MESSAGES\<rparr>)
           in (True, otr\<lparr>otr_keys := otrng_key_manager_wipe_shared_prekeys Z (otr_keys otr)\<rparr>))"

definition received_sender_instance_tag :: "u32 \<Rightarrow> ('p, 's, 'm) otrng_s \<Rightarrow> bool \<times> ('p, 's, 'm) otrng_s" where
  "received_sender_instance_tag their_tag otr =
     (if \<not> otrng_instance_tag_valid their_tag then (False, otr) else (True, otr\<lparr>otr_their_instance_tag := their_tag\<rparr>))"

definition valid_receiver_instance_tag :: "u32 \<Rightarrow> bool" where
  "valid_receiver_instance_tag tag = (if tag = 0 then False else if \<not> otrng_instance_tag_valid tag then False else True)"

text \<open>\<open>otrng_serialize_fingerprint\<close> followed by the callback when it succeeds.\<close>

definition see_fingerprint :: "('p, 's, 'm, 'h) crypto_ops \<Rightarrow> 'p otrng_client_profile_s \<Rightarrow> ('p, 's, 'm) otrng_s \<Rightarrow> ('p, 's, 'm) otrng_s" where
  "see_fingerprint C profile otr =
     (case otrng_serialize_fingerprint C (cp_long_term_pub_key profile) (cp_forging_pub_key profile) of
        None \<Rightarrow> otr
      | Some fp \<Rightarrow> raise_event (Fingerprint_seen fp) otr)"

subsection \<open>The identity message arrives\<close>

definition receive_identity_message_on_state_start ::
    "('p, 's, 'm, 'h) crypto_ops \<Rightarrow> ('p, 's) wiped \<Rightarrow> (nat \<Rightarrow> bytes) \<Rightarrow> int \<Rightarrow> ('p, 'm) dake_identity_message_s \<Rightarrow> ('p, 's, 'm) otrng_s
     \<Rightarrow> (bool \<times> string option \<times> ('p, 's, 'm) otrng_s) option" where
  "receive_identity_message_on_state_start C Z rnd now identity_msg otr = (
     let manager = otrng_key_manager_set_their_dh (im_B identity_msg)
           (otrng_key_manager_set_their_ecdh (im_Y identity_msg) (otr_keys otr));
         manager = otrng_key_manager_set_their_first_dh (im_B_first identity_msg)
           (otrng_key_manager_set_their_first_ecdh (im_Y_first identity_msg) manager)
     in case otrng_client_profile_copy Z (Some (im_profile identity_msg)) of (ok, profile) \<Rightarrow>
        let otr = otr\<lparr>otr_keys := manager, otr_their_client_profile := Some profile\<rparr> in
        if \<not> ok then Some (False, None, otr)
        else case otrng_key_manager_generate_ephemeral_keys C Z rnd now manager of (ok, manager) \<Rightarrow>
          let otr = otr\<lparr>otr_keys := manager\<rparr> in
          if \<not> ok then Some (False, None, otr)
          else do {
            (dst, otr) \<leftarrow> reply_with_auth_r_message C Z (later 4 rnd) otr;
            if dst = None then Some (False, None, otr)
            else case otrng_key_manager_generate_shared_secret C Z True (null_ratchet Z) (otr_keys otr) of (ok, manager) \<Rightarrow>
              let otr = otr\<lparr>otr_keys := manager\<rparr> in
              if \<not> ok then Some (False, dst, otr)
              else Some (True, dst, otr\<lparr>otr_state := OTRNG_STATE_WAITING_AUTH_I\<rparr>) })"

text \<open>Comparing with a missing big integer is a fault of libgcrypt.\<close>

definition receive_identity_message_on_waiting_auth_r ::
    "('p, 's, 'm, 'h) crypto_ops \<Rightarrow> ('p, 's) wiped \<Rightarrow> (nat \<Rightarrow> bytes) \<Rightarrow> int \<Rightarrow> ('p, 'm) dake_identity_message_s \<Rightarrow> ('p, 's, 'm) otrng_s
     \<Rightarrow> (bool \<times> string option \<times> ('p, 's, 'm) otrng_s) option" where
  "receive_identity_message_on_waiting_auth_r C Z rnd now msg otr = do {
     ours \<leftarrow> dh_pub (our_dh (otr_keys otr));
     theirs \<leftarrow> im_B msg;
     if mpi_cmp C ours theirs > 0 then Some (True, None, otr)
     else receive_identity_message_on_state_start C Z rnd now msg otr }"

definition receive_identity_message_on_waiting_auth_i ::
    "('p, 's, 'm, 'h) crypto_ops \<Rightarrow> ('p, 's) wiped \<Rightarrow> (nat \<Rightarrow> bytes) \<Rightarrow> int \<Rightarrow> ('p, 'm) dake_identity_message_s \<Rightarrow> ('p, 's, 'm) otrng_s
     \<Rightarrow> (bool \<times> string option \<times> ('p, 's, 'm) otrng_s) option" where
  "receive_identity_message_on_waiting_auth_i C Z rnd now msg otr =
     receive_identity_message_on_state_start C Z rnd now msg (otr\<lparr>otr_their_client_profile := None\<rparr>)"

definition receive_identity_message ::
    "('p, 's, 'm, 'h) crypto_ops \<Rightarrow> ('p, 's) wiped \<Rightarrow> (nat \<Rightarrow> bytes) \<Rightarrow> int \<Rightarrow> bytes \<Rightarrow> ('p, 's, 'm) otrng_s
     \<Rightarrow> (bool \<times> string option \<times> ('p, 's, 'm) otrng_s) option" where
  "receive_identity_message C Z rnd now buffer otr =
     (case otrng_dake_identity_message_deserialize C Z buffer of
        None \<Rightarrow> Some (False, None, otr)
      | Some msg \<Rightarrow>
        (case received_sender_instance_tag (im_sender_instance_tag msg) otr of (ok, otr) \<Rightarrow>
         if \<not> ok then Some (False, otrng_error_message OTRNG_ERR_MSG_MALFORMED None, otr)
         else do {
           ok \<leftarrow> otrng_valid_received_values C now (im_sender_instance_tag msg) (im_Y msg) (im_B msg) (im_profile msg);
           if \<not> ok then Some (False, None, otr) else do {
           ok \<leftarrow> otrng_valid_received_values C now (im_sender_instance_tag msg) (im_Y_first msg) (im_B_first msg) (im_profile msg);
           if \<not> ok then Some (False, None, otr)
           else case otr_state otr of
               OTRNG_STATE_START \<Rightarrow> receive_identity_message_on_state_start C Z rnd now msg otr
             | OTRNG_STATE_WAITING_AUTH_R \<Rightarrow> receive_identity_message_on_waiting_auth_r C Z rnd now msg otr
             | OTRNG_STATE_WAITING_DAKE_DATA_MESSAGE \<Rightarrow> receive_identity_message_on_waiting_auth_i C Z rnd now msg otr
             | OTRNG_STATE_WAITING_AUTH_I \<Rightarrow> receive_identity_message_on_waiting_auth_i C Z rnd now msg otr
             | OTRNG_STATE_NONE \<Rightarrow> receive_identity_message_on_state_start C Z rnd now msg otr
             | OTRNG_STATE_ENCRYPTED_MESSAGES \<Rightarrow> receive_identity_message_on_state_start C Z rnd now msg otr
             | OTRNG_STATE_FINISHED \<Rightarrow> receive_identity_message_on_state_start C Z rnd now msg otr } }))"

subsection \<open>Auth-R arrives\<close>

definition serialize_and_encode_auth_i :: "('p, 's, 'm, 'h) crypto_ops \<Rightarrow> 's dake_auth_i_s \<Rightarrow> string option" where
  "serialize_and_encode_auth_i C msg = map_option (base64_otr_encode C) (otrng_dake_auth_i_serialize C msg)"

definition reply_with_auth_i_message ::
    "('p, 's, 'm, 'h) crypto_ops \<Rightarrow> (nat \<Rightarrow> bytes) \<Rightarrow> 'p otrng_client_profile_s \<Rightarrow> ('p, 's, 'm) otrng_s
     \<Rightarrow> (string option \<times> ('p, 's, 'm) otrng_s) option" where
  "reply_with_auth_i_message C rnd their_client_profile otr = do {
     let keys = otr_keys otr;
     let pair = cl_keypair (otr_client otr);
     (t, otr) \<leftarrow> generate_receiving_rsig_tag C Auth_i (participant_data their_client_profile (their_ecdh keys) (their_dh keys)) otr;
     (case Option.bind t (otrng_rsig_authenticate C rnd (kp_priv pair) (kp_pub pair)
          (kp_pub pair) (cp_forging_pub_key their_client_profile) (their_ecdh keys)) of
        None \<Rightarrow> Some (None, otr)
      | Some sigma \<Rightarrow> Some (serialize_and_encode_auth_i C
          \<lparr>ai_sender_instance_tag = our_instance_tag otr, ai_receiver_instance_tag = otr_their_instance_tag otr, ai_sigma = sigma\<rparr>, otr)) }"

definition valid_auth_r_message ::
    "('p, 's, 'm, 'h) crypto_ops \<Rightarrow> int \<Rightarrow> ('p, 's, 'm) dake_auth_r_s \<Rightarrow> ('p, 's, 'm) otrng_s \<Rightarrow> (bool \<times> ('p, 's, 'm) otrng_s) option" where
  "valid_auth_r_message C now auth otr = do {
     ok \<leftarrow> otrng_valid_received_values C now (ar_sender_instance_tag auth) (ar_X auth) (ar_A auth) (ar_profile auth);
     if \<not> ok then Some (False, otr) else do {
     ok \<leftarrow> otrng_valid_received_values C now (ar_sender_instance_tag auth) (ar_X_first auth) (ar_A_first auth) (ar_profile auth);
     if \<not> ok then Some (False, otr) else do {
     (t, otr) \<leftarrow> generate_receiving_rsig_tag C Auth_r (participant_data (ar_profile auth) (ar_X auth) (ar_A auth)) otr;
     Some (case t of
         None \<Rightarrow> False
       | Some t \<Rightarrow> otrng_rsig_verify C (ar_sigma auth) (cl_forging_key (otr_client otr)) (cp_long_term_pub_key (ar_profile auth))
           (ecdh_pub (our_ecdh (otr_keys otr))) t, otr) } } }"

text \<open>Before the ratchet starts, both handlers replace the keys of the exchange by the first keys.\<close>

definition use_first_keys :: "('p, 's, 'm) key_manager_s \<Rightarrow> ('p, 's, 'm) key_manager_s" where
  "use_first_keys keys = (
     let keys = keys\<lparr>their_ecdh := their_first_ecdh keys,
           our_ecdh := \<lparr>ecdh_priv = ecdh_priv (our_ecdh_first keys), ecdh_pub = ecdh_pub (our_ecdh_first keys)\<rparr>,
           our_dh := \<lparr>dh_pub = dh_pub (our_dh_first keys), dh_priv = dh_priv (our_dh_first keys)\<rparr>\<rparr>
     in if their_first_dh keys \<noteq> None then keys\<lparr>their_dh := their_first_dh keys\<rparr> else keys)"

definition receive_auth_r ::
    "('p, 's, 'm, 'h) crypto_ops \<Rightarrow> ('p, 's) wiped \<Rightarrow> (nat \<Rightarrow> bytes) \<Rightarrow> int \<Rightarrow> bytes \<Rightarrow> ('p, 's, 'm) otrng_s
     \<Rightarrow> (bool \<times> string option \<times> ('p, 's, 'm) otrng_s) option" where
  "receive_auth_r C Z rnd now buffer otr =
     (if otr_state otr \<noteq> OTRNG_STATE_WAITING_AUTH_R then Some (True, None, otr)
      else case otrng_dake_auth_r_deserialize C Z buffer of
        None \<Rightarrow> Some (False, None, otr)
      | Some auth \<Rightarrow>
        if ar_receiver_instance_tag auth \<noteq> our_instance_tag otr then Some (True, None, otr)
        else case received_sender_instance_tag (ar_sender_instance_tag auth) otr of (ok, otr) \<Rightarrow>
          if \<not> ok then Some (False, otrng_error_message OTRNG_ERR_MSG_MALFORMED None, otr)
          else if \<not> valid_receiver_instance_tag (ar_receiver_instance_tag auth)
          then Some (False, otrng_error_message OTRNG_ERR_MSG_MALFORMED None, otr)
          else do {
            (ok, otr) \<leftarrow> valid_auth_r_message C now auth otr;
            if \<not> ok then Some (False, None, otr) else
            let manager = otrng_key_manager_set_their_dh (ar_A auth) (otrng_key_manager_set_their_ecdh (ar_X auth) (otr_keys otr));
                manager = otrng_key_manager_set_their_first_dh (ar_A_first auth)
                  (otrng_key_manager_set_their_first_ecdh (ar_X_first auth) manager)
            in case otrng_client_profile_copy Z (Some (ar_profile auth)) of (ok, profile) \<Rightarrow>
               let otr = otr\<lparr>otr_keys := manager, otr_their_client_profile := Some profile\<rparr> in
               if \<not> ok then Some (False, None, otr) else do {
               (dst, otr) \<leftarrow> reply_with_auth_i_message C rnd profile otr;
               if dst = None then Some (False, None, otr) else
               let otr = see_fingerprint C profile otr in
               case otrng_key_manager_generate_shared_secret C Z True (null_ratchet Z) (otr_keys otr) of (ok, manager) \<Rightarrow>
               let otr = otr\<lparr>otr_keys := manager\<rparr> in
               if \<not> ok then Some (False, dst, otr)
               else case double_ratcheting_init C Z Participant_u (otr\<lparr>otr_keys := use_first_keys manager\<rparr>) of (ok, otr) \<Rightarrow>
                 Some (ok, dst, otr\<lparr>otr_state := OTRNG_STATE_WAITING_DAKE_DATA_MESSAGE\<rparr>) } })"

subsection \<open>Auth-I arrives\<close>

definition valid_auth_i_message ::
    "('p, 's, 'm, 'h) crypto_ops \<Rightarrow> 's dake_auth_i_s \<Rightarrow> ('p, 's, 'm) otrng_s \<Rightarrow> (bool \<times> ('p, 's, 'm) otrng_s) option" where
  "valid_auth_i_message C auth otr = do {
     (t, otr) \<leftarrow> generate_sending_rsig_tag C Auth_i otr;
     (case t of
        None \<Rightarrow> Some (False, otr)
      | Some t \<Rightarrow> do {
          theirs \<leftarrow> otr_their_client_profile otr;
          Some (otrng_rsig_verify C (ai_sigma auth) (cp_long_term_pub_key theirs) (cl_forging_key (otr_client otr))
            (ecdh_pub (our_ecdh (otr_keys otr))) t, otr) }) }"

definition receive_auth_i ::
    "('p, 's, 'm, 'h) crypto_ops \<Rightarrow> ('p, 's) wiped \<Rightarrow> (nat \<Rightarrow> bytes) \<Rightarrow> int \<Rightarrow> bytes \<Rightarrow> ('p, 's, 'm) otrng_s
     \<Rightarrow> (bool \<times> string option \<times> ('p, 's, 'm) otrng_s) option" where
  "receive_auth_i C Z rnd now buffer otr =
     (if otr_state otr \<noteq> OTRNG_STATE_WAITING_AUTH_I then Some (True, None, otr)
      else case otrng_dake_auth_i_deserialize C buffer of
        None \<Rightarrow> Some (False, None, otr)
      | Some auth \<Rightarrow>
        if ai_receiver_instance_tag auth \<noteq> our_instance_tag otr then Some (True, None, otr)
        else case received_sender_instance_tag (ai_sender_instance_tag auth) otr of (ok, otr) \<Rightarrow>
          if \<not> ok then Some (False, otrng_error_message OTRNG_ERR_MSG_MALFORMED None, otr)
          else if \<not> valid_receiver_instance_tag (ai_receiver_instance_tag auth) then Some (False, None, otr)
          else do {
            (ok, otr) \<leftarrow> valid_auth_i_message C auth otr;
            if \<not> ok then Some (False, None, otr) else do {
            theirs \<leftarrow> otr_their_client_profile otr;
            let otr = see_fingerprint C theirs otr;
            (case double_ratcheting_init C Z Participant_t (otr\<lparr>otr_keys := use_first_keys (otr_keys otr)\<rparr>) of (ok, otr) \<Rightarrow>
               if \<not> ok then Some (False, None, otr)
               else do {
                 (dst, otr) \<leftarrow> otrng_send_message C Z rnd now [] [] MSG_FLAGS_IGNORE_UNREADABLE otr;
                 Some (dst \<noteq> None, dst, otr) }) } })"

subsection \<open>The non-interactive exchange: sending\<close>

text \<open>\<open>is_i\<close> is set for the side that published the prekeys, whose shared prekey pair is then used.\<close>

definition generate_tmp_key ::
    "('p, 's, 'm, 'h) crypto_ops \<Rightarrow> bool \<Rightarrow> ('p, 's, 'm) otrng_s \<Rightarrow> bytes outcome" where
  "generate_tmp_key C is_i otr = (
     let keys = otr_keys otr in
     attempt (Some (otrng_ecdh_shared_secret C ED448_POINT_BYTES (ecdh_priv (our_ecdh keys)) (their_ecdh keys))) (\<lambda>ecdh_key.
     attempt (Some (otrng_dh_shared_secret C (dh_priv (our_dh keys)) (their_dh keys))) (\<lambda>dh_key. do {
     brace \<leftarrow> hash_hash C BRACE_KEY_BYTES dh_key;
     (priv1, pub1) \<leftarrow> (if is_i then do {
          profile \<leftarrow> cl_prekey_profile (otr_client otr);
          shared \<leftarrow> pp_keys profile;
          Some (kp_priv shared, their_ecdh keys) }
        else Some (ecdh_priv (our_ecdh keys), their_shared_prekey keys));
     attempt (Some (otrng_ecdh_shared_secret C ED448_POINT_BYTES priv1 pub1)) (\<lambda>tmp_ecdh_k1. do {
     (priv2, pub2) \<leftarrow> (if is_i then Some (kp_priv (cl_keypair (otr_client otr)), their_ecdh keys)
        else do {
          theirs \<leftarrow> otr_their_client_profile otr;
          Some (ecdh_priv (our_ecdh keys), cp_long_term_pub_key theirs) });
     attempt (Some (otrng_ecdh_shared_secret C ED448_POINT_BYTES priv2 pub2)) (\<lambda>tmp_ecdh_k2.
       Some (otrng_key_manager_calculate_tmp_key C ecdh_key brace tmp_ecdh_k1 tmp_ecdh_k2)) }) })))"

definition generate_tmp_key_r :: "('p, 's, 'm, 'h) crypto_ops \<Rightarrow> ('p, 's, 'm) otrng_s \<Rightarrow> bytes outcome" where
  "generate_tmp_key_r C otr = generate_tmp_key C False otr"

definition generate_tmp_key_i :: "('p, 's, 'm, 'h) crypto_ops \<Rightarrow> ('p, 's, 'm) otrng_s \<Rightarrow> bytes outcome" where
  "generate_tmp_key_i C otr = generate_tmp_key C True otr"

definition serialize_and_encode_non_interactive_auth ::
    "('p, 's, 'm, 'h) crypto_ops \<Rightarrow> ('p, 's, 'm) dake_non_interactive_auth_message_s \<Rightarrow> string outcome" where
  "serialize_and_encode_non_interactive_auth C msg =
     map_option (map_option (base64_otr_encode C)) (otrng_dake_non_interactive_auth_message_serialize C msg)"

text \<open>The message without its signature and tag, which \<open>build_non_interactive_auth_message\<close> fills in.\<close>

definition non_interactive_auth_message_init ::
    "('p, 's) wiped \<Rightarrow> 's ring_sig_s \<Rightarrow> ('p, 's, 'm) otrng_s
     \<Rightarrow> (('p, 's, 'm) dake_non_interactive_auth_message_s option \<times> ('p, 's, 'm) otrng_s) option" where
  "non_interactive_auth_message_init Z sigma otr = do {
     (mine, otr) \<leftarrow> get_my_client_profile otr;
     (case otrng_client_profile_copy Z (Some mine) of (ok, profile) \<Rightarrow>
        Some (if \<not> ok then None
          else Some \<lparr>na_sender_instance_tag = our_instance_tag otr, na_receiver_instance_tag = otr_their_instance_tag otr,
            na_profile = profile, na_X = ecdh_pub (our_ecdh (otr_keys otr)), na_A = dh_pub (our_dh (otr_keys otr)),
            na_sigma = sigma, na_prekey_message_id = 0, na_auth_mac = zeros HASH_BYTES\<rparr>, otr)) }"

definition ring_sig_zero :: "('p, 's) wiped \<Rightarrow> 's ring_sig_s" where
  "ring_sig_zero Z = \<lparr>sig_c1 = zero_scalar Z, sig_r1 = zero_scalar Z, sig_c2 = zero_scalar Z, sig_r2 = zero_scalar Z,
     sig_c3 = zero_scalar Z, sig_r3 = zero_scalar Z\<rparr>"

definition build_non_interactive_auth_message ::
    "('p, 's, 'm, 'h) crypto_ops \<Rightarrow> ('p, 's) wiped \<Rightarrow> (nat \<Rightarrow> bytes) \<Rightarrow> ('p, 's, 'm) otrng_s
     \<Rightarrow> (('p, 's, 'm) dake_non_interactive_auth_message_s option \<times> ('p, 's, 'm) otrng_s) option" where
  "build_non_interactive_auth_message C Z rnd otr = do {
     theirs \<leftarrow> otr_their_client_profile otr;
     (mine, otr) \<leftarrow> get_my_client_profile otr;
     let keys = otr_keys otr;
     let initiator = participant_data theirs (their_ecdh keys) (their_dh keys);
     let responder = participant_data mine (ecdh_pub (our_ecdh keys)) (dh_pub (our_dh keys));
     (auth, otr) \<leftarrow> non_interactive_auth_message_init Z (ring_sig_zero Z) otr;
     (case auth of
        None \<Rightarrow> Some (None, otr)
      | Some auth \<Rightarrow>
          let auth = auth\<lparr>na_prekey_message_id := otr_their_prekeys_id otr\<rparr>;
              otr = otr\<lparr>otr_their_prekeys_id := 0\<rparr>
          in do {
          tmp \<leftarrow> generate_tmp_key_r C otr;
          (case tmp of
             None \<Rightarrow> Some (None, otr)
           | Some tmp \<Rightarrow>
               (case generate_phi_receiving (otr\<lparr>otr_keys := (otr_keys otr)\<lparr>tmp_key := tmp\<rparr>\<rparr>) of (phi, otr) \<Rightarrow>
                case phi of
                  None \<Rightarrow> Some (None, otr)
                | Some phi \<Rightarrow> do {
                    t \<leftarrow> build_non_interactive_rsign_tag C 0 initiator responder (their_shared_prekey keys) phi;
                    (case t of
                       None \<Rightarrow> Some (None, otr)
                     | Some t \<Rightarrow>
                         let pair = cl_keypair (otr_client otr) in
                         case otrng_rsig_authenticate C rnd (kp_priv pair) (kp_pub pair) (cp_forging_pub_key theirs)
                             (kp_pub pair) (their_ecdh keys) t of
                           None \<Rightarrow> Some (None, otr)
                         | Some sigma \<Rightarrow>
                             Some (map_option (\<lambda>mac. auth\<lparr>na_sigma := sigma, na_auth_mac := mac\<rparr>)
                               (otrng_dake_non_interactive_auth_message_authenticator C t tmp), otr)) })) }) }"

definition reply_with_non_interactive_auth_message ::
    "('p, 's, 'm, 'h) crypto_ops \<Rightarrow> ('p, 's) wiped \<Rightarrow> (nat \<Rightarrow> bytes) \<Rightarrow> ('p, 's, 'm) otrng_s
     \<Rightarrow> (bool \<times> string option \<times> ('p, 's, 'm) otrng_s) option" where
  "reply_with_non_interactive_auth_message C Z rnd otr = do {
     (auth, otr) \<leftarrow> build_non_interactive_auth_message C Z rnd (maybe_create_keys otr);
     (case auth of
        None \<Rightarrow> Some (False, None, otr)
      | Some auth \<Rightarrow> do {
          dst \<leftarrow> serialize_and_encode_non_interactive_auth C auth;
          if dst = None then Some (False, None, otr)
          else case otrng_key_manager_generate_shared_secret C Z False (null_ratchet Z) (otr_keys otr) of (ok, manager) \<Rightarrow>
            let otr = otr\<lparr>otr_keys := manager\<rparr> in
            if \<not> ok then Some (False, dst, otr)
            else case double_ratcheting_init C Z Participant_t otr of (ok, otr) \<Rightarrow> Some (ok, dst, otr) }) }"

definition set_their_client_profile ::
    "('p, 's) wiped \<Rightarrow> 'p otrng_client_profile_s \<Rightarrow> ('p, 's, 'm) otrng_s \<Rightarrow> bool \<times> ('p, 's, 'm) otrng_s" where
  "set_their_client_profile Z profile otr =
     (if otr_their_client_profile otr \<noteq> None then (False, otr)
      else case otrng_client_profile_copy Z (Some profile) of (ok, copy) \<Rightarrow> (ok, otr\<lparr>otr_their_client_profile := Some copy\<rparr>))"

definition set_their_prekey_profile ::
    "('p, 's) wiped \<Rightarrow> ('p, 's) otrng_prekey_profile_s \<Rightarrow> ('p, 's, 'm) otrng_s \<Rightarrow> bool \<times> ('p, 's, 'm) otrng_s" where
  "set_their_prekey_profile Z profile otr =
     (if otr_their_prekey_profile otr \<noteq> None then (False, otr)
      else let copy = otrng_prekey_profile_copy Z (Some profile)
           in (True, otr\<lparr>otr_their_prekey_profile := Some copy,
                otr_keys := (otr_keys otr)\<lparr>their_shared_prekey := pp_shared_prekey copy\<rparr>\<rparr>))"

definition prekey_message_received ::
    "('p, 's, 'm, 'h) crypto_ops \<Rightarrow> ('p, 's) wiped \<Rightarrow> (nat \<Rightarrow> bytes) \<Rightarrow> int \<Rightarrow> ('p, 's, 'm) prekey_message_s \<Rightarrow> ('p, 's, 'm) otrng_s
     \<Rightarrow> (bool \<times> ('p, 's, 'm) otrng_s) option" where
  "prekey_message_received C Z rnd now msg otr =
     (case otr_their_client_profile otr of
        None \<Rightarrow> Some (False, otr)
      | Some profile \<Rightarrow>
        if otr_their_prekey_profile otr = None then Some (False, otr)
        else case received_sender_instance_tag (pm_sender_instance_tag msg) otr of (ok, otr) \<Rightarrow>
          if \<not> ok then Some (False, raise_event (Handle_event OTRNG_MSG_EVENT_MALFORMED_PREKEY) otr)
          else do {
            ok \<leftarrow> otrng_valid_received_values C now (pm_sender_instance_tag msg) (pm_Y msg) (pm_B msg) profile;
            if \<not> ok then Some (False, otr)
            else let manager = otrng_key_manager_set_their_dh (pm_B msg) (otrng_key_manager_set_their_ecdh (pm_Y msg) (otr_keys otr))
              in case otrng_key_manager_generate_ephemeral_keys C Z rnd now manager of (ok, manager) \<Rightarrow>
                Some (ok, otr\<lparr>otr_their_prekeys_id := pm_id msg, otr_keys := manager\<rparr>) })"

fun version_supported :: "byte \<Rightarrow> bytes \<Rightarrow> bool" where
  "version_supported supported [] = False"
| "version_supported supported (v # versions) =
     (if v = 0x34 \<and> (supported = OTRNG_ALLOW_V4 \<or> supported = OTRNG_ALLOW_V34) then True
      else if v = 0x33 \<and> (supported = OTRNG_ALLOW_V3 \<or> supported = OTRNG_ALLOW_V34) then True
      else version_supported supported versions)"

definition ensure_client_profile_version :: "bytes option \<Rightarrow> ('p, 's, 'm) otrng_s \<Rightarrow> bool option" where
  "ensure_client_profile_version versions otr = map_option (version_supported (otr_supported_versions otr)) versions"

definition receive_prekey_ensemble ::
    "('p, 's, 'm, 'h) crypto_ops \<Rightarrow> ('p, 's) wiped \<Rightarrow> (nat \<Rightarrow> bytes) \<Rightarrow> int \<Rightarrow> ('p, 's, 'm) prekey_ensemble_s \<Rightarrow> ('p, 's, 'm) otrng_s
     \<Rightarrow> (bool \<times> ('p, 's, 'm) otrng_s) option" where
  "receive_prekey_ensemble C Z rnd now ensemble otr = do {
     ok \<leftarrow> otrng_prekey_ensemble_validate C now ensemble;
     if \<not> ok then Some (False, otr) else do {
     ok \<leftarrow> ensure_client_profile_version (cp_versions (pe_client_profile ensemble)) otr;
     if \<not> ok then Some (False, otr)
     else case set_their_client_profile Z (pe_client_profile ensemble) otr of (ok, otr) \<Rightarrow>
       if \<not> ok then Some (False, otr)
       else case set_their_prekey_profile Z (pe_prekey_profile ensemble) otr of (ok, otr) \<Rightarrow>
         if \<not> ok then Some (False, otr)
         else prekey_message_received C Z rnd now (pe_message ensemble) otr } }"

definition otrng_send_non_interactive_auth ::
    "('p, 's, 'm, 'h) crypto_ops \<Rightarrow> ('p, 's) wiped \<Rightarrow> (nat \<Rightarrow> bytes) \<Rightarrow> int \<Rightarrow> ('p, 's, 'm) prekey_ensemble_s \<Rightarrow> ('p, 's, 'm) otrng_s
     \<Rightarrow> (bool \<times> string option \<times> ('p, 's, 'm) otrng_s) option" where
  "otrng_send_non_interactive_auth C Z rnd now ensemble otr = do {
     (ok, otr) \<leftarrow> receive_prekey_ensemble C Z rnd now ensemble otr;
     if \<not> ok then Some (False, None, otr)
     else let otr = otr\<lparr>otr_running_version := ucast OTRNG_PROTOCOL_VERSION_4\<rparr> in do {
       theirs \<leftarrow> otr_their_client_profile otr;
       reply_with_non_interactive_auth_message C Z (later 4 rnd) (see_fingerprint C theirs otr) } }"

subsection \<open>The non-interactive exchange: receiving\<close>

fun get_stored_prekey_node_by_id :: "u32 \<Rightarrow> ('p, 's, 'm) prekey_message_s list \<Rightarrow> ('p, 's, 'm) prekey_message_s option" where
  "get_stored_prekey_node_by_id ident [] = None"
| "get_stored_prekey_node_by_id ident (pm # prekeys) =
     (if pm_id pm = ident then Some pm else get_stored_prekey_node_by_id ident prekeys)"

definition otrng_client_get_prekey_by_id ::
    "u32 \<Rightarrow> ('p, 's, 'm) otrng_client_s \<Rightarrow> ('p, 's, 'm) prekey_message_s option" where
  "otrng_client_get_prekey_by_id ident client = get_stored_prekey_node_by_id ident (cl_our_prekeys client)"

fun remove_first_prekey :: "u32 \<Rightarrow> ('p, 's, 'm) prekey_message_s list \<Rightarrow> ('p, 's, 'm) prekey_message_s list" where
  "remove_first_prekey ident [] = []"
| "remove_first_prekey ident (pm # prekeys) =
     (if pm_id pm = ident then prekeys else pm # remove_first_prekey ident prekeys)"

definition otrng_client_delete_my_prekey_message_by_id ::
    "u32 \<Rightarrow> ('p, 's, 'm) otrng_client_s \<Rightarrow> ('p, 's, 'm) otrng_client_s" where
  "otrng_client_delete_my_prekey_message_by_id ident client =
     client\<lparr>cl_our_prekeys := remove_first_prekey ident (cl_our_prekeys client)\<rparr>"

text \<open>
  \<open>verify_non_interactive_auth_message\<close>: when the signature does not match the current profiles, the
  expired ones are tried only to return false in either case; without expired profiles the function goes
  on with the tag \<open>t\<close> freed and \<open>NULL\<close>, of the length it had, which the computation of the MAC reads:
  a fault.
\<close>

definition verify_non_interactive_auth_message ::
    "('p, 's, 'm, 'h) crypto_ops \<Rightarrow> ('p, 's, 'm) dake_non_interactive_auth_message_s \<Rightarrow> ('p, 's, 'm) otrng_s
     \<Rightarrow> (bool \<times> ('p, 's, 'm) otrng_s) option" where
  "verify_non_interactive_auth_message C auth otr = do {
     (mine, otr) \<leftarrow> get_my_client_profile otr;
     (case get_my_prekey_profile otr of (prekey_profile, otr) \<Rightarrow>
     let keys = otr_keys otr;
         initiator = (participant_data mine (ecdh_pub (our_ecdh keys)) (dh_pub (our_dh keys)))
           \<lparr>pd_exp_client_profile := get_my_exp_client_profile otr\<rparr>;
         responder = participant_data (na_profile auth) (na_X auth) (na_A auth)
     in case prekey_profile of
          None \<Rightarrow> Some (False, otr)
        | Some profile \<Rightarrow>
          (case generate_phi_sending otr of (phi, otr) \<Rightarrow>
           case phi of
             None \<Rightarrow> Some (False, otr)
           | Some phi \<Rightarrow> do {
               t \<leftarrow> build_non_interactive_rsign_tag C 0 initiator responder (pp_shared_prekey profile) phi;
               (case t of
                  None \<Rightarrow> Some (False, otr)
                | Some t \<Rightarrow>
                    if \<not> otrng_rsig_verify C (na_sigma auth) (cl_forging_key (otr_client otr))
                        (cp_long_term_pub_key (na_profile auth)) (ecdh_pub (our_ecdh keys)) t then
                      (case (pd_exp_client_profile initiator, get_my_exp_prekey_profile otr) of
                         (Some _, Some exp_prekey) \<Rightarrow> do {
                           t \<leftarrow> build_fallback_non_interactive_rsign_tag C (length t) initiator responder (pp_shared_prekey exp_prekey) phi;
                           Some (False, otr) }
                       | _ \<Rightarrow> None)
                    else case otrng_dake_non_interactive_auth_message_authenticator C t (tmp_key (otr_keys otr)) of
                        None \<Rightarrow> Some (False, otr)
                      | Some mac_tag \<Rightarrow>
                          Some (take DATA_MSG_MAC_BYTES mac_tag = take DATA_MSG_MAC_BYTES (na_auth_mac auth), otr)) })) }"

definition non_interactive_auth_message_received ::
    "('p, 's, 'm, 'h) crypto_ops \<Rightarrow> ('p, 's) wiped \<Rightarrow> int \<Rightarrow> otrng_response_s \<Rightarrow> ('p, 's, 'm) dake_non_interactive_auth_message_s
     \<Rightarrow> ('p, 's, 'm) otrng_s \<Rightarrow> (bool \<times> otrng_response_s \<times> ('p, 's, 'm) otrng_s) option" where
  "non_interactive_auth_message_received C Z now response auth otr =
     (case received_sender_instance_tag (na_sender_instance_tag auth) otr of (ok, otr) \<Rightarrow>
      let malformed = response\<lparr>to_send := otrng_error_message OTRNG_ERR_MSG_MALFORMED (to_send response)\<rparr> in
      if \<not> ok then Some (False, malformed, otr)
      else if \<not> valid_receiver_instance_tag (na_receiver_instance_tag auth) then Some (False, malformed, otr)
      else do {
        ok \<leftarrow> otrng_valid_received_values C now (na_sender_instance_tag auth) (na_X auth) (na_A auth) (na_profile auth);
        if \<not> ok then Some (False, response, otr)
        else case otrng_client_get_prekey_by_id (na_prekey_message_id auth) (otr_client otr) of
          None \<Rightarrow> Some (False, response, otr)
        | Some stored \<Rightarrow> do {
            (mine, otr) \<leftarrow> get_my_client_profile otr;
            if \<not> otrng_ec_point_eq C (kp_pub (cl_keypair (otr_client otr))) (cp_long_term_pub_key mine) then Some (False, response, otr)
            else do {
            own \<leftarrow> cl_prekey_profile (otr_client otr);
            shared \<leftarrow> pp_keys own;
            (case get_my_prekey_profile otr of (_, otr) \<Rightarrow>
             if \<not> otrng_ec_point_eq C (kp_pub shared) (pp_shared_prekey own) then Some (False, response, otr)
             else do {
              y \<leftarrow> pm_y stored;
              b \<leftarrow> pm_b stored;
              let otr = otr\<lparr>otr_keys := (otr_keys otr)\<lparr>our_ecdh := \<lparr>ecdh_priv = ecdh_priv y, ecdh_pub = ecdh_pub y\<rparr>,
                    our_dh := \<lparr>dh_pub = dh_pub b, dh_priv = dh_priv b\<rparr>\<rparr>\<rparr>;
              if na_receiver_instance_tag auth \<noteq> pm_sender_instance_tag stored then Some (True, response, otr)
              else
              let otr = otr\<lparr>otr_client := otrng_client_delete_my_prekey_message_by_id (na_prekey_message_id auth) (otr_client otr),
                    otr_keys := otrng_key_manager_set_their_dh (na_A auth)
                      (otrng_key_manager_set_their_ecdh (na_X auth) (otr_keys otr))\<rparr>
              in case otrng_client_profile_copy Z (Some (na_profile auth)) of (ok, profile) \<Rightarrow>
                 let otr = otr\<lparr>otr_their_client_profile := Some profile\<rparr> in
                 if \<not> ok then Some (False, response, otr) else do {
                 tmp \<leftarrow> generate_tmp_key_i C otr;
                 (case tmp of
                    None \<Rightarrow> Some (False, response, otr)
                  | Some tmp \<Rightarrow> do {
                      (ok, otr) \<leftarrow> verify_non_interactive_auth_message C auth (otr\<lparr>otr_keys := (otr_keys otr)\<lparr>tmp_key := tmp\<rparr>\<rparr>);
                      if \<not> ok then Some (False, response, otr)
                      else let otr = see_fingerprint C profile otr in
                        case otrng_key_manager_generate_shared_secret C Z False (null_ratchet Z) (otr_keys otr) of (ok, manager) \<Rightarrow>
                        let otr = otr\<lparr>otr_keys := manager\<rparr> in
                        if \<not> ok then Some (False, response, otr)
                        else case double_ratcheting_init C Z Participant_u otr of (ok, otr) \<Rightarrow>
                          Some (ok, response, otr) }) } }) } } })"

definition receive_non_interactive_auth_message ::
    "('p, 's, 'm, 'h) crypto_ops \<Rightarrow> ('p, 's) wiped \<Rightarrow> int \<Rightarrow> otrng_response_s \<Rightarrow> bytes \<Rightarrow> ('p, 's, 'm) otrng_s
     \<Rightarrow> (bool \<times> otrng_response_s \<times> ('p, 's, 'm) otrng_s) option" where
  "receive_non_interactive_auth_message C Z now response src otr =
     (if otr_state otr = OTRNG_STATE_FINISHED then Some (True, response, otr)
      else case otrng_dake_non_interactive_auth_message_deserialize C Z src of
        None \<Rightarrow> Some (False, response, otr)
      | Some auth \<Rightarrow> do {
          (ok, response, otr) \<leftarrow> non_interactive_auth_message_received C Z now response auth otr;
          if \<not> ok then Some (False, response, otr)
          else Some (True, response, otr\<lparr>otr_state := OTRNG_STATE_WAITING_DAKE_DATA_MESSAGE\<rparr>) })"

end
