(* ===== verification/Conversation.thy ===== *)
theory Conversation
  imports Handshake
begin

text \<open>
  \<open>otrng.c\<close>, receiving: data messages with their type-length-value records, the dispatch on the kind of a
  message, error messages, and the end of a conversation.  \<open>junk\<close> stands for an integer that a handler of
  SMP messages reads before it is set.
\<close>

definition ERROR_TAG_BYTES :: nat where "ERROR_TAG_BYTES = 8"

definition forget_our_keys :: "('p, 's) wiped \<Rightarrow> ('p, 's, 'm) otrng_s \<Rightarrow> ('p, 's, 'm) otrng_s option" where
  "forget_our_keys Z otr = do {
     (h, _) \<leftarrow> otrng_list_free True (otr_skipped_heap otr) (skipped_keys (otr_keys otr));
     (hm, _) \<leftarrow> otrng_list_free True (otr_mac_heap otr) (old_mac_keys (otr_keys otr));
     Some (otr\<lparr>otr_keys := otrng_key_manager_init Z, otr_skipped_heap := h, otr_mac_heap := hm\<rparr>) }"

subsection \<open>Data messages\<close>

text \<open>\<open>memchr\<close>: the position of the first zero byte.\<close>

fun find_zero :: "bytes \<Rightarrow> nat option" where
  "find_zero [] = None"
| "find_zero (b # bs) = (if b = 0 then Some 0 else map_option Suc (find_zero bs))"

definition deserialize_received_tlvs :: "bytes \<Rightarrow> tlv_s list" where
  "deserialize_received_tlvs src = (case find_zero src of
     None \<Rightarrow> [] | Some tlvs_start \<Rightarrow> otrng_parse_tlvs (drop (tlvs_start + 1) src))"

definition decrypt_data_message ::
    "('p, 's, 'm, 'h) crypto_ops \<Rightarrow> otrng_response_s \<Rightarrow> bytes \<Rightarrow> ('p, 'm) data_message_s \<Rightarrow> otrng_response_s option" where
  "decrypt_data_message C response enc_key msg = do {
     plain \<leftarrow> stream_xor C (take (dm_enc_msg_len msg) (case dm_enc_msg msg of None \<Rightarrow> [] | Some c \<Rightarrow> c)) (dm_nonce msg)
       (take ENC_ACTUAL_KEY_BYTES enc_key);
     let response = (if c_string plain \<noteq> [] then response\<lparr>to_display := Some (chars (c_string plain))\<rparr> else response);
     Some (response\<lparr>tlvs := deserialize_received_tlvs plain\<rparr>) }"

definition extract_word :: "bytes \<Rightarrow> u32" where
  "extract_word bufp = push_bit 24 (ucast (bufp ! 0)) OR push_bit 16 (ucast (bufp ! 1)) OR
     push_bit 8 (ucast (bufp ! 2)) OR ucast (bufp ! 3)"

text \<open>\<open>received_extra_sym_key\<close> calls the application only if it registered the callback.\<close>

definition received_extra_sym_key :: "u32 \<Rightarrow> bytes \<Rightarrow> bytes \<Rightarrow> ('p, 's, 'm) otrng_s \<Rightarrow> ('p, 's, 'm) otrng_s" where
  "received_extra_sym_key use_case use_data extra_sym_key conv =
     (if \<not> cl_has_extra_symm_key (otr_client conv) then conv
      else raise_event (Received_extra_symm_key use_case use_data extra_sym_key) conv)"

definition wipe_extra_key :: "('p, 's, 'm) otrng_s \<Rightarrow> ('p, 's, 'm) otrng_s" where
  "wipe_extra_key otr = otr\<lparr>otr_keys := (otr_keys otr)\<lparr>extra_symmetric_key := zeros EXTRA_SYMMETRIC_KEY_BYTES\<rparr>\<rparr>"

definition process_tlv ::
    "('p, 's, 'm, 'h) crypto_ops \<Rightarrow> ('p, 's) wiped \<Rightarrow> (nat \<Rightarrow> bytes) \<Rightarrow> nat \<Rightarrow> tlv_s \<Rightarrow> ('p, 's, 'm) otrng_s
     \<Rightarrow> (tlv_s option \<times> ('p, 's, 'm) otrng_s) option" where
  "process_tlv C Z rnd junk tlv otr =
     (if tlv_type tlv = OTRNG_TLV_NONE \<or> tlv_type tlv = OTRNG_TLV_PADDING then Some (None, otr)
      else if tlv_type tlv = OTRNG_TLV_DISCONNECTED then do {
        otr \<leftarrow> forget_our_keys Z otr;
        Some (None, raise_event Gone_insecure (otr\<lparr>otr_state := OTRNG_STATE_FINISHED\<rparr>)) }
      else if tlv_type tlv = OTRNG_TLV_SYM_KEY \<and> 4 \<le> tlv_len tlv then do {
        data \<leftarrow> tlv_data tlv;
        let otr = received_extra_sym_key (extract_word data) (take (unat (tlv_len tlv) - 4) (drop 4 data))
          (extra_symmetric_key (otr_keys otr)) otr;
        Some (None, wipe_extra_key otr) }
      else let otr = wipe_extra_key otr in do {
        (out, cbs, smp) \<leftarrow> otrng_process_smp_tlv C rnd junk (cl_smp_callbacks (otr_client otr)) tlv (otr_smp otr);
        Some (out, otr\<lparr>otr_smp := smp, otr_events := otr_events otr @ map Smp_event cbs\<rparr>) })"

text \<open>The loop over the records; the second component says whether it succeeded, and one record may draw
  up to sixteen times from the random source.\<close>

definition draws_per_tlv :: nat where "draws_per_tlv = 16"

fun process_received_tlvs ::
    "('p, 's, 'm, 'h) crypto_ops \<Rightarrow> ('p, 's) wiped \<Rightarrow> (nat \<Rightarrow> bytes) \<Rightarrow> nat \<Rightarrow> tlv_s list \<Rightarrow> tlv_s list \<Rightarrow> ('p, 's, 'm) otrng_s
     \<Rightarrow> (bool \<times> tlv_s list \<times> ('p, 's, 'm) otrng_s) option" where
  "process_received_tlvs C Z rnd junk replies [] otr = Some (True, replies, otr)"
| "process_received_tlvs C Z rnd junk replies (first # rest) otr = do {
     (tlv, otr) \<leftarrow> process_tlv C Z rnd junk first otr;
     (case tlv of
        None \<Rightarrow> process_received_tlvs C Z (later draws_per_tlv rnd) junk replies rest otr
      | Some tlv \<Rightarrow>
          (case otrng_append_tlv replies (Some tlv) of
             None \<Rightarrow> Some (False, [], otr)
           | Some replies \<Rightarrow> process_received_tlvs C Z (later draws_per_tlv rnd) junk replies rest otr)) }"

definition receive_tlvs ::
    "('p, 's, 'm, 'h) crypto_ops \<Rightarrow> ('p, 's) wiped \<Rightarrow> (nat \<Rightarrow> bytes) \<Rightarrow> int \<Rightarrow> nat \<Rightarrow> otrng_response_s \<Rightarrow> ('p, 's, 'm) otrng_s
     \<Rightarrow> (bool \<times> otrng_response_s \<times> ('p, 's, 'm) otrng_s) option" where
  "receive_tlvs C Z rnd now junk response otr = do {
     (ret, reply_tlvs, otr) \<leftarrow> process_received_tlvs C Z rnd junk [] (tlvs response) otr;
     if reply_tlvs = [] then Some (ret, response, otr)
     else if \<not> ret then Some (ret, response, otr)
     else do {
       (s, otr) \<leftarrow> otrng_send_message C Z (later (draws_per_tlv * length (tlvs response)) rnd) now [] reply_tlvs
         MSG_FLAGS_IGNORE_UNREADABLE otr;
       (case s of
          None \<Rightarrow> Some (False, response, otr)
        | Some s \<Rightarrow> Some (True, response\<lparr>to_send := Some s\<rparr>, otr)) } }"

text \<open>The keys for a received message, on the temporary ratchet: stored ones, or derived ones.  The state
  carries what the derivation changed in the key manager itself.  The first component is \<open>None\<close> where the
  handler returns an error.\<close>

definition receiving_keys ::
    "('p, 's, 'm, 'h) crypto_ops \<Rightarrow> ('p, 's) wiped \<Rightarrow> (nat \<Rightarrow> bytes) \<Rightarrow> int \<Rightarrow> ('p, 'm) data_message_s \<Rightarrow> ('p, 's, 'm) otrng_s
     \<Rightarrow> ((bytes \<times> bytes) option \<times> ('p, 's, 'm) receiving_ratchet_s \<times> ('p, 's, 'm) otrng_s) option" where
  "receiving_keys C Z rnd now msg otr = (
     let tmp = otrng_key_manager_set_their_tmp_keys (dm_ecdh msg) (dm_dh msg) (otrng_receiving_ratchet_new Z (otr_keys otr));
         max_skip = cl_max_stored_msg_keys (otr_client otr)
     in do {
       (keys, tmp, h) \<leftarrow> otrng_key_get_skipped_keys C (dm_ecdh msg) (dm_message_id msg) tmp (otr_skipped_heap otr);
       let otr = otr\<lparr>otr_skipped_heap := h\<rparr>;
       (case keys of
          Some ks \<Rightarrow> Some (Some ks, tmp, otr)
        | None \<Rightarrow> do {
            (ok, (manager, tmp), h, full) \<leftarrow> otrng_key_manager_derive_dh_ratchet_keys C Z rnd now max_skip (dm_ecdh msg)
              (dm_previous_chain_n msg) Receive (otr_keys otr, tmp) (otr_skipped_heap otr);
            let otr = raise_if_full full (otr\<lparr>otr_keys := manager, otr_skipped_heap := h\<rparr>);
            if \<not> ok then Some (None, tmp, otr) else do {
            (keys, (manager, tmp), h, full) \<leftarrow> otrng_key_manager_derive_chain_keys C max_skip (dm_message_id msg) Receive
              (otr_keys otr, tmp) (otr_skipped_heap otr);
            let otr = raise_if_full full (otr\<lparr>otr_keys := manager, otr_skipped_heap := h\<rparr>);
            Some (case keys of
                None \<Rightarrow> (None, tmp, otr)
              | Some ks \<Rightarrow> (Some ks, tmp\<lparr>rr_k := rr_k tmp + 1\<rparr>, otr)) } }) })"

text \<open>The list of skipped keys that is freed when a message is refused is shared with the key manager.\<close>

definition free_tmp_skipped ::
    "('p, 's, 'm) receiving_ratchet_s \<Rightarrow> ('p, 's, 'm) otrng_s \<Rightarrow> ('p, 's, 'm) otrng_s option" where
  "free_tmp_skipped tmp otr =
     (if rr_skipped_keys tmp = None then Some otr
      else do {
        (h, _) \<leftarrow> otrng_list_free True (otr_skipped_heap otr) (rr_skipped_keys tmp);
        Some (otr\<lparr>otr_skipped_heap := h\<rparr>) })"

text \<open>After the message was decrypted: the records, the MAC key to reveal, the heartbeat.\<close>

definition data_message_decrypted ::
    "('p, 's, 'm, 'h) crypto_ops \<Rightarrow> ('p, 's) wiped \<Rightarrow> (nat \<Rightarrow> bytes) \<Rightarrow> int \<Rightarrow> nat \<Rightarrow> otrng_response_s \<Rightarrow> bytes \<Rightarrow> ('p, 's, 'm) otrng_s
     \<Rightarrow> (bool \<times> otrng_response_s \<times> ('p, 's, 'm) otrng_s) option" where
  "data_message_decrypted C Z rnd now junk response mac_key otr = do {
     (ok, response, otr) \<leftarrow> receive_tlvs C Z rnd now junk response otr;
     if \<not> ok then Some (False, response, otr) else do {
     (manager, hm) \<leftarrow> otrng_store_old_mac_keys mac_key (otr_keys otr) (otr_mac_heap otr);
     let otr = otr\<lparr>otr_keys := manager, otr_mac_heap := hm\<rparr>;
     if to_display response = None then Some (True, response, otr)
     else if cl_should_heartbeat (otr_client otr) now (otr_last_sent otr) then do {
       (s, otr) \<leftarrow> otrng_send_message C Z (later (draws_per_tlv * (length (tlvs response) + 1)) rnd) now [] []
         MSG_FLAGS_IGNORE_UNREADABLE otr;
       (case s of
          None \<Rightarrow> Some (False, response, otr)
        | Some s \<Rightarrow> Some (True, response\<lparr>to_send := Some s\<rparr>,
            (raise_event (Handle_event OTRNG_MSG_EVENT_HEARTBEAT_SENT) otr)\<lparr>otr_last_sent := now\<rparr>)) }
     else Some (True, response, otr) } }"

definition otrng_receive_data_message_after_dake ::
    "('p, 's, 'm, 'h) crypto_ops \<Rightarrow> ('p, 's) wiped \<Rightarrow> (nat \<Rightarrow> bytes) \<Rightarrow> int \<Rightarrow> nat \<Rightarrow> otrng_response_s \<Rightarrow> bytes \<Rightarrow> ('p, 's, 'm) otrng_s
     \<Rightarrow> (bool \<times> otrng_response_s \<times> ('p, 's, 'm) otrng_s) option" where
  "otrng_receive_data_message_after_dake C Z rnd now junk response buffer otr = (
     let response = response\<lparr>to_display := None\<rparr>;
         error = (\<lambda>e. response\<lparr>to_send := otrng_error_message e (to_send response)\<rparr>) in
     case otrng_data_message_deserialize C buffer of
       None \<Rightarrow> Some (False, response, otr)
     | Some msg \<Rightarrow>
         if dm_receiver_instance_tag msg \<noteq> our_instance_tag otr then Some (True, response, otr)
         else case received_sender_instance_tag (dm_sender_instance_tag msg) otr of (ok, otr) \<Rightarrow>
           if \<not> ok then Some (False, error OTRNG_ERR_MSG_MALFORMED, otr)
           else if \<not> valid_receiver_instance_tag (dm_receiver_instance_tag msg) then Some (False, error OTRNG_ERR_MSG_MALFORMED, otr)
           else do {
             (keys, tmp, otr) \<leftarrow> receiving_keys C Z rnd now msg otr;
             (case keys of
                None \<Rightarrow> Some (False, response, otr)
              | Some (enc_key, mac_key) \<Rightarrow>
                  if \<not> otrng_valid_data_message C mac_key msg then do {
                    otr \<leftarrow> free_tmp_skipped tmp otr;
                    Some (False, response, raise_event (Handle_event OTRNG_MSG_EVENT_INVALID_MSG) otr) }
                  else case decrypt_data_message C response enc_key msg of
                    None \<Rightarrow> do {
                      otr \<leftarrow> free_tmp_skipped tmp otr;
                      Some (False, if dm_flags msg \<noteq> MSG_FLAGS_IGNORE_UNREADABLE then error OTRNG_ERR_MSG_UNREADABLE else response, otr) }
                  | Some response \<Rightarrow>
                      data_message_decrypted C Z rnd now junk response mac_key
                        (otr\<lparr>otr_keys := otrng_receiving_ratchet_copy (otr_keys otr) tmp\<rparr>)) })"

definition otrng_receive_data_message ::
    "('p, 's, 'm, 'h) crypto_ops \<Rightarrow> ('p, 's) wiped \<Rightarrow> (nat \<Rightarrow> bytes) \<Rightarrow> int \<Rightarrow> nat \<Rightarrow> otrng_response_s \<Rightarrow> bytes \<Rightarrow> ('p, 's, 'm) otrng_s
     \<Rightarrow> (bool \<times> otrng_response_s \<times> ('p, 's, 'm) otrng_s) option" where
  "otrng_receive_data_message C Z rnd now junk response buffer otr =
     (if otr_state otr = OTRNG_STATE_WAITING_DAKE_DATA_MESSAGE then do {
        (ok, response, otr) \<leftarrow> otrng_receive_data_message_after_dake C Z rnd now junk response buffer otr;
        if ok then Some (True, response, otr\<lparr>otr_state := OTRNG_STATE_ENCRYPTED_MESSAGES\<rparr>) else Some (False, response, otr) }
      else if otr_state otr \<noteq> OTRNG_STATE_ENCRYPTED_MESSAGES then
        Some (False, response\<lparr>to_send := otrng_error_message OTRNG_ERR_MSG_NOT_PRIVATE (to_send response)\<rparr>, otr)
      else otrng_receive_data_message_after_dake C Z rnd now junk response buffer otr)"

subsection \<open>Dispatch\<close>

definition extract_header :: "bytes \<Rightarrow> (u16 \<times> byte) option" where
  "extract_header buffer =
     (if length buffer < 3 then None
      else do {
        (version, read) \<leftarrow> otrng_deserialize_uint16 buffer;
        (ty, read) \<leftarrow> otrng_deserialize_uint8 (drop read buffer);
        Some (version, ty) })"

text \<open>The handlers of the key exchange write to \<open>response->to_send\<close>.\<close>

definition answer_with ::
    "otrng_response_s \<Rightarrow> (bool \<times> string option \<times> 's) option \<Rightarrow> (bool \<times> otrng_response_s \<times> 's) option" where
  "answer_with response r = map_option (\<lambda>(ok, dst, otr). (ok, response\<lparr>to_send := dst\<rparr>, otr)) r"

definition receive_decoded_message ::
    "('p, 's, 'm, 'h) crypto_ops \<Rightarrow> ('p, 's) wiped \<Rightarrow> (nat \<Rightarrow> bytes) \<Rightarrow> int \<Rightarrow> nat \<Rightarrow> otrng_response_s \<Rightarrow> bytes \<Rightarrow> ('p, 's, 'm) otrng_s
     \<Rightarrow> (bool \<times> otrng_response_s \<times> ('p, 's, 'm) otrng_s) option" where
  "receive_decoded_message C Z rnd now junk response decoded otr =
     (case extract_header decoded of
        None \<Rightarrow> Some (False, response, otr)
      | Some (version, ty) \<Rightarrow>
          let v3_allowed = (version = ucast OTRNG_PROTOCOL_VERSION_3 \<and> allow_version otr OTRNG_ALLOW_V3);
              v4_allowed = (version = OTRNG_PROTOCOL_VERSION_4 \<and> allow_version otr OTRNG_ALLOW_V4)
          in if \<not> v3_allowed \<and> \<not> v4_allowed then Some (False, response, otr)
             else let otr = maybe_create_keys otr; response = response\<lparr>to_send := None\<rparr> in
               if ty = IDENTITY_MSG_TYPE then
                 answer_with response (receive_identity_message C Z rnd now decoded
                   (otr\<lparr>otr_running_version := ucast OTRNG_PROTOCOL_VERSION_4\<rparr>))
               else if ty = AUTH_R_MSG_TYPE then answer_with response (receive_auth_r C Z rnd now decoded otr)
               else if ty = AUTH_I_MSG_TYPE then answer_with response (receive_auth_i C Z rnd now decoded otr)
               else if ty = NON_INT_AUTH_MSG_TYPE then
                 receive_non_interactive_auth_message C Z now response decoded
                   (otr\<lparr>otr_running_version := ucast OTRNG_PROTOCOL_VERSION_4\<rparr>)
               else if ty = DATA_MSG_TYPE then otrng_receive_data_message C Z rnd now junk response decoded otr
               else Some (False, response, otr))"

definition receive_encoded_message ::
    "('p, 's, 'm, 'h) crypto_ops \<Rightarrow> ('p, 's) wiped \<Rightarrow> (nat \<Rightarrow> bytes) \<Rightarrow> int \<Rightarrow> nat \<Rightarrow> otrng_response_s \<Rightarrow> string \<Rightarrow> ('p, 's, 'm) otrng_s
     \<Rightarrow> (bool \<times> otrng_response_s \<times> ('p, 's, 'm) otrng_s) option" where
  "receive_encoded_message C Z rnd now junk response msg otr =
     (case base64_otr_decode C msg of
        None \<Rightarrow> Some (False, response, otr)
      | Some decoded \<Rightarrow> receive_decoded_message C Z rnd now junk response decoded otr)"

text \<open>An answer to an error message starts a new exchange when the policy says so.\<close>

definition query_after_error ::
    "otrng_response_s \<Rightarrow> ('p, 's, 'm) otrng_s \<Rightarrow> bool \<times> otrng_response_s \<times> ('p, 's, 'm) otrng_s" where
  "query_after_error response otr =
     (case otrng_build_query_message [] otr of
        None \<Rightarrow> (False, response\<lparr>to_send := None\<rparr>, otr)
      | Some q \<Rightarrow> (True, response\<lparr>to_send := Some q\<rparr>, otr))"

definition receive_error_message ::
    "('p, 's) wiped \<Rightarrow> otrng_response_s \<Rightarrow> string \<Rightarrow> ('p, 's, 'm) otrng_s
     \<Rightarrow> (bool \<times> otrng_response_s \<times> ('p, 's, 'm) otrng_s) option" where
  "receive_error_message Z response msg otr = (
     let display = (\<lambda>e. response\<lparr>to_display := cl_display_error_message (otr_client otr) e\<rparr>);
         start = (otr_policy_type otr AND OTRNG_ERROR_START_DAKE \<noteq> 0) in
     if take ERROR_TAG_BYTES msg = ''ERROR_1:'' then
       if start then Some (query_after_error (display OTRNG_ERROR_UNREADABLE_EVENT) otr)
       else Some (True, display OTRNG_ERROR_UNREADABLE_EVENT, otr)
     else if take ERROR_TAG_BYTES msg = ''ERROR_2:'' then
       if start then do {
         otr \<leftarrow> forget_our_keys Z otr;
         Some (query_after_error (display OTRNG_ERROR_NOT_IN_PRIVATE_EVENT)
           (raise_event Gone_insecure (otr\<lparr>otr_state := OTRNG_STATE_START\<rparr>))) }
       else Some (True, display OTRNG_ERROR_NOT_IN_PRIVATE_EVENT, otr)
     else if take ERROR_TAG_BYTES msg = ''ERROR_3:'' then
       if start then Some (query_after_error (display OTRNG_ERROR_MALFORMED_EVENT) otr)
       else Some (True, display OTRNG_ERROR_MALFORMED_EVENT, otr)
     else Some (False, response, otr))"

text \<open>An error message is read from behind \<open>ERROR_PREFIX\<close>, which is one character longer than the header
  that identifies it: a message that ends with the header is read beyond its end.\<close>

definition receive_message_v4_only ::
    "('p, 's, 'm, 'h) crypto_ops \<Rightarrow> ('p, 's) wiped \<Rightarrow> (nat \<Rightarrow> bytes) \<Rightarrow> int \<Rightarrow> nat \<Rightarrow> otrng_response_s \<Rightarrow> string \<Rightarrow> ('p, 's, 'm) otrng_s
     \<Rightarrow> (bool \<times> otrng_response_s \<times> ('p, 's, 'm) otrng_s) option" where
  "receive_message_v4_only C Z rnd now junk response msg otr = (case get_message_type msg of
     MSG_PLAINTEXT \<Rightarrow> (case receive_plaintext response msg otr of (response, otr) \<Rightarrow> Some (True, response, otr))
   | MSG_TAGGED_PLAINTEXT \<Rightarrow> receive_tagged_plaintext C Z rnd now response msg otr
   | MSG_QUERY_STRING \<Rightarrow> receive_query_message C Z rnd now response msg otr
   | MSG_OTR_ENCODED \<Rightarrow> receive_encoded_message C Z rnd now junk response msg otr
   | MSG_OTR_ERROR \<Rightarrow>
       if length msg < length ERROR_PREFIX then None
       else receive_error_message Z response (drop (length ERROR_PREFIX) msg) otr)"

definition receive_defragmented_message ::
    "('p, 's, 'm, 'h) crypto_ops \<Rightarrow> ('p, 's) wiped \<Rightarrow> (nat \<Rightarrow> bytes) \<Rightarrow> int \<Rightarrow> nat \<Rightarrow> otrng_response_s \<Rightarrow> string option \<Rightarrow> ('p, 's, 'm) otrng_s
     \<Rightarrow> (bool \<times> otrng_response_s \<times> ('p, 's, 'm) otrng_s) option" where
  "receive_defragmented_message C Z rnd now junk response msg otr = (case msg of
     None \<Rightarrow> Some (False, response, otr)
   | Some msg \<Rightarrow>
       let response = response\<lparr>to_display := None\<rparr>;
           otr = (if (allow_version otr OTRNG_ALLOW_V3 \<or> allow_version otr OTRNG_ALLOW_V34) \<and> strstr msg ''?OTR:AAMC'' \<noteq> None
             then otr\<lparr>otr_running_version := OTRNG_PROTOCOL_VERSION_3\<rparr> else otr)
       in if otr_running_version otr = OTRNG_PROTOCOL_VERSION_3 then receive_message_v3 response msg otr
          else receive_message_v4_only C Z rnd now junk response msg otr)"

definition otrng_receive_message ::
    "('p, 's, 'm, 'h) crypto_ops \<Rightarrow> ('p, 's) wiped \<Rightarrow> (nat \<Rightarrow> bytes) \<Rightarrow> int \<Rightarrow> nat \<Rightarrow> otrng_response_s \<Rightarrow> string \<Rightarrow> ('p, 's, 'm) otrng_s
     \<Rightarrow> (bool \<times> otrng_response_s \<times> ('p, 's, 'm) otrng_s) option" where
  "otrng_receive_message C Z rnd now junk response msg otr = (
     let response = response\<lparr>to_display := None\<rparr> in do {
     (ok, defrag, contexts) \<leftarrow> otrng_unfragment_message (otr_pending_fragments otr) msg (our_instance_tag otr) now;
     let otr = otr\<lparr>otr_pending_fragments := contexts\<rparr>;
     if \<not> ok then Some (False, response, otr)
     else receive_defragmented_message C Z rnd now junk response defrag otr })"

subsection \<open>The end of a conversation\<close>

definition otrng_close_v4 ::
    "('p, 's, 'm, 'h) crypto_ops \<Rightarrow> ('p, 's) wiped \<Rightarrow> (nat \<Rightarrow> bytes) \<Rightarrow> int \<Rightarrow> ('p, 's, 'm) otrng_s
     \<Rightarrow> (bool \<times> string option \<times> ('p, 's, 'm) otrng_s) option" where
  "otrng_close_v4 C Z rnd now otr =
     (if otr_state otr \<noteq> OTRNG_STATE_ENCRYPTED_MESSAGES then Some (True, None, otr)
      else do {
        n \<leftarrow> otrng_list_len (otr_skipped_heap otr) (skipped_keys (otr_keys otr));
        (ser_mac_keys, manager, h) \<leftarrow> otrng_reveal_mac_keys_on_tlv C (otr_keys otr) (otr_skipped_heap otr);
        let otr = otr\<lparr>otr_keys := manager\<lparr>skipped_keys := None\<rparr>, otr_skipped_heap := h\<rparr>;
        (case otrng_tlv_list_one (otrng_tlv_new (of_int OTRNG_TLV_DISCONNECTED) (of_nat (n * MAC_KEY_BYTES)) ser_mac_keys) of
           None \<Rightarrow> Some (False, None, otr)
         | Some disconnected \<Rightarrow> do {
             (s, otr) \<leftarrow> otrng_send_message C Z rnd now [] disconnected MSG_FLAGS_IGNORE_UNREADABLE otr;
             otr \<leftarrow> forget_our_keys Z otr;
             Some (s \<noteq> None, s, raise_event Gone_insecure (otr\<lparr>otr_state := OTRNG_STATE_START\<rparr>)) }) })"

definition otrng_close ::
    "('p, 's, 'm, 'h) crypto_ops \<Rightarrow> ('p, 's) wiped \<Rightarrow> (nat \<Rightarrow> bytes) \<Rightarrow> int \<Rightarrow> ('p, 's, 'm) otrng_s
     \<Rightarrow> (bool \<times> string option \<times> ('p, 's, 'm) otrng_s) option" where
  "otrng_close C Z rnd now otr =
     (if otr_running_version otr = OTRNG_PROTOCOL_VERSION_3 then
        do {
          (ok, s, conn, told) \<leftarrow> otrng_v3_close (cl_libotr (otr_client otr)) (v3_smp_callbacks otr) (otr_v3_conn otr);
          let otr = after_v3 (Some conn, told) otr;
          if \<not> ok then Some (False, s, otr) else Some (True, s, raise_event Gone_insecure otr) }
      else if otr_running_version otr = ucast OTRNG_PROTOCOL_VERSION_4 then otrng_close_v4 C Z rnd now otr
      else Some (False, None, otr))"

subsection \<open>The extra symmetric key\<close>

text \<open>The key is part of the result, which is \<open>None\<close> where the function returns before copying it.\<close>

definition otrng_send_symkey_message_v4 ::
    "('p, 's, 'm, 'h) crypto_ops \<Rightarrow> ('p, 's) wiped \<Rightarrow> (nat \<Rightarrow> bytes) \<Rightarrow> int \<Rightarrow> u32 \<Rightarrow> bytes option \<Rightarrow> nat \<Rightarrow> ('p, 's, 'm) otrng_s
     \<Rightarrow> (string option \<times> bytes option \<times> ('p, 's, 'm) otrng_s) option" where
  "otrng_send_symkey_message_v4 C Z rnd now use_case use_data use_data_len otr =
     (if 0 < use_data_len \<and> use_data = None then Some (None, None, otr)
      else if otr_state otr \<noteq> OTRNG_STATE_ENCRYPTED_MESSAGES then Some (None, None, otr)
      else
        let tlv_data = [ucast (drop_bit 24 use_case AND 0xff), ucast (drop_bit 16 use_case AND 0xff),
              ucast (drop_bit 8 use_case AND 0xff), ucast (use_case AND 0xff)] @
              (case use_data of None \<Rightarrow> [] | Some d \<Rightarrow> take use_data_len d);
            extra_key = extra_symmetric_key (otr_keys otr)
        in case otrng_tlv_list_one (otrng_tlv_new (of_int OTRNG_TLV_SYM_KEY) (of_nat (use_data_len + 4)) (Some tlv_data)) of
             None \<Rightarrow> Some (None, Some extra_key, otr)
           | Some records \<Rightarrow> do {
               (s, otr) \<leftarrow> otrng_send_message C Z rnd now [] records MSG_FLAGS_IGNORE_UNREADABLE otr;
               Some (s, Some extra_key, otr) })"

definition otrng_send_symkey_message ::
    "('p, 's, 'm, 'h) crypto_ops \<Rightarrow> ('p, 's) wiped \<Rightarrow> (nat \<Rightarrow> bytes) \<Rightarrow> int \<Rightarrow> u32 \<Rightarrow> bytes option \<Rightarrow> nat \<Rightarrow> ('p, 's, 'm) otrng_s
     \<Rightarrow> (string option \<times> bytes option \<times> ('p, 's, 'm) otrng_s) option" where
  "otrng_send_symkey_message C Z rnd now use_case use_data use_data_len otr =
     (if otr_running_version otr = OTRNG_PROTOCOL_VERSION_3 then
        do {
          (s, key, conn, told) \<leftarrow> otrng_v3_send_symkey_message (cl_libotr (otr_client otr)) (v3_smp_callbacks otr) (otr_v3_conn otr) use_case
             (case use_data of None \<Rightarrow> [] | Some d \<Rightarrow> take use_data_len d);
          Some (s, key, after_v3 (Some conn, told) otr) }
      else if otr_running_version otr = ucast OTRNG_PROTOCOL_VERSION_4 then
        otrng_send_symkey_message_v4 C Z rnd now use_case use_data use_data_len otr
      else Some (None, None, otr))"

end
