(* ===== verification/Turns.thy ===== *)
theory Turns
  imports Ratchet
begin

text \<open>
  The two key managers of a conversation whose messages arrive in order.  \<open>ready A B\<close> says that \<open>A\<close>
  enters a new ratchet with its next message, \<open>talking A B\<close> that \<open>A\<close> goes on in the chain it has begun,
  after which \<open>B\<close> may answer.  Whichever of the two sends, the other one finds the keys of the message,
  and the pair is in the relation \<open>talking\<close> again.
\<close>

definition ready :: "('p, 's, 'm, 'h) crypto_sem \<Rightarrow> ('p, 's, 'm) key_manager_s \<Rightarrow> ('p, 's, 'm) key_manager_s \<Rightarrow> bool" where
  "ready S A B \<longleftrightarrow> ratchet_sync S A B \<and> km_j A = 0 \<and> km_k B = km_pn A \<and> km_k A = km_j B \<and>
     skipped_keys A = None \<and> skipped_keys B = None"

definition talking :: "('p, 's, 'm, 'h) crypto_sem \<Rightarrow> ('p, 's, 'm) key_manager_s \<Rightarrow> ('p, 's, 'm) key_manager_s \<Rightarrow> bool" where
  "talking S A B \<longleftrightarrow> ready S B A \<and> km_j A \<noteq> 0 \<and> chain_s (current A) = chain_r (current B) \<and> brace_wiped A \<and>
     dlog S (their_ecdh B) = dlog S (ecdh_pub (our_ecdh A)) \<and>
     map_option (mval S) (their_dh B) = map_option (mval S) (dh_pub (our_dh A))"

text \<open>A message that is the next one of its chain skips none, even where the test for too many wraps around.\<close>

lemma store_in_order:
  "store_enc_keys C (rr_k tmp) max_skip ty manager tmp h = Some (True, tmp, h, rr_k tmp + max_skip < rr_k tmp)"
  by (simp add: store_enc_keys_def store_enc_keys_loop.simps)

lemma derive_chain_in_order:
  assumes H: "sponge_ok C S" and "rr_k tmp = msg_id"
  shows "otrng_key_manager_derive_chain_keys C max_skip msg_id Receive (manager, tmp) h =
     Some (Some (message_keys S (rr_chain_r tmp)), (manager, tmp\<lparr>rr_extra_symmetric_key := extra_key S (rr_chain_r tmp),
       rr_chain_r := chain_at S (rr_chain_r tmp) 1\<rparr>), h, msg_id + max_skip < msg_id)"
  using store_in_order[of C tmp max_skip Chain_ratchet manager h] assms(2)
  by (simp add: otrng_key_manager_derive_chain_keys_def derive_encryption_and_mac_keys_def calculate_extra_key_def
      derive_next_chain_key_def kdf_eqs[OF H] and_then_def or_error_def message_keys_def extra_key_def Let_def chain_at_def)

lemma rotate_receive_frame:
  assumes "rotate_keys C Z rnd now Receive (B, tmp) = (True, (B', tmp'))"
  shows "rr_pn tmp' = rr_j tmp" "rr_j tmp' = 0" "rr_k tmp' = 0" "rr_their_ecdh tmp' = rr_their_ecdh tmp"
    "rr_their_dh tmp' = rr_their_dh tmp" "rr_skipped_keys tmp' = rr_skipped_keys tmp" "old_mac_keys B' = old_mac_keys B" "ssid B' = ssid B"
  using assms
  by (auto simp: rotate_keys_def enter_new_ratchet_def calculate_brace_key_def calculate_shared_secret_def
      key_manager_derive_ratchet_keys_def km_parts split: option.splits if_splits prod.splits)

text \<open>What the sender's manager is after one message of its chain, and what the receiver's one is.\<close>

definition sent_one :: "('p, 's, 'm, 'h) crypto_sem \<Rightarrow> ('p, 's, 'm) key_manager_s \<Rightarrow> ('p, 's, 'm) key_manager_s" where
  "sent_one S A = A\<lparr>extra_symmetric_key := extra_key S (chain_s (current A)),
     current := (current A)\<lparr>chain_s := chain_at S (chain_s (current A)) 1\<rparr>, km_j := km_j A + 1\<rparr>"

definition received_one :: "('p, 's, 'm, 'h) crypto_sem \<Rightarrow> ('p, 's, 'm) receiving_ratchet_s \<Rightarrow> ('p, 's, 'm) receiving_ratchet_s" where
  "received_one S tmp = tmp\<lparr>rr_extra_symmetric_key := extra_key S (rr_chain_r tmp),
     rr_chain_r := chain_at S (rr_chain_r tmp) 1, rr_k := rr_k tmp + 1\<rparr>"

lemma ratchet_sync_one:
  "ratchet_sync S (otrng_receiving_ratchet_copy B (received_one S tmp)) (sent_one S A) =
   ratchet_sync S (otrng_receiving_ratchet_copy B tmp) A"
  by (simp add: ratchet_sync_def received_one_def sent_one_def otrng_receiving_ratchet_copy_def otrng_key_manager_set_their_keys_def Let_def)

lemma same_chain_step:
  assumes t: "talking S A B" and j: "km_j A \<noteq> - 1"
    and msg: "dlog S P = dlog S (ecdh_pub (our_ecdh A))" "map_option (mval S) D = map_option (mval S) (dh_pub (our_dh A))"
    and tmp_def: "tmp = otrng_key_manager_set_their_tmp_keys P D (otrng_receiving_ratchet_new Z B)"
  shows "rr_k tmp = km_j A" "rr_chain_r tmp = chain_s (current A)"
    "talking S (sent_one S A) (otrng_receiving_ratchet_copy B (received_one S tmp))"
proof -
  have r: "ready S B A" "km_j A \<noteq> 0" "chain_s (current A) = chain_r (current B)" "brace_wiped A"
    "dlog S (their_ecdh B) = dlog S (ecdh_pub (our_ecdh A))"
    "map_option (mval S) (their_dh B) = map_option (mval S) (dh_pub (our_dh A))" using t by (simp_all add: talking_def)
  show k: "rr_k tmp = km_j A" "rr_chain_r tmp = chain_s (current A)"
    using r by (simp_all add: tmp_def ready_def otrng_key_manager_set_their_tmp_keys_def otrng_receiving_ratchet_new_def)
  have "km_j A + 1 \<noteq> 0" using j by (simp add: add_eq_0_iff2)
  moreover have "ratchet_sync S (otrng_receiving_ratchet_copy B tmp) A"
    using r msg has_dh_pair_cong[of S "dh_priv (our_dh A)" "their_dh B" D]
    by (simp add: ratchet_sync_def ready_def tmp_def otrng_key_manager_set_their_tmp_keys_def otrng_receiving_ratchet_new_def
        otrng_receiving_ratchet_copy_def otrng_key_manager_set_their_keys_def Let_def brace_wiped_def)
  ultimately show "talking S (sent_one S A) (otrng_receiving_ratchet_copy B (received_one S tmp))"
    using r msg k unfolding talking_def ready_def ratchet_sync_one
    by (simp add: sent_one_def received_one_def otrng_receiving_ratchet_copy_def otrng_key_manager_set_their_keys_def Let_def
        brace_wiped_def tmp_def otrng_key_manager_set_their_tmp_keys_def otrng_receiving_ratchet_new_def)
qed

lemma new_ratchet_step:
  assumes G: "goldilocks_ok C S" "gcrypt_ok C S" and H: "sponge_ok C S"
    and r: "ready S A B" and send: "rotate_keys C Z rnd now Send (A, null) = (True, (A', null'))" and i: "km_i A \<noteq> - 1"
    and msg: "dlog S P = dlog S (ecdh_pub (our_ecdh A'))" "map_option (mval S) D = map_option (mval S) (dh_pub (our_dh A'))"
  defines "tmp \<equiv> otrng_key_manager_set_their_tmp_keys P D (otrng_receiving_ratchet_new Z B)"
  obtains B' tmp' where "rotate_keys C Z rnd' now' Receive (B, tmp) = (True, (B', tmp'))"
    "rr_k tmp' = 0" "rr_chain_r tmp' = chain_s (current A')" "old_mac_keys B' = old_mac_keys B" "ssid B' = ssid B"
    "km_j A' = 0" "km_pn A' = rr_k tmp" "old_mac_keys A' = old_mac_keys A"
    "talking S (sent_one S A') (otrng_receiving_ratchet_copy B' (received_one S tmp'))"
proof -
  have sync: "ratchet_sync S A B" using r by (simp add: ready_def)
  obtain B' tmp' where b: "rotate_keys C Z rnd' now' Receive (B, tmp) = (True, (B', tmp'))"
    "rr_root_key tmp' = root_key (current A')" "rr_chain_r tmp' = chain_s (current A')"
    "ratchet_sync S (otrng_receiving_ratchet_copy B' tmp') A'"
    unfolding tmp_def using ratchet_step_receive[OF G H sync send msg i] by blast
  note f = rotate_receive_frame[OF b(1)]
  have a: "km_j A' = 0" "km_pn A' = km_pn A" "km_k A' = km_k A" "skipped_keys A' = None" "brace_wiped A'"
    "old_mac_keys A' = old_mac_keys A"
    using r by (auto intro: rotate_send_ok[OF G H send] simp: ready_def brace_wiped_def)
  have t: "rr_j tmp = km_j B" "rr_k tmp = km_k B" "rr_their_ecdh tmp = P" "rr_their_dh tmp = D" "rr_skipped_keys tmp = None"
    using r by (simp_all add: tmp_def otrng_key_manager_set_their_tmp_keys_def otrng_receiving_ratchet_new_def ready_def)
  have "talking S (sent_one S A') (otrng_receiving_ratchet_copy B' (received_one S tmp'))"
    using r b(3,4) a f t msg unfolding talking_def ready_def ratchet_sync_one
    by (simp add: sent_one_def received_one_def otrng_receiving_ratchet_copy_def otrng_key_manager_set_their_keys_def Let_def brace_wiped_def)
  with b a f t r show ?thesis by (intro that[of B' tmp']) (simp_all add: ready_def)
qed

end
