(* ===== verification/Session.thy ===== *)
theory Session
  imports Conversation Turns
begin

text \<open>
  Two conversations that exchange messages over the wire: what \<open>otrng_send_message\<close> returns on one side is
  given to \<open>otrng_receive_message\<close> on the other.
\<close>

subsection \<open>Encoded messages\<close>

lemma strstr_no_head: "needle = n # ns \<Longrightarrow> n \<notin> set hay \<Longrightarrow> strstr hay needle = None"
  by (induction hay) (auto simp: is_prefix_def)

lemma strstr_head_only:
  assumes "needle = n # ns" "n \<notin> set hay" "\<not> is_prefix needle (c # hay)"
  shows "strstr (c # hay) needle = None"
  using strstr_no_head[OF assms(1,2)] assms(3) by simp

lemma space_char: "(char_of (0x20 :: nat) :: char) = CHR '' ''"
  by code_simp

lemma not_base64: "\<not> is_base64_char (CHR ''?'')" "\<not> is_base64_char (char_of (0x20 :: nat))"
  unfolding space_char by (simp_all add: is_base64_char_def)

lemma encoded_text:
  assumes E: "encoding_ok C"
  obtains body where "base64_otr_encode C bs = CHR ''?'' # ''OTR:'' @ body @ ''.''" "CHR ''?'' \<notin> set (''OTR:'' @ body @ ''.'')"
    "char_of (0x20 :: nat) \<notin> set (base64_otr_encode C bs)" "base64_otr_decode C (base64_otr_encode C bs) = Some bs"
    "take 2 bs = [0, 4] \<longrightarrow> take 8 (base64_otr_encode C bs) \<noteq> ''?OTR:AAM''"
proof -
  from E obtain body where b: "base64_otr_encode C bs = ''?OTR:'' @ body @ ''.''" "list_all is_base64_char body"
    "base64_otr_decode C (base64_otr_encode C bs) = Some bs" "take 2 bs = [0, 4] \<longrightarrow> take 8 (base64_otr_encode C bs) \<noteq> ''?OTR:AAM''"
    unfolding encoding_ok_def by blast
  have "c \<notin> set body" if "\<not> is_base64_char c" for c using b(2) that by (auto simp: list_all_iff)
  note n = this[OF not_base64(1)] this[OF not_base64(2)]
  show ?thesis by (rule that[OF _ _ _ b(3,4)]) (use b(1) n in \<open>simp_all add: space_char\<close>)
qed

text \<open>An encoded message is recognised as one, is no fragment and does not look like version 3.\<close>

lemma encoded_message:
  assumes E: "encoding_ok C" and "take 2 bs = [0, 4]"
  defines "w \<equiv> base64_otr_encode C bs"
  shows "get_message_type w = MSG_OTR_ENCODED" "\<not> is_fragment_generic w ''?OTR|''" "strstr w ''?OTR:AAMC'' = None"
    "base64_otr_decode C w = Some bs"
proof -
  obtain body where w: "w = CHR ''?'' # ''OTR:'' @ body @ ''.''" and q: "CHR ''?'' \<notin> set (''OTR:'' @ body @ ''.'')"
    and sp: "char_of (0x20 :: nat) \<notin> set w" and d: "base64_otr_decode C w = Some bs" and t: "take 8 w \<noteq> ''?OTR:AAM''"
    unfolding w_def by (rule encoded_text[OF E, of bs]) (use assms(2) in blast)
  show "base64_otr_decode C w = Some bs" by (rule d)
  have "take 9 w \<noteq> ''?OTR:AAMC''"
  proof
    assume "take 9 w = ''?OTR:AAMC''"
    then have "take 8 (take 9 w) = ''?OTR:AAM''" by simp
    with t show False by simp
  qed
  then show "strstr w ''?OTR:AAMC'' = None"
    unfolding w by (intro strstr_head_only[OF refl q]) (simp add: is_prefix_def w eval_nat_numeral)
  have "strstr w tag_base = None" by (rule strstr_no_head[OF tag_base_Cons sp])
  moreover have "strstr w query_header = None"
    unfolding w query_header_def by (rule strstr_head_only[OF refl q]) (simp add: is_prefix_def)
  moreover have "strstr w otr_header \<noteq> None" using strstr_prefix[of otr_header "body @ ''.''"] by (simp add: w otr_header_def)
  ultimately show "get_message_type w = MSG_OTR_ENCODED"
    by (simp add: get_message_type_def message_contains_tag_def message_is_query_def message_is_otr_error_def
        message_is_otr_encoded_def w otr_error_header_def)
  show "\<not> is_fragment_generic w ''?OTR|''" by (simp add: is_fragment_generic_def is_prefix_def w)
qed

lemma receive_encoded:
  assumes E: "encoding_ok C" and "take 2 bs = [0, 4]" and "otr_running_version otr \<noteq> OTRNG_PROTOCOL_VERSION_3"
  shows "otrng_receive_message C Z rnd now junk response (base64_otr_encode C bs) otr =
     receive_decoded_message C Z rnd now junk (response\<lparr>to_display := None\<rparr>) bs otr"
  using encoded_message[OF E assms(2)] assms(3)
  by (simp add: otrng_receive_message_def otrng_unfragment_message_def otrng_unfragment_message_generic_def
      receive_defragmented_message_def receive_message_v4_only_def receive_encoded_message_def Let_def)

subsection \<open>Sending\<close>

definition mac_keys_ok :: "('p, 's, 'm) otrng_s \<Rightarrow> bool" where
  "mac_keys_ok otr \<longleftrightarrow> (\<exists>as ks. is_list (otr_mac_heap otr) (old_mac_keys (otr_keys otr)) as \<and>
     contents (otr_mac_heap otr) as = map Some ks \<and> (\<forall>k \<in> set ks. length k = MAC_KEY_BYTES))"

text \<open>The message that carries \<open>cipher\<close>, and the state of the sender after it.\<close>

definition outgoing ::
    "('p, 's) wiped \<Rightarrow> byte \<Rightarrow> u32 \<Rightarrow> bytes \<Rightarrow> bytes \<Rightarrow> ('p, 's, 'm) otrng_s \<Rightarrow> ('p, 'm) data_message_s" where
  "outgoing Z flags i nonce cipher otr = (generate_data_message Z otr i)\<lparr>dm_flags := flags, dm_nonce := nonce,
     dm_enc_msg_len := length cipher, dm_enc_msg := Some cipher\<rparr>"

lemma outgoing_simps [simp]:
  "dm_sender_instance_tag (outgoing Z flags i nonce cipher otr) = our_instance_tag otr"
  "dm_receiver_instance_tag (outgoing Z flags i nonce cipher otr) = otr_their_instance_tag otr"
  "dm_previous_chain_n (outgoing Z flags i nonce cipher otr) = km_pn (otr_keys otr)"
  "dm_message_id (outgoing Z flags i nonce cipher otr) = km_j (otr_keys otr)"
  "dm_ecdh (outgoing Z flags i nonce cipher otr) = ecdh_pub (our_ecdh (otr_keys otr))"
  "dm_dh (outgoing Z flags i nonce cipher otr) = dh_pub (our_dh (otr_keys otr))"
  "dm_nonce (outgoing Z flags i nonce cipher otr) = nonce" "dm_enc_msg (outgoing Z flags i nonce cipher otr) = Some cipher"
  "dm_enc_msg_len (outgoing Z flags i nonce cipher otr) = length cipher" "dm_flags (outgoing Z flags i nonce cipher otr) = flags"
  by (simp_all add: outgoing_def generate_data_message_def otrng_data_message_new_def)

lemma reveal_ok:
  assumes "mac_keys_ok otr"
  obtains ser hm n where "otrng_list_len (otr_mac_heap otr) (old_mac_keys (otr_keys otr)) = Some n"
    "otrng_serialize_old_mac_keys (otr_mac_heap otr) (old_mac_keys (otr_keys otr)) = Some (ser, hm)"
    "is_list hm None []" "ser = None \<and> n = 0 \<or> (\<exists>bs. ser = Some bs \<and> length bs = n * MAC_KEY_BYTES \<and> 0 < n)"
proof -
  from assms obtain as ks where l: "is_list (otr_mac_heap otr) (old_mac_keys (otr_keys otr)) as"
    "contents (otr_mac_heap otr) as = map Some ks" "\<forall>k \<in> set ks. length k = MAC_KEY_BYTES" unfolding mac_keys_ok_def by blast
  obtain h' where h': "otrng_serialize_old_mac_keys (otr_mac_heap otr) (old_mac_keys (otr_keys otr)) =
      Some (if ks = [] then None else Some (concat (rev ks)), h')"
    "otrng_list_len (otr_mac_heap otr) (old_mac_keys (otr_keys otr)) = Some (length ks)" "is_list h' None []"
    "length (concat (rev ks)) = MAC_KEY_BYTES * length ks" by (rule serialize_old_mac_keys_ok[OF l])
  show ?thesis by (rule that[OF h'(2,1,3)]) (use h'(4) in \<open>simp add: mult.commute\<close>)
qed

lemma version_bytes: "otrng_serialize_uint16 OTRNG_PROTOCOL_VERSION_4 = [0, 4]"
  by code_simp

lemma encode_data_message_ok:
  assumes G: "goldilocks_ok C S" "gcrypt_ok C S" and H: "sponge_ok C S" and wf: "wf_data_message S m"
    and v: "otrng_dh_mpi_valid C (dm_dh m)"
    and ser: "ser = None \<and> n = 0 \<or> (\<exists>bs. ser = Some bs \<and> length bs = n * MAC_KEY_BYTES \<and> 0 < n)"
  obtains bs tag where "serialize_and_encode_data_message C mac_key ser (n * MAC_KEY_BYTES) m = Some (base64_otr_encode C bs)"
    "take 3 bs = [0, 4, DATA_MSG_TYPE]" "otrng_data_message_deserialize C bs = Some (wire_data_message C tag m)"
    "otrng_valid_data_message C mac_key (wire_data_message C tag m)"
proof -
  let ?rest = "case ser of None \<Rightarrow> [] | Some bs \<Rightarrow> bs"
  from data_message_authentic_aux[OF G H wf v, of mac_key ?rest] obtain body tag where b:
    "otrng_data_message_body_serialize C m = Some body" "otrng_data_message_authenticator C MAC_KEY_BYTES mac_key body = Some tag"
    "otrng_data_message_deserialize C (body @ tag @ ?rest) = Some (wire_data_message C tag m)"
    "otrng_valid_data_message C mac_key (wire_data_message C tag m)" by blast
  have t: "take 3 (body @ tag @ ?rest) = [0, 4, DATA_MSG_TYPE]"
    unfolding b(1)[unfolded data_message_body_eq[OF G wf] option.inject, symmetric]
    by (simp add: version_bytes otrng_serialize_uint8_def)
  have "serialize_and_encode_data_message C mac_key ser (n * MAC_KEY_BYTES) m = Some (base64_otr_encode C (body @ tag @ ?rest))"
    using ser b(1,2) by (auto simp: serialize_and_encode_data_message_def otrng_serialize_bytes_array_def zeros_def MAC_KEY_BYTES_def)
  from that[OF this t b(3,4)] show ?thesis .
qed

lemma send_data_message_ok:
  assumes G: "goldilocks_ok C S" "gcrypt_ok C S" and H: "sponge_ok C S" and T: "stream_ok C"
    and mk: "mac_keys_ok otr"
    and d: "otrng_key_manager_derive_dh_ratchet_keys C Z rnd now (cl_max_stored_msg_keys (otr_client otr)) (zero_point Z) 0 Send
       (otr_keys otr, null_ratchet Z) (otr_skipped_heap otr) = Some (True, (A, null), h, full)"
    and om: "old_mac_keys A = old_mac_keys (otr_keys otr)"
    and v: "otrng_dh_mpi_valid C (dh_pub (our_dh A))" and n: "length (rnd 4) = DATA_MSG_NONCE_BYTES" and len: "msg \<noteq> []" "length msg < 2 ^ 32"
  obtains bs cipher tag oldm hm where
    "send_data_message C Z rnd now flags msg otr = Some (Some (base64_otr_encode C bs),
       otr\<lparr>otr_keys := (sent_one S A)\<lparr>old_mac_keys := oldm\<rparr>, otr_skipped_heap := h, otr_mac_heap := hm\<rparr>)"
    "take 3 bs = [0, 4, DATA_MSG_TYPE]"
    "otrng_data_message_deserialize C bs =
       Some (wire_data_message C tag (outgoing Z flags (km_i (otr_keys otr)) (rnd 4) cipher (otr\<lparr>otr_keys := A\<rparr>)))"
    "otrng_valid_data_message C (snd (message_keys S (chain_s (current A))))
       (wire_data_message C tag (outgoing Z flags (km_i (otr_keys otr)) (rnd 4) cipher (otr\<lparr>otr_keys := A\<rparr>)))"
    "stream_xor C cipher (rnd 4) (take ENC_ACTUAL_KEY_BYTES (fst (message_keys S (chain_s (current A))))) = Some msg"
    "mac_keys_ok (otr\<lparr>otr_keys := (sent_one S A)\<lparr>old_mac_keys := oldm\<rparr>, otr_skipped_heap := h, otr_mac_heap := hm\<rparr>)"
proof -
  let ?k = "message_keys S (chain_s (current A))"
  obtain cipher where c: "stream_xor C msg (rnd 4) (take ENC_ACTUAL_KEY_BYTES (fst ?k)) = Some cipher" "length cipher = length msg"
    "stream_xor C cipher (rnd 4) (take ENC_ACTUAL_KEY_BYTES (fst ?k)) = Some msg"
    using T unfolding stream_ok_def by blast
  let ?m = "outgoing Z flags (km_i (otr_keys otr)) (rnd 4) cipher (otr\<lparr>otr_keys := A\<rparr>)"
  obtain dp where dp: "dh_pub (our_dh A) = Some dp" "in_dh_range S dp"
    using v dh_valid_ok[OF G(2) v] by (cases "dh_pub (our_dh A)") (auto simp: otrng_dh_mpi_valid_def dh_ok_def)
  have wf: "wf_data_message S ?m" using dp n len c(2) by (auto simp: wf_data_message_def wf_data_def)
  have v': "otrng_dh_mpi_valid C (dm_dh ?m)" using v by simp
  let ?otr = "otr\<lparr>otr_keys := A\<lparr>extra_symmetric_key := extra_key S (chain_s (current A)),
        current := (current A)\<lparr>chain_s := chain_at S (chain_s (current A)) 1\<rparr>\<rparr>, otr_skipped_heap := h\<rparr>"
  have enc: "encrypt_data_message C (rnd 4) ((generate_data_message Z ?otr (km_i (otr_keys otr)))\<lparr>dm_flags := flags,
      dm_sender_instance_tag := our_instance_tag ?otr, dm_receiver_instance_tag := otr_their_instance_tag ?otr\<rparr>) msg (fst ?k) = Some ?m"
    using c(1,2) by (simp add: encrypt_data_message_def outgoing_def generate_data_message_def otrng_data_message_new_def our_instance_tag_def)
  show ?thesis
  proof (cases "km_j A = 0")
    case True
    obtain ser hm n where r: "otrng_list_len (otr_mac_heap otr) (old_mac_keys A) = Some n"
      "otrng_serialize_old_mac_keys (otr_mac_heap otr) (old_mac_keys A) = Some (ser, hm)" "is_list hm None []"
      "ser = None \<and> n = 0 \<or> (\<exists>bs. ser = Some bs \<and> length bs = n * MAC_KEY_BYTES \<and> 0 < n)"
      by (rule reveal_ok[OF mk]) (use om in simp)
    obtain bs tag where e: "serialize_and_encode_data_message C (snd ?k) ser (n * MAC_KEY_BYTES) ?m = Some (base64_otr_encode C bs)"
      "take 3 bs = [0, 4, DATA_MSG_TYPE]" "otrng_data_message_deserialize C bs = Some (wire_data_message C tag ?m)"
      "otrng_valid_data_message C (snd ?k) (wire_data_message C tag ?m)" by (rule encode_data_message_ok[OF G H wf v' r(4)])
    show ?thesis
    proof (rule that[OF _ e(2-4) c(3)])
      show "send_data_message C Z rnd now flags msg otr = Some (Some (base64_otr_encode C bs),
          otr\<lparr>otr_keys := (sent_one S A)\<lparr>old_mac_keys := None\<rparr>, otr_skipped_heap := h, otr_mac_heap := hm\<rparr>)"
        using e(1) r(1,2) True d enc
        by (simp add: send_data_message_def derive_chain_send[OF H] Let_def case_prod_beta sent_one_def)
      show "mac_keys_ok (otr\<lparr>otr_keys := (sent_one S A)\<lparr>old_mac_keys := None\<rparr>, otr_skipped_heap := h, otr_mac_heap := hm\<rparr>)"
        using r(3) by (auto simp: mac_keys_ok_def contents_def intro!: exI[of _ "[]"])
    qed
  next
    case False
    obtain bs tag where e: "serialize_and_encode_data_message C (snd ?k) None (0 * MAC_KEY_BYTES) ?m = Some (base64_otr_encode C bs)"
      "take 3 bs = [0, 4, DATA_MSG_TYPE]" "otrng_data_message_deserialize C bs = Some (wire_data_message C tag ?m)"
      "otrng_valid_data_message C (snd ?k) (wire_data_message C tag ?m)"
      by (rule encode_data_message_ok[OF G H wf v', of None 0]) simp
    show ?thesis
    proof (rule that[OF _ e(2-4) c(3)])
      show "send_data_message C Z rnd now flags msg otr = Some (Some (base64_otr_encode C bs),
          otr\<lparr>otr_keys := (sent_one S A)\<lparr>old_mac_keys := old_mac_keys A\<rparr>, otr_skipped_heap := h, otr_mac_heap := otr_mac_heap otr\<rparr>)"
        using e(1) False d enc
        by (simp add: send_data_message_def derive_chain_send[OF H] Let_def case_prod_beta sent_one_def)
      show "mac_keys_ok (otr\<lparr>otr_keys := (sent_one S A)\<lparr>old_mac_keys := old_mac_keys A\<rparr>, otr_skipped_heap := h, otr_mac_heap := otr_mac_heap otr\<rparr>)"
        using mk om by (simp add: mac_keys_ok_def)
    qed
  qed
qed

subsection \<open>The keys of a received message\<close>

text \<open>The next message of \<open>A\<close>: in the chain it has begun, or in a new ratchet whose ECDH key is not the
  one \<open>B\<close> knows already.  \<open>A1\<close> is the manager that the keys of the message are taken from.\<close>

definition next_message ::
    "('p, 's, 'm, 'h) crypto_ops \<Rightarrow> ('p, 's, 'm, 'h) crypto_sem \<Rightarrow> ('p, 's) wiped \<Rightarrow> (nat \<Rightarrow> bytes) \<Rightarrow> int \<Rightarrow>
     ('p, 's, 'm) key_manager_s \<Rightarrow> ('p, 's, 'm) key_manager_s \<Rightarrow> ('p, 's, 'm) key_manager_s \<Rightarrow> bool" where
  "next_message C S Z rnd now A A1 B \<longleftrightarrow>
     talking S A B \<and> A1 = A \<and> km_j A \<noteq> - 1 \<or>
     ready S A B \<and> rotate_keys C Z rnd now Send (A, null_ratchet Z) = (True, (A1, null_ratchet Z)) \<and> km_i A \<noteq> - 1 \<and>
       dlog S (ecdh_pub (our_ecdh A1)) \<noteq> dlog S (their_ecdh B)"

lemma next_message_send:
  assumes G: "goldilocks_ok C S" "gcrypt_ok C S" and H: "sponge_ok C S" and n: "next_message C S Z rnd now A A1 B"
  shows "otrng_key_manager_derive_dh_ratchet_keys C Z rnd now max_skip P 0 Send (A, null_ratchet Z) h =
       Some (True, (A1, null_ratchet Z), h, False)" "old_mac_keys A1 = old_mac_keys A" "ssid A1 = ssid A"
proof -
  show "otrng_key_manager_derive_dh_ratchet_keys C Z rnd now max_skip P 0 Send (A, null_ratchet Z) h =
       Some (True, (A1, null_ratchet Z), h, False)"
    using n by (auto simp: next_message_def talking_def ready_def otrng_key_manager_derive_dh_ratchet_keys_def)
  show "old_mac_keys A1 = old_mac_keys A" "ssid A1 = ssid A"
    using n unfolding next_message_def by (auto elim: rotate_send_ok[OF G H])
qed

lemma receiving_keys_ok:
  assumes G: "goldilocks_ok C S" "gcrypt_ok C S" and H: "sponge_ok C S"
    and n: "next_message C S Z rnd now A A1 (otr_keys otr)"
    and m: "dlog S (dm_ecdh msg) = dlog S (ecdh_pub (our_ecdh A1))" "map_option (mval S) (dm_dh msg) = map_option (mval S) (dh_pub (our_dh A1))"
      "dm_previous_chain_n msg = km_pn A1" "dm_message_id msg = km_j A1"
  obtains B tmp ev where "receiving_keys C Z rnd' now' msg otr =
      Some (Some (message_keys S (chain_s (current A1))), tmp, otr\<lparr>otr_keys := B, otr_events := ev\<rparr>)"
    "talking S (sent_one S A1) (otrng_receiving_ratchet_copy B tmp)" "old_mac_keys B = old_mac_keys (otr_keys otr)"
    "ssid B = ssid (otr_keys otr)"
proof -
  let ?r = "receiving_keys C Z rnd' now' msg otr"
  define tmp where "tmp = otrng_key_manager_set_their_tmp_keys (dm_ecdh msg) (dm_dh msg) (otrng_receiving_ratchet_new Z (otr_keys otr))"
  have "rr_skipped_keys tmp = None"
    using n by (auto simp: tmp_def otrng_key_manager_set_their_tmp_keys_def otrng_receiving_ratchet_new_def next_message_def talking_def ready_def)
  then have sk: "otrng_key_get_skipped_keys C (dm_ecdh msg) i tmp h = Some (None, tmp, h)" for i h
    by (simp add: otrng_key_get_skipped_keys_def find_skipped.simps)
  have ev: "raise_if_full f o' = o'\<lparr>otr_events := otr_events o' @ (if f then [Handle_event OTRNG_MSG_EVENT_MSG_KEYS_STORAGE_FULL] else [])\<rparr>"
    for f and o' :: "('a, 'b, 'c) otrng_s" by (simp add: raise_if_full_def raise_event_def)
  from n consider (same) "talking S A (otr_keys otr)" "A1 = A" "km_j A \<noteq> - 1"
    | (new) "ready S A (otr_keys otr)" "rotate_keys C Z rnd now Send (A, null_ratchet Z) = (True, (A1, null_ratchet Z))" "km_i A \<noteq> - 1"
       "dlog S (ecdh_pub (our_ecdh A1)) \<noteq> dlog S (their_ecdh (otr_keys otr))" unfolding next_message_def by blast
  then show ?thesis
  proof cases
    case same
    note k = same_chain_step[OF same(1,3) m(1,2)[unfolded same(2)] tmp_def]
    have "dlog S (dm_ecdh msg) = dlog S (their_ecdh (otr_keys otr))" using same m(1) by (simp add: talking_def)
    then have "point_eq C (dm_ecdh msg) (their_ecdh (otr_keys otr))" by (simp add: goldilocks_point(7)[OF G(1)])
    then show ?thesis using k same(2) m(4)
      by (intro that[where tmp = "received_one S tmp" and B = "otr_keys otr" and ev = "otr_events (snd (snd (the ?r)))"])
         (simp_all add: receiving_keys_def tmp_def[symmetric] sk otrng_key_manager_derive_dh_ratchet_keys_def
           derive_chain_in_order[OF H] ev received_one_def Let_def)
  next
    case new
    obtain B tmp' where k: "rotate_keys C Z rnd' now' Receive (otr_keys otr, tmp) = (True, (B, tmp'))"
      "rr_k tmp' = 0" "rr_chain_r tmp' = chain_s (current A1)" "old_mac_keys B = old_mac_keys (otr_keys otr)" "ssid B = ssid (otr_keys otr)"
      "km_j A1 = 0" "km_pn A1 = rr_k tmp" "talking S (sent_one S A1) (otrng_receiving_ratchet_copy B (received_one S tmp'))"
      unfolding tmp_def by (rule new_ratchet_step[OF G H new(1-3) m(1,2)])
    have "\<not> point_eq C (dm_ecdh msg) (their_ecdh (otr_keys otr))" using new(4) m(1) by (simp add: goldilocks_point(7)[OF G(1)])
    then show ?thesis using k m(3,4) store_in_order[of C tmp]
      by (intro that[where tmp = "received_one S tmp'" and B = B and ev = "otr_events (snd (snd (the ?r)))"])
         (simp_all add: receiving_keys_def tmp_def[symmetric] sk otrng_key_manager_derive_dh_ratchet_keys_def
           derive_chain_in_order[OF H] ev received_one_def Let_def)
  qed
qed

subsection \<open>The text\<close>

lemma nul_char: "(char_of (0 :: nat) :: char) = CHR 0x00"
  by code_simp

definition sendable :: "string \<Rightarrow> bool" where
  "sendable msg \<longleftrightarrow> char_of (0 :: nat) \<notin> set msg \<and> length msg + 2 ^ 17 < 2 ^ 32"

text \<open>What is shown: an empty text only carries records.\<close>

definition shown :: "string \<Rightarrow> string option" where
  "shown msg = (if msg = [] then None else Some msg)"

lemma ascii_zero: "0 \<in> set (ascii msg) \<longleftrightarrow> char_of (0 :: nat) \<in> set msg"
proof
  assume "0 \<in> set (ascii msg)"
  then have "char_of (unat (0 :: byte)) \<in> set (chars (ascii msg))" unfolding chars_def by (metis image_eqI list.set_map)
  then show "char_of (0 :: nat) \<in> set msg" by simp
next
  assume "char_of (0 :: nat) \<in> set msg"
  then have "(of_nat (of_char (char_of (0 :: nat) :: char)) :: byte) \<in> set (ascii msg)" unfolding ascii_def by (metis image_eqI list.set_map)
  then show "0 \<in> set (ascii msg)" by simp
qed

lemma find_zero_first: "0 \<notin> set xs \<Longrightarrow> find_zero (xs @ 0 # ys) = Some (length xs)"
  by (induction xs) auto

lemma c_string_first: "0 \<notin> set xs \<Longrightarrow> c_string (xs @ 0 # ys) = xs"
  unfolding c_string_def by (induction xs) auto

lemma append_tlvs_ok:
  assumes s: "sendable msg" and g: "unat g < 2 ^ 16"
  obtains plain ts where "append_tlvs g msg [] = Some plain" "plain \<noteq> []" "length plain < 2 ^ 32" "c_string plain = ascii msg"
    "deserialize_received_tlvs plain = ts" "list_all (\<lambda>t. tlv_type t = OTRNG_TLV_PADDING) ts"
proof -
  have z: "0 \<notin> set (ascii msg)" using s by (simp add: ascii_zero sendable_def)
  let ?n = "of_nat (length msg + 1) :: u64"
  have "unat ?n = (length msg + 1) mod 2 ^ 64" by (simp only: unat_of_nat len_of_numeral_defs) simp
  then have n: "unat ?n + 5 < 2 ^ 64" using s by (simp add: sendable_def)
  have plain: "c_string (ascii msg @ 0 # p) = ascii msg" "deserialize_received_tlvs (ascii msg @ 0 # p) = otrng_parse_tlvs p" for p
    using find_zero_first[OF z, of p] by (simp_all add: c_string_first[OF z] deserialize_received_tlvs_def)
  show ?thesis
  proof (cases "g = 0")
    case True
    then have "append_tlvs g msg [] = Some (ascii msg @ [0])"
      by (simp add: append_tlvs_def serialize_tlvs_def generate_padding_def calculate_padding_len_def Let_def)
    then show ?thesis
      by (rule that[where ts = "[]"]) (use s plain[of "[]"] in \<open>simp_all add: sendable_def otrng_parse_tlvs_def parse_tlvs_loop.simps\<close>)
  next
    case False
    then have "0 < unat g" by (simp add: unat_gt_0)
    from generate_padding_ok[OF this g n] obtain dst k where d: "generate_padding ?n g = Some (Some dst)" "length dst = 4 + k" "k \<le> unat g"
      "otrng_parse_tlvs dst = [\<lparr>tlv_type = OTRNG_TLV_PADDING, tlv_len = of_nat k, tlv_data = Some (replicate k 0)\<rparr>]" by blast
    have "append_tlvs g msg [] = Some (ascii msg @ [0] @ dst)"
      using d(1) by (simp add: append_tlvs_def serialize_tlvs_def Let_def)
    then show ?thesis
      by (rule that[where ts = "otrng_parse_tlvs dst"]) (use s g plain[of dst] d in \<open>simp_all add: sendable_def\<close>)
  qed
qed

lemma process_padding:
  "list_all (\<lambda>t. tlv_type t = OTRNG_TLV_PADDING) ts \<Longrightarrow> process_received_tlvs C Z rnd junk rs ts otr = Some (True, rs, otr)"
  by (induction ts arbitrary: rnd) (simp_all add: process_tlv_def)

subsection \<open>Receiving\<close>

definition side_ok :: "('p, 's, 'm) otrng_s \<Rightarrow> bool" where
  "side_ok otr \<longleftrightarrow> otr_running_version otr = ucast OTRNG_PROTOCOL_VERSION_4 \<and> allow_version otr OTRNG_ALLOW_V4 \<and>
     otrng_instance_tag_valid (our_instance_tag otr) \<and> mac_keys_ok otr \<and> unat (cl_padding (otr_client otr)) < 2 ^ 16 \<and>
     (\<forall>now last_sent. \<not> cl_should_heartbeat (otr_client otr) now last_sent)"

lemma store_mac_ok:
  assumes "mac_keys_ok otr" "length k = MAC_KEY_BYTES"
  obtains m hm where "otrng_store_old_mac_keys k (otr_keys otr) (otr_mac_heap otr) = Some (m, hm)"
    "m = (otr_keys otr)\<lparr>old_mac_keys := old_mac_keys m\<rparr>" "mac_keys_ok (otr\<lparr>otr_keys := m, otr_mac_heap := hm\<rparr>)"
proof -
  from assms(1) obtain as ks where l: "is_list (otr_mac_heap otr) (old_mac_keys (otr_keys otr)) as"
    "contents (otr_mac_heap otr) as = map Some ks" "\<forall>k \<in> set ks. length k = MAC_KEY_BYTES" unfolding mac_keys_ok_def by blast
  from node_list.add_ok[OF l(1), of "Some k"] obtain p a h where a:
    "otrng_list_add (Some k) (otr_mac_heap otr) (old_mac_keys (otr_keys otr)) = Some (p, h)" "is_list h p (as @ [a])"
    "contents h (as @ [a]) = contents (otr_mac_heap otr) as @ [Some k]" by blast
  have k: "take ENC_KEY_BYTES k = k" using assms(2) by (simp add: const_defs MAC_KEY_BYTES_def)
  show ?thesis
    by (rule that[of "(otr_keys otr)\<lparr>old_mac_keys := p\<rparr>" h])
       (use a l(2,3) assms(2) k in \<open>auto simp: otrng_store_old_mac_keys_def mac_keys_ok_def intro!: exI[of _ "as @ [a]"] exI[of _ "ks @ [k]"]\<close>)
qed

text \<open>A message whose keys were found and whose text carries only padding is shown.\<close>

lemma receive_data_message_ok:
  assumes H: "sponge_ok C S" and side: "side_ok otr"
    and msg: "otrng_data_message_deserialize C bs = Some msg" "otrng_valid_data_message C (snd keys) msg" "length (snd keys) = MAC_KEY_BYTES"
      "dm_receiver_instance_tag msg = our_instance_tag otr" "otrng_instance_tag_valid (dm_sender_instance_tag msg)"
      "dm_enc_msg msg = Some cipher" "dm_enc_msg_len msg = length cipher"
      "stream_xor C cipher (dm_nonce msg) (take ENC_ACTUAL_KEY_BYTES (fst keys)) = Some plain"
    and keys: "receiving_keys C Z rnd now msg (otr\<lparr>otr_their_instance_tag := dm_sender_instance_tag msg\<rparr>) =
      Some (Some keys, tmp, otr\<lparr>otr_their_instance_tag := dm_sender_instance_tag msg, otr_keys := B, otr_events := ev\<rparr>)"
      "old_mac_keys B = old_mac_keys (otr_keys otr)"
    and plain: "c_string plain = ascii words" "sendable words" "deserialize_received_tlvs plain = ts" "list_all (\<lambda>t. tlv_type t = OTRNG_TLV_PADDING) ts"
  obtains hm oldm where
    "otrng_receive_data_message_after_dake C Z rnd now junk response bs otr =
       Some (True, response\<lparr>to_display := shown words, tlvs := ts\<rparr>, otr\<lparr>otr_their_instance_tag := dm_sender_instance_tag msg,
         otr_keys := (otrng_receiving_ratchet_copy B tmp)\<lparr>old_mac_keys := oldm\<rparr>, otr_events := ev, otr_mac_heap := hm\<rparr>)"
    "side_ok (otr\<lparr>otr_their_instance_tag := dm_sender_instance_tag msg,
         otr_keys := (otrng_receiving_ratchet_copy B tmp)\<lparr>old_mac_keys := oldm\<rparr>, otr_events := ev, otr_mac_heap := hm\<rparr>)"
proof -
  let ?otr = "otr\<lparr>otr_their_instance_tag := dm_sender_instance_tag msg, otr_keys := otrng_receiving_ratchet_copy B tmp, otr_events := ev\<rparr>"
  have tag: "our_instance_tag otr \<noteq> 0" "valid_receiver_instance_tag (our_instance_tag otr)"
    using side by (auto simp: side_ok_def otrng_instance_tag_valid_def valid_receiver_instance_tag_def const_defs split: if_splits)
  have "old_mac_keys (otrng_receiving_ratchet_copy B tmp) = old_mac_keys B"
    by (simp add: otrng_receiving_ratchet_copy_def otrng_key_manager_set_their_keys_def Let_def)
  then have "mac_keys_ok ?otr" using side keys(2) by (simp add: side_ok_def mac_keys_ok_def)
  then obtain m hm where m: "otrng_store_old_mac_keys (snd keys) (otr_keys ?otr) (otr_mac_heap ?otr) = Some (m, hm)"
    "m = (otr_keys ?otr)\<lparr>old_mac_keys := old_mac_keys m\<rparr>" "mac_keys_ok (?otr\<lparr>otr_keys := m, otr_mac_heap := hm\<rparr>)"
    by (rule store_mac_ok[OF _ msg(3)])
  have ne: "ascii words = [] \<longleftrightarrow> words = []" by (simp add: ascii_def)
  show ?thesis
  proof (rule that[where hm = hm and oldm = "old_mac_keys m"])
    show "otrng_receive_data_message_after_dake C Z rnd now junk response bs otr =
       Some (True, response\<lparr>to_display := shown words, tlvs := ts\<rparr>, otr\<lparr>otr_their_instance_tag := dm_sender_instance_tag msg,
         otr_keys := (otrng_receiving_ratchet_copy B tmp)\<lparr>old_mac_keys := old_mac_keys m\<rparr>, otr_events := ev, otr_mac_heap := hm\<rparr>)"
      using msg keys(1) m(1,2) plain ne tag side
      by (cases keys) (simp add: otrng_receive_data_message_after_dake_def received_sender_instance_tag_def decrypt_data_message_def
          data_message_decrypted_def receive_tlvs_def process_padding side_ok_def shown_def Let_def)
    show "side_ok (otr\<lparr>otr_their_instance_tag := dm_sender_instance_tag msg,
         otr_keys := (otrng_receiving_ratchet_copy B tmp)\<lparr>old_mac_keys := old_mac_keys m\<rparr>, otr_events := ev, otr_mac_heap := hm\<rparr>)"
      using side m(2,3) by (simp add: side_ok_def mac_keys_ok_def our_instance_tag_def allow_version_def)
  qed
qed

subsection \<open>Delivery\<close>

definition crypto_laws :: "('p, 's, 'm, 'h) crypto_ops \<Rightarrow> ('p, 's, 'm, 'h) crypto_sem \<Rightarrow> bool" where
  "crypto_laws C S \<longleftrightarrow> goldilocks_ok C S \<and> gcrypt_ok C S \<and> sponge_ok C S \<and> stream_ok C \<and> encoding_ok C"

text \<open>\<open>A\<close> may send its next message to \<open>B\<close>: before the first message after the key exchange only the side
  that is not waiting for one.\<close>

definition may_send :: "('p, 's, 'm, 'h) crypto_sem \<Rightarrow> ('p, 's, 'm) otrng_s \<Rightarrow> ('p, 's, 'm) otrng_s \<Rightarrow> bool" where
  "may_send S A B \<longleftrightarrow> side_ok A \<and> side_ok B \<and> otr_their_instance_tag A = our_instance_tag B \<and>
     otr_state A = OTRNG_STATE_ENCRYPTED_MESSAGES \<and>
     (otr_state B = OTRNG_STATE_ENCRYPTED_MESSAGES \<or> otr_state B = OTRNG_STATE_WAITING_DAKE_DATA_MESSAGE) \<and>
     (ready S (otr_keys A) (otr_keys B) \<or> talking S (otr_keys A) (otr_keys B))"

definition spoken :: "('p, 's, 'm, 'h) crypto_sem \<Rightarrow> ('p, 's, 'm) otrng_s \<Rightarrow> ('p, 's, 'm) otrng_s \<Rightarrow> bool" where
  "spoken S A B \<longleftrightarrow> side_ok A \<and> side_ok B \<and> otr_their_instance_tag A = our_instance_tag B \<and>
     otr_their_instance_tag B = our_instance_tag A \<and> otr_state A = OTRNG_STATE_ENCRYPTED_MESSAGES \<and>
     otr_state B = OTRNG_STATE_ENCRYPTED_MESSAGES \<and> talking S (otr_keys A) (otr_keys B)"

lemma spoken_may_send: "spoken S A B \<Longrightarrow> may_send S A B" "spoken S A B \<Longrightarrow> may_send S B A"
  by (auto simp: spoken_def may_send_def talking_def)

text \<open>The values drawn for the next message serve their purpose: the public keys are valid, the ECDH secret
  of a new ratchet is not zero and its public key is new, and no counter is at its end.\<close>

definition usable ::
    "('p, 's, 'm, 'h) crypto_ops \<Rightarrow> ('p, 's, 'm, 'h) crypto_sem \<Rightarrow> ('p, 's) wiped \<Rightarrow> (nat \<Rightarrow> bytes) \<Rightarrow> int \<Rightarrow>
     ('p, 's, 'm) key_manager_s \<Rightarrow> ('p, 's, 'm) key_manager_s \<Rightarrow> bool" where
  "usable C S Z rnd now A B \<longleftrightarrow> length (rnd 4) = DATA_MSG_NONCE_BYTES \<and> km_j A \<noteq> - 1 \<and>
     (if km_j A = 0 then
        (case rotate_keys C Z rnd now Send (A, null_ratchet Z) of (ok, (A1, null)) \<Rightarrow>
           ok \<and> null = null_ratchet Z \<and> otrng_dh_mpi_valid C (dh_pub (our_dh A1)) \<and>
           dlog S (ecdh_pub (our_ecdh A1)) \<noteq> dlog S (their_ecdh B)) \<and> km_i A \<noteq> - 1
      else otrng_dh_mpi_valid C (dh_pub (our_dh A)))"

lemma usable_next:
  assumes "usable C S Z rnd now A B" "ready S A B \<or> talking S A B"
  obtains A1 where "next_message C S Z rnd now A A1 B" "otrng_dh_mpi_valid C (dh_pub (our_dh A1))"
proof (cases "km_j A = 0")
  case True
  with assms have "ready S A B" by (auto simp: talking_def)
  with True assms(1) show ?thesis by (auto intro!: that simp: usable_def next_message_def split: prod.splits)
next
  case False
  with assms have "talking S A B" by (auto simp: ready_def)
  with False assms(1) show ?thesis by (intro that[of A]) (auto simp: usable_def next_message_def)
qed

lemma talking_old_mac: "talking S (A\<lparr>old_mac_keys := x\<rparr>) (B\<lparr>old_mac_keys := y\<rparr>) = talking S A B"
  by (simp add: talking_def ready_def ratchet_sync_def brace_wiped_def)

lemma extract_header_v4:
  assumes "take 3 bs = [0, 4, t]"
  shows "extract_header bs = Some (OTRNG_PROTOCOL_VERSION_4, t)"
proof -
  have "bs = otrng_serialize_uint16 OTRNG_PROTOCOL_VERSION_4 @ otrng_serialize_uint8 t @ drop 3 bs"
    using append_take_drop_id[of 3 bs] assms by (simp add: version_bytes otrng_serialize_uint8_def)
  then obtain r where bs: "bs = otrng_serialize_uint16 OTRNG_PROTOCOL_VERSION_4 @ otrng_serialize_uint8 t @ r" by blast
  show ?thesis unfolding bs by (simp add: extract_header_def u16.dec_enc u8.dec_enc)
qed

lemma receive_data_message_dispatch:
  assumes "take 3 bs = [0, 4, DATA_MSG_TYPE]" "side_ok otr" "encoding_ok C"
  shows "otrng_receive_message C Z rnd now junk response (base64_otr_encode C bs) otr =
     otrng_receive_data_message C Z rnd now junk (response\<lparr>to_display := None, to_send := None\<rparr>) bs otr"
proof -
  have "take 2 bs = [0, 4]" using arg_cong[OF assms(1), of "take 2"] by simp
  moreover have "otr_running_version otr \<noteq> OTRNG_PROTOCOL_VERSION_3" "maybe_create_keys otr = otr"
    using assms(2) by (auto simp: side_ok_def const_defs maybe_create_keys_def otrng_instance_tag_valid_def split: if_splits)
  ultimately show ?thesis
    using receive_encoded[OF assms(3)] assms(2) extract_header_v4[OF assms(1)]
    by (simp add: receive_decoded_message_def side_ok_def Let_def const_defs)
qed

lemma message_delivered:
  assumes laws: "crypto_laws C S" and may: "may_send S A B" and u: "usable C S Z rnd now (otr_keys A) (otr_keys B)"
    and say: "sendable words"
  obtains w A' B' ts where "otrng_send_message C Z rnd now words [] flags A = Some (Some w, A')"
    "otrng_receive_message C Z rnd' now' junk response w B =
       Some (True, response\<lparr>to_display := shown words, to_send := None, tlvs := ts\<rparr>, B')" "spoken S A' B'"
    "ssid (otr_keys A') = ssid (otr_keys A)" "otr_their_client_profile A' = otr_their_client_profile A"
    "ssid (otr_keys B') = ssid (otr_keys B)" "otr_their_client_profile B' = otr_their_client_profile B"
proof -
  have G: "goldilocks_ok C S" "gcrypt_ok C S" and H: "sponge_ok C S" and T: "stream_ok C" and E: "encoding_ok C"
    using laws by (simp_all add: crypto_laws_def)
  have A: "side_ok A" "mac_keys_ok A" "unat (cl_padding (otr_client A)) < 2 ^ 16" and B: "side_ok B"
    and n4: "length (rnd 4) = DATA_MSG_NONCE_BYTES"
    using may u by (simp_all add: may_send_def side_ok_def usable_def)
  obtain A1 where n: "next_message C S Z rnd now (otr_keys A) A1 (otr_keys B)" and v: "otrng_dh_mpi_valid C (dh_pub (our_dh A1))"
    by (rule usable_next[OF u]) (use may in \<open>simp add: may_send_def\<close>)
  obtain plain ts where p: "append_tlvs (cl_padding (otr_client A)) words [] = Some plain" "plain \<noteq> []" "length plain < 2 ^ 32"
    "c_string plain = ascii words" "deserialize_received_tlvs plain = ts" "list_all (\<lambda>t. tlv_type t = OTRNG_TLV_PADDING) ts"
    by (rule append_tlvs_ok[OF say A(3)])
  note ns = next_message_send[OF G H n]
  let ?m = "\<lambda>cipher. outgoing Z flags (km_i (otr_keys A)) (rnd 4) cipher (A\<lparr>otr_keys := A1\<rparr>)" and ?k = "message_keys S (chain_s (current A1))"
  obtain bs cipher tag oldm hm where s: "send_data_message C Z rnd now flags plain A = Some (Some (base64_otr_encode C bs),
       A\<lparr>otr_keys := (sent_one S A1)\<lparr>old_mac_keys := oldm\<rparr>, otr_skipped_heap := otr_skipped_heap A, otr_mac_heap := hm\<rparr>)"
    "take 3 bs = [0, 4, DATA_MSG_TYPE]" "otrng_data_message_deserialize C bs = Some (wire_data_message C tag (?m cipher))"
    "otrng_valid_data_message C (snd ?k) (wire_data_message C tag (?m cipher))"
    "stream_xor C cipher (rnd 4) (take ENC_ACTUAL_KEY_BYTES (fst ?k)) = Some plain"
    "mac_keys_ok (A\<lparr>otr_keys := (sent_one S A1)\<lparr>old_mac_keys := oldm\<rparr>, otr_skipped_heap := otr_skipped_heap A, otr_mac_heap := hm\<rparr>)"
    by (rule send_data_message_ok[OF G H T A(2) ns(1,2) v n4 p(2,3)])
  let ?A = "A\<lparr>otr_keys := (sent_one S A1)\<lparr>old_mac_keys := oldm\<rparr>, otr_mac_heap := hm, otr_last_sent := now\<rparr>"
  have send: "otrng_send_message C Z rnd now words [] flags A = Some (Some (base64_otr_encode C bs), ?A)"
    using may A(1) p(1) s(1)
    by (simp add: otrng_send_message_def otrng_prepare_to_send_data_message_def may_send_def side_ok_def const_defs)
  let ?w = "wire_data_message C tag (?m cipher)"
  have w: "dm_receiver_instance_tag ?w = our_instance_tag B" "dm_sender_instance_tag ?w = our_instance_tag A" "dm_enc_msg ?w = Some cipher"
    "dm_enc_msg_len ?w = length cipher" "dm_nonce ?w = rnd 4" "dm_previous_chain_n ?w = km_pn A1" "dm_message_id ?w = km_j A1"
    using may by (simp_all add: wire_data_message_def may_send_def our_instance_tag_def)
  obtain d where d: "dh_pub (our_dh A1) = Some d" "in_dh_range S d"
    using dh_valid_ok[OF G(2) v] v by (cases "dh_pub (our_dh A1)") (auto simp: otrng_dh_mpi_valid_def dh_ok_def)
  have wk: "dlog S (dm_ecdh ?w) = dlog S (ecdh_pub (our_ecdh A1))" "map_option (mval S) (dm_dh ?w) = map_option (mval S) (dh_pub (our_dh A1))"
    using wire_point(3)[OF G(1)] wire_mpi(4)[OF G(2) d(2)] d by (simp_all add: wire_data_message_def)
  let ?B = "B\<lparr>otr_their_instance_tag := our_instance_tag A\<rparr>"
  obtain B1 tmp ev where r: "receiving_keys C Z rnd' now' ?w ?B = Some (Some ?k, tmp, ?B\<lparr>otr_keys := B1, otr_events := ev\<rparr>)"
    "talking S (sent_one S A1) (otrng_receiving_ratchet_copy B1 tmp)" "old_mac_keys B1 = old_mac_keys (otr_keys ?B)"
    "ssid B1 = ssid (otr_keys ?B)"
    by (rule receiving_keys_ok[OF G H, of Z rnd now "otr_keys A" A1 ?B ?w]) (use n wk w in simp_all)
  have tag: "otrng_instance_tag_valid (our_instance_tag A)" "length (snd ?k) = MAC_KEY_BYTES"
    using A(1) by (simp_all add: side_ok_def message_keys_def Let_def kdf_eqs[OF H])
  let ?resp = "response\<lparr>to_display := None, to_send := None\<rparr>"
  obtain hm' oldm' where q: "otrng_receive_data_message_after_dake C Z rnd' now' junk ?resp bs B =
       Some (True, ?resp\<lparr>to_display := shown words, tlvs := ts\<rparr>, B\<lparr>otr_their_instance_tag := our_instance_tag A,
         otr_keys := (otrng_receiving_ratchet_copy B1 tmp)\<lparr>old_mac_keys := oldm'\<rparr>, otr_events := ev, otr_mac_heap := hm'\<rparr>)"
    "side_ok (B\<lparr>otr_their_instance_tag := our_instance_tag A,
         otr_keys := (otrng_receiving_ratchet_copy B1 tmp)\<lparr>old_mac_keys := oldm'\<rparr>, otr_events := ev, otr_mac_heap := hm'\<rparr>)"
    by (rule receive_data_message_ok[OF H B s(3,4) tag(2), where tmp = tmp and B = B1 and ev = ev and rnd = rnd' and now = now' and Z = Z and junk = junk and response = ?resp])
       (use w tag s(5) r p say in simp_all)
  let ?B' = "B\<lparr>otr_their_instance_tag := our_instance_tag A, otr_state := OTRNG_STATE_ENCRYPTED_MESSAGES,
         otr_keys := (otrng_receiving_ratchet_copy B1 tmp)\<lparr>old_mac_keys := oldm'\<rparr>, otr_events := ev, otr_mac_heap := hm'\<rparr>"
  have recv: "otrng_receive_message C Z rnd' now' junk response (base64_otr_encode C bs) B =
       Some (True, response\<lparr>to_display := shown words, to_send := None, tlvs := ts\<rparr>, ?B')"
    using may q(1) unfolding receive_data_message_dispatch[OF s(2) B E]
    by (auto simp: otrng_receive_data_message_def may_send_def)
  have "spoken S ?A ?B'"
    using may A(1) q(2) s(6) r(2)
    by (simp add: spoken_def may_send_def side_ok_def mac_keys_ok_def our_instance_tag_def allow_version_def talking_old_mac)
  then show ?thesis
    by (rule that[OF send recv])
       (use ns(3) r(4) in \<open>simp_all add: sent_one_def otrng_receiving_ratchet_copy_def otrng_key_manager_set_their_keys_def Let_def\<close>)
qed

subsection \<open>A dialogue\<close>

text \<open>One side sends a text and the other side receives it before anything else is sent.\<close>

inductive exchange ::
    "('p, 's, 'm, 'h) crypto_ops \<Rightarrow> ('p, 's, 'm, 'h) crypto_sem \<Rightarrow> ('p, 's) wiped \<Rightarrow>
     ('p, 's, 'm) otrng_s \<times> ('p, 's, 'm) otrng_s \<Rightarrow> ('p, 's, 'm) otrng_s \<times> ('p, 's, 'm) otrng_s \<Rightarrow> bool"
  for C :: "('p, 's, 'm, 'h) crypto_ops" and S :: "('p, 's, 'm, 'h) crypto_sem" and Z :: "('p, 's) wiped" where
  first_speaks: "sendable words \<Longrightarrow> usable C S Z rnd now (otr_keys A) (otr_keys B) \<Longrightarrow>
     otrng_send_message C Z rnd now words [] flags A = Some (Some w, A') \<Longrightarrow>
     otrng_receive_message C Z rnd' now' junk response w B = Some (ok, response', B') \<Longrightarrow> exchange C S Z (A, B) (A', B')"
| second_speaks: "sendable words \<Longrightarrow> usable C S Z rnd now (otr_keys B) (otr_keys A) \<Longrightarrow>
     otrng_send_message C Z rnd now words [] flags B = Some (Some w, B') \<Longrightarrow>
     otrng_receive_message C Z rnd' now' junk response w A = Some (ok, response', A') \<Longrightarrow> exchange C S Z (A, B) (A', B')"

definition waits_for :: "('p, 's, 'm, 'h) crypto_sem \<Rightarrow> ('p, 's, 'm) otrng_s \<Rightarrow> ('p, 's, 'm) otrng_s \<Rightarrow> bool" where
  "waits_for S B A \<longleftrightarrow> may_send S A B \<and> otr_state B = OTRNG_STATE_WAITING_DAKE_DATA_MESSAGE"

definition paired :: "('p, 's, 'm, 'h) crypto_sem \<Rightarrow> ('p, 's, 'm) otrng_s \<times> ('p, 's, 'm) otrng_s \<Rightarrow> bool" where
  "paired S s \<longleftrightarrow> (case s of (A, B) \<Rightarrow> waits_for S B A \<or> waits_for S A B \<or> spoken S A B \<or> spoken S B A)"

lemma paired_may_send:
  assumes "paired S (A, B) \<or> paired S (B, A)" "otr_state A = OTRNG_STATE_ENCRYPTED_MESSAGES"
  shows "may_send S A B"
  using assms spoken_may_send[of S A B] spoken_may_send[of S B A] by (auto simp: paired_def waits_for_def)

lemma sends_encrypted:
  assumes "paired S (A, B) \<or> paired S (B, A)" "otrng_send_message C Z rnd now words ts flags A = Some (Some w, A')"
  shows "otr_state A = OTRNG_STATE_ENCRYPTED_MESSAGES"
proof -
  have "side_ok A" using assms(1) by (auto simp: paired_def waits_for_def may_send_def spoken_def)
  then show ?thesis using assms(2)
    by (auto simp: otrng_send_message_def otrng_prepare_to_send_data_message_def side_ok_def const_defs split: if_splits)
qed

lemma exchange_spoken:
  assumes laws: "crypto_laws C S" and p: "paired S (A, B) \<or> paired S (B, A)"
    and "sendable words" "usable C S Z rnd now (otr_keys A) (otr_keys B)"
    and s: "otrng_send_message C Z rnd now words [] flags A = Some (Some w, A')"
    and r: "otrng_receive_message C Z rnd' now' junk response w B = Some (ok, response', B')"
  shows "spoken S A' B'"
proof -
  have may: "may_send S A B" by (rule paired_may_send[OF p sends_encrypted[OF p s]])
  obtain w2 A2 B2 ts where "otrng_send_message C Z rnd now words [] flags A = Some (Some w2, A2)"
    "otrng_receive_message C Z rnd' now' junk response w2 B =
       Some (True, response\<lparr>to_display := shown words, to_send := None, tlvs := ts\<rparr>, B2)" "spoken S A2 B2"
    by (rule message_delivered[OF laws may assms(4,3)])
  with s r show ?thesis by simp
qed

interpretation dialogue: invariant_machine "\<lambda>s. crypto_laws C S \<and> paired S s" "exchange C S Z" "\<lambda>s. crypto_laws C S \<and> paired S s"
  for C :: "('p, 's, 'm, 'h) crypto_ops" and S Z
proof (unfold_locales, safe)
  fix A B A' B' assume laws: "crypto_laws C S" and p: "paired S (A, B)" and x: "exchange C S Z (A, B) (A', B')"
  from x show "paired S (A', B')"
    by (cases rule: exchange.cases) (auto simp: paired_def dest: exchange_spoken[OF laws disjI1[OF p]] exchange_spoken[OF laws disjI2[OF p]])
qed

text \<open>C2: a conversation delivers its messages.  Start with two sides after the key exchange, of which one
  waits for the first message of the other, or in the middle of a conversation, and let them exchange
  any number of texts, each side speaking as often as it likes.  Then the next text that either
  side sends is encoded without error, and the other side shows exactly this text; both are ready to
  go on.\<close>

theorem dialogue_delivers:
  assumes "crypto_laws C S" "paired S s0" "(exchange C S Z)\<^sup>*\<^sup>* s0 s" "s = (A, B) \<or> s = (B, A)"
    and "otr_state A = OTRNG_STATE_ENCRYPTED_MESSAGES" "usable C S Z rnd now (otr_keys A) (otr_keys B)" "sendable words"
  shows "\<exists>w A' B' ts. otrng_send_message C Z rnd now words [] flags A = Some (Some w, A') \<and>
     otrng_receive_message C Z rnd' now' junk response w B =
       Some (True, response\<lparr>to_display := shown words, to_send := None, tlvs := ts\<rparr>, B') \<and> spoken S A' B'"
proof -
  have "paired S s" using dialogue.reachable_inv[of C S s0 Z s] assms(1-3) by blast
  then have "may_send S A B" using assms(4,5) paired_may_send by blast
  from message_delivered[OF assms(1) this assms(6,7)] show ?thesis by metis
qed

subsection \<open>A concrete conversation\<close>

definition ex_side :: "u32 \<Rightarrow> u32 \<Rightarrow> (int, int, nat) key_manager_s \<Rightarrow> (int, int, nat) otrng_s" where
  "ex_side our their keys = (otrng_new ex_wiped (ex_client 3 5 our) OTRNG_ALLOW_V4 0)\<lparr>otr_state := OTRNG_STATE_ENCRYPTED_MESSAGES,
     otr_running_version := 4, otr_their_instance_tag := their, otr_keys := keys\<rparr>"

definition ex_talker :: "(int, int, nat) key_manager_s" where
  "ex_talker = (ex_manager 3 5 2 64)\<lparr>km_i := 1, km_j := 1, current := ratchet_new\<lparr>chain_s := [7]\<rparr>\<rparr>"

definition ex_listener :: "(int, int, nat) key_manager_s" where
  "ex_listener = (ex_manager 2 6 3 32)\<lparr>km_i := 1, km_k := 1, current := ratchet_new\<lparr>chain_r := [7]\<rparr>\<rparr>"

lemma ex_talking: "talking ex_sem ex_talker ex_listener"
  using ex_pairs by (simp add: talking_def ready_def ratchet_sync_def ex_talker_def ex_listener_def ex_manager_def
      otrng_key_manager_init_def brace_wiped_def ratchet_new_def) (simp add: ex_sem_def)

lemma ex_side_ok:
  assumes "old_mac_keys keys = None" "\<not> our < 0x100"
  shows "side_ok (ex_side our their keys)"
  using assms empty_heap_list
  by (auto simp: side_ok_def ex_side_def otrng_new_def mac_keys_ok_def allow_version_def our_instance_tag_def ex_client_def
      otrng_instance_tag_valid_def const_defs is_list_def heap_ok_def contents_def intro!: exI[of _ "[]"])

lemma ex_crypto_laws: "crypto_laws ex_crypto ex_sem"
  by (simp add: crypto_laws_def ex_goldilocks_ok ex_gcrypt_ok ex_sponge_ok ex_stream_ok ex_encoding_ok)

theorem dialogue_delivers_witness:
  "\<exists>w A' B' ts. otrng_send_message ex_crypto ex_wiped (\<lambda>i. replicate 24 7) 0 ''hello'' [] 0 (ex_side 0x100 0x200 ex_talker) = Some (Some w, A') \<and>
     otrng_receive_message ex_crypto ex_wiped (\<lambda>i. []) 0 0 otrng_response_new w (ex_side 0x200 0x100 ex_listener) =
       Some (True, otrng_response_new\<lparr>to_display := shown ''hello'', to_send := None, tlvs := ts\<rparr>, B') \<and> spoken ex_sem A' B'"
proof (rule dialogue_delivers[OF ex_crypto_laws])
  let ?s = "(ex_side 0x100 0x200 ex_talker, ex_side 0x200 0x100 ex_listener)"
  have m: "old_mac_keys ex_talker = None" "old_mac_keys ex_listener = None"
    by (simp_all add: ex_talker_def ex_listener_def ex_manager_def otrng_key_manager_init_def)
  show "paired ex_sem ?s"
    using ex_talking ex_side_ok[OF m(1)] ex_side_ok[OF m(2)]
    by (simp add: paired_def spoken_def) (simp add: ex_side_def our_instance_tag_def otrng_new_def ex_client_def)
  show "(exchange ex_crypto ex_sem ex_wiped)\<^sup>*\<^sup>* ?s ?s" by simp
  have "otrng_dh_mpi_valid ex_crypto (Some 32)"
    using dh_valid_iff[OF ex_gcrypt_ok, of 32] by (simp add: ex_sem_def DH3072_MODULUS_MINUS_2_def DH3072_MODULUS_def)
  then show "usable ex_crypto ex_sem ex_wiped (\<lambda>i. replicate 24 7) 0 (otr_keys (ex_side 0x100 0x200 ex_talker)) (otr_keys (ex_side 0x200 0x100 ex_listener))"
    by (simp add: usable_def ex_side_def ex_talker_def ex_manager_def const_defs)
qed (simp_all add: ex_side_def sendable_def nul_char)

end
