(* ===== verification/Handshake_Run.thy ===== *)
theory Handshake_Run
  imports Session
begin

text \<open>
  An undisturbed key exchange, from the query message to the first data message, through the handlers of
  both sides.
\<close>

subsection \<open>What both sides sign\<close>

definition interactive_tag ::
    "('p, 's, 'm, 'h) crypto_ops \<Rightarrow> ('p, 's, 'm, 'h) crypto_sem \<Rightarrow> auth_tag_type \<Rightarrow> 'p otrng_client_profile_s \<Rightarrow> 'p otrng_client_profile_s
     \<Rightarrow> 'p \<Rightarrow> 'p \<Rightarrow> 'm \<Rightarrow> 'm \<Rightarrow> bytes \<Rightarrow> bytes" where
  "interactive_tag C S ty ip rp Y X B A phi = (
     let u = (case ty of Auth_r \<Rightarrow> 0x05 | Auth_i \<Rightarrow> 0x08) in
     (case ty of Auth_r \<Rightarrow> 0x00 | Auth_i \<Rightarrow> 0x01) # kdf S HASH_BYTES u (profile_bytes C ip) @ kdf S HASH_BYTES (u + 1) (profile_bytes C rp) @
     otrng_serialize_ec_point C Y @ otrng_serialize_ec_point C X @ dh_bytes C B @ dh_bytes C A @ kdf S HASH_BYTES (u + 2) phi)"

lemma interactive_tag_built:
  assumes G: "goldilocks_ok C S" "gcrypt_ok C S" and H: "sponge_ok C S"
    and "fits_profile ip" "fits_profile rp" "in_dh_range S B" "in_dh_range S A"
  shows "build_interactive_rsign_tag C ty (participant_data ip Y (Some B)) (participant_data rp X (Some A)) phi =
     Some (Some (interactive_tag C S ty ip rp Y X B A phi))"
proof -
  have d: "otrng_serialize_dh_public_key C DH_MPI_MAX_BYTES (Some D) = Some (dh_bytes C D)" if "in_dh_range S D" for D
    by (rule wire_mpi(1)[OF G(2) that]) simp
  have L: "length (otrng_serialize_ec_point C p) = ED448_POINT_BYTES" for p
    by (simp add: length_serialize_group[OF G(1)] const_defs)
  show ?thesis
    by (cases ty)
       (simp_all add: build_interactive_rsign_tag_def build_rsign_tag_def participant_data_def Let_def d assms(6,7)
        profile_bytes(1)[OF G(1) assms(4)] profile_bytes(1)[OF G(1) assms(5)] kdf_eqs[OF H] attempt_def interactive_tag_def L)
qed

lemma interactive_tag_cong:
  assumes G: "goldilocks_ok C S" "gcrypt_ok C S"
    and "profile_bytes C ip = profile_bytes C ip'" "profile_bytes C rp = profile_bytes C rp'"
    and "dlog S Y = dlog S Y'" "dlog S X = dlog S X'" "mval S B = mval S B'" "mval S A = mval S A'"
  shows "interactive_tag C S ty ip rp Y X B A phi = interactive_tag C S ty ip' rp' Y' X' B' A' phi"
  using assms(3,4) wire_cong(1)[OF G(1) assms(5)] wire_cong(1)[OF G(1) assms(6)] wire_cong(2)[OF G assms(7)] wire_cong(2)[OF G assms(8)]
  by (simp add: interactive_tag_def)

lemma phi_symmetric: "otrng_serialize_phi s a b = otrng_serialize_phi s b a"
  by (auto simp: otrng_serialize_phi_def not_less intro: antisym)

subsection \<open>Profiles and keys\<close>

text \<open>A copy of a profile without a DSA key is the profile, up to what was found out about its validity.\<close>

definition forget_check :: "'p otrng_client_profile_s \<Rightarrow> 'p otrng_client_profile_s" where
  "forget_check p = p\<lparr>cp_has_validated := False, cp_validation_result := False\<rparr>"

lemma profile_copy:
  assumes "wf_profile p" "cp_dsa_key p = None"
  shows "otrng_client_profile_copy Z (Some p) = (True, forget_check p)"
  using assms
  by (cases p) (auto simp: otrng_client_profile_copy_def copy_dsa_key_def has_dsa_key_def copy_transitional_signature_def
      client_profile_zero_def wf_profile_def forget_check_def Let_def split: option.splits)

lemma forget_check_profile:
  "profile_bytes C (forget_check p) = profile_bytes C p" "fits_profile (forget_check p) = fits_profile p"
  "forget_check (wire_profile C p) = wire_profile C p" "wire_profile C (forget_check p) = wire_profile C p"
  "cp_long_term_pub_key (forget_check p) = cp_long_term_pub_key p" "cp_forging_pub_key (forget_check p) = cp_forging_pub_key p"
  "cp_dsa_key (forget_check p) = cp_dsa_key p"
  by (simp_all add: forget_check_def profile_bytes_def fits_profile_def wf_profile_def wire_profile_def client_profile_body_serialize_def
      client_profile_body_serialize_pre_transitional_signature_def has_dsa_key_def Let_def)

definition ecdh_of :: "('p, 's, 'm, 'h) crypto_ops \<Rightarrow> bytes \<Rightarrow> ('p, 's) ecdh_keypair_s" where
  "ecdh_of C seed = the (otrng_ecdh_keypair_generate C seed)"

definition dh_of :: "('p, 's, 'm, 'h) crypto_ops \<Rightarrow> bytes \<Rightarrow> 'm dh_keypair_s" where
  "dh_of C seed = the (otrng_dh_keypair_generate C seed)"

lemma generated_pairs:
  assumes G: "goldilocks_ok C S" "gcrypt_ok C S" and H: "sponge_ok C S"
  shows "otrng_ecdh_keypair_generate C seed = Some (ecdh_of C seed)" "otrng_dh_keypair_generate C seed = Some (dh_of C seed)"
    "ecdh_priv (ecdh_of C seed) = derive_secret_scalar C seed" "dlog S (ecdh_pub (ecdh_of C seed)) = sval S (ecdh_priv (ecdh_of C seed))"
    "has_dh_pair S (dh_priv (dh_of C seed)) (dh_pub (dh_of C seed))"
proof -
  obtain q where q: "otrng_ecdh_keypair_generate C seed = Some \<lparr>ecdh_priv = derive_secret_scalar C seed, ecdh_pub = q\<rparr>"
    by (rule ecdh_keypair_total[OF G(1)])
  obtain a where a: "otrng_dh_keypair_generate C seed = Some \<lparr>dh_pub = Some (otrng_dh_calculate_public_key C a), dh_priv = Some a\<rparr>"
    by (rule dh_keypair_total[OF G(2) H])
  show "otrng_ecdh_keypair_generate C seed = Some (ecdh_of C seed)" "otrng_dh_keypair_generate C seed = Some (dh_of C seed)"
    "ecdh_priv (ecdh_of C seed) = derive_secret_scalar C seed" by (simp_all add: ecdh_of_def dh_of_def q a)
  show "dlog S (ecdh_pub (ecdh_of C seed)) = sval S (ecdh_priv (ecdh_of C seed))"
    using ecdh_keypair_generate_pub[OF G(1) q] by (simp add: ecdh_of_def q)
  show "has_dh_pair S (dh_priv (dh_of C seed)) (dh_pub (dh_of C seed))"
    using dh_public_key_value[OF G(2), of a] by (simp add: dh_of_def a has_dh_pair_def)
qed

lemma ephemeral_keys_total:
  assumes G: "goldilocks_ok C S" "gcrypt_ok C S" and H: "sponge_ok C S" and "km_i m = 0"
  shows "otrng_key_manager_generate_ephemeral_keys C Z rnd now m = (True, m\<lparr>our_ecdh := ecdh_of C (rnd 0),
     our_ecdh_first := ecdh_of C (rnd 1), last_generated := now, our_dh := dh_of C (rnd 2), our_dh_first := dh_of C (rnd 3)\<rparr>)"
  using assms(4) by (simp add: otrng_key_manager_generate_ephemeral_keys_def generated_pairs[OF G H] or_error_def Let_def)

lemma dh_validE:
  assumes "gcrypt_ok C S" "otrng_dh_mpi_valid C d"
  obtains m where "d = Some m" "in_dh_range S m"
  using dh_valid_ok[OF assms] assms(2) by (cases d) (auto simp: otrng_dh_mpi_valid_def dh_ok_def)

lemma header_bytes: "take 3 (dake_header t a b) = [0, 4, t]"
  by (simp add: dake_header_def version_bytes otrng_serialize_uint8_def)

lemma message_headers:
  "otrng_dake_identity_message_serialize C i = Some (Some bs) \<Longrightarrow> take 3 bs = [0, 4, IDENTITY_MSG_TYPE]"
  "otrng_dake_auth_r_serialize C r = Some (Some bs) \<Longrightarrow> take 3 bs = [0, 4, AUTH_R_MSG_TYPE]"
  "otrng_dake_auth_i_serialize C a = Some bs \<Longrightarrow> take 3 bs = [0, 4, AUTH_I_MSG_TYPE]"
  by (auto simp: otrng_dake_identity_message_serialize_def otrng_dake_auth_r_serialize_def otrng_dake_auth_i_serialize_def
      Let_def header_bytes DAKE_HEADER_BYTES_def attempt_def bind_eq_Some_conv split: option.splits if_splits)

subsection \<open>The clients\<close>

definition client_ok ::
    "('p, 's, 'm, 'h) crypto_ops \<Rightarrow> ('p, 's, 'm, 'h) crypto_sem \<Rightarrow> int \<Rightarrow> ('p, 's, 'm) otrng_client_s \<Rightarrow> 'p otrng_client_profile_s \<Rightarrow> bool" where
  "client_ok C S now cl p \<longleftrightarrow> cl_client_profile cl = Some p \<and> fits_profile p \<and> cp_dsa_key p = None \<and>
     otrng_client_profile_valid C now (wire_profile C p) (cl_instance_tag cl) = Some True \<and>
     dlog S (cp_long_term_pub_key p) = dlog S (kp_pub (cl_keypair cl)) \<and> dlog S (kp_pub (cl_keypair cl)) = sval S (kp_priv (cl_keypair cl)) \<and>
     dlog S (cp_forging_pub_key p) = dlog S (cl_forging_key cl) \<and> otrng_instance_tag_valid (cl_instance_tag cl) \<and>
     unat (cl_padding cl) < 2 ^ 16 \<and> (\<forall>now last_sent. \<not> cl_should_heartbeat cl now last_sent)"

lemma no_instag_needed: "otrng_instance_tag_valid (our_instance_tag otr) \<Longrightarrow> maybe_create_keys otr = otr"
  by (auto simp: maybe_create_keys_def otrng_instance_tag_valid_def const_defs split: if_splits)

lemma client_profile_ok:
  assumes "client_ok C S now cl p" "goldilocks_ok C S"
  shows "wf_profile p" "otrng_client_profile_copy Z (Some p) = (True, forget_check p)"
    "otrng_client_profile_copy Z (Some (wire_profile C p)) = (True, wire_profile C p)"
    "fits_profile (wire_profile C p)" "profile_bytes C (wire_profile C p) = profile_bytes C p"
proof -
  have f: "fits_profile p" "cp_dsa_key p = None" using assms by (simp_all add: client_ok_def)
  then show wf: "wf_profile p" by (simp add: fits_profile_def)
  note w = profile_bytes(3,4)[OF assms(2) f(1)]
  then show "fits_profile (wire_profile C p)" "profile_bytes C (wire_profile C p) = profile_bytes C p" by simp_all
  show "otrng_client_profile_copy Z (Some p) = (True, forget_check p)" by (rule profile_copy[OF wf f(2)])
  have "wf_profile (wire_profile C p)" using w(1) by (simp add: fits_profile_def)
  from profile_copy[OF this, of Z] f(2) show "otrng_client_profile_copy Z (Some (wire_profile C p)) = (True, wire_profile C p)"
    by (simp add: forget_check_profile)
qed

lemma my_profile:
  assumes "client_ok C S now cl p" "otr_client otr = cl"
  shows "maybe_create_keys otr = otr" "get_my_client_profile otr = Some (p, otr)"
proof -
  show *: "maybe_create_keys otr = otr"
    by (rule no_instag_needed) (use assms in \<open>simp add: client_ok_def our_instance_tag_def\<close>)
  show "get_my_client_profile otr = Some (p, otr)"
    using assms * by (simp add: client_ok_def get_my_client_profile_def)
qed

lemma valid_values:
  assumes "goldilocks_ok C S" "client_ok C S now cl p" "otrng_dh_mpi_valid C d"
  shows "otrng_valid_received_values C now (cl_instance_tag cl) Y d (wire_profile C p) = Some True"
  using assms by (simp add: otrng_valid_received_values_def client_ok_def otrng_ec_point_valid_def goldilocks_point(8)[OF assms(1)])

subsection \<open>The query and the identity message\<close>

definition identity_of :: "('p, 's, 'm, 'h) crypto_ops \<Rightarrow> 'p otrng_client_profile_s \<Rightarrow> u32 \<Rightarrow> (nat \<Rightarrow> bytes) \<Rightarrow> ('p, 'm) dake_identity_message_s" where
  "identity_of C p tag rnd = \<lparr>im_sender_instance_tag = tag, im_receiver_instance_tag = 0, im_profile = forget_check p,
     im_Y = ecdh_pub (ecdh_of C (rnd 0)), im_B = dh_pub (dh_of C (rnd 2)),
     im_Y_first = ecdh_pub (ecdh_of C (rnd 0)), im_B_first = dh_pub (dh_of C (rnd 2))\<rparr>"

lemma query_kind:
  assumes "q = query_header @ v @ ''? ''" "v = ''4'' \<or> v = ''43''"
  shows "get_message_type q = MSG_QUERY_STRING" "\<not> is_fragment_generic q ''?OTR|''" "strstr q ''?OTR:AAMC'' = None" "strstr q ''4'' \<noteq> None"
  using assms(2) unfolding assms(1) by (elim disjE; hypsubst; code_simp)+

text \<open>The keys of the two sides: \<open>rb\<close> and \<open>ra\<close> are the random sources of the initiator and the responder.\<close>

definition initiator_keys :: "('p, 's, 'm, 'h) crypto_ops \<Rightarrow> ('p, 's) wiped \<Rightarrow> (nat \<Rightarrow> bytes) \<Rightarrow> int \<Rightarrow> ('p, 's, 'm) key_manager_s" where
  "initiator_keys C Z rb now = (otrng_key_manager_init Z)\<lparr>our_ecdh := ecdh_of C (rb 0),
     our_ecdh_first := ecdh_of C (rb 1), last_generated := now, our_dh := dh_of C (rb 2), our_dh_first := dh_of C (rb 3)\<rparr>"

definition responder_keys ::
    "('p, 's, 'm, 'h) crypto_ops \<Rightarrow> ('p, 's) wiped \<Rightarrow> (nat \<Rightarrow> bytes) \<Rightarrow> (nat \<Rightarrow> bytes) \<Rightarrow> int \<Rightarrow> ('p, 's, 'm) key_manager_s" where
  "responder_keys C Z ra rb now = (otrng_key_manager_init Z)\<lparr>
     their_ecdh := wire_point C (ecdh_pub (ecdh_of C (rb 0))), their_dh := map_option (wire_mpi C) (dh_pub (dh_of C (rb 2))),
     their_first_ecdh := wire_point C (ecdh_pub (ecdh_of C (rb 0))), their_first_dh := map_option (wire_mpi C) (dh_pub (dh_of C (rb 2))),
     our_ecdh := ecdh_of C (ra 0), our_ecdh_first := ecdh_of C (ra 1), last_generated := now,
     our_dh := dh_of C (ra 2), our_dh_first := dh_of C (ra 3)\<rparr>"

text \<open>What \<open>otrng_key_manager_generate_shared_secret\<close> leaves behind.\<close>

definition with_secret :: "('p, 's, 'm, 'h) crypto_sem \<Rightarrow> ('p, 's) wiped \<Rightarrow> bytes \<Rightarrow> bool \<Rightarrow> ('p, 's, 'm) key_manager_s \<Rightarrow> ('p, 's, 'm) key_manager_s" where
  "with_secret S Z K half m = m\<lparr>our_ecdh := (our_ecdh m)\<lparr>ecdh_priv := zero_scalar Z\<rparr>, our_dh := otrng_dh_priv_key_destroy (our_dh m),
     shared_secret := K, brace_key := zeros BRACE_KEY_BYTES, ssid := kdf S SSID_BYTES 0x04 K, ssid_half_first := half\<rparr>"

lemma query_answered:
  assumes laws: "crypto_laws C S" and cl: "client_ok C S now cl p" and v: "otrng_dh_mpi_valid C (dh_pub (dh_of C (rnd 2)))"
    and q: "q = query_header @ vs @ ''? ''" "vs = ''4'' \<or> vs = ''43''"
    and B: "B = otrng_new Z cl allows policy" "allow_version B OTRNG_ALLOW_V4" "policy \<noteq> OTRNG_REQUIRE_AUTHENTICATED"
  obtains bs where "otrng_receive_message C Z rnd now junk otrng_response_new q B =
      Some (True, otrng_response_new\<lparr>to_send := Some (base64_otr_encode C bs)\<rparr>, B\<lparr>otr_running_version := ucast OTRNG_PROTOCOL_VERSION_4,
        otr_state := OTRNG_STATE_WAITING_AUTH_R, otr_keys := initiator_keys C Z rnd now\<rparr>)"
    "otrng_dake_identity_message_deserialize C Z bs = Some (wire_identity C (identity_of C p (cl_instance_tag cl) rnd))"
    "take 3 bs = [0, 4, IDENTITY_MSG_TYPE]"
proof -
  have G: "goldilocks_ok C S" "gcrypt_ok C S" and H: "sponge_ok C S" using laws by (simp_all add: crypto_laws_def)
  let ?k = "initiator_keys C Z rnd now" and ?i = "identity_of C p (cl_instance_tag cl) rnd"
  have k: "otrng_key_manager_generate_ephemeral_keys C Z rnd now (otrng_key_manager_init Z) = (True, ?k)"
    unfolding initiator_keys_def by (rule ephemeral_keys_total[OF G H]) (simp add: otrng_key_manager_init_def)
  have our: "our_ecdh ?k = ecdh_of C (rnd 0)" "our_dh ?k = dh_of C (rnd 2)" by (simp_all add: initiator_keys_def)
  have d: "dh_ok S (dh_pub (dh_of C (rnd 2)))" by (rule dh_validE[OF G(2) v]) (simp add: dh_ok_def)
  have "fits_profile (im_profile ?i)" using cl by (simp add: identity_of_def client_ok_def forget_check_profile)
  with identity_message_roundtrip[OF G this, of Z "[]"] d obtain bs where
    bs: "otrng_dake_identity_message_serialize C ?i = Some (Some bs)" "otrng_dake_identity_message_deserialize C Z bs = Some (wire_identity C ?i)"
    by (auto simp: identity_of_def)
  note t = message_headers(1)[OF bs(1)]
  note q = query_kind[OF q]
  have "otrng_receive_message C Z rnd now junk otrng_response_new q B =
      Some (True, otrng_response_new\<lparr>to_send := Some (base64_otr_encode C bs)\<rparr>, B\<lparr>otr_running_version := ucast OTRNG_PROTOCOL_VERSION_4,
        otr_state := OTRNG_STATE_WAITING_AUTH_R, otr_keys := ?k\<rparr>)"
    using q k bs(1) B(2,3) my_profile[OF cl] client_profile_ok(2)[OF cl G(1), of Z] unfolding B(1)
    by (simp add: Let_def our otrng_new_def allow_version_def const_defs identity_of_def our_instance_tag_def otrng_dake_identity_message_new_def serialize_and_encode_identity_message_def otrng_response_new_def otrng_receive_message_def otrng_unfragment_message_def otrng_unfragment_message_generic_def
      receive_defragmented_message_def receive_message_v4_only_def receive_query_message_def set_running_version_from_query_message_def
      peer_refused_def start_dake_def reply_with_identity_message_def identity_message_of_def)
  from that[OF this bs(2) t] show ?thesis .
qed

subsection \<open>Auth-R\<close>

lemma rsig_ok:
  assumes laws: "crypto_laws C S" and "dlog S pub = sval S secret" "ring_matches C pub [A1, A2, A3] = 1"
  obtains sigma where "otrng_rsig_authenticate C rnd secret pub A1 A2 A3 m = Some sigma"
    "\<And>B1 B2 B3. dlog S B1 = dlog S A1 \<Longrightarrow> dlog S B2 = dlog S A2 \<Longrightarrow> dlog S B3 = dlog S A3 \<Longrightarrow>
       otrng_rsig_verify C (wire_sig C sigma) B1 B2 B3 m"
proof -
  have G: "goldilocks_ok C S" and H: "sponge_ok C S" using laws by (simp_all add: crypto_laws_def)
  from rsig_authenticate_verify_aux[OF G H assms(2,3), of OTRNG_PROTOCOL_USAGE_AUTH OTRNG_PROTOCOL_DOMAIN_SEPARATION rnd m] obtain g where
    g: "otrng_rsig_authenticate C rnd secret pub A1 A2 A3 m = Some g"
      "otrng_rsig_verify_with_usage_and_domain C OTRNG_PROTOCOL_USAGE_AUTH OTRNG_PROTOCOL_DOMAIN_SEPARATION g A1 A2 A3 m"
    unfolding otrng_rsig_authenticate_def by blast
  show ?thesis
  proof (rule that[OF g(1)])
    fix B1 B2 B3 assume "dlog S B1 = dlog S A1" "dlog S B2 = dlog S A2" "dlog S B3 = dlog S A3"
    then show "otrng_rsig_verify C (wire_sig C g) B1 B2 B3 m"
      using g(2) rsig_verify_cong[OF G wire_sig(3)[OF G]] unfolding otrng_rsig_verify_def by blast
  qed
qed

lemma sending_tag:
  assumes G: "goldilocks_ok C S" "gcrypt_ok C S" and H: "sponge_ok C S" and cl: "client_ok C S now (otr_client otr) p"
    and "otr_their_client_profile otr = Some q" "fits_profile q"
    and "their_dh (otr_keys otr) = Some B" "in_dh_range S B" "dh_pub (our_dh (otr_keys otr)) = Some A" "in_dh_range S A"
    and "get_shared_session_state otr = (Some s, otr')" "otr' = otr\<lparr>otr_shared_session_state := Some s\<rparr>"
  shows "generate_sending_rsig_tag C ty otr = Some (Some (interactive_tag C S ty q p (their_ecdh (otr_keys otr)) (ecdh_pub (our_ecdh (otr_keys otr))) B A
     (otrng_serialize_phi (ascii s) (ucast (our_instance_tag otr)) (ucast (otr_their_instance_tag otr)))), otr')"
proof -
  have "fits_profile p" using cl by (simp add: client_ok_def)
  then show ?thesis
    using assms my_profile[OF cl refl]
    by (simp add: generate_sending_rsig_tag_def Let_def generate_phi_sending_def generate_phi_serialized_def
        interactive_tag_built[OF G H] our_instance_tag_def)
qed

lemma receiving_tag:
  assumes G: "goldilocks_ok C S" "gcrypt_ok C S" and H: "sponge_ok C S" and cl: "client_ok C S now (otr_client otr) p"
    and "fits_profile q" "in_dh_range S A" "dh_pub (our_dh (otr_keys otr)) = Some B" "in_dh_range S B"
    and "get_shared_session_state otr = (Some s, otr')" "otr' = otr\<lparr>otr_shared_session_state := Some s\<rparr>"
  shows "generate_receiving_rsig_tag C ty (participant_data q X (Some A)) otr = Some (Some (interactive_tag C S ty p q (ecdh_pub (our_ecdh (otr_keys otr))) X B A
     (otrng_serialize_phi (ascii s) (ucast (our_instance_tag otr)) (ucast (otr_their_instance_tag otr)))), otr')"
proof -
  have "fits_profile p" using cl by (simp add: client_ok_def)
  then show ?thesis
    using assms my_profile[OF cl refl]
    by (simp add: generate_receiving_rsig_tag_def Let_def generate_phi_receiving_def generate_phi_serialized_def
        interactive_tag_built[OF G H] our_instance_tag_def)
qed

definition auth_r_of ::
    "('p, 's, 'm, 'h) crypto_ops \<Rightarrow> 'p otrng_client_profile_s \<Rightarrow> u32 \<Rightarrow> u32 \<Rightarrow> (nat \<Rightarrow> bytes) \<Rightarrow> 's ring_sig_s \<Rightarrow> ('p, 's, 'm) dake_auth_r_s" where
  "auth_r_of C p our their ra sigma = \<lparr>ar_sender_instance_tag = our, ar_receiver_instance_tag = their, ar_profile = forget_check p,
     ar_X = ecdh_pub (ecdh_of C (ra 0)), ar_A = dh_pub (dh_of C (ra 2)), ar_X_first = ecdh_pub (ecdh_of C (ra 1)),
     ar_A_first = dh_pub (dh_of C (ra 3)), ar_sigma = sigma\<rparr>"

text \<open>The state of the responder after the identity message.\<close>

definition responder_waiting ::
    "('p, 's, 'm) otrng_s \<Rightarrow> u32 \<Rightarrow> 'p otrng_client_profile_s \<Rightarrow> string \<Rightarrow> ('p, 's, 'm) key_manager_s \<Rightarrow> ('p, 's, 'm) otrng_s" where
  "responder_waiting A tag p s keys = A\<lparr>otr_running_version := ucast OTRNG_PROTOCOL_VERSION_4, otr_their_instance_tag := tag,
     otr_their_client_profile := Some p, otr_shared_session_state := Some s, otr_keys := keys, otr_state := OTRNG_STATE_WAITING_AUTH_I\<rparr>"

lemma reply_auth_r_ok:
  assumes laws: "crypto_laws C S" and cl: "client_ok C S now (otr_client otr) pA"
    and q: "otr_their_client_profile otr = Some q" "fits_profile q"
    and keys: "our_ecdh (otr_keys otr) = ecdh_of C (ra 0)" "our_dh (otr_keys otr) = dh_of C (ra 2)"
      "our_ecdh_first (otr_keys otr) = ecdh_of C (ra 1)" "our_dh_first (otr_keys otr) = dh_of C (ra 3)"
    and v: "otrng_dh_mpi_valid C (dh_pub (dh_of C (ra 3)))" "dh_pub (dh_of C (ra 2)) = Some Am" "in_dh_range S Am"
      "their_dh (otr_keys otr) = Some Bm" "in_dh_range S Bm"
    and ring: "ring_matches C (kp_pub (cl_keypair (otr_client otr))) [cp_forging_pub_key q, kp_pub (cl_keypair (otr_client otr)), their_ecdh (otr_keys otr)] = 1"
    and s: "otr_shared_session_state otr = None" "otrng_generate_session_state_string (cl_shared_session_state (otr_client otr)) = Some s"
  defines "t \<equiv> interactive_tag C S Auth_r q pA (their_ecdh (otr_keys otr)) (ecdh_pub (ecdh_of C (ra 0))) Bm Am
     (otrng_serialize_phi (ascii s) (ucast (our_instance_tag otr)) (ucast (otr_their_instance_tag otr)))"
  obtains bs sigma where "reply_with_auth_r_message C Z rnd otr = Some (Some (base64_otr_encode C bs), otr\<lparr>otr_shared_session_state := Some s\<rparr>)"
    "take 3 bs = [0, 4, AUTH_R_MSG_TYPE]"
    "otrng_dake_auth_r_deserialize C Z bs =
       Some (wire_auth_r C (auth_r_of C pA (our_instance_tag otr) (otr_their_instance_tag otr) ra sigma))"
    "\<And>B1 B2 B3. dlog S B1 = dlog S (cp_forging_pub_key q) \<Longrightarrow> dlog S B2 = dlog S (kp_pub (cl_keypair (otr_client otr))) \<Longrightarrow>
       dlog S B3 = dlog S (their_ecdh (otr_keys otr)) \<Longrightarrow> otrng_rsig_verify C (wire_sig C sigma) B1 B2 B3 t"
proof -
  have G: "goldilocks_ok C S" "gcrypt_ok C S" and H: "sponge_ok C S" using laws by (simp_all add: crypto_laws_def)
  have sess: "get_shared_session_state otr = (Some s, otr\<lparr>otr_shared_session_state := Some s\<rparr>)"
    using s by (simp add: get_shared_session_state_def Let_def)
  have tag: "generate_sending_rsig_tag C Auth_r otr = Some (Some t, otr\<lparr>otr_shared_session_state := Some s\<rparr>)"
    using sending_tag[OF G H cl q v(4,5) _ v(3) sess refl, of Auth_r] keys v(2) by (simp add: t_def)
  have "dlog S (kp_pub (cl_keypair (otr_client otr))) = sval S (kp_priv (cl_keypair (otr_client otr)))" using cl by (simp add: client_ok_def)
  then obtain sigma where sg: "otrng_rsig_authenticate C rnd (kp_priv (cl_keypair (otr_client otr))) (kp_pub (cl_keypair (otr_client otr)))
      (cp_forging_pub_key q) (kp_pub (cl_keypair (otr_client otr))) (their_ecdh (otr_keys otr)) t = Some sigma"
    "\<And>B1 B2 B3. dlog S B1 = dlog S (cp_forging_pub_key q) \<Longrightarrow> dlog S B2 = dlog S (kp_pub (cl_keypair (otr_client otr))) \<Longrightarrow>
       dlog S B3 = dlog S (their_ecdh (otr_keys otr)) \<Longrightarrow> otrng_rsig_verify C (wire_sig C sigma) B1 B2 B3 t"
    using rsig_ok[OF laws _ ring] by blast
  let ?r = "auth_r_of C pA (our_instance_tag otr) (otr_their_instance_tag otr) ra sigma"
  have "dh_ok S (dh_pub (dh_of C (ra 3)))" by (rule dh_validE[OF G(2) v(1)]) (simp add: dh_ok_def)
  moreover have "fits_profile (ar_profile ?r)" using cl by (simp add: auth_r_of_def client_ok_def forget_check_profile)
  ultimately obtain bs where bs: "otrng_dake_auth_r_serialize C ?r = Some (Some bs)" "otrng_dake_auth_r_deserialize C Z bs = Some (wire_auth_r C ?r)"
    using auth_r_roundtrip[OF G, of ?r Z "[]"] v(2,3) by (auto simp: auth_r_of_def dh_ok_def)
  have "reply_with_auth_r_message C Z rnd otr = Some (Some (base64_otr_encode C bs), otr\<lparr>otr_shared_session_state := Some s\<rparr>)"
    using my_profile[OF cl refl] client_profile_ok(2)[OF cl G(1), of Z] tag q(1) sg(1) bs(1) keys
    by (simp add: reply_with_auth_r_message_def Let_def serialize_and_encode_auth_r_def auth_r_of_def our_instance_tag_def)
  from that[OF this message_headers(2)[OF bs(1)] bs(2) sg(2)] show ?thesis .
qed

text \<open>The secret of the exchange, from the keys of the responder and the public keys of the initiator.\<close>

definition dake_secret :: "('p, 's, 'm, 'h) crypto_ops \<Rightarrow> ('p, 's, 'm, 'h) crypto_sem \<Rightarrow> (nat \<Rightarrow> bytes) \<Rightarrow> (nat \<Rightarrow> bytes) \<Rightarrow> bytes" where
  "dake_secret C S ra rb = kdf S SHARED_SECRET_BYTES usage_shared_secret
     (the (otrng_ecdh_shared_secret C ED448_POINT_BYTES (ecdh_priv (ecdh_of C (ra 0))) (ecdh_pub (ecdh_of C (rb 0)))) @
      the (next_brace C S 0 (dh_priv (dh_of C (ra 2))) (dh_pub (dh_of C (rb 2))) (zeros BRACE_KEY_BYTES)))"

lemma dake_secret_agrees:
  assumes laws: "crypto_laws C S"
    and e: "otrng_ecdh_shared_secret C ED448_POINT_BYTES (ecdh_priv (ecdh_of C (ra 0))) (ecdh_pub (ecdh_of C (rb 0))) = Some e"
    and m: "km_i m = 0" "brace_key m = zeros BRACE_KEY_BYTES"
    and keys: "our_ecdh m = ecdh_of C (r 0)" "our_dh m = dh_of C (r 2)" "dlog S (their_ecdh m) = dlog S (ecdh_pub (ecdh_of C (r' 0)))"
      "map_option (mval S) (their_dh m) = map_option (mval S) (dh_pub (dh_of C (r' 2)))" "r = ra \<and> r' = rb \<or> r = rb \<and> r' = ra"
  obtains half where "otrng_key_manager_generate_shared_secret C Z True null m = (True, with_secret S Z (dake_secret C S ra rb) half m)"
proof -
  have G: "goldilocks_ok C S" "gcrypt_ok C S" and H: "sponge_ok C S" using laws by (simp_all add: crypto_laws_def)
  note g = generated_pairs[OF G H]
  let ?p = "\<lambda>r. dh_priv (dh_of C (r 2))" and ?q = "\<lambda>r. dh_pub (dh_of C (r 2))" and ?z = "zeros BRACE_KEY_BYTES"
  have pair: "has_dh_pair S (?p r') (their_dh m)" using has_dh_pair_cong[OF g(5) keys(4)] .
  have b1: "next_brace C S 0 (?p r) (their_dh m) ?z = next_brace C S 0 (?p r') (?q r) ?z"
    by (rule next_brace_agrees[OF G(2)]) (use g(5) pair in blast)
  have b2: "next_brace C S 0 (?p rb) (?q ra) ?z = next_brace C S 0 (?p ra) (?q rb) ?z"
    by (rule next_brace_agrees[OF G(2)]) (use g(5) in blast)
  obtain a D where a: "?p ra = Some a" "?q rb = Some D" using g(5)[of "ra 2"] g(5)[of "rb 2"] by (auto simp: has_dh_pair_def)
  then obtain bk where bk: "next_brace C S 0 (?p ra) (?q rb) ?z = Some bk"
    using dh_shared_secret_total[OF G(2), of a D] by (auto simp: next_brace_def)
  have "next_brace C S 0 (?p r) (their_dh m) ?z = Some bk" using b1 b2 bk keys(5) g(5) pair
      next_brace_agrees[OF G(2), of 0 "?p rb" "?q ra" "?p ra" "?q rb" ?z] by metis
  moreover have "otrng_ecdh_shared_secret C ED448_POINT_BYTES (ecdh_priv (our_ecdh m)) (their_ecdh m) = Some e"
    using e keys(5) otrng_ecdh_shared_secret_cong[OF G(1), of "their_ecdh m" "ecdh_priv (our_ecdh m)" "ecdh_pub (ecdh_of C (rb 0))" "ecdh_priv (ecdh_of C (ra 0))"]
    unfolding keys(1-3) by (auto simp: g(4) mult.commute)
  moreover obtain x where x: "dh_pub (our_dh m) = Some x" using g(5)[of "r 2"] keys(2) by (auto simp: has_dh_pair_def)
  moreover obtain y where y: "their_dh m = Some y" using pair by (auto simp: has_dh_pair_def)
  ultimately have "otrng_key_manager_generate_shared_secret C Z True null m =
      (True, with_secret S Z (dake_secret C S ra rb) (\<not> mpi_cmp C x y > 0) m)"
    using generate_shared_secret_eq[OF H, of m e bk x y Z null] e bk m keys(1,2) by (simp add: with_secret_def dake_secret_def)
  from that[OF this] show ?thesis .
qed

lemma receive_dispatch:
  assumes E: "encoding_ok C" and cl: "client_ok C S now (otr_client otr) p" and "allow_version otr OTRNG_ALLOW_V4"
    and "otr_running_version otr \<noteq> OTRNG_PROTOCOL_VERSION_3"
  shows "take 3 bs = [0, 4, IDENTITY_MSG_TYPE] \<Longrightarrow> otrng_receive_message C Z rnd now junk response (base64_otr_encode C bs) otr =
      answer_with (response\<lparr>to_display := None, to_send := None\<rparr>)
        (receive_identity_message C Z rnd now bs (otr\<lparr>otr_running_version := ucast OTRNG_PROTOCOL_VERSION_4\<rparr>))"
    and "take 3 bs = [0, 4, AUTH_R_MSG_TYPE] \<Longrightarrow> otrng_receive_message C Z rnd now junk response (base64_otr_encode C bs) otr =
      answer_with (response\<lparr>to_display := None, to_send := None\<rparr>) (receive_auth_r C Z rnd now bs otr)"
    and "take 3 bs = [0, 4, AUTH_I_MSG_TYPE] \<Longrightarrow> otrng_receive_message C Z rnd now junk response (base64_otr_encode C bs) otr =
      answer_with (response\<lparr>to_display := None, to_send := None\<rparr>) (receive_auth_i C Z rnd now bs otr)"
proof -
  have two: "take 2 bs = [0, 4]" if "take 3 bs = [0, 4, t]" for t using arg_cong[OF that, of "take 2"] by simp
  have d: "otrng_receive_message C Z rnd now junk response (base64_otr_encode C bs) otr =
      receive_decoded_message C Z rnd now junk (response\<lparr>to_display := None\<rparr>) bs otr" "extract_header bs = Some (OTRNG_PROTOCOL_VERSION_4, t)"
    if "take 3 bs = [0, 4, t]" for t
    using receive_encoded[OF E two[OF that] assms(4)] extract_header_v4[OF that] by simp_all
  show "take 3 bs = [0, 4, IDENTITY_MSG_TYPE] \<Longrightarrow> otrng_receive_message C Z rnd now junk response (base64_otr_encode C bs) otr =
      answer_with (response\<lparr>to_display := None, to_send := None\<rparr>)
        (receive_identity_message C Z rnd now bs (otr\<lparr>otr_running_version := ucast OTRNG_PROTOCOL_VERSION_4\<rparr>))"
    using d my_profile(1)[OF cl refl] assms(3) by (simp add: receive_decoded_message_def Let_def)
  show "take 3 bs = [0, 4, AUTH_R_MSG_TYPE] \<Longrightarrow> otrng_receive_message C Z rnd now junk response (base64_otr_encode C bs) otr =
      answer_with (response\<lparr>to_display := None, to_send := None\<rparr>) (receive_auth_r C Z rnd now bs otr)"
    using d my_profile(1)[OF cl refl] assms(3) by (simp add: receive_decoded_message_def Let_def const_defs)
  show "take 3 bs = [0, 4, AUTH_I_MSG_TYPE] \<Longrightarrow> otrng_receive_message C Z rnd now junk response (base64_otr_encode C bs) otr =
      answer_with (response\<lparr>to_display := None, to_send := None\<rparr>) (receive_auth_i C Z rnd now bs otr)"
    using d my_profile(1)[OF cl refl] assms(3) by (simp add: receive_decoded_message_def Let_def const_defs)
qed

text \<open>The random values that both sides draw serve their purpose.\<close>

definition draws_ok :: "('p, 's, 'm, 'h) crypto_ops \<Rightarrow> (nat \<Rightarrow> bytes) \<Rightarrow> (nat \<Rightarrow> bytes) \<Rightarrow> bool" where
  "draws_ok C ra rb \<longleftrightarrow> otrng_dh_mpi_valid C (dh_pub (dh_of C (rb 2))) \<and> otrng_dh_mpi_valid C (dh_pub (dh_of C (ra 2))) \<and>
     otrng_dh_mpi_valid C (dh_pub (dh_of C (ra 3))) \<and>
     otrng_ecdh_shared_secret C ED448_POINT_BYTES (ecdh_priv (ecdh_of C (ra 0))) (ecdh_pub (ecdh_of C (rb 0))) \<noteq> None"

lemma ring_matches_cong:
  assumes "goldilocks_ok C S" "list_all2 (\<lambda>p q. dlog S p = dlog S q) xs ys"
  shows "ring_matches C pub xs = ring_matches C pub ys"
  using assms(2) by (induction rule: list_all2_induct) (simp_all add: ring_matches_def goldilocks_point(7)[OF assms(1)])

lemma identity_answered:
  assumes laws: "crypto_laws C S" and a: "client_ok C S now clA pA" and b: "client_ok C S now clB pB" and draws: "draws_ok C ra rb"
    and A: "A = otrng_new Z clA allows policy" "allow_version A OTRNG_ALLOW_V4"
    and ring: "ring_matches C (kp_pub (cl_keypair clA)) [cp_forging_pub_key pB, kp_pub (cl_keypair clA), ecdh_pub (ecdh_of C (rb 0))] = 1"
    and s: "otrng_generate_session_state_string (cl_shared_session_state clA) = Some s"
    and msg: "otrng_dake_identity_message_deserialize C Z bs = Some (wire_identity C (identity_of C pB (cl_instance_tag clB) rb))"
      "take 3 bs = [0, 4, IDENTITY_MSG_TYPE]"
  obtains bs2 sigma half Bm Am where
    "otrng_receive_message C Z ra now junk response (base64_otr_encode C bs) A =
      Some (True, response\<lparr>to_display := None, to_send := Some (base64_otr_encode C bs2)\<rparr>,
        responder_waiting A (cl_instance_tag clB) (wire_profile C pB) s (with_secret S Z (dake_secret C S ra rb) half (responder_keys C Z ra rb now)))"
    "take 3 bs2 = [0, 4, AUTH_R_MSG_TYPE]"
    "otrng_dake_auth_r_deserialize C Z bs2 = Some (wire_auth_r C (auth_r_of C pA (cl_instance_tag clA) (cl_instance_tag clB) ra sigma))"
    "dh_pub (dh_of C (rb 2)) = Some Bm" "dh_pub (dh_of C (ra 2)) = Some Am"
    "\<And>B1 B2 B3. dlog S B1 = dlog S (cp_forging_pub_key pB) \<Longrightarrow> dlog S B2 = dlog S (kp_pub (cl_keypair clA)) \<Longrightarrow>
       dlog S B3 = dlog S (ecdh_pub (ecdh_of C (rb 0))) \<Longrightarrow> otrng_rsig_verify C (wire_sig C sigma) B1 B2 B3
         (interactive_tag C S Auth_r pB pA (ecdh_pub (ecdh_of C (rb 0))) (ecdh_pub (ecdh_of C (ra 0))) Bm Am
           (otrng_serialize_phi (ascii s) (ucast (cl_instance_tag clA)) (ucast (cl_instance_tag clB))))"
proof -
  have G: "goldilocks_ok C S" "gcrypt_ok C S" and H: "sponge_ok C S" and E: "encoding_ok C" using laws by (simp_all add: crypto_laws_def)
  obtain Bm where Bm: "dh_pub (dh_of C (rb 2)) = Some Bm" "in_dh_range S Bm" using draws by (auto simp: draws_ok_def elim: dh_validE[OF G(2)])
  obtain Am where Am: "dh_pub (dh_of C (ra 2)) = Some Am" "in_dh_range S Am" using draws by (auto simp: draws_ok_def elim: dh_validE[OF G(2)])
  note wB = client_profile_ok[OF b G(1)]
  have wv: "otrng_dh_mpi_valid C (Some (wire_mpi C Bm))"
    using draws Bm wire_mpi(4)[OF G(2) Bm(2)] dh_valid_cong[OF G(2)] by (metis draws_ok_def)
  let ?Y = "ecdh_pub (ecdh_of C (rb 0))" and ?k = "responder_keys C Z ra rb now" and ?q = "wire_profile C pB"
  let ?A = "A\<lparr>otr_running_version := ucast OTRNG_PROTOCOL_VERSION_4, otr_their_instance_tag := cl_instance_tag clB,
      otr_their_client_profile := Some ?q, otr_keys := ?k\<rparr>"
  have A1: "otr_client ?A = clA" "our_instance_tag ?A = cl_instance_tag clA" "otr_their_instance_tag ?A = cl_instance_tag clB"
    "otr_shared_session_state ?A = None" "otr_keys A = otrng_key_manager_init Z" "otr_state A = OTRNG_STATE_START"
    by (simp_all add: A(1) otrng_new_def our_instance_tag_def)
  have k: "our_ecdh ?k = ecdh_of C (ra 0)" "our_dh ?k = dh_of C (ra 2)" "our_ecdh_first ?k = ecdh_of C (ra 1)"
    "our_dh_first ?k = dh_of C (ra 3)" "their_ecdh ?k = wire_point C ?Y" "their_dh ?k = Some (wire_mpi C Bm)"
    "km_i ?k = 0" "brace_key ?k = zeros BRACE_KEY_BYTES" by (simp_all add: responder_keys_def Bm(1) otrng_key_manager_init_def)
  have ring': "ring_matches C (kp_pub (cl_keypair clA)) [cp_forging_pub_key ?q, kp_pub (cl_keypair clA), wire_point C ?Y] = 1"
    using ring ring_matches_cong[OF G(1), of "[cp_forging_pub_key ?q, kp_pub (cl_keypair clA), wire_point C ?Y]"
        "[cp_forging_pub_key pB, kp_pub (cl_keypair clA), ?Y]"] by (simp add: wire_point(3)[OF G(1)] wire_profile_def)
  let ?phi = "otrng_serialize_phi (ascii s) (ucast (cl_instance_tag clA)) (ucast (cl_instance_tag clB))"
  obtain bs2 sigma where r: "reply_with_auth_r_message C Z (later 4 ra) ?A = Some (Some (base64_otr_encode C bs2), ?A\<lparr>otr_shared_session_state := Some s\<rparr>)"
    "take 3 bs2 = [0, 4, AUTH_R_MSG_TYPE]"
    "otrng_dake_auth_r_deserialize C Z bs2 = Some (wire_auth_r C (auth_r_of C pA (our_instance_tag ?A) (otr_their_instance_tag ?A) ra sigma))"
    "\<And>B1 B2 B3. dlog S B1 = dlog S (cp_forging_pub_key ?q) \<Longrightarrow> dlog S B2 = dlog S (kp_pub (cl_keypair (otr_client ?A))) \<Longrightarrow>
       dlog S B3 = dlog S (their_ecdh (otr_keys ?A)) \<Longrightarrow> otrng_rsig_verify C (wire_sig C sigma) B1 B2 B3
        (interactive_tag C S Auth_r ?q pA (their_ecdh (otr_keys ?A)) (ecdh_pub (ecdh_of C (ra 0))) (wire_mpi C Bm) Am
         (otrng_serialize_phi (ascii s) (ucast (our_instance_tag ?A)) (ucast (otr_their_instance_tag ?A))))"
    by (rule reply_auth_r_ok[OF laws, where otr = ?A and q = ?q and ra = ra and Am = Am and Bm = "wire_mpi C Bm" and s = s and pA = pA and now = now and rnd = "later 4 ra" and Z = Z])
       (use a wB k A1 draws Am wire_bytes(3)[OF G Bm(2)] ring' s in \<open>simp_all add: draws_ok_def\<close>)
  obtain e where e: "otrng_ecdh_shared_secret C ED448_POINT_BYTES (ecdh_priv (ecdh_of C (ra 0))) ?Y = Some e"
    using draws by (auto simp: draws_ok_def)
  obtain half where h: "otrng_key_manager_generate_shared_secret C Z True (null_ratchet Z) ?k = (True, with_secret S Z (dake_secret C S ra rb) half ?k)"
    by (rule dake_secret_agrees[OF laws, where ra = ra and rb = rb and e = e and r = ra and r' = rb and m = ?k and Z = Z and null = "null_ratchet Z"])
       (use e k Bm wire_mpi(4)[OF G(2) Bm(2)] in \<open>simp_all add: wire_point(3)[OF G(1)]\<close>)
  have gen: "otrng_key_manager_generate_ephemeral_keys C Z ra now (otrng_key_manager_set_their_first_dh (Some (wire_mpi C Bm))
      (otrng_key_manager_set_their_first_ecdh (wire_point C ?Y) (otrng_key_manager_set_their_dh (Some (wire_mpi C Bm))
        (otrng_key_manager_set_their_ecdh (wire_point C ?Y) (otrng_key_manager_init Z))))) = (True, ?k)"
    by (subst ephemeral_keys_total[OF G H])
       (simp_all add: responder_keys_def Bm(1) otrng_key_manager_set_their_first_dh_def otrng_key_manager_set_their_first_ecdh_def
         otrng_key_manager_set_their_dh_def otrng_key_manager_set_their_ecdh_def otrng_key_manager_init_def)
  have tagB: "otrng_instance_tag_valid (cl_instance_tag clB)" using b by (simp add: client_ok_def)
  have "receive_identity_message C Z ra now bs (A\<lparr>otr_running_version := ucast OTRNG_PROTOCOL_VERSION_4\<rparr>) =
      Some (True, Some (base64_otr_encode C bs2), responder_waiting A (cl_instance_tag clB) ?q s (with_secret S Z (dake_secret C S ra rb) half ?k))"
    using msg(1) tagB valid_values[OF G(1) b wv] A1(5,6) gen r(1) h wB(3)[of Z]
    by (simp add: receive_identity_message_def wire_identity_def identity_of_def received_sender_instance_tag_def forget_check_profile Bm(1)
        receive_identity_message_on_state_start_def Let_def responder_waiting_def)
  then have "otrng_receive_message C Z ra now junk response (base64_otr_encode C bs) A =
      Some (True, response\<lparr>to_display := None, to_send := Some (base64_otr_encode C bs2)\<rparr>,
        responder_waiting A (cl_instance_tag clB) ?q s (with_secret S Z (dake_secret C S ra rb) half ?k))"
    using receive_dispatch(1)[OF E _ A(2) _ msg(2), of S now pA Z ra junk response] a A(1) by (simp add: otrng_new_def const_defs answer_with_def)
  moreover have "interactive_tag C S Auth_r ?q pA (wire_point C ?Y) (ecdh_pub (ecdh_of C (ra 0))) (wire_mpi C Bm) Am ?phi =
      interactive_tag C S Auth_r pB pA ?Y (ecdh_pub (ecdh_of C (ra 0))) Bm Am ?phi"
    by (rule interactive_tag_cong[OF G wB(5)]) (simp_all add: wire_point(3)[OF G(1)] wire_mpi(4)[OF G(2) Bm(2)])
  ultimately show ?thesis
    by (intro that[OF _ r(2) _ Bm(1) Am(1)]) (use r(3,4) A1(1-3) k(5) in \<open>simp_all add: wire_point(3)[OF G(1)] wire_profile_def\<close>)
qed

subsection \<open>Auth-I\<close>

text \<open>The initiator's manager when it knows the responder's keys.\<close>

definition initiator_answered ::
    "('p, 's, 'm, 'h) crypto_ops \<Rightarrow> ('p, 's) wiped \<Rightarrow> (nat \<Rightarrow> bytes) \<Rightarrow> (nat \<Rightarrow> bytes) \<Rightarrow> int \<Rightarrow> ('p, 's, 'm) key_manager_s" where
  "initiator_answered C Z ra rb now = (initiator_keys C Z rb now)\<lparr>
     their_ecdh := wire_point C (ecdh_pub (ecdh_of C (ra 0))), their_dh := map_option (wire_mpi C) (dh_pub (dh_of C (ra 2))),
     their_first_ecdh := wire_point C (ecdh_pub (ecdh_of C (ra 1))), their_first_dh := map_option (wire_mpi C) (dh_pub (dh_of C (ra 3)))\<rparr>"

lemma session_known: "otr_shared_session_state otr = Some s \<Longrightarrow> get_shared_session_state otr = (Some s, otr)"
  "otr_shared_session_state otr = None \<Longrightarrow> otrng_generate_session_state_string (cl_shared_session_state (otr_client otr)) = Some s \<Longrightarrow>
   get_shared_session_state otr = (Some s, otr\<lparr>otr_shared_session_state := Some s\<rparr>)"
  by (simp_all add: get_shared_session_state_def Let_def)

lemma reply_auth_i_ok:
  assumes laws: "crypto_laws C S" and cl: "client_ok C S now (otr_client otr) pB" and q: "fits_profile q"
    and v: "dh_pub (our_dh (otr_keys otr)) = Some Bm" "in_dh_range S Bm" "their_dh (otr_keys otr) = Some Am" "in_dh_range S Am"
    and ring: "ring_matches C (kp_pub (cl_keypair (otr_client otr))) [kp_pub (cl_keypair (otr_client otr)), cp_forging_pub_key q, their_ecdh (otr_keys otr)] = 1"
    and s: "otr_shared_session_state otr = Some s"
  defines "t \<equiv> interactive_tag C S Auth_i pB q (ecdh_pub (our_ecdh (otr_keys otr))) (their_ecdh (otr_keys otr)) Bm Am
     (otrng_serialize_phi (ascii s) (ucast (our_instance_tag otr)) (ucast (otr_their_instance_tag otr)))"
  obtains bs sigma where "reply_with_auth_i_message C rnd q otr = Some (Some (base64_otr_encode C bs), otr)"
    "take 3 bs = [0, 4, AUTH_I_MSG_TYPE]"
    "otrng_dake_auth_i_deserialize C bs = Some \<lparr>ai_sender_instance_tag = our_instance_tag otr,
       ai_receiver_instance_tag = otr_their_instance_tag otr, ai_sigma = wire_sig C sigma\<rparr>"
    "\<And>B1 B2 B3. dlog S B1 = dlog S (kp_pub (cl_keypair (otr_client otr))) \<Longrightarrow> dlog S B2 = dlog S (cp_forging_pub_key q) \<Longrightarrow>
       dlog S B3 = dlog S (their_ecdh (otr_keys otr)) \<Longrightarrow> otrng_rsig_verify C (wire_sig C sigma) B1 B2 B3 t"
proof -
  have G: "goldilocks_ok C S" "gcrypt_ok C S" and H: "sponge_ok C S" using laws by (simp_all add: crypto_laws_def)
  have o: "otr = otr\<lparr>otr_shared_session_state := Some s\<rparr>" using s by (cases otr) simp
  have tag: "generate_receiving_rsig_tag C Auth_i (participant_data q (their_ecdh (otr_keys otr)) (their_dh (otr_keys otr))) otr = Some (Some t, otr)"
    using receiving_tag[OF G H cl q v(4,1,2) session_known(1)[OF s] o] v(3) by (simp add: t_def)
  have "dlog S (kp_pub (cl_keypair (otr_client otr))) = sval S (kp_priv (cl_keypair (otr_client otr)))" using cl by (simp add: client_ok_def)
  then obtain sigma where sg: "otrng_rsig_authenticate C rnd (kp_priv (cl_keypair (otr_client otr))) (kp_pub (cl_keypair (otr_client otr)))
      (kp_pub (cl_keypair (otr_client otr))) (cp_forging_pub_key q) (their_ecdh (otr_keys otr)) t = Some sigma"
    "\<And>B1 B2 B3. dlog S B1 = dlog S (kp_pub (cl_keypair (otr_client otr))) \<Longrightarrow> dlog S B2 = dlog S (cp_forging_pub_key q) \<Longrightarrow>
       dlog S B3 = dlog S (their_ecdh (otr_keys otr)) \<Longrightarrow> otrng_rsig_verify C (wire_sig C sigma) B1 B2 B3 t"
    using rsig_ok[OF laws _ ring] by blast
  let ?i = "\<lparr>ai_sender_instance_tag = our_instance_tag otr, ai_receiver_instance_tag = otr_their_instance_tag otr, ai_sigma = sigma\<rparr>"
  obtain bs where bs: "otrng_dake_auth_i_serialize C ?i = Some bs" "otrng_dake_auth_i_deserialize C bs = Some (?i\<lparr>ai_sigma := wire_sig C sigma\<rparr>)"
    using auth_i_roundtrip[OF G(1), of ?i "[]"] by auto
  have "reply_with_auth_i_message C rnd q otr = Some (Some (base64_otr_encode C bs), otr)"
    using tag sg(1) bs(1) by (simp add: reply_with_auth_i_message_def serialize_and_encode_auth_i_def Let_def)
  moreover have "otrng_dake_auth_i_deserialize C bs = Some \<lparr>ai_sender_instance_tag = our_instance_tag otr,
       ai_receiver_instance_tag = otr_their_instance_tag otr, ai_sigma = wire_sig C sigma\<rparr>" using bs(2) by simp
  ultimately show ?thesis by (rule that[OF _ message_headers(3)[OF bs(1)] _ sg(2)])
qed

definition fingerprint_events :: "('p, 's, 'm, 'h) crypto_ops \<Rightarrow> 'p otrng_client_profile_s \<Rightarrow> callback list" where
  "fingerprint_events C q = (case otrng_serialize_fingerprint C (cp_long_term_pub_key q) (cp_forging_pub_key q) of
     None \<Rightarrow> [] | Some fp \<Rightarrow> [Fingerprint_seen fp])"

lemma see_fingerprint_eq: "see_fingerprint C q otr = otr\<lparr>otr_events := otr_events otr @ fingerprint_events C q\<rparr>"
  by (simp add: see_fingerprint_def raise_event_def fingerprint_events_def split: option.splits)

lemma auth_r_answered:
  assumes laws: "crypto_laws C S" and a: "client_ok C S now clA pA" and b: "client_ok C S now clB pB" and draws: "draws_ok C ra rb"
    and B: "B = (otrng_new Z clB allows policy)\<lparr>otr_running_version := ucast OTRNG_PROTOCOL_VERSION_4,
        otr_state := OTRNG_STATE_WAITING_AUTH_R, otr_keys := initiator_keys C Z rb now\<rparr>" "allow_version B OTRNG_ALLOW_V4"
    and ring: "ring_matches C (kp_pub (cl_keypair clB)) [kp_pub (cl_keypair clB), cp_forging_pub_key pA, ecdh_pub (ecdh_of C (ra 0))] = 1"
    and s: "otrng_generate_session_state_string (cl_shared_session_state clB) = Some s"
    and msg: "otrng_dake_auth_r_deserialize C Z bs = Some (wire_auth_r C (auth_r_of C pA (cl_instance_tag clA) (cl_instance_tag clB) ra sigma))"
      "take 3 bs = [0, 4, AUTH_R_MSG_TYPE]" "dh_pub (dh_of C (rb 2)) = Some Bm" "dh_pub (dh_of C (ra 2)) = Some Am"
      "\<And>B1 B2 B3. dlog S B1 = dlog S (cp_forging_pub_key pB) \<Longrightarrow> dlog S B2 = dlog S (kp_pub (cl_keypair clA)) \<Longrightarrow>
       dlog S B3 = dlog S (ecdh_pub (ecdh_of C (rb 0))) \<Longrightarrow> otrng_rsig_verify C (wire_sig C sigma) B1 B2 B3
         (interactive_tag C S Auth_r pB pA (ecdh_pub (ecdh_of C (rb 0))) (ecdh_pub (ecdh_of C (ra 0))) Bm Am
           (otrng_serialize_phi (ascii s) (ucast (cl_instance_tag clA)) (ucast (cl_instance_tag clB))))"
    and init: "\<And>half. \<exists>K. otrng_key_manager_ratcheting_init C Z Participant_u
        (use_first_keys (with_secret S Z (dake_secret C S ra rb) half (initiator_answered C Z ra rb now))) = (True, K)"
  obtains bs2 sigma2 half K ev where
    "otrng_receive_message C Z rb2 now junk response (base64_otr_encode C bs) B =
      Some (True, response\<lparr>to_display := None, to_send := Some (base64_otr_encode C bs2)\<rparr>,
        B\<lparr>otr_their_instance_tag := cl_instance_tag clA, otr_shared_session_state := Some s, otr_their_client_profile := Some (wire_profile C pA),
          otr_keys := otrng_key_manager_wipe_shared_prekeys Z K, otr_events := ev, otr_state := OTRNG_STATE_WAITING_DAKE_DATA_MESSAGE\<rparr>)"
    "otrng_key_manager_ratcheting_init C Z Participant_u
        (use_first_keys (with_secret S Z (dake_secret C S ra rb) half (initiator_answered C Z ra rb now))) = (True, K)"
    "take 3 bs2 = [0, 4, AUTH_I_MSG_TYPE]"
    "otrng_dake_auth_i_deserialize C bs2 = Some \<lparr>ai_sender_instance_tag = cl_instance_tag clB,
       ai_receiver_instance_tag = cl_instance_tag clA, ai_sigma = wire_sig C sigma2\<rparr>"
    "\<And>B1 B2 B3. dlog S B1 = dlog S (kp_pub (cl_keypair clB)) \<Longrightarrow> dlog S B2 = dlog S (cp_forging_pub_key pA) \<Longrightarrow>
       dlog S B3 = dlog S (ecdh_pub (ecdh_of C (ra 0))) \<Longrightarrow> otrng_rsig_verify C (wire_sig C sigma2) B1 B2 B3
         (interactive_tag C S Auth_i pB pA (ecdh_pub (ecdh_of C (rb 0))) (ecdh_pub (ecdh_of C (ra 0))) Bm Am
           (otrng_serialize_phi (ascii s) (ucast (cl_instance_tag clA)) (ucast (cl_instance_tag clB))))"
proof -
  have G: "goldilocks_ok C S" "gcrypt_ok C S" and H: "sponge_ok C S" and E: "encoding_ok C" using laws by (simp_all add: crypto_laws_def)
  have range: "in_dh_range S Bm" "in_dh_range S Am" using draws msg(3,4) by (auto simp: draws_ok_def elim: dh_validE[OF G(2)])
  obtain A1m where A1m: "dh_pub (dh_of C (ra 3)) = Some A1m" "in_dh_range S A1m" using draws by (auto simp: draws_ok_def elim: dh_validE[OF G(2)])
  have wv: "otrng_dh_mpi_valid C (Some (wire_mpi C Am))" "otrng_dh_mpi_valid C (Some (wire_mpi C A1m))"
    using draws msg(4) A1m wire_mpi(4)[OF G(2) range(2)] wire_mpi(4)[OF G(2) A1m(2)] dh_valid_cong[OF G(2)] by (metis draws_ok_def)+
  note wA = client_profile_ok[OF a G(1)]
  let ?Y = "ecdh_pub (ecdh_of C (rb 0))" and ?X = "ecdh_pub (ecdh_of C (ra 0))" and ?q = "wire_profile C pA"
  let ?ik = "initiator_keys C Z rb now" and ?k = "initiator_answered C Z ra rb now" and ?K = "dake_secret C S ra rb"
  let ?phi = "otrng_serialize_phi (ascii s) (ucast (cl_instance_tag clA)) (ucast (cl_instance_tag clB))"
  let ?B1 = "B\<lparr>otr_their_instance_tag := cl_instance_tag clA, otr_shared_session_state := Some s\<rparr>"
  let ?B2 = "?B1\<lparr>otr_keys := ?k, otr_their_client_profile := Some ?q\<rparr>"
  have Bf: "otr_client B = clB" "our_instance_tag B = cl_instance_tag clB" "otr_shared_session_state B = None" "otr_keys B = ?ik"
    "otr_state B = OTRNG_STATE_WAITING_AUTH_R" "otr_running_version B = ucast OTRNG_PROTOCOL_VERSION_4"
    by (simp_all add: B(1) otrng_new_def our_instance_tag_def)
  have k: "our_ecdh ?ik = ecdh_of C (rb 0)" "our_dh ?ik = dh_of C (rb 2)" "our_ecdh ?k = ecdh_of C (rb 0)" "our_dh ?k = dh_of C (rb 2)"
    "their_ecdh ?k = wire_point C ?X" "their_dh ?k = Some (wire_mpi C Am)" "km_i ?k = 0" "brace_key ?k = zeros BRACE_KEY_BYTES"
    by (simp_all add: initiator_answered_def initiator_keys_def msg(4) otrng_key_manager_init_def)
  have tags: "otrng_instance_tag_valid (cl_instance_tag clA)" "valid_receiver_instance_tag (cl_instance_tag clB)"
    using a b by (auto simp: client_ok_def valid_receiver_instance_tag_def otrng_instance_tag_valid_def const_defs split: if_splits)
  have set: "otrng_key_manager_set_their_first_dh (Some (wire_mpi C A1m)) (otrng_key_manager_set_their_first_ecdh (wire_point C (ecdh_pub (ecdh_of C (ra 1))))
      (otrng_key_manager_set_their_dh (Some (wire_mpi C Am)) (otrng_key_manager_set_their_ecdh (wire_point C ?X) ?ik))) = ?k"
    by (simp add: initiator_answered_def msg(4) A1m(1) otrng_key_manager_set_their_first_dh_def otrng_key_manager_set_their_first_ecdh_def
         otrng_key_manager_set_their_dh_def otrng_key_manager_set_their_ecdh_def)
  have cong: "interactive_tag C S ty pB ?q ?Y (wire_point C ?X) Bm (wire_mpi C Am) ?phi = interactive_tag C S ty pB pA ?Y ?X Bm Am ?phi" for ty
    by (rule interactive_tag_cong[OF G refl wA(5)]) (simp_all add: wire_point(3)[OF G(1)] wire_mpi(4)[OF G(2) range(2)])
  have phi: "otrng_serialize_phi (ascii s) (ucast (cl_instance_tag clB)) (ucast (cl_instance_tag clA)) = ?phi" by (rule phi_symmetric)
  have keysB: "dlog S (cl_forging_key clB) = dlog S (cp_forging_pub_key pB)" "dlog S (cp_long_term_pub_key pA) = dlog S (kp_pub (cl_keypair clA))"
    using a b by (simp_all add: client_ok_def)
  have tag: "generate_receiving_rsig_tag C Auth_r (participant_data ?q (wire_point C ?X) (Some (wire_mpi C Am))) (B\<lparr>otr_their_instance_tag := cl_instance_tag clA\<rparr>) =
      Some (Some (interactive_tag C S Auth_r pB pA ?Y ?X Bm Am ?phi), ?B1)"
    using receiving_tag[OF G H, of now "B\<lparr>otr_their_instance_tag := cl_instance_tag clA\<rparr>" pB ?q "wire_mpi C Am" Bm s ?B1 Auth_r "wire_point C ?X"]
      b wA(4) wire_bytes(3)[OF G range(2)] k(1,2) msg(3) range(1) Bf s
    by (simp add: session_known(2) our_instance_tag_def cong phi)
  have wk: "cp_long_term_pub_key ?q = wire_point C (cp_long_term_pub_key pA)" "cp_forging_pub_key ?q = wire_point C (cp_forging_pub_key pA)"
    by (simp_all add: wire_profile_def)
  have valid: "valid_auth_r_message C now (wire_auth_r C (auth_r_of C pA (cl_instance_tag clA) (cl_instance_tag clB) ra sigma)) (B\<lparr>otr_their_instance_tag := cl_instance_tag clA\<rparr>) =
      Some (True, ?B1)"
    using valid_values[OF G(1) a wv(1)] valid_values[OF G(1) a wv(2)] tag msg(4,5) A1m(1) Bf keysB k(1)
    by (simp add: valid_auth_r_message_def wire_auth_r_def auth_r_of_def forget_check_profile wk wire_point(3)[OF G(1)])
  have ring': "ring_matches C (kp_pub (cl_keypair clB)) [kp_pub (cl_keypair clB), cp_forging_pub_key ?q, wire_point C ?X] = 1"
    using ring ring_matches_cong[OF G(1), of "[kp_pub (cl_keypair clB), cp_forging_pub_key ?q, wire_point C ?X]"
        "[kp_pub (cl_keypair clB), cp_forging_pub_key pA, ?X]"] by (simp add: wire_point(3)[OF G(1)] wk)
  obtain bs2 sigma2 where r: "reply_with_auth_i_message C rb2 ?q ?B2 = Some (Some (base64_otr_encode C bs2), ?B2)"
    "take 3 bs2 = [0, 4, AUTH_I_MSG_TYPE]"
    "otrng_dake_auth_i_deserialize C bs2 = Some \<lparr>ai_sender_instance_tag = our_instance_tag ?B2,
       ai_receiver_instance_tag = otr_their_instance_tag ?B2, ai_sigma = wire_sig C sigma2\<rparr>"
    "\<And>B1 B2 B3. dlog S B1 = dlog S (kp_pub (cl_keypair (otr_client ?B2))) \<Longrightarrow> dlog S B2 = dlog S (cp_forging_pub_key ?q) \<Longrightarrow>
       dlog S B3 = dlog S (their_ecdh (otr_keys ?B2)) \<Longrightarrow> otrng_rsig_verify C (wire_sig C sigma2) B1 B2 B3
        (interactive_tag C S Auth_i pB ?q (ecdh_pub (our_ecdh (otr_keys ?B2))) (their_ecdh (otr_keys ?B2)) Bm (wire_mpi C Am)
          (otrng_serialize_phi (ascii s) (ucast (our_instance_tag ?B2)) (ucast (otr_their_instance_tag ?B2))))"
    by (rule reply_auth_i_ok[OF laws, where otr = ?B2 and q = ?q and Am = "wire_mpi C Am" and Bm = Bm and s = s and pB = pB and now = now and rnd = rb2])
       (use b wA(4) k Bf msg(3) range wire_bytes(3)[OF G range(2)] ring' in simp_all)
  obtain e where e: "otrng_ecdh_shared_secret C ED448_POINT_BYTES (ecdh_priv (ecdh_of C (ra 0))) ?Y = Some e"
    using draws by (auto simp: draws_ok_def)
  obtain half where h: "otrng_key_manager_generate_shared_secret C Z True (null_ratchet Z) ?k = (True, with_secret S Z ?K half ?k)"
    by (rule dake_secret_agrees[OF laws, where ra = ra and rb = rb and e = e and r = rb and r' = ra and m = ?k and Z = Z and null = "null_ratchet Z"])
       (use e k msg(4) wire_mpi(4)[OF G(2) range(2)] in \<open>simp_all add: wire_point(3)[OF G(1)]\<close>)
  obtain K where K: "otrng_key_manager_ratcheting_init C Z Participant_u (use_first_keys (with_secret S Z ?K half ?k)) = (True, K)"
    using init by blast
  let ?ev = "otr_events B @ fingerprint_events C ?q @ [Gone_secure]"
  have "receive_auth_r C Z rb2 now bs B = Some (True, Some (base64_otr_encode C bs2),
      B\<lparr>otr_their_instance_tag := cl_instance_tag clA, otr_shared_session_state := Some s, otr_their_client_profile := Some ?q,
          otr_keys := otrng_key_manager_wipe_shared_prekeys Z K, otr_events := ?ev, otr_state := OTRNG_STATE_WAITING_DAKE_DATA_MESSAGE\<rparr>)"
    using msg(1) tags Bf valid wA(3)[of Z] r(1) h K set msg(4) A1m(1)
    by (simp add: receive_auth_r_def received_sender_instance_tag_def wire_auth_r_def auth_r_of_def forget_check_profile Let_def
        see_fingerprint_eq double_ratcheting_init_def raise_event_def our_instance_tag_def)
  then have "otrng_receive_message C Z rb2 now junk response (base64_otr_encode C bs) B =
      Some (True, response\<lparr>to_display := None, to_send := Some (base64_otr_encode C bs2)\<rparr>,
        B\<lparr>otr_their_instance_tag := cl_instance_tag clA, otr_shared_session_state := Some s, otr_their_client_profile := Some ?q,
          otr_keys := otrng_key_manager_wipe_shared_prekeys Z K, otr_events := ?ev, otr_state := OTRNG_STATE_WAITING_DAKE_DATA_MESSAGE\<rparr>)"
    using receive_dispatch(2)[OF E _ B(2) _ msg(2), of S now pB Z rb2 junk response] b Bf by (simp add: const_defs answer_with_def)
  then show ?thesis
    by (rule that[OF _ K r(2)])
       (use r(3,4) Bf k phi in \<open>simp_all add: wk wire_point(3)[OF G(1)] our_instance_tag_def cong\<close>)
qed

subsection \<open>The first ratchet\<close>

lemma ratcheting_init_frame:
  assumes "otrng_key_manager_ratcheting_init C Z participant m = (True, m')"
  shows "km_i m' = 0" "km_j m' = 0" "km_k m' = 0" "km_pn m' = 0" "skipped_keys m' = skipped_keys m" "old_mac_keys m' = old_mac_keys m"
    "ssid m' = ssid m" "participant = Participant_u \<longrightarrow> their_ecdh m' = their_ecdh m"
  using assms
  by (auto simp: otrng_key_manager_ratcheting_init_def generate_first_ephemeral_keys_def km_parts split: option.splits if_splits prod.splits participant.splits)

lemma use_first_frame:
  "shared_secret (use_first_keys m) = shared_secret m" "brace_key (use_first_keys m) = brace_key m"
  "skipped_keys (use_first_keys m) = skipped_keys m" "old_mac_keys (use_first_keys m) = old_mac_keys m" "ssid (use_first_keys m) = ssid m"
  "their_ecdh (use_first_keys m) = their_first_ecdh m"
  by (simp_all add: use_first_keys_def Let_def)

lemma wipe_frame:
  "ready S (otrng_key_manager_wipe_shared_prekeys Z A) (otrng_key_manager_wipe_shared_prekeys Z B) = ready S A B"
  "ssid (otrng_key_manager_wipe_shared_prekeys Z A) = ssid A" "old_mac_keys (otrng_key_manager_wipe_shared_prekeys Z A) = old_mac_keys A"
  "their_ecdh (otrng_key_manager_wipe_shared_prekeys Z A) = their_ecdh A" "km_i (otrng_key_manager_wipe_shared_prekeys Z A) = km_i A"
  "km_j (otrng_key_manager_wipe_shared_prekeys Z A) = km_j A"
  by (simp_all add: ready_def ratchet_sync_def otrng_key_manager_wipe_shared_prekeys_def)

text \<open>The point that both sides take for the responder's peer in the first ratchet.\<close>

definition first_point :: "('p, 's, 'm, 'h) crypto_ops \<Rightarrow> ('p, 's, 'm, 'h) crypto_sem \<Rightarrow> bytes \<Rightarrow> 'p" where
  "first_point C S K = ecdh_pub (ecdh_of C (kdf S ED448_PRIVATE_BYTES 0x12 K))"

lemma ratcheting_init_point:
  assumes G: "goldilocks_ok C S" "gcrypt_ok C S" and H: "sponge_ok C S"
    and "otrng_key_manager_ratcheting_init C Z Participant_t m = (True, m')"
  shows "their_ecdh m' = first_point C S (shared_secret m)" "their_dh m' \<noteq> None"
proof -
  obtain q where q: "otrng_ec_point_decode C (derive_public_key C (kdf S ED448_PRIVATE_BYTES 0x12 (shared_secret m))) = Some q"
    "otrng_ecdh_keypair_generate C (kdf S ED448_PRIVATE_BYTES 0x12 (shared_secret m)) =
       Some \<lparr>ecdh_priv = derive_secret_scalar C (kdf S ED448_PRIVATE_BYTES 0x12 (shared_secret m)), ecdh_pub = q\<rparr>"
    by (rule ecdh_keypair_total[OF G(1)])
  have "first_point C S (shared_secret m) = q" by (simp add: first_point_def ecdh_of_def q(2))
  then show "their_ecdh m' = first_point C S (shared_secret m)" "their_dh m' \<noteq> None"
    using assms(4) q(1)
    by (auto simp: otrng_key_manager_ratcheting_init_def generate_first_ephemeral_keys_def km_parts kdf_eqs[OF H]
        otrng_ecdh_keypair_generate_their_def otrng_dh_keypair_generate_from_shared_secret_def bind_eq_Some_conv split: option.splits if_splits prod.splits)
qed

definition first_draws_ok ::
    "('p, 's, 'm, 'h) crypto_ops \<Rightarrow> ('p, 's, 'm, 'h) crypto_sem \<Rightarrow> (nat \<Rightarrow> bytes) \<Rightarrow> bytes \<Rightarrow> 'p \<Rightarrow> bool" where
  "first_draws_ok C S rc K X1 \<longleftrightarrow> length (rc 4) = DATA_MSG_NONCE_BYTES \<and> otrng_dh_mpi_valid C (dh_pub (dh_of C (rc 2))) \<and>
     otrng_ecdh_shared_secret C ED448_POINT_BYTES (derive_secret_scalar C (rc 0)) (first_point C S K) \<noteq> None \<and>
     dlog S (ecdh_pub (ecdh_of C (rc 0))) \<noteq> dlog S X1"

lemma first_usable:
  assumes G: "goldilocks_ok C S" "gcrypt_ok C S" and H: "sponge_ok C S"
    and A: "km_i A = 0" "km_j A = 0" "their_ecdh A = first_point C S K" "their_dh A \<noteq> None"
    and B: "dlog S (their_ecdh B) = dlog S X1" and d: "first_draws_ok C S rc K X1"
  shows "usable C S Z rc now A B"
proof -
  obtain e where e: "otrng_ecdh_shared_secret C ED448_POINT_BYTES (derive_secret_scalar C (rc 0)) (their_ecdh A) = Some e"
    using d A(3) by (auto simp: first_draws_ok_def)
  have "unat (km_i A) mod 3 = 0 \<longrightarrow> their_dh A \<noteq> None" using A(4) by blast
  from rotate_send_total[OF G H, of rc A e, OF e this] obtain A' where r: "rotate_keys C Z rc now Send (A, null_ratchet Z) = (True, (A', null_ratchet Z))" by blast
  have "our_ecdh A' = ecdh_of C (rc 0) \<and> our_dh A' = dh_of C (rc 2)"
    using r ephemeral_keys_total[OF G H A(1), of Z rc now]
    by (auto simp: rotate_keys_def enter_new_ratchet_def calculate_brace_key_def calculate_shared_secret_def
      key_manager_derive_ratchet_keys_def km_parts split: option.splits if_splits prod.splits)
  then show ?thesis using r A(1,2) B d by (simp add: usable_def first_draws_ok_def)
qed

subsection \<open>Auth-I arrives\<close>

lemma auth_i_accepted:
  assumes laws: "crypto_laws C S" and a: "client_ok C S now clA pA" and b: "client_ok C S now clB pB" and draws: "draws_ok C ra rb"
    and A: "A = responder_waiting (otrng_new Z clA allows policy) (cl_instance_tag clB) (wire_profile C pB) s
        (with_secret S Z (dake_secret C S ra rb) half (responder_keys C Z ra rb now))" "allow_version A OTRNG_ALLOW_V4"
    and msg: "otrng_dake_auth_i_deserialize C bs = Some \<lparr>ai_sender_instance_tag = cl_instance_tag clB,
         ai_receiver_instance_tag = cl_instance_tag clA, ai_sigma = wire_sig C sigma\<rparr>"
      "take 3 bs = [0, 4, AUTH_I_MSG_TYPE]" "dh_pub (dh_of C (rb 2)) = Some Bm" "dh_pub (dh_of C (ra 2)) = Some Am"
      "\<And>B1 B2 B3. dlog S B1 = dlog S (kp_pub (cl_keypair clB)) \<Longrightarrow> dlog S B2 = dlog S (cp_forging_pub_key pA) \<Longrightarrow>
       dlog S B3 = dlog S (ecdh_pub (ecdh_of C (ra 0))) \<Longrightarrow> otrng_rsig_verify C (wire_sig C sigma) B1 B2 B3
         (interactive_tag C S Auth_i pB pA (ecdh_pub (ecdh_of C (rb 0))) (ecdh_pub (ecdh_of C (ra 0))) Bm Am
           (otrng_serialize_phi (ascii s) (ucast (cl_instance_tag clA)) (ucast (cl_instance_tag clB))))"
    and init: "otrng_key_manager_ratcheting_init C Z Participant_t (use_first_keys (otr_keys A)) = (True, K)"
    and A2: "A2 = A\<lparr>otr_state := OTRNG_STATE_ENCRYPTED_MESSAGES,
        otr_events := otr_events A @ fingerprint_events C (wire_profile C pB) @ [Gone_secure],
        otr_keys := otrng_key_manager_wipe_shared_prekeys Z K\<rparr>"
    and send: "otrng_send_message C Z rc now [] [] MSG_FLAGS_IGNORE_UNREADABLE A2 = Some (Some w, A3)"
  shows "otrng_receive_message C Z rc now junk response (base64_otr_encode C bs) A =
      Some (True, response\<lparr>to_display := None, to_send := Some w\<rparr>, A3)"
proof -
  have G: "goldilocks_ok C S" "gcrypt_ok C S" and H: "sponge_ok C S" and E: "encoding_ok C" using laws by (simp_all add: crypto_laws_def)
  have range: "in_dh_range S Bm" "in_dh_range S Am" using draws msg(3,4) by (auto simp: draws_ok_def elim: dh_validE[OF G(2)])
  note wB = client_profile_ok[OF b G(1)]
  let ?Y = "ecdh_pub (ecdh_of C (rb 0))" and ?X = "ecdh_pub (ecdh_of C (ra 0))" and ?q = "wire_profile C pB"
  let ?phi = "otrng_serialize_phi (ascii s) (ucast (cl_instance_tag clA)) (ucast (cl_instance_tag clB))"
  have Af: "otr_client A = clA" "our_instance_tag A = cl_instance_tag clA" "otr_their_instance_tag A = cl_instance_tag clB"
    "otr_shared_session_state A = Some s" "otr_their_client_profile A = Some ?q" "otr_state A = OTRNG_STATE_WAITING_AUTH_I"
    "otr_running_version A = ucast OTRNG_PROTOCOL_VERSION_4" "A\<lparr>otr_their_instance_tag := cl_instance_tag clB\<rparr> = A"
    by (simp_all add: A(1) responder_waiting_def otrng_new_def our_instance_tag_def)
  have k: "ecdh_pub (our_ecdh (otr_keys A)) = ?X" "dh_pub (our_dh (otr_keys A)) = Some Am" "their_ecdh (otr_keys A) = wire_point C ?Y"
    "their_dh (otr_keys A) = Some (wire_mpi C Bm)"
    using msg(3,4) by (simp_all add: A(1) responder_waiting_def with_secret_def responder_keys_def otrng_dh_priv_key_destroy_def)
  have o: "A = A\<lparr>otr_shared_session_state := Some s\<rparr>" using Af(4) by (cases A) simp
  have cong: "interactive_tag C S Auth_i ?q pA (wire_point C ?Y) ?X (wire_mpi C Bm) Am ?phi = interactive_tag C S Auth_i pB pA ?Y ?X Bm Am ?phi"
    by (rule interactive_tag_cong[OF G wB(5) refl]) (simp_all add: wire_point(3)[OF G(1)] wire_mpi(4)[OF G(2) range(1)])
  have tag: "generate_sending_rsig_tag C Auth_i A = Some (Some (interactive_tag C S Auth_i pB pA ?Y ?X Bm Am ?phi), A)"
    using sending_tag[OF G H _ Af(5) wB(4) k(4) wire_bytes(3)[OF G range(1)] k(2) range(2) session_known(1)[OF Af(4)] o, of now pA Auth_i] a Af k cong
    by simp
  have keysA: "dlog S (cl_forging_key clA) = dlog S (cp_forging_pub_key pA)" "dlog S (cp_long_term_pub_key ?q) = dlog S (kp_pub (cl_keypair clB))"
    using a b by (simp_all add: client_ok_def wire_profile_def wire_point(3)[OF G(1)])
  have valid: "valid_auth_i_message C \<lparr>ai_sender_instance_tag = cl_instance_tag clB,
         ai_receiver_instance_tag = cl_instance_tag clA, ai_sigma = wire_sig C sigma\<rparr> A = Some (True, A)"
    using tag Af(1,5) msg(5) keysA k(1) by (simp add: valid_auth_i_message_def)
  have tags: "otrng_instance_tag_valid (cl_instance_tag clB)" "valid_receiver_instance_tag (cl_instance_tag clA)"
    using a b by (auto simp: client_ok_def valid_receiver_instance_tag_def otrng_instance_tag_valid_def const_defs split: if_splits)
  have "receive_auth_i C Z rc now bs A = Some (True, Some w, A3)"
    using msg(1) tags Af(1-7) valid init send
    by (simp add: Af(8) receive_auth_i_def received_sender_instance_tag_def Let_def see_fingerprint_eq double_ratcheting_init_def raise_event_def A2)
  then show ?thesis
    using receive_dispatch(3)[OF E _ A(2) _ msg(2), of S now pA Z rc junk response] a Af by (simp add: const_defs answer_with_def)
qed

subsection \<open>The whole exchange\<close>

lemma new_side_ok:
  assumes "client_ok C S now cl p" "allow_version (otrng_new Z cl allows policy) OTRNG_ALLOW_V4" "old_mac_keys (otr_keys otr) = None"
    and "otr_client otr = cl" "otr_running_version otr = ucast OTRNG_PROTOCOL_VERSION_4" "otr_supported_versions otr = allows"
      "otr_mac_heap otr = otr_mac_heap (otrng_new Z cl allows policy)"
  shows "side_ok otr"
  using assms
  by (auto simp: side_ok_def client_ok_def mac_keys_ok_def our_instance_tag_def allow_version_def otrng_new_def is_list_def heap_ok_def contents_def
      intro!: exI[of _ "[]"])

lemma query_of_v4:
  assumes "allow_version (otrng_new Z cl allows policy) OTRNG_ALLOW_V4"
  obtains vs where "otrng_build_query_message [] (otrng_new Z cl allows policy) = Some (query_header @ vs @ ''? '')" "vs = ''4'' \<or> vs = ''43''"
proof (rule that)
  let ?o = "otrng_new Z cl allows policy"
  show "otrng_build_query_message [] ?o = Some (query_header @ allowed_versions ?o @ ''? '')"
    by (simp add: otrng_build_query_message_def otrng_new_def)
  show "allowed_versions ?o = ''4'' \<or> allowed_versions ?o = ''43''" using assms by (simp add: allowed_versions_def)
qed

lemma first_ratchets:
  assumes laws: "crypto_laws C S" and d: "first_draws_ok C S rc (dake_secret C S ra rb) (ecdh_pub (ecdh_of C (ra 1)))"
  obtains KA KB where
    "otrng_key_manager_ratcheting_init C Z Participant_t (use_first_keys (with_secret S Z (dake_secret C S ra rb) half (responder_keys C Z ra rb now))) = (True, KA)"
    "otrng_key_manager_ratcheting_init C Z Participant_u (use_first_keys (with_secret S Z (dake_secret C S ra rb) half' (initiator_answered C Z ra rb now))) = (True, KB)"
    "ready S KA KB" "ssid KA = ssid KB" "old_mac_keys KA = None" "old_mac_keys KB = None"
    "usable C S Z rc now (otrng_key_manager_wipe_shared_prekeys Z KA) (otrng_key_manager_wipe_shared_prekeys Z KB)"
proof -
  have G: "goldilocks_ok C S" "gcrypt_ok C S" and H: "sponge_ok C S" using laws by (simp_all add: crypto_laws_def)
  let ?K = "dake_secret C S ra rb" and ?z = "otrng_key_manager_wipe_shared_prekeys Z"
  let ?a = "use_first_keys (with_secret S Z ?K half (responder_keys C Z ra rb now))"
    and ?b = "use_first_keys (with_secret S Z ?K half' (initiator_answered C Z ra rb now))"
  have "\<exists>KA KB. otrng_key_manager_ratcheting_init C Z Participant_t ?a = (True, KA) \<and>
      otrng_key_manager_ratcheting_init C Z Participant_u ?b = (True, KB) \<and> ratchet_sync S KA KB"
    by (rule ratcheting_init_sync[OF G H]) (simp_all add: use_first_frame with_secret_def)
  then obtain KA KB where K: "otrng_key_manager_ratcheting_init C Z Participant_t ?a = (True, KA)"
    "otrng_key_manager_ratcheting_init C Z Participant_u ?b = (True, KB)" "ratchet_sync S KA KB" by blast
  note fa = ratcheting_init_frame[OF K(1)] and fb = ratcheting_init_frame[OF K(2)]
  have frames: "skipped_keys ?a = None" "skipped_keys ?b = None" "old_mac_keys ?a = None" "old_mac_keys ?b = None" "ssid ?a = ssid ?b"
    "shared_secret ?a = ?K" "their_ecdh ?b = wire_point C (ecdh_pub (ecdh_of C (ra 1)))"
    by (simp_all add: use_first_frame with_secret_def responder_keys_def initiator_answered_def initiator_keys_def otrng_key_manager_init_def)
  have "dlog S (their_ecdh KB) = dlog S (ecdh_pub (ecdh_of C (ra 1)))" using fb(8) frames(7) wire_point(3)[OF G(1)] by simp
  moreover have "their_ecdh KA = first_point C S ?K" "their_dh KA \<noteq> None" using ratcheting_init_point[OF G H K(1)] frames(6) by simp_all
  moreover have "their_dh (?z KA) = their_dh KA" by (simp add: otrng_key_manager_wipe_shared_prekeys_def)
  ultimately have "usable C S Z rc now (?z KA) (?z KB)"
    by (intro first_usable[OF G H _ _ _ _ _ d]) (simp_all add: wipe_frame fa)
  moreover have "ready S KA KB" using K(3) fa fb frames by (simp add: ready_def)
  ultimately show ?thesis using fa fb frames by (intro that[OF K(1,2)]) simp_all
qed

text \<open>The first data message, from the state the responder enters to the state the initiator waits in.\<close>

lemma first_message_delivered:
  assumes laws: "crypto_laws C S" and a: "client_ok C S now clA pA" and b: "client_ok C S now clB pB"
    and v4: "allow_version (otrng_new Z clA allowsA policyA) OTRNG_ALLOW_V4" "allow_version (otrng_new Z clB allowsB policyB) OTRNG_ALLOW_V4"
    and draws: "first_draws_ok C S rc (dake_secret C S ra rb) (ecdh_pub (ecdh_of C (ra 1)))"
    and A1: "A1 = responder_waiting (otrng_new Z clA allowsA policyA) (cl_instance_tag clB) qB s
        (with_secret S Z (dake_secret C S ra rb) half (responder_keys C Z ra rb now))"
    and B2: "B2 = (otrng_new Z clB allowsB policyB)\<lparr>otr_running_version := ucast OTRNG_PROTOCOL_VERSION_4,
        otr_state := OTRNG_STATE_WAITING_AUTH_R, otr_keys := initiator_keys C Z rb now,
        otr_their_instance_tag := cl_instance_tag clA, otr_shared_session_state := Some s, otr_their_client_profile := Some qA,
        otr_keys := otrng_key_manager_wipe_shared_prekeys Z K, otr_events := ev, otr_state := OTRNG_STATE_WAITING_DAKE_DATA_MESSAGE\<rparr>"
    and K: "otrng_key_manager_ratcheting_init C Z Participant_u
        (use_first_keys (with_secret S Z (dake_secret C S ra rb) half' (initiator_answered C Z ra rb now))) = (True, K)"
  obtains KA w A3 B3 ts where "otrng_key_manager_ratcheting_init C Z Participant_t (use_first_keys (otr_keys A1)) = (True, KA)"
    "otrng_send_message C Z rc now [] [] MSG_FLAGS_IGNORE_UNREADABLE (A1\<lparr>otr_state := OTRNG_STATE_ENCRYPTED_MESSAGES,
        otr_events := otr_events A1 @ evs, otr_keys := otrng_key_manager_wipe_shared_prekeys Z KA\<rparr>) = Some (Some w, A3)"
    "otrng_receive_message C Z rd now junk otrng_response_new w B2 = Some (True, otrng_response_new\<lparr>tlvs := ts\<rparr>, B3)"
    "spoken S A3 B3" "ssid (otr_keys A3) = ssid (otr_keys B3)"
    "otr_their_client_profile A3 = Some qB" "otr_their_client_profile B3 = Some qA"
proof -
  obtain KA KB where R: "otrng_key_manager_ratcheting_init C Z Participant_t (use_first_keys (otr_keys A1)) = (True, KA)"
    "K = KB" "ready S KA KB" "ssid KA = ssid KB" "old_mac_keys KA = None" "old_mac_keys KB = None"
    "usable C S Z rc now (otrng_key_manager_wipe_shared_prekeys Z KA) (otrng_key_manager_wipe_shared_prekeys Z KB)"
    by (rule first_ratchets[OF laws draws, of Z half now half']) (use K in \<open>auto simp: A1 responder_waiting_def\<close>)
  let ?A2 = "A1\<lparr>otr_state := OTRNG_STATE_ENCRYPTED_MESSAGES, otr_events := otr_events A1 @ evs,
        otr_keys := otrng_key_manager_wipe_shared_prekeys Z KA\<rparr>"
  have "side_ok ?A2" using R(5) by (intro new_side_ok[OF a v4(1)]) (simp_all add: A1 responder_waiting_def otrng_new_def wipe_frame)
  moreover have "side_ok B2" using R(2,6) by (intro new_side_ok[OF b v4(2)]) (simp_all add: B2 otrng_new_def wipe_frame)
  ultimately have may: "may_send S ?A2 B2"
    using R(2,3) by (simp add: may_send_def A1 B2 responder_waiting_def otrng_new_def our_instance_tag_def wipe_frame)
  have u: "usable C S Z rc now (otr_keys ?A2) (otr_keys B2)" using R(2,7) by (simp add: B2)
  obtain w A3 B3 ts where d: "otrng_send_message C Z rc now [] [] MSG_FLAGS_IGNORE_UNREADABLE ?A2 = Some (Some w, A3)"
    "otrng_receive_message C Z rd now junk otrng_response_new w B2 =
       Some (True, otrng_response_new\<lparr>to_display := shown [], to_send := None, tlvs := ts\<rparr>, B3)" "spoken S A3 B3"
    "ssid (otr_keys A3) = ssid (otr_keys ?A2)" "otr_their_client_profile A3 = otr_their_client_profile ?A2"
    "ssid (otr_keys B3) = ssid (otr_keys B2)" "otr_their_client_profile B3 = otr_their_client_profile B2"
    by (rule message_delivered[OF laws may u, where words = "[]"]) (simp add: sendable_def)
  show ?thesis
    by (rule that[OF R(1) d(1) _ d(3)])
       (use d(2,4-7) R(2,4) in \<open>simp_all add: wipe_frame B2, simp_all add: A1 responder_waiting_def otrng_response_new_def shown_def\<close>)
qed

text \<open>C1: an undisturbed key exchange succeeds.  The responder sends a query, the initiator answers with an
  identity message, and the two handlers exchange Auth-R, Auth-I and the first data message.  Every
  message is accepted, both sides end in the encrypted state with the same session identifier, each holds
  a profile with the long-term key of the other, and the conversation can go on.\<close>

theorem handshake_completes:
  assumes laws: "crypto_laws C S" and a: "client_ok C S now clA pA" and b: "client_ok C S now clB pB"
    and s: "otrng_generate_session_state_string (cl_shared_session_state clA) = Some s"
      "otrng_generate_session_state_string (cl_shared_session_state clB) = Some s"
    and v4: "allow_version (otrng_new Z clA allowsA policyA) OTRNG_ALLOW_V4" "allow_version (otrng_new Z clB allowsB policyB) OTRNG_ALLOW_V4"
    and policy: "policyB \<noteq> OTRNG_REQUIRE_AUTHENTICATED"
    and draws: "draws_ok C ra rb" "first_draws_ok C S rc (dake_secret C S ra rb) (ecdh_pub (ecdh_of C (ra 1)))"
    and ring: "ring_matches C (kp_pub (cl_keypair clA)) [cp_forging_pub_key pB, kp_pub (cl_keypair clA), ecdh_pub (ecdh_of C (rb 0))] = 1"
      "ring_matches C (kp_pub (cl_keypair clB)) [kp_pub (cl_keypair clB), cp_forging_pub_key pA, ecdh_pub (ecdh_of C (ra 0))] = 1"
  shows "\<exists>q w1 w2 w3 w4 A1 A2 B1 B2 B3 ts.
     otrng_build_query_message [] (otrng_new Z clA allowsA policyA) = Some q \<and>
     otrng_receive_message C Z rb now junk otrng_response_new q (otrng_new Z clB allowsB policyB) =
       Some (True, otrng_response_new\<lparr>to_send := Some w1\<rparr>, B1) \<and>
     otrng_receive_message C Z ra now junk otrng_response_new w1 (otrng_new Z clA allowsA policyA) =
       Some (True, otrng_response_new\<lparr>to_send := Some w2\<rparr>, A1) \<and>
     otrng_receive_message C Z rb2 now junk otrng_response_new w2 B1 = Some (True, otrng_response_new\<lparr>to_send := Some w3\<rparr>, B2) \<and>
     otrng_receive_message C Z rc now junk otrng_response_new w3 A1 = Some (True, otrng_response_new\<lparr>to_send := Some w4\<rparr>, A2) \<and>
     otrng_receive_message C Z rd now junk otrng_response_new w4 B2 = Some (True, otrng_response_new\<lparr>tlvs := ts\<rparr>, B3) \<and>
     spoken S A2 B3 \<and> ssid (otr_keys A2) = ssid (otr_keys B3) \<and>
     map_option (dlog S \<circ> cp_long_term_pub_key) (otr_their_client_profile A2) = Some (dlog S (kp_pub (cl_keypair clB))) \<and>
     map_option (dlog S \<circ> cp_long_term_pub_key) (otr_their_client_profile B3) = Some (dlog S (kp_pub (cl_keypair clA)))"
proof -
  have G: "goldilocks_ok C S" "gcrypt_ok C S" and H: "sponge_ok C S" using laws by (simp_all add: crypto_laws_def)
  let ?A = "otrng_new Z clA allowsA policyA" and ?B = "otrng_new Z clB allowsB policyB" and ?K = "dake_secret C S ra rb"
  let ?ki = "initiator_answered C Z ra rb now" and ?kr = "responder_keys C Z ra rb now"
  let ?B1 = "?B\<lparr>otr_running_version := ucast OTRNG_PROTOCOL_VERSION_4, otr_state := OTRNG_STATE_WAITING_AUTH_R, otr_keys := initiator_keys C Z rb now\<rparr>"
  obtain vs where q: "otrng_build_query_message [] ?A = Some (query_header @ vs @ ''? '')" "vs = ''4'' \<or> vs = ''43''" by (rule query_of_v4[OF v4(1)])
  have vB: "otrng_dh_mpi_valid C (dh_pub (dh_of C (rb 2)))" using draws(1) by (simp add: draws_ok_def)
  obtain bs1 where m1: "otrng_receive_message C Z rb now junk otrng_response_new (query_header @ vs @ ''? '') ?B =
      Some (True, otrng_response_new\<lparr>to_send := Some (base64_otr_encode C bs1)\<rparr>, ?B1)"
    "otrng_dake_identity_message_deserialize C Z bs1 = Some (wire_identity C (identity_of C pB (cl_instance_tag clB) rb))"
    "take 3 bs1 = [0, 4, IDENTITY_MSG_TYPE]" by (rule query_answered[OF laws b, where rnd = rb and vs = vs and B = ?B and Z = Z and allows = allowsB and policy = policyB and junk = junk])
         (use vB q(2) v4(2) policy in simp_all)
  obtain bs2 sigma half Bm Am where m2: "otrng_receive_message C Z ra now junk otrng_response_new (base64_otr_encode C bs1) ?A =
      Some (True, otrng_response_new\<lparr>to_display := None, to_send := Some (base64_otr_encode C bs2)\<rparr>,
        responder_waiting ?A (cl_instance_tag clB) (wire_profile C pB) s (with_secret S Z ?K half ?kr))"
    and m2': "take 3 bs2 = [0, 4, AUTH_R_MSG_TYPE]"
    "otrng_dake_auth_r_deserialize C Z bs2 = Some (wire_auth_r C (auth_r_of C pA (cl_instance_tag clA) (cl_instance_tag clB) ra sigma))"
    and dh: "dh_pub (dh_of C (rb 2)) = Some Bm" "dh_pub (dh_of C (ra 2)) = Some Am"
    and sig: "\<And>B1 B2 B3. dlog S B1 = dlog S (cp_forging_pub_key pB) \<Longrightarrow> dlog S B2 = dlog S (kp_pub (cl_keypair clA)) \<Longrightarrow>
       dlog S B3 = dlog S (ecdh_pub (ecdh_of C (rb 0))) \<Longrightarrow> otrng_rsig_verify C (wire_sig C sigma) B1 B2 B3
         (interactive_tag C S Auth_r pB pA (ecdh_pub (ecdh_of C (rb 0))) (ecdh_pub (ecdh_of C (ra 0))) Bm Am
           (otrng_serialize_phi (ascii s) (ucast (cl_instance_tag clA)) (ucast (cl_instance_tag clB))))"
    using identity_answered[OF laws a b draws(1) refl v4(1) ring(1) s(1) m1(2,3), where junk = junk and response = otrng_response_new] by metis
  let ?A1 = "responder_waiting ?A (cl_instance_tag clB) (wire_profile C pB) s (with_secret S Z ?K half ?kr)"
  have vB1: "allow_version ?B1 OTRNG_ALLOW_V4" and vA1: "allow_version ?A1 OTRNG_ALLOW_V4"
    using v4 by (simp_all add: allow_version_def responder_waiting_def)
  have first: "\<exists>K. otrng_key_manager_ratcheting_init C Z Participant_u (use_first_keys (with_secret S Z ?K half ?ki)) = (True, K)" for half
    by (rule first_ratchets[OF laws draws(2), of Z half now half]) blast
  obtain bs3 sigma2 half' K ev where m3: "otrng_receive_message C Z rb2 now junk otrng_response_new (base64_otr_encode C bs2) ?B1 =
      Some (True, otrng_response_new\<lparr>to_display := None, to_send := Some (base64_otr_encode C bs3)\<rparr>,
        ?B1\<lparr>otr_their_instance_tag := cl_instance_tag clA, otr_shared_session_state := Some s, otr_their_client_profile := Some (wire_profile C pA),
          otr_keys := otrng_key_manager_wipe_shared_prekeys Z K, otr_events := ev, otr_state := OTRNG_STATE_WAITING_DAKE_DATA_MESSAGE\<rparr>)"
    and K: "otrng_key_manager_ratcheting_init C Z Participant_u (use_first_keys (with_secret S Z ?K half' ?ki)) = (True, K)"
    and m3': "take 3 bs3 = [0, 4, AUTH_I_MSG_TYPE]"
    "otrng_dake_auth_i_deserialize C bs3 = Some \<lparr>ai_sender_instance_tag = cl_instance_tag clB,
       ai_receiver_instance_tag = cl_instance_tag clA, ai_sigma = wire_sig C sigma2\<rparr>"
    and sig2: "\<And>B1 B2 B3. dlog S B1 = dlog S (kp_pub (cl_keypair clB)) \<Longrightarrow> dlog S B2 = dlog S (cp_forging_pub_key pA) \<Longrightarrow>
       dlog S B3 = dlog S (ecdh_pub (ecdh_of C (ra 0))) \<Longrightarrow> otrng_rsig_verify C (wire_sig C sigma2) B1 B2 B3
         (interactive_tag C S Auth_i pB pA (ecdh_pub (ecdh_of C (rb 0))) (ecdh_pub (ecdh_of C (ra 0))) Bm Am
           (otrng_serialize_phi (ascii s) (ucast (cl_instance_tag clA)) (ucast (cl_instance_tag clB))))"
    by (rule auth_r_answered[OF laws a b draws(1) refl vB1 ring(2) s(2) m2'(2,1) dh _ first,
          where junk = junk and response = otrng_response_new and ?rb2.0 = rb2], erule (2) sig, rule that)
  let ?B2 = "?B1\<lparr>otr_their_instance_tag := cl_instance_tag clA, otr_shared_session_state := Some s, otr_their_client_profile := Some (wire_profile C pA),
          otr_keys := otrng_key_manager_wipe_shared_prekeys Z K, otr_events := ev, otr_state := OTRNG_STATE_WAITING_DAKE_DATA_MESSAGE\<rparr>"
  obtain KA w A3 B3 ts where init: "otrng_key_manager_ratcheting_init C Z Participant_t (use_first_keys (otr_keys ?A1)) = (True, KA)"
    and d: "otrng_send_message C Z rc now [] [] MSG_FLAGS_IGNORE_UNREADABLE (?A1\<lparr>otr_state := OTRNG_STATE_ENCRYPTED_MESSAGES,
        otr_events := otr_events ?A1 @ fingerprint_events C (wire_profile C pB) @ [Gone_secure],
        otr_keys := otrng_key_manager_wipe_shared_prekeys Z KA\<rparr>) = Some (Some w, A3)"
    "otrng_receive_message C Z rd now junk otrng_response_new w ?B2 = Some (True, otrng_response_new\<lparr>tlvs := ts\<rparr>, B3)"
    "spoken S A3 B3" "ssid (otr_keys A3) = ssid (otr_keys B3)"
    "otr_their_client_profile A3 = Some (wire_profile C pB)" "otr_their_client_profile B3 = Some (wire_profile C pA)"
    by (rule first_message_delivered[OF laws a b v4 draws(2) refl refl K])
  note m4 = auth_i_accepted[OF laws a b draws(1) refl vA1 m3'(2,1) dh sig2 init refl d(1), where junk = junk and response = otrng_response_new]
  have "map_option (dlog S \<circ> cp_long_term_pub_key) (otr_their_client_profile A3) = Some (dlog S (kp_pub (cl_keypair clB)))"
    "map_option (dlog S \<circ> cp_long_term_pub_key) (otr_their_client_profile B3) = Some (dlog S (kp_pub (cl_keypair clA)))"
    using a b d(5,6) by (simp_all add: wire_profile_def wire_point(3)[OF G(1)] client_ok_def)
  moreover have r: "otrng_response_new\<lparr>to_display := None, to_send := x\<rparr> = otrng_response_new\<lparr>to_send := x\<rparr>" for x
    by (simp add: otrng_response_new_def)
  ultimately show ?thesis using q(1) m1(1) m2 m3 m4 d(2-4) unfolding r by blast
qed

subsection \<open>A concrete key exchange\<close>

lemma ex_ecdh_of: "ecdh_pub (ecdh_of ex_crypto seed) = uint (sum_bytes seed) mod 7" "derive_secret_scalar ex_crypto seed = uint (sum_bytes seed) mod 7"
  using generated_pairs(3,4)[OF ex_goldilocks_ok ex_gcrypt_ok ex_sponge_ok, of seed]
  by (simp_all add: ecdh_of_def otrng_ecdh_keypair_generate_def otrng_ec_point_decode_def ex_crypto_def ex_sem_def)

lemma ex_ecdh_secret:
  assumes "p * s mod 7 \<noteq> 0"
  shows "otrng_ecdh_shared_secret ex_crypto ED448_POINT_BYTES s p \<noteq> None"
proof -
  have "replicate ED448_POINT_BYTES 0 = res_encode 56 0" by (simp add: res_encode_def const_defs flip: replicate_Suc)
  then show ?thesis
    using assms by (simp add: otrng_ecdh_shared_secret_def otrng_ec_point_valid_def otrng_ec_point_encode_def otrng_ecdh_valid_secret_def
        ex_crypto_def Let_def otrng_is_empty_array_iff const_defs)
qed

lemma ex_xof_values:
  assumes "0 < n"
  shows "uint (sum_bytes (sum_xof x n)) mod 7 \<noteq> 0" "2 \<le> be_value (sum_xof x n)" "be_value (sum_xof x n) \<le> 6"
proof -
  let ?v = "unat (sum_bytes x) mod 5 + 2"
  have v: "sum_bytes (replicate k 0 @ [b]) = b" "be_value (replicate k 0 @ [b]) = unat b" for k b by (induction k) (simp_all add: sum_bytes_def)
  have "?v < 7" using mod_less_divisor[of 5 "unat (sum_bytes x)"] by linarith
  moreover have "unat (of_nat k :: byte) = k" if "k < 7" for k using that by (simp add: unsigned_of_nat take_bit_eq_mod)
  ultimately have "unat (of_nat ?v :: byte) = ?v" by blast
  moreover have "sum_xof x n = replicate (n - 1) 0 @ [of_nat ?v]" using assms unfolding sum_xof_def by (simp only: if_not_P)
  ultimately have u: "unat (sum_bytes (sum_xof x n)) = ?v" and b: "be_value (sum_xof x n) = ?v" by (simp_all only: v)
  show "2 \<le> be_value (sum_xof x n)" "be_value (sum_xof x n) \<le> 6" using b \<open>?v < 7\<close> by linarith+
  have "uint (sum_bytes (sum_xof x n)) = int ?v" using u by (metis uint_nat)
  then show "uint (sum_bytes (sum_xof x n)) mod 7 \<noteq> 0" using \<open>?v < 7\<close> by simp
qed

lemma ex_dh_of_valid: "otrng_dh_mpi_valid ex_crypto (dh_pub (dh_of ex_crypto seed))"
proof -
  obtain x where x: "dh_pub (dh_of ex_crypto seed) = Some (2 ^ be_value (sum_xof x DH_KEY_SIZE) mod DH3072_MODULUS)"
    by (simp add: dh_of_def otrng_dh_keypair_generate_def shake_256_hash_def hash_init_with_dom_def ex_crypto_def otrng_dh_calculate_public_key_def DH3072_GENERATOR_def)
  have n: "0 < DH_KEY_SIZE" by (simp add: const_defs)
  define e where "e = be_value (sum_xof x DH_KEY_SIZE)"
  have "2 \<le> e" "e \<le> 6" using ex_xof_values(2,3)[OF n] by (simp_all add: e_def)
  then have "e \<in> {2, 3, 4, 5, 6}" by auto
  then have "2 \<le> (2 :: nat) ^ e \<and> 2 ^ e \<le> (64 :: nat)" by auto
  moreover have "2 ^ e mod DH3072_MODULUS = 2 ^ e" using calculation by (intro mod_less) (simp add: DH3072_MODULUS_def)
  ultimately show ?thesis unfolding x e_def[symmetric]
    using dh_valid_iff[OF ex_gcrypt_ok] by (simp add: ex_sem_def DH3072_MODULUS_MINUS_2_def DH3072_MODULUS_def)
qed

lemma ex_first_point: "first_point ex_crypto ex_sem K mod 7 \<noteq> 0"
  using ex_xof_values(1)[of ED448_PRIVATE_BYTES] by (simp add: first_point_def ex_ecdh_of kdf_def const_defs ex_sem_def)

lemma ex_keypair_values: "kp_pub (ex_keypair seed) = uint seed mod 7" "kp_priv (ex_keypair seed) = uint seed mod 7"
proof -
  have "take ED448_PRIVATE_BYTES [seed] = [seed]" by (simp add: const_defs)
  then show "kp_pub (ex_keypair seed) = uint seed mod 7" "kp_priv (ex_keypair seed) = uint seed mod 7"
    using ex_ecdh_of[of "[seed]"]
    by (simp_all add: ex_keypair_def otrng_keypair_generate_def ecdh_of_def otrng_ecdh_keypair_generate_def otrng_ec_point_decode_def
        ex_crypto_def sum_bytes_def)
qed

lemma ex_client_ok:
  assumes "\<not> tag < 0x100"
  obtains p where "client_ok ex_crypto ex_sem 0 (ex_client seed F tag) p" "cp_forging_pub_key p = F"
proof -
  have t: "otrng_instance_tag_valid tag" using assms by (simp add: otrng_instance_tag_valid_def const_defs)
  obtain p where p: "otrng_client_profile_build_with_custom_expiration ex_crypto ex_zero tag (Some [0x34]) (Some (ex_keypair seed)) F 100 = Some (Some p)"
    "wf_profile p" "cp_dsa_key p = None" "cp_transitional_signature p = None" 
    "cp_long_term_pub_key p = kp_pub (ex_keypair seed)" "cp_forging_pub_key p = F"
    "\<And>now. otrng_client_profile_valid ex_crypto now (wire_profile ex_crypto p) tag = Some (now < sint (100 :: u64))"
    by (rule client_profile_build_ok[OF ex_goldilocks_ok ex_eddsa_ok ex_keypair_generated[of seed] t, of "[0x34]" ex_zero F 100]) auto
  have "dlog ex_sem (kp_pub (ex_keypair seed)) = sval ex_sem (kp_priv (ex_keypair seed))" by (simp add: ex_keypair_values ex_sem_def)
  with p t show ?thesis by (intro that[of p]) (simp_all add: client_ok_def ex_client_def fits_profile_def opt_len_def)
qed

theorem handshake_completes_witness:
  "\<exists>q w1 w2 w3 w4 A1 A2 B1 B2 B3 ts.
     otrng_build_query_message [] (otrng_new ex_wiped (ex_client 3 5 0x100) OTRNG_ALLOW_V4 0) = Some q \<and>
     otrng_receive_message ex_crypto ex_wiped (\<lambda>i. [2]) 0 0 otrng_response_new q (otrng_new ex_wiped (ex_client 4 6 0x200) OTRNG_ALLOW_V4 0) =
       Some (True, otrng_response_new\<lparr>to_send := Some w1\<rparr>, B1) \<and>
     otrng_receive_message ex_crypto ex_wiped (\<lambda>i. [1]) 0 0 otrng_response_new w1 (otrng_new ex_wiped (ex_client 3 5 0x100) OTRNG_ALLOW_V4 0) =
       Some (True, otrng_response_new\<lparr>to_send := Some w2\<rparr>, A1) \<and>
     otrng_receive_message ex_crypto ex_wiped (\<lambda>i. []) 0 0 otrng_response_new w2 B1 = Some (True, otrng_response_new\<lparr>to_send := Some w3\<rparr>, B2) \<and>
     otrng_receive_message ex_crypto ex_wiped (\<lambda>i. replicate 24 1) 0 0 otrng_response_new w3 A1 = Some (True, otrng_response_new\<lparr>to_send := Some w4\<rparr>, A2) \<and>
     otrng_receive_message ex_crypto ex_wiped (\<lambda>i. []) 0 0 otrng_response_new w4 B2 = Some (True, otrng_response_new\<lparr>tlvs := ts\<rparr>, B3) \<and>
     spoken ex_sem A2 B3 \<and> ssid (otr_keys A2) = ssid (otr_keys B3) \<and>
     map_option (dlog ex_sem \<circ> cp_long_term_pub_key) (otr_their_client_profile A2) = Some (dlog ex_sem (kp_pub (cl_keypair (ex_client 4 6 0x200)))) \<and>
     map_option (dlog ex_sem \<circ> cp_long_term_pub_key) (otr_their_client_profile B3) = Some (dlog ex_sem (kp_pub (cl_keypair (ex_client 3 5 0x100))))"
proof -
  obtain pA where a: "client_ok ex_crypto ex_sem 0 (ex_client 3 5 0x100) pA" "cp_forging_pub_key pA = 5" by (rule ex_client_ok[of "0x100"]) simp_all
  obtain pB where b: "client_ok ex_crypto ex_sem 0 (ex_client 4 6 0x200) pB" "cp_forging_pub_key pB = 6" by (rule ex_client_ok[of "0x200"]) simp_all
  have r: "sum_bytes [1] = 1" "sum_bytes [2] = 2" "sum_bytes (replicate 24 1) = 24" by (simp_all add: sum_bytes_def numeral_eq_Suc)
  have k: "cl_keypair (ex_client seed F tag) = ex_keypair seed" for seed F tag by (simp add: ex_client_def)
  show ?thesis
  proof (rule handshake_completes[OF ex_crypto_laws a(1) b(1)])
    show "draws_ok ex_crypto (\<lambda>i. [1]) (\<lambda>i. [2])"
      unfolding draws_ok_def generated_pairs(3)[OF ex_goldilocks_ok ex_gcrypt_ok ex_sponge_ok] ex_ecdh_of r
      by (intro conjI ex_dh_of_valid ex_ecdh_secret) simp
    have "first_point ex_crypto ex_sem (dake_secret ex_crypto ex_sem (\<lambda>i. [1]) (\<lambda>i. [2])) * 3 mod 7 \<noteq> 0"
      by (rule notI, drule mod_7_no_zero_div) (simp add: ex_first_point)
    from ex_ecdh_secret[OF this]
    show "first_draws_ok ex_crypto ex_sem (\<lambda>i. replicate 24 1) (dake_secret ex_crypto ex_sem (\<lambda>i. [1]) (\<lambda>i. [2])) (ecdh_pub (ecdh_of ex_crypto [1]))"
      by (simp add: first_draws_ok_def ex_dh_of_valid ex_ecdh_of r DATA_MSG_NONCE_BYTES_def) (simp add: ex_sem_def)
    have session: "otrng_generate_session_state_string (cl_shared_session_state (ex_client seed F tag)) = Some ''alicebob''" for seed F tag
      by (simp add: ex_client_def otrng_generate_session_state_string_def)
    then show "otrng_generate_session_state_string (cl_shared_session_state (ex_client 3 5 0x100)) = Some ''alicebob''"
      "otrng_generate_session_state_string (cl_shared_session_state (ex_client 4 6 0x200)) = Some ''alicebob''" by blast+
    have eq: "point_eq ex_crypto p q = (p mod 7 = q mod 7)" for p q by (simp add: ex_crypto_def)
    show "ring_matches ex_crypto (kp_pub (cl_keypair (ex_client 3 5 0x100))) [cp_forging_pub_key pB, kp_pub (cl_keypair (ex_client 3 5 0x100)), ecdh_pub (ecdh_of ex_crypto [2])] = 1"
      "ring_matches ex_crypto (kp_pub (cl_keypair (ex_client 4 6 0x200))) [kp_pub (cl_keypair (ex_client 4 6 0x200)), cp_forging_pub_key pA, ecdh_pub (ecdh_of ex_crypto [1])] = 1"
      by (simp_all add: ring_matches_def eq a(2) b(2) k ex_keypair_values ex_ecdh_of r)
  qed (simp_all add: allow_version_def otrng_new_def const_defs)
qed

end
