(* ===== verification/Brace_Key.thy ===== *)
theory Brace_Key
  imports Handshake_Run
begin

text \<open>
  The brace key of the double ratchet (\<open>key_management.c\<close>) over the life of a conversation.  The step relation has every change
  that \<open>otrng.c\<close> and \<open>protocol.c\<close> make to a key manager, with the results of failing calls too; the invariant is that the
  brace key is all zero between two calls.
\<close>

subsection \<open>The changes of a key manager\<close>

text \<open>Key exchange: keys of the other side, our ephemeral keys, a stored prekey taken for our ephemeral key, the shared secret
  and the start of the ratchet.  Messages: sending, and receiving one that is refused or accepted in the end.  Then
  the MAC keys to reveal, the extra symmetric key, and the end of a conversation.\<close>

inductive km_step :: "('p, 's, 'm, 'h) crypto_ops \<Rightarrow> ('p, 's) wiped \<Rightarrow> ('p, 's, 'm) key_manager_s \<Rightarrow> ('p, 's, 'm) key_manager_s \<Rightarrow> bool"
  for C :: "('p, 's, 'm, 'h) crypto_ops" and Z :: "('p, 's) wiped" where
  ephemeral: "otrng_key_manager_generate_ephemeral_keys C Z rnd now m = (ok, m') \<Longrightarrow> km_step C Z m m'"
| theirs: "km_step C Z m (otrng_key_manager_set_their_dh D (otrng_key_manager_set_their_ecdh P m))"
| their_first: "km_step C Z m (otrng_key_manager_set_their_first_dh D (otrng_key_manager_set_their_first_ecdh P m))"
| their_prekey: "km_step C Z m (m\<lparr>their_shared_prekey := P\<rparr>)"
| our_prekey: "km_step C Z m (m\<lparr>our_ecdh := y, our_dh := b\<rparr>)"
| mixed: "km_step C Z m (m\<lparr>tmp_key := k\<rparr>)"
| secret: "otrng_key_manager_generate_shared_secret C Z interactive (null_ratchet Z) m = (ok, m') \<Longrightarrow> km_step C Z m m'"
| first_keys: "km_step C Z m (use_first_keys m)"
| ratchet: "otrng_key_manager_ratcheting_init C Z participant m = (ok, m') \<Longrightarrow> km_step C Z m m'"
| wipe_prekeys: "km_step C Z m (otrng_key_manager_wipe_shared_prekeys Z m)"
| send: "send_data_message C Z rnd now flags msg otr = Some (w, otr') \<Longrightarrow> km_step C Z (otr_keys otr) (otr_keys otr')"
| refuse: "receiving_keys C Z rnd now msg otr = Some (keys, tmp, otr') \<Longrightarrow> km_step C Z (otr_keys otr) (otr_keys otr')"
| accept: "receiving_keys C Z rnd now msg otr = Some (Some keys, tmp, otr') \<Longrightarrow>
     km_step C Z (otr_keys otr) (otrng_receiving_ratchet_copy (otr_keys otr') tmp)"
| old_mac: "otrng_store_old_mac_keys k m hm = Some (m', hm') \<Longrightarrow> km_step C Z m m'"
| reveal: "otrng_reveal_mac_keys_on_tlv C m h = Some (ser, m', h') \<Longrightarrow> km_step C Z m (m'\<lparr>skipped_keys := None\<rparr>)"
| wipe_extra: "km_step C Z m (m\<lparr>extra_symmetric_key := zeros EXTRA_SYMMETRIC_KEY_BYTES\<rparr>)"
| forget: "km_step C Z m (otrng_key_manager_init Z)"

subsection \<open>The invariant\<close>

lemma enter_brace:
  assumes "sponge_ok C S"
  shows "enter_new_ratchet C Send (m, t) = (ok, (m', t')) \<Longrightarrow> brace_wiped m \<Longrightarrow> brace_wiped m'"
    "enter_new_ratchet C Receive (m, t) = (ok, (m', t')) \<Longrightarrow> m' = m \<and> (ok \<longrightarrow> rr_brace_key t' = zeros BRACE_KEY_BYTES)"
  by (auto simp: enter_new_ratchet_def calculate_brace_key_def calculate_shared_secret_def key_manager_derive_ratchet_keys_def
      brace_wiped_def km_parts kdf_eqs[OF assms] split: option.splits if_splits prod.splits)

lemma ephemeral_brace:
  "otrng_key_manager_generate_ephemeral_keys C Z rnd now m = (ok, m') \<Longrightarrow> brace_key m' = brace_key m"
  by (auto simp: otrng_key_manager_generate_ephemeral_keys_def km_parts split: option.splits if_splits)

lemma rotate_brace:
  assumes "sponge_ok C S"
  shows "rotate_keys C Z rnd now Send (m, t) = (ok, (m', t')) \<Longrightarrow> brace_wiped m \<Longrightarrow> brace_wiped m'"
    "rotate_keys C Z rnd now Receive (m, t) = (ok, (m', t')) \<Longrightarrow> brace_key m' = brace_key m \<and> (ok \<longrightarrow> rr_brace_key t' = zeros BRACE_KEY_BYTES)"
proof -
  assume r: "rotate_keys C Z rnd now Send (m, t) = (ok, (m', t'))" and b: "brace_wiped m"
  obtain ok1 m1 where e: "otrng_key_manager_generate_ephemeral_keys C Z rnd now m = (ok1, m1)" by fastforce
  obtain ok2 m2 t2 where n: "enter_new_ratchet C Send (m1\<lparr>last_generated := now\<rparr>, t) = (ok2, (m2, t2))" by (metis surj_pair)
  have "brace_wiped m1" using ephemeral_brace[OF e] b by (simp add: brace_wiped_def)
  moreover from this have "brace_wiped m2" using enter_brace(1)[OF assms n] by (simp add: brace_wiped_def)
  moreover have "m' = m1 \<or> m' = m2 \<or> m' = m2\<lparr>km_i := km_i m2 + 1\<rparr>"
    using r e n by (auto simp: rotate_keys_def km_parts split: if_splits)
  ultimately show "brace_wiped m'" by (auto simp: brace_wiped_def)
next
  assume r: "rotate_keys C Z rnd now Receive (m, t) = (ok, (m', t'))"
  obtain ok2 m2 t2 where n: "enter_new_ratchet C Receive (m, t) = (ok2, (m2, t2))" by (metis surj_pair)
  from enter_brace(2)[OF assms n] r show "brace_key m' = brace_key m \<and> (ok \<longrightarrow> rr_brace_key t' = zeros BRACE_KEY_BYTES)"
    by (auto simp: rotate_keys_def n km_parts split: if_splits)
qed

text \<open>Skipping messages changes neither the brace key nor the root key of the temporary ratchet.\<close>

lemma store_frame:
  "store_enc_keys_loop C until ty m t h = Some (ok, t', h') \<Longrightarrow>
     rr_brace_key t' = rr_brace_key t \<and> rr_root_key t' = rr_root_key t \<and> rr_their_ecdh t' = rr_their_ecdh t"
proof (induction C until ty m t h rule: store_enc_keys_loop.induct)
  case (1 C until ty m t h)
  from "1.prems" "1.IH" show ?case
    by (subst (asm) store_enc_keys_loop.simps) (force split: if_splits option.splits prod.splits)
qed

lemma store_enc_frame:
  "store_enc_keys C until ms ty m t h = Some (ok, t', h', f) \<Longrightarrow>
     rr_brace_key t' = rr_brace_key t \<and> rr_root_key t' = rr_root_key t \<and> rr_their_ecdh t' = rr_their_ecdh t"
  by (auto simp: store_enc_keys_def bind_eq_Some_conv dest: store_frame split: if_splits)

lemma advance_brace:
  "and_then (calculate_extra_key C act (m, t)) (derive_next_chain_key C act) = (ok, (m', t')) \<Longrightarrow>
     brace_key m' = brace_key m \<and> rr_brace_key t' = rr_brace_key t"
  by (cases act) (auto simp: calculate_extra_key_def derive_next_chain_key_def km_parts split: option.splits)

lemma derive_chain_brace:
  assumes "otrng_key_manager_derive_chain_keys C ms i act (m, t) h = Some (r, (m', t'), h', f)"
  shows "brace_key m' = brace_key m \<and> rr_brace_key t' = rr_brace_key t"
proof -
  from assms obtain ok t1 h1 f1 where s: "(case act of Receive \<Rightarrow> store_enc_keys C i ms Chain_ratchet m t h | Send \<Rightarrow> Some (True, t, h, False)) =
      Some (ok, t1, h1, f1)"
    by (auto simp: otrng_key_manager_derive_chain_keys_def bind_eq_Some_conv)
  then have t1: "rr_brace_key t1 = rr_brace_key t" by (cases act) (auto dest: store_enc_frame)
  obtain ok2 m2 t2 where a: "and_then (calculate_extra_key C act (m, t1)) (derive_next_chain_key C act) = (ok2, (m2, t2))"
    by (metis surj_pair)
  with assms s have "(m' = m \<and> t' = t1) \<or> (m' = m2 \<and> t' = t2)"
    by (auto simp: otrng_key_manager_derive_chain_keys_def split: if_splits option.splits)
  with advance_brace[OF a] t1 show ?thesis by auto
qed

lemma derive_dh_brace:
  assumes "sponge_ok C S"
  shows "otrng_key_manager_derive_dh_ratchet_keys C Z rnd now ms P pn Send (m, t) h = Some (ok, (m', t'), h', f) \<Longrightarrow>
     brace_wiped m \<Longrightarrow> brace_wiped m'"
    "otrng_key_manager_derive_dh_ratchet_keys C Z rnd now ms P pn Receive (m, t) h = Some (ok, (m', t'), h', f) \<Longrightarrow>
     brace_key m' = brace_key m \<and> (ok \<and> rr_brace_key t = zeros BRACE_KEY_BYTES \<longrightarrow> rr_brace_key t' = zeros BRACE_KEY_BYTES)"
  by (auto simp: otrng_key_manager_derive_dh_ratchet_keys_def bind_eq_Some_conv dest: rotate_brace[OF assms] store_enc_frame split: if_splits prod.splits)

lemma send_brace:
  assumes H: "sponge_ok C S" and s: "send_data_message C Z rnd now flags msg otr = Some (w, otr')" and b: "brace_wiped (otr_keys otr)"
  shows "brace_wiped (otr_keys otr')"
proof -
  let ?ms = "cl_max_stored_msg_keys (otr_client otr)"
  from s obtain ok m1 n1 h1 f1 where d: "otrng_key_manager_derive_dh_ratchet_keys C Z rnd now ?ms (zero_point Z) 0 Send
       (otr_keys otr, null_ratchet Z) (otr_skipped_heap otr) = Some (ok, (m1, n1), h1, f1)"
    by (cases "otrng_key_manager_derive_dh_ratchet_keys C Z rnd now ?ms (zero_point Z) 0 Send (otr_keys otr, null_ratchet Z) (otr_skipped_heap otr)")
       (auto simp: send_data_message_def Let_def)
  then have m1: "brace_wiped m1" by (rule derive_dh_brace(1)[OF H _ b])
  show ?thesis
  proof (cases ok)
    case False
    with s d m1 show ?thesis by (auto simp: send_data_message_def)
  next
    case True
    with s d obtain ks m2 n2 h2 f2 where c: "otrng_key_manager_derive_chain_keys C ?ms 0 Send (m1, n1) h1 = Some (ks, (m2, n2), h2, f2)"
      by (cases "otrng_key_manager_derive_chain_keys C ?ms 0 Send (m1, n1) h1") (auto simp: send_data_message_def Let_def)
    then have m2: "brace_wiped m2" using m1 derive_chain_brace[OF c] by (simp add: brace_wiped_def)
    have "brace_key (otr_keys otr') = brace_key m2"
      using s d c True by (auto simp: send_data_message_def Let_def split: option.splits if_splits Option.bind_splits prod.splits)
    with m2 show ?thesis by (simp add: brace_wiped_def)
  qed
qed

lemma receiving_brace:
  assumes H: "sponge_ok C S" and "receiving_keys C Z rnd now msg otr = Some (keys, tmp, otr')"
  shows "brace_key (otr_keys otr') = brace_key (otr_keys otr) \<and> (keys \<noteq> None \<longrightarrow> rr_brace_key tmp = zeros BRACE_KEY_BYTES)"
proof -
  let ?ms = "cl_max_stored_msg_keys (otr_client otr)"
  define t where "t = otrng_key_manager_set_their_tmp_keys (dm_ecdh msg) (dm_dh msg) (otrng_receiving_ratchet_new Z (otr_keys otr))"
  have z: "rr_brace_key t = zeros BRACE_KEY_BYTES"
    by (simp add: t_def otrng_key_manager_set_their_tmp_keys_def otrng_receiving_ratchet_new_def)
  from assms(2) obtain ks t1 h1 where g: "otrng_key_get_skipped_keys C (dm_ecdh msg) (dm_message_id msg) t (otr_skipped_heap otr) = Some (ks, t1, h1)"
    by (cases "otrng_key_get_skipped_keys C (dm_ecdh msg) (dm_message_id msg) t (otr_skipped_heap otr)") (auto simp: receiving_keys_def t_def Let_def)
  then have t1: "rr_brace_key t1 = rr_brace_key t"
    by (auto simp: otrng_key_get_skipped_keys_def bind_eq_Some_conv split: option.splits)
  have full: "otr_keys (raise_if_full f o') = otr_keys o'" "otr_skipped_heap (raise_if_full f o') = otr_skipped_heap o'"
    "otr_client (raise_if_full f o') = otr_client o'" for f and o' :: "('a, 'b, 'c) otrng_s"
    by (simp_all add: raise_if_full_def raise_event_def)
  show ?thesis
  proof (cases ks)
    case (Some k)
    with assms(2) g t1 z show ?thesis by (auto simp: receiving_keys_def t_def[symmetric] Let_def)
  next
    case None
    let ?d = "otrng_key_manager_derive_dh_ratchet_keys C Z rnd now ?ms (dm_ecdh msg) (dm_previous_chain_n msg) Receive (otr_keys otr, t1) h1"
    from assms(2) g None obtain ok m2 t2 h2 f2 where d: "?d = Some (ok, (m2, t2), h2, f2)"
      by (cases ?d) (auto simp: receiving_keys_def t_def[symmetric] Let_def)
    note b = derive_dh_brace(2)[OF H d]
    show ?thesis
    proof (cases ok)
      case False
      with assms(2) g None d b show ?thesis by (auto simp: receiving_keys_def t_def[symmetric] Let_def full)
    next
      case True
      let ?c = "otrng_key_manager_derive_chain_keys C ?ms (dm_message_id msg) Receive (m2, t2) h2"
      from assms(2) g None d True obtain ks' m3 t3 h3 f3 where c: "?c = Some (ks', (m3, t3), h3, f3)"
        by (cases ?c) (auto simp: receiving_keys_def t_def[symmetric] Let_def full)
      from assms(2) g None d True c b derive_chain_brace[OF c] t1 z show ?thesis
        by (auto simp: receiving_keys_def t_def[symmetric] Let_def full split: option.splits)
    qed
  qed
qed

lemma secret_brace:
  assumes "sponge_ok C S" "otrng_key_manager_generate_shared_secret C Z interactive null m = (ok, m')" "brace_wiped m"
  shows "brace_wiped m'"
  using assms(2,3)
  by (auto simp: otrng_key_manager_generate_shared_secret_def calculate_brace_key_def calculate_ssid_def calculate_shared_secret_def brace_wiped_def
      km_parts kdf_eqs[OF assms(1)] split: option.splits if_splits prod.splits)

lemma reveal_brace: "otrng_reveal_mac_keys_on_tlv C m h = Some (ser, m', h') \<Longrightarrow> brace_key m' = brace_key m"
  by (auto simp: otrng_reveal_mac_keys_on_tlv_def bind_eq_Some_conv split: if_splits option.splits)

lemmas set_key_defs = otrng_key_manager_set_their_dh_def otrng_key_manager_set_their_ecdh_def otrng_key_manager_set_their_first_dh_def
  otrng_key_manager_set_their_first_ecdh_def otrng_key_manager_wipe_shared_prekeys_def otrng_key_manager_init_def

lemma km_step_brace:
  assumes "sponge_ok C S" "km_step C Z m m'" "brace_wiped m"
  shows "brace_wiped m'"
  using assms(2)
proof cases
  case ephemeral
  with assms(3) show ?thesis by (auto dest: ephemeral_brace simp: brace_wiped_def)
next
  case secret
  then show ?thesis by (rule secret_brace[OF assms(1) _ assms(3)])
next
  case ratchet
  with assms(3) show ?thesis
    by (auto simp: otrng_key_manager_ratcheting_init_def generate_first_ephemeral_keys_def brace_wiped_def km_parts
        split: option.splits if_splits prod.splits participant.splits)
next
  case send
  with assms(3) show ?thesis by (auto dest: send_brace[OF assms(1)])
next
  case refuse
  with assms(3) show ?thesis by (auto dest: receiving_brace[OF assms(1)] simp: brace_wiped_def)
next
  case accept
  then show ?thesis by (auto dest: receiving_brace[OF assms(1)] simp: brace_wiped_def otrng_receiving_ratchet_copy_def Let_def)
next
  case old_mac
  with assms(3) show ?thesis by (auto simp: otrng_store_old_mac_keys_def bind_eq_Some_conv brace_wiped_def)
next
  case reveal
  with assms(3) show ?thesis by (auto dest: reveal_brace simp: brace_wiped_def)
qed (use assms(3) in \<open>simp_all add: brace_wiped_def set_key_defs use_first_frame\<close>)

interpretation key_manager_machine: invariant_machine "\<lambda>m. sponge_ok C S \<and> m = otrng_key_manager_init Z" "km_step C Z"
    "\<lambda>m. sponge_ok C S \<and> brace_wiped m"
  for C :: "('p, 's, 'm, 'h) crypto_ops" and S Z
  by unfold_locales (auto simp: brace_wiped_def otrng_key_manager_init_def dest: km_step_brace)

subsection \<open>The next ratchet\<close>

lemma rotate_receive_constant:
  assumes H: "sponge_ok C S" and "brace_wiped m" "unat (km_i m) mod 3 \<noteq> 0"
    and "rotate_keys C Z rnd now Receive (m, t) = (True, (m', t'))"
  shows "\<exists>e. otrng_ecdh_shared_secret C ED448_POINT_BYTES (ecdh_priv (our_ecdh m)) (rr_their_ecdh t) = Some e \<and>
     (rr_root_key t', rr_chain_r t') = new_ratchet S (rr_root_key t) e (kdf S BRACE_KEY_BYTES 0x02 (zeros BRACE_KEY_BYTES))"
  using assms(2-4)
  by (auto simp: rotate_keys_def enter_new_ratchet_def calculate_brace_key_def calculate_shared_secret_def key_manager_derive_ratchet_keys_def
      km_parts kdf_eqs[OF H] third new_ratchet_def brace_wiped_def split: option.splits if_splits prod.splits)

text \<open>C17: the brace key is wiped as soon as it has been used, so a ratchet that is not a third one does not mix in the previous brace
  key but the hash of 32 zero bytes.  In every state that a key manager reaches in a conversation, the root and chain keys
  of the next ratchet are then determined by the previous root key and the ECDH secret alone: when the first message of
  a turn is sent, and when a message with a new ECDH key arrives.\<close>

theorem brace_key_is_constant:
  assumes G: "goldilocks_ok C S" "gcrypt_ok C S" and H: "sponge_ok C S"
    and reach: "(km_step C Z)\<^sup>*\<^sup>* (otrng_key_manager_init Z) m" and i: "unat (km_i m) mod 3 \<noteq> 0"
  shows "(km_j m = 0 \<and>
       otrng_key_manager_derive_dh_ratchet_keys C Z rnd now max_skip P 0 Send (m, null_ratchet Z) h = Some (True, (m', null'), h', full) \<longrightarrow>
       (\<exists>e. otrng_ecdh_shared_secret C ED448_POINT_BYTES (ecdh_priv (our_ecdh m')) (their_ecdh m) = Some e \<and>
         (root_key (current m'), chain_s (current m')) =
           new_ratchet S (root_key (current m)) e (kdf S BRACE_KEY_BYTES 0x02 (zeros BRACE_KEY_BYTES)))) \<and>
     (\<not> point_eq C Q (their_ecdh m) \<and>
       otrng_key_manager_derive_dh_ratchet_keys C Z rnd now max_skip Q pn Receive
         (m, otrng_key_manager_set_their_tmp_keys Q D (otrng_receiving_ratchet_new Z m)) h = Some (True, (m'', tmp'), h'', full') \<longrightarrow>
       (\<exists>e. otrng_ecdh_shared_secret C ED448_POINT_BYTES (ecdh_priv (our_ecdh m)) Q = Some e \<and>
         (rr_root_key tmp', rr_chain_r tmp') =
           new_ratchet S (root_key (current m)) e (kdf S BRACE_KEY_BYTES 0x02 (zeros BRACE_KEY_BYTES))))"
proof (intro conjI impI; elim conjE)
  have b: "brace_wiped m" using key_manager_machine.reachable_inv[OF _ reach, of S] H by blast
  assume "km_j m = 0"
    and "otrng_key_manager_derive_dh_ratchet_keys C Z rnd now max_skip P 0 Send (m, null_ratchet Z) h = Some (True, (m', null'), h', full)"
  then have "rotate_keys C Z rnd now Send (m, null_ratchet Z) = (True, (m', null'))"
    by (auto simp: otrng_key_manager_derive_dh_ratchet_keys_def split: prod.splits)
  moreover have "next_brace C S (km_i m) a b (brace_key m) = Some (kdf S BRACE_KEY_BYTES 0x02 (zeros BRACE_KEY_BYTES))" for a b
    using i b by (simp add: next_brace_def third brace_wiped_def)
  ultimately show "\<exists>e. otrng_ecdh_shared_secret C ED448_POINT_BYTES (ecdh_priv (our_ecdh m')) (their_ecdh m) = Some e \<and>
     (root_key (current m'), chain_s (current m')) =
       new_ratchet S (root_key (current m)) e (kdf S BRACE_KEY_BYTES 0x02 (zeros BRACE_KEY_BYTES))"
    by (auto elim: rotate_send_ok[OF G H])
next
  have b: "brace_wiped m" using key_manager_machine.reachable_inv[OF _ reach, of S] H by blast
  let ?t = "otrng_key_manager_set_their_tmp_keys Q D (otrng_receiving_ratchet_new Z m)"
  assume "\<not> point_eq C Q (their_ecdh m)"
    and "otrng_key_manager_derive_dh_ratchet_keys C Z rnd now max_skip Q pn Receive (m, ?t) h = Some (True, (m'', tmp'), h'', full')"
  then obtain t1 h1 f1 where s: "store_enc_keys C pn max_skip Dh_ratchet m ?t h = Some (True, t1, h1, f1)"
    "rotate_keys C Z rnd now Receive (m, t1) = (True, (m'', tmp'))"
    by (auto simp: otrng_key_manager_derive_dh_ratchet_keys_def bind_eq_Some_conv split: if_splits prod.splits)
  have "rr_root_key t1 = root_key (current m)" "rr_their_ecdh t1 = Q"
    using store_enc_frame[OF s(1)] by (simp_all add: otrng_key_manager_set_their_tmp_keys_def otrng_receiving_ratchet_new_def)
  with rotate_receive_constant[OF H b i s(2)]
  show "\<exists>e. otrng_ecdh_shared_secret C ED448_POINT_BYTES (ecdh_priv (our_ecdh m)) Q = Some e \<and>
     (rr_root_key tmp', rr_chain_r tmp') =
       new_ratchet S (root_key (current m)) e (kdf S BRACE_KEY_BYTES 0x02 (zeros BRACE_KEY_BYTES))" by simp
qed

subsection \<open>A concrete conversation\<close>

text \<open>The responder of a key exchange sends the first message, the initiator answers, and the responder is about to send
  again.\<close>

lemma rotate_new_key:
  assumes G: "goldilocks_ok C S" "gcrypt_ok C S" and H: "sponge_ok C S"
    and "rotate_keys C Z rnd now Send (A, null) = (True, (A', null'))"
  shows "our_ecdh A' = ecdh_of C (rnd 0)" "their_ecdh A' = their_ecdh A" "km_i A' = km_i A + 1"
  using assms(4)
  by (auto simp: rotate_keys_def otrng_key_manager_generate_ephemeral_keys_def generated_pairs[OF G H] enter_new_ratchet_def calculate_brace_key_def calculate_shared_secret_def
      key_manager_derive_ratchet_keys_def km_parts split: option.splits if_splits prod.splits)

definition message_of :: "('p, 's) wiped \<Rightarrow> ('p, 's, 'm) key_manager_s \<Rightarrow> ('p, 'm) data_message_s" where
  "message_of Z m = (otrng_data_message_new Z)\<lparr>dm_ecdh := ecdh_pub (our_ecdh m), dm_dh := dh_pub (our_dh m),
     dm_previous_chain_n := km_pn m, dm_message_id := km_j m\<rparr>"

lemma message_accepted:
  fixes otr :: "('p, 's, 'm) otrng_s"
  assumes G: "goldilocks_ok C S" "gcrypt_ok C S" and H: "sponge_ok C S" and n: "next_message C S Z rnd now A A1 (otr_keys otr)"
  obtains B where "km_step C Z (otr_keys otr) B" "talking S (sent_one S A1) B"
proof -
  obtain B tmp ev where "receiving_keys C Z (\<lambda>i. []) 0 (message_of Z A1) otr =
      Some (Some (message_keys S (chain_s (current A1))), tmp, otr\<lparr>otr_keys := B, otr_events := ev\<rparr>)"
    "talking S (sent_one S A1) (otrng_receiving_ratchet_copy B tmp)"
    by (rule receiving_keys_ok[OF G H n, of "message_of Z A1"]) (simp_all add: message_of_def)
  then show ?thesis using km_step.accept by (intro that) fastforce+
qed

lemma ex_responder:
  obtains KA KB where "(km_step ex_crypto ex_wiped)\<^sup>*\<^sup>* (otrng_key_manager_init ex_wiped) KA" "ready ex_sem KA KB" "old_mac_keys KA = None"
    "usable ex_crypto ex_sem ex_wiped (\<lambda>i. replicate 24 1) 0 KA KB" "km_i KA = 0" "km_j KA = 0"
proof -
  let ?C = ex_crypto and ?S = ex_sem and ?Z = ex_wiped and ?ra = "\<lambda>i::nat. [1 :: byte]" and ?rb = "\<lambda>i::nat. [2 :: byte]"
  let ?K = "dake_secret ?C ?S ?ra ?rb" and ?step = "km_step ex_crypto ex_wiped" and ?r = "responder_keys ?C ?Z ?ra ?rb 0"
  note G = ex_goldilocks_ok ex_gcrypt_ok ex_sponge_ok
  have sums: "sum_bytes [1] = 1" "sum_bytes [2] = 2" "sum_bytes (replicate 24 1) = 24" by (simp_all add: sum_bytes_def numeral_eq_Suc)
  have "otrng_ecdh_shared_secret ?C ED448_POINT_BYTES (ecdh_priv (ecdh_of ?C (?ra 0))) (ecdh_pub (ecdh_of ?C (?rb 0))) \<noteq> None"
    unfolding generated_pairs(3)[OF G] ex_ecdh_of sums by (rule ex_ecdh_secret) simp
  then obtain e where e: "otrng_ecdh_shared_secret ?C ED448_POINT_BYTES (ecdh_priv (ecdh_of ?C (?ra 0))) (ecdh_pub (ecdh_of ?C (?rb 0))) = Some e" by blast
  obtain d where d: "dh_pub (dh_of ?C (?rb 2)) = Some d" "in_dh_range ?S d" by (rule dh_validE[OF G(2) ex_dh_of_valid])
  obtain half where h: "otrng_key_manager_generate_shared_secret ?C ?Z True (null_ratchet ?Z) ?r = (True, with_secret ?S ?Z ?K half ?r)"
    by (rule dake_secret_agrees[OF ex_crypto_laws e, where r = ?ra and r' = ?rb and m = ?r and Z = ?Z and null = "null_ratchet ?Z"])
       (simp_all add: responder_keys_def otrng_key_manager_init_def wire_point(3)[OF G(1)] wire_mpi(4)[OF G(2) d(2)] d(1))
  have "first_point ?C ?S ?K * 3 mod 7 \<noteq> 0" by (rule notI, drule mod_7_no_zero_div) (simp add: ex_first_point)
  from ex_ecdh_secret[OF this] have "first_draws_ok ?C ?S (\<lambda>i. replicate 24 1) ?K (ecdh_pub (ecdh_of ?C (?ra 1)))"
    by (simp add: first_draws_ok_def ex_dh_of_valid ex_ecdh_of sums DATA_MSG_NONCE_BYTES_def) (simp add: ex_sem_def)
  then obtain KA KB where K: "otrng_key_manager_ratcheting_init ?C ?Z Participant_t (use_first_keys (with_secret ?S ?Z ?K half ?r)) = (True, KA)"
    "ready ?S KA KB" "old_mac_keys KA = None"
    "usable ?C ?S ?Z (\<lambda>i. replicate 24 1) 0 (otrng_key_manager_wipe_shared_prekeys ?Z KA) (otrng_key_manager_wipe_shared_prekeys ?Z KB)"
    by (rule first_ratchets[OF ex_crypto_laws, where ra = ?ra and rb = ?rb and half = half and half' = False and Z = ?Z and now = 0])
  let ?P = "wire_point ?C (ecdh_pub (ecdh_of ?C (?rb 0)))" and ?D = "map_option (wire_mpi ?C) (dh_pub (dh_of ?C (?rb 2)))"
  let ?start = "otrng_key_manager_init ?Z :: (int, int, nat) key_manager_s"
  let ?named = "otrng_key_manager_set_their_dh ?D (otrng_key_manager_set_their_ecdh ?P ?start)"
  let ?first = "otrng_key_manager_set_their_first_dh ?D (otrng_key_manager_set_their_first_ecdh ?P ?named)"
  have "otrng_key_manager_generate_ephemeral_keys ?C ?Z ?ra 0 ?first = (True, ?r)"
    by (subst ephemeral_keys_total[OF G]) (simp_all add: responder_keys_def set_key_defs)
  then have "?step\<^sup>*\<^sup>* ?start ?r"
    by (meson km_step.theirs km_step.their_first km_step.ephemeral rtranclp.rtrancl_into_rtrancl rtranclp.rtrancl_refl)
  then have "?step\<^sup>*\<^sup>* ?start (otrng_key_manager_wipe_shared_prekeys ?Z KA)"
    using h K(1) by (meson km_step.secret km_step.first_keys km_step.ratchet km_step.wipe_prekeys rtranclp.rtrancl_into_rtrancl)
  then show ?thesis using K ratcheting_init_frame[OF K(1)] 
    by (intro that[of "otrng_key_manager_wipe_shared_prekeys ?Z KA" "otrng_key_manager_wipe_shared_prekeys ?Z KB"]) (simp_all add: wipe_frame)
qed

text \<open>After the first message and its answer.\<close>

lemma ex_turns:
  obtains m B B1 m' rnd where "(km_step ex_crypto ex_wiped)\<^sup>*\<^sup>* (otrng_key_manager_init ex_wiped) m" "km_i m = 1"
    "next_message ex_crypto ex_sem ex_wiped rnd 0 B B1 m" "ready ex_sem B m"
    "(km_step ex_crypto ex_wiped)\<^sup>*\<^sup>* (otrng_key_manager_init ex_wiped) m'" "km_i m' = 2" "km_j m' = 0" "their_ecdh m' mod 7 \<noteq> 0"
proof -
  let ?C = ex_crypto and ?S = ex_sem and ?Z = ex_wiped and ?rc = "\<lambda>i::nat. replicate 24 (1 :: byte)"
  note G = ex_goldilocks_ok ex_gcrypt_ok ex_sponge_ok
  obtain KA KB where K: "(km_step ?C ?Z)\<^sup>*\<^sup>* (otrng_key_manager_init ?Z) KA" "ready ?S KA KB" "old_mac_keys KA = None"
    "usable ?C ?S ?Z ?rc 0 KA KB" "km_i KA = 0" "km_j KA = 0" by (rule ex_responder)
  obtain A1 where A1: "next_message ?C ?S ?Z ?rc 0 KA A1 KB" "otrng_dh_mpi_valid ?C (dh_pub (our_dh A1))"
    by (rule usable_next[OF K(4)]) (use K(2) in simp)
  have rot: "rotate_keys ?C ?Z ?rc 0 Send (KA, null_ratchet ?Z) = (True, (A1, null_ratchet ?Z))"
    using A1(1) K(6) by (auto simp: next_message_def talking_def)
  note first = rotate_new_key[OF G rot]
  let ?A = "ex_side 0x100 0x200 KA" and ?B = "ex_side 0x200 0x100 KB"
  have keys: "otr_keys ?A = KA" "otr_keys ?B = KB" by (simp_all add: ex_side_def)
  have mk: "mac_keys_ok ?A" using ex_side_ok[of KA "0x100" "0x200"] K(3) by (simp add: side_ok_def)
  obtain w oldm hm where s: "send_data_message ?C ?Z ?rc 0 0 [1] ?A =
      Some (w, ?A\<lparr>otr_keys := (sent_one ?S A1)\<lparr>old_mac_keys := oldm\<rparr>, otr_mac_heap := hm\<rparr>)"
    by (rule send_data_message_ok[OF G(1,2,3) ex_stream_ok mk next_message_send(1)[OF G, of ?Z ?rc 0 "otr_keys ?A" A1 KB], where flags = 0 and msg = "[1]"])
       (use A1 next_message_send(2)[OF G A1(1)] keys in \<open>simp_all add: DATA_MSG_NONCE_BYTES_def\<close>)
  let ?m = "(sent_one ?S A1)\<lparr>old_mac_keys := oldm\<rparr>"
  have m: "(km_step ?C ?Z)\<^sup>*\<^sup>* (otrng_key_manager_init ?Z) ?m" using K(1) km_step.send[OF s] keys by simp
  obtain B where B: "talking ?S (sent_one ?S A1) B" using message_accepted[OF G, of ?Z ?rc 0 KA A1 ?B] A1(1) keys by metis
  have t: "talking ?S ?m B" using B talking_old_mac[of ?S oldm "sent_one ?S A1" "old_mac_keys B" B] by simp
  have i: "km_i ?m = 1" "km_i B = 1" "km_j B = 0" using first(3) K(5) t by (simp_all add: sent_one_def talking_def ready_def ratchet_sync_def)
  have "sum_bytes (replicate 24 1) = 24" by (simp add: sum_bytes_def numeral_eq_Suc)
  then have "ecdh_pub (our_ecdh A1) = 3" using first(1) ex_ecdh_of(1)[of "replicate 24 1"] by simp
  moreover have "dlog ?S (their_ecdh B) = dlog ?S (ecdh_pub (our_ecdh A1))" using t by (simp add: talking_def sent_one_def)
  ultimately have "their_ecdh B mod 7 = 3" by (simp add: ex_sem_def)
  define x :: byte where "x = (if their_ecdh A1 mod 7 = 1 then 2 else 1)"
  have x: "sum_bytes [x] = x" "uint x mod 7 = uint x" "uint x \<noteq> 0" "uint x \<noteq> their_ecdh A1 mod 7" by (auto simp: x_def sum_bytes_def)
  have "their_ecdh B * uint x mod 7 \<noteq> 0" using \<open>their_ecdh B mod 7 = 3\<close> x(2,3) mod_7_no_zero_div[of "their_ecdh B" "uint x"] by auto
  then obtain e where "otrng_ecdh_shared_secret ?C ED448_POINT_BYTES (derive_secret_scalar ?C [x]) (their_ecdh B) = Some e"
    using ex_ecdh_secret[of "their_ecdh B" "uint x"] ex_ecdh_of(2)[of "[x]"] x(1,2) by auto
  from rotate_send_total[OF G, of "\<lambda>i. [x]" B e ?Z 0 "null_ratchet ?Z", OF this] i(2) obtain B1 where
    B1: "rotate_keys ?C ?Z (\<lambda>i. [x]) 0 Send (B, null_ratchet ?Z) = (True, (B1, null_ratchet ?Z))" "km_i B1 = 2" by auto
  have pub: "dlog ?S (ecdh_pub (our_ecdh B1)) = uint x"
    using rotate_new_key(1)[OF G B1(1)] ex_ecdh_of(1)[of "[x]"] x(1,2) by (simp add: ex_sem_def)
  have n: "next_message ?C ?S ?Z (\<lambda>i. [x]) 0 B B1 ?m"
    using B1 t i(2) pub x(4) first(2) by (auto simp: next_message_def talking_def sent_one_def ex_sem_def)
  obtain m' where m': "km_step ?C ?Z ?m m'" "talking ?S (sent_one ?S B1) m'"
    using message_accepted[OF G, of ?Z "\<lambda>i. [x]" 0 B B1 "ex_side 0x100 0x200 ?m"] n by (auto simp: ex_side_def)
  then have "km_i m' = 2" "km_j m' = 0" "their_ecdh m' mod 7 = uint x" using B1(2) pub x
    by (simp_all add: talking_def ready_def ratchet_sync_def sent_one_def) (simp add: ex_sem_def)
  moreover have "ready ?S B ?m" using t by (simp add: talking_def)
  ultimately show ?thesis using x(3) by (intro that[OF m i(1) n _ rtranclp.rtrancl_into_rtrancl[OF m m'(1)]]) simp_all
qed

theorem brace_key_is_constant_witness:
  "\<exists>m m' n n' tmp' Q D pn full e e'. (km_step ex_crypto ex_wiped)\<^sup>*\<^sup>* (otrng_key_manager_init ex_wiped) m \<and> km_i m = 1 \<and>
     otrng_key_manager_derive_dh_ratchet_keys ex_crypto ex_wiped (\<lambda>i. [3]) 0 10 Q pn Receive
       (m, otrng_key_manager_set_their_tmp_keys Q D (otrng_receiving_ratchet_new ex_wiped m)) empty_heap = Some (True, (n, tmp'), empty_heap, full) \<and>
     otrng_ecdh_shared_secret ex_crypto ED448_POINT_BYTES (ecdh_priv (our_ecdh m)) Q = Some e \<and>
     (rr_root_key tmp', rr_chain_r tmp') = new_ratchet ex_sem (root_key (current m)) e (kdf ex_sem BRACE_KEY_BYTES 0x02 (zeros BRACE_KEY_BYTES)) \<and>
     (km_step ex_crypto ex_wiped)\<^sup>*\<^sup>* (otrng_key_manager_init ex_wiped) m' \<and> km_i m' = 2 \<and>
     otrng_key_manager_derive_dh_ratchet_keys ex_crypto ex_wiped (\<lambda>i. [3]) 0 10 0 0 Send (m', null_ratchet ex_wiped) empty_heap =
       Some (True, (n', null_ratchet ex_wiped), empty_heap, False) \<and>
     otrng_ecdh_shared_secret ex_crypto ED448_POINT_BYTES (ecdh_priv (our_ecdh n')) (their_ecdh m') = Some e' \<and>
     (root_key (current n'), chain_s (current n')) =
       new_ratchet ex_sem (root_key (current m')) e' (kdf ex_sem BRACE_KEY_BYTES 0x02 (zeros BRACE_KEY_BYTES))"
proof -
  let ?C = ex_crypto and ?S = ex_sem and ?Z = ex_wiped
  note G = ex_goldilocks_ok ex_gcrypt_ok ex_sponge_ok
  obtain m B B1 m' rnd where run: "(km_step ?C ?Z)\<^sup>*\<^sup>* (otrng_key_manager_init ?Z) m" "km_i m = 1"
    "next_message ?C ?S ?Z rnd 0 B B1 m" "ready ?S B m"
    "(km_step ?C ?Z)\<^sup>*\<^sup>* (otrng_key_manager_init ?Z) m'" "km_i m' = 2" "km_j m' = 0" "their_ecdh m' mod 7 \<noteq> 0" by (rule ex_turns)
  have i: "unat (km_i m) mod 3 \<noteq> 0" "unat (km_i m') mod 3 \<noteq> 0" using run(2,6) by simp_all
  let ?Q = "ecdh_pub (our_ecdh B1)" and ?D = "dh_pub (our_dh B1)"
  let ?t = "otrng_key_manager_set_their_tmp_keys ?Q ?D (otrng_receiving_ratchet_new ?Z m)"
  have "rotate_keys ?C ?Z rnd 0 Send (B, null_ratchet ?Z) = (True, (B1, null_ratchet ?Z))" "km_i B \<noteq> - 1"
    and new: "\<not> point_eq ?C ?Q (their_ecdh m)"
    using run(3,4) by (auto simp: next_message_def talking_def ready_def goldilocks_point(7)[OF G(1)])
  then obtain n tmp' where "rotate_keys ?C ?Z (\<lambda>i. [3]) 0 Receive (m, ?t) = (True, (n, tmp'))"
    using new_ratchet_step[OF G run(4), of ?Z rnd 0 "null_ratchet ?Z" B1 "null_ratchet ?Z" ?Q ?D "\<lambda>i. [3]" 0] by metis
  then have d: "otrng_key_manager_derive_dh_ratchet_keys ?C ?Z (\<lambda>i. [3]) 0 10 ?Q (rr_k ?t) Receive (m, ?t) empty_heap =
      Some (True, (n, tmp'), empty_heap, rr_k ?t + 10 < rr_k ?t)"
    using new store_in_order[of ?C ?t 10] by (simp add: otrng_key_manager_derive_dh_ratchet_keys_def)
  have "their_ecdh m' * 3 mod 7 \<noteq> 0" using run(8) mod_7_no_zero_div[of "their_ecdh m'" 3] by auto
  then obtain e where "otrng_ecdh_shared_secret ?C ED448_POINT_BYTES (derive_secret_scalar ?C [3]) (their_ecdh m') = Some e"
    using ex_ecdh_secret[of "their_ecdh m'" 3] by (auto simp: ex_derive)
  from rotate_send_total[OF G, of "\<lambda>i. [3]" m' e ?Z 0 "null_ratchet ?Z", OF this] i(2) obtain n' where
    "rotate_keys ?C ?Z (\<lambda>i. [3]) 0 Send (m', null_ratchet ?Z) = (True, (n', null_ratchet ?Z))" by auto
  then have s: "otrng_key_manager_derive_dh_ratchet_keys ?C ?Z (\<lambda>i. [3]) 0 10 0 0 Send (m', null_ratchet ?Z) empty_heap =
      Some (True, (n', null_ratchet ?Z), empty_heap, False)"
    using run(7) by (simp add: otrng_key_manager_derive_dh_ratchet_keys_def)
  note brace_key_is_constant[OF G run(1) i(1), THEN conjunct2, rule_format, OF conjI[OF new d]]
    and brace_key_is_constant[OF G run(5) i(2), THEN conjunct1, rule_format, OF conjI[OF run(7) s]]
  with run(1,2,5,6) d s show ?thesis by blast
qed

end
