(* ===== verification/Prekey_Proofs.thy ===== *)
theory Prekey_Proofs
  imports Crypto_Instance
begin

text \<open>
  \<open>prekey_proofs.c\<close>: what a client sends to a prekey server with the keys it publishes, to show that it
  knows the private keys.  One proof covers all ECDH keys of the prekey messages, another all
  Diffie-Hellman keys: a commitment, a challenge that is hashed from it, one coefficient for each key,
  and a response.  The operations of libgoldilocks and libgcrypt that only this file uses are the fields of
  \<open>proof_ops\<close>.
\<close>

record ('p, 's, 'm) proof_ops =
  point_identity :: 'p
  point_double_scalarmul :: "'p \<Rightarrow> 's \<Rightarrow> 'p \<Rightarrow> 's \<Rightarrow> 'p"
  mpi_mulm :: "'m \<Rightarrow> 'm \<Rightarrow> 'm \<Rightarrow> 'm"
  mpi_addm :: "'m \<Rightarrow> 'm \<Rightarrow> 'm \<Rightarrow> 'm"
  mpi_invm :: "'m \<Rightarrow> 'm \<Rightarrow> 'm"

text \<open>The neutral element, the sum of two multiples, arithmetic modulo a positive number and the inverse of
  what is prime to the modulus.\<close>

definition proof_ops_ok ::
    "('p, 's, 'm, 'h) crypto_ops \<Rightarrow> ('p, 's, 'm, 'h) crypto_sem \<Rightarrow> ('p, 's, 'm) proof_ops \<Rightarrow> bool" where
  "proof_ops_ok C S P \<longleftrightarrow>
     dlog S (point_identity P) = 0 \<and>
     (\<forall>p s q t. dlog S (point_double_scalarmul P p s q t) = (dlog S p * sval S s + dlog S q * sval S t) mod order S) \<and>
     (\<forall>a b m. 0 < mval S m \<longrightarrow> mval S (mpi_mulm P a b m) = mval S a * mval S b mod mval S m) \<and>
     (\<forall>a b m. 0 < mval S m \<longrightarrow> mval S (mpi_addm P a b m) = (mval S a + mval S b) mod mval S m) \<and>
     (\<forall>a m. 1 < mval S m \<longrightarrow> coprime (mval S a) (mval S m) \<longrightarrow>
        mval S a * mval S (mpi_invm P a m) mod mval S m = 1)"

definition PROOF_C_SIZE :: nat where [const_defs]: "PROOF_C_SIZE = 64"
definition PREKEY_PROOF_LAMBDA :: nat where [const_defs]: "PREKEY_PROOF_LAMBDA = 44"
definition usage_proof_c_lambda :: byte where [const_defs]: "usage_proof_c_lambda = 0x17"

definition DH3072_MODULUS_Q :: nat where
  "DH3072_MODULUS_Q =
    0x7FFFFFFFFFFFFFFFE487ED5110B4611A62633145C06E0E68948127044533E63A0105DF531D89CD9128A5043CC71A026EF7CA8CD9E69D218D98158536F92F8A1BA7F09AB6B6A8E122F242DABB312F3F637A262174D31BF6B585FFAE5B7A035BF6F71C35FDAD44CFD2D74F9208BE258FF324943328F6722D9EE1003E5C50B1DF82CC6D241B0E2AE9CD348B1FD47E9267AFC1B2AE91EE51D6CB0E3179AB1042A95DCF6A9483B84B4B36B3861AA7255E4C0278BA3604650C10BE19482F23171B671DF1CF3B960C074301CD93C1D17603D147DAE2AEF837A62964EF15E5FB4AAC0B8C1CCAA4BE754AB5728AE9130C4C7D02880AB9472D45556216D6998B8682283D19D42A90D5EF8E5D32767DC2822C6DF785457538ABAE83063ED9CB87C2D370F263D5FAD7466D8499EB8F464A702512B0CEE771E9130D697735F897FD036CC504326C3B01399F643532290F958C0BBD90065DF08BABBD30AEB63B84C4605D6CA371047127D03A72D598A1EDADFE707E884725C16890549D69657FFFFFFFFFFFFFFF"

record 's ecdh_proof_s =
  ecdh_c :: bytes
  ecdh_v :: 's

record 'm dh_proof_s =
  dh_c :: bytes
  dh_v :: "'m option"

subsection \<open>ECDH keys\<close>

text \<open>The values are arrays of \<open>values_len\<close> elements; the coefficients are read one after the other from the
  hash of the challenge.\<close>

definition encode_points :: "('p, 's, 'm, 'h) crypto_ops \<Rightarrow> 'p list \<Rightarrow> bytes option" where
  "encode_points C ps = map_option concat (those (map (otrng_ec_point_encode C ED448_POINT_BYTES) ps))"

fun ecdh_response :: "('p, 's, 'm, 'h) crypto_ops \<Rightarrow> bytes \<Rightarrow> 's list \<Rightarrow> 's \<Rightarrow> 's" where
  "ecdh_response C p [] v = v"
| "ecdh_response C p (x # xs) v =
     (let t = scalar_mul C (scalar_decode_long C (take PREKEY_PROOF_LAMBDA p)) x
      in ecdh_response C (drop PREKEY_PROOF_LAMBDA p) xs (scalar_add C v t))"

definition otrng_ecdh_proof_generate ::
    "('p, 's, 'm, 'h) crypto_ops \<Rightarrow> bytes \<Rightarrow> 's list \<Rightarrow> 'p list \<Rightarrow> bytes \<Rightarrow> byte \<Rightarrow> 's ecdh_proof_s option" where
  "otrng_ecdh_proof_generate C seed values_priv values_pub m usage =
     (let a = otrng_zq_keypair_generate C seed in do {
        commitment \<leftarrow> otrng_ec_point_encode C ED448_POINT_BYTES (ecdh_pub a);
        values \<leftarrow> encode_points C values_pub;
        c \<leftarrow> shake_256_prekey_server_kdf C PROOF_C_SIZE usage (commitment @ values @ take HASH_BYTES m);
        p \<leftarrow> shake_256_prekey_server_kdf C (PREKEY_PROOF_LAMBDA * length values_pub) usage_proof_c_lambda c;
        Some \<lparr>ecdh_c = c, ecdh_v = ecdh_response C p values_priv (ecdh_priv a)\<rparr> })"

text \<open>The verifier takes the keys two at a time.\<close>

fun ecdh_combination ::
    "('p, 's, 'm, 'h) crypto_ops \<Rightarrow> ('p, 's, 'm) proof_ops \<Rightarrow> bytes \<Rightarrow> 'p list \<Rightarrow> 'p \<Rightarrow> 'p" where
  "ecdh_combination C P p (X # Y # Xs) cur =
     (let t1 = scalar_decode_long C (take PREKEY_PROOF_LAMBDA p);
          t2 = scalar_decode_long C (take PREKEY_PROOF_LAMBDA (drop PREKEY_PROOF_LAMBDA p))
      in ecdh_combination C P (drop (2 * PREKEY_PROOF_LAMBDA) p) Xs (point_add C cur (point_double_scalarmul P X t1 Y t2)))"
| "ecdh_combination C P p [X] cur = point_add C cur (point_scalarmul C X (scalar_decode_long C (take PREKEY_PROOF_LAMBDA p)))"
| "ecdh_combination C P p [] cur = cur"

definition otrng_ecdh_proof_verify ::
    "('p, 's, 'm, 'h) crypto_ops \<Rightarrow> ('p, 's, 'm) proof_ops \<Rightarrow> 's ecdh_proof_s \<Rightarrow> 'p list \<Rightarrow> bytes \<Rightarrow> byte \<Rightarrow> bool" where
  "otrng_ecdh_proof_verify C P px values_pub m usage =
     (case shake_256_prekey_server_kdf C (PREKEY_PROOF_LAMBDA * length values_pub) usage_proof_c_lambda (ecdh_c px) of
        None \<Rightarrow> False
      | Some p \<Rightarrow>
          let a = point_scalarmul C (point_base C) (ecdh_v px);
              cur = ecdh_combination C P p values_pub (point_identity P);
              a = point_sub C a cur
          in (case do { commitment \<leftarrow> otrng_ec_point_encode C ED448_POINT_BYTES a;
                        values \<leftarrow> encode_points C values_pub;
                        shake_256_prekey_server_kdf C PROOF_C_SIZE usage (commitment @ values @ take HASH_BYTES m) } of
                None \<Rightarrow> False | Some c2 \<Rightarrow> ecdh_c px = c2))"

definition otrng_ecdh_proof_serialize :: "('p, 's, 'm, 'h) crypto_ops \<Rightarrow> 's ecdh_proof_s \<Rightarrow> bytes" where
  "otrng_ecdh_proof_serialize C px =
     otrng_serialize_bytes_array (Some (ecdh_c px)) PROOF_C_SIZE @ otrng_serialize_ec_scalar C (ecdh_v px)"

definition otrng_ecdh_proof_deserialize :: "('p, 's, 'm, 'h) crypto_ops \<Rightarrow> bytes \<Rightarrow> 's ecdh_proof_s parsed" where
  "otrng_ecdh_proof_deserialize C ser =
     (if length ser < PROOF_C_SIZE + ED448_SCALAR_BYTES then None
      else do {
        c \<leftarrow> otrng_deserialize_bytes_array PROOF_C_SIZE ser;
        v \<leftarrow> otrng_deserialize_ec_scalar C (drop PROOF_C_SIZE ser);
        Some (\<lparr>ecdh_c = c, ecdh_v = v\<rparr>, PROOF_C_SIZE + ED448_SCALAR_BYTES) })"

subsection \<open>Diffie-Hellman keys\<close>

text \<open>Without a generator the random bytes of libgcrypt are hashed; both are arguments.  A \<open>NULL\<close> buffer or
  integer handed to libgcrypt is a fault.\<close>

definition gen_random_data :: "('p, 's, 'm, 'h) crypto_ops \<Rightarrow> nat \<Rightarrow> bytes \<Rightarrow> (nat \<Rightarrow> bytes) option \<Rightarrow> bytes option" where
  "gen_random_data C n rbuf gen = (case gen of None \<Rightarrow> shake_256_hash C n rbuf | Some g \<Rightarrow> Some (g n))"

definition serialize_values :: "('p, 's, 'm, 'h) crypto_ops \<Rightarrow> 'm option list \<Rightarrow> bytes option" where
  "serialize_values C ms = map_option concat (those (map (otrng_serialize_dh_mpi_otr C DH_MPI_MAX_BYTES) ms))"

fun dh_response ::
    "('p, 's, 'm, 'h) crypto_ops \<Rightarrow> ('p, 's, 'm) proof_ops \<Rightarrow> bytes \<Rightarrow> 'm option list \<Rightarrow> 'm \<Rightarrow> 'm outcome" where
  "dh_response C P p [] v = Some (Some v)"
| "dh_response C P p (x # xs) v =
     (case otrng_dh_mpi_deserialize C None (take PREKEY_PROOF_LAMBDA p) of
        None \<Rightarrow> Some None
      | Some (t, w) \<Rightarrow>
          (case (t, x) of
             (Some t, Some x) \<Rightarrow>
               (let q = mpi_of_nat C DH3072_MODULUS_Q
                in dh_response C P (drop w p) xs (mpi_addm P v (mpi_mulm P t x q) q))
           | _ \<Rightarrow> None))"

definition otrng_dh_proof_generate ::
    "('p, 's, 'm, 'h) crypto_ops \<Rightarrow> ('p, 's, 'm) proof_ops \<Rightarrow> bytes \<Rightarrow> 'm option list \<Rightarrow> 'm option list \<Rightarrow> bytes \<Rightarrow> byte \<Rightarrow>
     (nat \<Rightarrow> bytes) option \<Rightarrow> 'm dh_proof_s outcome" where
  "otrng_dh_proof_generate C P rnd values_priv values_pub m usage gen =
     (case gen_random_data C DH_KEY_SIZE rnd gen of
        None \<Rightarrow> None
      | Some rbuf \<Rightarrow>
          (case do { r \<leftarrow> mpi_scan C (take DH_KEY_SIZE rbuf);
                     commitment \<leftarrow> otrng_serialize_dh_mpi_otr C DH_MPI_MAX_BYTES (Some (otrng_dh_calculate_public_key C r));
                     values \<leftarrow> serialize_values C values_pub;
                     c \<leftarrow> shake_256_prekey_server_kdf C PROOF_C_SIZE usage (commitment @ values @ take HASH_BYTES m);
                     p \<leftarrow> shake_256_prekey_server_kdf C (PREKEY_PROOF_LAMBDA * length values_pub) usage_proof_c_lambda c;
                     Some (r, c, p) } of
             None \<Rightarrow> Some None
           | Some (r, c, p) \<Rightarrow>
               attempt (dh_response C P p values_priv r) (\<lambda>v. Some (Some \<lparr>dh_c = c, dh_v = Some v\<rparr>))))"

fun dh_combination ::
    "('p, 's, 'm, 'h) crypto_ops \<Rightarrow> ('p, 's, 'm) proof_ops \<Rightarrow> bytes \<Rightarrow> 'm option list \<Rightarrow> 'm \<Rightarrow> 'm outcome" where
  "dh_combination C P p [] cur = Some (Some cur)"
| "dh_combination C P p (X # Xs) cur =
     (case otrng_dh_mpi_deserialize C None (take PREKEY_PROOF_LAMBDA p) of
        None \<Rightarrow> Some None
      | Some (t, w) \<Rightarrow>
          (case (t, X) of
             (Some t, Some X) \<Rightarrow>
               (let md = mpi_of_nat C DH3072_MODULUS
                in dh_combination C P (drop w p) Xs (mpi_mulm P cur (mpi_powm C X t md) md))
           | _ \<Rightarrow> None))"

definition otrng_dh_proof_verify ::
    "('p, 's, 'm, 'h) crypto_ops \<Rightarrow> ('p, 's, 'm) proof_ops \<Rightarrow> 'm dh_proof_s \<Rightarrow> 'm option list \<Rightarrow> bytes \<Rightarrow> byte \<Rightarrow> bool option" where
  "otrng_dh_proof_verify C P px values_pub m usage =
     (case shake_256_prekey_server_kdf C (PREKEY_PROOF_LAMBDA * length values_pub) usage_proof_c_lambda (dh_c px) of
        None \<Rightarrow> Some False
      | Some p \<Rightarrow>
          (case dh_v px of
             None \<Rightarrow> None
           | Some v \<Rightarrow>
               let a = otrng_dh_calculate_public_key C v;
                   md = mpi_of_nat C DH3072_MODULUS
               in (case dh_combination C P p values_pub (mpi_of_nat C 1) of
                     None \<Rightarrow> None
                   | Some None \<Rightarrow> Some False
                   | Some (Some cur) \<Rightarrow>
                       let a = mpi_mulm P a (mpi_invm P cur md) md
                       in (case do { commitment \<leftarrow> otrng_serialize_dh_mpi_otr C DH_MPI_MAX_BYTES (Some a);
                                     values \<leftarrow> serialize_values C values_pub;
                                     shake_256_prekey_server_kdf C PROOF_C_SIZE usage (commitment @ values @ take HASH_BYTES m) } of
                             None \<Rightarrow> Some False | Some c2 \<Rightarrow> Some (dh_c px = c2)))))"

text \<open>When the integer cannot be written, the function returns the length that was left at 0, so the caller
  goes on as if nothing had been written.\<close>

definition otrng_dh_proof_serialize :: "('p, 's, 'm, 'h) crypto_ops \<Rightarrow> 'm dh_proof_s \<Rightarrow> bytes" where
  "otrng_dh_proof_serialize C px =
     (case otrng_serialize_dh_mpi_otr C DH_MPI_MAX_BYTES (dh_v px) of
        None \<Rightarrow> []
      | Some v \<Rightarrow> otrng_serialize_bytes_array (Some (dh_c px)) PROOF_C_SIZE @ v)"

definition otrng_dh_proof_deserialize ::
    "('p, 's, 'm, 'h) crypto_ops \<Rightarrow> 'm option \<Rightarrow> bytes \<Rightarrow> 'm dh_proof_s parsed" where
  "otrng_dh_proof_deserialize C dst ser =
     (if length ser < PROOF_C_SIZE then None
      else do {
        c \<leftarrow> otrng_deserialize_bytes_array PROOF_C_SIZE ser;
        (v, n) \<leftarrow> otrng_deserialize_dh_mpi_otr C dst (drop PROOF_C_SIZE ser);
        Some (\<lparr>dh_c = c, dh_v = v\<rparr>, PROOF_C_SIZE + n) })"

subsection \<open>An honest proof\<close>

lemma server_kdf:
  assumes "sponge_ok C S"
  shows "shake_256_prekey_server_kdf C n u v = Some (xof S (ascii ''OTR-Prekey-Server'' @ [u] @ v) n)"
  by (simp add: shake_256_prekey_server_kdf_def hash_init_with_usage_prekey_server_def
      hash_init_with_usage_and_domain_separation_def sponge_simps[OF assms])

text \<open>The sum of the values, each multiplied with its coefficient.\<close>

fun weighted :: "(bytes \<Rightarrow> 'a) \<Rightarrow> bytes \<Rightarrow> 'a list \<Rightarrow> 'a :: comm_semiring_1" where
  "weighted dec p [] = 0"
| "weighted dec p (x # xs) = dec (take PREKEY_PROOF_LAMBDA p) * x + weighted dec (drop PREKEY_PROOF_LAMBDA p) xs"

definition scalar_coefficient :: "('p, 's, 'm, 'h) crypto_ops \<Rightarrow> ('p, 's, 'm, 'h) crypto_sem \<Rightarrow> bytes \<Rightarrow> int" where
  "scalar_coefficient C S bs = sval S (scalar_decode_long C bs)"

lemma ecdh_response_value:
  assumes G: "goldilocks_ok C S"
  shows "sval S (ecdh_response C p xs v) = (sval S v + weighted (scalar_coefficient C S) p (map (sval S) xs)) mod order S"
  by (induction xs arbitrary: p v)
     (simp_all add: goldilocks_simps[OF G] scalar_coefficient_def Let_def mod_simps algebra_simps)

lemma ecdh_combination_value:
  assumes G: "goldilocks_ok C S" and P: "proof_ops_ok C S P"
  shows "dlog S (ecdh_combination C P p Xs cur) = (dlog S cur + weighted (scalar_coefficient C S) p (map (dlog S) Xs)) mod order S"
proof (induction Xs arbitrary: p cur rule: induct_list012)
  case (3 X Y Xs)
  have "dlog S (point_double_scalarmul P X s Y t) = (dlog S X * sval S s + dlog S Y * sval S t) mod order S" for s t
    using P by (simp add: proof_ops_ok_def)
  with 3 show ?case
    by (simp add: goldilocks_simps[OF G] scalar_coefficient_def Let_def mod_simps mult_2 flip: drop_drop) (simp add: algebra_simps mod_simps)
qed (simp_all add: goldilocks_simps[OF G] scalar_coefficient_def mod_simps algebra_simps)

lemma encode_points_eq: "encode_points C ps = Some (concat (map (point_encode_like_eddsa C) ps))"
proof -
  have "those (map (otrng_ec_point_encode C ED448_POINT_BYTES) ps) = Some (map (point_encode_like_eddsa C) ps)"
    by (induction ps) (simp_all add: otrng_ec_point_encode_def)
  then show ?thesis by (simp add: encode_points_def)
qed

lemma encode_points_cong:
  assumes "goldilocks_ok C S" "map (dlog S) ps = map (dlog S) qs"
  shows "encode_points C ps = encode_points C qs"
proof -
  have "map (point_encode_like_eddsa C) ps = map (point_encode_like_eddsa C) qs"
    using assms by (induction ps qs rule: list_induct2') (simp_all add: goldilocks_point(10)[OF assms(1)])
  then show ?thesis by (simp add: encode_points_eq)
qed

lemma ecdh_proof_ok:
  assumes G: "goldilocks_ok C S" and H: "sponge_ok C S" and P: "proof_ops_ok C S P"
    and keys: "map (dlog S) values_pub = map (sval S) values_priv" "map (dlog S) received = map (dlog S) values_pub"
  shows "\<exists>px px'. otrng_ecdh_proof_generate C seed values_priv values_pub m usage = Some px \<and>
     (\<forall>rest. otrng_ecdh_proof_deserialize C (otrng_ecdh_proof_serialize C px @ rest) = Some (px', length (otrng_ecdh_proof_serialize C px))) \<and>
     otrng_ecdh_proof_verify C P px' received m usage"
proof -
  let ?a = "otrng_zq_keypair_generate C seed"
  define c where "c = xof S (ascii ''OTR-Prekey-Server'' @ [usage] @ point_encode_like_eddsa C (ecdh_pub ?a) @
     concat (map (point_encode_like_eddsa C) values_pub) @ take HASH_BYTES m) PROOF_C_SIZE"
  define p where "p = xof S (ascii ''OTR-Prekey-Server'' @ [usage_proof_c_lambda] @ c) (PREKEY_PROOF_LAMBDA * length values_pub)"
  have p: "xof S (ascii ''OTR-Prekey-Server'' @ usage_proof_c_lambda # c) (PREKEY_PROOF_LAMBDA * length values_pub) = p" by (simp add: p_def)
  let ?px = "\<lparr>ecdh_c = c, ecdh_v = ecdh_response C p values_priv (ecdh_priv ?a)\<rparr>"
  have gen: "otrng_ecdh_proof_generate C seed values_priv values_pub m usage = Some ?px"
    by (simp add: otrng_ecdh_proof_generate_def server_kdf[OF H] encode_points_eq otrng_ec_point_encode_def c_def p_def Let_def)
  have lc: "length c = PROOF_C_SIZE" by (simp add: c_def sponge_facts[OF H])
  define v where "v = wire_scalar C (ecdh_v ?px)"
  have v: "otrng_deserialize_ec_scalar C (otrng_serialize_ec_scalar C (ecdh_v ?px) @ rest) = Some v" "sval S v = sval S (ecdh_v ?px)" for rest
    by (simp_all add: v_def wire_scalar[OF G])
  let ?px' = "\<lparr>ecdh_c = c, ecdh_v = v\<rparr>"
  have ser: "otrng_ecdh_proof_deserialize C (otrng_ecdh_proof_serialize C ?px @ rest) = Some (?px', length (otrng_ecdh_proof_serialize C ?px))" for rest
    using lc v(1)[of rest] by (simp add: otrng_ecdh_proof_deserialize_def otrng_ecdh_proof_serialize_def otrng_serialize_bytes_array_def
        otrng_deserialize_bytes_array_def length_serialize_group[OF G] ED448_SCALAR_BYTES_def)
  have n: "length received = length values_pub" using arg_cong[OF keys(2), of length] by simp
  let ?cur = "ecdh_combination C P p received (point_identity P)"
  have "dlog S (point_sub C (point_scalarmul C (point_base C) v) ?cur) = dlog S (ecdh_pub ?a)"
    using P keys v(2)
    by (simp add: goldilocks_simps[OF G] ecdh_combination_value[OF G P] ecdh_response_value[OF G] proof_ops_ok_def mod_simps
        otrng_zq_keypair_generate_def Let_def)
  then have "point_encode_like_eddsa C (point_sub C (point_scalarmul C (point_base C) v) ?cur) = point_encode_like_eddsa C (ecdh_pub ?a)"
    by (simp add: goldilocks_point(10)[OF G])
  then have "otrng_ecdh_proof_verify C P ?px' received m usage"
    using encode_points_cong[OF G keys(2)] n
    by (simp add: otrng_ecdh_proof_verify_def server_kdf[OF H] encode_points_eq otrng_ec_point_encode_def p Let_def) (simp add: c_def)
  with gen ser show ?thesis by blast
qed

text \<open>A proof for ECDH keys that is made with their private keys is accepted, after it was written and
  read, by a verifier that has the public keys from another message: whatever the random scalar, the
  hashed values and the number of keys, which the verifier takes two at a time.\<close>

theorem ecdh_proof_accepted:
  assumes G: "goldilocks_ok C S" and H: "sponge_ok C S" and P: "proof_ops_ok C S P"
    and keys: "map (dlog S) values_pub = map (sval S) values_priv" "map (dlog S) received = map (dlog S) values_pub"
  shows "\<exists>px px'. otrng_ecdh_proof_generate C seed values_priv values_pub m usage = Some px \<and>
     otrng_ecdh_proof_deserialize C (otrng_ecdh_proof_serialize C px @ rest) = Some (px', length (otrng_ecdh_proof_serialize C px)) \<and>
     otrng_ecdh_proof_verify C P px' received m usage"
  using ecdh_proof_ok[OF assms] by blast

subsection \<open>An honest Diffie-Hellman proof\<close>

text \<open>The private keys are so short that the response is never reduced.\<close>

lemma be_value_bound: "be_value bs < 256 ^ length bs"
proof (induction bs)
  case (Cons b bs)
  have "unat b \<le> 255" using unat_byte_less[of b] by linarith
  then have "unat b * 256 ^ length bs \<le> 255 * 256 ^ length bs" by (rule mult_right_mono) simp
  moreover have "(256 :: nat) ^ length (b # bs) = 255 * 256 ^ length bs + 256 ^ length bs" by simp
  ultimately show ?case using Cons.IH unfolding be_value.simps by linarith
qed simp

lemma weighted_bound:
  assumes "list_all (\<lambda>x. x < 256 ^ DH_KEY_SIZE) xs"
  shows "weighted be_value p xs \<le> length xs * 256 ^ 124"
  using assms
proof (induction xs arbitrary: p)
  case (Cons x xs)
  have "be_value (take PREKEY_PROOF_LAMBDA p) < 256 ^ length (take PREKEY_PROOF_LAMBDA p)" by (rule be_value_bound)
  also have "\<dots> \<le> (256 :: nat) ^ PREKEY_PROOF_LAMBDA" by (intro power_increasing) simp_all
  finally have "be_value (take PREKEY_PROOF_LAMBDA p) * x \<le> 256 ^ PREKEY_PROOF_LAMBDA * 256 ^ DH_KEY_SIZE"
    using Cons.prems by (intro mult_mono) auto
  also have "\<dots> = (256 :: nat) ^ 124" by (simp only: const_defs flip: power_add) simp
  finally have "be_value (take PREKEY_PROOF_LAMBDA p) * x \<le> 256 ^ 124" .
  moreover have "weighted be_value (drop PREKEY_PROOF_LAMBDA p) xs \<le> length xs * 256 ^ 124" using Cons by simp
  ultimately show ?case by (simp only: weighted.simps list.size(4) add_mult_distrib)
qed simp

lemma dh_moduli: "1 < DH3072_MODULUS" "DH3072_MODULUS < 256 ^ DH3072_MOD_LEN_BYTES" "coprime 2 DH3072_MODULUS"
    "256 ^ DH_KEY_SIZE + 256 ^ 132 \<le> DH3072_MODULUS_Q"
  by (simp_all add: DH3072_MODULUS_def DH3072_MODULUS_Q_def const_defs coprime_left_2_iff_odd)

lemma coefficient_read:
  assumes "gcrypt_ok C S" "PREKEY_PROOF_LAMBDA \<le> length p"
  obtains t where "otrng_dh_mpi_deserialize C None (take PREKEY_PROOF_LAMBDA p) = Some (Some t, PREKEY_PROOF_LAMBDA)"
    "mval S t = be_value (take PREKEY_PROOF_LAMBDA p)"
proof -
  obtain t where "mpi_scan C (take PREKEY_PROOF_LAMBDA p) = Some t" "mval S t = be_value (take PREKEY_PROOF_LAMBDA p)"
    using assms(1) unfolding gcrypt_ok_def by blast
  with assms(2) show ?thesis by (intro that) (auto simp: otrng_dh_mpi_deserialize_def const_defs)
qed

lemma dh_response_value:
  assumes M: "gcrypt_ok C S" and P: "proof_ops_ok C S P" and "PREKEY_PROOF_LAMBDA * length xs \<le> length p" "mval S v < DH3072_MODULUS_Q"
  obtains w where "dh_response C P p (map Some xs) v = Some (Some w)"
    "mval S w = (mval S v + weighted be_value p (map (mval S) xs)) mod DH3072_MODULUS_Q"
  using assms(3,4)
proof (induction xs arbitrary: p v thesis)
  case Nil
  then show ?case by simp
next
  case (Cons x xs)
  let ?q = "mpi_of_nat C DH3072_MODULUS_Q"
  have q: "mval S ?q = DH3072_MODULUS_Q" "0 < DH3072_MODULUS_Q" using M dh_moduli(4) by (simp_all add: gcrypt_ok_def)
  obtain t where t: "otrng_dh_mpi_deserialize C None (take PREKEY_PROOF_LAMBDA p) = Some (Some t, PREKEY_PROOF_LAMBDA)"
    "mval S t = be_value (take PREKEY_PROOF_LAMBDA p)"
    by (rule coefficient_read[OF M, of p]) (use Cons.prems in \<open>simp_all add: const_defs\<close>)
  let ?v = "mpi_addm P v (mpi_mulm P t x ?q) ?q"
  have v: "mval S ?v = (mval S v + mval S t * mval S x) mod DH3072_MODULUS_Q" using P q by (simp add: proof_ops_ok_def mod_simps)
  obtain w where "dh_response C P (drop PREKEY_PROOF_LAMBDA p) (map Some xs) ?v = Some (Some w)"
    "mval S w = (mval S ?v + weighted be_value (drop PREKEY_PROOF_LAMBDA p) (map (mval S) xs)) mod DH3072_MODULUS_Q"
    by (rule Cons.IH[of "drop PREKEY_PROOF_LAMBDA p" ?v]) (use Cons.prems v q in \<open>simp_all add: const_defs\<close>)
  then show ?case using t v by (intro Cons.prems(1)[of w]) (simp_all add: Let_def mod_simps algebra_simps)
qed

text \<open>\<open>y\<close> is the list of exponents of the public keys.\<close>

lemma dh_combination_value:
  assumes M: "gcrypt_ok C S" and P: "proof_ops_ok C S P" and "PREKEY_PROOF_LAMBDA * length Xs \<le> length p" "mval S cur < DH3072_MODULUS"
    and "map (mval S) Xs = map (\<lambda>y. 2 ^ y mod DH3072_MODULUS) ys"
  obtains w where "dh_combination C P p (map Some Xs) cur = Some (Some w)"
    "mval S w = mval S cur * 2 ^ weighted be_value p ys mod DH3072_MODULUS"
  using assms(3-5)
proof (induction Xs arbitrary: p cur ys thesis)
  case Nil
  then show ?case by simp
next
  case (Cons X Xs)
  from Cons.prems(4) obtain y ys' where ys: "ys = y # ys'" "mval S X = 2 ^ y mod DH3072_MODULUS"
    "map (mval S) Xs = map (\<lambda>y. 2 ^ y mod DH3072_MODULUS) ys'" by (cases ys) auto
  let ?m = "mpi_of_nat C DH3072_MODULUS"
  have q: "mval S ?m = DH3072_MODULUS" "0 < DH3072_MODULUS" using M dh_moduli(1) by (simp_all add: gcrypt_ok_def)
  obtain t where t: "otrng_dh_mpi_deserialize C None (take PREKEY_PROOF_LAMBDA p) = Some (Some t, PREKEY_PROOF_LAMBDA)"
    "mval S t = be_value (take PREKEY_PROOF_LAMBDA p)"
    by (rule coefficient_read[OF M, of p]) (use Cons.prems in \<open>simp_all add: const_defs\<close>)
  let ?v = "mpi_mulm P cur (mpi_powm C X t ?m) ?m"
  have "mval S (mpi_powm C X t ?m) = 2 ^ (mval S t * y) mod DH3072_MODULUS"
    using M q ys(2) by (simp add: gcrypt_ok_def power_mod mult.commute flip: power_mult)
  then have v: "mval S ?v = mval S cur * 2 ^ (mval S t * y) mod DH3072_MODULUS" using P q by (simp add: proof_ops_ok_def mod_simps)
  obtain w where "dh_combination C P (drop PREKEY_PROOF_LAMBDA p) (map Some Xs) ?v = Some (Some w)"
    "mval S w = mval S ?v * 2 ^ weighted be_value (drop PREKEY_PROOF_LAMBDA p) ys' mod DH3072_MODULUS"
    by (rule Cons.IH[of "drop PREKEY_PROOF_LAMBDA p" ?v ys']) (use Cons.prems v q ys(3) in \<open>simp_all add: const_defs\<close>)
  then show ?case using t v ys(1) by (intro Cons.prems(1)[of w]) (simp_all add: Let_def mod_simps power_add ac_simps)
qed

lemma dh_commitment_recovered:
  assumes M: "gcrypt_ok C S" and P: "proof_ops_ok C S P"
    and "mval S v = mval S r + w" "mval S cur = 2 ^ w mod DH3072_MODULUS"
  shows "mval S (mpi_mulm P (otrng_dh_calculate_public_key C v) (mpi_invm P cur (mpi_of_nat C DH3072_MODULUS)) (mpi_of_nat C DH3072_MODULUS)) =
     mval S (otrng_dh_calculate_public_key C r)"
proof -
  let ?m = "mpi_of_nat C DH3072_MODULUS" and ?M = DH3072_MODULUS
  have q: "mval S ?m = ?M" using M by (simp add: gcrypt_ok_def)
  have reduced: "y mod DH3072_MODULUS < 256 ^ DH3072_MOD_LEN_BYTES" for y
    by (rule less_trans[OF mod_less_divisor dh_moduli(2)]) (use dh_moduli(1) in simp)
  have pub: "mval S (otrng_dh_calculate_public_key C x) = 2 ^ mval S x mod ?M" for x
    using M dh_moduli(1) by (simp add: gcrypt_ok_def otrng_dh_calculate_public_key_def DH3072_GENERATOR_def)
  have "coprime (2 ^ w) ?M" using dh_moduli(3) by simp
  then have "coprime (2 ^ w mod ?M) ?M" using dh_moduli(1) by (subst coprime_mod_left_iff) simp_all
  moreover have "1 < mval S ?m \<Longrightarrow> coprime (mval S cur) (mval S ?m) \<Longrightarrow> mval S cur * mval S (mpi_invm P cur ?m) mod mval S ?m = 1"
    using P unfolding proof_ops_ok_def by blast
  ultimately have "mval S cur * mval S (mpi_invm P cur ?m) mod ?M = 1" unfolding q assms(4) using dh_moduli(1) by blast
  then have i: "2 ^ w * mval S (mpi_invm P cur ?m) mod ?M = 1" by (simp add: assms(4) mod_simps)
  have "mval S (mpi_mulm P (otrng_dh_calculate_public_key C v) (mpi_invm P cur ?m) ?m) =
     2 ^ mval S r * (2 ^ w * mval S (mpi_invm P cur ?m)) mod ?M"
    using P q dh_moduli(1) by (simp add: proof_ops_ok_def pub assms(3) mod_simps power_add ac_simps)
  also have "\<dots> = 2 ^ mval S r * (2 ^ w * mval S (mpi_invm P cur ?m) mod ?M) mod ?M" by (simp only: mod_mult_right_eq)
  finally show ?thesis using i by (simp add: pub)
qed

lemma dh_bytes_total:
  assumes "gcrypt_ok C S" "mval S m < 256 ^ DH3072_MOD_LEN_BYTES"
  shows "otrng_serialize_dh_mpi_otr C DH_MPI_MAX_BYTES (Some m) = Some (dh_bytes C m)"
proof -
  obtain bs where "mpi_print C m = Some bs" using assms unfolding gcrypt_ok_def by blast
  then show ?thesis by (simp add: dh_bytes_def otrng_serialize_dh_mpi_otr_def otrng_dh_mpi_serialize_def Let_def)
qed

lemma serialize_values_eq:
  assumes "gcrypt_ok C S" "list_all (\<lambda>m. mval S m < 256 ^ DH3072_MOD_LEN_BYTES) ms"
  shows "serialize_values C (map Some ms) = Some (concat (map (dh_bytes C) ms))"
proof -
  have "those (map (otrng_serialize_dh_mpi_otr C DH_MPI_MAX_BYTES) (map Some ms)) = Some (map (dh_bytes C) ms)"
    using assms(2) by (induction ms) (auto simp: dh_bytes_total[OF assms(1)])
  then show ?thesis by (simp add: serialize_values_def)
qed

lemma unreduced_response:
  assumes M: "gcrypt_ok C S" and P: "proof_ops_ok C S P" and "length p = PREKEY_PROOF_LAMBDA * length xs"
    and "list_all (\<lambda>x. mval S x < 256 ^ DH_KEY_SIZE) xs" "length xs < 2 ^ 64" "mval S r < 256 ^ DH_KEY_SIZE"
  obtains v where "dh_response C P p (map Some xs) r = Some (Some v)"
    "mval S v = mval S r + weighted be_value p (map (mval S) xs)" "mval S v < DH3072_MODULUS_Q"
proof -
  have "weighted be_value p (map (mval S) xs) \<le> length xs * 256 ^ 124"
    using weighted_bound[of "map (mval S) xs" p] assms(4) by (simp add: list_all_length)
  also have "\<dots> \<le> 2 ^ 64 * 256 ^ 124" using assms(5) by (intro mult_right_mono) simp_all
  also have "\<dots> = (256 :: nat) ^ 132" by simp
  finally have small: "mval S r + weighted be_value p (map (mval S) xs) < DH3072_MODULUS_Q" using assms(6) dh_moduli(4) by linarith
  then have "mval S r < DH3072_MODULUS_Q" by linarith
  with assms(3) obtain v where "dh_response C P p (map Some xs) r = Some (Some v)"
    "mval S v = (mval S r + weighted be_value p (map (mval S) xs)) mod DH3072_MODULUS_Q"
    by (rule_tac dh_response_value[OF M P, of xs p r]) simp_all
  then show ?thesis using small by (intro that[of v]) (simp_all only: mod_less)
qed

text \<open>What the generator computes: the challenge and the response, and the coefficients that the verifier recomputes.\<close>

definition dh_challenge ::
    "('p, 's, 'm, 'h) crypto_ops \<Rightarrow> ('p, 's, 'm, 'h) crypto_sem \<Rightarrow> byte \<Rightarrow> 'm \<Rightarrow> 'm list \<Rightarrow> bytes \<Rightarrow> bytes" where
  "dh_challenge C S usage r values m = xof S (ascii ''OTR-Prekey-Server'' @ [usage] @ dh_bytes C (otrng_dh_calculate_public_key C r) @
     concat (map (dh_bytes C) values) @ take HASH_BYTES m) PROOF_C_SIZE"

definition dh_coefficients :: "('p, 's, 'm, 'h) crypto_sem \<Rightarrow> bytes \<Rightarrow> nat \<Rightarrow> bytes" where
  "dh_coefficients S c n = xof S (ascii ''OTR-Prekey-Server'' @ [usage_proof_c_lambda] @ c) (PREKEY_PROOF_LAMBDA * n)"

lemma public_key_small:
  assumes "gcrypt_ok C S"
  shows "mval S (otrng_dh_calculate_public_key C x) < 256 ^ DH3072_MOD_LEN_BYTES" "y mod DH3072_MODULUS < 256 ^ DH3072_MOD_LEN_BYTES"
proof -
  show r: "y mod DH3072_MODULUS < 256 ^ DH3072_MOD_LEN_BYTES" for y
    by (rule less_trans[OF mod_less_divisor dh_moduli(2)]) (use dh_moduli(1) in simp)
  show "mval S (otrng_dh_calculate_public_key C x) < 256 ^ DH3072_MOD_LEN_BYTES"
    using assms dh_moduli(1) r by (simp add: gcrypt_ok_def otrng_dh_calculate_public_key_def)
qed

lemma dh_proof_generated:
  assumes M: "gcrypt_ok C S" and H: "sponge_ok C S" and P: "proof_ops_ok C S P"
    and small: "list_all (\<lambda>m. mval S m < 256 ^ DH3072_MOD_LEN_BYTES) values_pub" and n: "length values_pub = length values_priv"
    and keys: "list_all (\<lambda>x. mval S x < 256 ^ DH_KEY_SIZE) values_priv" "length values_priv < 2 ^ 64"
    and r: "gen_random_data C DH_KEY_SIZE rnd gen = Some rbuf" "0 < be_value (take DH_KEY_SIZE rbuf)"
  obtains r v where
    "otrng_dh_proof_generate C P rnd (map Some values_priv) (map Some values_pub) m usage gen =
       Some (Some \<lparr>dh_c = dh_challenge C S usage r values_pub m, dh_v = Some v\<rparr>)"
    "mval S v = mval S r + weighted be_value (dh_coefficients S (dh_challenge C S usage r values_pub m) (length values_pub)) (map (mval S) values_priv)"
    "in_dh_range S v"
proof -
  obtain r where r': "mpi_scan C (take DH_KEY_SIZE rbuf) = Some r" "mval S r = be_value (take DH_KEY_SIZE rbuf)"
    using M unfolding gcrypt_ok_def by blast
  have "be_value (take DH_KEY_SIZE rbuf) < 256 ^ length (take DH_KEY_SIZE rbuf)" by (rule be_value_bound)
  also have "\<dots> \<le> 256 ^ DH_KEY_SIZE" by (intro power_increasing) simp_all
  finally have rb: "mval S r < 256 ^ DH_KEY_SIZE" using r'(2) by simp
  let ?p = "dh_coefficients S (dh_challenge C S usage r values_pub m) (length values_pub)"
  have len: "length ?p = PREKEY_PROOF_LAMBDA * length values_priv" by (simp add: dh_coefficients_def sponge_facts[OF H] n)
  obtain v where v: "dh_response C P ?p (map Some values_priv) r = Some (Some v)"
    "mval S v = mval S r + weighted be_value ?p (map (mval S) values_priv)" "mval S v < DH3072_MODULUS_Q"
    by (rule unreduced_response[OF M P len keys rb])
  have "otrng_dh_proof_generate C P rnd (map Some values_priv) (map Some values_pub) m usage gen =
      Some (Some \<lparr>dh_c = dh_challenge C S usage r values_pub m, dh_v = Some v\<rparr>)"
    using r(1) r'(1) v(1)
    by (simp add: otrng_dh_proof_generate_def dh_bytes_total[OF M public_key_small(1)[OF M]] serialize_values_eq[OF M small]
        server_kdf[OF H] flip: dh_challenge_def dh_coefficients_def append.simps(2))
  moreover have "in_dh_range S v" using v(2,3) r(2) r'(2) by (simp add: in_dh_range_def DH3072_MODULUS_Q_def const_defs)
  ultimately show ?thesis using v(2) by (intro that)
qed

text \<open>A verifier that has the exponents of the public keys behind it recovers the commitment.\<close>

lemma dh_proof_verified:
  assumes G: "goldilocks_ok C S" and M: "gcrypt_ok C S" and H: "sponge_ok C S" and P: "proof_ops_ok C S P"
    and keys: "map (mval S) received = map (\<lambda>y. 2 ^ y mod DH3072_MODULUS) ys" and n: "length values_pub = length received"
    and same: "map (dh_bytes C) received = map (dh_bytes C) values_pub"
    and v: "mval S v = mval S r + weighted be_value (dh_coefficients S (dh_challenge C S usage r values_pub m) (length received)) ys"
  shows "otrng_dh_proof_verify C P \<lparr>dh_c = dh_challenge C S usage r values_pub m, dh_v = Some v\<rparr> (map Some received) m usage = Some True"
proof -
  let ?p = "dh_coefficients S (dh_challenge C S usage r values_pub m) (length received)"
  have p: "xof S (ascii ''OTR-Prekey-Server'' @ usage_proof_c_lambda # dh_challenge C S usage r values_pub m) (PREKEY_PROOF_LAMBDA * length received) = ?p"
    by (simp add: dh_coefficients_def)
  have len: "length ?p = PREKEY_PROOF_LAMBDA * length received" by (simp add: dh_coefficients_def sponge_facts[OF H])
  have fits: "list_all (\<lambda>m. mval S m < 256 ^ DH3072_MOD_LEN_BYTES) received"
    using keys by (induction received ys rule: list_induct2') (auto intro: public_key_small(2)[OF M])
  obtain cur where cur: "dh_combination C P ?p (map Some received) (mpi_of_nat C 1) = Some (Some cur)"
    "mval S cur = mval S (mpi_of_nat C 1) * 2 ^ weighted be_value ?p ys mod DH3072_MODULUS"
    by (rule dh_combination_value[OF M P, of received ?p "mpi_of_nat C 1" ys])
       (use len keys dh_moduli(1) M in \<open>simp_all add: gcrypt_ok_def\<close>)
  let ?m = "mpi_of_nat C DH3072_MODULUS"
  let ?a = "mpi_mulm P (otrng_dh_calculate_public_key C v) (mpi_invm P cur ?m) ?m"
  have a: "mval S ?a = mval S (otrng_dh_calculate_public_key C r)"
    by (rule dh_commitment_recovered[OF M P]) (use v cur(2) M in \<open>simp_all add: gcrypt_ok_def\<close>)
  have "dh_bytes C ?a = dh_bytes C (otrng_dh_calculate_public_key C r)" by (rule wire_cong(2)[OF G M a])
  moreover have "mval S ?a < 256 ^ DH3072_MOD_LEN_BYTES" unfolding a by (rule public_key_small(1)[OF M])
  ultimately show ?thesis
    using cur(1) n same
    by (simp add: otrng_dh_proof_verify_def server_kdf[OF H] p dh_bytes_total[OF M] serialize_values_eq[OF M fits] Let_def)
       (simp add: dh_challenge_def)
qed

lemma dh_proof_ok:
  assumes G: "goldilocks_ok C S" and M: "gcrypt_ok C S" and H: "sponge_ok C S" and P: "proof_ops_ok C S P"
    and keys: "map (mval S) values_pub = map (\<lambda>x. 2 ^ mval S x mod DH3072_MODULUS) values_priv"
      "map (mval S) received = map (mval S) values_pub"
      "list_all (\<lambda>x. mval S x < 256 ^ DH_KEY_SIZE) values_priv" "length values_priv < 2 ^ 64"
    and r: "gen_random_data C DH_KEY_SIZE rnd gen = Some rbuf" "0 < be_value (take DH_KEY_SIZE rbuf)"
  shows "\<exists>px px'. length (otrng_dh_proof_serialize C px) \<le> PROOF_C_SIZE + DH_MPI_MAX_BYTES \<and> otrng_dh_proof_generate C P rnd (map Some values_priv) (map Some values_pub) m usage gen = Some (Some px) \<and>
     (\<forall>rest. otrng_dh_proof_deserialize C None (otrng_dh_proof_serialize C px @ rest) = Some (px', length (otrng_dh_proof_serialize C px))) \<and>
     otrng_dh_proof_verify C P px' (map Some received) m usage = Some True"
proof -
  have n: "length values_pub = length values_priv" "length received = length values_priv"
    using arg_cong[OF keys(1), of length] arg_cong[OF keys(2), of length] by simp_all
  have small: "list_all (\<lambda>m. mval S m < 256 ^ DH3072_MOD_LEN_BYTES) values_pub"
    using keys(1) by (induction values_pub values_priv rule: list_induct2') (auto intro: public_key_small(2)[OF M])
  obtain r v where g: "otrng_dh_proof_generate C P rnd (map Some values_priv) (map Some values_pub) m usage gen =
       Some (Some \<lparr>dh_c = dh_challenge C S usage r values_pub m, dh_v = Some v\<rparr>)" (is "_ = Some (Some ?px)")
    and v: "mval S v = mval S r + weighted be_value (dh_coefficients S (dh_challenge C S usage r values_pub m) (length values_pub)) (map (mval S) values_priv)"
    and range: "in_dh_range S v"
    by (rule dh_proof_generated[OF M H P small n(1) keys(3,4) r])
  let ?px' = "?px\<lparr>dh_v := Some (wire_mpi C v)\<rparr>"
  have c: "length (dh_c ?px) = PROOF_C_SIZE" by (simp add: dh_challenge_def sponge_facts[OF H])
  have ser: "otrng_dh_proof_serialize C ?px = dh_c ?px @ dh_bytes C v"
    using c range by (simp add: otrng_dh_proof_serialize_def otrng_serialize_bytes_array_def dh_bytes_total[OF M] in_dh_range_def)
  have "otrng_dh_proof_deserialize C None (otrng_dh_proof_serialize C ?px @ rest) = Some (?px', length (otrng_dh_proof_serialize C ?px))" for rest
    using c wire_mpi(2)[OF M range, of rest] unfolding ser by (simp add: otrng_dh_proof_deserialize_def otrng_deserialize_bytes_array_def)
  moreover have "map (dh_bytes C) received = map (dh_bytes C) values_pub"
    using keys(2) by (induction received values_pub rule: list_induct2') (auto intro: wire_cong(2)[OF G M])
  then have "otrng_dh_proof_verify C P ?px' (map Some received) m usage = Some True"
    using dh_proof_verified[OF G M H P, of received "map (mval S) values_priv" values_pub "wire_mpi C v" r usage m] keys(1,2) n v wire_mpi(4)[OF M range]
    by (simp add: comp_def)
  moreover have "length (otrng_dh_proof_serialize C ?px) \<le> PROOF_C_SIZE + DH_MPI_MAX_BYTES"
    unfolding ser using c wire_mpi(5)[OF M range] by simp
  ultimately show ?thesis using g by blast
qed

text \<open>A proof for Diffie-Hellman keys that is made with their private keys is accepted, after it was
  written and read, by a verifier that has the public keys from another message.  The private keys have at most 80 bytes,
  as all generated ones, and the response is not zero.\<close>

theorem dh_proof_accepted:
  assumes G: "goldilocks_ok C S" and M: "gcrypt_ok C S" and H: "sponge_ok C S" and P: "proof_ops_ok C S P"
    and keys: "map (mval S) values_pub = map (\<lambda>x. 2 ^ mval S x mod DH3072_MODULUS) values_priv"
      "map (mval S) received = map (mval S) values_pub"
      "list_all (\<lambda>x. mval S x < 256 ^ DH_KEY_SIZE) values_priv" "length values_priv < 2 ^ 64"
    and r: "gen_random_data C DH_KEY_SIZE rnd gen = Some rbuf" "0 < be_value (take DH_KEY_SIZE rbuf)"
  shows "\<exists>px px'. otrng_dh_proof_generate C P rnd (map Some values_priv) (map Some values_pub) m usage gen = Some (Some px) \<and>
     otrng_dh_proof_deserialize C None (otrng_dh_proof_serialize C px @ rest) = Some (px', length (otrng_dh_proof_serialize C px)) \<and>
     otrng_dh_proof_verify C P px' (map Some received) m usage = Some True"
  using dh_proof_ok[OF assms] by blast

subsection \<open>Concrete proofs\<close>

definition ex_proof_ops :: "(int, int, nat) proof_ops" where
  "ex_proof_ops = \<lparr>point_identity = 0, point_double_scalarmul = (\<lambda>p s q t. (p * s + q * t) mod 7),
     mpi_mulm = (\<lambda>a b m. a * b mod m), mpi_addm = (\<lambda>a b m. (a + b) mod m),
     mpi_invm = (\<lambda>a m. nat (fst (bezw a m) mod int m))\<rparr>"

lemma bezw_inverse:
  assumes "1 < m" "coprime a m"
  shows "a * nat (fst (bezw a m) mod int m) mod m = 1"
proof -
  have "int (a * nat (fst (bezw a m) mod int m) mod m) = (fst (bezw a m) * int a + snd (bezw a m) * int m) mod int m"
    using assms(1) by (simp add: zmod_int mod_simps mult.commute)
  also have "\<dots> = 1" using assms bezw_aux[of a m] by (simp add: coprime_iff_gcd_eq_1)
  finally show ?thesis by linarith
qed

lemma ex_proof_ops_ok: "proof_ops_ok ex_crypto ex_sem ex_proof_ops"
  using mod_add_cong[OF mod_mult_eq[symmetric] mod_mult_eq[symmetric], where c = "7 :: int"]
  by (simp add: proof_ops_ok_def ex_proof_ops_def ex_sem_def mod_simps bezw_inverse del: One_nat_def)

theorem ecdh_proof_accepted_witness:
  "\<exists>px px'. otrng_ecdh_proof_generate ex_crypto [4] [1, 2, 3] [1, 2, 3] [7] 0x13 = Some px \<and>
     otrng_ecdh_proof_deserialize ex_crypto (otrng_ecdh_proof_serialize ex_crypto px @ [9]) =
       Some (px', length (otrng_ecdh_proof_serialize ex_crypto px)) \<and>
     otrng_ecdh_proof_verify ex_crypto ex_proof_ops px' [8, 9, 10] [7] 0x13"
  by (rule ecdh_proof_accepted[OF ex_goldilocks_ok ex_sponge_ok ex_proof_ops_ok]) (simp_all add: ex_sem_def)

theorem dh_proof_accepted_witness:
  "\<exists>px px'. otrng_dh_proof_generate ex_crypto ex_proof_ops [] (map Some [2, 3]) (map Some [4, 8]) [7] 0x14 (Some (\<lambda>n. [1])) = Some (Some px) \<and>
     otrng_dh_proof_deserialize ex_crypto None (otrng_dh_proof_serialize ex_crypto px @ [9]) =
       Some (px', length (otrng_dh_proof_serialize ex_crypto px)) \<and>
     otrng_dh_proof_verify ex_crypto ex_proof_ops px' (map Some [4, 8]) [7] 0x14 = Some True"
  by (rule dh_proof_accepted[OF ex_goldilocks_ok ex_gcrypt_ok ex_sponge_ok ex_proof_ops_ok, where rbuf = "[1]"])
     (simp_all add: ex_sem_def gen_random_data_def DH3072_MODULUS_def const_defs)

end
