(* ===== verification/Prekey_Messages.thy ===== *)
theory Prekey_Messages
  imports Prekey_Proofs Protocol
begin

text \<open>
  \<open>prekey_client_shared.c\<close>, \<open>prekey_client_dake.c\<close> and \<open>prekey_client_messages.c\<close>: the messages a client
  exchanges with a prekey server.  The dialogue itself, \<open>prekey_manager.c\<close>, is in \<open>Prekey_Manager\<close>.
\<close>

definition OTRNG_PREKEY_DAKE1_MSG :: byte where [const_defs]: "OTRNG_PREKEY_DAKE1_MSG = 0x35"
definition OTRNG_PREKEY_DAKE2_MSG :: byte where [const_defs]: "OTRNG_PREKEY_DAKE2_MSG = 0x36"
definition OTRNG_PREKEY_DAKE3_MSG :: byte where [const_defs]: "OTRNG_PREKEY_DAKE3_MSG = 0x37"
definition OTRNG_PREKEY_FAILURE_MSG :: byte where [const_defs]: "OTRNG_PREKEY_FAILURE_MSG = 0x05"
definition OTRNG_PREKEY_SUCCESS_MSG :: byte where [const_defs]: "OTRNG_PREKEY_SUCCESS_MSG = 0x06"
definition OTRNG_PREKEY_PUBLICATION_MSG :: byte where [const_defs]: "OTRNG_PREKEY_PUBLICATION_MSG = 0x08"
definition OTRNG_PREKEY_STORAGE_INFO_REQ_MSG :: byte where [const_defs]: "OTRNG_PREKEY_STORAGE_INFO_REQ_MSG = 0x09"
definition OTRNG_PREKEY_STORAGE_STATUS_MSG :: byte where [const_defs]: "OTRNG_PREKEY_STORAGE_STATUS_MSG = 0x0B"
definition OTRNG_PREKEY_NO_PREKEY_IN_STORAGE_MSG :: byte where [const_defs]: "OTRNG_PREKEY_NO_PREKEY_IN_STORAGE_MSG = 0x0E"
definition OTRNG_PREKEY_ENSEMBLE_QUERY_RETRIEVAL_MSG :: byte where [const_defs]:
  "OTRNG_PREKEY_ENSEMBLE_QUERY_RETRIEVAL_MSG = 0x10"
definition OTRNG_PREKEY_ENSEMBLE_RETRIEVAL_MSG :: byte where [const_defs]: "OTRNG_PREKEY_ENSEMBLE_RETRIEVAL_MSG = 0x13"
definition OTRNG_PREKEY_SUCCESS_MSG_LEN :: nat where [const_defs]: "OTRNG_PREKEY_SUCCESS_MSG_LEN = 71"
definition OTRNG_PREKEY_FAILURE_MSG_LEN :: nat where [const_defs]: "OTRNG_PREKEY_FAILURE_MSG_LEN = 71"

definition otrng_prekey_parse_header :: "bytes \<Rightarrow> byte parsed" where
  "otrng_prekey_parse_header buf = do {
     (protocol_version, r) \<leftarrow> otrng_deserialize_uint16 buf;
     let w = r;
     if protocol_version \<noteq> OTRNG_PROTOCOL_VERSION_4 then None else do {
     (msg_type, r) \<leftarrow> otrng_deserialize_uint8 (drop w buf);
     Some (msg_type, w + r) } }"

definition prekey_hash_domain :: string where "prekey_hash_domain = ''OTR-Prekey-Server''"

subsection \<open>The key exchange with the server\<close>

record 'p otrng_prekey_dake1_message_s =
  d1_client_instance_tag :: u32
  d1_client_profile :: "'p otrng_client_profile_s"
  d1_I :: 'p

text \<open>The profile is written into a buffer of its own: a fault there is a fault here.\<close>

definition otrng_prekey_dake1_message_serialize ::
    "('p, 's, 'm, 'h) crypto_ops \<Rightarrow> 'p otrng_prekey_dake1_message_s \<Rightarrow> bytes outcome" where
  "otrng_prekey_dake1_message_serialize C msg =
     attempt (otrng_client_profile_serialize C (d1_client_profile msg)) (\<lambda>client_profile_buffer.
       map_option Some (into_buffer (2 + 1 + 4 + length client_profile_buffer + ED448_POINT_BYTES)
         (otrng_serialize_uint16 OTRNG_PROTOCOL_VERSION_4 @ otrng_serialize_uint8 OTRNG_PREKEY_DAKE1_MSG @
          otrng_serialize_uint32 (d1_client_instance_tag msg) @
          otrng_serialize_bytes_array (Some client_profile_buffer) (length client_profile_buffer) @
          otrng_serialize_ec_point C (d1_I msg))))"

record ('p, 's) otrng_prekey_dake2_message_s =
  d2_client_instance_tag :: u32
  d2_composite_identity :: bytes
  d2_server_identity :: "bytes option"
  d2_server_pub_key :: 'p
  d2_S :: 'p
  d2_sigma :: "'s ring_sig_s"

definition otrng_prekey_dake2_message_deserialize ::
    "('p, 's, 'm, 'h) crypto_ops \<Rightarrow> bytes \<Rightarrow> ('p, 's) otrng_prekey_dake2_message_s option" where
  "otrng_prekey_dake2_message_deserialize C ser = do {
     (msg_type, w) \<leftarrow> otrng_prekey_parse_header ser;
     if msg_type \<noteq> OTRNG_PREKEY_DAKE2_MSG then None else do {
     (tag, read) \<leftarrow> otrng_deserialize_uint32 (drop w ser);
     let w = w + read;
     let composite_identity_start = w;
     (server_identity, read) \<leftarrow> otrng_deserialize_data (drop w ser);
     let w = w + read;
     (server_pub_key, read) \<leftarrow> otrng_deserialize_public_key C (drop w ser);
     let w = w + read;
     let composite_identity = take (w - composite_identity_start) (drop composite_identity_start ser);
     S \<leftarrow> otrng_deserialize_ec_point C (drop w ser);
     let w = w + ED448_POINT_BYTES;
     (sigma, read) \<leftarrow> otrng_deserialize_ring_sig C (drop w ser);
     Some \<lparr>d2_client_instance_tag = tag, d2_composite_identity = composite_identity, d2_server_identity = server_identity,
       d2_server_pub_key = server_pub_key, d2_S = S, d2_sigma = sigma\<rparr> } }"

record 's otrng_prekey_dake3_message_s =
  d3_client_instance_tag :: u32
  d3_sigma :: "'s ring_sig_s"
  d3_msg :: bytes

definition otrng_prekey_dake3_message_serialize ::
    "('p, 's, 'm, 'h) crypto_ops \<Rightarrow> 's otrng_prekey_dake3_message_s \<Rightarrow> bytes option" where
  "otrng_prekey_dake3_message_serialize C msg =
     into_buffer (2 + 1 + 4 + RING_SIG_BYTES + (4 + length (d3_msg msg)) + ED448_POINT_BYTES)
       (otrng_serialize_uint16 OTRNG_PROTOCOL_VERSION_4 @ otrng_serialize_uint8 OTRNG_PREKEY_DAKE3_MSG @
        otrng_serialize_uint32 (d3_client_instance_tag msg) @ otrng_serialize_ring_sig C (d3_sigma msg) @
        otrng_serialize_data (Some (d3_msg msg)) (length (d3_msg msg)))"

subsection \<open>Publication and storage status\<close>

text \<open>The array of prekey messages has as many entries as were stored in it; the count that says how many of them
  are meant is a byte.\<close>

record ('p, 's, 'm) otrng_prekey_publication_message_s =
  pub_num_prekey_messages :: byte
  pub_prekey_messages :: "('p, 's, 'm) prekey_message_s list"
  pub_client_profile :: "'p otrng_client_profile_s option"
  pub_prekey_profile :: "('p, 's) otrng_prekey_profile_s option"

definition otrng_prekey_publication_message_new :: "('p, 's, 'm) otrng_prekey_publication_message_s" where
  "otrng_prekey_publication_message_new = \<lparr>pub_num_prekey_messages = 0, pub_prekey_messages = [],
     pub_client_profile = None, pub_prekey_profile = None\<rparr>"

record otrng_prekey_storage_status_message_s =
  ss_client_instance_tag :: u32
  ss_stored_prekeys :: u32
  ss_mac :: bytes

definition kdf_init_with_usage :: "('p, 's, 'm, 'h) crypto_ops \<Rightarrow> byte \<Rightarrow> 'h option" where
  "kdf_init_with_usage C usage = hash_init_with_usage_and_domain_separation C usage prekey_hash_domain"

definition usage_status_MAC :: byte where "usage_status_MAC = 0x0B"

definition otrng_prekey_storage_status_message_valid ::
    "('p, 's, 'm, 'h) crypto_ops \<Rightarrow> otrng_prekey_storage_status_message_s \<Rightarrow> bytes \<Rightarrow> bool" where
  "otrng_prekey_storage_status_message_valid C msg mac_key = (
     let buf = [OTRNG_PREKEY_STORAGE_STATUS_MSG] @ otrng_serialize_uint32 (ss_client_instance_tag msg) @
           otrng_serialize_uint32 (ss_stored_prekeys msg) in
     case do { hmac \<leftarrow> kdf_init_with_usage C usage_status_MAC; hmac \<leftarrow> hash_update C hmac (take MAC_KEY_BYTES mac_key);
               hash_update C hmac buf } of
       None \<Rightarrow> False
     | Some hmac \<Rightarrow> hash_final C hmac HASH_BYTES = take HASH_BYTES (ss_mac msg))"

definition otrng_prekey_storage_status_message_deserialize :: "bytes \<Rightarrow> otrng_prekey_storage_status_message_s option" where
  "otrng_prekey_storage_status_message_deserialize ser = do {
     (msg_type, w) \<leftarrow> otrng_prekey_parse_header ser;
     if msg_type \<noteq> OTRNG_PREKEY_STORAGE_STATUS_MSG then None else do {
     (tag, read) \<leftarrow> otrng_deserialize_uint32 (drop w ser);
     let w = w + read;
     (stored_prekeys, read) \<leftarrow> otrng_deserialize_uint32 (drop w ser);
     let w = w + read;
     mac \<leftarrow> otrng_deserialize_bytes_array DATA_MSG_MAC_BYTES (drop w ser);
     Some \<lparr>ss_client_instance_tag = tag, ss_stored_prekeys = stored_prekeys, ss_mac = mac\<rparr> } }"

record otrng_prekey_success_message_s =
  sm_client_instance_tag :: u32
  sm_mac :: bytes

definition otrng_prekey_success_message_deserialize :: "bytes \<Rightarrow> otrng_prekey_success_message_s option" where
  "otrng_prekey_success_message_deserialize source = do {
     (protocol_version, read) \<leftarrow> otrng_deserialize_uint16 source;
     let cursor = drop read source;
     if protocol_version \<noteq> OTRNG_PROTOCOL_VERSION_4 then None else do {
     (message_type, read) \<leftarrow> otrng_deserialize_uint8 cursor;
     let cursor = drop read cursor;
     if message_type \<noteq> OTRNG_PREKEY_SUCCESS_MSG then None else do {
     (tag, read) \<leftarrow> otrng_deserialize_uint32 cursor;
     let cursor = drop read cursor;
     mac \<leftarrow> otrng_deserialize_bytes_array HASH_BYTES cursor;
     Some \<lparr>sm_client_instance_tag = tag, sm_mac = mac\<rparr> } } }"

subsection \<open>Retrieval of ensembles\<close>

record otrng_prekey_ensemble_query_retrieval_message_s =
  qr_identity :: string
  qr_versions :: string
  qr_instance_tag :: u32

definition otrng_prekey_ensemble_query_retrieval_message_serialize ::
    "otrng_prekey_ensemble_query_retrieval_message_s \<Rightarrow> bytes" where
  "otrng_prekey_ensemble_query_retrieval_message_serialize msg =
     otrng_serialize_uint16 OTRNG_PROTOCOL_VERSION_4 @ otrng_serialize_uint8 OTRNG_PREKEY_ENSEMBLE_QUERY_RETRIEVAL_MSG @
     otrng_serialize_uint32 (qr_instance_tag msg) @
     otrng_serialize_data (Some (ascii (qr_identity msg))) (length (qr_identity msg)) @
     otrng_serialize_data (Some (ascii (qr_versions msg))) (otrng_strlen_ns (Some (ascii (qr_versions msg))))"

text \<open>The structure lies on the stack of the caller, which does not initialise it: a pointer that has not been
  assigned is \<open>None\<close>.  An entry of the array is \<open>None\<close> when it is \<open>NULL\<close>.\<close>

record ('p, 's, 'm) otrng_prekey_ensemble_retrieval_message_s =
  rt_instance_tag :: u32
  rt_identity :: "string option"
  rt_ensembles :: "('p, 's, 'm) prekey_ensemble_s option list option"
  rt_num_ensembles :: byte

definition retrieval_message_uninitialised :: "('p, 's, 'm) otrng_prekey_ensemble_retrieval_message_s" where
  "retrieval_message_uninitialised = \<lparr>rt_instance_tag = 0, rt_identity = None, rt_ensembles = None, rt_num_ensembles = 0\<rparr>"

text \<open>The ensembles that could be read, and whether that were all; the one that was left half read when the
  message ended is shown as \<open>NULL\<close>, as only the destructor sees it.\<close>

fun read_ensembles ::
    "('p, 's, 'm, 'h) crypto_ops \<Rightarrow> ('p, 's) wiped \<Rightarrow> nat \<Rightarrow> bytes \<Rightarrow> bool \<times> ('p, 's, 'm) prekey_ensemble_s list" where
  "read_ensembles C Z 0 ser = (True, [])"
| "read_ensembles C Z (Suc n) ser =
     (case otrng_prekey_ensemble_deserialize C Z ser of
        None \<Rightarrow> (False, [])
      | Some (e, read) \<Rightarrow> (case read_ensembles C Z n (drop read ser) of (ok, es) \<Rightarrow> (ok, e # es)))"

definition otrng_prekey_ensemble_retrieval_message_deserialize ::
    "('p, 's, 'm, 'h) crypto_ops \<Rightarrow> ('p, 's) wiped \<Rightarrow> ('p, 's, 'm) otrng_prekey_ensemble_retrieval_message_s \<Rightarrow> bytes
     \<Rightarrow> bool \<times> ('p, 's, 'm) otrng_prekey_ensemble_retrieval_message_s" where
  "otrng_prekey_ensemble_retrieval_message_deserialize C Z dst ser =
     (case otrng_prekey_parse_header ser of
        None \<Rightarrow> (False, dst)
      | Some (msg_type, w) \<Rightarrow>
      if msg_type \<noteq> OTRNG_PREKEY_ENSEMBLE_RETRIEVAL_MSG then (False, dst)
      else case otrng_deserialize_uint32 (drop w ser) of
        None \<Rightarrow> (False, dst)
      | Some (tag, read) \<Rightarrow>
      let dst = dst\<lparr>rt_instance_tag := tag\<rparr>; w = w + read in
      case otrng_deserialize_data (drop w ser) of
        None \<Rightarrow> (False, dst)
      | Some (tmp_buf, read) \<Rightarrow>
      let w = w + read;
          dst = dst\<lparr>rt_identity := Some (case tmp_buf of None \<Rightarrow> '''' | Some bs \<Rightarrow> chars (c_string bs))\<rparr> in
      case otrng_deserialize_uint8 (drop w ser) of
        None \<Rightarrow> (False, dst)
      | Some (l, read) \<Rightarrow>
      let w = w + read in
      case read_ensembles C Z (unat l) (drop w ser) of (ok, es) \<Rightarrow>
        (ok, dst\<lparr>rt_ensembles := Some (map Some es @ replicate (unat l - length es) None), rt_num_ensembles := l\<rparr>))"

text \<open>Freeing a pointer that was never assigned is a fault.\<close>

definition otrng_prekey_ensemble_retrieval_message_destroy ::
    "('p, 's, 'm) otrng_prekey_ensemble_retrieval_message_s \<Rightarrow> unit option" where
  "otrng_prekey_ensemble_retrieval_message_destroy msg =
     (case (rt_identity msg, rt_ensembles msg) of (Some _, Some _) \<Rightarrow> Some () | _ \<Rightarrow> None)"

end
