(* ===== verification/Prekey_Manager.thy ===== *)
theory Prekey_Manager
  imports Prekey_Messages
begin

text \<open>
  \<open>prekey_manager.c\<close>: the dialogue of a client with a prekey server.  A request starts with a key exchange of
  its own; its third message carries what the client wants, to publish or to know how much is stored.  The client is
  the record of \<open>client.h\<close> extended by the fields this file uses.  The packages and the two callbacks of the
  application that return something are the fields of \<open>prekey_env\<close>; the callbacks that only tell the
  application something are recorded in \<open>cl_prekey_events\<close>.  A fault, a failed assertion and the exit after a
  hash failure are \<open>None\<close>.
\<close>

definition PREKEY_HASH_DOMAIN :: string where [const_defs]: "PREKEY_HASH_DOMAIN = ''OTR-Prekey-Server''"
definition USAGE_SK :: byte where [const_defs]: "USAGE_SK = 0x01"
definition USAGE_INITIATOR_CLIENT_PROFILE :: byte where [const_defs]: "USAGE_INITIATOR_CLIENT_PROFILE = 0x02"
definition USAGE_INITIATOR_PREKEY_COMPOSITE_IDENTITY :: byte where [const_defs]: "USAGE_INITIATOR_PREKEY_COMPOSITE_IDENTITY = 0x03"
definition USAGE_INITIATOR_PREKEY_COMPOSITE_PHI :: byte where [const_defs]: "USAGE_INITIATOR_PREKEY_COMPOSITE_PHI = 0x04"
definition USAGE_RECEIVER_CLIENT_PROFILE :: byte where [const_defs]: "USAGE_RECEIVER_CLIENT_PROFILE = 0x05"
definition USAGE_RECEIVER_PREKEY_COMPOSITE_IDENTITY :: byte where [const_defs]: "USAGE_RECEIVER_PREKEY_COMPOSITE_IDENTITY = 0x06"
definition USAGE_RECEIVER_PREKEY_COMPOSITE_PHI :: byte where [const_defs]: "USAGE_RECEIVER_PREKEY_COMPOSITE_PHI = 0x07"
definition USAGE_PREMAC_KEY :: byte where [const_defs]: "USAGE_PREMAC_KEY = 0x08"
definition USAGE_PRE_MAC :: byte where [const_defs]: "USAGE_PRE_MAC = 0x09"
definition USAGE_STORAGE_INFO_MAC :: byte where [const_defs]: "USAGE_STORAGE_INFO_MAC = 0x0A"
definition USAGE_SUCCESS_MAC :: byte where [const_defs]: "USAGE_SUCCESS_MAC = 0x0C"
definition USAGE_FAILURE_MAC :: byte where [const_defs]: "USAGE_FAILURE_MAC = 0x0D"
definition USAGE_PREKEY_MESSAGE :: byte where [const_defs]: "USAGE_PREKEY_MESSAGE = 0x0E"
definition USAGE_CLIENT_PROFILE :: byte where [const_defs]: "USAGE_CLIENT_PROFILE = 0x0F"
definition USAGE_PREKEY_PROFILE :: byte where [const_defs]: "USAGE_PREKEY_PROFILE = 0x10"
definition USAGE_AUTH :: byte where [const_defs]: "USAGE_AUTH = 0x11"
definition USAGE_PROOF_CONTEXT :: byte where [const_defs]: "USAGE_PROOF_CONTEXT = 0x12"
definition USAGE_PROOF_MESSAGE_ECDH :: byte where [const_defs]: "USAGE_PROOF_MESSAGE_ECDH = 0x13"
definition USAGE_PROOF_MESSAGE_DH :: byte where [const_defs]: "USAGE_PROOF_MESSAGE_DH = 0x14"
definition USAGE_PROOF_SHARED_ECDH :: byte where [const_defs]: "USAGE_PROOF_SHARED_ECDH = 0x15"
definition USAGE_MAC_PROOFS :: byte where [const_defs]: "USAGE_MAC_PROOFS = 0x16"
definition T_LEN :: nat where [const_defs]: "T_LEN = 1 + 3 * HASH_BYTES + 2 * ED448_POINT_BYTES"
definition ACCOUNT_REQUEST_EXPIRY :: int where [const_defs]: "ACCOUNT_REQUEST_EXPIRY = 10 * 60"
definition OTRNG_PREKEY_CLIENT_MALFORMED_MSG :: nat where [const_defs]: "OTRNG_PREKEY_CLIENT_MALFORMED_MSG = 1"
definition OTRNG_PREKEY_CLIENT_INVALID_DAKE2 :: nat where [const_defs]: "OTRNG_PREKEY_CLIENT_INVALID_DAKE2 = 2"
definition OTRNG_PREKEY_CLIENT_INVALID_STORAGE_STATUS :: nat where [const_defs]: "OTRNG_PREKEY_CLIENT_INVALID_STORAGE_STATUS = 3"
definition OTRNG_PREKEY_CLIENT_INVALID_SUCCESS :: nat where [const_defs]: "OTRNG_PREKEY_CLIENT_INVALID_SUCCESS = 4"
definition OTRNG_PREKEY_CLIENT_INVALID_FAILURE :: nat where [const_defs]: "OTRNG_PREKEY_CLIENT_INVALID_FAILURE = 5"

subsection \<open>State\<close>

text \<open>The context that the application hands over is a pointer nothing here looks at.\<close>

type_synonym app_ctx = "nat option"

record otrng_prekey_server_s =
  ps_domain :: string
  ps_identity :: string
  ps_fpr :: bytes

text \<open>The functions \<open>after_dake\<close> can point to.\<close>

datatype otrng_prekey_next_message = Storage_request_after_dake | Publication_after_dake

record ('p, 's) otrng_prekey_request_s =
  pr_ctx :: app_ctx
  pr_server :: otrng_prekey_server_s
  pr_ephemeral_ecdh :: "('p, 's) ecdh_keypair_s option"
  pr_mac_key :: bytes
  pr_mac_proof_key :: bytes
  pr_after_dake :: "otrng_prekey_next_message option"

record otrng_prekey_publication_policy_s =
  max_published_prekey_message :: u32
  minimum_stored_prekey_message :: u32
  publish_client_profile :: bool
  publish_prekey_profile :: bool

record ('p, 's) otrng_prekey_manager_s =
  mg_our_identity :: string
  mg_server_identities :: "otrng_prekey_server_s list"
  mg_request_for_account :: "('p, 's) otrng_prekey_request_s option"
  mg_request_for_account_at :: int
  mg_pending_fragments :: "fragment_context_s list"
  mg_publication_policy :: otrng_prekey_publication_policy_s

datatype ('p, 's, 'm) prekey_event = Notify_error nat app_ctx | Success_received app_ctx | Failure_received app_ctx
  | Low_prekey_messages_in_storage app_ctx | Storage_status_received otrng_prekey_storage_status_message_s app_ctx
  | No_prekey_in_storage_received string
  | Prekey_ensembles_received "('p, 's, 'm) prekey_ensemble_s option list" byte string

record ('p, 's, 'm) prekey_client_s = "('p, 's, 'm) otrng_client_s" +
  cl_prekey_manager :: "('p, 's) otrng_prekey_manager_s option"
  cl_max_published_prekey_msg :: u32
  cl_minimum_stored_prekey_msg :: u32
  cl_should_publish :: bool
  cl_prekey_msgs_num_to_publish :: u32
  cl_prekey_events :: "('p, 's, 'm) prekey_event list"

text \<open>\<open>base64_encode\<close> and \<open>base64_decode\<close> are libotr's, without a prefix.  The callback that builds a
  publication message returns whether it succeeded, the message and the client as it leaves it.\<close>

record ('p, 's, 'm, 'h) prekey_env =
  ops :: "('p, 's, 'm, 'h) crypto_ops"
  proofs :: "('p, 's, 'm) proof_ops"
  zero :: "('p, 's) wiped"
  base64_encode :: "bytes \<Rightarrow> string"
  base64_decode :: "string \<Rightarrow> bytes"
  domain_for_account :: "('p, 's, 'm) prekey_client_s \<Rightarrow> app_ctx \<Rightarrow> string"
  build_prekey_publication_message :: "('p, 's, 'm) prekey_client_s \<Rightarrow> app_ctx
     \<Rightarrow> bool \<times> ('p, 's, 'm) otrng_prekey_publication_message_s \<times> ('p, 's, 'm) prekey_client_s"

text \<open>What a call leaves in the pointer through which it returns a string.\<close>

datatype out_string = Untouched | Null_ptr | Dangling | Owned string

definition set_manager :: "('p, 's) otrng_prekey_manager_s \<Rightarrow> ('p, 's, 'm) prekey_client_s \<Rightarrow> ('p, 's, 'm) prekey_client_s" where
  "set_manager m client = client\<lparr>cl_prekey_manager := Some m\<rparr>"

definition set_request :: "('p, 's) otrng_prekey_request_s \<Rightarrow> ('p, 's, 'm) prekey_client_s \<Rightarrow> ('p, 's, 'm) prekey_client_s" where
  "set_request r client =
     client\<lparr>cl_prekey_manager := map_option (\<lambda>m. m\<lparr>mg_request_for_account := Some r\<rparr>) (cl_prekey_manager client)\<rparr>"

definition tell :: "('p, 's, 'm) prekey_event \<Rightarrow> ('p, 's, 'm) prekey_client_s \<Rightarrow> ('p, 's, 'm) prekey_client_s" where
  "tell e client = client\<lparr>cl_prekey_events := cl_prekey_events client @ [e]\<rparr>"

definition notify_error :: "nat \<Rightarrow> app_ctx \<Rightarrow> ('p, 's, 'm) prekey_client_s \<Rightarrow> ('p, 's, 'm) prekey_client_s" where
  "notify_error err ctx client = tell (Notify_error err ctx) client"

subsection \<open>Hashing\<close>

definition do_hash_x :: "('p, 's, 'm, 'h) crypto_ops \<Rightarrow> nat \<Rightarrow> byte \<Rightarrow> bytes \<Rightarrow> bytes option" where
  "do_hash_x C dst_len usage values = shake_256_prekey_server_kdf C dst_len usage values"

definition kdf_init_with_usage_x :: "('p, 's, 'm, 'h) crypto_ops \<Rightarrow> byte \<Rightarrow> 'h option" where
  "kdf_init_with_usage_x C usage = hash_init_with_usage_and_domain_separation C usage PREKEY_HASH_DOMAIN"

definition hash_update_x :: "('p, 's, 'm, 'h) crypto_ops \<Rightarrow> 'h \<Rightarrow> bytes \<Rightarrow> 'h option" where
  "hash_update_x C hash buf = hash_update C hash buf"

definition hash_update_single_x :: "('p, 's, 'm, 'h) crypto_ops \<Rightarrow> 'h \<Rightarrow> byte \<Rightarrow> 'h option" where
  "hash_update_single_x C hash val = hash_update_x C hash [val]"

subsection \<open>Servers and the manager\<close>

definition get_prekey_server_for :: "('p, 's) otrng_prekey_manager_s \<Rightarrow> string \<Rightarrow> otrng_prekey_server_s option" where
  "get_prekey_server_for manager domain = find (\<lambda>server. domain = ps_domain server) (mg_server_identities manager)"

definition find_server_for_identity :: "('p, 's) otrng_prekey_manager_s \<Rightarrow> string \<Rightarrow> otrng_prekey_server_s option" where
  "find_server_for_identity manager ident = find (\<lambda>server. ident = ps_identity server) (mg_server_identities manager)"

definition get_domain_for_account :: "('p, 's, 'm, 'h) prekey_env \<Rightarrow> ('p, 's, 'm) prekey_client_s \<Rightarrow> app_ctx \<Rightarrow> string option" where
  "get_domain_for_account E client ctx =
     (if cl_prekey_manager client = None then None else Some (domain_for_account E client ctx))"

definition otrng_prekey_ensure_manager :: "('p, 's, 'm) prekey_client_s \<Rightarrow> string \<Rightarrow> bool \<times> ('p, 's, 'm) prekey_client_s" where
  "otrng_prekey_ensure_manager client ident =
     (if cl_prekey_manager client \<noteq> None then (False, client)
      else (True, set_manager \<lparr>mg_our_identity = ident, mg_server_identities = [], mg_request_for_account = None,
        mg_request_for_account_at = 0, mg_pending_fragments = [],
        mg_publication_policy = \<lparr>max_published_prekey_message = cl_max_published_prekey_msg client,
          minimum_stored_prekey_message = cl_minimum_stored_prekey_msg client,
          publish_client_profile = False, publish_prekey_profile = False\<rparr>\<rparr> client))"

definition otrng_prekey_provide_server_identity_for ::
    "('p, 's, 'm) prekey_client_s \<Rightarrow> string \<Rightarrow> string \<Rightarrow> bytes \<Rightarrow> ('p, 's, 'm) prekey_client_s option" where
  "otrng_prekey_provide_server_identity_for client domain ident fpr = do {
     manager \<leftarrow> cl_prekey_manager client;
     Some (set_manager (manager\<lparr>mg_server_identities := mg_server_identities manager @
       [\<lparr>ps_domain = domain, ps_identity = ident, ps_fpr = take FPRINT_LEN_BYTES fpr\<rparr>]\<rparr>) client) }"

definition otrng_prekey_get_server_identity_for ::
    "('p, 's, 'm) prekey_client_s \<Rightarrow> string \<Rightarrow> otrng_prekey_server_s outcome" where
  "otrng_prekey_get_server_identity_for client domain =
     map_option (\<lambda>manager. get_prekey_server_for manager domain) (cl_prekey_manager client)"

definition otrng_prekey_has_server_identity_for :: "('p, 's, 'm) prekey_client_s \<Rightarrow> string \<Rightarrow> bool option" where
  "otrng_prekey_has_server_identity_for client domain =
     map_option (\<lambda>manager. get_prekey_server_for manager domain \<noteq> None) (cl_prekey_manager client)"

definition otrng_prekey_set_client_profile_publication :: "('p, 's, 'm) prekey_client_s \<Rightarrow> ('p, 's, 'm) prekey_client_s option" where
  "otrng_prekey_set_client_profile_publication client = do {
     manager \<leftarrow> cl_prekey_manager client;
     Some (set_manager (manager\<lparr>mg_publication_policy := (mg_publication_policy manager)\<lparr>publish_client_profile := True\<rparr>\<rparr>) client) }"

definition otrng_prekey_set_prekey_profile_publication :: "('p, 's, 'm) prekey_client_s \<Rightarrow> ('p, 's, 'm) prekey_client_s option" where
  "otrng_prekey_set_prekey_profile_publication client = do {
     manager \<leftarrow> cl_prekey_manager client;
     Some (set_manager (manager\<lparr>mg_publication_policy := (mg_publication_policy manager)\<lparr>publish_prekey_profile := True\<rparr>\<rparr>) client) }"

subsection \<open>Requests\<close>

definition create_prekey_request ::
    "('p, 's, 'm, 'h) prekey_env \<Rightarrow> bytes \<Rightarrow> otrng_prekey_server_s \<Rightarrow> app_ctx \<Rightarrow> ('p, 's) otrng_prekey_request_s option" where
  "create_prekey_request E seed server ctx = do {
     ephemeral_ecdh \<leftarrow> otrng_ecdh_keypair_generate (ops E) seed;
     Some \<lparr>pr_ctx = ctx, pr_server = server, pr_ephemeral_ecdh = Some ephemeral_ecdh, pr_mac_key = zeros MAC_KEY_BYTES,
       pr_mac_proof_key = zeros MAC_KEY_BYTES, pr_after_dake = None\<rparr> }"

definition create_dake1 ::
    "('p, 's, 'm, 'h) prekey_env \<Rightarrow> ('p, 's, 'm) prekey_client_s \<Rightarrow> ('p, 's) ecdh_keypair_s \<Rightarrow> 'p otrng_prekey_dake1_message_s option" where
  "create_dake1 E client ephemeral_ecdh =
     (case otrng_client_profile_copy (zero E) (cl_client_profile client) of
        (False, _) \<Rightarrow> None
      | (True, profile) \<Rightarrow> Some \<lparr>d1_client_instance_tag = cl_instance_tag client, d1_client_profile = profile,
          d1_I = ecdh_pub ephemeral_ecdh\<rparr>)"

definition clean_ephemeral_ecdh :: "('p, 's) otrng_prekey_request_s \<Rightarrow> ('p, 's) otrng_prekey_request_s" where
  "clean_ephemeral_ecdh request = request\<lparr>pr_ephemeral_ecdh := None\<rparr>"

text \<open>The buffers of both directions have the sizes the format allows for.\<close>

definition prekey_message_encode :: "('p, 's, 'm, 'h) prekey_env \<Rightarrow> bytes \<Rightarrow> string option" where
  "prekey_message_encode E buffer =
     (if (length buffer + 2) div 3 * 4 + 2 < length (base64_encode E buffer) + 2 then None
      else Some (base64_encode E buffer @ ''.''))"

text \<open>\<open>strlen\<close> is called before the test for \<open>NULL\<close>.\<close>

definition prekey_message_decode :: "('p, 's, 'm, 'h) prekey_env \<Rightarrow> string option \<Rightarrow> bytes outcome" where
  "prekey_message_decode E msg = (case msg of
     None \<Rightarrow> None
   | Some msg \<Rightarrow>
       if length msg = 0 \<or> CHR ''.'' \<noteq> msg ! (length msg - 1) then Some None
       else map_option Some (into_buffer ((length msg - 1 + 3) div 4 * 3) (base64_decode E (take (length msg - 1) msg))))"

definition serialize_dake1 :: "('p, 's, 'm, 'h) prekey_env \<Rightarrow> 'p otrng_prekey_dake1_message_s \<Rightarrow> string outcome" where
  "serialize_dake1 E dake1 = attempt (otrng_prekey_dake1_message_serialize (ops E) dake1)
     (\<lambda>ser. map_option Some (prekey_message_encode E ser))"

definition prekey_manager_register_account_request ::
    "int \<Rightarrow> ('p, 's) otrng_prekey_manager_s \<Rightarrow> ('p, 's) otrng_prekey_request_s \<Rightarrow> ('p, 's) otrng_prekey_manager_s option" where
  "prekey_manager_register_account_request now manager request =
     (if mg_request_for_account manager \<noteq> None then None
      else Some (manager\<lparr>mg_request_for_account_at := now, mg_request_for_account := Some request\<rparr>))"

definition start_dake1 ::
    "('p, 's, 'm, 'h) prekey_env \<Rightarrow> bytes \<Rightarrow> int \<Rightarrow> ('p, 's, 'm) prekey_client_s \<Rightarrow> app_ctx \<Rightarrow> otrng_prekey_next_message
     \<Rightarrow> (bool \<times> out_string \<times> ('p, 's, 'm) prekey_client_s) option" where
  "start_dake1 E seed now client ctx after_dake = do {
     manager \<leftarrow> cl_prekey_manager client;
     domain \<leftarrow> get_domain_for_account E client ctx;
     (case get_prekey_server_for manager domain of
        None \<Rightarrow> Some (False, Untouched, client)
      | Some server \<Rightarrow>
     (case create_prekey_request E seed server ctx of
        None \<Rightarrow> Some (False, Untouched, client)
      | Some request \<Rightarrow> do {
     ephemeral_ecdh \<leftarrow> pr_ephemeral_ecdh request;
     (case create_dake1 E client ephemeral_ecdh of
        None \<Rightarrow> Some (False, Untouched, client)
      | Some dake1 \<Rightarrow> do {
     new_msg \<leftarrow> serialize_dake1 E dake1;
     (case new_msg of
        None \<Rightarrow> Some (False, Null_ptr, client)
      | Some new_msg \<Rightarrow>
     (case prekey_manager_register_account_request now manager request of
        None \<Rightarrow> Some (False, Dangling, client)
      | Some manager \<Rightarrow>
          Some (True, Owned new_msg, set_request (request\<lparr>pr_after_dake := Some after_dake\<rparr>) (set_manager manager client)))) }) })) }"

definition otrng_prekey_request_storage_information ::
    "('p, 's, 'm, 'h) prekey_env \<Rightarrow> bytes \<Rightarrow> int \<Rightarrow> ('p, 's, 'm) prekey_client_s \<Rightarrow> app_ctx
     \<Rightarrow> (bool \<times> out_string \<times> ('p, 's, 'm) prekey_client_s) option" where
  "otrng_prekey_request_storage_information E seed now client ctx = start_dake1 E seed now client ctx Storage_request_after_dake"

definition otrng_prekey_publish ::
    "('p, 's, 'm, 'h) prekey_env \<Rightarrow> bytes \<Rightarrow> int \<Rightarrow> ('p, 's, 'm) prekey_client_s \<Rightarrow> app_ctx
     \<Rightarrow> (bool \<times> out_string \<times> ('p, 's, 'm) prekey_client_s) option" where
  "otrng_prekey_publish E seed now client ctx = start_dake1 E seed now client ctx Publication_after_dake"

definition clean_request_for_account :: "('p, 's, 'm) prekey_client_s \<Rightarrow> ('p, 's, 'm) prekey_client_s" where
  "clean_request_for_account client = (case cl_prekey_manager client of
     None \<Rightarrow> client
   | Some manager \<Rightarrow>
       if mg_request_for_account manager = None then client
       else set_manager (manager\<lparr>mg_request_for_account := None, mg_request_for_account_at := 0\<rparr>) client)"

definition otrng_prekey_check_account_request :: "int \<Rightarrow> ('p, 's, 'm) prekey_client_s \<Rightarrow> ('p, 's, 'm) prekey_client_s" where
  "otrng_prekey_check_account_request now client = (case cl_prekey_manager client of
     None \<Rightarrow> client
   | Some manager \<Rightarrow>
       if mg_request_for_account manager \<noteq> None \<and> mg_request_for_account_at manager + ACCOUNT_REQUEST_EXPIRY - now \<le> 0
       then clean_request_for_account client else client)"

definition check_current_dake_request ::
    "('p, 's, 'm) prekey_client_s \<Rightarrow> string \<Rightarrow> ('p, 's) otrng_prekey_request_s outcome" where
  "check_current_dake_request client from = do {
     manager \<leftarrow> cl_prekey_manager client;
     Some (case mg_request_for_account manager of
        None \<Rightarrow> None
      | Some rfa \<Rightarrow> if ps_identity (pr_server rfa) = from then Some rfa else None) }"


subsection \<open>The second and the third message of the key exchange\<close>

definition get_expected_composite_phi ::
    "('p, 's) otrng_prekey_manager_s \<Rightarrow> ('p, 's) otrng_prekey_request_s \<Rightarrow> bytes" where
  "get_expected_composite_phi manager request =
     otrng_serialize_data (Some (ascii (mg_our_identity manager))) (length (mg_our_identity manager)) @
     otrng_serialize_data (Some (ascii (ps_identity (pr_server request)))) (length (ps_identity (pr_server request)))"

text \<open>The result of the serialization is ignored; the buffer stays \<open>NULL\<close> with length zero when it fails.\<close>

definition kdf_client_profile_into ::
    "('p, 's, 'm, 'h) crypto_ops \<Rightarrow> 'p otrng_client_profile_s \<Rightarrow> byte \<Rightarrow> bytes option" where
  "kdf_client_profile_into C cp usage = do {
     ser \<leftarrow> otrng_client_profile_serialize C cp;
     do_hash_x C HASH_BYTES usage (case ser of None \<Rightarrow> [] | Some bs \<Rightarrow> bs) }"

definition kdf_composite_identity_into ::
    "('p, 's, 'm, 'h) crypto_ops \<Rightarrow> ('p, 's) otrng_prekey_dake2_message_s \<Rightarrow> byte \<Rightarrow> bytes option" where
  "kdf_composite_identity_into C msg usage = do_hash_x C HASH_BYTES usage (d2_composite_identity msg)"

definition kdf_composite_phi_into ::
    "('p, 's, 'm, 'h) crypto_ops \<Rightarrow> ('p, 's) otrng_prekey_manager_s \<Rightarrow> ('p, 's) otrng_prekey_request_s \<Rightarrow> byte \<Rightarrow> bytes option" where
  "kdf_composite_phi_into C manager request usage = do_hash_x C HASH_BYTES usage (get_expected_composite_phi manager request)"

text \<open>The text that a ring signature of the key exchange signs, with its first byte and the usages.  The profile of
  the client, the manager and the ephemeral key are dereferenced.\<close>

definition dake_tag ::
    "('p, 's, 'm, 'h) crypto_ops \<Rightarrow> byte \<Rightarrow> byte \<Rightarrow> byte \<Rightarrow> byte \<Rightarrow> ('p, 's, 'm) prekey_client_s
     \<Rightarrow> ('p, 's) otrng_prekey_request_s \<Rightarrow> ('p, 's) otrng_prekey_dake2_message_s \<Rightarrow> bytes option" where
  "dake_tag C first_byte usage_profile usage_identity usage_phi client request msg = do {
     client_profile \<leftarrow> cl_client_profile client;
     profile \<leftarrow> kdf_client_profile_into C client_profile usage_profile;
     ident \<leftarrow> kdf_composite_identity_into C msg usage_identity;
     ephemeral_ecdh \<leftarrow> pr_ephemeral_ecdh request;
     manager \<leftarrow> cl_prekey_manager client;
     phi \<leftarrow> kdf_composite_phi_into C manager request usage_phi;
     into_buffer T_LEN ([first_byte] @ profile @ ident @ otrng_serialize_ec_point C (ecdh_pub ephemeral_ecdh) @
       otrng_serialize_ec_point C (d2_S msg) @ phi) }"

definition validate_dake2 ::
    "('p, 's, 'm, 'h) crypto_ops \<Rightarrow> ('p, 's, 'm) prekey_client_s \<Rightarrow> ('p, 's) otrng_prekey_request_s
     \<Rightarrow> ('p, 's) otrng_prekey_dake2_message_s \<Rightarrow> bool option" where
  "validate_dake2 C client request msg = do {
     t \<leftarrow> dake_tag C 0x00 USAGE_INITIATOR_CLIENT_PROFILE USAGE_INITIATOR_PREKEY_COMPOSITE_IDENTITY
       USAGE_INITIATOR_PREKEY_COMPOSITE_PHI client request msg;
     ephemeral_ecdh \<leftarrow> pr_ephemeral_ecdh request;
     Some (otrng_rsig_verify_with_usage_and_domain C USAGE_AUTH PREKEY_HASH_DOMAIN (d2_sigma msg) (kp_pub (cl_keypair client))
       (d2_server_pub_key msg) (ecdh_pub ephemeral_ecdh) t) }"

text \<open>Whether it succeeded, and the request, whose ephemeral key is gone in any case.\<close>

definition create_mac_keys ::
    "('p, 's, 'm, 'h) crypto_ops \<Rightarrow> ('p, 's) otrng_prekey_request_s \<Rightarrow> ('p, 's) otrng_prekey_dake2_message_s
     \<Rightarrow> (bool \<times> ('p, 's) otrng_prekey_request_s) option" where
  "create_mac_keys C request msg = do {
     ephemeral_ecdh \<leftarrow> pr_ephemeral_ecdh request;
     (case otrng_ecdh_shared_secret C ED448_POINT_BYTES (ecdh_priv ephemeral_ecdh) (d2_S msg) of
        None \<Rightarrow> Some (False, clean_ephemeral_ecdh request)
      | Some ecdh_shared \<Rightarrow> do {
          let request = clean_ephemeral_ecdh request;
          shared_secret \<leftarrow> do_hash_x C HASH_BYTES USAGE_SK ecdh_shared;
          mac_key \<leftarrow> do_hash_x C MAC_KEY_BYTES USAGE_PREMAC_KEY shared_secret;
          mac_proof_key \<leftarrow> do_hash_x C HASH_BYTES USAGE_PROOF_CONTEXT shared_secret;
          Some (True, request\<lparr>pr_mac_key := mac_key, pr_mac_proof_key := mac_proof_key\<rparr>) }) }"

definition create_rsig_auth_for_dake3 ::
    "('p, 's, 'm, 'h) crypto_ops \<Rightarrow> (nat \<Rightarrow> bytes) \<Rightarrow> ('p, 's, 'm) prekey_client_s \<Rightarrow> ('p, 's) otrng_prekey_request_s
     \<Rightarrow> ('p, 's) otrng_prekey_dake2_message_s \<Rightarrow> 's ring_sig_s outcome" where
  "create_rsig_auth_for_dake3 C rnd client request msg = do {
     t \<leftarrow> dake_tag C 0x01 USAGE_RECEIVER_CLIENT_PROFILE USAGE_RECEIVER_PREKEY_COMPOSITE_IDENTITY
       USAGE_RECEIVER_PREKEY_COMPOSITE_PHI client request msg;
     if length t \<noteq> T_LEN then None
     else let keypair = cl_keypair client in
       Some (otrng_rsig_authenticate_with_usage_and_domain C USAGE_AUTH PREKEY_HASH_DOMAIN rnd (kp_priv keypair)
         (kp_pub keypair) (kp_pub keypair) (d2_server_pub_key msg) (d2_S msg) t) }"

definition dake3_message_append_storage_information_request :: "('p, 's, 'm, 'h) crypto_ops \<Rightarrow> bytes \<Rightarrow> bytes option" where
  "dake3_message_append_storage_information_request C mac_key = do {
     hd \<leftarrow> kdf_init_with_usage_x C USAGE_STORAGE_INFO_MAC;
     hd \<leftarrow> hash_update_x C hd (take MAC_KEY_BYTES mac_key);
     hd \<leftarrow> hash_update_x C hd [OTRNG_PREKEY_STORAGE_INFO_REQ_MSG];
     into_buffer (2 + 1 + MAC_KEY_BYTES)
       (otrng_serialize_uint16 OTRNG_PROTOCOL_VERSION_4 @ otrng_serialize_uint8 OTRNG_PREKEY_STORAGE_INFO_REQ_MSG @
        hash_final C hd HASH_BYTES) }"

subsection \<open>The publication message\<close>

definition serialize_cp_and_pp ::
    "('p, 's, 'm, 'h) crypto_ops \<Rightarrow> ('p, 's, 'm) otrng_prekey_publication_message_s \<Rightarrow> (bytes option \<times> bytes option) option" where
  "serialize_cp_and_pp C pub_msg = do {
     cp \<leftarrow> (case pub_client_profile pub_msg of None \<Rightarrow> Some None | Some p \<Rightarrow> otrng_client_profile_serialize C p);
     Some (cp, (case pub_prekey_profile pub_msg of None \<Rightarrow> None | Some p \<Rightarrow> otrng_prekey_profile_serialize C p)) }"

definition calculate_proof_buf_len :: "('p, 's, 'm) otrng_prekey_publication_message_s \<Rightarrow> nat" where
  "calculate_proof_buf_len pub_msg =
     (if pub_prekey_profile pub_msg \<noteq> None then PROOF_C_SIZE + ED448_SCALAR_BYTES else 0) +
     (if 0 < pub_num_prekey_messages pub_msg then
        PROOF_C_SIZE + ED448_SCALAR_BYTES + (PROOF_C_SIZE + DH_MPI_MAX_BYTES) else 0)"

definition calculate_total_message_size :: "('p, 's, 'm) otrng_prekey_publication_message_s \<Rightarrow> nat \<Rightarrow> nat \<Rightarrow> nat" where
  "calculate_total_message_size pub_msg cp_len pp_len =
     2 + 1 + 1 + (4 + unat (pub_num_prekey_messages pub_msg) * PRE_KEY_MAX_BYTES) + 1 + cp_len + 1 + pp_len +
     calculate_proof_buf_len pub_msg + MAC_KEY_BYTES"

text \<open>\<open>w\<close> bytes of the \<open>sz\<close> have been written; a message that cannot be serialized leaves nothing.\<close>

fun serialize_prekey_messages_into ::
    "('p, 's, 'm, 'h) crypto_ops \<Rightarrow> nat \<Rightarrow> nat \<Rightarrow> ('p, 's, 'm) prekey_message_s list \<Rightarrow> bytes" where
  "serialize_prekey_messages_into C sz w [] = []"
| "serialize_prekey_messages_into C sz w (m # ms) =
     (let bs = (case otrng_prekey_message_serialize C (sz - w) m of None \<Rightarrow> [] | Some bs \<Rightarrow> bs)
      in bs @ serialize_prekey_messages_into C sz (w + length bs) ms)"

text \<open>The messages that the count means; a count beyond the array is a fault.\<close>

definition counted_messages :: "('p, 's, 'm) otrng_prekey_publication_message_s \<Rightarrow> ('p, 's, 'm) prekey_message_s list option" where
  "counted_messages pub_msg = (
     let n = unat (pub_num_prekey_messages pub_msg) in
     if length (pub_prekey_messages pub_msg) < n then None else Some (take n (pub_prekey_messages pub_msg)))"

text \<open>The key pairs of the messages are dereferenced.  Nothing is generated when there is no message; the proofs are
  then not used either.\<close>

definition generate_proofs_for_prekey_messages ::
    "('p, 's, 'm, 'h) prekey_env \<Rightarrow> (nat \<Rightarrow> bytes) \<Rightarrow> ('p, 's, 'm) otrng_prekey_publication_message_s \<Rightarrow> bytes
     \<Rightarrow> ('s ecdh_proof_s \<times> 'm dh_proof_s) option outcome" where
  "generate_proofs_for_prekey_messages E rnd pub_msg mac =
     (if pub_num_prekey_messages pub_msg = 0 then Some (Some None)
      else do {
        ms \<leftarrow> counted_messages pub_msg;
        ys \<leftarrow> those (map pm_y ms);
        bs \<leftarrow> those (map pm_b ms);
        (case otrng_ecdh_proof_generate (ops E) (rnd 0) (map ecdh_priv ys) (map ecdh_pub ys) mac USAGE_PROOF_MESSAGE_ECDH of
           None \<Rightarrow> Some None
         | Some ecdh \<Rightarrow>
             attempt (otrng_dh_proof_generate (ops E) (proofs E) (rnd 1) (map dh_priv bs) (map dh_pub bs) mac USAGE_PROOF_MESSAGE_DH None)
               (\<lambda>dh. Some (Some (Some (ecdh, dh))))) })"

definition generate_proof_for_prekey_profile ::
    "('p, 's, 'm, 'h) prekey_env \<Rightarrow> bytes \<Rightarrow> ('p, 's, 'm) otrng_prekey_publication_message_s \<Rightarrow> bytes \<Rightarrow> 's ecdh_proof_s option outcome" where
  "generate_proof_for_prekey_profile E rnd pub_msg mac = (case pub_prekey_profile pub_msg of
     None \<Rightarrow> Some (Some None)
   | Some profile \<Rightarrow> do {
       keys \<leftarrow> pp_keys profile;
       Some (map_option Some (otrng_ecdh_proof_generate (ops E) rnd [kp_priv keys] [kp_pub keys] mac USAGE_PROOF_SHARED_ECDH)) })"

text \<open>The bytes of the proofs and their hash.\<close>

definition generate_proof_data_for_message ::
    "('p, 's, 'm, 'h) prekey_env \<Rightarrow> (nat \<Rightarrow> bytes) \<Rightarrow> ('p, 's, 'm) otrng_prekey_publication_message_s \<Rightarrow> bytes
     \<Rightarrow> (bytes \<times> bytes) outcome" where
  "generate_proof_data_for_message E rnd pub_msg mac =
     attempt (generate_proofs_for_prekey_messages E rnd pub_msg mac) (\<lambda>message_proofs.
     attempt (generate_proof_for_prekey_profile E (rnd 2) pub_msg mac) (\<lambda>profile_proof. do {
       ser \<leftarrow> into_buffer (calculate_proof_buf_len pub_msg)
         ((case message_proofs of None \<Rightarrow> []
           | Some (ecdh, dh) \<Rightarrow> otrng_ecdh_proof_serialize (ops E) ecdh @ otrng_dh_proof_serialize (ops E) dh) @
          (case profile_proof of None \<Rightarrow> [] | Some proof \<Rightarrow> otrng_ecdh_proof_serialize (ops E) proof));
       prekey_proofs_kdf \<leftarrow> do_hash_x (ops E) HASH_BYTES USAGE_MAC_PROOFS ser;
       Some (Some (ser, prekey_proofs_kdf)) }))"

definition hash_client_profile_for_publication_message ::
    "('p, 's, 'm, 'h) crypto_ops \<Rightarrow> 'h \<Rightarrow> ('p, 's, 'm) otrng_prekey_publication_message_s \<Rightarrow> bytes option \<Rightarrow> 'h option" where
  "hash_client_profile_for_publication_message C hash pub_msg cp_ser =
     (if pub_client_profile pub_msg \<noteq> None then do {
        client_profile_kdf \<leftarrow> do_hash_x C HASH_BYTES USAGE_CLIENT_PROFILE (case cp_ser of None \<Rightarrow> [] | Some bs \<Rightarrow> bs);
        hash \<leftarrow> hash_update_single_x C hash 1;
        hash_update_x C hash client_profile_kdf }
      else hash_update_single_x C hash 0)"

definition hash_prekey_profile_for_publication_message ::
    "('p, 's, 'm, 'h) crypto_ops \<Rightarrow> 'h \<Rightarrow> ('p, 's, 'm) otrng_prekey_publication_message_s \<Rightarrow> bytes option \<Rightarrow> 'h option" where
  "hash_prekey_profile_for_publication_message C hash pub_msg pp_ser =
     (if pub_prekey_profile pub_msg \<noteq> None then do {
        prekey_profile_kdf \<leftarrow> do_hash_x C HASH_BYTES USAGE_PREKEY_PROFILE (case pp_ser of None \<Rightarrow> [] | Some bs \<Rightarrow> bs);
        hash \<leftarrow> hash_update_single_x C hash 1;
        hash_update_x C hash prekey_profile_kdf }
      else hash_update_single_x C hash 0)"

definition field_len :: "bytes option \<Rightarrow> nat" where
  "field_len ser = (case ser of None \<Rightarrow> 0 | Some bs \<Rightarrow> length bs)"

definition dake3_message_append_prekey_publication_message ::
    "('p, 's, 'm, 'h) prekey_env \<Rightarrow> (nat \<Rightarrow> bytes) \<Rightarrow> ('p, 's, 'm) otrng_prekey_publication_message_s \<Rightarrow> bytes \<Rightarrow> bytes \<Rightarrow> bytes outcome" where
  "dake3_message_append_prekey_publication_message E rnd pub_msg mac_key mac =
     attempt (generate_proof_data_for_message E rnd pub_msg mac) (\<lambda>(ser, prekey_proofs_kdf). do {
       (cp_ser, pp_ser) \<leftarrow> serialize_cp_and_pp (ops E) pub_msg;
       ms \<leftarrow> counted_messages pub_msg;
       let msg_size = calculate_total_message_size pub_msg (field_len cp_ser) (field_len pp_ser);
       let head = otrng_serialize_uint16 OTRNG_PROTOCOL_VERSION_4 @ otrng_serialize_uint8 OTRNG_PREKEY_PUBLICATION_MSG @
         otrng_serialize_uint8 (pub_num_prekey_messages pub_msg);
       let messages = serialize_prekey_messages_into (ops E) (msg_size - length head) 0 ms;
       prekey_messages_kdf \<leftarrow> do_hash_x (ops E) HASH_BYTES USAGE_PREKEY_MESSAGE messages;
       let body = head @ messages @
         otrng_serialize_uint8 (if pub_client_profile pub_msg \<noteq> None then 1 else 0) @
         otrng_serialize_bytes_array cp_ser (field_len cp_ser) @
         otrng_serialize_uint8 (if pub_prekey_profile pub_msg \<noteq> None then 1 else 0) @
         otrng_serialize_bytes_array pp_ser (field_len pp_ser) @
         otrng_serialize_bytes_array (Some ser) (length ser);
       hd \<leftarrow> kdf_init_with_usage_x (ops E) USAGE_PRE_MAC;
       hd \<leftarrow> hash_update_x (ops E) hd (take MAC_KEY_BYTES mac_key);
       hd \<leftarrow> hash_update_single_x (ops E) hd OTRNG_PREKEY_PUBLICATION_MSG;
       hd \<leftarrow> hash_update_single_x (ops E) hd (pub_num_prekey_messages pub_msg);
       hd \<leftarrow> hash_update_x (ops E) hd prekey_messages_kdf;
       hd \<leftarrow> hash_client_profile_for_publication_message (ops E) hd pub_msg cp_ser;
       hd \<leftarrow> hash_prekey_profile_for_publication_message (ops E) hd pub_msg pp_ser;
       hd \<leftarrow> hash_update_x (ops E) hd prekey_proofs_kdf;
       map_option Some (into_buffer msg_size (body @ hash_final (ops E) hd HASH_BYTES)) })"

subsection \<open>After the key exchange\<close>

definition storage_request_after_dake ::
    "('p, 's, 'm, 'h) prekey_env \<Rightarrow> ('p, 's) otrng_prekey_request_s \<Rightarrow> bytes outcome" where
  "storage_request_after_dake E request =
     map_option Some (dake3_message_append_storage_information_request (ops E) (pr_mac_key request))"

definition publication_after_dake ::
    "('p, 's, 'm, 'h) prekey_env \<Rightarrow> (nat \<Rightarrow> bytes) \<Rightarrow> ('p, 's, 'm) prekey_client_s \<Rightarrow> ('p, 's) otrng_prekey_request_s
     \<Rightarrow> (bytes option \<times> ('p, 's, 'm) prekey_client_s) option" where
  "publication_after_dake E rnd client request =
     (if cl_prekey_manager client = None then None
      else case build_prekey_publication_message E client (pr_ctx request) of
          (False, pub_msg, client) \<Rightarrow> Some (None, client)
        | (True, pub_msg, client) \<Rightarrow>
            map_option (\<lambda>res. (res, client))
              (dake3_message_append_prekey_publication_message E rnd pub_msg (pr_mac_key request) (pr_mac_proof_key request)))"

text \<open>The call through \<open>after_dake\<close>; the pointer is assigned before the request can be answered.\<close>

definition after_dake ::
    "('p, 's, 'm, 'h) prekey_env \<Rightarrow> (nat \<Rightarrow> bytes) \<Rightarrow> ('p, 's, 'm) prekey_client_s \<Rightarrow> ('p, 's) otrng_prekey_request_s
     \<Rightarrow> (bytes option \<times> ('p, 's, 'm) prekey_client_s) option" where
  "after_dake E rnd client request = (case pr_after_dake request of
     None \<Rightarrow> None
   | Some Storage_request_after_dake \<Rightarrow> map_option (\<lambda>res. (res, client)) (storage_request_after_dake E request)
   | Some Publication_after_dake \<Rightarrow> publication_after_dake E rnd client request)"

definition send_dake3 ::
    "('p, 's, 'm, 'h) prekey_env \<Rightarrow> (nat \<Rightarrow> bytes) \<Rightarrow> ('p, 's, 'm) prekey_client_s \<Rightarrow> ('p, 's) otrng_prekey_request_s
     \<Rightarrow> ('p, 's) otrng_prekey_dake2_message_s \<Rightarrow> (string option \<times> ('p, 's, 'm) prekey_client_s) option" where
  "send_dake3 E rnd client request msg = do {
     let tag = cl_instance_tag client;
     sigma \<leftarrow> create_rsig_auth_for_dake3 (ops E) rnd client request msg;
     (case sigma of
        None \<Rightarrow> Some (None, client)
      | Some sigma \<Rightarrow> do {
          (ok, request) \<leftarrow> create_mac_keys (ops E) request msg;
          let client = set_request request client;
          if \<not> ok then Some (None, client)
          else do {
            (res, client) \<leftarrow> after_dake E (\<lambda>i. rnd (9 + i)) client request;
            (case res of
               None \<Rightarrow> Some (None, client)
             | Some bs \<Rightarrow> do {
                 ser \<leftarrow> otrng_prekey_dake3_message_serialize (ops E) \<lparr>d3_client_instance_tag = tag,
                   d3_sigma = sigma, d3_msg = bs\<rparr>;
                 ret \<leftarrow> prekey_message_encode E ser;
                 Some (Some ret, client) }) } }) }"

definition process_received_dake2 ::
    "('p, 's, 'm, 'h) prekey_env \<Rightarrow> (nat \<Rightarrow> bytes) \<Rightarrow> ('p, 's, 'm) prekey_client_s \<Rightarrow> ('p, 's) otrng_prekey_request_s
     \<Rightarrow> ('p, 's) otrng_prekey_dake2_message_s \<Rightarrow> (string option \<times> ('p, 's, 'm) prekey_client_s) option" where
  "process_received_dake2 E rnd client request msg =
     (if d2_client_instance_tag msg \<noteq> cl_instance_tag client then Some (None, client)
      else do {
        valid \<leftarrow> validate_dake2 (ops E) client request msg;
        if \<not> valid then Some (None, notify_error OTRNG_PREKEY_CLIENT_INVALID_DAKE2 (pr_ctx request) client)
        else send_dake3 E rnd client request msg })"

definition receive_dake2 ::
    "('p, 's, 'm, 'h) prekey_env \<Rightarrow> (nat \<Rightarrow> bytes) \<Rightarrow> ('p, 's, 'm) prekey_client_s \<Rightarrow> ('p, 's) otrng_prekey_request_s
     \<Rightarrow> bytes \<Rightarrow> (string option \<times> ('p, 's, 'm) prekey_client_s) option" where
  "receive_dake2 E rnd client request decoded =
     (case otrng_prekey_dake2_message_deserialize (ops E) decoded of
        None \<Rightarrow> Some (None, notify_error OTRNG_PREKEY_CLIENT_MALFORMED_MSG (pr_ctx request) client)
      | Some msg \<Rightarrow> process_received_dake2 E rnd client request msg)"

subsection \<open>Answers of the server\<close>

definition receive_success_or_failure ::
    "('p, 's, 'm, 'h) prekey_env \<Rightarrow> ('p, 's, 'm) prekey_client_s \<Rightarrow> ('p, 's) otrng_prekey_request_s \<Rightarrow> bytes \<Rightarrow> nat \<Rightarrow> byte \<Rightarrow> nat
     \<Rightarrow> (app_ctx \<Rightarrow> ('p, 's, 'm) prekey_event) \<Rightarrow> ('p, 's, 'm) prekey_client_s option" where
  "receive_success_or_failure E client request decoded len usage error_code callback =
     (if length decoded < len then Some (notify_error OTRNG_PREKEY_CLIENT_MALFORMED_MSG (pr_ctx request) client)
      else
        let instance_tag = (case otrng_deserialize_uint32 (drop 3 decoded) of None \<Rightarrow> 0 | Some (tag, _) \<Rightarrow> tag) in
        if instance_tag \<noteq> cl_instance_tag client then Some client
        else do {
          hash \<leftarrow> kdf_init_with_usage_x (ops E) usage;
          hash \<leftarrow> hash_update_x (ops E) hash (take MAC_KEY_BYTES (pr_mac_key request));
          hash \<leftarrow> hash_update_x (ops E) hash (take 5 (drop 2 decoded));
          if hash_final (ops E) hash HASH_BYTES \<noteq> take HASH_BYTES (drop 7 decoded)
          then Some (notify_error error_code (pr_ctx request) client)
          else Some (tell (callback (pr_ctx request)) client) })"

definition receive_success ::
    "('p, 's, 'm, 'h) prekey_env \<Rightarrow> ('p, 's, 'm) prekey_client_s \<Rightarrow> ('p, 's) otrng_prekey_request_s \<Rightarrow> bytes
     \<Rightarrow> ('p, 's, 'm) prekey_client_s option" where
  "receive_success E client request decoded = receive_success_or_failure E client request decoded OTRNG_PREKEY_SUCCESS_MSG_LEN
     USAGE_SUCCESS_MAC OTRNG_PREKEY_CLIENT_INVALID_SUCCESS Success_received"

definition receive_failure ::
    "('p, 's, 'm, 'h) prekey_env \<Rightarrow> ('p, 's, 'm) prekey_client_s \<Rightarrow> ('p, 's) otrng_prekey_request_s \<Rightarrow> bytes
     \<Rightarrow> ('p, 's, 'm) prekey_client_s option" where
  "receive_failure E client request decoded = receive_success_or_failure E client request decoded OTRNG_PREKEY_FAILURE_MSG_LEN
     USAGE_FAILURE_MAC OTRNG_PREKEY_CLIENT_INVALID_FAILURE Failure_received"

definition process_received_storage_status ::
    "('p, 's, 'm, 'h) prekey_env \<Rightarrow> ('p, 's, 'm) prekey_client_s \<Rightarrow> ('p, 's) otrng_prekey_request_s
     \<Rightarrow> otrng_prekey_storage_status_message_s \<Rightarrow> ('p, 's, 'm) prekey_client_s option" where
  "process_received_storage_status E client request msg = do {
     manager \<leftarrow> cl_prekey_manager client;
     if ss_client_instance_tag msg \<noteq> cl_instance_tag client then Some client
     else if \<not> otrng_prekey_storage_status_message_valid (ops E) msg (pr_mac_key request) then
       Some (notify_error OTRNG_PREKEY_CLIENT_INVALID_STORAGE_STATUS (pr_ctx request) client)
     else
       let policy = mg_publication_policy manager;
           client = (if ss_stored_prekeys msg < minimum_stored_prekey_message policy then
               tell (Low_prekey_messages_in_storage (pr_ctx request))
                 (client\<lparr>cl_prekey_msgs_num_to_publish := max_published_prekey_message policy - ss_stored_prekeys msg,
                    cl_should_publish := True\<rparr>)
             else client)
       in Some (tell (Storage_status_received msg (pr_ctx request)) client) }"

definition receive_storage_status ::
    "('p, 's, 'm, 'h) prekey_env \<Rightarrow> ('p, 's, 'm) prekey_client_s \<Rightarrow> ('p, 's) otrng_prekey_request_s \<Rightarrow> bytes
     \<Rightarrow> ('p, 's, 'm) prekey_client_s option" where
  "receive_storage_status E client request decoded =
     (case otrng_prekey_storage_status_message_deserialize decoded of
        None \<Rightarrow> Some (notify_error OTRNG_PREKEY_CLIENT_MALFORMED_MSG (pr_ctx request) client)
      | Some msg \<Rightarrow> process_received_storage_status E client request msg)"

definition receive_no_prekey_in_storage :: "('p, 's, 'm) prekey_client_s \<Rightarrow> bytes \<Rightarrow> ('p, 's, 'm) prekey_client_s option" where
  "receive_no_prekey_in_storage client decoded =
     (if cl_prekey_manager client = None then None
      else Some (case otrng_deserialize_uint32 (drop 3 decoded) of
          None \<Rightarrow> notify_error OTRNG_PREKEY_CLIENT_MALFORMED_MSG None client
        | Some (instance_tag, read) \<Rightarrow>
            if instance_tag \<noteq> cl_instance_tag client then client
            else case otrng_deserialize_data (drop 7 decoded) of
                None \<Rightarrow> client
              | Some (identity_ser, read) \<Rightarrow>
                  tell (No_prekey_in_storage_received (case identity_ser of None \<Rightarrow> [] | Some bs \<Rightarrow> chars (c_string bs))) client))"

text \<open>The loop over the ensembles: \<open>i\<close> grows to the number of ensembles, which becomes smaller with every ensemble
  that is not valid.  A \<open>NULL\<close> entry is dereferenced.\<close>

function validate_ensembles ::
    "('p, 's, 'm, 'h) prekey_env \<Rightarrow> int \<Rightarrow> ('p, 's, 'm) prekey_ensemble_s option list \<Rightarrow> nat \<Rightarrow> nat
     \<Rightarrow> (('p, 's, 'm) prekey_ensemble_s option list \<times> nat) option" where
  "validate_ensembles E now ensembles num i =
     (if \<not> i < num then Some (ensembles, num)
      else if length ensembles \<le> i then None
      else case ensembles ! i of
          None \<Rightarrow> None
        | Some e \<Rightarrow>
            (case otrng_prekey_ensemble_validate (ops E) now e of
               None \<Rightarrow> None
             | Some True \<Rightarrow> validate_ensembles E now ensembles num (i + 1)
             | Some False \<Rightarrow> validate_ensembles E now (ensembles[i := None]) (num - 1) (i + 1)))"
  by pat_completeness auto
termination by (relation "measure (\<lambda>(E, now, ensembles, num, i). num - i)") auto

declare validate_ensembles.simps [simp del]

definition process_received_prekey_ensemble_retrieval ::
    "('p, 's, 'm, 'h) prekey_env \<Rightarrow> int \<Rightarrow> ('p, 's, 'm) prekey_client_s \<Rightarrow> ('p, 's, 'm) otrng_prekey_ensemble_retrieval_message_s
     \<Rightarrow> (bool \<times> ('p, 's, 'm) prekey_client_s) option" where
  "process_received_prekey_ensemble_retrieval E now client msg =
     (if cl_prekey_manager client = None then None
      else if rt_instance_tag msg \<noteq> cl_instance_tag client then Some (False, client)
      else do {
        ensembles \<leftarrow> rt_ensembles msg;
        ident \<leftarrow> rt_identity msg;
        (ensembles, num) \<leftarrow> validate_ensembles E now ensembles (unat (rt_num_ensembles msg)) 0;
        if num = 0 then Some (False, client)
        else Some (True, tell (Prekey_ensembles_received ensembles (of_nat num) ident) client) })"

definition receive_prekey_ensemble_retrieval ::
    "('p, 's, 'm, 'h) prekey_env \<Rightarrow> int \<Rightarrow> ('p, 's, 'm) prekey_client_s \<Rightarrow> bytes \<Rightarrow> ('p, 's, 'm) prekey_client_s option" where
  "receive_prekey_ensemble_retrieval E now client decoded =
     (case otrng_prekey_ensemble_retrieval_message_deserialize (ops E) (zero E) retrieval_message_uninitialised decoded of
        (False, msg) \<Rightarrow> do {
          _ \<leftarrow> otrng_prekey_ensemble_retrieval_message_destroy msg;
          Some (notify_error OTRNG_PREKEY_CLIENT_MALFORMED_MSG None client) }
      | (True, msg) \<Rightarrow> do {
          (ok, client) \<leftarrow> process_received_prekey_ensemble_retrieval E now client msg;
          _ \<leftarrow> otrng_prekey_ensemble_retrieval_message_destroy msg;
          Some (if ok then client else notify_error OTRNG_PREKEY_CLIENT_MALFORMED_MSG None client) })"

subsection \<open>Receiving\<close>

text \<open>What a message that answers a request does; without a request it is malformed.\<close>

definition with_request ::
    "('p, 's) otrng_prekey_request_s option \<Rightarrow> ('p, 's, 'm) prekey_client_s
     \<Rightarrow> (('p, 's) otrng_prekey_request_s \<Rightarrow> (string option \<times> ('p, 's, 'm) prekey_client_s) option)
     \<Rightarrow> (string option \<times> ('p, 's, 'm) prekey_client_s) option" where
  "with_request request client f = (case request of
     None \<Rightarrow> Some (None, notify_error OTRNG_PREKEY_CLIENT_MALFORMED_MSG None client)
   | Some r \<Rightarrow> f r)"

definition prekey_receive_decoded_message ::
    "('p, 's, 'm, 'h) prekey_env \<Rightarrow> (nat \<Rightarrow> bytes) \<Rightarrow> int \<Rightarrow> ('p, 's, 'm) prekey_client_s \<Rightarrow> bytes \<Rightarrow> string
     \<Rightarrow> (string option \<times> ('p, 's, 'm) prekey_client_s) option" where
  "prekey_receive_decoded_message E rnd now client decoded from =
     (case otrng_prekey_parse_header decoded of
        None \<Rightarrow> Some (None, notify_error OTRNG_PREKEY_CLIENT_MALFORMED_MSG None client)
      | Some (msg_type, _) \<Rightarrow> do {
          request \<leftarrow> check_current_dake_request client from;
          if msg_type = OTRNG_PREKEY_DAKE2_MSG then
            with_request request client (\<lambda>r. do {
              (res, client) \<leftarrow> receive_dake2 E rnd client r decoded;
              Some (res, if res = None then clean_request_for_account client else client) })
          else if msg_type = OTRNG_PREKEY_SUCCESS_MSG then
            with_request request client (\<lambda>r.
              map_option (\<lambda>client. (None, clean_request_for_account client)) (receive_success E client r decoded))
          else if msg_type = OTRNG_PREKEY_FAILURE_MSG then
            with_request request client (\<lambda>r.
              map_option (\<lambda>client. (None, clean_request_for_account client)) (receive_failure E client r decoded))
          else if msg_type = OTRNG_PREKEY_STORAGE_STATUS_MSG then
            with_request request client (\<lambda>r.
              map_option (\<lambda>client. (None, clean_request_for_account client)) (receive_storage_status E client r decoded))
          else if msg_type = OTRNG_PREKEY_NO_PREKEY_IN_STORAGE_MSG then
            map_option (Pair None) (receive_no_prekey_in_storage client decoded)
          else if msg_type = OTRNG_PREKEY_ENSEMBLE_RETRIEVAL_MSG then
            map_option (Pair None) (receive_prekey_ensemble_retrieval E now client decoded)
          else Some (None, notify_error OTRNG_PREKEY_CLIENT_MALFORMED_MSG (case request of None \<Rightarrow> None | Some r \<Rightarrow> pr_ctx r) client) })"

text \<open>Whether the message was handled, what \<open>to_send\<close> was set to when it was, and the client.\<close>

definition otrng_prekey_receive ::
    "('p, 's, 'm, 'h) prekey_env \<Rightarrow> (nat \<Rightarrow> bytes) \<Rightarrow> int \<Rightarrow> ('p, 's, 'm) prekey_client_s \<Rightarrow> string \<Rightarrow> string
     \<Rightarrow> (bool \<times> string option \<times> ('p, 's, 'm) prekey_client_s) option" where
  "otrng_prekey_receive E rnd now client from msg = (case cl_prekey_manager client of
     None \<Rightarrow> Some (False, None, client)
   | Some manager \<Rightarrow>
       if find_server_for_identity manager from = None then Some (False, None, client)
       else do {
         (ok, defrag, pending) \<leftarrow> otrng_fragment_message_receive (mg_pending_fragments manager) msg (cl_instance_tag client) now;
         let client = set_manager (manager\<lparr>mg_pending_fragments := pending\<rparr>) client;
         if \<not> ok then Some (False, None, client)
         else do {
           ser \<leftarrow> prekey_message_decode E defrag;
           (case ser of
              None \<Rightarrow> Some (False, None, client)
            | Some ser \<Rightarrow> do {
                (to_send, client) \<leftarrow> prekey_receive_decoded_message E rnd now client ser from;
                Some (True, to_send, client) }) } })"

definition otrng_prekey_retrieve_prekeys ::
    "('p, 's, 'm, 'h) prekey_env \<Rightarrow> ('p, 's, 'm) prekey_client_s \<Rightarrow> string \<Rightarrow> string \<Rightarrow> string option" where
  "otrng_prekey_retrieve_prekeys E client identity_for versions =
     (if cl_prekey_manager client = None then None
      else prekey_message_encode E (otrng_prekey_ensemble_query_retrieval_message_serialize
        \<lparr>qr_identity = identity_for, qr_versions = versions, qr_instance_tag = cl_instance_tag client\<rparr>))"

subsection \<open>Choosing what to publish\<close>

definition to_be_published :: "('p, 's, 'm) prekey_message_s \<Rightarrow> bool" where
  "to_be_published pm \<longleftrightarrow> pm_should_publish pm \<noteq> 0 \<and> \<not> pm_is_publishing pm"

text \<open>The copies are made before the messages are marked; their number is cut to a byte, and the array stays as it
  was when there is none.\<close>

definition otrng_prekey_add_prekey_messages_for_publication ::
    "('p, 's) wiped \<Rightarrow> ('p, 's, 'm, 'z) prekey_client_s_scheme \<Rightarrow> ('p, 's, 'm) otrng_prekey_publication_message_s
     \<Rightarrow> ('p, 's, 'm) otrng_prekey_publication_message_s \<times> ('p, 's, 'm, 'z) prekey_client_s_scheme" where
  "otrng_prekey_add_prekey_messages_for_publication Z client msg = (
     let msg_list = List.map_filter (\<lambda>pm. otrng_prekey_message_create_copy Z (Some pm)) (filter to_be_published (cl_our_prekeys client));
         real = length msg_list;
         msg = (if real \<noteq> 0 then msg\<lparr>pub_prekey_messages := msg_list\<rparr> else msg)
     in (msg\<lparr>pub_num_prekey_messages := of_nat real\<rparr>,
         client\<lparr>cl_our_prekeys := map (\<lambda>pm. if to_be_published pm then pm\<lparr>pm_is_publishing := True\<rparr> else pm) (cl_our_prekeys client)\<rparr>))"

end
