(* ===== verification/Prekey_Run.thy ===== *)
theory Prekey_Run
  imports Prekey_Manager Handshake_Run
begin

text \<open>
  The dialogue with a prekey server as a whole: what an honest server makes of the messages of \<open>Prekey_Manager\<close>, and
  what a dishonest one can do.  The side of the server is not in the repository; what it sends is written down
  here from the comments of \<open>prekey_manager.c\<close>.
\<close>

subsection \<open>Letters\<close>

text \<open>libotr's base64: four characters for every three bytes begun, and decoding inverts encoding.\<close>

definition base64_ok :: "('p, 's, 'm, 'h) prekey_env \<Rightarrow> bool" where
  "base64_ok E \<longleftrightarrow> (\<forall>bs. length (base64_encode E bs) = (length bs + 2) div 3 * 4 \<and>
     list_all is_base64_char (base64_encode E bs) \<and> base64_decode E (base64_encode E bs) = bs)"

definition letter :: "('p, 's, 'm, 'h) prekey_env \<Rightarrow> bytes \<Rightarrow> string" where
  "letter E bs = base64_encode E bs @ ''.''"

lemma encode_letter: "base64_ok E \<Longrightarrow> prekey_message_encode E bs = Some (letter E bs)"
  by (simp add: base64_ok_def prekey_message_encode_def letter_def)

lemma decode_letter:
  assumes "base64_ok E"
  shows "prekey_message_decode E (Some (letter E bs)) = Some (Some bs)"
proof -
  have "length bs \<le> (length (base64_encode E bs) + 3) div 4 * 3"
    using assms by (simp add: base64_ok_def)
  moreover have "base64_decode E (base64_encode E bs) = bs" using assms by (simp add: base64_ok_def)
  ultimately show ?thesis by (simp add: prekey_message_decode_def letter_def)
qed

lemma letter_no_fragment:
  assumes "base64_ok E"
  shows "otrng_fragment_message_receive cs (letter E bs) tag now = Some (True, Some (letter E bs), cs)"
proof -
  have "list_all is_base64_char (base64_encode E bs)" using assms by (simp add: base64_ok_def)
  then have "\<not> is_fragment_generic (letter E bs) ''?OTRP|''"
    by (cases "base64_encode E bs") (auto simp: letter_def is_fragment_generic_def is_prefix_def is_base64_char_def)
  then show ?thesis by (simp add: otrng_fragment_message_receive_def otrng_unfragment_message_generic_def)
qed

text \<open>A letter from a known server is decoded and handled.\<close>

lemma receive_letter:
  assumes "base64_ok E" "cl_prekey_manager client = Some manager" "find_server_for_identity manager from \<noteq> None"
  shows "otrng_prekey_receive E rnd now client from (letter E bs) =
     map_option (\<lambda>(to_send, client). (True, to_send, client)) (prekey_receive_decoded_message E rnd now client bs from)"
proof -
  have "set_manager manager client = client" using assms(2) by (simp add: set_manager_def)
  then show ?thesis using assms
    by (simp add: otrng_prekey_receive_def letter_no_fragment decode_letter split_beta map_option_case split: option.split)
qed

subsection \<open>What is hashed\<close>

definition server_hash :: "('p, 's, 'm, 'h) crypto_sem \<Rightarrow> byte \<Rightarrow> bytes \<Rightarrow> bytes" where
  "server_hash S u v = xof S (ascii ''OTR-Prekey-Server'' @ [u] @ v) HASH_BYTES"

lemma hash_facts:
  assumes "sponge_ok C S"
  shows "do_hash_x C HASH_BYTES u v = Some (server_hash S u v)" "do_hash_x C MAC_KEY_BYTES u v = Some (server_hash S u v)"
    "length (server_hash S u v) = HASH_BYTES" "take MAC_KEY_BYTES (server_hash S u v) = server_hash S u v"
    "take HASH_BYTES (server_hash S u v) = server_hash S u v"
  by (simp_all add: do_hash_x_def server_kdf[OF assms] server_hash_def const_defs sponge_facts[OF assms])

text \<open>A hash that is started with a usage and fed piece by piece.\<close>

lemma hash_pieces:
  assumes "sponge_ok C S"
  shows "kdf_init_with_usage_x C u = Some (absorb C (absorb C (hash_init C) (ascii PREKEY_HASH_DOMAIN)) [u])"
    "kdf_init_with_usage C u = Some (absorb C (absorb C (hash_init C) (ascii PREKEY_HASH_DOMAIN)) [u])"
    "hash_update_x C h v = Some (absorb C h v)" "hash_update_single_x C h b = Some (absorb C h [b])"
  by (simp_all add: kdf_init_with_usage_x_def kdf_init_with_usage_def hash_init_with_usage_and_domain_separation_def
      hash_update_x_def hash_update_single_x_def sponge_simps[OF assms] prekey_hash_domain_def PREKEY_HASH_DOMAIN_def)

lemma hash_of_pieces:
  assumes "sponge_ok C S"
  shows "hash_final C (absorb C (absorb C (absorb C (hash_init C) (ascii PREKEY_HASH_DOMAIN)) [u]) v) HASH_BYTES = server_hash S u v"
    "hash_final C (absorb C (absorb C (absorb C (absorb C (hash_init C) (ascii PREKEY_HASH_DOMAIN)) [u]) v) w) HASH_BYTES = server_hash S u (v @ w)"
  by (simp_all add: sponge_simps[OF assms] server_hash_def PREKEY_HASH_DOMAIN_def)

subsection \<open>The texts that are signed\<close>

definition dake_text ::
    "('p, 's, 'm, 'h) crypto_ops \<Rightarrow> ('p, 's, 'm, 'h) crypto_sem \<Rightarrow> byte \<Rightarrow> byte list \<Rightarrow> bytes \<Rightarrow> bytes \<Rightarrow> 'p \<Rightarrow> 'p \<Rightarrow> bytes \<Rightarrow> bytes" where
  "dake_text C S b us profile composite I P phi = [b] @ server_hash S (us ! 0) profile @ server_hash S (us ! 1) composite @
     otrng_serialize_ec_point C I @ otrng_serialize_ec_point C P @ server_hash S (us ! 2) phi"

lemma dake_tag_eq:
  assumes G: "goldilocks_ok C S" and H: "sponge_ok C S" and "cl_client_profile client = Some p" "fits_profile p"
    "pr_ephemeral_ecdh request = Some e" "cl_prekey_manager client = Some manager"
  shows "dake_tag C b u1 u2 u3 client request msg = Some (dake_text C S b [u1, u2, u3] (profile_bytes C p) (d2_composite_identity msg)
     (ecdh_pub e) (d2_S msg) (get_expected_composite_phi manager request))"
    and "length (dake_text C S b us pb ci I P phi) = T_LEN"
proof -
  show l: "length (dake_text C S b us pb ci I P phi) = T_LEN" for b us pb ci I P phi
    by (simp add: dake_text_def hash_facts[OF H] length_serialize_group[OF G] const_defs)
  then show "dake_tag C b u1 u2 u3 client request msg = Some (dake_text C S b [u1, u2, u3] (profile_bytes C p) (d2_composite_identity msg)
     (ecdh_pub e) (d2_S msg) (get_expected_composite_phi manager request))"
    using assms(3-6) profile_bytes(1)[OF G assms(4)]
    by (simp add: dake_tag_def kdf_client_profile_into_def kdf_composite_identity_into_def kdf_composite_phi_into_def hash_facts[OF H]
        flip: dake_text_def[of _ _ _ "[u1, u2, u3]", simplified])
qed

text \<open>Which point is written, not how it is represented, decides what is signed.\<close>

lemma dake_text_wire:
  assumes "goldilocks_ok C S"
  shows "dake_text C S b us pb ci I (wire_point C P) phi = dake_text C S b us pb ci I P phi"
  by (simp add: dake_text_def wire_bytes(1)[OF assms])

subsection \<open>The second message, from the server\<close>

definition composite_identity :: "('p, 's, 'm, 'h) crypto_ops \<Rightarrow> bytes \<Rightarrow> 'p \<Rightarrow> bytes" where
  "composite_identity C ident pub = otrng_serialize_data (Some ident) (length ident) @ otrng_serialize_public_key C pub"

definition dake2_bytes :: "('p, 's, 'm, 'h) crypto_ops \<Rightarrow> u32 \<Rightarrow> bytes \<Rightarrow> 'p \<Rightarrow> 'p \<Rightarrow> 's ring_sig_s \<Rightarrow> bytes" where
  "dake2_bytes C tag ident pub P sigma = otrng_serialize_uint16 OTRNG_PROTOCOL_VERSION_4 @ [OTRNG_PREKEY_DAKE2_MSG] @
     otrng_serialize_uint32 tag @ composite_identity C ident pub @ otrng_serialize_ec_point C P @ otrng_serialize_ring_sig C sigma"

lemma parse_header_eq [simp]:
  "otrng_prekey_parse_header (otrng_serialize_uint16 OTRNG_PROTOCOL_VERSION_4 @ b # rest) = Some (b, 3)"
  by (simp add: otrng_prekey_parse_header_def u16.dec_enc)

lemma public_key_read:
  assumes "goldilocks_ok C S"
  shows "otrng_deserialize_public_key C (otrng_serialize_public_key C p @ rest) = Some (wire_point C p, 59)"
    "length (otrng_serialize_public_key C p) = 59"
  by (simp_all add: otrng_deserialize_public_key_def otrng_serialize_public_key_def wire_point[OF assms]
      length_serialize_group[OF assms] const_defs)

lemma dake2_read:
  assumes G: "goldilocks_ok C S" and "length ident < 2 ^ 32"
  shows "otrng_prekey_dake2_message_deserialize C (dake2_bytes C tag ident pub P sigma) =
     Some \<lparr>d2_client_instance_tag = tag, d2_composite_identity = composite_identity C ident pub,
       d2_server_identity = (if ident = [] then None else Some ident), d2_server_pub_key = wire_point C pub, d2_S = wire_point C P,
       d2_sigma = wire_sig C sigma\<rparr>"
proof -
  note data = deserialize_data_serialize[OF assms(2)] length_serialize_data[of ident]
  have "drop 3 (dake2_bytes C tag ident pub P sigma) = otrng_serialize_uint32 tag @ composite_identity C ident pub @
      otrng_serialize_ec_point C P @ otrng_serialize_ring_sig C sigma"
    by (simp add: dake2_bytes_def)
  moreover have "drop 7 (dake2_bytes C tag ident pub P sigma) = composite_identity C ident pub @
      otrng_serialize_ec_point C P @ otrng_serialize_ring_sig C sigma"
    by (simp add: dake2_bytes_def)
  moreover have "drop (11 + length ident) (dake2_bytes C tag ident pub P sigma) = otrng_serialize_public_key C pub @
      otrng_serialize_ec_point C P @ otrng_serialize_ring_sig C sigma"
    by (simp add: dake2_bytes_def composite_identity_def data drop_Cons')
  moreover have "drop (70 + length ident) (dake2_bytes C tag ident pub P sigma) = otrng_serialize_ec_point C P @ otrng_serialize_ring_sig C sigma"
    by (simp add: dake2_bytes_def composite_identity_def data public_key_read(2)[OF G] drop_Cons')
  moreover have "drop (127 + length ident) (dake2_bytes C tag ident pub P sigma) = otrng_serialize_ring_sig C sigma"
    by (simp add: dake2_bytes_def composite_identity_def data public_key_read(2)[OF G] length_serialize_group[OF G] drop_Cons')
  moreover have "otrng_prekey_parse_header (dake2_bytes C tag ident pub P sigma) = Some (OTRNG_PREKEY_DAKE2_MSG, 3)"
    by (simp add: dake2_bytes_def)
  moreover have "length (composite_identity C ident pub) = 63 + length ident"
    by (simp add: composite_identity_def data public_key_read(2)[OF G])
  ultimately show ?thesis
    by (simp add: otrng_prekey_dake2_message_deserialize_def u32.dec_enc composite_identity_def data public_key_read[OF G]
        wire_point[OF G] wire_sig[OF G] ED448_POINT_BYTES_def)
qed

subsection \<open>Starting a request\<close>

definition dake1_bytes :: "('p, 's, 'm, 'h) crypto_ops \<Rightarrow> u32 \<Rightarrow> 'p otrng_client_profile_s \<Rightarrow> 'p \<Rightarrow> bytes" where
  "dake1_bytes C tag p I = otrng_serialize_uint16 OTRNG_PROTOCOL_VERSION_4 @ [OTRNG_PREKEY_DAKE1_MSG] @
     otrng_serialize_uint32 tag @ profile_bytes C p @ otrng_serialize_ec_point C I"

definition with_active_request ::
    "('p, 's, 'm) prekey_client_s \<Rightarrow> ('p, 's) otrng_prekey_manager_s \<Rightarrow> int \<Rightarrow> ('p, 's) otrng_prekey_request_s \<Rightarrow> ('p, 's, 'm) prekey_client_s" where
  "with_active_request client manager now r =
     client\<lparr>cl_prekey_manager := Some (manager\<lparr>mg_request_for_account_at := now, mg_request_for_account := Some r\<rparr>)\<rparr>"

definition fresh_request ::
    "otrng_prekey_server_s \<Rightarrow> app_ctx \<Rightarrow> ('p, 's) ecdh_keypair_s \<Rightarrow> otrng_prekey_next_message \<Rightarrow> ('p, 's) otrng_prekey_request_s" where
  "fresh_request server ctx e k = \<lparr>pr_ctx = ctx, pr_server = server, pr_ephemeral_ecdh = Some e, pr_mac_key = zeros MAC_KEY_BYTES,
     pr_mac_proof_key = zeros MAC_KEY_BYTES, pr_after_dake = Some k\<rparr>"

text \<open>A client that can start a request: it has a manager, no request is active and its profile can be sent.\<close>

definition prekey_client_ok ::
    "('p, 's, 'm, 'h) crypto_sem \<Rightarrow> ('p, 's, 'm) prekey_client_s \<Rightarrow> ('p, 's) otrng_prekey_manager_s \<Rightarrow> 'p otrng_client_profile_s \<Rightarrow> bool" where
  "prekey_client_ok S client manager p \<longleftrightarrow> cl_prekey_manager client = Some manager \<and> mg_request_for_account manager = None \<and>
     cl_client_profile client = Some p \<and> fits_profile p \<and> cp_dsa_key p = None \<and>
     dlog S (kp_pub (cl_keypair client)) = sval S (kp_priv (cl_keypair client))"

lemma start_dake1_ok:
  assumes G: "goldilocks_ok (ops E) S" and B: "base64_ok E" and c: "prekey_client_ok S client manager p"
    and "get_prekey_server_for manager (domain_for_account E client ctx) = Some server"
    and "otrng_ecdh_keypair_generate (ops E) seed = Some e"
  shows "start_dake1 E seed now client ctx k = Some (True, Owned (letter E (dake1_bytes (ops E) (cl_instance_tag client) p (ecdh_pub e))),
     with_active_request client manager now (fresh_request server ctx e k))"
proof -
  have copy: "otrng_client_profile_copy (zero E) (Some p) = (True, forget_check p)"
    using c by (intro profile_copy) (simp_all add: prekey_client_ok_def fits_profile_def)
  have ser: "otrng_client_profile_serialize (ops E) (forget_check p) = Some (Some (profile_bytes (ops E) p))"
    using c profile_bytes(1)[OF G, of "forget_check p"] by (simp add: prekey_client_ok_def forget_check_profile)
  show ?thesis
    using c assms(4,5)
    by (simp add: start_dake1_def prekey_client_ok_def get_domain_for_account_def create_prekey_request_def create_dake1_def copy
        serialize_dake1_def otrng_prekey_dake1_message_serialize_def ser otrng_serialize_bytes_array_def length_serialize_group[OF G]
        ED448_POINT_BYTES_def encode_letter[OF B] dake1_bytes_def prekey_manager_register_account_request_def set_request_def
        set_manager_def with_active_request_def fresh_request_def)
qed

lemma server_known: "get_prekey_server_for manager d = Some server \<Longrightarrow> find_server_for_identity manager (ps_identity server) \<noteq> None"
  by (metis (mono_tags, lifting) find_None_iff find_Some_iff find_server_for_identity_def get_prekey_server_for_def nth_mem)

subsection \<open>Answering the second message\<close>

text \<open>\<open>phi\<close> is what both sides know of each other, \<open>mac\<close> the key they derive from the shared secret.\<close>

definition composite_phi :: "string \<Rightarrow> string \<Rightarrow> bytes" where
  "composite_phi ours theirs = otrng_serialize_data (Some (ascii ours)) (length ours) @ otrng_serialize_data (Some (ascii theirs)) (length theirs)"

definition prekey_mac_key :: "('p, 's, 'm, 'h) crypto_sem \<Rightarrow> bytes \<Rightarrow> bytes" where
  "prekey_mac_key S K = server_hash S USAGE_PREMAC_KEY (server_hash S USAGE_SK K)"

definition prekey_proof_key :: "('p, 's, 'm, 'h) crypto_sem \<Rightarrow> bytes \<Rightarrow> bytes" where
  "prekey_proof_key S K = server_hash S USAGE_PROOF_CONTEXT (server_hash S USAGE_SK K)"

abbreviation initiator_usages :: "byte list" where
  "initiator_usages \<equiv> [USAGE_INITIATOR_CLIENT_PROFILE, USAGE_INITIATOR_PREKEY_COMPOSITE_IDENTITY, USAGE_INITIATOR_PREKEY_COMPOSITE_PHI]"

abbreviation receiver_usages :: "byte list" where
  "receiver_usages \<equiv> [USAGE_RECEIVER_CLIENT_PROFILE, USAGE_RECEIVER_PREKEY_COMPOSITE_IDENTITY, USAGE_RECEIVER_PREKEY_COMPOSITE_PHI]"

lemma dake2_answered:
  assumes G: "goldilocks_ok (ops E) S" and H: "sponge_ok (ops E) S" and B: "base64_ok E" and c: "prekey_client_ok S client manager p"
    and ident: "length ident < 2 ^ 32" and tp: "dlog S tp = sval S ts"
    and e: "dlog S (ecdh_pub e) = sval S (ecdh_priv e)"
    and K: "otrng_ecdh_shared_secret (ops E) ED448_POINT_BYTES ts (ecdh_pub e) = Some K"
    and sigma: "otrng_rsig_verify_with_usage_and_domain (ops E) USAGE_AUTH PREKEY_HASH_DOMAIN sigma (kp_pub (cl_keypair client)) spk (ecdh_pub e)
      (dake_text (ops E) S 0 initiator_usages (profile_bytes (ops E) p) (composite_identity (ops E) ident spk) (ecdh_pub e) tp
         (composite_phi (mg_our_identity manager) (ps_identity server)))"
    and ring: "ring_matches (ops E) (kp_pub (cl_keypair client)) [kp_pub (cl_keypair client), spk, tp] = 1"
  obtains g r client' where "r = (fresh_request server ctx e k)\<lparr>pr_ephemeral_ecdh := None, pr_mac_key := prekey_mac_key S K,
      pr_mac_proof_key := prekey_proof_key S K\<rparr>"
    "client' = with_active_request client manager now r"
    "otrng_rsig_verify_with_usage_and_domain (ops E) USAGE_AUTH PREKEY_HASH_DOMAIN (wire_sig (ops E) g) (kp_pub (cl_keypair client)) spk tp
      (dake_text (ops E) S 1 receiver_usages (profile_bytes (ops E) p) (composite_identity (ops E) ident spk) (ecdh_pub e) tp
         (composite_phi (mg_our_identity manager) (ps_identity server)))"
    "receive_dake2 E rnd (with_active_request client manager now (fresh_request server ctx e k)) (fresh_request server ctx e k)
       (dake2_bytes (ops E) (cl_instance_tag client) ident spk tp sigma) = do {
         (res, client'') \<leftarrow> after_dake E (\<lambda>i. rnd (9 + i)) client' r;
         (case res of
            None \<Rightarrow> Some (None, client'')
          | Some bs \<Rightarrow> do {
              ser \<leftarrow> otrng_prekey_dake3_message_serialize (ops E) \<lparr>d3_client_instance_tag = cl_instance_tag client, d3_sigma = g, d3_msg = bs\<rparr>;
              Some (Some (letter E ser), client'') }) }"
proof -
  define C where "C = ops E"
  note G = G[folded C_def] and H = H[folded C_def] and K = K[folded C_def] and sigma = sigma[folded C_def] and ring = ring[folded C_def]
  let ?pub = "kp_pub (cl_keypair client)" and ?priv = "kp_priv (cl_keypair client)"
  let ?r0 = "fresh_request server ctx e k" and ?client = "with_active_request client manager now (fresh_request server ctx e k)"
  define msg where "msg = \<lparr>d2_client_instance_tag = cl_instance_tag client, d2_composite_identity = composite_identity C ident spk,
       d2_server_identity = (if ident = [] then None else Some ident), d2_server_pub_key = wire_point C spk, d2_S = wire_point C tp,
       d2_sigma = wire_sig C sigma\<rparr>"
  have msg: "otrng_prekey_dake2_message_deserialize C (dake2_bytes C (cl_instance_tag client) ident spk tp sigma) = Some msg"
    unfolding msg_def by (rule dake2_read[OF G ident])
  have m: "d2_client_instance_tag msg = cl_instance_tag client" "d2_composite_identity msg = composite_identity C ident spk"
    "d2_server_pub_key msg = wire_point C spk" "d2_S msg = wire_point C tp" "d2_sigma msg = wire_sig C sigma"
    by (simp_all add: msg_def)
  have client: "cl_client_profile ?client = Some p" "fits_profile p" "cl_keypair ?client = cl_keypair client"
    "cl_instance_tag ?client = cl_instance_tag client" "dlog S ?pub = sval S ?priv" "pr_ephemeral_ecdh ?r0 = Some e"
    "cl_prekey_manager ?client = Some (manager\<lparr>mg_request_for_account_at := now, mg_request_for_account := Some ?r0\<rparr>)"
    using c by (simp_all add: prekey_client_ok_def with_active_request_def fresh_request_def)
  let ?t = "\<lambda>b us. dake_text C S b us (profile_bytes C p) (composite_identity C ident spk) (ecdh_pub e) tp
     (composite_phi (mg_our_identity manager) (ps_identity server))"
  have phi: "get_expected_composite_phi (manager\<lparr>mg_request_for_account_at := now, mg_request_for_account := Some ?r0\<rparr>) ?r0 =
      composite_phi (mg_our_identity manager) (ps_identity server)"
    by (simp add: get_expected_composite_phi_def composite_phi_def fresh_request_def)
  have t: "dake_tag C b u1 u2 u3 ?client ?r0 msg = Some (?t b [u1, u2, u3])" for b u1 u2 u3
    using dake_tag_eq(1)[OF G H client(1,2,6,7), of b u1 u2 u3 msg, unfolded phi] by (simp add: m dake_text_wire[OF G])
  have valid: "validate_dake2 C ?client ?r0 msg = Some True"
    using sigma rsig_verify_cong[OF G wire_sig(3)[OF G, of sigma] refl wire_point(3)[OF G, of spk] refl]
    by (simp add: validate_dake2_def t client m)
  have matches: "ring_matches C ?pub [?pub, wire_point C spk, wire_point C tp] = 1"
    using ring by (auto simp: ring_matches_def goldilocks_point(7)[OF G] wire_point(3)[OF G] split: if_splits)
  obtain g g' where g: "otrng_rsig_authenticate_with_usage_and_domain C USAGE_AUTH PREKEY_HASH_DOMAIN rnd ?priv ?pub ?pub (wire_point C spk)
      (wire_point C tp) (?t 1 receiver_usages) = Some g"
    "otrng_rsig_verify_with_usage_and_domain C USAGE_AUTH PREKEY_HASH_DOMAIN g ?pub (wire_point C spk) (wire_point C tp) (?t 1 receiver_usages)"
    using rsig_authenticate_verify_aux[OF G H client(5) matches] by blast
  have g': "otrng_rsig_verify_with_usage_and_domain C USAGE_AUTH PREKEY_HASH_DOMAIN (wire_sig C g) ?pub spk tp (?t 1 receiver_usages)"
    using g(2) rsig_verify_cong[OF G wire_sig(3)[OF G, of g] refl wire_point(3)[OF G, of spk, symmetric] wire_point(3)[OF G, of tp, symmetric]] by simp
  have "otrng_ecdh_shared_secret C ED448_POINT_BYTES (ecdh_priv e) (wire_point C tp) = Some K"
    using K otrng_ecdh_shared_secret_cong[OF G, of "wire_point C tp" "ecdh_priv e" "ecdh_pub e" ts] tp e wire_point(3)[OF G, of tp]
    by (simp add: mult.commute)
  then have mac: "create_mac_keys C ?r0 msg = Some (True, ?r0\<lparr>pr_ephemeral_ecdh := None, pr_mac_key := prekey_mac_key S K,
      pr_mac_proof_key := prekey_proof_key S K\<rparr>)"
    by (simp add: create_mac_keys_def client clean_ephemeral_ecdh_def m hash_facts[OF H] prekey_mac_key_def prekey_proof_key_def)
  have auth: "create_rsig_auth_for_dake3 C rnd ?client ?r0 msg = Some (Some g)"
    using g(1) by (simp add: create_rsig_auth_for_dake3_def t client(3) dake_tag_eq(2)[OF G H client(1,2,6,7)] m)
  show ?thesis
  proof (rule that[OF refl refl])
    show "otrng_rsig_verify_with_usage_and_domain (ops E) USAGE_AUTH PREKEY_HASH_DOMAIN (wire_sig (ops E) g) ?pub spk tp
      (dake_text (ops E) S 1 receiver_usages (profile_bytes (ops E) p) (composite_identity (ops E) ident spk) (ecdh_pub e) tp
         (composite_phi (mg_our_identity manager) (ps_identity server)))"
      using g' by (simp add: C_def)
  qed (simp add: receive_dake2_def msg[unfolded C_def] process_received_dake2_def valid[unfolded C_def] send_dake3_def auth[unfolded C_def]
      mac[unfolded C_def] encode_letter[OF B] client(4) m(1), simp add: with_active_request_def set_request_def encode_letter[OF B] cong: option.case_cong)
qed

subsection \<open>Asking how much is stored\<close>

definition dake3_bytes :: "('p, 's, 'm, 'h) crypto_ops \<Rightarrow> u32 \<Rightarrow> 's ring_sig_s \<Rightarrow> bytes \<Rightarrow> bytes" where
  "dake3_bytes C tag sigma bs = otrng_serialize_uint16 OTRNG_PROTOCOL_VERSION_4 @ [OTRNG_PREKEY_DAKE3_MSG] @ otrng_serialize_uint32 tag @
     otrng_serialize_ring_sig C sigma @ otrng_serialize_data (Some bs) (length bs)"

definition storage_request_bytes :: "('p, 's, 'm, 'h) crypto_sem \<Rightarrow> bytes \<Rightarrow> bytes" where
  "storage_request_bytes S mac = otrng_serialize_uint16 OTRNG_PROTOCOL_VERSION_4 @ [OTRNG_PREKEY_STORAGE_INFO_REQ_MSG] @
     server_hash S USAGE_STORAGE_INFO_MAC (mac @ [OTRNG_PREKEY_STORAGE_INFO_REQ_MSG])"

definition storage_status :: "('p, 's, 'm, 'h) crypto_sem \<Rightarrow> u32 \<Rightarrow> u32 \<Rightarrow> bytes \<Rightarrow> otrng_prekey_storage_status_message_s" where
  "storage_status S tag n mac = \<lparr>ss_client_instance_tag = tag, ss_stored_prekeys = n,
     ss_mac = server_hash S usage_status_MAC (mac @ [OTRNG_PREKEY_STORAGE_STATUS_MSG] @ otrng_serialize_uint32 tag @ otrng_serialize_uint32 n)\<rparr>"

definition storage_status_bytes :: "otrng_prekey_storage_status_message_s \<Rightarrow> bytes" where
  "storage_status_bytes m = otrng_serialize_uint16 OTRNG_PROTOCOL_VERSION_4 @ [OTRNG_PREKEY_STORAGE_STATUS_MSG] @
     otrng_serialize_uint32 (ss_client_instance_tag m) @ otrng_serialize_uint32 (ss_stored_prekeys m) @ ss_mac m"

lemma dake3_serialized:
  assumes "goldilocks_ok C S"
  shows "otrng_prekey_dake3_message_serialize C \<lparr>d3_client_instance_tag = tag, d3_sigma = g, d3_msg = bs\<rparr> = Some (dake3_bytes C tag g bs)"
  by (simp add: otrng_prekey_dake3_message_serialize_def dake3_bytes_def wire_sig(4)[OF assms] length_serialize_data const_defs)

lemma storage_request_eq:
  assumes "sponge_ok (ops E) S" "length (pr_mac_key r) = MAC_KEY_BYTES" "pr_after_dake r = Some Storage_request_after_dake"
  shows "after_dake E rnd client r = Some (Some (storage_request_bytes S (pr_mac_key r)), client)"
  using assms(2,3)
  by (simp add: after_dake_def storage_request_after_dake_def dake3_message_append_storage_information_request_def hash_pieces[OF assms(1)]
      hash_of_pieces[OF assms(1)] storage_request_bytes_def)
     (simp add: into_buffer_def hash_facts[OF assms(1)] HASH_BYTES_def MAC_KEY_BYTES_def)

lemma storage_status_read:
  assumes H: "sponge_ok C S" and "length mac = MAC_KEY_BYTES"
  shows "otrng_prekey_storage_status_message_deserialize (storage_status_bytes (storage_status S tag n mac)) = Some (storage_status S tag n mac)"
    and "otrng_prekey_storage_status_message_valid C (storage_status S tag n mac) mac"
  using assms(2)
  by (simp_all add: otrng_prekey_storage_status_message_deserialize_def storage_status_bytes_def storage_status_def u32.dec_enc
      otrng_deserialize_bytes_array_def hash_facts[OF H] DATA_MSG_MAC_BYTES_def HASH_BYTES_def[symmetric]
      otrng_prekey_storage_status_message_valid_def hash_pieces[OF H] hash_of_pieces[OF H] sponge_simps(1)[OF H] Let_def)

text \<open>An answer of the server that belongs to the active request.\<close>

lemma receive_answer:
  assumes B: "base64_ok E" and "cl_prekey_manager client = Some manager" "find_server_for_identity manager (ps_identity (pr_server r)) \<noteq> None"
    and "mg_request_for_account manager = Some r" "otrng_prekey_parse_header bs = Some (ty, w)"
  shows "ty = OTRNG_PREKEY_DAKE2_MSG \<Longrightarrow> otrng_prekey_receive E rnd now client (ps_identity (pr_server r)) (letter E bs) =
      map_option (\<lambda>(res, client). (True, res, if res = None then clean_request_for_account client else client)) (receive_dake2 E rnd client r bs)"
    and "ty = OTRNG_PREKEY_SUCCESS_MSG \<Longrightarrow> otrng_prekey_receive E rnd now client (ps_identity (pr_server r)) (letter E bs) =
      map_option (\<lambda>client. (True, None, clean_request_for_account client)) (receive_success E client r bs)"
    and "ty = OTRNG_PREKEY_STORAGE_STATUS_MSG \<Longrightarrow> otrng_prekey_receive E rnd now client (ps_identity (pr_server r)) (letter E bs) =
      map_option (\<lambda>client. (True, None, clean_request_for_account client)) (receive_storage_status E client r bs)"
  using assms(2-)
  by (simp_all add: receive_letter[OF B assms(2,3)] prekey_receive_decoded_message_def check_current_dake_request_def with_request_def
      OTRNG_PREKEY_DAKE2_MSG_def OTRNG_PREKEY_SUCCESS_MSG_def OTRNG_PREKEY_FAILURE_MSG_def OTRNG_PREKEY_STORAGE_STATUS_MSG_def
      map_option_case split_beta split: option.split)

lemma answer_header [simp]:
  "otrng_prekey_parse_header (dake2_bytes C tag ident pub P sigma) = Some (OTRNG_PREKEY_DAKE2_MSG, 3)"
  "otrng_prekey_parse_header (storage_status_bytes m) = Some (OTRNG_PREKEY_STORAGE_STATUS_MSG, 3)"
  by (simp_all add: dake2_bytes_def storage_status_bytes_def)

lemma active_request [simp]:
  "cl_prekey_manager (with_active_request client manager now r) = Some (manager\<lparr>mg_request_for_account_at := now, mg_request_for_account := Some r\<rparr>)"
  "cl_instance_tag (with_active_request client manager now r) = cl_instance_tag client"
  "find_server_for_identity (manager\<lparr>mg_request_for_account_at := now, mg_request_for_account := rq\<rparr>) ident = find_server_for_identity manager ident"
  "clean_request_for_account (with_active_request client manager now r) =
     client\<lparr>cl_prekey_manager := Some (manager\<lparr>mg_request_for_account_at := 0, mg_request_for_account := None\<rparr>)\<rparr>"
  by (simp_all add: with_active_request_def find_server_for_identity_def clean_request_for_account_def set_manager_def)

text \<open>What the client makes of a storage status: when less is stored than the policy wants, it notes how much to
  publish and tells the application.\<close>

definition status_noted ::
    "otrng_prekey_storage_status_message_s \<Rightarrow> app_ctx \<Rightarrow> ('p, 's) otrng_prekey_manager_s \<Rightarrow> ('p, 's, 'm) prekey_client_s \<Rightarrow> ('p, 's, 'm) prekey_client_s" where
  "status_noted m ctx manager client = (
     let policy = mg_publication_policy manager in
     if ss_stored_prekeys m < minimum_stored_prekey_message policy then
       client\<lparr>cl_prekey_msgs_num_to_publish := max_published_prekey_message policy - ss_stored_prekeys m, cl_should_publish := True,
         cl_prekey_events := cl_prekey_events client @ [Low_prekey_messages_in_storage ctx, Storage_status_received m ctx]\<rparr>
     else client\<lparr>cl_prekey_events := cl_prekey_events client @ [Storage_status_received m ctx]\<rparr>)"

lemma status_answered:
  assumes H: "sponge_ok (ops E) S" and B: "base64_ok E" and "find_server_for_identity manager (ps_identity (pr_server r)) \<noteq> None"
    and "length (pr_mac_key r) = MAC_KEY_BYTES"
  shows "otrng_prekey_receive E rnd now (with_active_request client manager at r) (ps_identity (pr_server r))
      (letter E (storage_status_bytes (storage_status S (cl_instance_tag client) n (pr_mac_key r)))) =
    Some (True, None, status_noted (storage_status S (cl_instance_tag client) n (pr_mac_key r)) (pr_ctx r) manager
      (client\<lparr>cl_prekey_manager := Some (manager\<lparr>mg_request_for_account_at := 0, mg_request_for_account := None\<rparr>)\<rparr>))"
proof -
  let ?m = "storage_status S (cl_instance_tag client) n (pr_mac_key r)"
  have m: "ss_client_instance_tag ?m = cl_instance_tag client" by (simp add: storage_status_def)
  show ?thesis
    using assms(3) storage_status_read[OF H assms(4), of "cl_instance_tag client" n] m
    by (subst receive_answer(3)[OF B active_request(1)])
       (simp_all add: receive_storage_status_def process_received_storage_status_def tell_def status_noted_def Let_def
         with_active_request_def clean_request_for_account_def set_manager_def)
qed

text \<open>C22: asking a prekey server how much it has stored works from end to end: the request is sent, the client accepts
  the second message of the key exchange, the server accepts the signature of the third, which asks under the
  MAC key both sides derive, and the status the server returns under that key is noted.  This holds for every
  identity and every public key the server presents: neither is compared with what the application has provided.\<close>

theorem storage_status_dialogue:
  assumes G: "goldilocks_ok (ops E) S" and H: "sponge_ok (ops E) S" and B: "base64_ok E" and c: "prekey_client_ok S client manager p"
    and server: "get_prekey_server_for manager (domain_for_account E client ctx) = Some server"
    and e: "otrng_ecdh_keypair_generate (ops E) seed = Some e"
    and ident: "length ident < 2 ^ 32" and keys: "dlog S spk = sval S sk" "dlog S tp = sval S ts"
    and K: "otrng_ecdh_shared_secret (ops E) ED448_POINT_BYTES ts (ecdh_pub e) = Some K"
    and rings: "ring_matches (ops E) spk [kp_pub (cl_keypair client), spk, ecdh_pub e] = 1"
      "ring_matches (ops E) (kp_pub (cl_keypair client)) [kp_pub (cl_keypair client), spk, tp] = 1"
  shows "\<exists>client1 sigma client2 g status client3.
     otrng_prekey_request_storage_information E seed now client ctx =
       Some (True, Owned (letter E (dake1_bytes (ops E) (cl_instance_tag client) p (ecdh_pub e))), client1) \<and>
     otrng_rsig_authenticate_with_usage_and_domain (ops E) USAGE_AUTH PREKEY_HASH_DOMAIN rnds sk spk (kp_pub (cl_keypair client)) spk (ecdh_pub e)
       (dake_text (ops E) S 0 initiator_usages (profile_bytes (ops E) p) (composite_identity (ops E) ident spk) (ecdh_pub e) tp
         (composite_phi (mg_our_identity manager) (ps_identity server))) = Some sigma \<and>
     otrng_prekey_receive E rnd now1 client1 (ps_identity server) (letter E (dake2_bytes (ops E) (cl_instance_tag client) ident spk tp sigma)) =
       Some (True, Some (letter E (dake3_bytes (ops E) (cl_instance_tag client) g (storage_request_bytes S (prekey_mac_key S K)))), client2) \<and>
     otrng_rsig_verify_with_usage_and_domain (ops E) USAGE_AUTH PREKEY_HASH_DOMAIN (wire_sig (ops E) g) (kp_pub (cl_keypair client)) spk tp
       (dake_text (ops E) S 1 receiver_usages (profile_bytes (ops E) p) (composite_identity (ops E) ident spk) (ecdh_pub e) tp
         (composite_phi (mg_our_identity manager) (ps_identity server))) \<and>
     status = storage_status S (cl_instance_tag client) n (prekey_mac_key S K) \<and>
     otrng_prekey_receive E rnd2 now2 client2 (ps_identity server) (letter E (storage_status_bytes status)) = Some (True, None, client3) \<and>
     client3 = status_noted status ctx manager
       (client\<lparr>cl_prekey_manager := Some (manager\<lparr>mg_request_for_account_at := 0, mg_request_for_account := None\<rparr>)\<rparr>)"
proof -
  let ?k = Storage_request_after_dake
  let ?r0 = "fresh_request server ctx e Storage_request_after_dake"
  let ?pub = "kp_pub (cl_keypair client)"
  let ?t = "\<lambda>b us. dake_text (ops E) S b us (profile_bytes (ops E) p) (composite_identity (ops E) ident spk) (ecdh_pub e) tp
     (composite_phi (mg_our_identity manager) (ps_identity server))"
  have known: "find_server_for_identity manager (ps_identity server) \<noteq> None" by (rule server_known[OF server])
  obtain sigma where sigma:
    "otrng_rsig_authenticate_with_usage_and_domain (ops E) USAGE_AUTH PREKEY_HASH_DOMAIN rnds sk spk ?pub spk (ecdh_pub e) (?t 0 initiator_usages) = Some sigma"
    "otrng_rsig_verify_with_usage_and_domain (ops E) USAGE_AUTH PREKEY_HASH_DOMAIN sigma ?pub spk (ecdh_pub e) (?t 0 initiator_usages)"
    using rsig_authenticate_verify_aux[OF G H keys(1) rings(1)] by blast
  obtain g r client2 where r: "r = ?r0\<lparr>pr_ephemeral_ecdh := None, pr_mac_key := prekey_mac_key S K, pr_mac_proof_key := prekey_proof_key S K\<rparr>"
    and client2: "client2 = with_active_request client manager now r"
    and verified: "otrng_rsig_verify_with_usage_and_domain (ops E) USAGE_AUTH PREKEY_HASH_DOMAIN (wire_sig (ops E) g) ?pub spk tp (?t 1 receiver_usages)"
    and dake3: "receive_dake2 E rnd (with_active_request client manager now ?r0) ?r0 (dake2_bytes (ops E) (cl_instance_tag client) ident spk tp sigma) = do {
         (res, client'') \<leftarrow> after_dake E (\<lambda>i. rnd (9 + i)) client2 r;
         (case res of None \<Rightarrow> Some (None, client'')
          | Some bs \<Rightarrow> do {
              ser \<leftarrow> otrng_prekey_dake3_message_serialize (ops E) \<lparr>d3_client_instance_tag = cl_instance_tag client, d3_sigma = g, d3_msg = bs\<rparr>;
              Some (Some (letter E ser), client'') }) }"
    by (rule dake2_answered[OF G H B c ident keys(2) ecdh_keypair_generate_pub[OF G e] K sigma(2) rings(2), where now = now and rnd = rnd and ctx = ctx
          and k = ?k])
  have mac: "length (pr_mac_key r) = MAC_KEY_BYTES" "pr_after_dake r = Some ?k" "pr_server r = server" "pr_ctx r = ctx" "pr_mac_key r = prekey_mac_key S K"
    "pr_server ?r0 = server"
    by (simp_all add: r prekey_mac_key_def hash_facts[OF H] fresh_request_def HASH_BYTES_def MAC_KEY_BYTES_def)
  have "otrng_prekey_receive E rnd now1 (with_active_request client manager now ?r0) (ps_identity (pr_server ?r0))
      (letter E (dake2_bytes (ops E) (cl_instance_tag client) ident spk tp sigma)) =
    Some (True, Some (letter E (dake3_bytes (ops E) (cl_instance_tag client) g (storage_request_bytes S (prekey_mac_key S K)))), client2)"
    using known by (subst receive_answer(1)[OF B active_request(1)]) (simp_all add: mac dake3 dake3_serialized[OF G] storage_request_eq[OF H mac(1,2)])
  note this[unfolded mac(6)]
  moreover have "otrng_prekey_request_storage_information E seed now client ctx =
      Some (True, Owned (letter E (dake1_bytes (ops E) (cl_instance_tag client) p (ecdh_pub e))), with_active_request client manager now ?r0)"
    by (simp add: otrng_prekey_request_storage_information_def start_dake1_ok[OF G B c server e])
  ultimately show ?thesis
    using sigma(1) verified status_answered[OF H B, of manager r] known mac unfolding client2 by (simp add: exI)
qed

subsection \<open>Publishing\<close>

text \<open>A prekey message that the client has built: its key pairs are there and belong together, and it shows their public
  halves.\<close>

definition own_prekey_message :: "('p, 's, 'm, 'h) crypto_sem \<Rightarrow> ('p, 's, 'm) prekey_message_s \<Rightarrow> bool" where
  "own_prekey_message S m \<longleftrightarrow> (case (pm_y m, pm_b m) of
     (Some y, Some b) \<Rightarrow> pm_Y m = ecdh_pub y \<and> pm_B m = dh_pub b \<and> dh_ok S (pm_B m) \<and> dlog S (ecdh_pub y) = sval S (ecdh_priv y) \<and>
       (case (dh_pub b, dh_priv b) of
          (Some X, Some x) \<Rightarrow> mval S x < 256 ^ DH_KEY_SIZE \<and> mval S X = 2 ^ mval S x mod DH3072_MODULUS
        | _ \<Rightarrow> False)
   | _ \<Rightarrow> False)"

definition prekey_message_bytes :: "('p, 's, 'm, 'h) crypto_ops \<Rightarrow> ('p, 's, 'm) prekey_message_s \<Rightarrow> bytes" where
  "prekey_message_bytes C m = the (otrng_prekey_message_serialize_into C m)"

lemma prekey_message_serialized:
  assumes G: "goldilocks_ok C S" "gcrypt_ok C S" and "dh_ok S (pm_B m)"
  shows "PRE_KEY_MAX_BYTES \<le> n \<Longrightarrow> otrng_prekey_message_serialize C n m = Some (prekey_message_bytes C m)"
    and "length (prekey_message_bytes C m) \<le> PRE_KEY_MAX_BYTES"
proof -
  obtain b where b: "pm_B m = Some b" "in_dh_range S b" by (rule dh_okE[OF assms(3)])
  have "otrng_prekey_message_serialize C n m = otrng_prekey_message_serialize_into C m" if "PRE_KEY_MAX_BYTES \<le> n" for n
    using that by (simp add: otrng_prekey_message_serialize_into_def otrng_prekey_message_serialize_def b length_serialize_group[OF G(1)]
        wire_mpi(1)[OF G(2) b(2)] PRE_KEY_MAX_BYTES_def DAKE_HEADER_BYTES_def ED448_POINT_BYTES_def)
  with prekey_message_roundtrip[OF G assms(3), where Z = "\<lparr>zero_scalar = scalar_one C, zero_point = point_base C\<rparr>"]
  show "PRE_KEY_MAX_BYTES \<le> n \<Longrightarrow> otrng_prekey_message_serialize C n m = Some (prekey_message_bytes C m)"
    "length (prekey_message_bytes C m) \<le> PRE_KEY_MAX_BYTES"
    by (auto simp: prekey_message_bytes_def)
qed

lemma prekey_messages_serialized:
  assumes G: "goldilocks_ok C S" "gcrypt_ok C S" and "list_all (dh_ok S \<circ> pm_B) ms" "w + length ms * PRE_KEY_MAX_BYTES \<le> sz"
  shows "serialize_prekey_messages_into C sz w ms = concat (map (prekey_message_bytes C) ms)"
    and "length (concat (map (prekey_message_bytes C) ms)) \<le> length ms * PRE_KEY_MAX_BYTES"
  using assms(3,4)
proof (induction ms arbitrary: w)
  case (Cons m ms)
  { case 1
    then have m: "otrng_prekey_message_serialize C (sz - w) m = Some (prekey_message_bytes C m)" "length (prekey_message_bytes C m) \<le> PRE_KEY_MAX_BYTES"
      by (intro prekey_message_serialized[OF G]; simp)+
    with 1 Cons.IH(1)[of "w + length (prekey_message_bytes C m)"] show ?case by simp }
  { case 2
    then show ?case using prekey_message_serialized(2)[OF G, of m] Cons.IH(2)[of "w + PRE_KEY_MAX_BYTES"] by simp }
qed simp_all

text \<open>How the server reads the proofs: the two for the prekey messages, when there are any, then the one for the prekey
  profile.\<close>

definition server_accepts_proofs ::
    "('p, 's, 'm, 'h) crypto_ops \<Rightarrow> ('p, 's, 'm) proof_ops \<Rightarrow> bytes \<Rightarrow> 'p list \<Rightarrow> 'm option list \<Rightarrow> 'p option \<Rightarrow> bytes \<Rightarrow> bool" where
  "server_accepts_proofs C P mac Ys Bs shared bs =
     (case (if Ys = [] then Some (True, bs)
            else do {
              (ecdh, n) \<leftarrow> otrng_ecdh_proof_deserialize C bs;
              (dh, k) \<leftarrow> otrng_dh_proof_deserialize C None (drop n bs);
              ok \<leftarrow> otrng_dh_proof_verify C P dh Bs mac USAGE_PROOF_MESSAGE_DH;
              Some (ok \<and> otrng_ecdh_proof_verify C P ecdh Ys mac USAGE_PROOF_MESSAGE_ECDH, drop (n + k) bs) }) of
        None \<Rightarrow> False
      | Some (ok, rest) \<Rightarrow> ok \<and>
          (case shared of
             None \<Rightarrow> rest = []
           | Some X \<Rightarrow>
               (case otrng_ecdh_proof_deserialize C rest of
                  None \<Rightarrow> False
                | Some (px, n) \<Rightarrow> drop n rest = [] \<and> otrng_ecdh_proof_verify C P px [X] mac USAGE_PROOF_SHARED_ECDH)))"

lemma ecdh_proof_size: "otrng_ecdh_proof_deserialize C bs = Some (px, n) \<Longrightarrow> n = PROOF_C_SIZE + ED448_SCALAR_BYTES"
  by (auto simp: otrng_ecdh_proof_deserialize_def split: if_splits bind_splits)

text \<open>The keys of such messages, as the generator of the proofs collects them.\<close>

lemma own_keys:
  assumes "list_all (own_prekey_message S) ms"
  obtains ys bs xs Xs where "those (map pm_y ms) = Some ys" "those (map pm_b ms) = Some bs" "map dh_priv bs = map Some xs" "map dh_pub bs = map Some Xs"
    "map pm_Y ms = map ecdh_pub ys" "map pm_B ms = map Some Xs" "map (dlog S) (map ecdh_pub ys) = map (sval S) (map ecdh_priv ys)"
    "map (mval S) Xs = map (\<lambda>x. 2 ^ mval S x mod DH3072_MODULUS) xs" "list_all (\<lambda>x. mval S x < 256 ^ DH_KEY_SIZE) xs"
    "list_all (in_dh_range S) Xs" "length xs = length ms"
  using assms
proof (induction ms arbitrary: thesis)
  case (Cons m ms)
  from Cons.prems(2) obtain y b X x where m: "pm_y m = Some y" "pm_b m = Some b" "dh_pub b = Some X" "dh_priv b = Some x" "pm_Y m = ecdh_pub y"
    "pm_B m = Some X" "in_dh_range S X" "dlog S (ecdh_pub y) = sval S (ecdh_priv y)" "mval S x < 256 ^ DH_KEY_SIZE" "mval S X = 2 ^ mval S x mod DH3072_MODULUS"
    by (auto simp: own_prekey_message_def dh_ok_def split: option.splits)
  show ?case
  proof (rule Cons.IH)
    fix ys bs xs Xs
    assume "those (map pm_y ms) = Some ys" "those (map pm_b ms) = Some bs" "map dh_priv bs = map Some xs" "map dh_pub bs = map Some Xs"
      "map pm_Y ms = map ecdh_pub ys" "map pm_B ms = map Some Xs" "map (dlog S) (map ecdh_pub ys) = map (sval S) (map ecdh_priv ys)"
      "map (mval S) Xs = map (\<lambda>x. 2 ^ mval S x mod DH3072_MODULUS) xs" "list_all (\<lambda>x. mval S x < 256 ^ DH_KEY_SIZE) xs"
      "list_all (in_dh_range S) Xs" "length xs = length ms"
    with m show thesis by (intro Cons.prems(1)[of "y # ys" "b # bs" "x # xs" "X # Xs"]) simp_all
  qed (use Cons.prems(2) in simp)
qed simp

lemma counted:
  assumes "pub_num_prekey_messages pub_msg = of_nat (length ms)" "pub_prekey_messages pub_msg = ms" "length ms < 256"
  shows "counted_messages pub_msg = Some ms" "unat (pub_num_prekey_messages pub_msg) = length ms"
    "pub_num_prekey_messages pub_msg = 0 \<longleftrightarrow> ms = []" "0 < pub_num_prekey_messages pub_msg \<longleftrightarrow> ms \<noteq> []"
proof -
  show u: "unat (pub_num_prekey_messages pub_msg) = length ms" using assms by (simp add: unsigned_of_nat take_bit_nat_eq_self)
  then show "counted_messages pub_msg = Some ms" using assms(2) by (simp add: counted_messages_def)
  show z: "pub_num_prekey_messages pub_msg = 0 \<longleftrightarrow> ms = []" using u by (auto simp flip: unat_eq_zero)
  then show "0 < pub_num_prekey_messages pub_msg \<longleftrightarrow> ms \<noteq> []" by (auto simp: word_neq_0_conv[symmetric])
qed

lemma message_proofs:
  assumes G: "goldilocks_ok (ops E) S" "gcrypt_ok (ops E) S" and H: "sponge_ok (ops E) S" and P: "proof_ops_ok (ops E) S (proofs E)"
    and ms: "list_all (own_prekey_message S) ms" "0 < length ms" "length ms < 256"
    and pub: "pub_num_prekey_messages pub_msg = of_nat (length ms)" "pub_prekey_messages pub_msg = ms"
    and rnd: "shake_256_hash (ops E) DH_KEY_SIZE (rnd 1) = Some rbuf" "0 < be_value (take DH_KEY_SIZE rbuf)"
  obtains ecdh dh where "generate_proofs_for_prekey_messages E rnd pub_msg mac = Some (Some (Some (ecdh, dh)))"
    "length (otrng_ecdh_proof_serialize (ops E) ecdh) = PROOF_C_SIZE + ED448_SCALAR_BYTES"
    "length (otrng_dh_proof_serialize (ops E) dh) \<le> PROOF_C_SIZE + DH_MPI_MAX_BYTES"
    "\<And>rest shared. server_accepts_proofs (ops E) (proofs E) mac (map (wire_point (ops E) \<circ> pm_Y) ms) (map (map_option (wire_mpi (ops E)) \<circ> pm_B) ms) shared
       (otrng_ecdh_proof_serialize (ops E) ecdh @ otrng_dh_proof_serialize (ops E) dh @ rest) \<longleftrightarrow> server_accepts_proofs (ops E) (proofs E) mac [] [] shared rest"
proof -
  define C where "C = ops E"
  note G = G[folded C_def] and H = H[folded C_def] and P = P[folded C_def] and rnd = rnd[folded C_def]
  obtain ys bs xs Xs where keys: "those (map pm_y ms) = Some ys" "those (map pm_b ms) = Some bs" "map dh_priv bs = map Some xs" "map dh_pub bs = map Some Xs"
    "map pm_Y ms = map ecdh_pub ys" "map pm_B ms = map Some Xs" "map (dlog S) (map ecdh_pub ys) = map (sval S) (map ecdh_priv ys)"
    "map (mval S) Xs = map (\<lambda>x. 2 ^ mval S x mod DH3072_MODULUS) xs" "list_all (\<lambda>x. mval S x < 256 ^ DH_KEY_SIZE) xs"
    "list_all (in_dh_range S) Xs" "length xs = length ms"
    by (rule own_keys[OF ms(1)])
  let ?Ys = "map (wire_point C) (map ecdh_pub ys)" and ?Bs = "map (wire_mpi C) Xs"
  have Bs: "map (mval S) ?Bs = map (mval S) Xs" using keys(10) by (induction Xs) (simp_all add: wire_mpi(4)[OF G(2)])
  have "map (dlog S) ?Ys = map (dlog S) (map ecdh_pub ys)" by (simp add: comp_def wire_point(3)[OF G(1)])
  note E1 = ecdh_proof_ok[OF G(1) H P keys(7) this, of "rnd 0" mac USAGE_PROOF_MESSAGE_ECDH]
  have few: "length xs < 2 ^ 64" using keys(11) ms(3) by simp
  have gen: "gen_random_data C DH_KEY_SIZE (rnd 1) None = Some rbuf" using rnd(1) by (simp add: gen_random_data_def)
  note D1 = dh_proof_ok[OF G H P keys(8) Bs keys(9) few gen rnd(2), of mac USAGE_PROOF_MESSAGE_DH]
  obtain ecdh ecdh' where e: "otrng_ecdh_proof_generate C (rnd 0) (map ecdh_priv ys) (map ecdh_pub ys) mac USAGE_PROOF_MESSAGE_ECDH = Some ecdh"
    and e': "\<And>rest. otrng_ecdh_proof_deserialize C (otrng_ecdh_proof_serialize C ecdh @ rest) = Some (ecdh', length (otrng_ecdh_proof_serialize C ecdh))"
      "otrng_ecdh_proof_verify C (proofs E) ecdh' ?Ys mac USAGE_PROOF_MESSAGE_ECDH"
    using E1 by blast
  obtain dh dh' where d: "otrng_dh_proof_generate C (proofs E) (rnd 1) (map Some xs) (map Some Xs) mac USAGE_PROOF_MESSAGE_DH None = Some (Some dh)"
    "length (otrng_dh_proof_serialize C dh) \<le> PROOF_C_SIZE + DH_MPI_MAX_BYTES"
    and d': "\<And>rest. otrng_dh_proof_deserialize C None (otrng_dh_proof_serialize C dh @ rest) = Some (dh', length (otrng_dh_proof_serialize C dh))"
      "otrng_dh_proof_verify C (proofs E) dh' (map Some ?Bs) mac USAGE_PROOF_MESSAGE_DH = Some True"
    using D1 by blast
  have wires: "map (wire_point C \<circ> pm_Y) ms = ?Ys" "map (map_option (wire_mpi C) \<circ> pm_B) ms = map Some ?Bs"
    using arg_cong[OF keys(5), of "map (wire_point C)"] arg_cong[OF keys(6), of "map (map_option (wire_mpi C))"] by simp_all
  have "length ys = length ms" using arg_cong[OF keys(5), of length] by simp
  then have ne: "?Ys \<noteq> []" using ms(2) by auto
  show ?thesis
  proof (rule that[of ecdh dh])
    show "generate_proofs_for_prekey_messages E rnd pub_msg mac = Some (Some (Some (ecdh, dh)))"
      using e d(1) ms(2) by (simp add: generate_proofs_for_prekey_messages_def counted[OF pub ms(3)] keys(1-4) flip: C_def)
    show "length (otrng_ecdh_proof_serialize (ops E) ecdh) = PROOF_C_SIZE + ED448_SCALAR_BYTES"
      using ecdh_proof_size[OF e'(1)[of "[]"]] by (simp flip: C_def)
    show "length (otrng_dh_proof_serialize (ops E) dh) \<le> PROOF_C_SIZE + DH_MPI_MAX_BYTES" using d(2) by (simp flip: C_def)
    fix rest shared
    show "server_accepts_proofs (ops E) (proofs E) mac (map (wire_point (ops E) \<circ> pm_Y) ms) (map (map_option (wire_mpi (ops E)) \<circ> pm_B) ms) shared
       (otrng_ecdh_proof_serialize (ops E) ecdh @ otrng_dh_proof_serialize (ops E) dh @ rest) \<longleftrightarrow> server_accepts_proofs (ops E) (proofs E) mac [] [] shared rest"
      unfolding C_def[symmetric] wires using ne e' d' by (simp add: server_accepts_proofs_def)
  qed
qed

text \<open>What a client publishes of its own.\<close>

definition own_publication :: "('p, 's, 'm, 'h) crypto_sem \<Rightarrow> ('p, 's, 'm) otrng_prekey_publication_message_s \<Rightarrow> bool" where
  "own_publication S pub_msg \<longleftrightarrow> list_all (own_prekey_message S) (pub_prekey_messages pub_msg) \<and> length (pub_prekey_messages pub_msg) < 256 \<and>
     pub_num_prekey_messages pub_msg = of_nat (length (pub_prekey_messages pub_msg)) \<and>
     (case pub_client_profile pub_msg of None \<Rightarrow> True | Some cp \<Rightarrow> fits_profile cp) \<and>
     (case pub_prekey_profile pub_msg of None \<Rightarrow> True
      | Some pp \<Rightarrow> length (pp_signature pp) = ED448_SIGNATURE_BYTES \<and>
          (case pp_keys pp of None \<Rightarrow> False | Some kp \<Rightarrow> pp_shared_prekey pp = kp_pub kp \<and> dlog S (kp_pub kp) = sval S (kp_priv kp)))"

text \<open>The keys of a publication as the server reads them.\<close>

definition accepts_publication ::
    "('p, 's, 'm, 'h) prekey_env \<Rightarrow> bytes \<Rightarrow> ('p, 's, 'm) otrng_prekey_publication_message_s \<Rightarrow> bytes \<Rightarrow> bool" where
  "accepts_publication E mac pub_msg = server_accepts_proofs (ops E) (proofs E) mac (map (wire_point (ops E) \<circ> pm_Y) (pub_prekey_messages pub_msg))
     (map (map_option (wire_mpi (ops E)) \<circ> pm_B) (pub_prekey_messages pub_msg))
     (map_option (wire_point (ops E) \<circ> pp_shared_prekey) (pub_prekey_profile pub_msg))"

lemma profile_proof:
  assumes G: "goldilocks_ok (ops E) S" and H: "sponge_ok (ops E) S" and P: "proof_ops_ok (ops E) S (proofs E)" and own: "own_publication S pub_msg"
  obtains px where "generate_proof_for_prekey_profile E r pub_msg mac = Some (Some px)"
    "length (case px of None \<Rightarrow> [] | Some p \<Rightarrow> otrng_ecdh_proof_serialize (ops E) p) =
       (if pub_prekey_profile pub_msg = None then 0 else PROOF_C_SIZE + ED448_SCALAR_BYTES)"
    "server_accepts_proofs (ops E) (proofs E) mac [] [] (map_option (wire_point (ops E) \<circ> pp_shared_prekey) (pub_prekey_profile pub_msg))
       (case px of None \<Rightarrow> [] | Some p \<Rightarrow> otrng_ecdh_proof_serialize (ops E) p)"
proof (cases "pub_prekey_profile pub_msg")
  case None
  then show ?thesis by (intro that[of None]) (simp_all add: generate_proof_for_prekey_profile_def server_accepts_proofs_def)
next
  case (Some pp)
  with own obtain kp where kp: "pp_keys pp = Some kp" "pp_shared_prekey pp = kp_pub kp" "map (dlog S) [kp_pub kp] = map (sval S) [kp_priv kp]"
    by (auto simp: own_publication_def split: option.splits)
  have "map (dlog S) [wire_point (ops E) (kp_pub kp)] = map (dlog S) [kp_pub kp]" by (simp add: wire_point(3)[OF G])
  from ecdh_proof_ok[OF G H P kp(3) this, of r mac USAGE_PROOF_SHARED_ECDH] obtain px px' where
    px: "otrng_ecdh_proof_generate (ops E) r [kp_priv kp] [kp_pub kp] mac USAGE_PROOF_SHARED_ECDH = Some px"
    "\<And>rest. otrng_ecdh_proof_deserialize (ops E) (otrng_ecdh_proof_serialize (ops E) px @ rest) = Some (px', length (otrng_ecdh_proof_serialize (ops E) px))"
    "otrng_ecdh_proof_verify (ops E) (proofs E) px' [wire_point (ops E) (kp_pub kp)] mac USAGE_PROOF_SHARED_ECDH" by blast
  show ?thesis
  proof (rule that[of "Some px"])
    show "generate_proof_for_prekey_profile E r pub_msg mac = Some (Some (Some px))"
      using Some kp(1) px(1) by (simp add: generate_proof_for_prekey_profile_def)
  qed (use Some kp(2) px(2)[of "[]"] px(3) ecdh_proof_size[OF px(2)[of "[]"]] in \<open>simp_all add: server_accepts_proofs_def\<close>)
qed

lemma proof_data:
  assumes G: "goldilocks_ok (ops E) S" "gcrypt_ok (ops E) S" and H: "sponge_ok (ops E) S" and P: "proof_ops_ok (ops E) S (proofs E)"
    and own: "own_publication S pub_msg" and rnd: "shake_256_hash (ops E) DH_KEY_SIZE (rnd 1) = Some rbuf" "0 < be_value (take DH_KEY_SIZE rbuf)"
  obtains ser where "generate_proof_data_for_message E rnd pub_msg mac = Some (Some (ser, server_hash S USAGE_MAC_PROOFS ser))"
    "length ser \<le> calculate_proof_buf_len pub_msg" "accepts_publication E mac pub_msg ser"
proof -
  let ?ms = "pub_prekey_messages pub_msg"
  from own have ms: "list_all (own_prekey_message S) ?ms" "length ?ms < 256" "pub_num_prekey_messages pub_msg = of_nat (length ?ms)"
    by (simp_all add: own_publication_def)
  note n = counted[OF ms(3) refl ms(2)]
  obtain px where px: "generate_proof_for_prekey_profile E (rnd 2) pub_msg mac = Some (Some px)"
    "length (case px of None \<Rightarrow> [] | Some p \<Rightarrow> otrng_ecdh_proof_serialize (ops E) p) =
       (if pub_prekey_profile pub_msg = None then 0 else PROOF_C_SIZE + ED448_SCALAR_BYTES)"
    "server_accepts_proofs (ops E) (proofs E) mac [] [] (map_option (wire_point (ops E) \<circ> pp_shared_prekey) (pub_prekey_profile pub_msg))
       (case px of None \<Rightarrow> [] | Some p \<Rightarrow> otrng_ecdh_proof_serialize (ops E) p)"
    by (rule profile_proof[OF G(1) H P own])
  show ?thesis
  proof (cases "?ms = []")
    case True
    with px n show ?thesis
      by (intro that[of "case px of None \<Rightarrow> [] | Some p \<Rightarrow> otrng_ecdh_proof_serialize (ops E) p"])
         (simp_all add: generate_proof_data_for_message_def generate_proofs_for_prekey_messages_def hash_facts[OF H] calculate_proof_buf_len_def accepts_publication_def)
  next
    case False
    then have pos: "0 < length ?ms" by simp
    obtain ecdh dh where d: "generate_proofs_for_prekey_messages E rnd pub_msg mac = Some (Some (Some (ecdh, dh)))"
      "length (otrng_ecdh_proof_serialize (ops E) ecdh) = PROOF_C_SIZE + ED448_SCALAR_BYTES"
      "length (otrng_dh_proof_serialize (ops E) dh) \<le> PROOF_C_SIZE + DH_MPI_MAX_BYTES"
      "\<And>rest shared. server_accepts_proofs (ops E) (proofs E) mac (map (wire_point (ops E) \<circ> pm_Y) ?ms) (map (map_option (wire_mpi (ops E)) \<circ> pm_B) ?ms) shared
         (otrng_ecdh_proof_serialize (ops E) ecdh @ otrng_dh_proof_serialize (ops E) dh @ rest) \<longleftrightarrow> server_accepts_proofs (ops E) (proofs E) mac [] [] shared rest"
      by (rule message_proofs[where rnd = rnd, OF G H P ms(1) pos ms(2,3) refl rnd]) blast
    with px n False show ?thesis
      by (intro that[of "otrng_ecdh_proof_serialize (ops E) ecdh @ otrng_dh_proof_serialize (ops E) dh @
             (case px of None \<Rightarrow> [] | Some p \<Rightarrow> otrng_ecdh_proof_serialize (ops E) p)"])
         (simp_all add: generate_proof_data_for_message_def hash_facts[OF H] calculate_proof_buf_len_def accepts_publication_def)
  qed
qed

text \<open>The publication message: what is published, the proofs, and a MAC over the hashes of the parts.\<close>

definition publication_mac ::
    "('p, 's, 'm, 'h) crypto_ops \<Rightarrow> ('p, 's, 'm, 'h) crypto_sem \<Rightarrow> bytes \<Rightarrow> ('p, 's, 'm) otrng_prekey_publication_message_s \<Rightarrow> bytes \<Rightarrow> bytes" where
  "publication_mac C S mac_key pub_msg ser = server_hash S USAGE_PRE_MAC (mac_key @ [OTRNG_PREKEY_PUBLICATION_MSG, pub_num_prekey_messages pub_msg] @
     server_hash S USAGE_PREKEY_MESSAGE (concat (map (prekey_message_bytes C) (pub_prekey_messages pub_msg))) @
     (case pub_client_profile pub_msg of None \<Rightarrow> [0] | Some cp \<Rightarrow> 1 # server_hash S USAGE_CLIENT_PROFILE (profile_bytes C cp)) @
     (case pub_prekey_profile pub_msg of None \<Rightarrow> [0]
      | Some pp \<Rightarrow> 1 # server_hash S USAGE_PREKEY_PROFILE (prekey_profile_body C pp @ pp_signature pp)) @
     server_hash S USAGE_MAC_PROOFS ser)"

definition publication_bytes ::
    "('p, 's, 'm, 'h) crypto_ops \<Rightarrow> ('p, 's, 'm, 'h) crypto_sem \<Rightarrow> bytes \<Rightarrow> ('p, 's, 'm) otrng_prekey_publication_message_s \<Rightarrow> bytes \<Rightarrow> bytes" where
  "publication_bytes C S mac_key pub_msg ser =
     otrng_serialize_uint16 OTRNG_PROTOCOL_VERSION_4 @ [OTRNG_PREKEY_PUBLICATION_MSG, pub_num_prekey_messages pub_msg] @
     concat (map (prekey_message_bytes C) (pub_prekey_messages pub_msg)) @
     (case pub_client_profile pub_msg of None \<Rightarrow> [0] | Some cp \<Rightarrow> 1 # profile_bytes C cp) @
     (case pub_prekey_profile pub_msg of None \<Rightarrow> [0] | Some pp \<Rightarrow> 1 # prekey_profile_body C pp @ pp_signature pp) @
     ser @ publication_mac C S mac_key pub_msg ser"

lemma publication_profiles:
  assumes G: "goldilocks_ok C S" and "own_publication S pub_msg"
  shows "serialize_cp_and_pp C pub_msg = Some (map_option (profile_bytes C) (pub_client_profile pub_msg),
     map_option (\<lambda>pp. prekey_profile_body C pp @ pp_signature pp) (pub_prekey_profile pub_msg))"
  using assms(2) profile_bytes(1)[OF G] prekey_profile_roundtrip(1)[OF G]
  by (auto simp: serialize_cp_and_pp_def own_publication_def split: option.splits)

lemma publication_written:
  assumes G: "goldilocks_ok (ops E) S" "gcrypt_ok (ops E) S" and H: "sponge_ok (ops E) S" and P: "proof_ops_ok (ops E) S (proofs E)"
    and own: "own_publication S pub_msg" and rnd: "shake_256_hash (ops E) DH_KEY_SIZE (rnd 1) = Some rbuf" "0 < be_value (take DH_KEY_SIZE rbuf)"
    and mac: "length mac_key = MAC_KEY_BYTES"
  obtains ser where "dake3_message_append_prekey_publication_message E rnd pub_msg mac_key mac = Some (Some (publication_bytes (ops E) S mac_key pub_msg ser))"
    "accepts_publication E mac pub_msg ser"
proof -
  define C where "C = ops E"
  note G = G[folded C_def] and H' = H[folded C_def]
  obtain ser where ser: "generate_proof_data_for_message E rnd pub_msg mac = Some (Some (ser, server_hash S USAGE_MAC_PROOFS ser))"
    "length ser \<le> calculate_proof_buf_len pub_msg" "accepts_publication E mac pub_msg ser"
    by (rule proof_data[where rnd = rnd, OF G[unfolded C_def] H P own rnd])
  let ?ms = "pub_prekey_messages pub_msg"
  from own have ms: "list_all (own_prekey_message S) ?ms" "length ?ms < 256" "pub_num_prekey_messages pub_msg = of_nat (length ?ms)"
    by (simp_all add: own_publication_def)
  note n = counted[OF ms(3) refl ms(2)]
  have "own_prekey_message S m \<Longrightarrow> dh_ok S (pm_B m)" for m by (auto simp: own_prekey_message_def split: option.splits)
  with ms(1) have dh: "list_all (dh_ok S \<circ> pm_B) ?ms" by (simp add: list_all_iff)
  let ?cp = "map_option (profile_bytes C) (pub_client_profile pub_msg)" and ?pp = "map_option (\<lambda>pp. prekey_profile_body C pp @ pp_signature pp) (pub_prekey_profile pub_msg)"
  let ?size = "calculate_total_message_size pub_msg (field_len ?cp) (field_len ?pp)"
  have messages: "serialize_prekey_messages_into C (?size - 4) 0 ?ms = concat (map (prekey_message_bytes C) ?ms)"
    by (rule prekey_messages_serialized(1)[OF G dh]) (simp add: calculate_total_message_size_def n(2))
  have short: "length (concat (map (prekey_message_bytes C) ?ms)) \<le> length ?ms * PRE_KEY_MAX_BYTES"
    using prekey_messages_serialized(2)[OF G dh, of 0 "length ?ms * PRE_KEY_MAX_BYTES"] by simp
  have profiles: "hash_client_profile_for_publication_message C h pub_msg ?cp = Some (case pub_client_profile pub_msg of None \<Rightarrow> absorb C h [0]
        | Some cp \<Rightarrow> absorb C (absorb C h [1]) (server_hash S USAGE_CLIENT_PROFILE (profile_bytes C cp)))"
    "hash_prekey_profile_for_publication_message C h pub_msg ?pp = Some (case pub_prekey_profile pub_msg of None \<Rightarrow> absorb C h [0]
        | Some pp \<Rightarrow> absorb C (absorb C h [1]) (server_hash S USAGE_PREKEY_PROFILE (prekey_profile_body C pp @ pp_signature pp)))" for h
    by (simp_all add: hash_client_profile_for_publication_message_def hash_prekey_profile_for_publication_message_def hash_facts[OF H'] hash_pieces[OF H'] split: option.split)
  have "length (publication_bytes C S mac_key pub_msg ser) \<le> ?size"
    using short ser(2)
    by (auto simp: publication_bytes_def publication_mac_def hash_facts[OF H'] calculate_total_message_size_def field_len_def n(2) HASH_BYTES_def MAC_KEY_BYTES_def
        simp del: length_concat split: option.split)
  moreover have "dake3_message_append_prekey_publication_message E rnd pub_msg mac_key mac = map_option Some (into_buffer ?size (publication_bytes C S mac_key pub_msg ser))"
    using mac by (simp add: dake3_message_append_prekey_publication_message_def ser(1) publication_profiles[OF G(1) own] n(1) messages hash_facts[OF H'] hash_pieces[OF H']
        profiles flip: C_def)
      (simp add: publication_bytes_def publication_mac_def sponge_simps[OF H'] server_hash_def PREKEY_HASH_DOMAIN_def otrng_serialize_bytes_array_def field_len_def
        Let_def split: option.split)
  ultimately show ?thesis using ser(3) by (intro that[of ser]) (simp_all flip: C_def)
qed

definition success_bytes :: "('p, 's, 'm, 'h) crypto_sem \<Rightarrow> u32 \<Rightarrow> bytes \<Rightarrow> bytes" where
  "success_bytes S tag mac_key = otrng_serialize_uint16 OTRNG_PROTOCOL_VERSION_4 @ [OTRNG_PREKEY_SUCCESS_MSG] @ otrng_serialize_uint32 tag @
     server_hash S USAGE_SUCCESS_MAC (mac_key @ [OTRNG_PREKEY_SUCCESS_MSG] @ otrng_serialize_uint32 tag)"

lemma success_answered:
  assumes H: "sponge_ok (ops E) S" and B: "base64_ok E" and "find_server_for_identity manager (ps_identity (pr_server r)) \<noteq> None"
    and mac: "length (pr_mac_key r) = MAC_KEY_BYTES"
  shows "otrng_prekey_receive E rnd now (with_active_request client manager at r) (ps_identity (pr_server r))
      (letter E (success_bytes S (cl_instance_tag client) (pr_mac_key r))) =
    Some (True, None, client\<lparr>cl_prekey_manager := Some (manager\<lparr>mg_request_for_account_at := 0, mg_request_for_account := None\<rparr>),
      cl_prekey_events := cl_prekey_events client @ [Success_received (pr_ctx r)]\<rparr>)"
proof -
  let ?tag = "cl_instance_tag client"
  have bs: "length (success_bytes S ?tag (pr_mac_key r)) = OTRNG_PREKEY_SUCCESS_MSG_LEN"
    "otrng_deserialize_uint32 (drop 3 (success_bytes S ?tag (pr_mac_key r))) = Some (?tag, 4)"
    "take 5 (drop 2 (success_bytes S ?tag (pr_mac_key r))) = [OTRNG_PREKEY_SUCCESS_MSG] @ otrng_serialize_uint32 ?tag"
    "drop 7 (success_bytes S ?tag (pr_mac_key r)) = server_hash S USAGE_SUCCESS_MAC (pr_mac_key r @ [OTRNG_PREKEY_SUCCESS_MSG] @ otrng_serialize_uint32 ?tag)"
    by (simp_all add: success_bytes_def u32.dec_enc hash_facts[OF H] HASH_BYTES_def OTRNG_PREKEY_SUCCESS_MSG_LEN_def)
  have "otrng_prekey_parse_header (success_bytes S ?tag (pr_mac_key r)) = Some (OTRNG_PREKEY_SUCCESS_MSG, 3)" by (simp add: success_bytes_def)
  then show ?thesis
    using assms(3) mac
    by (subst receive_answer(2)[OF B active_request(1)])
       (simp_all add: receive_success_def receive_success_or_failure_def bs hash_pieces[OF H] hash_of_pieces[OF H] hash_facts[OF H] tell_def
         with_active_request_def clean_request_for_account_def set_manager_def)
qed

text \<open>C21: publishing works from end to end: after the key exchange the client writes what its application wants to
  publish into a message that fits the buffer allocated for it; the proofs in it are accepted by a server that has the
  public keys from the same message, the MAC is under the key both sides derive, and when the server reports
  success under that key the application is told.\<close>

theorem publish_dialogue:
  assumes G: "goldilocks_ok (ops E) S" "gcrypt_ok (ops E) S" and H: "sponge_ok (ops E) S" and P: "proof_ops_ok (ops E) S (proofs E)"
    and B: "base64_ok E" and c: "prekey_client_ok S client manager p"
    and server: "get_prekey_server_for manager (domain_for_account E client ctx) = Some server"
    and e: "otrng_ecdh_keypair_generate (ops E) seed = Some e"
    and ident: "length ident < 2 ^ 32" and keys: "dlog S spk = sval S sk" "dlog S tp = sval S ts"
    and K: "otrng_ecdh_shared_secret (ops E) ED448_POINT_BYTES ts (ecdh_pub e) = Some K"
    and rings: "ring_matches (ops E) spk [kp_pub (cl_keypair client), spk, ecdh_pub e] = 1"
      "ring_matches (ops E) (kp_pub (cl_keypair client)) [kp_pub (cl_keypair client), spk, tp] = 1"
    and build: "\<And>c. build_prekey_publication_message E c ctx = (True, pub_msg, c\<lparr>cl_our_prekeys := ks\<rparr>)" and own: "own_publication S pub_msg"
    and rd: "shake_256_hash (ops E) DH_KEY_SIZE (rnd 10) = Some rbuf" "0 < be_value (take DH_KEY_SIZE rbuf)"
  shows "\<exists>client1 sigma client2 g ser.
     otrng_prekey_publish E seed now client ctx =
       Some (True, Owned (letter E (dake1_bytes (ops E) (cl_instance_tag client) p (ecdh_pub e))), client1) \<and>
     otrng_rsig_authenticate_with_usage_and_domain (ops E) USAGE_AUTH PREKEY_HASH_DOMAIN rnds sk spk (kp_pub (cl_keypair client)) spk (ecdh_pub e)
       (dake_text (ops E) S 0 initiator_usages (profile_bytes (ops E) p) (composite_identity (ops E) ident spk) (ecdh_pub e) tp
         (composite_phi (mg_our_identity manager) (ps_identity server))) = Some sigma \<and>
     otrng_prekey_receive E rnd now1 client1 (ps_identity server) (letter E (dake2_bytes (ops E) (cl_instance_tag client) ident spk tp sigma)) =
       Some (True, Some (letter E (dake3_bytes (ops E) (cl_instance_tag client) g (publication_bytes (ops E) S (prekey_mac_key S K) pub_msg ser))), client2) \<and>
     accepts_publication E (prekey_proof_key S K) pub_msg ser \<and>
     otrng_prekey_receive E rnd2 now2 client2 (ps_identity server) (letter E (success_bytes S (cl_instance_tag client) (prekey_mac_key S K))) =
       Some (True, None, client\<lparr>cl_our_prekeys := ks, cl_prekey_manager := Some (manager\<lparr>mg_request_for_account_at := 0, mg_request_for_account := None\<rparr>),
         cl_prekey_events := cl_prekey_events client @ [Success_received ctx]\<rparr>)"
proof -
  let ?k = Publication_after_dake
  let ?r0 = "fresh_request server ctx e Publication_after_dake"
  let ?pub = "kp_pub (cl_keypair client)"
  let ?t = "\<lambda>b us. dake_text (ops E) S b us (profile_bytes (ops E) p) (composite_identity (ops E) ident spk) (ecdh_pub e) tp
     (composite_phi (mg_our_identity manager) (ps_identity server))"
  have known: "find_server_for_identity manager (ps_identity server) \<noteq> None" by (rule server_known[OF server])
  obtain sigma where sigma:
    "otrng_rsig_authenticate_with_usage_and_domain (ops E) USAGE_AUTH PREKEY_HASH_DOMAIN rnds sk spk ?pub spk (ecdh_pub e) (?t 0 initiator_usages) = Some sigma"
    "otrng_rsig_verify_with_usage_and_domain (ops E) USAGE_AUTH PREKEY_HASH_DOMAIN sigma ?pub spk (ecdh_pub e) (?t 0 initiator_usages)"
    using rsig_authenticate_verify_aux[OF G(1) H keys(1) rings(1)] by blast
  obtain g r client2 where r: "r = ?r0\<lparr>pr_ephemeral_ecdh := None, pr_mac_key := prekey_mac_key S K, pr_mac_proof_key := prekey_proof_key S K\<rparr>"
    and client2: "client2 = with_active_request client manager now r"
    and dake3: "receive_dake2 E rnd (with_active_request client manager now ?r0) ?r0 (dake2_bytes (ops E) (cl_instance_tag client) ident spk tp sigma) = do {
         (res, client'') \<leftarrow> after_dake E (\<lambda>i. rnd (9 + i)) client2 r;
         (case res of None \<Rightarrow> Some (None, client'')
          | Some bs \<Rightarrow> do {
              ser \<leftarrow> otrng_prekey_dake3_message_serialize (ops E) \<lparr>d3_client_instance_tag = cl_instance_tag client, d3_sigma = g, d3_msg = bs\<rparr>;
              Some (Some (letter E ser), client'') }) }"
    by (rule dake2_answered[OF G(1) H B c ident keys(2) ecdh_keypair_generate_pub[OF G(1) e] K sigma(2) rings(2), where now = now and rnd = rnd and ctx = ctx
          and k = ?k])
  have mac: "length (pr_mac_key r) = MAC_KEY_BYTES" "pr_after_dake r = Some ?k" "pr_server r = server" "pr_ctx r = ctx" "pr_mac_key r = prekey_mac_key S K"
    "pr_mac_proof_key r = prekey_proof_key S K" "pr_server ?r0 = server"
    by (simp_all add: r prekey_mac_key_def hash_facts[OF H] fresh_request_def HASH_BYTES_def MAC_KEY_BYTES_def)
  obtain ser where ser: "dake3_message_append_prekey_publication_message E (\<lambda>i. rnd (9 + i)) pub_msg (prekey_mac_key S K) (prekey_proof_key S K) =
      Some (Some (publication_bytes (ops E) S (prekey_mac_key S K) pub_msg ser))" "accepts_publication E (prekey_proof_key S K) pub_msg ser"
    by (rule publication_written[where rnd = "\<lambda>i. rnd (9 + i)", OF G H P own]) (use rd mac(1,5) in simp_all)
  have client2': "client2\<lparr>cl_our_prekeys := ks\<rparr> = with_active_request (client\<lparr>cl_our_prekeys := ks\<rparr>) manager now r"
    by (simp add: client2 with_active_request_def)
  have after: "after_dake E (\<lambda>i. rnd (9 + i)) client2 r = Some (Some (publication_bytes (ops E) S (prekey_mac_key S K) pub_msg ser), client2\<lparr>cl_our_prekeys := ks\<rparr>)"
    using ser(1) by (simp add: after_dake_def publication_after_dake_def mac build client2)
  have "otrng_prekey_receive E rnd now1 (with_active_request client manager now ?r0) (ps_identity (pr_server ?r0))
      (letter E (dake2_bytes (ops E) (cl_instance_tag client) ident spk tp sigma)) =
    Some (True, Some (letter E (dake3_bytes (ops E) (cl_instance_tag client) g (publication_bytes (ops E) S (prekey_mac_key S K) pub_msg ser))),
      client2\<lparr>cl_our_prekeys := ks\<rparr>)"
    using known by (subst receive_answer(1)[OF B active_request(1)]) (simp_all add: mac dake3 dake3_serialized[OF G(1)] after)
  note this[unfolded mac(7)]
  moreover have "otrng_prekey_publish E seed now client ctx =
      Some (True, Owned (letter E (dake1_bytes (ops E) (cl_instance_tag client) p (ecdh_pub e))), with_active_request client manager now ?r0)"
    by (simp add: otrng_prekey_publish_def start_dake1_ok[OF G(1) B c server e])
  ultimately show ?thesis
    using sigma(1) ser(2) success_answered[OF H B, of manager r rnd2 now2 "client\<lparr>cl_our_prekeys := ks\<rparr>" now] known mac unfolding client2' by simp blast
qed


subsection \<open>A concrete server\<close>

definition ex_server :: otrng_prekey_server_s where
  "ex_server = \<lparr>ps_domain = ''example.org'', ps_identity = ''prekey@example.org'', ps_fpr = replicate 56 7\<rparr>"

definition ex_manager :: "(int, int) otrng_prekey_manager_s" where
  "ex_manager = \<lparr>mg_our_identity = ''alice@example.org'', mg_server_identities = [ex_server], mg_request_for_account = None,
     mg_request_for_account_at = 0, mg_pending_fragments = [],
     mg_publication_policy = \<lparr>max_published_prekey_message = 10, minimum_stored_prekey_message = 3,
       publish_client_profile = True, publish_prekey_profile = False\<rparr>\<rparr>"

definition ex_prekey_client :: "(int, int, nat) prekey_client_s" where
  "ex_prekey_client = otrng_client_s.extend (ex_client 3 5 0x100) (prekey_client_s.fields (Some ex_manager) 10 3 True 0 [])"

definition ex_prekey_message :: "(int, int, nat) prekey_message_s" where
  "ex_prekey_message = \<lparr>pm_id = 1, pm_sender_instance_tag = 0x100, pm_Y = 2, pm_B = Some 8,
     pm_y = Some \<lparr>ecdh_priv = 2, ecdh_pub = 2\<rparr>, pm_b = Some \<lparr>dh_pub = Some 8, dh_priv = Some 3\<rparr>, pm_should_publish = 1, pm_is_publishing = True\<rparr>"

definition ex_publication :: "(int, int, nat) otrng_prekey_publication_message_s" where
  "ex_publication = \<lparr>pub_num_prekey_messages = 1, pub_prekey_messages = [ex_prekey_message],
     pub_client_profile = cl_client_profile (ex_client 3 5 0x100), pub_prekey_profile = None\<rparr>"

definition ex_prekey_env :: "(int, int, nat, bytes) prekey_env" where
  "ex_prekey_env = \<lparr>ops = ex_crypto, proofs = ex_proof_ops, zero = ex_zero, base64_encode = b64_encode, base64_decode = b64_decode,
     domain_for_account = (\<lambda>client ctx. ''example.org''),
     build_prekey_publication_message = (\<lambda>client ctx. (True, ex_publication, client\<lparr>cl_our_prekeys := [ex_prekey_message]\<rparr>))\<rparr>"

lemma ex_prekey_env_simps [simp]:
  "ops ex_prekey_env = ex_crypto" "proofs ex_prekey_env = ex_proof_ops" "domain_for_account ex_prekey_env client ctx = ''example.org''"
  "build_prekey_publication_message ex_prekey_env client ctx = (True, ex_publication, client\<lparr>cl_our_prekeys := [ex_prekey_message]\<rparr>)"
  by (simp_all add: ex_prekey_env_def)

lemma ex_prekey_client_simps:
  "cl_keypair ex_prekey_client = ex_keypair 3" "cl_client_profile ex_prekey_client = cl_client_profile (ex_client 3 5 0x100)"
  "cl_prekey_manager ex_prekey_client = Some ex_manager" "cl_prekey_events ex_prekey_client = []" "cl_instance_tag ex_prekey_client = 0x100"
  by (simp_all add: ex_prekey_client_def ex_client_def otrng_client_s.defs prekey_client_s.defs)

lemma ex_base64_ok: "base64_ok ex_prekey_env"
  by (simp add: base64_ok_def ex_prekey_env_def b64_length b64_chars b64_inverse)

lemma ex_prekey_client_ok:
  obtains p where "prekey_client_ok ex_sem ex_prekey_client ex_manager p" "own_publication ex_sem ex_publication"
proof -
  obtain p where p: "client_ok ex_crypto ex_sem 0 (ex_client 3 5 0x100) p" by (rule ex_client_ok[of "0x100"]) simp_all
  have "prekey_client_ok ex_sem ex_prekey_client ex_manager p"
    using p by (simp add: prekey_client_ok_def ex_prekey_client_simps client_ok_def ex_manager_def ex_keypair_values ex_sem_def)
  moreover have "own_prekey_message ex_sem ex_prekey_message"
    by (simp add: own_prekey_message_def ex_prekey_message_def ex_sem_def dh_ok_def in_dh_range_def DH3072_MODULUS_def DH3072_MODULUS_MINUS_2_def const_defs)
  then have "own_publication ex_sem ex_publication"
    using p by (simp add: own_publication_def ex_publication_def client_ok_def)
  ultimately show ?thesis by (rule that)
qed

text \<open>The keys of the dialogue: three for the client, two for its ephemeral key, four and five for the server.\<close>

lemma ex_dialogue_keys:
  shows "otrng_ecdh_keypair_generate ex_crypto [2] = Some (ecdh_of ex_crypto [2])"
    "ring_matches ex_crypto 4 [kp_pub (cl_keypair ex_prekey_client), 4, ecdh_pub (ecdh_of ex_crypto [2])] = 1"
    "ring_matches ex_crypto (kp_pub (cl_keypair ex_prekey_client)) [kp_pub (cl_keypair ex_prekey_client), 4, 5] = 1"
    "get_prekey_server_for ex_manager ''example.org'' = Some ex_server"
    "\<exists>K. otrng_ecdh_shared_secret ex_crypto ED448_POINT_BYTES 5 (ecdh_pub (ecdh_of ex_crypto [2])) = Some K"
proof -
  have eq: "point_eq ex_crypto p q = (p mod 7 = q mod 7)" for p q by (simp add: ex_crypto_def)
  have r: "sum_bytes [2] = 2" by (simp add: sum_bytes_def)
  show "ring_matches ex_crypto 4 [kp_pub (cl_keypair ex_prekey_client), 4, ecdh_pub (ecdh_of ex_crypto [2])] = 1"
    "ring_matches ex_crypto (kp_pub (cl_keypair ex_prekey_client)) [kp_pub (cl_keypair ex_prekey_client), 4, 5] = 1"
    by (simp_all add: ring_matches_def eq ex_prekey_client_simps ex_keypair_values ex_ecdh_of r)
  have "otrng_ecdh_shared_secret ex_crypto ED448_POINT_BYTES 5 (ecdh_pub (ecdh_of ex_crypto [2])) \<noteq> None"
    by (rule ex_ecdh_secret) (simp add: ex_ecdh_of r)
  then show "\<exists>K. otrng_ecdh_shared_secret ex_crypto ED448_POINT_BYTES 5 (ecdh_pub (ecdh_of ex_crypto [2])) = Some K" by blast
qed (simp_all add: generated_pairs(1)[OF ex_goldilocks_ok ex_gcrypt_ok ex_sponge_ok] get_prekey_server_for_def ex_manager_def ex_server_def)

theorem storage_status_dialogue_witness:
  "\<exists>p K client1 sigma client2 g status client3.
     otrng_prekey_request_storage_information ex_prekey_env [2] 0 ex_prekey_client None =
       Some (True, Owned (letter ex_prekey_env (dake1_bytes ex_crypto 0x100 p (ecdh_pub (ecdh_of ex_crypto [2])))), client1) \<and>
     otrng_prekey_receive ex_prekey_env (\<lambda>i. []) 1 client1 (ps_identity ex_server) (letter ex_prekey_env (dake2_bytes ex_crypto 0x100 (ascii ''mallory'') 4 5 sigma)) =
       Some (True, Some (letter ex_prekey_env (dake3_bytes ex_crypto 0x100 g (storage_request_bytes ex_sem (prekey_mac_key ex_sem K)))), client2) \<and>
     status = storage_status ex_sem 0x100 2 (prekey_mac_key ex_sem K) \<and>
     otrng_prekey_receive ex_prekey_env (\<lambda>i. []) 2 client2 (ps_identity ex_server) (letter ex_prekey_env (storage_status_bytes status)) = Some (True, None, client3)"
proof -
  obtain p where p: "prekey_client_ok ex_sem ex_prekey_client ex_manager p" by (rule ex_prekey_client_ok)
  obtain K where K: "otrng_ecdh_shared_secret ex_crypto ED448_POINT_BYTES 5 (ecdh_pub (ecdh_of ex_crypto [2])) = Some K" using ex_dialogue_keys(5) by blast
  have ident: "length (ascii ''mallory'') < 2 ^ 32" by (simp add: ascii_def)
  have keys: "dlog ex_sem 4 = sval ex_sem 4" "dlog ex_sem 5 = sval ex_sem 5" by (simp_all add: ex_sem_def)
  show ?thesis
    using storage_status_dialogue[where E = ex_prekey_env and rnd = "\<lambda>i. []" and ?rnd2.0 = "\<lambda>i. []" and now = 0 and ?now1.0 = 1 and ?now2.0 = 2 and n = 2,
      unfolded ex_prekey_env_simps, OF ex_goldilocks_ok ex_sponge_ok ex_base64_ok p ex_dialogue_keys(4,1) ident keys K ex_dialogue_keys(2,3)]
    unfolding ex_prekey_client_simps(5) by blast
qed

theorem publish_dialogue_witness:
  "\<exists>p K client1 sigma client2 g ser client3.
     otrng_prekey_publish ex_prekey_env [2] 0 ex_prekey_client None =
       Some (True, Owned (letter ex_prekey_env (dake1_bytes ex_crypto 0x100 p (ecdh_pub (ecdh_of ex_crypto [2])))), client1) \<and>
     otrng_prekey_receive ex_prekey_env (\<lambda>i. []) 1 client1 (ps_identity ex_server) (letter ex_prekey_env (dake2_bytes ex_crypto 0x100 [] 4 5 sigma)) =
       Some (True, Some (letter ex_prekey_env (dake3_bytes ex_crypto 0x100 g (publication_bytes ex_crypto ex_sem (prekey_mac_key ex_sem K) ex_publication ser))),
         client2) \<and>
     accepts_publication ex_prekey_env (prekey_proof_key ex_sem K) ex_publication ser \<and>
     otrng_prekey_receive ex_prekey_env (\<lambda>i. []) 2 client2 (ps_identity ex_server) (letter ex_prekey_env (success_bytes ex_sem 0x100 (prekey_mac_key ex_sem K))) =
       Some (True, None, client3) \<and> cl_prekey_events client3 = [Success_received None]"
proof -
  obtain p where p: "prekey_client_ok ex_sem ex_prekey_client ex_manager p" "own_publication ex_sem ex_publication" by (rule ex_prekey_client_ok)
  obtain K where K: "otrng_ecdh_shared_secret ex_crypto ED448_POINT_BYTES 5 (ecdh_pub (ecdh_of ex_crypto [2])) = Some K" using ex_dialogue_keys(5) by blast
  have keys: "dlog ex_sem 4 = sval ex_sem 4" "dlog ex_sem 5 = sval ex_sem 5" by (simp_all add: ex_sem_def)
  obtain x where x: "shake_256_hash ex_crypto DH_KEY_SIZE [] = Some (sum_xof x DH_KEY_SIZE)"
    by (simp add: shake_256_hash_def hash_init_with_dom_def ex_crypto_def)
  have n: "0 < DH_KEY_SIZE" by (simp add: const_defs)
  have "length (sum_xof x DH_KEY_SIZE) = DH_KEY_SIZE" by (simp add: sum_xof_def)
  then have pos: "0 < be_value (take DH_KEY_SIZE (sum_xof x DH_KEY_SIZE))" using ex_xof_values(2)[OF n, of x] by simp
  show ?thesis
    using publish_dialogue[where E = ex_prekey_env and rnd = "\<lambda>i. []" and ?rnd2.0 = "\<lambda>i. []" and now = 0 and ?now1.0 = 1 and ?now2.0 = 2 and ident = "[]"
        and client = ex_prekey_client, unfolded ex_prekey_env_simps ex_prekey_client_simps(4),
      OF ex_goldilocks_ok ex_gcrypt_ok ex_sponge_ok ex_proof_ops_ok ex_base64_ok p(1) ex_dialogue_keys(4,1) _ keys K ex_dialogue_keys(2,3) refl p(2) x pos]
    unfolding ex_prekey_client_simps(5) by fastforce
qed

subsection \<open>What a server can do to a client\<close>

text \<open>C35: the MAC key of a request is all zeros until the second message of the key exchange arrives, and the
  client does not ask whether it has arrived: right after the application has asked to publish, a message anyone can
  write in the name of the server ends the request and tells the application that it succeeded.\<close>

theorem forged_success_accepted:
  assumes "goldilocks_ok (ops E) S" and H: "sponge_ok (ops E) S" and B: "base64_ok E" and c: "prekey_client_ok S client manager p"
    and server: "get_prekey_server_for manager (domain_for_account E client ctx) = Some server"
    and e: "otrng_ecdh_keypair_generate (ops E) seed = Some e"
  shows "\<exists>dake1 client1. otrng_prekey_publish E seed now client ctx = Some (True, Owned dake1, client1) \<and>
     otrng_prekey_receive E rnd now1 client1 (ps_identity server) (letter E (success_bytes S (cl_instance_tag client) (zeros MAC_KEY_BYTES))) =
       Some (True, None, client\<lparr>cl_prekey_manager := Some (manager\<lparr>mg_request_for_account_at := 0, mg_request_for_account := None\<rparr>),
         cl_prekey_events := cl_prekey_events client @ [Success_received ctx]\<rparr>)"
  using start_dake1_ok[OF assms(1) B c server e, of now Publication_after_dake]
    success_answered[OF H B, of manager "fresh_request server ctx e Publication_after_dake" rnd now1 client now] server_known[OF server]
  by (simp add: otrng_prekey_publish_def fresh_request_def zeros_def)

theorem forged_success_accepted_witness:
  "\<exists>dake1 client1 client2. otrng_prekey_publish ex_prekey_env [2] 0 ex_prekey_client None = Some (True, Owned dake1, client1) \<and>
     otrng_prekey_receive ex_prekey_env (\<lambda>i. []) 1 client1 (ps_identity ex_server) (letter ex_prekey_env (success_bytes ex_sem 0x100 (zeros MAC_KEY_BYTES))) =
       Some (True, None, client2) \<and> cl_prekey_events client2 = [Success_received None]"
proof -
  obtain p where p: "prekey_client_ok ex_sem ex_prekey_client ex_manager p" by (rule ex_prekey_client_ok)
  show ?thesis
    using forged_success_accepted[where E = ex_prekey_env and client = ex_prekey_client and now = 0 and ?now1.0 = 1 and rnd = "\<lambda>i. []",
      unfolded ex_prekey_env_simps ex_prekey_client_simps(4,5), OF ex_goldilocks_ok ex_sponge_ok ex_base64_ok p ex_dialogue_keys(4,1)]
    by fastforce
qed

text \<open>A piece as a server sends it.\<close>

definition prekey_fragment_text :: "u32 \<Rightarrow> u32 \<Rightarrow> u32 \<Rightarrow> u16 \<Rightarrow> u16 \<Rightarrow> string \<Rightarrow> string" where
  "prekey_fragment_text ident our their i t piece = ''?OTRP|'' @ print_08x ident @ ''|'' @ print_08x our @ ''|'' @ print_08x their @ '',''
         @ print_05hu i @ '','' @ print_05hu t @ '','' @ piece @ '',''"

lemma sscanf_prekey_fragment_text:
  assumes "piece \<noteq> []" "CHR '','' \<notin> set piece"
  shows "sscanf PREKEY_UNFRAGMENT_FORMAT 0 False (prekey_fragment_text ident our their i t piece) =
     Some [uint ident, uint our, uint their, uint i, uint t, 45, 46 + int (length piece)]"
proof -
  have "takeWhile (\<lambda>x. x \<noteq> CHR '','') (piece @ '','') = piece" using assms(2) by (induction piece) auto
  then show ?thesis
    using assms(1) by (simp add: PREKEY_UNFRAGMENT_FORMAT_def UNFRAGMENT_FORMAT_TAIL_def prekey_fragment_text_def
        sscanf_print_08x sscanf_print_05hu del: sscanf.simps(3,4))
qed

lemma prekey_piece:
  assumes piece: "piece \<noteq> []" "CHR '','' \<notin> set piece" and t: "j < t" "t \<le> 65535" "1 < t" and free: "find_context ident cs = None"
  shows "\<exists>cs'. otrng_fragment_message_receive cs (prekey_fragment_text ident our their (of_nat (Suc j)) (of_nat t) piece) tag now = Some (True, None, cs')"
proof -
  let ?m = "prekey_fragment_text ident our their (of_nat (Suc j)) (of_nat t) piece"
  let ?c = "otrng_fragment_context_new\<lparr>ctx_identifier := ident\<rparr>"
  have u: "unat (of_nat (Suc j) :: u16) = Suc j" "unat (of_nat t :: u16) = t"
    using t by (simp_all add: unsigned_of_nat take_bit_nat_eq_self del: of_nat_Suc of_nat_add)
  have d: "drop 45 ?m = piece @ '',''" by (simp add: prekey_fragment_text_def)
  have "is_fragment_generic ?m ''?OTRP|''" by (simp add: is_fragment_generic_def is_prefix_def prekey_fragment_text_def)
  moreover have "{j} \<noteq> {0..<t}" 
    by (rule notI, drule arg_cong[of _ _ card]) (use t(3) in simp)
  with receive_piece_partial[of j t "{}" "\<lambda>j. piece" "piece @ '',''" ?c ident 0 cs now] t(1)
  have "receive_piece (cs @ [?c]) (length cs) (Suc j) t (piece @ '','') (length piece) now =
      Some (True, None, cs @ [partial_context ident t (\<lambda>j. piece) {j} now])" by simp
  ultimately show ?thesis
    using free
    by (simp add: otrng_fragment_message_receive_def otrng_unfragment_message_generic_def sscanf_prekey_fragment_text[OF piece] scanned_def u d Let_def
        del: of_nat_Suc of_nat_add)
qed

lemma prekey_piece_faults:
  assumes "cl_prekey_manager client = Some manager" "find_server_for_identity manager from \<noteq> None"
    and "piece \<noteq> []" "CHR '','' \<notin> set piece" "j < t" "t \<le> 65535" "1 < t" "find_context ident (mg_pending_fragments manager) = None"
  shows "otrng_prekey_receive E rnd now client from (prekey_fragment_text ident our their (of_nat (Suc j)) (of_nat t) piece) = None"
  using assms(1,2) prekey_piece[OF assms(3-8), of our their "cl_instance_tag client" now]
  by (auto simp: otrng_prekey_receive_def prekey_message_decode_def Let_def)

lemma short_retrieval_faults:
  assumes "base64_ok E" "cl_prekey_manager client = Some manager" "find_server_for_identity manager from \<noteq> None" "length junk < 4"
  shows "otrng_prekey_receive E rnd now client from
     (letter E (otrng_serialize_uint16 OTRNG_PROTOCOL_VERSION_4 @ [OTRNG_PREKEY_ENSEMBLE_RETRIEVAL_MSG] @ junk)) = None"
proof -
  let ?bs = "otrng_serialize_uint16 OTRNG_PROTOCOL_VERSION_4 @ OTRNG_PREKEY_ENSEMBLE_RETRIEVAL_MSG # junk"
  have "otrng_deserialize_uint32 junk = None" using assms(4) by (auto simp: otrng_deserialize_uint32_def)
  then have "receive_prekey_ensemble_retrieval E now client ?bs = None"
    by (simp add: receive_prekey_ensemble_retrieval_def otrng_prekey_ensemble_retrieval_message_deserialize_def retrieval_message_uninitialised_def
        otrng_prekey_ensemble_retrieval_message_destroy_def)
  then show ?thesis
    using assms(2) by (simp add: receive_letter[OF assms(1-3)] prekey_receive_decoded_message_def check_current_dake_request_def
        OTRNG_PREKEY_DAKE2_MSG_def OTRNG_PREKEY_SUCCESS_MSG_def OTRNG_PREKEY_FAILURE_MSG_def OTRNG_PREKEY_STORAGE_STATUS_MSG_def
        OTRNG_PREKEY_NO_PREKEY_IN_STORAGE_MSG_def OTRNG_PREKEY_ENSEMBLE_RETRIEVAL_MSG_def)
qed

lemma second_dake2_faults:
  assumes B: "base64_ok E" and "cl_prekey_manager client = Some manager" "find_server_for_identity manager (ps_identity (pr_server r)) \<noteq> None"
    and "mg_request_for_account manager = Some r" "pr_ephemeral_ecdh r = None" and G: "goldilocks_ok (ops E) S" and sid: "length sid < 2 ^ 32"
  shows "otrng_prekey_receive E rnd now client (ps_identity (pr_server r)) (letter E (dake2_bytes (ops E) (cl_instance_tag client) sid spk tp sigma)) = None"
  using assms(5)
  by (subst receive_answer(1)[OF B assms(2-4) answer_header(1)])
     (simp_all add: receive_dake2_def process_received_dake2_def dake2_read[OF G sid] validate_dake2_def dake_tag_def bind_eq_None_conv)

text \<open>C36: whoever can send messages in the name of a prekey server the client knows can make it fault: with the first
  piece of any message in pieces, with an answer to a retrieval that ends after its header, and with a second second
  message of the key exchange.\<close>

theorem prekey_receive_faults:
  assumes B: "base64_ok E" and m: "cl_prekey_manager client = Some manager" and known: "find_server_for_identity manager from \<noteq> None"
  shows "(piece \<noteq> [] \<and> CHR '','' \<notin> set piece \<and> j < t \<and> t \<le> 65535 \<and> 1 < t \<and> find_context ident (mg_pending_fragments manager) = None \<longrightarrow>
      otrng_prekey_receive E rnd now client from (prekey_fragment_text ident our their (of_nat (Suc j)) (of_nat t) piece) = None) \<and>
    (length junk < 4 \<longrightarrow>
      otrng_prekey_receive E rnd now client from
        (letter E (otrng_serialize_uint16 OTRNG_PROTOCOL_VERSION_4 @ [OTRNG_PREKEY_ENSEMBLE_RETRIEVAL_MSG] @ junk)) = None) \<and>
    (mg_request_for_account manager = Some r \<and> ps_identity (pr_server r) = from \<and> pr_ephemeral_ecdh r = None \<and> goldilocks_ok (ops E) S \<and> length sid < 2 ^ 32 \<longrightarrow>
      otrng_prekey_receive E rnd now client from (letter E (dake2_bytes (ops E) (cl_instance_tag client) sid spk tp sigma)) = None)"
proof (intro conjI impI; (elim conjE)?)
  assume "mg_request_for_account manager = Some r" "ps_identity (pr_server r) = from" "pr_ephemeral_ecdh r = None" "goldilocks_ok (ops E) S" "length sid < 2 ^ 32"
  with second_dake2_faults[OF B m, of r S sid] known
  show "otrng_prekey_receive E rnd now client from (letter E (dake2_bytes (ops E) (cl_instance_tag client) sid spk tp sigma)) = None" by metis
qed (blast intro: prekey_piece_faults[OF m known] short_retrieval_faults[OF B m known])+

theorem prekey_receive_faults_witness:
  "let r = \<lparr>pr_ctx = None, pr_server = ex_server, pr_ephemeral_ecdh = None, pr_mac_key = [], pr_mac_proof_key = [], pr_after_dake = None\<rparr>;
       client = ex_prekey_client\<lparr>cl_prekey_manager := Some (ex_manager\<lparr>mg_request_for_account := Some r\<rparr>)\<rparr>;
       receive = otrng_prekey_receive ex_prekey_env (\<lambda>i. []) 0 client (ps_identity ex_server) in
     receive (prekey_fragment_text 7 0 0 (of_nat 1) (of_nat 2) ''AAQ'') = None \<and>
     receive (letter ex_prekey_env (otrng_serialize_uint16 OTRNG_PROTOCOL_VERSION_4 @ [OTRNG_PREKEY_ENSEMBLE_RETRIEVAL_MSG])) = None \<and>
     receive (letter ex_prekey_env (dake2_bytes ex_crypto (cl_instance_tag client) [1, 2] 4 5 \<lparr>sig_c1 = 1, sig_r1 = 2, sig_c2 = 3, sig_r2 = 4, sig_c3 = 5, sig_r3 = 6\<rparr>)) = None"
proof -
  let ?r = "\<lparr>pr_ctx = None, pr_server = ex_server, pr_ephemeral_ecdh = None, pr_mac_key = [], pr_mac_proof_key = [], pr_after_dake = None\<rparr>
    :: (int, int) otrng_prekey_request_s"
  let ?m = "ex_manager\<lparr>mg_request_for_account := Some ?r\<rparr>"
  let ?client = "ex_prekey_client\<lparr>cl_prekey_manager := Some ?m\<rparr>"
  have "find_server_for_identity ?m (ps_identity ex_server) \<noteq> None" "mg_pending_fragments ?m = []"
    by (simp_all add: find_server_for_identity_def ex_manager_def)
  then show ?thesis
    using prekey_receive_faults[OF ex_base64_ok, of ?client ?m "ps_identity ex_server" "''AAQ''" 0 2 7 "\<lambda>i. []" 0 0 0 "[]" ?r ex_sem "[1, 2]"] ex_goldilocks_ok
    unfolding Let_def by simp
qed

text \<open>Of the ensembles a server returns, the one that is not valid is replaced by \<open>NULL\<close>, but the loop then stops
  one ensemble early: when one of the last two is wrong, the application is told of one ensemble less than came, finds
  \<open>NULL\<close> among those it is told of, and the last ensemble has not been validated.\<close>

theorem invalid_ensemble_received:
  assumes "cl_prekey_manager client \<noteq> None" "rt_instance_tag msg = cl_instance_tag client" "rt_identity msg = Some ident"
    and msg: "rt_ensembles msg = Some (map Some (xs @ [e, y]))" "rt_num_ensembles msg = of_nat (length xs + 2)" "length xs + 2 < 256"
    and valid: "list_all (\<lambda>x. otrng_prekey_ensemble_validate (ops E) now x = Some True) xs" and e: "otrng_prekey_ensemble_validate (ops E) now e = Some False"
  shows "process_received_prekey_ensemble_retrieval E now client msg =
     Some (True, tell (Prekey_ensembles_received (map Some xs @ [None, Some y]) (of_nat (length xs + 1)) ident) client)"
proof -
  have step: "validate_ensembles E now (map Some (xs @ [e, y])) (length xs + 2) i = Some (map Some xs @ [None, Some y], length xs + 1)" if "i \<le> length xs" for i
    using that
  proof (induction "length xs - i" arbitrary: i)
    case 0
    then have "i = length xs" by simp
    then show ?case using e by (subst validate_ensembles.simps) (simp add: nth_append validate_ensembles.simps[of E now _ "Suc (length xs)"] list_update_append)
  next
    case (Suc k)
    then have i: "i < length xs" by simp
    then have "otrng_prekey_ensemble_validate (ops E) now (xs ! i) = Some True" using valid by (simp add: list_all_length)
    with i Suc show ?case by (subst validate_ensembles.simps) (simp add: nth_append)
  qed
  have "unat (rt_num_ensembles msg) = length xs + 2" 
    unfolding msg(2) by (subst unsigned_of_nat) (use msg(3) in \<open>simp add: take_bit_nat_eq_self\<close>)
  with step[of 0] assms(1-4) show ?thesis by (simp add: process_received_prekey_ensemble_retrieval_def)
qed

definition ex_wrong_ensemble :: "(int, int, nat) prekey_ensemble_s" where
  "ex_wrong_ensemble = \<lparr>pe_client_profile = ex_profile None, pe_prekey_profile = prekey_profile_zero ex_zero, pe_message = otrng_prekey_message_new ex_zero\<rparr>"

theorem invalid_ensemble_received_witness:
  "process_received_prekey_ensemble_retrieval ex_prekey_env 0 ex_prekey_client \<lparr>rt_instance_tag = 0x100, rt_identity = Some ''bob'',
       rt_ensembles = Some [Some ex_wrong_ensemble, Some ex_wrong_ensemble], rt_num_ensembles = 2\<rparr> =
     Some (True, tell (Prekey_ensembles_received [None, Some ex_wrong_ensemble] 1 ''bob'') ex_prekey_client)"
proof -
  have "otrng_prekey_ensemble_validate ex_crypto 0 ex_wrong_ensemble = Some False"
    by (simp add: otrng_prekey_ensemble_validate_def ex_wrong_ensemble_def ex_profile_def prekey_profile_zero_def)
  then show ?thesis
    using invalid_ensemble_received[of ex_prekey_client "\<lparr>rt_instance_tag = 0x100, rt_identity = Some ''bob'',
       rt_ensembles = Some [Some ex_wrong_ensemble, Some ex_wrong_ensemble], rt_num_ensembles = 2\<rparr>" "''bob''" "[]" ex_wrong_ensemble ex_wrong_ensemble ex_prekey_env 0]
    by (simp add: ex_prekey_client_simps)
qed

end
