(* ===== verification/Client_State.thy ===== *)
theory Client_State
  imports Prekey_Manager Handshake Fingerprint
begin

text \<open>
  \<open>client.c\<close>, the state of a client: its keys, profiles, prekey messages, instance tag and settings, and
  what is published.  The client is the record of \<open>Prekey_Manager\<close> extended by the fields that only this file and
  \<open>client_orchestration.c\<close> use.  A pointer that may be \<open>NULL\<close> next to a field that always has a value is a
  flag: \<open>cl_has_keypair\<close>, \<open>cl_has_forging_key\<close>.  The fields of the global state that libotr keeps are in
  \<open>cl_user_state\<close>.  The callbacks of the application are functions on the client; an optional callback is an
  option.
\<close>

definition MAX_NUMBER_PUBLISHED_PREKEY_MSGS :: nat where [const_defs]: "MAX_NUMBER_PUBLISHED_PREKEY_MSGS = 255"
definition HEARTBEAT_INTERVAL :: int where [const_defs]: "HEARTBEAT_INTERVAL = 60"

record otrng_client_id_s =
  id_protocol :: string
  id_account :: string

text \<open>What libotr keeps: the instance tags by account and protocol, newest first, and the accounts that have a
  private key of version 3.\<close>

record otrl_user_state =
  us_instags :: "(string \<times> string \<times> u32) list"
  us_privkeys :: "(string \<times> string) list"

record ('p, 's, 'm) full_client_s = "('p, 's, 'm) prekey_client_s" +
  cl_client_id :: otrng_client_id_s
  cl_user_state :: "otrl_user_state option"
  cl_fingerprints_v3_loaded :: bool
  cl_has_keypair :: bool
  cl_has_forging_key :: bool
  cl_profiles_extra_valid_time :: u64
  cl_client_profile_exp_time :: u64
  cl_prekey_profile_exp_time :: u64
  cl_profiles_buffer_time :: u64
  cl_fragments_exp_time :: u32
  cl_is_publishing :: bool

record otrng_policy_s =
  policy_allows :: byte
  policy_type :: byte

definition OTRNG_POLICY_DEFAULT :: byte where [const_defs]: "OTRNG_POLICY_DEFAULT = 0x00"

datatype otrng_expiration_policy = OTRNG_SESSION_EXPIRY_DO_TEARDOWN | OTRNG_SESSION_EXPIRY_DO_NOTHING

datatype otrng_localized_error_message_type = OTRNG_ERROR_MESSAGE_FAILURE_START

record ('p, 's, 'm) otrng_client_callbacks_s =
  create_instag :: "(('p, 's, 'm) full_client_s \<Rightarrow> ('p, 's, 'm) full_client_s) option"
  create_privkey_v3 :: "('p, 's, 'm) full_client_s \<Rightarrow> ('p, 's, 'm) full_client_s"
  create_privkey_v4 :: "('p, 's, 'm) full_client_s \<Rightarrow> ('p, 's, 'm) full_client_s"
  create_forging_key :: "('p, 's, 'm) full_client_s \<Rightarrow> ('p, 's, 'm) full_client_s"
  create_client_profile :: "('p, 's, 'm) full_client_s \<Rightarrow> ('p, 's, 'm) full_client_s"
  store_expired_client_profile :: "('p, 's, 'm) full_client_s \<Rightarrow> ('p, 's, 'm) full_client_s"
  load_expired_client_profile :: "('p, 's, 'm) full_client_s \<Rightarrow> ('p, 's, 'm) full_client_s"
  store_expired_prekey_profile :: "('p, 's, 'm) full_client_s \<Rightarrow> ('p, 's, 'm) full_client_s"
  load_expired_prekey_profile :: "('p, 's, 'm) full_client_s \<Rightarrow> ('p, 's, 'm) full_client_s"
  create_prekey_profile :: "('p, 's, 'm) full_client_s \<Rightarrow> ('p, 's, 'm) full_client_s"
  load_privkey_v4 :: "('p, 's, 'm) full_client_s \<Rightarrow> ('p, 's, 'm) full_client_s"
  load_privkey_v3 :: "('p, 's, 'm) full_client_s \<Rightarrow> ('p, 's, 'm) full_client_s"
  load_client_profile :: "('p, 's, 'm) full_client_s \<Rightarrow> ('p, 's, 'm) full_client_s"
  load_prekey_profile :: "('p, 's, 'm) full_client_s \<Rightarrow> ('p, 's, 'm) full_client_s"
  store_client_profile :: "('p, 's, 'm) full_client_s \<Rightarrow> ('p, 's, 'm) full_client_s"
  store_prekey_profile :: "('p, 's, 'm) full_client_s \<Rightarrow> ('p, 's, 'm) full_client_s"
  load_prekey_messages :: "('p, 's, 'm) full_client_s \<Rightarrow> ('p, 's, 'm) full_client_s"
  store_prekey_messages :: "('p, 's, 'm) full_client_s \<Rightarrow> ('p, 's, 'm) full_client_s"
  store_privkey_v4 :: "('p, 's, 'm) full_client_s \<Rightarrow> ('p, 's, 'm) full_client_s"
  store_privkey_v3 :: "('p, 's, 'm) full_client_s \<Rightarrow> ('p, 's, 'm) full_client_s"
  load_forging_key :: "('p, 's, 'm) full_client_s \<Rightarrow> ('p, 's, 'm) full_client_s"
  store_forging_key :: "('p, 's, 'm) full_client_s \<Rightarrow> ('p, 's, 'm) full_client_s"
  define_policy :: "(('p, 's, 'm) full_client_s \<Rightarrow> otrng_policy_s) option"
  store_fingerprints_v4 :: "('p, 's, 'm) full_client_s \<Rightarrow> ('p, 's, 'm) full_client_s"
  load_fingerprints_v4 :: "('p, 's, 'm) full_client_s \<Rightarrow> ('p, 's, 'm) full_client_s"
  load_fingerprints_v3 :: "('p, 's, 'm) full_client_s \<Rightarrow> ('p, 's, 'm) full_client_s"
  localized_error_message :: "(('p, 's, 'm) full_client_s \<Rightarrow> otrng_localized_error_message_type \<Rightarrow> string) option"
  session_expiration_time_for :: "('p, 's, 'm) otrng_s \<Rightarrow> u32"
  session_expiration_policy_for :: "(('p, 's, 'm) otrng_s \<Rightarrow> otrng_expiration_policy) option"

text \<open>Which callbacks an application has set, by name, as \<open>ensure_needed_exist\<close> sees it.\<close>

definition otrng_client_callbacks_ensure_needed_exist :: "(string \<Rightarrow> bool) \<Rightarrow> bool" where
  "otrng_client_callbacks_ensure_needed_exist cb \<longleftrightarrow> list_all cb [''create_privkey_v3'', ''create_privkey_v4'', ''create_forging_key'',
     ''create_client_profile'', ''store_expired_client_profile'', ''create_prekey_profile'', ''store_expired_prekey_profile'',
     ''load_expired_prekey_profile'', ''get_shared_session_state'', ''display_error_message'', ''load_privkey_v4'', ''load_client_profile'',
     ''load_prekey_profile'', ''store_client_profile'', ''store_prekey_profile'', ''load_prekey_messages'', ''store_prekey_messages'',
     ''store_privkey_v4'', ''load_forging_key'', ''load_forging_key'', ''load_expired_client_profile'', ''load_privkey_v3'', ''store_privkey_v3'',
     ''store_fingerprints_v4'', ''load_fingerprints_v4'', ''load_fingerprints_v3'', ''store_fingerprints_v3'', ''session_expiration_time_for'',
     ''inject_message'']"

definition otrng_client_callbacks_create_instag ::
    "('p, 's, 'm) otrng_client_callbacks_s \<Rightarrow> ('p, 's, 'm) full_client_s \<Rightarrow> ('p, 's, 'm) full_client_s" where
  "otrng_client_callbacks_create_instag cb client = (case create_instag cb of None \<Rightarrow> client | Some f \<Rightarrow> f client)"

definition otrng_client_callbacks_define_policy ::
    "('p, 's, 'm) otrng_client_callbacks_s \<Rightarrow> ('p, 's, 'm) full_client_s \<Rightarrow> otrng_policy_s" where
  "otrng_client_callbacks_define_policy cb client = (case define_policy cb of
     None \<Rightarrow> \<lparr>policy_allows = OTRNG_ALLOW_V34, policy_type = OTRNG_POLICY_DEFAULT\<rparr>
   | Some f \<Rightarrow> f client)"

definition get_policy_for :: "('p, 's, 'm) otrng_client_callbacks_s \<Rightarrow> ('p, 's, 'm) full_client_s \<Rightarrow> otrng_policy_s" where
  "get_policy_for cb client = otrng_client_callbacks_define_policy cb client"

subsection \<open>A new client\<close>

definition should_heartbeat :: "int \<Rightarrow> int \<Rightarrow> bool" where
  "should_heartbeat now last_sent \<longleftrightarrow> last_sent < now - HEARTBEAT_INTERVAL"

text \<open>The fields that stand for the global state are those of \<open>g\<close>.\<close>

definition otrng_client_new :: "('p, 's, 'm) full_client_s \<Rightarrow> otrng_client_id_s \<Rightarrow> ('p, 's, 'm) full_client_s" where
  "otrng_client_new g client_id = g\<lparr>cl_client_id := client_id, cl_has_keypair := False, cl_has_forging_key := False,
     cl_client_profile := None, cl_exp_client_profile := None, cl_prekey_profile := None, cl_exp_prekey_profile := None, cl_our_prekeys := [],
     cl_max_stored_msg_keys := 1000, cl_max_published_prekey_msg := 100, cl_minimum_stored_prekey_msg := 20,
     cl_should_heartbeat := should_heartbeat, cl_profiles_extra_valid_time := 2 * 24 * 60 * 60, cl_client_profile_exp_time := 2 * 7 * 24 * 60 * 60,
     cl_prekey_profile_exp_time := 0, cl_profiles_buffer_time := 57 * 60, cl_fragments_exp_time := 1 * 7 * 24 * 60 * 60, cl_padding := 0,
     cl_should_publish := False, cl_is_publishing := False, cl_prekey_msgs_num_to_publish := 0, cl_fingerprints := None, cl_prekey_manager := None\<rparr>"

subsection \<open>The instance tag\<close>

text \<open>\<open>otrl_instag_find\<close> searches the list of libotr.\<close>

definition otrl_instag_find :: "otrl_user_state \<Rightarrow> string \<Rightarrow> string \<Rightarrow> u32 option" where
  "otrl_instag_find us account protocol = map_option (snd \<circ> snd) (find (\<lambda>(a, p, _). a = account \<and> p = protocol) (us_instags us))"

definition otrng_instance_tag_new :: "string \<Rightarrow> string \<Rightarrow> u32 \<Rightarrow> (string \<times> string \<times> u32) option" where
  "otrng_instance_tag_new protocol account instag =
     (if instag < OTRNG_MIN_VALID_INSTAG then None else Some (account, protocol, instag))"

definition otrl_userstate_instance_tag_add :: "otrl_user_state \<Rightarrow> string \<times> string \<times> u32 \<Rightarrow> otrl_user_state" where
  "otrl_userstate_instance_tag_add us instag = us\<lparr>us_instags := instag # us_instags us\<rparr>"

definition find_client_instag :: "('p, 's, 'm) full_client_s \<Rightarrow> u32 option" where
  "find_client_instag client = do {
     us \<leftarrow> cl_user_state client;
     otrl_instag_find us (id_account (cl_client_id client)) (id_protocol (cl_client_id client)) }"

definition otrng_client_get_instance_tag ::
    "('p, 's, 'm) otrng_client_callbacks_s \<Rightarrow> ('p, 's, 'm) full_client_s \<Rightarrow> u32 \<times> ('p, 's, 'm) full_client_s" where
  "otrng_client_get_instance_tag cb client =
     (if cl_user_state client = None then (0, client)
      else
        let client = (if find_client_instag client = None then otrng_client_callbacks_create_instag cb client else client)
        in (case find_client_instag client of None \<Rightarrow> 0 | Some tag \<Rightarrow> tag, client))"

definition otrng_client_add_instance_tag ::
    "('p, 's, 'm) full_client_s \<Rightarrow> u32 \<Rightarrow> bool \<times> ('p, 's, 'm) full_client_s" where
  "otrng_client_add_instance_tag client instag = (case cl_user_state client of
     None \<Rightarrow> (False, client)
   | Some us \<Rightarrow>
       if otrl_instag_find us (id_account (cl_client_id client)) (id_protocol (cl_client_id client)) \<noteq> None then (False, client)
       else case otrng_instance_tag_new (id_protocol (cl_client_id client)) (id_account (cl_client_id client)) instag of
           None \<Rightarrow> (False, client)
         | Some p \<Rightarrow> (True, client\<lparr>cl_user_state := Some (otrl_userstate_instance_tag_add us p)\<rparr>))"

subsection \<open>Keys and profiles\<close>

text \<open>\<open>otrl_privkey_find\<close> on the user state.\<close>

definition otrng_client_get_private_key_v3 :: "('p, 's, 'm) full_client_s \<Rightarrow> (string \<times> string) option" where
  "otrng_client_get_private_key_v3 client = do {
     us \<leftarrow> cl_user_state client;
     find (\<lambda>k. k = (id_account (cl_client_id client), id_protocol (cl_client_id client))) (us_privkeys us) }"

definition client_keypair :: "('p, 's, 'm) full_client_s \<Rightarrow> ('p, 's) otrng_keypair_s option" where
  "client_keypair client = (if cl_has_keypair client then Some (cl_keypair client) else None)"

definition otrng_client_get_keypair_v4 ::
    "('p, 's, 'm) otrng_client_callbacks_s \<Rightarrow> ('p, 's, 'm) full_client_s \<Rightarrow> ('p, 's) otrng_keypair_s option \<times> ('p, 's, 'm) full_client_s" where
  "otrng_client_get_keypair_v4 cb client =
     (if cl_has_keypair client then (client_keypair client, client)
      else let client = create_privkey_v4 cb client in (client_keypair client, client))"

text \<open>When the generation fails the key pair stays in the client without its public key.\<close>

definition keypair_without_public_key :: "('p, 's, 'm, 'h) crypto_ops \<Rightarrow> ('p, 's) wiped \<Rightarrow> bytes \<Rightarrow> ('p, 's) otrng_keypair_s" where
  "keypair_without_public_key C Z seed = \<lparr>kp_sym = take ED448_PRIVATE_BYTES seed, kp_pub = zero_point Z,
     kp_priv = derive_secret_scalar C (take ED448_PRIVATE_BYTES seed)\<rparr>"

definition otrng_client_add_private_key_v4 ::
    "('p, 's, 'm, 'h) crypto_ops \<Rightarrow> ('p, 's) wiped \<Rightarrow> ('p, 's, 'm) full_client_s \<Rightarrow> bytes \<Rightarrow> bool \<times> ('p, 's, 'm) full_client_s" where
  "otrng_client_add_private_key_v4 C Z client seed =
     (if cl_has_keypair client then (False, client)
      else case otrng_keypair_generate C seed of
          None \<Rightarrow> (False, client\<lparr>cl_has_keypair := True, cl_keypair := keypair_without_public_key C Z seed\<rparr>)
        | Some kp \<Rightarrow> (True, client\<lparr>cl_has_keypair := True, cl_keypair := kp\<rparr>))"

definition otrng_client_get_forging_key :: "('p, 's, 'm) full_client_s \<Rightarrow> 'p option" where
  "otrng_client_get_forging_key client = (if cl_has_forging_key client then Some (cl_forging_key client) else None)"

definition otrng_client_add_forging_key :: "('p, 's, 'm) full_client_s \<Rightarrow> 'p \<Rightarrow> bool \<times> ('p, 's, 'm) full_client_s" where
  "otrng_client_add_forging_key client forging_key =
     (if cl_has_forging_key client then (False, client)
      else (True, client\<lparr>cl_has_forging_key := True, cl_forging_key := forging_key\<rparr>))"

definition otrng_client_get_our_fingerprint :: "('p, 's, 'm, 'h) crypto_ops \<Rightarrow> ('p, 's, 'm) full_client_s \<Rightarrow> bytes outcome" where
  "otrng_client_get_our_fingerprint C client =
     (if \<not> cl_has_keypair client then Some None
      else do {
        forging_key \<leftarrow> otrng_client_get_forging_key client;
        Some (otrng_serialize_fingerprint C (kp_pub (cl_keypair client)) forging_key) })"

definition otrng_client_get_client_profile_exp_time :: "('p, 's, 'm) full_client_s \<Rightarrow> u64" where
  "otrng_client_get_client_profile_exp_time client = cl_client_profile_exp_time client"

text \<open>The forging key is dereferenced; a policy that allows no version leaves the pointer to the versions
  \<open>NULL\<close>.\<close>

definition otrng_client_build_default_client_profile ::
    "('p, 's, 'm, 'h) crypto_ops \<Rightarrow> ('p, 's) wiped \<Rightarrow> ('p, 's, 'm) otrng_client_callbacks_s \<Rightarrow> int \<Rightarrow> ('p, 's, 'm) full_client_s
     \<Rightarrow> ('p otrng_client_profile_s option \<times> ('p, 's, 'm) full_client_s) option" where
  "otrng_client_build_default_client_profile C Z cb now client = (
     let allows = policy_allows (get_policy_for cb client);
         versions = (if allows = OTRNG_ALLOW_V34 then Some (ascii ''34'') else if allows = OTRNG_ALLOW_V4 then Some (ascii ''4'')
           else if allows = OTRNG_ALLOW_V3 then Some (ascii ''3'') else None);
         (instag, client) = otrng_client_get_instance_tag cb client;
         (keypair, client) = otrng_client_get_keypair_v4 cb client
     in do {
       forging_key \<leftarrow> otrng_client_get_forging_key client;
       profile \<leftarrow> otrng_client_profile_build C Z now instag versions keypair forging_key (otrng_client_get_client_profile_exp_time client);
       Some (profile, client) })"

definition otrng_client_add_client_profile ::
    "('p, 's) wiped \<Rightarrow> ('p, 's, 'm) full_client_s \<Rightarrow> 'p otrng_client_profile_s option \<Rightarrow> bool \<times> ('p, 's, 'm) full_client_s" where
  "otrng_client_add_client_profile Z client profile =
     (if cl_client_profile client \<noteq> None then (False, client)
      else case otrng_client_profile_copy Z profile of (ok, copy) \<Rightarrow> (ok, client\<lparr>cl_client_profile := Some copy\<rparr>))"

definition otrng_client_get_exp_client_profile :: "('p, 's, 'm) full_client_s \<Rightarrow> 'p otrng_client_profile_s option" where
  "otrng_client_get_exp_client_profile client = cl_exp_client_profile client"

text \<open>The test of the result is inverted.\<close>

definition otrng_client_add_exp_client_profile ::
    "('p, 's) wiped \<Rightarrow> ('p, 's, 'm) full_client_s \<Rightarrow> 'p otrng_client_profile_s option \<Rightarrow> bool \<times> ('p, 's, 'm) full_client_s" where
  "otrng_client_add_exp_client_profile Z client exp_profile =
     (if cl_exp_client_profile client \<noteq> None then (False, client)
      else case otrng_client_profile_copy Z exp_profile of (ok, copy) \<Rightarrow> (\<not> ok, client\<lparr>cl_exp_client_profile := Some copy\<rparr>))"

definition otrng_client_get_prekey_profile ::
    "('p, 's, 'm) otrng_client_callbacks_s \<Rightarrow> ('p, 's, 'm) full_client_s \<Rightarrow> ('p, 's) otrng_prekey_profile_s option \<times> ('p, 's, 'm) full_client_s" where
  "otrng_client_get_prekey_profile cb client =
     (if cl_prekey_profile client \<noteq> None then (cl_prekey_profile client, client)
      else let client = create_prekey_profile cb client in (cl_prekey_profile client, client))"

definition otrng_client_build_default_prekey_profile ::
    "('p, 's, 'm, 'h) crypto_ops \<Rightarrow> ('p, 's) wiped \<Rightarrow> bytes \<Rightarrow> int \<Rightarrow> ('p, 's, 'm) otrng_client_callbacks_s \<Rightarrow> ('p, 's, 'm) full_client_s
     \<Rightarrow> ('p, 's) otrng_prekey_profile_s option \<times> ('p, 's, 'm) full_client_s" where
  "otrng_client_build_default_prekey_profile C Z random now cb client = (
     let (instag, client) = otrng_client_get_instance_tag cb client;
         (keypair, client) = otrng_client_get_keypair_v4 cb client
     in (otrng_prekey_profile_build C Z random now instag keypair, client))"

definition otrng_client_add_prekey_profile ::
    "('p, 's) wiped \<Rightarrow> ('p, 's, 'm) full_client_s \<Rightarrow> ('p, 's) otrng_prekey_profile_s option \<Rightarrow> bool \<times> ('p, 's, 'm) full_client_s" where
  "otrng_client_add_prekey_profile Z client profile =
     (if cl_prekey_profile client \<noteq> None then (False, client)
      else (True, client\<lparr>cl_prekey_profile := Some (otrng_prekey_profile_copy Z profile)\<rparr>))"

text \<open>It returns the current profile when there is an expired one.\<close>

definition otrng_client_get_exp_prekey_profile :: "('p, 's, 'm) full_client_s \<Rightarrow> ('p, 's) otrng_prekey_profile_s option" where
  "otrng_client_get_exp_prekey_profile client =
     (if cl_exp_prekey_profile client \<noteq> None then cl_prekey_profile client else None)"

definition otrng_client_add_exp_prekey_profile ::
    "('p, 's) wiped \<Rightarrow> ('p, 's, 'm) full_client_s \<Rightarrow> ('p, 's) otrng_prekey_profile_s option \<Rightarrow> bool \<times> ('p, 's, 'm) full_client_s" where
  "otrng_client_add_exp_prekey_profile Z client exp_profile =
     (if cl_exp_prekey_profile client \<noteq> None then (False, client)
      else (True, client\<lparr>cl_exp_prekey_profile := Some (otrng_prekey_profile_copy Z exp_profile)\<rparr>))"

subsection \<open>Prekey messages\<close>

definition otrng_client_store_my_prekey_message ::
    "('p, 's, 'm) prekey_message_s \<Rightarrow> ('p, 's, 'm) full_client_s \<Rightarrow> ('p, 's, 'm) full_client_s" where
  "otrng_client_store_my_prekey_message msg client = client\<lparr>cl_our_prekeys := cl_our_prekeys client @ [msg]\<rparr>"

text \<open>The loop: each message is stored in the client as soon as it is built.  \<open>rnd i\<close> gives the random bytes of
  the \<open>i\<close>-th message and its identifier.  The result says whether all were built; what was built stays in the client
  when the generation of keys fails.\<close>

fun build_prekey_messages_loop ::
    "('p, 's, 'm, 'h) crypto_ops \<Rightarrow> ('p, 's) wiped \<Rightarrow> (nat \<Rightarrow> (nat \<Rightarrow> bytes) \<times> u32) \<Rightarrow> u32 \<Rightarrow> nat \<Rightarrow> nat \<Rightarrow> ('p, 's, 'm) full_client_s
     \<Rightarrow> bool \<times> ('p, 's, 'm) full_client_s" where
  "build_prekey_messages_loop C Z rnd instance_tag 0 i client = (True, client)"
| "build_prekey_messages_loop C Z rnd instance_tag (Suc n) i client =
     (case otrng_generate_ephemeral_keys C (fst (rnd i)) of
        None \<Rightarrow> (False, client)
      | Some (ecdh, dh) \<Rightarrow>
          build_prekey_messages_loop C Z rnd instance_tag n (Suc i)
            (otrng_client_store_my_prekey_message (otrng_prekey_message_build Z (snd (rnd i)) instance_tag ecdh dh) client))"

definition otrng_client_build_prekey_messages ::
    "('p, 's, 'm, 'h) crypto_ops \<Rightarrow> ('p, 's) wiped \<Rightarrow> (nat \<Rightarrow> (nat \<Rightarrow> bytes) \<times> u32) \<Rightarrow> ('p, 's, 'm) otrng_client_callbacks_s
     \<Rightarrow> byte \<Rightarrow> ('p, 's, 'm) full_client_s \<Rightarrow> bool \<times> ('p, 's, 'm) full_client_s" where
  "otrng_client_build_prekey_messages C Z rnd cb num_messages client =
     (if MAX_NUMBER_PUBLISHED_PREKEY_MSGS < unat num_messages then (False, client)
      else case otrng_client_get_instance_tag cb client of
        (instance_tag, client) \<Rightarrow> build_prekey_messages_loop C Z rnd instance_tag (unat num_messages) 0 client)"

subsection \<open>Settings\<close>

definition otrng_client_set_should_heartbeat where
  "otrng_client_set_should_heartbeat heartbeat (client :: ('p, 's, 'm) full_client_s) = client\<lparr>cl_should_heartbeat := heartbeat\<rparr>"

definition otrng_client_set_padding where
  "otrng_client_set_padding granularity (client :: ('p, 's, 'm) full_client_s) = client\<lparr>cl_padding := granularity\<rparr>"

definition otrng_client_set_max_stored_msg_keys where
  "otrng_client_set_max_stored_msg_keys n (client :: ('p, 's, 'm) full_client_s) = client\<lparr>cl_max_stored_msg_keys := n\<rparr>"

definition otrng_client_set_max_published_prekey_msg where
  "otrng_client_set_max_published_prekey_msg n (client :: ('p, 's, 'm) full_client_s) = client\<lparr>cl_max_published_prekey_msg := n\<rparr>"

definition otrng_client_state_set_minimum_stored_prekey_msg where
  "otrng_client_state_set_minimum_stored_prekey_msg n (client :: ('p, 's, 'm) full_client_s) = client\<lparr>cl_minimum_stored_prekey_msg := n\<rparr>"

definition otrng_client_set_profiles_extra_valid_time where
  "otrng_client_set_profiles_extra_valid_time t (client :: ('p, 's, 'm) full_client_s) = client\<lparr>cl_profiles_extra_valid_time := t\<rparr>"

definition otrng_client_set_client_profile_exp_time where
  "otrng_client_set_client_profile_exp_time t (client :: ('p, 's, 'm) full_client_s) = client\<lparr>cl_client_profile_exp_time := t\<rparr>"

definition otrng_client_set_prekey_profile_exp_time where
  "otrng_client_set_prekey_profile_exp_time t (client :: ('p, 's, 'm) full_client_s) = client\<lparr>cl_prekey_profile_exp_time := t\<rparr>"

definition otrng_client_get_prekey_profile_exp_time :: "('p, 's, 'm) full_client_s \<Rightarrow> u64" where
  "otrng_client_get_prekey_profile_exp_time client = cl_prekey_profile_exp_time client"

subsection \<open>Publication\<close>

definition otrng_client_start_publishing :: "('p, 's, 'm) full_client_s \<Rightarrow> ('p, 's, 'm) full_client_s" where
  "otrng_client_start_publishing client = client\<lparr>cl_is_publishing := True\<rparr>"

definition otrng_client_should_publish :: "('p, 's, 'm) full_client_s \<Rightarrow> bool" where
  "otrng_client_should_publish client \<longleftrightarrow> cl_should_publish client \<and> \<not> cl_is_publishing client"

text \<open>Both profiles are dereferenced.\<close>

definition otrng_client_failed_published :: "('p, 's, 'm) full_client_s \<Rightarrow> ('p, 's, 'm) full_client_s option" where
  "otrng_client_failed_published client = do {
     client_profile \<leftarrow> cl_client_profile client;
     prekey_profile \<leftarrow> cl_prekey_profile client;
     Some (client\<lparr>cl_client_profile := Some (client_profile\<lparr>cp_is_publishing := False\<rparr>),
       cl_prekey_profile := Some (prekey_profile\<lparr>pp_is_publishing := False\<rparr>),
       cl_our_prekeys := map (\<lambda>pm. pm\<lparr>pm_is_publishing := False\<rparr>) (cl_our_prekeys client),
       cl_is_publishing := False\<rparr>) }"

definition otrng_client_published ::
    "('p, 's, 'm) otrng_client_callbacks_s \<Rightarrow> ('p, 's, 'm) full_client_s \<Rightarrow> ('p, 's, 'm) full_client_s option" where
  "otrng_client_published cb client = do {
     client_profile \<leftarrow> cl_client_profile client;
     let client = (if cp_is_publishing client_profile
       then store_client_profile cb (client\<lparr>cl_client_profile := Some (client_profile\<lparr>cp_should_publish := 0, cp_is_publishing := False\<rparr>)\<rparr>)
       else client);
     prekey_profile \<leftarrow> cl_prekey_profile client;
     let client = (if pp_is_publishing prekey_profile
       then store_prekey_profile cb (client\<lparr>cl_prekey_profile := Some (prekey_profile\<lparr>pp_should_publish := 0, pp_is_publishing := False\<rparr>)\<rparr>)
       else client);
     let has_any_pms = (\<exists>pm \<in> set (cl_our_prekeys client). pm_is_publishing pm);
     let client = client\<lparr>cl_our_prekeys := map (\<lambda>pm. if pm_is_publishing pm then pm\<lparr>pm_should_publish := 0, pm_is_publishing := False\<rparr> else pm)
       (cl_our_prekeys client)\<rparr>;
     let client = (if has_any_pms then store_prekey_messages cb client else client);
     Some (if cl_is_publishing client then client\<lparr>cl_should_publish := False, cl_is_publishing := False\<rparr> else client) }"

end
