(* ===== verification/Orchestration.thy ===== *)
theory Orchestration
  imports Client_State
begin

text \<open>
  \<open>client_orchestration.c\<close>: bringing a client into a state in which it can talk.  For each thing a client needs there
  is a function that only looks, \<open>verify_...\<close>, and one that looks, loads from storage, looks again and creates,
  \<open>ensure_...\<close>.  Looking at a profile can change it, because the result of the validation is kept in it, so these
  functions return the client too.  \<open>None\<close> is a fault: a \<open>NULL\<close> pointer that is dereferenced.  The time is read
  once for the whole call.
\<close>

subsection \<open>Calls into the application\<close>

definition load_long_term_keys_from_storage ::
    "('p, 's, 'm) otrng_client_callbacks_s \<Rightarrow> ('p, 's, 'm) full_client_s \<Rightarrow> ('p, 's, 'm) full_client_s" where
  "load_long_term_keys_from_storage cb client = load_privkey_v4 cb client"

definition load_long_term_keys_v3_from_storage ::
    "('p, 's, 'm) otrng_client_callbacks_s \<Rightarrow> ('p, 's, 'm) full_client_s \<Rightarrow> ('p, 's, 'm) full_client_s" where
  "load_long_term_keys_v3_from_storage cb client = load_privkey_v3 cb client"

definition load_forging_key_from_storage ::
    "('p, 's, 'm) otrng_client_callbacks_s \<Rightarrow> ('p, 's, 'm) full_client_s \<Rightarrow> ('p, 's, 'm) full_client_s" where
  "load_forging_key_from_storage cb client = load_forging_key cb client"

definition create_long_term_keys ::
    "('p, 's, 'm) otrng_client_callbacks_s \<Rightarrow> ('p, 's, 'm) full_client_s \<Rightarrow> ('p, 's, 'm) full_client_s" where
  "create_long_term_keys cb client = create_privkey_v4 cb client"

definition create_long_term_keys_v3 ::
    "('p, 's, 'm) otrng_client_callbacks_s \<Rightarrow> ('p, 's, 'm) full_client_s \<Rightarrow> ('p, 's, 'm) full_client_s" where
  "create_long_term_keys_v3 cb client = create_privkey_v3 cb client"

definition orchestration_create_forging_key ::
    "('p, 's, 'm) otrng_client_callbacks_s \<Rightarrow> ('p, 's, 'm) full_client_s \<Rightarrow> ('p, 's, 'm) full_client_s" where
  "orchestration_create_forging_key cb client = create_forging_key cb client"

definition load_client_profile_from_storage ::
    "('p, 's, 'm) otrng_client_callbacks_s \<Rightarrow> ('p, 's, 'm) full_client_s \<Rightarrow> ('p, 's, 'm) full_client_s" where
  "load_client_profile_from_storage cb client = load_client_profile cb client"

definition load_expired_client_profile_from_storage ::
    "('p, 's, 'm) otrng_client_callbacks_s \<Rightarrow> ('p, 's, 'm) full_client_s \<Rightarrow> ('p, 's, 'm) full_client_s" where
  "load_expired_client_profile_from_storage cb client = load_expired_client_profile cb client"

definition load_expired_prekey_profile_from_storage ::
    "('p, 's, 'm) otrng_client_callbacks_s \<Rightarrow> ('p, 's, 'm) full_client_s \<Rightarrow> ('p, 's, 'm) full_client_s" where
  "load_expired_prekey_profile_from_storage cb client = load_expired_prekey_profile cb client"

definition orchestration_create_client_profile ::
    "('p, 's, 'm) otrng_client_callbacks_s \<Rightarrow> ('p, 's, 'm) full_client_s \<Rightarrow> ('p, 's, 'm) full_client_s" where
  "orchestration_create_client_profile cb client = create_client_profile cb client"

definition load_prekey_profile_from_storage ::
    "('p, 's, 'm) otrng_client_callbacks_s \<Rightarrow> ('p, 's, 'm) full_client_s \<Rightarrow> ('p, 's, 'm) full_client_s" where
  "load_prekey_profile_from_storage cb client = load_prekey_profile cb client"

definition orchestration_create_prekey_profile ::
    "('p, 's, 'm) otrng_client_callbacks_s \<Rightarrow> ('p, 's, 'm) full_client_s \<Rightarrow> ('p, 's, 'm) full_client_s" where
  "orchestration_create_prekey_profile cb client = create_prekey_profile cb client"

definition load_prekey_messages_from_storage ::
    "('p, 's, 'm) otrng_client_callbacks_s \<Rightarrow> ('p, 's, 'm) full_client_s \<Rightarrow> ('p, 's, 'm) full_client_s" where
  "load_prekey_messages_from_storage cb client = load_prekey_messages cb client"

definition load_fingerprints_from_storage ::
    "('p, 's, 'm) otrng_client_callbacks_s \<Rightarrow> ('p, 's, 'm) full_client_s \<Rightarrow> ('p, 's, 'm) full_client_s" where
  "load_fingerprints_from_storage cb client = load_fingerprints_v4 cb client"

definition load_fingerprints_v3_from_storage ::
    "('p, 's, 'm) otrng_client_callbacks_s \<Rightarrow> ('p, 's, 'm) full_client_s \<Rightarrow> ('p, 's, 'm) full_client_s" where
  "load_fingerprints_v3_from_storage cb client = load_fingerprints_v3 cb client"

subsection \<open>Letting go of profiles\<close>

definition clean_client_profile :: "('p, 's, 'm) full_client_s \<Rightarrow> ('p, 's, 'm) full_client_s" where
  "clean_client_profile client = client\<lparr>cl_client_profile := None\<rparr>"

definition clean_expired_client_profile :: "('p, 's, 'm) full_client_s \<Rightarrow> ('p, 's, 'm) full_client_s" where
  "clean_expired_client_profile client = client\<lparr>cl_exp_client_profile := None\<rparr>"

definition clean_expired_prekey_profile :: "('p, 's, 'm) full_client_s \<Rightarrow> ('p, 's, 'm) full_client_s" where
  "clean_expired_prekey_profile client = client\<lparr>cl_exp_prekey_profile := None\<rparr>"

definition clean_prekey_profile :: "('p, 's, 'm) full_client_s \<Rightarrow> ('p, 's, 'm) full_client_s" where
  "clean_prekey_profile client = client\<lparr>cl_prekey_profile := None\<rparr>"

subsection \<open>Long-term keys\<close>

definition verify_valid_long_term_key :: "('p, 's, 'm) full_client_s \<Rightarrow> bool" where
  "verify_valid_long_term_key client \<longleftrightarrow> cl_has_keypair client"

definition verify_valid_forging_key :: "('p, 's, 'm) full_client_s \<Rightarrow> bool" where
  "verify_valid_forging_key client \<longleftrightarrow> cl_has_forging_key client"

definition ensure_valid_long_term_key :: "('p, 's, 'm) otrng_client_callbacks_s \<Rightarrow> ('p, 's, 'm) full_client_s \<Rightarrow> bool \<times> ('p, 's, 'm) full_client_s" where
  "ensure_valid_long_term_key cb client =
     (if verify_valid_long_term_key client then (True, client)
      else let client = load_long_term_keys_from_storage cb client in
      if verify_valid_long_term_key client then (True, client)
      else let client = create_long_term_keys cb client in
      if verify_valid_long_term_key client
      then (True, store_privkey_v4 cb (clean_prekey_profile (clean_client_profile client)))
      else (False, client))"

definition ensure_valid_forging_key :: "('p, 's, 'm) otrng_client_callbacks_s \<Rightarrow> ('p, 's, 'm) full_client_s \<Rightarrow> bool \<times> ('p, 's, 'm) full_client_s" where
  "ensure_valid_forging_key cb client =
     (if verify_valid_forging_key client then (True, client)
      else let client = load_forging_key_from_storage cb client in
      if verify_valid_forging_key client then (True, client)
      else let client = orchestration_create_forging_key cb client in
      if verify_valid_forging_key client then (True, store_forging_key cb (clean_client_profile client))
      else (False, client))"

definition verify_valid_long_term_key_v3 :: "('p, 's, 'm) full_client_s \<Rightarrow> bool" where
  "verify_valid_long_term_key_v3 client \<longleftrightarrow> otrng_client_get_private_key_v3 client \<noteq> None"

definition ensure_valid_long_term_key_v3 :: "('p, 's, 'm) otrng_client_callbacks_s \<Rightarrow> ('p, 's, 'm) full_client_s \<Rightarrow> bool \<times> ('p, 's, 'm) full_client_s" where
  "ensure_valid_long_term_key_v3 cb client =
     (if verify_valid_long_term_key_v3 client then (True, client)
      else let client = load_long_term_keys_v3_from_storage cb client in
      if verify_valid_long_term_key_v3 client then (True, client)
      else let client = create_long_term_keys_v3 cb client in
      if verify_valid_long_term_key_v3 client then (True, store_privkey_v3 cb (clean_client_profile client))
      else (False, client))"

subsection \<open>Looking at profiles\<close>

text \<open>Whether a client profile carries the keys of the client, which are dereferenced.\<close>

definition has_our_keys :: "('p, 's, 'm, 'h) crypto_ops \<Rightarrow> ('p, 's, 'm) full_client_s \<Rightarrow> 'p otrng_client_profile_s \<Rightarrow> bool option" where
  "has_our_keys C client p = do {
     keypair \<leftarrow> client_keypair client;
     if \<not> otrng_ec_point_eq C (kp_pub keypair) (cp_long_term_pub_key p) then Some False
     else do {
       forging_key \<leftarrow> otrng_client_get_forging_key client;
       Some (otrng_ec_point_eq C forging_key (cp_forging_pub_key p)) } }"

definition verify_valid_client_profile :: "('p, 's, 'm, 'h) crypto_ops \<Rightarrow> ('p, 's, 'm) otrng_client_callbacks_s \<Rightarrow> int \<Rightarrow> ('p, 's, 'm) full_client_s \<Rightarrow> (bool \<times> ('p, 's, 'm) full_client_s) option" where
  "verify_valid_client_profile C cb now client = (case cl_client_profile client of
     None \<Rightarrow> Some (False, client)
   | Some p \<Rightarrow> do {
       ours \<leftarrow> has_our_keys C client p;
       if \<not> ours then Some (False, client)
       else let (instag, client) = otrng_client_get_instance_tag cb client in do {
         (ok, p) \<leftarrow> otrng_client_profile_fast_valid C now p instag;
         Some (ok, client\<lparr>cl_client_profile := Some p\<rparr>) } })"

definition verify_valid_expired_client_profile :: "('p, 's, 'm, 'h) crypto_ops \<Rightarrow> ('p, 's, 'm) otrng_client_callbacks_s \<Rightarrow> int \<Rightarrow> ('p, 's, 'm) full_client_s \<Rightarrow> (bool \<times> ('p, 's, 'm) full_client_s) option" where
  "verify_valid_expired_client_profile C cb now client = (case cl_exp_client_profile client of
     None \<Rightarrow> Some (False, client)
   | Some p \<Rightarrow> do {
       ours \<leftarrow> has_our_keys C client p;
       if \<not> ours then Some (False, client)
       else let (instag, client) = otrng_client_get_instance_tag cb client in do {
         (ok, p) \<leftarrow> otrng_client_profile_fast_valid C now p instag;
         let client = client\<lparr>cl_exp_client_profile := Some p\<rparr>;
         if ok then Some (True, client)
         else do {
           ok \<leftarrow> otrng_client_profile_is_expired_but_valid C now p instag (cl_profiles_extra_valid_time client);
           Some (ok, client) } } })"

definition verify_valid_expired_prekey_profile :: "('p, 's, 'm, 'h) crypto_ops \<Rightarrow> ('p, 's, 'm) otrng_client_callbacks_s \<Rightarrow> int \<Rightarrow> ('p, 's, 'm) full_client_s \<Rightarrow> (bool \<times> ('p, 's, 'm) full_client_s) option" where
  "verify_valid_expired_prekey_profile C cb now client = (case cl_exp_prekey_profile client of
     None \<Rightarrow> Some (False, client)
   | Some p \<Rightarrow> let (instag, client) = otrng_client_get_instance_tag cb client in do {
       keypair \<leftarrow> client_keypair client;
       let (ok, p) = otrng_prekey_profile_fast_valid C now p instag (kp_pub keypair);
       let client = client\<lparr>cl_exp_prekey_profile := Some p\<rparr>;
       Some (ok \<or> otrng_prekey_profile_is_expired_but_valid C now p instag (cl_profiles_extra_valid_time client) (kp_pub keypair), client) })"

definition verify_valid_prekey_profile :: "('p, 's, 'm, 'h) crypto_ops \<Rightarrow> ('p, 's, 'm) otrng_client_callbacks_s \<Rightarrow> int \<Rightarrow> ('p, 's, 'm) full_client_s \<Rightarrow> (bool \<times> ('p, 's, 'm) full_client_s) option" where
  "verify_valid_prekey_profile C cb now client = (case cl_prekey_profile client of
     None \<Rightarrow> Some (False, client)
   | Some p \<Rightarrow> let (instag, client) = otrng_client_get_instance_tag cb client in do {
       keypair \<leftarrow> client_keypair client;
       let (ok, p) = otrng_prekey_profile_fast_valid C now p instag (kp_pub keypair);
       Some (ok, client\<lparr>cl_prekey_profile := Some p\<rparr>) })"

subsection \<open>Profiles that expire\<close>

definition move_client_profile_to_expired :: "('p, 's, 'm) otrng_client_callbacks_s \<Rightarrow> ('p, 's, 'm) full_client_s \<Rightarrow> ('p, 's, 'm) full_client_s" where
  "move_client_profile_to_expired cb client = store_expired_client_profile cb
     ((clean_expired_client_profile client)\<lparr>cl_exp_client_profile := cl_client_profile client, cl_client_profile := None\<rparr>)"

definition move_prekey_profile_to_expired :: "('p, 's, 'm) otrng_client_callbacks_s \<Rightarrow> ('p, 's, 'm) full_client_s \<Rightarrow> ('p, 's, 'm) full_client_s" where
  "move_prekey_profile_to_expired cb client = store_expired_prekey_profile cb
     (client\<lparr>cl_exp_prekey_profile := cl_prekey_profile client, cl_prekey_profile := None\<rparr>)"

definition check_if_expired_client_profile :: "('p, 's, 'm, 'h) crypto_ops \<Rightarrow> ('p, 's, 'm) otrng_client_callbacks_s \<Rightarrow> int \<Rightarrow> ('p, 's, 'm) full_client_s \<Rightarrow> ('p, 's, 'm) full_client_s option" where
  "check_if_expired_client_profile C cb now client = (case cl_client_profile client of
     None \<Rightarrow> Some client
   | Some p \<Rightarrow> let (instag, client) = otrng_client_get_instance_tag cb client in do {
       expired \<leftarrow> otrng_client_profile_is_expired_but_valid C now p instag (cl_profiles_extra_valid_time client);
       Some (if expired then move_client_profile_to_expired cb client else client) })"

definition check_if_expired_prekey_profile :: "('p, 's, 'm, 'h) crypto_ops \<Rightarrow> ('p, 's, 'm) otrng_client_callbacks_s \<Rightarrow> int \<Rightarrow> ('p, 's, 'm) full_client_s \<Rightarrow> ('p, 's, 'm) full_client_s option" where
  "check_if_expired_prekey_profile C cb now client = (case cl_prekey_profile client of
     None \<Rightarrow> Some client
   | Some p \<Rightarrow> let (instag, client) = otrng_client_get_instance_tag cb client in do {
       keypair \<leftarrow> client_keypair client;
       Some (if otrng_prekey_profile_is_expired_but_valid C now p instag (cl_profiles_extra_valid_time client) (kp_pub keypair)
         then move_prekey_profile_to_expired cb client else client) })"

definition check_if_not_close_to_expired_client_profile :: "('p, 's, 'm) otrng_client_callbacks_s \<Rightarrow> int \<Rightarrow> ('p, 's, 'm) full_client_s \<Rightarrow> (bool \<times> ('p, 's, 'm) full_client_s) option" where
  "check_if_not_close_to_expired_client_profile cb now client = do {
     p \<leftarrow> cl_client_profile client;
     Some (if otrng_client_profile_is_close_to_expiry now p (cl_profiles_buffer_time client)
       then (False, move_client_profile_to_expired cb client) else (True, client)) }"

definition check_if_not_close_to_expired_prekey_profile :: "('p, 's, 'm) otrng_client_callbacks_s \<Rightarrow> int \<Rightarrow> ('p, 's, 'm) full_client_s \<Rightarrow> (bool \<times> ('p, 's, 'm) full_client_s) option" where
  "check_if_not_close_to_expired_prekey_profile cb now client = do {
     p \<leftarrow> cl_prekey_profile client;
     Some (if otrng_prekey_profile_is_close_to_expiry now p (cl_profiles_buffer_time client)
       then (False, move_prekey_profile_to_expired cb client) else (True, client)) }"

subsection \<open>Ensuring profiles\<close>

text \<open>The test that is made before and after loading: the profile is valid and not about to expire.\<close>

definition client_profile_usable :: "('p, 's, 'm, 'h) crypto_ops \<Rightarrow> ('p, 's, 'm) otrng_client_callbacks_s \<Rightarrow> int \<Rightarrow> ('p, 's, 'm) full_client_s \<Rightarrow> (bool \<times> ('p, 's, 'm) full_client_s) option" where
  "client_profile_usable C cb now client = do {
     client \<leftarrow> check_if_expired_client_profile C cb now client;
     (ok, client) \<leftarrow> verify_valid_client_profile C cb now client;
     if ok then check_if_not_close_to_expired_client_profile cb now client else Some (False, client) }"

definition ensure_valid_client_profile :: "('p, 's, 'm, 'h) crypto_ops \<Rightarrow> ('p, 's, 'm) otrng_client_callbacks_s \<Rightarrow> int \<Rightarrow> ('p, 's, 'm) full_client_s \<Rightarrow> (bool \<times> ('p, 's, 'm) full_client_s) option" where
  "ensure_valid_client_profile C cb now client = do {
     (ok, client) \<leftarrow> client_profile_usable C cb now client;
     if ok then Some (True, client)
     else do {
       (ok, client) \<leftarrow> client_profile_usable C cb now (load_client_profile_from_storage cb (clean_client_profile client));
       if ok then Some (True, client)
       else do {
         (ok, client) \<leftarrow> verify_valid_client_profile C cb now (orchestration_create_client_profile cb (clean_client_profile client));
         if ok then do {
           p \<leftarrow> cl_client_profile client;
           Some (True, store_client_profile cb (client\<lparr>cl_client_profile := Some (p\<lparr>cp_should_publish := 1\<rparr>), cl_should_publish := True\<rparr>)) }
         else Some (False, clean_client_profile client) } } }"

definition ensure_valid_expired_client_profile :: "('p, 's, 'm, 'h) crypto_ops \<Rightarrow> ('p, 's, 'm) otrng_client_callbacks_s \<Rightarrow> int \<Rightarrow> ('p, 's, 'm) full_client_s \<Rightarrow> ('p, 's, 'm) full_client_s option" where
  "ensure_valid_expired_client_profile C cb now client = do {
     (ok, client) \<leftarrow> verify_valid_expired_client_profile C cb now client;
     if ok then Some client
     else do {
       (ok, client) \<leftarrow> verify_valid_expired_client_profile C cb now
         (load_expired_client_profile_from_storage cb (clean_expired_client_profile client));
       Some (if ok then client else store_expired_client_profile cb (clean_expired_client_profile client)) } }"

definition ensure_valid_expired_prekey_profile :: "('p, 's, 'm, 'h) crypto_ops \<Rightarrow> ('p, 's, 'm) otrng_client_callbacks_s \<Rightarrow> int \<Rightarrow> ('p, 's, 'm) full_client_s \<Rightarrow> ('p, 's, 'm) full_client_s option" where
  "ensure_valid_expired_prekey_profile C cb now client = do {
     (ok, client) \<leftarrow> verify_valid_expired_prekey_profile C cb now client;
     if ok then Some client
     else do {
       (ok, client) \<leftarrow> verify_valid_expired_prekey_profile C cb now
         (load_expired_prekey_profile_from_storage cb (clean_expired_prekey_profile client));
       Some (if ok then client else store_expired_prekey_profile cb (clean_expired_prekey_profile client)) } }"

definition prekey_profile_usable :: "('p, 's, 'm, 'h) crypto_ops \<Rightarrow> ('p, 's, 'm) otrng_client_callbacks_s \<Rightarrow> int \<Rightarrow> ('p, 's, 'm) full_client_s \<Rightarrow> (bool \<times> ('p, 's, 'm) full_client_s) option" where
  "prekey_profile_usable C cb now client = do {
     client \<leftarrow> check_if_expired_prekey_profile C cb now client;
     (ok, client) \<leftarrow> verify_valid_prekey_profile C cb now client;
     if ok then check_if_not_close_to_expired_prekey_profile cb now client else Some (False, client) }"

definition ensure_valid_prekey_profile :: "('p, 's, 'm, 'h) crypto_ops \<Rightarrow> ('p, 's, 'm) otrng_client_callbacks_s \<Rightarrow> int \<Rightarrow> ('p, 's, 'm) full_client_s \<Rightarrow> (bool \<times> ('p, 's, 'm) full_client_s) option" where
  "ensure_valid_prekey_profile C cb now client = do {
     (ok, client) \<leftarrow> prekey_profile_usable C cb now client;
     if ok then Some (True, client)
     else do {
       (ok, client) \<leftarrow> prekey_profile_usable C cb now (load_prekey_profile_from_storage cb (clean_prekey_profile client));
       if ok then Some (True, client)
       else do {
         (ok, client) \<leftarrow> verify_valid_prekey_profile C cb now (orchestration_create_prekey_profile cb (clean_prekey_profile client));
         if ok then do {
           p \<leftarrow> cl_prekey_profile client;
           Some (True, store_prekey_profile cb (client\<lparr>cl_prekey_profile := Some (p\<lparr>pp_should_publish := 1\<rparr>), cl_should_publish := True\<rparr>)) }
         else Some (False, clean_prekey_profile client) } } }"

subsection \<open>Prekey messages\<close>

text \<open>How many messages to create: the difference is stored in eight bits, and so is the number the prekey server has
  asked for.\<close>

definition messages_to_publish :: "('p, 's, 'm) full_client_s \<Rightarrow> byte" where
  "messages_to_publish client = (
     let to_publish = of_int (uint (cl_max_published_prekey_msg client) - int (length (cl_our_prekeys client)))
     in if unat to_publish < unat (cl_prekey_msgs_num_to_publish client) then ucast (cl_prekey_msgs_num_to_publish client) else to_publish)"

text \<open>The messages that were built are the last ones of the list; they are marked through the array that the builder
  returns, which is not tested for \<open>NULL\<close>.\<close>

definition create_new_prekey_messages ::
    "('p, 's, 'm, 'h) crypto_ops \<Rightarrow> ('p, 's) wiped \<Rightarrow> (nat \<Rightarrow> (nat \<Rightarrow> bytes) \<times> u32) \<Rightarrow> ('p, 's, 'm) otrng_client_callbacks_s \<Rightarrow> ('p, 's, 'm) full_client_s \<Rightarrow> ('p, 's, 'm) full_client_s option" where
  "create_new_prekey_messages C Z rnd cb client = (
     let to_publish = messages_to_publish client in
     if 0 < to_publish then
       (case otrng_client_build_prekey_messages C Z rnd cb to_publish (client\<lparr>cl_prekey_msgs_num_to_publish := 0\<rparr>) of
          (False, _) \<Rightarrow> None
        | (True, client) \<Rightarrow>
            let old = length (cl_our_prekeys client) - unat to_publish in
            Some (client\<lparr>cl_our_prekeys := take old (cl_our_prekeys client) @ map (\<lambda>pm. pm\<lparr>pm_should_publish := 1\<rparr>) (drop old (cl_our_prekeys client))\<rparr>))
     else Some client)"

definition verify_enough_prekey_messages :: "('p, 's, 'm) full_client_s \<Rightarrow> bool" where
  "verify_enough_prekey_messages client \<longleftrightarrow> unat (cl_minimum_stored_prekey_msg client) \<le> length (cl_our_prekeys client)"

definition ensure_enough_prekey_messages ::
    "('p, 's, 'm, 'h) crypto_ops \<Rightarrow> ('p, 's) wiped \<Rightarrow> (nat \<Rightarrow> (nat \<Rightarrow> bytes) \<times> u32) \<Rightarrow> ('p, 's, 'm) otrng_client_callbacks_s \<Rightarrow> ('p, 's, 'm) full_client_s \<Rightarrow> (bool \<times> ('p, 's, 'm) full_client_s) option" where
  "ensure_enough_prekey_messages C Z rnd cb client =
     (if verify_enough_prekey_messages client then Some (True, client)
      else let client = load_prekey_messages_from_storage cb client in
      if verify_enough_prekey_messages client then Some (True, client)
      else do {
        client \<leftarrow> create_new_prekey_messages C Z rnd cb client;
        Some (if verify_enough_prekey_messages client then (True, store_prekey_messages cb (client\<lparr>cl_should_publish := True\<rparr>))
          else (False, client)) })"

subsection \<open>Fingerprints\<close>

definition verify_valid_fingerprints :: "('p, 's, 'm) full_client_s \<Rightarrow> bool" where
  "verify_valid_fingerprints client \<longleftrightarrow> cl_fingerprints client \<noteq> None"

definition verify_valid_fingerprints_v3 :: "('p, 's, 'm) full_client_s \<Rightarrow> bool" where
  "verify_valid_fingerprints_v3 client \<longleftrightarrow> cl_fingerprints_v3_loaded client"

definition create_fingerprints :: "('p, 's, 'm) full_client_s \<Rightarrow> ('p, 's, 'm) full_client_s" where
  "create_fingerprints client = client\<lparr>cl_fingerprints := Some []\<rparr>"

definition create_fingerprints_v3 :: "('p, 's, 'm) full_client_s \<Rightarrow> ('p, 's, 'm) full_client_s" where
  "create_fingerprints_v3 client = client\<lparr>cl_fingerprints_v3_loaded := True\<rparr>"

definition ensure_loaded_fingerprints :: "('p, 's, 'm) otrng_client_callbacks_s \<Rightarrow> ('p, 's, 'm) full_client_s \<Rightarrow> ('p, 's, 'm) full_client_s" where
  "ensure_loaded_fingerprints cb client =
     (if verify_valid_fingerprints client then client
      else let client = load_fingerprints_from_storage cb client in
      if verify_valid_fingerprints client then client
      else let client = create_fingerprints client in
      if verify_valid_fingerprints client then store_fingerprints_v4 cb client else client)"

definition ensure_loaded_fingerprints_v3 :: "('p, 's, 'm) otrng_client_callbacks_s \<Rightarrow> ('p, 's, 'm) full_client_s \<Rightarrow> ('p, 's, 'm) full_client_s" where
  "ensure_loaded_fingerprints_v3 cb client =
     (if verify_valid_fingerprints_v3 client then client
      else let client = load_fingerprints_v3_from_storage cb client in
      if verify_valid_fingerprints_v3 client then client else create_fingerprints_v3 client)"

subsection \<open>The whole state\<close>

definition otrng_client_ensure_correct_state ::
    "('p, 's, 'm, 'h) crypto_ops \<Rightarrow> ('p, 's) wiped \<Rightarrow> (nat \<Rightarrow> (nat \<Rightarrow> bytes) \<times> u32) \<Rightarrow> ('p, 's, 'm) otrng_client_callbacks_s \<Rightarrow> int \<Rightarrow> ('p, 's, 'm) full_client_s \<Rightarrow> ('p, 's, 'm) full_client_s option" where
  "otrng_client_ensure_correct_state C Z rnd cb now client = (
     let (ok, client) = ensure_valid_long_term_key cb client in
     if \<not> ok then Some client
     else let (ok, client) = ensure_valid_long_term_key_v3 cb client in
     if \<not> ok then Some client
     else let (ok, client) = ensure_valid_forging_key cb client in
     if \<not> ok then Some client
     else do {
       (ok, client) \<leftarrow> ensure_valid_client_profile C cb now client;
       if \<not> ok then Some client
       else do {
         client \<leftarrow> ensure_valid_expired_client_profile C cb now client;
         (ok, client) \<leftarrow> ensure_valid_prekey_profile C cb now client;
         if \<not> ok then Some client
         else do {
           client \<leftarrow> ensure_valid_expired_prekey_profile C cb now client;
           (ok, client) \<leftarrow> ensure_enough_prekey_messages C Z rnd cb client;
           if \<not> ok then Some client
           else Some (ensure_loaded_fingerprints_v3 cb (ensure_loaded_fingerprints cb client)) } } })"

definition otrng_client_verify_correct_state :: "('p, 's, 'm, 'h) crypto_ops \<Rightarrow> ('p, 's, 'm) otrng_client_callbacks_s \<Rightarrow> int \<Rightarrow> ('p, 's, 'm) full_client_s \<Rightarrow> (bool \<times> ('p, 's, 'm) full_client_s) option" where
  "otrng_client_verify_correct_state C cb now client =
     (if \<not> verify_valid_long_term_key client then Some (False, client)
      else if \<not> verify_valid_long_term_key_v3 client then Some (False, client)
      else if \<not> verify_valid_forging_key client then Some (False, client)
      else do {
        (ok, client) \<leftarrow> verify_valid_client_profile C cb now client;
        if \<not> ok then Some (False, client) else verify_valid_prekey_profile C cb now client })"

subsection \<open>What the application promises\<close>

text \<open>Storing leaves the client as it is.\<close>

definition stores_ok :: "('p, 's, 'm) otrng_client_callbacks_s \<Rightarrow> bool" where
  "stores_ok cb \<longleftrightarrow> (\<forall>client. store_privkey_v4 cb client = client \<and> store_privkey_v3 cb client = client \<and> store_forging_key cb client = client \<and>
     store_client_profile cb client = client \<and> store_expired_client_profile cb client = client \<and> store_prekey_profile cb client = client \<and>
     store_expired_prekey_profile cb client = client \<and> store_prekey_messages cb client = client \<and> store_fingerprints_v4 cb client = client)"

definition with_privkeys :: "(string \<times> string) list \<Rightarrow> ('p, 's, 'm) full_client_s \<Rightarrow> ('p, 's, 'm) full_client_s" where
  "with_privkeys ks client = client\<lparr>cl_user_state := map_option (\<lambda>us. us\<lparr>us_privkeys := ks\<rparr>) (cl_user_state client)\<rparr>"

definition keypair_ok :: "('p, 's, 'm, 'h) crypto_ops \<Rightarrow> ('p, 's) otrng_keypair_s \<Rightarrow> bool" where
  "keypair_ok C kp \<longleftrightarrow> (\<exists>seed. otrng_keypair_generate C seed = Some kp)"

text \<open>Loading and creating keys concerns only the keys, and creating succeeds.\<close>

definition keys_callbacks_ok :: "('p, 's, 'm, 'h) crypto_ops \<Rightarrow> ('p, 's, 'm) otrng_client_callbacks_s \<Rightarrow> bool" where
  "keys_callbacks_ok C cb \<longleftrightarrow> (\<forall>client.
     (\<exists>k b. load_privkey_v4 cb client = client\<lparr>cl_keypair := k, cl_has_keypair := b\<rparr> \<and> (b \<longrightarrow> keypair_ok C k)) \<and>
     (\<exists>k. create_privkey_v4 cb client = client\<lparr>cl_keypair := k, cl_has_keypair := True\<rparr> \<and> keypair_ok C k) \<and>
     (\<exists>k b. load_forging_key cb client = client\<lparr>cl_forging_key := k, cl_has_forging_key := b\<rparr>) \<and>
     (\<exists>k. create_forging_key cb client = client\<lparr>cl_forging_key := k, cl_has_forging_key := True\<rparr>) \<and>
     (\<exists>ks. load_privkey_v3 cb client = with_privkeys ks client) \<and>
     (\<exists>ks. create_privkey_v3 cb client = with_privkeys ks client \<and>
        (id_account (cl_client_id client), id_protocol (cl_client_id client)) \<in> set ks))"

text \<open>The validation of a profile does not fault: it has versions and fits the buffer.\<close>

definition readable :: "('p, 's, 'm, 'h) crypto_ops \<Rightarrow> 'p otrng_client_profile_s option \<Rightarrow> bool" where
  "readable C po \<longleftrightarrow> (case po of None \<Rightarrow> True | Some p \<Rightarrow> \<forall>tag. client_profile_valid_without_expiry C p tag \<noteq> None)"

definition client_profile_good :: "('p, 's, 'm, 'h) crypto_ops \<Rightarrow> int \<Rightarrow> u32 \<Rightarrow> ('p, 's, 'm) full_client_s \<Rightarrow> bool" where
  "client_profile_good C now tag client \<longleftrightarrow> readable C (cl_client_profile client) \<and>
     (\<exists>p q. cl_client_profile client = Some p \<and> has_our_keys C client p = Some True \<and> otrng_client_profile_fast_valid C now p tag = Some (True, q))"

definition prekey_profile_good :: "('p, 's, 'm, 'h) crypto_ops \<Rightarrow> int \<Rightarrow> u32 \<Rightarrow> ('p, 's, 'm) full_client_s \<Rightarrow> bool" where
  "prekey_profile_good C now tag client \<longleftrightarrow>
     (\<exists>p. cl_prekey_profile client = Some p \<and> fst (otrng_prekey_profile_fast_valid C now p tag (kp_pub (cl_keypair client))))"

definition has_keys :: "('p, 's, 'm, 'h) crypto_ops \<Rightarrow> u32 \<Rightarrow> ('p, 's, 'm) full_client_s \<Rightarrow> bool" where
  "has_keys C tag client \<longleftrightarrow> find_client_instag client = Some tag \<and> cl_has_keypair client \<and> keypair_ok C (cl_keypair client) \<and> cl_has_forging_key client"

text \<open>Loading a profile concerns only that profile, and creating one for a client with its keys and its tag gives one that
  is accepted.\<close>

definition profile_callbacks_ok ::
    "('p, 's, 'm, 'h) crypto_ops \<Rightarrow> int \<Rightarrow> u32 \<Rightarrow> ('p, 's, 'm) otrng_client_callbacks_s \<Rightarrow> bool" where
  "profile_callbacks_ok C now tag cb \<longleftrightarrow> (\<forall>client.
     (\<exists>p. load_client_profile cb client = client\<lparr>cl_client_profile := p\<rparr> \<and> readable C p) \<and>
     (\<exists>p. load_expired_client_profile cb client = client\<lparr>cl_exp_client_profile := p\<rparr> \<and> readable C p) \<and>
     (\<exists>p. load_prekey_profile cb client = client\<lparr>cl_prekey_profile := p\<rparr>) \<and>
     (\<exists>p. load_expired_prekey_profile cb client = client\<lparr>cl_exp_prekey_profile := p\<rparr>) \<and>
     (has_keys C tag client \<longrightarrow>
        (\<exists>p. create_client_profile cb client = client\<lparr>cl_client_profile := p\<rparr> \<and> client_profile_good C now tag (client\<lparr>cl_client_profile := p\<rparr>)) \<and>
        (\<exists>p. create_prekey_profile cb client = client\<lparr>cl_prekey_profile := p\<rparr> \<and> prekey_profile_good C now tag (client\<lparr>cl_prekey_profile := p\<rparr>))))"

definition other_callbacks_ok :: "('p, 's, 'm) otrng_client_callbacks_s \<Rightarrow> bool" where
  "other_callbacks_ok cb \<longleftrightarrow> (\<forall>client. (\<exists>ms. load_prekey_messages cb client = client\<lparr>cl_our_prekeys := ms\<rparr>) \<and>
     (\<exists>fs. load_fingerprints_v4 cb client = client\<lparr>cl_fingerprints := fs\<rparr>) \<and>
     (\<exists>b. load_fingerprints_v3 cb client = client\<lparr>cl_fingerprints_v3_loaded := b\<rparr>))"

definition application_ok :: "('p, 's, 'm, 'h) crypto_ops \<Rightarrow> int \<Rightarrow> u32 \<Rightarrow> ('p, 's, 'm) otrng_client_callbacks_s \<Rightarrow> bool" where
  "application_ok C now tag cb \<longleftrightarrow> stores_ok cb \<and> keys_callbacks_ok C cb \<and> profile_callbacks_ok C now tag cb \<and> other_callbacks_ok cb"

lemma callbacks_facts:
  assumes "profile_callbacks_ok C now tag cb"
  shows "\<exists>p. load_client_profile cb client = client\<lparr>cl_client_profile := p\<rparr> \<and> readable C p"
    "\<exists>p. load_expired_client_profile cb client = client\<lparr>cl_exp_client_profile := p\<rparr> \<and> readable C p"
    "\<exists>p. load_prekey_profile cb client = client\<lparr>cl_prekey_profile := p\<rparr>"
    "\<exists>p. load_expired_prekey_profile cb client = client\<lparr>cl_exp_prekey_profile := p\<rparr>"
    "has_keys C tag client \<Longrightarrow> \<exists>p. create_client_profile cb client = client\<lparr>cl_client_profile := p\<rparr> \<and>
       client_profile_good C now tag (client\<lparr>cl_client_profile := p\<rparr>)"
    "has_keys C tag client \<Longrightarrow> \<exists>p. create_prekey_profile cb client = client\<lparr>cl_prekey_profile := p\<rparr> \<and>
       prekey_profile_good C now tag (client\<lparr>cl_prekey_profile := p\<rparr>)"
  using assms unfolding profile_callbacks_ok_def by blast+

subsection \<open>Validation is kept\<close>

lemma known_tag: "find_client_instag client = Some tag \<Longrightarrow> otrng_client_get_instance_tag cb client = (tag, client)"
  by (auto simp: otrng_client_get_instance_tag_def find_client_instag_def bind_eq_Some_conv)

lemma same_tag [simp]:
  "find_client_instag (client\<lparr>cl_client_profile := a\<rparr>) = find_client_instag client"
  "find_client_instag (client\<lparr>cl_exp_client_profile := a\<rparr>) = find_client_instag client"
  "find_client_instag (client\<lparr>cl_prekey_profile := b\<rparr>) = find_client_instag client"
  "find_client_instag (client\<lparr>cl_exp_prekey_profile := b\<rparr>) = find_client_instag client"
  "find_client_instag (client\<lparr>cl_our_prekeys := ms\<rparr>) = find_client_instag client"
  "find_client_instag (client\<lparr>cl_fingerprints := fs\<rparr>) = find_client_instag client"
  "find_client_instag (client\<lparr>cl_fingerprints_v3_loaded := x\<rparr>) = find_client_instag client"
  "find_client_instag (client\<lparr>cl_keypair := kp\<rparr>) = find_client_instag client"
  "find_client_instag (client\<lparr>cl_has_keypair := x\<rparr>) = find_client_instag client"
  "find_client_instag (client\<lparr>cl_forging_key := F\<rparr>) = find_client_instag client"
  "find_client_instag (client\<lparr>cl_has_forging_key := x\<rparr>) = find_client_instag client"
  "find_client_instag (client\<lparr>cl_should_publish := x\<rparr>) = find_client_instag client"
  "find_client_instag (client\<lparr>cl_prekey_msgs_num_to_publish := n\<rparr>) = find_client_instag client"
  "find_client_instag (with_privkeys ks client) = find_client_instag client"
  by (simp_all add: find_client_instag_def with_privkeys_def otrl_instag_find_def split: option.split bind_split)

lemma has_our_keys_eq:
  "cl_has_keypair client \<Longrightarrow> cl_has_forging_key client \<Longrightarrow> has_our_keys C client p =
     Some (otrng_ec_point_eq C (kp_pub (cl_keypair client)) (cp_long_term_pub_key p) \<and> otrng_ec_point_eq C (cl_forging_key client) (cp_forging_pub_key p))"
  by (simp add: has_our_keys_def client_keypair_def otrng_client_get_forging_key_def)

lemmas validity_defs = client_profile_valid_without_expiry_def client_profile_verify_signature_def client_profile_body_serialize_into_def
  client_profile_body_serialize_def client_profile_body_serialize_pre_transitional_signature_def verify_transitional_signature_def
  client_profile_verify_transitional_signature_def has_dsa_key_def

lemma validity_flags [simp]:
  "client_profile_valid_without_expiry C (p\<lparr>cp_validation_result := a\<rparr>) tag = client_profile_valid_without_expiry C p tag"
  "client_profile_valid_without_expiry C (p\<lparr>cp_has_validated := a\<rparr>) tag = client_profile_valid_without_expiry C p tag"
  "client_profile_valid_without_expiry C (p\<lparr>cp_should_publish := b\<rparr>) tag = client_profile_valid_without_expiry C p tag"
  by (cases p, hypsubst, unfold validity_defs otrng_client_profile_s.simps, rule refl)+

lemma fast_valid_kept:
  assumes "readable C (Some p)"
  obtains b q where "otrng_client_profile_fast_valid C now p tag = Some (b, q)" "readable C (Some q)"
    "cp_long_term_pub_key q = cp_long_term_pub_key p" "cp_forging_pub_key q = cp_forging_pub_key p"
    "b \<Longrightarrow> otrng_client_profile_fast_valid C now q tag = Some (True, q)"
    "b \<Longrightarrow> otrng_client_profile_fast_valid C now (q\<lparr>cp_should_publish := x\<rparr>) tag = Some (True, q\<lparr>cp_should_publish := x\<rparr>)"
proof (cases "cp_has_validated p")
  case True
  then show ?thesis using assms that[of _ p] by (simp add: otrng_client_profile_fast_valid_def)
next
  case False
  from assms obtain ok where ok: "client_profile_valid_without_expiry C p tag = Some ok" by (auto simp: readable_def)
  let ?b = "ok \<and> \<not> client_profile_expired now (cp_expires p)"
  let ?q = "p\<lparr>cp_validation_result := ?b, cp_has_validated := True\<rparr>"
  show ?thesis
    by (rule that[of ?b ?q]) (use False ok assms in \<open>simp_all add: otrng_client_profile_fast_valid_def otrng_client_profile_valid_def readable_def\<close>)
qed

lemma prekey_fast_valid_kept:
  "fst (otrng_prekey_profile_fast_valid C now p tag pub) \<Longrightarrow>
     fst (otrng_prekey_profile_fast_valid C now (snd (otrng_prekey_profile_fast_valid C now p tag pub)) tag pub)"
  "fst (otrng_prekey_profile_fast_valid C now p tag pub) \<Longrightarrow>
     fst (otrng_prekey_profile_fast_valid C now ((snd (otrng_prekey_profile_fast_valid C now p tag pub))\<lparr>pp_should_publish := x\<rparr>) tag pub)"
  by (auto simp: otrng_prekey_profile_fast_valid_def otrng_prekey_profile_valid_def Let_def split: if_splits)

subsection \<open>The client profile\<close>

lemma verify_client_profile:
  assumes "has_keys C tag client" "readable C (cl_client_profile client)"
  shows "\<exists>b p. verify_valid_client_profile C cb now client = Some (b, client\<lparr>cl_client_profile := p\<rparr>) \<and> readable C p \<and>
    (b \<longrightarrow> client_profile_good C now tag (client\<lparr>cl_client_profile := p\<rparr>) \<and>
       (\<exists>q. p = Some q \<and> client_profile_good C now tag (client\<lparr>cl_client_profile := Some (q\<lparr>cp_should_publish := 1\<rparr>)\<rparr>)))"
proof (cases "cl_client_profile client")
  case None
  then show ?thesis by (intro exI[of _ False] exI[of _ None]) (simp add: verify_valid_client_profile_def readable_def)
next
  case (Some p)
  note keys = assms(1)[unfolded has_keys_def]
  show ?thesis
  proof (cases "has_our_keys C client p = Some True")
    case False
    then have "verify_valid_client_profile C cb now client = Some (False, client)" using Some keys by (simp add: verify_valid_client_profile_def has_our_keys_eq)
    then show ?thesis using Some assms(2) by (intro exI[of _ False] exI[of _ "Some p"]) simp
  next
    case True
    obtain b q where q: "otrng_client_profile_fast_valid C now p tag = Some (b, q)" "readable C (Some q)"
      "cp_long_term_pub_key q = cp_long_term_pub_key p" "cp_forging_pub_key q = cp_forging_pub_key p"
      "b \<Longrightarrow> otrng_client_profile_fast_valid C now q tag = Some (True, q)"
      "b \<Longrightarrow> otrng_client_profile_fast_valid C now (q\<lparr>cp_should_publish := 1\<rparr>) tag = Some (True, q\<lparr>cp_should_publish := 1\<rparr>)"
      by (rule fast_valid_kept[of C p now tag 1]) (use assms(2) Some in simp_all)
    moreover have "verify_valid_client_profile C cb now client = Some (b, client\<lparr>cl_client_profile := Some q\<rparr>)"
      using Some True keys q(1) by (simp add: verify_valid_client_profile_def known_tag)
    ultimately show ?thesis using True keys
      by (intro exI[of _ b] exI[of _ "Some q"]) (simp add: client_profile_good_def has_our_keys_eq readable_def)
  qed
qed

definition client_profile_moved :: "('p, 's, 'm) full_client_s \<Rightarrow> ('p, 's, 'm) full_client_s" where
  "client_profile_moved client = client\<lparr>cl_client_profile := None, cl_exp_client_profile := cl_client_profile client\<rparr>"

lemma client_profile_moves:
  assumes "stores_ok cb"
  shows "move_client_profile_to_expired cb client = client_profile_moved client"
    and "has_keys C tag client \<Longrightarrow> readable C (cl_client_profile client) \<Longrightarrow>
      check_if_expired_client_profile C cb now client \<in> {Some client, Some (client_profile_moved client)}"
    and "cl_client_profile client = Some p \<Longrightarrow>
      check_if_not_close_to_expired_client_profile cb now client \<in> {Some (True, client), Some (False, client_profile_moved client)}"
proof -
  show move: "move_client_profile_to_expired cb client = client_profile_moved client"
    using assms by (simp add: move_client_profile_to_expired_def client_profile_moved_def clean_expired_client_profile_def stores_ok_def)
  show "check_if_expired_client_profile C cb now client \<in> {Some client, Some (client_profile_moved client)}"
    if k: "has_keys C tag client" and r: "readable C (cl_client_profile client)"
  proof (cases "cl_client_profile client")
    case (Some p)
    then obtain x where "client_profile_valid_without_expiry C p tag = Some x" using r by (auto simp: readable_def)
    with Some k show ?thesis
      by (simp add: check_if_expired_client_profile_def known_tag has_keys_def otrng_client_profile_is_expired_but_valid_def move)
  qed (simp add: check_if_expired_client_profile_def)
  show "cl_client_profile client = Some p \<Longrightarrow>
      check_if_not_close_to_expired_client_profile cb now client \<in> {Some (True, client), Some (False, client_profile_moved client)}"
    by (simp add: check_if_not_close_to_expired_client_profile_def move)
qed

text \<open>A client without its profiles, and what a step may do to the profiles.\<close>

definition without_profiles :: "('p, 's, 'm) full_client_s \<Rightarrow> ('p, 's, 'm) full_client_s" where
  "without_profiles c = c\<lparr>cl_client_profile := None, cl_exp_client_profile := None, cl_prekey_profile := None, cl_exp_prekey_profile := None,
     cl_should_publish := False\<rparr>"

definition profiles_changed :: "('p, 's, 'm, 'h) crypto_ops \<Rightarrow> ('p, 's, 'm) full_client_s \<Rightarrow> ('p, 's, 'm) full_client_s \<Rightarrow> bool" where
  "profiles_changed C c c' \<longleftrightarrow> readable C (cl_client_profile c') \<and> readable C (cl_exp_client_profile c') \<and> without_profiles c' = without_profiles c"

lemma without_profiles_simps [simp]:
  "without_profiles (c\<lparr>cl_client_profile := p\<rparr>) = without_profiles c" "without_profiles (c\<lparr>cl_exp_client_profile := p\<rparr>) = without_profiles c"
  "without_profiles (c\<lparr>cl_prekey_profile := q\<rparr>) = without_profiles c" "without_profiles (c\<lparr>cl_exp_prekey_profile := q\<rparr>) = without_profiles c"
  "without_profiles (c\<lparr>cl_should_publish := x\<rparr>) = without_profiles c"
  "find_client_instag (without_profiles c) = find_client_instag c" "cl_has_keypair (without_profiles c) = cl_has_keypair c"
  "cl_has_forging_key (without_profiles c) = cl_has_forging_key c" "cl_keypair (without_profiles c) = cl_keypair c"
  "cl_forging_key (without_profiles c) = cl_forging_key c" "cl_our_prekeys (without_profiles c) = cl_our_prekeys c"
  by (simp_all add: without_profiles_def)

lemma changed_intros:
  "readable C (cl_client_profile c) \<Longrightarrow> readable C (cl_exp_client_profile c) \<Longrightarrow> profiles_changed C c c"
  "profiles_changed C c c' \<Longrightarrow> readable C p \<Longrightarrow> profiles_changed C c (c'\<lparr>cl_client_profile := p\<rparr>)"
  "profiles_changed C c c' \<Longrightarrow> readable C p \<Longrightarrow> profiles_changed C c (c'\<lparr>cl_exp_client_profile := p\<rparr>)"
  "profiles_changed C c c' \<Longrightarrow> profiles_changed C c (client_profile_moved c')"
  by (simp_all add: profiles_changed_def client_profile_moved_def) (simp add: readable_def)

lemma same_keys:
  assumes "without_profiles c' = without_profiles c"
  shows "has_keys C tag c' = has_keys C tag c"
  using assms[THEN arg_cong[of _ _ cl_has_keypair]] assms[THEN arg_cong[of _ _ cl_has_forging_key]] assms[THEN arg_cong[of _ _ find_client_instag]]
    assms[THEN arg_cong[of _ _ cl_keypair]]
  by (simp add: has_keys_def)

lemma changed_keys: "profiles_changed C c c' \<Longrightarrow> has_keys C tag c' = has_keys C tag c"
  by (rule same_keys) (simp add: profiles_changed_def)

lemma changed_trans: "profiles_changed C c c' \<Longrightarrow> profiles_changed C c' c'' \<Longrightarrow> profiles_changed C c c''"
  by (simp add: profiles_changed_def)

lemma client_profile_usable_total:
  assumes st: "stores_ok cb" and keys: "has_keys C tag client" and r: "readable C (cl_client_profile client)" "readable C (cl_exp_client_profile client)"
  shows "\<exists>b client'. client_profile_usable C cb now client = Some (b, client') \<and> profiles_changed C client client' \<and>
    (b \<longrightarrow> client_profile_good C now tag client')"
proof -
  obtain c1 where c1: "check_if_expired_client_profile C cb now client = Some c1" "c1 = client \<or> c1 = client_profile_moved client"
    using client_profile_moves(2)[OF st keys r(1), of now] by auto
  have k1: "profiles_changed C client c1" using c1(2) changed_intros(1)[OF r] changed_intros(4) by blast
  then have "has_keys C tag c1" using keys changed_keys by blast
  then obtain b p where v: "verify_valid_client_profile C cb now c1 = Some (b, c1\<lparr>cl_client_profile := p\<rparr>)" "readable C p"
    "b \<longrightarrow> client_profile_good C now tag (c1\<lparr>cl_client_profile := p\<rparr>) \<and> (\<exists>q. p = Some q)"
    using verify_client_profile[of C tag c1 cb now] k1 unfolding profiles_changed_def by blast
  let ?c2 = "c1\<lparr>cl_client_profile := p\<rparr>"
  have k2: "profiles_changed C client ?c2" "profiles_changed C client (client_profile_moved ?c2)"
    using changed_intros(2)[OF k1 v(2)] changed_intros(4) by blast+
  show ?thesis
  proof (cases b)
    case True
    then obtain q where "cl_client_profile ?c2 = Some q" using v(3) by auto
    from client_profile_moves(3)[OF st this, of now] True v k2 c1(1) show ?thesis by (auto simp: client_profile_usable_def)
  next
    case False
    with v k2 c1(1) show ?thesis by (auto simp: client_profile_usable_def)
  qed
qed

lemma good_frame [simp]:
  "client_profile_good C now tag (c\<lparr>cl_should_publish := x\<rparr>) = client_profile_good C now tag c"
  "client_profile_good C now tag (c\<lparr>cl_exp_client_profile := a\<rparr>) = client_profile_good C now tag c"
  "client_profile_good C now tag (c\<lparr>cl_prekey_profile := b\<rparr>) = client_profile_good C now tag c"
  "client_profile_good C now tag (c\<lparr>cl_exp_prekey_profile := b\<rparr>) = client_profile_good C now tag c"
  "client_profile_good C now tag (c\<lparr>cl_our_prekeys := ms\<rparr>) = client_profile_good C now tag c"
  "client_profile_good C now tag (c\<lparr>cl_prekey_msgs_num_to_publish := n\<rparr>) = client_profile_good C now tag c"
  "client_profile_good C now tag (c\<lparr>cl_fingerprints := fs\<rparr>) = client_profile_good C now tag c"
  "client_profile_good C now tag (c\<lparr>cl_fingerprints_v3_loaded := x\<rparr>) = client_profile_good C now tag c"
  by (simp_all add: client_profile_good_def has_our_keys_def client_keypair_def otrng_client_get_forging_key_def)

lemma ensure_client_profile:
  assumes st: "stores_ok cb" and pr: "profile_callbacks_ok C now tag cb" and k: "has_keys C tag client"
    and r: "readable C (cl_client_profile client)" "readable C (cl_exp_client_profile client)"
  shows "\<exists>client' x. ensure_valid_client_profile C cb now client = Some (True, client'\<lparr>cl_should_publish := x\<rparr>) \<and>
    profiles_changed C client client' \<and> client_profile_good C now tag client'"
proof -
  have keys: "has_keys C tag c" if "profiles_changed C client c" for c using that k changed_keys by blast
  obtain b1 c1 where u1: "client_profile_usable C cb now client = Some (b1, c1)" "profiles_changed C client c1" "b1 \<longrightarrow> client_profile_good C now tag c1"
    using client_profile_usable_total[OF st k r] by blast
  obtain p2 where l: "load_client_profile cb (c1\<lparr>cl_client_profile := None\<rparr>) = c1\<lparr>cl_client_profile := p2\<rparr>" "readable C p2"
    using callbacks_facts(1)[OF pr, of "c1\<lparr>cl_client_profile := None\<rparr>"] by auto
  let ?c2 = "c1\<lparr>cl_client_profile := p2\<rparr>"
  have c2: "profiles_changed C client ?c2" by (rule changed_intros(2)[OF u1(2) l(2)])
  then obtain b3 c3 where u3: "client_profile_usable C cb now ?c2 = Some (b3, c3)" "profiles_changed C client c3" "b3 \<longrightarrow> client_profile_good C now tag c3"
    using client_profile_usable_total[OF st keys[OF c2], of now] changed_trans[OF c2] unfolding profiles_changed_def by blast
  let ?c4 = "c3\<lparr>cl_client_profile := None\<rparr>"
  have "has_keys C tag ?c4" using keys[OF u3(2)] by (simp add: has_keys_def)
  then obtain p5 where m: "create_client_profile cb ?c4 = c3\<lparr>cl_client_profile := p5\<rparr>" "client_profile_good C now tag (c3\<lparr>cl_client_profile := p5\<rparr>)"
    using callbacks_facts(5)[OF pr, of ?c4] by auto
  let ?c5 = "c3\<lparr>cl_client_profile := p5\<rparr>"
  have c5: "profiles_changed C client ?c5" using changed_intros(2)[OF u3(2), of p5] m(2) by (simp add: client_profile_good_def)
  obtain q where v: "verify_valid_client_profile C cb now ?c5 = Some (True, c3\<lparr>cl_client_profile := Some q\<rparr>)" "readable C (Some q)"
    "client_profile_good C now tag (c3\<lparr>cl_client_profile := Some (q\<lparr>cp_should_publish := 1\<rparr>)\<rparr>)"
    using verify_client_profile[OF keys[OF c5], of cb now] m(2) keys[OF c5]
    by (auto simp: client_profile_good_def verify_valid_client_profile_def known_tag has_keys_def)
  have c6: "profiles_changed C client (c3\<lparr>cl_client_profile := Some (q\<lparr>cp_should_publish := 1\<rparr>)\<rparr>)"
    using v(2) by (intro changed_intros(2)[OF u3(2)]) (simp add: readable_def)
  note defs = ensure_valid_client_profile_def clean_client_profile_def load_client_profile_from_storage_def orchestration_create_client_profile_def
  consider "b1" | "\<not> b1" "b3" | "\<not> b1" "\<not> b3" by blast
  then show ?thesis
  proof cases
    case 1
    then show ?thesis using u1 by (intro exI[of _ c1] exI[of _ "cl_should_publish c1"]) (simp add: defs)
  next
    case 2
    then show ?thesis using u1(1) l(1) u3 by (intro exI[of _ c3] exI[of _ "cl_should_publish c3"]) (simp add: defs)
  next
    case 3
    then show ?thesis using u1(1) l(1) u3(1) m(1) v st c6
      by (intro exI[of _ "c3\<lparr>cl_client_profile := Some (q\<lparr>cp_should_publish := 1\<rparr>)\<rparr>"] exI[of _ True]) (simp add: defs stores_ok_def)
  qed
qed

subsection \<open>The other profiles\<close>

lemma verify_expired_client_profile:
  assumes "has_keys C tag client" "readable C (cl_exp_client_profile client)"
  shows "\<exists>b p. verify_valid_expired_client_profile C cb now client = Some (b, client\<lparr>cl_exp_client_profile := p\<rparr>) \<and> readable C p"
proof (cases "cl_exp_client_profile client")
  case None
  then show ?thesis by (intro exI[of _ False] exI[of _ None]) (simp add: verify_valid_expired_client_profile_def readable_def)
next
  case (Some p)
  note keys = assms(1)[unfolded has_keys_def]
  obtain b q where q: "otrng_client_profile_fast_valid C now p tag = Some (b, q)" "readable C (Some q)"
    by (rule fast_valid_kept[of C p now tag 1]) (use assms(2) Some in simp_all)
  then obtain x where x: "client_profile_valid_without_expiry C q tag = Some x" by (auto simp: readable_def)
  show ?thesis
  proof (cases "has_our_keys C client p = Some True")
    case False
    then have "verify_valid_expired_client_profile C cb now client = Some (False, client)"
      using Some keys by (simp add: verify_valid_expired_client_profile_def has_our_keys_eq)
    then show ?thesis using Some assms(2) by (intro exI[of _ False] exI[of _ "Some p"]) simp
  next
    case True
    then show ?thesis using Some keys q x
      by (intro exI[of _ "b \<or> x \<and> client_profile_expired now (cp_expires q) \<and>
            \<not> client_profile_invalid now (cp_expires q) (cl_profiles_extra_valid_time client)"] exI[of _ "Some q"])
         (simp add: verify_valid_expired_client_profile_def known_tag otrng_client_profile_is_expired_but_valid_def Let_def)
  qed
qed

lemma ensure_expired_client_profile:
  assumes st: "stores_ok cb" and pr: "profile_callbacks_ok C now tag cb" and k: "has_keys C tag client" and r: "readable C (cl_exp_client_profile client)"
  shows "\<exists>p. ensure_valid_expired_client_profile C cb now client = Some (client\<lparr>cl_exp_client_profile := p\<rparr>)"
proof -
  obtain b1 p1 where v1: "verify_valid_expired_client_profile C cb now client = Some (b1, client\<lparr>cl_exp_client_profile := p1\<rparr>)"
    using verify_expired_client_profile[OF k r] by blast
  obtain p2 where l: "load_expired_client_profile cb (client\<lparr>cl_exp_client_profile := None\<rparr>) = client\<lparr>cl_exp_client_profile := p2\<rparr>" "readable C p2"
    using callbacks_facts(2)[OF pr, of "client\<lparr>cl_exp_client_profile := None\<rparr>"] by auto
  have "has_keys C tag (client\<lparr>cl_exp_client_profile := p2\<rparr>)" using k by (simp add: has_keys_def)
  then obtain b3 p3 where v3: "verify_valid_expired_client_profile C cb now (client\<lparr>cl_exp_client_profile := p2\<rparr>) = Some (b3, client\<lparr>cl_exp_client_profile := p3\<rparr>)"
    using verify_expired_client_profile[of C tag "client\<lparr>cl_exp_client_profile := p2\<rparr>" cb now] l(2) by auto
  show ?thesis
    using v1 l v3 st
    by (cases b1; cases b3) (auto simp: ensure_valid_expired_client_profile_def clean_expired_client_profile_def
        load_expired_client_profile_from_storage_def stores_ok_def)
qed

text \<open>For prekey profiles nothing can fault once there is a key pair.\<close>

lemma verify_prekey_profile:
  assumes "has_keys C tag client"
  shows "\<exists>b p. verify_valid_prekey_profile C cb now client = Some (b, client\<lparr>cl_prekey_profile := p\<rparr>) \<and>
    (b \<longrightarrow> prekey_profile_good C now tag (client\<lparr>cl_prekey_profile := p\<rparr>) \<and>
       (\<exists>q. p = Some q \<and> prekey_profile_good C now tag (client\<lparr>cl_prekey_profile := Some (q\<lparr>pp_should_publish := 1\<rparr>)\<rparr>))) \<and>
    (prekey_profile_good C now tag client \<longrightarrow> b)"
proof (cases "cl_prekey_profile client")
  case None
  then show ?thesis by (intro exI[of _ False] exI[of _ None]) (simp add: verify_valid_prekey_profile_def prekey_profile_good_def)
next
  case (Some p)
  let ?v = "otrng_prekey_profile_fast_valid C now p tag (kp_pub (cl_keypair client))"
  have "verify_valid_prekey_profile C cb now client = Some (fst ?v, client\<lparr>cl_prekey_profile := Some (snd ?v)\<rparr>)"
    using Some assms by (simp add: verify_valid_prekey_profile_def has_keys_def known_tag client_keypair_def split_beta)
  then show ?thesis using prekey_fast_valid_kept[of C now p tag "kp_pub (cl_keypair client)"] Some
    by (intro exI[of _ "fst ?v"] exI[of _ "Some (snd ?v)"]) (simp add: prekey_profile_good_def)
qed

definition prekey_profiles_changed :: "('p, 's, 'm) full_client_s \<Rightarrow> ('p, 's, 'm) full_client_s \<Rightarrow> bool" where
  "prekey_profiles_changed c c' \<longleftrightarrow> cl_client_profile c' = cl_client_profile c \<and> without_profiles c' = without_profiles c"

definition prekey_profile_moved :: "('p, 's, 'm) full_client_s \<Rightarrow> ('p, 's, 'm) full_client_s" where
  "prekey_profile_moved client = client\<lparr>cl_prekey_profile := None, cl_exp_prekey_profile := cl_prekey_profile client\<rparr>"

lemma prekey_changed_intros:
  "prekey_profiles_changed c c" "prekey_profiles_changed c c' \<Longrightarrow> prekey_profiles_changed c (c'\<lparr>cl_prekey_profile := p\<rparr>)"
  "prekey_profiles_changed c c' \<Longrightarrow> prekey_profiles_changed c (c'\<lparr>cl_exp_prekey_profile := p\<rparr>)"
  "prekey_profiles_changed c c' \<Longrightarrow> prekey_profiles_changed c (prekey_profile_moved c')"
  by (simp_all add: prekey_profiles_changed_def prekey_profile_moved_def)

lemma prekey_changed_keys: "prekey_profiles_changed c c' \<Longrightarrow> has_keys C tag c' = has_keys C tag c"
  by (rule same_keys) (simp add: prekey_profiles_changed_def)

lemma prekey_profile_moves:
  assumes "stores_ok cb"
  shows "move_prekey_profile_to_expired cb client = prekey_profile_moved client"
    and "has_keys C tag client \<Longrightarrow> check_if_expired_prekey_profile C cb now client \<in> {Some client, Some (prekey_profile_moved client)}"
    and "cl_prekey_profile client = Some p \<Longrightarrow>
      check_if_not_close_to_expired_prekey_profile cb now client \<in> {Some (True, client), Some (False, prekey_profile_moved client)}"
proof -
  show move: "move_prekey_profile_to_expired cb client = prekey_profile_moved client"
    using assms by (simp add: move_prekey_profile_to_expired_def prekey_profile_moved_def stores_ok_def)
  show "has_keys C tag client \<Longrightarrow> check_if_expired_prekey_profile C cb now client \<in> {Some client, Some (prekey_profile_moved client)}"
    by (simp add: check_if_expired_prekey_profile_def known_tag has_keys_def client_keypair_def move split: option.split)
  show "cl_prekey_profile client = Some p \<Longrightarrow>
      check_if_not_close_to_expired_prekey_profile cb now client \<in> {Some (True, client), Some (False, prekey_profile_moved client)}"
    by (simp add: check_if_not_close_to_expired_prekey_profile_def move)
qed

lemma prekey_profile_usable_total:
  assumes st: "stores_ok cb" and keys: "has_keys C tag client"
  shows "\<exists>b client'. prekey_profile_usable C cb now client = Some (b, client') \<and> prekey_profiles_changed client client' \<and>
    (b \<longrightarrow> prekey_profile_good C now tag client')"
proof -
  obtain c1 where c1: "check_if_expired_prekey_profile C cb now client = Some c1" "c1 = client \<or> c1 = prekey_profile_moved client"
    using prekey_profile_moves(2)[OF st keys, of now] by auto
  have k1: "prekey_profiles_changed client c1" using c1(2) prekey_changed_intros(1,4) by blast
  then have "has_keys C tag c1" using keys prekey_changed_keys by blast
  then obtain b p where v: "verify_valid_prekey_profile C cb now c1 = Some (b, c1\<lparr>cl_prekey_profile := p\<rparr>)"
    "b \<longrightarrow> prekey_profile_good C now tag (c1\<lparr>cl_prekey_profile := p\<rparr>) \<and> (\<exists>q. p = Some q)"
    using verify_prekey_profile[of C tag c1 cb now] by blast
  let ?c2 = "c1\<lparr>cl_prekey_profile := p\<rparr>"
  have k2: "prekey_profiles_changed client ?c2" "prekey_profiles_changed client (prekey_profile_moved ?c2)"
    using prekey_changed_intros(2)[OF k1] prekey_changed_intros(4) by blast+
  show ?thesis
  proof (cases b)
    case True
    then obtain q where "cl_prekey_profile ?c2 = Some q" using v(2) by auto
    from prekey_profile_moves(3)[OF st this, of now] True v k2 c1(1) show ?thesis by (auto simp: prekey_profile_usable_def)
  next
    case False
    with v k2 c1(1) show ?thesis by (auto simp: prekey_profile_usable_def)
  qed
qed

lemma ensure_prekey_profile:
  assumes st: "stores_ok cb" and pr: "profile_callbacks_ok C now tag cb" and k: "has_keys C tag client"
  shows "\<exists>client' x. ensure_valid_prekey_profile C cb now client = Some (True, client'\<lparr>cl_should_publish := x\<rparr>) \<and>
    prekey_profiles_changed client client' \<and> prekey_profile_good C now tag client'"
proof -
  have keys: "has_keys C tag c" if "prekey_profiles_changed client c" for c using that k prekey_changed_keys by blast
  have trans: "prekey_profiles_changed client c''" if "prekey_profiles_changed client c'" "prekey_profiles_changed c' c''" for c' c''
    using that by (simp add: prekey_profiles_changed_def)
  obtain b1 c1 where u1: "prekey_profile_usable C cb now client = Some (b1, c1)" "prekey_profiles_changed client c1" "b1 \<longrightarrow> prekey_profile_good C now tag c1"
    using prekey_profile_usable_total[OF st k] by blast
  obtain p2 where l: "load_prekey_profile cb (c1\<lparr>cl_prekey_profile := None\<rparr>) = c1\<lparr>cl_prekey_profile := p2\<rparr>"
    using callbacks_facts(3)[OF pr, of "c1\<lparr>cl_prekey_profile := None\<rparr>"] by auto
  let ?c2 = "c1\<lparr>cl_prekey_profile := p2\<rparr>"
  have c2: "prekey_profiles_changed client ?c2" by (rule prekey_changed_intros(2)[OF u1(2)])
  then obtain b3 c3 where u3: "prekey_profile_usable C cb now ?c2 = Some (b3, c3)" "prekey_profiles_changed client c3" "b3 \<longrightarrow> prekey_profile_good C now tag c3"
    using prekey_profile_usable_total[OF st keys[OF c2], of now] trans[OF c2] by blast
  let ?c4 = "c3\<lparr>cl_prekey_profile := None\<rparr>"
  have "has_keys C tag ?c4" using keys[OF u3(2)] by (simp add: has_keys_def)
  then obtain p5 where m: "create_prekey_profile cb ?c4 = c3\<lparr>cl_prekey_profile := p5\<rparr>" "prekey_profile_good C now tag (c3\<lparr>cl_prekey_profile := p5\<rparr>)"
    using callbacks_facts(6)[OF pr, of ?c4] by auto
  let ?c5 = "c3\<lparr>cl_prekey_profile := p5\<rparr>"
  have c5: "prekey_profiles_changed client ?c5" by (rule prekey_changed_intros(2)[OF u3(2)])
  obtain q where v: "verify_valid_prekey_profile C cb now ?c5 = Some (True, c3\<lparr>cl_prekey_profile := Some q\<rparr>)"
    "prekey_profile_good C now tag (c3\<lparr>cl_prekey_profile := Some (q\<lparr>pp_should_publish := 1\<rparr>)\<rparr>)"
    using verify_prekey_profile[OF keys[OF c5], of cb now] m(2) by auto
  have c6: "prekey_profiles_changed client (c3\<lparr>cl_prekey_profile := Some (q\<lparr>pp_should_publish := 1\<rparr>)\<rparr>)" by (rule prekey_changed_intros(2)[OF u3(2)])
  note defs = ensure_valid_prekey_profile_def clean_prekey_profile_def load_prekey_profile_from_storage_def orchestration_create_prekey_profile_def
  consider "b1" | "\<not> b1" "b3" | "\<not> b1" "\<not> b3" by blast
  then show ?thesis
  proof cases
    case 1
    then show ?thesis using u1 by (intro exI[of _ c1] exI[of _ "cl_should_publish c1"]) (simp add: defs)
  next
    case 2
    then show ?thesis using u1(1) l u3 by (intro exI[of _ c3] exI[of _ "cl_should_publish c3"]) (simp add: defs)
  next
    case 3
    then show ?thesis using u1(1) l u3(1) m(1) v st c6
      by (intro exI[of _ "c3\<lparr>cl_prekey_profile := Some (q\<lparr>pp_should_publish := 1\<rparr>)\<rparr>"] exI[of _ True]) (simp add: defs stores_ok_def)
  qed
qed

lemma ensure_expired_prekey_profile:
  assumes st: "stores_ok cb" and pr: "profile_callbacks_ok C now tag cb" and k: "has_keys C tag client"
  shows "\<exists>p. ensure_valid_expired_prekey_profile C cb now client = Some (client\<lparr>cl_exp_prekey_profile := p\<rparr>)"
proof -
  have v: "\<exists>b q. verify_valid_expired_prekey_profile C cb now (client\<lparr>cl_exp_prekey_profile := p\<rparr>) = Some (b, client\<lparr>cl_exp_prekey_profile := q\<rparr>)" for p
    using k by (cases p) (auto simp: verify_valid_expired_prekey_profile_def has_keys_def known_tag client_keypair_def split_beta)
  obtain b1 p1 where v1: "verify_valid_expired_prekey_profile C cb now client = Some (b1, client\<lparr>cl_exp_prekey_profile := p1\<rparr>)"
    using v[of "cl_exp_prekey_profile client"] by auto
  obtain p2 where l: "load_expired_prekey_profile cb (client\<lparr>cl_exp_prekey_profile := None\<rparr>) = client\<lparr>cl_exp_prekey_profile := p2\<rparr>"
    using callbacks_facts(4)[OF pr, of "client\<lparr>cl_exp_prekey_profile := None\<rparr>"] by auto
  obtain b3 p3 where v3: "verify_valid_expired_prekey_profile C cb now (client\<lparr>cl_exp_prekey_profile := p2\<rparr>) = Some (b3, client\<lparr>cl_exp_prekey_profile := p3\<rparr>)"
    using v by blast
  show ?thesis
    using v1 l v3 st
    by (cases b1; cases b3) (auto simp: ensure_valid_expired_prekey_profile_def clean_expired_prekey_profile_def
        load_expired_prekey_profile_from_storage_def stores_ok_def)
qed

subsection \<open>Keys\<close>

lemma v3_key: "verify_valid_long_term_key_v3 (with_privkeys ks client) \<longleftrightarrow>
    cl_user_state client \<noteq> None \<and> (id_account (cl_client_id client), id_protocol (cl_client_id client)) \<in> set ks"
  by (auto simp: verify_valid_long_term_key_v3_def otrng_client_get_private_key_v3_def with_privkeys_def find_None_iff bind_eq_None_conv)

text \<open>The numbers that say how many prekey messages there should be.\<close>

definition limits :: "('p, 's, 'm) full_client_s \<Rightarrow> u32 \<times> u32 \<times> u32" where
  "limits c = (cl_minimum_stored_prekey_msg c, cl_max_published_prekey_msg c, cl_prekey_msgs_num_to_publish c)"

lemma limits_simps [simp]: "limits (without_profiles c) = limits c" "limits (with_privkeys ks c) = limits c"
  by (simp_all add: limits_def without_profiles_def with_privkeys_def)

definition set_up :: "('p, 's, 'm, 'h) crypto_ops \<Rightarrow> u32 \<Rightarrow> ('p, 's, 'm) full_client_s \<Rightarrow> bool" where
  "set_up C tag c \<longleftrightarrow> find_client_instag c = Some tag \<and> readable C (cl_client_profile c) \<and> readable C (cl_exp_client_profile c) \<and>
     (cl_has_keypair c \<longrightarrow> keypair_ok C (cl_keypair c))"

lemma key_callbacks_facts:
  assumes "keys_callbacks_ok C cb"
  shows "\<exists>k b. load_privkey_v4 cb client = client\<lparr>cl_keypair := k, cl_has_keypair := b\<rparr> \<and> (b \<longrightarrow> keypair_ok C k)"
    "\<exists>k. create_privkey_v4 cb client = client\<lparr>cl_keypair := k, cl_has_keypair := True\<rparr> \<and> keypair_ok C k"
    "\<exists>k b. load_forging_key cb client = client\<lparr>cl_forging_key := k, cl_has_forging_key := b\<rparr>"
    "\<exists>k. create_forging_key cb client = client\<lparr>cl_forging_key := k, cl_has_forging_key := True\<rparr>"
    "\<exists>ks. load_privkey_v3 cb client = with_privkeys ks client"
    "\<exists>ks. create_privkey_v3 cb client = with_privkeys ks client \<and> (id_account (cl_client_id client), id_protocol (cl_client_id client)) \<in> set ks"
  using assms unfolding keys_callbacks_ok_def by blast+

lemma ensure_long_term_key:
  assumes st: "stores_ok cb" and kc: "keys_callbacks_ok C cb" and su: "set_up C tag client"
  shows "\<exists>c. ensure_valid_long_term_key cb client = (True, c) \<and> set_up C tag c \<and> cl_has_keypair c \<and> limits c = limits client"
proof -
  obtain k1 b1 where l: "load_privkey_v4 cb client = client\<lparr>cl_keypair := k1, cl_has_keypair := b1\<rparr>" "b1 \<longrightarrow> keypair_ok C k1" using key_callbacks_facts(1)[OF kc] by blast
  obtain k2 where m: "create_privkey_v4 cb (client\<lparr>cl_keypair := k1, cl_has_keypair := False\<rparr>) = client\<lparr>cl_keypair := k2, cl_has_keypair := True\<rparr>" "keypair_ok C k2"
    using key_callbacks_facts(2)[OF kc, of "client\<lparr>cl_keypair := k1, cl_has_keypair := False\<rparr>"] by auto
  show ?thesis using l m st su
    by (cases b1) (auto simp: ensure_valid_long_term_key_def verify_valid_long_term_key_def load_long_term_keys_from_storage_def create_long_term_keys_def
        clean_client_profile_def clean_prekey_profile_def stores_ok_def set_up_def readable_def limits_def)
qed

lemma ensure_long_term_key_v3:
  assumes st: "stores_ok cb" and kc: "keys_callbacks_ok C cb" and su: "set_up C tag client" "cl_has_keypair client"
  shows "\<exists>c. ensure_valid_long_term_key_v3 cb client = (True, c) \<and> set_up C tag c \<and> cl_has_keypair c \<and> verify_valid_long_term_key_v3 c \<and>
    limits c = limits client"
proof -
  have us: "cl_user_state client \<noteq> None" using su(1) by (cases "cl_user_state client") (auto simp: set_up_def find_client_instag_def)
  obtain k1 where l: "load_privkey_v3 cb client = with_privkeys k1 client" using key_callbacks_facts(5)[OF kc] by blast
  obtain k2 where m: "create_privkey_v3 cb (with_privkeys k1 client) = with_privkeys k2 client"
    "(id_account (cl_client_id client), id_protocol (cl_client_id client)) \<in> set k2"
    using key_callbacks_facts(6)[OF kc, of "with_privkeys k1 client"] by (auto simp: with_privkeys_def option.map_comp comp_def)
  have frame: "set_up C tag (with_privkeys k client)" "set_up C tag ((with_privkeys k client)\<lparr>cl_client_profile := None\<rparr>)"
      "cl_has_keypair (with_privkeys k client)" for k
    using su by (simp_all add: set_up_def with_privkeys_def readable_def) (simp_all flip: with_privkeys_def)
  have ok: "verify_valid_long_term_key_v3 (with_privkeys k2 client)" using us m(2) by (simp add: v3_key)
  then have ok': "verify_valid_long_term_key_v3 ((with_privkeys k2 client)\<lparr>cl_client_profile := None\<rparr>)"
    by (simp add: verify_valid_long_term_key_v3_def otrng_client_get_private_key_v3_def)
  note defs = ensure_valid_long_term_key_v3_def load_long_term_keys_v3_from_storage_def create_long_term_keys_v3_def clean_client_profile_def
  consider "verify_valid_long_term_key_v3 client" | "\<not> verify_valid_long_term_key_v3 client" "verify_valid_long_term_key_v3 (with_privkeys k1 client)"
    | "\<not> verify_valid_long_term_key_v3 client" "\<not> verify_valid_long_term_key_v3 (with_privkeys k1 client)" by blast
  then show ?thesis
  proof cases
    case 3
    then show ?thesis using l m(1) st ok ok' frame
      by (intro exI[of _ "(with_privkeys k2 client)\<lparr>cl_client_profile := None\<rparr>"]) (simp add: defs stores_ok_def limits_def with_privkeys_def)
  qed (use l su frame in \<open>auto simp: defs\<close>)
qed

lemma ensure_forging_key:
  assumes st: "stores_ok cb" and kc: "keys_callbacks_ok C cb" and su: "set_up C tag client" "cl_has_keypair client" "verify_valid_long_term_key_v3 client"
  shows "\<exists>c. ensure_valid_forging_key cb client = (True, c) \<and> set_up C tag c \<and> has_keys C tag c \<and> verify_valid_long_term_key_v3 c \<and>
    limits c = limits client"
proof -
  obtain k1 b1 where l: "load_forging_key cb client = client\<lparr>cl_forging_key := k1, cl_has_forging_key := b1\<rparr>" using key_callbacks_facts(3)[OF kc] by blast
  obtain k2 where m: "create_forging_key cb (client\<lparr>cl_forging_key := k1, cl_has_forging_key := False\<rparr>) = client\<lparr>cl_forging_key := k2, cl_has_forging_key := True\<rparr>"
    using key_callbacks_facts(4)[OF kc, of "client\<lparr>cl_forging_key := k1, cl_has_forging_key := False\<rparr>"] by auto
  show ?thesis using l m st su
    by (cases b1) (auto simp: ensure_valid_forging_key_def verify_valid_forging_key_def load_forging_key_from_storage_def orchestration_create_forging_key_def
        clean_client_profile_def stores_ok_def set_up_def has_keys_def readable_def limits_def verify_valid_long_term_key_v3_def
        otrng_client_get_private_key_v3_def)
qed

subsection \<open>Prekey messages\<close>

definition built_message ::
    "('p, 's, 'm, 'h) crypto_ops \<Rightarrow> ('p, 's) wiped \<Rightarrow> (nat \<Rightarrow> (nat \<Rightarrow> bytes) \<times> u32) \<Rightarrow> u32 \<Rightarrow> nat \<Rightarrow> ('p, 's, 'm) prekey_message_s" where
  "built_message C Z rnd tag i = (case otrng_generate_ephemeral_keys C (fst (rnd i)) of
     None \<Rightarrow> otrng_prekey_message_new Z | Some (y, b) \<Rightarrow> otrng_prekey_message_build Z (snd (rnd i)) tag y b)"

lemma build_loop:
  assumes "\<And>r. otrng_generate_ephemeral_keys C r \<noteq> None"
  shows "build_prekey_messages_loop C Z rnd tag n i client =
    (True, client\<lparr>cl_our_prekeys := cl_our_prekeys client @ map (built_message C Z rnd tag) [i..<i + n]\<rparr>)"
proof (induction n arbitrary: i client)
  case (Suc n)
  obtain y b where "otrng_generate_ephemeral_keys C (fst (rnd i)) = Some (y, b)" using assms by (metis not_None_eq surj_pair)
  moreover have "[i..<i + Suc n] = i # [Suc i..<Suc i + n]" by (simp add: upt_conv_Cons)
  ultimately show ?case by (simp add: Suc.IH otrng_client_store_my_prekey_message_def built_message_def del: upt_Suc)
qed simp

lemma create_messages:
  assumes "\<And>r. otrng_generate_ephemeral_keys C r \<noteq> None" "find_client_instag client = Some tag"
  shows "create_new_prekey_messages C Z rnd cb client = Some (if messages_to_publish client = 0 then client
    else client\<lparr>cl_prekey_msgs_num_to_publish := 0, cl_our_prekeys := cl_our_prekeys client @
      map (\<lambda>i. (built_message C Z rnd tag i)\<lparr>pm_should_publish := 1\<rparr>) [0..<unat (messages_to_publish client)]\<rparr>)"
proof -
  have few: "(MAX_NUMBER_PUBLISHED_PREKEY_MSGS < unat (b :: byte)) = False" for b
  proof -
    have "unat b < 2 ^ LENGTH(8)" by (rule unsigned_less)
    then show ?thesis by (simp add: const_defs)
  qed
  show ?thesis
    using assms(2) by (simp add: create_new_prekey_messages_def otrng_client_build_prekey_messages_def known_tag build_loop[OF assms(1)] Let_def
        few word_gt_0 comp_def)
qed

text \<open>The numbers are such that no wrap-around happens.\<close>

definition limits_ok :: "('p, 's, 'm) full_client_s \<Rightarrow> bool" where
  "limits_ok c \<longleftrightarrow> cl_minimum_stored_prekey_msg c \<le> cl_max_published_prekey_msg c \<and> cl_max_published_prekey_msg c \<le> 255 \<and>
     cl_prekey_msgs_num_to_publish c \<le> 255"

lemma enough_to_publish:
  assumes "limits_ok c" "length (cl_our_prekeys c) < unat (cl_minimum_stored_prekey_msg c)"
  shows "unat (cl_minimum_stored_prekey_msg c) \<le> length (cl_our_prekeys c) + unat (messages_to_publish c)" "messages_to_publish c \<noteq> 0"
proof -
  let ?n = "length (cl_our_prekeys c)" and ?max = "unat (cl_max_published_prekey_msg c)" and ?num = "unat (cl_prekey_msgs_num_to_publish c)"
  have le: "unat (cl_minimum_stored_prekey_msg c) \<le> ?max" "?max \<le> 255" "?num \<le> 255"
    using assms(1) by (simp_all add: limits_ok_def word_le_nat_alt)
  have u: "unat (of_int (int ?max - int ?n) :: byte) = ?max - ?n"
  proof -
    have "int ?max - int ?n = int (?max - ?n)" using le assms(2) by simp
    then show ?thesis using le by (simp only: of_int_of_nat_eq unsigned_of_nat) (simp add: take_bit_nat_eq_self)
  qed
  have v: "unat (ucast (cl_prekey_msgs_num_to_publish c) :: byte) = ?num" using le by (simp add: unsigned_ucast_eq take_bit_nat_eq_self)
  have "?max - ?n \<le> unat (messages_to_publish c)"
    using u v by (simp add: messages_to_publish_def Let_def flip: uint_nat)
  then show "unat (cl_minimum_stored_prekey_msg c) \<le> length (cl_our_prekeys c) + unat (messages_to_publish c)" "messages_to_publish c \<noteq> 0"
    using le assms(2) by auto
qed

lemma ensure_messages:
  assumes gen: "\<And>r. otrng_generate_ephemeral_keys C r \<noteq> None" and st: "stores_ok cb" and oc: "other_callbacks_ok cb"
    and tag: "find_client_instag client = Some tag" and lim: "limits_ok client"
  shows "\<exists>ms x n. ensure_enough_prekey_messages C Z rnd cb client =
      Some (True, client\<lparr>cl_our_prekeys := ms, cl_should_publish := x, cl_prekey_msgs_num_to_publish := n\<rparr>) \<and>
    unat (cl_minimum_stored_prekey_msg client) \<le> length ms"
proof -
  obtain ms where l: "load_prekey_messages cb client = client\<lparr>cl_our_prekeys := ms\<rparr>" using oc unfolding other_callbacks_ok_def by blast
  let ?c = "client\<lparr>cl_our_prekeys := ms\<rparr>"
  have c: "create_new_prekey_messages C Z rnd cb ?c = Some (if messages_to_publish ?c = 0 then ?c
    else ?c\<lparr>cl_prekey_msgs_num_to_publish := 0, cl_our_prekeys := ms @
      map (\<lambda>i. (built_message C Z rnd tag i)\<lparr>pm_should_publish := 1\<rparr>) [0..<unat (messages_to_publish ?c)]\<rparr>)"
    using create_messages[OF gen, of ?c tag Z rnd cb] tag by simp
  have e: "unat (cl_minimum_stored_prekey_msg client) \<le> length ms + unat (messages_to_publish ?c)" "messages_to_publish ?c \<noteq> 0"
    if "\<not> verify_enough_prekey_messages ?c"
    using enough_to_publish[of ?c] lim that by (simp_all add: limits_ok_def verify_enough_prekey_messages_def)
  note defs = ensure_enough_prekey_messages_def load_prekey_messages_from_storage_def l
  consider "verify_enough_prekey_messages client" | "\<not> verify_enough_prekey_messages client" "verify_enough_prekey_messages ?c"
    | "\<not> verify_enough_prekey_messages client" "\<not> verify_enough_prekey_messages ?c" by blast
  then show ?thesis
  proof cases
    case 1
    then show ?thesis
      by (intro exI[of _ "cl_our_prekeys client"] exI[of _ "cl_should_publish client"] exI[of _ "cl_prekey_msgs_num_to_publish client"])
         (simp add: defs verify_enough_prekey_messages_def)
  next
    case 2
    then show ?thesis
      by (intro exI[of _ ms] exI[of _ "cl_should_publish client"] exI[of _ "cl_prekey_msgs_num_to_publish client"])
         (simp add: defs verify_enough_prekey_messages_def)
  next
    case 3
    then show ?thesis using e[OF 3(2)] c st
      by (intro exI[of _ "ms @ map (\<lambda>i. (built_message C Z rnd tag i)\<lparr>pm_should_publish := 1\<rparr>) [0..<unat (messages_to_publish ?c)]"] exI[of _ True] exI[of _ 0])
         (simp add: defs stores_ok_def, simp add: verify_enough_prekey_messages_def)
  qed
qed

lemma ensure_fingerprints:
  assumes st: "stores_ok cb" and oc: "other_callbacks_ok cb"
  shows "\<exists>fs. ensure_loaded_fingerprints_v3 cb (ensure_loaded_fingerprints cb client) =
    client\<lparr>cl_fingerprints := Some fs, cl_fingerprints_v3_loaded := True\<rparr>"
proof -
  obtain fs where l: "load_fingerprints_v4 cb client = client\<lparr>cl_fingerprints := fs\<rparr>" using oc unfolding other_callbacks_ok_def by blast
  have "\<exists>fs. ensure_loaded_fingerprints cb client = client\<lparr>cl_fingerprints := Some fs\<rparr>"
  proof (cases "cl_fingerprints client")
    case None
    then show ?thesis using l st
      by (cases fs) (auto simp: ensure_loaded_fingerprints_def verify_valid_fingerprints_def load_fingerprints_from_storage_def create_fingerprints_def stores_ok_def)
  next
    case (Some fs)
    then have "client\<lparr>cl_fingerprints := Some fs\<rparr> = client" by simp
    then show ?thesis using Some by (intro exI[of _ fs]) (simp add: ensure_loaded_fingerprints_def verify_valid_fingerprints_def)
  qed
  then obtain fs where f: "ensure_loaded_fingerprints cb client = client\<lparr>cl_fingerprints := Some fs\<rparr>" by blast
  let ?c = "client\<lparr>cl_fingerprints := Some fs\<rparr>"
  obtain b where "load_fingerprints_v3 cb ?c = ?c\<lparr>cl_fingerprints_v3_loaded := b\<rparr>" using oc unfolding other_callbacks_ok_def by blast
  then have "ensure_loaded_fingerprints_v3 cb ?c = ?c\<lparr>cl_fingerprints_v3_loaded := True\<rparr>"
    by (cases "cl_fingerprints_v3_loaded client"; cases b)
       (simp_all add: ensure_loaded_fingerprints_v3_def verify_valid_fingerprints_v3_def load_fingerprints_v3_from_storage_def create_fingerprints_v3_def)
  then show ?thesis using f by auto
qed

lemma prekey_good_frame [simp]:
  "prekey_profile_good C now tag (c\<lparr>cl_should_publish := x\<rparr>) = prekey_profile_good C now tag c"
  "prekey_profile_good C now tag (c\<lparr>cl_exp_prekey_profile := b\<rparr>) = prekey_profile_good C now tag c"
  "prekey_profile_good C now tag (c\<lparr>cl_client_profile := p\<rparr>) = prekey_profile_good C now tag c"
  "prekey_profile_good C now tag (c\<lparr>cl_our_prekeys := ms\<rparr>) = prekey_profile_good C now tag c"
  "prekey_profile_good C now tag (c\<lparr>cl_prekey_msgs_num_to_publish := n\<rparr>) = prekey_profile_good C now tag c"
  "prekey_profile_good C now tag (c\<lparr>cl_fingerprints := fs\<rparr>) = prekey_profile_good C now tag c"
  "prekey_profile_good C now tag (c\<lparr>cl_fingerprints_v3_loaded := x\<rparr>) = prekey_profile_good C now tag c"
  by (simp_all add: prekey_profile_good_def)

lemma same_v3:
  assumes "without_profiles c' = without_profiles c"
  shows "verify_valid_long_term_key_v3 c' = verify_valid_long_term_key_v3 c" "limits c' = limits c"
proof -
  have "verify_valid_long_term_key_v3 (without_profiles c) = verify_valid_long_term_key_v3 c" for c :: "('a, 'b, 'c) full_client_s"
    by (simp add: verify_valid_long_term_key_v3_def otrng_client_get_private_key_v3_def without_profiles_def)
  from this[of c] this[of c'] show "verify_valid_long_term_key_v3 c' = verify_valid_long_term_key_v3 c" using assms by simp
  from arg_cong[OF assms, of limits] show "limits c' = limits c" by simp
qed

lemma good_moved:
  assumes "prekey_profiles_changed c c'"
  shows "client_profile_good C now tag c' = client_profile_good C now tag c"
proof -
  from assms have eq: "without_profiles c' = without_profiles c" by (simp add: prekey_profiles_changed_def)
  note eq' = eq[THEN arg_cong[of _ _ cl_has_keypair]] eq[THEN arg_cong[of _ _ cl_has_forging_key]] eq[THEN arg_cong[of _ _ cl_keypair]]
    eq[THEN arg_cong[of _ _ cl_forging_key]]
  from eq' assms show ?thesis
    by (simp add: client_profile_good_def has_our_keys_def client_keypair_def otrng_client_get_forging_key_def prekey_profiles_changed_def)
qed

text \<open>The four steps for the profiles.\<close>

lemma ensure_profiles:
  assumes st: "stores_ok cb" and pr: "profile_callbacks_ok C now tag cb" and k: "has_keys C tag c" and r: "readable C (cl_client_profile c)" "readable C (cl_exp_client_profile c)"
  shows "\<exists>c4 c5 c6 c7. ensure_valid_client_profile C cb now c = Some (True, c4) \<and> ensure_valid_expired_client_profile C cb now c4 = Some c5 \<and>
    ensure_valid_prekey_profile C cb now c5 = Some (True, c6) \<and> ensure_valid_expired_prekey_profile C cb now c6 = Some c7 \<and>
    without_profiles c7 = without_profiles c \<and> client_profile_good C now tag c7 \<and> prekey_profile_good C now tag c7"
proof -
  obtain c4 x4 where c4: "ensure_valid_client_profile C cb now c = Some (True, c4\<lparr>cl_should_publish := x4\<rparr>)" "profiles_changed C c c4" "client_profile_good C now tag c4"
    using ensure_client_profile[OF st pr k r] by blast
  let ?c4 = "c4\<lparr>cl_should_publish := x4\<rparr>"
  have w4: "without_profiles ?c4 = without_profiles c" "readable C (cl_exp_client_profile ?c4)" using c4(2) by (simp_all add: profiles_changed_def)
  have k4: "has_keys C tag ?c4" using same_keys[OF w4(1)] k by blast
  obtain p5 where c5: "ensure_valid_expired_client_profile C cb now ?c4 = Some (?c4\<lparr>cl_exp_client_profile := p5\<rparr>)"
    using ensure_expired_client_profile[OF st pr k4 w4(2)] by blast
  let ?c5 = "?c4\<lparr>cl_exp_client_profile := p5\<rparr>"
  have k5: "has_keys C tag ?c5" "without_profiles ?c5 = without_profiles c" "client_profile_good C now tag ?c5"
    using k4 w4(1) c4(3) by (simp_all add: has_keys_def)
  obtain c6 x6 where c6: "ensure_valid_prekey_profile C cb now ?c5 = Some (True, c6\<lparr>cl_should_publish := x6\<rparr>)" "prekey_profiles_changed ?c5 c6" "prekey_profile_good C now tag c6"
    using ensure_prekey_profile[OF st pr k5(1)] by blast
  let ?c6 = "c6\<lparr>cl_should_publish := x6\<rparr>"
  have w6: "without_profiles ?c6 = without_profiles c" "client_profile_good C now tag ?c6"
    using c6(2) k5(2,3) good_moved[OF c6(2), of C now tag] by (simp_all add: prekey_profiles_changed_def)
  have "has_keys C tag ?c6" using same_keys[OF w6(1)] k by blast
  then obtain p7 where c7: "ensure_valid_expired_prekey_profile C cb now ?c6 = Some (?c6\<lparr>cl_exp_prekey_profile := p7\<rparr>)"
    using ensure_expired_prekey_profile[OF st pr] by blast
  show ?thesis
    by (intro exI[of _ ?c4] exI[of _ ?c5] exI[of _ ?c6] exI[of _ "?c6\<lparr>cl_exp_prekey_profile := p7\<rparr>"] conjI c4(1) c5 c6(1) c7)
       (use w6 c6(3) in simp_all)
qed

lemma ensure_keys:
  assumes st: "stores_ok cb" and kc: "keys_callbacks_ok C cb" and su: "set_up C tag client"
  shows "\<exists>c1 c2 c3. ensure_valid_long_term_key cb client = (True, c1) \<and> ensure_valid_long_term_key_v3 cb c1 = (True, c2) \<and>
    ensure_valid_forging_key cb c2 = (True, c3) \<and> set_up C tag c3 \<and> has_keys C tag c3 \<and> verify_valid_long_term_key_v3 c3 \<and> limits c3 = limits client"
proof -
  obtain c1 where c1: "ensure_valid_long_term_key cb client = (True, c1)" "set_up C tag c1" "cl_has_keypair c1" "limits c1 = limits client"
    using ensure_long_term_key[OF st kc su] by blast
  obtain c2 where c2: "ensure_valid_long_term_key_v3 cb c1 = (True, c2)" "set_up C tag c2" "cl_has_keypair c2" "verify_valid_long_term_key_v3 c2" "limits c2 = limits c1"
    using ensure_long_term_key_v3[OF st kc c1(2,3)] by blast
  from ensure_forging_key[OF st kc c2(2-4)] c1 c2 show ?thesis by auto
qed

lemma verified:
  assumes "has_keys C tag c" "verify_valid_long_term_key_v3 c" "client_profile_good C now tag c" "prekey_profile_good C now tag c"
  shows "\<exists>c'. otrng_client_verify_correct_state C cb now c = Some (True, c')"
proof -
  from assms(3) have "readable C (cl_client_profile c)" by (simp add: client_profile_good_def)
  with verify_client_profile[OF assms(1), of cb now] assms(1,3)
  obtain p where v: "verify_valid_client_profile C cb now c = Some (True, c\<lparr>cl_client_profile := p\<rparr>)"
    by (auto simp: verify_valid_client_profile_def client_profile_good_def has_keys_def known_tag)
  have "has_keys C tag (c\<lparr>cl_client_profile := p\<rparr>)" using assms(1) by (simp add: has_keys_def)
  from verify_prekey_profile[OF this, of cb now] v assms show ?thesis
    by (auto simp: otrng_client_verify_correct_state_def verify_valid_long_term_key_def verify_valid_forging_key_def has_keys_def)
qed

text \<open>C23: when the application keeps its promises, bringing a client into its correct state always succeeds: nothing faults,
  and afterwards the client has its keys and profiles that are valid for it, enough prekey messages and its
  fingerprints, which \<open>otrng_client_verify_correct_state\<close> confirms.\<close>

theorem ensure_correct_state_ok:
  assumes gen: "\<And>r. otrng_generate_ephemeral_keys C r \<noteq> None" and app: "application_ok C now tag cb" and su: "set_up C tag client" and lim: "limits_ok client"
  shows "\<exists>client' client''. otrng_client_ensure_correct_state C Z rnd cb now client = Some client' \<and>
    otrng_client_verify_correct_state C cb now client' = Some (True, client'') \<and>
    unat (cl_minimum_stored_prekey_msg client') \<le> length (cl_our_prekeys client') \<and> cl_fingerprints client' \<noteq> None \<and> cl_fingerprints_v3_loaded client'"
proof -
  have st: "stores_ok cb" and kc: "keys_callbacks_ok C cb" and pr: "profile_callbacks_ok C now tag cb" and oc: "other_callbacks_ok cb"
    using app by (simp_all add: application_ok_def)
  obtain c1 c2 c3 where c3: "ensure_valid_long_term_key cb client = (True, c1)" "ensure_valid_long_term_key_v3 cb c1 = (True, c2)"
    "ensure_valid_forging_key cb c2 = (True, c3)" "set_up C tag c3" "has_keys C tag c3" "verify_valid_long_term_key_v3 c3" "limits c3 = limits client"
    using ensure_keys[OF st kc su] by blast
  obtain c4 c5 c6 c7 where c7: "ensure_valid_client_profile C cb now c3 = Some (True, c4)" "ensure_valid_expired_client_profile C cb now c4 = Some c5"
    "ensure_valid_prekey_profile C cb now c5 = Some (True, c6)" "ensure_valid_expired_prekey_profile C cb now c6 = Some c7"
    "without_profiles c7 = without_profiles c3" "client_profile_good C now tag c7" "prekey_profile_good C now tag c7"
    using ensure_profiles[OF st pr c3(5)] c3(4) unfolding set_up_def by blast
  have k7: "has_keys C tag c7" "verify_valid_long_term_key_v3 c7" "limits c7 = limits client"
    using same_keys[OF c7(5)] same_v3[OF c7(5)] c3(5-7) by auto
  then have "limits_ok c7" "find_client_instag c7 = Some tag" using lim by (simp_all add: limits_ok_def limits_def has_keys_def)
  then obtain ms x n where c8: "ensure_enough_prekey_messages C Z rnd cb c7 =
      Some (True, c7\<lparr>cl_our_prekeys := ms, cl_should_publish := x, cl_prekey_msgs_num_to_publish := n\<rparr>)" "unat (cl_minimum_stored_prekey_msg c7) \<le> length ms"
    using ensure_messages[OF gen st oc] by blast
  let ?c8 = "c7\<lparr>cl_our_prekeys := ms, cl_should_publish := x, cl_prekey_msgs_num_to_publish := n\<rparr>"
  obtain fs where c9: "ensure_loaded_fingerprints_v3 cb (ensure_loaded_fingerprints cb ?c8) = ?c8\<lparr>cl_fingerprints := Some fs, cl_fingerprints_v3_loaded := True\<rparr>"
    using ensure_fingerprints[OF st oc, of ?c8] by blast
  let ?c9 = "?c8\<lparr>cl_fingerprints := Some fs, cl_fingerprints_v3_loaded := True\<rparr>"
  have "has_keys C tag ?c9" "verify_valid_long_term_key_v3 ?c9"
    using k7 by (simp_all add: has_keys_def verify_valid_long_term_key_v3_def otrng_client_get_private_key_v3_def)
  from verified[OF this, of now cb] c7(6,7) have "\<exists>c'. otrng_client_verify_correct_state C cb now ?c9 = Some (True, c')" by simp
  then show ?thesis using c3(1-3) c7(1-4) c8 c9 by (simp add: otrng_client_ensure_correct_state_def)
qed

text \<open>The number of prekey messages to create is computed in eight bits: with 256 or more messages to be published the
  client creates only the remainder modulo 256, possibly none, and with more messages stored than are to be published
  it creates up to 255 new ones.\<close>

theorem prekey_messages_wrap:
  assumes "\<And>r. otrng_generate_ephemeral_keys C r \<noteq> None" "find_client_instag client = Some tag" "cl_prekey_msgs_num_to_publish client = 0"
  shows "\<exists>client'. create_new_prekey_messages C Z rnd cb client = Some client' \<and>
    length (cl_our_prekeys client') = length (cl_our_prekeys client) +
      nat ((uint (cl_max_published_prekey_msg client) - int (length (cl_our_prekeys client))) mod 256)"
proof -
  have "unat (messages_to_publish client) = nat ((uint (cl_max_published_prekey_msg client) - int (length (cl_our_prekeys client))) mod 256)"
    using assms(3) by (simp add: messages_to_publish_def Let_def unsigned_of_int take_bit_eq_mod del: of_int_diff)
  then show ?thesis using create_messages[OF assms(1,2), of Z rnd cb] by (cases "messages_to_publish client = 0") simp_all
qed

lemma published_messages:
  "filter to_be_published (map (\<lambda>pm. if pm_is_publishing pm then pm\<lparr>pm_should_publish := 0, pm_is_publishing := False\<rparr> else pm) ms) =
     filter to_be_published ms"
  by (induction ms) (auto simp: to_be_published_def)

lemma report_prekeys:
  assumes "stores_ok cb" "cl_client_profile c = Some cp" "cl_prekey_profile c = Some pp"
  shows "\<exists>d. otrng_client_published cb c = Some d \<and>
      cl_our_prekeys d = map (\<lambda>pm. if pm_is_publishing pm then pm\<lparr>pm_should_publish := 0, pm_is_publishing := False\<rparr> else pm) (cl_our_prekeys c)"
    "\<exists>d. otrng_client_failed_published c = Some d \<and> cl_our_prekeys d = map (\<lambda>pm. pm\<lparr>pm_is_publishing := False\<rparr>) (cl_our_prekeys c)"
  using assms by (simp_all add: otrng_client_published_def otrng_client_failed_published_def stores_ok_def Let_def)

text \<open>C24: nothing is published twice and nothing is forgotten: when a publication that was started is reported as done,
  exactly the messages that came after its start remain to be published; when it is reported as failed, all of them
  remain.\<close>

theorem publication_cycle:
  assumes st: "stores_ok cb" and profiles: "cl_client_profile client = Some cp" "cl_prekey_profile client = Some pp"
    and idle: "list_all (\<lambda>pm. \<not> pm_is_publishing pm) (cl_our_prekeys client @ new)"
    and started: "otrng_prekey_add_prekey_messages_for_publication Z client msg = (msg', client1)"
    and later: "client2 = client1\<lparr>cl_our_prekeys := cl_our_prekeys client1 @ new\<rparr>"
  shows "(\<exists>done. otrng_client_published cb client2 = Some done \<and> filter to_be_published (cl_our_prekeys done) = filter to_be_published new) \<and>
    (\<exists>failed. otrng_client_failed_published client2 = Some failed \<and>
       filter to_be_published (cl_our_prekeys failed) = filter to_be_published (cl_our_prekeys client @ new))"
proof -
  let ?mark = "\<lambda>pm. if to_be_published pm then pm\<lparr>pm_is_publishing := True\<rparr> else pm"
  have c2: "client2 = client\<lparr>cl_our_prekeys := map ?mark (cl_our_prekeys client) @ new\<rparr>"
    using started later by (auto simp: otrng_prekey_add_prekey_messages_for_publication_def Let_def)
  have none: "filter to_be_published (map ?mark ms) = []" for ms :: "('a, 'b, 'c) prekey_message_s list"
    by (induction ms) (auto simp: to_be_published_def)
  have all: "filter to_be_published (map (\<lambda>pm. pm\<lparr>pm_is_publishing := False\<rparr>) (map ?mark ms)) = filter to_be_published ms"
    if "list_all (\<lambda>pm. \<not> pm_is_publishing pm) ms" for ms :: "('a, 'b, 'c) prekey_message_s list"
  proof -
    have "map (\<lambda>pm. pm\<lparr>pm_is_publishing := False\<rparr>) (map ?mark ms) = ms" using that by (induction ms) (auto simp: to_be_published_def)
    then show ?thesis by simp
  qed
  have new: "map (\<lambda>pm. pm\<lparr>pm_is_publishing := False\<rparr>) new = new" using idle by (induction new) auto
  have p2: "cl_client_profile client2 = Some cp" "cl_prekey_profile client2 = Some pp" using profiles by (simp_all add: c2)
  obtain d where d: "otrng_client_published cb client2 = Some d"
    "cl_our_prekeys d = map (\<lambda>pm. if pm_is_publishing pm then pm\<lparr>pm_should_publish := 0, pm_is_publishing := False\<rparr> else pm) (cl_our_prekeys client2)"
    using report_prekeys(1)[OF st p2] by blast
  obtain f where f: "otrng_client_failed_published client2 = Some f" "cl_our_prekeys f = map (\<lambda>pm. pm\<lparr>pm_is_publishing := False\<rparr>) (cl_our_prekeys client2)"
    using report_prekeys(2)[OF st p2] by blast
  have ms2: "cl_our_prekeys client2 = map ?mark (cl_our_prekeys client) @ new" by (simp add: c2)
  have "filter to_be_published (cl_our_prekeys d) = filter to_be_published new" unfolding d(2) published_messages unfolding ms2 filter_append none by simp
  moreover have "filter to_be_published (cl_our_prekeys f) = filter to_be_published (cl_our_prekeys client @ new)"
    unfolding f(2) ms2 map_append filter_append new using all[of "cl_our_prekeys client"] idle by (simp only: list_all_append)
  ultimately show ?thesis using d(1) f(1) by blast
qed

subsection \<open>A concrete application\<close>

text \<open>A profile that a client has just built for itself is valid, not only after the wire.\<close>

lemma own_profile:
  assumes G: "goldilocks_ok C S" and E: "eddsa_ok C" and k: "otrng_keypair_generate C seed = Some kp"
    and tag: "otrng_instance_tag_valid tag" and v: "set v \<subseteq> {0x33, 0x34}" "length v < 2 ^ 32"
  obtains p where "otrng_client_profile_build_with_custom_expiration C Z tag (Some v) (Some kp) F expires = Some (Some p)"
    "cp_long_term_pub_key p = kp_pub kp" "cp_forging_pub_key p = F" "cp_expires p = expires" "\<not> cp_has_validated p"
    "\<And>t. client_profile_valid_without_expiry C p t = Some (t = tag)"
proof -
  let ?u = "(client_profile_zero Z)\<lparr>cp_versions := Some v, cp_sender_instance_tag := tag, cp_expires := expires,
     cp_forging_pub_key := F, cp_long_term_pub_key := kp_pub kp\<rparr>"
  let ?body = "client_profile_body_serialize C ?u"
  let ?p = "?u\<lparr>cp_signature := otrng_ec_sign_simple C (kp_sym kp) ?body\<rparr>"
  have wu: "wf_profile ?u" using v by (auto simp: wf_profile_def client_profile_zero_def)
  have n: "cp_dsa_key ?p = None" "cp_transitional_signature ?p = None" by (simp_all add: client_profile_zero_def)
  have same: "client_profile_body_serialize C ?p = ?body"
    by (rule body_ignores_signature)
  have into: "client_profile_body_serialize_into C q = Some ?body" if "client_profile_body_serialize C q = ?body" "cp_versions q = Some v" for q
    using that length_body[OF G wu] n by (simp add: client_profile_body_serialize_into_def profile_size_max otrng_strlen_ns_def opt_len_def)
  have "otrng_client_profile_build_with_custom_expiration C Z tag (Some v) (Some kp) F expires = Some (Some ?p)"
    using tag into[of ?u] by (simp add: otrng_client_profile_build_with_custom_expiration_def client_profile_new_def client_profile_sign_def Let_def)
  moreover have "client_profile_verify_signature C ?p = Some True" by (rule signed_profile_verifies[OF G E k into[OF same]]) simp_all
  then have "client_profile_valid_without_expiry C ?p t = Some (t = tag)" for t
    using v(1) n by (auto simp: client_profile_valid_without_expiry_def rollback_detected_def rollback_loop_iff otrng_ec_point_valid_def
        goldilocks_point(8)[OF G] verify_transitional_signature_def has_dsa_key_def)
  ultimately show ?thesis by (intro that[of ?p]) (simp_all add: client_profile_zero_def)
qed

lemma own_prekey_profile:
  assumes G: "goldilocks_ok C S" and E: "eddsa_ok C" and k: "otrng_keypair_generate C seed = Some kp" and tag: "otrng_instance_tag_valid tag"
  obtains p where "otrng_prekey_profile_build C Z random now tag (Some kp) = Some p" "\<not> pp_has_validated p"
    "\<And>t. otrng_prekey_profile_valid C t p tag (kp_pub kp) \<longleftrightarrow> t < sint (of_int now + PREKEY_PROFILE_EXPIRATION_SECONDS)"
proof -
  obtain q where "otrng_ec_point_decode C (derive_public_key C (take ED448_PRIVATE_BYTES random)) = Some q"
    by (rule ecdh_keypair_total[OF G])
  then obtain keys where keys: "otrng_shared_prekey_pair_generate C random = Some keys" by (simp add: otrng_shared_prekey_pair_generate_def)
  let ?u = "(prekey_profile_zero Z)\<lparr>pp_keys := Some keys, pp_shared_prekey := kp_pub keys, pp_instance_tag := tag,
     pp_expires := of_int now + PREKEY_PROFILE_EXPIRATION_SECONDS\<rparr>"
  let ?p = "?u\<lparr>pp_signature := otrng_ec_sign_simple C (kp_sym kp) (prekey_profile_body C ?u)\<rparr>"
  have "otrng_prekey_profile_build C Z random now tag (Some kp) = Some ?p"
    using tag by (simp add: otrng_prekey_profile_build_def keys otrng_prekey_profile_sign_def prekey_profile_body_serialize_into_def prekey_profile_body(1)[OF G])
  moreover have "otrng_prekey_profile_verify_signature C ?p (kp_pub kp)"
    by (rule signed_prekey_profile_verifies[OF G E k]) (simp_all add: prekey_profile_body_def)
  then have "otrng_prekey_profile_valid C t ?p tag (kp_pub kp) \<longleftrightarrow> t < sint (of_int now + PREKEY_PROFILE_EXPIRATION_SECONDS)" for t
    by (auto simp: otrng_prekey_profile_valid_def otrng_prekey_profile_valid_without_expiry_def otrng_ec_point_valid_def goldilocks_point(8)[OF G]
        prekey_profile_expired_def)
  ultimately show ?thesis by (intro that[of ?p]) (simp_all add: prekey_profile_zero_def)
qed

text \<open>An application with an empty store: loading finds nothing, storing goes nowhere, and what is missing is created with
  the library.\<close>

definition ex_create_client_profile :: "(int, int, nat) full_client_s \<Rightarrow> (int, int, nat) full_client_s" where
  "ex_create_client_profile client = client\<lparr>cl_client_profile := Option.bind (otrng_client_profile_build_with_custom_expiration ex_crypto ex_zero 0x100
     (Some [0x34]) (Some (cl_keypair client)) (cl_forging_key client) 1000000) id\<rparr>"

definition ex_create_prekey_profile :: "(int, int, nat) full_client_s \<Rightarrow> (int, int, nat) full_client_s" where
  "ex_create_prekey_profile client = client\<lparr>cl_prekey_profile := otrng_prekey_profile_build ex_crypto ex_zero [7] 10 0x100 (Some (cl_keypair client))\<rparr>"

definition ex_callbacks :: "(int, int, nat) otrng_client_callbacks_s" where
  "ex_callbacks = \<lparr>create_instag = None,
     create_privkey_v3 = (\<lambda>c. with_privkeys [(id_account (cl_client_id c), id_protocol (cl_client_id c))] c),
     create_privkey_v4 = (\<lambda>c. c\<lparr>cl_keypair := ex_keypair 3, cl_has_keypair := True\<rparr>),
     create_forging_key = (\<lambda>c. c\<lparr>cl_forging_key := 5, cl_has_forging_key := True\<rparr>),
     create_client_profile = ex_create_client_profile, store_expired_client_profile = id,
     load_expired_client_profile = (\<lambda>c. c\<lparr>cl_exp_client_profile := None\<rparr>), store_expired_prekey_profile = id,
     load_expired_prekey_profile = (\<lambda>c. c\<lparr>cl_exp_prekey_profile := None\<rparr>), create_prekey_profile = ex_create_prekey_profile,
     load_privkey_v4 = (\<lambda>c. c\<lparr>cl_keypair := cl_keypair c, cl_has_keypair := False\<rparr>), load_privkey_v3 = with_privkeys [],
     load_client_profile = (\<lambda>c. c\<lparr>cl_client_profile := None\<rparr>), load_prekey_profile = (\<lambda>c. c\<lparr>cl_prekey_profile := None\<rparr>),
     store_client_profile = id, store_prekey_profile = id, load_prekey_messages = (\<lambda>c. c\<lparr>cl_our_prekeys := []\<rparr>), store_prekey_messages = id,
     store_privkey_v4 = id, store_privkey_v3 = id, load_forging_key = (\<lambda>c. c\<lparr>cl_forging_key := cl_forging_key c, cl_has_forging_key := False\<rparr>), store_forging_key = id,
     define_policy = None, store_fingerprints_v4 = id, load_fingerprints_v4 = (\<lambda>c. c\<lparr>cl_fingerprints := None\<rparr>),
     load_fingerprints_v3 = (\<lambda>c. c\<lparr>cl_fingerprints_v3_loaded := False\<rparr>), localized_error_message = None,
     session_expiration_time_for = (\<lambda>otr. 7200), session_expiration_policy_for = None\<rparr>"

definition ex_full_client :: "(int, int, nat) full_client_s" where
  "ex_full_client = otrng_client_new (prekey_client_s.extend (otrng_client_s.extend (ex_client 3 5 0x100) (prekey_client_s.fields None 0 0 False 0 []))
     (full_client_s.fields \<lparr>id_protocol = [], id_account = []\<rparr>
        (Some \<lparr>us_instags = [(''alice'', ''xmpp'', 0x100)], us_privkeys = []\<rparr>) False False False 0 0 0 0 0 False))
     \<lparr>id_protocol = ''xmpp'', id_account = ''alice''\<rparr>"

lemma ex_point_eq: "otrng_ec_point_eq ex_crypto p p"
  by (simp add: otrng_ec_point_eq_def ex_crypto_def)

lemma ex_created:
  assumes "has_keys ex_crypto 0x100 client"
  shows "client_profile_good ex_crypto 20 0x100 (ex_create_client_profile client)" "prekey_profile_good ex_crypto 20 0x100 (ex_create_prekey_profile client)"
proof -
  from assms obtain seed where k: "otrng_keypair_generate ex_crypto seed = Some (cl_keypair client)" by (auto simp: has_keys_def keypair_ok_def)
  have tag: "otrng_instance_tag_valid 0x100" by (simp add: otrng_instance_tag_valid_def const_defs)
  obtain p where p: "otrng_client_profile_build_with_custom_expiration ex_crypto ex_zero 0x100 (Some [0x34]) (Some (cl_keypair client)) (cl_forging_key client) 1000000 = Some (Some p)"
    "cp_long_term_pub_key p = kp_pub (cl_keypair client)" "cp_forging_pub_key p = cl_forging_key client" "cp_expires p = 1000000" "\<not> cp_has_validated p"
    "\<And>t. client_profile_valid_without_expiry ex_crypto p t = Some (t = 0x100)"
    by (rule own_profile[OF ex_goldilocks_ok ex_eddsa_ok k tag, of "[0x34]" ex_zero "cl_forging_key client" 1000000]) auto
  then show "client_profile_good ex_crypto 20 0x100 (ex_create_client_profile client)"
    using assms by (simp add: client_profile_good_def ex_create_client_profile_def readable_def has_our_keys_eq has_keys_def ex_point_eq
        otrng_client_profile_fast_valid_def otrng_client_profile_valid_def client_profile_expired_def)
  obtain q where q: "otrng_prekey_profile_build ex_crypto ex_zero [7] 10 0x100 (Some (cl_keypair client)) = Some q" "\<not> pp_has_validated q"
    "\<And>t. otrng_prekey_profile_valid ex_crypto t q 0x100 (kp_pub (cl_keypair client)) \<longleftrightarrow> t < sint (of_int 10 + PREKEY_PROFILE_EXPIRATION_SECONDS)"
    by (rule own_prekey_profile[OF ex_goldilocks_ok ex_eddsa_ok k tag, where Z = ex_zero and random = "[7]" and now = 10]) blast
  then show "prekey_profile_good ex_crypto 20 0x100 (ex_create_prekey_profile client)"
    by (simp add: prekey_profile_good_def ex_create_prekey_profile_def otrng_prekey_profile_fast_valid_def PREKEY_PROFILE_EXPIRATION_SECONDS_def)
qed

lemma ex_application_ok: "application_ok ex_crypto 20 0x100 ex_callbacks"
proof -
  have kp: "keypair_ok ex_crypto (ex_keypair 3)" using ex_keypair_generated unfolding keypair_ok_def by blast
  have "stores_ok ex_callbacks" by (simp add: stores_ok_def ex_callbacks_def)
  moreover have "\<exists>k b. load_privkey_v4 ex_callbacks client = client\<lparr>cl_keypair := k, cl_has_keypair := b\<rparr> \<and> (b \<longrightarrow> keypair_ok ex_crypto k)"
    "\<exists>k. create_privkey_v4 ex_callbacks client = client\<lparr>cl_keypair := k, cl_has_keypair := True\<rparr> \<and> keypair_ok ex_crypto k"
    "\<exists>k b. load_forging_key ex_callbacks client = client\<lparr>cl_forging_key := k, cl_has_forging_key := b\<rparr>"
    "\<exists>k. create_forging_key ex_callbacks client = client\<lparr>cl_forging_key := k, cl_has_forging_key := True\<rparr>" for client
    by (rule exI[of _ "cl_keypair client"] exI[of _ "ex_keypair 3"] exI[of _ "cl_forging_key client"] exI[of _ 5]; (rule exI[of _ False])?; simp add: ex_callbacks_def kp)+
  then have "keys_callbacks_ok ex_crypto ex_callbacks"
    unfolding keys_callbacks_ok_def by (intro allI conjI; fastforce simp: ex_callbacks_def)
  moreover have "profile_callbacks_ok ex_crypto 20 0x100 ex_callbacks"
    unfolding profile_callbacks_ok_def using ex_created
    by (intro allI conjI impI; fastforce simp: ex_callbacks_def readable_def ex_create_client_profile_def ex_create_prekey_profile_def)
  moreover have "other_callbacks_ok ex_callbacks" by (auto simp: other_callbacks_ok_def ex_callbacks_def)
  ultimately show ?thesis by (simp add: application_ok_def)
qed

lemma ex_full_client_ok: "set_up ex_crypto 0x100 ex_full_client" "limits_ok ex_full_client" "find_client_instag ex_full_client = Some 0x100"
  "cl_our_prekeys ex_full_client = []" "cl_prekey_msgs_num_to_publish ex_full_client = 0"
  by (simp_all add: set_up_def limits_ok_def readable_def find_client_instag_def otrl_instag_find_def ex_full_client_def otrng_client_new_def ex_client_def
      otrng_client_s.defs prekey_client_s.defs full_client_s.defs)

lemma ex_ephemeral_total: "otrng_generate_ephemeral_keys ex_crypto r \<noteq> None"
  by (rule ecdh_keypair_total[OF ex_goldilocks_ok, of "r 0"], rule dh_keypair_total[OF ex_gcrypt_ok ex_sponge_ok, of "r 1"])
     (simp add: otrng_generate_ephemeral_keys_def)

theorem ensure_correct_state_ok_witness:
  "\<exists>client' client''. otrng_client_ensure_correct_state ex_crypto ex_zero (\<lambda>i. (\<lambda>j. [of_nat i, of_nat j], of_nat i)) ex_callbacks 20 ex_full_client = Some client' \<and>
    otrng_client_verify_correct_state ex_crypto ex_callbacks 20 client' = Some (True, client'') \<and>
    unat (cl_minimum_stored_prekey_msg client') \<le> length (cl_our_prekeys client') \<and> cl_fingerprints client' \<noteq> None \<and> cl_fingerprints_v3_loaded client'"
  by (rule ensure_correct_state_ok[OF ex_ephemeral_total ex_application_ok ex_full_client_ok(1,2)])

theorem prekey_messages_wrap_witness:
  "\<exists>client'. create_new_prekey_messages ex_crypto ex_zero (\<lambda>i. (\<lambda>j. [of_nat i, of_nat j], of_nat i)) ex_callbacks
     (otrng_client_set_max_published_prekey_msg 256 ex_full_client) = Some client' \<and> length (cl_our_prekeys client') = 0"
  using prekey_messages_wrap[where client = "otrng_client_set_max_published_prekey_msg 256 ex_full_client" and tag = "0x100", OF ex_ephemeral_total,
      of ex_zero "\<lambda>i. (\<lambda>j. [of_nat i, of_nat j], of_nat i)" ex_callbacks] ex_full_client_ok(3-5)
  by (simp add: otrng_client_set_max_published_prekey_msg_def find_client_instag_def)

definition ex_unpublished :: "u32 \<Rightarrow> (int, int, nat) prekey_message_s" where
  "ex_unpublished i = (otrng_prekey_message_new ex_zero)\<lparr>pm_id := i, pm_should_publish := 1\<rparr>"

definition ex_publishing_client :: "(int, int, nat) full_client_s" where
  "ex_publishing_client = ex_full_client\<lparr>cl_client_profile := Some (client_profile_zero ex_zero), cl_prekey_profile := Some (prekey_profile_zero ex_zero),
     cl_our_prekeys := [ex_unpublished 1, ex_unpublished 2]\<rparr>"

definition ex_started :: "(int, int, nat) full_client_s" where
  "ex_started = snd (otrng_prekey_add_prekey_messages_for_publication ex_zero ex_publishing_client otrng_prekey_publication_message_new)"

theorem publication_cycle_witness:
  "(\<exists>done. otrng_client_published ex_callbacks (ex_started\<lparr>cl_our_prekeys := cl_our_prekeys ex_started @ [ex_unpublished 3]\<rparr>) = Some done \<and>
      filter to_be_published (cl_our_prekeys done) = [ex_unpublished 3]) \<and>
   (\<exists>failed. otrng_client_failed_published (ex_started\<lparr>cl_our_prekeys := cl_our_prekeys ex_started @ [ex_unpublished 3]\<rparr>) = Some failed \<and>
      filter to_be_published (cl_our_prekeys failed) = [ex_unpublished 1, ex_unpublished 2, ex_unpublished 3])"
proof -
  have st: "stores_ok ex_callbacks" using ex_application_ok by (simp add: application_ok_def)
  have pr: "cl_client_profile ex_publishing_client = Some (client_profile_zero ex_zero)" "cl_prekey_profile ex_publishing_client = Some (prekey_profile_zero ex_zero)"
    by (simp_all add: ex_publishing_client_def)
  have idle: "list_all (\<lambda>pm. \<not> pm_is_publishing pm) (cl_our_prekeys ex_publishing_client @ [ex_unpublished 3])"
    by (simp add: ex_publishing_client_def ex_unpublished_def otrng_prekey_message_new_def)
  have "otrng_prekey_add_prekey_messages_for_publication ex_zero ex_publishing_client otrng_prekey_publication_message_new =
      (fst (otrng_prekey_add_prekey_messages_for_publication ex_zero ex_publishing_client otrng_prekey_publication_message_new), ex_started)"
    by (simp add: ex_started_def)
  from publication_cycle[OF st pr idle this refl] show ?thesis
    by (simp add: ex_publishing_client_def ex_unpublished_def otrng_prekey_message_new_def to_be_published_def)
qed

end
