(* ===== verification/Client.thy ===== *)
theory Client
  imports Client_State Session
begin

text \<open>
  \<open>client.c\<close>, the conversations of a client, and the part of \<open>smp.c\<close> that a user starts.  A conversation is found
  by the name of the recipient in the list of the client.  All conversations share the client they point to: an operation
  runs with the fields of the client put into \<open>otr_client\<close>, and what it changes there is written back.  A node of the list
  whose conversation has been freed is \<open>None\<close>; reading it is a fault, and a fault is \<open>None\<close> as everywhere.
\<close>

subsection \<open>The user's part of the socialist millionaires protocol\<close>

definition tell_smp :: "smp_callback list \<Rightarrow> ('p, 's, 'm) otrng_s \<Rightarrow> ('p, 's, 'm) otrng_s" where
  "tell_smp es otr = otr\<lparr>otr_events := otr_events otr @ map Smp_event es\<rparr>"

definition profile_keys :: "'p otrng_client_profile_s \<Rightarrow> 'p \<times> 'p" where
  "profile_keys p = (cp_long_term_pub_key p, cp_forging_pub_key p)"

text \<open>The message that carries a record.\<close>

definition send_smp_record ::
    "('p, 's, 'm, 'h) crypto_ops \<Rightarrow> ('p, 's) wiped \<Rightarrow> (nat \<Rightarrow> bytes) \<Rightarrow> int \<Rightarrow> tlv_s list \<Rightarrow> ('p, 's, 'm) otrng_s
     \<Rightarrow> (bool \<times> string option \<times> ('p, 's, 'm) otrng_s) option" where
  "send_smp_record C Z rnd now records otr = do {
     (s, otr) \<leftarrow> otrng_prepare_to_send_data_message C Z (later draws_per_tlv rnd) now [] records MSG_FLAGS_IGNORE_UNREADABLE otr;
     Some (s \<noteq> None, s, otr) }"

definition otrng_smp_start ::
    "('p, 's, 'm, 'h) crypto_ops \<Rightarrow> ('p, 's) wiped \<Rightarrow> (nat \<Rightarrow> bytes) \<Rightarrow> int \<Rightarrow> bytes option \<Rightarrow> nat \<Rightarrow> bytes \<Rightarrow> ('p, 's, 'm) otrng_s
     \<Rightarrow> (bool \<times> string option \<times> ('p, 's, 'm) otrng_s) option" where
  "otrng_smp_start C Z rnd now question q_len answer otr =
     (if otr_running_version otr = 3 then do {
        (s, conn, told) \<leftarrow> otrng_v3_smp_start (cl_libotr (otr_client otr)) (v3_smp_callbacks otr) question q_len answer (otr_v3_conn otr);
        Some (True, s, after_v3 (Some conn, told) otr) }
      else if otr_running_version otr = 4 then
        if otr_state otr \<noteq> OTRNG_STATE_ENCRYPTED_MESSAGES then Some (False, None, otr)
        else do {
          (ours, otr) \<leftarrow> get_my_client_profile otr;
          theirs \<leftarrow> otr_their_client_profile otr;
          (smp_start_tlv, told, smp) \<leftarrow> otrng_smp_initiate C rnd (cl_smp_callbacks (otr_client otr)) (profile_keys ours) (profile_keys theirs)
            question q_len answer (ssid (otr_keys otr)) (otr_smp otr);
          let otr = tell_smp told (otr\<lparr>otr_smp := smp\<rparr>);
          (case smp_start_tlv of
             None \<Rightarrow> Some (False, None, otr)
           | Some tlv \<Rightarrow>
               (case otrng_tlv_list_one (Some tlv) of
                  None \<Rightarrow> Some (False, None, otr)
                | Some records \<Rightarrow> send_smp_record C Z rnd now records otr)) }
      else Some (False, None, otr))"

definition smp_continue_v4 ::
    "('p, 's, 'm, 'h) crypto_ops \<Rightarrow> ('p, 's) wiped \<Rightarrow> (nat \<Rightarrow> bytes) \<Rightarrow> int \<Rightarrow> bytes \<Rightarrow> ('p, 's, 'm) otrng_s
     \<Rightarrow> (bool \<times> string option \<times> ('p, 's, 'm) otrng_s) option" where
  "smp_continue_v4 C Z rnd now secret otr = do {
     (ours, otr) \<leftarrow> get_my_client_profile otr;
     theirs \<leftarrow> otr_their_client_profile otr;
     (event, reply, smp) \<leftarrow> otrng_smp_provide_secret C rnd OTRNG_SMP_EVENT_NONE (otr_smp otr) (profile_keys ours) (profile_keys theirs)
       (ssid (otr_keys otr)) secret;
     let otr = otr\<lparr>otr_smp := smp\<rparr>;
     (case otrng_tlv_list_one reply of
        None \<Rightarrow> Some (False, None, otr)
      | Some records \<Rightarrow> do {
          let event = (if event = OTRNG_SMP_EVENT_NONE then OTRNG_SMP_EVENT_IN_PROGRESS else event);
          m \<leftarrow> message1 (otr_smp otr);
          let otr = tell_smp (handle_smp_event_cb_v4 (cl_smp_callbacks (otr_client otr)) event (progress (otr_smp otr)) (m1_question m) (m1_q_len m)) otr;
          send_smp_record C Z rnd now records otr }) }"

definition otrng_smp_continue ::
    "('p, 's, 'm, 'h) crypto_ops \<Rightarrow> ('p, 's) wiped \<Rightarrow> (nat \<Rightarrow> bytes) \<Rightarrow> int \<Rightarrow> bytes \<Rightarrow> ('p, 's, 'm) otrng_s
     \<Rightarrow> (bool \<times> string option \<times> ('p, 's, 'm) otrng_s) option" where
  "otrng_smp_continue C Z rnd now secret otr =
     (if otr_running_version otr = OTRNG_PROTOCOL_VERSION_3 then do {
        (s, conn, told) \<leftarrow> otrng_v3_smp_continue (cl_libotr (otr_client otr)) (v3_smp_callbacks otr) secret (otr_v3_conn otr);
        Some (True, s, after_v3 (Some conn, told) otr) }
      else if otr_running_version otr = ucast OTRNG_PROTOCOL_VERSION_4 then smp_continue_v4 C Z rnd now secret otr
      else Some (False, None, otr))"

definition otrng_smp_abort_v4 ::
    "('p, 's, 'm, 'h) crypto_ops \<Rightarrow> ('p, 's) wiped \<Rightarrow> (nat \<Rightarrow> bytes) \<Rightarrow> int \<Rightarrow> ('p, 's, 'm) otrng_s
     \<Rightarrow> (bool \<times> string option \<times> ('p, 's, 'm) otrng_s) option" where
  "otrng_smp_abort_v4 C Z rnd now otr =
     (case otrng_tlv_list_one (otrng_tlv_new (of_int OTRNG_TLV_SMP_ABORT) 0 None) of
        None \<Rightarrow> Some (False, None, otr)
      | Some records \<Rightarrow> send_smp_record C Z rnd now records (otr\<lparr>otr_smp := (otr_smp otr)\<lparr>state_expect := SMP_STATE_EXPECT_1\<rparr>\<rparr>))"

definition otrng_smp_abort ::
    "('p, 's, 'm, 'h) crypto_ops \<Rightarrow> ('p, 's) wiped \<Rightarrow> (nat \<Rightarrow> bytes) \<Rightarrow> int \<Rightarrow> ('p, 's, 'm) otrng_s
     \<Rightarrow> (bool \<times> string option \<times> ('p, 's, 'm) otrng_s) option" where
  "otrng_smp_abort C Z rnd now otr =
     (if otr_running_version otr = 3 then do {
        (conn, told) \<leftarrow> otrng_v3_smp_abort (cl_libotr (otr_client otr)) (v3_smp_callbacks otr) (otr_v3_conn otr);
        Some (True, None, after_v3 (Some conn, told) otr) }
      else if otr_running_version otr = 4 then otrng_smp_abort_v4 C Z rnd now otr
      else Some (False, None, otr))"

subsection \<open>The conversations of a client\<close>

record ('p, 's, 'm) otrng_conversation_s =
  cv_recipient :: string
  cv_conn :: "('p, 's, 'm) otrng_s"

record ('p, 's, 'm) registry_s =
  reg_client :: "('p, 's, 'm) full_client_s"
  reg_conversations :: "('p, 's, 'm) otrng_conversation_s option list"

definition shared_client :: "('p, 's, 'm) full_client_s \<Rightarrow> ('p, 's, 'm) otrng_client_s" where
  "shared_client client = otrng_client_s.truncate client"

definition write_back :: "('p, 's, 'm) otrng_client_s \<Rightarrow> ('p, 's, 'm) full_client_s \<Rightarrow> ('p, 's, 'm) full_client_s" where
  "write_back c client = otrng_client_s.extend c (otrng_client_s.more client)"

text \<open>The connection as the code sees it: its client is the client.\<close>

definition connection :: "('p, 's, 'm) registry_s \<Rightarrow> ('p, 's, 'm) otrng_conversation_s \<Rightarrow> ('p, 's, 'm) otrng_s" where
  "connection reg conv = (cv_conn conv)\<lparr>otr_client := shared_client (reg_client reg)\<rparr>"

definition new_conversation_with :: "string \<Rightarrow> ('p, 's, 'm) otrng_s \<Rightarrow> ('p, 's, 'm) otrng_conversation_s" where
  "new_conversation_with r c = \<lparr>cv_recipient = r, cv_conn = c\<rparr>"

text \<open>The position of the conversation in the list; the outer \<open>None\<close> is a read of a freed conversation.\<close>

fun get_conversation_with :: "string \<Rightarrow> ('p, 's, 'm) otrng_conversation_s option list \<Rightarrow> nat option option" where
  "get_conversation_with r [] = Some None"
| "get_conversation_with r (None # rest) = None"
| "get_conversation_with r (Some conv # rest) =
     (if cv_recipient conv = r then Some (Some 0) else map_option (map_option Suc) (get_conversation_with r rest))"

definition otrng_conversation_is_encrypted :: "libotr \<Rightarrow> ('p, 's, 'm) otrng_conversation_s option \<Rightarrow> bool option" where
  "otrng_conversation_is_encrypted L conv = (case conv of
     None \<Rightarrow> Some False
   | Some c \<Rightarrow>
       if otr_running_version (cv_conn c) = 3 then do {
         v3 \<leftarrow> otr_v3_conn (cv_conn c);
         ctx \<leftarrow> v3_ctx v3;
         Some (context_msgstate L ctx = OTRL_MSGSTATE_ENCRYPTED) }
       else if otr_running_version (cv_conn c) = 4 then Some (otr_state (cv_conn c) = OTRNG_STATE_ENCRYPTED_MESSAGES)
       else Some False)"

definition otrng_conversation_is_finished :: "libotr \<Rightarrow> ('p, 's, 'm) otrng_conversation_s option \<Rightarrow> bool option" where
  "otrng_conversation_is_finished L conv = (case conv of
     None \<Rightarrow> Some False
   | Some c \<Rightarrow>
       if otr_running_version (cv_conn c) = 3 then do {
         v3 \<leftarrow> otr_v3_conn (cv_conn c);
         ctx \<leftarrow> v3_ctx v3;
         Some (context_msgstate L ctx = OTRL_MSGSTATE_FINISHED) }
       else if otr_running_version (cv_conn c) = 4 then Some (otr_state (cv_conn c) = OTRNG_STATE_FINISHED)
       else Some False)"

definition create_connection_for ::
    "('p, 's) wiped \<Rightarrow> ('p, 's, 'm) otrng_client_callbacks_s \<Rightarrow> string \<Rightarrow> ('p, 's, 'm) full_client_s \<Rightarrow> ('p, 's, 'm) otrng_s" where
  "create_connection_for Z cb r client = (
     let policy = get_policy_for cb client in
     (otrng_new Z (shared_client client) (policy_allows policy) (policy_type policy))\<lparr>otr_v3_conn := Some (otrng_v3_conn_new r)\<rparr>)"

definition get_or_create_conversation_with ::
    "('p, 's) wiped \<Rightarrow> ('p, 's, 'm) otrng_client_callbacks_s \<Rightarrow> string \<Rightarrow> ('p, 's, 'm) registry_s
     \<Rightarrow> (nat \<times> ('p, 's, 'm) registry_s) option" where
  "get_or_create_conversation_with Z cb r reg = do {
     found \<leftarrow> get_conversation_with r (reg_conversations reg);
     Some (case found of
        Some i \<Rightarrow> (i, reg)
      | None \<Rightarrow> (length (reg_conversations reg), reg\<lparr>reg_conversations := reg_conversations reg @
          [Some (new_conversation_with r (create_connection_for Z cb r (reg_client reg)))]\<rparr>)) }"

definition otrng_client_get_conversation ::
    "('p, 's) wiped \<Rightarrow> ('p, 's, 'm) otrng_client_callbacks_s \<Rightarrow> bool \<Rightarrow> string \<Rightarrow> ('p, 's, 'm) registry_s
     \<Rightarrow> (nat option \<times> ('p, 's, 'm) registry_s) option" where
  "otrng_client_get_conversation Z cb force_create r reg =
     (if force_create then map_option (\<lambda>(i, reg). (Some i, reg)) (get_or_create_conversation_with Z cb r reg)
      else map_option (\<lambda>i. (i, reg)) (get_conversation_with r (reg_conversations reg)))"

text \<open>An operation on the connection of the conversation at a position, and on the conversation with a recipient.\<close>

definition at_conversation ::
    "nat \<Rightarrow> (('p, 's, 'm) otrng_s \<Rightarrow> ('r \<times> ('p, 's, 'm) otrng_s) option) \<Rightarrow> ('p, 's, 'm) registry_s \<Rightarrow> ('r \<times> ('p, 's, 'm) registry_s) option" where
  "at_conversation i f reg = do {
     conv \<leftarrow> reg_conversations reg ! i;
     (r, otr) \<leftarrow> f (connection reg conv);
     Some (r, reg\<lparr>reg_client := write_back (otr_client otr) (reg_client reg),
       reg_conversations := (reg_conversations reg)[i := Some (conv\<lparr>cv_conn := otr\<rparr>)]\<rparr>) }"

definition with_conversation ::
    "('p, 's) wiped \<Rightarrow> ('p, 's, 'm) otrng_client_callbacks_s \<Rightarrow> string \<Rightarrow> (('p, 's, 'm) otrng_s \<Rightarrow> ('r \<times> ('p, 's, 'm) otrng_s) option)
     \<Rightarrow> ('p, 's, 'm) registry_s \<Rightarrow> ('r \<times> ('p, 's, 'm) registry_s) option" where
  "with_conversation Z cb r f reg = do {
     (i, reg) \<leftarrow> get_or_create_conversation_with Z cb r reg;
     at_conversation i f reg }"

subsection \<open>The operations of the application\<close>

definition send_message ::
    "('p, 's, 'm, 'h) crypto_ops \<Rightarrow> ('p, 's) wiped \<Rightarrow> (nat \<Rightarrow> bytes) \<Rightarrow> int \<Rightarrow> ('p, 's, 'm) otrng_client_callbacks_s \<Rightarrow> string \<Rightarrow> string
     \<Rightarrow> ('p, 's, 'm) registry_s \<Rightarrow> (string option \<times> ('p, 's, 'm) registry_s) option" where
  "send_message C Z rnd now cb msg r reg = with_conversation Z cb r (otrng_send_message C Z rnd now msg [] 0) reg"

definition localize_error_message ::
    "('p, 's, 'm) otrng_client_callbacks_s \<Rightarrow> ('p, 's, 'm) full_client_s \<Rightarrow> otrng_localized_error_message_type \<Rightarrow> string" where
  "localize_error_message cb client message_type = (case localized_error_message cb of
     Some f \<Rightarrow> f client message_type
   | None \<Rightarrow> (case message_type of
       OTRNG_ERROR_MESSAGE_FAILURE_START \<Rightarrow> ''Failed to start an Off-the-Record private conversation.''))"

text \<open>What an opening message leads to: the message, or the text of the error.\<close>

definition or_failure ::
    "('p, 's, 'm) otrng_client_callbacks_s \<Rightarrow> string option \<times> ('p, 's, 'm) registry_s \<Rightarrow> string \<times> ('p, 's, 'm) registry_s" where
  "or_failure cb r = (case r of (msg, reg) \<Rightarrow>
     (case msg of None \<Rightarrow> localize_error_message cb (reg_client reg) OTRNG_ERROR_MESSAGE_FAILURE_START | Some m \<Rightarrow> m, reg))"

definition otrng_client_query_message ::
    "('p, 's) wiped \<Rightarrow> ('p, 's, 'm) otrng_client_callbacks_s \<Rightarrow> string \<Rightarrow> string \<Rightarrow> ('p, 's, 'm) registry_s
     \<Rightarrow> (string \<times> ('p, 's, 'm) registry_s) option" where
  "otrng_client_query_message Z cb r msg reg =
     map_option (or_failure cb) (with_conversation Z cb r (\<lambda>otr. Some (otrng_build_query_message msg otr, otr)) reg)"

definition OTRNG_IDENTITY_START_DAKE :: byte where [const_defs]: "OTRNG_IDENTITY_START_DAKE = 0x12"
definition OTRNG_REQUIRE_INTERACTIVE :: byte where [const_defs]: "OTRNG_REQUIRE_INTERACTIVE = 0x08"

text \<open>When the policy does not allow it the conversation is freed and stays in the list.\<close>

definition otrng_client_identity_message ::
    "('p, 's, 'm, 'h) crypto_ops \<Rightarrow> ('p, 's) wiped \<Rightarrow> (nat \<Rightarrow> bytes) \<Rightarrow> int \<Rightarrow> ('p, 's, 'm) otrng_client_callbacks_s \<Rightarrow> string
     \<Rightarrow> ('p, 's, 'm) registry_s \<Rightarrow> (string option \<times> ('p, 's, 'm) registry_s) option" where
  "otrng_client_identity_message C Z rnd now cb r reg = do {
     (i, reg) \<leftarrow> get_or_create_conversation_with Z cb r reg;
     conv \<leftarrow> reg_conversations reg ! i;
     if otr_policy_type (cv_conn conv) AND OTRNG_IDENTITY_START_DAKE = 0
     then Some (None, reg\<lparr>reg_conversations := (reg_conversations reg)[i := None]\<rparr>)
     else map_option (apfst Some \<circ> or_failure cb) (at_conversation i (otrng_build_identity_message C Z rnd now) reg) }"

definition otrng_client_init_message ::
    "('p, 's, 'm, 'h) crypto_ops \<Rightarrow> ('p, 's) wiped \<Rightarrow> (nat \<Rightarrow> bytes) \<Rightarrow> int \<Rightarrow> ('p, 's, 'm) otrng_client_callbacks_s \<Rightarrow> string \<Rightarrow> string
     \<Rightarrow> ('p, 's, 'm) registry_s \<Rightarrow> (string \<times> ('p, 's, 'm) registry_s) option" where
  "otrng_client_init_message C Z rnd now cb r msg reg = map_option (or_failure cb) (with_conversation Z cb r (\<lambda>otr.
     if otr_policy_type otr AND OTRNG_IDENTITY_START_DAKE \<noteq> 0 then otrng_build_identity_message C Z rnd now otr
     else if otr_policy_type otr AND OTRNG_SEND_WHITESPACE_TAG \<noteq> 0 then Some (otrng_build_whitespace_tag msg otr, otr)
     else Some (otrng_build_query_message msg otr, otr)) reg)"

definition otrng_client_send ::
    "('p, 's, 'm, 'h) crypto_ops \<Rightarrow> ('p, 's) wiped \<Rightarrow> (nat \<Rightarrow> bytes) \<Rightarrow> int \<Rightarrow> ('p, 's, 'm) otrng_client_callbacks_s \<Rightarrow> string \<Rightarrow> string
     \<Rightarrow> ('p, 's, 'm) registry_s \<Rightarrow> (string option \<times> ('p, 's, 'm) registry_s) option" where
  "otrng_client_send C Z rnd now cb msg r reg = send_message C Z rnd now cb msg r reg"

definition otrng_client_send_non_interactive_auth ::
    "('p, 's, 'm, 'h) crypto_ops \<Rightarrow> ('p, 's) wiped \<Rightarrow> (nat \<Rightarrow> bytes) \<Rightarrow> int \<Rightarrow> ('p, 's, 'm) otrng_client_callbacks_s \<Rightarrow> ('p, 's, 'm) prekey_ensemble_s
     \<Rightarrow> string \<Rightarrow> ('p, 's, 'm) registry_s \<Rightarrow> ((bool \<times> string option) \<times> ('p, 's, 'm) registry_s) option" where
  "otrng_client_send_non_interactive_auth C Z rnd now cb ensemble r reg = with_conversation Z cb r (\<lambda>otr.
     if otr_policy_type otr = OTRNG_REQUIRE_INTERACTIVE then Some ((False, None), otr)
     else if peer_refused C otr then Some ((False, None), otr)
     else do {
       (ok, s, otr) \<leftarrow> otrng_send_non_interactive_auth C Z rnd now ensemble otr;
       Some ((ok, s), otr) }) reg"

text \<open>The conversation that is fetched first is the one the message is sent in.  The pieces are \<open>None\<close> for
  \<open>OTRNG_ERROR\<close>.\<close>

definition otrng_client_send_fragment ::
    "('p, 's, 'm, 'h) crypto_ops \<Rightarrow> ('p, 's) wiped \<Rightarrow> (nat \<Rightarrow> bytes) \<Rightarrow> u32 option \<Rightarrow> int \<Rightarrow> ('p, 's, 'm) otrng_client_callbacks_s \<Rightarrow> string \<Rightarrow> int \<Rightarrow> string
     \<Rightarrow> ('p, 's, 'm) registry_s \<Rightarrow> (string list option \<times> ('p, 's, 'm) registry_s) option" where
  "otrng_client_send_fragment C Z rnd identifier now cb msg mms r reg = do {
     (i, reg) \<leftarrow> get_or_create_conversation_with Z cb r reg;
     (to_send, reg) \<leftarrow> send_message C Z rnd now cb msg r reg;
     (case to_send of
        None \<Rightarrow> Some (None, reg)
      | Some s \<Rightarrow> do {
          conv \<leftarrow> reg_conversations reg ! i;
          pieces \<leftarrow> otrng_fragment_message mms identifier (cl_instance_tag (reg_client reg)) (otr_their_instance_tag (cv_conn conv)) s;
          Some (pieces, reg) }) }"

definition otrng_client_smp_start ::
    "('p, 's, 'm, 'h) crypto_ops \<Rightarrow> ('p, 's) wiped \<Rightarrow> (nat \<Rightarrow> bytes) \<Rightarrow> int \<Rightarrow> ('p, 's, 'm) otrng_client_callbacks_s \<Rightarrow> string \<Rightarrow> bytes option \<Rightarrow> nat \<Rightarrow> bytes
     \<Rightarrow> ('p, 's, 'm) registry_s \<Rightarrow> ((bool \<times> string option) \<times> ('p, 's, 'm) registry_s) option" where
  "otrng_client_smp_start C Z rnd now cb r question q_len secret reg = with_conversation Z cb r (\<lambda>otr. do {
     (ok, s, otr) \<leftarrow> otrng_smp_start C Z rnd now question q_len secret otr;
     Some ((ok, s), otr) }) reg"

definition otrng_client_smp_respond ::
    "('p, 's, 'm, 'h) crypto_ops \<Rightarrow> ('p, 's) wiped \<Rightarrow> (nat \<Rightarrow> bytes) \<Rightarrow> int \<Rightarrow> ('p, 's, 'm) otrng_client_callbacks_s \<Rightarrow> string \<Rightarrow> bytes
     \<Rightarrow> ('p, 's, 'm) registry_s \<Rightarrow> ((bool \<times> string option) \<times> ('p, 's, 'm) registry_s) option" where
  "otrng_client_smp_respond C Z rnd now cb r secret reg = with_conversation Z cb r (\<lambda>otr. do {
     (ok, s, otr) \<leftarrow> otrng_smp_continue C Z rnd now secret otr;
     Some ((ok, s), otr) }) reg"

definition otrng_client_smp_abort ::
    "('p, 's, 'm, 'h) crypto_ops \<Rightarrow> ('p, 's) wiped \<Rightarrow> (nat \<Rightarrow> bytes) \<Rightarrow> int \<Rightarrow> ('p, 's, 'm) otrng_client_callbacks_s \<Rightarrow> string
     \<Rightarrow> ('p, 's, 'm) registry_s \<Rightarrow> ((bool \<times> string option) \<times> ('p, 's, 'm) registry_s) option" where
  "otrng_client_smp_abort C Z rnd now cb r reg = with_conversation Z cb r (\<lambda>otr. do {
     (ok, s, otr) \<leftarrow> otrng_smp_abort C Z rnd now otr;
     Some ((ok, s), otr) }) reg"

text \<open>The result says whether the call succeeded, what is to be sent and what is to be shown.\<close>

definition otrng_client_receive ::
    "('p, 's, 'm, 'h) crypto_ops \<Rightarrow> ('p, 's) wiped \<Rightarrow> (nat \<Rightarrow> bytes) \<Rightarrow> int \<Rightarrow> nat \<Rightarrow> ('p, 's, 'm) otrng_client_callbacks_s \<Rightarrow> string \<Rightarrow> string
     \<Rightarrow> ('p, 's, 'm) registry_s \<Rightarrow> ((bool \<times> string option \<times> string option) \<times> ('p, 's, 'm) registry_s) option" where
  "otrng_client_receive C Z rnd now junk cb msg r reg = with_conversation Z cb r (\<lambda>otr. do {
     (result, response, otr) \<leftarrow> otrng_receive_message C Z rnd now junk otrng_response_new msg otr;
     Some ((result \<or> to_display response \<noteq> None, to_send response, to_display response), otr) }) reg"

subsection \<open>The end of conversations\<close>

definition destroy_client_conversation :: "nat \<Rightarrow> ('p, 's, 'm) registry_s \<Rightarrow> ('p, 's, 'm) registry_s" where
  "destroy_client_conversation i reg =
     reg\<lparr>reg_conversations := take i (reg_conversations reg) @ drop (Suc i) (reg_conversations reg)\<rparr>"

definition otrng_client_disconnect_conversation ::
    "('p, 's, 'm, 'h) crypto_ops \<Rightarrow> ('p, 's) wiped \<Rightarrow> (nat \<Rightarrow> bytes) \<Rightarrow> int \<Rightarrow> nat \<Rightarrow> ('p, 's, 'm) registry_s
     \<Rightarrow> ((bool \<times> string option) \<times> ('p, 's, 'm) registry_s) option" where
  "otrng_client_disconnect_conversation C Z rnd now i reg = do {
     ((ok, msg), reg) \<leftarrow> at_conversation i (\<lambda>otr. do {
       (ok, s, otr) \<leftarrow> otrng_close C Z rnd now otr;
       Some ((ok, s), otr) }) reg;
     Some (if \<not> ok then ((False, msg), reg) else ((True, msg), destroy_client_conversation i reg)) }"

definition otrng_client_disconnect ::
    "('p, 's, 'm, 'h) crypto_ops \<Rightarrow> ('p, 's) wiped \<Rightarrow> (nat \<Rightarrow> bytes) \<Rightarrow> int \<Rightarrow> string \<Rightarrow> ('p, 's, 'm) registry_s
     \<Rightarrow> ((bool \<times> string option) \<times> ('p, 's, 'm) registry_s) option" where
  "otrng_client_disconnect C Z rnd now r reg = do {
     found \<leftarrow> get_conversation_with r (reg_conversations reg);
     (case found of
        None \<Rightarrow> Some ((False, None), reg)
      | Some i \<Rightarrow> otrng_client_disconnect_conversation C Z rnd now i reg) }"

definition get_session_expiry_time_from :: "('p, 's, 'm) otrng_client_callbacks_s \<Rightarrow> ('p, 's, 'm) otrng_s \<Rightarrow> u32" where
  "get_session_expiry_time_from cb otr = session_expiration_time_for cb otr"

text \<open>After the conversation has been disconnected its connection is freed; injecting the message reads it.\<close>

definition otrng_client_expire_session ::
    "('p, 's, 'm, 'h) crypto_ops \<Rightarrow> ('p, 's) wiped \<Rightarrow> (nat \<Rightarrow> bytes) \<Rightarrow> int \<Rightarrow> ('p, 's, 'm) otrng_client_callbacks_s \<Rightarrow> nat \<Rightarrow> ('p, 's, 'm) registry_s
     \<Rightarrow> ('p, 's, 'm) registry_s option" where
  "otrng_client_expire_session C Z rnd now cb i reg = do {
     conv \<leftarrow> reg_conversations reg ! i;
     (case (case session_expiration_policy_for cb of None \<Rightarrow> OTRNG_SESSION_EXPIRY_DO_TEARDOWN | Some f \<Rightarrow> f (connection reg conv)) of
        OTRNG_SESSION_EXPIRY_DO_TEARDOWN \<Rightarrow> do {
          ((ok, msg), reg) \<leftarrow> otrng_client_disconnect_conversation C Z rnd now i reg;
          if msg \<noteq> None \<and> ok then None else Some reg }
      | OTRNG_SESSION_EXPIRY_DO_NOTHING \<Rightarrow> Some reg) }"

text \<open>The loop over the positions of the list.  \<open>conv\<close> is the conversation of the round before, \<open>None\<close> at first; a
  conversation that was disconnected takes its node with it, whose successor is read next.\<close>

fun expire_sessions_loop ::
    "('p, 's, 'm, 'h) crypto_ops \<Rightarrow> ('p, 's) wiped \<Rightarrow> (nat \<Rightarrow> bytes) \<Rightarrow> int \<Rightarrow> ('p, 's, 'm) otrng_client_callbacks_s \<Rightarrow> nat option \<Rightarrow> nat list
     \<Rightarrow> ('p, 's, 'm) registry_s \<Rightarrow> ('p, 's, 'm) registry_s option" where
  "expire_sessions_loop C Z rnd now cb conv [] reg = Some reg"
| "expire_sessions_loop C Z rnd now cb conv (i # rest) reg =
     (if conv = None then Some reg
      else do {
        c \<leftarrow> reg_conversations reg ! i;
        let expiration_time = get_session_expiry_time_from cb (connection reg c);
        if last_generated (otr_keys (cv_conn c)) < now - uint expiration_time
        then do {
          reg' \<leftarrow> otrng_client_expire_session C Z rnd now cb i reg;
          if length (reg_conversations reg') \<noteq> length (reg_conversations reg) then None
          else expire_sessions_loop C Z rnd now cb (Some i) rest reg' }
        else expire_sessions_loop C Z rnd now cb (Some i) rest reg })"

definition otrng_client_expire_sessions ::
    "('p, 's, 'm, 'h) crypto_ops \<Rightarrow> ('p, 's) wiped \<Rightarrow> (nat \<Rightarrow> bytes) \<Rightarrow> int \<Rightarrow> ('p, 's, 'm) otrng_client_callbacks_s \<Rightarrow> ('p, 's, 'm) registry_s
     \<Rightarrow> ('p, 's, 'm) registry_s option" where
  "otrng_client_expire_sessions C Z rnd now cb reg = expire_sessions_loop C Z rnd now cb None [0..<length (reg_conversations reg)] reg"

text \<open>\<open>otrng_expire_fragments\<close> on the list of contexts: \<open>expire_loop_eq\<close> shows that this is what the loop on the nodes
  leaves.\<close>

definition expire_contexts :: "int \<Rightarrow> u32 \<Rightarrow> fragment_context_s list \<Rightarrow> fragment_context_s list" where
  "expire_contexts now expiration_time contexts = map the (remove_first (young now (unat expiration_time)) (map Some contexts))"

definition otrng_client_expire_fragments :: "int \<Rightarrow> ('p, 's, 'm) registry_s \<Rightarrow> ('p, 's, 'm) registry_s option" where
  "otrng_client_expire_fragments now reg =
     (if None \<in> set (reg_conversations reg) then None
      else
        let t = cl_fragments_exp_time (reg_client reg);
            expire = (\<lambda>conv. conv\<lparr>cv_conn := (cv_conn conv)\<lparr>otr_pending_fragments := expire_contexts now t (otr_pending_fragments (cv_conn conv))\<rparr>\<rparr>);
            manager = map_option (\<lambda>m. m\<lparr>mg_pending_fragments := expire_contexts now t (mg_pending_fragments m)\<rparr>) (cl_prekey_manager (reg_client reg))
        in Some (reg\<lparr>reg_client := (reg_client reg)\<lparr>cl_prekey_manager := manager\<rparr>,
             reg_conversations := map (map_option expire) (reg_conversations reg)\<rparr>))"

subsection \<open>The list of conversations is a map\<close>

definition registry_ok :: "('p, 's, 'm) registry_s \<Rightarrow> bool" where
  "registry_ok reg \<longleftrightarrow> (\<exists>cs. reg_conversations reg = map Some cs \<and> distinct (map cv_recipient cs))"

type_synonym ('p, 's, 'm) conversations = "(string \<rightharpoonup> ('p, 's, 'm) otrng_conversation_s) \<times> ('p, 's, 'm) full_client_s"

definition conversations_of :: "('p, 's, 'm) otrng_conversation_s list \<Rightarrow> string \<rightharpoonup> ('p, 's, 'm) otrng_conversation_s" where
  "conversations_of cs = map_of (map (\<lambda>c. (cv_recipient c, c)) cs)"

definition abs_registry :: "('p, 's, 'm) registry_s \<Rightarrow> ('p, 's, 'm) conversations" where
  "abs_registry reg = (conversations_of (List.map_filter id (reg_conversations reg)), reg_client reg)"

text \<open>What a call does, on the map: it finds or adds the conversation of its recipient and changes that one and the
  client.\<close>

definition conversation_for ::
    "('p, 's) wiped \<Rightarrow> ('p, 's, 'm) otrng_client_callbacks_s \<Rightarrow> string \<Rightarrow> ('p, 's, 'm) conversations \<Rightarrow> ('p, 's, 'm) otrng_conversation_s" where
  "conversation_for Z cb r a = (case fst a r of Some c \<Rightarrow> c | None \<Rightarrow> new_conversation_with r (create_connection_for Z cb r (snd a)))"

definition abs_call ::
    "('p, 's) wiped \<Rightarrow> ('p, 's, 'm) otrng_client_callbacks_s \<Rightarrow> string \<Rightarrow> (('p, 's, 'm) otrng_s \<Rightarrow> ('r \<times> ('p, 's, 'm) otrng_s) option)
     \<Rightarrow> ('p, 's, 'm) conversations \<Rightarrow> ('r \<times> ('p, 's, 'm) conversations) option" where
  "abs_call Z cb r f a = do {
     let conv = conversation_for Z cb r a;
     (x, otr) \<leftarrow> f ((cv_conn conv)\<lparr>otr_client := shared_client (snd a)\<rparr>);
     Some (x, (fst a)(r \<mapsto> conv\<lparr>cv_conn := otr\<rparr>), write_back (otr_client otr) (snd a)) }"

lemma shared_write_back [simp]:
  "shared_client (write_back c client) = c" "write_back (shared_client client) client = client" "write_back c (write_back d client) = write_back c client"
  by (cases c; cases client; simp add: shared_client_def write_back_def otrng_client_s.defs)+

lemma map_filter_Some [simp]: "List.map_filter id (map Some cs) = cs" "List.map_filter id (map Some cs @ [Some c]) = cs @ [c]"
  by (simp_all add: List.map_filter_def comp_def)

lemma conversations_of_simps [simp]:
  "conversations_of [] = Map.empty"
  "conversations_of (c # cs) = (conversations_of cs)(cv_recipient c \<mapsto> c)"
  by (simp_all add: conversations_of_def)

lemma conversations_recipient: "conversations_of cs r = Some c \<Longrightarrow> cv_recipient c = r \<and> c \<in> set cs"
  by (induction cs) (auto split: if_splits)

lemma get_conversation_finds:
  assumes "distinct (map cv_recipient cs)"
  shows "get_conversation_with r (map Some cs) = Some None \<and> conversations_of cs r = None \<and> r \<notin> cv_recipient ` set cs \<or>
    (\<exists>i < length cs. get_conversation_with r (map Some cs) = Some (Some i) \<and> conversations_of cs r = Some (cs ! i) \<and> cv_recipient (cs ! i) = r)"
  using assms by (induction cs) (auto simp: nth_Cons')

lemma conversations_add: "r \<notin> cv_recipient ` set cs \<Longrightarrow> cv_recipient c = r \<Longrightarrow> conversations_of (cs @ [c]) = (conversations_of cs)(r \<mapsto> c)"
  by (induction cs) (auto simp: fun_eq_iff)

lemma conversations_update:
  assumes "distinct (map cv_recipient cs)" "i < length cs" "cv_recipient (cs ! i) = r" "cv_recipient c = r"
  shows "conversations_of (cs[i := c]) = (conversations_of cs)(r \<mapsto> c)" "map cv_recipient (cs[i := c]) = map cv_recipient cs"
proof -
  show "map cv_recipient (cs[i := c]) = map cv_recipient cs"
    using assms(3,4) by (metis list_update_id map_update)
  show "conversations_of (cs[i := c]) = (conversations_of cs)(r \<mapsto> c)"
    using assms
  proof (induction cs arbitrary: i)
    case (Cons a cs)
    show ?case
    proof (cases i)
      case (Suc j)
      with Cons.prems have j: "j < length cs" "cv_recipient (cs ! j) = r" by auto
      then have "cv_recipient a \<noteq> r" using Cons.prems(1) by (metis distinct.simps(2) length_map list.simps(9) nth_map nth_mem)
      with Suc Cons.IH[OF _ j Cons.prems(4)] Cons.prems(1) show ?thesis by (auto simp: fun_upd_twist)
    qed (use Cons.prems in \<open>simp add: fun_eq_iff\<close>)
  qed simp
qed

lemma found_or_created:
  assumes "registry_ok reg"
  obtains i reg1 cs where "get_or_create_conversation_with Z cb r reg = Some (i, reg1)" "reg_client reg1 = reg_client reg"
    "reg_conversations reg1 = map Some cs" "distinct (map cv_recipient cs)" "i < length cs" "cs ! i = conversation_for Z cb r (abs_registry reg)"
    "cv_recipient (cs ! i) = r" "\<And>c. (conversations_of cs)(r \<mapsto> c) = (fst (abs_registry reg))(r \<mapsto> c)"
proof -
  from assms obtain cs where cs: "reg_conversations reg = map Some cs" "distinct (map cv_recipient cs)" by (auto simp: registry_ok_def)
  have a: "abs_registry reg = (conversations_of cs, reg_client reg)" by (simp add: abs_registry_def cs(1))
  from get_conversation_finds[OF cs(2), of r] show ?thesis
  proof (elim disjE exE conjE)
    assume n: "get_conversation_with r (map Some cs) = Some None" "conversations_of cs r = None" "r \<notin> cv_recipient ` set cs"
    let ?c = "new_conversation_with r (create_connection_for Z cb r (reg_client reg))"
    have "cv_recipient ?c = r" by (simp add: new_conversation_with_def)
    then show ?thesis using n cs conversations_add[OF n(3), of ?c]
      by (intro that[of "length cs" "reg\<lparr>reg_conversations := map Some cs @ [Some ?c]\<rparr>" "cs @ [?c]"])
         (auto simp: get_or_create_conversation_with_def a conversation_for_def)
  next
    fix i assume "i < length cs" "get_conversation_with r (map Some cs) = Some (Some i)" "conversations_of cs r = Some (cs ! i)" "cv_recipient (cs ! i) = r"
    then show ?thesis using cs by (intro that[of i reg cs]) (simp_all add: get_or_create_conversation_with_def a conversation_for_def)
  qed
qed

lemma with_conversation_refines:
  assumes "registry_ok reg"
  shows "map_option (apsnd abs_registry) (with_conversation Z cb r f reg) = abs_call Z cb r f (abs_registry reg)"
    "with_conversation Z cb r f reg = Some (x, reg') \<Longrightarrow> registry_ok reg'"
proof -
  obtain i reg1 cs where c: "get_or_create_conversation_with Z cb r reg = Some (i, reg1)" "reg_client reg1 = reg_client reg"
    "reg_conversations reg1 = map Some cs" "distinct (map cv_recipient cs)" "i < length cs" "cs ! i = conversation_for Z cb r (abs_registry reg)"
    "cv_recipient (cs ! i) = r" and up: "\<And>c. (conversations_of cs)(r \<mapsto> c) = (fst (abs_registry reg))(r \<mapsto> c)"
    by (rule found_or_created[OF assms, of Z cb r]) blast
  show "map_option (apsnd abs_registry) (with_conversation Z cb r f reg) = abs_call Z cb r f (abs_registry reg)"
    using c(1-6) conversations_update(1)[OF c(4,5,7)] c(7)
    by (auto simp: with_conversation_def at_conversation_def abs_call_def connection_def up Let_def abs_registry_def map_update[symmetric]
        split: Option.bind_splits)
  show "registry_ok reg'" if "with_conversation Z cb r f reg = Some (x, reg')"
    using that c(1-6) conversations_update(2)[OF c(4,5,7)] c(7)
    by (auto simp: with_conversation_def at_conversation_def registry_ok_def map_update[symmetric] split: Option.bind_splits)
qed

lemma at_conversation_client: "at_conversation i f reg = Some (x, reg') \<Longrightarrow> length (reg_conversations reg') = length (reg_conversations reg)"
  by (auto simp: at_conversation_def split: Option.bind_splits)

definition abs_disconnect ::
    "('p, 's, 'm, 'h) crypto_ops \<Rightarrow> ('p, 's) wiped \<Rightarrow> (nat \<Rightarrow> bytes) \<Rightarrow> int \<Rightarrow> string \<Rightarrow> ('p, 's, 'm) conversations
     \<Rightarrow> ((bool \<times> string option) \<times> ('p, 's, 'm) conversations) option" where
  "abs_disconnect C Z rnd now r a = (case fst a r of
     None \<Rightarrow> Some ((False, None), a)
   | Some conv \<Rightarrow> do {
       (ok, s, otr) \<leftarrow> otrng_close C Z rnd now ((cv_conn conv)\<lparr>otr_client := shared_client (snd a)\<rparr>);
       Some ((ok, s), (fst a)(r := if ok then None else Some (conv\<lparr>cv_conn := otr\<rparr>)), write_back (otr_client otr) (snd a)) })"

lemma conversations_remove:
  assumes "distinct (map cv_recipient cs)" "i < length cs" "cv_recipient (cs ! i) = r"
  shows "conversations_of (take i cs @ drop (Suc i) cs) = (conversations_of cs)(r := None)"
  using assms
proof (induction cs arbitrary: i)
  case (Cons a cs)
  show ?case
  proof (cases i)
    case 0
    have "r \<notin> cv_recipient ` set cs" using Cons.prems 0 by auto
    then have "conversations_of cs r = None" by (metis conversations_recipient image_eqI option.exhaust)
    then show ?thesis using Cons.prems 0 by (auto simp: fun_eq_iff)
  next
    case (Suc j)
    with Cons.prems have j: "j < length cs" "cv_recipient (cs ! j) = r" by auto
    then have "cv_recipient a \<noteq> r" using Cons.prems(1) by (metis distinct.simps(2) length_map list.simps(9) nth_map nth_mem)
    with Suc Cons.IH[OF _ j] Cons.prems(1) show ?thesis by (auto simp: fun_upd_twist)
  qed
qed simp

lemma registry_ok_remove:
  assumes "reg_conversations reg = map Some cs" "distinct (map cv_recipient cs)" "i < length cs"
  shows "registry_ok (destroy_client_conversation i reg)"
    "reg_conversations (destroy_client_conversation i reg) = map Some (take i cs @ drop (Suc i) cs)"
proof -
  show c: "reg_conversations (destroy_client_conversation i reg) = map Some (take i cs @ drop (Suc i) cs)"
    using assms(1) by (simp add: destroy_client_conversation_def take_map drop_map)
  have "cs = take i cs @ cs ! i # drop (Suc i) cs" using assms(3) by (rule id_take_nth_drop)
  then have "distinct (map cv_recipient (take i cs @ cs ! i # drop (Suc i) cs))" using assms(2) by simp
  then have "distinct (map cv_recipient (take i cs @ drop (Suc i) cs))" by auto
  with c show "registry_ok (destroy_client_conversation i reg)" unfolding registry_ok_def by blast
qed

lemma disconnect_conversation:
  assumes cs: "reg_conversations reg = map Some cs" "distinct (map cv_recipient cs)" "i < length cs"
  shows "map_option (apsnd abs_registry) (otrng_client_disconnect_conversation C Z rnd now i reg) =
      do { (ok, s, otr) \<leftarrow> otrng_close C Z rnd now ((cv_conn (cs ! i))\<lparr>otr_client := shared_client (reg_client reg)\<rparr>);
           Some ((ok, s), (conversations_of cs)(cv_recipient (cs ! i) := if ok then None else Some ((cs ! i)\<lparr>cv_conn := otr\<rparr>)),
             write_back (otr_client otr) (reg_client reg)) }"
    "otrng_client_disconnect_conversation C Z rnd now i reg = Some (x, reg') \<Longrightarrow> registry_ok reg'"
proof -
  let ?up = "\<lambda>otr. reg\<lparr>reg_client := write_back (otr_client otr) (reg_client reg), reg_conversations := map Some (cs[i := (cs ! i)\<lparr>cv_conn := otr\<rparr>])\<rparr>"
  have d: "distinct (map cv_recipient (cs[i := (cs ! i)\<lparr>cv_conn := otr\<rparr>]))" for otr :: "('a, 'b, 'c) otrng_s"
    using conversations_update(2)[OF cs(2,3) refl, of "(cs ! i)\<lparr>cv_conn := otr\<rparr>"] cs(2) by simp
  have a: "at_conversation i (\<lambda>otr. do { (ok, s, otr) \<leftarrow> otrng_close C Z rnd now otr; Some ((ok, s), otr) }) reg =
      do { (ok, s, otr) \<leftarrow> otrng_close C Z rnd now ((cv_conn (cs ! i))\<lparr>otr_client := shared_client (reg_client reg)\<rparr>); Some ((ok, s), ?up otr) }"
    using cs by (simp add: at_conversation_def connection_def map_update[symmetric] case_prod_unfold split: Option.bind_split)
  show "map_option (apsnd abs_registry) (otrng_client_disconnect_conversation C Z rnd now i reg) =
      do { (ok, s, otr) \<leftarrow> otrng_close C Z rnd now ((cv_conn (cs ! i))\<lparr>otr_client := shared_client (reg_client reg)\<rparr>);
           Some ((ok, s), (conversations_of cs)(cv_recipient (cs ! i) := if ok then None else Some ((cs ! i)\<lparr>cv_conn := otr\<rparr>)),
             write_back (otr_client otr) (reg_client reg)) }"
    using registry_ok_remove(2)[OF _ d] cs(3) conversations_update(1)[OF cs(2,3) refl]
    by (auto simp: otrng_client_disconnect_conversation_def a abs_registry_def conversations_remove[OF cs(2,3) refl] destroy_client_conversation_def take_map drop_map map_append[symmetric]
        simp del: map_append split: Option.bind_split)
  show "registry_ok reg'" if "otrng_client_disconnect_conversation C Z rnd now i reg = Some (x, reg')"
    using that registry_ok_remove(1)[OF _ d, of "?up _"] cs(3) d
    by (auto simp: otrng_client_disconnect_conversation_def a registry_ok_def[of "?up _"] split: Option.bind_splits if_splits)
qed

lemma disconnect_refines:
  assumes "registry_ok reg"
  shows "map_option (apsnd abs_registry) (otrng_client_disconnect C Z rnd now r reg) = abs_disconnect C Z rnd now r (abs_registry reg)"
    "otrng_client_disconnect C Z rnd now r reg = Some (x, reg') \<Longrightarrow> registry_ok reg'"
proof -
  from assms obtain cs where cs: "reg_conversations reg = map Some cs" "distinct (map cv_recipient cs)" by (auto simp: registry_ok_def)
  have a: "abs_registry reg = (conversations_of cs, reg_client reg)" by (simp add: abs_registry_def cs(1))
  note f = get_conversation_finds[OF cs(2), of r]
  from f show "map_option (apsnd abs_registry) (otrng_client_disconnect C Z rnd now r reg) = abs_disconnect C Z rnd now r (abs_registry reg)"
    by (elim disjE exE conjE) (simp_all add: otrng_client_disconnect_def abs_disconnect_def a cs(1) disconnect_conversation(1)[OF cs])
  show "registry_ok reg'" if "otrng_client_disconnect C Z rnd now r reg = Some (x, reg')"
    using f that assms
    by (elim disjE exE conjE) (auto simp: otrng_client_disconnect_def cs(1) elim: disconnect_conversation(2)[OF cs])
qed

text \<open>C9: the conversations of a client are a map from recipients to connections.  As long as no conversation has been freed
  behind the back of the list, sending, receiving, opening and disconnecting act on the connection of their recipient, which is
  created when it is missing, and on the client that all of them share; every other conversation stays as it is.\<close>

theorem client_refines_map:
  assumes "registry_ok reg"
  shows "map_option (apsnd abs_registry) (otrng_client_send C Z rnd now cb msg r reg) =
      abs_call Z cb r (otrng_send_message C Z rnd now msg [] 0) (abs_registry reg) \<and>
    map_option (apsnd abs_registry) (otrng_client_receive C Z rnd now junk cb msg r reg) =
      abs_call Z cb r (\<lambda>otr. do {
        (result, response, otr) \<leftarrow> otrng_receive_message C Z rnd now junk otrng_response_new msg otr;
        Some ((result \<or> to_display response \<noteq> None, to_send response, to_display response), otr) }) (abs_registry reg) \<and>
    map_option (apsnd abs_registry) (otrng_client_smp_respond C Z rnd now cb r secret reg) =
      abs_call Z cb r (\<lambda>otr. do { (ok, s, otr) \<leftarrow> otrng_smp_continue C Z rnd now secret otr; Some ((ok, s), otr) }) (abs_registry reg) \<and>
    map_option (apsnd abs_registry) (otrng_client_disconnect C Z rnd now r reg) = abs_disconnect C Z rnd now r (abs_registry reg)"
  unfolding otrng_client_send_def send_message_def otrng_client_receive_def otrng_client_smp_respond_def
  by (intro conjI with_conversation_refines(1)[OF assms] disconnect_refines(1)[OF assms])

subsection \<open>Reachable clients\<close>

text \<open>The calls an application makes, with whatever result; settings and keys change the client only.\<close>

inductive client_step ::
    "('p, 's, 'm, 'h) crypto_ops \<Rightarrow> ('p, 's) wiped \<Rightarrow> ('p, 's, 'm) otrng_client_callbacks_s \<Rightarrow> ('p, 's, 'm) registry_s \<Rightarrow> ('p, 's, 'm) registry_s \<Rightarrow> bool"
  for C Z cb where
  "otrng_client_send C Z rnd now cb msg r reg = Some (s, reg') \<Longrightarrow> client_step C Z cb reg reg'"
| "otrng_client_receive C Z rnd now junk cb msg r reg = Some (x, reg') \<Longrightarrow> client_step C Z cb reg reg'"
| "otrng_client_query_message Z cb r msg reg = Some (s, reg') \<Longrightarrow> client_step C Z cb reg reg'"
| "otrng_client_init_message C Z rnd now cb r msg reg = Some (s, reg') \<Longrightarrow> client_step C Z cb reg reg'"
| "otrng_client_identity_message C Z rnd now cb r reg = Some (x, reg') \<Longrightarrow> client_step C Z cb reg reg'"
| "otrng_client_send_non_interactive_auth C Z rnd now cb ensemble r reg = Some (x, reg') \<Longrightarrow> client_step C Z cb reg reg'"
| "otrng_client_send_fragment C Z rnd identifier now cb msg mms r reg = Some (pieces, reg') \<Longrightarrow> client_step C Z cb reg reg'"
| "otrng_client_smp_start C Z rnd now cb r question q_len secret reg = Some (x, reg') \<Longrightarrow> client_step C Z cb reg reg'"
| "otrng_client_smp_respond C Z rnd now cb r secret reg = Some (x, reg') \<Longrightarrow> client_step C Z cb reg reg'"
| "otrng_client_smp_abort C Z rnd now cb r reg = Some (x, reg') \<Longrightarrow> client_step C Z cb reg reg'"
| "otrng_client_disconnect C Z rnd now r reg = Some (x, reg') \<Longrightarrow> client_step C Z cb reg reg'"
| "otrng_client_expire_sessions C Z rnd now cb reg = Some reg' \<Longrightarrow> client_step C Z cb reg reg'"
| "otrng_client_expire_fragments now reg = Some reg' \<Longrightarrow> client_step C Z cb reg reg'"
| "otrng_client_get_conversation Z cb force_create r reg = Some (found, reg') \<Longrightarrow> client_step C Z cb reg reg'"
| "client_step C Z cb reg (reg\<lparr>reg_client := client\<rparr>)"

lemma never_expires: "otrng_client_expire_sessions C Z rnd now cb reg = Some reg"
  by (cases "[0..<length (reg_conversations reg)]") (simp_all add: otrng_client_expire_sessions_def)

text \<open>The recipients of the conversations that have not been freed, and whether a freed one is still in the list.\<close>

definition recipients :: "('p, 's, 'm) otrng_conversation_s option list \<Rightarrow> string list" where
  "recipients cs = map cv_recipient (List.map_filter id cs)"

definition has_freed :: "('p, 's, 'm) registry_s \<Rightarrow> bool" where
  "has_freed reg \<longleftrightarrow> None \<in> set (reg_conversations reg)"

definition unique_recipients :: "('p, 's, 'm) registry_s \<Rightarrow> bool" where
  "unique_recipients reg \<longleftrightarrow> distinct (recipients (reg_conversations reg))"

lemma recipients_simps [simp]:
  "recipients [] = []" "recipients (None # cs) = recipients cs" "recipients (Some c # cs) = cv_recipient c # recipients cs"
  "recipients (cs @ ds) = recipients cs @ recipients ds"
  by (simp_all add: recipients_def List.map_filter_def)

lemma recipients_expire: "(\<And>c. cv_recipient (f c) = cv_recipient c) \<Longrightarrow> recipients (map (map_option f) cs) = recipients cs"
proof (induction cs)
  case (Cons c cs)
  then show ?case by (cases c) simp_all
qed simp

lemma get_conversation_results:
  "get_conversation_with r cs = Some (Some i) \<Longrightarrow> i < length cs \<and> (\<exists>c. cs ! i = Some c \<and> cv_recipient c = r)"
  "get_conversation_with r cs = Some None \<Longrightarrow> None \<notin> set cs \<and> r \<notin> set (recipients cs)"
  "get_conversation_with r cs = None \<Longrightarrow> None \<in> set cs"
proof (induction r cs arbitrary: i rule: get_conversation_with.induct)
  case (3 r c cs)
  { case 1 then show ?case using "3.IH"(1) by (cases i) (auto split: if_splits)
  next case 2 then show ?case using "3.IH"(2) by (auto split: if_splits)
  next case 3 then show ?case using "3.IH"(3) by (auto split: if_splits) }
qed simp_all

lemma get_or_create_results:
  assumes "get_or_create_conversation_with Z cb r reg = Some (i, reg')"
  obtains c where "i < length (reg_conversations reg')" "reg_conversations reg' ! i = Some c" "cv_recipient c = r"
    "has_freed reg' = has_freed reg" "unique_recipients reg \<longrightarrow> unique_recipients reg'"
proof -
  from assms obtain found where f: "get_conversation_with r (reg_conversations reg) = Some found"
    "(i, reg') = (case found of Some i \<Rightarrow> (i, reg) | None \<Rightarrow> (length (reg_conversations reg), reg\<lparr>reg_conversations := reg_conversations reg @
          [Some (new_conversation_with r (create_connection_for Z cb r (reg_client reg)))]\<rparr>))"
    by (auto simp: get_or_create_conversation_with_def bind_eq_Some_conv)
  show ?thesis
  proof (cases found)
    case None
    with f get_conversation_results(2)[of r "reg_conversations reg"] show ?thesis
      by (intro that[of "new_conversation_with r (create_connection_for Z cb r (reg_client reg))"])
         (auto simp: has_freed_def unique_recipients_def new_conversation_with_def)
  next
    case (Some j)
    with f get_conversation_results(1)[of r "reg_conversations reg" j] show ?thesis by (auto intro: that)
  qed
qed

text \<open>One entry of the list is replaced, freed or taken out.\<close>

lemma change_entry:
  assumes "i < length cs" "cs ! i = Some c"
  shows "cv_recipient d = cv_recipient c \<Longrightarrow> recipients (cs[i := Some d]) = recipients cs"
    "distinct (recipients cs) \<Longrightarrow> distinct (recipients (cs[i := None]))"
    "distinct (recipients cs) \<Longrightarrow> distinct (recipients (take i cs @ drop (Suc i) cs))"
    "None \<in> set (cs[i := Some d]) \<Longrightarrow> None \<in> set cs"
    "None \<in> set (take i cs @ drop (Suc i) cs) \<Longrightarrow> None \<in> set cs"
proof -
  have s: "cs = take i cs @ Some c # drop (Suc i) cs" using id_take_nth_drop[OF assms(1)] assms(2) by simp
  have u: "cs[i := x] = take i cs @ x # drop (Suc i) cs" for x by (rule upd_conv_take_nth_drop[OF assms(1)])
  have r: "recipients cs = recipients (take i cs) @ cv_recipient c # recipients (drop (Suc i) cs)"
    using arg_cong[OF s, of recipients] by simp
  show "recipients (cs[i := Some d]) = recipients cs" if "cv_recipient d = cv_recipient c"
    using that by (simp add: u r)
  show "distinct (recipients cs) \<Longrightarrow> distinct (recipients (cs[i := None]))"
    "distinct (recipients cs) \<Longrightarrow> distinct (recipients (take i cs @ drop (Suc i) cs))" unfolding r by (simp_all add: u)
  show "None \<in> set (cs[i := Some d]) \<Longrightarrow> None \<in> set cs" "None \<in> set (take i cs @ drop (Suc i) cs) \<Longrightarrow> None \<in> set cs"
    by (auto dest: set_update_subset_insert[THEN subsetD] in_set_takeD in_set_dropD)
qed

text \<open>A call keeps the recipients unique and frees no conversation that stays in the list.\<close>

definition keeps_list :: "('p, 's, 'm) registry_s \<Rightarrow> ('p, 's, 'm) registry_s \<Rightarrow> bool" where
  "keeps_list reg reg' \<longleftrightarrow> (unique_recipients reg \<longrightarrow> unique_recipients reg') \<and> (has_freed reg' \<longrightarrow> has_freed reg)"

lemma keeps_list_trans: "keeps_list reg reg1 \<Longrightarrow> keeps_list reg1 reg2 \<Longrightarrow> keeps_list reg reg2"
  by (simp add: keeps_list_def)

lemma keeps_list_same [simp]: "reg_conversations reg' = reg_conversations reg \<Longrightarrow> keeps_list reg reg'"
  by (simp add: keeps_list_def unique_recipients_def has_freed_def)

lemma get_or_create_keeps: "get_or_create_conversation_with Z cb r reg = Some (i, reg') \<Longrightarrow> keeps_list reg reg'"
  by (erule get_or_create_results) (simp add: keeps_list_def)

lemma at_conversation_keeps:
  assumes "at_conversation i f reg = Some (x, reg')" "i < length (reg_conversations reg)"
  shows "keeps_list reg reg'" "\<exists>c. reg_conversations reg' ! i = Some c" "length (reg_conversations reg') = length (reg_conversations reg)"
proof -
  from assms obtain c otr where "reg_conversations reg ! i = Some c"
    "reg' = reg\<lparr>reg_client := write_back (otr_client otr) (reg_client reg), reg_conversations := (reg_conversations reg)[i := Some (c\<lparr>cv_conn := otr\<rparr>)]\<rparr>"
    by (auto simp: at_conversation_def split: Option.bind_splits)
  with change_entry(1,4)[OF assms(2), of c "c\<lparr>cv_conn := otr\<rparr>"] assms(2)
  show "keeps_list reg reg'" "\<exists>c. reg_conversations reg' ! i = Some c" "length (reg_conversations reg') = length (reg_conversations reg)"
    by (auto simp: keeps_list_def unique_recipients_def has_freed_def)
qed

lemma with_conversation_keeps:
  assumes "with_conversation Z cb r f reg = Some (x, reg')"
  shows "keeps_list reg reg'"
proof -
  from assms obtain i reg1 where g: "get_or_create_conversation_with Z cb r reg = Some (i, reg1)" "at_conversation i f reg1 = Some (x, reg')"
    by (auto simp: with_conversation_def split: Option.bind_splits)
  then have "i < length (reg_conversations reg1)" by (auto elim: get_or_create_results)
  with g get_or_create_keeps at_conversation_keeps(1) keeps_list_trans show ?thesis by metis
qed

lemma disconnect_keeps:
  assumes "otrng_client_disconnect C Z rnd now r reg = Some (x, reg')"
  shows "keeps_list reg reg'"
proof (cases "get_conversation_with r (reg_conversations reg)")
  case (Some found)
  show ?thesis
  proof (cases found)
    case None
    with Some assms show ?thesis by (simp add: otrng_client_disconnect_def keeps_list_def)
  next
    case (Some i)
    let ?f = "\<lambda>otr. do { (ok, s, otr) \<leftarrow> otrng_close C Z rnd now otr; Some ((ok, s), otr) }"
    have i: "i < length (reg_conversations reg)"
      using get_conversation_results(1)[of r "reg_conversations reg" i] Some \<open>get_conversation_with r (reg_conversations reg) = Some found\<close> by simp
    from assms Some \<open>get_conversation_with r (reg_conversations reg) = Some found\<close> obtain y reg1 where
      a: "at_conversation i ?f reg = Some (y, reg1)" "reg' = reg1 \<or> reg' = destroy_client_conversation i reg1"
      by (auto simp: otrng_client_disconnect_def otrng_client_disconnect_conversation_def split: Option.bind_splits if_splits)
    note k = at_conversation_keeps[OF a(1) i]
    have "keeps_list reg1 (destroy_client_conversation i reg1)"
      using k(2,3) i change_entry(3,5)[of i "reg_conversations reg1"]
      by (auto simp: keeps_list_def destroy_client_conversation_def unique_recipients_def has_freed_def)
    with k(1) a(2) keeps_list_trans show ?thesis by blast
  qed
qed (use assms in \<open>simp add: otrng_client_disconnect_def\<close>)

lemma expire_fragments_keeps: "otrng_client_expire_fragments now reg = Some reg' \<Longrightarrow> keeps_list reg reg'"
  by (auto simp: otrng_client_expire_fragments_def keeps_list_def unique_recipients_def has_freed_def Let_def recipients_expire split: if_splits)

text \<open>Asking for an identity message is the one call that can leave a freed conversation in the list.\<close>

lemma identity_message_results:
  assumes "otrng_client_identity_message C Z rnd now cb r reg = Some (x, reg')"
  shows "unique_recipients reg \<Longrightarrow> unique_recipients reg'" "has_freed reg' \<Longrightarrow> has_freed reg \<or> x = None"
proof -
  from assms obtain i reg1 c where g: "get_or_create_conversation_with Z cb r reg = Some (i, reg1)" "reg_conversations reg1 ! i = Some c"
    "x = None \<and> reg' = reg1\<lparr>reg_conversations := (reg_conversations reg1)[i := None]\<rparr> \<or>
      (\<exists>y. at_conversation i (otrng_build_identity_message C Z rnd now) reg1 = Some (y, reg'))"
    by (auto simp: otrng_client_identity_message_def or_failure_def split: Option.bind_splits if_splits)
  have i: "i < length (reg_conversations reg1)" using g(1) by (auto elim: get_or_create_results)
  note k = get_or_create_keeps[OF g(1)] at_conversation_keeps(1)[OF _ i, of "otrng_build_identity_message C Z rnd now"] change_entry(2)[OF i g(2)]
  from g(3) have "x = None \<and> (unique_recipients reg1 \<longrightarrow> unique_recipients reg') \<or> keeps_list reg1 reg'"
    using k(2,3) by (auto simp: unique_recipients_def)
  with k(1) show "unique_recipients reg \<Longrightarrow> unique_recipients reg'" "has_freed reg' \<Longrightarrow> has_freed reg \<or> x = None"
    by (auto simp: keeps_list_def)
qed

lemmas calls_keep_list = with_conversation_keeps get_or_create_keeps disconnect_keeps expire_fragments_keeps

lemma client_step_results:
  assumes "client_step C Z cb reg reg'"
  shows "keeps_list reg reg' \<or> (unique_recipients reg \<longrightarrow> unique_recipients reg') \<and>
     (\<exists>rnd now r. otrng_client_identity_message C Z rnd now cb r reg = Some (None, reg'))"
  using assms
proof cases
  case (5 rnd now r x)
  then show ?thesis using identity_message_results[OF 5] by (cases x) (auto simp: keeps_list_def)
next
  case (7 rnd ident now msg mms r pieces)
  then obtain i reg1 x where "get_or_create_conversation_with Z cb r reg = Some (i, reg1)" "send_message C Z rnd now cb msg r reg1 = Some (x, reg')"
    by (auto simp: otrng_client_send_fragment_def split: Option.bind_splits option.splits)
  then show ?thesis unfolding send_message_def using calls_keep_list keeps_list_trans by metis
qed (auto simp: otrng_client_send_def send_message_def otrng_client_receive_def otrng_client_query_message_def otrng_client_init_message_def
      otrng_client_send_non_interactive_auth_def otrng_client_smp_start_def otrng_client_smp_respond_def otrng_client_smp_abort_def
      otrng_client_get_conversation_def never_expires or_failure_def
    dest: calls_keep_list split: if_splits)

interpretation client_machine: invariant_machine "\<lambda>reg. reg_conversations reg = []" "client_step C Z cb" unique_recipients
  for C :: "('p, 's, 'm, 'h) crypto_ops" and Z cb
  by unfold_locales (simp add: unique_recipients_def, auto simp: keeps_list_def dest: client_step_results)

text \<open>A freed conversation in the list was left there by an identity message that was refused.\<close>

lemma freed_by_identity_message:
  assumes "(client_step C Z cb)\<^sup>*\<^sup>* reg reg'" "\<not> has_freed reg" "has_freed reg'"
  shows "\<exists>reg1 reg2 rnd now r. (client_step C Z cb)\<^sup>*\<^sup>* reg reg1 \<and> \<not> has_freed reg1 \<and>
     otrng_client_identity_message C Z rnd now cb r reg1 = Some (None, reg2) \<and> (client_step C Z cb)\<^sup>*\<^sup>* reg2 reg'"
  using assms(1,3)
proof (induction rule: rtranclp_induct)
  case (step reg1 reg2)
  show ?case
  proof (cases "has_freed reg1")
    case True
    with step.IH step.hyps(2) show ?thesis by (meson rtranclp.rtrancl_into_rtrancl)
  next
    case False
    with client_step_results[OF step.hyps(2)] step.prems step.hyps(1) show ?thesis
      unfolding keeps_list_def by (blast intro: rtranclp.rtrancl_refl)
  qed
qed (use assms(2) in simp)

text \<open>C26: whatever calls an application makes on a new client, every recipient has at most one conversation.  The
  conversation of any recipient can be found or created, unless the search meets a conversation that was freed and is still in the
  list; and such a conversation is there only after an identity message was asked for and refused in this run.\<close>

theorem client_conversations_unique:
  assumes "reg_conversations reg = []" "(client_step C Z cb)\<^sup>*\<^sup>* reg reg'"
  shows "distinct (recipients (reg_conversations reg')) \<and>
    (\<forall>r. case get_or_create_conversation_with Z cb r reg' of
        Some (i, reg'') \<Rightarrow> i < length (reg_conversations reg'') \<and> (\<exists>conv. reg_conversations reg'' ! i = Some conv \<and> cv_recipient conv = r)
      | None \<Rightarrow> has_freed reg') \<and>
    (has_freed reg' \<longrightarrow> (\<exists>reg1 reg2 rnd now r. (client_step C Z cb)\<^sup>*\<^sup>* reg reg1 \<and> \<not> has_freed reg1 \<and>
       otrng_client_identity_message C Z rnd now cb r reg1 = Some (None, reg2) \<and> (client_step C Z cb)\<^sup>*\<^sup>* reg2 reg'))"
proof (intro conjI allI impI)
  show "distinct (recipients (reg_conversations reg'))"
    using client_machine.reachable_inv[OF assms] by (simp add: unique_recipients_def)
  show "case get_or_create_conversation_with Z cb r reg' of
        Some (i, reg'') \<Rightarrow> i < length (reg_conversations reg'') \<and> (\<exists>conv. reg_conversations reg'' ! i = Some conv \<and> cv_recipient conv = r)
      | None \<Rightarrow> has_freed reg'" for r
  proof (cases "get_or_create_conversation_with Z cb r reg'")
    case None
    then show ?thesis using get_conversation_results(3)[of r "reg_conversations reg'"]
      by (auto simp: get_or_create_conversation_with_def has_freed_def bind_eq_None_conv)
  next
    case (Some found)
    then show ?thesis by (cases found) (auto elim: get_or_create_results)
  qed
qed (use freed_by_identity_message[OF assms(2)] assms(1) in \<open>simp add: has_freed_def\<close>)

subsection \<open>Freed conversations\<close>

lemma lookup_stops:
  assumes "list_all (\<lambda>c. cv_recipient c \<noteq> r) cs"
  shows "get_conversation_with r (map Some cs @ None # rest) = None"
  using assms by (induction cs) auto

lemma call_faults: "get_conversation_with r (reg_conversations reg) = None \<Longrightarrow> with_conversation Z cb r f reg = None"
  by (simp add: with_conversation_def get_or_create_conversation_with_def)

text \<open>C37: asking for an identity message in a conversation whose policy does not start the key exchange with one frees the
  conversation and leaves it in the list.  The next message to or from this recipient, or to anyone the client has not
  talked to, reads the freed conversation.\<close>

theorem identity_message_dangles:
  assumes ok: "registry_ok reg"
    and policy: "otr_policy_type (cv_conn (conversation_for Z cb r (abs_registry reg))) AND OTRNG_IDENTITY_START_DAKE = 0"
  shows "\<exists>reg'. otrng_client_identity_message C Z rnd now cb r reg = Some (None, reg') \<and>
    otrng_client_send C Z rnd' now' cb msg r reg' = None \<and> otrng_client_receive C Z rnd' now' junk cb msg r reg' = None \<and>
    (\<forall>r'. fst (abs_registry reg) r' = None \<longrightarrow> otrng_client_send C Z rnd' now' cb msg r' reg' = None)"
proof -
  obtain i reg1 cs where c: "get_or_create_conversation_with Z cb r reg = Some (i, reg1)" "reg_conversations reg1 = map Some cs"
    "distinct (map cv_recipient cs)" "i < length cs" "cs ! i = conversation_for Z cb r (abs_registry reg)" "cv_recipient (cs ! i) = r"
    and up: "\<And>c. (conversations_of cs)(r \<mapsto> c) = (fst (abs_registry reg))(r \<mapsto> c)"
    by (rule found_or_created[OF ok, of Z cb r]) blast
  let ?reg' = "reg1\<lparr>reg_conversations := (map Some cs)[i := None]\<rparr>"
  have called: "otrng_client_identity_message C Z rnd now cb r reg = Some (None, ?reg')"
    using c policy by (simp add: otrng_client_identity_message_def)
  have parts: "(map Some cs)[i := None] = map Some (take i cs) @ None # map Some (drop (Suc i) cs)"
    using c(4) by (simp add: upd_conv_take_nth_drop take_map drop_map)
  have absent: "list_all (\<lambda>c. cv_recipient c \<noteq> r') cs" if "conversations_of cs r' = None" for r'
    using that by (induction cs) (auto split: if_splits)
  have "list_all (\<lambda>c. cv_recipient c \<noteq> r) (take i cs)"
    using c(3,4,6) by (auto simp: list_all_iff in_set_conv_nth nth_eq_iff_index_eq distinct_map inj_on_def) (metis nth_mem nth_eq_iff_index_eq less_trans less_irrefl distinct_map)
  then have gone: "get_conversation_with r (reg_conversations ?reg') = None" by (simp add: parts lookup_stops)
  have nobody: "get_conversation_with r' (reg_conversations ?reg') = None" if "fst (abs_registry reg) r' = None" for r'
  proof (cases "r' = r")
    case False
    then have "conversations_of cs r' = None" using fun_cong[OF up, of undefined r'] that by simp
    from absent[OF this] have "list_all (\<lambda>c. cv_recipient c \<noteq> r') (take i cs)" by (auto simp: list_all_iff dest: in_set_takeD)
    then show ?thesis by (simp add: parts lookup_stops)
  qed (use gone in simp)
  show ?thesis unfolding otrng_client_send_def send_message_def otrng_client_receive_def
    by (intro exI[of _ ?reg'] conjI allI impI called call_faults[OF gone] call_faults[OF nobody])
qed

text \<open>C38: sessions do not expire.  \<open>otrng_client_expire_sessions\<close> returns before it looks at the first conversation; and the
  call that would expire a conversation with a message for the peer reads the connection it has just freed.\<close>

theorem sessions_never_expire:
  assumes ok: "registry_ok reg" and i: "i < length (reg_conversations reg)" and policy: "session_expiration_policy_for cb = None"
    and closes: "\<And>conv. reg_conversations reg ! i = Some conv \<Longrightarrow> otrng_close C Z rnd now (connection reg conv) = Some (True, Some msg, otr)"
  shows "otrng_client_expire_sessions C Z rnd now cb reg = Some reg \<and> otrng_client_expire_session C Z rnd now cb i reg = None"
proof -
  from ok obtain cs where cs: "reg_conversations reg = map Some cs" by (auto simp: registry_ok_def)
  with i closes[of "cs ! i"] policy have "otrng_client_expire_session C Z rnd now cb i reg = None"
    by (simp add: otrng_client_expire_session_def otrng_client_disconnect_conversation_def at_conversation_def)
  then show ?thesis by (simp add: never_expires)
qed

subsection \<open>Messages between clients\<close>

lemma call_known:
  assumes ok: "registry_ok reg" and c: "fst (abs_registry reg) r = Some conv" and f: "f (connection reg conv) = Some (x, otr)"
  shows "\<exists>reg'. with_conversation Z cb r f reg = Some (x, reg') \<and> registry_ok reg' \<and> reg_client reg' = write_back (otr_client otr) (reg_client reg) \<and>
    fst (abs_registry reg') = (fst (abs_registry reg))(r \<mapsto> conv\<lparr>cv_conn := otr\<rparr>) \<and> connection reg' (conv\<lparr>cv_conn := otr\<rparr>) = otr"
proof -
  have "abs_call Z cb r f (abs_registry reg) = Some (x, (fst (abs_registry reg))(r \<mapsto> conv\<lparr>cv_conn := otr\<rparr>), write_back (otr_client otr) (reg_client reg))"
    using c f by (simp add: abs_call_def conversation_for_def connection_def abs_registry_def)
  then obtain reg' where r': "with_conversation Z cb r f reg = Some (x, reg')"
    "abs_registry reg' = ((fst (abs_registry reg))(r \<mapsto> conv\<lparr>cv_conn := otr\<rparr>), write_back (otr_client otr) (reg_client reg))"
    using with_conversation_refines(1)[OF ok, of Z cb r f] by (auto simp: map_option_eq_Some)
  then have "reg_client reg' = write_back (otr_client otr) (reg_client reg)" by (simp add: abs_registry_def)
  with r' with_conversation_refines(2)[OF ok r'(1)] show ?thesis by (simp add: connection_def)
qed

text \<open>C25: clients deliver their messages.  When the conversation that one client has with another and the one that the other has
  with it belong together, as after the key exchange, a text that the first client sends is shown unchanged by the second; both
  conversations go on, and no other conversation of either client is touched.\<close>

theorem client_message_delivered:
  assumes laws: "crypto_laws C S" and ok: "registry_ok regA" "registry_ok regB"
    and convs: "fst (abs_registry regA) rB = Some cA" "fst (abs_registry regB) rA = Some cB"
    and may: "may_send S (connection regA cA) (connection regB cB)"
    and u: "usable C S Z rnd now (otr_keys (cv_conn cA)) (otr_keys (cv_conn cB))" and say: "sendable words"
  shows "\<exists>w regA' regB' cA' cB'. otrng_client_send C Z rnd now cbA words rB regA = Some (Some w, regA') \<and>
    otrng_client_receive C Z rnd' now' junk cbB w rA regB = Some ((True, None, shown words), regB') \<and>
    registry_ok regA' \<and> fst (abs_registry regA') = (fst (abs_registry regA))(rB \<mapsto> cA') \<and>
    registry_ok regB' \<and> fst (abs_registry regB') = (fst (abs_registry regB))(rA \<mapsto> cB') \<and>
    spoken S (connection regA' cA') (connection regB' cB')"
proof -
  have keys: "otr_keys (connection reg c) = otr_keys (cv_conn c)" for reg :: "('a, 'b, 'c) registry_s" and c by (simp add: connection_def)
  obtain w A' B' ts where m: "otrng_send_message C Z rnd now words [] 0 (connection regA cA) = Some (Some w, A')"
    "otrng_receive_message C Z rnd' now' junk otrng_response_new w (connection regB cB) =
       Some (True, otrng_response_new\<lparr>to_display := shown words, to_send := None, tlvs := ts\<rparr>, B')" "spoken S A' B'"
    using message_delivered[OF laws may _ say, of Z rnd now 0 rnd' now' junk otrng_response_new] u unfolding keys by metis
  have a: "\<exists>regA'. otrng_client_send C Z rnd now cbA words rB regA = Some (Some w, regA') \<and> registry_ok regA' \<and>
      fst (abs_registry regA') = (fst (abs_registry regA))(rB \<mapsto> cA\<lparr>cv_conn := A'\<rparr>) \<and> connection regA' (cA\<lparr>cv_conn := A'\<rparr>) = A'"
    using call_known[OF ok(1) convs(1), of "otrng_send_message C Z rnd now words [] 0", OF m(1), of Z cbA]
    by (auto simp: otrng_client_send_def send_message_def)
  let ?f = "\<lambda>otr. do {
     (result, response, otr) \<leftarrow> otrng_receive_message C Z rnd' now' junk otrng_response_new w otr;
     Some ((result \<or> to_display response \<noteq> None, to_send response, to_display response), otr) }"
  have f: "?f (connection regB cB) = Some ((True, None, shown words), B')" by (simp add: m(2))
  have b: "\<exists>regB'. otrng_client_receive C Z rnd' now' junk cbB w rA regB = Some ((True, None, shown words), regB') \<and> registry_ok regB' \<and>
      fst (abs_registry regB') = (fst (abs_registry regB))(rA \<mapsto> cB\<lparr>cv_conn := B'\<rparr>) \<and> connection regB' (cB\<lparr>cv_conn := B'\<rparr>) = B'"
    unfolding otrng_client_receive_def using call_known[where f = ?f, OF ok(2) convs(2) f, of Z cbB] by blast
  from a b m(3) show ?thesis by metis
qed

subsection \<open>Concrete clients\<close>

definition ex_registry :: "u32 \<Rightarrow> (int, int, nat) otrng_conversation_s list \<Rightarrow> (int, int, nat) registry_s" where
  "ex_registry tag cs = \<lparr>reg_client = prekey_client_s.extend (otrng_client_s.extend (ex_client 3 5 tag) (prekey_client_s.fields None 100 20 False 0 []))
     (full_client_s.fields \<lparr>id_protocol = ''xmpp'', id_account = ''alice''\<rparr> None True True True 0 0 0 0 0 False), reg_conversations = map Some cs\<rparr>"

definition ex_quiet_callbacks :: "(int, int, nat) otrng_client_callbacks_s" where
  "ex_quiet_callbacks = \<lparr>create_instag = None, create_privkey_v3 = id, create_privkey_v4 = id, create_forging_key = id, create_client_profile = id,
     store_expired_client_profile = id, load_expired_client_profile = id, store_expired_prekey_profile = id, load_expired_prekey_profile = id,
     create_prekey_profile = id, load_privkey_v4 = id, load_privkey_v3 = id, load_client_profile = id, load_prekey_profile = id,
     store_client_profile = id, store_prekey_profile = id, load_prekey_messages = id, store_prekey_messages = id,
     store_privkey_v4 = id, store_privkey_v3 = id, load_forging_key = id, store_forging_key = id, define_policy = None,
     store_fingerprints_v4 = id, load_fingerprints_v4 = id, load_fingerprints_v3 = id, localized_error_message = None,
     session_expiration_time_for = (\<lambda>otr. 7200), session_expiration_policy_for = None\<rparr>"

lemma ex_registry_simps [simp]:
  "reg_conversations (ex_registry tag cs) = map Some cs" "shared_client (reg_client (ex_registry tag cs)) = ex_client 3 5 tag"
  "fst (abs_registry (ex_registry tag cs)) = conversations_of cs"
  by (simp_all add: ex_registry_def shared_client_def ex_client_def otrng_client_s.defs prekey_client_s.defs full_client_s.defs abs_registry_def)

lemma ex_registry_ok: "distinct (map cv_recipient cs) \<Longrightarrow> registry_ok (ex_registry tag cs)"
  by (simp add: registry_ok_def)

lemma ex_connection: "connection (ex_registry our cs) \<lparr>cv_recipient = r, cv_conn = ex_side our their keys\<rparr> = ex_side our their keys"
  by (simp add: connection_def ex_side_def otrng_new_def)

theorem client_refines_map_witness:
  "map_option (apsnd abs_registry) (otrng_client_disconnect ex_crypto ex_wiped (\<lambda>i. []) 0 ''carol''
     (ex_registry 0x100 [\<lparr>cv_recipient = ''bob'', cv_conn = ex_side 0x100 0x200 ex_talker\<rparr>])) =
   Some ((False, None), abs_registry (ex_registry 0x100 [\<lparr>cv_recipient = ''bob'', cv_conn = ex_side 0x100 0x200 ex_talker\<rparr>]))"
  using client_refines_map[OF ex_registry_ok[of "[\<lparr>cv_recipient = ''bob'', cv_conn = ex_side 0x100 0x200 ex_talker\<rparr>]" "0x100"],
      of ex_crypto ex_wiped "\<lambda>i. []" 0 ex_quiet_callbacks "[]" "''carol''" 0 "[]"]
  by (simp add: abs_disconnect_def)

theorem client_conversations_unique_witness:
  "\<exists>reg1 reg2 s. otrng_client_query_message ex_wiped ex_quiet_callbacks ''bob'' ''hi'' (ex_registry 0x100 []) = Some (s, reg1) \<and>
     otrng_client_identity_message ex_crypto ex_wiped (\<lambda>i. []) 0 ex_quiet_callbacks ''carol'' reg1 = Some (None, reg2) \<and>
     distinct (recipients (reg_conversations reg2)) \<and> recipients (reg_conversations reg2) = [''bob''] \<and>
     get_or_create_conversation_with ex_wiped ex_quiet_callbacks ''bob'' reg2 = Some (0, reg2) \<and>
     get_or_create_conversation_with ex_wiped ex_quiet_callbacks ''dave'' reg2 = None \<and> has_freed reg2"
proof -
  let ?reg0 = "ex_registry 0x100 []" and ?cb = ex_quiet_callbacks
  obtain s reg1 bob where q: "otrng_client_query_message ex_wiped ?cb ''bob'' ''hi'' ?reg0 = Some (s, reg1)"
    "reg_conversations reg1 = [Some bob]" "cv_recipient bob = ''bob''"
    by (simp add: otrng_client_query_message_def with_conversation_def get_or_create_conversation_with_def at_conversation_def or_failure_def
        new_conversation_with_def)
  obtain reg2 where m: "otrng_client_identity_message ex_crypto ex_wiped (\<lambda>i. []) 0 ?cb ''carol'' reg1 = Some (None, reg2)"
    "reg_conversations reg2 = [Some bob, None]"
    using q(2,3) by (simp add: otrng_client_identity_message_def get_or_create_conversation_with_def new_conversation_with_def
        create_connection_for_def otrng_new_def get_policy_for_def otrng_client_callbacks_define_policy_def ex_quiet_callbacks_def
        OTRNG_POLICY_DEFAULT_def Let_def)
  have "client_step ex_crypto ex_wiped ?cb ?reg0 reg1" "client_step ex_crypto ex_wiped ?cb reg1 reg2"
    by (rule client_step.intros(3)[OF q(1)], rule client_step.intros(5)[OF m(1)])
  then have run: "(client_step ex_crypto ex_wiped ?cb)\<^sup>*\<^sup>* ?reg0 reg2" by simp
  have "distinct (recipients (reg_conversations reg2))"
    using client_conversations_unique[OF _ run] by simp
  with q m show ?thesis by (auto simp: get_or_create_conversation_with_def has_freed_def)
qed

theorem identity_message_dangles_witness:
  "\<exists>reg'. otrng_client_identity_message ex_crypto ex_wiped (\<lambda>i. []) 0 ex_quiet_callbacks ''bob'' (ex_registry 0x100 []) = Some (None, reg') \<and>
     otrng_client_send ex_crypto ex_wiped (\<lambda>i. []) 0 ex_quiet_callbacks ''hi'' ''bob'' reg' = None"
  using identity_message_dangles[OF ex_registry_ok[of "[]" "0x100"], of ex_wiped ex_quiet_callbacks "''bob''" ex_crypto "\<lambda>i. []" 0 "\<lambda>i. []" 0 "''hi''" 0]
  by (auto simp: conversation_for_def new_conversation_with_def create_connection_for_def otrng_new_def get_policy_for_def
      otrng_client_callbacks_define_policy_def ex_quiet_callbacks_def OTRNG_POLICY_DEFAULT_def Let_def)

theorem client_message_delivered_witness:
  "\<exists>w regA' regB'. otrng_client_send ex_crypto ex_wiped (\<lambda>i. replicate 24 7) 0 ex_quiet_callbacks ''hello'' ''bob''
      (ex_registry 0x100 [\<lparr>cv_recipient = ''bob'', cv_conn = ex_side 0x100 0x200 ex_talker\<rparr>]) = Some (Some w, regA') \<and>
    otrng_client_receive ex_crypto ex_wiped (\<lambda>i. []) 0 0 ex_quiet_callbacks w ''alice''
      (ex_registry 0x200 [\<lparr>cv_recipient = ''alice'', cv_conn = ex_side 0x200 0x100 ex_listener\<rparr>]) = Some ((True, None, Some ''hello''), regB')"
proof -
  let ?A = "ex_side 0x100 0x200 ex_talker" and ?B = "ex_side 0x200 0x100 ex_listener"
  have m: "old_mac_keys ex_talker = None" "old_mac_keys ex_listener = None"
    by (simp_all add: ex_talker_def ex_listener_def ex_manager_def otrng_key_manager_init_def)
  have may: "may_send ex_sem ?A ?B"
    using ex_talking ex_side_ok[OF m(1), of "0x100" "0x200"] ex_side_ok[OF m(2), of "0x200" "0x100"]
    by (simp add: may_send_def) (simp add: ex_side_def our_instance_tag_def otrng_new_def ex_client_def)
  have "otrng_dh_mpi_valid ex_crypto (Some 32)"
    using dh_valid_iff[OF ex_gcrypt_ok, of 32] by (simp add: ex_sem_def DH3072_MODULUS_MINUS_2_def DH3072_MODULUS_def)
  then have u: "usable ex_crypto ex_sem ex_wiped (\<lambda>i. replicate 24 7) 0 (otr_keys ?A) (otr_keys ?B)"
    by (simp add: usable_def ex_side_def ex_talker_def ex_manager_def const_defs)
  have say: "sendable ''hello''" by (simp add: sendable_def nul_char)
  have "shown ''hello'' = Some ''hello''" by (simp add: shown_def)
  with client_message_delivered[OF ex_crypto_laws ex_registry_ok[of "[\<lparr>cv_recipient = ''bob'', cv_conn = ?A\<rparr>]" "0x100"]
      ex_registry_ok[of "[\<lparr>cv_recipient = ''alice'', cv_conn = ?B\<rparr>]" "0x200"],
      of "''bob''" "\<lparr>cv_recipient = ''bob'', cv_conn = ?A\<rparr>" "''alice''" "\<lparr>cv_recipient = ''alice'', cv_conn = ?B\<rparr>"
         ex_wiped "\<lambda>i. replicate 24 7" 0 "''hello''" ex_quiet_callbacks "\<lambda>i. []" 0 0 ex_quiet_callbacks] may u say
  show ?thesis unfolding ex_connection by fastforce
qed

text \<open>A conversation of version 3 with a libotr that says goodbye.\<close>

definition ex_polite_registry :: "(int, int, nat) registry_s" where
  "ex_polite_registry = (ex_registry 0x100 [\<lparr>cv_recipient = ''bob'',
       cv_conn = (otrng_new ex_wiped (ex_client 3 5 0x100) OTRNG_ALLOW_V34 0)\<lparr>otr_running_version := 3, otr_v3_conn := Some (otrng_v3_conn_new ''bob'')\<rparr>\<rparr>])
     \<lparr>reg_client := write_back ((ex_client 3 5 0x100)\<lparr>cl_libotr := ex_libotr\<lparr>message_disconnect_all_instances := (\<lambda>peer ctx. (ctx, [Op_inject (Some ''bye'')]))\<rparr>\<rparr>)
        (reg_client (ex_registry 0x100 []))\<rparr>"

theorem sessions_never_expire_witness:
  "otrng_client_expire_session ex_crypto ex_wiped (\<lambda>i. []) 1000000 ex_quiet_callbacks 0 ex_polite_registry = None"
proof -
  let ?L = "ex_libotr\<lparr>message_disconnect_all_instances := (\<lambda>peer ctx. (ctx, [Op_inject (Some ''bye'')]))\<rparr>"
  let ?conv = "\<lparr>cv_recipient = ''bob'', cv_conn = (otrng_new ex_wiped (ex_client 3 5 0x100) OTRNG_ALLOW_V34 0)
       \<lparr>otr_running_version := 3, otr_v3_conn := Some (otrng_v3_conn_new ''bob'')\<rparr>\<rparr>"
  have c: "reg_conversations ex_polite_registry = [Some ?conv]" by (simp add: ex_polite_registry_def)
  then have ok: "registry_ok ex_polite_registry" by (auto simp: registry_ok_def intro!: exI[of _ "[?conv]"])
  obtain otr where "otrng_close ex_crypto ex_wiped (\<lambda>i. []) 1000000 (connection ex_polite_registry ?conv) = Some (True, Some ''bye'', otr)"
    by (simp add: otrng_close_def connection_def ex_polite_registry_def otrng_new_def const_defs otrng_v3_close_def otrng_v3_conn_new_def v3_callbacks_def
        app_op_defs otrng_v3_store_injected_message_def otrng_v3_retrieve_injected_message_def)
  from sessions_never_expire[OF ok, of 0 ex_quiet_callbacks ex_crypto ex_wiped "\<lambda>i. []" 1000000 "''bye''" otr] this c
  show ?thesis by (simp add: ex_quiet_callbacks_def)
qed

end
