(* ===== verification/Persistence.thy ===== *)
theory Persistence
  imports Client_State Fragment
begin

text \<open>
  \<open>persistence.c\<close>: writing what a client owns to files and reading it back.  A file that is written is what was
  written so far and the room that is left on the device; a file that is read is what is still to come and whether its
  end was met.  A \<open>NULL\<close> stream is \<open>None\<close>.  The routines of libotr that are called are fields of \<open>file_env\<close>.  A writer
  returns whether it reports success and the file; a reader also returns the client as it leaves it, in the failure case
  too.  A failed assertion and an access out of bounds are faults.
\<close>

subsection \<open>The standard library\<close>

record ofile_s =
  o_text :: string
  o_room :: "nat option"

record file_s =
  f_rest :: string
  f_eof :: bool

definition newline :: char where "newline = CHR 0x0A"
definition carriage_return :: char where "carriage_return = CHR 0x0D"
definition tab :: char where "tab = CHR 0x09"
definition nul :: char where "nul = CHR 0x00"

definition fwrite :: "string \<Rightarrow> ofile_s \<Rightarrow> nat \<times> ofile_s" where
  "fwrite s f = (
     let n = (case o_room f of None \<Rightarrow> length s | Some room \<Rightarrow> if room < length s then room else length s)
     in (n, f\<lparr>o_text := o_text f @ take n s, o_room := map_option (\<lambda>room. room - n) (o_room f)\<rparr>))"

definition fprintf :: "string \<Rightarrow> ofile_s \<Rightarrow> bool \<times> ofile_s" where
  "fprintf s f = (case fwrite s f of (n, f) \<Rightarrow> (n = length s, f))"

text \<open>A call whose result is ignored.\<close>

definition put :: "string \<Rightarrow> ofile_s \<Rightarrow> ofile_s" where
  "put s f = snd (fprintf s f)"

definition print_02x :: "byte \<Rightarrow> string" where
  "print_02x b = print_digits 16 2 (unat b)"

definition feof :: "file_s \<Rightarrow> bool" where "feof f = f_eof f"

text \<open>What \<open>fgets\<close> takes of the text, with room for \<open>n\<close> characters: up to the first newline and with it.  The end is
  noticed when one more character was wanted.\<close>

fun read_line :: "nat \<Rightarrow> string \<Rightarrow> string" where
  "read_line 0 cs = []"
| "read_line (Suc n) [] = []"
| "read_line (Suc n) (c # cs) = (if c = newline then [c] else c # read_line n cs)"

definition fgets :: "nat \<Rightarrow> file_s \<Rightarrow> string option \<times> file_s" where
  "fgets n f = (
     let line = read_line (n - 1) (f_rest f);
         f' = f\<lparr>f_rest := drop (length line) (f_rest f),
           f_eof := f_eof f \<or> (length line < n - 1 \<and> newline \<notin> set line)\<rparr>
     in (if line = [] then None else Some line, f'))"

definition fgetc :: "file_s \<Rightarrow> nat option \<times> file_s" where
  "fgetc f = (case f_rest f of [] \<Rightarrow> (None, f\<lparr>f_eof := True\<rparr>) | c # cs \<Rightarrow> (Some (of_char c), f\<lparr>f_rest := cs\<rparr>))"

definition fread :: "nat \<Rightarrow> file_s \<Rightarrow> string \<times> file_s" where
  "fread n f = (take n (f_rest f), f\<lparr>f_rest := drop n (f_rest f), f_eof := f_eof f \<or> length (f_rest f) < n\<rparr>)"

subsection \<open>The environment\<close>

text \<open>The files of libotr: they may be called without a user state and without a file.\<close>

record file_env =
  otrl_base64_encode :: "bytes \<Rightarrow> string"
  otrl_base64_decode :: "string \<Rightarrow> bytes"
  otrl_instag_generate_FILEp :: "otrl_user_state option \<Rightarrow> ofile_s option \<Rightarrow> string \<Rightarrow> string \<Rightarrow> bool \<times> otrl_user_state option \<times> ofile_s option"
  otrl_instag_read_FILEp :: "otrl_user_state option \<Rightarrow> file_s option \<Rightarrow> bool \<times> otrl_user_state option \<times> file_s option"
  otrl_privkey_read_FILEp :: "otrl_user_state option \<Rightarrow> file_s option \<Rightarrow> bool \<times> otrl_user_state option \<times> file_s option"
  otrl_privkey_read_fingerprints_FILEp :: "otrl_user_state option \<Rightarrow> file_s option \<Rightarrow> otrl_user_state option \<times> file_s option"
  otrl_privkey_write_fingerprints_FILEp :: "otrl_user_state option \<Rightarrow> ofile_s option \<Rightarrow> bool \<times> ofile_s option"

definition OTRNG_BASE64_ENCODE_LEN :: "nat \<Rightarrow> nat" where "OTRNG_BASE64_ENCODE_LEN x = (x + 2) div 3 * 4"
definition OTRNG_BASE64_DECODE_LEN :: "nat \<Rightarrow> nat" where "OTRNG_BASE64_DECODE_LEN x = (x + 3) div 4 * 3"

text \<open>\<open>base64.c\<close>: the terminating zero comes after what was encoded.\<close>

definition otrng_base64_encode :: "file_env \<Rightarrow> bytes \<Rightarrow> string option" where
  "otrng_base64_encode B src = (
     let dst = otrl_base64_encode B src
     in if OTRNG_BASE64_ENCODE_LEN (length src) + 1 < length dst + 1 then None else Some dst)"

subsection \<open>Private and forging keys\<close>

definition otrng_client_get_storage_id_len :: "('p, 's, 'm) full_client_s \<Rightarrow> nat" where
  "otrng_client_get_storage_id_len client = length (id_protocol (cl_client_id client)) + length (id_account (cl_client_id client)) + 1"

definition otrng_client_get_storage_id :: "('p, 's, 'm) full_client_s \<Rightarrow> string" where
  "otrng_client_get_storage_id client = id_protocol (cl_client_id client) @ '':'' @ id_account (cl_client_id client)"

definition BASE64_ENCODED_SYMMETRIC_SECRET_LENGTH :: nat where [const_defs]:
  "BASE64_ENCODED_SYMMETRIC_SECRET_LENGTH = (ED448_PRIVATE_BYTES + 2) div 3 * 4"

definition client_private_key_v4_get_max_length :: "('p, 's, 'm) full_client_s \<Rightarrow> nat" where
  "client_private_key_v4_get_max_length client = otrng_client_get_storage_id_len client + 1 + BASE64_ENCODED_SYMMETRIC_SECRET_LENGTH + 1"

definition client_private_key_v4_write_to_buffer :: "file_env \<Rightarrow> ('p, 's, 'm) full_client_s \<Rightarrow> nat \<Rightarrow> string outcome" where
  "client_private_key_v4_write_to_buffer B client buflen =
     (if \<not> cl_has_keypair client then Some None
      else let key = otrng_client_get_storage_id client in
        if length key + 1 > buflen then Some None
        else let buf = key @ [newline] in
          if length buf + BASE64_ENCODED_SYMMETRIC_SECRET_LENGTH + 1 > buflen then Some None
          else let buf = buf @ otrl_base64_encode B (take ED448_PRIVATE_BYTES (kp_sym (cl_keypair client))) @ [newline]
            in if buflen < length buf then None else Some (Some buf))"

text \<open>\<open>fwrite\<close> with elements of one byte returns the number of bytes; it is compared with one.\<close>

definition otrng_client_private_key_v4_write_to ::
    "file_env \<Rightarrow> ('p, 's, 'm) full_client_s \<Rightarrow> ofile_s option \<Rightarrow> (bool \<times> ofile_s option) option" where
  "otrng_client_private_key_v4_write_to B client fp = (case fp of
     None \<Rightarrow> Some (False, None)
   | Some f \<Rightarrow> (case client_private_key_v4_write_to_buffer B client (client_private_key_v4_get_max_length client) of
         None \<Rightarrow> None
       | Some None \<Rightarrow> Some (False, fp)
       | Some (Some buffer) \<Rightarrow> (case fwrite buffer f of (err, f) \<Rightarrow> if err \<noteq> 1 then Some (False, Some f) else Some (True, Some f))))"

text \<open>The end of each writer: the storage id and the encoded bytes on a line each.\<close>

definition write_encoded :: "file_env \<Rightarrow> ('p, 's, 'm) full_client_s \<Rightarrow> bytes \<Rightarrow> ofile_s \<Rightarrow> (bool \<times> ofile_s option) option" where
  "write_encoded B client buffer f = do {
     encoded \<leftarrow> otrng_base64_encode B buffer;
     let storage_id = otrng_client_get_storage_id client;
     case fprintf (storage_id @ [newline] @ encoded @ [newline]) f of
       (ok, f) \<Rightarrow> if \<not> ok then Some (False, Some f) else Some (True, Some f) }"

definition otrng_client_forging_key_write_to ::
    "('p, 's, 'm, 'h) crypto_ops \<Rightarrow> file_env \<Rightarrow> ('p, 's, 'm) full_client_s \<Rightarrow> ofile_s option \<Rightarrow> (bool \<times> ofile_s option) option" where
  "otrng_client_forging_key_write_to C B client forgingf = (case forgingf of
     None \<Rightarrow> Some (False, None)
   | Some f \<Rightarrow>
       if \<not> cl_has_forging_key client then Some (False, forgingf)
       else let buffer = otrng_serialize_forging_key C (cl_forging_key client) in
         if length buffer = 0 then Some (False, forgingf) else write_encoded B client buffer f)"

subsection \<open>Reading lines\<close>

definition MAX_LINE_LENGTH :: nat where [const_defs]: "MAX_LINE_LENGTH = 1000"

text \<open>The length is that of the C string, up to the first zero.\<close>

definition get_limited_line :: "file_s \<Rightarrow> string option \<times> file_s" where
  "get_limited_line f = (case fgets MAX_LINE_LENGTH f of
     (None, f) \<Rightarrow> (None, f)
   | (Some buf, f) \<Rightarrow> (Some (takeWhile (\<lambda>c. c \<noteq> nul) buf), f))"

definition otrng_client_read_from_prefix :: "file_env \<Rightarrow> file_s option \<Rightarrow> (bytes option \<times> file_s option) option" where
  "otrng_client_read_from_prefix B fp = do {
     f \<leftarrow> fp;
     case get_limited_line f of
       (None, f) \<Rightarrow> Some (None, Some f)
     | (Some line, f) \<Rightarrow> do {
         dec \<leftarrow> into_buffer (OTRNG_BASE64_DECODE_LEN (length line)) (otrl_base64_decode B line);
         Some (Some dec, Some f) } }"

fun split_tabs :: "nat \<Rightarrow> string \<Rightarrow> string list" where
  "split_tabs 0 cs = []"
| "split_tabs (Suc n) cs =
     (if tab \<notin> set cs then [cs]
      else takeWhile (\<lambda>c. c \<noteq> tab) cs # split_tabs n (drop 1 (dropWhile (\<lambda>c. c \<noteq> tab) cs)))"

definition split_tab_delimited_file :: "string \<Rightarrow> nat \<Rightarrow> string list" where
  "split_tab_delimited_file line max_items = (
     let eol = (if carriage_return \<in> set line then carriage_return else newline)
     in split_tabs max_items (takeWhile (\<lambda>c. c \<noteq> eol) line))"

text \<open>The two tables, runs of zeros written as such.\<close>

definition hextable :: "nat list" where
  "hextable = replicate 48 0 @ [0, 1, 2, 3, 4, 5, 6, 7, 8, 9] @ replicate 7 0 @ [10, 11, 12, 13, 14, 15] @ replicate 26 0 @
     [10, 11, 12, 13, 14, 15] @ replicate 153 0"

definition hextable_ok :: "nat list" where
  "hextable_ok = replicate 48 0 @ replicate 10 1 @ replicate 7 0 @ replicate 6 1 @ replicate 26 0 @ replicate 6 1 @ replicate 153 0"

text \<open>The characters are signed: one from 128 on reads before the table.  What the string has no characters for is read
  past its end.\<close>

fun fingerprint_hex_to_bytes :: "nat \<Rightarrow> string \<Rightarrow> bytes option" where
  "fingerprint_hex_to_bytes 0 pos = Some []"
| "fingerprint_hex_to_bytes (Suc n) (a # b # pos) =
     (if of_char a \<ge> (128 :: nat) \<or> of_char b \<ge> (128 :: nat) then None
      else do {
        fp \<leftarrow> fingerprint_hex_to_bytes n pos;
        Some ((push_bit 4 (of_nat (hextable ! of_char a)) + of_nat (hextable ! of_char b)) # fp) })"
| "fingerprint_hex_to_bytes (Suc n) pos = None"

text \<open>\<open>with_client\<close> stands for \<open>get_client\<close> and the pointer it returns: it applies a change to the client with the given
  name, which it creates when there is none.\<close>

definition otrng_client_fingerprint_v4_read_from ::
    "(otrng_client_id_s \<Rightarrow> (('p, 's, 'm) full_client_s \<Rightarrow> ('p, 's, 'm) full_client_s option) \<Rightarrow> 'g \<Rightarrow> 'g option)
     \<Rightarrow> 'g \<Rightarrow> file_s option \<Rightarrow> (bool \<times> 'g \<times> file_s option) option" where
  "otrng_client_fingerprint_v4_read_from with_client gs fp = do {
     f \<leftarrow> fp;
     case get_limited_line f of
       (None, f) \<Rightarrow> Some (False, gs, Some f)
     | (Some line, f) \<Rightarrow>
         (let items = split_tab_delimited_file line 5 in
          if length items \<noteq> 4 \<and> length items \<noteq> 5 then Some (False, gs, Some f)
          else
            let client_id = \<lparr>id_protocol = items ! 2, id_account = items ! 1\<rparr>;
                fp_human = items ! 3 in
            if length fp_human \<noteq> FPRINT_LEN_BYTES * 2 then Some (False, gs, Some f)
            else
              let trusted = (length items = 5 \<and> length (items ! 4) > 0) in do {
              gs \<leftarrow> with_client client_id (\<lambda>client. do {
                 bytes \<leftarrow> fingerprint_hex_to_bytes FPRINT_LEN_BYTES fp_human;
                 let fps = (case cl_fingerprints client of None \<Rightarrow> [] | Some fps \<Rightarrow> fps);
                 Some (client\<lparr>cl_fingerprints := Some (fps @ [\<lparr>kf_username = items ! 0, kf_fp = bytes, kf_trusted = trusted\<rparr>])\<rparr>) }) gs;
              Some (True, gs, Some f) }) }"

definition otrng_symmetric_key_deserialize :: "('p, 's, 'm, 'h) crypto_ops \<Rightarrow> file_env \<Rightarrow> string \<Rightarrow> ('p, 's) otrng_keypair_s outcome" where
  "otrng_symmetric_key_deserialize C B buffer = do {
     dec \<leftarrow> into_buffer ((length buffer + 3) div 4 * 3) (otrl_base64_decode B buffer);
     if length dec = ED448_PRIVATE_BYTES then Some (otrng_keypair_generate C dec) else Some None }"

definition otrng_client_private_key_v4_read_from ::
    "('p, 's, 'm, 'h) crypto_ops \<Rightarrow> file_env \<Rightarrow> ('p, 's, 'm) full_client_s \<Rightarrow> file_s option
     \<Rightarrow> (bool \<times> ('p, 's, 'm) full_client_s \<times> file_s option) option" where
  "otrng_client_private_key_v4_read_from C B client privf = (case privf of
     None \<Rightarrow> Some (False, client, None)
   | Some f \<Rightarrow>
       if feof f then Some (False, client, privf)
       else let client = client\<lparr>cl_has_keypair := False\<rparr> in
         case get_limited_line f of
           (None, f) \<Rightarrow> Some (False, client, Some f)
         | (Some line, f) \<Rightarrow> (case otrng_symmetric_key_deserialize C B line of
               None \<Rightarrow> None
             | Some None \<Rightarrow> Some (False, client, Some f)
             | Some (Some keypair) \<Rightarrow> Some (True, client\<lparr>cl_has_keypair := True, cl_keypair := keypair\<rparr>, Some f)))"

text \<open>The beginning of the other readers: a line is decoded and parsed.  When that fails the client is as it was.\<close>

definition read_decoded ::
    "file_env \<Rightarrow> (bytes \<Rightarrow> 'a parsed) \<Rightarrow> ('a \<Rightarrow> bool \<times> ('p, 's, 'm) full_client_s) \<Rightarrow> ('p, 's, 'm) full_client_s \<Rightarrow> file_s option
     \<Rightarrow> (bool \<times> ('p, 's, 'm) full_client_s \<times> file_s option) option" where
  "read_decoded B parse store client fp = do {
     (dec, fp) \<leftarrow> otrng_client_read_from_prefix B fp;
     case dec of
       None \<Rightarrow> Some (False, client, fp)
     | Some dec \<Rightarrow> (case parse dec of
           None \<Rightarrow> Some (False, client, fp)
         | Some (x, _) \<Rightarrow> (case store x of (ok, client) \<Rightarrow> Some (ok, client, fp))) }"

definition otrng_client_forging_key_read_from ::
    "('p, 's, 'm, 'h) crypto_ops \<Rightarrow> file_env \<Rightarrow> ('p, 's, 'm) full_client_s \<Rightarrow> file_s option
     \<Rightarrow> (bool \<times> ('p, 's, 'm) full_client_s \<times> file_s option) option" where
  "otrng_client_forging_key_read_from C B client fp = read_decoded B (otrng_deserialize_forging_key C)
     (\<lambda>key. otrng_client_add_forging_key (client\<lparr>cl_has_forging_key := False\<rparr>) key) client fp"

subsection \<open>Instance tags and keys of version 3\<close>

definition otrng_client_instance_tag_write_to ::
    "file_env \<Rightarrow> ('p, 's, 'm) full_client_s \<Rightarrow> ofile_s option \<Rightarrow> bool \<times> ('p, 's, 'm) full_client_s \<times> ofile_s option" where
  "otrng_client_instance_tag_write_to B client instagf =
     (case otrl_instag_generate_FILEp B (cl_user_state client) instagf (id_account (cl_client_id client)) (id_protocol (cl_client_id client)) of
        (ret, us, instagf) \<Rightarrow> if ret then (False, client\<lparr>cl_user_state := us\<rparr>, instagf) else (True, client\<lparr>cl_user_state := us\<rparr>, instagf))"

definition otrng_client_instance_tag_read_from ::
    "file_env \<Rightarrow> ('p, 's, 'm) full_client_s \<Rightarrow> file_s option \<Rightarrow> bool \<times> ('p, 's, 'm) full_client_s \<times> file_s option" where
  "otrng_client_instance_tag_read_from B client instagf =
     (if cl_user_state client = None then (False, client, instagf)
      else case otrl_instag_read_FILEp B (cl_user_state client) instagf of
        (ret, us, instagf) \<Rightarrow> if ret then (False, client\<lparr>cl_user_state := us\<rparr>, instagf) else (True, client\<lparr>cl_user_state := us\<rparr>, instagf))"

definition otrng_client_private_key_v3_read_from ::
    "file_env \<Rightarrow> ('p, 's, 'm) full_client_s \<Rightarrow> file_s option \<Rightarrow> bool \<times> ('p, 's, 'm) full_client_s \<times> file_s option" where
  "otrng_client_private_key_v3_read_from B client fp =
     (case otrl_privkey_read_FILEp B (cl_user_state client) fp of
        (ret, us, fp) \<Rightarrow> if ret then (False, client\<lparr>cl_user_state := us\<rparr>, fp) else (True, client\<lparr>cl_user_state := us\<rparr>, fp))"

subsection \<open>Profiles and prekey messages\<close>

definition otrng_client_client_profile_read_from ::
    "('p, 's, 'm, 'h) crypto_ops \<Rightarrow> ('p, 's) wiped \<Rightarrow> file_env \<Rightarrow> ('p, 's, 'm) full_client_s \<Rightarrow> file_s option
     \<Rightarrow> (bool \<times> ('p, 's, 'm) full_client_s \<times> file_s option) option" where
  "otrng_client_client_profile_read_from C Z B client fp = read_decoded B (otrng_client_profile_deserialize_with_metadata C Z)
     (\<lambda>profile. otrng_client_add_client_profile Z (client\<lparr>cl_client_profile := None\<rparr>) (Some profile)) client fp"

definition otrng_client_expired_client_profile_read_from ::
    "('p, 's, 'm, 'h) crypto_ops \<Rightarrow> ('p, 's) wiped \<Rightarrow> file_env \<Rightarrow> ('p, 's, 'm) full_client_s \<Rightarrow> file_s option
     \<Rightarrow> (bool \<times> ('p, 's, 'm) full_client_s \<times> file_s option) option" where
  "otrng_client_expired_client_profile_read_from C Z B client fp = read_decoded B (otrng_client_profile_deserialize C Z)
     (\<lambda>exp_profile. otrng_client_add_exp_client_profile Z (client\<lparr>cl_exp_client_profile := None\<rparr>) (Some exp_profile)) client fp"

definition otrng_client_client_profile_write_to ::
    "('p, 's, 'm, 'h) crypto_ops \<Rightarrow> file_env \<Rightarrow> ('p, 's, 'm) full_client_s \<Rightarrow> ofile_s option \<Rightarrow> (bool \<times> ofile_s option) option" where
  "otrng_client_client_profile_write_to C B client profilef = (case profilef of
     None \<Rightarrow> Some (False, None)
   | Some f \<Rightarrow> (case cl_client_profile client of
         None \<Rightarrow> Some (False, profilef)
       | Some profile \<Rightarrow> do {
           buffer \<leftarrow> otrng_client_profile_serialize_with_metadata C profile;
           write_encoded B client buffer f }))"

definition otrng_client_expired_client_profile_write_to ::
    "('p, 's, 'm, 'h) crypto_ops \<Rightarrow> file_env \<Rightarrow> ('p, 's, 'm) full_client_s \<Rightarrow> ofile_s option \<Rightarrow> (bool \<times> ofile_s option) option" where
  "otrng_client_expired_client_profile_write_to C B client profilef = (case profilef of
     None \<Rightarrow> Some (False, None)
   | Some f \<Rightarrow> (case cl_exp_client_profile client of
         None \<Rightarrow> Some (False, profilef)
       | Some profile \<Rightarrow> do {
           buffer \<leftarrow> otrng_client_profile_serialize_with_metadata C profile;
           write_encoded B client buffer f }))"

definition PRE_KEY_WITH_METADATA_MAX_BYTES :: nat where [const_defs]:
  "PRE_KEY_WITH_METADATA_MAX_BYTES = DAKE_HEADER_BYTES + ED448_POINT_BYTES + DH_MPI_MAX_BYTES + 1 + ED448_SCALAR_BYTES + DH_MPI_MAX_BYTES"

text \<open>The storage id is written before the message is serialized.\<close>

definition serialize_and_store_prekey ::
    "('p, 's, 'm, 'h) crypto_ops \<Rightarrow> file_env \<Rightarrow> ('p, 's, 'm) prekey_message_s \<Rightarrow> string \<Rightarrow> ofile_s \<Rightarrow> (bool \<times> ofile_s) option" where
  "serialize_and_store_prekey C B prekey storage_id prekeyf =
     (case fprintf (storage_id @ [newline]) prekeyf of (ok, prekeyf) \<Rightarrow>
        if \<not> ok then Some (False, prekeyf)
        else case otrng_prekey_message_serialize_with_metadata C PRE_KEY_WITH_METADATA_MAX_BYTES prekey of
            None \<Rightarrow> None
          | Some None \<Rightarrow> Some (False, prekeyf)
          | Some (Some tmp_buffer) \<Rightarrow>
              if PRE_KEY_WITH_METADATA_MAX_BYTES < length tmp_buffer then None
              else do {
                encoded \<leftarrow> otrng_base64_encode B tmp_buffer;
                case fprintf (encoded @ [newline]) prekeyf of (ok, prekeyf) \<Rightarrow> if \<not> ok then Some (False, prekeyf) else Some (True, prekeyf) })"

fun store_prekeys ::
    "('p, 's, 'm, 'h) crypto_ops \<Rightarrow> file_env \<Rightarrow> ('p, 's, 'm) prekey_message_s list \<Rightarrow> string \<Rightarrow> ofile_s \<Rightarrow> (bool \<times> ofile_s) option" where
  "store_prekeys C B [] storage_id prekeyf = Some (True, prekeyf)"
| "store_prekeys C B (prekey # rest) storage_id prekeyf = (case serialize_and_store_prekey C B prekey storage_id prekeyf of
     None \<Rightarrow> None
   | Some (ok, prekeyf) \<Rightarrow> if \<not> ok then Some (False, prekeyf) else store_prekeys C B rest storage_id prekeyf)"

definition otrng_client_prekeys_write_to ::
    "('p, 's, 'm, 'h) crypto_ops \<Rightarrow> file_env \<Rightarrow> ('p, 's, 'm) full_client_s \<Rightarrow> ofile_s option \<Rightarrow> (bool \<times> ofile_s option) option" where
  "otrng_client_prekeys_write_to C B client prekeyf = (case prekeyf of
     None \<Rightarrow> Some (False, None)
   | Some f \<Rightarrow>
       if cl_our_prekeys client = [] then Some (False, prekeyf)
       else map_option (\<lambda>(ok, f). (ok, Some f)) (store_prekeys C B (cl_our_prekeys client) (otrng_client_get_storage_id client) f))"

definition read_and_deserialize_prekey ::
    "('p, 's, 'm, 'h) crypto_ops \<Rightarrow> ('p, 's) wiped \<Rightarrow> file_env \<Rightarrow> ('p, 's, 'm) full_client_s \<Rightarrow> file_s option
     \<Rightarrow> (bool \<times> ('p, 's, 'm) full_client_s \<times> file_s option) option" where
  "read_and_deserialize_prekey C Z B client fp =
     read_decoded B (otrng_prekey_message_deserialize_with_metadata C (otrng_prekey_message_new Z))
       (\<lambda>prekey_msg. (True, client\<lparr>cl_our_prekeys := cl_our_prekeys client @ [prekey_msg]\<rparr>)) client fp"

definition otrng_client_prekey_messages_read_from ::
    "('p, 's, 'm, 'h) crypto_ops \<Rightarrow> ('p, 's) wiped \<Rightarrow> file_env \<Rightarrow> ('p, 's, 'm) full_client_s \<Rightarrow> file_s option
     \<Rightarrow> (bool \<times> ('p, 's, 'm) full_client_s \<times> file_s option) option" where
  "otrng_client_prekey_messages_read_from C Z B client prekeyf =
     (if prekeyf = None then Some (False, client, prekeyf) else read_and_deserialize_prekey C Z B client prekeyf)"

definition otrng_client_prekey_profile_write_to ::
    "('p, 's, 'm, 'h) crypto_ops \<Rightarrow> file_env \<Rightarrow> ('p, 's, 'm) full_client_s \<Rightarrow> ofile_s option \<Rightarrow> (bool \<times> ofile_s option) option" where
  "otrng_client_prekey_profile_write_to C B client profilef = (case profilef of
     None \<Rightarrow> Some (False, None)
   | Some f \<Rightarrow> (case cl_prekey_profile client of
         None \<Rightarrow> Some (False, profilef)
       | Some profile \<Rightarrow> (case otrng_prekey_profile_serialize_with_metadata C profile of
             None \<Rightarrow> None
           | Some None \<Rightarrow> Some (False, profilef)
           | Some (Some buffer) \<Rightarrow> write_encoded B client buffer f)))"

definition otrng_client_expired_prekey_profile_write_to ::
    "('p, 's, 'm, 'h) crypto_ops \<Rightarrow> file_env \<Rightarrow> ('p, 's, 'm) full_client_s \<Rightarrow> ofile_s option \<Rightarrow> (bool \<times> ofile_s option) option" where
  "otrng_client_expired_prekey_profile_write_to C B client profilef = (case profilef of
     None \<Rightarrow> Some (False, None)
   | Some f \<Rightarrow> (case cl_exp_prekey_profile client of
         None \<Rightarrow> Some (False, profilef)
       | Some profile \<Rightarrow> (case otrng_prekey_profile_serialize_with_metadata C profile of
             None \<Rightarrow> None
           | Some None \<Rightarrow> Some (False, profilef)
           | Some (Some buffer) \<Rightarrow> write_encoded B client buffer f)))"

definition otrng_client_prekey_profile_read_from ::
    "('p, 's, 'm, 'h) crypto_ops \<Rightarrow> ('p, 's) wiped \<Rightarrow> file_env \<Rightarrow> ('p, 's, 'm) full_client_s \<Rightarrow> file_s option
     \<Rightarrow> (bool \<times> ('p, 's, 'm) full_client_s \<times> file_s option) option" where
  "otrng_client_prekey_profile_read_from C Z B client fp =
     read_decoded B (otrng_prekey_profile_deserialize_with_metadata C (prekey_profile_zero Z))
       (\<lambda>profile. otrng_client_add_prekey_profile Z (client\<lparr>cl_prekey_profile := None\<rparr>) (Some profile)) client fp"

definition otrng_client_expired_prekey_profile_read_from ::
    "('p, 's, 'm, 'h) crypto_ops \<Rightarrow> ('p, 's) wiped \<Rightarrow> file_env \<Rightarrow> ('p, 's, 'm) full_client_s \<Rightarrow> file_s option
     \<Rightarrow> (bool \<times> ('p, 's, 'm) full_client_s \<times> file_s option) option" where
  "otrng_client_expired_prekey_profile_read_from C Z B client fp =
     read_decoded B (otrng_prekey_profile_deserialize C (prekey_profile_zero Z))
       (\<lambda>exp_profile. otrng_client_add_exp_prekey_profile Z (client\<lparr>cl_exp_prekey_profile := None\<rparr>) (Some exp_profile)) client fp"

subsection \<open>Fingerprints\<close>

definition add_fingerprint_to_file :: "otrng_client_id_s \<Rightarrow> otrng_known_fingerprint_s \<Rightarrow> ofile_s \<Rightarrow> ofile_s" where
  "add_fingerprint_to_file client_id fp f = (
     let f = put (kf_username fp @ [tab] @ id_account client_id @ [tab] @ id_protocol client_id @ [tab]) f;
         f = fold (\<lambda>b. put (print_02x b)) (take FPRINT_LEN_BYTES (kf_fp fp)) f
     in put ([tab] @ (if kf_trusted fp then ''trusted'' else '''') @ [newline]) f)"

definition otrng_client_fingerprints_v4_write_to ::
    "('p, 's, 'm) full_client_s \<Rightarrow> ofile_s option \<Rightarrow> bool \<times> ofile_s option" where
  "otrng_client_fingerprints_v4_write_to client fp = (case cl_fingerprints client of
     None \<Rightarrow> (False, fp)
   | Some fps \<Rightarrow> (case fp of
         None \<Rightarrow> (False, fp)
       | Some f \<Rightarrow> (True, Some (fold (add_fingerprint_to_file (cl_client_id client)) fps f))))"

subsection \<open>The identity\<close>

definition identity_hash :: "('p, 's, 'm, 'h) crypto_ops \<Rightarrow> bytes \<Rightarrow> bytes \<Rightarrow> bytes \<Rightarrow> bytes option" where
  "identity_hash C version private_key forging_key = do {
     hd \<leftarrow> hash_update C (hash_init C) version;
     hd \<leftarrow> hash_update C hd private_key;
     hd \<leftarrow> hash_update C hd forging_key;
     Some (hash_final C hd 32) }"

definition otrng_client_export_v4_identity ::
    "('p, 's, 'm, 'h) crypto_ops \<Rightarrow> ('p, 's, 'm) full_client_s \<Rightarrow> ofile_s option \<Rightarrow> bool \<times> ofile_s option" where
  "otrng_client_export_v4_identity C client fp = (case fp of
     None \<Rightarrow> (False, fp)
   | Some f \<Rightarrow>
       if \<not> cl_has_keypair client \<or> \<not> cl_has_forging_key client then (False, fp)
       else
         let forg_ser = otrng_serialize_ec_point C (cl_forging_key client);
             seed = take ED448_PRIVATE_BYTES (kp_sym (cl_keypair client)) in
         if length forg_ser \<noteq> ED448_POINT_BYTES then (False, fp)
         else
           let f = put ''v4:'' f;
               f = fold (\<lambda>b. put (print_02x b)) seed f;
               f = put '':'' f;
               f = fold (\<lambda>b. put (print_02x b)) forg_ser f;
               f = put '':'' f
           in case identity_hash C (ascii ''v4'') seed forg_ser of
                None \<Rightarrow> (False, Some f)
              | Some hash_ser \<Rightarrow> (True, Some (fold (\<lambda>b. put (print_02x b)) hash_ser f)))"

fun read_hex_bytes_from :: "nat \<Rightarrow> file_s \<Rightarrow> bytes option \<times> file_s" where
  "read_hex_bytes_from 0 fp = (Some [], fp)"
| "read_hex_bytes_from (Suc n) fp =
     (case fgetc fp of (one, fp) \<Rightarrow> case fgetc fp of (two, fp) \<Rightarrow>
      (case (one, two) of
         (Some one, Some two) \<Rightarrow>
           if hextable_ok ! one = 0 \<or> hextable_ok ! two = 0 then (None, fp)
           else (case read_hex_bytes_from n fp of (buf, fp) \<Rightarrow>
             (map_option (\<lambda>buf. (push_bit 4 (of_nat (hextable ! one)) + of_nat (hextable ! two)) # buf) buf, fp))
       | _ \<Rightarrow> (None, fp)))"

text \<open>One step of the import after another, until one fails.\<close>

definition read_then :: "(file_s \<Rightarrow> 'a option \<times> file_s) \<Rightarrow> ('a \<Rightarrow> file_s \<Rightarrow> 'b option \<times> file_s) \<Rightarrow> file_s \<Rightarrow> 'b option \<times> file_s" where
  "read_then p q f = (case p f of (None, f) \<Rightarrow> (None, f) | (Some x, f) \<Rightarrow> q x f)"

definition read_version :: "file_s \<Rightarrow> bytes option \<times> file_s" where
  "read_version f = (case fread 2 f of (v, f) \<Rightarrow> (if v = ''v4'' then Some (ascii v) else None, f))"

definition read_colon :: "file_s \<Rightarrow> unit option \<times> file_s" where
  "read_colon f = (case fread 1 f of (c, f) \<Rightarrow> (if c = '':'' then Some () else None, f))"

definition read_identity :: "file_s \<Rightarrow> (bytes \<times> bytes \<times> bytes \<times> bytes) option \<times> file_s" where
  "read_identity =
     read_then read_version (\<lambda>version. read_then read_colon (\<lambda>_.
     read_then (read_hex_bytes_from ED448_PRIVATE_BYTES) (\<lambda>private_key. read_then read_colon (\<lambda>_.
     read_then (read_hex_bytes_from ED448_POINT_BYTES) (\<lambda>forging_key. read_then read_colon (\<lambda>_.
     read_then (read_hex_bytes_from 32) (\<lambda>hash_ser f. (Some (version, private_key, forging_key, hash_ser), f))))))))"

text \<open>The key pair of the client is replaced before the forging key is decoded.\<close>

definition otrng_client_import_v4_identity ::
    "('p, 's, 'm, 'h) crypto_ops \<Rightarrow> ('p, 's) wiped \<Rightarrow> ('p, 's, 'm) full_client_s \<Rightarrow> file_s option
     \<Rightarrow> (bool \<times> ('p, 's, 'm) full_client_s \<times> file_s option) option" where
  "otrng_client_import_v4_identity C Z client fp = do {
     f \<leftarrow> fp;
     case read_identity f of
       (None, f) \<Rightarrow> Some (False, client, Some f)
     | (Some (version, private_key, forging_key, read_hash), f) \<Rightarrow>
         (if identity_hash C version private_key forging_key \<noteq> Some read_hash then Some (False, client, Some f)
          else case otrng_keypair_generate C private_key of
              None \<Rightarrow> Some (False, client\<lparr>cl_has_keypair := True, cl_keypair := keypair_without_public_key C Z private_key\<rparr>, Some f)
            | Some kp \<Rightarrow>
                let client = client\<lparr>cl_has_keypair := True, cl_keypair := kp\<rparr> in
                case otrng_deserialize_ec_point C forging_key of
                  None \<Rightarrow> Some (False, client, Some f)
                | Some key \<Rightarrow> (case otrng_client_add_forging_key (client\<lparr>cl_has_forging_key := False\<rparr>) key of
                      (ok, client) \<Rightarrow> Some (ok, client, Some f))) }"

subsection \<open>Hexadecimal text\<close>

text \<open>The reference: each two digits are a number to the base 16.\<close>

fun hex_pairs :: "string \<Rightarrow> bytes" where
  "hex_pairs (a # b # s) = of_nat (digits_value 16 [a, b]) # hex_pairs s"
| "hex_pairs _ = []"

definition hex_value :: "nat \<Rightarrow> nat option" where
  "hex_value n = (if 48 \<le> n \<and> n \<le> 57 then Some (n - 48) else if 65 \<le> n \<and> n \<le> 70 then Some (n - 55)
     else if 97 \<le> n \<and> n \<le> 102 then Some (n - 87) else None)"

lemma hextable_eq:
  "hextable = map (\<lambda>n. case hex_value n of None \<Rightarrow> 0 | Some d \<Rightarrow> d) [0..<256]"
  "hextable_ok = map (\<lambda>n. case hex_value n of None \<Rightarrow> 0 | Some d \<Rightarrow> 1) [0..<256]"
  by code_simp+

lemma hextable_nth:
  "n < 256 \<Longrightarrow> hextable ! n = (case hex_value n of None \<Rightarrow> 0 | Some d \<Rightarrow> d)"
  "n < 256 \<Longrightarrow> hextable_ok ! n = (case hex_value n of None \<Rightarrow> 0 | Some d \<Rightarrow> 1)"
  unfolding hextable_eq by simp_all

lemma of_char_less: "of_char c < (256 :: nat)"
  by (rule nat_of_char_less_256)

lemma hextable_digit:
  "hextable_ok ! of_char c \<noteq> 0 \<longleftrightarrow> is_digit 16 c" "is_digit 16 c \<Longrightarrow> hextable ! of_char c = the (digit_value c)"
  "is_digit 16 c \<Longrightarrow> of_char c < (128 :: nat)" "is_digit 16 c \<Longrightarrow> the (digit_value c) < 16"
  using of_char_less[of c]
  by (auto simp: hextable_nth hex_value_def is_digit_def digit_value_def Let_def split: if_splits)

lemma nibbles: "push_bit 4 (of_nat h) + of_nat l = (of_nat (h * 16 + l) :: byte)"
  by (simp add: push_bit_eq_mult)

lemma hex_pair_value:
  assumes "is_digit 16 a" "is_digit 16 b"
  shows "push_bit 4 (of_nat (hextable ! of_char a)) + of_nat (hextable ! of_char b) = (of_nat (digits_value 16 [a, b]) :: byte)"
  by (simp add: nibbles hextable_digit(2)[OF assms(1)] hextable_digit(2)[OF assms(2)] digits_value_def)

lemma hex_to_bytes_digits:
  "length s = 2 * n \<Longrightarrow> list_all (is_digit 16) s \<Longrightarrow> fingerprint_hex_to_bytes n s = Some (hex_pairs s)"
proof (induction n arbitrary: s)
  case (Suc n)
  then obtain a b t where s: "s = a # b # t" by (cases s; cases "tl s") auto
  with Suc show ?case using hextable_digit(3)[of a] hextable_digit(3)[of b]
    by (simp add: hex_pair_value not_le)
qed simp

lemma read_hex_digits:
  "length s = 2 * n \<Longrightarrow> list_all (is_digit 16) s \<Longrightarrow>
     read_hex_bytes_from n \<lparr>f_rest = s @ r, f_eof = e\<rparr> = (Some (hex_pairs s), \<lparr>f_rest = r, f_eof = e\<rparr>)"
proof (induction n arbitrary: s)
  case (Suc n)
  then obtain a b t where s: "s = a # b # t" by (cases s; cases "tl s") auto
  with Suc show ?case using hextable_digit(1)[of a] hextable_digit(1)[of b]
    by (simp add: hex_pair_value fgetc_def)
qed simp

lemma read_hex_others:
  "length s = 2 * n \<Longrightarrow> \<not> list_all (is_digit 16) s \<Longrightarrow> fst (read_hex_bytes_from n \<lparr>f_rest = s @ r, f_eof = e\<rparr>) = None"
proof (induction n arbitrary: s)
  case (Suc n)
  then obtain a b t where s: "s = a # b # t" by (cases s; cases "tl s") auto
  with Suc show ?case using hextable_digit(1)[of a] hextable_digit(1)[of b]
    by (auto simp: fgetc_def split_beta)
qed simp

lemma read_hex_short:
  "length s < 2 * n \<Longrightarrow> fst (read_hex_bytes_from n \<lparr>f_rest = s, f_eof = e\<rparr>) = None"
proof (induction n arbitrary: s)
  case (Suc n)
  show ?case
  proof (cases "2 \<le> length s")
    case True
    then obtain a b t where s: "s = a # b # t" by (cases s; cases "tl s") auto
    with Suc show ?thesis by (auto simp: fgetc_def split_beta)
  next
    case False
    then have "s = [] \<or> (\<exists>a. s = [a])" by (cases s; cases "tl s") auto
    then show ?thesis by (auto simp: fgetc_def)
  qed
qed simp

text \<open>C30: reading hexadecimal numbers with the tables is reading them as numbers to the base 16: the reader of
  the identity takes exactly two digits for each byte, in either case of letters, refuses everything else and a file that
  is too short, and the reader of fingerprints computes the same bytes from digits.\<close>

theorem hex_tables_equivalent:
  "(read_hex_bytes_from n \<lparr>f_rest = s, f_eof = e\<rparr> = (Some bs, f) \<longleftrightarrow>
       2 * n \<le> length s \<and> list_all (is_digit 16) (take (2 * n) s) \<and> bs = hex_pairs (take (2 * n) s) \<and> f = \<lparr>f_rest = drop (2 * n) s, f_eof = e\<rparr>) \<and>
     (length t = 2 * n \<and> list_all (is_digit 16) t \<longrightarrow> fingerprint_hex_to_bytes n t = Some (hex_pairs t))"
proof (cases "2 * n \<le> length s")
  case True
  then have l: "length (take (2 * n) s) = 2 * n" by simp
  show ?thesis using True read_hex_digits[OF l, of "drop (2 * n) s" e] read_hex_others[OF l, of "drop (2 * n) s" e]
    by (cases "list_all (is_digit 16) (take (2 * n) s)") (auto simp: hex_to_bytes_digits)
next
  case False
  then show ?thesis using read_hex_short[of s n e] by (auto simp: hex_to_bytes_digits)
qed

theorem hex_tables_equivalent_witness:
  "read_hex_bytes_from 2 \<lparr>f_rest = ''0fA7:'', f_eof = False\<rparr> = (Some [0x0f, 0xa7], \<lparr>f_rest = '':'', f_eof = False\<rparr>) \<and>
     fingerprint_hex_to_bytes 2 ''0FA7'' = Some [0x0f, 0xa7]"
  using hex_tables_equivalent[of 2 "''0fA7:''" False "[0x0f, 0xa7]" "\<lparr>f_rest = '':'', f_eof = False\<rparr>" "''0FA7''"]
  by (simp add: is_digit_def digit_value_def digits_value_def)

subsection \<open>Writing\<close>

lemma put_eq: "put s f = f\<lparr>o_text := o_text f @ (case o_room f of None \<Rightarrow> s | Some room \<Rightarrow> take room s),
    o_room := map_option (\<lambda>room. room - length s) (o_room f)\<rparr>"
  by (cases "o_room f") (auto simp: put_def fprintf_def fwrite_def Let_def)

lemma put_put: "put t (put s f) = put (s @ t) f"
  by (cases "o_room f") (auto simp: put_eq)

lemma put_Nil: "put [] f = f"
  by (cases f; cases "o_room f") (auto simp: put_eq)

lemma fold_put: "fold (\<lambda>b. put (g b)) bs f = put (concat (map g bs)) f"
  by (induction bs arbitrary: f) (simp_all add: put_Nil put_put)

lemma fprintf_unlimited: "fprintf s \<lparr>o_text = t, o_room = None\<rparr> = (True, \<lparr>o_text = t @ s, o_room = None\<rparr>)"
  by (simp add: fprintf_def fwrite_def)

lemma put_unlimited: "put s \<lparr>o_text = t, o_room = None\<rparr> = \<lparr>o_text = t @ s, o_room = None\<rparr>"
  by (simp add: put_def fprintf_unlimited)

lemma print_02x_digits: "list_all (is_digit 16) (print_02x b)"
  using print_digits_are_digits(1)[of 16 _ 2 "unat b"] by (auto simp: print_02x_def list_all_iff)

lemma length_print_02x [simp]: "length (print_02x b) = 2"
  by (simp add: print_02x_def)

lemma hex_pairs_print: "hex_pairs (print_02x b @ s) = b # hex_pairs s"
proof -
  obtain x y where p: "print_02x b = [x, y]" using length_print_02x[of b] by (cases "print_02x b"; cases "tl (print_02x b)") auto
  have "unat b < 256" using unsigned_less[of b] by simp
  then have "digits_value 16 (print_02x b) = unat b"
    by (simp add: print_02x_def digits_value_print)
  with p show ?thesis by simp
qed

text \<open>What is printed is read back.\<close>

lemma print_bytes:
  "list_all (is_digit 16) (concat (map print_02x bs))" "length (concat (map print_02x bs)) = 2 * length bs"
  "hex_pairs (concat (map print_02x bs)) = bs"
  by (induction bs) (simp_all add: print_02x_digits hex_pairs_print)

subsection \<open>The identity\<close>

lemma keypair_generate_again:
  assumes "otrng_keypair_generate C seed = Some kp" "ED448_PRIVATE_BYTES \<le> length seed"
  shows "kp_sym kp = take ED448_PRIVATE_BYTES seed" "length (kp_sym kp) = ED448_PRIVATE_BYTES"
    "otrng_keypair_generate C (kp_sym kp) = Some kp"
  using assms by (auto simp: otrng_keypair_generate_def split: Option.bind_splits)

definition identity_text :: "bytes \<Rightarrow> bytes \<Rightarrow> bytes \<Rightarrow> string" where
  "identity_text seed forging check = ''v4:'' @ concat (map print_02x seed) @ '':'' @ concat (map print_02x forging) @ '':'' @
     concat (map print_02x check)"

lemma read_identity_text:
  assumes "length seed = ED448_PRIVATE_BYTES" "length forging = ED448_POINT_BYTES" "length check = 32"
  shows "read_identity \<lparr>f_rest = identity_text seed forging check @ r, f_eof = False\<rparr> =
     (Some (ascii ''v4'', seed, forging, check), \<lparr>f_rest = r, f_eof = False\<rparr>)"
proof -
  have h: "read_hex_bytes_from n \<lparr>f_rest = concat (map print_02x bs) @ r, f_eof = False\<rparr> = (Some bs, \<lparr>f_rest = r, f_eof = False\<rparr>)"
    if "length bs = n" for n bs r
    using read_hex_digits[of "concat (map print_02x bs)" n r False] that by (simp add: print_bytes)
  have v: "read_version \<lparr>f_rest = ''v4'' @ r, f_eof = False\<rparr> = (Some (ascii ''v4''), \<lparr>f_rest = r, f_eof = False\<rparr>)" for r
    by (simp add: read_version_def fread_def)
  have c: "read_colon \<lparr>f_rest = '':'' @ r, f_eof = False\<rparr> = (Some (), \<lparr>f_rest = r, f_eof = False\<rparr>)" for r
    by (simp add: read_colon_def fread_def)
  have "identity_text seed forging check @ r = ''v4'' @ '':'' @ concat (map print_02x seed) @ '':'' @ concat (map print_02x forging) @ '':'' @
     concat (map print_02x check) @ r" by (simp add: identity_text_def)
  then show ?thesis by (simp only: read_identity_def read_then_def v c h assms prod.case option.case)
qed

lemma identity_hash_ok:
  assumes "sponge_ok C S"
  shows "identity_hash C a b c = Some (xof S (a @ b @ c) 32)"
proof -
  obtain h1 where 1: "hash_update C (hash_init C) a = Some h1" "absorbed S h1 = a" using assms unfolding sponge_ok_def by force
  obtain h2 where 2: "hash_update C h1 b = Some h2" "absorbed S h2 = a @ b" using assms 1(2) unfolding sponge_ok_def by force
  obtain h3 where 3: "hash_update C h2 c = Some h3" "absorbed S h3 = a @ b @ c" using assms 2(2) unfolding sponge_ok_def by force
  have "hash_final C h3 32 = xof S (a @ b @ c) 32" using assms 3(2) by (simp add: sponge_ok_def)
  with 1 2 3 show ?thesis by (simp add: identity_hash_def)
qed

text \<open>C28: an exported identity can be imported: exporting writes a text that any client reads, after which it has the
  same key pair and a forging key that stands for the same point, the other parts of that client are as before, and the file
  is read exactly to the end of the identity.\<close>

theorem identity_export_import:
  assumes G: "goldilocks_ok C S" and "sponge_ok C S"
    and k: "otrng_keypair_generate C seed = Some (cl_keypair client)" "ED448_PRIVATE_BYTES \<le> length seed"
    and "cl_has_keypair client" "cl_has_forging_key client"
  shows "\<exists>exported. otrng_client_export_v4_identity C client (Some \<lparr>o_text = t, o_room = None\<rparr>) =
       (True, Some \<lparr>o_text = t @ exported, o_room = None\<rparr>) \<and>
     otrng_client_import_v4_identity C Z other (Some \<lparr>f_rest = exported @ r, f_eof = False\<rparr>) =
       Some (True, other\<lparr>cl_has_keypair := True, cl_keypair := cl_keypair client, cl_has_forging_key := True,
         cl_forging_key := wire_point C (cl_forging_key client)\<rparr>, Some \<lparr>f_rest = r, f_eof = False\<rparr>) \<and>
     dlog S (wire_point C (cl_forging_key client)) = dlog S (cl_forging_key client)"
proof -
  note kp = keypair_generate_again[OF k]
  let ?s = "kp_sym (cl_keypair client)" and ?f = "otrng_serialize_ec_point C (cl_forging_key client)"
  let ?t = "identity_text ?s ?f (xof S (ascii ''v4'' @ ?s @ ?f) 32)"
  have l: "length ?f = ED448_POINT_BYTES" by (simp add: length_serialize_group[OF G] const_defs)
  have x: "length (xof S (ascii ''v4'' @ ?s @ ?f) 32) = 32" using assms(2) by (simp add: sponge_ok_def)
  have "otrng_client_export_v4_identity C client (Some \<lparr>o_text = t, o_room = None\<rparr>) = (True, Some \<lparr>o_text = t @ ?t, o_room = None\<rparr>)"
    using assms(5,6) kp(2) l
    by (simp add: otrng_client_export_v4_identity_def fold_put put_unlimited identity_hash_ok[OF assms(2)] identity_text_def Let_def)
  moreover have "otrng_client_import_v4_identity C Z other (Some \<lparr>f_rest = ?t @ r, f_eof = False\<rparr>) =
       Some (True, other\<lparr>cl_has_keypair := True, cl_keypair := cl_keypair client, cl_has_forging_key := True,
         cl_forging_key := wire_point C (cl_forging_key client)\<rparr>, Some \<lparr>f_rest = r, f_eof = False\<rparr>)"
    by (simp add: otrng_client_import_v4_identity_def read_identity_text[OF kp(2) l x] identity_hash_ok[OF assms(2)] kp(3)
        wire_point(2)[OF G] otrng_client_add_forging_key_def)
  ultimately show ?thesis using wire_point(3)[OF G] by blast
qed

subsection \<open>Stored lines\<close>

text \<open>libotr's base64: four characters for every three bytes begun; decoding inverts encoding and skips the newline.\<close>

definition file_base64_ok :: "file_env \<Rightarrow> bool" where
  "file_base64_ok B \<longleftrightarrow> (\<forall>bs. length (otrl_base64_encode B bs) = (length bs + 2) div 3 * 4 \<and>
     list_all is_base64_char (otrl_base64_encode B bs) \<and> otrl_base64_decode B (otrl_base64_encode B bs @ [newline]) = bs)"

definition stored_line :: "file_env \<Rightarrow> bytes \<Rightarrow> string" where
  "stored_line B bs = otrl_base64_encode B bs @ [newline]"

text \<open>A line of at most 747 bytes is read whole.\<close>

definition fits_line :: "bytes \<Rightarrow> bool" where "fits_line bs \<longleftrightarrow> length bs \<le> 747"

lemma read_line_append:
  "newline \<notin> set l \<Longrightarrow> length l < n \<Longrightarrow> read_line n (l @ newline # r) = l @ [newline]"
proof (induction l arbitrary: n)
  case (Cons c l)
  then show ?case by (cases n) auto
next
  case Nil
  then show ?case by (cases n) auto
qed

lemma limited_line:
  assumes "newline \<notin> set l" "nul \<notin> set l" "length l < 999"
  shows "get_limited_line \<lparr>f_rest = l @ [newline] @ r, f_eof = e\<rparr> = (Some (l @ [newline]), \<lparr>f_rest = r, f_eof = e\<rparr>)"
proof -
  have "takeWhile (\<lambda>c. c \<noteq> nul) (l @ [newline]) = l @ [newline]"
    using assms(2) by (auto simp: takeWhile_eq_all_conv newline_def nul_def)
  then show ?thesis using assms by (simp add: get_limited_line_def fgets_def read_line_append MAX_LINE_LENGTH_def Let_def)
qed

lemma base64_plain:
  assumes "file_base64_ok B"
  shows "newline \<notin> set (otrl_base64_encode B bs)" "nul \<notin> set (otrl_base64_encode B bs)"
proof -
  have "list_all is_base64_char (otrl_base64_encode B bs)" using assms by (simp add: file_base64_ok_def)
  moreover have "\<not> is_base64_char newline" "\<not> is_base64_char nul" by (simp_all add: is_base64_char_def newline_def nul_def)
  ultimately show "newline \<notin> set (otrl_base64_encode B bs)" "nul \<notin> set (otrl_base64_encode B bs)" by (auto simp: list_all_iff)
qed

lemma read_stored_line:
  assumes "file_base64_ok B" "fits_line bs"
  shows "get_limited_line \<lparr>f_rest = stored_line B bs @ r, f_eof = e\<rparr> = (Some (stored_line B bs), \<lparr>f_rest = r, f_eof = e\<rparr>)"
    and "into_buffer (OTRNG_BASE64_DECODE_LEN (length (stored_line B bs))) (otrl_base64_decode B (stored_line B bs)) = Some bs"
proof -
  have l: "length (otrl_base64_encode B bs) = (length bs + 2) div 3 * 4" using assms(1) by (simp add: file_base64_ok_def)
  then show "get_limited_line \<lparr>f_rest = stored_line B bs @ r, f_eof = e\<rparr> = (Some (stored_line B bs), \<lparr>f_rest = r, f_eof = e\<rparr>)"
    using limited_line[of "otrl_base64_encode B bs" r e] base64_plain[OF assms(1), of bs] assms(2) by (simp add: stored_line_def fits_line_def)
  have "otrl_base64_decode B (stored_line B bs) = bs" using assms(1) by (simp add: stored_line_def file_base64_ok_def)
  moreover have "length bs \<le> OTRNG_BASE64_DECODE_LEN (length (stored_line B bs))"
    by (simp add: stored_line_def l OTRNG_BASE64_DECODE_LEN_def)
  ultimately show "into_buffer (OTRNG_BASE64_DECODE_LEN (length (stored_line B bs))) (otrl_base64_decode B (stored_line B bs)) = Some bs"
    by simp
qed

lemma read_decoded_line:
  assumes "file_base64_ok B" "fits_line bs" "parse bs = Some (x, n)"
  shows "read_decoded B parse store client (Some \<lparr>f_rest = stored_line B bs @ r, f_eof = e\<rparr>) =
     (case store x of (ok, client') \<Rightarrow> Some (ok, client', Some \<lparr>f_rest = r, f_eof = e\<rparr>))"
  using assms read_stored_line(1)[OF assms(1,2), of r e] read_stored_line(2)[OF assms(1,2)]
  by (simp add: read_decoded_def otrng_client_read_from_prefix_def)

definition stored_record :: "file_env \<Rightarrow> ('p, 's, 'm) full_client_s \<Rightarrow> bytes \<Rightarrow> string" where
  "stored_record B client bs = otrng_client_get_storage_id client @ [newline] @ stored_line B bs"

lemma write_encoded_record:
  assumes "file_base64_ok B"
  shows "write_encoded B client bs \<lparr>o_text = t, o_room = None\<rparr> = Some (True, Some \<lparr>o_text = t @ stored_record B client bs, o_room = None\<rparr>)"
  using assms
  by (simp add: write_encoded_def otrng_base64_encode_def file_base64_ok_def OTRNG_BASE64_ENCODE_LEN_def fprintf_unlimited
      stored_record_def stored_line_def)

subsection \<open>What can be stored\<close>

text \<open>The interface of a pair of a writer and a reader: the writer appends for each item of the client a line with its
  storage id and a line with the item; the reader, started behind the first of them, takes exactly the second line, puts the
  item into any client and reports success.  The writer may report what it likes.\<close>

locale stored_item =
  fixes write_to :: "('p, 's, 'm) full_client_s \<Rightarrow> ofile_s option \<Rightarrow> (bool \<times> ofile_s option) option"
    and read_from :: "('p, 's, 'm) full_client_s \<Rightarrow> file_s option \<Rightarrow> (bool \<times> ('p, 's, 'm) full_client_s \<times> file_s option) option"
    and storable :: "('p, 's, 'm) full_client_s \<Rightarrow> bool"
    and items :: "('p, 's, 'm) full_client_s \<Rightarrow> 'i list"
    and line :: "'i \<Rightarrow> string"
    and put_item :: "'i \<Rightarrow> ('p, 's, 'm) full_client_s \<Rightarrow> ('p, 's, 'm) full_client_s"
  assumes writes: "storable client \<Longrightarrow> map_option snd (write_to client (Some \<lparr>o_text = t, o_room = None\<rparr>)) =
       Some (Some \<lparr>o_text = t @ concat (map (\<lambda>i. otrng_client_get_storage_id client @ [newline] @ line i) (items client)), o_room = None\<rparr>)"
    and reads: "storable client \<Longrightarrow> i \<in> set (items client) \<Longrightarrow>
       read_from other (Some \<lparr>f_rest = line i @ r, f_eof = False\<rparr>) = Some (True, put_item i other, Some \<lparr>f_rest = r, f_eof = False\<rparr>)"
    and same_client: "cl_client_id (put_item i client) = cl_client_id client" "cl_user_state (put_item i client) = cl_user_state client"
      "cl_fingerprints_v3_loaded (put_item i client) = cl_fingerprints_v3_loaded client"

text \<open>The key pair.\<close>

definition keypairs_of :: "('p, 's, 'm) full_client_s \<Rightarrow> ('p, 's) otrng_keypair_s list" where
  "keypairs_of client = (if cl_has_keypair client then [cl_keypair client] else [])"

definition put_keypair :: "('p, 's) otrng_keypair_s \<Rightarrow> ('p, 's, 'm) full_client_s \<Rightarrow> ('p, 's, 'm) full_client_s" where
  "put_keypair kp client = client\<lparr>cl_has_keypair := True, cl_keypair := kp\<rparr>"

definition storable_keypair :: "('p, 's, 'm, 'h) crypto_ops \<Rightarrow> file_env \<Rightarrow> ('p, 's, 'm) full_client_s \<Rightarrow> bool" where
  "storable_keypair C B client \<longleftrightarrow> file_base64_ok B \<and>
     list_all (\<lambda>kp. length (kp_sym kp) = ED448_PRIVATE_BYTES \<and> otrng_keypair_generate C (kp_sym kp) = Some kp) (keypairs_of client)"

lemma write_private_key:
  assumes "file_base64_ok B" "cl_has_keypair client" "length (kp_sym (cl_keypair client)) = ED448_PRIVATE_BYTES"
  shows "otrng_client_private_key_v4_write_to B client (Some \<lparr>o_text = t, o_room = None\<rparr>) =
     Some (False, Some \<lparr>o_text = t @ stored_record B client (kp_sym (cl_keypair client)), o_room = None\<rparr>)"
proof -
  have l: "length (otrl_base64_encode B (kp_sym (cl_keypair client))) = 76"
    using assms(1,3) by (simp add: file_base64_ok_def const_defs)
  then have "client_private_key_v4_write_to_buffer B client (client_private_key_v4_get_max_length client) =
      Some (Some (stored_record B client (kp_sym (cl_keypair client))))"
    using assms(2,3)
    by (simp add: client_private_key_v4_write_to_buffer_def client_private_key_v4_get_max_length_def otrng_client_get_storage_id_len_def
        otrng_client_get_storage_id_def stored_record_def stored_line_def Let_def BASE64_ENCODED_SYMMETRIC_SECRET_LENGTH_def ED448_PRIVATE_BYTES_def)
  moreover have "length (stored_record B client (kp_sym (cl_keypair client))) \<noteq> 1"
    using l by (simp add: stored_record_def stored_line_def)
  ultimately show ?thesis by (simp add: otrng_client_private_key_v4_write_to_def fwrite_def)
qed

interpretation private_key: stored_item "otrng_client_private_key_v4_write_to B" "otrng_client_private_key_v4_read_from C B"
    "storable_keypair C B" keypairs_of "\<lambda>kp. stored_line B (kp_sym kp)" put_keypair
proof unfold_locales
  fix client :: "('a, 'b, 'c) full_client_s" and t
  assume s: "storable_keypair C B client"
  show "map_option snd (otrng_client_private_key_v4_write_to B client (Some \<lparr>o_text = t, o_room = None\<rparr>)) = Some (Some \<lparr>o_text = t @
     concat (map (\<lambda>kp. otrng_client_get_storage_id client @ [newline] @ stored_line B (kp_sym kp)) (keypairs_of client)), o_room = None\<rparr>)"
  proof (cases "cl_has_keypair client")
    case True
    with s write_private_key[OF _ True, of B t] show ?thesis by (simp add: storable_keypair_def keypairs_of_def stored_record_def)
  next
    case False
    then show ?thesis by (simp add: otrng_client_private_key_v4_write_to_def client_private_key_v4_write_to_buffer_def keypairs_of_def)
  qed
next
  fix client other :: "('a, 'b, 'c) full_client_s" and i r
  assume s: "storable_keypair C B client" "i \<in> set (keypairs_of client)"
  then have i: "length (kp_sym i) = ED448_PRIVATE_BYTES" "otrng_keypair_generate C (kp_sym i) = Some i" and B: "file_base64_ok B"
    by (auto simp: storable_keypair_def list_all_iff)
  then have f: "fits_line (kp_sym i)" by (simp add: fits_line_def const_defs)
  show "otrng_client_private_key_v4_read_from C B other (Some \<lparr>f_rest = stored_line B (kp_sym i) @ r, f_eof = False\<rparr>) =
     Some (True, put_keypair i other, Some \<lparr>f_rest = r, f_eof = False\<rparr>)"
    using i read_stored_line(1)[OF B f, of r False] read_stored_line(2)[OF B f]
    by (simp add: otrng_client_private_key_v4_read_from_def feof_def otrng_symmetric_key_deserialize_def put_keypair_def
        OTRNG_BASE64_DECODE_LEN_def)
qed (simp_all add: put_keypair_def)

text \<open>The forging key.\<close>

definition forging_keys_of :: "('p, 's, 'm) full_client_s \<Rightarrow> 'p list" where
  "forging_keys_of client = (if cl_has_forging_key client then [cl_forging_key client] else [])"

definition put_forging_key :: "('p, 's, 'm, 'h) crypto_ops \<Rightarrow> 'p \<Rightarrow> ('p, 's, 'm) full_client_s \<Rightarrow> ('p, 's, 'm) full_client_s" where
  "put_forging_key C key client = client\<lparr>cl_has_forging_key := True, cl_forging_key := wire_point C key\<rparr>"

interpretation forging_key: stored_item "otrng_client_forging_key_write_to C B" "otrng_client_forging_key_read_from C B"
    "\<lambda>_. goldilocks_ok C S \<and> file_base64_ok B" forging_keys_of "\<lambda>key. stored_line B (otrng_serialize_forging_key C key)" "put_forging_key C"
proof unfold_locales
  fix client :: "('a, 'b, 'c) full_client_s" and t
  assume "goldilocks_ok C S \<and> file_base64_ok B"
  moreover have "0 < length (otrng_serialize_forging_key C key)" for key by (simp add: otrng_serialize_forging_key_def)
  ultimately show "map_option snd (otrng_client_forging_key_write_to C B client (Some \<lparr>o_text = t, o_room = None\<rparr>)) = Some (Some \<lparr>o_text = t @
     concat (map (\<lambda>key. otrng_client_get_storage_id client @ [newline] @ stored_line B (otrng_serialize_forging_key C key)) (forging_keys_of client)), o_room = None\<rparr>)"
    by (simp add: otrng_client_forging_key_write_to_def write_encoded_record forging_keys_of_def stored_record_def del: map_option_eq_Some)
next
  fix client other :: "('a, 'b, 'c) full_client_s" and i r
  assume "goldilocks_ok C S \<and> file_base64_ok B"
  then have G: "goldilocks_ok C S" and B: "file_base64_ok B" by simp_all
  have l: "fits_line (otrng_serialize_forging_key C i)"
    by (simp add: otrng_serialize_forging_key_def fits_line_def length_serialize_group[OF G])
  have "otrng_deserialize_forging_key C (otrng_serialize_forging_key C i) = Some (wire_point C i, ED448_PUBKEY_BYTES)"
    using wire_point(1)[OF G, of i "[]"]
    by (simp add: otrng_serialize_forging_key_def otrng_deserialize_forging_key_def length_serialize_group[OF G] wire_point[OF G] const_defs)
  note d = read_decoded_line[where parse = "otrng_deserialize_forging_key C", OF B l this]
  show "otrng_client_forging_key_read_from C B other (Some \<lparr>f_rest = stored_line B (otrng_serialize_forging_key C i) @ r, f_eof = False\<rparr>) =
     Some (True, put_forging_key C i other, Some \<lparr>f_rest = r, f_eof = False\<rparr>)"
    by (simp add: otrng_client_forging_key_read_from_def otrng_client_add_forging_key_def put_forging_key_def d)
qed (simp_all add: put_forging_key_def)

text \<open>The client profile.  What is read back differs from what was written in the representation of the keys and in
  the marks of a running publication and of an earlier validation.\<close>

definition stored_profile :: "('p, 's, 'm, 'h) crypto_ops \<Rightarrow> 'p otrng_client_profile_s \<Rightarrow> 'p otrng_client_profile_s" where
  "stored_profile C p = (wire_profile C p)\<lparr>cp_should_publish := cp_should_publish p\<rparr>"

definition profiles_of :: "('p, 's, 'm) full_client_s \<Rightarrow> 'p otrng_client_profile_s list" where
  "profiles_of client = (case cl_client_profile client of None \<Rightarrow> [] | Some p \<Rightarrow> [p])"

definition profile_record :: "('p, 's, 'm, 'h) crypto_ops \<Rightarrow> 'p otrng_client_profile_s \<Rightarrow> bytes" where
  "profile_record C p = profile_bytes C p @ [cp_should_publish p]"

definition put_profile :: "('p, 's, 'm, 'h) crypto_ops \<Rightarrow> 'p otrng_client_profile_s \<Rightarrow> ('p, 's, 'm) full_client_s \<Rightarrow> ('p, 's, 'm) full_client_s" where
  "put_profile C p client = client\<lparr>cl_client_profile := Some (stored_profile C p)\<rparr>"

definition storable_profile :: "('p, 's, 'm, 'h) crypto_ops \<Rightarrow> ('p, 's, 'm, 'h) crypto_sem \<Rightarrow> file_env \<Rightarrow> 'p otrng_client_profile_s list \<Rightarrow> bool" where
  "storable_profile C S B ps \<longleftrightarrow> goldilocks_ok C S \<and> file_base64_ok B \<and> list_all (\<lambda>p. wf_profile p \<and> fits_line (profile_record C p)) ps"

lemma dsa_key_prefix:
  assumes "wf_dsa_key k"
  shows "otrng_serialize_uint16 OTRL_PUBKEY_TYPE_DSA @ drop 2 k = k"
proof -
  from assms have d: "otrng_deserialize_uint16 k = Some (OTRL_PUBKEY_TYPE_DSA, 2)" by (simp add: wf_dsa_key_def)
  then obtain a b r where k: "k = a # b # r" by (cases k; cases "tl k") (auto simp: otrng_deserialize_uint16_def)
  let ?x = "ucast b OR push_bit 8 (ucast a) :: u16"
  have "ucast ?x = b" "ucast (drop_bit 8 ?x) = a" by (rule bit_eqI, auto simp: bit_simps dest: bit_imp_le_length)+
  moreover have "?x = 0" using d k by (simp add: otrng_deserialize_uint16_def OTRL_PUBKEY_TYPE_DSA_def)
  ultimately have "b = 0" "a = 0" by auto
  then show ?thesis using k by (simp add: OTRL_PUBKEY_TYPE_DSA_def wire_defs serialize_uint_unroll)
qed

lemma copy_profile:
  assumes "wf_profile p"
  shows "otrng_client_profile_copy Z (Some p) = (True, p\<lparr>cp_has_validated := False, cp_validation_result := False\<rparr>)"
proof -
  have "cp_signature p = take ED448_SIGNATURE_BYTES (cp_signature p)" using assms by (simp add: wf_profile_def)
  moreover have "\<forall>g. cp_transitional_signature p = Some g \<longrightarrow> take OTRv3_DSA_SIG_BYTES g = g" using assms by (auto simp: wf_profile_def)
  moreover have "\<forall>k. cp_dsa_key p = Some k \<longrightarrow> k \<noteq> [] \<and> otrng_deserialize_uint16 k = Some (OTRL_PUBKEY_TYPE_DSA, 2) \<and>
      otrng_serialize_uint16 OTRL_PUBKEY_TYPE_DSA @ drop 2 k = k"
    using assms dsa_key_prefix by (auto simp: wf_profile_def wf_dsa_key_def otrng_deserialize_uint16_def)
  ultimately show ?thesis
    by (cases p; cases "cp_dsa_key p"; cases "cp_transitional_signature p")
       (simp_all add: otrng_client_profile_copy_def copy_dsa_key_def has_dsa_key_def copy_transitional_signature_def
         otrng_client_profile_set_dsa_key_mpis_def client_profile_zero_def Let_def)
qed

lemma profile_record:
  assumes G: "goldilocks_ok C S" and "wf_profile p" "fits_line (profile_record C p)"
  shows "otrng_client_profile_serialize_with_metadata C p = Some (profile_record C p)"
    and "otrng_client_profile_deserialize_with_metadata C Z (profile_record C p) = Some (stored_profile C p, length (profile_record C p))"
    and "wf_profile (stored_profile C p)"
proof -
  have s: "length (cp_signature p) = ED448_SIGNATURE_BYTES" using assms(2) by (simp add: wf_profile_def)
  have l: "length (profile_record C p) \<le> OTRNG_CLIENT_PROFILE_MAX_WITH_METADATA_BYTES (otrng_strlen_ns (cp_versions p))"
    using assms(3) by (simp add: OTRNG_CLIENT_PROFILE_MAX_WITH_METADATA_BYTES_def profile_size_max fits_line_def const_defs)
  then show "otrng_client_profile_serialize_with_metadata C p = Some (profile_record C p)"
    by (simp add: otrng_client_profile_serialize_with_metadata_def profile_record_def profile_bytes_def otrng_serialize_bytes_array_def s
        otrng_serialize_uint8_def)
  show "otrng_client_profile_deserialize_with_metadata C Z (profile_record C p) = Some (stored_profile C p, length (profile_record C p))"
    using profile_deserialize_body[OF G assms(2), of Z "[cp_should_publish p]"] s
    by (simp add: otrng_client_profile_deserialize_with_metadata_def profile_record_def profile_bytes_def stored_profile_def otrng_deserialize_uint8_def)
  show "wf_profile (stored_profile C p)"
    using wire_profile_body(1)[OF G assms(2)] by (simp add: stored_profile_def wf_profile_def)
qed

interpretation client_profile: stored_item "otrng_client_client_profile_write_to C B" "otrng_client_client_profile_read_from C Z B"
    "\<lambda>client. storable_profile C S B (profiles_of client)" profiles_of "\<lambda>p. stored_line B (profile_record C p)" "put_profile C"
proof unfold_locales
  fix client :: "('a, 'b, 'c) full_client_s" and t
  assume s: "storable_profile C S B (profiles_of client)"
  show "map_option snd (otrng_client_client_profile_write_to C B client (Some \<lparr>o_text = t, o_room = None\<rparr>)) = Some (Some \<lparr>o_text = t @
     concat (map (\<lambda>p. otrng_client_get_storage_id client @ [newline] @ stored_line B (profile_record C p)) (profiles_of client)), o_room = None\<rparr>)"
  proof (cases "cl_client_profile client")
    case (Some p)
    with s have "goldilocks_ok C S" "wf_profile p" "fits_line (profile_record C p)" "file_base64_ok B"
      by (simp_all add: storable_profile_def profiles_of_def)
    with Some show ?thesis
      by (simp add: otrng_client_client_profile_write_to_def profile_record(1)[of C S] write_encoded_record profiles_of_def stored_record_def)
  qed (simp add: otrng_client_client_profile_write_to_def profiles_of_def)
next
  fix client other :: "('a, 'b, 'c) full_client_s" and p r
  assume "storable_profile C S B (profiles_of client)" "p \<in> set (profiles_of client)"
  then have G: "goldilocks_ok C S" and p: "wf_profile p" "fits_line (profile_record C p)" and B: "file_base64_ok B"
    by (auto simp: storable_profile_def list_all_iff)
  note d = read_decoded_line[where parse = "otrng_client_profile_deserialize_with_metadata C Z", OF B p(2) profile_record(2)[OF G p]]
  have "(stored_profile C p)\<lparr>cp_has_validated := False, cp_validation_result := False\<rparr> = stored_profile C p"
    by (cases p) (simp add: stored_profile_def wire_profile_def)
  then show "otrng_client_client_profile_read_from C Z B other (Some \<lparr>f_rest = stored_line B (profile_record C p) @ r, f_eof = False\<rparr>) =
     Some (True, put_profile C p other, Some \<lparr>f_rest = r, f_eof = False\<rparr>)"
    by (simp add: otrng_client_client_profile_read_from_def d otrng_client_add_client_profile_def copy_profile[OF profile_record(3)[OF G p]] put_profile_def)
qed (simp_all add: put_profile_def)

text \<open>Prekey profiles.  An expired one is read without its metadata, so without its keys.\<close>

definition prekey_profile_record :: "('p, 's, 'm, 'h) crypto_ops \<Rightarrow> ('p, 's) otrng_prekey_profile_s \<Rightarrow> bytes" where
  "prekey_profile_record C p = prekey_profile_body C p @ pp_signature p @ [pp_should_publish p] @ kp_sym (the (pp_keys p))"

definition stored_prekey_profile ::
    "('p, 's, 'm, 'h) crypto_ops \<Rightarrow> ('p, 's) wiped \<Rightarrow> ('p, 's) otrng_prekey_profile_s \<Rightarrow> ('p, 's) otrng_prekey_profile_s" where
  "stored_prekey_profile C Z p = (wire_prekey_profile C Z p)\<lparr>pp_should_publish := pp_should_publish p, pp_keys := pp_keys p,
     pp_shared_prekey := kp_pub (the (pp_keys p))\<rparr>"

definition prekey_profiles_of :: "('p, 's) otrng_prekey_profile_s option \<Rightarrow> ('p, 's) otrng_prekey_profile_s list" where
  "prekey_profiles_of profile = (case profile of None \<Rightarrow> [] | Some p \<Rightarrow> [p])"

definition put_prekey_profile ::
    "('p, 's, 'm, 'h) crypto_ops \<Rightarrow> ('p, 's) wiped \<Rightarrow> ('p, 's) otrng_prekey_profile_s \<Rightarrow> ('p, 's, 'm) full_client_s \<Rightarrow> ('p, 's, 'm) full_client_s" where
  "put_prekey_profile C Z p client = client\<lparr>cl_prekey_profile := Some (stored_prekey_profile C Z p)\<rparr>"

definition put_expired_prekey_profile ::
    "('p, 's, 'm, 'h) crypto_ops \<Rightarrow> ('p, 's) wiped \<Rightarrow> ('p, 's) otrng_prekey_profile_s \<Rightarrow> ('p, 's, 'm) full_client_s \<Rightarrow> ('p, 's, 'm) full_client_s" where
  "put_expired_prekey_profile C Z p client = client\<lparr>cl_exp_prekey_profile := Some (wire_prekey_profile C Z p)\<rparr>"

definition wf_prekey_profile :: "('p, 's, 'm, 'h) crypto_ops \<Rightarrow> ('p, 's) otrng_prekey_profile_s \<Rightarrow> bool" where
  "wf_prekey_profile C p \<longleftrightarrow> length (pp_signature p) = ED448_SIGNATURE_BYTES \<and>
     (case pp_keys p of None \<Rightarrow> False | Some keys \<Rightarrow> length (kp_sym keys) = ED448_PRIVATE_BYTES \<and>
        otrng_shared_prekey_pair_generate C (kp_sym keys) = Some keys)"

definition storable_prekey_profile ::
    "('p, 's, 'm, 'h) crypto_ops \<Rightarrow> ('p, 's, 'm, 'h) crypto_sem \<Rightarrow> file_env \<Rightarrow> ('p, 's) otrng_prekey_profile_s option \<Rightarrow> bool" where
  "storable_prekey_profile C S B profile \<longleftrightarrow> goldilocks_ok C S \<and> file_base64_ok B \<and> list_all (wf_prekey_profile C) (prekey_profiles_of profile)"

lemma prekey_profile_record:
  assumes G: "goldilocks_ok C S" and "wf_prekey_profile C p"
  shows "otrng_prekey_profile_serialize_with_metadata C p = Some (Some (prekey_profile_record C p))"
    and "fits_line (prekey_profile_record C p)"
    and "otrng_prekey_profile_deserialize_with_metadata C (prekey_profile_zero Z) (prekey_profile_record C p) =
       Some (stored_prekey_profile C Z p, length (prekey_profile_record C p))"
    and "\<exists>n. otrng_prekey_profile_deserialize C (prekey_profile_zero Z) (prekey_profile_record C p) = Some (wire_prekey_profile C Z p, n)"
proof -
  obtain keys where k: "pp_keys p = Some keys" "length (kp_sym keys) = ED448_PRIVATE_BYTES"
      "otrng_shared_prekey_pair_generate C (kp_sym keys) = Some keys" and s: "length (pp_signature p) = ED448_SIGNATURE_BYTES"
    using assms(2) by (auto simp: wf_prekey_profile_def split: option.splits)
  note b = prekey_profile_body[OF G]
  show "otrng_prekey_profile_serialize_with_metadata C p = Some (Some (prekey_profile_record C p))"
    using k s by (simp add: otrng_prekey_profile_serialize_with_metadata_def b prekey_profile_record_def otrng_serialize_bytes_array_def
        otrng_serialize_uint8_def Let_def)
  show "fits_line (prekey_profile_record C p)"
    using k s by (simp add: prekey_profile_record_def fits_line_def b(2) const_defs)
  have d: "otrng_prekey_profile_deserialize C (prekey_profile_zero Z) (prekey_profile_record C p) =
      Some (wire_prekey_profile C Z p, length (prekey_profile_body C p @ pp_signature p))"
    unfolding prekey_profile_record_def by (rule prekey_profile_roundtrip(2)[OF G s])
  then show "\<exists>n. otrng_prekey_profile_deserialize C (prekey_profile_zero Z) (prekey_profile_record C p) = Some (wire_prekey_profile C Z p, n)" by blast
  have "drop (length (prekey_profile_body C p @ pp_signature p)) (prekey_profile_record C p) = pp_should_publish p # kp_sym keys"
    using k by (simp add: prekey_profile_record_def)
  then show "otrng_prekey_profile_deserialize_with_metadata C (prekey_profile_zero Z) (prekey_profile_record C p) =
       Some (stored_prekey_profile C Z p, length (prekey_profile_record C p))"
    using k s d
    by (simp add: otrng_prekey_profile_deserialize_with_metadata_def otrng_deserialize_uint8_def otrng_deserialize_bytes_array_def
        stored_prekey_profile_def prekey_profile_record_def)
qed

lemma copy_stored_prekey_profile:
  assumes "length (pp_signature p) = ED448_SIGNATURE_BYTES"
  shows "otrng_prekey_profile_copy Z (Some (stored_prekey_profile C Z p)) = stored_prekey_profile C Z p"
    and "otrng_prekey_profile_copy Z (Some (wire_prekey_profile C Z p)) = wire_prekey_profile C Z p"
  using assms by (simp_all add: otrng_prekey_profile_copy_def stored_prekey_profile_def wire_prekey_profile_def prekey_profile_zero_def)

interpretation prekey_profile: stored_item "otrng_client_prekey_profile_write_to C B" "otrng_client_prekey_profile_read_from C Z B"
    "\<lambda>client. storable_prekey_profile C S B (cl_prekey_profile client)" "\<lambda>client. prekey_profiles_of (cl_prekey_profile client)"
    "\<lambda>p. stored_line B (prekey_profile_record C p)" "put_prekey_profile C Z"
proof unfold_locales
  fix client :: "('a, 'b, 'c) full_client_s" and t
  assume s: "storable_prekey_profile C S B (cl_prekey_profile client)"
  show "map_option snd (otrng_client_prekey_profile_write_to C B client (Some \<lparr>o_text = t, o_room = None\<rparr>)) = Some (Some \<lparr>o_text = t @
     concat (map (\<lambda>p. otrng_client_get_storage_id client @ [newline] @ stored_line B (prekey_profile_record C p))
       (prekey_profiles_of (cl_prekey_profile client))), o_room = None\<rparr>)"
    using s prekey_profile_record(1)[of C S]
    by (cases "cl_prekey_profile client")
       (simp_all add: otrng_client_prekey_profile_write_to_def write_encoded_record prekey_profiles_of_def stored_record_def storable_prekey_profile_def)
next
  fix client other :: "('a, 'b, 'c) full_client_s" and p r
  assume "storable_prekey_profile C S B (cl_prekey_profile client)" "p \<in> set (prekey_profiles_of (cl_prekey_profile client))"
  then have G: "goldilocks_ok C S" and p: "wf_prekey_profile C p" and B: "file_base64_ok B"
    by (auto simp: storable_prekey_profile_def list_all_iff)
  note d = read_decoded_line[where parse = "otrng_prekey_profile_deserialize_with_metadata C (prekey_profile_zero Z)",
      OF B prekey_profile_record(2)[OF G p] prekey_profile_record(3)[OF G p]]
  have "length (pp_signature p) = ED448_SIGNATURE_BYTES" using p by (simp add: wf_prekey_profile_def)
  then show "otrng_client_prekey_profile_read_from C Z B other (Some \<lparr>f_rest = stored_line B (prekey_profile_record C p) @ r, f_eof = False\<rparr>) =
     Some (True, put_prekey_profile C Z p other, Some \<lparr>f_rest = r, f_eof = False\<rparr>)"
    by (simp add: otrng_client_prekey_profile_read_from_def d otrng_client_add_prekey_profile_def copy_stored_prekey_profile put_prekey_profile_def)
qed (simp_all add: put_prekey_profile_def)

interpretation expired_prekey_profile: stored_item "otrng_client_expired_prekey_profile_write_to C B"
    "otrng_client_expired_prekey_profile_read_from C Z B"
    "\<lambda>client. storable_prekey_profile C S B (cl_exp_prekey_profile client)" "\<lambda>client. prekey_profiles_of (cl_exp_prekey_profile client)"
    "\<lambda>p. stored_line B (prekey_profile_record C p)" "put_expired_prekey_profile C Z"
proof unfold_locales
  fix client :: "('a, 'b, 'c) full_client_s" and t
  assume s: "storable_prekey_profile C S B (cl_exp_prekey_profile client)"
  show "map_option snd (otrng_client_expired_prekey_profile_write_to C B client (Some \<lparr>o_text = t, o_room = None\<rparr>)) = Some (Some \<lparr>o_text = t @
     concat (map (\<lambda>p. otrng_client_get_storage_id client @ [newline] @ stored_line B (prekey_profile_record C p))
       (prekey_profiles_of (cl_exp_prekey_profile client))), o_room = None\<rparr>)"
    using s prekey_profile_record(1)[of C S]
    by (cases "cl_exp_prekey_profile client")
       (simp_all add: otrng_client_expired_prekey_profile_write_to_def write_encoded_record prekey_profiles_of_def stored_record_def storable_prekey_profile_def)
next
  fix client other :: "('a, 'b, 'c) full_client_s" and p r
  assume "storable_prekey_profile C S B (cl_exp_prekey_profile client)" "p \<in> set (prekey_profiles_of (cl_exp_prekey_profile client))"
  then have G: "goldilocks_ok C S" and p: "wf_prekey_profile C p" and B: "file_base64_ok B"
    by (auto simp: storable_prekey_profile_def list_all_iff)
  obtain n where "otrng_prekey_profile_deserialize C (prekey_profile_zero Z) (prekey_profile_record C p) = Some (wire_prekey_profile C Z p, n)"
    using prekey_profile_record(4)[OF G p] by blast
  note d = read_decoded_line[where parse = "otrng_prekey_profile_deserialize C (prekey_profile_zero Z)",
      OF B prekey_profile_record(2)[OF G p] this]
  have "length (pp_signature p) = ED448_SIGNATURE_BYTES" using p by (simp add: wf_prekey_profile_def)
  then show "otrng_client_expired_prekey_profile_read_from C Z B other (Some \<lparr>f_rest = stored_line B (prekey_profile_record C p) @ r, f_eof = False\<rparr>) =
     Some (True, put_expired_prekey_profile C Z p other, Some \<lparr>f_rest = r, f_eof = False\<rparr>)"
    by (simp add: otrng_client_expired_prekey_profile_read_from_def d otrng_client_add_exp_prekey_profile_def copy_stored_prekey_profile
        put_expired_prekey_profile_def)
qed (simp_all add: put_expired_prekey_profile_def)

text \<open>Prekey messages.\<close>

definition prekey_message_bytes :: "('p, 's, 'm, 'h) crypto_ops \<Rightarrow> ('p, 's, 'm) prekey_message_s \<Rightarrow> bytes" where
  "prekey_message_bytes C m = otrng_serialize_uint16 OTRNG_PROTOCOL_VERSION_4 @ otrng_serialize_uint8 PRE_KEY_MSG_TYPE @
     otrng_serialize_uint32 (pm_id m) @ otrng_serialize_uint32 (pm_sender_instance_tag m) @ otrng_serialize_ec_point C (pm_Y m) @
     dh_bytes C (the (pm_B m))"

definition prekey_message_record :: "('p, 's, 'm, 'h) crypto_ops \<Rightarrow> ('p, 's, 'm) prekey_message_s \<Rightarrow> bytes" where
  "prekey_message_record C m = prekey_message_bytes C m @ [pm_should_publish m] @ scalar_encode C (ecdh_priv (the (pm_y m))) @
     dh_bytes C (the (dh_priv (the (pm_b m))))"

definition stored_prekey_message ::
    "('p, 's, 'm, 'h) crypto_ops \<Rightarrow> ('p, 's) wiped \<Rightarrow> ('p, 's, 'm) prekey_message_s \<Rightarrow> ('p, 's, 'm) prekey_message_s" where
  "stored_prekey_message C Z m = (
     let y = wire_scalar C (ecdh_priv (the (pm_y m)));
         b = wire_mpi C (the (dh_priv (the (pm_b m))))
     in (wire_prekey_message C Z m)\<lparr>pm_should_publish := pm_should_publish m,
       pm_y := Some \<lparr>ecdh_priv = y, ecdh_pub = otrng_ec_calculate_public_key C y\<rparr>,
       pm_b := Some \<lparr>dh_pub = Some (otrng_dh_calculate_public_key C b), dh_priv = Some b\<rparr>\<rparr>)"

definition put_prekey_message ::
    "('p, 's, 'm, 'h) crypto_ops \<Rightarrow> ('p, 's) wiped \<Rightarrow> ('p, 's, 'm) prekey_message_s \<Rightarrow> ('p, 's, 'm) full_client_s \<Rightarrow> ('p, 's, 'm) full_client_s" where
  "put_prekey_message C Z m client = client\<lparr>cl_our_prekeys := cl_our_prekeys client @ [stored_prekey_message C Z m]\<rparr>"

definition wf_prekey_message ::
    "('p, 's, 'm, 'h) crypto_ops \<Rightarrow> ('p, 's, 'm, 'h) crypto_sem \<Rightarrow> ('p, 's, 'm) prekey_message_s \<Rightarrow> bool" where
  "wf_prekey_message C S m \<longleftrightarrow> dh_ok S (pm_B m) \<and> pm_y m \<noteq> None \<and>
     (case pm_b m of None \<Rightarrow> False | Some b \<Rightarrow> dh_ok S (dh_priv b)) \<and> fits_line (prekey_message_record C m)"

definition storable_prekey_messages ::
    "('p, 's, 'm, 'h) crypto_ops \<Rightarrow> ('p, 's, 'm, 'h) crypto_sem \<Rightarrow> file_env \<Rightarrow> ('p, 's, 'm) prekey_message_s list \<Rightarrow> bool" where
  "storable_prekey_messages C S B ms \<longleftrightarrow> goldilocks_ok C S \<and> gcrypt_ok C S \<and> file_base64_ok B \<and> list_all (wf_prekey_message C S) ms"

lemma prekey_message_bytes:
  assumes G: "goldilocks_ok C S" "gcrypt_ok C S" and "dh_ok S (pm_B m)"
  shows "PRE_KEY_MAX_BYTES \<le> n \<Longrightarrow> otrng_prekey_message_serialize C n m = Some (prekey_message_bytes C m)"
    and "otrng_prekey_message_deserialize C (otrng_prekey_message_new Z) (prekey_message_bytes C m @ rest) =
       Some (wire_prekey_message C Z m, length (prekey_message_bytes C m))"
proof -
  obtain b where b: "pm_B m = Some b" "in_dh_range S b" by (rule dh_okE[OF assms(3)])
  have L: "length (otrng_serialize_ec_point C p) = ED448_POINT_BYTES" for p
    by (simp add: length_serialize_group[OF G(1)] const_defs)
  note mb = wire_mpi[OF G(2) b(2)]
  show "PRE_KEY_MAX_BYTES \<le> n \<Longrightarrow> otrng_prekey_message_serialize C n m = Some (prekey_message_bytes C m)"
    using mb(1)[of "n - 68"]
    by (simp add: otrng_prekey_message_serialize_def Let_def b L prekey_message_bytes_def PRE_KEY_MAX_BYTES_def const_defs)
  show "otrng_prekey_message_deserialize C (otrng_prekey_message_new Z) (prekey_message_bytes C m @ rest) =
       Some (wire_prekey_message C Z m, length (prekey_message_bytes C m))"
    by (simp add: prekey_message_bytes_def b L otrng_prekey_message_deserialize_def u16.dec_enc u32.dec_enc mb
        wire_point[OF G(1)] wire_prekey_message_def otrng_prekey_message_new_def Let_def)
qed

lemma prekey_message_record:
  assumes G: "goldilocks_ok C S" "gcrypt_ok C S" and "wf_prekey_message C S m"
  shows "otrng_prekey_message_serialize_with_metadata C PRE_KEY_WITH_METADATA_MAX_BYTES m = Some (Some (prekey_message_record C m))"
    and "length (prekey_message_record C m) \<le> PRE_KEY_WITH_METADATA_MAX_BYTES"
    and "otrng_prekey_message_deserialize_with_metadata C (otrng_prekey_message_new Z) (prekey_message_record C m) =
       Some (stored_prekey_message C Z m, length (prekey_message_record C m))"
proof -
  obtain y b where yb: "pm_y m = Some y" "pm_b m = Some b" "dh_ok S (dh_priv b)" and B: "dh_ok S (pm_B m)"
    using assms(3) by (auto simp: wf_prekey_message_def split: option.splits)
  obtain a where a: "dh_priv b = Some a" "in_dh_range S a" by (rule dh_okE[OF yb(3)])
  note ma = wire_mpi[OF G(2) a(2)] and pm = prekey_message_bytes[OF G B]
  have "otrng_serialize_dh_mpi_otr C DH_MPI_MAX_BYTES (Some a) = Some (dh_bytes C a)"
    using ma(1)[of DH_MPI_MAX_BYTES] by (simp add: otrng_serialize_dh_public_key_def)
  then show "otrng_prekey_message_serialize_with_metadata C PRE_KEY_WITH_METADATA_MAX_BYTES m = Some (Some (prekey_message_record C m))"
    using pm(1)[of PRE_KEY_WITH_METADATA_MAX_BYTES]
    by (simp add: otrng_prekey_message_serialize_with_metadata_def yb a prekey_message_record_def otrng_serialize_uint8_def
        PRE_KEY_MAX_BYTES_def PRE_KEY_WITH_METADATA_MAX_BYTES_def)
  show "length (prekey_message_record C m) \<le> PRE_KEY_WITH_METADATA_MAX_BYTES"
    using assms(3) by (simp add: wf_prekey_message_def fits_line_def const_defs)
  have s: "otrng_deserialize_ec_scalar C (scalar_encode C (ecdh_priv y) @ r) = Some (wire_scalar C (ecdh_priv y))"
      for r
    using wire_scalar(1)[OF G(1), of "ecdh_priv y" r] by (simp add: otrng_serialize_ec_scalar_def)
  have u: "otrng_deserialize_uint8 (drop (length (prekey_message_bytes C m)) (prekey_message_record C m)) = Some (pm_should_publish m, 1)"
    by (simp add: prekey_message_record_def otrng_deserialize_uint8_def)
  have e: "drop (Suc (length (prekey_message_bytes C m))) (prekey_message_record C m) = scalar_encode C (ecdh_priv y) @ dh_bytes C a"
      "drop (Suc (length (prekey_message_bytes C m) + ED448_SCALAR_BYTES)) (prekey_message_record C m) = dh_bytes C a"
    using yb a goldilocks_scalar_codec(1)[OF G(1)] by (simp_all add: prekey_message_record_def)
  have "otrng_prekey_message_deserialize C (otrng_prekey_message_new Z) (prekey_message_record C m) =
      Some (wire_prekey_message C Z m, length (prekey_message_bytes C m))" unfolding prekey_message_record_def by (rule pm(2))
  then have "otrng_prekey_message_deserialize_with_metadata C (otrng_prekey_message_new Z) (prekey_message_record C m) =
      Some (stored_prekey_message C Z m, length (prekey_message_bytes C m) + 1 + ED448_SCALAR_BYTES + length (dh_bytes C a))"
    using u by (simp add: otrng_prekey_message_deserialize_with_metadata_def e s ma stored_prekey_message_def yb a Let_def)
  then show "otrng_prekey_message_deserialize_with_metadata C (otrng_prekey_message_new Z) (prekey_message_record C m) =
       Some (stored_prekey_message C Z m, length (prekey_message_record C m))"
    using yb a goldilocks_scalar_codec(1)[OF G(1)] by (simp add: prekey_message_record_def)
qed

lemma store_prekeys_text:
  assumes "storable_prekey_messages C S B ms"
  shows "store_prekeys C B ms sid \<lparr>o_text = t, o_room = None\<rparr> = Some (True,
     \<lparr>o_text = t @ concat (map (\<lambda>m. sid @ [newline] @ stored_line B (prekey_message_record C m)) ms), o_room = None\<rparr>)"
  using assms
proof (induction ms arbitrary: t)
  case (Cons m ms)
  then have G: "goldilocks_ok C S" "gcrypt_ok C S" and m: "wf_prekey_message C S m" and B: "file_base64_ok B"
    and ms: "storable_prekey_messages C S B ms" by (simp_all add: storable_prekey_messages_def)
  have "otrng_base64_encode B (prekey_message_record C m) = Some (otrl_base64_encode B (prekey_message_record C m))"
    using B by (simp add: otrng_base64_encode_def file_base64_ok_def OTRNG_BASE64_ENCODE_LEN_def)
  then have "serialize_and_store_prekey C B m sid \<lparr>o_text = t, o_room = None\<rparr> =
      Some (True, \<lparr>o_text = t @ sid @ [newline] @ stored_line B (prekey_message_record C m), o_room = None\<rparr>)"
    using prekey_message_record(2)[OF G m]
    by (simp add: serialize_and_store_prekey_def fprintf_unlimited prekey_message_record(1)[OF G m] stored_line_def)
  then show ?case using Cons.IH[OF ms] by simp
qed simp

interpretation prekey_messages: stored_item "otrng_client_prekeys_write_to C B" "otrng_client_prekey_messages_read_from C Z B"
    "\<lambda>client. storable_prekey_messages C S B (cl_our_prekeys client)" cl_our_prekeys "\<lambda>m. stored_line B (prekey_message_record C m)"
    "put_prekey_message C Z"
proof unfold_locales
  fix client :: "('a, 'b, 'c) full_client_s" and t
  assume "storable_prekey_messages C S B (cl_our_prekeys client)"
  from store_prekeys_text[OF this]
  show "map_option snd (otrng_client_prekeys_write_to C B client (Some \<lparr>o_text = t, o_room = None\<rparr>)) = Some (Some \<lparr>o_text = t @
     concat (map (\<lambda>m. otrng_client_get_storage_id client @ [newline] @ stored_line B (prekey_message_record C m)) (cl_our_prekeys client)), o_room = None\<rparr>)"
    by (simp add: otrng_client_prekeys_write_to_def del: map_option_eq_Some)
next
  fix client other :: "('a, 'b, 'c) full_client_s" and m r
  assume "storable_prekey_messages C S B (cl_our_prekeys client)" "m \<in> set (cl_our_prekeys client)"
  then have G: "goldilocks_ok C S" "gcrypt_ok C S" and m: "wf_prekey_message C S m" and B: "file_base64_ok B"
    by (auto simp: storable_prekey_messages_def list_all_iff)
  from m have "fits_line (prekey_message_record C m)" by (simp add: wf_prekey_message_def)
  note d = read_decoded_line[where parse = "otrng_prekey_message_deserialize_with_metadata C (otrng_prekey_message_new Z)",
      OF B this prekey_message_record(3)[OF G m]]
  show "otrng_client_prekey_messages_read_from C Z B other (Some \<lparr>f_rest = stored_line B (prekey_message_record C m) @ r, f_eof = False\<rparr>) =
     Some (True, put_prekey_message C Z m other, Some \<lparr>f_rest = r, f_eof = False\<rparr>)"
    by (simp add: otrng_client_prekey_messages_read_from_def read_and_deserialize_prekey_def d put_prekey_message_def)
qed (simp_all add: put_prekey_message_def)

subsection \<open>Where storing fails\<close>

text \<open>Storing the private key reports an error although the key was written: the number of bytes written is compared
  with one.  What was written is complete, and whoever reads it behind the line with the storage id has the key
  pair.\<close>

theorem private_key_store_reports_error:
  fixes C :: "('p, 's, 'm, 'h) crypto_ops" and client other :: "('p, 's, 'm) full_client_s"
  assumes "file_base64_ok B" "cl_has_keypair client" "otrng_keypair_generate C seed = Some (cl_keypair client)" "ED448_PRIVATE_BYTES \<le> length seed"
  shows "\<exists>key. otrng_client_private_key_v4_write_to B client (Some \<lparr>o_text = t, o_room = None\<rparr>) =
       Some (False, Some \<lparr>o_text = t @ otrng_client_get_storage_id client @ [newline] @ key, o_room = None\<rparr>) \<and>
     otrng_client_private_key_v4_read_from C B other (Some \<lparr>f_rest = key @ r, f_eof = False\<rparr>) =
       Some (True, other\<lparr>cl_has_keypair := True, cl_keypair := cl_keypair client\<rparr>, Some \<lparr>f_rest = r, f_eof = False\<rparr>)"
proof -
  note k = keypair_generate_again[OF assms(3,4)]
  have "storable_keypair C B client" using assms(1) k by (simp add: storable_keypair_def keypairs_of_def)
  from private_key.reads[OF this, of "cl_keypair client" other r] assms(2) write_private_key[OF assms(1,2) k(2), of t]
  show ?thesis by (auto simp: keypairs_of_def put_keypair_def stored_record_def)
qed

lemma read_line_long: "newline \<notin> set l \<Longrightarrow> n \<le> length l \<Longrightarrow> read_line n (l @ r) = take n l"
proof (induction n arbitrary: l)
  case (Suc n)
  then show ?case by (cases l) auto
qed simp

text \<open>A stored line comes back whole exactly when it encodes at most 747 bytes.  Of a longer one the first 999
  characters are taken for the line, and the rest is left in the file, where it is taken for the next one.\<close>

theorem stored_line_bound:
  assumes "file_base64_ok B"
  shows "get_limited_line \<lparr>f_rest = stored_line B bs @ r, f_eof = False\<rparr> =
     (if length bs \<le> 747 then (Some (stored_line B bs), \<lparr>f_rest = r, f_eof = False\<rparr>)
      else (Some (take 999 (stored_line B bs)), \<lparr>f_rest = drop 999 (stored_line B bs) @ r, f_eof = False\<rparr>)) \<and>
     (747 < length bs \<longrightarrow> drop 999 (stored_line B bs) \<noteq> [])"
proof (cases "length bs \<le> 747")
  case True
  then show ?thesis using read_stored_line(1)[OF assms, of bs r False] by (simp add: fits_line_def)
next
  case False
  have l: "length (otrl_base64_encode B bs) = (length bs + 2) div 3 * 4" using assms by (simp add: file_base64_ok_def)
  have "250 \<le> (length bs + 2) div 3" using False by (simp add: less_eq_div_iff_mult_less_eq)
  with l have l': "999 < length (otrl_base64_encode B bs)" by simp
  then have "read_line 999 (otrl_base64_encode B bs @ newline # r) = take 999 (otrl_base64_encode B bs)"
    by (intro read_line_long base64_plain(1)[OF assms]) simp
  moreover have "takeWhile (\<lambda>c. c \<noteq> nul) (take 999 (otrl_base64_encode B bs)) = take 999 (otrl_base64_encode B bs)"
    using base64_plain(2)[OF assms, of bs] by (auto simp: takeWhile_eq_all_conv dest: in_set_takeD)
  ultimately show ?thesis using False l'
    by (auto simp: stored_line_def get_limited_line_def fgets_def MAX_LINE_LENGTH_def Let_def min_def)
qed

text \<open>C39: expired profiles do not survive being stored.  The client profile is written and read, but the reader reports
  an error with the profile in place; the prekey profile is written with its private keys and read back with success and
  without them.\<close>

theorem expired_profiles_spoiled:
  assumes G: "goldilocks_ok C S" and B: "file_base64_ok B"
    and p: "cl_exp_client_profile client = Some p" "wf_profile p" "fits_line (profile_record C p)"
    and q: "cl_exp_prekey_profile client = Some q" "wf_prekey_profile C q"
  shows "\<exists>l m. otrng_client_expired_client_profile_write_to C B client (Some \<lparr>o_text = t, o_room = None\<rparr>) =
       Some (True, Some \<lparr>o_text = t @ otrng_client_get_storage_id client @ [newline] @ l, o_room = None\<rparr>) \<and>
     otrng_client_expired_client_profile_read_from C Z B other (Some \<lparr>f_rest = l @ r, f_eof = False\<rparr>) =
       Some (False, other\<lparr>cl_exp_client_profile := Some (wire_profile C p)\<rparr>, Some \<lparr>f_rest = r, f_eof = False\<rparr>) \<and>
     otrng_client_expired_prekey_profile_write_to C B client (Some \<lparr>o_text = t, o_room = None\<rparr>) =
       Some (True, Some \<lparr>o_text = t @ otrng_client_get_storage_id client @ [newline] @ m, o_room = None\<rparr>) \<and>
     otrng_client_expired_prekey_profile_read_from C Z B other (Some \<lparr>f_rest = m @ r, f_eof = False\<rparr>) =
       Some (True, other\<lparr>cl_exp_prekey_profile := Some (wire_prekey_profile C Z q)\<rparr>, Some \<lparr>f_rest = r, f_eof = False\<rparr>) \<and>
     pp_keys q \<noteq> None \<and> pp_keys (wire_prekey_profile C Z q) = None"
proof -
  let ?l = "stored_line B (profile_record C p)" and ?m = "stored_line B (prekey_profile_record C q)"
  have w: "otrng_client_expired_client_profile_write_to C B client (Some \<lparr>o_text = t, o_room = None\<rparr>) =
       Some (True, Some \<lparr>o_text = t @ otrng_client_get_storage_id client @ [newline] @ ?l, o_room = None\<rparr>)"
      "otrng_client_expired_prekey_profile_write_to C B client (Some \<lparr>o_text = t, o_room = None\<rparr>) =
       Some (True, Some \<lparr>o_text = t @ otrng_client_get_storage_id client @ [newline] @ ?m, o_room = None\<rparr>)"
    using p(1) q(1) profile_record(1)[OF G p(2,3)] prekey_profile_record(1)[OF G q(2)]
    by (simp_all add: otrng_client_expired_client_profile_write_to_def otrng_client_expired_prekey_profile_write_to_def
        write_encoded_record[OF B] stored_record_def)
  have "\<exists>n. otrng_client_profile_deserialize C Z (profile_record C p) = Some (wire_profile C p, n)"
    using profile_deserialize_body[OF G p(2), of Z "[cp_should_publish p]"] by (simp add: profile_record_def profile_bytes_def)
  then obtain n where n: "otrng_client_profile_deserialize C Z (profile_record C p) = Some (wire_profile C p, n)" ..
  have "(wire_profile C p)\<lparr>cp_has_validated := False, cp_validation_result := False\<rparr> = wire_profile C p"
    by (cases p) (simp add: wire_profile_def)
  then have r1: "otrng_client_expired_client_profile_read_from C Z B other (Some \<lparr>f_rest = ?l @ r, f_eof = False\<rparr>) =
       Some (False, other\<lparr>cl_exp_client_profile := Some (wire_profile C p)\<rparr>, Some \<lparr>f_rest = r, f_eof = False\<rparr>)"
    using copy_profile[OF wire_profile_body(1)[OF G p(2)], of Z]
    by (simp add: otrng_client_expired_client_profile_read_from_def otrng_client_add_exp_client_profile_def
        read_decoded_line[where parse = "otrng_client_profile_deserialize C Z", OF B p(3) n])
  have "storable_prekey_profile C S B (cl_exp_prekey_profile client)"
    using G B q by (simp add: storable_prekey_profile_def prekey_profiles_of_def)
  from expired_prekey_profile.reads[OF this, where i = q and Z = Z and other = other and r = r] q(1)
  have "otrng_client_expired_prekey_profile_read_from C Z B other (Some \<lparr>f_rest = ?m @ r, f_eof = False\<rparr>) =
       Some (True, other\<lparr>cl_exp_prekey_profile := Some (wire_prekey_profile C Z q)\<rparr>, Some \<lparr>f_rest = r, f_eof = False\<rparr>)"
    by (simp add: prekey_profiles_of_def put_expired_prekey_profile_def)
  moreover have "pp_keys q \<noteq> None" using q(2) by (auto simp: wf_prekey_profile_def split: option.splits)
  moreover have "pp_keys (wire_prekey_profile C Z q) = None" by (simp add: wire_prekey_profile_def prekey_profile_zero_def)
  ultimately show ?thesis using w r1 by blast
qed

subsection \<open>Lines of fingerprints\<close>

definition plain :: "string \<Rightarrow> bool" where
  "plain s \<longleftrightarrow> tab \<notin> set s \<and> newline \<notin> set s \<and> carriage_return \<notin> set s \<and> nul \<notin> set s"

definition fingerprint_line :: "otrng_client_id_s \<Rightarrow> otrng_known_fingerprint_s \<Rightarrow> string" where
  "fingerprint_line cid fp = kf_username fp @ [tab] @ id_account cid @ [tab] @ id_protocol cid @ [tab] @ concat (map print_02x (kf_fp fp)) @ [tab] @
     (if kf_trusted fp then ''trusted'' else []) @ [newline]"

definition storable_fingerprint :: "otrng_client_id_s \<Rightarrow> otrng_known_fingerprint_s \<Rightarrow> bool" where
  "storable_fingerprint cid fp \<longleftrightarrow> plain (kf_username fp) \<and> plain (id_account cid) \<and> plain (id_protocol cid) \<and>
     length (kf_fp fp) = FPRINT_LEN_BYTES \<and> length (kf_username fp) + length (id_account cid) + length (id_protocol cid) \<le> 875"

lemma plain_digits: "list_all (is_digit 16) s \<Longrightarrow> plain s"
proof -
  have "\<not> is_digit 16 tab" "\<not> is_digit 16 newline" "\<not> is_digit 16 carriage_return" "\<not> is_digit 16 nul"
    by (simp_all add: is_digit_def digit_value_def tab_def newline_def carriage_return_def nul_def)
  then show "list_all (is_digit 16) s \<Longrightarrow> plain s" by (auto simp: plain_def list_all_iff)
qed

lemma split_tabs_step: "tab \<notin> set s \<Longrightarrow> split_tabs (Suc n) (s @ tab # r) = s # split_tabs n r"
proof -
  assume "tab \<notin> set s"
  then have "takeWhile (\<lambda>c. c \<noteq> tab) (s @ tab # r) = s" "dropWhile (\<lambda>c. c \<noteq> tab) (s @ tab # r) = tab # r"
    by (induction s) auto
  then show ?thesis by simp
qed

lemma special_chars [simp]: "tab \<noteq> newline" "tab \<noteq> carriage_return" "tab \<noteq> nul" "newline \<noteq> carriage_return" "newline \<noteq> nul"
  "newline \<noteq> tab" "carriage_return \<noteq> newline" "carriage_return \<noteq> tab" "nul \<noteq> tab" "nul \<noteq> newline"
  by (simp_all add: tab_def newline_def carriage_return_def nul_def)

lemma fingerprint_line_read:
  assumes "storable_fingerprint cid fp"
  shows "get_limited_line \<lparr>f_rest = fingerprint_line cid fp @ r, f_eof = e\<rparr> = (Some (fingerprint_line cid fp), \<lparr>f_rest = r, f_eof = e\<rparr>)"
    and "split_tab_delimited_file (fingerprint_line cid fp) 5 = [kf_username fp, id_account cid, id_protocol cid,
       concat (map print_02x (kf_fp fp)), if kf_trusted fp then ''trusted'' else []]"
proof -
  let ?h = "concat (map print_02x (kf_fp fp))" and ?t = "if kf_trusted fp then ''trusted'' else []"
  have p: "plain (kf_username fp)" "plain (id_account cid)" "plain (id_protocol cid)" "plain ?h" "plain ?t"
    using assms print_bytes(1)[of "kf_fp fp"]
    by (auto simp: storable_fingerprint_def intro: plain_digits) (simp_all add: plain_def tab_def newline_def carriage_return_def nul_def)
  define l where "l = kf_username fp @ [tab] @ id_account cid @ [tab] @ id_protocol cid @ [tab] @ ?h @ [tab] @ ?t"
  have f: "fingerprint_line cid fp = l @ [newline]" by (simp add: fingerprint_line_def l_def)
  have n: "newline \<notin> set l" "nul \<notin> set l" "carriage_return \<notin> set l" unfolding l_def set_append Un_iff using p by (simp_all add: plain_def)
  have "length ?t \<le> 7" by simp
  then have "length l < 999" using assms unfolding l_def length_append print_bytes(2) by (simp add: storable_fingerprint_def FPRINT_LEN_BYTES_def)
  from limited_line[OF n(1,2) this, of r e] f
  show "get_limited_line \<lparr>f_rest = fingerprint_line cid fp @ r, f_eof = e\<rparr> = (Some (fingerprint_line cid fp), \<lparr>f_rest = r, f_eof = e\<rparr>)" by simp
  have "takeWhile (\<lambda>c. c \<noteq> newline) (l @ [newline]) = l" using n(1) by (induction l) auto
  then have "split_tab_delimited_file (fingerprint_line cid fp) 5 = split_tabs 5 l"
    using n(3) by (simp add: split_tab_delimited_file_def f)
  also have "\<dots> = [kf_username fp, id_account cid, id_protocol cid, ?h, ?t]"
    unfolding l_def append.simps using p
    by (simp add: eval_nat_numeral split_tabs_step plain_def del: split_tabs.simps(2)) (simp add: plain_def)
  finally show "split_tab_delimited_file (fingerprint_line cid fp) 5 = [kf_username fp, id_account cid, id_protocol cid, ?h, ?t]" .
qed

definition put_fingerprint :: "otrng_known_fingerprint_s \<Rightarrow> ('p, 's, 'm) full_client_s \<Rightarrow> ('p, 's, 'm) full_client_s" where
  "put_fingerprint fp client = client\<lparr>cl_fingerprints := Some ((case cl_fingerprints client of None \<Rightarrow> [] | Some fps \<Rightarrow> fps) @ [fp])\<rparr>"

lemma fingerprint_read:
  assumes "storable_fingerprint cid fp"
  shows "otrng_client_fingerprint_v4_read_from with_client gs (Some \<lparr>f_rest = fingerprint_line cid fp @ r, f_eof = e\<rparr>) =
     map_option (\<lambda>gs. (True, gs, Some \<lparr>f_rest = r, f_eof = e\<rparr>)) (with_client cid (\<lambda>client. Some (put_fingerprint fp client)) gs)"
proof -
  have l: "length (kf_fp fp) = FPRINT_LEN_BYTES" using assms by (simp add: storable_fingerprint_def)
  then have h: "fingerprint_hex_to_bytes FPRINT_LEN_BYTES (concat (map print_02x (kf_fp fp))) = Some (kf_fp fp)"
    using hex_to_bytes_digits[OF _ print_bytes(1)[of "kf_fp fp"], of FPRINT_LEN_BYTES] by (simp add: print_bytes)
  have r: "\<lparr>kf_username = kf_username fp, kf_fp = kf_fp fp, kf_trusted = kf_trusted fp\<rparr> = fp"
    "\<lparr>id_protocol = id_protocol cid, id_account = id_account cid\<rparr> = cid" by simp_all
  have t: "(if kf_trusted fp then ''trusted'' else []) \<noteq> [] \<longleftrightarrow> kf_trusted fp" by simp
  show ?thesis
    by (simp add: otrng_client_fingerprint_v4_read_from_def fingerprint_line_read[OF assms] print_bytes(2) l h r t put_fingerprint_def Let_def
         map_option_case del: if_split split: option.split)
qed

lemma fingerprints_text:
  assumes "list_all (storable_fingerprint cid) fps"
  shows "fold (add_fingerprint_to_file cid) fps \<lparr>o_text = t, o_room = None\<rparr> =
     \<lparr>o_text = t @ concat (map (fingerprint_line cid) fps), o_room = None\<rparr>"
  using assms
proof (induction fps arbitrary: t)
  case (Cons fp fps)
  then have "add_fingerprint_to_file cid fp \<lparr>o_text = t, o_room = None\<rparr> = \<lparr>o_text = t @ fingerprint_line cid fp, o_room = None\<rparr>"
    by (simp add: add_fingerprint_to_file_def fold_put put_unlimited fingerprint_line_def storable_fingerprint_def)
  with Cons show ?case by simp
qed simp

subsection \<open>A concrete environment\<close>

definition ex_file_env :: file_env where
  "ex_file_env = \<lparr>otrl_base64_encode = b64_encode, otrl_base64_decode = (\<lambda>s. b64_decode (filter is_base64_char s)),
     otrl_instag_generate_FILEp = (\<lambda>us f account protocol. (True, us, f)), otrl_instag_read_FILEp = (\<lambda>us f. (True, us, f)),
     otrl_privkey_read_FILEp = (\<lambda>us f. (True, us, f)), otrl_privkey_read_fingerprints_FILEp = (\<lambda>us f. (us, f)),
     otrl_privkey_write_fingerprints_FILEp = (\<lambda>us f. (True, f))\<rparr>"

lemma ex_file_base64_ok: "file_base64_ok ex_file_env"
proof -
  have f: "filter is_base64_char (b64_encode bs) = b64_encode bs" for bs using b64_chars[of bs] by (simp add: filter_id_conv list_all_iff)
  have n: "\<not> is_base64_char newline" by (simp add: is_base64_char_def newline_def)
  show ?thesis by (simp add: file_base64_ok_def ex_file_env_def f n b64_length b64_chars b64_inverse)
qed

definition ex_seed :: bytes where "ex_seed = 3 # replicate 56 0"

definition ex_stored_keypair :: "(int, int) otrng_keypair_s" where
  "ex_stored_keypair = the (otrng_keypair_generate ex_crypto ex_seed)"

lemma ex_stored_keypair: "otrng_keypair_generate ex_crypto ex_seed = Some ex_stored_keypair" "ED448_PRIVATE_BYTES \<le> length ex_seed"
proof -
  obtain q where "otrng_ec_point_decode ex_crypto (derive_public_key ex_crypto (take ED448_PRIVATE_BYTES ex_seed)) = Some q"
    by (rule ecdh_keypair_total[OF ex_goldilocks_ok])
  then show "otrng_keypair_generate ex_crypto ex_seed = Some ex_stored_keypair"
    by (simp add: otrng_keypair_generate_def ex_stored_keypair_def)
  show "ED448_PRIVATE_BYTES \<le> length ex_seed" by (simp add: ex_seed_def const_defs)
qed

definition ex_expired_prekey_profile :: "(int, int) otrng_prekey_profile_s" where
  "ex_expired_prekey_profile = (prekey_profile_zero ex_zero)\<lparr>pp_keys := Some ex_stored_keypair, pp_shared_prekey := kp_pub ex_stored_keypair\<rparr>"

definition ex_stored_client :: "(int, int, nat) full_client_s" where
  "ex_stored_client = prekey_client_s.extend (otrng_client_s.extend ((ex_client 3 5 0x100)\<lparr>cl_keypair := ex_stored_keypair,
       cl_exp_client_profile := Some (ex_profile None), cl_exp_prekey_profile := Some ex_expired_prekey_profile\<rparr>)
     (prekey_client_s.fields None 0 0 False 0 []))
     (full_client_s.fields \<lparr>id_protocol = ''xmpp'', id_account = ''alice''\<rparr> None False True True 0 0 0 0 0 False)"

lemma ex_stored_client [simp]:
  "cl_keypair ex_stored_client = ex_stored_keypair" "cl_has_keypair ex_stored_client" "cl_has_forging_key ex_stored_client"
  "cl_exp_client_profile ex_stored_client = Some (ex_profile None)" "cl_exp_prekey_profile ex_stored_client = Some ex_expired_prekey_profile"
  "cl_client_id ex_stored_client = \<lparr>id_protocol = ''xmpp'', id_account = ''alice''\<rparr>" "cl_forging_key ex_stored_client = 5"
  by (simp_all add: ex_stored_client_def ex_client_def otrng_client_s.defs prekey_client_s.defs full_client_s.defs)

theorem identity_export_import_witness:
  "\<exists>exported. otrng_client_export_v4_identity ex_crypto ex_stored_client (Some \<lparr>o_text = [], o_room = None\<rparr>) =
       (True, Some \<lparr>o_text = [] @ exported, o_room = None\<rparr>) \<and>
     otrng_client_import_v4_identity ex_crypto ex_zero ex_stored_client (Some \<lparr>f_rest = exported @ ''x'', f_eof = False\<rparr>) =
       Some (True, ex_stored_client\<lparr>cl_has_keypair := True, cl_keypair := cl_keypair ex_stored_client, cl_has_forging_key := True,
         cl_forging_key := wire_point ex_crypto (cl_forging_key ex_stored_client)\<rparr>, Some \<lparr>f_rest = ''x'', f_eof = False\<rparr>) \<and>
     dlog ex_sem (wire_point ex_crypto (cl_forging_key ex_stored_client)) = dlog ex_sem (cl_forging_key ex_stored_client)"
  by (rule identity_export_import[OF ex_goldilocks_ok ex_sponge_ok _ ex_stored_keypair(2)]) (simp_all add: ex_stored_keypair(1))

theorem private_key_store_reports_error_witness:
  "\<exists>key. otrng_client_private_key_v4_write_to ex_file_env ex_stored_client (Some \<lparr>o_text = [], o_room = None\<rparr>) =
       Some (False, Some \<lparr>o_text = [] @ otrng_client_get_storage_id ex_stored_client @ [newline] @ key, o_room = None\<rparr>) \<and>
     otrng_client_private_key_v4_read_from ex_crypto ex_file_env ex_stored_client (Some \<lparr>f_rest = key @ [], f_eof = False\<rparr>) =
       Some (True, ex_stored_client\<lparr>cl_has_keypair := True, cl_keypair := cl_keypair ex_stored_client\<rparr>, Some \<lparr>f_rest = [], f_eof = False\<rparr>)"
  by (rule private_key_store_reports_error[OF ex_file_base64_ok _ _ ex_stored_keypair(2)]) (simp_all add: ex_stored_keypair(1))

theorem stored_line_bound_witness:
  "get_limited_line \<lparr>f_rest = stored_line ex_file_env (replicate 748 1) @ [], f_eof = False\<rparr> =
     (Some (take 999 (stored_line ex_file_env (replicate 748 1))), \<lparr>f_rest = drop 999 (stored_line ex_file_env (replicate 748 1)) @ [], f_eof = False\<rparr>) \<and>
     drop 999 (stored_line ex_file_env (replicate 748 1)) \<noteq> []"
  using stored_line_bound[OF ex_file_base64_ok, of "replicate 748 1" "[]"] by simp

lemma ex_expired_profiles:
  "fits_line (profile_record ex_crypto (ex_profile None))" "wf_prekey_profile ex_crypto ex_expired_prekey_profile"
proof -
  show "fits_line (profile_record ex_crypto (ex_profile None))"
    using length_body[OF ex_goldilocks_ok ex_profile_wf(1)]
    by (simp add: fits_line_def profile_record_def profile_bytes_def ex_profile_def client_profile_zero_def opt_len_def otrng_strlen_ns_def const_defs)
  note k = keypair_generate_again[OF ex_stored_keypair]
  have "otrng_shared_prekey_pair_generate ex_crypto = otrng_keypair_generate ex_crypto"
    by (intro ext) (simp add: otrng_shared_prekey_pair_generate_def otrng_keypair_generate_def)
  with k show "wf_prekey_profile ex_crypto ex_expired_prekey_profile"
    by (simp add: wf_prekey_profile_def ex_expired_prekey_profile_def prekey_profile_zero_def zeros_def)
qed

theorem expired_profiles_spoiled_witness:
  "\<exists>l m. otrng_client_expired_client_profile_write_to ex_crypto ex_file_env ex_stored_client (Some \<lparr>o_text = [], o_room = None\<rparr>) =
       Some (True, Some \<lparr>o_text = [] @ otrng_client_get_storage_id ex_stored_client @ [newline] @ l, o_room = None\<rparr>) \<and>
     otrng_client_expired_client_profile_read_from ex_crypto ex_zero ex_file_env ex_stored_client (Some \<lparr>f_rest = l @ [], f_eof = False\<rparr>) =
       Some (False, ex_stored_client\<lparr>cl_exp_client_profile := Some (wire_profile ex_crypto (ex_profile None))\<rparr>, Some \<lparr>f_rest = [], f_eof = False\<rparr>) \<and>
     otrng_client_expired_prekey_profile_write_to ex_crypto ex_file_env ex_stored_client (Some \<lparr>o_text = [], o_room = None\<rparr>) =
       Some (True, Some \<lparr>o_text = [] @ otrng_client_get_storage_id ex_stored_client @ [newline] @ m, o_room = None\<rparr>) \<and>
     otrng_client_expired_prekey_profile_read_from ex_crypto ex_zero ex_file_env ex_stored_client (Some \<lparr>f_rest = m @ [], f_eof = False\<rparr>) =
       Some (True, ex_stored_client\<lparr>cl_exp_prekey_profile := Some (wire_prekey_profile ex_crypto ex_zero ex_expired_prekey_profile)\<rparr>,
         Some \<lparr>f_rest = [], f_eof = False\<rparr>) \<and>
     pp_keys ex_expired_prekey_profile \<noteq> None \<and> pp_keys (wire_prekey_profile ex_crypto ex_zero ex_expired_prekey_profile) = None"
  by (rule expired_profiles_spoiled[OF ex_goldilocks_ok ex_file_base64_ok _ ex_profile_wf(1) ex_expired_profiles(1) _ ex_expired_profiles(2)]) simp_all

end
