(* ===== verification/Messaging.thy ===== *)
theory Messaging
  imports Persistence Client
begin

text \<open>
  \<open>messaging.c\<close>: the global state of an application, with its clients, and storing and loading what all of them own.  A client
  is its registry of \<open>Client\<close>; the user state of libotr and the mark that the fingerprints of version 3 are loaded belong to
  the global state, and a client sees them while a call works on it (\<open>enter\<close>, \<open>leave\<close>).  \<open>get_client\<close> returns a
  position in the list.  The function with which an application reads the name of an account returns pointers; they are
  addresses together with the strings they point to, because the code compares the pointers.  Not returning is the value
  \<open>None\<close>, like a fault.
\<close>

subsection \<open>The global state\<close>

record ('p, 's, 'm) otrng_global_state_s =
  gs_clients :: "('p, 's, 'm) registry_s list"
  gs_user_state :: "otrl_user_state option"
  gs_fingerprints_v3_loaded :: bool
  gs_template :: "('p, 's, 'm) full_client_s"

text \<open>The process ends when something is missing and \<open>die\<close> is set.\<close>

definition otrng_global_state_new ::
    "(string \<Rightarrow> bool) \<Rightarrow> bool \<Rightarrow> otrl_user_state option \<Rightarrow> ('p, 's, 'm) full_client_s \<Rightarrow> ('p, 's, 'm) otrng_global_state_s option" where
  "otrng_global_state_new cb die user_state g =
     (if \<not> otrng_client_callbacks_ensure_needed_exist cb \<and> die then None
      else if user_state = None \<and> die then None
      else Some \<lparr>gs_clients = [], gs_user_state = user_state, gs_fingerprints_v3_loaded = False, gs_template = g\<rparr>)"

definition enter :: "('p, 's, 'm) otrng_global_state_s \<Rightarrow> ('p, 's, 'm) full_client_s \<Rightarrow> ('p, 's, 'm) full_client_s" where
  "enter gs client = client\<lparr>cl_user_state := gs_user_state gs, cl_fingerprints_v3_loaded := gs_fingerprints_v3_loaded gs\<rparr>"

definition leave :: "nat \<Rightarrow> ('p, 's, 'm) full_client_s \<Rightarrow> ('p, 's, 'm) otrng_global_state_s \<Rightarrow> ('p, 's, 'm) otrng_global_state_s" where
  "leave i client gs = gs\<lparr>gs_clients := (gs_clients gs)[i := (gs_clients gs ! i)\<lparr>reg_client := client\<rparr>],
     gs_user_state := cl_user_state client, gs_fingerprints_v3_loaded := cl_fingerprints_v3_loaded client\<rparr>"

definition find_client_by_client_id :: "('p, 's, 'm) registry_s \<Rightarrow> otrng_client_id_s \<Rightarrow> bool" where
  "find_client_by_client_id c cid \<longleftrightarrow>
     id_protocol (cl_client_id (reg_client c)) = id_protocol cid \<and> id_account (cl_client_id (reg_client c)) = id_account cid"

fun position_of :: "otrng_client_id_s \<Rightarrow> ('p, 's, 'm) registry_s list \<Rightarrow> nat option" where
  "position_of cid [] = None"
| "position_of cid (c # cs) = (if find_client_by_client_id c cid then Some 0 else map_option Suc (position_of cid cs))"

definition get_client ::
    "('p, 's, 'm) otrng_global_state_s \<Rightarrow> otrng_client_id_s \<Rightarrow> nat \<times> ('p, 's, 'm) otrng_global_state_s" where
  "get_client gs client_id = (case position_of client_id (gs_clients gs) of
     Some i \<Rightarrow> (i, gs)
   | None \<Rightarrow> (length (gs_clients gs), gs\<lparr>gs_clients := gs_clients gs @
         [\<lparr>reg_client = otrng_client_new (enter gs (gs_template gs)) client_id, reg_conversations = []\<rparr>]\<rparr>))"

definition otrng_client_get ::
    "('p, 's, 'm) otrng_global_state_s \<Rightarrow> otrng_client_id_s \<Rightarrow> nat \<times> ('p, 's, 'm) otrng_global_state_s" where
  "otrng_client_get gs client_id = (case position_of client_id (gs_clients gs) of Some i \<Rightarrow> (i, gs) | None \<Rightarrow> get_client gs client_id)"

text \<open>A call on the client with the given name.\<close>

definition on_client ::
    "(('p, 's, 'm) full_client_s \<Rightarrow> ('a \<times> ('p, 's, 'm) full_client_s) option) \<Rightarrow> otrng_client_id_s \<Rightarrow> ('p, 's, 'm) otrng_global_state_s
     \<Rightarrow> ('a \<times> ('p, 's, 'm) otrng_global_state_s) option" where
  "on_client call client_id gs = (case get_client gs client_id of (i, gs) \<Rightarrow> do {
     (x, client) \<leftarrow> call (enter gs (reg_client (gs_clients gs ! i)));
     Some (x, leave i client gs) })"

definition otrng_global_state_add_instance_tag ::
    "('p, 's, 'm) otrng_global_state_s \<Rightarrow> otrng_client_id_s \<Rightarrow> u32 \<Rightarrow> (bool \<times> ('p, 's, 'm) otrng_global_state_s) option" where
  "otrng_global_state_add_instance_tag gs client_id instag = on_client (\<lambda>client. Some (otrng_client_add_instance_tag client instag)) client_id gs"

definition otrng_global_state_instag_generate_into ::
    "file_env \<Rightarrow> ('p, 's, 'm) otrng_global_state_s \<Rightarrow> otrng_client_id_s \<Rightarrow> ofile_s option \<Rightarrow> ((bool \<times> ofile_s option) \<times> ('p, 's, 'm) otrng_global_state_s) option" where
  "otrng_global_state_instag_generate_into B gs client_id instag = on_client (\<lambda>client. case otrng_client_instance_tag_write_to B client instag of
     (ok, client, instag) \<Rightarrow> Some ((ok, instag), client)) client_id gs"

definition otrng_global_state_add_private_key_v4 ::
    "('p, 's, 'm, 'h) crypto_ops \<Rightarrow> ('p, 's) wiped \<Rightarrow> ('p, 's, 'm) otrng_global_state_s \<Rightarrow> otrng_client_id_s \<Rightarrow> bytes
     \<Rightarrow> (bool \<times> ('p, 's, 'm) otrng_global_state_s) option" where
  "otrng_global_state_add_private_key_v4 C Z gs clientop seed = on_client (\<lambda>client. Some (otrng_client_add_private_key_v4 C Z client seed)) clientop gs"

definition otrng_global_state_get_private_key_v4 ::
    "('p, 's, 'm) otrng_client_callbacks_s \<Rightarrow> ('p, 's, 'm) otrng_global_state_s \<Rightarrow> otrng_client_id_s
     \<Rightarrow> (('p, 's) otrng_keypair_s option \<times> ('p, 's, 'm) otrng_global_state_s) option" where
  "otrng_global_state_get_private_key_v4 cb gs client_id = on_client (\<lambda>client. Some (otrng_client_get_keypair_v4 cb client)) client_id gs"

text \<open>\<open>random\<close> is what \<open>gcry_randomize\<close> gives.\<close>

definition otrng_global_state_generate_private_key ::
    "('p, 's, 'm, 'h) crypto_ops \<Rightarrow> ('p, 's) wiped \<Rightarrow> bytes \<Rightarrow> ('p, 's, 'm) otrng_global_state_s \<Rightarrow> otrng_client_id_s
     \<Rightarrow> (bool \<times> ('p, 's, 'm) otrng_global_state_s) option" where
  "otrng_global_state_generate_private_key C Z random gs client_id = otrng_global_state_add_private_key_v4 C Z gs client_id random"

definition otrng_global_state_add_forging_key ::
    "('p, 's, 'm) otrng_global_state_s \<Rightarrow> otrng_client_id_s \<Rightarrow> 'p \<Rightarrow> (bool \<times> ('p, 's, 'm) otrng_global_state_s) option" where
  "otrng_global_state_add_forging_key gs clientop fk = on_client (\<lambda>client. Some (otrng_client_add_forging_key client fk)) clientop gs"

definition otrng_global_state_generate_forging_key ::
    "('p, 's, 'm, 'h) crypto_ops \<Rightarrow> bytes \<Rightarrow> ('p, 's, 'm) otrng_global_state_s \<Rightarrow> otrng_client_id_s
     \<Rightarrow> (bool \<times> ('p, 's, 'm) otrng_global_state_s) option" where
  "otrng_global_state_generate_forging_key C random gs client_id = (case otrng_keypair_generate C random of
     None \<Rightarrow> Some (False, gs)
   | Some key_pair \<Rightarrow> otrng_global_state_add_forging_key gs client_id (kp_pub key_pair))"

definition otrng_global_state_generate_client_profile ::
    "('p, 's, 'm, 'h) crypto_ops \<Rightarrow> ('p, 's) wiped \<Rightarrow> ('p, 's, 'm) otrng_client_callbacks_s \<Rightarrow> int \<Rightarrow> ('p, 's, 'm) otrng_global_state_s
     \<Rightarrow> otrng_client_id_s \<Rightarrow> (bool \<times> ('p, 's, 'm) otrng_global_state_s) option" where
  "otrng_global_state_generate_client_profile C Z cb now gs client_id = on_client (\<lambda>client. do {
     (profile, client) \<leftarrow> otrng_client_build_default_client_profile C Z cb now client;
     Some (case profile of None \<Rightarrow> (False, client) | Some _ \<Rightarrow> otrng_client_add_client_profile Z client profile) }) client_id gs"

definition otrng_global_state_generate_prekey_profile ::
    "('p, 's, 'm, 'h) crypto_ops \<Rightarrow> ('p, 's) wiped \<Rightarrow> bytes \<Rightarrow> int \<Rightarrow> ('p, 's, 'm) otrng_client_callbacks_s \<Rightarrow> ('p, 's, 'm) otrng_global_state_s
     \<Rightarrow> otrng_client_id_s \<Rightarrow> (bool \<times> ('p, 's, 'm) otrng_global_state_s) option" where
  "otrng_global_state_generate_prekey_profile C Z random now cb gs client_id = on_client (\<lambda>client.
     case otrng_client_build_default_prekey_profile C Z random now cb client of (profile, client) \<Rightarrow>
       Some (case profile of None \<Rightarrow> (False, client) | Some _ \<Rightarrow> otrng_client_add_prekey_profile Z client profile)) client_id gs"

subsection \<open>Storing\<close>

text \<open>The writers report to nobody: their results are dropped.\<close>

fun write_clients ::
    "(('p, 's, 'm) full_client_s \<Rightarrow> ofile_s option \<Rightarrow> (bool \<times> ofile_s option) option) \<Rightarrow> ('p, 's, 'm) full_client_s list \<Rightarrow> ofile_s option
     \<Rightarrow> ofile_s option option" where
  "write_clients fn [] f = Some f"
| "write_clients fn (c # cs) f = do { (_, f) \<leftarrow> fn c f; write_clients fn cs f }"

definition global_state_write_to ::
    "('p, 's, 'm) otrng_global_state_s \<Rightarrow> ofile_s option
     \<Rightarrow> (('p, 's, 'm) full_client_s \<Rightarrow> ofile_s option \<Rightarrow> (bool \<times> ofile_s option) option) \<Rightarrow> (bool \<times> ofile_s option) option" where
  "global_state_write_to gs f fn =
     (if f = None then Some (False, f) else map_option (Pair True) (write_clients fn (map (enter gs \<circ> reg_client) (gs_clients gs)) f))"

definition otrng_global_state_private_key_v4_write_to ::
    "file_env \<Rightarrow> ('p, 's, 'm) otrng_global_state_s \<Rightarrow> ofile_s option \<Rightarrow> (bool \<times> ofile_s option) option" where
  "otrng_global_state_private_key_v4_write_to B gs privf = global_state_write_to gs privf (otrng_client_private_key_v4_write_to B)"

definition otrng_global_state_forging_key_write_to ::
    "('p, 's, 'm, 'h) crypto_ops \<Rightarrow> file_env \<Rightarrow> ('p, 's, 'm) otrng_global_state_s \<Rightarrow> ofile_s option \<Rightarrow> (bool \<times> ofile_s option) option" where
  "otrng_global_state_forging_key_write_to C B gs f = global_state_write_to gs f (otrng_client_forging_key_write_to C B)"

definition otrng_global_state_client_profile_write_to ::
    "('p, 's, 'm, 'h) crypto_ops \<Rightarrow> file_env \<Rightarrow> ('p, 's, 'm) otrng_global_state_s \<Rightarrow> ofile_s option \<Rightarrow> (bool \<times> ofile_s option) option" where
  "otrng_global_state_client_profile_write_to C B gs f = global_state_write_to gs f (otrng_client_client_profile_write_to C B)"

definition otrng_global_state_expired_client_profile_write_to ::
    "('p, 's, 'm, 'h) crypto_ops \<Rightarrow> file_env \<Rightarrow> ('p, 's, 'm) otrng_global_state_s \<Rightarrow> ofile_s option \<Rightarrow> (bool \<times> ofile_s option) option" where
  "otrng_global_state_expired_client_profile_write_to C B gs f = global_state_write_to gs f (otrng_client_expired_client_profile_write_to C B)"

definition otrng_global_state_expired_prekey_profile_write_to ::
    "('p, 's, 'm, 'h) crypto_ops \<Rightarrow> file_env \<Rightarrow> ('p, 's, 'm) otrng_global_state_s \<Rightarrow> ofile_s option \<Rightarrow> (bool \<times> ofile_s option) option" where
  "otrng_global_state_expired_prekey_profile_write_to C B gs f = global_state_write_to gs f (otrng_client_expired_prekey_profile_write_to C B)"

definition otrng_global_state_prekey_profile_write_to ::
    "('p, 's, 'm, 'h) crypto_ops \<Rightarrow> file_env \<Rightarrow> ('p, 's, 'm) otrng_global_state_s \<Rightarrow> ofile_s option \<Rightarrow> (bool \<times> ofile_s option) option" where
  "otrng_global_state_prekey_profile_write_to C B gs f = global_state_write_to gs f (otrng_client_prekey_profile_write_to C B)"

definition otrng_global_state_prekey_messages_write_to ::
    "('p, 's, 'm, 'h) crypto_ops \<Rightarrow> file_env \<Rightarrow> ('p, 's, 'm) otrng_global_state_s \<Rightarrow> ofile_s option \<Rightarrow> (bool \<times> ofile_s option) option" where
  "otrng_global_state_prekey_messages_write_to C B gs f = global_state_write_to gs f (otrng_client_prekeys_write_to C B)"

definition otrng_global_state_fingerprints_v4_write_to ::
    "('p, 's, 'm) otrng_global_state_s \<Rightarrow> ofile_s option \<Rightarrow> (bool \<times> ofile_s option) option" where
  "otrng_global_state_fingerprints_v4_write_to gs fp = global_state_write_to gs fp (\<lambda>client f. Some (otrng_client_fingerprints_v4_write_to client f))"

definition otrng_global_state_fingerprints_v3_write_to ::
    "file_env \<Rightarrow> ('p, 's, 'm) otrng_global_state_s \<Rightarrow> ofile_s option \<Rightarrow> bool \<times> ofile_s option" where
  "otrng_global_state_fingerprints_v3_write_to B gs fp =
     (case otrl_privkey_write_fingerprints_FILEp B (gs_user_state gs) fp of (err, fp) \<Rightarrow> if err then (False, fp) else (True, fp))"

subsection \<open>Loading\<close>

definition otrng_global_state_instance_tags_read_from ::
    "file_env \<Rightarrow> ('p, 's, 'm) otrng_global_state_s \<Rightarrow> file_s option \<Rightarrow> bool \<times> ('p, 's, 'm) otrng_global_state_s \<times> file_s option" where
  "otrng_global_state_instance_tags_read_from B gs instag = (case otrl_instag_read_FILEp B (gs_user_state gs) instag of
     (res, us, instag) \<Rightarrow> if res then (False, gs\<lparr>gs_user_state := us\<rparr>, instag) else (True, gs\<lparr>gs_user_state := us\<rparr>, instag))"

definition otrng_global_state_private_key_v3_read_from ::
    "file_env \<Rightarrow> ('p, 's, 'm) otrng_global_state_s \<Rightarrow> file_s option \<Rightarrow> bool \<times> ('p, 's, 'm) otrng_global_state_s \<times> file_s option" where
  "otrng_global_state_private_key_v3_read_from B gs keys = (case otrl_privkey_read_FILEp B (gs_user_state gs) keys of
     (res, us, keys) \<Rightarrow> if res then (False, gs\<lparr>gs_user_state := us\<rparr>, keys) else (True, gs\<lparr>gs_user_state := us\<rparr>, keys))"

text \<open>The name of an account as the application reads it: the pointers to protocol and account.\<close>

type_synonym client_id_ptrs = "(nat \<times> string) option \<times> (nat \<times> string) option"

text \<open>The last name and the position of its client.\<close>

type_synonym last_client = "(nat \<times> nat \<times> nat) option"

definition client_for_line ::
    "last_client \<Rightarrow> nat \<times> string \<Rightarrow> nat \<times> string \<Rightarrow> ('p, 's, 'm) otrng_global_state_s \<Rightarrow> nat \<times> ('p, 's, 'm) otrng_global_state_s" where
  "client_for_line last_one protocol account gs = (case last_one of
     Some (last_protocol, last_account, i) \<Rightarrow>
       if last_protocol = fst protocol \<and> last_account = fst account then (i, gs)
       else get_client gs \<lparr>id_protocol = snd protocol, id_account = snd account\<rparr>
   | None \<Rightarrow> get_client gs \<lparr>id_protocol = snd protocol, id_account = snd account\<rparr>)"

partial_function (option) read_clients ::
    "(file_s \<Rightarrow> client_id_ptrs \<times> file_s) \<Rightarrow> (('p, 's, 'm) full_client_s \<Rightarrow> file_s option \<Rightarrow> (bool \<times> ('p, 's, 'm) full_client_s \<times> file_s option) option)
     \<Rightarrow> last_client \<Rightarrow> ('p, 's, 'm) otrng_global_state_s \<Rightarrow> file_s \<Rightarrow> (bool \<times> ('p, 's, 'm) otrng_global_state_s \<times> file_s) option" where
  "read_clients read_client_id_for_key on_each_line last_one gs f =
     (if feof f then Some (True, gs, f)
      else case read_client_id_for_key f of
        ((Some protocol, Some account), f) \<Rightarrow>
          (case client_for_line last_one protocol account gs of (i, gs) \<Rightarrow>
             Option.bind (on_each_line (enter gs (reg_client (gs_clients gs ! i))) (Some f)) (\<lambda>(ok, client, f).
               Option.bind f (\<lambda>f.
                 if \<not> ok then Some (False, leave i client gs, f)
                 else read_clients read_client_id_for_key on_each_line (Some (fst protocol, fst account, i)) (leave i client gs) f)))
      | (_, f) \<Rightarrow> read_clients read_client_id_for_key on_each_line last_one gs f)"

definition global_state_read_from ::
    "('p, 's, 'm) otrng_global_state_s \<Rightarrow> file_s option \<Rightarrow> (file_s \<Rightarrow> client_id_ptrs \<times> file_s)
     \<Rightarrow> (('p, 's, 'm) full_client_s \<Rightarrow> file_s option \<Rightarrow> (bool \<times> ('p, 's, 'm) full_client_s \<times> file_s option) option)
     \<Rightarrow> (bool \<times> ('p, 's, 'm) otrng_global_state_s \<times> file_s option) option" where
  "global_state_read_from gs f read_client_id_for_key on_each_line = (case f of
     None \<Rightarrow> Some (False, gs, None)
   | Some f \<Rightarrow> map_option (\<lambda>(ok, gs, f). (ok, gs, Some f)) (read_clients read_client_id_for_key on_each_line None gs f))"

definition otrng_global_state_private_key_v4_read_from where
  "otrng_global_state_private_key_v4_read_from C B gs f read_client_id_for_key =
     global_state_read_from gs f read_client_id_for_key (otrng_client_private_key_v4_read_from C B)"

definition otrng_global_state_forging_key_read_from where
  "otrng_global_state_forging_key_read_from C B gs f read_client_id_for_key =
     global_state_read_from gs f read_client_id_for_key (otrng_client_forging_key_read_from C B)"

definition otrng_global_state_client_profile_read_from where
  "otrng_global_state_client_profile_read_from C Z B gs f read_client_id_for_key =
     global_state_read_from gs f read_client_id_for_key (otrng_client_client_profile_read_from C Z B)"

definition otrng_global_state_expired_client_profile_read_from where
  "otrng_global_state_expired_client_profile_read_from C Z B gs f read_client_id_for_key =
     global_state_read_from gs f read_client_id_for_key (otrng_client_expired_client_profile_read_from C Z B)"

definition otrng_global_state_prekey_profile_read_from where
  "otrng_global_state_prekey_profile_read_from C Z B gs f read_client_id_for_key =
     global_state_read_from gs f read_client_id_for_key (otrng_client_prekey_profile_read_from C Z B)"

definition otrng_global_state_expired_prekey_profile_read_from where
  "otrng_global_state_expired_prekey_profile_read_from C Z B gs f read_client_id_for_key =
     global_state_read_from gs f read_client_id_for_key (otrng_client_expired_prekey_profile_read_from C Z B)"

definition for_clients ::
    "(('p, 's, 'm) full_client_s \<Rightarrow> ('p, 's, 'm) full_client_s) \<Rightarrow> ('p, 's, 'm) otrng_global_state_s \<Rightarrow> ('p, 's, 'm) otrng_global_state_s" where
  "for_clients fn gs = gs\<lparr>gs_clients := map (\<lambda>c. c\<lparr>reg_client := fn (reg_client c)\<rparr>) (gs_clients gs)\<rparr>"

definition free_prekeys_from :: "('p, 's, 'm) full_client_s \<Rightarrow> ('p, 's, 'm) full_client_s" where
  "free_prekeys_from client = client\<lparr>cl_our_prekeys := []\<rparr>"

definition otrng_global_state_prekeys_read_from where
  "otrng_global_state_prekeys_read_from C Z B gs f read_client_id_for_line =
     global_state_read_from (for_clients free_prekeys_from gs) f read_client_id_for_line (otrng_client_prekey_messages_read_from C Z B)"

definition otrng_global_state_fingerprints_v3_loaded :: "('p, 's, 'm) otrng_global_state_s \<Rightarrow> ('p, 's, 'm) otrng_global_state_s" where
  "otrng_global_state_fingerprints_v3_loaded gs = gs\<lparr>gs_fingerprints_v3_loaded := True\<rparr>"

definition otrng_global_state_fingerprints_v3_read_from ::
    "file_env \<Rightarrow> ('p, 's, 'm) otrng_global_state_s \<Rightarrow> file_s option \<Rightarrow> bool \<times> ('p, 's, 'm) otrng_global_state_s \<times> file_s option" where
  "otrng_global_state_fingerprints_v3_read_from B gs f = (case otrl_privkey_read_fingerprints_FILEp B (gs_user_state gs) f of
     (us, f) \<Rightarrow> (True, otrng_global_state_fingerprints_v3_loaded (gs\<lparr>gs_user_state := us\<rparr>), f))"

definition remove_fingerprints_from :: "('p, 's, 'm) full_client_s \<Rightarrow> ('p, 's, 'm) full_client_s" where
  "remove_fingerprints_from client = (if cl_fingerprints client \<noteq> None then client\<lparr>cl_fingerprints := None\<rparr> else client)"

definition otrng_global_state_clean_all :: "('p, 's, 'm) otrng_global_state_s \<Rightarrow> ('p, 's, 'm) otrng_global_state_s" where
  "otrng_global_state_clean_all gs = for_clients remove_fingerprints_from gs"

definition free_fingerprints_from :: "('p, 's, 'm) full_client_s \<Rightarrow> ('p, 's, 'm) full_client_s" where
  "free_fingerprints_from client = client\<lparr>cl_fingerprints := None\<rparr>"

definition change_client ::
    "otrng_client_id_s \<Rightarrow> (('p, 's, 'm) full_client_s \<Rightarrow> ('p, 's, 'm) full_client_s option) \<Rightarrow> ('p, 's, 'm) otrng_global_state_s
     \<Rightarrow> ('p, 's, 'm) otrng_global_state_s option" where
  "change_client client_id change gs = map_option snd (on_client (\<lambda>client. map_option (Pair ()) (change client)) client_id gs)"

partial_function (option) read_fingerprints ::
    "('p, 's, 'm) otrng_global_state_s \<Rightarrow> file_s \<Rightarrow> (('p, 's, 'm) otrng_global_state_s \<times> file_s) option" where
  "read_fingerprints gs f =
     (if feof f then Some (gs, f)
      else Option.bind (otrng_client_fingerprint_v4_read_from change_client gs (Some f)) (\<lambda>(ok, gs, f).
        Option.bind f (\<lambda>f. read_fingerprints gs f)))"

definition otrng_global_state_fingerprints_v4_read_from ::
    "('p, 's, 'm) otrng_global_state_s \<Rightarrow> file_s option \<Rightarrow> (bool \<times> ('p, 's, 'm) otrng_global_state_s \<times> file_s option) option" where
  "otrng_global_state_fingerprints_v4_read_from gs f = (
     let gs = for_clients free_fingerprints_from gs
     in case f of
          None \<Rightarrow> Some (False, gs, None)
        | Some f \<Rightarrow> map_option (\<lambda>(gs, f). (True, gs, Some f)) (read_fingerprints gs f))"

definition otrng_fingerprints_do_all ::
    "('p, 's, 'm) full_client_s \<Rightarrow> (('p, 's, 'm) full_client_s \<Rightarrow> otrng_known_fingerprint_s \<Rightarrow> 'c \<Rightarrow> 'c) \<Rightarrow> 'c \<Rightarrow> 'c" where
  "otrng_fingerprints_do_all client fn context = (case cl_fingerprints client of
     None \<Rightarrow> context
   | Some fps \<Rightarrow> fold (fn client) fps context)"

definition otrng_global_state_do_all_fingerprints ::
    "('p, 's, 'm) otrng_global_state_s \<Rightarrow> (('p, 's, 'm) full_client_s \<Rightarrow> otrng_known_fingerprint_s \<Rightarrow> 'c \<Rightarrow> 'c) \<Rightarrow> 'c \<Rightarrow> 'c" where
  "otrng_global_state_do_all_fingerprints gs fn context = fold (\<lambda>c. otrng_fingerprints_do_all (enter gs (reg_client c)) fn) (gs_clients gs) context"

text \<open>Only the clients are polled here; libotr polls its own conversations.\<close>

definition poll_for_client ::
    "('p, 's, 'm, 'h) crypto_ops \<Rightarrow> ('p, 's) wiped \<Rightarrow> (nat \<Rightarrow> bytes) \<Rightarrow> int \<Rightarrow> ('p, 's, 'm) otrng_client_callbacks_s \<Rightarrow> ('p, 's, 'm) registry_s
     \<Rightarrow> ('p, 's, 'm) registry_s option" where
  "poll_for_client C Z rnd now cb reg = do {
     reg \<leftarrow> otrng_client_expire_sessions C Z rnd now cb reg;
     reg \<leftarrow> otrng_client_expire_fragments now reg;
     let client = reg_client reg;
     Some (reg\<lparr>reg_client := prekey_client_s.extend (otrng_prekey_check_account_request now (prekey_client_s.truncate client)) (prekey_client_s.more client)\<rparr>) }"

fun poll_clients ::
    "(nat \<Rightarrow> ('p, 's, 'm) registry_s \<Rightarrow> ('p, 's, 'm) registry_s option) \<Rightarrow> nat \<Rightarrow> ('p, 's, 'm) registry_s list \<Rightarrow> ('p, 's, 'm) registry_s list option" where
  "poll_clients poll i [] = Some []"
| "poll_clients poll i (c # cs) = do { c \<leftarrow> poll i c; cs \<leftarrow> poll_clients poll (Suc i) cs; Some (c # cs) }"

definition otrng_poll ::
    "('p, 's, 'm, 'h) crypto_ops \<Rightarrow> ('p, 's) wiped \<Rightarrow> (nat \<Rightarrow> nat \<Rightarrow> bytes) \<Rightarrow> int \<Rightarrow> ('p, 's, 'm) otrng_client_callbacks_s \<Rightarrow> ('p, 's, 'm) otrng_global_state_s
     \<Rightarrow> ('p, 's, 'm) otrng_global_state_s option" where
  "otrng_poll C Z rnd now cb gs = map_option (\<lambda>cs. gs\<lparr>gs_clients := cs\<rparr>) (poll_clients (\<lambda>i. poll_for_client C Z (rnd i) now cb) 0 (gs_clients gs))"

subsection \<open>Clients by name\<close>

definition client_name :: "('p, 's, 'm) registry_s \<Rightarrow> otrng_client_id_s" where
  "client_name c = cl_client_id (reg_client c)"

text \<open>A change of the client with the given name, which is created when there is none.\<close>

definition store_into ::
    "(('p, 's, 'm) full_client_s \<Rightarrow> ('p, 's, 'm) full_client_s) \<Rightarrow> otrng_client_id_s \<Rightarrow> ('p, 's, 'm) otrng_global_state_s \<Rightarrow> ('p, 's, 'm) otrng_global_state_s" where
  "store_into change cid gs = (case get_client gs cid of (i, gs) \<Rightarrow> leave i (change (enter gs (reg_client (gs_clients gs ! i)))) gs)"

text \<open>What a change must not touch.\<close>

definition keeps_names :: "(('p, 's, 'm) full_client_s \<Rightarrow> ('p, 's, 'm) full_client_s) \<Rightarrow> bool" where
  "keeps_names change \<longleftrightarrow> (\<forall>client. cl_client_id (change client) = cl_client_id client \<and> cl_user_state (change client) = cl_user_state client \<and>
     cl_fingerprints_v3_loaded (change client) = cl_fingerprints_v3_loaded client)"

lemma find_client_iff: "find_client_by_client_id c cid \<longleftrightarrow> client_name c = cid"
  by (auto simp: find_client_by_client_id_def client_name_def)

lemma position_of_Some: "position_of cid cs = Some i \<Longrightarrow> i < length cs \<and> client_name (cs ! i) = cid \<and> (\<forall>j < i. client_name (cs ! j) \<noteq> cid)"
  by (induction cs arbitrary: i) (auto simp: find_client_iff nth_Cons split: if_splits nat.splits)

lemma position_of_None: "position_of cid cs = None \<longleftrightarrow> cid \<notin> client_name ` set cs"
  by (induction cs) (auto simp: find_client_iff)

lemma position_of_names: "map client_name cs = map client_name ds \<Longrightarrow> position_of cid cs = position_of cid ds"
proof (induction cs arbitrary: ds)
  case (Cons c cs)
  then show ?case by (cases ds) (auto simp: find_client_iff)
qed simp

lemma position_of_append: "position_of cid (cs @ ds) = (case position_of cid cs of Some i \<Rightarrow> Some i | None \<Rightarrow> map_option (\<lambda>i. i + length cs) (position_of cid ds))"
  by (induction cs) (auto simp: option.map_comp comp_def option.map_ident split: option.splits)

text \<open>\<open>get_client\<close> finds the client or adds it, and finds it from then on.\<close>

lemma get_client_found:
  assumes "get_client gs cid = (i, gs')"
  shows "position_of cid (gs_clients gs') = Some i" "i < length (gs_clients gs')" "client_name (gs_clients gs' ! i) = cid"
    and "gs_user_state gs' = gs_user_state gs" "gs_fingerprints_v3_loaded gs' = gs_fingerprints_v3_loaded gs" "gs_template gs' = gs_template gs"
    and "\<exists>ds. gs_clients gs' = gs_clients gs @ ds"
proof -
  have "position_of cid (gs_clients gs') = Some i \<and> gs_user_state gs' = gs_user_state gs \<and>
     gs_fingerprints_v3_loaded gs' = gs_fingerprints_v3_loaded gs \<and> gs_template gs' = gs_template gs \<and> (\<exists>ds. gs_clients gs' = gs_clients gs @ ds)"
    using assms by (auto simp: get_client_def position_of_append find_client_iff client_name_def otrng_client_new_def split: option.splits)
  then show "position_of cid (gs_clients gs') = Some i" "gs_user_state gs' = gs_user_state gs" "gs_template gs' = gs_template gs"
    "gs_fingerprints_v3_loaded gs' = gs_fingerprints_v3_loaded gs" "\<exists>ds. gs_clients gs' = gs_clients gs @ ds" by blast+
  then show "i < length (gs_clients gs')" "client_name (gs_clients gs' ! i) = cid" using position_of_Some by blast+
qed

lemma get_client_again: "position_of cid (gs_clients gs) = Some i \<Longrightarrow> get_client gs cid = (i, gs)"
  by (simp add: get_client_def)

text \<open>A change keeps the names and so the positions of all clients.\<close>

lemma leave_names:
  assumes "i < length (gs_clients gs)" "cl_client_id client = client_name (gs_clients gs ! i)"
  shows "map client_name (gs_clients (leave i client gs)) = map client_name (gs_clients gs)"
proof -
  have "client_name ((gs_clients gs ! i)\<lparr>reg_client := client\<rparr>) = client_name (gs_clients gs ! i)" using assms(2) by (simp add: client_name_def)
  then show ?thesis using assms(1) by (simp add: leave_def map_update list_update_same_conv)
qed

lemma store_into_positions:
  assumes "keeps_names change" "position_of x (gs_clients gs) = Some j"
  shows "position_of x (gs_clients (store_into change cid gs)) = Some j"
proof -
  obtain i gs' where g: "get_client gs cid = (i, gs')" by fastforce
  note f = get_client_found[OF g]
  have "cl_client_id (change (enter gs' (reg_client (gs_clients gs' ! i)))) = client_name (gs_clients gs' ! i)"
    using assms(1) by (simp add: keeps_names_def enter_def client_name_def)
  from position_of_names[OF leave_names[OF f(2) this]] f(7) assms(2)
  show ?thesis by (auto simp: store_into_def g position_of_append)
qed

lemma store_into_same:
  assumes "keeps_names f" "keeps_names g"
  shows "store_into g cid (store_into f cid gs) = store_into (g \<circ> f) cid gs"
proof -
  obtain i gs' where get: "get_client gs cid = (i, gs')" by fastforce
  note found = get_client_found[OF get]
  let ?c = "f (enter gs' (reg_client (gs_clients gs' ! i)))"
  have "cl_client_id ?c = client_name (gs_clients gs' ! i)" "cl_user_state ?c = gs_user_state gs'"
      "cl_fingerprints_v3_loaded ?c = gs_fingerprints_v3_loaded gs'"
    using assms(1) by (simp_all add: keeps_names_def enter_def client_name_def)
  note c = this
  have p: "position_of cid (gs_clients (leave i ?c gs')) = Some i"
    using position_of_names[OF leave_names[OF found(2) c(1)]] found(1) by simp
  have e: "enter (leave i ?c gs') (reg_client (gs_clients (leave i ?c gs') ! i)) = ?c"
    using found(2) by (cases ?c) (simp add: enter_def leave_def)
  have "leave i (g ?c) (leave i ?c gs') = leave i (g ?c) gs'" using found(2) by (simp add: leave_def)
  then show ?thesis by (simp add: store_into_def get get_client_again[OF p] e)
qed

lemma fold_store_into:
  assumes "\<And>x. keeps_names (f x)" "xs \<noteq> []"
  shows "fold (\<lambda>x. store_into (f x) cid) xs gs = store_into (fold f xs) cid gs"
  using assms(2)
proof (induction xs arbitrary: gs)
  case (Cons x xs)
  have k: "keeps_names (fold f xs)" using assms(1) by (induction xs) (auto simp: keeps_names_def)
  show ?case using Cons.IH store_into_same[OF assms(1)[of x] k, of cid gs] by (cases "xs = []") (simp_all add: comp_def)
qed simp

text \<open>Changing the clients of different names in turn, beginning without clients, makes one client for each.\<close>

definition fresh_client :: "('p, 's, 'm) otrng_global_state_s \<Rightarrow> otrng_client_id_s \<Rightarrow> ('p, 's, 'm) full_client_s" where
  "fresh_client gs cid = otrng_client_new (enter gs (gs_template gs)) cid"

lemma store_into_new:
  assumes "keeps_names f" "cid \<notin> client_name ` set (gs_clients gs)"
  shows "store_into f cid gs = gs\<lparr>gs_clients := gs_clients gs @ [\<lparr>reg_client = f (fresh_client gs cid), reg_conversations = []\<rparr>]\<rparr>"
proof -
  let ?n = "fresh_client gs cid"
  have n: "cl_user_state ?n = gs_user_state gs" "cl_fingerprints_v3_loaded ?n = gs_fingerprints_v3_loaded gs"
    by (simp_all add: fresh_client_def otrng_client_new_def enter_def)
  then have e: "?n\<lparr>cl_user_state := gs_user_state gs, cl_fingerprints_v3_loaded := gs_fingerprints_v3_loaded gs\<rparr> = ?n" by (cases ?n) simp
  have f: "cl_user_state (f ?n) = gs_user_state gs" "cl_fingerprints_v3_loaded (f ?n) = gs_fingerprints_v3_loaded gs"
    using assms(1) n by (simp_all add: keeps_names_def)
  from assms(2) have "get_client gs cid = (length (gs_clients gs), gs\<lparr>gs_clients := gs_clients gs @ [\<lparr>reg_client = ?n, reg_conversations = []\<rparr>]\<rparr>)"
    by (simp add: get_client_def fresh_client_def flip: position_of_None)
  then show ?thesis by (cases gs) (use e f in \<open>simp add: store_into_def enter_def leave_def list_update_append\<close>)
qed

lemma fold_store_into_new:
  assumes "\<And>c. keeps_names (f c)" "distinct (map name cs)" "\<forall>c \<in> set cs. name c \<notin> client_name ` set (gs_clients gs)"
  shows "fold (\<lambda>c. store_into (f c) (name c)) cs gs =
     gs\<lparr>gs_clients := gs_clients gs @ map (\<lambda>c. \<lparr>reg_client = f c (fresh_client gs (name c)), reg_conversations = []\<rparr>) cs\<rparr>"
  using assms(2,3)
proof (induction cs arbitrary: gs)
  case (Cons c cs)
  have n: "cl_client_id (f c (fresh_client gs (name c))) = name c"
    using assms(1)[of c] by (simp add: keeps_names_def fresh_client_def otrng_client_new_def)
  have "name c \<notin> client_name ` set (gs_clients gs)" using Cons.prems by simp
  note s = store_into_new[OF assms(1) this]
  have "\<forall>d \<in> set cs. name d \<notin> client_name ` set (gs_clients (store_into (f c) (name c) gs))"
    using Cons.prems n by (auto simp: s client_name_def) (metis image_eqI)
  with Cons show ?case by (simp add: s) (simp add: fresh_client_def enter_def)
qed simp

text \<open>The same for records of a name and an item.\<close>

lemma fold_records:
  assumes k: "\<And>i. keeps_names (place i)" and "distinct (map cl_client_id cs)" "gs_clients gs = []"
  shows "fold (\<lambda>(cid, i). store_into (place i) cid) (concat (map (\<lambda>c. map (Pair (cl_client_id c)) (items c)) cs)) gs =
     gs\<lparr>gs_clients := map (\<lambda>c. \<lparr>reg_client = fold place (items c) (fresh_client gs (cl_client_id c)), reg_conversations = []\<rparr>)
       (filter (\<lambda>c. items c \<noteq> []) cs)\<rparr>"
proof -
  have step: "fold (\<lambda>(cid, i). store_into (place i) cid) (concat (map (\<lambda>c. map (Pair (cl_client_id c)) (items c)) xs)) g =
      fold (\<lambda>c. store_into (fold place (items c)) (cl_client_id c)) (filter (\<lambda>c. items c \<noteq> []) xs) g" for xs g
  proof (induction xs arbitrary: g)
    case (Cons x xs)
    have "fold (\<lambda>(cid, i). store_into (place i) cid) (map (Pair (cl_client_id x)) (items x)) g =
        fold (\<lambda>i. store_into (place i) (cl_client_id x)) (items x) g" by (simp add: fold_map comp_def)
    with Cons fold_store_into[where f = place and xs = "items x" and cid = "cl_client_id x" and gs = g, OF k] show ?case
      by (cases "items x = []") simp_all
  qed simp
  have "keeps_names (fold place is)" for "is" using k by (induction "is") (auto simp: keeps_names_def)
  moreover have "distinct (map cl_client_id (filter (\<lambda>c. items c \<noteq> []) cs))" using assms(2) by (simp add: distinct_map_filter)
  ultimately show ?thesis unfolding step using assms(3) by (subst fold_store_into_new) simp_all
qed

subsection \<open>Everything that is stored is loaded\<close>

text \<open>A reader of names that reads a storage id and its newline, returns equal pointers only for equal names, and at the end
  of the file returns \<open>NULL\<close> and notices the end.\<close>

definition reads_names :: "(file_s \<Rightarrow> client_id_ptrs \<times> file_s) \<Rightarrow> otrng_client_id_s set \<Rightarrow> bool" where
  "reads_names rid ids \<longleftrightarrow> (\<exists>p a. (\<forall>cid \<in> ids. \<forall>r. rid \<lparr>f_rest = id_protocol cid @ '':'' @ id_account cid @ newline # r, f_eof = False\<rparr> =
       ((Some (p cid, id_protocol cid), Some (a cid, id_account cid)), \<lparr>f_rest = r, f_eof = False\<rparr>)) \<and>
     (\<forall>x \<in> ids. \<forall>y \<in> ids. p x = p y \<and> a x = a y \<longrightarrow> x = y)) \<and>
     rid \<lparr>f_rest = [], f_eof = False\<rparr> = ((None, None), \<lparr>f_rest = [], f_eof = True\<rparr>)"

definition stored_name :: "otrng_client_id_s \<Rightarrow> string" where
  "stored_name cid = id_protocol cid @ '':'' @ id_account cid @ [newline]"

context stored_item
begin

lemma put_keeps_names: "keeps_names (put_item i)"
  by (simp add: keeps_names_def same_client)

lemma write_all:
  assumes "list_all storable cs"
  shows "write_clients write_to cs (Some \<lparr>o_text = t, o_room = None\<rparr>) = Some (Some \<lparr>o_text = t @
     concat (map (\<lambda>c. concat (map (\<lambda>i. stored_name (cl_client_id c) @ line i) (items c))) cs), o_room = None\<rparr>)"
  using assms
proof (induction cs arbitrary: t)
  case (Cons c cs)
  then have "storable c" by simp
  from writes[OF this, of t] obtain ok where w: "write_to c (Some \<lparr>o_text = t, o_room = None\<rparr>) = Some (ok, Some \<lparr>o_text = t @
     concat (map (\<lambda>i. otrng_client_get_storage_id c @ [newline] @ line i) (items c)), o_room = None\<rparr>)" by auto
  have "otrng_client_get_storage_id c @ [newline] @ line i = stored_name (cl_client_id c) @ line i" for i
    by (simp add: otrng_client_get_storage_id_def stored_name_def)
  with w Cons show ?case by (simp add: stored_name_def otrng_client_get_storage_id_def)
qed simp

text \<open>Reading the records one after the other puts each item into the client it belongs to, whether the client is the one of
  the line before or not.\<close>

lemma read_records:
  assumes N: "\<forall>cid \<in> ids. \<forall>r. rid \<lparr>f_rest = id_protocol cid @ '':'' @ id_account cid @ newline # r, f_eof = False\<rparr> =
       ((Some (p cid, id_protocol cid), Some (a cid, id_account cid)), \<lparr>f_rest = r, f_eof = False\<rparr>)"
    and P: "\<forall>x \<in> ids. \<forall>y \<in> ids. p x = p y \<and> a x = a y \<longrightarrow> x = y"
    and E: "rid \<lparr>f_rest = [], f_eof = False\<rparr> = ((None, None), \<lparr>f_rest = [], f_eof = True\<rparr>)"
    and R: "\<forall>(cid, i) \<in> set recs. cid \<in> ids \<and> (\<exists>c. storable c \<and> i \<in> set (items c))"
    and L: "\<forall>u v j. last_one = Some (u, v, j) \<longrightarrow> (\<exists>x \<in> ids. u = p x \<and> v = a x \<and> position_of x (gs_clients gs) = Some j)"
  shows "read_clients rid read_from last_one gs \<lparr>f_rest = concat (map (\<lambda>(cid, i). stored_name cid @ line i) recs), f_eof = False\<rparr> =
     Some (True, fold (\<lambda>(cid, i). store_into (put_item i) cid) recs gs, \<lparr>f_rest = [], f_eof = True\<rparr>)"
  using R L
proof (induction recs arbitrary: gs last_one)
  case Nil
  then show ?case by (simp add: read_clients.simps[of _ _ _ _ "\<lparr>f_rest = [], f_eof = False\<rparr>"] read_clients.simps[of _ _ _ _ "\<lparr>f_rest = [], f_eof = True\<rparr>"] feof_def E)
next
  case (Cons rec recs)
  obtain cid i where rec: "rec = (cid, i)" by fastforce
  with Cons.prems(1) obtain c where c: "cid \<in> ids" "storable c" "i \<in> set (items c)" by auto
  let ?r = "concat (map (\<lambda>(cid, i). stored_name cid @ line i) recs)"
  obtain j gs' where g: "get_client gs cid = (j, gs')" by fastforce
  note found = get_client_found[OF g]
  have l: "client_for_line last_one (p cid, id_protocol cid) (a cid, id_account cid) gs = (j, gs')"
  proof (cases "\<exists>k. last_one = Some (p cid, a cid, k)")
    case True
    then obtain k where k: "last_one = Some (p cid, a cid, k)" ..
    with Cons.prems(2) P c(1) have "position_of cid (gs_clients gs) = Some k" by metis
    then show ?thesis using g by (simp add: client_for_line_def k get_client_again)
  next
    case False
    moreover obtain u v where "cid = \<lparr>id_protocol = u, id_account = v\<rparr>" by (cases cid)
    ultimately show ?thesis using g by (auto simp: client_for_line_def split: option.split)
  qed
  have "read_from (enter gs' (reg_client (gs_clients gs' ! j))) (Some \<lparr>f_rest = line i @ ?r, f_eof = False\<rparr>) =
      Some (True, put_item i (enter gs' (reg_client (gs_clients gs' ! j))), Some \<lparr>f_rest = ?r, f_eof = False\<rparr>)" by (rule reads[OF c(2,3)])
  then have "read_clients rid read_from last_one gs \<lparr>f_rest = stored_name cid @ line i @ ?r, f_eof = False\<rparr> =
      read_clients rid read_from (Some (p cid, a cid, j)) (store_into (put_item i) cid gs) \<lparr>f_rest = ?r, f_eof = False\<rparr>"
    using N c(1) by (subst read_clients.simps) (simp add: feof_def stored_name_def l store_into_def g)
  moreover have "position_of cid (gs_clients (store_into (put_item i) cid gs)) = Some j"
  proof -
    have "store_into (put_item i) cid gs = store_into (put_item i) cid gs'" by (simp add: store_into_def g get_client_again[OF found(1)])
    then show ?thesis using store_into_positions[OF put_keeps_names found(1)] by simp
  qed
  ultimately show ?case using Cons.IH[of "Some (p cid, a cid, j)" "store_into (put_item i) cid gs"] Cons.prems(1) c(1) rec by auto
qed

lemma stored_and_loaded:
  assumes "list_all storable cs" "distinct (map cl_client_id cs)" "reads_names rid (cl_client_id ` set cs)" "gs_clients gs = []"
  shows "read_clients rid read_from None gs
     \<lparr>f_rest = concat (map (\<lambda>c. concat (map (\<lambda>i. stored_name (cl_client_id c) @ line i) (items c))) cs), f_eof = False\<rparr> =
     Some (True, gs\<lparr>gs_clients := map (\<lambda>c. \<lparr>reg_client = fold put_item (items c) (fresh_client gs (cl_client_id c)), reg_conversations = []\<rparr>)
       (filter (\<lambda>c. items c \<noteq> []) cs)\<rparr>, \<lparr>f_rest = [], f_eof = True\<rparr>)"
proof -
  let ?recs = "concat (map (\<lambda>c. map (Pair (cl_client_id c)) (items c)) cs)"
  obtain p a where pa: "\<forall>cid \<in> cl_client_id ` set cs. \<forall>r. rid \<lparr>f_rest = id_protocol cid @ '':'' @ id_account cid @ newline # r, f_eof = False\<rparr> =
       ((Some (p cid, id_protocol cid), Some (a cid, id_account cid)), \<lparr>f_rest = r, f_eof = False\<rparr>)"
     "\<forall>x \<in> cl_client_id ` set cs. \<forall>y \<in> cl_client_id ` set cs. p x = p y \<and> a x = a y \<longrightarrow> x = y"
     "rid \<lparr>f_rest = [], f_eof = False\<rparr> = ((None, None), \<lparr>f_rest = [], f_eof = True\<rparr>)"
    using assms(3) unfolding reads_names_def by blast
  have "\<forall>(cid, i) \<in> set ?recs. cid \<in> cl_client_id ` set cs \<and> (\<exists>c. storable c \<and> i \<in> set (items c))"
    using assms(1) by (auto simp: list_all_iff)
  note read = read_records[OF pa this, of None gs]
  have same: "concat (map (\<lambda>(cid, i). stored_name cid @ line i) ?recs) =
      concat (map (\<lambda>c. concat (map (\<lambda>i. stored_name (cl_client_id c) @ line i) (items c))) cs)"
    by (induction cs) (simp_all add: comp_def)
  show ?thesis using read fold_records[of put_item cs gs items, OF put_keeps_names assms(2,4)] by (simp add: same)
qed

end

text \<open>What is stored of the clients of \<open>gs\<close> is loaded into \<open>gs0\<close>: one client of the same name for each that had something to
  store, with what it had put into it, and the whole file is read.\<close>

definition loads_what_was_stored ::
    "('p, 's, 'm) otrng_global_state_s \<Rightarrow> ('p, 's, 'm) otrng_global_state_s \<Rightarrow> (ofile_s option \<Rightarrow> (bool \<times> ofile_s option) option)
     \<Rightarrow> (file_s option \<Rightarrow> (bool \<times> ('p, 's, 'm) otrng_global_state_s \<times> file_s option) option) \<Rightarrow> (('p, 's, 'm) full_client_s \<Rightarrow> 'i list)
     \<Rightarrow> ('i \<Rightarrow> ('p, 's, 'm) full_client_s \<Rightarrow> ('p, 's, 'm) full_client_s) \<Rightarrow> bool" where
  "loads_what_was_stored gs gs0 store load items put_item \<longleftrightarrow> (\<exists>stored.
     store (Some \<lparr>o_text = [], o_room = None\<rparr>) = Some (True, Some \<lparr>o_text = stored, o_room = None\<rparr>) \<and>
     load (Some \<lparr>f_rest = stored, f_eof = False\<rparr>) = Some (True,
       gs0\<lparr>gs_clients := map (\<lambda>c. \<lparr>reg_client = fold put_item (items c) (fresh_client gs0 (cl_client_id c)), reg_conversations = []\<rparr>)
         (filter (\<lambda>c. items c \<noteq> []) (map (enter gs \<circ> reg_client) (gs_clients gs)))\<rparr>,
       Some \<lparr>f_rest = [], f_eof = True\<rparr>))"

lemma enter_name: "map cl_client_id (map (enter gs \<circ> reg_client) cs) = map client_name cs"
  by (simp add: enter_def client_name_def)

context stored_item
begin

lemma global_state_loads:
  assumes "list_all (storable \<circ> enter gs \<circ> reg_client) (gs_clients gs)" "distinct (map client_name (gs_clients gs))"
    and "reads_names rid (client_name ` set (gs_clients gs))" "gs_clients gs0 = []"
  shows "loads_what_was_stored gs gs0 (\<lambda>f. global_state_write_to gs f write_to) (\<lambda>f. global_state_read_from gs0 f rid read_from) items put_item"
proof -
  let ?cs = "map (enter gs \<circ> reg_client) (gs_clients gs)"
  have s: "list_all storable ?cs" using assms(1) by (simp add: list_all_iff)
  have n: "distinct (map cl_client_id ?cs)" using assms(2) by (simp only: enter_name)
  have "cl_client_id ` set ?cs = client_name ` set (gs_clients gs)"
    by (simp add: enter_def client_name_def image_image)
  then have "reads_names rid (cl_client_id ` set ?cs)" using assms(3) by simp
  from stored_and_loaded[OF s n this assms(4)] write_all[OF s, of "[]"]
  show ?thesis unfolding loads_what_was_stored_def by (simp add: global_state_write_to_def global_state_read_from_def del: map_option_eq_Some)
qed

end

text \<open>C10: what an application stores of all its clients it gets back when it starts again: private keys, forging keys,
  client profiles, prekey profiles and prekey messages are written to a file each and loaded from it into a new global
  state, where each client has its own again.\<close>

theorem global_state_roundtrip:
  fixes C :: "('p, 's, 'm, 'h) crypto_ops" and gs gs0 :: "('p, 's, 'm) otrng_global_state_s"
  assumes G: "goldilocks_ok C S" "gcrypt_ok C S" "file_base64_ok B"
    and names: "distinct (map client_name (gs_clients gs))" "reads_names rid (client_name ` set (gs_clients gs))" "gs_clients gs0 = []"
    and storable: "list_all (\<lambda>c. storable_keypair C B (reg_client c) \<and> storable_profile C S B (profiles_of (reg_client c)) \<and>
       storable_prekey_profile C S B (cl_prekey_profile (reg_client c)) \<and> storable_prekey_messages C S B (cl_our_prekeys (reg_client c))) (gs_clients gs)"
  shows "loads_what_was_stored gs gs0 (otrng_global_state_private_key_v4_write_to B gs)
       (\<lambda>f. otrng_global_state_private_key_v4_read_from C B gs0 f rid) keypairs_of put_keypair \<and>
     loads_what_was_stored gs gs0 (otrng_global_state_forging_key_write_to C B gs)
       (\<lambda>f. otrng_global_state_forging_key_read_from C B gs0 f rid) forging_keys_of (put_forging_key C) \<and>
     loads_what_was_stored gs gs0 (otrng_global_state_client_profile_write_to C B gs)
       (\<lambda>f. otrng_global_state_client_profile_read_from C Z B gs0 f rid) profiles_of (put_profile C) \<and>
     loads_what_was_stored gs gs0 (otrng_global_state_prekey_profile_write_to C B gs)
       (\<lambda>f. otrng_global_state_prekey_profile_read_from C Z B gs0 f rid) (\<lambda>c. prekey_profiles_of (cl_prekey_profile c)) (put_prekey_profile C Z) \<and>
     loads_what_was_stored gs gs0 (otrng_global_state_prekey_messages_write_to C B gs)
       (\<lambda>f. otrng_global_state_prekeys_read_from C Z B gs0 f rid) cl_our_prekeys (put_prekey_message C Z)"
proof (intro conjI)
  have e: "keypairs_of (enter gs c) = keypairs_of c" "profiles_of (enter gs c) = profiles_of c" "cl_prekey_profile (enter gs c) = cl_prekey_profile c"
      "cl_our_prekeys (enter gs c) = cl_our_prekeys c" for c :: "('p, 's, 'm) full_client_s"
    by (simp_all add: enter_def keypairs_of_def profiles_of_def)
  show "loads_what_was_stored gs gs0 (otrng_global_state_private_key_v4_write_to B gs)
       (\<lambda>f. otrng_global_state_private_key_v4_read_from C B gs0 f rid) keypairs_of put_keypair"
    unfolding otrng_global_state_private_key_v4_write_to_def otrng_global_state_private_key_v4_read_from_def
    by (rule private_key.global_state_loads[OF _ names]) (use storable in \<open>simp add: list_all_iff storable_keypair_def e\<close>)
  show "loads_what_was_stored gs gs0 (otrng_global_state_forging_key_write_to C B gs)
       (\<lambda>f. otrng_global_state_forging_key_read_from C B gs0 f rid) forging_keys_of (put_forging_key C)"
    unfolding otrng_global_state_forging_key_write_to_def otrng_global_state_forging_key_read_from_def
    by (rule forging_key.global_state_loads[OF _ names, of C S B]) (use G in \<open>simp add: list_all_iff\<close>)
  show "loads_what_was_stored gs gs0 (otrng_global_state_client_profile_write_to C B gs)
       (\<lambda>f. otrng_global_state_client_profile_read_from C Z B gs0 f rid) profiles_of (put_profile C)"
    unfolding otrng_global_state_client_profile_write_to_def otrng_global_state_client_profile_read_from_def
    by (rule client_profile.global_state_loads[OF _ names, of C S B]) (use storable in \<open>simp add: list_all_iff e\<close>)
  show "loads_what_was_stored gs gs0 (otrng_global_state_prekey_profile_write_to C B gs)
       (\<lambda>f. otrng_global_state_prekey_profile_read_from C Z B gs0 f rid) (\<lambda>c. prekey_profiles_of (cl_prekey_profile c)) (put_prekey_profile C Z)"
    unfolding otrng_global_state_prekey_profile_write_to_def otrng_global_state_prekey_profile_read_from_def
    by (rule prekey_profile.global_state_loads[OF _ names, of C S B]) (use storable in \<open>simp add: list_all_iff e\<close>)
  have "for_clients free_prekeys_from gs0 = gs0" using names(3) by (simp add: for_clients_def)
  then show "loads_what_was_stored gs gs0 (otrng_global_state_prekey_messages_write_to C B gs)
       (\<lambda>f. otrng_global_state_prekeys_read_from C Z B gs0 f rid) cl_our_prekeys (put_prekey_message C Z)"
    unfolding otrng_global_state_prekey_messages_write_to_def otrng_global_state_prekeys_read_from_def
    by (simp only:) (rule prekey_messages.global_state_loads[OF _ names, of C S B], use storable in \<open>simp add: list_all_iff e\<close>)
qed

subsection \<open>Loading ends\<close>

text \<open>What is still to be done with a file.\<close>

definition remaining :: "file_s \<Rightarrow> nat" where
  "remaining f = (if f_eof f then 0 else Suc (length (f_rest f)))"

text \<open>A reader of names that gets on with the file, and a reader of items that does not go back in it.\<close>

definition gets_on :: "(file_s \<Rightarrow> client_id_ptrs \<times> file_s) \<Rightarrow> bool" where
  "gets_on rid \<longleftrightarrow> (\<forall>f. f_eof f \<or> remaining (snd (rid f)) < remaining f)"

definition goes_forward ::
    "(('p, 's, 'm) full_client_s \<Rightarrow> file_s option \<Rightarrow> (bool \<times> ('p, 's, 'm) full_client_s \<times> file_s option) option) \<Rightarrow> bool" where
  "goes_forward each \<longleftrightarrow> (\<forall>client f. \<exists>ok client' f'. each client (Some f) = Some (ok, client', Some f') \<and> remaining f' \<le> remaining f)"

lemma read_clients_ends:
  assumes "gets_on rid" "goes_forward each"
  shows "read_clients rid each last_one gs f \<noteq> None"
proof (induction "remaining f" arbitrary: f gs last_one rule: less_induct)
  case less
  show ?case
  proof (cases "f_eof f")
    case True
    then show ?thesis by (subst read_clients.simps) (simp add: feof_def)
  next
    case False
    obtain protocol account f1 where r: "rid f = ((protocol, account), f1)" by (cases "rid f") auto
    with assms(1) False have l: "remaining f1 < remaining f" unfolding gets_on_def by (metis snd_conv)
    show ?thesis
    proof (cases "\<exists>p a. protocol = Some p \<and> account = Some a")
      case True
      then obtain p a where pa: "protocol = Some p" "account = Some a" by blast
      obtain i gs1 where c: "client_for_line last_one p a gs = (i, gs1)" by fastforce
      obtain ok client f2 where e: "each (enter gs1 (reg_client (gs_clients gs1 ! i))) (Some f1) = Some (ok, client, Some f2)" "remaining f2 \<le> remaining f1"
        using assms(2) unfolding goes_forward_def by blast
      then show ?thesis using less[of f2 "Some (fst p, fst a, i)" "leave i client gs1"] l False
        by (subst read_clients.simps) (simp add: feof_def r pa c del: not_None_eq)
    next
      case False': False
      from less[OF l, of last_one gs] False' False show ?thesis
        by (subst read_clients.simps) (auto simp: feof_def r split: option.split)
    qed
  qed
qed

text \<open>A line is never read backwards.\<close>

lemma get_limited_line_forward: "get_limited_line f = (l, f') \<Longrightarrow> remaining f' \<le> remaining f"
  by (auto simp: get_limited_line_def fgets_def remaining_def Let_def split: option.splits prod.splits if_splits)

definition base64_fits :: "file_env \<Rightarrow> bool" where
  "base64_fits B \<longleftrightarrow> (\<forall>s. length (otrl_base64_decode B s) \<le> OTRNG_BASE64_DECODE_LEN (length s))"

lemma read_decoded_forward:
  assumes "base64_fits B"
  shows "goes_forward (\<lambda>client. read_decoded B parse (store client) client)"
  unfolding goes_forward_def
proof (intro allI)
  fix client f
  obtain l f' where l: "get_limited_line f = (l, f')" by fastforce
  have b: "length (otrl_base64_decode B s) \<le> OTRNG_BASE64_DECODE_LEN (length s)" for s using assms by (simp add: base64_fits_def)
  show "\<exists>ok client' f'. read_decoded B parse (store client) client (Some f) = Some (ok, client', Some f') \<and> remaining f' \<le> remaining f"
    using get_limited_line_forward[OF l] b
    by (auto simp: read_decoded_def otrng_client_read_from_prefix_def l split: option.split prod.split)
qed

lemma private_key_forward:
  assumes "base64_fits B"
  shows "goes_forward (otrng_client_private_key_v4_read_from C B)"
  unfolding goes_forward_def
proof (intro allI)
  fix client :: "('a, 'b, 'c) full_client_s" and f
  obtain l f' where l: "get_limited_line f = (l, f')" by fastforce
  have b: "length (otrl_base64_decode B s) \<le> (length s + 3) div 4 * 3" for s using assms by (simp add: base64_fits_def OTRNG_BASE64_DECODE_LEN_def)
  show "\<exists>ok client' f'. otrng_client_private_key_v4_read_from C B client (Some f) = Some (ok, client', Some f') \<and> remaining f' \<le> remaining f"
    using get_limited_line_forward[OF l] b
    by (auto simp: otrng_client_private_key_v4_read_from_def otrng_symmetric_key_deserialize_def l Let_def split: option.split)
qed

lemma prekey_messages_forward: "base64_fits B \<Longrightarrow> goes_forward (otrng_client_prekey_messages_read_from C Z B)"
  using read_decoded_forward[where parse = "otrng_prekey_message_deserialize_with_metadata C (otrng_prekey_message_new Z)" and
      store = "\<lambda>client prekey_msg. (True, client\<lparr>cl_our_prekeys := cl_our_prekeys client @ [prekey_msg]\<rparr>)"]
  by (simp add: goes_forward_def otrng_client_prekey_messages_read_from_def read_and_deserialize_prekey_def)

lemma loading_ends:
  assumes "gets_on rid" "goes_forward each"
  shows "global_state_read_from gs (Some f) rid each \<noteq> None"
  using read_clients_ends[OF assms, of None gs f] by (auto simp: global_state_read_from_def)

lemma read_clients_stuck:
  assumes "\<not> f_eof f" "rid f = ((None, None), f)"
  shows "read_clients rid each last_one gs f = None"
proof -
  have "\<not> f_eof f \<longrightarrow> rid f = ((None, None), f) \<longrightarrow> False" if "read_clients rid each last_one gs f = Some y" for y
  proof (rule read_clients.raw_induct[OF _ that])
    fix rc rid each last_one gs f y
    assume IH: "\<And>rid each last_one gs f y. rc rid each last_one gs f = Some y \<Longrightarrow> \<not> f_eof f \<longrightarrow> rid f = ((None, None), f) \<longrightarrow> False"
      and b: "(if feof f then Some (True, gs, f)
        else case rid f of ((Some protocol, Some account), f) \<Rightarrow>
          (case client_for_line last_one protocol account gs of (i, gs) \<Rightarrow>
             Option.bind (each (enter gs (reg_client (gs_clients gs ! i))) (Some f)) (\<lambda>(ok, client, f). Option.bind f (\<lambda>f.
               if \<not> ok then Some (False, leave i client gs, f)
               else rc rid each (Some (fst protocol, fst account, i)) (leave i client gs) f)))
        | (_, f) \<Rightarrow> rc rid each last_one gs f) = Some y"
    show "\<not> f_eof f \<longrightarrow> rid f = ((None, None), f) \<longrightarrow> False" using b IH[of rid each last_one gs f y] by (auto simp: feof_def)
  qed
  with assms show ?thesis by (cases "read_clients rid each last_one gs f") auto
qed

text \<open>C29: loading what was stored ends, for every file and every kind of item, when the reader of names of the application
  gets on with the file at each call.  When instead it returns \<open>NULL\<close> without having read anything, before the end of the file
  was noticed, loading does not return.\<close>

theorem loading_terminates:
  shows "(base64_fits B \<and> gets_on rid \<longrightarrow>
       otrng_global_state_private_key_v4_read_from C B gs (Some f) rid \<noteq> None \<and>
       otrng_global_state_forging_key_read_from C B gs (Some f) rid \<noteq> None \<and>
       otrng_global_state_client_profile_read_from C Z B gs (Some f) rid \<noteq> None \<and>
       otrng_global_state_expired_client_profile_read_from C Z B gs (Some f) rid \<noteq> None \<and>
       otrng_global_state_prekey_profile_read_from C Z B gs (Some f) rid \<noteq> None \<and>
       otrng_global_state_expired_prekey_profile_read_from C Z B gs (Some f) rid \<noteq> None \<and>
       otrng_global_state_prekeys_read_from C Z B gs (Some f) rid \<noteq> None) \<and>
     (\<not> f_eof f \<and> rid f = ((None, None), f) \<longrightarrow>
       otrng_global_state_private_key_v4_read_from C B gs (Some f) rid = None \<and>
       otrng_global_state_forging_key_read_from C B gs (Some f) rid = None \<and>
       otrng_global_state_client_profile_read_from C Z B gs (Some f) rid = None \<and>
       otrng_global_state_expired_client_profile_read_from C Z B gs (Some f) rid = None \<and>
       otrng_global_state_prekey_profile_read_from C Z B gs (Some f) rid = None \<and>
       otrng_global_state_expired_prekey_profile_read_from C Z B gs (Some f) rid = None \<and>
       otrng_global_state_prekeys_read_from C Z B gs (Some f) rid = None)"
proof (intro conjI impI; elim conjE)
  assume B: "base64_fits B" and r: "gets_on rid"
  note ends = loading_ends[OF r] and fwd = read_decoded_forward[OF B]
  show "otrng_global_state_private_key_v4_read_from C B gs (Some f) rid \<noteq> None"
    unfolding otrng_global_state_private_key_v4_read_from_def by (rule ends[OF private_key_forward[OF B]])
  show "otrng_global_state_forging_key_read_from C B gs (Some f) rid \<noteq> None"
    unfolding otrng_global_state_forging_key_read_from_def otrng_client_forging_key_read_from_def[abs_def] by (rule ends[OF fwd])
  show "otrng_global_state_client_profile_read_from C Z B gs (Some f) rid \<noteq> None"
    unfolding otrng_global_state_client_profile_read_from_def otrng_client_client_profile_read_from_def[abs_def] by (rule ends[OF fwd])
  show "otrng_global_state_expired_client_profile_read_from C Z B gs (Some f) rid \<noteq> None"
    unfolding otrng_global_state_expired_client_profile_read_from_def otrng_client_expired_client_profile_read_from_def[abs_def] by (rule ends[OF fwd])
  show "otrng_global_state_prekey_profile_read_from C Z B gs (Some f) rid \<noteq> None"
    unfolding otrng_global_state_prekey_profile_read_from_def otrng_client_prekey_profile_read_from_def[abs_def] by (rule ends[OF fwd])
  show "otrng_global_state_expired_prekey_profile_read_from C Z B gs (Some f) rid \<noteq> None"
    unfolding otrng_global_state_expired_prekey_profile_read_from_def otrng_client_expired_prekey_profile_read_from_def[abs_def] by (rule ends[OF fwd])
  show "otrng_global_state_prekeys_read_from C Z B gs (Some f) rid \<noteq> None"
    unfolding otrng_global_state_prekeys_read_from_def by (rule ends[OF prekey_messages_forward[OF B]])
next
  assume "\<not> f_eof f" "rid f = ((None, None), f)"
  note stuck = read_clients_stuck[of f rid, OF this]
  show "otrng_global_state_private_key_v4_read_from C B gs (Some f) rid = None"
    by (simp add: otrng_global_state_private_key_v4_read_from_def global_state_read_from_def stuck)
  show "otrng_global_state_forging_key_read_from C B gs (Some f) rid = None"
    by (simp add: otrng_global_state_forging_key_read_from_def global_state_read_from_def stuck)
  show "otrng_global_state_client_profile_read_from C Z B gs (Some f) rid = None"
    by (simp add: otrng_global_state_client_profile_read_from_def global_state_read_from_def stuck)
  show "otrng_global_state_expired_client_profile_read_from C Z B gs (Some f) rid = None"
    by (simp add: otrng_global_state_expired_client_profile_read_from_def global_state_read_from_def stuck)
  show "otrng_global_state_prekey_profile_read_from C Z B gs (Some f) rid = None"
    by (simp add: otrng_global_state_prekey_profile_read_from_def global_state_read_from_def stuck)
  show "otrng_global_state_expired_prekey_profile_read_from C Z B gs (Some f) rid = None"
    by (simp add: otrng_global_state_expired_prekey_profile_read_from_def global_state_read_from_def stuck)
  show "otrng_global_state_prekeys_read_from C Z B gs (Some f) rid = None"
    by (simp add: otrng_global_state_prekeys_read_from_def global_state_read_from_def stuck)
qed

subsection \<open>Fingerprints\<close>

definition fingerprints_of :: "('p, 's, 'm) full_client_s \<Rightarrow> otrng_known_fingerprint_s list" where
  "fingerprints_of client = (case cl_fingerprints client of None \<Rightarrow> [] | Some fps \<Rightarrow> fps)"

lemma change_client_store: "change_client cid (\<lambda>client. Some (f client)) gs = Some (store_into f cid gs)"
  by (simp add: change_client_def on_client_def store_into_def split: prod.split)

lemma read_fingerprint_lines:
  assumes "\<forall>(cid, fp) \<in> set recs. storable_fingerprint cid fp"
  shows "read_fingerprints gs \<lparr>f_rest = concat (map (\<lambda>(cid, fp). fingerprint_line cid fp) recs), f_eof = False\<rparr> =
     Some (fold (\<lambda>(cid, fp). store_into (put_fingerprint fp) cid) recs gs, \<lparr>f_rest = [], f_eof = True\<rparr>)"
  using assms
proof (induction recs arbitrary: gs)
  case Nil
  have "otrng_client_fingerprint_v4_read_from change_client gs (Some \<lparr>f_rest = [], f_eof = False\<rparr>) = Some (False, gs, Some \<lparr>f_rest = [], f_eof = True\<rparr>)"
    by (simp add: otrng_client_fingerprint_v4_read_from_def get_limited_line_def fgets_def MAX_LINE_LENGTH_def eval_nat_numeral)
  then show ?case
    by (simp add: read_fingerprints.simps[of _ "\<lparr>f_rest = [], f_eof = False\<rparr>"] read_fingerprints.simps[of _ "\<lparr>f_rest = [], f_eof = True\<rparr>"] feof_def)
next
  case (Cons rec recs)
  obtain cid fp where rec: "rec = (cid, fp)" by fastforce
  with Cons.prems have "storable_fingerprint cid fp" by simp
  note r = fingerprint_read[OF this, where with_client = change_client]
  show ?case using Cons rec by (subst read_fingerprints.simps) (simp add: feof_def r change_client_store)
qed

lemma write_fingerprints:
  assumes "\<forall>c \<in> set cs. list_all (storable_fingerprint (cl_client_id c)) (fingerprints_of c)"
  shows "write_clients (\<lambda>client f. Some (otrng_client_fingerprints_v4_write_to client f)) cs (Some \<lparr>o_text = t, o_room = None\<rparr>) =
     Some (Some \<lparr>o_text = t @ concat (map (\<lambda>(cid, fp). fingerprint_line cid fp) (concat (map (\<lambda>c. map (Pair (cl_client_id c)) (fingerprints_of c)) cs))), o_room = None\<rparr>)"
  using assms
proof (induction cs arbitrary: t)
  case (Cons c cs)
  have "otrng_client_fingerprints_v4_write_to c (Some \<lparr>o_text = t, o_room = None\<rparr>) =
      (cl_fingerprints c \<noteq> None, Some \<lparr>o_text = t @ concat (map (fingerprint_line (cl_client_id c)) (fingerprints_of c)), o_room = None\<rparr>)"
    using Cons.prems fingerprints_text[of "cl_client_id c" "fingerprints_of c" t]
    by (auto simp: otrng_client_fingerprints_v4_write_to_def fingerprints_of_def split: option.splits)
  with Cons show ?case by (simp add: comp_def)
qed simp

lemma fold_put_fingerprint:
  "cl_fingerprints client = Some fps \<Longrightarrow> fold put_fingerprint new client = client\<lparr>cl_fingerprints := Some (fps @ new)\<rparr>"
proof (induction new arbitrary: client fps)
  case (Cons x new)
  then have "fold put_fingerprint new (put_fingerprint x client) = (put_fingerprint x client)\<lparr>cl_fingerprints := Some ((fps @ [x]) @ new)\<rparr>"
    by (intro Cons.IH) (simp add: put_fingerprint_def)
  then show ?case by (simp add: put_fingerprint_def[of x client])
qed simp

text \<open>C27: the fingerprints an application knows survive being stored: written for all clients and loaded into a new global
  state, each client has its own, in the same order, with the same names of users and the same trust.\<close>

theorem fingerprints_roundtrip:
  assumes "\<forall>c \<in> set (gs_clients gs). list_all (storable_fingerprint (client_name c)) (fingerprints_of (reg_client c))"
    and "distinct (map client_name (gs_clients gs))" "gs_clients gs0 = []"
  shows "loads_what_was_stored gs gs0 (otrng_global_state_fingerprints_v4_write_to gs) (otrng_global_state_fingerprints_v4_read_from gs0)
       fingerprints_of put_fingerprint \<and>
     fold put_fingerprint (fp # fps) (fresh_client gs0 cid) = (fresh_client gs0 cid)\<lparr>cl_fingerprints := Some (fp # fps)\<rparr>"
proof
  let ?cs = "map (enter gs \<circ> reg_client) (gs_clients gs)"
  let ?recs = "concat (map (\<lambda>c. map (Pair (cl_client_id c)) (fingerprints_of c)) ?cs)"
  have e: "cl_client_id (enter gs (reg_client c)) = client_name c" "fingerprints_of (enter gs client) = fingerprints_of client" for c client
    by (simp_all add: enter_def client_name_def fingerprints_of_def)
  have s: "\<forall>c \<in> set ?cs. list_all (storable_fingerprint (cl_client_id c)) (fingerprints_of c)" using assms(1) by (simp add: e)
  then have r: "\<forall>(cid, fp) \<in> set ?recs. storable_fingerprint cid fp" by (auto simp: list_all_iff)
  have n: "distinct (map cl_client_id ?cs)" using assms(2) by (simp only: enter_name)
  have k: "keeps_names (put_fingerprint fp)" for fp :: otrng_known_fingerprint_s by (simp add: keeps_names_def put_fingerprint_def)
  have "for_clients free_fingerprints_from gs0 = gs0" using assms(3) by (simp add: for_clients_def)
  then show "loads_what_was_stored gs gs0 (otrng_global_state_fingerprints_v4_write_to gs) (otrng_global_state_fingerprints_v4_read_from gs0)
       fingerprints_of put_fingerprint"
    using fold_records[of put_fingerprint ?cs gs0 fingerprints_of, OF k n assms(3)] write_fingerprints[OF s, of "[]"] read_fingerprint_lines[OF r, of gs0]
    unfolding loads_what_was_stored_def
    by (simp add: otrng_global_state_fingerprints_v4_write_to_def global_state_write_to_def otrng_global_state_fingerprints_v4_read_from_def
        del: map_map map_option_eq_Some)
  have "put_fingerprint fp (fresh_client gs0 cid) = (fresh_client gs0 cid)\<lparr>cl_fingerprints := Some [fp]\<rparr>"
    by (simp add: put_fingerprint_def fresh_client_def otrng_client_new_def)
  then show "fold put_fingerprint (fp # fps) (fresh_client gs0 cid) = (fresh_client gs0 cid)\<lparr>cl_fingerprints := Some (fp # fps)\<rparr>"
    using fold_put_fingerprint[of "put_fingerprint fp (fresh_client gs0 cid)" "[fp]" fps] by simp
qed

subsection \<open>One buffer for all names\<close>

text \<open>C40: the name of the account is compared with that of the line before by its pointers.  An application that reads
  every name into the same buffer returns the same pointers each time: of two clients only the first is created, and the private
  key of the second takes the place of its own.\<close>

theorem static_buffer_misdirects:
  fixes C :: "('p, 's, 'm, 'h) crypto_ops" and c d :: "('p, 's, 'm) full_client_s"
  assumes "storable_keypair C B c" "cl_has_keypair c" "storable_keypair C B d" "cl_has_keypair d" "gs_clients gs0 = []"
    and rid: "\<And>e r. e = c \<or> e = d \<Longrightarrow> rid \<lparr>f_rest = otrng_client_get_storage_id e @ newline # r, f_eof = False\<rparr> =
       ((Some (p, id_protocol (cl_client_id e)), Some (a, id_account (cl_client_id e))), \<lparr>f_rest = r, f_eof = False\<rparr>)"
    and eof: "rid \<lparr>f_rest = [], f_eof = False\<rparr> = ((None, None), \<lparr>f_rest = [], f_eof = True\<rparr>)"
  shows "otrng_global_state_private_key_v4_read_from C B gs0 (Some \<lparr>f_rest = stored_record B c (kp_sym (cl_keypair c)) @
       stored_record B d (kp_sym (cl_keypair d)), f_eof = False\<rparr>) rid =
     Some (True, gs0\<lparr>gs_clients := [\<lparr>reg_client = (fresh_client gs0 (cl_client_id c))\<lparr>cl_has_keypair := True, cl_keypair := cl_keypair d\<rparr>,
       reg_conversations = []\<rparr>]\<rparr>, Some \<lparr>f_rest = [], f_eof = True\<rparr>)"
proof -
  let ?l = "\<lambda>e r. stored_line B (kp_sym (cl_keypair e)) @ r"
  have read: "otrng_client_private_key_v4_read_from C B other (Some \<lparr>f_rest = ?l e r, f_eof = False\<rparr>) =
      Some (True, put_keypair (cl_keypair e) other, Some \<lparr>f_rest = r, f_eof = False\<rparr>)" if "e = c \<or> e = d" for e r and other :: "('p, 's, 'm) full_client_s"
  proof -
    have "storable_keypair C B e" "cl_has_keypair e" using that assms(1-4) by auto
    then show ?thesis by (intro private_key.reads[where client = e]) (simp_all add: keypairs_of_def)
  qed
  have k: "keeps_names (put_keypair kp)" for kp :: "('p, 's) otrng_keypair_s" by (simp add: keeps_names_def put_keypair_def)
  let ?gs1 = "store_into (put_keypair (cl_keypair c)) (cl_client_id c) gs0"
  obtain i gs' where get: "get_client gs0 (cl_client_id c) = (i, gs')" by fastforce
  note found = get_client_found[OF get]
  obtain u v where cid: "cl_client_id c = \<lparr>id_protocol = u, id_account = v\<rparr>" by (cases "cl_client_id c")
  have "store_into (put_keypair (cl_keypair c)) (cl_client_id c) gs' = ?gs1" by (simp add: store_into_def get get_client_again[OF found(1)])
  then have pos: "get_client ?gs1 (cl_client_id c) = (i, ?gs1)"
    using store_into_positions[OF k[of "cl_keypair c"] found(1), of "cl_client_id c"] by (simp add: get_client_again)
  let ?g2 = "store_into (put_keypair (cl_keypair d)) (cl_client_id c) ?gs1"
  have s: "stored_record B e (kp_sym (cl_keypair e)) @ r = otrng_client_get_storage_id e @ newline # ?l e r" for e :: "('p, 's, 'm) full_client_s" and r
    by (simp add: stored_record_def)
  have "read_clients rid (otrng_client_private_key_v4_read_from C B) None gs0
      \<lparr>f_rest = otrng_client_get_storage_id c @ newline # ?l c (otrng_client_get_storage_id d @ newline # ?l d []), f_eof = False\<rparr> =
     read_clients rid (otrng_client_private_key_v4_read_from C B) (Some (p, a, i)) ?gs1
      \<lparr>f_rest = otrng_client_get_storage_id d @ newline # ?l d [], f_eof = False\<rparr>"
    using get cid by (subst read_clients.simps) (simp add: feof_def rid client_for_line_def read store_into_def)
  also have "\<dots> = read_clients rid (otrng_client_private_key_v4_read_from C B) (Some (p, a, i)) ?g2 \<lparr>f_rest = [], f_eof = False\<rparr>"
    using pos by (subst read_clients.simps) (simp add: feof_def rid client_for_line_def read store_into_def[of _ _ ?gs1] del: append_Nil2)
  also have "\<dots> = Some (True, ?g2, \<lparr>f_rest = [], f_eof = True\<rparr>)"
    by (subst read_clients.simps, subst read_clients.simps) (simp add: feof_def eof)
  finally have "otrng_global_state_private_key_v4_read_from C B gs0 (Some \<lparr>f_rest = stored_record B c (kp_sym (cl_keypair c)) @
       stored_record B d (kp_sym (cl_keypair d)), f_eof = False\<rparr>) rid = Some (True, ?g2, Some \<lparr>f_rest = [], f_eof = True\<rparr>)"
    using s[of c "stored_record B d (kp_sym (cl_keypair d))"] s[of d "[]"]
    by (simp add: otrng_global_state_private_key_v4_read_from_def global_state_read_from_def)
  moreover have "?g2 = store_into (put_keypair (cl_keypair d) \<circ> put_keypair (cl_keypair c)) (cl_client_id c) gs0" by (rule store_into_same[OF k k])
  moreover have "keeps_names (put_keypair (cl_keypair d) \<circ> put_keypair (cl_keypair c))" by (simp add: keeps_names_def put_keypair_def)
  note new = store_into_new[OF this, of "cl_client_id c" gs0]
  ultimately show ?thesis using new assms(5) by (simp add: put_keypair_def[of _ "put_keypair _ _"]) (simp add: put_keypair_def)
qed

subsection \<open>A concrete application\<close>

text \<open>It reads a name up to the newline and cuts it at the colon.  Each string is at an address of its own, as far as
  the two clients go; or all are in one buffer.\<close>

definition ex_read_name :: "(string \<Rightarrow> nat) \<Rightarrow> file_s \<Rightarrow> client_id_ptrs \<times> file_s" where
  "ex_read_name address f = (
     let l = takeWhile (\<lambda>c. c \<noteq> newline) (f_rest f);
         protocol = takeWhile (\<lambda>c. c \<noteq> CHR '':'') l;
         account = drop (Suc (length protocol)) l
     in if f_rest f = [] then ((None, None), f\<lparr>f_eof := True\<rparr>)
        else ((Some (address protocol, protocol), Some (address account, account)), f\<lparr>f_rest := drop (Suc (length l)) (f_rest f)\<rparr>))"

definition ex_kept_message :: "(int, int, nat) prekey_message_s" where
  "ex_kept_message = \<lparr>pm_id = 1, pm_sender_instance_tag = 0x100, pm_Y = 2, pm_B = Some 8,
     pm_y = Some \<lparr>ecdh_priv = 2, ecdh_pub = 2\<rparr>, pm_b = Some \<lparr>dh_pub = Some 8, dh_priv = Some 3\<rparr>, pm_should_publish = 1, pm_is_publishing = False\<rparr>"

definition ex_kept_client :: "string \<Rightarrow> (int, int, nat) full_client_s" where
  "ex_kept_client account = ex_stored_client\<lparr>cl_client_id := \<lparr>id_protocol = ''xmpp'', id_account = account\<rparr>, cl_client_profile := Some (ex_profile None),
     cl_prekey_profile := Some ex_expired_prekey_profile, cl_our_prekeys := [ex_kept_message],
     cl_fingerprints := Some [\<lparr>kf_username = ''carol'', kf_fp = replicate 56 7, kf_trusted = True\<rparr>]\<rparr>"

definition ex_global_state :: "(int, int, nat) registry_s list \<Rightarrow> (int, int, nat) otrng_global_state_s" where
  "ex_global_state cs = \<lparr>gs_clients = cs, gs_user_state = None, gs_fingerprints_v3_loaded = False, gs_template = ex_stored_client\<rparr>"

definition ex_two_clients :: "(int, int, nat) registry_s list" where
  "ex_two_clients = [\<lparr>reg_client = ex_kept_client ''alice'', reg_conversations = []\<rparr>, \<lparr>reg_client = ex_kept_client ''bob'', reg_conversations = []\<rparr>]"

lemma ex_kept_message_wf: "wf_prekey_message ex_crypto ex_sem ex_kept_message"
proof -
  have "length (dh_bytes ex_crypto 8) = 5" "length (dh_bytes ex_crypto 3) = 5" by code_simp+
  then show ?thesis
    by (simp add: wf_prekey_message_def ex_kept_message_def dh_ok_def in_dh_range_def ex_sem_def fits_line_def prekey_message_record_def
        prekey_message_bytes_def length_serialize_group[OF ex_goldilocks_ok] goldilocks_scalar_codec(1)[OF ex_goldilocks_ok] const_defs)
qed

lemma ex_storable:
  "storable_keypair ex_crypto ex_file_env (ex_kept_client a)" "storable_profile ex_crypto ex_sem ex_file_env (profiles_of (ex_kept_client a))"
  "storable_prekey_profile ex_crypto ex_sem ex_file_env (cl_prekey_profile (ex_kept_client a))"
  "storable_prekey_messages ex_crypto ex_sem ex_file_env (cl_our_prekeys (ex_kept_client a))"
  using ex_expired_profiles ex_profile_wf(1) ex_kept_message_wf ex_ok(1,3) ex_file_base64_ok keypair_generate_again[OF ex_stored_keypair]
  by (simp_all add: storable_keypair_def storable_profile_def storable_prekey_profile_def storable_prekey_messages_def keypairs_of_def profiles_of_def
      prekey_profiles_of_def ex_kept_client_def)

lemma ex_reads_names: "reads_names (ex_read_name length) (client_name ` set ex_two_clients)"
proof -
  let ?ids = "client_name ` set ex_two_clients"
  have ids: "?ids = {\<lparr>id_protocol = ''xmpp'', id_account = ''alice''\<rparr>, \<lparr>id_protocol = ''xmpp'', id_account = ''bob''\<rparr>}"
    by (simp add: ex_two_clients_def client_name_def ex_kept_client_def)
  show ?thesis unfolding reads_names_def ids
    by (rule conjI, rule exI[of _ "length \<circ> id_protocol"], rule exI[of _ "length \<circ> id_account"])
       (simp_all add: ex_read_name_def newline_def Let_def)
qed

theorem global_state_roundtrip_witness:
  "let gs = ex_global_state ex_two_clients; gs0 = ex_global_state []; rid = ex_read_name length in
     loads_what_was_stored gs gs0 (otrng_global_state_private_key_v4_write_to ex_file_env gs)
       (\<lambda>f. otrng_global_state_private_key_v4_read_from ex_crypto ex_file_env gs0 f rid) keypairs_of put_keypair \<and>
     loads_what_was_stored gs gs0 (otrng_global_state_prekey_messages_write_to ex_crypto ex_file_env gs)
       (\<lambda>f. otrng_global_state_prekeys_read_from ex_crypto ex_zero ex_file_env gs0 f rid) cl_our_prekeys (put_prekey_message ex_crypto ex_zero)"
proof -
  let ?gs = "ex_global_state ex_two_clients"
  have "distinct (map client_name (gs_clients ?gs))" "reads_names (ex_read_name length) (client_name ` set (gs_clients ?gs))" "gs_clients (ex_global_state []) = []"
    using ex_reads_names by (simp_all add: ex_global_state_def) (simp add: ex_two_clients_def client_name_def ex_kept_client_def)
  moreover have "list_all (\<lambda>c. storable_keypair ex_crypto ex_file_env (reg_client c) \<and> storable_profile ex_crypto ex_sem ex_file_env (profiles_of (reg_client c)) \<and>
       storable_prekey_profile ex_crypto ex_sem ex_file_env (cl_prekey_profile (reg_client c)) \<and>
       storable_prekey_messages ex_crypto ex_sem ex_file_env (cl_our_prekeys (reg_client c))) (gs_clients ?gs)"
    by (simp add: ex_global_state_def ex_two_clients_def ex_storable)
  ultimately show ?thesis
    using global_state_roundtrip[OF ex_goldilocks_ok ex_gcrypt_ok ex_file_base64_ok, of ?gs "ex_read_name length" "ex_global_state []" ex_zero] by simp
qed

lemma ex_gets_on: "gets_on (ex_read_name length)"
  by (auto simp: gets_on_def ex_read_name_def remaining_def Let_def)

lemma ex_base64_fits: "base64_fits ex_file_env"
proof -
  have b: "length (b64_decode s) \<le> (length s + 3) div 4 * 3" for s
  proof (induction s rule: b64_decode.induct)
    case (1 w x y z rest)
    have "(length (w # x # y # z # rest) + 3) div 4 = (length rest + 3) div 4 + 1" using div_add_self2[of 4 "length rest + 3"] by (simp add: add.commute)
    then show ?case using 1 by (auto simp: Let_def simp del: length_Cons)
  qed simp_all
  have "length (b64_decode (filter is_base64_char s)) \<le> (length s + 3) div 4 * 3" for s
    by (rule order_trans[OF b]) (intro mult_right_mono div_le_mono, simp_all)
  then show ?thesis by (simp add: base64_fits_def ex_file_env_def OTRNG_BASE64_DECODE_LEN_def)
qed

theorem loading_terminates_witness:
  "otrng_global_state_private_key_v4_read_from ex_crypto ex_file_env (ex_global_state []) (Some \<lparr>f_rest = ''junk'', f_eof = False\<rparr>) (ex_read_name length) \<noteq> None \<and>
   otrng_global_state_private_key_v4_read_from ex_crypto ex_file_env (ex_global_state []) (Some \<lparr>f_rest = ''junk'', f_eof = False\<rparr>)
     (\<lambda>f. ((None, None), f)) = None"
  using loading_terminates[where B = ex_file_env and rid = "ex_read_name length" and f = "\<lparr>f_rest = ''junk'', f_eof = False\<rparr>" and gs = "ex_global_state []" and C = ex_crypto]
    loading_terminates[where B = ex_file_env and rid = "\<lambda>f. ((None, None), f)" and f = "\<lparr>f_rest = ''junk'', f_eof = False\<rparr>" and gs = "ex_global_state []" and C = ex_crypto]
    ex_gets_on ex_base64_fits by simp

theorem fingerprints_roundtrip_witness:
  "loads_what_was_stored (ex_global_state ex_two_clients) (ex_global_state [])
     (otrng_global_state_fingerprints_v4_write_to (ex_global_state ex_two_clients)) (otrng_global_state_fingerprints_v4_read_from (ex_global_state []))
     fingerprints_of put_fingerprint"
  using fingerprints_roundtrip[of "ex_global_state ex_two_clients" "ex_global_state []"]
  by (simp add: ex_global_state_def ex_two_clients_def client_name_def ex_kept_client_def fingerprints_of_def storable_fingerprint_def plain_def
      tab_def newline_def carriage_return_def nul_def FPRINT_LEN_BYTES_def)

definition ex_other_client :: "(int, int, nat) full_client_s" where
  "ex_other_client = (ex_kept_client ''bob'')\<lparr>cl_keypair := the (otrng_keypair_generate ex_crypto (replicate 57 9))\<rparr>"

lemma ex_other_client:
  "storable_keypair ex_crypto ex_file_env ex_other_client" "kp_sym (cl_keypair ex_other_client) = replicate 57 9"
proof -
  obtain q where q: "otrng_ec_point_decode ex_crypto (derive_public_key ex_crypto (replicate 57 9)) = Some q"
    using ecdh_keypair_total[OF ex_goldilocks_ok, of "replicate 57 9"] by metis
  then show "storable_keypair ex_crypto ex_file_env ex_other_client" "kp_sym (cl_keypair ex_other_client) = replicate 57 9"
    using ex_file_base64_ok
    by (simp_all add: storable_keypair_def keypairs_of_def ex_other_client_def ex_kept_client_def otrng_keypair_generate_def ED448_PRIVATE_BYTES_def)
qed

theorem static_buffer_misdirects_witness:
  "let c = ex_kept_client ''alice''; d = ex_other_client in kp_sym (cl_keypair c) \<noteq> kp_sym (cl_keypair d) \<and>
     otrng_global_state_private_key_v4_read_from ex_crypto ex_file_env (ex_global_state []) (Some \<lparr>f_rest = stored_record ex_file_env c (kp_sym (cl_keypair c)) @
         stored_record ex_file_env d (kp_sym (cl_keypair d)), f_eof = False\<rparr>) (ex_read_name (\<lambda>s. 1)) =
       Some (True, (ex_global_state [])\<lparr>gs_clients := [\<lparr>reg_client = (fresh_client (ex_global_state []) (cl_client_id c))\<lparr>cl_has_keypair := True, cl_keypair := cl_keypair d\<rparr>,
         reg_conversations = []\<rparr>]\<rparr>, Some \<lparr>f_rest = [], f_eof = True\<rparr>)"
  unfolding Let_def
proof
  have "kp_sym kp = take ED448_PRIVATE_BYTES ex_seed" if "otrng_keypair_generate ex_crypto ex_seed = Some kp" for kp
    using that by (auto simp: otrng_keypair_generate_def split: bind_splits)
  from this[OF ex_stored_keypair(1)] show "kp_sym (cl_keypair (ex_kept_client ''alice'')) \<noteq> kp_sym (cl_keypair ex_other_client)"
    unfolding ex_other_client(2) by (auto simp: ex_kept_client_def ex_seed_def ED448_PRIVATE_BYTES_def dest: arg_cong[of _ _ hd])
qed (rule static_buffer_misdirects[OF ex_storable(1) _ ex_other_client(1), where p = 1 and a = 1],
     auto simp: ex_kept_client_def ex_other_client_def ex_global_state_def ex_read_name_def otrng_client_get_storage_id_def newline_def Let_def)

end
