(* ===== verification/Key_Storage.thy ===== *)
theory Key_Storage
  imports Persistence
begin

text \<open>
  The functions of \<open>keys.c\<close> and \<open>deserialize.c\<close> that an application calls for itself: storing the secret of a key pair as text, reading
  one or a shared prekey from such a text, and deriving keys from the extra symmetric key of a conversation.
\<close>

definition otrng_symmetric_key_serialize :: "file_env \<Rightarrow> bytes \<Rightarrow> string option" where
  "otrng_symmetric_key_serialize B key = (
     let encoded = otrl_base64_encode B (take ED448_PRIVATE_BYTES key)
     in if (ED448_PRIVATE_BYTES + 2) div 3 * 4 < length encoded then None else Some encoded)"

definition otrng_symmetric_shared_prekey_deserialize ::
    "('p, 's, 'm, 'h) crypto_ops \<Rightarrow> file_env \<Rightarrow> string \<Rightarrow> ('p, 's) otrng_keypair_s outcome" where
  "otrng_symmetric_shared_prekey_deserialize C B buffer = do {
     dec \<leftarrow> into_buffer ((length buffer + 3) div 4 * 3) (otrl_base64_decode B buffer);
     if length dec = ED448_PRIVATE_BYTES then Some (otrng_shared_prekey_pair_generate C dec) else Some None }"

definition otrng_derive_key_from_extra_symm_key ::
    "('p, 's, 'm, 'h) crypto_ops \<Rightarrow> byte \<Rightarrow> bytes \<Rightarrow> bytes \<Rightarrow> bytes option" where
  "otrng_derive_key_from_extra_symm_key C usage use_data extra_symm_key = do {
     hd \<leftarrow> hash_init_with_usage C usage;
     hd \<leftarrow> hash_update C hd use_data;
     hd \<leftarrow> hash_update C hd (take EXTRA_SYMMETRIC_KEY_BYTES extra_symm_key);
     Some (hash_final C hd EXTRA_SYMMETRIC_KEY_BYTES) }"

text \<open>The text of a secret on a line of its own gives the key pair back, as a long-term key and as a shared prekey.\<close>

lemma symmetric_key_roundtrip:
  assumes "file_base64_ok B" "length key = ED448_PRIVATE_BYTES"
  shows "\<exists>buffer. otrng_symmetric_key_serialize B key = Some buffer \<and>
     otrng_symmetric_key_deserialize C B (buffer @ [newline]) = Some (otrng_keypair_generate C key) \<and>
     otrng_symmetric_shared_prekey_deserialize C B (buffer @ [newline]) = Some (otrng_shared_prekey_pair_generate C key)"
  using assms
  by (simp add: otrng_symmetric_key_serialize_def otrng_symmetric_key_deserialize_def otrng_symmetric_shared_prekey_deserialize_def
      file_base64_ok_def ED448_PRIVATE_BYTES_def)

text \<open>Whoever holds the extra symmetric key derives the same key for the same purpose, from the first 64 bytes of it.\<close>

lemma derived_key:
  assumes "sponge_ok C S"
  shows "otrng_derive_key_from_extra_symm_key C usage use_data extra_symm_key =
     Some (xof S (ascii ''OTRv4'' @ [usage] @ use_data @ take EXTRA_SYMMETRIC_KEY_BYTES extra_symm_key) EXTRA_SYMMETRIC_KEY_BYTES)"
  by (rule hash_init_with_usage_absorbed[OF assms, of usage])
    (simp add: otrng_derive_key_from_extra_symm_key_def sponge_simps[OF assms])

end
