(* ===== verification/Str.thy ===== *)
theory Str
  imports Otr_Prelude
begin

text \<open>
  \<open>str.c\<close>: copying and measuring C strings.  The memory behind a pointer is the list of the characters that may be accessed
  there; a string ends at the first zero.  \<open>None\<close> is an access outside of that memory.
\<close>

definition terminator :: char where "terminator = CHR 0x00"

definition text_of :: "string \<Rightarrow> string" where
  "text_of m = takeWhile (\<lambda>c. c \<noteq> terminator) m"

definition strlen :: "string \<Rightarrow> nat option" where
  "strlen m = (if terminator \<in> set m then Some (length (text_of m)) else None)"

definition copy_out :: "string \<Rightarrow> nat \<Rightarrow> string option" where
  "copy_out m n = (if length m < n then None else Some (take n m))"

definition copy_in :: "string \<Rightarrow> string \<Rightarrow> string option" where
  "copy_in s m = (if length m < length s then None else Some (s @ drop (length s) m))"

definition otrng_xstrndup :: "string \<Rightarrow> nat \<Rightarrow> string option" where
  "otrng_xstrndup s s_len = Option.bind (strlen s) (\<lambda>l.
     let s_len = (if l < s_len then l else s_len)
     in Option.bind (copy_out s (s_len + 1)) (\<lambda>ret. Some (ret[s_len := terminator])))"

definition otrng_xstrdup :: "string \<Rightarrow> string option" where
  "otrng_xstrdup s = Option.bind (strlen s) (\<lambda>l. otrng_xstrndup s l)"

definition otrng_xmemdup :: "string \<Rightarrow> nat \<Rightarrow> string option" where
  "otrng_xmemdup s len = copy_out s len"

text \<open>The destination afterwards and the offset of the pointer that is returned.\<close>

definition otrng_stpncpy :: "string \<Rightarrow> string \<Rightarrow> nat \<Rightarrow> (string \<times> nat) option" where
  "otrng_stpncpy dst src n = Option.bind (strlen src) (\<lambda>l.
     let w = (if l < n then l else n)
     in Option.bind (copy_in (take w src @ replicate (n - w) terminator) dst) (\<lambda>dst. Some (dst, w)))"

definition otrng_stpcpy :: "string \<Rightarrow> string \<Rightarrow> (string \<times> nat) option" where
  "otrng_stpcpy dst src = Option.bind (strlen src) (\<lambda>l. otrng_stpncpy dst src (l + 1))"

text \<open>The character is read before the position is compared with the maximum.\<close>

function strnlen_loop :: "string \<Rightarrow> nat \<Rightarrow> nat \<Rightarrow> nat option" where
  "strnlen_loop s maxlen l =
     (if length s \<le> l then None
      else if s ! l \<noteq> terminator \<and> l < maxlen then strnlen_loop s maxlen (l + 1)
      else Some l)"
  by pat_completeness auto
termination by (relation "measure (\<lambda>(s, maxlen, l). length s - l)") auto

declare strnlen_loop.simps [simp del]

definition otrng_strnlen :: "string \<Rightarrow> nat \<Rightarrow> nat option" where
  "otrng_strnlen s maxlen = strnlen_loop s maxlen 0"

subsection \<open>Properties\<close>

lemma strlen_string [simp]: "terminator \<notin> set t \<Longrightarrow> strlen (t @ terminator # r) = Some (length t)"
proof -
  assume "terminator \<notin> set t"
  then have "text_of (t @ terminator # r) = t" unfolding text_of_def by (induction t) auto
  then show ?thesis by (simp add: strlen_def)
qed

text \<open>A copy is the string itself, or as much of it as was asked for, with its end.\<close>

lemma xstrndup_string:
  "terminator \<notin> set t \<Longrightarrow> otrng_xstrndup (t @ terminator # r) n = Some (take n t @ [terminator])"
  by (auto simp: otrng_xstrndup_def copy_out_def Let_def list_update_append take_Suc_conv_app_nth nth_append list_update_same_conv)

lemma xstrdup_string: "terminator \<notin> set t \<Longrightarrow> otrng_xstrdup (t @ terminator # r) = Some (t @ [terminator])"
  by (simp add: otrng_xstrdup_def xstrndup_string)

text \<open>Copying appends at the place where the returned pointer goes on, and stays within a destination that is large enough.\<close>

lemma stpcpy_string:
  "terminator \<notin> set t \<Longrightarrow> length t < length dst \<Longrightarrow>
     otrng_stpcpy dst (t @ terminator # r) = Some (t @ terminator # drop (Suc (length t)) dst, length t)"
  by (simp add: otrng_stpcpy_def otrng_stpncpy_def copy_in_def Let_def)

lemma strnlen_loop_eq:
  "l \<le> maxlen \<Longrightarrow> l \<le> length (text_of s) \<Longrightarrow> strnlen_loop s maxlen l =
     (let n = length (text_of s) in if n \<le> maxlen then (if n < length s then Some n else None) else Some maxlen)"
proof (induction "length s - l" arbitrary: l)
  case 0
  have "length (text_of s) \<le> length s" by (simp add: text_of_def length_takeWhile_le)
  with 0 have "length (text_of s) = length s" "l = length s" by simp_all
  then show ?case using 0 by (subst strnlen_loop.simps) (simp add: Let_def)
next
  case (Suc k)
  have less: "s ! l \<noteq> terminator" if "l < length (text_of s)" using that unfolding text_of_def
    by (metis (mono_tags, lifting) nth_mem set_takeWhileD takeWhile_nth)
  have at_end: "s ! l = terminator" if "l = length (text_of s)" "l < length s"
    using that nth_length_takeWhile[of "\<lambda>c. c \<noteq> terminator" s] by (simp add: text_of_def)
  have l: "l < length s" "k = length s - Suc l" using Suc.hyps(2) by simp_all
  show ?case
  proof (cases "l < length (text_of s) \<and> l < maxlen")
    case True
    with Suc.hyps(1)[OF l(2)] l(1) less show ?thesis by (subst strnlen_loop.simps) (simp add: Let_def)
  next
    case False
    with Suc.prems l(1) at_end less show ?thesis by (subst strnlen_loop.simps) (auto simp: Let_def)
  qed
qed

text \<open>Measuring an unterminated array of exactly the allowed length reads one character past its end; wherever the string
  ends within the limit, or the array is longer than it, the result is the length or the limit.\<close>

theorem strnlen_reads_past_end:
  "otrng_strnlen s maxlen = (if terminator \<notin> set s \<and> length s \<le> maxlen then None
     else Some (if length (text_of s) \<le> maxlen then length (text_of s) else maxlen))"
proof (cases "terminator \<in> set s")
  case True
  then have "length (text_of s) < length s" unfolding text_of_def by (induction s) auto
  with True show ?thesis using strnlen_loop_eq[of 0 maxlen s] by (simp add: otrng_strnlen_def Let_def)
next
  case False
  then have "text_of s = s" unfolding text_of_def by (induction s) auto
  with False show ?thesis using strnlen_loop_eq[of 0 maxlen s] by (auto simp: otrng_strnlen_def Let_def)
qed

end
