(* ===== verification/Spec2Isabelle.thy ===== *)
theory Spec2Isabelle
  imports Crypto_Instance Tlv Linked_List Ring_Sig Fingerprint Smp_Run Fragment Ratchet Handshake_Run Brace_Key Prekey_Run Orchestration Client
    Messaging Key_Storage Str
begin

text \<open>
  libotr-ng, the library for version 4 of the off-the-record messaging protocol (\<open>src/src\<close>).

  \<^bold>\<open>The program.\<close>  An application holds one client (\<open>client.c\<close>) for each account.  A client has long-term keys, a
  client profile, a prekey profile, prekey messages and a list of conversations.  A conversation (\<open>otrng.c\<close>) is a
  state machine: it starts in plain text, runs one of two deniable key exchanges (\<open>dake.c\<close>, with the ring signature of
  \<open>auth.c\<close> and the profiles of \<open>client_profile.c\<close>), and then exchanges data messages (\<open>data_message.c\<close>) under the keys of
  a double ratchet (\<open>key_management.c\<close>).  Data messages carry type-length-value records (\<open>tlv.c\<close>), among them those of
  the socialist millionaires protocol (\<open>smp.c\<close>, \<open>smp_protocol.c\<close>).  Long messages are cut into pieces (\<open>fragment.c\<close>).
  A client publishes its profiles and prekey messages on a prekey server (\<open>prekey_*.c\<close>), so that somebody can write to
  it while it is offline.  Conversations of version 3 are handed to libotr (\<open>v3.c\<close>).  The clients of an application form
  its global state (\<open>messaging.c\<close>), which is stored in files and loaded from them (\<open>persistence.c\<close>).

  \<^bold>\<open>How it is modelled.\<close>  Structures are records and enumerations are datatypes with the fields and values of the
  source.  A function that changes a structure takes and returns the record.  A function that reports success or an error
  returns a boolean (\<open>True\<close> for \<open>OTRNG_SUCCESS\<close>) beside the state it leaves, in the failure case too.  Where the C
  code would read through a \<open>NULL\<close> or freed pointer or outside of a buffer, the model has the value \<open>None\<close>, called a
  fault; that a call is free of faults is then a statement that can be proved.  Buffers are lists of bytes.  Integers are
  kept at their width as words wherever they are read from the network, can wrap or are compared in a width that
  matters.  Random values are arguments, or are taken from a stream of random bytes, in the order in which the code
  draws them.  Memory allocation does not fail, as \<open>otrng_xmalloc_z\<close> ends the process when it does.

  \<^bold>\<open>Parameters.\<close>  Code outside the repository is never defined here.  \<open>crypto_ops\<close> (\<open>Crypto_Env\<close>) holds the
  functions of libgoldilocks, libgcrypt, libsodium and the transport encoding of libotr; \<open>proof_ops\<close> those that only
  the proofs for a prekey server use; \<open>libotr\<close> (\<open>V3\<close>) the calls into libotr; \<open>prekey_env\<close> and the callback records the
  functions an application registers.  What the theorems need of them is stated as named hypotheses over an
  interpretation \<open>crypto_sem\<close> of points, scalars and numbers: \<open>goldilocks_ok\<close> says that the points form a commutative group on
  which the scalars act and that encodings can be read back, \<open>gcrypt_ok\<close> the same of the big integers, \<open>sponge_ok\<close> that
  hashing does not fail and has the length asked for, \<open>stream_ok\<close> that the cipher is its own inverse, \<open>eddsa_ok\<close> that a
  signature verifies, \<open>encoding_ok\<close>, \<open>base64_ok\<close> and \<open>file_base64_ok\<close> that texts are decoded to what was encoded, and \<open>application_ok\<close>
  that the callbacks keep their promises.  None of them is a statement on secrecy: the theorems are about what the
  code computes.  \<open>Crypto_Instance\<close> is one concrete environment that satisfies all these laws together; every witness is
  evaluated in it.

  \<^bold>\<open>The theories.\<close>
  \<^item> \<open>Otr_Prelude\<close>: machine types, the theorem collections, facts on lists and words, and the locale of
    invariants of a step relation.  \<open>Crypto_Env\<close>: the environment, \<open>shake.c\<close>, \<open>ed448.c\<close>, \<open>dh.c\<close>.  \<open>Crypto_Instance\<close>.
  \<^item> \<open>Wire\<close>: \<open>serialize.c\<close>, \<open>deserialize.c\<close>, \<open>mpi.c\<close>.  The locales of self-delimiting codecs are interpreted for each format;
    the round trips of all message formats rest on them.
  \<^item> \<open>Linked_List\<close>: \<open>list.c\<close> on an explicit heap of nodes; the serialization of the old MAC keys refines the reversal
    of a list and frees each node once.
  \<^item> \<open>Tlv\<close>: \<open>tlv.c\<close>, \<open>padding.c\<close>.  \<open>Fragment\<close>: \<open>fragment.c\<close>, \<open>prekey_fragment.c\<close>: pieces in any order give the message,
    no input causes an access out of bounds, every piece fits the limit.
  \<^item> \<open>Ring_Sig\<close>: \<open>auth.c\<close>.  \<open>Fingerprint\<close>: \<open>fingerprint.c\<close>.
  \<^item> \<open>Smp_Protocol\<close>, \<open>Smp\<close>: \<open>smp_protocol.c\<close> and the state machine of \<open>smp.c\<close>.  \<open>Smp_Correct\<close> has the algebra of the proofs of
    knowledge, \<open>Smp_Run\<close> that an honest run decides equality and that all reachable states are free of faults.
  \<^item> \<open>Key_Management\<close>: \<open>key_management.c\<close>.  \<open>Ratchet\<close>: both sides derive equal keys in the key exchange, along a chain,
    in a new ratchet and for late messages.  \<open>Turns\<close>: the relation that holds between two sides in any such dialogue.
  \<^item> \<open>Client_Profile\<close> (with \<open>keys.c\<close>, \<open>instance_tag.c\<close>), \<open>Dake\<close>, \<open>Data_Message\<close>, \<open>Prekey\<close> (\<open>prekey_profile.c\<close>,
    \<open>prekey_message.c\<close>, \<open>prekey_ensemble.c\<close>): formats, signatures and validity of what is sent.
  \<^item> \<open>V3\<close>: \<open>v3.c\<close>.  \<open>Protocol\<close>: \<open>protocol.c\<close>, \<open>protocol.h\<close>.  \<open>Otr_Messages\<close>, \<open>Handshake\<close>, \<open>Conversation\<close>: \<open>otrng.c\<close> in the order of
    the code, up to \<open>otrng_receive_message\<close> and \<open>otrng_send_message\<close>.
  \<^item> \<open>Session\<close>: two conversations connected by a wire; texts sent in turn are shown by the other side.  \<open>Handshake_Run\<close>: the
    interactive key exchange from query message to the first data message, through the handlers of both sides.
    \<open>Brace_Key\<close>: all changes a conversation makes to its key manager, as a step relation, and what every ratchet mixes in.
  \<^item> \<open>Prekey_Proofs\<close>, \<open>Prekey_Messages\<close>, \<open>Prekey_Manager\<close>: \<open>prekey_proofs.c\<close>, \<open>prekey_client_*.c\<close>, \<open>prekey_manager.c\<close>.
    \<open>Prekey_Run\<close>: whole dialogues with a server that follows the protocol.
  \<^item> \<open>Client_State\<close>, \<open>Orchestration\<close>, \<open>Client\<close>: \<open>client.c\<close>, \<open>client_orchestration.c\<close>, \<open>client_callbacks.c\<close> and the calls a user
    makes in \<open>smp.c\<close>: the things a client owns, how they are created, renewed and published, and the registry of
    conversations, which refines a map from recipients to connections.
  \<^item> \<open>Persistence\<close>: \<open>persistence.c\<close>, \<open>base64.c\<close>, over files as texts.  The locale \<open>stored_item\<close> is the contract of a kind of item that is
    written and read for one client; it is interpreted for private keys, forging keys, profiles and prekey messages.
    \<open>Messaging\<close>: \<open>messaging.c\<close>; in that locale storing and loading all clients is proved once for every kind.
    \<open>Key_Storage\<close>: what \<open>keys.c\<close> offers to the application.
  \<^item> \<open>Str\<close>: \<open>str.c\<close>, on the memory behind a pointer.

  \<^bold>\<open>What the properties show.\<close>  First that the protocol does its work: an undisturbed key exchange completes and
  leaves both sides with the same secrets (\<open>handshake_completes\<close>, \<open>key_exchange_agrees\<close>), after which every text sent in
  turn is delivered (\<open>dialogue_delivers\<close>), late messages included on the level of keys (\<open>late_message_keys\<close>);
  comparing secrets decides equality (\<open>smp_run_decides\<close>); publishing and asking for the storage status succeed
  (\<open>publish_dialogue\<close>, \<open>storage_status_dialogue\<close>); what is stored is loaded again (\<open>global_state_roundtrip\<close>,
  \<open>fingerprints_roundtrip\<close>, \<open>identity_export_import\<close>).  Then the invariants of the components for every
  reachable state, the round trips of the formats, and the bounds.  Last, the places where the code does not do
  what it means to; each is a theorem about the model on a class of inputs and is listed among the findings.

  \<^bold>\<open>Bounds and termination.\<close>  Loops over a buffer or a list recurse on it; a loop over a counter recurses with a
  measure.  No fuel is used: these loops end because a cursor advances or a counter falls, and that is the termination
  proof of the function concerned.  A loop that need not end, because it follows the pointers of a heap or asks the
  application for the next line of a file, is a partial function into an option; that it returns is then
  proved, for the lists that a heap holds in \<open>Linked_List\<close> and for every file in \<open>loading_terminates\<close>, which also has the
  case in which it does not.

  \<^bold>\<open>Not modelled.\<close>  Destructors and the wiping of memory, unless freeing decides what a later call reads (as in
  \<open>Linked_List\<close> and \<open>Client\<close>).  Debug printers (\<open>debug.c\<close> and those of the components).  The start-up of the libraries and
  their global group parameters.  DSA keys as S-expressions of libgcrypt, which covers writing the private keys of
  version 3, and the iteration over fingerprints that libotr keeps.  Reading and creating instance tags, which libotr
  does.  The wrappers of \<open>alloc.c\<close> and \<open>random.c\<close>.  Timing and side channels.
\<close>

end
